(* ===== verification/Prelude.thy ===== *)
theory Prelude
  imports Main "HOL-Library.Word"
begin

unbundle bit_operations_syntax

text \<open>
  Shared vocabulary of the development: the machine integer types of the C sources
  (\<open>uint8_t\<close>, \<open>uint16_t\<close>, \<open>uint32_t\<close>), the byte/word composition used by every part that
  builds an address from two bytes, the lemma collections the component theories fill, and
  the few generic facts on words, lists and iteration that several components share.
\<close>

section \<open>Machine integers\<close>

type_synonym u8 = "8 word"
type_synonym u16 = "16 word"
type_synonym u32 = "32 word"

named_theorems mem_simps \<open>equations of the memory component\<close>
named_theorems cpu_frame \<open>what an operation of the CPU leaves unchanged\<close>
named_theorems via_simps \<open>equations of the VIA component\<close>

text \<open>\<open>(uint16_t)((hi << 8) | lo)\<close>, \<open>(uint8_t)(w >> 8)\<close> and \<open>(uint8_t)w\<close>.\<close>

definition hilo :: "u8 \<Rightarrow> u8 \<Rightarrow> u16" where
  "hilo hi lo = push_bit 8 (ucast hi) OR ucast lo"

definition hi8 :: "u16 \<Rightarrow> u8" where
  "hi8 w = ucast (drop_bit 8 w)"

definition lo8 :: "u16 \<Rightarrow> u8" where
  "lo8 w = ucast w"

lemma hi8_hilo [simp]: "hi8 (hilo h l) = h"
  by (rule bit_word_eqI)
    (auto simp: hi8_def hilo_def bit_simps dest: bit_imp_le_length)

lemma lo8_hilo [simp]: "lo8 (hilo h l) = l"
  by (rule bit_word_eqI)
    (auto simp: lo8_def hilo_def bit_simps)

lemma hilo_hi8_lo8 [simp]: "hilo (hi8 w) (lo8 w) = w"
  by (rule bit_word_eqI)
    (auto simp: hilo_def hi8_def lo8_def bit_simps)

lemma hilo_inject [simp]: "hilo h l = hilo h' l' \<longleftrightarrow> h = h' \<and> l = l'"
  by (metis hi8_hilo lo8_hilo)

section \<open>Finite case analysis on bytes\<close>

text \<open>
  A statement about every byte is the conjunction of its 256 instances. The list is kept in
  binary numerals so that the simplifier can evaluate each instance.
\<close>

definition all_bytes :: "u8 list" where
  "all_bytes = map word_of_nat [0..<256]"

lemma set_all_bytes: "set all_bytes = UNIV"
proof -
  have "x \<in> word_of_nat ` {0..<256}" for x :: u8
  proof
    show "x = word_of_nat (unat x)" by simp
    show "unat x \<in> {0..<256}" using unsigned_less [of x] by simp
  qed
  then show ?thesis by (auto simp: all_bytes_def)
qed

lemma unat_u8_less [simp]: "unat (x :: u8) < 256"
  using unsigned_less [of x] by simp

lemma byte_allI: "list_all P all_bytes \<Longrightarrow> P (x :: u8)"
  by (simp add: list_all_iff set_all_bytes)

text \<open>
  Equality of byte literals, decided on the binary numerals: with \<open>simp only\<close> and these
  equations a chain of comparisons of an opcode costs one rewriting step per comparison.
\<close>

lemma u8_of_nat_inject:
  assumes "a < 256" "b < 256"
  shows "(of_nat a :: u8) = of_nat b \<longleftrightarrow> a = b"
proof
  assume "(of_nat a :: u8) = of_nat b"
  then have "unat (of_nat a :: u8) = unat (of_nat b :: u8)" by simp
  with assms show "a = b" by (simp add: unat_of_nat)
qed simp

lemma u8_numeral_eq:
  assumes "(numeral m :: nat) < 256" "(numeral n :: nat) < 256"
  shows "(numeral m :: u8) = numeral n \<longleftrightarrow> m = n"
  using u8_of_nat_inject [OF assms] by simp

lemma u8_one_zero_eq:
  assumes "(numeral n :: nat) < 256"
  shows "(1 :: u8) = numeral n \<longleftrightarrow> num.One = n" "(numeral n :: u8) = 1 \<longleftrightarrow> num.One = n"
    "(0 :: u8) = numeral n \<longleftrightarrow> False" "(numeral n :: u8) = 0 \<longleftrightarrow> False"
proof -
  show "(1 :: u8) = numeral n \<longleftrightarrow> num.One = n"
    using u8_numeral_eq [of num.One n] assms by (simp only: numeral_One)
  then show "(numeral n :: u8) = 1 \<longleftrightarrow> num.One = n" by metis
  show "(0 :: u8) = numeral n \<longleftrightarrow> False"
    using u8_of_nat_inject [OF _ assms, of 0] by (simp only: of_nat_numeral of_nat_0) auto
  then show "(numeral n :: u8) = 0 \<longleftrightarrow> False" by metis
qed

lemma unat_u8_literal:
  assumes "(numeral m :: nat) < 256"
  shows "unat (numeral m :: u8) = numeral m"
proof -
  have "unat (of_nat n :: u8) = n" if "n < 256" for n
    using that by (simp add: unat_of_nat)
  from this [OF assms] show ?thesis by (simp only: of_nat_numeral)
qed

text \<open>Looking an entry up in a long list of literals, by the same method.\<close>

lemma nth_literal: "(x # xs) ! numeral v = xs ! pred_numeral v"
  by (simp add: numeral_eq_Suc)

lemmas table_lookup =
  nth_literal nth_Cons_0 pred_numeral_simps BitM.simps unat_u8_literal unsigned_0 unsigned_1
  less_num_simps le_num_simps numeral_less_iff fst_conv snd_conv

lemmas u8_literal_eq =
  u8_numeral_eq u8_one_zero_eq zero_neq_one one_neq_zero refl
  eq_num_simps numeral_less_iff less_num_simps le_num_simps

section \<open>Iteration\<close>

lemma funpow_invariant:
  assumes "I s" and "\<And>t. I t \<Longrightarrow> I (f t)"
  shows "I ((f ^^ n) s)"
  using assms by (induction n) auto

lemma funpow_unfold_left: "(f ^^ Suc n) s = (f ^^ n) (f s)"
  by (simp add: funpow_swap1)

section \<open>Single bits\<close>

lemma and_exp_bit: "(w :: 'a :: len word) AND 2 ^ k = (if bit w k then 2 ^ k else 0)"
  by (rule bit_word_eqI) (auto simp: bit_simps)

lemma and_less: "b < m \<Longrightarrow> a AND b < (m :: 'a :: len word)"
  using word_and_le1 [of a b] by (simp add: and.commute order.strict_trans1)

lemma or_and_absorb: "((x OR a) AND a :: 'a :: len word) = a"
  by (rule bit_word_eqI) (auto simp: bit_simps)

lemma not_and_absorb: "((x AND NOT a) AND a :: 'a :: len word) = 0"
  by (rule bit_word_eqI) (auto simp: bit_simps)

end
