(* ===== verification/Memory.thy ===== *)
theory Memory
  imports Prelude
begin

unbundle bit_operations_syntax

text \<open>
  The 64 KB address space (\<open>include/memory/memory.h\<close>, \<open>src/memory/memory.c\<close>,
  \<open>src/memory/banking.c\<close>): RAM below \<open>$C000\<close>, the I/O page \<open>$0300-$03FF\<close>, and the banked
  area \<open>$C000-$FFFF\<close> shared by the BASIC ROM, the Microdisc overlay, the Jasmin boot ROM and
  the RAM behind them.  The C arrays are functions on addresses; \<open>memory_t\<close> is the record of
  the same name without its function pointers, which are the \<open>hooks\<close> below.
\<close>

section \<open>State\<close>

datatype mem_access_type_t = MEM_READ | MEM_WRITE | MEM_EXEC

datatype memory_bank_t = BANK_ROM | BANK_RAM

abbreviation RAM_SIZE :: nat where "RAM_SIZE \<equiv> 49152"
abbreviation ROM_SIZE :: nat where "ROM_SIZE \<equiv> 16384"

record memory_t =
  ram :: "u16 \<Rightarrow> u8"
  rom :: "u16 \<Rightarrow> u8"
  charset :: "u16 \<Rightarrow> u8"
  upper_ram :: "u16 \<Rightarrow> u8"
  charset_bank :: memory_bank_t
  rom_enabled :: bool
  overlay_rom :: "(u16 \<Rightarrow> u8) option"
  overlay_rom_size :: u32
  overlay_active :: bool
  basic_rom_disabled :: bool
  jasmin_active :: bool
  jasmin_rom :: "(u16 \<Rightarrow> u8) option"
  jasmin_olay :: bool
  jasmin_romdis :: bool
  trace_enabled :: bool
  trace_callback :: bool
  trace_callback2 :: bool
  trace_log :: "(u16 \<times> u8 \<times> mem_access_type_t) list"
  trace_log2 :: "(u16 \<times> u8 \<times> mem_access_type_t) list"
  stuck0 :: u8
  stuck1 :: u8
  last_bus_value :: u8

text \<open>
  \<open>trace_callback\<close> and \<open>trace_callback2\<close> say whether the pointer is set; the calls made to
  them are the logs (newest first).  A null \<open>overlay_rom\<close> or \<open>jasmin_rom\<close> is \<open>None\<close>.

  What a bus access can reach beside the memory: the interrupt inputs of the CPU
  (\<open>irq\<close>, \<open>irq_pulse\<close>, \<open>nmi_pending\<close> of \<open>cpu6502_t\<close>, which the peripherals set through
  \<open>cpu_irq_set\<close> and its kin from inside a callback) and the peripherals themselves, of an
  arbitrary type.  Together they are the board the callbacks run on.
\<close>

record 'd board =
  mem :: memory_t
  irq :: u8
  irq_pulse :: u8
  nmi_pending :: bool
  dev :: 'd

text \<open>
  The function pointers of \<open>memory_t\<close> and \<open>cpu6502_t\<close> (\<open>None\<close> for a null one) and the
  LOCI co-simulation backend that \<open>memory.c\<close> calls through \<open>io/loci_emu.h\<close>.  They are
  parameters of every operation that goes through the bus.
\<close>

record 'd hooks =
  io_read :: "(u16 \<Rightarrow> 'd board \<Rightarrow> u8 \<times> 'd board) option"
  io_write :: "(u16 \<Rightarrow> u8 \<Rightarrow> 'd board \<Rightarrow> 'd board) option"
  io_peek :: "(u16 \<Rightarrow> 'd board \<Rightarrow> u8 \<times> 'd board) option"
  on_cycle :: "(nat \<Rightarrow> 'd board \<Rightarrow> 'd board) option"
  loci_emu_active :: "'d board \<Rightarrow> bool"
  loci_emu_rom_read :: "u16 \<Rightarrow> 'd board \<Rightarrow> u8 option \<times> 'd board"
  loci_emu_romdis :: "'d board \<Rightarrow> bool"
  loci_emu_rom_write :: "u16 \<Rightarrow> u8 \<Rightarrow> 'd board \<Rightarrow> bool \<times> 'd board"

section \<open>Initialisation\<close>

definition memset_at :: "(u16 \<Rightarrow> u8) \<Rightarrow> nat \<Rightarrow> u8 \<Rightarrow> nat \<Rightarrow> u16 \<Rightarrow> u8" where
  "memset_at arr off v n = (\<lambda>a. if off \<le> unat a \<and> unat a < off + n then v else arr a)"

text \<open>The page loop of \<open>memory_init\<close>: the low half of each page is already 0.\<close>

function init_pattern_loop :: "nat \<Rightarrow> nat \<Rightarrow> (u16 \<Rightarrow> u8) \<Rightarrow> u16 \<Rightarrow> u8" where
  "init_pattern_loop sz i arr =
     (if i < sz then
        let end0 = i + 256;
            end1 = (if end0 > sz then sz else end0);
            half = i + 128;
            arr' = (if half < end1 then memset_at arr half 0xFF (end1 - half) else arr)
        in init_pattern_loop sz (i + 256) arr'
      else arr)"
  by pat_completeness auto
termination
  by (relation "measure (\<lambda>(sz, i, arr). sz - i)") auto

declare init_pattern_loop.simps [simp del]

definition zero_memory :: memory_t where
  "zero_memory = \<lparr>ram = (\<lambda>_. 0), rom = (\<lambda>_. 0), charset = (\<lambda>_. 0), upper_ram = (\<lambda>_. 0),
     charset_bank = BANK_ROM, rom_enabled = False, overlay_rom = None, overlay_rom_size = 0,
     overlay_active = False, basic_rom_disabled = False, jasmin_active = False,
     jasmin_rom = None, jasmin_olay = False, jasmin_romdis = False, trace_enabled = False,
     trace_callback = False, trace_callback2 = False, trace_log = [], trace_log2 = [],
     stuck0 = 0, stuck1 = 0, last_bus_value = 0\<rparr>"

definition memory_init :: memory_t where
  "memory_init =
     zero_memory\<lparr>ram := init_pattern_loop RAM_SIZE 0 (ram zero_memory),
       upper_ram := init_pattern_loop ROM_SIZE 0 (upper_ram zero_memory),
       rom_enabled := True, charset_bank := BANK_ROM\<rparr>"

text \<open>The page loop of \<open>memory_clear_ram\<close> writes both halves.\<close>

function clear_pattern_loop :: "nat \<Rightarrow> nat \<Rightarrow> (u16 \<Rightarrow> u8) \<Rightarrow> u16 \<Rightarrow> u8" where
  "clear_pattern_loop sz i arr =
     (if i < sz then
        let end0 = i + 256;
            end1 = (if end0 > sz then sz else end0);
            half0 = i + 128;
            half = (if half0 > end1 then end1 else half0);
            arr1 = memset_at arr i 0x00 (half - i);
            arr2 = (if half < end1 then memset_at arr1 half 0xFF (end1 - half) else arr1)
        in clear_pattern_loop sz (i + 256) arr2
      else arr)"
  by pat_completeness auto
termination
  by (relation "measure (\<lambda>(sz, i, arr). sz - i)") auto

declare clear_pattern_loop.simps [simp del]

definition memory_clear_ram :: "u8 \<Rightarrow> memory_t \<Rightarrow> memory_t" where
  "memory_clear_ram pattern m =
     (if pattern = 0 then
        m\<lparr>ram := clear_pattern_loop RAM_SIZE 0 (ram m),
          upper_ram := clear_pattern_loop ROM_SIZE 0 (upper_ram m)\<rparr>
      else
        m\<lparr>ram := memset_at (ram m) 0 pattern RAM_SIZE,
          upper_ram := memset_at (upper_ram m) 0 pattern ROM_SIZE\<rparr>)"

text \<open>
  \<open>memory_load_rom\<close>: the file is the list of its bytes (\<open>None\<close> when \<open>fopen\<close> fails).  A file
  that would run past the 16 KB array is refused.
\<close>

definition memory_load_rom :: "u8 list option \<Rightarrow> u16 \<Rightarrow> memory_t \<Rightarrow> bool \<times> memory_t" where
  "memory_load_rom file offset m =
     (case file of
        None \<Rightarrow> (False, m)
      | Some bytes \<Rightarrow>
          if unat offset + length bytes > ROM_SIZE then (False, m)
          else (True, m\<lparr>rom := (\<lambda>a. if unat offset \<le> unat a \<and> unat a < unat offset + length bytes
                                    then bytes ! (unat a - unat offset) else rom m a)\<rparr>))"

section \<open>Reads\<close>

definition mem_notify :: "u16 \<Rightarrow> u8 \<Rightarrow> mem_access_type_t \<Rightarrow> memory_t \<Rightarrow> memory_t" where
  "mem_notify addr v ty m =
     (let m1 = (if ty = MEM_READ then m\<lparr>last_bus_value := v\<rparr> else m);
          m2 = (if trace_enabled m1 \<and> trace_callback m1
                then m1\<lparr>trace_log := (addr, v, ty) # trace_log m1\<rparr> else m1)
      in if trace_callback2 m2 then m2\<lparr>trace_log2 := (addr, v, ty) # trace_log2 m2\<rparr> else m2)"

definition notify :: "u16 \<Rightarrow> u8 \<Rightarrow> mem_access_type_t \<Rightarrow> 'd board \<Rightarrow> 'd board" where
  "notify addr v ty b = b\<lparr>mem := mem_notify addr v ty (mem b)\<rparr>"

abbreviation in_io :: "u16 \<Rightarrow> bool" where
  "in_io a \<equiv> 0x0300 \<le> a \<and> a \<le> 0x03FF"

text \<open>Main RAM with the stuck-bit fault injection.\<close>

definition ram_value :: "memory_t \<Rightarrow> u16 \<Rightarrow> u8" where
  "ram_value m a =
     (let v = ram m a in
      if stuck0 m OR stuck1 m \<noteq> 0 then (v AND NOT (stuck0 m)) OR stuck1 m else v)"

definition jasmin_value :: "memory_t \<Rightarrow> u16 \<Rightarrow> u8" where
  "jasmin_value m a =
     (if jasmin_olay m then upper_ram m (a - 0xC000)
      else if jasmin_romdis m then
        (case jasmin_rom m of
           Some jr \<Rightarrow> if a \<ge> 0xF800 then jr (a - 0xF800) else upper_ram m (a - 0xC000)
         | None \<Rightarrow> upper_ram m (a - 0xC000))
      else rom m (a - 0xC000))"

definition microdisc_value :: "memory_t \<Rightarrow> u16 \<Rightarrow> u8" where
  "microdisc_value m a =
     (if basic_rom_disabled m then
        (case overlay_rom m of
           Some ov \<Rightarrow>
             if overlay_active m \<and> a \<ge> 0xE000 then
               (let rom_offset = a - 0xE000 in
                if ucast rom_offset < overlay_rom_size m then ov rom_offset
                else upper_ram m (a - 0xC000))
             else upper_ram m (a - 0xC000)
         | None \<Rightarrow> upper_ram m (a - 0xC000))
      else rom m (a - 0xC000))"

text \<open>The byte at \<open>$C000-$FFFF\<close> once the co-simulation backend has declined.\<close>

definition rom_area_value :: "memory_t \<Rightarrow> u16 \<Rightarrow> u8" where
  "rom_area_value m a = (if jasmin_active m then jasmin_value m a else microdisc_value m a)"

definition memory_read :: "'d hooks \<Rightarrow> u16 \<Rightarrow> 'd board \<Rightarrow> u8 \<times> 'd board" where
  "memory_read hk a b =
     (case (if in_io a then io_read hk else None) of
        Some f \<Rightarrow> (let (v, b1) = f a b in (v, notify a v MEM_READ b1))
      | None \<Rightarrow>
          if a < 0xC000 then
            (let v = ram_value (mem b) a in (v, notify a v MEM_READ b))
          else if loci_emu_active hk b then
            (case loci_emu_rom_read hk a b of
               (Some served, b1) \<Rightarrow> (served, notify a served MEM_READ b1)
             | (None, b1) \<Rightarrow>
                 if loci_emu_romdis hk b1 then
                   (let v = upper_ram (mem b1) (a - 0xC000) in (v, notify a v MEM_READ b1))
                 else
                   (let v = rom_area_value (mem b1) a in (v, notify a v MEM_READ b1)))
          else (let v = rom_area_value (mem b) a in (v, notify a v MEM_READ b)))"

text \<open>The observer's read: no notification, and the I/O page through \<open>io_peek\<close>.\<close>

definition memory_peek :: "'d hooks \<Rightarrow> u16 \<Rightarrow> 'd board \<Rightarrow> u8 \<times> 'd board" where
  "memory_peek hk a b =
     (if in_io a then
        (case io_peek hk of
           Some f \<Rightarrow> f a b
         | None \<Rightarrow> (case io_read hk of Some f \<Rightarrow> f a b | None \<Rightarrow> (0xFF, b)))
      else if a < 0xC000 then (ram_value (mem b) a, b)
      else if loci_emu_active hk b then
        (case loci_emu_rom_read hk a b of
           (Some served, b1) \<Rightarrow> (served, b1)
         | (None, b1) \<Rightarrow>
             if loci_emu_romdis hk b1 then (upper_ram (mem b1) (a - 0xC000), b1)
             else (rom_area_value (mem b1) a, b1))
      else (rom_area_value (mem b) a, b))"

section \<open>Writes\<close>

definition upd_ram :: "u16 \<Rightarrow> u8 \<Rightarrow> 'd board \<Rightarrow> 'd board" where
  "upd_ram a v b = b\<lparr>mem := (mem b)\<lparr>ram := (ram (mem b))(a := v)\<rparr>\<rparr>"

definition upd_upper_ram :: "u16 \<Rightarrow> u8 \<Rightarrow> 'd board \<Rightarrow> 'd board" where
  "upd_upper_ram a v b =
     b\<lparr>mem := (mem b)\<lparr>upper_ram := (upper_ram (mem b))(a - 0xC000 := v)\<rparr>\<rparr>"

definition upd_rom :: "u16 \<Rightarrow> u8 \<Rightarrow> 'd board \<Rightarrow> 'd board" where
  "upd_rom a v b = b\<lparr>mem := (mem b)\<lparr>rom := (rom (mem b))(a - 0xC000 := v)\<rparr>\<rparr>"

text \<open>The banked area with no co-simulation: writes under a mapped ROM are ignored.\<close>

definition rom_area_write :: "u16 \<Rightarrow> u8 \<Rightarrow> 'd board \<Rightarrow> 'd board" where
  "rom_area_write a v b =
     (let m = mem b in
      if jasmin_active m then
        (if jasmin_olay m then upd_upper_ram a v b
         else if jasmin_romdis m then (if a < 0xF800 then upd_upper_ram a v b else b)
         else b)
      else if basic_rom_disabled m then
        (if overlay_active m \<and> a \<ge> 0xE000 then b else upd_upper_ram a v b)
      else if \<not> rom_enabled m then upd_rom a v b
      else b)"

definition memory_write :: "'d hooks \<Rightarrow> u16 \<Rightarrow> u8 \<Rightarrow> 'd board \<Rightarrow> 'd board" where
  "memory_write hk a v b0 =
     (let b = notify a v MEM_WRITE b0 in
      if in_io a then (case io_write hk of Some f \<Rightarrow> f a v b | None \<Rightarrow> b)
      else if a < 0xC000 then upd_ram a v b
      else if loci_emu_active hk b \<and> loci_emu_romdis hk b then
        (case loci_emu_rom_write hk a v b of
           (True, b1) \<Rightarrow> b1
         | (False, b1) \<Rightarrow>
             (case loci_emu_rom_read hk a b1 of
                (None, b2) \<Rightarrow> upd_upper_ram a v b2
              | (Some _, b2) \<Rightarrow> b2))
      else rom_area_write a v b)"

definition memory_read_word :: "'d hooks \<Rightarrow> u16 \<Rightarrow> 'd board \<Rightarrow> u16 \<times> 'd board" where
  "memory_read_word hk a b =
     (let (lo, b1) = memory_read hk a b;
          (hi, b2) = memory_read hk (a + 1) b1
      in (hilo hi lo, b2))"

definition memory_write_word :: "'d hooks \<Rightarrow> u16 \<Rightarrow> u16 \<Rightarrow> 'd board \<Rightarrow> 'd board" where
  "memory_write_word hk a v b = memory_write hk (a + 1) (hi8 v) (memory_write hk a (lo8 v) b)"

definition memory_set_stuck_bits :: "u8 \<Rightarrow> u8 \<Rightarrow> memory_t \<Rightarrow> memory_t" where
  "memory_set_stuck_bits s0 s1 m = m\<lparr>stuck0 := s0, stuck1 := s1\<rparr>"

definition memory_open_bus :: "memory_t \<Rightarrow> u8" where
  "memory_open_bus m = last_bus_value m"

definition memory_set_trace :: "bool \<Rightarrow> bool \<Rightarrow> memory_t \<Rightarrow> memory_t" where
  "memory_set_trace enabled callback m = m\<lparr>trace_enabled := enabled, trace_callback := callback\<rparr>"

definition memory_set_trace2 :: "bool \<Rightarrow> memory_t \<Rightarrow> memory_t" where
  "memory_set_trace2 callback m = m\<lparr>trace_callback2 := callback\<rparr>"

text \<open>\<open>memory_get_ptr\<close> gives the address back when it is in main RAM, else a null pointer.\<close>

definition memory_get_ptr :: "u16 \<Rightarrow> u16 option" where
  "memory_get_ptr a = (if unat a < RAM_SIZE then Some a else None)"

definition memory_set_rom_enabled :: "bool \<Rightarrow> memory_t \<Rightarrow> memory_t" where
  "memory_set_rom_enabled enabled m = m\<lparr>rom_enabled := enabled\<rparr>"

definition memory_get_rom_enabled :: "memory_t \<Rightarrow> bool" where
  "memory_get_rom_enabled m = rom_enabled m"

definition memory_set_charset_bank :: "memory_bank_t \<Rightarrow> memory_t \<Rightarrow> memory_t" where
  "memory_set_charset_bank bank m = m\<lparr>charset_bank := bank\<rparr>"

end
