(* ===== verification/Cpu_State.thy ===== *)
theory Cpu_State
  imports Memory
begin

unbundle bit_operations_syntax

text \<open>
  The 6502 register file and the accesses it makes (\<open>include/cpu/cpu6502.h\<close>,
  \<open>src/cpu/addressing.c\<close> and the interrupt lines, flags and clock of \<open>src/cpu/cpu6502.c\<close>).
  The record \<open>cpu6502_t\<close> has the fields of the C structure; the memory pointer and the three
  interrupt inputs are in the \<open>board\<close>, and the machine the CPU code works on is the pair of
  both with the log of the accesses that \<open>on_bus\<close> is called with (newest first).
\<close>

section \<open>Registers\<close>

abbreviation FLAG_CARRY :: u8 where "FLAG_CARRY \<equiv> 0x01"
abbreviation FLAG_ZERO :: u8 where "FLAG_ZERO \<equiv> 0x02"
abbreviation FLAG_INTERRUPT :: u8 where "FLAG_INTERRUPT \<equiv> 0x04"
abbreviation FLAG_DECIMAL :: u8 where "FLAG_DECIMAL \<equiv> 0x08"
abbreviation FLAG_BREAK :: u8 where "FLAG_BREAK \<equiv> 0x10"
abbreviation FLAG_UNUSED :: u8 where "FLAG_UNUSED \<equiv> 0x20"
abbreviation FLAG_OVERFLOW :: u8 where "FLAG_OVERFLOW \<equiv> 0x40"
abbreviation FLAG_NEGATIVE :: u8 where "FLAG_NEGATIVE \<equiv> 0x80"

datatype cpu_irq_source_t =
  IRQF_VIA | IRQF_DISK | IRQF_SERIAL | IRQF_DTL2000 | IRQF_MAGECO | IRQF_ULANG | IRQF_LOCI

fun irqf_bit :: "cpu_irq_source_t \<Rightarrow> u8" where
  "irqf_bit IRQF_VIA = 0x01"
| "irqf_bit IRQF_DISK = 0x02"
| "irqf_bit IRQF_SERIAL = 0x04"
| "irqf_bit IRQF_DTL2000 = 0x08"
| "irqf_bit IRQF_MAGECO = 0x10"
| "irqf_bit IRQF_ULANG = 0x20"
| "irqf_bit IRQF_LOCI = 0x40"

datatype addressing_mode_t =
  ADDR_IMPLICIT | ADDR_ACCUMULATOR | ADDR_IMMEDIATE | ADDR_ZERO_PAGE | ADDR_ZERO_PAGE_X
  | ADDR_ZERO_PAGE_Y | ADDR_RELATIVE | ADDR_ABSOLUTE | ADDR_ABSOLUTE_X | ADDR_ABSOLUTE_Y
  | ADDR_INDIRECT | ADDR_INDEXED_INDIRECT | ADDR_INDIRECT_INDEXED

datatype cpu_rmw_t =
  RMW_ASL | RMW_LSR | RMW_ROL | RMW_ROR | RMW_INC | RMW_DEC
  | RMW_SLO | RMW_RLA | RMW_SRE | RMW_RRA | RMW_DCP | RMW_ISC

text \<open>The micro-operations of \<open>src/cpu/microseq.c\<close>, one per cycle.\<close>

datatype mop =
  M_END | M_FETCH_LO | M_FETCH_HI | M_DUMMY_PC | M_ZP_INDEX | M_PTR_LO | M_PTR_HI
  | M_DUMMY_UNFIXED | M_READ_FIXUP | M_READ_DATA | M_WRITE_DATA | M_RMW_ORIG | M_RMW_NEW
  | M_IMPLIED | M_IMM | M_BRANCH_TAKEN | M_BRANCH_PAGE | M_JMP_HI | M_JMP_IND_LO
  | M_JMP_IND_HI | M_STACK_DUMMY | M_PUSH_PCH | M_PUSH_PCL | M_PUSH_P | M_PUSH_P_BRK
  | M_PUSH_A | M_PULL_PCL | M_PULL_PCH | M_PULL_P | M_PULL_A | M_RTS_FIXUP | M_JSR_HI
  | M_BRK_SIGN | M_VEC_LO | M_VEC_HI | M_JAM

text \<open>
  \<open>ms_plan\<close> holds the live part \<open>ms_plan[0..ms_len)\<close> of the C array, so \<open>ms_len\<close> is its
  length; \<open>ms_vector\<close> is the file-level static of \<open>microseq.c\<close>.  \<open>cycles\<close> counts as a
  natural number (a \<open>uint64_t\<close> in C).
\<close>

record cpu6502_t =
  cpu_A :: u8
  cpu_X :: u8
  cpu_Y :: u8
  cpu_SP :: u8
  cpu_PC :: u16
  cpu_P :: u8
  cycles :: nat
  halted :: bool
  irq_trace_fp :: bool
  irq_trace_count :: nat
  ms_enabled :: bool
  ms_active :: bool
  ms_opcode :: u8
  ms_pc :: nat
  ms_plan :: "mop list"
  ms_rmw :: cpu_rmw_t
  ms_idx :: nat
  ms_ptr :: u8
  ms_adl :: u8
  ms_data :: u8
  ms_addr :: u16
  ms_base :: u16
  ms_crossed :: bool
  ms_nmi_sampled :: bool
  ms_irq_sampled :: bool
  ms_vector :: u16

record 'd machine =
  cpu :: cpu6502_t
  board :: "'d board"
  bus_log :: "(u16 \<times> u8 \<times> bool) list"

definition upd_cpu :: "(cpu6502_t \<Rightarrow> cpu6502_t) \<Rightarrow> 'd machine \<Rightarrow> 'd machine" where
  "upd_cpu f s = s\<lparr>cpu := f (cpu s)\<rparr>"

section \<open>Flags\<close>

definition cpu_set_flag :: "u8 \<Rightarrow> bool \<Rightarrow> cpu6502_t \<Rightarrow> cpu6502_t" where
  "cpu_set_flag flag v c =
     (if v then c\<lparr>cpu_P := cpu_P c OR flag\<rparr> else c\<lparr>cpu_P := cpu_P c AND NOT flag\<rparr>)"

definition cpu_get_flag :: "cpu6502_t \<Rightarrow> u8 \<Rightarrow> bool" where
  "cpu_get_flag c flag \<longleftrightarrow> cpu_P c AND flag \<noteq> 0"

definition cpu_update_nz :: "u8 \<Rightarrow> cpu6502_t \<Rightarrow> cpu6502_t" where
  "cpu_update_nz v c =
     cpu_set_flag FLAG_NEGATIVE (v AND 0x80 \<noteq> 0) (cpu_set_flag FLAG_ZERO (v = 0) c)"

section \<open>Interrupt lines\<close>

definition cpu_nmi :: "'d board \<Rightarrow> 'd board" where
  "cpu_nmi b = b\<lparr>nmi_pending := True\<rparr>"

definition cpu_irq_set :: "cpu_irq_source_t \<Rightarrow> 'd board \<Rightarrow> 'd board" where
  "cpu_irq_set source b = b\<lparr>irq := irq b OR irqf_bit source\<rparr>"

definition cpu_irq_clear :: "cpu_irq_source_t \<Rightarrow> 'd board \<Rightarrow> 'd board" where
  "cpu_irq_clear source b = b\<lparr>irq := irq b AND NOT (irqf_bit source)\<rparr>"

definition cpu_irq_pulse :: "'d board \<Rightarrow> 'd board" where
  "cpu_irq_pulse b = (if irq_pulse b < 255 then b\<lparr>irq_pulse := irq_pulse b + 1\<rparr> else b)"

definition cpu_irq :: "'d board \<Rightarrow> 'd board" where
  "cpu_irq b = b\<lparr>irq := irq b OR irqf_bit IRQF_VIA\<rparr>"

text \<open>\<open>cpu->irq || cpu->irq_pulse\<close>\<close>

definition irq_asserted :: "'d board \<Rightarrow> bool" where
  "irq_asserted b \<longleftrightarrow> irq b \<noteq> 0 \<or> irq_pulse b \<noteq> 0"

section \<open>Bus accesses\<close>

definition cpu_tick :: "'d hooks \<Rightarrow> nat \<Rightarrow> 'd machine \<Rightarrow> 'd machine" where
  "cpu_tick hk n s =
     s\<lparr>cpu := (cpu s)\<lparr>cycles := cycles (cpu s) + n\<rparr>,
       board := (case on_cycle hk of Some f \<Rightarrow> f n (board s) | None \<Rightarrow> board s)\<rparr>"

definition cpu_mem_read :: "'d hooks \<Rightarrow> u16 \<Rightarrow> 'd machine \<Rightarrow> u8 \<times> 'd machine" where
  "cpu_mem_read hk addr s =
     (let (v, b) = memory_read hk addr (board s)
      in (v, cpu_tick hk 1 (s\<lparr>board := b, bus_log := (addr, v, False) # bus_log s\<rparr>)))"

definition cpu_mem_write :: "'d hooks \<Rightarrow> u16 \<Rightarrow> u8 \<Rightarrow> 'd machine \<Rightarrow> 'd machine" where
  "cpu_mem_write hk addr v s =
     cpu_tick hk 1 (s\<lparr>board := memory_write hk addr v (board s),
                      bus_log := (addr, v, True) # bus_log s\<rparr>)"

definition set_pc :: "u16 \<Rightarrow> 'd machine \<Rightarrow> 'd machine" where
  "set_pc a = upd_cpu (\<lambda>c. c\<lparr>cpu_PC := a\<rparr>)"

definition set_sp :: "u8 \<Rightarrow> 'd machine \<Rightarrow> 'd machine" where
  "set_sp v = upd_cpu (\<lambda>c. c\<lparr>cpu_SP := v\<rparr>)"

text \<open>\<open>cpu_mem_read(cpu, cpu->PC++)\<close>: the program counter moves before the access.\<close>

definition cpu_fetch_byte :: "'d hooks \<Rightarrow> 'd machine \<Rightarrow> u8 \<times> 'd machine" where
  "cpu_fetch_byte hk s =
     (let pc = cpu_PC (cpu s) in cpu_mem_read hk pc (set_pc (pc + 1) s))"

definition cpu_fetch_word_pc :: "'d hooks \<Rightarrow> 'd machine \<Rightarrow> u16 \<times> 'd machine" where
  "cpu_fetch_word_pc hk s =
     (let (lo, s1) = cpu_fetch_byte hk s;
          (hi, s2) = cpu_fetch_byte hk s1
      in (hilo hi lo, s2))"

section \<open>Addressing modes\<close>

definition page_crossed :: "u16 \<Rightarrow> u16 \<Rightarrow> bool" where
  "page_crossed base addr \<longleftrightarrow> base AND 0xFF00 \<noteq> addr AND 0xFF00"

definition addr_immediate :: "'d machine \<Rightarrow> u16 \<times> 'd machine" where
  "addr_immediate s = (let pc = cpu_PC (cpu s) in (pc, set_pc (pc + 1) s))"

definition addr_zero_page :: "'d hooks \<Rightarrow> 'd machine \<Rightarrow> u16 \<times> 'd machine" where
  "addr_zero_page hk s = (let (z, s1) = cpu_fetch_byte hk s in (ucast z, s1))"

definition addr_zero_page_x :: "'d hooks \<Rightarrow> 'd machine \<Rightarrow> u16 \<times> 'd machine" where
  "addr_zero_page_x hk s =
     (let (z, s1) = cpu_fetch_byte hk s in (ucast (z + cpu_X (cpu s1)), s1))"

definition addr_zero_page_y :: "'d hooks \<Rightarrow> 'd machine \<Rightarrow> u16 \<times> 'd machine" where
  "addr_zero_page_y hk s =
     (let (z, s1) = cpu_fetch_byte hk s in (ucast (z + cpu_Y (cpu s1)), s1))"

definition addr_absolute :: "'d hooks \<Rightarrow> 'd machine \<Rightarrow> u16 \<times> 'd machine" where
  "addr_absolute hk s = cpu_fetch_word_pc hk s"

text \<open>The indexed modes also return whether the index crossed a page.\<close>

definition addr_absolute_x :: "'d hooks \<Rightarrow> 'd machine \<Rightarrow> (u16 \<times> bool) \<times> 'd machine" where
  "addr_absolute_x hk s =
     (let (base, s1) = cpu_fetch_word_pc hk s;
          addr = base + ucast (cpu_X (cpu s1))
      in ((addr, page_crossed base addr), s1))"

definition addr_absolute_y :: "'d hooks \<Rightarrow> 'd machine \<Rightarrow> (u16 \<times> bool) \<times> 'd machine" where
  "addr_absolute_y hk s =
     (let (base, s1) = cpu_fetch_word_pc hk s;
          addr = base + ucast (cpu_Y (cpu s1))
      in ((addr, page_crossed base addr), s1))"

definition addr_indirect :: "'d hooks \<Rightarrow> 'd machine \<Rightarrow> u16 \<times> 'd machine" where
  "addr_indirect hk s =
     (let (ptr, s1) = cpu_fetch_word_pc hk s;
          (lo, s2) = cpu_mem_read hk ptr s1;
          ptr_hi = (ptr AND 0xFF00) OR ((ptr + 1) AND 0x00FF);
          (hi, s3) = cpu_mem_read hk ptr_hi s2
      in (hilo hi lo, s3))"

definition addr_indexed_indirect :: "'d hooks \<Rightarrow> 'd machine \<Rightarrow> u16 \<times> 'd machine" where
  "addr_indexed_indirect hk s =
     (let (z, s1) = cpu_fetch_byte hk s;
          zpg = z + cpu_X (cpu s1);
          (lo, s2) = cpu_mem_read hk (ucast zpg) s1;
          (hi, s3) = cpu_mem_read hk (ucast (zpg + 1)) s2
      in (hilo hi lo, s3))"

definition addr_indirect_indexed :: "'d hooks \<Rightarrow> 'd machine \<Rightarrow> (u16 \<times> bool) \<times> 'd machine" where
  "addr_indirect_indexed hk s =
     (let (zpg, s1) = cpu_fetch_byte hk s;
          (lo, s2) = cpu_mem_read hk (ucast zpg) s1;
          (hi, s3) = cpu_mem_read hk (ucast (zpg + 1)) s2;
          base = hilo hi lo;
          addr = base + ucast (cpu_Y (cpu s3))
      in ((addr, page_crossed base addr), s3))"

definition addr_relative :: "'d hooks \<Rightarrow> 'd machine \<Rightarrow> u16 \<times> 'd machine" where
  "addr_relative hk s =
     (let (offset, s1) = cpu_fetch_byte hk s in (cpu_PC (cpu s1) + scast offset, s1))"

section \<open>Stack\<close>

definition stack_addr :: "'d machine \<Rightarrow> u16" where
  "stack_addr s = 0x0100 + ucast (cpu_SP (cpu s))"

definition cpu_push :: "'d hooks \<Rightarrow> u8 \<Rightarrow> 'd machine \<Rightarrow> 'd machine" where
  "cpu_push hk v s =
     (let s1 = cpu_mem_write hk (stack_addr s) v s in set_sp (cpu_SP (cpu s1) - 1) s1)"

definition cpu_pull :: "'d hooks \<Rightarrow> 'd machine \<Rightarrow> u8 \<times> 'd machine" where
  "cpu_pull hk s =
     (let s1 = set_sp (cpu_SP (cpu s) + 1) s in cpu_mem_read hk (stack_addr s1) s1)"

definition cpu_push_word :: "'d hooks \<Rightarrow> u16 \<Rightarrow> 'd machine \<Rightarrow> 'd machine" where
  "cpu_push_word hk v s = cpu_push hk (lo8 v) (cpu_push hk (hi8 v) s)"

definition cpu_pull_word :: "'d hooks \<Rightarrow> 'd machine \<Rightarrow> u16 \<times> 'd machine" where
  "cpu_pull_word hk s =
     (let (lo, s1) = cpu_pull hk s;
          (hi, s2) = cpu_pull hk s1
      in (hilo hi lo, s2))"

end
