(* ===== verification/Cpu_Alu.thy ===== *)
theory Cpu_Alu
  imports Cpu_State
begin

unbundle bit_operations_syntax

text \<open>
  The arithmetic of the 6502 (\<open>src/cpu/opcodes.c\<close>): ADC and SBC with the NMOS decimal mode,
  comparisons, the read-modify-write operations and the target of the unstable stores.  Both
  engines call these functions; none of them touches the bus.
\<close>

section \<open>Operations\<close>

definition set_A :: "u8 \<Rightarrow> cpu6502_t \<Rightarrow> cpu6502_t" where
  "set_A v c = c\<lparr>cpu_A := v\<rparr>"

definition carry_u8 :: "cpu6502_t \<Rightarrow> u8" where
  "carry_u8 c = (if cpu_get_flag c FLAG_CARRY then 1 else 0)"

definition cpu_op_adc :: "u8 \<Rightarrow> cpu6502_t \<Rightarrow> cpu6502_t" where
  "cpu_op_adc val c =
     (if cpu_get_flag c FLAG_DECIMAL then
        let a = cpu_A c;
            carry_in = (ucast (carry_u8 c) :: u16);
            lo0 = ucast (a AND 0x0F) + ucast (val AND 0x0F) + carry_in;
            hi0 = ucast (a AND 0xF0) + ucast (val AND 0xF0);
            lo = (if lo0 > 0x09 then lo0 + 0x06 else lo0);
            hi = (if lo0 > 0x09 then hi0 + 0x10 else hi0);
            bin = ucast a + ucast val + carry_in;
            c1 = cpu_set_flag FLAG_ZERO ((ucast bin :: u8) = 0) c;
            c2 = cpu_set_flag FLAG_NEGATIVE (hi AND 0x80 \<noteq> 0) c1;
            c3 = cpu_set_flag FLAG_OVERFLOW
                   (NOT (ucast a XOR ucast val) AND (ucast a XOR hi) AND 0x80 \<noteq> 0) c2;
            hi' = (if hi > 0x90 then hi + 0x60 else hi);
            c4 = cpu_set_flag FLAG_CARRY (hi' AND 0xFF00 \<noteq> 0) c3
        in set_A (ucast ((hi' AND 0xF0) OR (lo AND 0x0F))) c4
      else
        let a = cpu_A c;
            sum = (ucast a :: u16) + ucast val + ucast (carry_u8 c);
            c1 = cpu_set_flag FLAG_CARRY (sum > 0xFF) c;
            c2 = cpu_set_flag FLAG_OVERFLOW
                   (NOT (a XOR val) AND (a XOR ucast sum) AND 0x80 \<noteq> 0) c1;
            c3 = set_A (ucast sum) c2
        in cpu_update_nz (cpu_A c3) c3)"

text \<open>
  SBC: \<open>bin\<close> and \<open>diff\<close> are \<open>uint16_t\<close>; \<open>lo\<close>, \<open>hi\<close> and \<open>sum\<close> are \<open>int16_t\<close>, whose values stay
  between -512 and 512.
\<close>

definition cpu_op_sbc :: "u8 \<Rightarrow> cpu6502_t \<Rightarrow> cpu6502_t" where
  "cpu_op_sbc val c =
     (let a = cpu_A c;
          borrow = (if cpu_get_flag c FLAG_CARRY then 0 else 1 :: u16) in
      if cpu_get_flag c FLAG_DECIMAL then
        let bin = (ucast a :: u16) - ucast val - borrow;
            lo0 = uint (a AND 0x0F) - uint (val AND 0x0F) - uint borrow;
            hi0 = uint (a AND 0xF0) - uint (val AND 0xF0);
            lo = (if lo0 < 0 then lo0 - 0x06 else lo0);
            hi = (if lo0 < 0 then hi0 - 0x10 else hi0);
            sum0 = hi + (lo AND 0x0F);
            sum = (if sum0 < 0 then sum0 - 0x60 else sum0);
            c1 = cpu_set_flag FLAG_CARRY (bin < 0x100) c;
            c2 = cpu_set_flag FLAG_OVERFLOW
                   ((a XOR val) AND (a XOR ucast bin) AND 0x80 \<noteq> 0) c1;
            c3 = set_A (word_of_int sum) c2;
            c4 = cpu_set_flag FLAG_NEGATIVE (bin AND 0x80 \<noteq> 0) c3
        in cpu_set_flag FLAG_ZERO ((ucast bin :: u8) = 0) c4
      else
        let diff = (ucast a :: u16) - ucast val - borrow;
            c1 = cpu_set_flag FLAG_CARRY (diff < 0x100) c;
            c2 = cpu_set_flag FLAG_OVERFLOW
                   ((a XOR val) AND (a XOR ucast diff) AND 0x80 \<noteq> 0) c1;
            c3 = set_A (ucast diff) c2
        in cpu_update_nz (cpu_A c3) c3)"

definition cpu_op_cmp :: "u8 \<Rightarrow> u8 \<Rightarrow> cpu6502_t \<Rightarrow> cpu6502_t" where
  "cpu_op_cmp reg val c =
     (let diff = (ucast reg :: u16) - ucast val;
          c1 = cpu_set_flag FLAG_CARRY (reg \<ge> val) c
      in cpu_update_nz (ucast diff) c1)"

definition cpu_op_lax :: "u8 \<Rightarrow> cpu6502_t \<Rightarrow> cpu6502_t" where
  "cpu_op_lax v c = cpu_update_nz v (c\<lparr>cpu_A := v, cpu_X := v\<rparr>)"

text \<open>The value written by an unstable store and where it goes.\<close>

definition cpu_sh_unstable :: "u16 \<Rightarrow> u16 \<Rightarrow> u8 \<Rightarrow> u8 \<times> u16" where
  "cpu_sh_unstable base addr reg =
     (let v = reg AND (hi8 base + 1);
          crossed = page_crossed base addr
      in (v, if crossed then push_bit 8 (ucast v) OR (addr AND 0x00FF) else addr))"

definition cpu_rmw_apply :: "cpu_rmw_t \<Rightarrow> u8 \<Rightarrow> cpu6502_t \<Rightarrow> u8 \<times> cpu6502_t" where
  "cpu_rmw_apply op v c =
     (let c_in = carry_u8 c;
          c_msb = cpu_set_flag FLAG_CARRY (v AND 0x80 \<noteq> 0) c;
          c_lsb = cpu_set_flag FLAG_CARRY (v AND 0x01 \<noteq> 0) c;
          asl = push_bit 1 v;
          lsr = drop_bit 1 v;
          rol = push_bit 1 v OR c_in;
          ror = drop_bit 1 v OR (if c_in \<noteq> 0 then 0x80 else 0)
      in case op of
        RMW_ASL \<Rightarrow> (asl, cpu_update_nz asl c_msb)
      | RMW_LSR \<Rightarrow> (lsr, cpu_update_nz lsr c_lsb)
      | RMW_ROL \<Rightarrow> (rol, cpu_update_nz rol c_msb)
      | RMW_ROR \<Rightarrow> (ror, cpu_update_nz ror c_lsb)
      | RMW_INC \<Rightarrow> (v + 1, cpu_update_nz (v + 1) c)
      | RMW_DEC \<Rightarrow> (v - 1, cpu_update_nz (v - 1) c)
      | RMW_SLO \<Rightarrow> (asl, cpu_update_nz (cpu_A c OR asl) (set_A (cpu_A c OR asl) c_msb))
      | RMW_RLA \<Rightarrow> (rol, cpu_update_nz (cpu_A c AND rol) (set_A (cpu_A c AND rol) c_msb))
      | RMW_SRE \<Rightarrow> (lsr, cpu_update_nz (cpu_A c XOR lsr) (set_A (cpu_A c XOR lsr) c_lsb))
      | RMW_RRA \<Rightarrow> (ror, cpu_op_adc ror c_lsb)
      | RMW_DCP \<Rightarrow> (v - 1, cpu_op_cmp (cpu_A c) (v - 1) c)
      | RMW_ISC \<Rightarrow> (v + 1, cpu_op_sbc (v + 1) c))"

end
