(* ===== verification/Cpu_Opcodes.thy ===== *)
theory Cpu_Opcodes
  imports Cpu_Alu
begin

unbundle bit_operations_syntax

text \<open>
  The historical engine: the opcode table and \<open>cpu_execute_opcode\<close> of \<open>src/cpu/opcodes.c\<close>,
  and the interrupt entries and \<open>cpu_step\<close> of \<open>src/cpu/cpu6502.c\<close> for \<open>ms_enabled\<close> false.  The
  \<open>switch\<close> of 256 cases is cut into groups in the source's order; a group returns \<open>None\<close> when
  the opcode is not one of its cases.  The natural number a case returns is \<open>extra\<close>.
\<close>

section \<open>The opcode table\<close>

text \<open>Name, base cycles, size and addressing mode of each opcode.\<close>

definition opcode_table :: "(string \<times> nat \<times> nat \<times> addressing_mode_t) list" where
  "opcode_table = [
     (''BRK'', 7, 1, ADDR_IMPLICIT), (''ORA'', 6, 2, ADDR_INDEXED_INDIRECT), (''JAM'', 2, 1, ADDR_IMPLICIT),
     (''SLO'', 8, 2, ADDR_INDEXED_INDIRECT), (''NOP'', 3, 2, ADDR_ZERO_PAGE), (''ORA'', 3, 2, ADDR_ZERO_PAGE),
     (''ASL'', 5, 2, ADDR_ZERO_PAGE), (''SLO'', 5, 2, ADDR_ZERO_PAGE), (''PHP'', 3, 1, ADDR_IMPLICIT),
     (''ORA'', 2, 2, ADDR_IMMEDIATE), (''ASL'', 2, 1, ADDR_ACCUMULATOR), (''ANC'', 2, 2, ADDR_IMMEDIATE),
     (''NOP'', 4, 3, ADDR_ABSOLUTE), (''ORA'', 4, 3, ADDR_ABSOLUTE), (''ASL'', 6, 3, ADDR_ABSOLUTE),
     (''SLO'', 6, 3, ADDR_ABSOLUTE),
     (''BPL'', 2, 2, ADDR_RELATIVE), (''ORA'', 5, 2, ADDR_INDIRECT_INDEXED), (''JAM'', 2, 1, ADDR_IMPLICIT),
     (''SLO'', 8, 2, ADDR_INDIRECT_INDEXED), (''NOP'', 4, 2, ADDR_ZERO_PAGE_X), (''ORA'', 4, 2, ADDR_ZERO_PAGE_X),
     (''ASL'', 6, 2, ADDR_ZERO_PAGE_X), (''SLO'', 6, 2, ADDR_ZERO_PAGE_X), (''CLC'', 2, 1, ADDR_IMPLICIT),
     (''ORA'', 4, 3, ADDR_ABSOLUTE_Y), (''NOP'', 2, 1, ADDR_IMPLICIT), (''SLO'', 7, 3, ADDR_ABSOLUTE_Y),
     (''NOP'', 4, 3, ADDR_ABSOLUTE_X), (''ORA'', 4, 3, ADDR_ABSOLUTE_X), (''ASL'', 7, 3, ADDR_ABSOLUTE_X),
     (''SLO'', 7, 3, ADDR_ABSOLUTE_X),
     (''JSR'', 6, 3, ADDR_ABSOLUTE), (''AND'', 6, 2, ADDR_INDEXED_INDIRECT), (''JAM'', 2, 1, ADDR_IMPLICIT),
     (''RLA'', 8, 2, ADDR_INDEXED_INDIRECT), (''BIT'', 3, 2, ADDR_ZERO_PAGE), (''AND'', 3, 2, ADDR_ZERO_PAGE),
     (''ROL'', 5, 2, ADDR_ZERO_PAGE), (''RLA'', 5, 2, ADDR_ZERO_PAGE), (''PLP'', 4, 1, ADDR_IMPLICIT),
     (''AND'', 2, 2, ADDR_IMMEDIATE), (''ROL'', 2, 1, ADDR_ACCUMULATOR), (''ANC'', 2, 2, ADDR_IMMEDIATE),
     (''BIT'', 4, 3, ADDR_ABSOLUTE), (''AND'', 4, 3, ADDR_ABSOLUTE), (''ROL'', 6, 3, ADDR_ABSOLUTE),
     (''RLA'', 6, 3, ADDR_ABSOLUTE),
     (''BMI'', 2, 2, ADDR_RELATIVE), (''AND'', 5, 2, ADDR_INDIRECT_INDEXED), (''JAM'', 2, 1, ADDR_IMPLICIT),
     (''RLA'', 8, 2, ADDR_INDIRECT_INDEXED), (''NOP'', 4, 2, ADDR_ZERO_PAGE_X), (''AND'', 4, 2, ADDR_ZERO_PAGE_X),
     (''ROL'', 6, 2, ADDR_ZERO_PAGE_X), (''RLA'', 6, 2, ADDR_ZERO_PAGE_X), (''SEC'', 2, 1, ADDR_IMPLICIT),
     (''AND'', 4, 3, ADDR_ABSOLUTE_Y), (''NOP'', 2, 1, ADDR_IMPLICIT), (''RLA'', 7, 3, ADDR_ABSOLUTE_Y),
     (''NOP'', 4, 3, ADDR_ABSOLUTE_X), (''AND'', 4, 3, ADDR_ABSOLUTE_X), (''ROL'', 7, 3, ADDR_ABSOLUTE_X),
     (''RLA'', 7, 3, ADDR_ABSOLUTE_X),
     (''RTI'', 6, 1, ADDR_IMPLICIT), (''EOR'', 6, 2, ADDR_INDEXED_INDIRECT), (''JAM'', 2, 1, ADDR_IMPLICIT),
     (''SRE'', 8, 2, ADDR_INDEXED_INDIRECT), (''NOP'', 3, 2, ADDR_ZERO_PAGE), (''EOR'', 3, 2, ADDR_ZERO_PAGE),
     (''LSR'', 5, 2, ADDR_ZERO_PAGE), (''SRE'', 5, 2, ADDR_ZERO_PAGE), (''PHA'', 3, 1, ADDR_IMPLICIT),
     (''EOR'', 2, 2, ADDR_IMMEDIATE), (''LSR'', 2, 1, ADDR_ACCUMULATOR), (''ALR'', 2, 2, ADDR_IMMEDIATE),
     (''JMP'', 3, 3, ADDR_ABSOLUTE), (''EOR'', 4, 3, ADDR_ABSOLUTE), (''LSR'', 6, 3, ADDR_ABSOLUTE),
     (''SRE'', 6, 3, ADDR_ABSOLUTE),
     (''BVC'', 2, 2, ADDR_RELATIVE), (''EOR'', 5, 2, ADDR_INDIRECT_INDEXED), (''JAM'', 2, 1, ADDR_IMPLICIT),
     (''SRE'', 8, 2, ADDR_INDIRECT_INDEXED), (''NOP'', 4, 2, ADDR_ZERO_PAGE_X), (''EOR'', 4, 2, ADDR_ZERO_PAGE_X),
     (''LSR'', 6, 2, ADDR_ZERO_PAGE_X), (''SRE'', 6, 2, ADDR_ZERO_PAGE_X), (''CLI'', 2, 1, ADDR_IMPLICIT),
     (''EOR'', 4, 3, ADDR_ABSOLUTE_Y), (''NOP'', 2, 1, ADDR_IMPLICIT), (''SRE'', 7, 3, ADDR_ABSOLUTE_Y),
     (''NOP'', 4, 3, ADDR_ABSOLUTE_X), (''EOR'', 4, 3, ADDR_ABSOLUTE_X), (''LSR'', 7, 3, ADDR_ABSOLUTE_X),
     (''SRE'', 7, 3, ADDR_ABSOLUTE_X),
     (''RTS'', 6, 1, ADDR_IMPLICIT), (''ADC'', 6, 2, ADDR_INDEXED_INDIRECT), (''JAM'', 2, 1, ADDR_IMPLICIT),
     (''RRA'', 8, 2, ADDR_INDEXED_INDIRECT), (''NOP'', 3, 2, ADDR_ZERO_PAGE), (''ADC'', 3, 2, ADDR_ZERO_PAGE),
     (''ROR'', 5, 2, ADDR_ZERO_PAGE), (''RRA'', 5, 2, ADDR_ZERO_PAGE), (''PLA'', 4, 1, ADDR_IMPLICIT),
     (''ADC'', 2, 2, ADDR_IMMEDIATE), (''ROR'', 2, 1, ADDR_ACCUMULATOR), (''ARR'', 2, 2, ADDR_IMMEDIATE),
     (''JMP'', 5, 3, ADDR_INDIRECT), (''ADC'', 4, 3, ADDR_ABSOLUTE), (''ROR'', 6, 3, ADDR_ABSOLUTE),
     (''RRA'', 6, 3, ADDR_ABSOLUTE),
     (''BVS'', 2, 2, ADDR_RELATIVE), (''ADC'', 5, 2, ADDR_INDIRECT_INDEXED), (''JAM'', 2, 1, ADDR_IMPLICIT),
     (''RRA'', 8, 2, ADDR_INDIRECT_INDEXED), (''NOP'', 4, 2, ADDR_ZERO_PAGE_X), (''ADC'', 4, 2, ADDR_ZERO_PAGE_X),
     (''ROR'', 6, 2, ADDR_ZERO_PAGE_X), (''RRA'', 6, 2, ADDR_ZERO_PAGE_X), (''SEI'', 2, 1, ADDR_IMPLICIT),
     (''ADC'', 4, 3, ADDR_ABSOLUTE_Y), (''NOP'', 2, 1, ADDR_IMPLICIT), (''RRA'', 7, 3, ADDR_ABSOLUTE_Y),
     (''NOP'', 4, 3, ADDR_ABSOLUTE_X), (''ADC'', 4, 3, ADDR_ABSOLUTE_X), (''ROR'', 7, 3, ADDR_ABSOLUTE_X),
     (''RRA'', 7, 3, ADDR_ABSOLUTE_X),
     (''NOP'', 2, 2, ADDR_IMMEDIATE), (''STA'', 6, 2, ADDR_INDEXED_INDIRECT), (''NOP'', 2, 2, ADDR_IMMEDIATE),
     (''SAX'', 6, 2, ADDR_INDEXED_INDIRECT), (''STY'', 3, 2, ADDR_ZERO_PAGE), (''STA'', 3, 2, ADDR_ZERO_PAGE),
     (''STX'', 3, 2, ADDR_ZERO_PAGE), (''SAX'', 3, 2, ADDR_ZERO_PAGE), (''DEY'', 2, 1, ADDR_IMPLICIT),
     (''NOP'', 2, 2, ADDR_IMMEDIATE), (''TXA'', 2, 1, ADDR_IMPLICIT), (''ANE'', 2, 2, ADDR_IMMEDIATE),
     (''STY'', 4, 3, ADDR_ABSOLUTE), (''STA'', 4, 3, ADDR_ABSOLUTE), (''STX'', 4, 3, ADDR_ABSOLUTE),
     (''SAX'', 4, 3, ADDR_ABSOLUTE),
     (''BCC'', 2, 2, ADDR_RELATIVE), (''STA'', 6, 2, ADDR_INDIRECT_INDEXED), (''JAM'', 2, 1, ADDR_IMPLICIT),
     (''SHA'', 6, 2, ADDR_INDIRECT_INDEXED), (''STY'', 4, 2, ADDR_ZERO_PAGE_X), (''STA'', 4, 2, ADDR_ZERO_PAGE_X),
     (''STX'', 4, 2, ADDR_ZERO_PAGE_Y), (''SAX'', 4, 2, ADDR_ZERO_PAGE_Y), (''TYA'', 2, 1, ADDR_IMPLICIT),
     (''STA'', 5, 3, ADDR_ABSOLUTE_Y), (''TXS'', 2, 1, ADDR_IMPLICIT), (''TAS'', 5, 3, ADDR_ABSOLUTE_Y),
     (''SHY'', 5, 3, ADDR_ABSOLUTE_X), (''STA'', 5, 3, ADDR_ABSOLUTE_X), (''SHX'', 5, 3, ADDR_ABSOLUTE_Y),
     (''SHA'', 5, 3, ADDR_ABSOLUTE_Y),
     (''LDY'', 2, 2, ADDR_IMMEDIATE), (''LDA'', 6, 2, ADDR_INDEXED_INDIRECT), (''LDX'', 2, 2, ADDR_IMMEDIATE),
     (''LAX'', 6, 2, ADDR_INDEXED_INDIRECT), (''LDY'', 3, 2, ADDR_ZERO_PAGE), (''LDA'', 3, 2, ADDR_ZERO_PAGE),
     (''LDX'', 3, 2, ADDR_ZERO_PAGE), (''LAX'', 3, 2, ADDR_ZERO_PAGE), (''TAY'', 2, 1, ADDR_IMPLICIT),
     (''LDA'', 2, 2, ADDR_IMMEDIATE), (''TAX'', 2, 1, ADDR_IMPLICIT), (''LXA'', 2, 2, ADDR_IMMEDIATE),
     (''LDY'', 4, 3, ADDR_ABSOLUTE), (''LDA'', 4, 3, ADDR_ABSOLUTE), (''LDX'', 4, 3, ADDR_ABSOLUTE),
     (''LAX'', 4, 3, ADDR_ABSOLUTE),
     (''BCS'', 2, 2, ADDR_RELATIVE), (''LDA'', 5, 2, ADDR_INDIRECT_INDEXED), (''JAM'', 2, 1, ADDR_IMPLICIT),
     (''LAX'', 5, 2, ADDR_INDIRECT_INDEXED), (''LDY'', 4, 2, ADDR_ZERO_PAGE_X), (''LDA'', 4, 2, ADDR_ZERO_PAGE_X),
     (''LDX'', 4, 2, ADDR_ZERO_PAGE_Y), (''LAX'', 4, 2, ADDR_ZERO_PAGE_Y), (''CLV'', 2, 1, ADDR_IMPLICIT),
     (''LDA'', 4, 3, ADDR_ABSOLUTE_Y), (''TSX'', 2, 1, ADDR_IMPLICIT), (''LAS'', 4, 3, ADDR_ABSOLUTE_Y),
     (''LDY'', 4, 3, ADDR_ABSOLUTE_X), (''LDA'', 4, 3, ADDR_ABSOLUTE_X), (''LDX'', 4, 3, ADDR_ABSOLUTE_Y),
     (''LAX'', 4, 3, ADDR_ABSOLUTE_Y),
     (''CPY'', 2, 2, ADDR_IMMEDIATE), (''CMP'', 6, 2, ADDR_INDEXED_INDIRECT), (''NOP'', 2, 2, ADDR_IMMEDIATE),
     (''DCP'', 8, 2, ADDR_INDEXED_INDIRECT), (''CPY'', 3, 2, ADDR_ZERO_PAGE), (''CMP'', 3, 2, ADDR_ZERO_PAGE),
     (''DEC'', 5, 2, ADDR_ZERO_PAGE), (''DCP'', 5, 2, ADDR_ZERO_PAGE), (''INY'', 2, 1, ADDR_IMPLICIT),
     (''CMP'', 2, 2, ADDR_IMMEDIATE), (''DEX'', 2, 1, ADDR_IMPLICIT), (''SBX'', 2, 2, ADDR_IMMEDIATE),
     (''CPY'', 4, 3, ADDR_ABSOLUTE), (''CMP'', 4, 3, ADDR_ABSOLUTE), (''DEC'', 6, 3, ADDR_ABSOLUTE),
     (''DCP'', 6, 3, ADDR_ABSOLUTE),
     (''BNE'', 2, 2, ADDR_RELATIVE), (''CMP'', 5, 2, ADDR_INDIRECT_INDEXED), (''JAM'', 2, 1, ADDR_IMPLICIT),
     (''DCP'', 8, 2, ADDR_INDIRECT_INDEXED), (''NOP'', 4, 2, ADDR_ZERO_PAGE_X), (''CMP'', 4, 2, ADDR_ZERO_PAGE_X),
     (''DEC'', 6, 2, ADDR_ZERO_PAGE_X), (''DCP'', 6, 2, ADDR_ZERO_PAGE_X), (''CLD'', 2, 1, ADDR_IMPLICIT),
     (''CMP'', 4, 3, ADDR_ABSOLUTE_Y), (''NOP'', 2, 1, ADDR_IMPLICIT), (''DCP'', 7, 3, ADDR_ABSOLUTE_Y),
     (''NOP'', 4, 3, ADDR_ABSOLUTE_X), (''CMP'', 4, 3, ADDR_ABSOLUTE_X), (''DEC'', 7, 3, ADDR_ABSOLUTE_X),
     (''DCP'', 7, 3, ADDR_ABSOLUTE_X),
     (''CPX'', 2, 2, ADDR_IMMEDIATE), (''SBC'', 6, 2, ADDR_INDEXED_INDIRECT), (''NOP'', 2, 2, ADDR_IMMEDIATE),
     (''ISC'', 8, 2, ADDR_INDEXED_INDIRECT), (''CPX'', 3, 2, ADDR_ZERO_PAGE), (''SBC'', 3, 2, ADDR_ZERO_PAGE),
     (''INC'', 5, 2, ADDR_ZERO_PAGE), (''ISC'', 5, 2, ADDR_ZERO_PAGE), (''INX'', 2, 1, ADDR_IMPLICIT),
     (''SBC'', 2, 2, ADDR_IMMEDIATE), (''NOP'', 2, 1, ADDR_IMPLICIT), (''SBC'', 2, 2, ADDR_IMMEDIATE),
     (''CPX'', 4, 3, ADDR_ABSOLUTE), (''SBC'', 4, 3, ADDR_ABSOLUTE), (''INC'', 6, 3, ADDR_ABSOLUTE),
     (''ISC'', 6, 3, ADDR_ABSOLUTE),
     (''BEQ'', 2, 2, ADDR_RELATIVE), (''SBC'', 5, 2, ADDR_INDIRECT_INDEXED), (''JAM'', 2, 1, ADDR_IMPLICIT),
     (''ISC'', 8, 2, ADDR_INDIRECT_INDEXED), (''NOP'', 4, 2, ADDR_ZERO_PAGE_X), (''SBC'', 4, 2, ADDR_ZERO_PAGE_X),
     (''INC'', 6, 2, ADDR_ZERO_PAGE_X), (''ISC'', 6, 2, ADDR_ZERO_PAGE_X), (''SED'', 2, 1, ADDR_IMPLICIT),
     (''SBC'', 4, 3, ADDR_ABSOLUTE_Y), (''NOP'', 2, 1, ADDR_IMPLICIT), (''ISC'', 7, 3, ADDR_ABSOLUTE_Y),
     (''NOP'', 4, 3, ADDR_ABSOLUTE_X), (''SBC'', 4, 3, ADDR_ABSOLUTE_X), (''INC'', 7, 3, ADDR_ABSOLUTE_X),
     (''ISC'', 7, 3, ADDR_ABSOLUTE_X)]"

definition opcode_cycles :: "u8 \<Rightarrow> nat" where
  "opcode_cycles op = fst (snd (opcode_table ! unat op))"

definition opcode_size :: "u8 \<Rightarrow> nat" where
  "opcode_size op = fst (snd (snd (opcode_table ! unat op)))"

definition opcode_mode :: "u8 \<Rightarrow> addressing_mode_t" where
  "opcode_mode op = snd (snd (snd (opcode_table ! unat op)))"

section \<open>Operations on a value read\<close>

definition op_lda :: "u8 \<Rightarrow> cpu6502_t \<Rightarrow> cpu6502_t" where
  "op_lda v c = cpu_update_nz v (set_A v c)"

definition op_ldx :: "u8 \<Rightarrow> cpu6502_t \<Rightarrow> cpu6502_t" where
  "op_ldx v c = cpu_update_nz v (c\<lparr>cpu_X := v\<rparr>)"

definition op_ldy :: "u8 \<Rightarrow> cpu6502_t \<Rightarrow> cpu6502_t" where
  "op_ldy v c = cpu_update_nz v (c\<lparr>cpu_Y := v\<rparr>)"

definition op_and :: "u8 \<Rightarrow> cpu6502_t \<Rightarrow> cpu6502_t" where
  "op_and v c = (let a = cpu_A c AND v in cpu_update_nz a (set_A a c))"

definition op_ora :: "u8 \<Rightarrow> cpu6502_t \<Rightarrow> cpu6502_t" where
  "op_ora v c = (let a = cpu_A c OR v in cpu_update_nz a (set_A a c))"

definition op_eor :: "u8 \<Rightarrow> cpu6502_t \<Rightarrow> cpu6502_t" where
  "op_eor v c = (let a = cpu_A c XOR v in cpu_update_nz a (set_A a c))"

definition op_cmp_a :: "u8 \<Rightarrow> cpu6502_t \<Rightarrow> cpu6502_t" where
  "op_cmp_a v c = cpu_op_cmp (cpu_A c) v c"

definition op_cmp_x :: "u8 \<Rightarrow> cpu6502_t \<Rightarrow> cpu6502_t" where
  "op_cmp_x v c = cpu_op_cmp (cpu_X c) v c"

definition op_cmp_y :: "u8 \<Rightarrow> cpu6502_t \<Rightarrow> cpu6502_t" where
  "op_cmp_y v c = cpu_op_cmp (cpu_Y c) v c"

definition op_bit :: "u8 \<Rightarrow> cpu6502_t \<Rightarrow> cpu6502_t" where
  "op_bit v c =
     (let c1 = cpu_set_flag FLAG_ZERO (cpu_A c AND v = 0) c;
          c2 = cpu_set_flag FLAG_OVERFLOW (v AND 0x40 \<noteq> 0) c1
      in cpu_set_flag FLAG_NEGATIVE (v AND 0x80 \<noteq> 0) c2)"

text \<open>The immediate-AND family and the unstable opcodes.\<close>

definition op_anc :: "u8 \<Rightarrow> cpu6502_t \<Rightarrow> cpu6502_t" where
  "op_anc v c =
     (let a = cpu_A c AND v
      in cpu_set_flag FLAG_CARRY (a AND 0x80 \<noteq> 0) (cpu_update_nz a (set_A a c)))"

definition op_alr :: "u8 \<Rightarrow> cpu6502_t \<Rightarrow> cpu6502_t" where
  "op_alr v c =
     (let a = cpu_A c AND v;
          c1 = cpu_set_flag FLAG_CARRY (a AND 0x01 \<noteq> 0) (set_A a c);
          c2 = set_A (drop_bit 1 a) c1
      in cpu_update_nz (cpu_A c2) c2)"

text \<open>\<open>(t & 0x0F) + (t & 0x01)\<close> and its high-nibble twin are \<open>int\<close> sums in C: 16 bits here.\<close>

definition op_arr :: "u8 \<Rightarrow> cpu6502_t \<Rightarrow> cpu6502_t" where
  "op_arr v c =
     (let t = cpu_A c AND v;
          r = drop_bit 1 t OR (if cpu_get_flag c FLAG_CARRY then 0x80 else 0);
          c1 = cpu_update_nz r c;
          c2 = cpu_set_flag FLAG_OVERFLOW ((r XOR t) AND 0x40 \<noteq> 0) c1
      in if cpu_get_flag c2 FLAG_DECIMAL then
           let r1 = (if (ucast (t AND 0x0F) :: u16) + ucast (t AND 0x01) > 0x05
                     then (r AND 0xF0) OR ((r + 0x06) AND 0x0F) else r);
               high = (ucast (t AND 0xF0) :: u16) + ucast (t AND 0x10) > 0x50
           in set_A (if high then r1 + 0x60 else r1) (cpu_set_flag FLAG_CARRY high c2)
         else set_A r (cpu_set_flag FLAG_CARRY (t AND 0x80 \<noteq> 0) c2))"

definition op_sbx :: "u8 \<Rightarrow> cpu6502_t \<Rightarrow> cpu6502_t" where
  "op_sbx v c =
     (let tmp = cpu_A c AND cpu_X c;
          c1 = cpu_set_flag FLAG_CARRY (tmp \<ge> v) c;
          c2 = c1\<lparr>cpu_X := tmp - v\<rparr>
      in cpu_update_nz (cpu_X c2) c2)"

definition op_ane :: "u8 \<Rightarrow> cpu6502_t \<Rightarrow> cpu6502_t" where
  "op_ane v c = (let a = (cpu_A c OR 0xEE) AND cpu_X c AND v in cpu_update_nz a (set_A a c))"

definition op_lxa :: "u8 \<Rightarrow> cpu6502_t \<Rightarrow> cpu6502_t" where
  "op_lxa v c =
     (let a = (cpu_A c OR 0xEE) AND v in cpu_update_nz a (c\<lparr>cpu_A := a, cpu_X := a\<rparr>))"

definition op_las :: "u8 \<Rightarrow> cpu6502_t \<Rightarrow> cpu6502_t" where
  "op_las v c =
     (let r = v AND cpu_SP c
      in cpu_update_nz r (c\<lparr>cpu_A := r, cpu_X := r, cpu_SP := r\<rparr>))"

definition op_none :: "u8 \<Rightarrow> cpu6502_t \<Rightarrow> cpu6502_t" where
  "op_none v c = c"

section \<open>Operations on registers\<close>

definition op_asl_a :: "cpu6502_t \<Rightarrow> cpu6502_t" where
  "op_asl_a c =
     (let c1 = cpu_set_flag FLAG_CARRY (cpu_A c AND 0x80 \<noteq> 0) c;
          c2 = set_A (push_bit 1 (cpu_A c)) c1
      in cpu_update_nz (cpu_A c2) c2)"

definition op_lsr_a :: "cpu6502_t \<Rightarrow> cpu6502_t" where
  "op_lsr_a c =
     (let c1 = cpu_set_flag FLAG_CARRY (cpu_A c AND 0x01 \<noteq> 0) c;
          c2 = set_A (drop_bit 1 (cpu_A c)) c1
      in cpu_update_nz (cpu_A c2) c2)"

definition op_rol_a :: "cpu6502_t \<Rightarrow> cpu6502_t" where
  "op_rol_a c =
     (let cin = (if cpu_get_flag c FLAG_CARRY then 1 else 0);
          c1 = cpu_set_flag FLAG_CARRY (cpu_A c AND 0x80 \<noteq> 0) c;
          c2 = set_A (push_bit 1 (cpu_A c) OR cin) c1
      in cpu_update_nz (cpu_A c2) c2)"

definition op_ror_a :: "cpu6502_t \<Rightarrow> cpu6502_t" where
  "op_ror_a c =
     (let cin = (if cpu_get_flag c FLAG_CARRY then 0x80 else 0);
          c1 = cpu_set_flag FLAG_CARRY (cpu_A c AND 0x01 \<noteq> 0) c;
          c2 = set_A (drop_bit 1 (cpu_A c) OR cin) c1
      in cpu_update_nz (cpu_A c2) c2)"

definition set_X_nz :: "u8 \<Rightarrow> cpu6502_t \<Rightarrow> cpu6502_t" where
  "set_X_nz v c = cpu_update_nz v (c\<lparr>cpu_X := v\<rparr>)"

definition set_Y_nz :: "u8 \<Rightarrow> cpu6502_t \<Rightarrow> cpu6502_t" where
  "set_Y_nz v c = cpu_update_nz v (c\<lparr>cpu_Y := v\<rparr>)"

definition set_A_nz :: "u8 \<Rightarrow> cpu6502_t \<Rightarrow> cpu6502_t" where
  "set_A_nz v c = cpu_update_nz v (c\<lparr>cpu_A := v\<rparr>)"

definition set_P_pulled :: "u8 \<Rightarrow> cpu6502_t \<Rightarrow> cpu6502_t" where
  "set_P_pulled v c = c\<lparr>cpu_P := (v AND NOT FLAG_BREAK) OR FLAG_UNUSED\<rparr>"

section \<open>Shapes of the cases\<close>

definition no_cross :: "(u16 \<times> bool) \<times> 'd machine \<Rightarrow> u16 \<times> 'd machine" where
  "no_cross r = (case r of ((addr, _), s) \<Rightarrow> (addr, s))"

definition read_then ::
  "'d hooks \<Rightarrow> u16 \<times> 'd machine \<Rightarrow> (u8 \<Rightarrow> cpu6502_t \<Rightarrow> cpu6502_t) \<Rightarrow> nat \<times> 'd machine" where
  "read_then hk r f =
     (let (addr, s1) = r; (v, s2) = cpu_mem_read hk addr s1 in (0, upd_cpu (f v) s2))"

definition read_then_x ::
  "'d hooks \<Rightarrow> (u16 \<times> bool) \<times> 'd machine \<Rightarrow> (u8 \<Rightarrow> cpu6502_t \<Rightarrow> cpu6502_t) \<Rightarrow> nat \<times> 'd machine" where
  "read_then_x hk r f =
     (let ((addr, crossed), s1) = r; (v, s2) = cpu_mem_read hk addr s1
      in (if crossed then 1 else 0, upd_cpu (f v) s2))"

definition write_then ::
  "'d hooks \<Rightarrow> u16 \<times> 'd machine \<Rightarrow> (cpu6502_t \<Rightarrow> u8) \<Rightarrow> nat \<times> 'd machine" where
  "write_then hk r f = (let (addr, s1) = r in (0, cpu_mem_write hk addr (f (cpu s1)) s1))"

definition store_sax :: "cpu6502_t \<Rightarrow> u8" where
  "store_sax c = cpu_A c AND cpu_X c"

text \<open>\<open>op_rmw_mem\<close>: read, write the original back, apply, write the result.\<close>

definition op_rmw_mem :: "'d hooks \<Rightarrow> u16 \<Rightarrow> cpu_rmw_t \<Rightarrow> 'd machine \<Rightarrow> 'd machine" where
  "op_rmw_mem hk addr op s =
     (let (v, s1) = cpu_mem_read hk addr s;
          s2 = cpu_mem_write hk addr v s1;
          (v', c') = cpu_rmw_apply op v (cpu s2)
      in cpu_mem_write hk addr v' (s2\<lparr>cpu := c'\<rparr>))"

definition rmw_then :: "'d hooks \<Rightarrow> u16 \<times> 'd machine \<Rightarrow> cpu_rmw_t \<Rightarrow> nat \<times> 'd machine" where
  "rmw_then hk r op = (let (addr, s1) = r in (0, op_rmw_mem hk addr op s1))"

definition op_sh_store :: "'d hooks \<Rightarrow> u16 \<Rightarrow> u8 \<Rightarrow> u8 \<Rightarrow> 'd machine \<Rightarrow> 'd machine" where
  "op_sh_store hk addr idx reg s =
     (let (v, target) = cpu_sh_unstable (addr - ucast idx) addr reg
      in cpu_mem_write hk target v s)"

definition sh_then ::
  "'d hooks \<Rightarrow> (u16 \<times> bool) \<times> 'd machine \<Rightarrow> (cpu6502_t \<Rightarrow> u8) \<Rightarrow> (cpu6502_t \<Rightarrow> u8) \<Rightarrow> nat \<times> 'd machine" where
  "sh_then hk r idx reg =
     (let ((addr, _), s1) = r
      in (0, op_sh_store hk addr (idx (cpu s1)) (reg (cpu s1)) s1))"

definition do_branch :: "'d hooks \<Rightarrow> bool \<Rightarrow> 'd machine \<Rightarrow> nat \<times> 'd machine" where
  "do_branch hk condition s =
     (let (target, s1) = addr_relative hk s in
      if condition then
        (if page_crossed (cpu_PC (cpu s1)) target then 2 else 1, set_pc target s1)
      else (0, s1))"

section \<open>The cases\<close>

definition exec_load :: "'d hooks \<Rightarrow> u8 \<Rightarrow> 'd machine \<Rightarrow> (nat \<times> 'd machine) option" where
  "exec_load hk op s =
     (if op = 0xA9 then Some (read_then hk (addr_immediate s) op_lda)
      else if op = 0xA5 then Some (read_then hk (addr_zero_page hk s) op_lda)
      else if op = 0xB5 then Some (read_then hk (addr_zero_page_x hk s) op_lda)
      else if op = 0xAD then Some (read_then hk (addr_absolute hk s) op_lda)
      else if op = 0xBD then Some (read_then_x hk (addr_absolute_x hk s) op_lda)
      else if op = 0xB9 then Some (read_then_x hk (addr_absolute_y hk s) op_lda)
      else if op = 0xA1 then Some (read_then hk (addr_indexed_indirect hk s) op_lda)
      else if op = 0xB1 then Some (read_then_x hk (addr_indirect_indexed hk s) op_lda)
      else if op = 0xA2 then Some (read_then hk (addr_immediate s) op_ldx)
      else if op = 0xA6 then Some (read_then hk (addr_zero_page hk s) op_ldx)
      else if op = 0xB6 then Some (read_then hk (addr_zero_page_y hk s) op_ldx)
      else if op = 0xAE then Some (read_then hk (addr_absolute hk s) op_ldx)
      else if op = 0xBE then Some (read_then_x hk (addr_absolute_y hk s) op_ldx)
      else if op = 0xA0 then Some (read_then hk (addr_immediate s) op_ldy)
      else if op = 0xA4 then Some (read_then hk (addr_zero_page hk s) op_ldy)
      else if op = 0xB4 then Some (read_then hk (addr_zero_page_x hk s) op_ldy)
      else if op = 0xAC then Some (read_then hk (addr_absolute hk s) op_ldy)
      else if op = 0xBC then Some (read_then_x hk (addr_absolute_x hk s) op_ldy)
      else None)"

definition exec_store :: "'d hooks \<Rightarrow> u8 \<Rightarrow> 'd machine \<Rightarrow> (nat \<times> 'd machine) option" where
  "exec_store hk op s =
     (if op = 0x85 then Some (write_then hk (addr_zero_page hk s) cpu_A)
      else if op = 0x95 then Some (write_then hk (addr_zero_page_x hk s) cpu_A)
      else if op = 0x8D then Some (write_then hk (addr_absolute hk s) cpu_A)
      else if op = 0x9D then Some (write_then hk (no_cross (addr_absolute_x hk s)) cpu_A)
      else if op = 0x99 then Some (write_then hk (no_cross (addr_absolute_y hk s)) cpu_A)
      else if op = 0x81 then Some (write_then hk (addr_indexed_indirect hk s) cpu_A)
      else if op = 0x91 then Some (write_then hk (no_cross (addr_indirect_indexed hk s)) cpu_A)
      else if op = 0x86 then Some (write_then hk (addr_zero_page hk s) cpu_X)
      else if op = 0x96 then Some (write_then hk (addr_zero_page_y hk s) cpu_X)
      else if op = 0x8E then Some (write_then hk (addr_absolute hk s) cpu_X)
      else if op = 0x84 then Some (write_then hk (addr_zero_page hk s) cpu_Y)
      else if op = 0x94 then Some (write_then hk (addr_zero_page_x hk s) cpu_Y)
      else if op = 0x8C then Some (write_then hk (addr_absolute hk s) cpu_Y)
      else None)"

definition exec_arith :: "'d hooks \<Rightarrow> u8 \<Rightarrow> 'd machine \<Rightarrow> (nat \<times> 'd machine) option" where
  "exec_arith hk op s =
     (if op = 0x69 then Some (read_then hk (addr_immediate s) cpu_op_adc)
      else if op = 0x65 then Some (read_then hk (addr_zero_page hk s) cpu_op_adc)
      else if op = 0x75 then Some (read_then hk (addr_zero_page_x hk s) cpu_op_adc)
      else if op = 0x6D then Some (read_then hk (addr_absolute hk s) cpu_op_adc)
      else if op = 0x7D then Some (read_then_x hk (addr_absolute_x hk s) cpu_op_adc)
      else if op = 0x79 then Some (read_then_x hk (addr_absolute_y hk s) cpu_op_adc)
      else if op = 0x61 then Some (read_then hk (addr_indexed_indirect hk s) cpu_op_adc)
      else if op = 0x71 then Some (read_then_x hk (addr_indirect_indexed hk s) cpu_op_adc)
      else if op = 0xE9 then Some (read_then hk (addr_immediate s) cpu_op_sbc)
      else if op = 0xEB then Some (read_then hk (addr_immediate s) cpu_op_sbc)
      else if op = 0xE5 then Some (read_then hk (addr_zero_page hk s) cpu_op_sbc)
      else if op = 0xF5 then Some (read_then hk (addr_zero_page_x hk s) cpu_op_sbc)
      else if op = 0xED then Some (read_then hk (addr_absolute hk s) cpu_op_sbc)
      else if op = 0xFD then Some (read_then_x hk (addr_absolute_x hk s) cpu_op_sbc)
      else if op = 0xF9 then Some (read_then_x hk (addr_absolute_y hk s) cpu_op_sbc)
      else if op = 0xE1 then Some (read_then hk (addr_indexed_indirect hk s) cpu_op_sbc)
      else if op = 0xF1 then Some (read_then_x hk (addr_indirect_indexed hk s) cpu_op_sbc)
      else None)"

definition exec_logic :: "'d hooks \<Rightarrow> u8 \<Rightarrow> 'd machine \<Rightarrow> (nat \<times> 'd machine) option" where
  "exec_logic hk op s =
     (if op = 0x29 then Some (read_then hk (addr_immediate s) op_and)
      else if op = 0x25 then Some (read_then hk (addr_zero_page hk s) op_and)
      else if op = 0x35 then Some (read_then hk (addr_zero_page_x hk s) op_and)
      else if op = 0x2D then Some (read_then hk (addr_absolute hk s) op_and)
      else if op = 0x3D then Some (read_then_x hk (addr_absolute_x hk s) op_and)
      else if op = 0x39 then Some (read_then_x hk (addr_absolute_y hk s) op_and)
      else if op = 0x21 then Some (read_then hk (addr_indexed_indirect hk s) op_and)
      else if op = 0x31 then Some (read_then_x hk (addr_indirect_indexed hk s) op_and)
      else if op = 0x09 then Some (read_then hk (addr_immediate s) op_ora)
      else if op = 0x05 then Some (read_then hk (addr_zero_page hk s) op_ora)
      else if op = 0x15 then Some (read_then hk (addr_zero_page_x hk s) op_ora)
      else if op = 0x0D then Some (read_then hk (addr_absolute hk s) op_ora)
      else if op = 0x1D then Some (read_then_x hk (addr_absolute_x hk s) op_ora)
      else if op = 0x19 then Some (read_then_x hk (addr_absolute_y hk s) op_ora)
      else if op = 0x01 then Some (read_then hk (addr_indexed_indirect hk s) op_ora)
      else if op = 0x11 then Some (read_then_x hk (addr_indirect_indexed hk s) op_ora)
      else if op = 0x49 then Some (read_then hk (addr_immediate s) op_eor)
      else if op = 0x45 then Some (read_then hk (addr_zero_page hk s) op_eor)
      else if op = 0x55 then Some (read_then hk (addr_zero_page_x hk s) op_eor)
      else if op = 0x4D then Some (read_then hk (addr_absolute hk s) op_eor)
      else if op = 0x5D then Some (read_then_x hk (addr_absolute_x hk s) op_eor)
      else if op = 0x59 then Some (read_then_x hk (addr_absolute_y hk s) op_eor)
      else if op = 0x41 then Some (read_then hk (addr_indexed_indirect hk s) op_eor)
      else if op = 0x51 then Some (read_then_x hk (addr_indirect_indexed hk s) op_eor)
      else None)"

definition exec_compare :: "'d hooks \<Rightarrow> u8 \<Rightarrow> 'd machine \<Rightarrow> (nat \<times> 'd machine) option" where
  "exec_compare hk op s =
     (if op = 0xC9 then Some (read_then hk (addr_immediate s) op_cmp_a)
      else if op = 0xC5 then Some (read_then hk (addr_zero_page hk s) op_cmp_a)
      else if op = 0xD5 then Some (read_then hk (addr_zero_page_x hk s) op_cmp_a)
      else if op = 0xCD then Some (read_then hk (addr_absolute hk s) op_cmp_a)
      else if op = 0xDD then Some (read_then_x hk (addr_absolute_x hk s) op_cmp_a)
      else if op = 0xD9 then Some (read_then_x hk (addr_absolute_y hk s) op_cmp_a)
      else if op = 0xC1 then Some (read_then hk (addr_indexed_indirect hk s) op_cmp_a)
      else if op = 0xD1 then Some (read_then_x hk (addr_indirect_indexed hk s) op_cmp_a)
      else if op = 0xE0 then Some (read_then hk (addr_immediate s) op_cmp_x)
      else if op = 0xE4 then Some (read_then hk (addr_zero_page hk s) op_cmp_x)
      else if op = 0xEC then Some (read_then hk (addr_absolute hk s) op_cmp_x)
      else if op = 0xC0 then Some (read_then hk (addr_immediate s) op_cmp_y)
      else if op = 0xC4 then Some (read_then hk (addr_zero_page hk s) op_cmp_y)
      else if op = 0xCC then Some (read_then hk (addr_absolute hk s) op_cmp_y)
      else if op = 0x24 then Some (read_then hk (addr_zero_page hk s) op_bit)
      else if op = 0x2C then Some (read_then hk (addr_absolute hk s) op_bit)
      else None)"

definition exec_rmw :: "'d hooks \<Rightarrow> u8 \<Rightarrow> 'd machine \<Rightarrow> (nat \<times> 'd machine) option" where
  "exec_rmw hk op s =
     (if op = 0x0A then Some (0, upd_cpu op_asl_a s)
      else if op = 0x06 then Some (rmw_then hk (addr_zero_page hk s) RMW_ASL)
      else if op = 0x16 then Some (rmw_then hk (addr_zero_page_x hk s) RMW_ASL)
      else if op = 0x0E then Some (rmw_then hk (addr_absolute hk s) RMW_ASL)
      else if op = 0x1E then Some (rmw_then hk (no_cross (addr_absolute_x hk s)) RMW_ASL)
      else if op = 0x4A then Some (0, upd_cpu op_lsr_a s)
      else if op = 0x46 then Some (rmw_then hk (addr_zero_page hk s) RMW_LSR)
      else if op = 0x56 then Some (rmw_then hk (addr_zero_page_x hk s) RMW_LSR)
      else if op = 0x4E then Some (rmw_then hk (addr_absolute hk s) RMW_LSR)
      else if op = 0x5E then Some (rmw_then hk (no_cross (addr_absolute_x hk s)) RMW_LSR)
      else if op = 0x2A then Some (0, upd_cpu op_rol_a s)
      else if op = 0x26 then Some (rmw_then hk (addr_zero_page hk s) RMW_ROL)
      else if op = 0x36 then Some (rmw_then hk (addr_zero_page_x hk s) RMW_ROL)
      else if op = 0x2E then Some (rmw_then hk (addr_absolute hk s) RMW_ROL)
      else if op = 0x3E then Some (rmw_then hk (no_cross (addr_absolute_x hk s)) RMW_ROL)
      else if op = 0x6A then Some (0, upd_cpu op_ror_a s)
      else if op = 0x66 then Some (rmw_then hk (addr_zero_page hk s) RMW_ROR)
      else if op = 0x76 then Some (rmw_then hk (addr_zero_page_x hk s) RMW_ROR)
      else if op = 0x6E then Some (rmw_then hk (addr_absolute hk s) RMW_ROR)
      else if op = 0x7E then Some (rmw_then hk (no_cross (addr_absolute_x hk s)) RMW_ROR)
      else if op = 0xE6 then Some (rmw_then hk (addr_zero_page hk s) RMW_INC)
      else if op = 0xF6 then Some (rmw_then hk (addr_zero_page_x hk s) RMW_INC)
      else if op = 0xEE then Some (rmw_then hk (addr_absolute hk s) RMW_INC)
      else if op = 0xFE then Some (rmw_then hk (no_cross (addr_absolute_x hk s)) RMW_INC)
      else if op = 0xC6 then Some (rmw_then hk (addr_zero_page hk s) RMW_DEC)
      else if op = 0xD6 then Some (rmw_then hk (addr_zero_page_x hk s) RMW_DEC)
      else if op = 0xCE then Some (rmw_then hk (addr_absolute hk s) RMW_DEC)
      else if op = 0xDE then Some (rmw_then hk (no_cross (addr_absolute_x hk s)) RMW_DEC)
      else None)"

definition exec_registers :: "'d hooks \<Rightarrow> u8 \<Rightarrow> 'd machine \<Rightarrow> (nat \<times> 'd machine) option" where
  "exec_registers hk op s =
     (if op = 0xE8 then Some (0, upd_cpu (\<lambda>c. set_X_nz (cpu_X c + 1) c) s)
      else if op = 0xC8 then Some (0, upd_cpu (\<lambda>c. set_Y_nz (cpu_Y c + 1) c) s)
      else if op = 0xCA then Some (0, upd_cpu (\<lambda>c. set_X_nz (cpu_X c - 1) c) s)
      else if op = 0x88 then Some (0, upd_cpu (\<lambda>c. set_Y_nz (cpu_Y c - 1) c) s)
      else if op = 0xAA then Some (0, upd_cpu (\<lambda>c. set_X_nz (cpu_A c) c) s)
      else if op = 0x8A then Some (0, upd_cpu (\<lambda>c. set_A_nz (cpu_X c) c) s)
      else if op = 0xA8 then Some (0, upd_cpu (\<lambda>c. set_Y_nz (cpu_A c) c) s)
      else if op = 0x98 then Some (0, upd_cpu (\<lambda>c. set_A_nz (cpu_Y c) c) s)
      else if op = 0xBA then Some (0, upd_cpu (\<lambda>c. set_X_nz (cpu_SP c) c) s)
      else if op = 0x9A then Some (0, upd_cpu (\<lambda>c. c\<lparr>cpu_SP := cpu_X c\<rparr>) s)
      else None)"

definition exec_stack :: "'d hooks \<Rightarrow> u8 \<Rightarrow> 'd machine \<Rightarrow> (nat \<times> 'd machine) option" where
  "exec_stack hk op s =
     (if op = 0x48 then Some (0, cpu_push hk (cpu_A (cpu s)) s)
      else if op = 0x68 then Some (let (v, s1) = cpu_pull hk s in (0, upd_cpu (set_A_nz v) s1))
      else if op = 0x08 then Some (0, cpu_push hk (cpu_P (cpu s) OR FLAG_BREAK OR FLAG_UNUSED) s)
      else if op = 0x28 then Some (let (v, s1) = cpu_pull hk s in (0, upd_cpu (set_P_pulled v) s1))
      else None)"

definition exec_branch :: "'d hooks \<Rightarrow> u8 \<Rightarrow> 'd machine \<Rightarrow> (nat \<times> 'd machine) option" where
  "exec_branch hk op s =
     (if op = 0x10 then Some (do_branch hk (\<not> cpu_get_flag (cpu s) FLAG_NEGATIVE) s)
      else if op = 0x30 then Some (do_branch hk (cpu_get_flag (cpu s) FLAG_NEGATIVE) s)
      else if op = 0x50 then Some (do_branch hk (\<not> cpu_get_flag (cpu s) FLAG_OVERFLOW) s)
      else if op = 0x70 then Some (do_branch hk (cpu_get_flag (cpu s) FLAG_OVERFLOW) s)
      else if op = 0x90 then Some (do_branch hk (\<not> cpu_get_flag (cpu s) FLAG_CARRY) s)
      else if op = 0xB0 then Some (do_branch hk (cpu_get_flag (cpu s) FLAG_CARRY) s)
      else if op = 0xD0 then Some (do_branch hk (\<not> cpu_get_flag (cpu s) FLAG_ZERO) s)
      else if op = 0xF0 then Some (do_branch hk (cpu_get_flag (cpu s) FLAG_ZERO) s)
      else None)"

text \<open>JSR pushes between its two operand bytes; BRK skips its signature byte without reading it.\<close>

definition op_jsr :: "'d hooks \<Rightarrow> 'd machine \<Rightarrow> 'd machine" where
  "op_jsr hk s =
     (let (adl, s1) = cpu_fetch_byte hk s;
          s2 = cpu_push_word hk (cpu_PC (cpu s1)) s1;
          (adh, s3) = cpu_fetch_byte hk s2
      in set_pc (hilo adh adl) s3)"

definition op_rts :: "'d hooks \<Rightarrow> 'd machine \<Rightarrow> 'd machine" where
  "op_rts hk s = (let (a, s1) = cpu_pull_word hk s in set_pc (a + 1) s1)"

definition op_rti :: "'d hooks \<Rightarrow> 'd machine \<Rightarrow> 'd machine" where
  "op_rti hk s =
     (let (v, s1) = cpu_pull hk s;
          (a, s2) = cpu_pull_word hk (upd_cpu (set_P_pulled v) s1)
      in set_pc a s2)"

definition op_brk :: "'d hooks \<Rightarrow> 'd machine \<Rightarrow> 'd machine" where
  "op_brk hk s =
     (let s1 = set_pc (cpu_PC (cpu s) + 1) s;
          s2 = cpu_push_word hk (cpu_PC (cpu s1)) s1;
          s3 = cpu_push hk (cpu_P (cpu s2) OR FLAG_BREAK OR FLAG_UNUSED) s2;
          s4 = upd_cpu (cpu_set_flag FLAG_INTERRUPT True) s3;
          (lo, s5) = cpu_mem_read hk 0xFFFE s4;
          (hi, s6) = cpu_mem_read hk 0xFFFF s5
      in set_pc (hilo hi lo) s6)"

definition exec_jump :: "'d hooks \<Rightarrow> u8 \<Rightarrow> 'd machine \<Rightarrow> (nat \<times> 'd machine) option" where
  "exec_jump hk op s =
     (if op = 0x4C then Some (let (a, s1) = addr_absolute hk s in (0, set_pc a s1))
      else if op = 0x6C then Some (let (a, s1) = addr_indirect hk s in (0, set_pc a s1))
      else if op = 0x20 then Some (0, op_jsr hk s)
      else if op = 0x60 then Some (0, op_rts hk s)
      else if op = 0x40 then Some (0, op_rti hk s)
      else if op = 0x00 then Some (0, op_brk hk s)
      else None)"

definition exec_flags :: "'d hooks \<Rightarrow> u8 \<Rightarrow> 'd machine \<Rightarrow> (nat \<times> 'd machine) option" where
  "exec_flags hk op s =
     (if op = 0x18 then Some (0, upd_cpu (cpu_set_flag FLAG_CARRY False) s)
      else if op = 0x38 then Some (0, upd_cpu (cpu_set_flag FLAG_CARRY True) s)
      else if op = 0x58 then Some (0, upd_cpu (cpu_set_flag FLAG_INTERRUPT False) s)
      else if op = 0x78 then Some (0, upd_cpu (cpu_set_flag FLAG_INTERRUPT True) s)
      else if op = 0xD8 then Some (0, upd_cpu (cpu_set_flag FLAG_DECIMAL False) s)
      else if op = 0xF8 then Some (0, upd_cpu (cpu_set_flag FLAG_DECIMAL True) s)
      else if op = 0xB8 then Some (0, upd_cpu (cpu_set_flag FLAG_OVERFLOW False) s)
      else if op = 0xEA then Some (0, s)
      else None)"

definition exec_illegal_rmw :: "'d hooks \<Rightarrow> u8 \<Rightarrow> 'd machine \<Rightarrow> (nat \<times> 'd machine) option" where
  "exec_illegal_rmw hk op s =
     (if op = 0x07 then Some (rmw_then hk (addr_zero_page hk s) RMW_SLO)
      else if op = 0x17 then Some (rmw_then hk (addr_zero_page_x hk s) RMW_SLO)
      else if op = 0x0F then Some (rmw_then hk (addr_absolute hk s) RMW_SLO)
      else if op = 0x1F then Some (rmw_then hk (no_cross (addr_absolute_x hk s)) RMW_SLO)
      else if op = 0x1B then Some (rmw_then hk (no_cross (addr_absolute_y hk s)) RMW_SLO)
      else if op = 0x03 then Some (rmw_then hk (addr_indexed_indirect hk s) RMW_SLO)
      else if op = 0x13 then Some (rmw_then hk (no_cross (addr_indirect_indexed hk s)) RMW_SLO)
      else if op = 0x27 then Some (rmw_then hk (addr_zero_page hk s) RMW_RLA)
      else if op = 0x37 then Some (rmw_then hk (addr_zero_page_x hk s) RMW_RLA)
      else if op = 0x2F then Some (rmw_then hk (addr_absolute hk s) RMW_RLA)
      else if op = 0x3F then Some (rmw_then hk (no_cross (addr_absolute_x hk s)) RMW_RLA)
      else if op = 0x3B then Some (rmw_then hk (no_cross (addr_absolute_y hk s)) RMW_RLA)
      else if op = 0x23 then Some (rmw_then hk (addr_indexed_indirect hk s) RMW_RLA)
      else if op = 0x33 then Some (rmw_then hk (no_cross (addr_indirect_indexed hk s)) RMW_RLA)
      else if op = 0x47 then Some (rmw_then hk (addr_zero_page hk s) RMW_SRE)
      else if op = 0x57 then Some (rmw_then hk (addr_zero_page_x hk s) RMW_SRE)
      else if op = 0x4F then Some (rmw_then hk (addr_absolute hk s) RMW_SRE)
      else if op = 0x5F then Some (rmw_then hk (no_cross (addr_absolute_x hk s)) RMW_SRE)
      else if op = 0x5B then Some (rmw_then hk (no_cross (addr_absolute_y hk s)) RMW_SRE)
      else if op = 0x43 then Some (rmw_then hk (addr_indexed_indirect hk s) RMW_SRE)
      else if op = 0x53 then Some (rmw_then hk (no_cross (addr_indirect_indexed hk s)) RMW_SRE)
      else if op = 0x67 then Some (rmw_then hk (addr_zero_page hk s) RMW_RRA)
      else if op = 0x77 then Some (rmw_then hk (addr_zero_page_x hk s) RMW_RRA)
      else if op = 0x6F then Some (rmw_then hk (addr_absolute hk s) RMW_RRA)
      else if op = 0x7F then Some (rmw_then hk (no_cross (addr_absolute_x hk s)) RMW_RRA)
      else if op = 0x7B then Some (rmw_then hk (no_cross (addr_absolute_y hk s)) RMW_RRA)
      else if op = 0x63 then Some (rmw_then hk (addr_indexed_indirect hk s) RMW_RRA)
      else if op = 0x73 then Some (rmw_then hk (no_cross (addr_indirect_indexed hk s)) RMW_RRA)
      else if op = 0xC7 then Some (rmw_then hk (addr_zero_page hk s) RMW_DCP)
      else if op = 0xD7 then Some (rmw_then hk (addr_zero_page_x hk s) RMW_DCP)
      else if op = 0xCF then Some (rmw_then hk (addr_absolute hk s) RMW_DCP)
      else if op = 0xDF then Some (rmw_then hk (no_cross (addr_absolute_x hk s)) RMW_DCP)
      else if op = 0xDB then Some (rmw_then hk (no_cross (addr_absolute_y hk s)) RMW_DCP)
      else if op = 0xC3 then Some (rmw_then hk (addr_indexed_indirect hk s) RMW_DCP)
      else if op = 0xD3 then Some (rmw_then hk (no_cross (addr_indirect_indexed hk s)) RMW_DCP)
      else if op = 0xE7 then Some (rmw_then hk (addr_zero_page hk s) RMW_ISC)
      else if op = 0xF7 then Some (rmw_then hk (addr_zero_page_x hk s) RMW_ISC)
      else if op = 0xEF then Some (rmw_then hk (addr_absolute hk s) RMW_ISC)
      else if op = 0xFF then Some (rmw_then hk (no_cross (addr_absolute_x hk s)) RMW_ISC)
      else if op = 0xFB then Some (rmw_then hk (no_cross (addr_absolute_y hk s)) RMW_ISC)
      else if op = 0xE3 then Some (rmw_then hk (addr_indexed_indirect hk s) RMW_ISC)
      else if op = 0xF3 then Some (rmw_then hk (no_cross (addr_indirect_indexed hk s)) RMW_ISC)
      else None)"

definition exec_lax_sax :: "'d hooks \<Rightarrow> u8 \<Rightarrow> 'd machine \<Rightarrow> (nat \<times> 'd machine) option" where
  "exec_lax_sax hk op s =
     (if op = 0xA7 then Some (read_then hk (addr_zero_page hk s) cpu_op_lax)
      else if op = 0xB7 then Some (read_then hk (addr_zero_page_y hk s) cpu_op_lax)
      else if op = 0xAF then Some (read_then hk (addr_absolute hk s) cpu_op_lax)
      else if op = 0xBF then Some (read_then_x hk (addr_absolute_y hk s) cpu_op_lax)
      else if op = 0xA3 then Some (read_then hk (addr_indexed_indirect hk s) cpu_op_lax)
      else if op = 0xB3 then Some (read_then_x hk (addr_indirect_indexed hk s) cpu_op_lax)
      else if op = 0x87 then Some (write_then hk (addr_zero_page hk s) store_sax)
      else if op = 0x97 then Some (write_then hk (addr_zero_page_y hk s) store_sax)
      else if op = 0x8F then Some (write_then hk (addr_absolute hk s) store_sax)
      else if op = 0x83 then Some (write_then hk (addr_indexed_indirect hk s) store_sax)
      else None)"

text \<open>TAS sets the stack pointer between the address and the store.\<close>

definition op_tas :: "'d hooks \<Rightarrow> 'd machine \<Rightarrow> nat \<times> 'd machine" where
  "op_tas hk s =
     (let (r, s1) = addr_absolute_y hk s;
          s2 = set_sp (store_sax (cpu s1)) s1
      in sh_then hk (r, s2) cpu_Y cpu_SP)"

definition exec_unstable :: "'d hooks \<Rightarrow> u8 \<Rightarrow> 'd machine \<Rightarrow> (nat \<times> 'd machine) option" where
  "exec_unstable hk op s =
     (if op = 0x0B \<or> op = 0x2B then Some (read_then hk (addr_immediate s) op_anc)
      else if op = 0x4B then Some (read_then hk (addr_immediate s) op_alr)
      else if op = 0x6B then Some (read_then hk (addr_immediate s) op_arr)
      else if op = 0xCB then Some (read_then hk (addr_immediate s) op_sbx)
      else if op = 0x8B then Some (read_then hk (addr_immediate s) op_ane)
      else if op = 0xAB then Some (read_then hk (addr_immediate s) op_lxa)
      else if op = 0xBB then Some (read_then_x hk (addr_absolute_y hk s) op_las)
      else if op = 0x9F then Some (sh_then hk (addr_absolute_y hk s) cpu_Y store_sax)
      else if op = 0x93 then Some (sh_then hk (addr_indirect_indexed hk s) cpu_Y store_sax)
      else if op = 0x9E then Some (sh_then hk (addr_absolute_y hk s) cpu_Y cpu_X)
      else if op = 0x9C then Some (sh_then hk (addr_absolute_x hk s) cpu_X cpu_Y)
      else if op = 0x9B then Some (op_tas hk s)
      else None)"

definition exec_nop :: "'d hooks \<Rightarrow> u8 \<Rightarrow> 'd machine \<Rightarrow> (nat \<times> 'd machine) option" where
  "exec_nop hk op s =
     (if op = 0x80 \<or> op = 0x82 \<or> op = 0x89 \<or> op = 0xC2 \<or> op = 0xE2 then Some (read_then hk (addr_immediate s) op_none)
      else if op = 0x04 \<or> op = 0x44 \<or> op = 0x64 then Some (read_then hk (addr_zero_page hk s) op_none)
      else if op = 0x14 \<or> op = 0x34 \<or> op = 0x54 \<or> op = 0x74 \<or> op = 0xD4 \<or> op = 0xF4 then Some (read_then hk (addr_zero_page_x hk s) op_none)
      else if op = 0x0C then Some (read_then hk (addr_absolute hk s) op_none)
      else if op = 0x1C \<or> op = 0x3C \<or> op = 0x5C \<or> op = 0x7C \<or> op = 0xDC \<or> op = 0xFC then Some (read_then_x hk (addr_absolute_x hk s) op_none)
      else if op = 0x1A \<or> op = 0x3A \<or> op = 0x5A \<or> op = 0x7A \<or> op = 0xDA \<or> op = 0xFA then Some (0, s)
      else if op = 0x02 \<or> op = 0x12 \<or> op = 0x22 \<or> op = 0x32 \<or> op = 0x42 \<or> op = 0x52 \<or> op = 0x62 \<or> op = 0x72 \<or> op = 0x92 \<or> op = 0xB2 \<or> op = 0xD2 \<or> op = 0xF2 then Some (0, upd_cpu (\<lambda>c. c\<lparr>halted := True\<rparr>) s)
      else None)"

text \<open>The safety net of the \<open>switch\<close> fetches the operand bytes of the opcode.\<close>

fun fetch_n :: "'d hooks \<Rightarrow> nat \<Rightarrow> 'd machine \<Rightarrow> 'd machine" where
  "fetch_n hk 0 s = s"
| "fetch_n hk (Suc n) s = fetch_n hk n (snd (cpu_fetch_byte hk s))"

definition orelse :: "'a option \<Rightarrow> 'a option \<Rightarrow> 'a option" where
  "orelse x y = (case x of Some v \<Rightarrow> Some v | None \<Rightarrow> y)"

definition exec_case :: "'d hooks \<Rightarrow> u8 \<Rightarrow> 'd machine \<Rightarrow> (nat \<times> 'd machine) option" where
  "exec_case hk op s =
     orelse (exec_load hk op s) (orelse (exec_store hk op s) (orelse (exec_arith hk op s)
    (orelse (exec_logic hk op s) (orelse (exec_compare hk op s) (orelse (exec_rmw hk op s)
    (orelse (exec_registers hk op s) (orelse (exec_stack hk op s) (orelse (exec_branch hk op s)
    (orelse (exec_jump hk op s) (orelse (exec_flags hk op s) (orelse (exec_illegal_rmw hk op s)
    (orelse (exec_lax_sax hk op s) (orelse (exec_unstable hk op s) (exec_nop hk op s))))))))))))))"

definition cpu_execute_opcode :: "'d hooks \<Rightarrow> u8 \<Rightarrow> 'd machine \<Rightarrow> nat \<times> 'd machine" where
  "cpu_execute_opcode hk op s =
     (case exec_case hk op s of
        Some (extra, s') \<Rightarrow> (opcode_cycles op + extra, s')
      | None \<Rightarrow> (opcode_cycles op, fetch_n hk (opcode_size op - 1) s))"

section \<open>Interrupts and instruction step\<close>

definition handle_nmi :: "'d hooks \<Rightarrow> 'd machine \<Rightarrow> 'd machine" where
  "handle_nmi hk s =
     (let s1 = cpu_push_word hk (cpu_PC (cpu s)) s;
          s2 = cpu_push hk ((cpu_P (cpu s1) AND NOT FLAG_BREAK) OR FLAG_UNUSED) s1;
          s3 = upd_cpu (cpu_set_flag FLAG_INTERRUPT True) s2;
          (lo, s4) = cpu_mem_read hk 0xFFFA s3;
          (hi, s5) = cpu_mem_read hk 0xFFFB s4;
          s6 = set_pc (hilo hi lo) s5
      in s6\<lparr>board := (board s6)\<lparr>nmi_pending := False\<rparr>\<rparr>)"

text \<open>
  \<open>--trace-irq\<close>: two plain memory reads of the VIA flags, one line printed and counted.  The
  line itself is not modelled.
\<close>

definition cpu_irq_trace_entry :: "'d hooks \<Rightarrow> 'd machine \<Rightarrow> 'd machine" where
  "cpu_irq_trace_entry hk s =
     (if \<not> irq_trace_fp (cpu s) then s
      else
        let b1 = snd (memory_read hk 0x030D (board s));
            b2 = snd (memory_read hk 0x030E b1)
        in s\<lparr>board := b2, cpu := (cpu s)\<lparr>irq_trace_count := irq_trace_count (cpu s) + 1\<rparr>\<rparr>)"

definition handle_irq :: "'d hooks \<Rightarrow> 'd machine \<Rightarrow> 'd machine" where
  "handle_irq hk s =
     (let s1 = cpu_push_word hk (cpu_PC (cpu s)) s;
          s2 = cpu_push hk ((cpu_P (cpu s1) AND NOT FLAG_BREAK) OR FLAG_UNUSED) s1;
          s3 = upd_cpu (cpu_set_flag FLAG_INTERRUPT True) s2;
          (lo, s4) = cpu_mem_read hk 0xFFFE s3;
          (hi, s5) = cpu_mem_read hk 0xFFFF s4
      in cpu_irq_trace_entry hk (set_pc (hilo hi lo) s5))"

text \<open>Padding up to the official cycle count.\<close>

definition pad_to :: "'d hooks \<Rightarrow> nat \<Rightarrow> nat \<Rightarrow> 'd machine \<Rightarrow> 'd machine" where
  "pad_to hk before cyc s =
     (let done = cycles (cpu s) - before in if done < cyc then cpu_tick hk (cyc - done) s else s)"

definition cpu_step_legacy :: "'d hooks \<Rightarrow> 'd machine \<Rightarrow> nat \<times> 'd machine" where
  "cpu_step_legacy hk s =
     (if halted (cpu s) then (0, s)
      else if nmi_pending (board s) then
        (7, pad_to hk (cycles (cpu s)) 7 (handle_nmi hk s))
      else if irq_asserted (board s) \<and> \<not> cpu_get_flag (cpu s) FLAG_INTERRUPT then
        (let s1 = (if irq_pulse (board s) \<noteq> 0
                   then s\<lparr>board := (board s)\<lparr>irq_pulse := irq_pulse (board s) - 1\<rparr>\<rparr> else s)
         in (7, pad_to hk (cycles (cpu s1)) 7 (handle_irq hk s1)))
      else
        (let before = cycles (cpu s);
             (op, s1) = cpu_fetch_byte hk s;
             (cyc, s2) = cpu_execute_opcode hk op s1
         in (cyc, pad_to hk before cyc s2)))"

definition cpu_init :: cpu6502_t where
  "cpu_init = \<lparr>cpu_A = 0, cpu_X = 0, cpu_Y = 0, cpu_SP = 0, cpu_PC = 0,
     cpu_P = FLAG_UNUSED OR FLAG_INTERRUPT, cycles = 0, halted = False, irq_trace_fp = False,
     irq_trace_count = 0, ms_enabled = True, ms_active = False, ms_opcode = 0, ms_pc = 0,
     ms_plan = [], ms_rmw = RMW_ASL, ms_idx = 0, ms_ptr = 0, ms_adl = 0, ms_data = 0,
     ms_addr = 0, ms_base = 0, ms_crossed = False, ms_nmi_sampled = False,
     ms_irq_sampled = False, ms_vector = 0\<rparr>"

definition cpu_reset :: "'d hooks \<Rightarrow> 'd machine \<Rightarrow> 'd machine" where
  "cpu_reset hk s =
     (let (pc, b) = memory_read_word hk 0xFFFC (board s)
      in s\<lparr>board := b\<lparr>nmi_pending := False, irq := 0, irq_pulse := 0\<rparr>,
           cpu := (cpu s)\<lparr>cpu_PC := pc, cpu_SP := 0xFD, cpu_P := FLAG_UNUSED OR FLAG_INTERRUPT,
             cycles := 0, halted := False, ms_active := False, ms_nmi_sampled := False,
             ms_irq_sampled := False\<rparr>\<rparr>)"

end
