(* ===== verification/Microseq.thy ===== *)
theory Microseq
  imports Cpu_Opcodes
begin

unbundle bit_operations_syntax

text \<open>
  The cycle-by-cycle engine (\<open>src/cpu/microseq.c\<close>): the classes of the 256 opcodes, the plan
  of micro-operations built from the class and the addressing mode, the routing of operands
  to the shared arithmetic, and \<open>cpu_cycle\<close>, which executes one micro-operation.
\<close>

section \<open>Classes of the opcodes\<close>

datatype ms_class =
  C_IMPLIED | C_READ | C_WRITE | C_WRITE_UNSTABLE | C_RMW | C_BRANCH | C_JMP | C_JMP_IND
  | C_JSR | C_RTS | C_RTI | C_PUSH_A | C_PUSH_P | C_PULL_A | C_PULL_P | C_BRK | C_JAM

definition ms_reads :: "u8 list" where
  "ms_reads =
    [0x09, 0x05, 0x15, 0x0D, 0x1D, 0x19, 0x01, 0x11, 0x29, 0x25, 0x35, 0x2D,
     0x3D, 0x39, 0x21, 0x31, 0x49, 0x45, 0x55, 0x4D, 0x5D, 0x59, 0x41, 0x51,
     0x69, 0x65, 0x75, 0x6D, 0x7D, 0x79, 0x61, 0x71, 0xE9, 0xEB, 0xE5, 0xF5,
     0xED, 0xFD, 0xF9, 0xE1, 0xF1, 0xC9, 0xC5, 0xD5, 0xCD, 0xDD, 0xD9, 0xC1,
     0xD1, 0xE0, 0xE4, 0xEC, 0xC0, 0xC4, 0xCC, 0xA9, 0xA5, 0xB5, 0xAD, 0xBD,
     0xB9, 0xA1, 0xB1, 0xA2, 0xA6, 0xB6, 0xAE, 0xBE, 0xA0, 0xA4, 0xB4, 0xAC,
     0xBC, 0x24, 0x2C, 0xA7, 0xB7, 0xAF, 0xBF, 0xA3, 0xB3, 0x0B, 0x2B, 0x4B,
     0x6B, 0x8B, 0xAB, 0xCB, 0xBB, 0x80, 0x82, 0x89, 0xC2, 0xE2, 0x04, 0x44,
     0x64, 0x14, 0x34, 0x54, 0x74, 0xD4, 0xF4, 0x0C, 0x1C, 0x3C, 0x5C, 0x7C,
     0xDC, 0xFC]"

definition ms_writes :: "u8 list" where
  "ms_writes =
    [0x85, 0x95, 0x8D, 0x9D, 0x99, 0x81, 0x91, 0x86, 0x96, 0x8E, 0x84, 0x94,
     0x8C, 0x87, 0x97, 0x8F, 0x83]"

definition ms_unstable :: "u8 list" where
  "ms_unstable = [0x93, 0x9B, 0x9C, 0x9E, 0x9F]"

definition ms_rmws :: "(u8 \<times> cpu_rmw_t) list" where
  "ms_rmws =
    [(0x06, RMW_ASL), (0x16, RMW_ASL), (0x0E, RMW_ASL), (0x1E, RMW_ASL), (0x46, RMW_LSR),
     (0x56, RMW_LSR), (0x4E, RMW_LSR), (0x5E, RMW_LSR), (0x26, RMW_ROL), (0x36, RMW_ROL),
     (0x2E, RMW_ROL), (0x3E, RMW_ROL), (0x66, RMW_ROR), (0x76, RMW_ROR), (0x6E, RMW_ROR),
     (0x7E, RMW_ROR), (0xE6, RMW_INC), (0xF6, RMW_INC), (0xEE, RMW_INC), (0xFE, RMW_INC),
     (0xC6, RMW_DEC), (0xD6, RMW_DEC), (0xCE, RMW_DEC), (0xDE, RMW_DEC), (0x07, RMW_SLO),
     (0x17, RMW_SLO), (0x0F, RMW_SLO), (0x1F, RMW_SLO), (0x1B, RMW_SLO), (0x03, RMW_SLO),
     (0x13, RMW_SLO), (0x27, RMW_RLA), (0x37, RMW_RLA), (0x2F, RMW_RLA), (0x3F, RMW_RLA),
     (0x3B, RMW_RLA), (0x23, RMW_RLA), (0x33, RMW_RLA), (0x47, RMW_SRE), (0x57, RMW_SRE),
     (0x4F, RMW_SRE), (0x5F, RMW_SRE), (0x5B, RMW_SRE), (0x43, RMW_SRE), (0x53, RMW_SRE),
     (0x67, RMW_RRA), (0x77, RMW_RRA), (0x6F, RMW_RRA), (0x7F, RMW_RRA), (0x7B, RMW_RRA),
     (0x63, RMW_RRA), (0x73, RMW_RRA), (0xC7, RMW_DCP), (0xD7, RMW_DCP), (0xCF, RMW_DCP),
     (0xDF, RMW_DCP), (0xDB, RMW_DCP), (0xC3, RMW_DCP), (0xD3, RMW_DCP), (0xE7, RMW_ISC),
     (0xF7, RMW_ISC), (0xEF, RMW_ISC), (0xFF, RMW_ISC), (0xFB, RMW_ISC), (0xE3, RMW_ISC),
     (0xF3, RMW_ISC)]"

definition ms_branches :: "u8 list" where
  "ms_branches = [0x10, 0x30, 0x50, 0x70, 0x90, 0xB0, 0xD0, 0xF0]"

definition ms_singles :: "(u8 \<times> ms_class) list" where
  "ms_singles =
    [(0x4C, C_JMP), (0x6C, C_JMP_IND), (0x20, C_JSR), (0x60, C_RTS), (0x40, C_RTI),
     (0x00, C_BRK), (0x48, C_PUSH_A), (0x08, C_PUSH_P), (0x68, C_PULL_A), (0x28, C_PULL_P)]"

definition ms_jams :: "u8 list" where
  "ms_jams = [0x02, 0x12, 0x22, 0x32, 0x42, 0x52, 0x62, 0x72, 0x92, 0xB2, 0xD2, 0xF2]"

text \<open>
  \<open>ms_build_table\<close>: every entry starts implied with operation 0 (\<open>RMW_ASL\<close>), then each array
  overwrites its opcodes in turn.
\<close>

type_synonym ms_info_t = "ms_class \<times> cpu_rmw_t"

definition ms_set :: "u8 \<Rightarrow> ms_class \<Rightarrow> cpu_rmw_t \<Rightarrow> (u8 \<Rightarrow> ms_info_t) \<Rightarrow> u8 \<Rightarrow> ms_info_t" where
  "ms_set op cls rmw t = t(op := (cls, rmw))"

definition ms_set_all :: "u8 list \<Rightarrow> ms_class \<Rightarrow> (u8 \<Rightarrow> ms_info_t) \<Rightarrow> u8 \<Rightarrow> ms_info_t" where
  "ms_set_all ops cls t = fold (\<lambda>op. ms_set op cls RMW_ASL) ops t"

definition ms_table :: "u8 \<Rightarrow> ms_info_t" where
  "ms_table =
     (let t0 = (\<lambda>_. (C_IMPLIED, RMW_ASL));
          t1 = ms_set_all ms_reads C_READ t0;
          t2 = ms_set_all ms_writes C_WRITE t1;
          t3 = ms_set_all ms_unstable C_WRITE_UNSTABLE t2;
          t4 = fold (\<lambda>(op, rmw). ms_set op C_RMW rmw) ms_rmws t3;
          t5 = ms_set_all ms_branches C_BRANCH t4;
          t6 = fold (\<lambda>(op, cls). ms_set op cls RMW_ASL) ms_singles t5
      in ms_set_all ms_jams C_JAM t6)"

definition ms_cls :: "u8 \<Rightarrow> ms_class" where
  "ms_cls op = fst (ms_table op)"

definition ms_rmw_op :: "u8 \<Rightarrow> cpu_rmw_t" where
  "ms_rmw_op op = snd (ms_table op)"

section \<open>Plans\<close>

definition plan_add :: "mop \<Rightarrow> mop list \<Rightarrow> mop list" where
  "plan_add m plan = (if length plan < 10 then plan @ [m] else plan)"

definition plan_adds :: "mop list \<Rightarrow> mop list \<Rightarrow> mop list" where
  "plan_adds ms plan = fold plan_add ms plan"

fun plan_addressing :: "addressing_mode_t \<Rightarrow> bool \<Rightarrow> mop list \<Rightarrow> mop list" where
  "plan_addressing ADDR_IMMEDIATE _ = plan_adds []"
| "plan_addressing ADDR_ZERO_PAGE _ = plan_adds [M_FETCH_LO]"
| "plan_addressing ADDR_ZERO_PAGE_X _ = plan_adds [M_FETCH_LO, M_ZP_INDEX]"
| "plan_addressing ADDR_ZERO_PAGE_Y _ = plan_adds [M_FETCH_LO, M_ZP_INDEX]"
| "plan_addressing ADDR_ABSOLUTE _ = plan_adds [M_FETCH_LO, M_FETCH_HI]"
| "plan_addressing ADDR_ABSOLUTE_X d =
     plan_adds [M_FETCH_LO, M_FETCH_HI, if d then M_DUMMY_UNFIXED else M_READ_FIXUP]"
| "plan_addressing ADDR_ABSOLUTE_Y d =
     plan_adds [M_FETCH_LO, M_FETCH_HI, if d then M_DUMMY_UNFIXED else M_READ_FIXUP]"
| "plan_addressing ADDR_INDEXED_INDIRECT _ =
     plan_adds [M_FETCH_LO, M_ZP_INDEX, M_PTR_LO, M_PTR_HI]"
| "plan_addressing ADDR_INDIRECT_INDEXED d =
     plan_adds [M_FETCH_LO, M_PTR_LO, M_PTR_HI, if d then M_DUMMY_UNFIXED else M_READ_FIXUP]"
| "plan_addressing _ _ = plan_adds []"

fun class_plan :: "ms_class \<Rightarrow> addressing_mode_t \<Rightarrow> mop list" where
  "class_plan C_READ mode =
     (if mode = ADDR_IMMEDIATE then plan_adds [M_IMM] []
      else plan_adds [M_READ_DATA] (plan_addressing mode False []))"
| "class_plan C_WRITE mode = plan_adds [M_WRITE_DATA] (plan_addressing mode True [])"
| "class_plan C_WRITE_UNSTABLE mode = plan_adds [M_WRITE_DATA] (plan_addressing mode True [])"
| "class_plan C_RMW mode =
     (if mode = ADDR_ACCUMULATOR then plan_adds [M_IMPLIED] []
      else plan_adds [M_READ_DATA, M_RMW_ORIG, M_RMW_NEW] (plan_addressing mode True []))"
| "class_plan C_BRANCH _ = plan_adds [M_FETCH_LO, M_BRANCH_TAKEN, M_BRANCH_PAGE] []"
| "class_plan C_JMP _ = plan_adds [M_FETCH_LO, M_JMP_HI] []"
| "class_plan C_JMP_IND _ = plan_adds [M_FETCH_LO, M_FETCH_HI, M_JMP_IND_LO, M_JMP_IND_HI] []"
| "class_plan C_JSR _ =
     plan_adds [M_FETCH_LO, M_STACK_DUMMY, M_PUSH_PCH, M_PUSH_PCL, M_JSR_HI] []"
| "class_plan C_RTS _ =
     plan_adds [M_DUMMY_PC, M_STACK_DUMMY, M_PULL_PCL, M_PULL_PCH, M_RTS_FIXUP] []"
| "class_plan C_RTI _ =
     plan_adds [M_DUMMY_PC, M_STACK_DUMMY, M_PULL_P, M_PULL_PCL, M_PULL_PCH] []"
| "class_plan C_PUSH_A _ = plan_adds [M_DUMMY_PC, M_PUSH_A] []"
| "class_plan C_PUSH_P _ = plan_adds [M_DUMMY_PC, M_PUSH_P_BRK] []"
| "class_plan C_PULL_A _ = plan_adds [M_DUMMY_PC, M_STACK_DUMMY, M_PULL_A] []"
| "class_plan C_PULL_P _ = plan_adds [M_DUMMY_PC, M_STACK_DUMMY, M_PULL_P] []"
| "class_plan C_BRK _ =
     plan_adds [M_BRK_SIGN, M_PUSH_PCH, M_PUSH_PCL, M_PUSH_P_BRK, M_VEC_LO, M_VEC_HI] []"
| "class_plan C_JAM _ = plan_adds [M_JAM] []"
| "class_plan C_IMPLIED _ = plan_adds [M_IMPLIED] []"

definition mode_index :: "addressing_mode_t \<Rightarrow> nat" where
  "mode_index mode =
     (if mode = ADDR_ABSOLUTE_X \<or> mode = ADDR_ZERO_PAGE_X \<or> mode = ADDR_INDEXED_INDIRECT then 1
      else if mode = ADDR_ABSOLUTE_Y \<or> mode = ADDR_ZERO_PAGE_Y \<or> mode = ADDR_INDIRECT_INDEXED
      then 2 else 0)"

definition ms_build_plan :: "u8 \<Rightarrow> cpu6502_t \<Rightarrow> cpu6502_t" where
  "ms_build_plan op c =
     (let c1 = c\<lparr>ms_pc := 0, ms_opcode := op, ms_rmw := ms_rmw_op op, ms_crossed := False,
                 ms_idx := mode_index (opcode_mode op),
                 ms_plan := class_plan (ms_cls op) (opcode_mode op)\<rparr>
      in if ms_cls op = C_BRK then c1\<lparr>ms_vector := 0xFFFE\<rparr> else c1)"

definition ms_build_interrupt :: "u16 \<Rightarrow> cpu6502_t \<Rightarrow> cpu6502_t" where
  "ms_build_interrupt vector c =
     c\<lparr>ms_pc := 0, ms_opcode := 0, ms_crossed := False, ms_vector := vector,
       ms_base := cpu_PC c,
       ms_plan := plan_adds [M_DUMMY_PC, M_PUSH_PCH, M_PUSH_PCL, M_PUSH_P, M_VEC_LO, M_VEC_HI] []\<rparr>"

section \<open>Routing of the operands\<close>

text \<open>The ARR case of \<open>ms_alu_read\<close>, with the decimal correction.\<close>

definition ms_arr :: "u8 \<Rightarrow> cpu6502_t \<Rightarrow> cpu6502_t" where
  "ms_arr v c =
     (let t = cpu_A c AND v;
          r = drop_bit 1 t OR (if cpu_get_flag c FLAG_CARRY then 0x80 else 0);
          c1 = cpu_update_nz r c;
          c2 = cpu_set_flag FLAG_OVERFLOW ((r XOR t) AND 0x40 \<noteq> 0) c1
      in if cpu_get_flag c2 FLAG_DECIMAL then
           let r1 = (if (ucast (t AND 0x0F) :: u16) + ucast (t AND 0x01) > 0x05
                     then (r AND 0xF0) OR ((r + 0x06) AND 0x0F) else r);
               high = (ucast (t AND 0xF0) :: u16) + ucast (t AND 0x10) > 0x50
           in set_A (if high then r1 + 0x60 else r1) (cpu_set_flag FLAG_CARRY high c2)
         else set_A r (cpu_set_flag FLAG_CARRY (t AND 0x80 \<noteq> 0) c2))"

definition ms_alu_read :: "u8 \<Rightarrow> u8 \<Rightarrow> cpu6502_t \<Rightarrow> cpu6502_t" where
  "ms_alu_read op v c =
     (if op = 0x09 \<or> op = 0x05 \<or> op = 0x15 \<or> op = 0x0D \<or>
         op = 0x1D \<or> op = 0x19 \<or> op = 0x01 \<or> op = 0x11
      then (let a = cpu_A c OR v in cpu_update_nz a (set_A a c))
      else if op = 0x29 \<or> op = 0x25 \<or> op = 0x35 \<or> op = 0x2D \<or>
         op = 0x3D \<or> op = 0x39 \<or> op = 0x21 \<or> op = 0x31
      then (let a = cpu_A c AND v in cpu_update_nz a (set_A a c))
      else if op = 0x49 \<or> op = 0x45 \<or> op = 0x55 \<or> op = 0x4D \<or>
         op = 0x5D \<or> op = 0x59 \<or> op = 0x41 \<or> op = 0x51
      then (let a = cpu_A c XOR v in cpu_update_nz a (set_A a c))
      else if op = 0x69 \<or> op = 0x65 \<or> op = 0x75 \<or> op = 0x6D \<or>
         op = 0x7D \<or> op = 0x79 \<or> op = 0x61 \<or> op = 0x71
      then (cpu_op_adc v c)
      else if op = 0xE9 \<or> op = 0xEB \<or> op = 0xE5 \<or> op = 0xF5 \<or>
         op = 0xED \<or> op = 0xFD \<or> op = 0xF9 \<or> op = 0xE1 \<or>
         op = 0xF1
      then (cpu_op_sbc v c)
      else if op = 0xC9 \<or> op = 0xC5 \<or> op = 0xD5 \<or> op = 0xCD \<or>
         op = 0xDD \<or> op = 0xD9 \<or> op = 0xC1 \<or> op = 0xD1
      then (cpu_op_cmp (cpu_A c) v c)
      else if op = 0xE0 \<or> op = 0xE4 \<or> op = 0xEC
      then (cpu_op_cmp (cpu_X c) v c)
      else if op = 0xC0 \<or> op = 0xC4 \<or> op = 0xCC
      then (cpu_op_cmp (cpu_Y c) v c)
      else if op = 0xA9 \<or> op = 0xA5 \<or> op = 0xB5 \<or> op = 0xAD \<or>
         op = 0xBD \<or> op = 0xB9 \<or> op = 0xA1 \<or> op = 0xB1
      then (cpu_update_nz v (set_A v c))
      else if op = 0xA2 \<or> op = 0xA6 \<or> op = 0xB6 \<or> op = 0xAE \<or>
         op = 0xBE
      then (cpu_update_nz v (c\<lparr>cpu_X := v\<rparr>))
      else if op = 0xA0 \<or> op = 0xA4 \<or> op = 0xB4 \<or> op = 0xAC \<or>
         op = 0xBC
      then (cpu_update_nz v (c\<lparr>cpu_Y := v\<rparr>))
      else if op = 0x24 \<or> op = 0x2C
      then (let c1 = cpu_set_flag FLAG_ZERO (cpu_A c AND v = 0) c;
             c2 = cpu_set_flag FLAG_OVERFLOW (v AND 0x40 \<noteq> 0) c1
         in cpu_set_flag FLAG_NEGATIVE (v AND 0x80 \<noteq> 0) c2)
      else if op = 0xA7 \<or> op = 0xB7 \<or> op = 0xAF \<or> op = 0xBF \<or>
         op = 0xA3 \<or> op = 0xB3
      then (cpu_op_lax v c)
      else if op = 0x0B \<or> op = 0x2B
      then (let a = cpu_A c AND v
         in cpu_set_flag FLAG_CARRY (a AND 0x80 \<noteq> 0) (cpu_update_nz a (set_A a c)))
      else if op = 0x4B
      then (let a = cpu_A c AND v;
             c1 = cpu_set_flag FLAG_CARRY (a AND 0x01 \<noteq> 0) (set_A a c);
             c2 = set_A (drop_bit 1 a) c1
         in cpu_update_nz (cpu_A c2) c2)
      else if op = 0x6B
      then (ms_arr v c)
      else if op = 0x8B
      then (let a = (cpu_A c OR 0xEE) AND cpu_X c AND v in cpu_update_nz a (set_A a c))
      else if op = 0xAB
      then (let a = (cpu_A c OR 0xEE) AND v in cpu_update_nz a (c\<lparr>cpu_A := a, cpu_X := a\<rparr>))
      else if op = 0xCB
      then (let tmp = cpu_A c AND cpu_X c;
             c1 = cpu_set_flag FLAG_CARRY (tmp \<ge> v) c;
             c2 = c1\<lparr>cpu_X := tmp - v\<rparr>
         in cpu_update_nz (cpu_X c2) c2)
      else if op = 0xBB
      then (let r = v AND cpu_SP c
         in cpu_update_nz r (c\<lparr>cpu_A := r, cpu_X := r, cpu_SP := r\<rparr>))
      else c)"

definition ms_store_value :: "u8 \<Rightarrow> cpu6502_t \<Rightarrow> u8" where
  "ms_store_value op c =
     (if op = 0x85 \<or> op = 0x95 \<or> op = 0x8D \<or> op = 0x9D \<or> op = 0x99 \<or> op = 0x81 \<or> op = 0x91
      then cpu_A c
      else if op = 0x86 \<or> op = 0x96 \<or> op = 0x8E then cpu_X c
      else if op = 0x84 \<or> op = 0x94 \<or> op = 0x8C then cpu_Y c
      else if op = 0x87 \<or> op = 0x97 \<or> op = 0x8F \<or> op = 0x83 then cpu_A c AND cpu_X c
      else cpu_A c)"

definition ms_accumulator :: "cpu_rmw_t \<Rightarrow> cpu6502_t \<Rightarrow> cpu6502_t" where
  "ms_accumulator rmw c = (let (v, c1) = cpu_rmw_apply rmw (cpu_A c) c in set_A v c1)"

definition ms_implied :: "u8 \<Rightarrow> cpu6502_t \<Rightarrow> cpu6502_t" where
  "ms_implied op c =
     (if op = 0x18 then cpu_set_flag FLAG_CARRY False c
      else if op = 0x38 then cpu_set_flag FLAG_CARRY True c
      else if op = 0x58 then cpu_set_flag FLAG_INTERRUPT False c
      else if op = 0x78 then cpu_set_flag FLAG_INTERRUPT True c
      else if op = 0xB8 then cpu_set_flag FLAG_OVERFLOW False c
      else if op = 0xD8 then cpu_set_flag FLAG_DECIMAL False c
      else if op = 0xF8 then cpu_set_flag FLAG_DECIMAL True c
      else if op = 0xAA then set_X_nz (cpu_A c) c
      else if op = 0x8A then set_A_nz (cpu_X c) c
      else if op = 0xA8 then set_Y_nz (cpu_A c) c
      else if op = 0x98 then set_A_nz (cpu_Y c) c
      else if op = 0xBA then set_X_nz (cpu_SP c) c
      else if op = 0x9A then c\<lparr>cpu_SP := cpu_X c\<rparr>
      else if op = 0xE8 then set_X_nz (cpu_X c + 1) c
      else if op = 0xCA then set_X_nz (cpu_X c - 1) c
      else if op = 0xC8 then set_Y_nz (cpu_Y c + 1) c
      else if op = 0x88 then set_Y_nz (cpu_Y c - 1) c
      else if op = 0x0A then ms_accumulator RMW_ASL c
      else if op = 0x4A then ms_accumulator RMW_LSR c
      else if op = 0x2A then ms_accumulator RMW_ROL c
      else if op = 0x6A then ms_accumulator RMW_ROR c
      else c)"

definition ms_branch_taken :: "u8 \<Rightarrow> cpu6502_t \<Rightarrow> bool" where
  "ms_branch_taken op c =
     (if op = 0x10 then \<not> cpu_get_flag c FLAG_NEGATIVE
      else if op = 0x30 then cpu_get_flag c FLAG_NEGATIVE
      else if op = 0x50 then \<not> cpu_get_flag c FLAG_OVERFLOW
      else if op = 0x70 then cpu_get_flag c FLAG_OVERFLOW
      else if op = 0x90 then \<not> cpu_get_flag c FLAG_CARRY
      else if op = 0xB0 then cpu_get_flag c FLAG_CARRY
      else if op = 0xD0 then \<not> cpu_get_flag c FLAG_ZERO
      else if op = 0xF0 then cpu_get_flag c FLAG_ZERO
      else False)"

section \<open>One cycle\<close>

definition ms_apply_index :: "cpu6502_t \<Rightarrow> cpu6502_t" where
  "ms_apply_index c =
     (let idx = (if ms_idx c = 1 then cpu_X c else if ms_idx c = 2 then cpu_Y c else 0);
          base = ms_addr c;
          addr = base + ucast idx
      in c\<lparr>ms_base := base, ms_addr := addr, ms_crossed := page_crossed base addr\<rparr>)"

definition ms_unfixed :: "cpu6502_t \<Rightarrow> u16" where
  "ms_unfixed c = (ms_base c AND 0xFF00) OR (ms_addr c AND 0x00FF)"

definition ms_nmi_hijack :: "'d machine \<Rightarrow> 'd machine" where
  "ms_nmi_hijack s =
     (if nmi_pending (board s) \<and> ms_vector (cpu s) \<noteq> 0xFFFA then
        s\<lparr>cpu := (cpu s)\<lparr>ms_vector := 0xFFFA, ms_nmi_sampled := False\<rparr>,
          board := (board s)\<lparr>nmi_pending := False\<rparr>\<rparr>
      else s)"

definition cpu_set_microseq :: "bool \<Rightarrow> cpu6502_t \<Rightarrow> cpu6502_t" where
  "cpu_set_microseq enabled c = c\<lparr>ms_enabled := enabled, ms_active := False\<rparr>"

text \<open>The last cycle of an instruction does not sample.\<close>

definition ms_sample_interrupts :: "bool \<Rightarrow> 'd machine \<Rightarrow> 'd machine" where
  "ms_sample_interrupts last_cycle s =
     (if last_cycle then s
      else s\<lparr>cpu := (cpu s)\<lparr>ms_nmi_sampled := nmi_pending (board s),
               ms_irq_sampled := (irq_asserted (board s) \<and> \<not> cpu_get_flag (cpu s) FLAG_INTERRUPT)\<rparr>\<rparr>)"

text \<open>First cycle: an interrupt decided on the sampled lines, or the opcode fetch.\<close>

definition ms_first_cycle :: "'d hooks \<Rightarrow> 'd machine \<Rightarrow> 'd machine" where
  "ms_first_cycle hk s =
     (if ms_nmi_sampled (cpu s) \<and> nmi_pending (board s) then
        let s1 = s\<lparr>board := (board s)\<lparr>nmi_pending := False\<rparr>,
                   cpu := ms_build_interrupt 0xFFFA ((cpu s)\<lparr>ms_nmi_sampled := False\<rparr>)\<rparr>;
            s2 = snd (cpu_mem_read hk (cpu_PC (cpu s1)) s1);
            s3 = upd_cpu (\<lambda>c. c\<lparr>ms_active := True\<rparr>) s2
        in ms_sample_interrupts False s3
      else if ms_irq_sampled (cpu s) then
        let b = board s;
            b1 = (if irq_pulse b \<noteq> 0 then b\<lparr>irq_pulse := irq_pulse b - 1\<rparr> else b);
            s1 = s\<lparr>board := b1, cpu := ms_build_interrupt 0xFFFE ((cpu s)\<lparr>ms_irq_sampled := False\<rparr>)\<rparr>;
            s2 = snd (cpu_mem_read hk (cpu_PC (cpu s1)) s1);
            s3 = upd_cpu (\<lambda>c. c\<lparr>ms_active := True\<rparr>) s2
        in ms_sample_interrupts False s3
      else
        let (op, s1) = cpu_fetch_byte hk s;
            s2 = upd_cpu (\<lambda>c. (ms_build_plan op c)\<lparr>ms_active := True\<rparr>) s1
        in ms_sample_interrupts False s2)"

text \<open>
  One micro-operation.  The boolean says that the instruction ends here whatever is left of
  the plan (a branch not taken, a branch within its page, a JAM).
\<close>

definition ms_push :: "'d hooks \<Rightarrow> u8 \<Rightarrow> 'd machine \<Rightarrow> 'd machine" where
  "ms_push hk v s =
     (let s1 = cpu_mem_write hk (stack_addr s) v s in set_sp (cpu_SP (cpu s1) - 1) s1)"

definition ms_pull :: "'d hooks \<Rightarrow> 'd machine \<Rightarrow> u8 \<times> 'd machine" where
  "ms_pull hk s =
     (let s1 = set_sp (cpu_SP (cpu s) + 1) s in cpu_mem_read hk (stack_addr s1) s1)"

definition ms_write_unstable :: "'d hooks \<Rightarrow> u8 \<Rightarrow> 'd machine \<Rightarrow> 'd machine" where
  "ms_write_unstable hk op s =
     (let c = cpu s;
          s1 = (if op = 0x9B then set_sp (cpu_A c AND cpu_X c) s else s);
          reg = (if op = 0x9C then cpu_Y c else if op = 0x9E then cpu_X c
                 else cpu_A c AND cpu_X c);
          (v, target) = cpu_sh_unstable (ms_base c) (ms_addr c) reg
      in cpu_mem_write hk target v s1)"

definition ms_branch_step :: "cpu6502_t \<Rightarrow> cpu6502_t" where
  "ms_branch_step c =
     (let target = cpu_PC c + scast (ms_ptr c)
      in c\<lparr>ms_crossed := page_crossed (cpu_PC c) target, ms_base := cpu_PC c,
           cpu_PC := (cpu_PC c AND 0xFF00) OR (target AND 0x00FF), ms_addr := target\<rparr>)"

fun ms_exec :: "'d hooks \<Rightarrow> mop \<Rightarrow> 'd machine \<Rightarrow> bool \<times> 'd machine" where
  "ms_exec hk M_FETCH_LO s =
     (let (v, s1) = cpu_fetch_byte hk s;
          s2 = upd_cpu (\<lambda>c. c\<lparr>ms_ptr := v, ms_adl := v, ms_addr := ucast v, ms_base := ucast v\<rparr>) s1;
          op = ms_opcode (cpu s2)
      in (ms_cls op = C_BRANCH \<and> \<not> ms_branch_taken op (cpu s2), s2))"
| "ms_exec hk M_FETCH_HI s =
     (let (v, s1) = cpu_fetch_byte hk s
      in (False, upd_cpu (\<lambda>c. ms_apply_index (c\<lparr>ms_addr := hilo v (ms_adl c)\<rparr>)) s1))"
| "ms_exec hk M_ZP_INDEX s =
     (let (_, s1) = cpu_mem_read hk (ucast (ms_ptr (cpu s))) s
      in (False, upd_cpu (\<lambda>c. let p = ms_ptr c + (if ms_idx c = 1 then cpu_X c else cpu_Y c)
            in c\<lparr>ms_ptr := p, ms_addr := ucast p, ms_base := ucast p, ms_crossed := False\<rparr>) s1))"
| "ms_exec hk M_PTR_LO s =
     (let (v, s1) = cpu_mem_read hk (ucast (ms_ptr (cpu s))) s
      in (False, upd_cpu (\<lambda>c. c\<lparr>ms_adl := v\<rparr>) s1))"
| "ms_exec hk M_PTR_HI s =
     (let (v, s1) = cpu_mem_read hk (ucast (ms_ptr (cpu s) + 1)) s
      in (False, upd_cpu (\<lambda>c. let c1 = c\<lparr>ms_addr := hilo v (ms_adl c)\<rparr>
            in if ms_idx c1 = 2 then ms_apply_index c1
               else c1\<lparr>ms_base := ms_addr c1, ms_crossed := False\<rparr>) s1))"
| "ms_exec hk M_DUMMY_UNFIXED s = (False, snd (cpu_mem_read hk (ms_unfixed (cpu s)) s))"
| "ms_exec hk M_READ_FIXUP s = (False, snd (cpu_mem_read hk (ms_unfixed (cpu s)) s))"
| "ms_exec hk M_READ_DATA s =
     (let (v, s1) = cpu_mem_read hk (ms_addr (cpu s)) s;
          s2 = upd_cpu (\<lambda>c. c\<lparr>ms_data := v\<rparr>) s1;
          op = ms_opcode (cpu s2)
      in (False, if ms_cls op = C_READ then upd_cpu (ms_alu_read op v) s2 else s2))"
| "ms_exec hk M_WRITE_DATA s =
     (let op = ms_opcode (cpu s)
      in (False, if ms_cls op = C_WRITE_UNSTABLE then ms_write_unstable hk op s
                 else cpu_mem_write hk (ms_addr (cpu s)) (ms_store_value op (cpu s)) s))"
| "ms_exec hk M_RMW_ORIG s = (False, cpu_mem_write hk (ms_addr (cpu s)) (ms_data (cpu s)) s)"
| "ms_exec hk M_RMW_NEW s =
     (let (v, c1) = cpu_rmw_apply (ms_rmw (cpu s)) (ms_data (cpu s)) (cpu s);
          s1 = s\<lparr>cpu := c1\<lparr>ms_data := v\<rparr>\<rparr>
      in (False, cpu_mem_write hk (ms_addr (cpu s1)) v s1))"
| "ms_exec hk M_IMM s =
     (let (v, s1) = cpu_fetch_byte hk s
      in (False, upd_cpu (\<lambda>c. ms_alu_read (ms_opcode c) v (c\<lparr>ms_data := v\<rparr>)) s1))"
| "ms_exec hk M_IMPLIED s =
     (let (_, s1) = cpu_mem_read hk (cpu_PC (cpu s)) s
      in (False, upd_cpu (\<lambda>c. ms_implied (ms_opcode c) c) s1))"
| "ms_exec hk M_BRANCH_TAKEN s =
     (let (_, s1) = cpu_mem_read hk (cpu_PC (cpu s)) s;
          s2 = upd_cpu ms_branch_step s1
      in (\<not> ms_crossed (cpu s2), s2))"
| "ms_exec hk M_BRANCH_PAGE s =
     (let (_, s1) = cpu_mem_read hk (cpu_PC (cpu s)) s
      in (False, set_pc (ms_addr (cpu s1)) s1))"
| "ms_exec hk M_JMP_HI s =
     (let (v, s1) = cpu_fetch_byte hk s in (False, set_pc (hilo v (ms_adl (cpu s1))) s1))"
| "ms_exec hk M_JMP_IND_LO s =
     (let (v, s1) = cpu_mem_read hk (ms_addr (cpu s)) s
      in (False, upd_cpu (\<lambda>c. c\<lparr>ms_data := v\<rparr>) s1))"
| "ms_exec hk M_JMP_IND_HI s =
     (let a = ms_addr (cpu s);
          (v, s1) = cpu_mem_read hk ((a AND 0xFF00) OR ((a + 1) AND 0x00FF)) s
      in (False, set_pc (hilo v (ms_data (cpu s1))) s1))"
| "ms_exec hk M_DUMMY_PC s = (False, snd (cpu_mem_read hk (cpu_PC (cpu s)) s))"
| "ms_exec hk M_BRK_SIGN s = (False, snd (cpu_fetch_byte hk s))"
| "ms_exec hk M_STACK_DUMMY s = (False, snd (cpu_mem_read hk (stack_addr s) s))"
| "ms_exec hk M_PUSH_PCH s = (False, ms_push hk (hi8 (cpu_PC (cpu s))) s)"
| "ms_exec hk M_PUSH_PCL s = (False, ms_push hk (lo8 (cpu_PC (cpu s))) s)"
| "ms_exec hk M_PUSH_P s =
     (False, ms_nmi_hijack (upd_cpu (cpu_set_flag FLAG_INTERRUPT True)
               (ms_push hk ((cpu_P (cpu s) AND NOT FLAG_BREAK) OR FLAG_UNUSED) s)))"
| "ms_exec hk M_PUSH_P_BRK s =
     (let s1 = ms_push hk (cpu_P (cpu s) OR FLAG_BREAK OR FLAG_UNUSED) s
      in (False, if ms_opcode (cpu s1) = 0x00
                 then ms_nmi_hijack (upd_cpu (cpu_set_flag FLAG_INTERRUPT True) s1) else s1))"
| "ms_exec hk M_PUSH_A s = (False, ms_push hk (cpu_A (cpu s)) s)"
| "ms_exec hk M_PULL_A s =
     (let (v, s1) = ms_pull hk s in (False, upd_cpu (set_A_nz v) s1))"
| "ms_exec hk M_PULL_P s =
     (let (v, s1) = ms_pull hk s in (False, upd_cpu (set_P_pulled v) s1))"
| "ms_exec hk M_PULL_PCL s =
     (let (v, s1) = ms_pull hk s in (False, upd_cpu (\<lambda>c. c\<lparr>ms_adl := v\<rparr>) s1))"
| "ms_exec hk M_PULL_PCH s =
     (let (v, s1) = ms_pull hk s in (False, set_pc (hilo v (ms_adl (cpu s1))) s1))"
| "ms_exec hk M_RTS_FIXUP s =
     (let (_, s1) = cpu_mem_read hk (cpu_PC (cpu s)) s
      in (False, set_pc (cpu_PC (cpu s1) + 1) s1))"
| "ms_exec hk M_JSR_HI s =
     (let (v, s1) = cpu_fetch_byte hk s in (False, set_pc (hilo v (ms_adl (cpu s1))) s1))"
| "ms_exec hk M_VEC_LO s =
     (let (v, s1) = cpu_mem_read hk (ms_vector (cpu s)) s
      in (False, upd_cpu (\<lambda>c. c\<lparr>ms_adl := v\<rparr>) s1))"
| "ms_exec hk M_VEC_HI s =
     (let (v, s1) = cpu_mem_read hk (ms_vector (cpu s) + 1) s;
          s2 = set_pc (hilo v (ms_adl (cpu s1))) s1
      in (False, if ms_opcode (cpu s2) \<noteq> 0x00 then cpu_irq_trace_entry hk s2 else s2))"
| "ms_exec hk M_JAM s = (True, upd_cpu (\<lambda>c. c\<lparr>halted := True\<rparr>) s)"
| "ms_exec hk M_END s = (False, s)"

text \<open>The epilogue of the \<open>switch\<close>: next micro-operation, end of plan, sampling.\<close>

definition ms_finish :: "bool \<Rightarrow> 'd machine \<Rightarrow> bool \<times> 'd machine" where
  "ms_finish early s =
     (if early then (True, ms_sample_interrupts True (upd_cpu (\<lambda>c. c\<lparr>ms_active := False\<rparr>) s))
      else
        let s1 = upd_cpu (\<lambda>c. c\<lparr>ms_pc := ms_pc c + 1\<rparr>) s;
            last = (length (ms_plan (cpu s1)) \<le> ms_pc (cpu s1));
            s2 = (if last then upd_cpu (\<lambda>c. c\<lparr>ms_active := False\<rparr>) s1 else s1)
        in (last, ms_sample_interrupts last s2))"

definition current_mop :: "cpu6502_t \<Rightarrow> mop" where
  "current_mop c = (if ms_pc c < length (ms_plan c) then ms_plan c ! ms_pc c else M_END)"

text \<open>
  \<open>cpu_cycle\<close>.  \<open>M_READ_FIXUP\<close> with no page crossing takes no cycle: the call goes on with the
  next micro-operation.
\<close>

function cpu_cycle :: "'d hooks \<Rightarrow> 'd machine \<Rightarrow> bool \<times> 'd machine" where
  "cpu_cycle hk s =
     (if halted (cpu s) then (True, s)
      else if \<not> ms_active (cpu s) then (False, ms_first_cycle hk s)
      else if current_mop (cpu s) = M_READ_FIXUP \<and> \<not> ms_crossed (cpu s) then
        cpu_cycle hk (upd_cpu (\<lambda>c. c\<lparr>ms_pc := ms_pc c + 1\<rparr>) s)
      else
        let (early, s1) = ms_exec hk (current_mop (cpu s)) s in ms_finish early s1)"
  by pat_completeness auto
termination
  by (relation "measure (\<lambda>(hk, s). length (ms_plan (cpu s)) - ms_pc (cpu s))")
    (auto simp: upd_cpu_def current_mop_def split: if_splits)

declare cpu_cycle.simps [simp del]

end
