(* ===== verification/Cpu_Frame.thy ===== *)
theory Cpu_Frame
  imports Microseq
begin

unbundle bit_operations_syntax

text \<open>
  What the arithmetic of the CPU depends on and what it leaves alone.  Every function of
  \<open>opcodes.c\<close> and \<open>microseq.c\<close> that works on a value already read is a function of the five
  8-bit registers, and changes nothing but them.  \<open>put_regs c r\<close> is the machine \<open>r\<close> with the
  registers of \<open>c\<close>; a register function commutes with it.
\<close>

definition get_regs :: "cpu6502_t \<Rightarrow> u8 \<times> u8 \<times> u8 \<times> u8 \<times> u8" where
  "get_regs c = (cpu_A c, cpu_X c, cpu_Y c, cpu_SP c, cpu_P c)"

definition put_regs :: "cpu6502_t \<Rightarrow> cpu6502_t \<Rightarrow> cpu6502_t" where
  "put_regs c r = r\<lparr>cpu_A := cpu_A c, cpu_X := cpu_X c, cpu_Y := cpu_Y c,
     cpu_SP := cpu_SP c, cpu_P := cpu_P c\<rparr>"

definition reg_fun :: "(cpu6502_t \<Rightarrow> cpu6502_t) \<Rightarrow> bool" where
  "reg_fun f \<longleftrightarrow> (\<forall>c r. f (put_regs c r) = put_regs (f c) r)"

named_theorems reg_funs \<open>the register functions of the CPU\<close>

lemma put_regs_sel [simp]:
    "cpu_A (put_regs c r) = cpu_A c" "cpu_X (put_regs c r) = cpu_X c"
    "cpu_Y (put_regs c r) = cpu_Y c" "cpu_SP (put_regs c r) = cpu_SP c"
    "cpu_P (put_regs c r) = cpu_P c"
    "cpu_PC (put_regs c r) = cpu_PC r" "cycles (put_regs c r) = cycles r"
    "halted (put_regs c r) = halted r" "irq_trace_fp (put_regs c r) = irq_trace_fp r"
    "irq_trace_count (put_regs c r) = irq_trace_count r"
    "ms_enabled (put_regs c r) = ms_enabled r" "ms_active (put_regs c r) = ms_active r"
    "ms_opcode (put_regs c r) = ms_opcode r" "ms_pc (put_regs c r) = ms_pc r"
    "ms_plan (put_regs c r) = ms_plan r" "ms_rmw (put_regs c r) = ms_rmw r"
    "ms_idx (put_regs c r) = ms_idx r" "ms_ptr (put_regs c r) = ms_ptr r"
    "ms_adl (put_regs c r) = ms_adl r" "ms_data (put_regs c r) = ms_data r"
    "ms_addr (put_regs c r) = ms_addr r" "ms_base (put_regs c r) = ms_base r"
    "ms_crossed (put_regs c r) = ms_crossed r"
    "ms_nmi_sampled (put_regs c r) = ms_nmi_sampled r"
    "ms_irq_sampled (put_regs c r) = ms_irq_sampled r" "ms_vector (put_regs c r) = ms_vector r"
  by (simp_all add: put_regs_def)

lemma put_regs_same [simp]: "put_regs c c = c"
  by (simp add: put_regs_def)

lemma put_regs_upd [simp]:
    "(put_regs c r)\<lparr>cpu_A := x\<rparr> = put_regs (c\<lparr>cpu_A := x\<rparr>) r"
    "(put_regs c r)\<lparr>cpu_X := x\<rparr> = put_regs (c\<lparr>cpu_X := x\<rparr>) r"
    "(put_regs c r)\<lparr>cpu_Y := x\<rparr> = put_regs (c\<lparr>cpu_Y := x\<rparr>) r"
    "(put_regs c r)\<lparr>cpu_SP := x\<rparr> = put_regs (c\<lparr>cpu_SP := x\<rparr>) r"
    "(put_regs c r)\<lparr>cpu_P := x\<rparr> = put_regs (c\<lparr>cpu_P := x\<rparr>) r"
  by (simp_all add: put_regs_def)

lemma reg_funI: "(\<And>c r. f (put_regs c r) = put_regs (f c) r) \<Longrightarrow> reg_fun f"
  by (simp add: reg_fun_def)

lemma reg_funD: "reg_fun f \<Longrightarrow> f (put_regs c r) = put_regs (f c) r"
  unfolding reg_fun_def by blast

lemma reg_fun_own: "reg_fun f \<Longrightarrow> f c = put_regs (f c) c"
  using reg_funD [of f c c] by (simp only: put_regs_same)

text \<open>The fields that a register function keeps, one equation per field.\<close>

lemma reg_fun_keeps:
  assumes "reg_fun f"
  shows
    "cpu_PC (f c) = cpu_PC c" "cycles (f c) = cycles c" "halted (f c) = halted c"
    "irq_trace_fp (f c) = irq_trace_fp c" "irq_trace_count (f c) = irq_trace_count c"
    "ms_enabled (f c) = ms_enabled c" "ms_active (f c) = ms_active c"
    "ms_opcode (f c) = ms_opcode c" "ms_pc (f c) = ms_pc c" "ms_plan (f c) = ms_plan c"
    "ms_rmw (f c) = ms_rmw c" "ms_idx (f c) = ms_idx c" "ms_ptr (f c) = ms_ptr c"
    "ms_adl (f c) = ms_adl c" "ms_data (f c) = ms_data c" "ms_addr (f c) = ms_addr c"
    "ms_base (f c) = ms_base c" "ms_crossed (f c) = ms_crossed c"
    "ms_nmi_sampled (f c) = ms_nmi_sampled c" "ms_irq_sampled (f c) = ms_irq_sampled c"
    "ms_vector (f c) = ms_vector c"
  by (subst reg_fun_own [OF assms], rule put_regs_sel)+

text \<open>The result depends on the five registers only.\<close>

lemma get_regs_put: "get_regs (put_regs c r) = get_regs c"
  by (simp add: get_regs_def)

lemma put_regs_eqI: "get_regs c = get_regs d \<Longrightarrow> put_regs c r = put_regs d r"
  by (simp add: get_regs_def put_regs_def)

lemma put_regs_absorb: "get_regs c = get_regs d \<Longrightarrow> put_regs c d = d"
  using put_regs_eqI [of c d d] by simp

lemma reg_value_eq:
  assumes "\<And>c r. g (put_regs c r) = g c" "get_regs c = get_regs d"
  shows "g c = g d"
  using assms(1) [of c d] put_regs_absorb [OF assms(2)] by simp

lemma reg_fun_regs:
  assumes "reg_fun f" "get_regs c = get_regs d"
  shows "get_regs (f c) = get_regs (f d)"
proof -
  have "f d = put_regs (f c) d" using reg_funD [OF assms(1), of c d] put_regs_absorb [OF assms(2)] by simp
  then show ?thesis by (simp add: get_regs_put)
qed

section \<open>The arithmetic is made of register functions\<close>

lemma cpu_set_flag_alt:
  "cpu_set_flag flag v c =
     c\<lparr>cpu_P := (if v then cpu_P c OR flag else cpu_P c AND NOT flag)\<rparr>"
  by (cases v) (simp_all add: cpu_set_flag_def)

lemmas alu_unfold =
  cpu_set_flag_alt cpu_get_flag_def cpu_update_nz_def set_A_def carry_u8_def Let_def

lemma cpu_set_flag_put [simp]:
  "cpu_set_flag flag v (put_regs c r) = put_regs (cpu_set_flag flag v c) r"
  by (simp add: cpu_set_flag_alt)

lemma cpu_get_flag_put [simp]: "cpu_get_flag (put_regs c r) flag = cpu_get_flag c flag"
  by (simp add: cpu_get_flag_def)

lemma cpu_update_nz_put [simp]:
  "cpu_update_nz v (put_regs c r) = put_regs (cpu_update_nz v c) r"
  by (simp add: cpu_update_nz_def)

lemma set_A_put [simp]: "set_A v (put_regs c r) = put_regs (set_A v c) r"
  by (simp add: set_A_def)

lemma carry_u8_put [simp]: "carry_u8 (put_regs c r) = carry_u8 c"
  by (simp add: carry_u8_def)

lemma cpu_op_adc_put [simp]: "cpu_op_adc v (put_regs c r) = put_regs (cpu_op_adc v c) r"
  by (simp add: cpu_op_adc_def Let_def)

lemma cpu_op_sbc_put [simp]: "cpu_op_sbc v (put_regs c r) = put_regs (cpu_op_sbc v c) r"
  by (simp add: cpu_op_sbc_def Let_def)

lemma cpu_op_cmp_put [simp]: "cpu_op_cmp x v (put_regs c r) = put_regs (cpu_op_cmp x v c) r"
  by (simp add: cpu_op_cmp_def Let_def)

lemma cpu_op_lax_put [simp]: "cpu_op_lax v (put_regs c r) = put_regs (cpu_op_lax v c) r"
  by (simp add: cpu_op_lax_def)

lemma cpu_rmw_apply_put [simp]:
    "fst (cpu_rmw_apply op v (put_regs c r)) = fst (cpu_rmw_apply op v c)"
    "snd (cpu_rmw_apply op v (put_regs c r)) = put_regs (snd (cpu_rmw_apply op v c)) r"
  by (cases op; simp add: cpu_rmw_apply_def Let_def)+

lemma op_put [simp]:
    "op_lda v (put_regs c r) = put_regs (op_lda v c) r"
    "op_ldx v (put_regs c r) = put_regs (op_ldx v c) r"
    "op_ldy v (put_regs c r) = put_regs (op_ldy v c) r"
    "op_and v (put_regs c r) = put_regs (op_and v c) r"
    "op_ora v (put_regs c r) = put_regs (op_ora v c) r"
    "op_eor v (put_regs c r) = put_regs (op_eor v c) r"
    "op_cmp_a v (put_regs c r) = put_regs (op_cmp_a v c) r"
    "op_cmp_x v (put_regs c r) = put_regs (op_cmp_x v c) r"
    "op_cmp_y v (put_regs c r) = put_regs (op_cmp_y v c) r"
    "op_bit v (put_regs c r) = put_regs (op_bit v c) r"
    "op_anc v (put_regs c r) = put_regs (op_anc v c) r"
    "op_alr v (put_regs c r) = put_regs (op_alr v c) r"
    "op_arr v (put_regs c r) = put_regs (op_arr v c) r"
    "op_sbx v (put_regs c r) = put_regs (op_sbx v c) r"
    "op_ane v (put_regs c r) = put_regs (op_ane v c) r"
    "op_lxa v (put_regs c r) = put_regs (op_lxa v c) r"
    "op_las v (put_regs c r) = put_regs (op_las v c) r"
    "op_none v (put_regs c r) = put_regs (op_none v c) r"
  by (simp_all add: op_lda_def op_ldx_def op_ldy_def op_and_def op_ora_def op_eor_def
      op_cmp_a_def op_cmp_x_def op_cmp_y_def op_bit_def op_anc_def op_alr_def op_arr_def
      op_sbx_def op_ane_def op_lxa_def op_las_def op_none_def Let_def)

lemma op_reg_put [simp]:
    "op_asl_a (put_regs c r) = put_regs (op_asl_a c) r"
    "op_lsr_a (put_regs c r) = put_regs (op_lsr_a c) r"
    "op_rol_a (put_regs c r) = put_regs (op_rol_a c) r"
    "op_ror_a (put_regs c r) = put_regs (op_ror_a c) r"
    "set_X_nz v (put_regs c r) = put_regs (set_X_nz v c) r"
    "set_Y_nz v (put_regs c r) = put_regs (set_Y_nz v c) r"
    "set_A_nz v (put_regs c r) = put_regs (set_A_nz v c) r"
    "set_P_pulled v (put_regs c r) = put_regs (set_P_pulled v c) r"
    "ms_accumulator m (put_regs c r) = put_regs (ms_accumulator m c) r"
    "ms_arr v (put_regs c r) = put_regs (ms_arr v c) r"
    "store_sax (put_regs c r) = store_sax c"
  by (simp_all add: op_asl_a_def op_lsr_a_def op_rol_a_def op_ror_a_def set_X_nz_def
      set_Y_nz_def set_A_nz_def set_P_pulled_def ms_accumulator_def ms_arr_def store_sax_def
      case_prod_beta Let_def)

lemma put_regs_if: "(if b then put_regs c r else put_regs d r) = put_regs (if b then c else d) r"
  by simp

lemma ms_alu_read_put [simp]:
  "ms_alu_read op v (put_regs c r) = put_regs (ms_alu_read op v c) r"
  unfolding ms_alu_read_def Let_def
  by (simp only: put_regs_sel put_regs_upd cpu_set_flag_put cpu_update_nz_put set_A_put
      cpu_op_adc_put cpu_op_sbc_put cpu_op_cmp_put cpu_op_lax_put op_reg_put put_regs_if)

lemma ms_implied_put [simp]:
  "ms_implied op (put_regs c r) = put_regs (ms_implied op c) r"
  unfolding ms_implied_def
  by (simp only: put_regs_sel put_regs_upd cpu_set_flag_put op_reg_put put_regs_if)

lemma reg_fun_ops [reg_funs]:
    "reg_fun (\<lambda>c. c)" "reg_fun (cpu_set_flag flag b)" "reg_fun (cpu_update_nz v)"
    "reg_fun (set_A v)"
    "reg_fun (cpu_op_adc v)" "reg_fun (cpu_op_sbc v)" "reg_fun (cpu_op_cmp x v)"
    "reg_fun (cpu_op_lax v)" "reg_fun (op_lda v)" "reg_fun (op_ldx v)" "reg_fun (op_ldy v)"
    "reg_fun (op_and v)" "reg_fun (op_ora v)" "reg_fun (op_eor v)" "reg_fun (op_cmp_a v)"
    "reg_fun (op_cmp_x v)" "reg_fun (op_cmp_y v)" "reg_fun (op_bit v)" "reg_fun (op_anc v)"
    "reg_fun (op_alr v)" "reg_fun (op_arr v)" "reg_fun (op_sbx v)" "reg_fun (op_ane v)"
    "reg_fun (op_lxa v)" "reg_fun (op_las v)" "reg_fun (op_none v)"
    "reg_fun op_asl_a" "reg_fun op_lsr_a" "reg_fun op_rol_a" "reg_fun op_ror_a"
    "reg_fun (set_X_nz v)" "reg_fun (set_Y_nz v)" "reg_fun (set_A_nz v)"
    "reg_fun (set_P_pulled v)" "reg_fun (ms_alu_read op v)" "reg_fun (ms_implied op)"
    "reg_fun (\<lambda>c. snd (cpu_rmw_apply rmw v c))"
  by (rule reg_funI, simp)+

end
