(* ===== verification/Microseq_Run.thy ===== *)
theory Microseq_Run
  imports Cpu_Frame
begin

unbundle bit_operations_syntax

text \<open>
  The loop of \<open>cpu_step\<close> over \<open>cpu_cycle\<close> (\<open>ms_instruction\<close>), its termination, and the facts
  every argument on the sequencer shares: what a bus access, a micro-operation and the end of
  a cycle do to the sequencer's own state (\<open>ms_active\<close>, \<open>ms_pc\<close>, \<open>ms_plan\<close>, \<open>ms_opcode\<close>).
\<close>

section \<open>Effect of the bus accesses on the CPU\<close>

lemma cpu_upd_cpu [simp]:
    "cpu (upd_cpu f s) = f (cpu s)" "board (upd_cpu f s) = board s"
    "bus_log (upd_cpu f s) = bus_log s"
  by (simp_all add: upd_cpu_def)

lemma cpu_set_pc [simp]:
    "cpu (set_pc a s) = (cpu s)\<lparr>cpu_PC := a\<rparr>" "board (set_pc a s) = board s"
    "bus_log (set_pc a s) = bus_log s"
  by (simp_all add: set_pc_def)

lemma cpu_set_sp [simp]:
    "cpu (set_sp v s) = (cpu s)\<lparr>cpu_SP := v\<rparr>" "board (set_sp v s) = board s"
    "bus_log (set_sp v s) = bus_log s"
  by (simp_all add: set_sp_def)

lemma cpu_cpu_tick [simp]:
    "cpu (cpu_tick hk n s) = (cpu s)\<lparr>cycles := cycles (cpu s) + n\<rparr>"
    "bus_log (cpu_tick hk n s) = bus_log s"
  by (simp_all add: cpu_tick_def)

lemma cpu_cpu_mem_read [simp]:
    "cpu (snd (cpu_mem_read hk a s)) = (cpu s)\<lparr>cycles := cycles (cpu s) + 1\<rparr>"
    "bus_log (snd (cpu_mem_read hk a s)) = (a, fst (cpu_mem_read hk a s), False) # bus_log s"
  by (simp_all add: cpu_mem_read_def case_prod_beta Let_def)

lemma cpu_cpu_mem_write [simp]:
    "cpu (cpu_mem_write hk a v s) = (cpu s)\<lparr>cycles := cycles (cpu s) + 1\<rparr>"
    "bus_log (cpu_mem_write hk a v s) = (a, v, True) # bus_log s"
  by (simp_all add: cpu_mem_write_def)

lemma cpu_cpu_fetch_byte [simp]:
    "cpu (snd (cpu_fetch_byte hk s)) =
       (cpu s)\<lparr>cpu_PC := cpu_PC (cpu s) + 1, cycles := cycles (cpu s) + 1\<rparr>"
    "bus_log (snd (cpu_fetch_byte hk s)) =
       (cpu_PC (cpu s), fst (cpu_fetch_byte hk s), False) # bus_log s"
  by (simp_all add: cpu_fetch_byte_def Let_def)

lemma cpu_ms_push [simp]:
    "cpu (ms_push hk v s) =
       (cpu s)\<lparr>cpu_SP := cpu_SP (cpu s) - 1, cycles := cycles (cpu s) + 1\<rparr>"
    "bus_log (ms_push hk v s) = (stack_addr s, v, True) # bus_log s"
  by (simp_all add: ms_push_def Let_def)

lemma cpu_ms_pull [simp]:
    "cpu (snd (ms_pull hk s)) =
       (cpu s)\<lparr>cpu_SP := cpu_SP (cpu s) + 1, cycles := cycles (cpu s) + 1\<rparr>"
    "length (bus_log (snd (ms_pull hk s))) = length (bus_log s) + 1"
  by (simp_all add: ms_pull_def Let_def)

section \<open>What the sequencer keeps\<close>

text \<open>The sequencer's control state, which only \<open>cpu_cycle\<close> itself moves.\<close>

definition ms_control :: "cpu6502_t \<Rightarrow> bool \<times> bool \<times> u8 \<times> nat \<times> mop list \<times> cpu_rmw_t \<times> nat" where
  "ms_control c = (ms_enabled c, ms_active c, ms_opcode c, ms_pc c, ms_plan c, ms_rmw c, ms_idx c)"

lemma ms_control_upd [simp]:
    "ms_control (c\<lparr>cpu_A := a\<rparr>) = ms_control c" "ms_control (c\<lparr>cpu_X := a\<rparr>) = ms_control c"
    "ms_control (c\<lparr>cpu_Y := a\<rparr>) = ms_control c" "ms_control (c\<lparr>cpu_SP := a\<rparr>) = ms_control c"
    "ms_control (c\<lparr>cpu_P := a\<rparr>) = ms_control c" "ms_control (c\<lparr>cpu_PC := w\<rparr>) = ms_control c"
    "ms_control (c\<lparr>cycles := n\<rparr>) = ms_control c" "ms_control (c\<lparr>halted := b\<rparr>) = ms_control c"
    "ms_control (c\<lparr>irq_trace_count := n\<rparr>) = ms_control c"
    "ms_control (c\<lparr>ms_ptr := a\<rparr>) = ms_control c" "ms_control (c\<lparr>ms_adl := a\<rparr>) = ms_control c"
    "ms_control (c\<lparr>ms_data := a\<rparr>) = ms_control c" "ms_control (c\<lparr>ms_addr := w\<rparr>) = ms_control c"
    "ms_control (c\<lparr>ms_base := w\<rparr>) = ms_control c" "ms_control (c\<lparr>ms_crossed := b\<rparr>) = ms_control c"
    "ms_control (c\<lparr>ms_nmi_sampled := b\<rparr>) = ms_control c"
    "ms_control (c\<lparr>ms_irq_sampled := b\<rparr>) = ms_control c"
    "ms_control (c\<lparr>ms_vector := w\<rparr>) = ms_control c"
  by (simp_all add: ms_control_def)

lemma ms_control_reg_fun: "reg_fun f \<Longrightarrow> ms_control (f c) = ms_control c"
  by (simp add: ms_control_def reg_fun_keeps)

lemma ms_control_regs [simp]:
    "ms_control (cpu_set_flag flag b c) = ms_control c" "ms_control (set_A_nz v c) = ms_control c"
    "ms_control (set_P_pulled v c) = ms_control c" "ms_control (ms_alu_read op v c) = ms_control c"
    "ms_control (ms_implied op c) = ms_control c"
    "ms_control (snd (cpu_rmw_apply rmw v c)) = ms_control c"
  by (simp_all add: ms_control_reg_fun reg_funs
      ms_control_reg_fun [of "\<lambda>c. snd (cpu_rmw_apply rmw v c)"])

lemma ms_control_apply_index [simp]: "ms_control (ms_apply_index c) = ms_control c"
  by (simp add: ms_apply_index_def Let_def)

lemma ms_control_branch_step [simp]: "ms_control (ms_branch_step c) = ms_control c"
  by (simp add: ms_branch_step_def Let_def)

lemma ms_control_hijack [simp]: "ms_control (cpu (ms_nmi_hijack s)) = ms_control (cpu s)"
  by (simp add: ms_nmi_hijack_def)

lemma ms_control_trace [simp]: "ms_control (cpu (cpu_irq_trace_entry hk s)) = ms_control (cpu s)"
  by (simp add: cpu_irq_trace_entry_def Let_def)

lemma ms_control_write_unstable [simp]:
  "ms_control (cpu (ms_write_unstable hk op s)) = ms_control (cpu s)"
  by (simp add: ms_write_unstable_def Let_def case_prod_beta)

lemma ms_control_exec: "ms_control (cpu (snd (ms_exec hk m s))) = ms_control (cpu s)"
  by (cases m) (simp_all add: case_prod_beta Let_def)

lemma ms_control_eqD:
  assumes "ms_control c = ms_control d"
  shows "ms_enabled c = ms_enabled d" "ms_active c = ms_active d" "ms_opcode c = ms_opcode d"
    "ms_pc c = ms_pc d" "ms_plan c = ms_plan d" "ms_rmw c = ms_rmw d" "ms_idx c = ms_idx d"
  using assms by (simp_all add: ms_control_def)

lemmas ms_exec_keeps = ms_control_eqD [OF ms_control_exec]


lemma ms_control_sample [simp]: "ms_control (cpu (ms_sample_interrupts b s)) = ms_control (cpu s)"
  by (simp add: ms_sample_interrupts_def)

lemma sample_keeps [simp]:
    "ms_active (cpu (ms_sample_interrupts b s)) = ms_active (cpu s)"
    "ms_pc (cpu (ms_sample_interrupts b s)) = ms_pc (cpu s)"
    "ms_plan (cpu (ms_sample_interrupts b s)) = ms_plan (cpu s)"
    "ms_opcode (cpu (ms_sample_interrupts b s)) = ms_opcode (cpu s)"
    "cycles (cpu (ms_sample_interrupts b s)) = cycles (cpu s)"
    "halted (cpu (ms_sample_interrupts b s)) = halted (cpu s)"
    "irq_trace_count (cpu (ms_sample_interrupts b s)) = irq_trace_count (cpu s)"
    "bus_log (ms_sample_interrupts b s) = bus_log s"
    "board (ms_sample_interrupts b s) = board s"
  by (simp_all add: ms_sample_interrupts_def)

section \<open>Well-formed plans\<close>

definition plan_ok :: "mop list \<Rightarrow> bool" where
  "plan_ok p \<longleftrightarrow> p \<noteq> [] \<and> length p \<le> 7 \<and> M_END \<notin> set p \<and> last p \<noteq> M_READ_FIXUP \<and>
     (M_JAM \<in> set p \<longrightarrow> p = [M_JAM])"

lemma plan_adds_eq: "length plan + length ms \<le> 10 \<Longrightarrow> plan_adds ms plan = plan @ ms"
proof (induction ms arbitrary: plan)
  case Nil
  then show ?case by (simp add: plan_adds_def)
next
  case (Cons m ms)
  then have "plan_adds ms (plan @ [m]) = (plan @ [m]) @ ms" by simp
  with Cons.prems show ?case by (simp add: plan_adds_def plan_add_def)
qed

lemma plan_ok_class: "plan_ok (class_plan cls mode)"
  by (cases cls; cases mode; simp add: plan_adds_eq plan_ok_def)

lemma plan_interrupt_eq:
  "ms_plan (ms_build_interrupt vector c) =
     [M_DUMMY_PC, M_PUSH_PCH, M_PUSH_PCL, M_PUSH_P, M_VEC_LO, M_VEC_HI]"
  by (simp add: ms_build_interrupt_def plan_adds_eq)

lemma plan_ok_interrupt: "plan_ok (ms_plan (ms_build_interrupt vector c))"
  by (simp add: plan_interrupt_eq plan_ok_def)

lemma ms_build_plan_sel [simp]:
    "ms_plan (ms_build_plan op c) = class_plan (ms_cls op) (opcode_mode op)"
    "ms_pc (ms_build_plan op c) = 0" "ms_opcode (ms_build_plan op c) = op"
    "ms_rmw (ms_build_plan op c) = ms_rmw_op op"
    "ms_idx (ms_build_plan op c) = mode_index (opcode_mode op)"
    "ms_crossed (ms_build_plan op c) = False"
    "cpu_A (ms_build_plan op c) = cpu_A c" "cpu_X (ms_build_plan op c) = cpu_X c"
    "cpu_Y (ms_build_plan op c) = cpu_Y c" "cpu_SP (ms_build_plan op c) = cpu_SP c"
    "cpu_P (ms_build_plan op c) = cpu_P c" "cpu_PC (ms_build_plan op c) = cpu_PC c"
    "cycles (ms_build_plan op c) = cycles c" "halted (ms_build_plan op c) = halted c"
    "irq_trace_count (ms_build_plan op c) = irq_trace_count c"
  by (simp_all add: ms_build_plan_def Let_def)

lemma ms_build_interrupt_sel [simp]:
    "ms_pc (ms_build_interrupt w c) = 0" "ms_opcode (ms_build_interrupt w c) = 0"
    "cpu_P (ms_build_interrupt w c) = cpu_P c" "cpu_PC (ms_build_interrupt w c) = cpu_PC c"
    "cpu_A (ms_build_interrupt w c) = cpu_A c" "cpu_X (ms_build_interrupt w c) = cpu_X c"
    "cpu_Y (ms_build_interrupt w c) = cpu_Y c" "cpu_SP (ms_build_interrupt w c) = cpu_SP c"
    "cycles (ms_build_interrupt w c) = cycles c" "halted (ms_build_interrupt w c) = halted c"
    "ms_vector (ms_build_interrupt w c) = w"
    "irq_trace_count (ms_build_interrupt w c) = irq_trace_count c"
  by (simp_all add: ms_build_interrupt_def)

text \<open>The invariant of the sequencer between two calls of \<open>cpu_cycle\<close>.\<close>

definition ms_wf :: "cpu6502_t \<Rightarrow> bool" where
  "ms_wf c \<longleftrightarrow> (ms_active c \<longrightarrow> plan_ok (ms_plan c) \<and> ms_pc c < length (ms_plan c))"

lemma ms_first_cycle_result:
  shows "ms_active (cpu (ms_first_cycle hk s))" "ms_pc (cpu (ms_first_cycle hk s)) = 0"
    "plan_ok (ms_plan (cpu (ms_first_cycle hk s)))"
    "cycles (cpu (ms_first_cycle hk s)) = cycles (cpu s) + 1"
    "bus_log (ms_first_cycle hk s) \<noteq> []" "tl (bus_log (ms_first_cycle hk s)) = bus_log s"
  by (auto simp: ms_first_cycle_def Let_def case_prod_beta plan_ok_class plan_ok_interrupt)

lemma plan_ok_bound: "plan_ok p \<Longrightarrow> length p \<le> 7"
  by (simp add: plan_ok_def)

lemma ms_wf_first_cycle: "ms_wf (cpu (ms_first_cycle hk s))"
  using ms_first_cycle_result(2,3) [of hk s] by (auto simp: ms_wf_def plan_ok_def)

lemma ms_finish_wf:
  assumes "plan_ok (ms_plan (cpu s))"
  shows "ms_wf (cpu (snd (ms_finish early s)))"
  using assms by (auto simp: ms_finish_def ms_wf_def Let_def)

text \<open>The remaining micro-operations of an active instruction.\<close>

lemma cpu_cycle_simps:
  "halted (cpu s) \<Longrightarrow> cpu_cycle hk s = (True, s)"
  "\<not> halted (cpu s) \<Longrightarrow> \<not> ms_active (cpu s) \<Longrightarrow> cpu_cycle hk s = (False, ms_first_cycle hk s)"
  "\<not> halted (cpu s) \<Longrightarrow> ms_active (cpu s) \<Longrightarrow> current_mop (cpu s) = M_READ_FIXUP \<Longrightarrow>
     \<not> ms_crossed (cpu s) \<Longrightarrow>
     cpu_cycle hk s = cpu_cycle hk (upd_cpu (\<lambda>c. c\<lparr>ms_pc := ms_pc c + 1\<rparr>) s)"
  "\<not> halted (cpu s) \<Longrightarrow> ms_active (cpu s) \<Longrightarrow>
     \<not> (current_mop (cpu s) = M_READ_FIXUP \<and> \<not> ms_crossed (cpu s)) \<Longrightarrow>
     cpu_cycle hk s =
       ms_finish (fst (ms_exec hk (current_mop (cpu s)) s)) (snd (ms_exec hk (current_mop (cpu s)) s))"
  by (simp add: cpu_cycle.simps) (simp add: cpu_cycle.simps, subst cpu_cycle.simps, simp,
      subst cpu_cycle.simps, auto simp: case_prod_beta)


lemma current_mop_mem:
  "ms_wf c \<Longrightarrow> ms_active c \<Longrightarrow> current_mop c \<in> set (ms_plan c)"
  by (auto simp: ms_wf_def current_mop_def)

text \<open>A READ_FIXUP is never the last micro-operation.\<close>

lemma fixup_not_last:
  assumes "ms_wf c" "ms_active c" "current_mop c = M_READ_FIXUP"
  shows "ms_pc c + 1 < length (ms_plan c)"
proof -
  have "plan_ok (ms_plan c)" "ms_pc c < length (ms_plan c)"
    using assms by (auto simp: ms_wf_def)
  moreover have "ms_plan c ! ms_pc c = M_READ_FIXUP"
    using assms(3) calculation(2) by (simp add: current_mop_def)
  ultimately show ?thesis
    by (metis Suc_eq_plus1 Suc_lessI diff_Suc_1 last_conv_nth length_0_conv not_less_zero
        plan_ok_def)
qed

lemma fixup_next_wf:
  assumes "ms_wf c" "ms_active c" "current_mop c = M_READ_FIXUP"
  shows "ms_wf (c\<lparr>ms_pc := ms_pc c + 1\<rparr>)"
  using fixup_not_last [OF assms] assms by (simp add: ms_wf_def)

lemma fixup_no_jam:
  assumes "ms_wf c" "ms_active c" "current_mop c = M_READ_FIXUP"
  shows "M_JAM \<notin> set (ms_plan c)"
  using assms fixup_not_last [OF assms] by (auto simp: ms_wf_def plan_ok_def)

lemma cpu_cycle_wf: "ms_wf (cpu s) \<Longrightarrow> ms_wf (cpu (snd (cpu_cycle hk s)))"
proof (induction hk s rule: cpu_cycle.induct)
  case (1 hk s)
  consider "halted (cpu s)" | "\<not> halted (cpu s)" "\<not> ms_active (cpu s)"
    | "\<not> halted (cpu s)" "ms_active (cpu s)" "current_mop (cpu s) = M_READ_FIXUP"
      "\<not> ms_crossed (cpu s)"
    | "\<not> halted (cpu s)" "ms_active (cpu s)"
      "\<not> (current_mop (cpu s) = M_READ_FIXUP \<and> \<not> ms_crossed (cpu s))"
    by blast
  then show ?case
  proof cases
    case 3
    then show ?thesis
      using 1 fixup_next_wf [OF 1(2)] by (simp add: cpu_cycle_simps(3))
  next
    case 4
    then have "plan_ok (ms_plan (cpu (snd (ms_exec hk (current_mop (cpu s)) s))))"
      using 1(2) by (simp add: ms_wf_def ms_exec_keeps)
    then show ?thesis using 4 by (simp add: cpu_cycle_simps(4) ms_finish_wf)
  qed (simp_all add: cpu_cycle_simps 1 ms_wf_first_cycle)
qed

section \<open>One access per cycle\<close>

text \<open>\<open>s'\<close> has one more bus event and one more clock cycle than \<open>s\<close>.\<close>

definition one_access :: "'d machine \<Rightarrow> 'd machine \<Rightarrow> bool" where
  "one_access s s' \<longleftrightarrow> cycles (cpu s') = cycles (cpu s) + 1 \<and> bus_log s' \<noteq> [] \<and> tl (bus_log s') = bus_log s"

lemma bus_log_ms_pull [simp]:
  "bus_log (snd (ms_pull hk s)) =
     (stack_addr (set_sp (cpu_SP (cpu s) + 1) s), fst (ms_pull hk s), False) # bus_log s"
  by (simp add: ms_pull_def Let_def)

lemma cycles_regs [simp]:
    "cycles (cpu_set_flag flag b c) = cycles c" "cycles (set_A_nz v c) = cycles c"
    "cycles (set_P_pulled v c) = cycles c" "cycles (ms_alu_read op v c) = cycles c"
    "cycles (ms_implied op c) = cycles c" "cycles (snd (cpu_rmw_apply rmw v c)) = cycles c"
    "cycles (ms_apply_index c) = cycles c" "cycles (ms_branch_step c) = cycles c"
  by (simp_all add: reg_fun_keeps reg_funs reg_fun_keeps [of "\<lambda>c. snd (cpu_rmw_apply rmw v c)"]
      ms_apply_index_def ms_branch_step_def Let_def)

lemma hijack_keeps [simp]:
    "cycles (cpu (ms_nmi_hijack s)) = cycles (cpu s)"
    "bus_log (ms_nmi_hijack s) = bus_log s"
    "irq_trace_count (cpu (ms_nmi_hijack s)) = irq_trace_count (cpu s)"
  by (simp_all add: ms_nmi_hijack_def)

lemma trace_entry_keeps [simp]:
    "cycles (cpu (cpu_irq_trace_entry hk s)) = cycles (cpu s)"
    "bus_log (cpu_irq_trace_entry hk s) = bus_log s"
  by (simp_all add: cpu_irq_trace_entry_def Let_def)

lemma write_unstable_keeps [simp]:
    "cycles (cpu (ms_write_unstable hk op s)) = cycles (cpu s) + 1"
    "bus_log (ms_write_unstable hk op s) \<noteq> []"
    "tl (bus_log (ms_write_unstable hk op s)) = bus_log s"
  by (simp_all add: ms_write_unstable_def Let_def case_prod_beta)

lemma ms_exec_one_access:
  "m \<noteq> M_END \<Longrightarrow> m \<noteq> M_JAM \<Longrightarrow> one_access s (snd (ms_exec hk m s))"
  by (cases m) (simp_all add: one_access_def case_prod_beta Let_def)

lemma ms_finish_one_access: "one_access s s' \<Longrightarrow> one_access s (snd (ms_finish early s'))"
  by (simp add: one_access_def ms_finish_def Let_def)

lemma upd_ms_pc_one_access:
  "one_access (upd_cpu (\<lambda>c. c\<lparr>ms_pc := n c\<rparr>) s) s' \<Longrightarrow> one_access s s'"
  by (simp add: one_access_def)

lemma cpu_cycle_one_access:
  assumes "ms_wf (cpu s)" "\<not> halted (cpu s)"
    "\<not> (ms_active (cpu s) \<and> M_JAM \<in> set (ms_plan (cpu s)))"
  shows "one_access s (snd (cpu_cycle hk s))"
  using assms
proof (induction hk s rule: cpu_cycle.induct)
  case (1 hk s)
  consider "\<not> ms_active (cpu s)"
    | "ms_active (cpu s)" "current_mop (cpu s) = M_READ_FIXUP" "\<not> ms_crossed (cpu s)"
    | "ms_active (cpu s)" "\<not> (current_mop (cpu s) = M_READ_FIXUP \<and> \<not> ms_crossed (cpu s))"
    by blast
  then show ?case
  proof cases
    case 1
    then show ?thesis
      using "1.prems" ms_first_cycle_result(4-6) [of hk s]
      by (simp add: cpu_cycle_simps one_access_def)
  next
    case 2
    have "one_access (upd_cpu (\<lambda>c. c\<lparr>ms_pc := ms_pc c + 1\<rparr>) s)
            (snd (cpu_cycle hk (upd_cpu (\<lambda>c. c\<lparr>ms_pc := ms_pc c + 1\<rparr>) s)))"
      using "1.IH" "1.prems" 2 fixup_next_wf [OF "1.prems"(1)] by simp
    then show ?thesis
      using 2 "1.prems" by (simp add: cpu_cycle_simps(3) upd_ms_pc_one_access)
  next
    case 3
    have "current_mop (cpu s) \<in> set (ms_plan (cpu s))" "M_END \<notin> set (ms_plan (cpu s))"
      using current_mop_mem [OF "1.prems"(1)] "1.prems"(1) 3 by (auto simp: ms_wf_def plan_ok_def)
    then have "one_access s (snd (ms_exec hk (current_mop (cpu s)) s))"
      using "1.prems"(3) 3 by (intro ms_exec_one_access) auto
    then show ?thesis
      using 3 "1.prems" by (simp add: cpu_cycle_simps(4) ms_finish_one_access)
  qed
qed


section \<open>The loop of \<open>cpu_step\<close>\<close>

text \<open>\<open>while (!cpu_cycle(cpu)) \<close>: the cycles left decrease at every call that returns false.\<close>

definition ms_left :: "cpu6502_t \<Rightarrow> nat" where
  "ms_left c = (if halted c then 0
     else if ms_active c then length (ms_plan c) - ms_pc c + 1 else 9)"

lemma ms_finish_false:
  assumes "\<not> fst (ms_finish early s)"
  shows "ms_pc (cpu (snd (ms_finish early s))) = ms_pc (cpu s) + 1"
    "ms_plan (cpu (snd (ms_finish early s))) = ms_plan (cpu s)"
    "ms_active (cpu (snd (ms_finish early s))) = ms_active (cpu s)"
    "ms_pc (cpu s) + 1 < length (ms_plan (cpu s))"
  using assms by (auto simp: ms_finish_def Let_def split: if_splits)

lemma cpu_cycle_left:
  "\<not> fst (cpu_cycle hk s) \<Longrightarrow> ms_left (cpu (snd (cpu_cycle hk s))) < ms_left (cpu s)"
proof (induction hk s rule: cpu_cycle.induct)
  case (1 hk s)
  consider "halted (cpu s)" | "\<not> halted (cpu s)" "\<not> ms_active (cpu s)"
    | "\<not> halted (cpu s)" "ms_active (cpu s)" "current_mop (cpu s) = M_READ_FIXUP"
      "\<not> ms_crossed (cpu s)"
    | "\<not> halted (cpu s)" "ms_active (cpu s)"
      "\<not> (current_mop (cpu s) = M_READ_FIXUP \<and> \<not> ms_crossed (cpu s))"
    by blast
  then show ?case
  proof cases
    case 2
    then show ?thesis
      using ms_first_cycle_result(1-3) [of hk s]
      by (auto simp: cpu_cycle_simps ms_left_def dest: plan_ok_bound)
  next
    case 3
    then show ?thesis
      using 1 by (simp add: cpu_cycle_simps(3) ms_left_def)
  next
    case 4
    let ?s1 = "snd (ms_exec hk (current_mop (cpu s)) s)"
    have "\<not> fst (ms_finish (fst (ms_exec hk (current_mop (cpu s)) s)) ?s1)"
      using 1(2) 4 by (simp add: cpu_cycle_simps(4))
    from ms_finish_false [OF this] show ?thesis
      using 4 by (auto simp: cpu_cycle_simps(4) ms_left_def ms_exec_keeps)
  qed (use 1 in \<open>simp add: cpu_cycle_simps\<close>)
qed

function ms_instruction :: "'d hooks \<Rightarrow> 'd machine \<Rightarrow> 'd machine" where
  "ms_instruction hk s =
     (let (finished, s1) = cpu_cycle hk s in if finished then s1 else ms_instruction hk s1)"
  by pat_completeness auto
termination
proof (relation "measure (\<lambda>(hk, s). ms_left (cpu s))")
  fix hk :: "'d hooks" and s y :: "'d machine" and x xa
  assume "x = cpu_cycle hk s" "(xa, y) = x" "\<not> xa"
  then have "\<not> fst (cpu_cycle hk s)" "y = snd (cpu_cycle hk s)"
    by (metis fst_conv, metis snd_conv)
  then show "((hk, y), hk, s) \<in> measure (\<lambda>(hk, s). ms_left (cpu s))"
    using cpu_cycle_left by simp
qed simp

declare ms_instruction.simps [simp del]

lemma ms_instruction_unfold:
  "ms_instruction hk s =
     (if fst (cpu_cycle hk s) then snd (cpu_cycle hk s)
      else ms_instruction hk (snd (cpu_cycle hk s)))"
  by (subst ms_instruction.simps) (simp add: case_prod_beta)

text \<open>
  Rule of the loop: an invariant kept by every cycle of the sequencer holds when the
  instruction ends.
\<close>

lemma ms_instruction_induct:
  assumes "P s" and "\<And>t. P t \<Longrightarrow> P (snd (cpu_cycle hk t))"
  shows "P (ms_instruction hk s)"
  using assms(1)
proof (induction "ms_left (cpu s)" arbitrary: s rule: less_induct)
  case less
  show ?case
  proof (cases "fst (cpu_cycle hk s)")
    case True
    then show ?thesis using assms(2) [OF less.prems] by (simp add: ms_instruction_unfold [of hk s])
  next
    case False
    then show ?thesis
      using less.hyps [OF cpu_cycle_left [OF False] assms(2) [OF less.prems]]
      by (simp add: ms_instruction_unfold [of hk s])
  qed
qed

lemma ms_instruction_wf: "ms_wf (cpu s) \<Longrightarrow> ms_wf (cpu (ms_instruction hk s))"
  by (rule ms_instruction_induct) (simp_all add: cpu_cycle_wf)

text \<open>An instruction ends with the sequencer at rest.\<close>

lemma cpu_cycle_end:
  "fst (cpu_cycle hk s) \<Longrightarrow> \<not> halted (cpu s) \<Longrightarrow> \<not> ms_active (cpu (snd (cpu_cycle hk s)))"
proof (induction hk s rule: cpu_cycle.induct)
  case (1 hk s)
  then show ?case
    by (cases "ms_active (cpu s)"; cases "current_mop (cpu s) = M_READ_FIXUP \<and> \<not> ms_crossed (cpu s)")
      (auto simp: cpu_cycle_simps ms_finish_def Let_def split: if_splits)
qed

text \<open>From rest, an instruction takes at most eight cycles of the clock.\<close>

lemma ms_exec_cycles:
  "cycles (cpu (snd (ms_exec hk m s))) = cycles (cpu s) + (if m \<in> {M_END, M_JAM} then 0 else 1)"
  using ms_exec_one_access [of m s hk] by (auto simp: one_access_def)

lemma ms_finish_cycles [simp]: "cycles (cpu (snd (ms_finish early s))) = cycles (cpu s)"
  by (simp add: ms_finish_def Let_def)

lemma cpu_cycle_cycles:
  "cycles (cpu s) \<le> cycles (cpu (snd (cpu_cycle hk s)))"
  "cycles (cpu (snd (cpu_cycle hk s))) \<le> cycles (cpu s) + (if halted (cpu s) then 0 else 1)"
proof (induction hk s rule: cpu_cycle.induct)
  case (1 hk s)
  note step = ms_first_cycle_result(4) [of hk s] ms_exec_cycles [of hk "current_mop (cpu s)" s]
  { case 1
    then show ?case using "1.IH"(1) step
      by (cases "halted (cpu s)"; cases "ms_active (cpu s)";
          cases "current_mop (cpu s) = M_READ_FIXUP \<and> \<not> ms_crossed (cpu s)")
        (simp_all add: cpu_cycle_simps)
  next
    case 2
    then show ?case using "1.IH"(2) step
      by (cases "halted (cpu s)"; cases "ms_active (cpu s)";
          cases "current_mop (cpu s) = M_READ_FIXUP \<and> \<not> ms_crossed (cpu s)")
        (simp_all add: cpu_cycle_simps) }
qed

lemma ms_left_pos: "ms_wf c \<Longrightarrow> \<not> halted c \<Longrightarrow> 2 \<le> ms_left c"
  by (auto simp: ms_left_def ms_wf_def)

lemma ms_instruction_cycles_le:
  assumes "ms_wf (cpu s)"
  shows "cycles (cpu (ms_instruction hk s)) \<le> cycles (cpu s) + (ms_left (cpu s) - 1)"
  using assms
proof (induction "ms_left (cpu s)" arbitrary: s rule: less_induct)
  case less
  let ?s1 = "snd (cpu_cycle hk s)"
  note acc = cpu_cycle_cycles(2) [of hk s]
  show ?case
  proof (cases "fst (cpu_cycle hk s)")
    case True
    then show ?thesis
      using acc ms_left_pos [OF less.prems]
      by (cases "halted (cpu s)") (simp_all add: ms_instruction_unfold [of hk s])
  next
    case False
    then have "\<not> halted (cpu s)" by (auto simp: cpu_cycle_simps)
    moreover have "cycles (cpu (ms_instruction hk ?s1)) \<le> cycles (cpu ?s1) + (ms_left (cpu ?s1) - 1)"
      using less.hyps [OF cpu_cycle_left [OF False] cpu_cycle_wf [OF less.prems]] .
    ultimately show ?thesis
      using acc False cpu_cycle_left [OF False] ms_left_pos [OF less.prems]
      by (simp add: ms_instruction_unfold [of hk s])
  qed
qed

lemma ms_instruction_cycles_mono: "cycles (cpu s) \<le> cycles (cpu (ms_instruction hk s))"
  by (rule ms_instruction_induct [where P = "\<lambda>t. cycles (cpu s) \<le> cycles (cpu t)"])
    (use cpu_cycle_cycles(1) order.trans in blast)+

text \<open>Progress: from rest, the first cycle is an access.\<close>

lemma ms_instruction_progress:
  assumes "\<not> halted (cpu s)" "\<not> ms_active (cpu s)"
  shows "cycles (cpu s) < cycles (cpu (ms_instruction hk s))"
proof -
  have "ms_instruction hk s = ms_instruction hk (ms_first_cycle hk s)"
    using assms by (simp add: ms_instruction_unfold [of hk s] cpu_cycle_simps)
  then show ?thesis
    using ms_instruction_cycles_mono [of "ms_first_cycle hk s" hk]
      ms_first_cycle_result(4) [of hk s] by simp
qed

lemma ms_instruction_rest:
  "\<not> halted (cpu s) \<Longrightarrow> \<not> ms_active (cpu (ms_instruction hk s)) \<or> halted (cpu (ms_instruction hk s))"
proof (induction "ms_left (cpu s)" arbitrary: s rule: less_induct)
  case less
  show ?case
  proof (cases "fst (cpu_cycle hk s)")
    case True
    then show ?thesis
      using cpu_cycle_end [OF True less.prems] by (simp add: ms_instruction_unfold [of hk s])
  next
    case False
    then show ?thesis
      using less.hyps [OF cpu_cycle_left [OF False]]
      by (cases "halted (cpu (snd (cpu_cycle hk s)))")
        (simp_all add: ms_instruction_unfold [of hk s] ms_instruction_unfold [of hk "snd (cpu_cycle hk s)"]
          cpu_cycle_simps(1))
  qed
qed

section \<open>Invariants of the sequencer\<close>

text \<open>
  A predicate kept by the first cycle, by the micro-operation due, by the skip of a fix-up
  and by the end of a cycle is kept by \<open>cpu_cycle\<close>, hence by a whole instruction.
\<close>

locale sequencer_invariant =
  fixes hk :: "'d hooks"
    and P :: "'d machine \<Rightarrow> bool"
  assumes keep_first: "P s \<Longrightarrow> \<not> ms_active (cpu s) \<Longrightarrow> P (ms_first_cycle hk s)"
    and keep_skip: "P s \<Longrightarrow> P (upd_cpu (\<lambda>c. c\<lparr>ms_pc := ms_pc c + 1\<rparr>) s)"
    and keep_exec: "P s \<Longrightarrow> ms_active (cpu s) \<Longrightarrow> P (snd (ms_exec hk (current_mop (cpu s)) s))"
    and keep_finish: "P s \<Longrightarrow> P (snd (ms_finish early s))"
begin

theorem keep_cycle: "P s \<Longrightarrow> P (snd (cpu_cycle hk s))"
proof (induction "length (ms_plan (cpu s)) - ms_pc (cpu s)" arbitrary: s rule: less_induct)
  case less
  consider "halted (cpu s)" | "\<not> halted (cpu s)" "\<not> ms_active (cpu s)"
    | "\<not> halted (cpu s)" "ms_active (cpu s)" "current_mop (cpu s) = M_READ_FIXUP"
      "\<not> ms_crossed (cpu s)"
    | "\<not> halted (cpu s)" "ms_active (cpu s)"
      "\<not> (current_mop (cpu s) = M_READ_FIXUP \<and> \<not> ms_crossed (cpu s))"
    by blast
  then show ?case
  proof cases
    case 3
    then have "ms_pc (cpu s) < length (ms_plan (cpu s))"
      by (auto simp: current_mop_def split: if_splits)
    then have "P (snd (cpu_cycle hk (upd_cpu (\<lambda>c. c\<lparr>ms_pc := ms_pc c + 1\<rparr>) s)))"
      by (intro less.hyps keep_skip less.prems) simp
    then show ?thesis using 3 by (simp add: cpu_cycle_simps(3))
  next
    case 4
    show ?thesis unfolding cpu_cycle_simps(4) [OF 4]
      by (rule keep_finish [OF keep_exec [OF less.prems 4(2)]])
  qed (use less.prems keep_first in \<open>simp_all add: cpu_cycle_simps\<close>)
qed

theorem keep_instruction: "P s \<Longrightarrow> P (ms_instruction hk s)"
  by (rule ms_instruction_induct) (simp_all add: keep_cycle)

end

text \<open>No cycle changes the choice of the engine.\<close>

interpretation seq_enabled: sequencer_invariant hk "\<lambda>s. ms_enabled (cpu s) = e"
  by unfold_locales
    (auto simp: ms_first_cycle_def ms_build_interrupt_def ms_build_plan_def ms_finish_def
      ms_sample_interrupts_def case_prod_beta Let_def ms_exec_keeps)

end
