(* ===== verification/Cpu_Step.thy ===== *)
theory Cpu_Step
  imports Microseq_Run
begin

unbundle bit_operations_syntax

text \<open>
  \<open>cpu_step\<close> and \<open>cpu_execute_cycles\<close> of \<open>src/cpu/cpu6502.c\<close> over the two engines, and what the
  historical engine keeps of the sequencer's state.  A step always makes progress, so the
  loop of \<open>cpu_execute_cycles\<close> returns.
\<close>

section \<open>Step and execution\<close>

definition cpu_step :: "'d hooks \<Rightarrow> 'd machine \<Rightarrow> nat \<times> 'd machine" where
  "cpu_step hk s =
     (if halted (cpu s) then (0, s)
      else if ms_enabled (cpu s) then
        (let s1 = ms_instruction hk s in (cycles (cpu s1) - cycles (cpu s), s1))
      else cpu_step_legacy hk s)"

partial_function (option) execute_from ::
  "'d hooks \<Rightarrow> nat \<Rightarrow> nat \<Rightarrow> 'd machine \<Rightarrow> (nat \<times> 'd machine) option" where
  "execute_from hk n executed s =
     (if executed < n \<and> \<not> halted (cpu s) then
        (let (k, s1) = cpu_step hk s in execute_from hk n (executed + k) s1)
      else Some (executed, s))"

text \<open>\<open>None\<close> would be a loop that never ends; \<open>cpu_execute_cycles_returns\<close> excludes it.\<close>

definition cpu_execute_cycles ::
  "'d hooks \<Rightarrow> nat \<Rightarrow> 'd machine \<Rightarrow> (nat \<times> 'd machine) option" where
  "cpu_execute_cycles hk n s = execute_from hk n 0 s"



section \<open>What an instruction of the historical engine keeps\<close>

text \<open>
  An invariant of the historical engine: a predicate kept by the memory accesses and the
  clock, by the changes the engine makes to the CPU record (never to the sequencer's part of
  it) and by its acknowledgement of interrupts.  A step of the engine keeps it.
\<close>

definition same_seq :: "cpu6502_t \<Rightarrow> cpu6502_t \<Rightarrow> bool" where
  "same_seq c d \<longleftrightarrow> ms_control c = ms_control d \<and> ms_nmi_sampled c = ms_nmi_sampled d \<and>
     ms_irq_sampled c = ms_irq_sampled d"

lemma same_seq_reg_fun: "reg_fun f \<Longrightarrow> same_seq (f c) c"
  by (simp add: same_seq_def ms_control_reg_fun reg_fun_keeps)

lemma snd_no_cross [simp]: "snd (no_cross r) = snd r"
  by (simp add: no_cross_def case_prod_beta)

locale legacy_invariant =
  fixes hk :: "'d hooks"
    and P :: "'d machine \<Rightarrow> bool"
  assumes keep_read: "P s \<Longrightarrow> P (s\<lparr>board := snd (memory_read hk a (board s))\<rparr>)"
    and keep_write: "P s \<Longrightarrow> P (s\<lparr>board := memory_write hk a v (board s)\<rparr>)"
    and keep_tick: "P s \<Longrightarrow> on_cycle hk = Some f \<Longrightarrow> P (s\<lparr>board := f n (board s)\<rparr>)"
    and keep_log: "P s \<Longrightarrow> P (s\<lparr>bus_log := l\<rparr>)"
    and keep_cpu: "P s \<Longrightarrow> same_seq c (cpu s) \<Longrightarrow> P (s\<lparr>cpu := c\<rparr>)"
    and keep_nmi: "P s \<Longrightarrow> P (s\<lparr>board := (board s)\<lparr>nmi_pending := False\<rparr>\<rparr>)"
    and keep_pulse: "P s \<Longrightarrow> irq_pulse (board s) \<noteq> 0 \<Longrightarrow>
      P (s\<lparr>board := (board s)\<lparr>irq_pulse := irq_pulse (board s) - 1\<rparr>\<rparr>)"

named_theorems kept \<open>functions of the historical engine that keep its invariants\<close>

context legacy_invariant
begin

lemma keep_upd [kept]: "P s \<Longrightarrow> reg_fun f \<Longrightarrow> P (upd_cpu f s)"
  by (simp add: upd_cpu_def keep_cpu same_seq_reg_fun)

lemma keep_cpu_tick [kept]: "P s \<Longrightarrow> P (cpu_tick hk n s)"
proof -
  assume "P s"
  then have "P (s\<lparr>board := case on_cycle hk of Some f \<Rightarrow> f n (board s) | None \<Rightarrow> board s\<rparr>)"
    using keep_tick by (cases "on_cycle hk") simp_all
  from keep_cpu [OF this, of "(cpu s)\<lparr>cycles := cycles (cpu s) + n\<rparr>"]
  have "P (s\<lparr>board := case on_cycle hk of Some f \<Rightarrow> f n (board s) | None \<Rightarrow> board s,
              cpu := (cpu s)\<lparr>cycles := cycles (cpu s) + n\<rparr>\<rparr>)"
    by (simp add: same_seq_def)
  moreover have "cpu_tick hk n s = s\<lparr>board := case on_cycle hk of Some f \<Rightarrow> f n (board s) | None \<Rightarrow> board s,
              cpu := (cpu s)\<lparr>cycles := cycles (cpu s) + n\<rparr>\<rparr>"
    by (simp add: cpu_tick_def)
  ultimately show ?thesis by simp
qed

lemma keep_mem_read [kept]: "P s \<Longrightarrow> P (snd (cpu_mem_read hk a s))"
  using keep_log [OF keep_read [of s a]] by (simp add: cpu_mem_read_def case_prod_beta Let_def kept)

lemma keep_mem_write [kept]: "P s \<Longrightarrow> P (cpu_mem_write hk a v s)"
  using keep_log [OF keep_write [of s a v]] by (simp add: cpu_mem_write_def kept)

lemma keep_set [kept]: "P s \<Longrightarrow> P (set_pc w s)" "P s \<Longrightarrow> P (set_sp v s)"
    "P s \<Longrightarrow> P (upd_cpu (\<lambda>c. c\<lparr>halted := b\<rparr>) s)"
  by (simp_all add: set_pc_def set_sp_def upd_cpu_def keep_cpu same_seq_def)

lemma keep_fetch [kept]: "P s \<Longrightarrow> P (snd (cpu_fetch_byte hk s))"
  by (simp add: cpu_fetch_byte_def Let_def kept)

lemma keep_trace [kept]: "P s \<Longrightarrow> P (cpu_irq_trace_entry hk s)"
proof -
  assume "P s"
  from keep_read [OF keep_read [OF this, of "0x030D"], of "0x030E"]
  have "P (s\<lparr>board := snd (memory_read hk 0x030E (snd (memory_read hk 0x030D (board s))))\<rparr>)" by simp
  from keep_cpu [OF this, of "(cpu s)\<lparr>irq_trace_count := irq_trace_count (cpu s) + 1\<rparr>"] \<open>P s\<close>
  show ?thesis by (simp add: cpu_irq_trace_entry_def Let_def same_seq_def)
qed

lemma keep_stack [kept]:
    "P s \<Longrightarrow> P (cpu_push hk v s)" "P s \<Longrightarrow> P (snd (cpu_pull hk s))"
    "P s \<Longrightarrow> P (cpu_push_word hk w s)" "P s \<Longrightarrow> P (snd (cpu_pull_word hk s))"
  by (simp_all add: cpu_push_def cpu_pull_def cpu_push_word_def cpu_pull_word_def Let_def
      case_prod_beta kept)

lemma keep_modes [kept]:
    "P s \<Longrightarrow> P (snd (addr_immediate s))" "P s \<Longrightarrow> P (snd (addr_zero_page hk s))"
    "P s \<Longrightarrow> P (snd (addr_zero_page_x hk s))" "P s \<Longrightarrow> P (snd (addr_zero_page_y hk s))"
    "P s \<Longrightarrow> P (snd (addr_absolute hk s))" "P s \<Longrightarrow> P (snd (addr_absolute_x hk s))"
    "P s \<Longrightarrow> P (snd (addr_absolute_y hk s))" "P s \<Longrightarrow> P (snd (addr_indirect hk s))"
    "P s \<Longrightarrow> P (snd (addr_indexed_indirect hk s))" "P s \<Longrightarrow> P (snd (addr_indirect_indexed hk s))"
    "P s \<Longrightarrow> P (snd (addr_relative hk s))"
  by (simp_all add: addr_immediate_def addr_zero_page_def addr_zero_page_x_def
      addr_zero_page_y_def addr_absolute_def addr_absolute_x_def addr_absolute_y_def
      addr_indirect_def addr_indexed_indirect_def addr_indirect_indexed_def addr_relative_def
      cpu_fetch_word_pc_def Let_def case_prod_beta kept)

lemma keep_shapes [kept]:
    "P (snd r) \<Longrightarrow> (\<And>v. reg_fun (f v)) \<Longrightarrow> P (snd (read_then hk r f))"
    "P (snd q) \<Longrightarrow> (\<And>v. reg_fun (f v)) \<Longrightarrow> P (snd (read_then_x hk q f))"
    "P (snd r) \<Longrightarrow> P (snd (write_then hk r g))"
    "P (snd q) \<Longrightarrow> P (snd (sh_then hk q idx reg))"
    "P s \<Longrightarrow> P (snd (do_branch hk b s))"
  by (simp_all add: read_then_def read_then_x_def write_then_def
      sh_then_def op_sh_store_def do_branch_def Let_def case_prod_beta kept)

lemma keep_rmw [kept]: "P (snd r) \<Longrightarrow> P (snd (rmw_then hk r rmw))"
  by (simp add: rmw_then_def op_rmw_mem_def Let_def case_prod_beta kept keep_cpu
      same_seq_reg_fun [of "\<lambda>c. snd (cpu_rmw_apply rmw v c)" for v] reg_funs)

lemma keep_control_flow [kept]:
    "P s \<Longrightarrow> P (op_jsr hk s)" "P s \<Longrightarrow> P (op_rts hk s)" "P s \<Longrightarrow> P (op_rti hk s)"
    "P s \<Longrightarrow> P (op_brk hk s)" "P s \<Longrightarrow> P (snd (op_tas hk s))"
  by (simp_all add: op_jsr_def op_rts_def op_rti_def op_brk_def op_tas_def Let_def
      case_prod_beta kept reg_funs)

lemma keep_fetch_n [kept]: "P s \<Longrightarrow> P (fetch_n hk n s)"
  by (induction n arbitrary: s) (simp_all add: kept)

lemma keep_registers [kept]:
    "P s \<Longrightarrow> P (upd_cpu (\<lambda>c. set_X_nz (f c) c) s)" "P s \<Longrightarrow> P (upd_cpu (\<lambda>c. set_Y_nz (f c) c) s)"
    "P s \<Longrightarrow> P (upd_cpu (\<lambda>c. set_A_nz (f c) c) s)" "P s \<Longrightarrow> P (upd_cpu (\<lambda>c. c\<lparr>cpu_SP := f c\<rparr>) s)"
  by (simp_all add: upd_cpu_def keep_cpu same_seq_def set_X_nz_def set_Y_nz_def set_A_nz_def
      cpu_update_nz_def cpu_set_flag_alt)

end

text \<open>The cases of the \<open>switch\<close>, one lemma per group, by a rule for the chains of conditionals.\<close>

definition case_keeps :: "('d machine \<Rightarrow> bool) \<Rightarrow> (nat \<times> 'd machine) option \<Rightarrow> bool" where
  "case_keeps P r \<longleftrightarrow> (case r of None \<Rightarrow> True | Some (_, s) \<Rightarrow> P s)"

lemma case_keeps_if: "case_keeps P x \<Longrightarrow> case_keeps P y \<Longrightarrow> case_keeps P (if c then x else y)"
  by simp

lemma case_keeps_simps [simp]:
    "case_keeps P None" "case_keeps P (Some r) \<longleftrightarrow> P (snd r)"
    "case_keeps P x \<Longrightarrow> case_keeps P y \<Longrightarrow> case_keeps P (orelse x y)"
  by (auto simp: case_keeps_def orelse_def split: option.splits prod.splits)

context legacy_invariant
begin

lemma keep_exec:
  assumes "P s"
  shows
    "case_keeps P (exec_load hk op s)" "case_keeps P (exec_store hk op s)"
    "case_keeps P (exec_arith hk op s)" "case_keeps P (exec_logic hk op s)"
    "case_keeps P (exec_compare hk op s)" "case_keeps P (exec_rmw hk op s)"
    "case_keeps P (exec_registers hk op s)" "case_keeps P (exec_stack hk op s)"
    "case_keeps P (exec_branch hk op s)" "case_keeps P (exec_jump hk op s)"
    "case_keeps P (exec_flags hk op s)" "case_keeps P (exec_illegal_rmw hk op s)"
    "case_keeps P (exec_lax_sax hk op s)" "case_keeps P (exec_unstable hk op s)"
    "case_keeps P (exec_nop hk op s)"
  unfolding exec_load_def exec_store_def exec_arith_def exec_logic_def exec_compare_def
    exec_rmw_def exec_registers_def exec_stack_def exec_branch_def exec_jump_def exec_flags_def
    exec_illegal_rmw_def exec_lax_sax_def exec_unstable_def exec_nop_def
  by (intro case_keeps_if; simp add: assms kept reg_funs case_prod_beta Let_def)+

lemma keep_case: "P s \<Longrightarrow> case_keeps P (exec_case hk op s)"
  by (simp add: exec_case_def keep_exec)

lemma keep_execute [kept]: "P s \<Longrightarrow> P (snd (cpu_execute_opcode hk op s))"
  using keep_case [of s op]
  by (auto simp: cpu_execute_opcode_def case_keeps_def kept split: option.split prod.split)

lemma keep_pad [kept]: "P s \<Longrightarrow> P (pad_to hk n k s)"
  by (simp add: pad_to_def Let_def kept)

lemma keep_ack: "P s \<Longrightarrow> P ((set_pc w s)\<lparr>board := (board s)\<lparr>nmi_pending := False\<rparr>\<rparr>)"
  using keep_nmi [OF keep_set(1), of s w] by simp

lemma keep_interrupts [kept]: "P s \<Longrightarrow> P (handle_nmi hk s)" "P s \<Longrightarrow> P (handle_irq hk s)"
  by (simp_all add: handle_nmi_def handle_irq_def Let_def case_prod_beta kept reg_funs keep_ack)

theorem keep_step: "P s \<Longrightarrow> P (snd (cpu_step_legacy hk s))"
  by (simp add: cpu_step_legacy_def Let_def case_prod_beta kept keep_pulse)

end

text \<open>The engine never writes the sequencer's control state.\<close>

definition same_ms :: "'d machine \<Rightarrow> 'd machine \<Rightarrow> bool" where
  "same_ms s t \<longleftrightarrow> ms_control (cpu t) = ms_control (cpu s)"

interpretation legacy_ms: legacy_invariant hk "same_ms s0"
  by unfold_locales (simp_all add: same_ms_def same_seq_def)

lemma cpu_step_legacy_keeps_ms: "same_ms s (snd (cpu_step_legacy hk s))"
  by (rule legacy_ms.keep_step) (simp add: same_ms_def)

section \<open>Progress\<close>

lemma opcode_cycles_ge: "2 \<le> opcode_cycles op"
proof -
  have "list_all (\<lambda>e. 2 \<le> fst (snd e)) opcode_table"
    by (simp add: opcode_table_def)
  moreover have "length opcode_table = 256"
    by (simp add: opcode_table_def)
  ultimately show ?thesis
    by (simp add: opcode_cycles_def list_all_length)
qed

lemma cpu_step_legacy_progress: "\<not> halted (cpu s) \<Longrightarrow> 2 \<le> fst (cpu_step_legacy hk s)"
proof -
  have "2 \<le> fst (cpu_execute_opcode hk op t)" for op and t :: "'a machine"
    using opcode_cycles_ge [of op]
    by (auto simp: cpu_execute_opcode_def split: option.split prod.split)
  moreover assume "\<not> halted (cpu s)"
  ultimately show ?thesis
    by (simp add: cpu_step_legacy_def Let_def case_prod_beta)
qed

text \<open>A step from rest takes at least one cycle and leaves the sequencer at rest, or halts.\<close>

lemma cpu_step_progress:
  assumes "\<not> halted (cpu s)" "\<not> ms_active (cpu s)"
  shows "1 \<le> fst (cpu_step hk s)"
    and "halted (cpu (snd (cpu_step hk s))) \<or> \<not> ms_active (cpu (snd (cpu_step hk s)))"
proof -
  show "1 \<le> fst (cpu_step hk s)"
    using ms_instruction_progress [OF assms, of hk] cpu_step_legacy_progress [OF assms(1), of hk]
      assms by (auto simp: cpu_step_def Let_def)
  show "halted (cpu (snd (cpu_step hk s))) \<or> \<not> ms_active (cpu (snd (cpu_step hk s)))"
    using ms_instruction_rest [OF assms(1), of hk] cpu_step_legacy_keeps_ms [of s hk] assms
    by (auto simp: cpu_step_def Let_def same_ms_def ms_control_def)
qed

lemma execute_from_returns:
  assumes "halted (cpu s) \<or> \<not> ms_active (cpu s)"
  shows "\<exists>k s'. execute_from hk n executed s = Some (k, s') \<and> (n \<le> k \<or> halted (cpu s'))"
  using assms
proof (induction "n - executed" arbitrary: executed s rule: less_induct)
  case less
  show ?case
  proof (cases "executed < n \<and> \<not> halted (cpu s)")
    case True
    then have step: "1 \<le> fst (cpu_step hk s)"
        "halted (cpu (snd (cpu_step hk s))) \<or> \<not> ms_active (cpu (snd (cpu_step hk s)))"
      using cpu_step_progress less.prems by blast+
    then have "n - (executed + fst (cpu_step hk s)) < n - executed"
      using True by linarith
    from less.hyps [OF this step(2)] show ?thesis
      using True by (subst execute_from.simps) (simp add: case_prod_beta)
  next
    case False
    then show ?thesis by (subst execute_from.simps) auto
  qed
qed

end
