(* ===== verification/Cpu_Bus.thy ===== *)
theory Cpu_Bus
  imports Cpu_Step
begin

unbundle bit_operations_syntax

text \<open>
  The contract of a bus that behaves as storage, and what the CPU's accesses do on such a bus.
  \<open>core\<close> is what the accesses can observe of the board, \<open>val\<close> reads a cell of it and \<open>put\<close>
  is the effect of a write: the laws say that a read returns a cell and changes no cell, that
  a write is \<open>put\<close>, and that neither an access nor the cycle callback touches the cells
  otherwise or raises an NMI; the interrupt lines are not cells.  The machine with no peripheral is an instance
  (\<open>bare_hooks\<close> in \<open>Bare_Machine\<close>).
\<close>

locale quiet_bus =
  fixes hk :: "'d hooks"
    and core :: "'d board \<Rightarrow> 'c"
    and val :: "'c \<Rightarrow> u16 \<Rightarrow> u8"
    and put :: "'c \<Rightarrow> u16 \<Rightarrow> u8 \<Rightarrow> 'c"
  assumes read_val: "fst (memory_read hk a b) = val (core b) a"
    and read_core: "core (snd (memory_read hk a b)) = core b"
    and read_nmi: "nmi_pending (snd (memory_read hk a b)) = nmi_pending b"
    and write_core: "core (memory_write hk a v b) = put (core b) a v"
    and write_nmi: "nmi_pending (memory_write hk a v b) = nmi_pending b"
    and tick_core: "on_cycle hk = Some f \<Longrightarrow> core (f n b) = core b"
    and tick_nmi: "on_cycle hk = Some f \<Longrightarrow> nmi_pending (f n b) = nmi_pending b"
    and core_nmi: "core (b\<lparr>nmi_pending := x\<rparr>) = core b"
    and core_pulse: "core (b\<lparr>irq_pulse := p\<rparr>) = core b"

text \<open>What a program can observe of a machine: registers, program counter, halt and cells.\<close>

definition arch_eq :: "('d board \<Rightarrow> 'c) \<Rightarrow> 'd machine \<Rightarrow> 'd machine \<Rightarrow> bool" where
  "arch_eq core s t \<longleftrightarrow>
     cpu_A (cpu s) = cpu_A (cpu t) \<and> cpu_X (cpu s) = cpu_X (cpu t) \<and>
     cpu_Y (cpu s) = cpu_Y (cpu t) \<and> cpu_SP (cpu s) = cpu_SP (cpu t) \<and>
     cpu_P (cpu s) = cpu_P (cpu t) \<and> cpu_PC (cpu s) = cpu_PC (cpu t) \<and>
     halted (cpu s) = halted (cpu t) \<and> core (board s) = core (board t) \<and>
     nmi_pending (board s) = nmi_pending (board t)"

context quiet_bus
begin

lemma tick_board [simp]:
    "core (board (cpu_tick hk n s)) = core (board s)"
    "nmi_pending (board (cpu_tick hk n s)) = nmi_pending (board s)"
  by (auto simp: cpu_tick_def tick_core tick_nmi split: option.split)

lemma mem_read_board [simp]:
    "fst (cpu_mem_read hk a s) = val (core (board s)) a"
    "core (board (snd (cpu_mem_read hk a s))) = core (board s)"
    "nmi_pending (board (snd (cpu_mem_read hk a s))) = nmi_pending (board s)"
  by (simp_all add: cpu_mem_read_def case_prod_beta Let_def read_val read_core read_nmi)

lemma mem_write_board [simp]:
    "core (board (cpu_mem_write hk a v s)) = put (core (board s)) a v"
    "nmi_pending (board (cpu_mem_write hk a v s)) = nmi_pending (board s)"
  by (simp_all add: cpu_mem_write_def write_core write_nmi)

lemma fetch_board [simp]:
    "fst (cpu_fetch_byte hk s) = val (core (board s)) (cpu_PC (cpu s))"
    "core (board (snd (cpu_fetch_byte hk s))) = core (board s)"
    "nmi_pending (board (snd (cpu_fetch_byte hk s))) = nmi_pending (board s)"
  by (simp_all add: cpu_fetch_byte_def Let_def)

lemma push_board [simp]:
    "core (board (ms_push hk v s)) = put (core (board s)) (stack_addr s) v"
    "nmi_pending (board (ms_push hk v s)) = nmi_pending (board s)"
  by (simp_all add: ms_push_def Let_def)

lemma pull_board [simp]:
    "fst (ms_pull hk s) = val (core (board s)) (0x0100 + ucast (cpu_SP (cpu s) + 1))"
    "core (board (snd (ms_pull hk s))) = core (board s)"
    "nmi_pending (board (snd (ms_pull hk s))) = nmi_pending (board s)"
  by (simp_all add: ms_pull_def Let_def stack_addr_def)

end

text \<open>The stack accesses of the two engines are the same functions.\<close>

lemma cpu_push_eq: "cpu_push = ms_push"
  by (intro ext) (simp add: cpu_push_def ms_push_def)

lemma cpu_pull_eq: "cpu_pull = ms_pull"
  by (intro ext) (simp add: cpu_pull_def ms_pull_def)

section \<open>A plan as a sequence of micro-operations\<close>

text \<open>One micro-operation with its epilogue, for the plans that run to their end.\<close>

definition ms_do :: "'d hooks \<Rightarrow> mop \<Rightarrow> 'd machine \<Rightarrow> 'd machine" where
  "ms_do hk m t =
     (if m = M_READ_FIXUP \<and> \<not> ms_crossed (cpu t)
      then upd_cpu (\<lambda>c. c\<lparr>ms_pc := ms_pc c + 1\<rparr>) t
      else snd (ms_finish False (snd (ms_exec hk m t))))"

definition straight :: "u8 \<Rightarrow> mop list \<Rightarrow> bool" where
  "straight op p \<longleftrightarrow> M_JAM \<notin> set p \<and> M_BRANCH_TAKEN \<notin> set p \<and>
     (M_FETCH_LO \<in> set p \<longrightarrow> ms_cls op \<noteq> C_BRANCH)"

lemma straight_Cons:
  "straight op (m # p) \<longleftrightarrow> m \<noteq> M_JAM \<and> m \<noteq> M_BRANCH_TAKEN \<and>
     (m = M_FETCH_LO \<longrightarrow> ms_cls op \<noteq> C_BRANCH) \<and> straight op p"
  by (auto simp: straight_def)

lemma ms_exec_straight:
  "m \<noteq> M_JAM \<Longrightarrow> m \<noteq> M_BRANCH_TAKEN \<Longrightarrow> (m = M_FETCH_LO \<longrightarrow> ms_cls (ms_opcode (cpu s)) \<noteq> C_BRANCH) \<Longrightarrow>
     \<not> fst (ms_exec hk m s)"
  by (cases m) (auto simp: case_prod_beta Let_def)

lemma halted_hijack [simp]: "halted (cpu (ms_nmi_hijack s)) = halted (cpu s)"
  by (simp add: ms_nmi_hijack_def)

lemma halted_trace [simp]: "halted (cpu (cpu_irq_trace_entry hk s)) = halted (cpu s)"
  by (simp add: cpu_irq_trace_entry_def Let_def)

lemma halted_regs [simp]:
    "halted (cpu_set_flag flag b c) = halted c" "halted (set_A_nz v c) = halted c"
    "halted (set_P_pulled v c) = halted c" "halted (ms_alu_read op v c) = halted c"
    "halted (ms_implied op c) = halted c" "halted (snd (cpu_rmw_apply rmw v c)) = halted c"
    "halted (ms_apply_index c) = halted c" "halted (ms_branch_step c) = halted c"
  by (simp_all add: reg_fun_keeps reg_funs reg_fun_keeps [of "\<lambda>c. snd (cpu_rmw_apply rmw v c)"]
      ms_apply_index_def ms_branch_step_def Let_def)

lemma halted_write_unstable [simp]:
  "halted (cpu (ms_write_unstable hk op s)) = halted (cpu s)"
  by (simp add: ms_write_unstable_def Let_def case_prod_beta)

lemma halted_exec: "m \<noteq> M_JAM \<Longrightarrow> halted (cpu (snd (ms_exec hk m s))) = halted (cpu s)"
  by (cases m) (simp_all add: case_prod_beta Let_def)

lemma halted_finish [simp]: "halted (cpu (snd (ms_finish early s))) = halted (cpu s)"
  by (simp add: ms_finish_def Let_def)

lemma ms_do_control:
    "m \<noteq> M_JAM \<Longrightarrow> halted (cpu (ms_do hk m s)) = halted (cpu s)"
    "ms_pc (cpu (ms_do hk m s)) = ms_pc (cpu s) + 1"
    "ms_plan (cpu (ms_do hk m s)) = ms_plan (cpu s)"
    "ms_opcode (cpu (ms_do hk m s)) = ms_opcode (cpu s)"
    "ms_active (cpu (ms_do hk m s)) \<longleftrightarrow> ms_active (cpu s) \<and>
       (ms_pc (cpu s) + 1 < length (ms_plan (cpu s)) \<or> m = M_READ_FIXUP \<and> \<not> ms_crossed (cpu s))"
  by (auto simp: ms_do_def halted_exec ms_finish_def Let_def ms_exec_keeps)

lemma ms_finish_not_early:
  "fst (ms_finish False s) \<longleftrightarrow> length (ms_plan (cpu s)) \<le> ms_pc (cpu s) + 1"
  by (simp add: ms_finish_def Let_def)

lemma drop_nth_Cons: "drop n xs = y # ys \<Longrightarrow> n < length xs \<and> xs ! n = y \<and> drop (Suc n) xs = ys"
  by (metis drop_Suc drop_eq_Nil2 linorder_not_le list.discI list.sel(3) nth_via_drop tl_drop)

text \<open>A plan with no early end runs all its micro-operations.\<close>

lemma ms_instruction_straight:
  assumes "\<not> halted (cpu s)" "ms_active (cpu s)" "drop (ms_pc (cpu s)) (ms_plan (cpu s)) = p"
    "straight (ms_opcode (cpu s)) p" "p \<noteq> []" "last p \<noteq> M_READ_FIXUP"
  shows "ms_instruction hk s = fold (ms_do hk) p s"
  using assms
proof (induction p arbitrary: s)
  case (Cons m p)
  note pos = drop_nth_Cons [OF Cons.prems(3)]
  have m: "current_mop (cpu s) = m" using pos by (simp add: current_mop_def)
  have st: "m \<noteq> M_JAM" "m \<noteq> M_BRANCH_TAKEN"
      "m = M_FETCH_LO \<longrightarrow> ms_cls (ms_opcode (cpu s)) \<noteq> C_BRANCH"
      "straight (ms_opcode (cpu s)) p"
    using Cons.prems(4) by (auto simp: straight_Cons)
  have len: "length (ms_plan (cpu s)) = ms_pc (cpu s) + 1 + length p"
    using pos Cons.prems(3) by (metis add.commute add_Suc_right diff_add_inverse2 length_Cons
        length_drop less_imp_add_positive plus_1_eq_Suc)
  let ?s1 = "ms_do hk m s"
  have IH: "ms_instruction hk ?s1 = fold (ms_do hk) p ?s1" if "p \<noteq> []"
    using Cons.IH [of ?s1] Cons.prems pos st that len by (auto simp: ms_do_control)
  show ?case
  proof (cases "m = M_READ_FIXUP \<and> \<not> ms_crossed (cpu s)")
    case True
    then have "p \<noteq> []" using Cons.prems(6) by auto
    moreover have "cpu_cycle hk s = cpu_cycle hk ?s1"
      using True Cons.prems m by (simp add: cpu_cycle_simps(3) ms_do_def)
    then have "ms_instruction hk s = ms_instruction hk ?s1"
      by (simp add: ms_instruction_unfold [of hk s] ms_instruction_unfold [of hk ?s1])
    ultimately show ?thesis using IH by simp
  next
    case False
    have c: "cpu_cycle hk s = ms_finish False (snd (ms_exec hk m s))"
      using False Cons.prems m ms_exec_straight [OF st(1-3), of hk] by (simp add: cpu_cycle_simps(4))
    have "snd (cpu_cycle hk s) = ?s1" using c False by (auto simp: ms_do_def)
    moreover have "fst (cpu_cycle hk s) \<longleftrightarrow> p = []"
      using c len by (simp add: ms_finish_not_early ms_exec_keeps)
    ultimately show ?thesis
      using IH by (cases "p = []") (simp_all add: ms_instruction_unfold [of hk s])
  qed
qed simp

end
