(* ===== verification/Engine_Stages.thy ===== *)
theory Engine_Stages
  imports Cpu_Bus
begin

unbundle bit_operations_syntax

text \<open>
  The two engines side by side on a quiet bus, stage by stage.  An addressing mode of the
  historical engine and the addressing micro-operations of the sequencer compute the same
  effective address; an access stage then does the same to the registers and the cells.
  \<open>staged\<close> relates the two machines after the address, \<open>agree\<close> after the instruction.
\<close>

lemma finish_sel [simp]:
    "cpu_A (cpu (snd (ms_finish e s))) = cpu_A (cpu s)"
    "cpu_X (cpu (snd (ms_finish e s))) = cpu_X (cpu s)"
    "cpu_Y (cpu (snd (ms_finish e s))) = cpu_Y (cpu s)"
    "cpu_SP (cpu (snd (ms_finish e s))) = cpu_SP (cpu s)"
    "cpu_P (cpu (snd (ms_finish e s))) = cpu_P (cpu s)"
    "cpu_PC (cpu (snd (ms_finish e s))) = cpu_PC (cpu s)"
    "ms_opcode (cpu (snd (ms_finish e s))) = ms_opcode (cpu s)"
    "ms_rmw (cpu (snd (ms_finish e s))) = ms_rmw (cpu s)"
    "ms_idx (cpu (snd (ms_finish e s))) = ms_idx (cpu s)"
    "ms_ptr (cpu (snd (ms_finish e s))) = ms_ptr (cpu s)"
    "ms_adl (cpu (snd (ms_finish e s))) = ms_adl (cpu s)"
    "ms_data (cpu (snd (ms_finish e s))) = ms_data (cpu s)"
    "ms_addr (cpu (snd (ms_finish e s))) = ms_addr (cpu s)"
    "ms_base (cpu (snd (ms_finish e s))) = ms_base (cpu s)"
    "ms_crossed (cpu (snd (ms_finish e s))) = ms_crossed (cpu s)"
    "ms_vector (cpu (snd (ms_finish e s))) = ms_vector (cpu s)"
    "board (snd (ms_finish e s)) = board s"
  by (simp_all add: ms_finish_def ms_sample_interrupts_def Let_def)

text \<open>
  After the addressing stage: the address, whether the index crossed a page and the address
  before indexing are in the latches, and both clocks have moved by at most \<open>n\<close>.
\<close>

definition staged ::
  "('d board \<Rightarrow> 'c) \<Rightarrow> nat \<Rightarrow> nat \<Rightarrow> u16 \<Rightarrow> bool \<Rightarrow> u16 \<Rightarrow> u8 \<Rightarrow> cpu_rmw_t \<Rightarrow> 'd machine \<Rightarrow> 'd machine \<Rightarrow> bool" where
  "staged core before n addr crossed base op rmw s t \<longleftrightarrow>
     arch_eq core s t \<and> ms_addr (cpu t) = addr \<and> ms_crossed (cpu t) = crossed \<and>
     ms_base (cpu t) = base \<and> ms_opcode (cpu t) = op \<and> ms_rmw (cpu t) = rmw \<and>
     cycles (cpu t) = before + n \<and> cycles (cpu s) \<le> before + n \<and> before \<le> cycles (cpu s)"

text \<open>Both machines after the opcode fetch of \<open>op\<close>, the plan in place.\<close>

definition started ::
  "('d board \<Rightarrow> 'c) \<Rightarrow> nat \<Rightarrow> nat \<Rightarrow> u8 \<Rightarrow> cpu_rmw_t \<Rightarrow> nat \<Rightarrow> 'd machine \<Rightarrow> 'd machine \<Rightarrow> bool" where
  "started core before n op rmw idx s t \<longleftrightarrow>
     arch_eq core s t \<and> ms_opcode (cpu t) = op \<and> ms_rmw (cpu t) = rmw \<and> ms_idx (cpu t) = idx \<and>
     \<not> ms_crossed (cpu t) \<and>
     cycles (cpu t) = before + n \<and> cycles (cpu s) \<le> before + n \<and> before \<le> cycles (cpu s)"

definition agree :: "('d board \<Rightarrow> 'c) \<Rightarrow> nat \<Rightarrow> nat \<Rightarrow> 'd machine \<Rightarrow> 'd machine \<Rightarrow> bool" where
  "agree core before n s t \<longleftrightarrow>
     arch_eq core s t \<and> cycles (cpu t) = before + n \<and> cycles (cpu s) \<le> before + n \<and>
     before \<le> cycles (cpu s)"

section \<open>Addressing stages\<close>

context quiet_bus
begin

lemmas stage_unfold = staged_def started_def agree_def arch_eq_def ms_do_def case_prod_beta Let_def

lemma stage_zp:
  assumes "started core c0 n op rmw idx s t" "ms_cls op \<noteq> C_BRANCH"
  shows "staged core c0 (n + 1) (fst (addr_zero_page hk s)) False (fst (addr_zero_page hk s)) op rmw
    (snd (addr_zero_page hk s)) (fold (ms_do hk) [M_FETCH_LO] t)"
  using assms by (simp add: stage_unfold addr_zero_page_def)

lemma stage_zpx:
  assumes "started core c0 n op rmw 1 s t" "ms_cls op \<noteq> C_BRANCH"
  shows "staged core c0 (n + 2) (fst (addr_zero_page_x hk s)) False (fst (addr_zero_page_x hk s)) op rmw
    (snd (addr_zero_page_x hk s)) (fold (ms_do hk) [M_FETCH_LO, M_ZP_INDEX] t)"
  using assms by (simp add: stage_unfold addr_zero_page_x_def)

lemma stage_zpy:
  assumes "started core c0 n op rmw 2 s t" "ms_cls op \<noteq> C_BRANCH"
  shows "staged core c0 (n + 2) (fst (addr_zero_page_y hk s)) False (fst (addr_zero_page_y hk s)) op rmw
    (snd (addr_zero_page_y hk s)) (fold (ms_do hk) [M_FETCH_LO, M_ZP_INDEX] t)"
  using assms by (simp add: stage_unfold addr_zero_page_y_def)

lemma stage_abs:
  assumes "started core c0 n op rmw 0 s t" "ms_cls op \<noteq> C_BRANCH"
  shows "staged core c0 (n + 2) (fst (addr_absolute hk s)) False (fst (addr_absolute hk s)) op rmw
    (snd (addr_absolute hk s)) (fold (ms_do hk) [M_FETCH_LO, M_FETCH_HI] t)"
  using assms by (simp add: stage_unfold addr_absolute_def cpu_fetch_word_pc_def
      ms_apply_index_def page_crossed_def)

lemma stage_absx:
  assumes "started core c0 n op rmw 1 s t" "ms_cls op \<noteq> C_BRANCH"
  shows "staged core c0 (n + 2) (fst (fst (addr_absolute_x hk s))) (snd (fst (addr_absolute_x hk s)))
    (fst (fst (addr_absolute_x hk s)) - ucast (cpu_X (cpu s))) op rmw
    (snd (addr_absolute_x hk s)) (fold (ms_do hk) [M_FETCH_LO, M_FETCH_HI] t)"
  using assms by (simp add: stage_unfold addr_absolute_x_def cpu_fetch_word_pc_def
      ms_apply_index_def)

lemma stage_absy:
  assumes "started core c0 n op rmw 2 s t" "ms_cls op \<noteq> C_BRANCH"
  shows "staged core c0 (n + 2) (fst (fst (addr_absolute_y hk s))) (snd (fst (addr_absolute_y hk s)))
    (fst (fst (addr_absolute_y hk s)) - ucast (cpu_Y (cpu s))) op rmw
    (snd (addr_absolute_y hk s)) (fold (ms_do hk) [M_FETCH_LO, M_FETCH_HI] t)"
  using assms by (simp add: stage_unfold addr_absolute_y_def cpu_fetch_word_pc_def
      ms_apply_index_def)

text \<open>The indirect modes: first the pointer, then the two bytes it points to.\<close>

lemma stage_pointer_x:
  assumes "started core c0 n op rmw 1 s t" "ms_cls op \<noteq> C_BRANCH"
  defines "s1 \<equiv> snd (cpu_fetch_byte hk s)" and "t1 \<equiv> fold (ms_do hk) [M_FETCH_LO, M_ZP_INDEX] t"
  shows "started core c0 (n + 2) op rmw 1 s1 t1"
    "ms_ptr (cpu t1) = fst (cpu_fetch_byte hk s) + cpu_X (cpu s1)"
  using assms(1,2) unfolding s1_def t1_def by (simp_all add: stage_unfold)

lemma stage_pointer_y:
  assumes "started core c0 n op rmw 2 s t" "ms_cls op \<noteq> C_BRANCH"
  defines "s1 \<equiv> snd (cpu_fetch_byte hk s)" and "t1 \<equiv> ms_do hk M_FETCH_LO t"
  shows "started core c0 (n + 1) op rmw 2 s1 t1" "ms_ptr (cpu t1) = fst (cpu_fetch_byte hk s)"
  using assms(1,2) unfolding s1_def t1_def by (simp_all add: stage_unfold)

lemma stage_deref_x:
  assumes "started core c0 n op rmw 1 s t" "ms_ptr (cpu t) = p"
  defines "r1 \<equiv> cpu_mem_read hk (ucast p) s"
  defines "r2 \<equiv> cpu_mem_read hk (ucast (p + 1)) (snd r1)"
  shows "staged core c0 (n + 2) (hilo (fst r2) (fst r1)) False (hilo (fst r2) (fst r1)) op rmw
    (snd r2) (fold (ms_do hk) [M_PTR_LO, M_PTR_HI] t)"
  using assms(1,2) unfolding r2_def r1_def by (simp add: stage_unfold)

lemma stage_deref_y:
  assumes "started core c0 n op rmw 2 s t" "ms_ptr (cpu t) = p"
  defines "r1 \<equiv> cpu_mem_read hk (ucast p) s"
  defines "r2 \<equiv> cpu_mem_read hk (ucast (p + 1)) (snd r1)"
  defines "base \<equiv> hilo (fst r2) (fst r1)"
  defines "addr \<equiv> base + ucast (cpu_Y (cpu s))"
  shows "staged core c0 (n + 2) addr (page_crossed base addr) (addr - ucast (cpu_Y (cpu s))) op rmw
    (snd r2) (fold (ms_do hk) [M_PTR_LO, M_PTR_HI] t)"
  using assms(1,2) unfolding addr_def base_def r2_def r1_def
  by (simp add: stage_unfold ms_apply_index_def)

lemma stage_indx:
  assumes "started core c0 n op rmw 1 s t" "ms_cls op \<noteq> C_BRANCH"
  shows "staged core c0 (n + 4) (fst (addr_indexed_indirect hk s)) False
    (fst (addr_indexed_indirect hk s)) op rmw
    (snd (addr_indexed_indirect hk s))
    (fold (ms_do hk) [M_FETCH_LO, M_ZP_INDEX, M_PTR_LO, M_PTR_HI] t)"
  using stage_deref_x [OF stage_pointer_x [OF assms]]
  by (simp add: addr_indexed_indirect_def case_prod_beta Let_def add.assoc eval_nat_numeral)

lemma stage_indy:
  assumes "started core c0 n op rmw 2 s t" "ms_cls op \<noteq> C_BRANCH"
  shows "staged core c0 (n + 3) (fst (fst (addr_indirect_indexed hk s)))
    (snd (fst (addr_indirect_indexed hk s)))
    (fst (fst (addr_indirect_indexed hk s)) - ucast (cpu_Y (cpu s))) op rmw
    (snd (addr_indirect_indexed hk s)) (fold (ms_do hk) [M_FETCH_LO, M_PTR_LO, M_PTR_HI] t)"
  using stage_deref_y [OF stage_pointer_y [OF assms]]
  by (simp add: addr_indirect_indexed_def case_prod_beta Let_def add.assoc eval_nat_numeral)

text \<open>The index penalty: a read pays it when the page is crossed, a write or a RMW always.\<close>

lemma stage_fixup:
  assumes "staged core c0 n addr crossed base op rmw s t"
  shows "staged core c0 (n + (if crossed then 1 else 0)) addr crossed base op rmw s
    (ms_do hk M_READ_FIXUP t)"
  using assms by (cases crossed) (simp_all add: stage_unfold)

lemma stage_dummy:
  assumes "staged core c0 n addr crossed base op rmw s t"
  shows "staged core c0 (n + 1) addr crossed base op rmw s (ms_do hk M_DUMMY_UNFIXED t)"
  using assms by (simp add: stage_unfold)

section \<open>Access stages\<close>

lemma arch_eq_finish [simp]: "arch_eq core s (snd (ms_finish e t)) = arch_eq core s t"
  by (simp add: arch_eq_def)

lemma arch_eq_latches [simp]:
    "arch_eq core s (upd_cpu (\<lambda>c. c\<lparr>ms_data := v c\<rparr>) t) = arch_eq core s t"
    "arch_eq core s (upd_cpu (\<lambda>c. c\<lparr>ms_adl := v c\<rparr>) t) = arch_eq core s t"
  by (simp_all add: arch_eq_def)

lemma arch_eq_regs: "arch_eq core s t \<Longrightarrow> get_regs (cpu s) = get_regs (cpu t)"
  by (simp add: arch_eq_def get_regs_def)

lemma arch_eq_reg_fun:
  assumes "arch_eq core s t" "reg_fun f"
  shows "arch_eq core (upd_cpu f s) (upd_cpu f t)"
proof -
  have "get_regs (f (cpu s)) = get_regs (f (cpu t))"
    by (rule reg_fun_regs) (use assms in \<open>simp_all add: arch_eq_def get_regs_def\<close>)
  then show ?thesis
    using assms by (simp add: arch_eq_def get_regs_def reg_fun_keeps)
qed

lemma arch_eq_read:
  "arch_eq core s t \<Longrightarrow> arch_eq core (snd (cpu_mem_read hk a s)) (snd (cpu_mem_read hk a' t))"
  by (simp add: arch_eq_def)

lemma arch_eq_write:
  "arch_eq core s t \<Longrightarrow> arch_eq core (cpu_mem_write hk a v s) (cpu_mem_write hk a v t)"
  by (simp add: arch_eq_def)

lemma access_read:
  assumes st: "staged core c0 n addr crossed base op rmw s t"
    and op: "ms_cls op = C_READ" "\<And>v c. ms_alu_read op v c = f v c"
  shows "agree core c0 (n + 1) (upd_cpu (f (val (core (board s)) addr)) (snd (cpu_mem_read hk addr s)))
    (ms_do hk M_READ_DATA t)"
proof -
  have [simp]: "ms_alu_read op = f" using op(2) by (intro ext)
  have f: "reg_fun (f v)" for v
    using reg_fun_ops(35) [of op v] by simp
  have t: "ms_do hk M_READ_DATA t = snd (ms_finish False (upd_cpu (f (val (core (board t)) addr))
     (upd_cpu (\<lambda>c. c\<lparr>ms_data := val (core (board t)) addr\<rparr>) (snd (cpu_mem_read hk addr t)))))"
    using st op(1) by (simp add: ms_do_def staged_def case_prod_beta Let_def)
  have "arch_eq core s t" and [simp]: "core (board s) = core (board t)"
    using st by (simp_all add: staged_def arch_eq_def)
  then have "arch_eq core (upd_cpu (f (val (core (board t)) addr)) (snd (cpu_mem_read hk addr s)))
     (ms_do hk M_READ_DATA t)"
    unfolding t by (simp add: arch_eq_reg_fun arch_eq_read f)
  moreover have "cycles (cpu (ms_do hk M_READ_DATA t)) = cycles (cpu t) + 1"
    unfolding t by (simp add: reg_fun_keeps f)
  ultimately show ?thesis
    using st by (simp add: agree_def staged_def reg_fun_keeps f)
qed

lemma access_write:
  assumes st: "staged core c0 n addr crossed base op rmw s t"
    and op: "ms_cls op = C_WRITE" "\<And>c. ms_store_value op c = g c"
    and g: "\<And>c r. g (put_regs c r) = g c"
  shows "agree core c0 (n + 1) (cpu_mem_write hk addr (g (cpu s)) s) (ms_do hk M_WRITE_DATA t)"
proof -
  have [simp]: "g (cpu s) = g (cpu t)"
    by (rule reg_value_eq [OF g arch_eq_regs]) (use st in \<open>simp add: staged_def\<close>)
  have t: "ms_do hk M_WRITE_DATA t = snd (ms_finish False (cpu_mem_write hk addr (g (cpu t)) t))"
    using st op by (simp add: ms_do_def staged_def Let_def)
  show ?thesis
    using st unfolding t by (simp add: agree_def staged_def arch_eq_write)
qed

lemma access_rmw:
  assumes st: "staged core c0 n addr crossed base op rmw s t"
    and op: "ms_cls op = C_RMW"
  shows "agree core c0 (n + 3) (op_rmw_mem hk addr rmw s)
    (fold (ms_do hk) [M_READ_DATA, M_RMW_ORIG, M_RMW_NEW] t)"
proof -
  define v where "v = val (core (board t)) addr"
  let ?f = "\<lambda>c. snd (cpu_rmw_apply rmw v c)"
  have f: "reg_fun ?f" by (rule reg_fun_ops)
  have eq: "arch_eq core s t" and [simp]: "core (board s) = core (board t)"
    using st by (simp_all add: staged_def arch_eq_def)
  let ?s2 = "cpu_mem_write hk addr v (snd (cpu_mem_read hk addr s))"
  let ?t1 = "snd (ms_finish False (upd_cpu (\<lambda>c. c\<lparr>ms_data := v\<rparr>) (snd (cpu_mem_read hk addr t))))"
  let ?t2 = "snd (ms_finish False (cpu_mem_write hk addr v ?t1))"
  have e2: "arch_eq core ?s2 ?t2" using eq by (simp add: arch_eq_write arch_eq_read)
  have val: "fst (cpu_rmw_apply rmw v (cpu ?s2)) = fst (cpu_rmw_apply rmw v (cpu ?t2))"
    by (rule reg_value_eq [OF cpu_rmw_apply_put(1) arch_eq_regs [OF e2]])
  have s: "op_rmw_mem hk addr rmw s =
      cpu_mem_write hk addr (fst (cpu_rmw_apply rmw v (cpu ?s2))) (upd_cpu ?f ?s2)"
    by (simp add: op_rmw_mem_def case_prod_beta Let_def v_def upd_cpu_def)
  have t1: "ms_do hk M_READ_DATA t = ?t1"
    using st op by (simp add: ms_do_def staged_def case_prod_beta Let_def v_def)
  have t2: "ms_do hk M_RMW_ORIG ?t1 = ?t2"
    using st by (simp add: ms_do_def staged_def)
  have t3: "ms_do hk M_RMW_NEW ?t2 = snd (ms_finish False (cpu_mem_write hk addr
      (fst (cpu_rmw_apply rmw v (cpu ?t2)))
      (upd_cpu (\<lambda>c. c\<lparr>ms_data := fst (cpu_rmw_apply rmw v (cpu ?t2))\<rparr>) (upd_cpu ?f ?t2))))"
    using st by (simp add: ms_do_def staged_def case_prod_beta Let_def upd_cpu_def reg_fun_keeps [OF f])
  have "arch_eq core (upd_cpu ?f ?s2) (upd_cpu ?f ?t2)"
    by (rule arch_eq_reg_fun [OF e2 f])
  then show ?thesis
    using st unfolding fold.simps o_apply id_apply t1 t2 t3 s val
    by (simp add: agree_def staged_def arch_eq_write reg_fun_keeps [OF f])
qed

lemma access_imm:
  assumes st: "started core c0 n op rmw idx s t"
    and op: "ms_cls op = C_READ" "\<And>v c. ms_alu_read op v c = f v c"
  shows "agree core c0 (n + 1) (snd (read_then hk (addr_immediate s) f)) (ms_do hk M_IMM t)"
proof -
  have [simp]: "ms_alu_read op = f" using op(2) by (intro ext)
  have f: "reg_fun (f v)" for v
    using reg_fun_ops(35) [of op v] by simp
  define v where "v = val (core (board t)) (cpu_PC (cpu t))"
  have eq: "arch_eq core s t" and [simp]: "core (board s) = core (board t)" "cpu_PC (cpu s) = cpu_PC (cpu t)"
    using st by (simp_all add: started_def arch_eq_def)
  have s: "snd (read_then hk (addr_immediate s) f) =
      upd_cpu (f v) (snd (cpu_mem_read hk (cpu_PC (cpu t)) (set_pc (cpu_PC (cpu t) + 1) s)))"
    by (simp add: read_then_def addr_immediate_def case_prod_beta Let_def v_def)
  have t: "ms_do hk M_IMM t = snd (ms_finish False (upd_cpu (f v)
      (upd_cpu (\<lambda>c. c\<lparr>ms_data := v\<rparr>) (snd (cpu_fetch_byte hk t)))))"
    using st by (simp add: ms_do_def started_def case_prod_beta Let_def v_def upd_cpu_def)
  have "arch_eq core (snd (cpu_mem_read hk (cpu_PC (cpu t)) (set_pc (cpu_PC (cpu t) + 1) s)))
     (snd (cpu_fetch_byte hk t))"
    using eq by (simp add: arch_eq_def)
  then show ?thesis
    using st unfolding s t by (simp add: agree_def started_def arch_eq_reg_fun f reg_fun_keeps)
qed

lemma access_implied:
  assumes st: "started core c0 n op rmw idx s t" and f: "ms_implied op = f"
  shows "agree core c0 (n + 1) (upd_cpu f s) (ms_do hk M_IMPLIED t)"
proof -
  have rf: "reg_fun f" using reg_fun_ops(36) [of op] f by simp
  have t: "ms_do hk M_IMPLIED t =
      snd (ms_finish False (upd_cpu f (snd (cpu_mem_read hk (cpu_PC (cpu t)) t))))"
    using st f by (simp add: ms_do_def started_def case_prod_beta Let_def upd_cpu_def)
  have "arch_eq core s (snd (cpu_mem_read hk (cpu_PC (cpu t)) t))"
    using st by (simp add: started_def arch_eq_def)
  then show ?thesis
    using st unfolding t by (simp add: agree_def started_def arch_eq_reg_fun rf reg_fun_keeps)
qed

text \<open>The unstable stores; TAS sets the stack pointer before the store.\<close>

lemma access_sh:
  assumes "staged core c0 n addr crossed (addr - ucast (idx (cpu s))) op rmw s t"
    and "ms_cls op = C_WRITE_UNSTABLE" "op \<noteq> 0x9B"
    and "reg (cpu s) = (if op = 0x9C then cpu_Y (cpu s) else if op = 0x9E then cpu_X (cpu s)
           else cpu_A (cpu s) AND cpu_X (cpu s))"
  shows "agree core c0 (n + 1) (op_sh_store hk addr (idx (cpu s)) (reg (cpu s)) s)
    (ms_do hk M_WRITE_DATA t)"
  using assms
  by (simp add: agree_def staged_def arch_eq_def ms_do_def op_sh_store_def ms_write_unstable_def
      case_prod_beta Let_def cong: if_cong split del: if_split)

lemma access_tas:
  assumes "staged core c0 n addr crossed (addr - ucast (cpu_Y (cpu s))) op rmw s t"
    and "ms_cls op = C_WRITE_UNSTABLE" "op = 0x9B"
  shows "agree core c0 (n + 1)
    (op_sh_store hk addr (cpu_Y (cpu s)) (store_sax (cpu s)) (set_sp (store_sax (cpu s)) s))
    (ms_do hk M_WRITE_DATA t)"
  using assms
  by (simp add: agree_def staged_def arch_eq_def ms_do_def op_sh_store_def ms_write_unstable_def
      store_sax_def case_prod_beta Let_def cong: if_cong split del: if_split)

section \<open>The instructions with a plan of their own\<close>

lemmas legacy_unfold =
  op_jsr_def op_rts_def op_rti_def op_brk_def addr_absolute_def addr_indirect_def
  cpu_fetch_word_pc_def cpu_push_word_def cpu_pull_word_def cpu_push_eq cpu_pull_eq stack_addr_def

lemma single_jmp:
  assumes "started core c0 n op rmw idx s t" "ms_cls op \<noteq> C_BRANCH"
  shows "agree core c0 (n + 2) (set_pc (fst (addr_absolute hk s)) (snd (addr_absolute hk s)))
    (fold (ms_do hk) [M_FETCH_LO, M_JMP_HI] t)"
  using assms by (simp add: stage_unfold legacy_unfold)

lemma single_pha:
  assumes "started core c0 n op rmw idx s t"
  shows "agree core c0 (n + 2) (cpu_push hk (cpu_A (cpu s)) s) (fold (ms_do hk) [M_DUMMY_PC, M_PUSH_A] t)"
  using assms by (simp add: stage_unfold legacy_unfold)

lemma single_php:
  assumes "started core c0 n op rmw idx s t" "op \<noteq> 0"
  shows "agree core c0 (n + 2) (cpu_push hk (cpu_P (cpu s) OR FLAG_BREAK OR FLAG_UNUSED) s)
    (fold (ms_do hk) [M_DUMMY_PC, M_PUSH_P_BRK] t)"
  using assms by (simp add: stage_unfold legacy_unfold)

lemma single_pla:
  assumes "started core c0 n op rmw idx s t"
  shows "agree core c0 (n + 3) (upd_cpu (set_A_nz (fst (cpu_pull hk s))) (snd (cpu_pull hk s)))
    (fold (ms_do hk) [M_DUMMY_PC, M_STACK_DUMMY, M_PULL_A] t)"
  using assms
  by (simp add: stage_unfold legacy_unfold set_A_nz_def cpu_update_nz_def cpu_set_flag_alt)

lemma single_plp:
  assumes "started core c0 n op rmw idx s t"
  shows "agree core c0 (n + 3) (upd_cpu (set_P_pulled (fst (cpu_pull hk s))) (snd (cpu_pull hk s)))
    (fold (ms_do hk) [M_DUMMY_PC, M_STACK_DUMMY, M_PULL_P] t)"
  using assms by (simp add: stage_unfold legacy_unfold set_P_pulled_def)

lemma single_jmp_ind:
  assumes "started core c0 n op rmw 0 s t" "ms_cls op \<noteq> C_BRANCH"
  shows "agree core c0 (n + 4) (set_pc (fst (addr_indirect hk s)) (snd (addr_indirect hk s)))
    (fold (ms_do hk) [M_FETCH_LO, M_FETCH_HI, M_JMP_IND_LO, M_JMP_IND_HI] t)"
  using assms by (simp add: stage_unfold legacy_unfold ms_apply_index_def)

lemma single_rts:
  assumes "started core c0 n op rmw idx s t"
  shows "agree core c0 (n + 5) (op_rts hk s)
    (fold (ms_do hk) [M_DUMMY_PC, M_STACK_DUMMY, M_PULL_PCL, M_PULL_PCH, M_RTS_FIXUP] t)"
  using assms by (simp add: stage_unfold legacy_unfold)

end

end
