(* ===== verification/Engine_Flow.thy ===== *)
theory Engine_Flow
  imports Engine_Stages
begin

unbundle bit_operations_syntax

text \<open>
  The two engines on the instructions that change the flow of control: subroutine call and
  return from interrupt, BRK, and the conditional branches, whose plan may end early.
\<close>

lemma same_page_join: "\<not> page_crossed a b \<Longrightarrow> (a AND 0xFF00) OR (b AND 0x00FF) = b"
proof -
  assume "\<not> page_crossed a b"
  then have "(a AND 0xFF00) OR (b AND 0x00FF) = (b AND 0xFF00) OR (b AND 0x00FF)"
    by (simp add: page_crossed_def)
  also have "\<dots> = b AND (0xFF00 OR 0x00FF)" by (simp only: bit.conj_disj_distrib)
  also have "(0xFF00 OR 0x00FF :: u16) = - 1" by simp
  also have "b AND - 1 = b" by simp
  finally show ?thesis .
qed

context quiet_bus
begin

lemma single_jsr:
  assumes "started core c0 n op rmw idx s t" "ms_cls op \<noteq> C_BRANCH"
  shows "agree core c0 (n + 5) (op_jsr hk s)
    (fold (ms_do hk) [M_FETCH_LO, M_STACK_DUMMY, M_PUSH_PCH, M_PUSH_PCL, M_JSR_HI] t)"
  using assms by (simp add: stage_unfold legacy_unfold)

lemma single_rti:
  assumes "started core c0 n op rmw idx s t"
  shows "agree core c0 (n + 5) (op_rti hk s)
    (fold (ms_do hk) [M_DUMMY_PC, M_STACK_DUMMY, M_PULL_P, M_PULL_PCL, M_PULL_PCH] t)"
  using assms by (simp add: stage_unfold legacy_unfold set_P_pulled_def)

lemma single_brk:
  assumes "started core c0 n 0 rmw idx s t" "\<not> nmi_pending (board t)" "ms_vector (cpu t) = 0xFFFE"
  shows "agree core c0 (n + 6) (op_brk hk s)
    (fold (ms_do hk) [M_BRK_SIGN, M_PUSH_PCH, M_PUSH_PCL, M_PUSH_P_BRK, M_VEC_LO, M_VEC_HI] t)"
  using assms by (simp add: stage_unfold legacy_unfold ms_nmi_hijack_def cpu_set_flag_alt)

text \<open>A branch: the operand, then one cycle if taken, then one more across a page.\<close>

definition branch_at :: "'d machine \<Rightarrow> nat \<Rightarrow> bool" where
  "branch_at t n \<longleftrightarrow> \<not> halted (cpu t) \<and> ms_active (cpu t) \<and> ms_pc (cpu t) = n \<and>
     ms_plan (cpu t) = [M_FETCH_LO, M_BRANCH_TAKEN, M_BRANCH_PAGE]"

lemma branch_cycle:
  assumes "branch_at t n" "n < 3"
  shows "cpu_cycle hk t =
    (let m = [M_FETCH_LO, M_BRANCH_TAKEN, M_BRANCH_PAGE] ! n; (e, u) = ms_exec hk m t in ms_finish e u)"
proof -
  have "current_mop (cpu t) = [M_FETCH_LO, M_BRANCH_TAKEN, M_BRANCH_PAGE] ! n"
    using assms by (simp add: branch_at_def current_mop_def)
  moreover have "[M_FETCH_LO, M_BRANCH_TAKEN, M_BRANCH_PAGE] ! n \<noteq> M_READ_FIXUP"
    using assms(2) by (auto simp: nth_Cons split: nat.split)
  ultimately show ?thesis
    using assms by (simp add: cpu_cycle_simps(4) branch_at_def case_prod_beta Let_def)
qed

lemma finish_branch_at:
  "branch_at t n \<Longrightarrow> n < 2 \<Longrightarrow> branch_at (snd (ms_finish False t)) (n + 1) \<and> \<not> fst (ms_finish False t)"
  "fst (ms_finish True t)"
  "branch_at t 2 \<Longrightarrow> fst (ms_finish False t)"
  by (auto simp: branch_at_def ms_finish_def Let_def)

lemma single_branch:
  assumes st: "started core c0 1 op rmw idx s t" and cls: "ms_cls op = C_BRANCH"
    and t: "branch_at t 0"
  shows "agree core c0 (2 + fst (do_branch hk (ms_branch_taken op (cpu t)) s))
    (snd (do_branch hk (ms_branch_taken op (cpu t)) s)) (ms_instruction hk t)"
proof -
  define off where "off = val (core (board t)) (cpu_PC (cpu t))"
  define taken where "taken = ms_branch_taken op (cpu t)"
  define u where "u = upd_cpu (\<lambda>c. c\<lparr>ms_ptr := off, ms_adl := off, ms_addr := ucast off,
    ms_base := ucast off\<rparr>) (snd (cpu_fetch_byte hk t))"
  define target where "target = cpu_PC (cpu u) + scast off"
  have eq: "arch_eq core s t" and clk: "cycles (cpu t) = c0 + 1" "cycles (cpu s) \<le> c0 + 1" "c0 \<le> cycles (cpu s)"
    and op: "ms_opcode (cpu t) = op" using st by (simp_all add: started_def)
  have cu: "cpu_PC (cpu u) = cpu_PC (cpu t) + 1" "cycles (cpu u) = c0 + 2" "ms_ptr (cpu u) = off"
    using clk by (simp_all add: u_def)
  have equ: "arch_eq core (snd (cpu_fetch_byte hk s)) u"
    using eq by (simp add: arch_eq_def u_def)
  have s_br: "do_branch hk taken s = (if taken then
      (if page_crossed (cpu_PC (cpu u)) target then 2 else 1, set_pc target (snd (cpu_fetch_byte hk s)))
      else (0, snd (cpu_fetch_byte hk s)))"
    using eq by (simp add: do_branch_def addr_relative_def case_prod_beta Let_def target_def cu
        off_def arch_eq_def)
  have bu: "branch_at u 0" using t by (simp add: u_def branch_at_def)
  have c1: "cpu_cycle hk t = ms_finish (\<not> taken) u"
    using branch_cycle [OF t] cls op
    by (simp add: u_def off_def taken_def case_prod_beta Let_def ms_branch_taken_def cpu_get_flag_def)
  show ?thesis
  proof (cases taken)
    case False
    then have "ms_instruction hk t = snd (ms_finish True u)"
      using c1 finish_branch_at(2) by (simp add: ms_instruction_unfold [of hk t])
    then show ?thesis
      using equ False s_br clk cu unfolding taken_def [symmetric] by (simp add: agree_def)
  next
    case True
    define t1 where "t1 = snd (ms_finish False u)"
    have b1: "branch_at t1 1" "\<not> fst (ms_finish False u)"
      using finish_branch_at(1) [OF bu] by (simp_all add: t1_def)
    define v where "v = upd_cpu ms_branch_step (snd (cpu_mem_read hk (cpu_PC (cpu t1)) t1))"
    have c2: "cpu_cycle hk t1 = ms_finish (\<not> ms_crossed (cpu v)) v"
      using branch_cycle [OF b1(1)] by (simp add: v_def case_prod_beta Let_def)
    have cv: "ms_crossed (cpu v) = page_crossed (cpu_PC (cpu u)) target" "ms_addr (cpu v) = target"
        "cpu_PC (cpu v) = (cpu_PC (cpu u) AND 0xFF00) OR (target AND 0x00FF)"
        "cycles (cpu v) = c0 + 3"
      using cu by (simp_all add: v_def t1_def ms_branch_step_def Let_def target_def)
    have eqv: "arch_eq core (set_pc target (snd (cpu_fetch_byte hk s))) (set_pc target v)"
      using equ by (simp add: arch_eq_def v_def t1_def ms_branch_step_def Let_def)
    have run: "ms_instruction hk t = ms_instruction hk t1"
      using c1 True b1(2) by (simp add: ms_instruction_unfold [of hk t] t1_def)
    have cf: "cycles (cpu (snd (cpu_fetch_byte hk s))) \<le> c0 + 2"
        "c0 \<le> cycles (cpu (snd (cpu_fetch_byte hk s)))" using clk by simp_all
    show ?thesis
    proof (cases "ms_crossed (cpu v)")
      case False
      then have "ms_instruction hk t = snd (ms_finish True v)"
        using run c2 finish_branch_at(2) by (simp add: ms_instruction_unfold [of hk t1])
      moreover have "cpu_PC (cpu v) = target"
        using False cv same_page_join by simp
      then have "arch_eq core (set_pc target (snd (cpu_fetch_byte hk s))) v"
        using eqv by (simp add: arch_eq_def)
      ultimately show ?thesis
        using True False s_br cv cf unfolding taken_def [symmetric] by (simp add: agree_def)
    next
      case crossed: True
      define t2 where "t2 = snd (ms_finish False v)"
      have "branch_at v 1" using b1(1) by (simp add: v_def branch_at_def ms_branch_step_def Let_def)
      then have b2: "branch_at t2 2" "\<not> fst (ms_finish False v)"
        using finish_branch_at(1) [of v 1] by (simp_all add: t2_def numeral_2_eq_2)
      define w where "w = set_pc (ms_addr (cpu t2)) (snd (cpu_mem_read hk (cpu_PC (cpu t2)) t2))"
      have "cpu_cycle hk t2 = ms_finish False w"
        using branch_cycle [OF b2(1)] by (simp add: w_def case_prod_beta Let_def)
      moreover have "branch_at w 2" using b2(1) by (simp add: w_def branch_at_def)
      ultimately have "ms_instruction hk t2 = snd (ms_finish False w)"
        using finish_branch_at(3) by (simp add: ms_instruction_unfold [of hk t2])
      moreover have "ms_instruction hk t = ms_instruction hk t2"
        using run c2 crossed b2(2) by (simp add: ms_instruction_unfold [of hk t1] t2_def)
      moreover have "arch_eq core (set_pc target (snd (cpu_fetch_byte hk s))) w"
        using eqv cv by (simp add: arch_eq_def w_def t2_def)
      moreover have "cycles (cpu w) = c0 + 4" using cv by (simp add: w_def t2_def)
      ultimately show ?thesis
        using True crossed s_br cv cf unfolding taken_def [symmetric] by (simp add: agree_def)
    qed
  qed
qed

end

end
