(* ===== verification/Engine_Table.thy ===== *)
theory Engine_Table
  imports Engine_Flow
begin

unbundle bit_operations_syntax

text \<open>
  The 256 opcodes by shape.  Each list names the opcodes of a shape with their addressing mode
  and their operation, and a table lemma says that the \<open>switch\<close> of the historical engine, the
  opcode table and the class and operand routing of the sequencer all agree with it.
\<close>

section \<open>Shapes of the historical engine\<close>

fun legacy_read ::
  "'d hooks \<Rightarrow> addressing_mode_t \<Rightarrow> (u8 \<Rightarrow> cpu6502_t \<Rightarrow> cpu6502_t) \<Rightarrow> 'd machine \<Rightarrow> nat \<times> 'd machine" where
  "legacy_read hk ADDR_ZERO_PAGE f s = read_then hk (addr_zero_page hk s) f"
| "legacy_read hk ADDR_ZERO_PAGE_X f s = read_then hk (addr_zero_page_x hk s) f"
| "legacy_read hk ADDR_ZERO_PAGE_Y f s = read_then hk (addr_zero_page_y hk s) f"
| "legacy_read hk ADDR_ABSOLUTE f s = read_then hk (addr_absolute hk s) f"
| "legacy_read hk ADDR_ABSOLUTE_X f s = read_then_x hk (addr_absolute_x hk s) f"
| "legacy_read hk ADDR_ABSOLUTE_Y f s = read_then_x hk (addr_absolute_y hk s) f"
| "legacy_read hk ADDR_INDEXED_INDIRECT f s = read_then hk (addr_indexed_indirect hk s) f"
| "legacy_read hk ADDR_INDIRECT_INDEXED f s = read_then_x hk (addr_indirect_indexed hk s) f"
| "legacy_read hk _ f s = read_then hk (addr_immediate s) f"

fun plain_addr :: "'d hooks \<Rightarrow> addressing_mode_t \<Rightarrow> 'd machine \<Rightarrow> u16 \<times> 'd machine" where
  "plain_addr hk ADDR_ZERO_PAGE s = addr_zero_page hk s"
| "plain_addr hk ADDR_ZERO_PAGE_X s = addr_zero_page_x hk s"
| "plain_addr hk ADDR_ZERO_PAGE_Y s = addr_zero_page_y hk s"
| "plain_addr hk ADDR_ABSOLUTE s = addr_absolute hk s"
| "plain_addr hk ADDR_ABSOLUTE_X s = no_cross (addr_absolute_x hk s)"
| "plain_addr hk ADDR_ABSOLUTE_Y s = no_cross (addr_absolute_y hk s)"
| "plain_addr hk ADDR_INDEXED_INDIRECT s = addr_indexed_indirect hk s"
| "plain_addr hk ADDR_INDIRECT_INDEXED s = no_cross (addr_indirect_indexed hk s)"
| "plain_addr hk _ s = addr_immediate s"

fun read_cycles :: "addressing_mode_t \<Rightarrow> nat" where
  "read_cycles ADDR_ZERO_PAGE = 3" | "read_cycles ADDR_ZERO_PAGE_X = 4"
| "read_cycles ADDR_ZERO_PAGE_Y = 4" | "read_cycles ADDR_ABSOLUTE = 4"
| "read_cycles ADDR_ABSOLUTE_X = 4" | "read_cycles ADDR_ABSOLUTE_Y = 4"
| "read_cycles ADDR_INDEXED_INDIRECT = 6" | "read_cycles ADDR_INDIRECT_INDEXED = 5"
| "read_cycles _ = 2"

text \<open>A store takes its penalty always.\<close>

fun write_cycles :: "addressing_mode_t \<Rightarrow> nat" where
  "write_cycles ADDR_ZERO_PAGE = 3" | "write_cycles ADDR_ZERO_PAGE_X = 4"
| "write_cycles ADDR_ZERO_PAGE_Y = 4" | "write_cycles ADDR_ABSOLUTE = 4"
| "write_cycles ADDR_ABSOLUTE_X = 5" | "write_cycles ADDR_ABSOLUTE_Y = 5"
| "write_cycles ADDR_INDEXED_INDIRECT = 6" | "write_cycles ADDR_INDIRECT_INDEXED = 6"
| "write_cycles _ = 2"

definition address_mode :: "addressing_mode_t \<Rightarrow> bool" where
  "address_mode m \<longleftrightarrow> m \<in> {ADDR_ZERO_PAGE, ADDR_ZERO_PAGE_X, ADDR_ZERO_PAGE_Y, ADDR_ABSOLUTE,
     ADDR_ABSOLUTE_X, ADDR_ABSOLUTE_Y, ADDR_INDEXED_INDIRECT, ADDR_INDIRECT_INDEXED}"

section \<open>The lists\<close>

definition read_ops :: "(u8 \<times> addressing_mode_t \<times> (u8 \<Rightarrow> cpu6502_t \<Rightarrow> cpu6502_t)) list" where
  "read_ops =
    [(0xA9, ADDR_IMMEDIATE, op_lda), (0xA5, ADDR_ZERO_PAGE, op_lda),
     (0xB5, ADDR_ZERO_PAGE_X, op_lda), (0xAD, ADDR_ABSOLUTE, op_lda),
     (0xBD, ADDR_ABSOLUTE_X, op_lda), (0xB9, ADDR_ABSOLUTE_Y, op_lda),
     (0xA1, ADDR_INDEXED_INDIRECT, op_lda), (0xB1, ADDR_INDIRECT_INDEXED, op_lda),
     (0xA2, ADDR_IMMEDIATE, op_ldx), (0xA6, ADDR_ZERO_PAGE, op_ldx),
     (0xB6, ADDR_ZERO_PAGE_Y, op_ldx), (0xAE, ADDR_ABSOLUTE, op_ldx),
     (0xBE, ADDR_ABSOLUTE_Y, op_ldx), (0xA0, ADDR_IMMEDIATE, op_ldy),
     (0xA4, ADDR_ZERO_PAGE, op_ldy), (0xB4, ADDR_ZERO_PAGE_X, op_ldy),
     (0xAC, ADDR_ABSOLUTE, op_ldy), (0xBC, ADDR_ABSOLUTE_X, op_ldy),
     (0x69, ADDR_IMMEDIATE, cpu_op_adc), (0x65, ADDR_ZERO_PAGE, cpu_op_adc),
     (0x75, ADDR_ZERO_PAGE_X, cpu_op_adc), (0x6D, ADDR_ABSOLUTE, cpu_op_adc),
     (0x7D, ADDR_ABSOLUTE_X, cpu_op_adc), (0x79, ADDR_ABSOLUTE_Y, cpu_op_adc),
     (0x61, ADDR_INDEXED_INDIRECT, cpu_op_adc), (0x71, ADDR_INDIRECT_INDEXED, cpu_op_adc),
     (0xE9, ADDR_IMMEDIATE, cpu_op_sbc), (0xEB, ADDR_IMMEDIATE, cpu_op_sbc),
     (0xE5, ADDR_ZERO_PAGE, cpu_op_sbc), (0xF5, ADDR_ZERO_PAGE_X, cpu_op_sbc),
     (0xED, ADDR_ABSOLUTE, cpu_op_sbc), (0xFD, ADDR_ABSOLUTE_X, cpu_op_sbc),
     (0xF9, ADDR_ABSOLUTE_Y, cpu_op_sbc), (0xE1, ADDR_INDEXED_INDIRECT, cpu_op_sbc),
     (0xF1, ADDR_INDIRECT_INDEXED, cpu_op_sbc), (0x29, ADDR_IMMEDIATE, op_and),
     (0x25, ADDR_ZERO_PAGE, op_and), (0x35, ADDR_ZERO_PAGE_X, op_and),
     (0x2D, ADDR_ABSOLUTE, op_and), (0x3D, ADDR_ABSOLUTE_X, op_and),
     (0x39, ADDR_ABSOLUTE_Y, op_and), (0x21, ADDR_INDEXED_INDIRECT, op_and),
     (0x31, ADDR_INDIRECT_INDEXED, op_and), (0x09, ADDR_IMMEDIATE, op_ora),
     (0x05, ADDR_ZERO_PAGE, op_ora), (0x15, ADDR_ZERO_PAGE_X, op_ora),
     (0x0D, ADDR_ABSOLUTE, op_ora), (0x1D, ADDR_ABSOLUTE_X, op_ora),
     (0x19, ADDR_ABSOLUTE_Y, op_ora), (0x01, ADDR_INDEXED_INDIRECT, op_ora),
     (0x11, ADDR_INDIRECT_INDEXED, op_ora), (0x49, ADDR_IMMEDIATE, op_eor),
     (0x45, ADDR_ZERO_PAGE, op_eor), (0x55, ADDR_ZERO_PAGE_X, op_eor),
     (0x4D, ADDR_ABSOLUTE, op_eor), (0x5D, ADDR_ABSOLUTE_X, op_eor),
     (0x59, ADDR_ABSOLUTE_Y, op_eor), (0x41, ADDR_INDEXED_INDIRECT, op_eor),
     (0x51, ADDR_INDIRECT_INDEXED, op_eor), (0xC9, ADDR_IMMEDIATE, op_cmp_a),
     (0xC5, ADDR_ZERO_PAGE, op_cmp_a), (0xD5, ADDR_ZERO_PAGE_X, op_cmp_a),
     (0xCD, ADDR_ABSOLUTE, op_cmp_a), (0xDD, ADDR_ABSOLUTE_X, op_cmp_a),
     (0xD9, ADDR_ABSOLUTE_Y, op_cmp_a), (0xC1, ADDR_INDEXED_INDIRECT, op_cmp_a),
     (0xD1, ADDR_INDIRECT_INDEXED, op_cmp_a), (0xE0, ADDR_IMMEDIATE, op_cmp_x),
     (0xE4, ADDR_ZERO_PAGE, op_cmp_x), (0xEC, ADDR_ABSOLUTE, op_cmp_x),
     (0xC0, ADDR_IMMEDIATE, op_cmp_y), (0xC4, ADDR_ZERO_PAGE, op_cmp_y),
     (0xCC, ADDR_ABSOLUTE, op_cmp_y), (0x24, ADDR_ZERO_PAGE, op_bit),
     (0x2C, ADDR_ABSOLUTE, op_bit), (0xA7, ADDR_ZERO_PAGE, cpu_op_lax),
     (0xB7, ADDR_ZERO_PAGE_Y, cpu_op_lax), (0xAF, ADDR_ABSOLUTE, cpu_op_lax),
     (0xBF, ADDR_ABSOLUTE_Y, cpu_op_lax), (0xA3, ADDR_INDEXED_INDIRECT, cpu_op_lax),
     (0xB3, ADDR_INDIRECT_INDEXED, cpu_op_lax), (0x0B, ADDR_IMMEDIATE, op_anc),
     (0x2B, ADDR_IMMEDIATE, op_anc), (0x4B, ADDR_IMMEDIATE, op_alr),
     (0x6B, ADDR_IMMEDIATE, op_arr), (0xCB, ADDR_IMMEDIATE, op_sbx),
     (0x8B, ADDR_IMMEDIATE, op_ane), (0xAB, ADDR_IMMEDIATE, op_lxa),
     (0xBB, ADDR_ABSOLUTE_Y, op_las), (0x80, ADDR_IMMEDIATE, op_none),
     (0x82, ADDR_IMMEDIATE, op_none), (0x89, ADDR_IMMEDIATE, op_none),
     (0xC2, ADDR_IMMEDIATE, op_none), (0xE2, ADDR_IMMEDIATE, op_none),
     (0x04, ADDR_ZERO_PAGE, op_none), (0x44, ADDR_ZERO_PAGE, op_none),
     (0x64, ADDR_ZERO_PAGE, op_none), (0x14, ADDR_ZERO_PAGE_X, op_none),
     (0x34, ADDR_ZERO_PAGE_X, op_none), (0x54, ADDR_ZERO_PAGE_X, op_none),
     (0x74, ADDR_ZERO_PAGE_X, op_none), (0xD4, ADDR_ZERO_PAGE_X, op_none),
     (0xF4, ADDR_ZERO_PAGE_X, op_none), (0x0C, ADDR_ABSOLUTE, op_none),
     (0x1C, ADDR_ABSOLUTE_X, op_none), (0x3C, ADDR_ABSOLUTE_X, op_none),
     (0x5C, ADDR_ABSOLUTE_X, op_none), (0x7C, ADDR_ABSOLUTE_X, op_none),
     (0xDC, ADDR_ABSOLUTE_X, op_none), (0xFC, ADDR_ABSOLUTE_X, op_none)]"

definition write_ops :: "(u8 \<times> addressing_mode_t \<times> (cpu6502_t \<Rightarrow> u8)) list" where
  "write_ops =
    [(0x85, ADDR_ZERO_PAGE, cpu_A), (0x95, ADDR_ZERO_PAGE_X, cpu_A),
     (0x8D, ADDR_ABSOLUTE, cpu_A), (0x9D, ADDR_ABSOLUTE_X, cpu_A),
     (0x99, ADDR_ABSOLUTE_Y, cpu_A), (0x81, ADDR_INDEXED_INDIRECT, cpu_A),
     (0x91, ADDR_INDIRECT_INDEXED, cpu_A), (0x86, ADDR_ZERO_PAGE, cpu_X),
     (0x96, ADDR_ZERO_PAGE_Y, cpu_X), (0x8E, ADDR_ABSOLUTE, cpu_X),
     (0x84, ADDR_ZERO_PAGE, cpu_Y), (0x94, ADDR_ZERO_PAGE_X, cpu_Y),
     (0x8C, ADDR_ABSOLUTE, cpu_Y), (0x87, ADDR_ZERO_PAGE, store_sax),
     (0x97, ADDR_ZERO_PAGE_Y, store_sax), (0x8F, ADDR_ABSOLUTE, store_sax),
     (0x83, ADDR_INDEXED_INDIRECT, store_sax)]"

definition rmw_ops :: "(u8 \<times> addressing_mode_t \<times> cpu_rmw_t) list" where
  "rmw_ops =
    [(0x06, ADDR_ZERO_PAGE, RMW_ASL), (0x16, ADDR_ZERO_PAGE_X, RMW_ASL),
     (0x0E, ADDR_ABSOLUTE, RMW_ASL), (0x1E, ADDR_ABSOLUTE_X, RMW_ASL),
     (0x46, ADDR_ZERO_PAGE, RMW_LSR), (0x56, ADDR_ZERO_PAGE_X, RMW_LSR),
     (0x4E, ADDR_ABSOLUTE, RMW_LSR), (0x5E, ADDR_ABSOLUTE_X, RMW_LSR),
     (0x26, ADDR_ZERO_PAGE, RMW_ROL), (0x36, ADDR_ZERO_PAGE_X, RMW_ROL),
     (0x2E, ADDR_ABSOLUTE, RMW_ROL), (0x3E, ADDR_ABSOLUTE_X, RMW_ROL),
     (0x66, ADDR_ZERO_PAGE, RMW_ROR), (0x76, ADDR_ZERO_PAGE_X, RMW_ROR),
     (0x6E, ADDR_ABSOLUTE, RMW_ROR), (0x7E, ADDR_ABSOLUTE_X, RMW_ROR),
     (0xE6, ADDR_ZERO_PAGE, RMW_INC), (0xF6, ADDR_ZERO_PAGE_X, RMW_INC),
     (0xEE, ADDR_ABSOLUTE, RMW_INC), (0xFE, ADDR_ABSOLUTE_X, RMW_INC),
     (0xC6, ADDR_ZERO_PAGE, RMW_DEC), (0xD6, ADDR_ZERO_PAGE_X, RMW_DEC),
     (0xCE, ADDR_ABSOLUTE, RMW_DEC), (0xDE, ADDR_ABSOLUTE_X, RMW_DEC),
     (0x07, ADDR_ZERO_PAGE, RMW_SLO), (0x17, ADDR_ZERO_PAGE_X, RMW_SLO),
     (0x0F, ADDR_ABSOLUTE, RMW_SLO), (0x1F, ADDR_ABSOLUTE_X, RMW_SLO),
     (0x1B, ADDR_ABSOLUTE_Y, RMW_SLO), (0x03, ADDR_INDEXED_INDIRECT, RMW_SLO),
     (0x13, ADDR_INDIRECT_INDEXED, RMW_SLO), (0x27, ADDR_ZERO_PAGE, RMW_RLA),
     (0x37, ADDR_ZERO_PAGE_X, RMW_RLA), (0x2F, ADDR_ABSOLUTE, RMW_RLA),
     (0x3F, ADDR_ABSOLUTE_X, RMW_RLA), (0x3B, ADDR_ABSOLUTE_Y, RMW_RLA),
     (0x23, ADDR_INDEXED_INDIRECT, RMW_RLA), (0x33, ADDR_INDIRECT_INDEXED, RMW_RLA),
     (0x47, ADDR_ZERO_PAGE, RMW_SRE), (0x57, ADDR_ZERO_PAGE_X, RMW_SRE),
     (0x4F, ADDR_ABSOLUTE, RMW_SRE), (0x5F, ADDR_ABSOLUTE_X, RMW_SRE),
     (0x5B, ADDR_ABSOLUTE_Y, RMW_SRE), (0x43, ADDR_INDEXED_INDIRECT, RMW_SRE),
     (0x53, ADDR_INDIRECT_INDEXED, RMW_SRE), (0x67, ADDR_ZERO_PAGE, RMW_RRA),
     (0x77, ADDR_ZERO_PAGE_X, RMW_RRA), (0x6F, ADDR_ABSOLUTE, RMW_RRA),
     (0x7F, ADDR_ABSOLUTE_X, RMW_RRA), (0x7B, ADDR_ABSOLUTE_Y, RMW_RRA),
     (0x63, ADDR_INDEXED_INDIRECT, RMW_RRA), (0x73, ADDR_INDIRECT_INDEXED, RMW_RRA),
     (0xC7, ADDR_ZERO_PAGE, RMW_DCP), (0xD7, ADDR_ZERO_PAGE_X, RMW_DCP),
     (0xCF, ADDR_ABSOLUTE, RMW_DCP), (0xDF, ADDR_ABSOLUTE_X, RMW_DCP),
     (0xDB, ADDR_ABSOLUTE_Y, RMW_DCP), (0xC3, ADDR_INDEXED_INDIRECT, RMW_DCP),
     (0xD3, ADDR_INDIRECT_INDEXED, RMW_DCP), (0xE7, ADDR_ZERO_PAGE, RMW_ISC),
     (0xF7, ADDR_ZERO_PAGE_X, RMW_ISC), (0xEF, ADDR_ABSOLUTE, RMW_ISC),
     (0xFF, ADDR_ABSOLUTE_X, RMW_ISC), (0xFB, ADDR_ABSOLUTE_Y, RMW_ISC),
     (0xE3, ADDR_INDEXED_INDIRECT, RMW_ISC), (0xF3, ADDR_INDIRECT_INDEXED, RMW_ISC)]"

definition implied_ops :: "(u8 \<times> (cpu6502_t \<Rightarrow> cpu6502_t)) list" where
  "implied_ops =
    [(0x0A, op_asl_a), (0x4A, op_lsr_a),
     (0x2A, op_rol_a), (0x6A, op_ror_a),
     (0xE8, (\<lambda>c. set_X_nz (cpu_X c + 1) c)), (0xC8, (\<lambda>c. set_Y_nz (cpu_Y c + 1) c)),
     (0xCA, (\<lambda>c. set_X_nz (cpu_X c - 1) c)), (0x88, (\<lambda>c. set_Y_nz (cpu_Y c - 1) c)),
     (0xAA, (\<lambda>c. set_X_nz (cpu_A c) c)), (0x8A, (\<lambda>c. set_A_nz (cpu_X c) c)),
     (0xA8, (\<lambda>c. set_Y_nz (cpu_A c) c)), (0x98, (\<lambda>c. set_A_nz (cpu_Y c) c)),
     (0xBA, (\<lambda>c. set_X_nz (cpu_SP c) c)), (0x9A, (\<lambda>c. c\<lparr>cpu_SP := cpu_X c\<rparr>)),
     (0x18, (cpu_set_flag FLAG_CARRY False)), (0x38, (cpu_set_flag FLAG_CARRY True)),
     (0x58, (cpu_set_flag FLAG_INTERRUPT False)), (0x78, (cpu_set_flag FLAG_INTERRUPT True)),
     (0xD8, (cpu_set_flag FLAG_DECIMAL False)), (0xF8, (cpu_set_flag FLAG_DECIMAL True)),
     (0xB8, (cpu_set_flag FLAG_OVERFLOW False)), (0xEA, (\<lambda>c. c)),
     (0x1A, (\<lambda>c. c)), (0x3A, (\<lambda>c. c)),
     (0x5A, (\<lambda>c. c)), (0x7A, (\<lambda>c. c)),
     (0xDA, (\<lambda>c. c)), (0xFA, (\<lambda>c. c))]"

definition unstable_ops :: "u8 list" where
  "unstable_ops = [0x9F, 0x93, 0x9E, 0x9C, 0x9B]"

definition other_ops :: "u8 list" where
  "other_ops = [0x48, 0x68, 0x08, 0x28, 0x4C, 0x6C, 0x20, 0x60, 0x40, 0x00]"

lemmas list_defs =
  read_ops_def write_ops_def rmw_ops_def implied_ops_def unstable_ops_def other_ops_def
  ms_branches_def ms_jams_def

text \<open>Every opcode is in one of the lists.\<close>

definition listed_ops :: "u8 list" where
  "listed_ops = map fst read_ops @ map fst write_ops @ map fst rmw_ops @ map fst implied_ops
     @ unstable_ops @ other_ops @ ms_branches @ ms_jams"

lemma listed_values:
  "map unat listed_ops =
    [169, 165, 181, 173, 189, 185, 161, 177, 162, 166, 182, 174, 190, 160, 164, 180,
     172, 188, 105, 101, 117, 109, 125, 121, 97, 113, 233, 235, 229, 245, 237, 253,
     249, 225, 241, 41, 37, 53, 45, 61, 57, 33, 49, 9, 5, 21, 13, 29,
     25, 1, 17, 73, 69, 85, 77, 93, 89, 65, 81, 201, 197, 213, 205, 221,
     217, 193, 209, 224, 228, 236, 192, 196, 204, 36, 44, 167, 183, 175, 191, 163,
     179, 11, 43, 75, 107, 203, 139, 171, 187, 128, 130, 137, 194, 226, 4, 68,
     100, 20, 52, 84, 116, 212, 244, 12, 28, 60, 92, 124, 220, 252, 133, 149,
     141, 157, 153, 129, 145, 134, 150, 142, 132, 148, 140, 135, 151, 143, 131, 6,
     22, 14, 30, 70, 86, 78, 94, 38, 54, 46, 62, 102, 118, 110, 126, 230,
     246, 238, 254, 198, 214, 206, 222, 7, 23, 15, 31, 27, 3, 19, 39, 55,
     47, 63, 59, 35, 51, 71, 87, 79, 95, 91, 67, 83, 103, 119, 111, 127,
     123, 99, 115, 199, 215, 207, 223, 219, 195, 211, 231, 247, 239, 255, 251, 227,
     243, 10, 74, 42, 106, 232, 200, 202, 136, 170, 138, 168, 152, 186, 154, 24,
     56, 88, 120, 216, 248, 184, 234, 26, 58, 90, 122, 218, 250, 159, 147, 158,
     156, 155, 72, 104, 8, 40, 76, 108, 32, 96, 64, 0, 16, 48, 80, 112,
     144, 176, 208, 240, 2, 18, 34, 50, 66, 82, 98, 114, 146, 178, 210, 242]"
  by (simp add: listed_ops_def list_defs)

lemma listed_distinct: "distinct (map unat listed_ops)"
  unfolding listed_values
  by (simp only: distinct.simps list.set insert_iff empty_iff numeral_eq_iff eq_num_simps
      one_eq_numeral_iff numeral_eq_one_iff zero_neq_numeral numeral_neq_zero one_neq_zero
      zero_neq_one simp_thms)

lemma opcode_listed: "op \<in> set listed_ops"
proof -
  have len: "length listed_ops = 256"
    by (simp add: listed_ops_def list_defs)
  have "set (map unat listed_ops) \<subseteq> {0..<256}" by auto
  moreover have "card (set (map unat listed_ops)) = card {0..<256::nat}"
    using distinct_card [OF listed_distinct] len by simp
  ultimately have "set (map unat listed_ops) = {0..<256}"
    by (intro card_subset_eq) auto
  then have "unat op \<in> unat ` set listed_ops" by simp
  then obtain x where "x \<in> set listed_ops" "unat op = unat x" by auto
  then show ?thesis using unsigned_word_eqI by metis
qed

section \<open>The tables\<close>

lemma orelse_simps: "orelse None y = y" "orelse (Some x) y = Some x"
  by (simp_all add: orelse_def)

lemmas exec_case_unfold =
  exec_case_def exec_load_def exec_store_def exec_arith_def exec_logic_def exec_compare_def
  exec_rmw_def exec_registers_def exec_stack_def exec_branch_def exec_jump_def exec_flags_def
  exec_illegal_rmw_def exec_lax_sax_def exec_unstable_def exec_nop_def orelse_simps
  u8_literal_eq if_True if_False simp_thms

lemmas table_unfold =
  ms_cls_def ms_rmw_op_def ms_table_def ms_set_all_def ms_set_def ms_reads_def ms_writes_def
  ms_unstable_def ms_rmws_def ms_branches_def ms_singles_def ms_jams_def Let_def
  fold.simps prod.case o_apply id_apply fun_upd_apply u8_literal_eq if_True if_False simp_thms
  opcode_mode_def opcode_cycles_def opcode_table_def table_lookup

lemmas list_all_unfold = list.pred_inject prod.case simp_thms

lemma read_switch: "list_all (\<lambda>(op, mode, f). \<forall>s. exec_case hk op s = Some (legacy_read hk mode f s)) read_ops"
  by (simp only: read_ops_def list_all_unfold exec_case_unfold legacy_read.simps)

lemma read_entries: "list_all (\<lambda>(op, mode, f). ms_cls op = C_READ \<and> opcode_mode op = mode \<and>
    opcode_cycles op = read_cycles mode \<and> (mode = ADDR_IMMEDIATE \<or> address_mode mode)) read_ops"
  by (simp only: read_ops_def list_all_unfold table_unfold)
    (simp add: address_mode_def)?

lemmas op_defs =
  op_lda_def op_ldx_def op_ldy_def op_and_def op_ora_def op_eor_def op_cmp_a_def op_cmp_x_def
  op_cmp_y_def op_bit_def op_anc_def op_alr_def op_arr_def ms_arr_def op_sbx_def op_ane_def op_lxa_def
  op_las_def op_none_def

lemma read_routes: "list_all (\<lambda>(op, mode, f). \<forall>v c. ms_alu_read op v c = f v c) read_ops"
  by (simp only: read_ops_def list_all_unfold ms_alu_read_def op_defs u8_literal_eq if_True if_False)

lemma write_switch: "list_all (\<lambda>(op, mode, f). \<forall>s. exec_case hk op s = Some (write_then hk (plain_addr hk mode s) f)) write_ops"
  by (simp only: write_ops_def list_all_unfold exec_case_unfold plain_addr.simps)

lemma write_entries: "list_all (\<lambda>(op, mode, f). ms_cls op = C_WRITE \<and> opcode_mode op = mode \<and>
    opcode_cycles op = write_cycles mode \<and> address_mode mode) write_ops"
  by (simp only: write_ops_def list_all_unfold table_unfold)
    (simp add: address_mode_def)?

lemma write_routes: "list_all (\<lambda>(op, mode, f). \<forall>c. ms_store_value op c = f c) write_ops"
  by (simp only: write_ops_def list_all_unfold ms_store_value_def store_sax_def u8_literal_eq if_True if_False)

lemma write_regs: "list_all (\<lambda>(op, mode, f). \<forall>c r. f (put_regs c r) = f c) write_ops"
  by (simp add: write_ops_def)

lemma rmw_switch: "list_all (\<lambda>(op, mode, rmw). \<forall>s. exec_case hk op s = Some (rmw_then hk (plain_addr hk mode s) rmw)) rmw_ops"
  by (simp only: rmw_ops_def list_all_unfold exec_case_unfold plain_addr.simps)

lemma rmw_entries: "list_all (\<lambda>(op, mode, rmw). ms_cls op = C_RMW \<and> opcode_mode op = mode \<and>
    opcode_cycles op = write_cycles mode + 2 \<and> address_mode mode \<and> ms_rmw_op op = rmw) rmw_ops"
  by (simp only: rmw_ops_def list_all_unfold table_unfold)
    (simp add: address_mode_def)?

lemma implied_switch: "list_all (\<lambda>(op, f). \<forall>s. exec_case hk op s = Some (0, upd_cpu f s)) implied_ops"
  by (simp only: implied_ops_def list_all_unfold exec_case_unfold) (simp add: upd_cpu_def)

lemma implied_entries: "list_all (\<lambda>(op, f). ms_cls op = C_IMPLIED \<and> opcode_cycles op = 2) implied_ops"
  by (simp only: implied_ops_def list_all_unfold table_unfold)
    (simp add: address_mode_def)?

lemma implied_routes: "list_all (\<lambda>(op, f). \<forall>c. ms_implied op c = f c) implied_ops"
  by (simp only: implied_ops_def list_all_unfold ms_implied_def u8_literal_eq if_True if_False)
    (simp add: ms_accumulator_def cpu_rmw_apply_def op_asl_a_def op_lsr_a_def op_rol_a_def op_ror_a_def
      alu_unfold split: if_split)

lemma unstable_switch:
  "exec_case hk 0x9F s = Some (sh_then hk (addr_absolute_y hk s) cpu_Y store_sax)"
  "exec_case hk 0x93 s = Some (sh_then hk (addr_indirect_indexed hk s) cpu_Y store_sax)"
  "exec_case hk 0x9E s = Some (sh_then hk (addr_absolute_y hk s) cpu_Y cpu_X)"
  "exec_case hk 0x9C s = Some (sh_then hk (addr_absolute_x hk s) cpu_X cpu_Y)"
  "exec_case hk 0x9B s = Some (op_tas hk s)"
  by (simp_all only: exec_case_unfold)

lemma unstable_entries:
  "list_all (\<lambda>(op, mode). ms_cls op = C_WRITE_UNSTABLE \<and> opcode_mode op = mode \<and>
     opcode_cycles op = write_cycles mode)
   [(0x9F, ADDR_ABSOLUTE_Y), (0x93, ADDR_INDIRECT_INDEXED), (0x9E, ADDR_ABSOLUTE_Y),
    (0x9C, ADDR_ABSOLUTE_X), (0x9B, ADDR_ABSOLUTE_Y)]"
  by (simp only: list_all_unfold table_unfold) simp

lemma other_switch:
  "exec_case hk 0x48 s = Some (0, cpu_push hk (cpu_A (cpu s)) s)"
  "exec_case hk 0x68 s = Some (let (v, s1) = cpu_pull hk s in (0, upd_cpu (set_A_nz v) s1))"
  "exec_case hk 0x08 s = Some (0, cpu_push hk (cpu_P (cpu s) OR FLAG_BREAK OR FLAG_UNUSED) s)"
  "exec_case hk 0x28 s = Some (let (v, s1) = cpu_pull hk s in (0, upd_cpu (set_P_pulled v) s1))"
  "exec_case hk 0x4C s = Some (let (a, s1) = addr_absolute hk s in (0, set_pc a s1))"
  "exec_case hk 0x6C s = Some (let (a, s1) = addr_indirect hk s in (0, set_pc a s1))"
  "exec_case hk 0x20 s = Some (0, op_jsr hk s)"
  "exec_case hk 0x60 s = Some (0, op_rts hk s)"
  "exec_case hk 0x40 s = Some (0, op_rti hk s)"
  "exec_case hk 0 s = Some (0, op_brk hk s)"
  by (simp_all only: exec_case_unfold)

lemma other_entries:
  "list_all (\<lambda>(op, cls, n). ms_cls op = cls \<and> opcode_cycles op = n)
   [(0x48, C_PUSH_A, 3), (0x68, C_PULL_A, 4), (0x08, C_PUSH_P, 3), (0x28, C_PULL_P, 4),
    (0x4C, C_JMP, 3), (0x6C, C_JMP_IND, 5), (0x20, C_JSR, 6), (0x60, C_RTS, 6), (0x40, C_RTI, 6),
    (0, C_BRK, 7)]"
  by (simp only: list_all_unfold table_unfold) simp?

lemma jmp_ind_mode: "mode_index (opcode_mode 0x6C) = 0"
  by (simp only: table_unfold mode_index_def addressing_mode_t.distinct)

lemma branch_switch:
  "list_all (\<lambda>op. \<forall>s. exec_case hk op s = Some (do_branch hk (ms_branch_taken op (cpu s)) s)) ms_branches"
  by (simp only: ms_branches_def list_all_unfold exec_case_unfold ms_branch_taken_def)

lemma branch_entries: "list_all (\<lambda>op. ms_cls op = C_BRANCH \<and> opcode_cycles op = 2) ms_branches"
  by (simp only: list_all_unfold table_unfold) simp?

lemma jam_switch:
  "list_all (\<lambda>op. \<forall>s. exec_case hk op s = Some (0, upd_cpu (\<lambda>c. c\<lparr>halted := True\<rparr>) s)) ms_jams"
  by (simp only: ms_jams_def list_all_unfold exec_case_unfold)

lemma jam_entries: "list_all (\<lambda>op. ms_cls op = C_JAM \<and> opcode_cycles op = 2) ms_jams"
  by (simp only: list_all_unfold table_unfold) simp?

end
