(* ===== verification/Engine_Equiv.thy ===== *)
theory Engine_Equiv
  imports Engine_Table
begin

unbundle bit_operations_syntax

text \<open>
  The two engines of \<open>cpu_step\<close> agree: on a quiet bus, an instruction of the sequencer leaves
  the registers, the program counter and the cells as an instruction of the historical engine
  does, in the same number of cycles.  Only the JAM opcodes are counted differently.
\<close>

section \<open>One class at a time\<close>

text \<open>Sequencer ready to run the plan of \<open>op\<close>.\<close>

definition planned :: "u8 \<Rightarrow> 'd machine \<Rightarrow> bool" where
  "planned op t \<longleftrightarrow> \<not> halted (cpu t) \<and> ms_active (cpu t) \<and> ms_pc (cpu t) = 0 \<and>
     ms_opcode (cpu t) = op \<and> ms_plan (cpu t) = class_plan (ms_cls op) (opcode_mode op)"

lemma plan_straight:
  "cls \<noteq> C_BRANCH \<Longrightarrow> cls \<noteq> C_JAM \<Longrightarrow> ms_cls op = cls \<Longrightarrow> straight op (class_plan cls mode)"
  by (cases cls; cases mode; simp add: plan_adds_eq straight_def)

lemma planned_runs:
  assumes "planned op t" "ms_cls op \<noteq> C_BRANCH" "ms_cls op \<noteq> C_JAM"
  shows "ms_instruction hk t = fold (ms_do hk) (class_plan (ms_cls op) (opcode_mode op)) t"
proof (rule ms_instruction_straight)
  show "straight (ms_opcode (cpu t)) (class_plan (ms_cls op) (opcode_mode op))"
    using assms plan_straight by (simp add: planned_def)
qed (use assms plan_ok_class [of "ms_cls op" "opcode_mode op"] in \<open>auto simp: planned_def plan_ok_def\<close>)

context quiet_bus
begin

lemma read_then_eq:
  "read_then hk r f = (0, upd_cpu (f (val (core (board (snd r))) (fst r))) (snd (cpu_mem_read hk (fst r) (snd r))))"
  by (simp add: read_then_def case_prod_beta Let_def)

lemma read_then_x_eq:
  "read_then_x hk q f = (if snd (fst q) then 1 else 0,
     upd_cpu (f (val (core (board (snd q))) (fst (fst q)))) (snd (cpu_mem_read hk (fst (fst q)) (snd q))))"
  by (simp add: read_then_x_def case_prod_beta Let_def)

lemma read_agree:
  assumes st: "started core c0 1 op rmw (mode_index mode) s t" and cls: "ms_cls op = C_READ"
    and route: "\<And>v c. ms_alu_read op v c = f v c" and mode: "mode = ADDR_IMMEDIATE \<or> address_mode mode"
  shows "agree core c0 (read_cycles mode + fst (legacy_read hk mode f s)) (snd (legacy_read hk mode f s))
    (fold (ms_do hk) (class_plan C_READ mode) t)"
proof (cases mode)
  note a = access_read [OF _ cls route]
  have br: "ms_cls op \<noteq> C_BRANCH" using cls by simp
  note plans = plan_adds_eq read_then_eq read_then_x_eq
  { case ADDR_IMMEDIATE
    then show ?thesis using access_imm [OF st cls route] by (simp add: plans eval_nat_numeral) }
  { case ADDR_ZERO_PAGE
    then show ?thesis using a [OF stage_zp [OF st br]] by (simp add: plans eval_nat_numeral) }
  { case ADDR_ZERO_PAGE_X
    then have "started core c0 1 op rmw 1 s t" using st by (simp add: mode_index_def)
    from a [OF stage_zpx [OF this br]] show ?thesis
      using ADDR_ZERO_PAGE_X by (simp add: plans eval_nat_numeral) }
  { case ADDR_ZERO_PAGE_Y
    then have "started core c0 1 op rmw 2 s t" using st by (simp add: mode_index_def)
    from a [OF stage_zpy [OF this br]] show ?thesis
      using ADDR_ZERO_PAGE_Y by (simp add: plans eval_nat_numeral) }
  { case ADDR_ABSOLUTE
    then have "started core c0 1 op rmw 0 s t" using st by (simp add: mode_index_def)
    from a [OF stage_abs [OF this br]] show ?thesis
      using ADDR_ABSOLUTE by (simp add: plans eval_nat_numeral) }
  { case ADDR_ABSOLUTE_X
    then have "started core c0 1 op rmw 1 s t" using st by (simp add: mode_index_def)
    from a [OF stage_fixup [OF stage_absx [OF this br]]] show ?thesis
      using ADDR_ABSOLUTE_X by (simp add: plans eval_nat_numeral split: if_splits) }
  { case ADDR_ABSOLUTE_Y
    then have "started core c0 1 op rmw 2 s t" using st by (simp add: mode_index_def)
    from a [OF stage_fixup [OF stage_absy [OF this br]]] show ?thesis
      using ADDR_ABSOLUTE_Y by (simp add: plans eval_nat_numeral split: if_splits) }
  { case ADDR_INDEXED_INDIRECT
    then have "started core c0 1 op rmw 1 s t" using st by (simp add: mode_index_def)
    from a [OF stage_indx [OF this br]] show ?thesis
      using ADDR_INDEXED_INDIRECT by (simp add: plans eval_nat_numeral) }
  { case ADDR_INDIRECT_INDEXED
    then have "started core c0 1 op rmw 2 s t" using st by (simp add: mode_index_def)
    from a [OF stage_fixup [OF stage_indy [OF this br]]] show ?thesis
      using ADDR_INDIRECT_INDEXED by (simp add: plans eval_nat_numeral split: if_splits) }
qed (use mode in \<open>simp_all add: address_mode_def\<close>)

text \<open>The address of a store or of a read-modify-write, with its unconditional penalty.\<close>

lemma fst_no_cross [simp]: "fst (no_cross r) = fst (fst r)"
  by (simp add: no_cross_def case_prod_beta)

lemma address_stage:
  assumes st: "started core c0 1 op rmw (mode_index mode) s t" and br: "ms_cls op \<noteq> C_BRANCH"
    and mode: "address_mode mode"
  shows "\<exists>crossed base. staged core c0 (write_cycles mode - 1) (fst (plain_addr hk mode s)) crossed base op rmw
    (snd (plain_addr hk mode s)) (fold (ms_do hk) (plan_addressing mode True []) t)"
proof (cases mode)
  { case ADDR_ZERO_PAGE
    then show ?thesis using stage_zp [OF st br] by (auto simp: plan_adds_eq eval_nat_numeral) }
  { case ADDR_ZERO_PAGE_X
    then have "started core c0 1 op rmw 1 s t" using st by (simp add: mode_index_def)
    from stage_zpx [OF this br] show ?thesis
      using ADDR_ZERO_PAGE_X by (auto simp: plan_adds_eq eval_nat_numeral) }
  { case ADDR_ZERO_PAGE_Y
    then have "started core c0 1 op rmw 2 s t" using st by (simp add: mode_index_def)
    from stage_zpy [OF this br] show ?thesis
      using ADDR_ZERO_PAGE_Y by (auto simp: plan_adds_eq eval_nat_numeral) }
  { case ADDR_ABSOLUTE
    then have "started core c0 1 op rmw 0 s t" using st by (simp add: mode_index_def)
    from stage_abs [OF this br] show ?thesis
      using ADDR_ABSOLUTE by (auto simp: plan_adds_eq eval_nat_numeral) }
  { case ADDR_ABSOLUTE_X
    then have "started core c0 1 op rmw 1 s t" using st by (simp add: mode_index_def)
    from stage_dummy [OF stage_absx [OF this br]] show ?thesis
      using ADDR_ABSOLUTE_X by (auto simp: plan_adds_eq eval_nat_numeral) }
  { case ADDR_ABSOLUTE_Y
    then have "started core c0 1 op rmw 2 s t" using st by (simp add: mode_index_def)
    from stage_dummy [OF stage_absy [OF this br]] show ?thesis
      using ADDR_ABSOLUTE_Y by (auto simp: plan_adds_eq eval_nat_numeral) }
  { case ADDR_INDEXED_INDIRECT
    then have "started core c0 1 op rmw 1 s t" using st by (simp add: mode_index_def)
    from stage_indx [OF this br] show ?thesis
      using ADDR_INDEXED_INDIRECT by (auto simp: plan_adds_eq eval_nat_numeral) }
  { case ADDR_INDIRECT_INDEXED
    then have "started core c0 1 op rmw 2 s t" using st by (simp add: mode_index_def)
    from stage_dummy [OF stage_indy [OF this br]] show ?thesis
      using ADDR_INDIRECT_INDEXED by (auto simp: plan_adds_eq eval_nat_numeral) }
qed (use mode in \<open>simp_all add: address_mode_def\<close>)

lemma write_cycles_pos: "write_cycles mode = write_cycles mode - 1 + 1"
  by (cases mode) simp_all

lemma plan_addressing_short: "length (plan_addressing mode d []) \<le> 4"
  by (cases mode) (simp_all add: plan_adds_eq)

lemma write_agree:
  assumes st: "started core c0 1 op rmw (mode_index mode) s t" and cls: "ms_cls op = C_WRITE"
    and route: "\<And>c. ms_store_value op c = g c" "\<And>c r. g (put_regs c r) = g c"
    and mode: "address_mode mode"
  shows "agree core c0 (write_cycles mode) (snd (write_then hk (plain_addr hk mode s) g))
    (fold (ms_do hk) (class_plan C_WRITE mode) t)"
proof -
  obtain crossed base where stg: "staged core c0 (write_cycles mode - 1) (fst (plain_addr hk mode s)) crossed base op rmw
    (snd (plain_addr hk mode s)) (fold (ms_do hk) (plan_addressing mode True []) t)"
    using address_stage [OF st _ mode] cls by auto
  have plan: "class_plan C_WRITE mode = plan_addressing mode True [] @ [M_WRITE_DATA]"
    using plan_addressing_short [of mode True] by (simp add: plan_adds_eq)
  show ?thesis
    using access_write [OF stg cls route] unfolding plan write_cycles_pos [symmetric]
    by (simp add: write_then_def case_prod_beta Let_def)
qed

lemma rmw_agree:
  assumes st: "started core c0 1 op rmw (mode_index mode) s t" and cls: "ms_cls op = C_RMW"
    and mode: "address_mode mode"
  shows "agree core c0 (write_cycles mode + 2) (snd (rmw_then hk (plain_addr hk mode s) rmw))
    (fold (ms_do hk) (class_plan C_RMW mode) t)"
proof -
  obtain crossed base where stg: "staged core c0 (write_cycles mode - 1) (fst (plain_addr hk mode s)) crossed base op rmw
    (snd (plain_addr hk mode s)) (fold (ms_do hk) (plan_addressing mode True []) t)"
    using address_stage [OF st _ mode] cls by auto
  have "mode \<noteq> ADDR_ACCUMULATOR" using mode by (auto simp: address_mode_def)
  then have plan: "class_plan C_RMW mode =
      plan_addressing mode True [] @ [M_READ_DATA, M_RMW_ORIG, M_RMW_NEW]"
    using plan_addressing_short [of mode True] by (simp add: plan_adds_eq)
  have "write_cycles mode + 2 = write_cycles mode - 1 + 3" using write_cycles_pos [of mode] by simp
  then show ?thesis
    using access_rmw [OF stg cls] unfolding plan
    by (simp add: rmw_then_def case_prod_beta Let_def)
qed

lemma sh_agree:
  assumes "exec_case hk op s = Some (sh_then hk r idx reg)"
    and "staged core c0 n (fst (fst r)) crossed (fst (fst r) - ucast i) op rmw (snd r) t"
    and "idx (cpu (snd r)) = i" and "ms_cls op = C_WRITE_UNSTABLE" "op \<noteq> 0x9B" "opcode_cycles op = n + 1"
    and "reg (cpu (snd r)) = (if op = 0x9C then cpu_Y (cpu (snd r)) else if op = 0x9E then cpu_X (cpu (snd r))
           else cpu_A (cpu (snd r)) AND cpu_X (cpu (snd r)))"
  shows "agree core c0 (fst (cpu_execute_opcode hk op s)) (snd (cpu_execute_opcode hk op s))
    (ms_do hk M_WRITE_DATA t)"
  using access_sh [of c0 n "fst (fst r)" crossed idx "snd r" op rmw t reg] assms
  by (simp add: cpu_execute_opcode_def sh_then_def case_prod_beta Let_def)

lemma tas_agree:
  fixes s :: "'d machine"
  defines "r \<equiv> addr_absolute_y hk s"
  assumes "staged core c0 n (fst (fst r)) crossed (fst (fst r) - ucast i) 0x9B rmw (snd r) t"
    and "cpu_Y (cpu (snd r)) = i" "ms_cls 0x9B = C_WRITE_UNSTABLE" "opcode_cycles 0x9B = n + 1"
  shows "agree core c0 (fst (cpu_execute_opcode hk 0x9B s)) (snd (cpu_execute_opcode hk 0x9B s))
    (ms_do hk M_WRITE_DATA t)"
  using access_tas [of c0 n "fst (fst r)" crossed "snd r" "0x9B" rmw t] assms(2-)
  unfolding r_def
  by (simp add: cpu_execute_opcode_def unstable_switch op_tas_def sh_then_def case_prod_beta Let_def store_sax_def)

lemma unstable_facts:
  "ms_cls 0x9F = C_WRITE_UNSTABLE" "opcode_mode 0x9F = ADDR_ABSOLUTE_Y" "opcode_cycles 0x9F = 5"
  "ms_cls 0x93 = C_WRITE_UNSTABLE" "opcode_mode 0x93 = ADDR_INDIRECT_INDEXED" "opcode_cycles 0x93 = 6"
  "ms_cls 0x9E = C_WRITE_UNSTABLE" "opcode_mode 0x9E = ADDR_ABSOLUTE_Y" "opcode_cycles 0x9E = 5"
  "ms_cls 0x9C = C_WRITE_UNSTABLE" "opcode_mode 0x9C = ADDR_ABSOLUTE_X" "opcode_cycles 0x9C = 5"
  "ms_cls 0x9B = C_WRITE_UNSTABLE" "opcode_mode 0x9B = ADDR_ABSOLUTE_Y" "opcode_cycles 0x9B = 5"
  using unstable_entries by simp_all

lemma index_kept:
  "cpu_Y (cpu (snd (addr_absolute_y hk s))) = cpu_Y (cpu s)"
  "cpu_X (cpu (snd (addr_absolute_x hk s))) = cpu_X (cpu s)"
  "cpu_Y (cpu (snd (addr_indirect_indexed hk s))) = cpu_Y (cpu s)"
  by (simp_all add: addr_absolute_y_def addr_absolute_x_def addr_indirect_indexed_def
      cpu_fetch_word_pc_def case_prod_beta Let_def)

lemma unstable_agree:
  assumes st: "started core c0 1 op rmw (mode_index (opcode_mode op)) s t" and op: "op \<in> set unstable_ops"
  shows "agree core c0 (fst (cpu_execute_opcode hk op s)) (snd (cpu_execute_opcode hk op s))
    (fold (ms_do hk) (class_plan (ms_cls op) (opcode_mode op)) t)"
proof -
  consider "op = 0x9F" | "op = 0x93" | "op = 0x9E" | "op = 0x9C" | "op = 0x9B"
    using op by (auto simp: unstable_ops_def)
  then show ?thesis
  proof cases
    case 1
    then have "started core c0 1 0x9F rmw 2 s t" using st by (simp add: mode_index_def unstable_facts)
    from sh_agree [OF unstable_switch(1) stage_dummy [OF stage_absy [OF this]] index_kept(1)]
    show ?thesis using 1 by (simp add: unstable_facts plan_adds_eq store_sax_def)
  next
    case 2
    then have "started core c0 1 0x93 rmw 2 s t" using st by (simp add: mode_index_def unstable_facts)
    from sh_agree [OF unstable_switch(2) stage_dummy [OF stage_indy [OF this]] index_kept(3)]
    show ?thesis using 2 by (simp add: unstable_facts plan_adds_eq store_sax_def)
  next
    case 3
    then have "started core c0 1 0x9E rmw 2 s t" using st by (simp add: mode_index_def unstable_facts)
    from sh_agree [OF unstable_switch(3) stage_dummy [OF stage_absy [OF this]] index_kept(1)]
    show ?thesis using 3 by (simp add: unstable_facts plan_adds_eq)
  next
    case 4
    then have "started core c0 1 0x9C rmw 1 s t" using st by (simp add: mode_index_def unstable_facts)
    from sh_agree [OF unstable_switch(4) stage_dummy [OF stage_absx [OF this]] index_kept(2)]
    show ?thesis using 4 by (simp add: unstable_facts plan_adds_eq)
  next
    case 5
    then have "started core c0 1 0x9B rmw 2 s t" using st by (simp add: mode_index_def unstable_facts)
    from tas_agree [OF stage_dummy [OF stage_absy [OF this]] index_kept(1)]
    show ?thesis using 5 by (simp add: unstable_facts plan_adds_eq)
  qed
qed

lemma other_facts:
  "ms_cls 0x48 = C_PUSH_A" "opcode_cycles 0x48 = 3" "ms_cls 0x68 = C_PULL_A" "opcode_cycles 0x68 = 4"
  "ms_cls 0x08 = C_PUSH_P" "opcode_cycles 0x08 = 3" "ms_cls 0x28 = C_PULL_P" "opcode_cycles 0x28 = 4"
  "ms_cls 0x4C = C_JMP" "opcode_cycles 0x4C = 3" "ms_cls 0x6C = C_JMP_IND" "opcode_cycles 0x6C = 5"
  "ms_cls 0x20 = C_JSR" "opcode_cycles 0x20 = 6" "ms_cls 0x60 = C_RTS" "opcode_cycles 0x60 = 6"
  "ms_cls 0x40 = C_RTI" "opcode_cycles 0x40 = 6" "ms_cls 0 = C_BRK" "opcode_cycles 0 = 7"
  using other_entries by simp_all

lemma other_agree:
  assumes st: "started core c0 1 op rmw (mode_index (opcode_mode op)) s t" and op: "op \<in> set other_ops"
    and brk: "\<not> nmi_pending (board t)" "op = 0 \<Longrightarrow> ms_vector (cpu t) = 0xFFFE"
  shows "agree core c0 (fst (cpu_execute_opcode hk op s)) (snd (cpu_execute_opcode hk op s))
    (fold (ms_do hk) (class_plan (ms_cls op) (opcode_mode op)) t)"
proof -
  note fin = cpu_execute_opcode_def other_switch other_facts case_prod_beta Let_def plan_adds_eq
  consider "op = 0x48" | "op = 0x68" | "op = 0x08" | "op = 0x28" | "op = 0x4C" | "op = 0x6C"
    | "op = 0x20" | "op = 0x60" | "op = 0x40" | "op = 0"
    using op by (auto simp: other_ops_def)
  then show ?thesis
  proof cases
    case 1 then show ?thesis using single_pha [OF st] by (simp add: fin del: One_nat_def add_2_eq_Suc add_2_eq_Suc')
  next
    case 2 then show ?thesis using single_pla [OF st] by (simp add: fin del: One_nat_def add_2_eq_Suc add_2_eq_Suc')
  next
    case 3 then show ?thesis using single_php [OF st] by (simp add: fin del: One_nat_def add_2_eq_Suc add_2_eq_Suc')
  next
    case 4 then show ?thesis using single_plp [OF st] by (simp add: fin del: One_nat_def add_2_eq_Suc add_2_eq_Suc')
  next
    case 5 then show ?thesis using single_jmp [OF st] by (simp add: fin del: One_nat_def add_2_eq_Suc add_2_eq_Suc')
  next
    case 6
    then have "started core c0 1 op rmw 0 s t" using st jmp_ind_mode by simp
    from single_jmp_ind [OF this] show ?thesis using 6 by (simp add: fin del: One_nat_def add_2_eq_Suc add_2_eq_Suc')
  next
    case 7 then show ?thesis using single_jsr [OF st] by (simp add: fin del: One_nat_def add_2_eq_Suc add_2_eq_Suc')
  next
    case 8 then show ?thesis using single_rts [OF st] by (simp add: fin del: One_nat_def add_2_eq_Suc add_2_eq_Suc')
  next
    case 9 then show ?thesis using single_rti [OF st] by (simp add: fin del: One_nat_def add_2_eq_Suc add_2_eq_Suc')
  next
    case 10
    then have "started core c0 1 0 rmw (mode_index (opcode_mode op)) s t" using st by simp
    from single_brk [OF this brk(1) brk(2)] show ?thesis using 10 by (simp add: fin del: One_nat_def add_2_eq_Suc add_2_eq_Suc')
  qed
qed

text \<open>Every opcode but a JAM, from the opcode fetch on.\<close>

lemma straight_opcode_agree:
  assumes st: "started core c0 1 op (ms_rmw_op op) (mode_index (opcode_mode op)) s t"
    and brk: "\<not> nmi_pending (board t)" "op = 0 \<Longrightarrow> ms_vector (cpu t) = 0xFFFE"
    and op: "op \<notin> set ms_jams" "op \<notin> set ms_branches"
  shows "agree core c0 (fst (cpu_execute_opcode hk op s)) (snd (cpu_execute_opcode hk op s))
    (fold (ms_do hk) (class_plan (ms_cls op) (opcode_mode op)) t)"
proof -
  consider (rd) m f where "(op, m, f) \<in> set read_ops" | (wr) m g where "(op, m, g) \<in> set write_ops"
    | (rmw) m w where "(op, m, w) \<in> set rmw_ops" | (impl) f where "(op, f) \<in> set implied_ops"
    | (sh) "op \<in> set unstable_ops" | (oth) "op \<in> set other_ops"
    using opcode_listed [of op] op by (auto simp: listed_ops_def)
  then show ?thesis
  proof cases
    case rd
    then have sw: "exec_case hk op s = Some (legacy_read hk m f s)"
      and ent: "ms_cls op = C_READ" "opcode_mode op = m" "opcode_cycles op = read_cycles m"
        "m = ADDR_IMMEDIATE \<or> address_mode m" and route: "\<And>v c. ms_alu_read op v c = f v c"
      using read_switch [of hk] read_entries read_routes unfolding list_all_iff by auto
    show ?thesis
      using read_agree [OF st [unfolded ent(2)] ent(1) route ent(4)] sw ent
      by (simp add: cpu_execute_opcode_def case_prod_beta)
  next
    case wr
    then have sw: "exec_case hk op s = Some (write_then hk (plain_addr hk m s) g)"
      and ent: "ms_cls op = C_WRITE" "opcode_mode op = m" "opcode_cycles op = write_cycles m"
        "address_mode m" and route: "\<And>c. ms_store_value op c = g c" "\<And>c r. g (put_regs c r) = g c"
      using write_switch [of hk] write_entries write_routes write_regs unfolding list_all_iff by auto
    show ?thesis
      using write_agree [OF st [unfolded ent(2)] ent(1) route ent(4)] sw ent
      by (simp add: cpu_execute_opcode_def write_then_def case_prod_beta Let_def)
  next
    case rmw
    then have sw: "exec_case hk op s = Some (rmw_then hk (plain_addr hk m s) w)"
      and ent: "ms_cls op = C_RMW" "opcode_mode op = m" "opcode_cycles op = write_cycles m + 2"
        "address_mode m" "ms_rmw_op op = w"
      using rmw_switch [of hk] rmw_entries unfolding list_all_iff by auto
    show ?thesis
      using rmw_agree [OF st [unfolded ent(2,5)] ent(1,4)] sw ent
      by (simp add: cpu_execute_opcode_def rmw_then_def case_prod_beta Let_def)
  next
    case impl
    then have sw: "exec_case hk op s = Some (0, upd_cpu f s)"
      and ent: "ms_cls op = C_IMPLIED" "opcode_cycles op = 2" and "\<And>c. ms_implied op c = f c"
      using implied_switch [of hk] implied_entries implied_routes unfolding list_all_iff by auto
    then have route: "ms_implied op = f" by blast
    show ?thesis
      using access_implied [OF st route] sw ent
      by (simp add: cpu_execute_opcode_def plan_adds_eq numeral_2_eq_2)
  next
    case sh
    then show ?thesis using unstable_agree [OF st] by simp
  next
    case oth
    then show ?thesis using other_agree [OF st _ brk] by simp
  qed
qed

lemma opcode_agree:
  assumes st: "started core c0 1 op (ms_rmw_op op) (mode_index (opcode_mode op)) s t"
    and pl: "planned op t"
    and brk: "\<not> nmi_pending (board t)" "op = 0 \<Longrightarrow> ms_vector (cpu t) = 0xFFFE"
    and op: "op \<notin> set ms_jams"
  shows "agree core c0 (fst (cpu_execute_opcode hk op s)) (snd (cpu_execute_opcode hk op s))
    (ms_instruction hk t)"
proof (cases "op \<in> set ms_branches")
  case True
  then have sw: "exec_case hk op s = Some (do_branch hk (ms_branch_taken op (cpu s)) s)"
    and ent: "ms_cls op = C_BRANCH" "opcode_cycles op = 2"
    using branch_switch [of hk] branch_entries unfolding list_all_iff by auto
  have "branch_at t 0" using pl ent by (simp add: planned_def branch_at_def plan_adds_eq)
  moreover have "ms_branch_taken op (cpu s) = ms_branch_taken op (cpu t)"
    using st by (simp add: started_def arch_eq_def ms_branch_taken_def cpu_get_flag_def)
  ultimately show ?thesis
    using single_branch [OF st ent(1)] sw ent by (simp add: cpu_execute_opcode_def case_prod_beta)
next
  case False
  have "ms_cls op \<noteq> C_BRANCH \<and> ms_cls op \<noteq> C_JAM"
  proof -
    consider m f where "(op, m, f) \<in> set read_ops" | m g where "(op, m, g) \<in> set write_ops"
      | m w where "(op, m, w) \<in> set rmw_ops" | f where "(op, f) \<in> set implied_ops"
      | "op \<in> set unstable_ops" | "op \<in> set other_ops"
      using opcode_listed [of op] op False by (auto simp: listed_ops_def)
    then show ?thesis
      using read_entries write_entries rmw_entries implied_entries unstable_facts other_facts
      by cases (auto simp: list_all_iff unstable_ops_def other_ops_def)
  qed
  then show ?thesis
    using straight_opcode_agree [OF st brk op False] planned_runs [OF pl] by simp
qed

end

section \<open>Whole instructions\<close>

text \<open>Between two instructions, with no interrupt to take on either engine.\<close>

definition quiescent :: "'d machine \<Rightarrow> bool" where
  "quiescent s \<longleftrightarrow> \<not> halted (cpu s) \<and> \<not> ms_active (cpu s) \<and> \<not> nmi_pending (board s) \<and>
     \<not> (irq_asserted (board s) \<and> \<not> cpu_get_flag (cpu s) FLAG_INTERRUPT) \<and> \<not> ms_irq_sampled (cpu s)"

text \<open>Two machines a program cannot tell apart, with the same clock.\<close>

definition same_time :: "('d board \<Rightarrow> 'c) \<Rightarrow> 'd machine \<Rightarrow> 'd machine \<Rightarrow> bool" where
  "same_time core s u \<longleftrightarrow> arch_eq core s u \<and> cycles (cpu s) = cycles (cpu u)"

context quiet_bus
begin

abbreviation next_opcode :: "'d machine \<Rightarrow> u8" where
  "next_opcode s \<equiv> val (core (board s)) (cpu_PC (cpu s))"

lemma same_time_opcode: "same_time core s u \<Longrightarrow> next_opcode u = next_opcode s"
  by (simp add: same_time_def arch_eq_def)

lemma opcode_start:
  assumes "quiescent u" and su: "same_time core s u"
  defines "op \<equiv> next_opcode s" and "t \<equiv> ms_first_cycle hk u"
  shows "started core (cycles (cpu s)) 1 op (ms_rmw_op op) (mode_index (opcode_mode op))
      (snd (cpu_fetch_byte hk s)) t"
    and "planned op t" and "\<not> nmi_pending (board t)" and "op = 0 \<Longrightarrow> ms_vector (cpu t) = 0xFFFE"
proof -
  have t: "t = ms_sample_interrupts False
      (upd_cpu (\<lambda>c. (ms_build_plan op c)\<lparr>ms_active := True\<rparr>) (snd (cpu_fetch_byte hk u)))"
    using assms(1) same_time_opcode [OF su]
    by (simp add: t_def op_def ms_first_cycle_def quiescent_def case_prod_beta Let_def)
  show "started core (cycles (cpu s)) 1 op (ms_rmw_op op) (mode_index (opcode_mode op))
      (snd (cpu_fetch_byte hk s)) t"
    using su unfolding t same_time_def by (simp add: started_def arch_eq_def ms_sample_interrupts_def)
  show "planned op t"
    using assms(1) unfolding t by (simp add: planned_def quiescent_def)
  show "\<not> nmi_pending (board t)"
    using assms(1) unfolding t by (simp add: quiescent_def)
  show "op = 0 \<Longrightarrow> ms_vector (cpu t) = 0xFFFE"
    unfolding t by (simp add: ms_sample_interrupts_def ms_build_plan_def other_facts)
qed

lemma legacy_fetch:
  assumes "quiescent s"
  defines "r \<equiv> cpu_execute_opcode hk (next_opcode s) (snd (cpu_fetch_byte hk s))"
  shows "cpu_step_legacy hk s = (fst r, pad_to hk (cycles (cpu s)) (fst r) (snd r))"
proof -
  have "\<not> (irq_asserted (board s) \<and> \<not> cpu_get_flag (cpu s) FLAG_INTERRUPT)"
    using assms(1) unfolding quiescent_def by blast
  then show ?thesis
    using assms(1) unfolding cpu_step_legacy_def quiescent_def r_def
    by (simp only: if_False simp_thms Let_def case_prod_beta fetch_board)
qed

lemma agree_padded:
  assumes "agree core c0 n s t"
  shows "arch_eq core (pad_to hk c0 n s) t" and "cycles (cpu (pad_to hk c0 n s)) = cycles (cpu t)"
    and "cycles (cpu t) = c0 + n"
  using assms by (auto simp: agree_def pad_to_def arch_eq_def Let_def)

theorem instruction_agree:
  assumes q: "quiescent s" "quiescent u" "same_time core s u" and op: "next_opcode s \<notin> set ms_jams"
  defines "l \<equiv> cpu_step_legacy hk s" and "t \<equiv> ms_instruction hk u"
  shows "arch_eq core (snd l) t" and "cycles (cpu (snd l)) = cycles (cpu t)"
    and "cycles (cpu t) = cycles (cpu s) + fst l"
proof -
  let ?op = "next_opcode s"
  have run: "ms_instruction hk u = ms_instruction hk (ms_first_cycle hk u)"
    using q by (simp add: ms_instruction_unfold [of hk u] cpu_cycle_simps quiescent_def)
  have "agree core (cycles (cpu s)) (fst (cpu_execute_opcode hk ?op (snd (cpu_fetch_byte hk s))))
      (snd (cpu_execute_opcode hk ?op (snd (cpu_fetch_byte hk s)))) t"
    using opcode_agree [OF opcode_start [OF q(2,3)] op] unfolding t_def run .
  moreover have "l = (fst (cpu_execute_opcode hk ?op (snd (cpu_fetch_byte hk s))),
      pad_to hk (cycles (cpu s)) (fst (cpu_execute_opcode hk ?op (snd (cpu_fetch_byte hk s))))
        (snd (cpu_execute_opcode hk ?op (snd (cpu_fetch_byte hk s)))))"
    unfolding l_def by (rule legacy_fetch [OF q(1)])
  ultimately show "arch_eq core (snd l) t" "cycles (cpu (snd l)) = cycles (cpu t)"
      "cycles (cpu t) = cycles (cpu s) + fst l"
    using agree_padded by (simp_all)
qed

text \<open>A JAM stops both engines; the historical one charges one cycle more.\<close>

theorem jam_differs:
  assumes q: "quiescent s" "quiescent u" "same_time core s u" and op: "next_opcode s \<in> set ms_jams"
  defines "l \<equiv> cpu_step_legacy hk s" and "t \<equiv> ms_instruction hk u"
  shows "arch_eq core (snd l) t" and "halted (cpu t)" and "cycles (cpu (snd l)) = cycles (cpu s) + 2"
    and "cycles (cpu t) = cycles (cpu s) + 1"
proof -
  let ?op = "next_opcode s" and ?t1 = "ms_first_cycle hk u"
  have sw: "exec_case hk ?op u = Some (0, upd_cpu (\<lambda>c. c\<lparr>halted := True\<rparr>) u)"
    and ent: "ms_cls ?op = C_JAM" "opcode_cycles ?op = 2" for u
    using op jam_switch [of hk] jam_entries unfolding list_all_iff by auto
  note st = opcode_start [OF q(2,3)]
  have "cpu_cycle hk ?t1 = ms_finish True (upd_cpu (\<lambda>c. c\<lparr>halted := True\<rparr>) ?t1)"
    using st(2) ent by (simp add: planned_def cpu_cycle_simps(4) current_mop_def plan_adds_eq)
  then have t: "t = snd (ms_finish True (upd_cpu (\<lambda>c. c\<lparr>halted := True\<rparr>) ?t1))"
    using q finish_branch_at(2) unfolding t_def
    by (simp add: ms_instruction_unfold [of hk u] ms_instruction_unfold [of hk ?t1] cpu_cycle_simps quiescent_def)
  have l: "l = (2, pad_to hk (cycles (cpu s)) 2 (upd_cpu (\<lambda>c. c\<lparr>halted := True\<rparr>) (snd (cpu_fetch_byte hk s))))"
    using sw ent legacy_fetch [OF q(1)] by (simp add: l_def cpu_execute_opcode_def numeral_2_eq_2)
  show "arch_eq core (snd l) t" "halted (cpu t)" "cycles (cpu (snd l)) = cycles (cpu s) + 2"
      "cycles (cpu t) = cycles (cpu s) + 1"
    using st(1) unfolding t l
    by (simp_all add: started_def arch_eq_def pad_to_def Let_def)
qed

section \<open>Interrupt sequences\<close>

abbreviation interrupt_plan :: "mop list" where
  "interrupt_plan \<equiv> [M_DUMMY_PC, M_PUSH_PCH, M_PUSH_PCL, M_PUSH_P, M_VEC_LO, M_VEC_HI]"

lemma trace_entry_board [simp]:
  "core (board (cpu_irq_trace_entry hk s)) = core (board s)"
  "nmi_pending (board (cpu_irq_trace_entry hk s)) = nmi_pending (board s)"
  by (simp_all add: cpu_irq_trace_entry_def Let_def read_core read_nmi)

lemma trace_entry_regs [simp]:
  "cpu_A (cpu (cpu_irq_trace_entry hk s)) = cpu_A (cpu s)" "cpu_X (cpu (cpu_irq_trace_entry hk s)) = cpu_X (cpu s)"
  "cpu_Y (cpu (cpu_irq_trace_entry hk s)) = cpu_Y (cpu s)" "cpu_SP (cpu (cpu_irq_trace_entry hk s)) = cpu_SP (cpu s)"
  "cpu_P (cpu (cpu_irq_trace_entry hk s)) = cpu_P (cpu s)" "cpu_PC (cpu (cpu_irq_trace_entry hk s)) = cpu_PC (cpu s)"
  by (simp_all add: cpu_irq_trace_entry_def Let_def)

lemma irq_stage:
  assumes "started core c0 1 0 rmw idx s t" "\<not> nmi_pending (board t)" "ms_vector (cpu t) = 0xFFFE"
  shows "agree core c0 7 (handle_irq hk s) (fold (ms_do hk) interrupt_plan t)"
  using assms
  by (simp add: stage_unfold legacy_unfold handle_irq_def ms_nmi_hijack_def cpu_set_flag_alt)

lemma nmi_stage:
  assumes "started core c0 1 0 rmw idx (s\<lparr>board := (board s)\<lparr>nmi_pending := False\<rparr>\<rparr>) t"
    and "ms_vector (cpu t) = 0xFFFA"
  shows "agree core c0 7 (handle_nmi hk s) (fold (ms_do hk) interrupt_plan t)"
  using assms
  by (simp add: stage_unfold legacy_unfold handle_nmi_def ms_nmi_hijack_def cpu_set_flag_alt core_nmi)

lemma interrupt_runs:
  assumes "\<not> halted (cpu t)" "ms_active (cpu t)" "ms_pc (cpu t) = 0" "ms_opcode (cpu t) = 0"
    "ms_plan (cpu t) = interrupt_plan"
  shows "ms_instruction hk t = fold (ms_do hk) interrupt_plan t"
  by (rule ms_instruction_straight) (use assms in \<open>simp_all add: straight_def\<close>)

theorem nmi_agree:
  assumes "\<not> halted (cpu s)" "\<not> ms_active (cpu u)" "nmi_pending (board s)" "ms_nmi_sampled (cpu u)"
    and su: "same_time core s u"
  defines "l \<equiv> cpu_step_legacy hk s" and "t \<equiv> ms_instruction hk u"
  shows "arch_eq core (snd l) t" and "cycles (cpu (snd l)) = cycles (cpu t)"
    and "cycles (cpu t) = cycles (cpu s) + 7"
proof -
  have eq: "nmi_pending (board u)" "\<not> halted (cpu u)" "cycles (cpu u) = cycles (cpu s)"
    using su assms(1,3) by (simp_all add: same_time_def arch_eq_def)
  let ?t1 = "ms_first_cycle hk u" and ?s0 = "s\<lparr>board := (board s)\<lparr>nmi_pending := False\<rparr>\<rparr>"
  have t1: "?t1 = ms_sample_interrupts False (upd_cpu (\<lambda>c. c\<lparr>ms_active := True\<rparr>)
      (snd (cpu_mem_read hk (cpu_PC (cpu u))
        (u\<lparr>board := (board u)\<lparr>nmi_pending := False\<rparr>,
           cpu := ms_build_interrupt 0xFFFA ((cpu u)\<lparr>ms_nmi_sampled := False\<rparr>)\<rparr>))))"
    using eq assms(4) by (simp add: ms_first_cycle_def Let_def)
  have "started core (cycles (cpu s)) 1 0 (ms_rmw (cpu ?t1)) (ms_idx (cpu ?t1)) ?s0 ?t1"
    using su unfolding t1 same_time_def
    by (simp add: started_def arch_eq_def ms_sample_interrupts_def core_nmi) (simp add: ms_build_interrupt_def)
  moreover have "ms_vector (cpu ?t1) = 0xFFFA"
    unfolding t1 by (simp add: ms_sample_interrupts_def)
  ultimately have "agree core (cycles (cpu s)) 7 (handle_nmi hk s) (fold (ms_do hk) interrupt_plan ?t1)"
    by (rule nmi_stage)
  moreover have "ms_instruction hk ?t1 = fold (ms_do hk) interrupt_plan ?t1"
    by (rule interrupt_runs) (use eq(2) in \<open>simp_all add: t1 plan_interrupt_eq\<close>)
  moreover have "t = ms_instruction hk ?t1"
    using eq(2) assms(2) by (simp add: t_def ms_instruction_unfold [of hk u] cpu_cycle_simps)
  moreover have "l = (7, pad_to hk (cycles (cpu s)) 7 (handle_nmi hk s))"
    using assms(1,3) by (simp add: l_def cpu_step_legacy_def)
  ultimately show "arch_eq core (snd l) t" "cycles (cpu (snd l)) = cycles (cpu t)"
      "cycles (cpu t) = cycles (cpu s) + 7"
    using agree_padded by simp_all
qed

theorem irq_agree:
  assumes "\<not> halted (cpu s)" "\<not> ms_active (cpu u)" "\<not> nmi_pending (board s)"
    "irq_asserted (board s)" "\<not> cpu_get_flag (cpu s) FLAG_INTERRUPT" "ms_irq_sampled (cpu u)"
    and su: "same_time core s u"
  defines "l \<equiv> cpu_step_legacy hk s" and "t \<equiv> ms_instruction hk u"
  shows "arch_eq core (snd l) t" and "cycles (cpu (snd l)) = cycles (cpu t)"
    and "cycles (cpu t) = cycles (cpu s) + 7"
proof -
  have eq: "\<not> nmi_pending (board u)" "\<not> halted (cpu u)" "cycles (cpu u) = cycles (cpu s)"
    using su assms(1,3) by (simp_all add: same_time_def arch_eq_def)
  let ?t1 = "ms_first_cycle hk u"
  let ?u0 = "if irq_pulse (board u) \<noteq> 0 then u\<lparr>board := (board u)\<lparr>irq_pulse := irq_pulse (board u) - 1\<rparr>\<rparr> else u"
  let ?s0 = "if irq_pulse (board s) \<noteq> 0 then s\<lparr>board := (board s)\<lparr>irq_pulse := irq_pulse (board s) - 1\<rparr>\<rparr> else s"
  have t1: "?t1 = ms_sample_interrupts False (upd_cpu (\<lambda>c. c\<lparr>ms_active := True\<rparr>)
      (snd (cpu_mem_read hk (cpu_PC (cpu u))
        (?u0\<lparr>cpu := ms_build_interrupt 0xFFFE ((cpu u)\<lparr>ms_irq_sampled := False\<rparr>)\<rparr>))))"
    using eq(1) assms(6) by (simp add: ms_first_cycle_def Let_def)
  have s0: "cpu ?s0 = cpu s" "core (board ?s0) = core (board s)" "\<not> nmi_pending (board ?s0)"
    "cpu ?u0 = cpu u" "core (board ?u0) = core (board u)" "\<not> nmi_pending (board ?u0)"
    using assms(3) eq(1) by (simp_all add: core_pulse)
  have "started core (cycles (cpu s)) 1 0 (ms_rmw (cpu ?t1)) (ms_idx (cpu ?t1)) ?s0 ?t1"
    using s0 su unfolding t1 same_time_def
    by (simp add: started_def arch_eq_def ms_sample_interrupts_def split del: if_split) (simp add: ms_build_interrupt_def)
  moreover have "ms_vector (cpu ?t1) = 0xFFFE" "\<not> nmi_pending (board ?t1)"
    using s0 unfolding t1 by (simp_all add: ms_sample_interrupts_def)
  ultimately have "agree core (cycles (cpu s)) 7 (handle_irq hk ?s0) (fold (ms_do hk) interrupt_plan ?t1)"
    by (intro irq_stage)
  moreover have "ms_instruction hk ?t1 = fold (ms_do hk) interrupt_plan ?t1"
    by (rule interrupt_runs) (use eq(2) in \<open>simp_all add: t1 plan_interrupt_eq\<close>)
  moreover have "t = ms_instruction hk ?t1"
    using eq(2) assms(2) by (simp add: t_def ms_instruction_unfold [of hk u] cpu_cycle_simps)
  moreover have "l = (7, pad_to hk (cycles (cpu s)) 7 (handle_irq hk ?s0))"
    using assms(1,3-5) by (simp add: l_def cpu_step_legacy_def Let_def)
  ultimately show "arch_eq core (snd l) t" "cycles (cpu (snd l)) = cycles (cpu t)"
      "cycles (cpu t) = cycles (cpu s) + 7"
    using agree_padded by simp_all
qed

end

end
