(* ===== verification/Bare_Machine.thy ===== *)
theory Bare_Machine
  imports Engine_Equiv
begin

unbundle bit_operations_syntax

text \<open>
  The machine with no peripheral on the bus: every callback pointer null and the LOCI
  co-simulation inactive.  Its memory is an instance of the quiet bus, where the cells are
  the memory without its open-bus latch and its trace logs, so the agreement of the engines
  holds of the memory model itself.
\<close>

definition bare_hooks :: "'d hooks" where
  "bare_hooks = \<lparr>io_read = None, io_write = None, io_peek = None, on_cycle = None,
     loci_emu_active = (\<lambda>_. False), loci_emu_rom_read = (\<lambda>_ b. (None, b)),
     loci_emu_romdis = (\<lambda>_. False), loci_emu_rom_write = (\<lambda>_ _ b. (False, b))\<rparr>"

lemma bare_hooks_sel [simp]:
  "io_read bare_hooks = None" "io_write bare_hooks = None" "io_peek bare_hooks = None"
  "on_cycle bare_hooks = None" "\<not> loci_emu_active bare_hooks b"
  by (simp_all add: bare_hooks_def)

text \<open>What a program can see of the memory: all but the latch and the observers' logs.\<close>

definition cells :: "memory_t \<Rightarrow> memory_t" where
  "cells m = m\<lparr>last_bus_value := 0, trace_log := [], trace_log2 := []\<rparr>"

definition board_cells :: "'d board \<Rightarrow> memory_t" where
  "board_cells b = cells (mem b)"

definition mem_value :: "memory_t \<Rightarrow> u16 \<Rightarrow> u8" where
  "mem_value m a = (if a < 0xC000 then ram_value m a else rom_area_value m a)"

definition lone_board :: "memory_t \<Rightarrow> unit board" where
  "lone_board m = \<lparr>mem = m, irq = 0, irq_pulse = 0, nmi_pending = False, dev = ()\<rparr>"

definition mem_store :: "memory_t \<Rightarrow> u16 \<Rightarrow> u8 \<Rightarrow> memory_t" where
  "mem_store m a v =
     (if in_io a then m else if a < 0xC000 then mem (upd_ram a v (lone_board m))
      else mem (rom_area_write a v (lone_board m)))"

lemma cells_notify [simp]: "cells (mem_notify a v ty m) = cells m"
  by (simp add: mem_notify_def cells_def Let_def)

lemma mem_notify_sel [mem_simps]:
  "ram (mem_notify a v ty m) = ram m" "rom (mem_notify a v ty m) = rom m"
  "upper_ram (mem_notify a v ty m) = upper_ram m" "charset (mem_notify a v ty m) = charset m"
  "overlay_rom (mem_notify a v ty m) = overlay_rom m"
  "overlay_rom_size (mem_notify a v ty m) = overlay_rom_size m"
  "overlay_active (mem_notify a v ty m) = overlay_active m"
  "basic_rom_disabled (mem_notify a v ty m) = basic_rom_disabled m"
  "jasmin_active (mem_notify a v ty m) = jasmin_active m"
  "jasmin_rom (mem_notify a v ty m) = jasmin_rom m" "jasmin_olay (mem_notify a v ty m) = jasmin_olay m"
  "jasmin_romdis (mem_notify a v ty m) = jasmin_romdis m"
  "rom_enabled (mem_notify a v ty m) = rom_enabled m" "charset_bank (mem_notify a v ty m) = charset_bank m"
  "stuck0 (mem_notify a v ty m) = stuck0 m" "stuck1 (mem_notify a v ty m) = stuck1 m"
  by (simp_all add: mem_notify_def Let_def)

lemma notify_sel [mem_simps]:
  "mem (notify a v ty b) = mem_notify a v ty (mem b)" "irq (notify a v ty b) = irq b"
  "irq_pulse (notify a v ty b) = irq_pulse b" "nmi_pending (notify a v ty b) = nmi_pending b"
  "dev (notify a v ty b) = dev b"
  by (simp_all add: notify_def)

lemma mem_value_cells [simp]: "mem_value (cells m) a = mem_value m a"
  by (simp add: mem_value_def cells_def ram_value_def rom_area_value_def jasmin_value_def
      microdisc_value_def Let_def split: option.split)

lemma cells_store: "cells (mem_store m a v) = mem_store (cells m) a v"
  by (simp add: mem_store_def cells_def lone_board_def upd_ram_def rom_area_write_def
      upd_upper_ram_def upd_rom_def Let_def)

lemma bare_read:
  "memory_read bare_hooks a b = (mem_value (mem b) a, notify a (mem_value (mem b) a) MEM_READ b)"
  by (simp add: memory_read_def mem_value_def Let_def)

lemma in_io_low: "in_io a \<Longrightarrow> a < 0xC000"
  by (erule conjE) (erule le_less_trans, simp)

lemma bare_write:
  "memory_write bare_hooks a v b =
     (notify a v MEM_WRITE b)\<lparr>mem := mem_store (mem_notify a v MEM_WRITE (mem b)) a v\<rparr>"
  by (simp add: memory_write_def mem_store_def Let_def mem_simps upd_ram_def rom_area_write_def
      upd_upper_ram_def upd_rom_def lone_board_def notify_def)

interpretation bare: quiet_bus bare_hooks board_cells mem_value mem_store
  by unfold_locales
    (simp_all add: bare_read bare_write board_cells_def mem_simps cells_store)


section \<open>No interrupt line asserted\<close>

definition lines_low :: "'d machine \<Rightarrow> bool" where
  "lines_low s \<longleftrightarrow> irq (board s) = 0 \<and> irq_pulse (board s) = 0 \<and> \<not> nmi_pending (board s) \<and>
     \<not> ms_irq_sampled (cpu s)"

interpretation bare_lines: legacy_invariant bare_hooks lines_low
  by unfold_locales (simp_all add: lines_low_def same_seq_def bare_read bare_write mem_simps)

definition low_board :: "'d board \<Rightarrow> bool" where
  "low_board b \<longleftrightarrow> irq b = 0 \<and> irq_pulse b = 0 \<and> \<not> nmi_pending b"

lemma low_board_accesses [simp]:
  "low_board (board (snd (cpu_mem_read bare_hooks a s))) \<longleftrightarrow> low_board (board s)"
  "low_board (board (cpu_mem_write bare_hooks a v s)) \<longleftrightarrow> low_board (board s)"
  "low_board (board (snd (cpu_fetch_byte bare_hooks s))) \<longleftrightarrow> low_board (board s)"
  "low_board (board (ms_push bare_hooks v s)) \<longleftrightarrow> low_board (board s)"
  "low_board (board (snd (ms_pull bare_hooks s))) \<longleftrightarrow> low_board (board s)"
  by (simp_all add: cpu_mem_read_def cpu_mem_write_def cpu_fetch_byte_def ms_push_def ms_pull_def
      cpu_tick_def bare_read bare_write mem_simps low_board_def Let_def)

lemma low_board_trace [simp]:
  "low_board (board (cpu_irq_trace_entry bare_hooks s)) \<longleftrightarrow> low_board (board s)"
  by (simp add: cpu_irq_trace_entry_def bare_read mem_simps low_board_def Let_def)

lemma hijack_low: "low_board (board s) \<Longrightarrow> ms_nmi_hijack s = s"
  by (simp add: ms_nmi_hijack_def low_board_def)

lemma irq_sampled_kept [simp]:
  "ms_irq_sampled (cpu_set_flag flag b c) = ms_irq_sampled c" "ms_irq_sampled (set_A_nz v c) = ms_irq_sampled c"
  "ms_irq_sampled (set_P_pulled v c) = ms_irq_sampled c"
  "ms_irq_sampled (ms_alu_read op v c) = ms_irq_sampled c"
  "ms_irq_sampled (ms_implied op c) = ms_irq_sampled c"
  "ms_irq_sampled (snd (cpu_rmw_apply rmw v c)) = ms_irq_sampled c"
  "ms_irq_sampled (ms_apply_index c) = ms_irq_sampled c"
  "ms_irq_sampled (ms_branch_step c) = ms_irq_sampled c"
  "ms_irq_sampled (cpu (cpu_irq_trace_entry hk s)) = ms_irq_sampled (cpu s)"
  by (simp_all add: reg_fun_keeps reg_funs reg_fun_keeps [of "\<lambda>c. snd (cpu_rmw_apply rmw v c)"]
      ms_apply_index_def ms_branch_step_def cpu_irq_trace_entry_def Let_def)

lemma lines_low_alt: "lines_low s \<longleftrightarrow> low_board (board s) \<and> \<not> ms_irq_sampled (cpu s)"
  by (auto simp: lines_low_def low_board_def)

lemma lines_low_exec: "lines_low s \<Longrightarrow> lines_low (snd (ms_exec bare_hooks m s))"
  by (cases m)
    (simp_all add: lines_low_alt case_prod_beta Let_def hijack_low ms_write_unstable_def)

lemma lines_low_sample [simp]: "lines_low s \<Longrightarrow> lines_low (ms_sample_interrupts b s)"
  by (simp add: lines_low_def ms_sample_interrupts_def irq_asserted_def)

lemma low_irq: "low_board b \<Longrightarrow> \<not> irq_asserted b"
  by (simp add: low_board_def irq_asserted_def)

lemma irq_sampled_sample:
  "ms_irq_sampled (cpu (ms_sample_interrupts l s)) =
     (if l then ms_irq_sampled (cpu s)
      else irq_asserted (board s) \<and> \<not> cpu_get_flag (cpu s) FLAG_INTERRUPT)"
  by (simp add: ms_sample_interrupts_def)

lemma lines_low_finish: "lines_low s \<Longrightarrow> lines_low (snd (ms_finish e s))"
  by (simp add: ms_finish_def Let_def lines_low_alt irq_sampled_sample low_irq)

lemma lines_low_first: "lines_low s \<Longrightarrow> lines_low (ms_first_cycle bare_hooks s)"
proof -
  assume a: "lines_low s"
  have "lines_low (upd_cpu (\<lambda>c. (ms_build_plan op c)\<lparr>ms_active := True\<rparr>) (snd (cpu_fetch_byte bare_hooks s)))" for op
    using a by (simp add: lines_low_alt ms_build_plan_def Let_def)
  then show ?thesis
    using a by (simp add: ms_first_cycle_def case_prod_beta Let_def) (simp add: lines_low_def)
qed

interpretation bare_seq_lines: sequencer_invariant bare_hooks lines_low
proof unfold_locales
  show "lines_low (upd_cpu (\<lambda>c. c\<lparr>ms_pc := ms_pc c + 1\<rparr>) s)" if "lines_low s" for s :: "'a machine"
    using that by (simp add: lines_low_alt)
qed (simp_all add: lines_low_first lines_low_exec lines_low_finish)

end
