(* ===== verification/Cpu_Properties.thy ===== *)
theory Cpu_Properties
  imports Bare_Machine
begin

unbundle bit_operations_syntax

text \<open>
  The properties of the CPU engines: agreement of the two engines on instructions and on
  interrupts, one bus access per cycle, bounded instructions, the sequencer's invariant, and
  what the IRQ trace of the sequencer does.
\<close>

section \<open>A machine for the witnesses\<close>

text \<open>The reset machine with a program of one instruction at \<open>$0200\<close>.\<close>

definition machine_with :: "u8 \<Rightarrow> unit machine" where
  "machine_with op = \<lparr>cpu = cpu_init\<lparr>cpu_PC := 0x0200\<rparr>,
     board = lone_board (zero_memory\<lparr>ram := (\<lambda>a. if a = 0x0200 then op else 0)\<rparr>), bus_log = []\<rparr>"

lemma machine_with_quiescent: "quiescent (machine_with op)"
  by (simp add: machine_with_def quiescent_def lone_board_def irq_asserted_def cpu_init_def)

lemma machine_with_opcode: "mem_value (mem (board (machine_with op))) (cpu_PC (cpu (machine_with op))) = op"
  by (simp add: machine_with_def lone_board_def mem_value_def ram_value_def zero_memory_def)

section \<open>Agreement of the engines\<close>

lemma set_microseq_sel [simp]:
  "cpu_A (cpu_set_microseq e c) = cpu_A c" "cpu_X (cpu_set_microseq e c) = cpu_X c"
  "cpu_Y (cpu_set_microseq e c) = cpu_Y c" "cpu_SP (cpu_set_microseq e c) = cpu_SP c"
  "cpu_P (cpu_set_microseq e c) = cpu_P c" "cpu_PC (cpu_set_microseq e c) = cpu_PC c"
  "halted (cpu_set_microseq e c) = halted c" "cycles (cpu_set_microseq e c) = cycles c"
  "ms_irq_sampled (cpu_set_microseq e c) = ms_irq_sampled c"
  "ms_nmi_sampled (cpu_set_microseq e c) = ms_nmi_sampled c"
  "\<not> ms_active (cpu_set_microseq e c)" "ms_enabled (cpu_set_microseq e c) = e"
  by (simp_all add: cpu_set_microseq_def)

abbreviation on_legacy :: "'d machine \<Rightarrow> 'd machine" where
  "on_legacy \<equiv> upd_cpu (cpu_set_microseq False)"

abbreviation on_microseq :: "'d machine \<Rightarrow> 'd machine" where
  "on_microseq \<equiv> upd_cpu (cpu_set_microseq True)"

lemma quiescent_engine [simp]: "quiescent s \<Longrightarrow> quiescent (upd_cpu (cpu_set_microseq e) s)"
  by (simp add: quiescent_def cpu_get_flag_def)

lemma same_time_engines: "same_time core (on_legacy s) (on_microseq s)"
  by (simp add: same_time_def arch_eq_def)

lemma cpu_step_engines:
  "\<not> halted (cpu s) \<Longrightarrow> cpu_step hk (on_legacy s) = cpu_step_legacy hk (on_legacy s)"
  "\<not> halted (cpu s) \<Longrightarrow> cpu_step hk (on_microseq s) =
     (cycles (cpu (ms_instruction hk (on_microseq s))) - cycles (cpu s), ms_instruction hk (on_microseq s))"
  by (simp_all add: cpu_step_def Let_def)

text \<open>The same step: same cycle count returned, same clock, same registers and memory.\<close>

definition same_step :: "nat \<times> 'd machine \<Rightarrow> nat \<times> 'd machine \<Rightarrow> bool" where
  "same_step r q \<longleftrightarrow> fst r = fst q \<and> cycles (cpu (snd r)) = cycles (cpu (snd q)) \<and>
     arch_eq board_cells (snd r) (snd q)"

text \<open>
  C2: on a machine at rest with no interrupt to take and no peripheral on the bus, one
  \<open>cpu_step\<close> with the micro-sequenced engine and one with the historical engine return the
  same number of cycles and leave the same registers, program counter, memory contents and
  clock, for each of the 244 opcodes that are not a JAM, illegal ones included.
\<close>

theorem engines_agree:
  assumes "quiescent s" "mem_value (mem (board s)) (cpu_PC (cpu s)) \<notin> set ms_jams"
  shows "same_step (cpu_step bare_hooks (on_legacy s)) (cpu_step bare_hooks (on_microseq s))"
proof -
  have "\<not> halted (cpu s)" using assms(1) by (simp add: quiescent_def)
  then show ?thesis
    using bare.instruction_agree [of "on_legacy s" "on_microseq s"] assms same_time_engines [of board_cells s]
    by (simp add: same_step_def cpu_step_engines board_cells_def)
qed

theorem engines_agree_witness:
  "same_step (cpu_step bare_hooks (on_legacy (machine_with 0x69))) (cpu_step bare_hooks (on_microseq (machine_with 0x69)))"
  by (rule engines_agree [OF machine_with_quiescent])
    (simp only: machine_with_opcode ms_jams_def list.set insert_iff empty_iff u8_literal_eq simp_thms)

text \<open>
  When a pending NMI has been sampled, both engines enter it in 7 cycles with the same
  registers, program counter and memory (the three bytes pushed included).
\<close>

theorem nmi_engines_agree:
  assumes "\<not> halted (cpu s)" "nmi_pending (board s)" "ms_nmi_sampled (cpu s)"
  shows "same_step (cpu_step bare_hooks (on_legacy s)) (cpu_step bare_hooks (on_microseq s)) \<and>
    fst (cpu_step bare_hooks (on_microseq s)) = 7"
  using bare.nmi_agree [of "on_legacy s" "on_microseq s"] assms same_time_engines [of board_cells s]
  by (simp add: same_step_def cpu_step_engines) (simp add: cpu_step_legacy_def)

definition machine_with_nmi :: "unit machine" where
  "machine_with_nmi = (let s = machine_with 0xEA in
     s\<lparr>board := cpu_nmi (board s), cpu := (cpu s)\<lparr>ms_nmi_sampled := True\<rparr>\<rparr>)"

theorem nmi_engines_agree_witness:
  "same_step (cpu_step bare_hooks (on_legacy machine_with_nmi)) (cpu_step bare_hooks (on_microseq machine_with_nmi)) \<and>
    fst (cpu_step bare_hooks (on_microseq machine_with_nmi)) = 7"
  by (rule nmi_engines_agree)
    (simp_all add: machine_with_nmi_def machine_with_def cpu_nmi_def cpu_init_def Let_def)


text \<open>
  When a maskable interrupt is asserted, sampled and not masked, both engines enter it in
  7 cycles with the same registers, program counter and memory.
\<close>

theorem irq_engines_agree:
  assumes "\<not> halted (cpu s)" "\<not> nmi_pending (board s)" "irq_asserted (board s)"
    "\<not> cpu_get_flag (cpu s) FLAG_INTERRUPT" "ms_irq_sampled (cpu s)"
  shows "same_step (cpu_step bare_hooks (on_legacy s)) (cpu_step bare_hooks (on_microseq s)) \<and>
    fst (cpu_step bare_hooks (on_microseq s)) = 7"
  using bare.irq_agree [of "on_legacy s" "on_microseq s"] assms same_time_engines [of board_cells s]
  by (simp add: same_step_def cpu_step_engines cpu_get_flag_def)
    (simp add: cpu_step_legacy_def cpu_get_flag_def Let_def)

definition machine_with_irq :: "unit machine" where
  "machine_with_irq = (let s = machine_with 0xEA in
     s\<lparr>board := cpu_irq_set IRQF_VIA (board s),
       cpu := (cpu s)\<lparr>ms_irq_sampled := True, cpu_P := FLAG_UNUSED\<rparr>\<rparr>)"

theorem irq_engines_agree_witness:
  "same_step (cpu_step bare_hooks (on_legacy machine_with_irq)) (cpu_step bare_hooks (on_microseq machine_with_irq)) \<and>
    fst (cpu_step bare_hooks (on_microseq machine_with_irq)) = 7"
  by (rule irq_engines_agree)
    (simp_all add: machine_with_irq_def machine_with_def cpu_irq_set_def cpu_init_def lone_board_def
      irq_asserted_def cpu_get_flag_def Let_def)

section \<open>Agreement over whole programs\<close>

definition run_steps :: "'d hooks \<Rightarrow> nat \<Rightarrow> 'd machine \<Rightarrow> 'd machine" where
  "run_steps hk n = ((\<lambda>s. snd (cpu_step hk s)) ^^ n)"

text \<open>The two machines between two steps: indistinguishable, each on its own engine.\<close>

definition twins :: "'d machine \<Rightarrow> 'd machine \<Rightarrow> bool" where
  "twins s u \<longleftrightarrow> lines_low s \<and> lines_low u \<and> \<not> ms_enabled (cpu s) \<and> ms_enabled (cpu u) \<and>
     \<not> ms_active (cpu s) \<and> (halted (cpu u) \<or> \<not> ms_active (cpu u)) \<and>
     arch_eq board_cells s u \<and> (\<not> halted (cpu s) \<longrightarrow> cycles (cpu s) = cycles (cpu u))"

lemma twins_step:
  assumes "twins s u"
  shows "twins (snd (cpu_step bare_hooks s)) (snd (cpu_step bare_hooks u))"
proof (cases "halted (cpu s)")
  case True
  then show ?thesis using assms by (simp add: cpu_step_def twins_def arch_eq_def)
next
  case False
  let ?l = "snd (cpu_step_legacy bare_hooks s)" and ?m = "ms_instruction bare_hooks u"
  have run: "\<not> halted (cpu u)" "\<not> ms_active (cpu u)"
    using assms False by (auto simp: twins_def arch_eq_def)
  have q: "quiescent s" "quiescent u" "same_time board_cells s u"
    using assms False run
    by (auto simp: twins_def quiescent_def lines_low_def irq_asserted_def same_time_def)
  have steps: "snd (cpu_step bare_hooks s) = ?l" "snd (cpu_step bare_hooks u) = ?m"
    using assms False run by (simp_all add: cpu_step_def twins_def Let_def)
  have "arch_eq board_cells ?l ?m \<and> (\<not> halted (cpu ?l) \<longrightarrow> cycles (cpu ?l) = cycles (cpu ?m))"
    using bare.instruction_agree [OF q] bare.jam_differs [OF q]
    by (cases "mem_value (board_cells (board s)) (cpu_PC (cpu s)) \<in> set ms_jams") (auto simp: arch_eq_def)
  moreover have "lines_low ?l" "lines_low ?m"
    using assms by (simp_all add: twins_def bare_lines.keep_step bare_seq_lines.keep_instruction)
  moreover have "\<not> ms_enabled (cpu ?l)" "\<not> ms_active (cpu ?l)"
    using assms cpu_step_legacy_keeps_ms [of s bare_hooks]
    by (simp_all add: twins_def same_ms_def ms_control_def)
  moreover have "ms_enabled (cpu ?m)" "halted (cpu ?m) \<or> \<not> ms_active (cpu ?m)"
    using assms seq_enabled.keep_instruction [of u True bare_hooks] ms_instruction_rest [OF run(1)]
    by (auto simp: twins_def)
  ultimately show ?thesis unfolding steps by (simp add: twins_def)
qed

text \<open>
  C1: over any number of steps of any program, from a machine at rest with no interrupt line
  asserted and no peripheral, the two engines stay indistinguishable: same registers, program
  counter, halt state and memory after every step, and the same clock as long as no JAM stops
  the machine.
\<close>

theorem programs_agree:
  fixes n :: nat
  assumes "lines_low s"
  defines "l \<equiv> run_steps bare_hooks n (on_legacy s)" and "m \<equiv> run_steps bare_hooks n (on_microseq s)"
  shows "arch_eq board_cells l m \<and> (halted (cpu l) \<or> cycles (cpu l) = cycles (cpu m))"
proof -
  have "twins l m"
    unfolding l_def m_def
  proof (induction n)
    case 0
    then show ?case
      using assms(1) by (simp add: run_steps_def twins_def lines_low_def arch_eq_def)
  next
    case (Suc n)
    then show ?case by (simp add: run_steps_def twins_step)
  qed
  then show ?thesis by (auto simp: twins_def)
qed

theorem programs_agree_witness:
  "arch_eq board_cells (run_steps bare_hooks 5 (on_legacy (machine_with 0x69)))
      (run_steps bare_hooks 5 (on_microseq (machine_with 0x69))) \<and>
    (halted (cpu (run_steps bare_hooks 5 (on_legacy (machine_with 0x69)))) \<or>
      cycles (cpu (run_steps bare_hooks 5 (on_legacy (machine_with 0x69)))) =
      cycles (cpu (run_steps bare_hooks 5 (on_microseq (machine_with 0x69)))))"
  by (rule programs_agree) (simp add: lines_low_def machine_with_def lone_board_def cpu_init_def)

text \<open>
  A JAM opcode halts both engines in the same state, but the historical engine charges
  the two cycles of the opcode table and the sequencer only the opcode fetch.
\<close>

theorem jam_cycles_differ:
  assumes "quiescent s" "mem_value (mem (board s)) (cpu_PC (cpu s)) \<in> set ms_jams"
  defines "l \<equiv> cpu_step bare_hooks (on_legacy s)" and "m \<equiv> cpu_step bare_hooks (on_microseq s)"
  shows "arch_eq board_cells (snd l) (snd m) \<and> halted (cpu (snd m)) \<and>
    cycles (cpu (snd l)) = cycles (cpu s) + 2 \<and> cycles (cpu (snd m)) = cycles (cpu s) + 1"
proof -
  have "\<not> halted (cpu s)" using assms(1) by (simp add: quiescent_def)
  then show ?thesis
    using bare.jam_differs [of "on_legacy s" "on_microseq s"] assms same_time_engines [of board_cells s]
    by (simp add: cpu_step_engines board_cells_def)
qed

theorem jam_cycles_differ_witness:
  "arch_eq board_cells (snd (cpu_step bare_hooks (on_legacy (machine_with 0x02))))
      (snd (cpu_step bare_hooks (on_microseq (machine_with 0x02)))) \<and>
    halted (cpu (snd (cpu_step bare_hooks (on_microseq (machine_with 0x02))))) \<and>
    cycles (cpu (snd (cpu_step bare_hooks (on_legacy (machine_with 0x02))))) = cycles (cpu (machine_with 0x02)) + 2 \<and>
    cycles (cpu (snd (cpu_step bare_hooks (on_microseq (machine_with 0x02))))) = cycles (cpu (machine_with 0x02)) + 1"
  by (rule jam_cycles_differ [OF machine_with_quiescent])
    (simp only: machine_with_opcode ms_jams_def list.set insert_iff u8_literal_eq simp_thms)

section \<open>Cycles\<close>

text \<open>
  C3: with any peripherals on the bus, one call of \<open>cpu_cycle\<close> on a running CPU advances the
  clock by one cycle and makes exactly one bus access, unless it is the second cycle of a JAM.
\<close>

theorem cycle_is_one_access:
  assumes "ms_wf (cpu s)" "\<not> halted (cpu s)"
    "\<not> (ms_active (cpu s) \<and> M_JAM \<in> set (ms_plan (cpu s)))"
  shows "cycles (cpu (snd (cpu_cycle hk s))) = cycles (cpu s) + 1 \<and>
    (\<exists>addr v wr. bus_log (snd (cpu_cycle hk s)) = (addr, v, wr) # bus_log s)"
  using cpu_cycle_one_access [OF assms, of hk]
  by (cases "bus_log (snd (cpu_cycle hk s))") (auto simp: one_access_def)

theorem cycle_is_one_access_witness:
  "cycles (cpu (snd (cpu_cycle bare_hooks (machine_with 0x69)))) = cycles (cpu (machine_with 0x69)) + 1 \<and>
    (\<exists>addr v wr. bus_log (snd (cpu_cycle bare_hooks (machine_with 0x69))) =
       (addr, v, wr) # bus_log (machine_with 0x69))"
  by (rule cycle_is_one_access) (simp_all add: machine_with_def ms_wf_def cpu_init_def)

text \<open>
  The loop of \<open>cpu_step\<close> over the sequencer ends, with any peripherals: from rest an
  instruction takes between one and eight cycles and leaves the sequencer at rest or halted,
  in a well-formed state.
\<close>

theorem instruction_ends:
  fixes hk :: "'d hooks"
  assumes "\<not> halted (cpu s)" "\<not> ms_active (cpu s)" "ms_enabled (cpu s)"
  defines "r \<equiv> cpu_step hk s"
  shows "1 \<le> fst r \<and> fst r \<le> 8 \<and> cycles (cpu (snd r)) = cycles (cpu s) + fst r \<and>
    \<not> (ms_active (cpu (snd r)) \<and> \<not> halted (cpu (snd r))) \<and> ms_wf (cpu (snd r))"
proof -
  have wf: "ms_wf (cpu s)" using assms(2) by (simp add: ms_wf_def)
  have "cycles (cpu s) < cycles (cpu (ms_instruction hk s))"
    by (rule ms_instruction_progress [OF assms(1,2)])
  moreover have "cycles (cpu (ms_instruction hk s)) \<le> cycles (cpu s) + 8"
    using ms_instruction_cycles_le [OF wf, of hk] assms(1,2) by (simp add: ms_left_def)
  ultimately show ?thesis
    using assms(1,3) ms_instruction_rest [OF assms(1), of hk] ms_instruction_wf [OF wf, of hk]
    by (auto simp: r_def cpu_step_def Let_def)
qed

theorem instruction_ends_witness:
  "1 \<le> fst (cpu_step bare_hooks (machine_with 0x69)) \<and> fst (cpu_step bare_hooks (machine_with 0x69)) \<le> 8 \<and>
    cycles (cpu (snd (cpu_step bare_hooks (machine_with 0x69)))) =
      cycles (cpu (machine_with 0x69)) + fst (cpu_step bare_hooks (machine_with 0x69)) \<and>
    \<not> (ms_active (cpu (snd (cpu_step bare_hooks (machine_with 0x69)))) \<and>
      \<not> halted (cpu (snd (cpu_step bare_hooks (machine_with 0x69))))) \<and>
    ms_wf (cpu (snd (cpu_step bare_hooks (machine_with 0x69))))"
  by (rule instruction_ends) (simp_all add: machine_with_def cpu_init_def)

text \<open>
  The states of a machine: the CPU after \<open>cpu_init\<close>, then any sequence of cycles, resets,
  changes of engine, and changes of the board by the peripherals.
\<close>

inductive ms_reach :: "'d hooks \<Rightarrow> 'd machine \<Rightarrow> bool" for hk where
  reach_init: "ms_reach hk \<lparr>cpu = cpu_init, board = b, bus_log = []\<rparr>"
| reach_cycle: "ms_reach hk s \<Longrightarrow> ms_reach hk (snd (cpu_cycle hk s))"
| reach_reset: "ms_reach hk s \<Longrightarrow> ms_reach hk (cpu_reset hk s)"
| reach_engine: "ms_reach hk s \<Longrightarrow> ms_reach hk (upd_cpu (cpu_set_microseq e) s)"
| reach_board: "ms_reach hk s \<Longrightarrow> ms_reach hk (s\<lparr>board := b\<rparr>)"

lemma reset_idle: "\<not> ms_active (cpu (cpu_reset hk s))"
  by (simp add: cpu_reset_def case_prod_beta Let_def)

text \<open>
  C4: in every reachable state, whatever the peripherals do between the cycles, an active
  sequencer has a live plan of at most seven micro-operations, the next one inside it, no
  end marker in it, a last one that is never a skippable fix-up, and a JAM only alone.
\<close>

theorem sequencer_invariant_holds:
  assumes "ms_reach hk s"
  shows "ms_wf (cpu s)"
  using assms
  by induction (simp_all add: cpu_cycle_wf, simp_all add: ms_wf_def cpu_init_def reset_idle)

theorem sequencer_invariant_holds_witness:
  "ms_wf (cpu (snd (cpu_cycle bare_hooks \<lparr>cpu = cpu_init, board = lone_board memory_init, bus_log = []\<rparr>)))"
  by (rule sequencer_invariant_holds [OF reach_cycle [OF reach_init]])

text \<open>
  C5: \<open>cpu_execute_cycles\<close> returns on both engines with any peripherals, having executed at
  least the cycles asked for unless the CPU halted.
\<close>

theorem cpu_execute_cycles_returns:
  assumes "\<not> ms_active (cpu s)"
  shows "\<exists>k s'. cpu_execute_cycles hk n s = Some (k, s') \<and> (n \<le> k \<or> halted (cpu s'))"
  using execute_from_returns [of s hk n 0] assms by (simp add: cpu_execute_cycles_def)

theorem cpu_execute_cycles_returns_witness:
  "\<exists>k s'. cpu_execute_cycles bare_hooks 1000 (machine_with 0x69) = Some (k, s') \<and>
     (1000 \<le> k \<or> halted (cpu s'))"
  by (rule cpu_execute_cycles_returns) (simp add: machine_with_def cpu_init_def)

section \<open>The IRQ trace of the sequencer\<close>

lemma brk_only: "ms_cls op = C_BRK \<Longrightarrow> op = 0"
proof -
  assume c: "ms_cls op = C_BRK"
  consider m f where "(op, m, f) \<in> set read_ops" | m g where "(op, m, g) \<in> set write_ops"
    | m w where "(op, m, w) \<in> set rmw_ops" | f where "(op, f) \<in> set implied_ops"
    | "op \<in> set unstable_ops" | "op \<in> set other_ops" | "op \<in> set ms_branches" | "op \<in> set ms_jams"
    using opcode_listed [of op] by (auto simp: listed_ops_def)
  then show ?thesis
    using c read_entries write_entries rmw_entries implied_entries unstable_entries other_entries
      branch_entries jam_entries
    by cases (auto simp: list_all_iff unstable_ops_def other_ops_def)
qed

definition trace_silent :: "nat \<Rightarrow> 'd machine \<Rightarrow> bool" where
  "trace_silent n s \<longleftrightarrow> irq_trace_count (cpu s) = n \<and>
     (ms_active (cpu s) \<longrightarrow> M_VEC_HI \<in> set (ms_plan (cpu s)) \<longrightarrow> ms_opcode (cpu s) = 0)"

lemma vec_plan: "M_VEC_HI \<in> set (class_plan cls mode) \<Longrightarrow> cls = C_BRK"
  by (cases cls; cases mode; simp add: plan_adds_eq)

lemma trace_count_kept [simp]:
  "irq_trace_count (cpu_set_flag flag b c) = irq_trace_count c" "irq_trace_count (set_A_nz v c) = irq_trace_count c"
  "irq_trace_count (set_P_pulled v c) = irq_trace_count c"
  "irq_trace_count (ms_alu_read op v c) = irq_trace_count c"
  "irq_trace_count (ms_implied op c) = irq_trace_count c"
  "irq_trace_count (snd (cpu_rmw_apply rmw v c)) = irq_trace_count c"
  "irq_trace_count (ms_apply_index c) = irq_trace_count c"
  "irq_trace_count (ms_branch_step c) = irq_trace_count c"
  by (simp_all add: reg_fun_keeps reg_funs reg_fun_keeps [of "\<lambda>c. snd (cpu_rmw_apply rmw v c)"]
      ms_apply_index_def ms_branch_step_def Let_def)

lemma exec_trace_count:
  "m = M_VEC_HI \<longrightarrow> ms_opcode (cpu s) = 0 \<Longrightarrow>
     irq_trace_count (cpu (snd (ms_exec hk m s))) = irq_trace_count (cpu s)"
  by (cases m) (simp_all add: case_prod_beta Let_def ms_write_unstable_def)

lemma current_mop_live: "current_mop c \<noteq> M_END \<Longrightarrow> current_mop c \<in> set (ms_plan c)"
  by (auto simp: current_mop_def split: if_splits)

interpretation seq_trace: sequencer_invariant hk "trace_silent n"
proof unfold_locales
  fix s :: "'a machine" and early
  show "trace_silent n (ms_first_cycle hk s)" if "trace_silent n s"
    using that brk_only vec_plan
    by (auto simp: trace_silent_def ms_first_cycle_def case_prod_beta Let_def)
  show "trace_silent n (upd_cpu (\<lambda>c. c\<lparr>ms_pc := ms_pc c + 1\<rparr>) s)" if "trace_silent n s"
    using that by (simp add: trace_silent_def)
  show "trace_silent n (snd (ms_exec hk (current_mop (cpu s)) s))"
    if that: "trace_silent n s" "ms_active (cpu s)"
  proof -
    have "current_mop (cpu s) = M_VEC_HI \<longrightarrow> ms_opcode (cpu s) = 0"
      using that current_mop_live [of "cpu s"] by (auto simp: trace_silent_def)
    from exec_trace_count [OF this] that show ?thesis
      unfolding trace_silent_def ms_exec_keeps by blast
  qed
  show "trace_silent n (snd (ms_finish early s))" if "trace_silent n s"
    using that by (simp add: trace_silent_def ms_finish_def Let_def)
qed

text \<open>
  The sequencer never writes an \<open>IRQ-ENTRY\<close> line: from rest, an instruction or interrupt
  sequence leaves the count of traced interrupts as it was, traced or not, because the guard
  of the trace is false on every sequence that reaches it.
\<close>

theorem microseq_never_traces_irq:
  assumes "\<not> ms_active (cpu s)"
  shows "irq_trace_count (cpu (ms_instruction hk s)) = irq_trace_count (cpu s)"
proof -
  have "trace_silent (irq_trace_count (cpu s)) s" using assms by (simp add: trace_silent_def)
  from seq_trace.keep_instruction [OF this] show ?thesis by (simp add: trace_silent_def)
qed

theorem microseq_never_traces_irq_witness:
  "irq_trace_count (cpu (ms_instruction bare_hooks (machine_with_irq\<lparr>cpu := (cpu machine_with_irq)\<lparr>irq_trace_fp := True\<rparr>\<rparr>))) = 0"
  using microseq_never_traces_irq [of "machine_with_irq\<lparr>cpu := (cpu machine_with_irq)\<lparr>irq_trace_fp := True\<rparr>\<rparr>" bare_hooks]
  by (simp add: machine_with_irq_def machine_with_def cpu_init_def Let_def)

text \<open>
  The historical engine counts one: the same interrupt, traced, on the legacy path.
\<close>

lemma legacy_traces_irq:
  "irq_trace_count (cpu (snd (cpu_step_legacy hk (machine_with_irq\<lparr>cpu := (cpu machine_with_irq)\<lparr>irq_trace_fp := True\<rparr>\<rparr>)))) = 1"
  by (simp add: cpu_step_legacy_def machine_with_irq_def machine_with_def cpu_init_def Let_def
      irq_asserted_def cpu_irq_set_def lone_board_def cpu_get_flag_def handle_irq_def case_prod_beta
      cpu_push_word_def cpu_push_eq cpu_irq_trace_entry_def pad_to_def cpu_set_flag_alt)

end
