(* ===== verification/Via6522.thy ===== *)
theory Via6522
  imports Prelude
begin

unbundle bit_operations_syntax

text \<open>
  The MOS 6522 VIA (\<open>include/io/via6522.h\<close>, \<open>src/io/via6522.c\<close>): ports, timers, shift register,
  control lines and the interrupt output.  The record has the fields of the C structure but for
  its function pointers, which are the hooks below.  A port callback works on the whole state
  (in the emulator its user data is the machine that contains the chip: the PSG decode writes
  \<open>ira\<close>); the IRQ callback only reaches the world outside the chip.
\<close>

section \<open>State\<close>

abbreviation VIA_INT_CA2 :: u8 where "VIA_INT_CA2 \<equiv> 0x01"
abbreviation VIA_INT_CA1 :: u8 where "VIA_INT_CA1 \<equiv> 0x02"
abbreviation VIA_INT_SR :: u8 where "VIA_INT_SR \<equiv> 0x04"
abbreviation VIA_INT_CB2 :: u8 where "VIA_INT_CB2 \<equiv> 0x08"
abbreviation VIA_INT_CB1 :: u8 where "VIA_INT_CB1 \<equiv> 0x10"
abbreviation VIA_INT_T2 :: u8 where "VIA_INT_T2 \<equiv> 0x20"
abbreviation VIA_INT_T1 :: u8 where "VIA_INT_T1 \<equiv> 0x40"
abbreviation VIA_INT_ANY :: u8 where "VIA_INT_ANY \<equiv> 0x80"
abbreviation VIA_IER_MASK :: u8 where "VIA_IER_MASK \<equiv> 0x7F"

record via6522_t =
  ora :: u8
  orb :: u8
  ira :: u8
  irb :: u8
  ddra :: u8
  ddrb :: u8
  t1_counter :: u16
  t1_latch :: u16
  t2_counter :: u16
  t2_latch :: u8
  t1_running :: bool
  t2_running :: bool
  t1_active :: bool
  t2_active :: bool
  t2_phi2 :: bool
  via_quiet_left :: u16
  via_pending :: u16
  sr_t2_pending :: u8
  sr_delay :: u8
  t2_reload :: bool
  t2_hold :: bool
  t1_reload :: bool
  sr :: u8
  sr_count :: u8
  acr :: u8
  pcr :: u8
  ifr :: u8
  ier :: u8
  cb1_pin :: bool
  cb2_pin :: bool
  cb2_in :: bool
  ca2_pin :: bool
  ca2_in :: bool
  ca1_pin :: bool
  sr_active :: bool
  sr_clk_acc :: u32
  pb6_pin :: bool
  pb7_pin :: bool
  ca2_pulse :: int
  cb2_pulse :: int
  pa_latch :: u8
  pb_latch :: u8
  pa_latched :: bool
  pb_latched :: bool
  irq_line :: bool

record 'u via_state =
  via :: via6522_t
  user :: 'u

record 'u via_hooks =
  porta_read :: "('u via_state \<Rightarrow> u8 \<times> 'u via_state) option"
  porta_write :: "(u8 \<Rightarrow> 'u via_state \<Rightarrow> 'u via_state) option"
  portb_read :: "('u via_state \<Rightarrow> u8 \<times> 'u via_state) option"
  portb_write :: "(u8 \<Rightarrow> 'u via_state \<Rightarrow> 'u via_state) option"
  irq_callback :: "(bool \<Rightarrow> 'u \<Rightarrow> 'u) option"

definition upd_via :: "(via6522_t \<Rightarrow> via6522_t) \<Rightarrow> 'u via_state \<Rightarrow> 'u via_state" where
  "upd_via f s = s\<lparr>via := f (via s)\<rparr>"

section \<open>Interrupt output\<close>

definition irq_wanted :: "via6522_t \<Rightarrow> bool" where
  "irq_wanted v \<longleftrightarrow> ifr v AND ier v AND VIA_IER_MASK \<noteq> 0"

definition via_check_irq :: "'u via_hooks \<Rightarrow> 'u via_state \<Rightarrow> 'u via_state" where
  "via_check_irq hk s =
     (let want = irq_wanted (via s);
          s1 = upd_via (\<lambda>v. v\<lparr>ifr := (if want then ifr v OR VIA_INT_ANY
                                      else ifr v AND NOT VIA_INT_ANY)\<rparr>) s
      in if want \<noteq> irq_line (via s1) then
           (case irq_callback hk of
              Some cb \<Rightarrow> s1\<lparr>via := (via s1)\<lparr>irq_line := want\<rparr>, user := cb want (user s1)\<rparr>
            | None \<Rightarrow> s1\<lparr>via := (via s1)\<lparr>irq_line := want\<rparr>\<rparr>)
         else s1)"

text \<open>\<open>via->ifr |= m; via_check_irq(via)\<close> and \<open>via->ifr &= ~m; via_check_irq(via)\<close>.\<close>

definition via_raise :: "'u via_hooks \<Rightarrow> u8 \<Rightarrow> 'u via_state \<Rightarrow> 'u via_state" where
  "via_raise hk m s = via_check_irq hk (upd_via (\<lambda>v. v\<lparr>ifr := ifr v OR m\<rparr>) s)"

definition via_clear :: "'u via_hooks \<Rightarrow> u8 \<Rightarrow> 'u via_state \<Rightarrow> 'u via_state" where
  "via_clear hk m s = via_check_irq hk (upd_via (\<lambda>v. v\<lparr>ifr := ifr v AND NOT m\<rparr>) s)"

section \<open>Shift register\<close>

text \<open>External clock: eight shifts, one per clock edge.\<close>

definition via_do_shift :: "'u via_hooks \<Rightarrow> 'u via_state \<Rightarrow> 'u via_state" where
  "via_do_shift hk s =
     (let mode = acr (via s) AND 0x1C;
          shift_out = (mode AND 0x10 \<noteq> 0);
          s1 = upd_via (\<lambda>v. if shift_out then
                 (let msb = (sr v AND 0x80 \<noteq> 0)
                  in v\<lparr>cb2_pin := msb, sr := push_bit 1 (sr v) OR (if msb then 1 else 0)\<rparr>)
               else v\<lparr>sr := push_bit 1 (sr v) OR (if cb2_in v then 1 else 0)\<rparr>) s;
          s2 = upd_via (\<lambda>v. v\<lparr>sr_count := sr_count v + 1\<rparr>) s1
      in if sr_count (via s2) \<ge> 8 then
           (let s3 = upd_via (\<lambda>v. v\<lparr>sr_count := 0\<rparr>) s2
            in if mode \<noteq> 0x10 then via_raise hk VIA_INT_SR (upd_via (\<lambda>v. v\<lparr>sr_active := False\<rparr>) s3)
               else s3)
         else s2)"

text \<open>Internal clock: sixteen half-periods.\<close>

definition via_sr_event :: "'u via_hooks \<Rightarrow> 'u via_state \<Rightarrow> 'u via_state" where
  "via_sr_event hk s =
     (let mode = acr (via s) AND 0x1C in
      if mode = 0 \<or> \<not> sr_active (via s) then s
      else
        let out = (mode AND 0x10 \<noteq> 0);
            s1 = upd_via (\<lambda>v. if sr_count v AND 1 = 0 then
                   (if out then (let msb = (sr v AND 0x80 \<noteq> 0)
                      in v\<lparr>cb2_pin := msb, sr := push_bit 1 (sr v) OR (if msb then 1 else 0)\<rparr>)
                    else v)
                 else if \<not> out then v\<lparr>sr := push_bit 1 (sr v) OR (if cb2_in v then 1 else 0)\<rparr>
                 else v) s;
            s2 = upd_via (\<lambda>v. v\<lparr>sr_count := sr_count v + 1\<rparr>) s1
        in if sr_count (via s2) \<ge> 16 then
             (let s3 = upd_via (\<lambda>v. v\<lparr>sr_count := 0\<rparr>) s2
              in if mode \<noteq> 0x10 then via_raise hk VIA_INT_SR (upd_via (\<lambda>v. v\<lparr>sr_active := False\<rparr>) s3)
                 else s3)
           else s2)"

definition via_sr_access :: "via6522_t \<Rightarrow> via6522_t" where
  "via_sr_access v =
     (let mode = acr v AND 0x1C in
      if mode = 0 then v
      else if mode = 0x10 then v\<lparr>sr_active := True, sr_count := sr_count v AND 0x0F\<rparr>
      else if \<not> sr_active v then
        (let v1 = v\<lparr>sr_active := True, sr_count := 0\<rparr>
         in if mode = 0x08 \<or> mode = 0x18 then v1\<lparr>sr_delay := 1\<rparr> else v1)
      else v)"

section \<open>Control lines and ports\<close>

definition via_ca2_port_access :: "via6522_t \<Rightarrow> via6522_t" where
  "via_ca2_port_access v =
     (let mode = pcr v AND 0x0E in
      if mode = 0x08 then v\<lparr>ca2_pin := False\<rparr>
      else if mode = 0x0A then v\<lparr>ca2_pin := False, ca2_pulse := 1\<rparr>
      else v)"

definition via_cb2_port_access :: "via6522_t \<Rightarrow> via6522_t" where
  "via_cb2_port_access v =
     (let mode = pcr v AND 0xE0 in
      if mode = 0x80 then v\<lparr>cb2_pin := False\<rparr>
      else if mode = 0xA0 then v\<lparr>cb2_pin := False, cb2_pulse := 1\<rparr>
      else v)"

definition via_pa_pins :: "'u via_hooks \<Rightarrow> 'u via_state \<Rightarrow> u8 \<times> 'u via_state" where
  "via_pa_pins hk s =
     (let (pins, s1) = (case porta_read hk of Some f \<Rightarrow> f s | None \<Rightarrow> (0xFF, s))
      in (ira (via s1) AND pins, s1))"

section \<open>The lazy path\<close>

definition via_t2_8bit :: "via6522_t \<Rightarrow> bool" where
  "via_t2_8bit v = (let m = acr v AND 0x1C in m = 0x04 \<or> m = 0x10 \<or> m = 0x14)"

text \<open>\<open>q\<close> is a \<open>uint32_t\<close> that never exceeds \<open>$FFFF\<close>: 16 bits here.\<close>

definition via_quiet :: "via6522_t \<Rightarrow> u16" where
  "via_quiet v =
     (let srm = acr v AND 0x1C in
      if ca2_pulse v > 0 \<or> cb2_pulse v > 0 then 0
      else if sr_t2_pending v \<noteq> 0 \<or> sr_delay v \<noteq> 0 then 0
      else if (srm = 0x08 \<or> srm = 0x18) \<and> sr_active v then 0
      else if t1_active v \<and> t1_reload v then 0
      else
        let q = (if t1_active v \<and> t1_counter v < 0xFFFF then t1_counter v else 0xFFFF) in
        if t2_hold v \<or> t2_phi2 v \<noteq> (acr v AND 0x20 = 0) then 0
        else if t2_active v \<and> t2_phi2 v then
          (if via_t2_8bit v then
             (if t2_reload v then 0
              else let lo = ucast (lo8 (t2_counter v)) in if lo < q then lo else q)
           else if t2_counter v < q then t2_counter v else q)
        else q)"

definition via_sync :: "via6522_t \<Rightarrow> via6522_t" where
  "via_sync v0 =
     (let n = via_pending v0; v = v0\<lparr>via_quiet_left := 0\<rparr> in
      if n = 0 then v
      else
        let v1 = v\<lparr>via_pending := 0\<rparr>;
            v2 = (if t1_active v1 then v1\<lparr>t1_counter := t1_counter v1 - n\<rparr> else v1)
        in if t2_active v2 \<and> t2_phi2 v2 then
             (if via_t2_8bit v2
              then v2\<lparr>t2_counter := (t2_counter v2 AND 0xFF00) OR ucast (lo8 (t2_counter v2 - n))\<rparr>
              else v2\<lparr>t2_counter := t2_counter v2 - n\<rparr>)
           else v2)"

section \<open>Initialisation\<close>

definition via_init :: via6522_t where
  "via_init = \<lparr>ora = 0, orb = 0, ira = 0, irb = 0, ddra = 0, ddrb = 0, t1_counter = 0,
     t1_latch = 0, t2_counter = 0, t2_latch = 0, t1_running = False, t2_running = False,
     t1_active = False, t2_active = False, t2_phi2 = False, via_quiet_left = 0, via_pending = 0,
     sr_t2_pending = 0, sr_delay = 0, t2_reload = False, t2_hold = False, t1_reload = False,
     sr = 0, sr_count = 0, acr = 0, pcr = 0, ifr = 0, ier = 0, cb1_pin = True, cb2_pin = False,
     cb2_in = False, ca2_pin = False, ca2_in = False, ca1_pin = True, sr_active = False,
     sr_clk_acc = 0, pb6_pin = False, pb7_pin = False, ca2_pulse = 0, cb2_pulse = 0,
     pa_latch = 0, pb_latch = 0, pa_latched = False, pb_latched = False, irq_line = False\<rparr>"

definition via_reset :: "via6522_t \<Rightarrow> via6522_t" where
  "via_reset v0 = (via_sync v0)\<lparr>ora := 0, orb := 0, ira := 0xFF, irb := 0xFF, ddra := 0,
     ddrb := 0, t1_counter := 0xFFFF, t1_latch := 0xFFFF, t2_counter := 0xFFFF, t2_latch := 0xFF,
     t1_running := False, t2_running := False, t1_active := False, t2_active := False, sr := 0,
     sr_count := 0, acr := 0, t2_phi2 := True, t2_hold := False, pcr := 0, ifr := 0, ier := 0,
     cb1_pin := True, ca1_pin := True, irq_line := False, cb2_pin := False, cb2_in := False,
     ca2_pin := False, ca2_in := False, ca2_pulse := 0, cb2_pulse := 0, pa_latched := False,
     pb_latched := False, sr_active := False, sr_clk_acc := 0, sr_delay := 0,
     sr_t2_pending := 0, pb6_pin := True, pb7_pin := True\<rparr>"

section \<open>Register access\<close>

text \<open>The flag of a control line stays set in the independent-interrupt modes of the PCR.\<close>

definition ca2_independent :: "via6522_t \<Rightarrow> bool" where
  "ca2_independent v = (let m = pcr v AND 0x0E in m = 0x02 \<or> m = 0x06)"

definition cb2_independent :: "via6522_t \<Rightarrow> bool" where
  "cb2_independent v = (let m = pcr v AND 0xE0 in m = 0x20 \<or> m = 0x60)"

definition via_clear_ca :: "'u via_hooks \<Rightarrow> 'u via_state \<Rightarrow> 'u via_state" where
  "via_clear_ca hk s = via_check_irq hk (upd_via (\<lambda>v.
     let v1 = v\<lparr>ifr := ifr v AND NOT VIA_INT_CA1\<rparr>
     in if ca2_independent v1 then v1 else v1\<lparr>ifr := ifr v1 AND NOT VIA_INT_CA2\<rparr>) s)"

definition via_clear_cb :: "'u via_hooks \<Rightarrow> 'u via_state \<Rightarrow> 'u via_state" where
  "via_clear_cb hk s = via_check_irq hk (upd_via (\<lambda>v.
     let v1 = v\<lparr>ifr := ifr v AND NOT VIA_INT_CB1\<rparr>
     in if cb2_independent v1 then v1 else v1\<lparr>ifr := ifr v1 AND NOT VIA_INT_CB2\<rparr>) s)"

definition pa_input :: "'u via_hooks \<Rightarrow> 'u via_state \<Rightarrow> u8 \<times> 'u via_state" where
  "pa_input hk s =
     (if acr (via s) AND 0x01 \<noteq> 0 \<and> pa_latched (via s) then (pa_latch (via s), s)
      else via_pa_pins hk s)"

definition pb_input :: "'u via_hooks \<Rightarrow> 'u via_state \<Rightarrow> u8 \<times> 'u via_state" where
  "pb_input hk s =
     (if acr (via s) AND 0x02 \<noteq> 0 \<and> pb_latched (via s) then (pb_latch (via s), s)
      else case portb_read hk of Some f \<Rightarrow> f s | None \<Rightarrow> (0xFF, s))"

definition pa_value :: "via6522_t \<Rightarrow> u8 \<Rightarrow> u8" where
  "pa_value v inp = (ora v AND ddra v) OR (inp AND NOT (ddra v))"

definition pb_value :: "via6522_t \<Rightarrow> u8 \<Rightarrow> u8" where
  "pb_value v inp =
     (let rb = (orb v AND ddrb v) OR (inp AND NOT (ddrb v))
      in if acr v AND 0x80 \<noteq> 0 then (if pb7_pin v then rb OR 0x80 else rb AND 0x7F) else rb)"

definition via_read :: "'u via_hooks \<Rightarrow> u8 \<Rightarrow> 'u via_state \<Rightarrow> u8 \<times> 'u via_state" where
  "via_read hk rg s0 =
     (let s = upd_via via_sync s0; r = rg AND 0x0F in
      if r = 0x00 then
        (let (inp, s1) = pb_input hk s; s2 = via_clear_cb hk s1 in (pb_value (via s2) inp, s2))
      else if r = 0x01 then
        (let (inp, s1) = pa_input hk s; s2 = upd_via via_ca2_port_access (via_clear_ca hk s1)
         in (pa_value (via s2) inp, s2))
      else if r = 0x02 then (ddrb (via s), s)
      else if r = 0x03 then (ddra (via s), s)
      else if r = 0x04 then
        (let s1 = via_clear hk VIA_INT_T1 s in (lo8 (t1_counter (via s1)), s1))
      else if r = 0x05 then (hi8 (t1_counter (via s)), s)
      else if r = 0x06 then (lo8 (t1_latch (via s)), s)
      else if r = 0x07 then (hi8 (t1_latch (via s)), s)
      else if r = 0x08 then
        (let s1 = via_clear hk VIA_INT_T2 s in (lo8 (t2_counter (via s1)), s1))
      else if r = 0x09 then (hi8 (t2_counter (via s)), s)
      else if r = 0x0A then
        (let s1 = upd_via via_sr_access (via_clear hk VIA_INT_SR s) in (sr (via s1), s1))
      else if r = 0x0B then (acr (via s), s)
      else if r = 0x0C then (pcr (via s), s)
      else if r = 0x0D then (ifr (via s), s)
      else if r = 0x0E then (ier (via s) OR VIA_INT_ANY, s)
      else (let (inp, s1) = pa_input hk s in (pa_value (via s1) inp, s1)))"

definition call_write :: "(u8 \<Rightarrow> 'u via_state \<Rightarrow> 'u via_state) option \<Rightarrow> u8 \<Rightarrow>
    'u via_state \<Rightarrow> 'u via_state" where
  "call_write cb x s = (case cb of Some f \<Rightarrow> f x s | None \<Rightarrow> s)"

definition via_write_t1ch :: "u8 \<Rightarrow> via6522_t \<Rightarrow> via6522_t" where
  "via_write_t1ch x v =
     (let l = hilo x (lo8 (t1_latch v))
      in v\<lparr>t1_latch := l, t1_counter := l, t1_running := True, t1_active := True,
           t1_reload := True, ifr := ifr v AND NOT VIA_INT_T1, pb7_pin := False\<rparr>)"

definition via_write_t2ch :: "u8 \<Rightarrow> via6522_t \<Rightarrow> via6522_t" where
  "via_write_t2ch x v =
     v\<lparr>t2_counter := hilo x (t2_latch v), t2_running := True, t2_active := True,
       t2_hold := True, t2_reload := False, ifr := ifr v AND NOT VIA_INT_T2\<rparr>"

definition via_write_acr :: "'u via_hooks \<Rightarrow> u8 \<Rightarrow> 'u via_state \<Rightarrow> 'u via_state" where
  "via_write_acr hk x s =
     (let old = acr (via s) AND 0x1C; mode = x AND 0x1C;
          s1 = (if acr (via s) AND 0x80 = 0 \<and> x AND 0x80 \<noteq> 0
                then upd_via (\<lambda>v. v\<lparr>pb7_pin := True\<rparr>) s else s);
          s2 = upd_via (\<lambda>v. v\<lparr>acr := x\<rparr>) s1;
          s3 = (if mode = 0x10 then upd_via (\<lambda>v. v\<lparr>sr_active := True\<rparr>) s2
                else if mode = 0 then via_clear hk VIA_INT_SR s2
                else s2)
      in if (mode = 0x08 \<or> mode = 0x18) \<and> old \<noteq> 0x08 \<and> old \<noteq> 0x18
         then upd_via (\<lambda>v. v\<lparr>sr_delay := 3\<rparr>) s3 else s3)"

definition via_write_ier :: "u8 \<Rightarrow> via6522_t \<Rightarrow> via6522_t" where
  "via_write_ier x v =
     (if x AND VIA_INT_ANY \<noteq> 0 then v\<lparr>ier := ier v OR (x AND VIA_IER_MASK)\<rparr>
      else v\<lparr>ier := ier v AND NOT (x AND VIA_IER_MASK)\<rparr>)"

definition via_write :: "'u via_hooks \<Rightarrow> u8 \<Rightarrow> u8 \<Rightarrow> 'u via_state \<Rightarrow> 'u via_state" where
  "via_write hk rg x s0 =
     (let s = upd_via via_sync s0; r = rg AND 0x0F in
      if r = 0x00 then
        call_write (portb_write hk) x
          (upd_via via_cb2_port_access (via_clear_cb hk (upd_via (\<lambda>v. v\<lparr>orb := x\<rparr>) s)))
      else if r = 0x01 then
        call_write (porta_write hk) x
          (upd_via via_ca2_port_access (via_clear_ca hk (upd_via (\<lambda>v. v\<lparr>ora := x\<rparr>) s)))
      else if r = 0x02 then upd_via (\<lambda>v. v\<lparr>ddrb := x\<rparr>) s
      else if r = 0x03 then upd_via (\<lambda>v. v\<lparr>ddra := x\<rparr>) s
      else if r = 0x04 \<or> r = 0x06 then
        upd_via (\<lambda>v. v\<lparr>t1_latch := (t1_latch v AND 0xFF00) OR ucast x\<rparr>) s
      else if r = 0x05 then via_check_irq hk (upd_via (via_write_t1ch x) s)
      else if r = 0x07 then
        via_clear hk VIA_INT_T1 (upd_via (\<lambda>v. v\<lparr>t1_latch := hilo x (lo8 (t1_latch v))\<rparr>) s)
      else if r = 0x08 then upd_via (\<lambda>v. v\<lparr>t2_latch := x\<rparr>) s
      else if r = 0x09 then via_check_irq hk (upd_via (via_write_t2ch x) s)
      else if r = 0x0A then
        upd_via via_sr_access (via_clear hk VIA_INT_SR (upd_via (\<lambda>v. v\<lparr>sr := x\<rparr>) s))
      else if r = 0x0B then via_write_acr hk x s
      else if r = 0x0C then upd_via (\<lambda>v. v\<lparr>pcr := x\<rparr>) s
      else if r = 0x0D then via_clear hk (x AND VIA_IER_MASK) s
      else if r = 0x0E then via_check_irq hk (upd_via (via_write_ier x) s)
      else call_write (porta_write hk) x (upd_via (\<lambda>v. v\<lparr>ora := x\<rparr>) s))"

section \<open>Timers\<close>

text \<open>The two pulse outputs, at the head of \<open>via_update\<close>.\<close>

definition via_pulses :: "int \<Rightarrow> via6522_t \<Rightarrow> via6522_t" where
  "via_pulses cycles v =
     (let v1 = (if ca2_pulse v > 0 then
                  (let p = ca2_pulse v - cycles
                   in if p \<le> 0 then v\<lparr>ca2_pulse := 0, ca2_pin := True\<rparr> else v\<lparr>ca2_pulse := p\<rparr>)
                else v)
      in if cb2_pulse v1 > 0 then
           (let p = cb2_pulse v1 - cycles
            in if p \<le> 0 then v1\<lparr>cb2_pulse := 0, cb2_pin := True\<rparr> else v1\<lparr>cb2_pulse := p\<rparr>)
         else v1)"

text \<open>The body of the Timer 1 loop.\<close>

definition via_t1_step :: "'u via_hooks \<Rightarrow> 'u via_state \<Rightarrow> 'u via_state" where
  "via_t1_step hk s =
     (let v = via s in
      if t1_reload v then upd_via (\<lambda>v. v\<lparr>t1_counter := t1_latch v, t1_reload := False\<rparr>) s
      else
        let underflow = (t1_counter v = 0);
            s1 = upd_via (\<lambda>v. v\<lparr>t1_counter := t1_counter v - 1\<rparr>) s
        in if \<not> underflow then s1
           else
             let s2 = upd_via (\<lambda>v. v\<lparr>t1_reload := True\<rparr>) s1
             in if \<not> t1_running (via s2) then s2
                else
                  let s3 = via_raise hk VIA_INT_T1 s2
                  in upd_via (\<lambda>v. let v1 = v\<lparr>pb7_pin := \<not> pb7_pin v\<rparr>
                       in if acr v1 AND 0x40 = 0 then v1\<lparr>t1_running := False\<rparr> else v1) s3)"

text \<open>The body of the Timer 2 loop, first the countdown on eight bits, then on sixteen.\<close>

definition via_t2_count8 :: "'u via_hooks \<Rightarrow> 'u via_state \<Rightarrow> 'u via_state" where
  "via_t2_count8 hk s =
     (if t2_reload (via s) then
        upd_via (\<lambda>v. v\<lparr>t2_counter := (t2_counter v AND 0xFF00) OR ucast (t2_latch v),
                         t2_reload := False\<rparr>) s
      else
        let lo = lo8 (t2_counter (via s)); hi = hi8 (t2_counter (via s)) in
        if lo = 0 then
          (let s1 = (if hi = 0 \<and> t2_running (via s)
                     then upd_via (\<lambda>v. v\<lparr>t2_running := False\<rparr>) (via_raise hk VIA_INT_T2 s) else s)
           in upd_via (\<lambda>v. v\<lparr>t2_reload := True, sr_t2_pending := 2,
                             t2_counter := hilo (hi - 1) (lo - 1)\<rparr>) s1)
        else upd_via (\<lambda>v. v\<lparr>t2_counter := hilo hi (lo - 1)\<rparr>) s)"

definition via_t2_count16 :: "'u via_hooks \<Rightarrow> 'u via_state \<Rightarrow> 'u via_state" where
  "via_t2_count16 hk s =
     (let underflow = (t2_counter (via s) = 0);
          s1 = upd_via (\<lambda>v. v\<lparr>t2_counter := t2_counter v - 1\<rparr>) s
      in if \<not> underflow then s1
         else if \<not> t2_running (via s1) then s1
         else upd_via (\<lambda>v. v\<lparr>t2_running := False\<rparr>) (via_raise hk VIA_INT_T2 s1))"

definition via_t2_shift :: "'u via_hooks \<Rightarrow> 'u via_state \<Rightarrow> 'u via_state" where
  "via_t2_shift hk s =
     (if sr_t2_pending (via s) \<noteq> 0 then
        (let s1 = upd_via (\<lambda>v. v\<lparr>sr_t2_pending := sr_t2_pending v - 1\<rparr>) s
         in if sr_t2_pending (via s1) = 0 then via_sr_event hk s1 else s1)
      else s)"

definition via_t2_step :: "'u via_hooks \<Rightarrow> 'u via_state \<Rightarrow> 'u via_state" where
  "via_t2_step hk s =
     (let s1 = via_t2_shift hk s;
          phi2 = t2_phi2 (via s1);
          hold = t2_hold (via s1);
          s2 = upd_via (\<lambda>v. v\<lparr>t2_phi2 := (acr v AND 0x20 = 0), t2_hold := False\<rparr>) s1
      in if \<not> t2_active (via s2) \<or> \<not> phi2 \<or> hold then s2
         else if via_t2_8bit (via s2) then via_t2_count8 hk s2
         else via_t2_count16 hk s2)"

text \<open>The body of the \<open>\<phi>2\<close> shift register loop.\<close>

definition sr_phi2 :: "via6522_t \<Rightarrow> bool" where
  "sr_phi2 v = (let m = acr v AND 0x1C in m = 0x08 \<or> m = 0x18)"

definition via_sr_step :: "'u via_hooks \<Rightarrow> 'u via_state \<Rightarrow> 'u via_state" where
  "via_sr_step hk s =
     (if sr_delay (via s) \<noteq> 0 then upd_via (\<lambda>v. v\<lparr>sr_delay := sr_delay v - 1\<rparr>) s
      else via_sr_event hk s)"

definition via_update :: "'u via_hooks \<Rightarrow> int \<Rightarrow> 'u via_state \<Rightarrow> 'u via_state" where
  "via_update hk cycles s0 =
     (let s1 = upd_via (via_pulses cycles) (upd_via via_sync s0);
          s2 = (if t1_active (via s1) then (via_t1_step hk ^^ nat cycles) s1 else s1);
          s3 = (via_t2_step hk ^^ nat cycles) s2;
          s4 = (if sr_phi2 (via s3) then (via_sr_step hk ^^ nat cycles) s3 else s3)
      in upd_via (\<lambda>v. v\<lparr>via_quiet_left := via_quiet v\<rparr>) s4)"

definition via_tick :: "'u via_hooks \<Rightarrow> 'u via_state \<Rightarrow> 'u via_state" where
  "via_tick hk s =
     (if via_quiet_left (via s) \<noteq> 0 then
        upd_via (\<lambda>v. v\<lparr>via_quiet_left := via_quiet_left v - 1, via_pending := via_pending v + 1\<rparr>) s
      else via_update hk 1 s)"

section \<open>Control inputs and outputs\<close>

definition via_set_port_callbacks ::
    "('u via_state \<Rightarrow> u8 \<times> 'u via_state) option \<Rightarrow> (u8 \<Rightarrow> 'u via_state \<Rightarrow> 'u via_state) option \<Rightarrow>
     ('u via_state \<Rightarrow> u8 \<times> 'u via_state) option \<Rightarrow> (u8 \<Rightarrow> 'u via_state \<Rightarrow> 'u via_state) option \<Rightarrow>
     'u via_hooks \<Rightarrow> 'u via_hooks" where
  "via_set_port_callbacks ra wa rb wb hk =
     hk\<lparr>porta_read := ra, porta_write := wa, portb_read := rb, portb_write := wb\<rparr>"

definition via_set_irq_callback :: "(bool \<Rightarrow> 'u \<Rightarrow> 'u) option \<Rightarrow> 'u via_hooks \<Rightarrow> 'u via_hooks" where
  "via_set_irq_callback cb hk = hk\<lparr>irq_callback := cb\<rparr>"

definition via_trigger_ca1 :: "'u via_hooks \<Rightarrow> 'u via_state \<Rightarrow> 'u via_state" where
  "via_trigger_ca1 hk s = via_raise hk VIA_INT_CA1 (upd_via via_sync s)"

definition active_edge :: "bool \<Rightarrow> bool \<Rightarrow> bool \<Rightarrow> bool" where
  "active_edge rising old new \<longleftrightarrow> (rising \<and> \<not> old \<and> new) \<or> (\<not> rising \<and> old \<and> \<not> new)"

definition via_set_ca1 :: "'u via_hooks \<Rightarrow> bool \<Rightarrow> 'u via_state \<Rightarrow> 'u via_state" where
  "via_set_ca1 hk level s0 =
     (let s = upd_via via_sync s0;
          old = ca1_pin (via s);
          s1 = upd_via (\<lambda>v. v\<lparr>ca1_pin := level\<rparr>) s
      in if old = level then s1
         else if \<not> active_edge (pcr (via s1) AND 0x01 \<noteq> 0) old level then s1
         else
           let s2 = upd_via (\<lambda>v. v\<lparr>ifr := ifr v OR VIA_INT_CA1\<rparr>) s1;
               s3 = (if acr (via s2) AND 0x01 \<noteq> 0 then
                       (let (x, t) = via_pa_pins hk s2
                        in upd_via (\<lambda>v. v\<lparr>pa_latch := x, pa_latched := True\<rparr>) t)
                     else s2);
               s4 = (if pcr (via s3) AND 0x0E = 0x08 then upd_via (\<lambda>v. v\<lparr>ca2_pin := True\<rparr>) s3
                     else s3)
           in via_check_irq hk s4)"

definition via_set_ca2_input :: "'u via_hooks \<Rightarrow> bool \<Rightarrow> 'u via_state \<Rightarrow> 'u via_state" where
  "via_set_ca2_input hk level s0 =
     (let s = upd_via via_sync s0;
          old = ca2_in (via s);
          s1 = upd_via (\<lambda>v. v\<lparr>ca2_in := level\<rparr>) s
      in if pcr (via s1) AND 0x08 \<noteq> 0 then s1
         else if old = level then s1
         else if active_edge (pcr (via s1) AND 0x04 \<noteq> 0) old level then via_raise hk VIA_INT_CA2 s1
         else s1)"

definition via_trigger_ca2 :: "'u via_hooks \<Rightarrow> 'u via_state \<Rightarrow> 'u via_state" where
  "via_trigger_ca2 hk s = via_raise hk VIA_INT_CA2 (upd_via via_sync s)"

definition via_set_cb1 :: "'u via_hooks \<Rightarrow> bool \<Rightarrow> 'u via_state \<Rightarrow> 'u via_state" where
  "via_set_cb1 hk level s0 =
     (let s = upd_via via_sync s0;
          old = cb1_pin (via s);
          s1 = upd_via (\<lambda>v. v\<lparr>cb1_pin := level\<rparr>) s
      in if old = level then s1
         else if \<not> active_edge (pcr (via s1) AND 0x10 \<noteq> 0) old level then s1
         else
           let s2 = upd_via (\<lambda>v. v\<lparr>ifr := ifr v OR VIA_INT_CB1\<rparr>) s1;
               s3 = (if acr (via s2) AND 0x02 \<noteq> 0 then
                       (let (x, t) = (case portb_read hk of Some f \<Rightarrow> f s2 | None \<Rightarrow> (0xFF, s2))
                        in upd_via (\<lambda>v. v\<lparr>pb_latch := x, pb_latched := True\<rparr>) t)
                     else s2);
               s4 = (if pcr (via s3) AND 0xE0 = 0x80 then upd_via (\<lambda>v. v\<lparr>cb2_pin := True\<rparr>) s3
                     else s3)
           in via_check_irq hk s4)"

definition via_trigger_cb1 :: "'u via_hooks \<Rightarrow> 'u via_state \<Rightarrow> 'u via_state" where
  "via_trigger_cb1 hk s = via_set_cb1 hk True (via_set_cb1 hk False (upd_via via_sync s))"

definition via_trigger_cb2 :: "'u via_hooks \<Rightarrow> 'u via_state \<Rightarrow> 'u via_state" where
  "via_trigger_cb2 hk s = via_raise hk VIA_INT_CB2 (upd_via via_sync s)"

definition via_shift_clock :: "'u via_hooks \<Rightarrow> 'u via_state \<Rightarrow> 'u via_state" where
  "via_shift_clock hk s0 =
     (let s = upd_via via_sync s0; mode = acr (via s) AND 0x1C in
      if mode \<noteq> 0x0C \<and> mode \<noteq> 0x1C then s
      else if \<not> sr_active (via s) then s
      else via_do_shift hk s)"

definition via_set_cb2_input :: "'u via_hooks \<Rightarrow> bool \<Rightarrow> 'u via_state \<Rightarrow> 'u via_state" where
  "via_set_cb2_input hk level s0 =
     (let s = upd_via via_sync s0;
          old = cb2_in (via s);
          s1 = upd_via (\<lambda>v. v\<lparr>cb2_in := level\<rparr>) s
      in if pcr (via s1) AND 0x80 \<noteq> 0 then s1
         else if old = level then s1
         else if active_edge (pcr (via s1) AND 0x40 \<noteq> 0) old level then via_raise hk VIA_INT_CB2 s1
         else s1)"

definition via_pb6_pulse :: "'u via_hooks \<Rightarrow> 'u via_state \<Rightarrow> 'u via_state" where
  "via_pb6_pulse hk s0 =
     (let s = upd_via via_sync s0 in
      if \<not> t2_active (via s) \<or> acr (via s) AND 0x20 = 0 then s
      else if t2_counter (via s) = 0 then
        (let s1 = upd_via (\<lambda>v. v\<lparr>t2_counter := 0xFFFF\<rparr>) s
         in if t2_running (via s1)
            then upd_via (\<lambda>v. v\<lparr>t2_running := False\<rparr>) (via_raise hk VIA_INT_T2 s1) else s1)
      else upd_via (\<lambda>v. v\<lparr>t2_counter := t2_counter v - 1\<rparr>) s)"

definition via_get_ca2 :: "via6522_t \<Rightarrow> bool" where
  "via_get_ca2 v =
     (let m = pcr v AND 0x0E in
      if m AND 0x08 = 0 then ca2_in v
      else if m = 0x0C then False
      else if m = 0x0E then True
      else ca2_pin v)"

definition via_get_cb2 :: "via6522_t \<Rightarrow> bool" where
  "via_get_cb2 v =
     (if acr v AND 0x10 \<noteq> 0 then cb2_pin v
      else let m = pcr v AND 0xE0 in
      if m AND 0x80 = 0 then cb2_in v
      else if m = 0xC0 then False
      else if m = 0xE0 then True
      else cb2_pin v)"

definition via_get_pb7 :: "via6522_t \<Rightarrow> bool" where
  "via_get_pb7 v =
     (if acr v AND 0x80 \<noteq> 0 then pb7_pin v
      else if ddrb v AND 0x80 \<noteq> 0 then orb v AND 0x80 \<noteq> 0
      else True)"

end
