(* ===== verification/Via_Rules.thy ===== *)
theory Via_Rules
  imports Via6522
begin

unbundle bit_operations_syntax

text \<open>
  Programs of chip accesses, and the discipline every operation of the VIA follows: apply the
  pending cycles, change registers, re-evaluate the interrupt output after a change of the
  flags.  The locale \<open>via_discipline\<close> turns three predicates that respect the discipline (\<open>P\<close>
  between operations, \<open>Q\<close> inside one with the interrupt output settled, \<open>R\<close> with it unsettled)
  into an invariant of every program; the lazy path and the interrupt output are instances.
\<close>

lemma upd_via_simps [via_simps]:
  "via (upd_via f s) = f (via s)"
  "user (upd_via f s) = user s"
  "upd_via f (upd_via g s) = upd_via (\<lambda>v. f (g v)) s"
  by (simp_all add: upd_via_def)

section \<open>Programs of accesses\<close>

text \<open>\<open>tick\<close> is what one cycle does: \<open>via_tick\<close>, or \<open>via_update\<close> with \<open>VIA_NO_LAZY\<close>.\<close>

datatype via_op = Op_tick | Op_read u8 | Op_write u8 u8 | Op_update int
  | Op_set_ca1 bool | Op_set_ca2 bool | Op_set_cb1 bool | Op_set_cb2 bool
  | Op_trigger_ca1 | Op_trigger_ca2 | Op_trigger_cb1 | Op_trigger_cb2
  | Op_shift_clock | Op_pb6_pulse | Op_reset | Op_lines

datatype via_out = No_out | Byte_out u8 | Lines_out bool bool bool

fun via_apply :: "('u via_state \<Rightarrow> 'u via_state) \<Rightarrow> 'u via_hooks \<Rightarrow> via_op \<Rightarrow> 'u via_state \<Rightarrow>
    via_out \<times> 'u via_state" where
  "via_apply tick hk Op_tick s = (No_out, tick s)"
| "via_apply tick hk (Op_read r) s = (let (x, t) = via_read hk r s in (Byte_out x, t))"
| "via_apply tick hk (Op_write r x) s = (No_out, via_write hk r x s)"
| "via_apply tick hk (Op_update n) s = (No_out, via_update hk n s)"
| "via_apply tick hk (Op_set_ca1 b) s = (No_out, via_set_ca1 hk b s)"
| "via_apply tick hk (Op_set_ca2 b) s = (No_out, via_set_ca2_input hk b s)"
| "via_apply tick hk (Op_set_cb1 b) s = (No_out, via_set_cb1 hk b s)"
| "via_apply tick hk (Op_set_cb2 b) s = (No_out, via_set_cb2_input hk b s)"
| "via_apply tick hk Op_trigger_ca1 s = (No_out, via_trigger_ca1 hk s)"
| "via_apply tick hk Op_trigger_ca2 s = (No_out, via_trigger_ca2 hk s)"
| "via_apply tick hk Op_trigger_cb1 s = (No_out, via_trigger_cb1 hk s)"
| "via_apply tick hk Op_trigger_cb2 s = (No_out, via_trigger_cb2 hk s)"
| "via_apply tick hk Op_shift_clock s = (No_out, via_shift_clock hk s)"
| "via_apply tick hk Op_pb6_pulse s = (No_out, via_pb6_pulse hk s)"
| "via_apply tick hk Op_reset s = (No_out, upd_via via_reset s)"
| "via_apply tick hk Op_lines s =
     (Lines_out (via_get_ca2 (via s)) (via_get_cb2 (via s)) (via_get_pb7 (via s)), s)"

fun via_run :: "('u via_state \<Rightarrow> 'u via_state) \<Rightarrow> 'u via_hooks \<Rightarrow> via_op list \<Rightarrow> 'u via_state \<Rightarrow>
    via_out list \<times> 'u via_state" where
  "via_run tick hk [] s = ([], s)"
| "via_run tick hk (p # ps) s =
     (let (o1, s1) = via_apply tick hk p s; (os, s2) = via_run tick hk ps s1 in (o1 # os, s2))"

section \<open>Stages of an operation\<close>

text \<open>Register changes that leave the interrupt fields alone, and those that may set flags.\<close>

definition plain :: "(via6522_t \<Rightarrow> via6522_t) \<Rightarrow> bool" where
  "plain f \<longleftrightarrow> (\<forall>v. via_quiet_left (f v) = via_quiet_left v \<and> via_pending (f v) = via_pending v \<and>
     irq_line (f v) = irq_line v \<and> ifr (f v) = ifr v \<and> ier (f v) = ier v)"

definition flagging :: "(via6522_t \<Rightarrow> via6522_t) \<Rightarrow> bool" where
  "flagging f \<longleftrightarrow> (\<forall>v. via_quiet_left (f v) = via_quiet_left v \<and> via_pending (f v) = via_pending v \<and>
     irq_line (f v) = irq_line v)"

lemma plain_flagging: "plain f \<Longrightarrow> flagging f"
  by (simp add: plain_def flagging_def)

lemma plain_ops [simp]: "plain via_sr_access" "plain via_ca2_port_access" "plain via_cb2_port_access"
    "plain (via_pulses n)"
  by (simp_all add: plain_def via_sr_access_def via_ca2_port_access_def via_cb2_port_access_def
      via_pulses_def Let_def)

lemma flagging_ops [simp]: "flagging (via_write_t1ch x)" "flagging (via_write_t2ch x)" "flagging (via_write_ier x)"
  by (simp_all add: flagging_def via_write_t1ch_def via_write_t2ch_def via_write_ier_def Let_def)

lemma snd_split: "(case p of (x, t) \<Rightarrow> g x t) = g (fst p) (snd p)"
  by (cases p) simp

text \<open>The three stages of an operation.\<close>

locale via_discipline =
  fixes hk :: "'u via_hooks" and P Q R :: "'u via_state \<Rightarrow> bool"
  assumes sync: "P s \<Longrightarrow> Q (upd_via via_sync s)"
    and settled: "Q s \<Longrightarrow> P s"
    and weaken: "Q s \<Longrightarrow> R s"
    and plain_Q: "Q s \<Longrightarrow> plain f \<Longrightarrow> Q (upd_via f s)"
    and flag_R: "R s \<Longrightarrow> flagging f \<Longrightarrow> R (upd_via f s)"
    and check: "R s \<Longrightarrow> Q (via_check_irq hk s)"
    and refresh: "Q s \<Longrightarrow> P (upd_via (\<lambda>v. v\<lparr>via_quiet_left := via_quiet v\<rparr>) s)"
    and count: "P s \<Longrightarrow> via_quiet_left (via s) \<noteq> 0 \<Longrightarrow>
      P (upd_via (\<lambda>v. v\<lparr>via_quiet_left := via_quiet_left v - 1, via_pending := via_pending v + 1\<rparr>) s)"
    and reads: "porta_read hk = Some h \<or> portb_read hk = Some h \<Longrightarrow>
      (Q s \<longrightarrow> Q (snd (h s))) \<and> (R s \<longrightarrow> R (snd (h s)))"
    and writes: "porta_write hk = Some g \<or> portb_write hk = Some g \<Longrightarrow> Q s \<Longrightarrow> Q (g x s)"
begin

lemma raise_Q: "Q s \<Longrightarrow> Q (via_raise hk m s)"
  unfolding via_raise_def by (intro check flag_R weaken) (simp_all add: flagging_def)

lemma clear_Q: "Q s \<Longrightarrow> Q (via_clear hk m s)"
  unfolding via_clear_def by (intro check flag_R weaken) (simp_all add: flagging_def)

lemma flag_check: "Q s \<Longrightarrow> flagging f \<Longrightarrow> Q (via_check_irq hk (upd_via f s))"
  by (intro check flag_R weaken)

lemma clear_ca_Q: "Q s \<Longrightarrow> Q (via_clear_ca hk s)"
  unfolding via_clear_ca_def by (intro flag_check) (simp_all add: flagging_def Let_def)

lemma clear_cb_Q: "Q s \<Longrightarrow> Q (via_clear_cb hk s)"
  unfolding via_clear_cb_def by (intro flag_check) (simp_all add: flagging_def Let_def)

lemma pa_pins: "Q s \<Longrightarrow> Q (snd (via_pa_pins hk s))" "R s \<Longrightarrow> R (snd (via_pa_pins hk s))"
  using reads by (auto simp: via_pa_pins_def Let_def split: option.splits prod.splits) (metis snd_conv)+

lemma pa_input_Q: "Q s \<Longrightarrow> Q (snd (pa_input hk s))"
  by (simp add: pa_input_def pa_pins)

lemma pb_input_Q: "Q s \<Longrightarrow> Q (snd (pb_input hk s))"
  using reads by (auto simp: pb_input_def split: option.splits)

lemma call_write_Q: "Q s \<Longrightarrow> Q (call_write (porta_write hk) x s)" "Q s \<Longrightarrow> Q (call_write (portb_write hk) x s)"
  using writes by (auto simp: call_write_def split: option.splits)

lemmas Q_intros = raise_Q clear_Q clear_ca_Q clear_cb_Q pa_input_Q pb_input_Q call_write_Q plain_Q flag_check

lemma read_Q: "Q (upd_via via_sync s) \<Longrightarrow> Q (snd (via_read hk r s))"
  using pa_input_Q [of "upd_via via_sync s"] pb_input_Q [of "upd_via via_sync s"]
  by (auto simp: via_read_def Let_def split: prod.splits intro!: Q_intros)

lemma write_acr_Q: "Q s \<Longrightarrow> Q (via_write_acr hk x s)"
  unfolding via_write_acr_def Let_def
  by (auto intro!: Q_intros simp: plain_def simp del: upd_via_simps)

lemma write_Q:
  assumes "Q (upd_via via_sync s)"
  shows "Q (via_write hk r x s)"
proof -
  note upd_via_simps [simp del]
  show ?thesis
    unfolding via_write_def Let_def using assms
    by (auto intro!: Q_intros write_acr_Q) (simp_all add: plain_def)
qed

lemma sr_event_Q: "Q s \<Longrightarrow> Q (via_sr_event hk s)"
  unfolding via_sr_event_def Let_def
  by (auto intro!: Q_intros simp: plain_def simp del: upd_via_simps)

lemma do_shift_Q: "Q s \<Longrightarrow> Q (via_do_shift hk s)"
  unfolding via_do_shift_def Let_def
  by (auto intro!: Q_intros simp: plain_def simp del: upd_via_simps)

lemma t1_step_Q: "Q s \<Longrightarrow> Q (via_t1_step hk s)"
  unfolding via_t1_step_def Let_def
  by (auto intro!: Q_intros simp: plain_def simp del: upd_via_simps)

lemma t2_shift_Q: "Q s \<Longrightarrow> Q (via_t2_shift hk s)"
  unfolding via_t2_shift_def Let_def
  by (auto intro!: Q_intros sr_event_Q simp: plain_def simp del: upd_via_simps)

lemma t2_count_Q: "Q s \<Longrightarrow> Q (via_t2_count8 hk s)" "Q s \<Longrightarrow> Q (via_t2_count16 hk s)"
  unfolding via_t2_count8_def via_t2_count16_def Let_def
  by (auto intro!: Q_intros simp: plain_def simp del: upd_via_simps)

lemma t2_step_Q: "Q s \<Longrightarrow> Q (via_t2_step hk s)"
  unfolding via_t2_step_def Let_def
  by (auto intro!: t2_count_Q Q_intros t2_shift_Q simp: plain_def simp del: upd_via_simps)

lemma sr_step_Q: "Q s \<Longrightarrow> Q (via_sr_step hk s)"
  unfolding via_sr_step_def
  by (auto intro!: Q_intros sr_event_Q simp: plain_def simp del: upd_via_simps)

lemma update_P:
  assumes "P s"
  shows "P (via_update hk n s)"
proof -
  have loop: "Q ((f ^^ k) t)" if "Q t" "\<And>t. Q t \<Longrightarrow> Q (f t)" for f k t
    using that by (rule funpow_invariant)
  show ?thesis
    unfolding via_update_def Let_def
    by (intro refresh) (auto intro!: loop t1_step_Q t2_step_Q sr_step_Q plain_Q sync assms simp del: upd_via_simps)
qed

lemma tick_P: "P s \<Longrightarrow> P (via_tick hk s)"
  by (simp add: via_tick_def update_P count)

lemma pb_pins_R: "R s \<Longrightarrow> R (snd (case portb_read hk of Some h \<Rightarrow> h s | None \<Rightarrow> (c, s)))"
  using reads by (auto split: option.splits)

lemma set_ca1_Q:
  assumes "Q (upd_via via_sync s)"
  shows "Q (via_set_ca1 hk b s)"
proof -
  have q: "Q (upd_via (ca1_pin_update (\<lambda>_. b)) (upd_via via_sync s))" for b
    using assms by (rule plain_Q) (simp add: plain_def)
  have r: "R (upd_via (\<lambda>v. v\<lparr>ifr := ifr v OR m\<rparr>) (upd_via (ca1_pin_update (\<lambda>_. b)) (upd_via via_sync s)))" for b m
    by (rule flag_R [OF weaken [OF q]]) (simp add: flagging_def)
  show ?thesis
    unfolding via_set_ca1_def Let_def snd_split
    by (auto intro!: check flag_R pa_pins(2) q r simp: flagging_def simp del: upd_via_simps)
qed

lemma set_cb1_Q:
  assumes "Q (upd_via via_sync s)"
  shows "Q (via_set_cb1 hk b s)"
proof -
  have q: "Q (upd_via (cb1_pin_update (\<lambda>_. b)) (upd_via via_sync s))" for b
    using assms by (rule plain_Q) (simp add: plain_def)
  have r: "R (upd_via (\<lambda>v. v\<lparr>ifr := ifr v OR m\<rparr>) (upd_via (cb1_pin_update (\<lambda>_. b)) (upd_via via_sync s)))" for b m
    by (rule flag_R [OF weaken [OF q]]) (simp add: flagging_def)
  show ?thesis
    unfolding via_set_cb1_def Let_def snd_split
    by (auto intro!: check flag_R pb_pins_R q r simp: flagging_def simp del: upd_via_simps)
qed

lemma set_c2_Q:
  assumes "Q (upd_via via_sync s)"
  shows "Q (via_set_ca2_input hk b s)" "Q (via_set_cb2_input hk b s)"
  unfolding via_set_ca2_input_def via_set_cb2_input_def Let_def using assms
  by (auto intro!: Q_intros simp: plain_def simp del: upd_via_simps)

lemma clocks_Q:
  assumes "Q (upd_via via_sync s)"
  shows "Q (via_shift_clock hk s)" "Q (via_pb6_pulse hk s)"
  unfolding via_shift_clock_def via_pb6_pulse_def Let_def using assms
  by (auto intro!: Q_intros do_shift_Q simp: plain_def simp del: upd_via_simps)

lemma trigger_Q:
  assumes "Q (upd_via via_sync s)"
  shows "Q (via_trigger_ca1 hk s)" "Q (via_trigger_ca2 hk s)" "Q (via_trigger_cb1 hk s)" "Q (via_trigger_cb2 hk s)"
  unfolding via_trigger_ca1_def via_trigger_ca2_def via_trigger_cb1_def via_trigger_cb2_def using assms
  by (auto intro!: raise_Q set_cb1_Q sync settled simp del: upd_via_simps)

lemma keep:
  assumes "P s" "p \<noteq> Op_reset" "\<And>s. P s \<Longrightarrow> P (tick s)"
  shows "P (snd (via_apply tick hk p s))"
proof -
  have Q: "Q (upd_via via_sync s)" using assms(1) by (rule sync)
  show ?thesis
    using assms
    by (cases p) (auto simp: snd_split Let_def intro!: update_P intro: settled read_Q [OF Q] write_Q [OF Q] set_ca1_Q [OF Q]
        set_cb1_Q [OF Q] set_c2_Q [OF Q] clocks_Q [OF Q] trigger_Q [OF Q])
qed

lemma keep_run:
  assumes "P s" "Op_reset \<notin> set ps" "\<And>s. P s \<Longrightarrow> P (tick s)"
  shows "P (snd (via_run tick hk ps s))"
  using assms
proof (induction ps arbitrary: s)
  case (Cons p ps)
  then have "P (snd (via_apply tick hk p s))" by (intro keep) auto
  with Cons show ?case by (simp add: snd_split Let_def)
qed simp

end

locale via_discipline_reset = via_discipline +
  assumes reset: "P s \<Longrightarrow> P (upd_via via_reset s)"
begin

lemma keep_all:
  assumes "P s" "\<And>s. P s \<Longrightarrow> P (tick s)"
  shows "P (snd (via_apply tick hk p s))"
  using keep [of s p tick] assms reset by (cases "p = Op_reset") auto

lemma keep_all_run:
  assumes "P s" "\<And>s. P s \<Longrightarrow> P (tick s)"
  shows "P (snd (via_run tick hk ps s))"
  using assms
proof (induction ps arbitrary: s)
  case (Cons p ps)
  then have "P (snd (via_apply tick hk p s))" by (intro keep_all) auto
  with Cons show ?case by (simp add: snd_split Let_def)
qed simp

end

definition hooks_keep :: "('u via_state \<Rightarrow> bool) \<Rightarrow> 'u via_hooks \<Rightarrow> bool" where
  "hooks_keep I hk \<longleftrightarrow>
     (\<forall>f s. porta_read hk = Some f \<or> portb_read hk = Some f \<longrightarrow> I s \<longrightarrow> I (snd (f s))) \<and>
     (\<forall>g s x. porta_write hk = Some g \<or> portb_write hk = Some g \<longrightarrow> I s \<longrightarrow> I (g x s))"

lemma not_80_literal [simp]: "(- 129 :: u8) = 0x7F"
  by simp

lemma check_irq_via:
  "via (via_check_irq hk s) = (via s)\<lparr>irq_line := irq_wanted (via s),
     ifr := (if irq_wanted (via s) then ifr (via s) OR VIA_INT_ANY else ifr (via s) AND NOT VIA_INT_ANY)\<rparr>"
  by (simp add: via_check_irq_def Let_def upd_via_def split: option.split)

unbundle bit_operations_syntax

text \<open>
  The interrupt output of the VIA: the \<open>/IRQ\<close> level, bit 7 of the IFR and the level seen by the
  receiver of the IRQ callback always agree with the flags and the enable register, in every
  program of accesses.
\<close>

definition irq_settled :: "via6522_t \<Rightarrow> bool" where
  "irq_settled v \<longleftrightarrow> irq_line v = irq_wanted v \<and> (ifr v AND VIA_INT_ANY \<noteq> 0) = irq_wanted v"

definition wired :: "('u \<Rightarrow> bool) \<Rightarrow> 'u via_state \<Rightarrow> bool" where
  "wired line s \<longleftrightarrow> line (user s) = irq_line (via s)"

lemma irq_wanted_or [simp]: "irq_wanted (v\<lparr>ifr := ifr v OR 0x80\<rparr>) = irq_wanted v"
proof -
  have "(x OR 0x80) AND y AND 0x7F = x AND y AND 0x7F" for x y :: u8
  proof -
    have "(0x80 :: u8) AND 0x7F = 0" by simp
    then have "0x80 AND (y AND 0x7F) = 0" by (metis and.left_commute and_zero_eq)
    then show ?thesis by (simp add: bit.conj_disj_distrib2 and.assoc)
  qed
  then show ?thesis by (simp add: irq_wanted_def)
qed

lemma irq_wanted_and [simp]: "irq_wanted (v\<lparr>ifr := ifr v AND 0x7F\<rparr>) = irq_wanted v"
proof -
  have "(x AND 0x7F) AND y AND 0x7F = x AND y AND 0x7F" for x y :: u8
    by (metis and.assoc and.commute and.idem)
  moreover have "ifr (v\<lparr>ifr := x\<rparr>) = x" "ier (v\<lparr>ifr := x\<rparr>) = ier v" for x by simp_all
  ultimately show ?thesis by (simp only: irq_wanted_def)
qed

lemma irq_wanted_line [simp]: "irq_wanted (v\<lparr>irq_line := b\<rparr>) = irq_wanted v"
  by (simp add: irq_wanted_def)

lemma check_settles: "irq_settled (via (via_check_irq hk s))"
proof -
  have a: "((x AND 0x7F) AND 0x80 :: u8) = 0" for x
  proof -
    have "(0x7F :: u8) AND 0x80 = 0" by simp
    then show ?thesis by (simp only: and.assoc and_zero_eq)
  qed
  have b: "((x OR 0x80) AND 0x80 :: u8) = 0x80" for x
    by (rule or_and_absorb)
  have w: "irq_wanted (v\<lparr>irq_line := b, ifr := x\<rparr>) = irq_wanted (v\<lparr>ifr := x\<rparr>)" for v b x
    by (simp add: irq_wanted_def)
  show ?thesis
    by (simp add: irq_settled_def check_irq_via a b w)
qed

lemma irq_settled_cong:
  "irq_line v = irq_line w \<Longrightarrow> ifr v = ifr w \<Longrightarrow> ier v = ier w \<Longrightarrow> irq_settled v = irq_settled w"
  by (simp add: irq_settled_def irq_wanted_def)

text \<open>A receiver that stores the level it is told.\<close>

locale irq_wire =
  fixes hk :: "'u via_hooks" and line :: "'u \<Rightarrow> bool" and cb :: "bool \<Rightarrow> 'u \<Rightarrow> 'u"
  assumes connected: "irq_callback hk = Some cb"
    and level: "line (cb b u) = b"
    and callbacks: "hooks_keep (wired line) hk"
    and callbacks_settled: "hooks_keep (\<lambda>s. irq_settled (via s)) hk"
begin

lemma check_wired: "wired line s \<Longrightarrow> wired line (via_check_irq hk s)"
  by (auto simp: wired_def via_check_irq_def Let_def upd_via_def connected level)

end

sublocale irq_wire \<subseteq> via_discipline hk
    "\<lambda>s. wired line s \<and> irq_settled (via s)" "\<lambda>s. wired line s \<and> irq_settled (via s)" "wired line"
proof (unfold_locales, goal_cases)
  case (6 s)
  then show ?case by (simp add: check_wired check_settles)
next
  case (9 h s)
  then show ?case using callbacks callbacks_settled by (auto simp: hooks_keep_def)
next
  case (10 g s x)
  then show ?case using callbacks callbacks_settled by (auto simp: hooks_keep_def)
qed (auto simp: wired_def upd_via_def plain_def flagging_def via_sync_def Let_def
    cong: irq_settled_cong elim!: irq_settled_cong [THEN iffD1, rotated -1])

context irq_wire
begin

lemma run_settled:
  assumes "wired line s" "irq_settled (via s)" "Op_reset \<notin> set ps"
  shows "wired line (snd (via_run (via_tick hk) hk ps s)) \<and> irq_settled (via (snd (via_run (via_tick hk) hk ps s)))"
  using assms tick_P by (intro keep_run) auto

end

end
