(* ===== verification/Via_Lazy.thy ===== *)
theory Via_Lazy
  imports Via_Rules
begin

unbundle bit_operations_syntax

text \<open>
  The lazy path of \<open>via_tick\<close>: \<open>via_quiet\<close> bounds the cycles in which \<open>via_update\<close> only counts
  down, \<open>via_tick\<close> skips them and \<open>via_sync\<close> applies them at the next access.  \<open>adv n\<close> is the
  effect of \<open>n\<close> skipped cycles, \<open>room\<close> the bound as a number; a full step inside the bound is
  \<open>adv 1\<close>, so that a program cannot tell the lazy chip from the one stepped at every cycle.
\<close>

definition adv :: "u16 \<Rightarrow> via6522_t \<Rightarrow> via6522_t" where
  "adv n v = via_sync (v\<lparr>via_pending := n\<rparr>)"

lemma via_sync_adv: "via_sync v = adv (via_pending v) v"
  by (simp add: adv_def)

lemma adv_pending [simp]: "via_pending (adv n v) = 0" "via_quiet_left (adv n v) = 0"
  by (simp_all add: adv_def via_sync_def Let_def)

lemma via_sync_idem [simp]: "via_sync (via_sync v) = via_sync v"
  by (cases v) (simp add: via_sync_def Let_def)

lemma mode_keep [simp]:
  "via_t2_8bit (v\<lparr>via_quiet_left := a\<rparr>) = via_t2_8bit v" "via_t2_8bit (v\<lparr>via_pending := b\<rparr>) = via_t2_8bit v"
  "sr_phi2 (v\<lparr>via_quiet_left := a\<rparr>) = sr_phi2 v" "sr_phi2 (v\<lparr>via_pending := b\<rparr>) = sr_phi2 v"
  "via_t2_8bit (v\<lparr>t1_counter := b\<rparr>) = via_t2_8bit v" "via_t2_8bit (v\<lparr>t2_counter := b\<rparr>) = via_t2_8bit v"
  "sr_phi2 (v\<lparr>t1_counter := b\<rparr>) = sr_phi2 v" "sr_phi2 (v\<lparr>t2_counter := b\<rparr>) = sr_phi2 v"
  by (simp_all add: via_t2_8bit_def sr_phi2_def)

definition via_still :: "via6522_t \<Rightarrow> bool" where
  "via_still v \<longleftrightarrow> \<not> ca2_pulse v > 0 \<and> \<not> cb2_pulse v > 0 \<and> sr_t2_pending v = 0 \<and> sr_delay v = 0 \<and>
     \<not> (sr_phi2 v \<and> sr_active v) \<and> \<not> (t1_active v \<and> t1_reload v) \<and> \<not> t2_hold v \<and>
     (t2_phi2 v \<longleftrightarrow> acr v AND 0x20 = 0) \<and> \<not> (t2_active v \<and> t2_phi2 v \<and> via_t2_8bit v \<and> t2_reload v)"

definition t1_room :: "via6522_t \<Rightarrow> u16" where
  "t1_room v = (if t1_active v then t1_counter v else 0xFFFF)"

definition t2_room :: "via6522_t \<Rightarrow> u16" where
  "t2_room v = (if t2_active v \<and> t2_phi2 v
     then (if via_t2_8bit v then ucast (lo8 (t2_counter v)) else t2_counter v) else 0xFFFF)"

lemma u16_max: "(x :: u16) \<le> 0xFFFF" "\<not> (0xFFFF :: u16) < x"
  using unsigned_less [of x, where ?'a = nat] by (auto simp: word_le_nat_alt word_less_nat_alt)

lemma via_quiet_min:
  "via_quiet v = (if via_still v then min (t1_room v) (t2_room v) else 0)"
proof -
  have *: "(if a < b then a else b) = min a b" for a b :: u16 by (auto simp: min_def)
  have r1: "(if t1_active v \<and> t1_counter v < 0xFFFF then t1_counter v else 0xFFFF) = t1_room v"
    using u16_max(1) [of "t1_counter v"] by (auto simp: t1_room_def)
  show ?thesis
    unfolding via_quiet_def Let_def r1 *
    by (simp add: via_still_def t2_room_def sr_phi2_def u16_max min.commute min.absorb1)
qed


lemma take_bit_8_of_16:
  "take_bit 8 (take_bit 16 a - take_bit 16 b) = take_bit 8 (a - b :: int)"
  "take_bit 8 (take_bit 16 a + take_bit 16 b) = take_bit 8 (a + b :: int)"
  using take_bit_diff [of 8 "take_bit 16 a" "take_bit 16 b"] take_bit_diff [of 8 a b]
    take_bit_add [of 8 "take_bit 16 a" "take_bit 16 b"] take_bit_add [of 8 a b]
  by simp_all

lemma lo8_sub: "lo8 (a - b) = lo8 a - lo8 b"
  unfolding lo8_def by transfer (simp add: take_bit_8_of_16)

lemma lo8_add: "lo8 (a + b) = lo8 a + lo8 b"
  unfolding lo8_def by transfer (simp add: take_bit_8_of_16)

lemma hi8_and: "x AND 0xFF00 = hilo (hi8 x) 0"
proof -
  have "x AND NOT (mask 8) = hilo (hi8 x) 0"
    by (rule bit_word_eqI) (auto simp: hilo_def hi8_def bit_simps)
  moreover have "(0xFF00 :: u16) = NOT (mask 8)" by (simp add: mask_eq_exp_minus_1)
  ultimately show ?thesis by simp
qed

lemma hilo_or: "hilo h 0 OR ucast l = hilo h l"
  by (simp add: hilo_def)

lemma lo8_0 [simp]: "lo8 0 = 0"
  by (simp add: lo8_def)

definition t2_after :: "u16 \<Rightarrow> via6522_t \<Rightarrow> u16" where
  "t2_after n v = (if t2_active v \<and> t2_phi2 v then
     (if via_t2_8bit v then hilo (hi8 (t2_counter v)) (lo8 (t2_counter v) - lo8 n) else t2_counter v - n)
     else t2_counter v)"

lemma adv_eq:
  "adv n v = v\<lparr>via_quiet_left := 0, via_pending := 0,
     t1_counter := (if t1_active v then t1_counter v - n else t1_counter v),
     t2_counter := t2_after n v\<rparr>"
proof (cases "n = 0")
  case True
  then show ?thesis by (simp add: adv_def via_sync_def Let_def t2_after_def)
next
  case False
  then show ?thesis by (simp add: adv_def via_sync_def Let_def t2_after_def via_t2_8bit_def lo8_sub hi8_and hilo_or)
qed

lemma adv_adv: "adv m (adv n v) = adv (n + m) v"
  by (simp add: adv_eq t2_after_def via_t2_8bit_def lo8_add algebra_simps)

lemma upd_via_id: "f (via s) = via s \<Longrightarrow> upd_via f s = s"
  by (simp add: upd_via_def)

lemma upd_via_cong: "f (via s) = g (via s) \<Longrightarrow> upd_via f s = upd_via g s"
  by (simp add: upd_via_def)

lemma still_pulses: "via_still v \<Longrightarrow> via_pulses 1 v = v"
  by (simp add: via_pulses_def via_still_def Let_def)

lemma still_t1:
  assumes "via_still (via s)" "1 \<le> t1_room (via s)"
  shows "(if t1_active (via s) then (via_t1_step hk ^^ nat 1) s else s) =
    upd_via (\<lambda>v. v\<lparr>t1_counter := (if t1_active v then t1_counter v - 1 else t1_counter v)\<rparr>) s"
proof (cases "t1_active (via s)")
  case True
  then have "t1_counter (via s) \<noteq> 0" "\<not> t1_reload (via s)"
    using assms by (auto simp: t1_room_def via_still_def)
  then show ?thesis using True by (simp add: via_t1_step_def Let_def upd_via_def)
qed (simp add: upd_via_def)

lemma still_t2:
  assumes "via_still (via s)" "1 \<le> t2_room (via s)"
  shows "via_t2_step hk s = upd_via (\<lambda>v. v\<lparr>t2_counter := t2_after 1 v\<rparr>) s"
proof -
  have a: "sr_t2_pending (via s) = 0" "\<not> t2_hold (via s)" "t2_phi2 (via s) \<longleftrightarrow> acr (via s) AND 0x20 = 0"
    using assms by (auto simp: via_still_def)
  have b: "upd_via (\<lambda>v. v\<lparr>t2_phi2 := (acr v AND 0x20 = 0), t2_hold := False\<rparr>) s = s"
    by (rule upd_via_id) (use a in simp)
  have c: "via_t2_step hk s = (if \<not> t2_active (via s) \<or> \<not> t2_phi2 (via s) then s
      else if via_t2_8bit (via s) then via_t2_count8 hk s else via_t2_count16 hk s)"
    unfolding via_t2_step_def via_t2_shift_def using a b by (simp add: Let_def)
  consider "\<not> (t2_active (via s) \<and> t2_phi2 (via s))"
    | "t2_active (via s)" "t2_phi2 (via s)" "via_t2_8bit (via s)"
    | "t2_active (via s)" "t2_phi2 (via s)" "\<not> via_t2_8bit (via s)" by blast
  then show ?thesis
  proof cases
    case 1
    then show ?thesis by (auto simp: c t2_after_def upd_via_def)
  next
    case 2
    then have "lo8 (t2_counter (via s)) \<noteq> 0" "\<not> t2_reload (via s)"
      using assms by (auto simp: t2_room_def via_still_def)
    moreover have "lo8 1 = 1" by (simp add: lo8_def)
    ultimately show ?thesis using 2
      by (simp add: c via_t2_count8_def t2_after_def upd_via_def Let_def)
  next
    case 3
    then have "t2_counter (via s) \<noteq> 0" using assms by (auto simp: t2_room_def)
    then show ?thesis using 3 by (simp add: c via_t2_count16_def t2_after_def upd_via_def Let_def)
  qed
qed

lemma still_sr:
  assumes "via_still (via s)"
  shows "(if sr_phi2 (via s) then (via_sr_step hk ^^ nat 1) s else s) = s"
  using assms by (auto simp: via_still_def via_sr_step_def via_sr_event_def Let_def)

lemma still_keep:
  "via_still (v\<lparr>t1_counter := a\<rparr>) = via_still v" "via_still (v\<lparr>t2_counter := a\<rparr>) = via_still v"
  "t2_room (v\<lparr>t1_counter := a\<rparr>) = t2_room v"
  by (simp_all add: via_still_def t2_room_def via_t2_8bit_def sr_phi2_def)

lemma still_update:
  fixes s :: "'u via_state"
  assumes "via_still (via_sync (via s))" "1 \<le> t1_room (via_sync (via s))" "1 \<le> t2_room (via_sync (via s))"
  shows "via_update hk 1 s = upd_via (\<lambda>v. let w = adv 1 (via_sync v) in w\<lparr>via_quiet_left := via_quiet w\<rparr>) s"
proof -
  define t where "t = upd_via via_sync s"
  have v: "via t = via_sync (via s)" by (simp add: t_def via_simps)
  define f where "f = (\<lambda>v :: via6522_t. v\<lparr>t1_counter := (if t1_active v then t1_counter v - 1 else t1_counter v)\<rparr>)"
  define g where "g = (\<lambda>v :: via6522_t. v\<lparr>t2_counter := t2_after 1 v\<rparr>)"
  have keep: "via_still (f w) = via_still w" "via_still (g w) = via_still w" "t2_room (f w) = t2_room w" for w
    by (simp_all add: f_def g_def still_keep)
  have p: "upd_via (via_pulses 1) t = t"
    by (rule upd_via_id) (use assms v in \<open>simp add: still_pulses\<close>)
  have 1: "(if t1_active (via t) then (via_t1_step hk ^^ nat 1) t else t) = upd_via f t"
    unfolding f_def by (rule still_t1) (use assms v in simp_all)
  have 2: "via_t2_step hk (upd_via f t) = upd_via g (upd_via f t)"
    unfolding g_def by (rule still_t2) (use assms v keep in \<open>simp_all add: via_simps\<close>)
  have 3: "(if sr_phi2 (via (upd_via g (upd_via f t))) then (via_sr_step hk ^^ nat 1) (upd_via g (upd_via f t))
      else upd_via g (upd_via f t)) = upd_via g (upd_via f t)"
    by (rule still_sr) (use assms v keep in \<open>simp_all add: via_simps\<close>)
  have one: "(h ^^ nat 1) x = h x" for h :: "'u via_state \<Rightarrow> 'u via_state" and x by simp
  have "via_update hk 1 s = upd_via (\<lambda>v. v\<lparr>via_quiet_left := via_quiet v\<rparr>) (upd_via g (upd_via f t))"
    unfolding via_update_def t_def [symmetric] Let_def p 1
    by (simp only: one [of "via_t2_step hk"] 2 3)
  also have "\<dots> = upd_via (\<lambda>v. let w = adv 1 (via_sync v) in w\<lparr>via_quiet_left := via_quiet w\<rparr>) s"
  proof -
    have "via_pending (via t) = 0" "via_quiet_left (via t) = 0" by (simp_all add: v via_sync_adv)
    then have "g (f (via t)) = adv 1 (via t)"
      by (simp add: f_def g_def adv_eq t2_after_def via_t2_8bit_def)
    then show ?thesis by (simp add: upd_via_def Let_def v t_def)
  qed
  finally show ?thesis .
qed

lemma via_still_adv: "via_still (adv n v) = via_still v"
  by (simp add: adv_eq still_keep) (simp add: via_still_def via_t2_8bit_def sr_phi2_def)

lemma unat_sub: "n \<le> x \<Longrightarrow> unat (x - n) = unat x - unat (n :: 'a :: len word)"
  by (simp add: unat_sub)

definition room :: "via6522_t \<Rightarrow> nat" where
  "room v = unat (via_quiet v)"

lemma room_eq: "room v = (if via_still v then min (unat (t1_room v)) (unat (t2_room v)) else 0)"
  by (simp add: room_def via_quiet_min min_def word_le_nat_alt)

lemma unat_t1_room_adv:
  "unat n \<le> unat (t1_room v) \<Longrightarrow> unat (t1_room v) - unat n \<le> unat (t1_room (adv n v))"
  by (auto simp: t1_room_def adv_eq unat_sub word_le_nat_alt [symmetric])

lemma unat_ucast_u8 [simp]: "unat (ucast (x :: u8) :: u16) = unat x"
  by (simp add: unsigned_ucast_eq take_bit_nat_eq_self order.strict_trans [OF unat_u8_less])

lemma unat_lo8_sub:
  "unat n \<le> unat (lo8 x) \<Longrightarrow> unat (lo8 x - lo8 n) = unat (lo8 x) - unat n"
proof -
  assume a: "unat n \<le> unat (lo8 x)"
  then have "unat n < 256" using unat_u8_less [of "lo8 x"] by linarith
  then have "unat (lo8 n) = unat n" by (simp add: lo8_def unsigned_ucast_eq take_bit_nat_eq_self)
  with a show ?thesis by (simp add: unat_sub word_le_nat_alt)
qed

lemma unat_t2_room_adv:
  "unat n \<le> unat (t2_room v) \<Longrightarrow> unat (t2_room v) - unat n \<le> unat (t2_room (adv n v))"
  by (auto simp: t2_room_def adv_eq t2_after_def via_t2_8bit_def unat_lo8_sub)
    (simp_all add: unat_sub word_le_nat_alt)

lemma room_adv: "unat n \<le> room v \<Longrightarrow> room v - unat n \<le> room (adv n v)"
  using unat_t1_room_adv [of n v] unat_t2_room_adv [of n v]
  by (auto simp: room_eq via_still_adv)

lemma room_update:
  assumes "0 < room (via_sync (via s))"
  shows "via_update hk 1 s = upd_via (\<lambda>v. let w = adv 1 (via_sync v) in w\<lparr>via_quiet_left := via_quiet w\<rparr>) s"
  using assms by (intro still_update) (auto simp: room_eq word_le_nat_alt split: if_splits)

definition lazy_ok :: "via6522_t \<Rightarrow> bool" where
  "lazy_ok v \<longleftrightarrow> unat (via_quiet_left v) + unat (via_pending v) \<le> room v"

lemma room_fields [simp]:
  "via_still (v\<lparr>via_quiet_left := a\<rparr>) = via_still v" "via_still (v\<lparr>via_pending := a\<rparr>) = via_still v"
  "t1_room (v\<lparr>via_quiet_left := a\<rparr>) = t1_room v" "t1_room (v\<lparr>via_pending := a\<rparr>) = t1_room v"
  "t2_room (v\<lparr>via_quiet_left := a\<rparr>) = t2_room v" "t2_room (v\<lparr>via_pending := a\<rparr>) = t2_room v"
  by (simp_all add: via_still_def t1_room_def t2_room_def)

lemma via_quiet_sync_fields [simp]:
  "via_quiet (v\<lparr>via_quiet_left := a\<rparr>) = via_quiet v"
  "via_quiet (v\<lparr>via_pending := a\<rparr>) = via_quiet v"
  by (simp_all add: via_quiet_min)

lemma lazy_ok_sync [simp]: "lazy_ok (via_sync v)"
  by (simp add: lazy_ok_def via_sync_adv)

lemma via_sync_update [simp]: "via_update hk n (upd_via via_sync s) = via_update hk n s"
  by (simp add: via_update_def via_simps)

lemma sync_quiet_field [simp]: "via_sync (v\<lparr>via_quiet_left := a\<rparr>) = via_sync v"
  by (simp add: via_sync_adv adv_eq t2_after_def via_t2_8bit_def)

lemma tick_sync:
  assumes "lazy_ok (via s)"
  shows "upd_via via_sync (via_tick hk s) = upd_via via_sync (via_update hk 1 s)"
proof (cases "via_quiet_left (via s) = 0")
  case False
  let ?v = "via s"
  have q: "0 < unat (via_quiet_left ?v)" using False by (simp add: unat_gt_0)
  have r: "0 < room (via_sync ?v)"
    using room_adv [of "via_pending ?v" ?v] assms q by (simp add: lazy_ok_def via_sync_adv)
  have "via_sync (adv 1 (via_sync ?v)) = adv (via_pending ?v + 1) ?v"
    by (simp add: via_sync_adv adv_adv)
  moreover have "via_sync (?v\<lparr>via_quiet_left := a, via_pending := via_pending ?v + 1\<rparr>) = adv (via_pending ?v + 1) ?v" for a
    by (simp add: via_sync_adv adv_eq t2_after_def via_t2_8bit_def)
  ultimately show ?thesis using False
    by (simp add: via_tick_def room_update [OF r] via_simps) (simp add: upd_via_def Let_def)
qed (simp add: via_tick_def)

abbreviation syn :: "'u via_state \<Rightarrow> 'u via_state" where "syn \<equiv> upd_via via_sync"

lemma syn_syn: "syn (syn s) = syn s"
  by (simp add: via_simps)

lemma lines_sync:
  "via_get_ca2 (via_sync v) = via_get_ca2 v" "via_get_cb2 (via_sync v) = via_get_cb2 v"
  "via_get_pb7 (via_sync v) = via_get_pb7 v"
  by (simp_all add: via_sync_adv adv_eq via_get_ca2_def via_get_cb2_def via_get_pb7_def)

lemma reset_sync: "via_reset (via_sync v) = via_reset v"
  by (simp add: via_reset_def)

text \<open>Every access applies the pending cycles first.\<close>

lemma access_syn:
  assumes "p \<noteq> Op_tick" "p \<noteq> Op_lines"
  shows "via_apply tick hk p s = via_apply tick hk p (syn s)"
  using assms
  by (cases p) (simp_all only: via_apply.simps via_op.distinct not_False_eq_True simp_thms via_read_def via_write_def
     via_set_ca1_def via_set_ca2_input_def via_set_cb1_def via_set_cb2_input_def via_trigger_ca1_def
     via_trigger_ca2_def via_trigger_cb1_def via_trigger_cb2_def via_shift_clock_def via_pb6_pulse_def
     via_sync_update syn_syn, simp add: via_simps reset_sync)

lemma apply_syn:
  assumes "lazy_ok (via s)" "syn s = syn s'"
  shows "fst (via_apply (via_tick hk) hk p s) = fst (via_apply (via_update hk 1) hk p s') \<and>
    syn (snd (via_apply (via_tick hk) hk p s)) = syn (snd (via_apply (via_update hk 1) hk p s'))"
proof -
  consider "p = Op_tick" | "p = Op_lines" | "p \<noteq> Op_tick" "p \<noteq> Op_lines" by blast
  then show ?thesis
  proof cases
    case 1
    have "via_update hk 1 s = via_update hk 1 s'"
      using assms(2) by (metis via_sync_update)
    then show ?thesis using tick_sync [OF assms(1)] 1 by simp
  next
    case 2
    have "via_sync (via s) = via_sync (via s')" using arg_cong [OF assms(2), of via] by (simp add: via_simps)
    then have "via_get_ca2 (via s) = via_get_ca2 (via s')" "via_get_cb2 (via s) = via_get_cb2 (via s')"
        "via_get_pb7 (via s) = via_get_pb7 (via s')"
      by (metis lines_sync)+
    then show ?thesis using assms(2) 2 by simp
  next
    case 3
    have "via_apply (via_tick hk) hk p (syn s) = via_apply (via_update hk 1) hk p (syn s)"
      using 3 by (cases p) (simp_all only: via_apply.simps simp_thms)
    then show ?thesis using access_syn [OF 3, of _ hk s] access_syn [OF 3, of _ hk s'] assms(2) by metis
  qed
qed

definition fresh :: "'u via_state \<Rightarrow> bool" where
  "fresh s \<longleftrightarrow> via_quiet_left (via s) = 0 \<and> via_pending (via s) = 0"

lemma lazy_count:
  assumes "lazy_ok v" "via_quiet_left v \<noteq> 0"
  shows "lazy_ok (v\<lparr>via_quiet_left := via_quiet_left v - 1, via_pending := via_pending v + 1\<rparr>)"
proof -
  have "unat (via_quiet_left v) + unat (via_pending v) < 65536" "0 < unat (via_quiet_left v)"
    using assms unsigned_less [of "via_quiet v", where ?'a = nat] by (auto simp: lazy_ok_def room_def unat_gt_0)
  then have "unat (via_pending v + 1) = unat (via_pending v) + 1"
    by (simp add: unat_word_ariths)
  moreover have "unat (via_quiet_left v - 1) = unat (via_quiet_left v) - 1"
    using assms by (simp add: unat_minus_one)
  ultimately show ?thesis using assms \<open>0 < unat (via_quiet_left v)\<close> by (simp add: lazy_ok_def room_def)
qed

text \<open>Hooks that leave the two counters of the lazy path alone.\<close>

locale lazy_hooks =
  fixes hk :: "'u via_hooks"
  assumes callbacks: "hooks_keep fresh hk"

sublocale lazy_hooks \<subseteq> via_discipline_reset hk "\<lambda>s. lazy_ok (via s)" fresh fresh
proof (unfold_locales, goal_cases)
  case (7 s)
  then show ?case by (simp add: lazy_ok_def fresh_def upd_via_def room_def)
next
  case (8 s)
  then show ?case by (simp add: lazy_count upd_via_def)
next
  case (9 h s)
  then show ?case using callbacks by (auto simp: hooks_keep_def)
next
  case (10 g s x)
  then show ?case using callbacks by (auto simp: hooks_keep_def)
qed (auto simp: fresh_def upd_via_def via_sync_adv lazy_ok_def plain_def flagging_def check_irq_via via_reset_def)

context lazy_hooks
begin

lemma run_syn:
  assumes "lazy_ok (via s)" "syn s = syn s'"
  shows "fst (via_run (via_tick hk) hk ps s) = fst (via_run (via_update hk 1) hk ps s') \<and>
    syn (snd (via_run (via_tick hk) hk ps s)) = syn (snd (via_run (via_update hk 1) hk ps s'))"
  using assms
proof (induction ps arbitrary: s s')
  case (Cons p ps)
  note 1 = apply_syn [OF Cons.prems, of hk p]
  have "lazy_ok (via (snd (via_apply (via_tick hk) hk p s)))"
    using Cons.prems(1) tick_P by (rule keep_all)
  from Cons.IH [OF this 1 [THEN conjunct2]] 1 show ?case by (simp add: snd_split Let_def)
qed simp

end

end
