(* ===== verification/Via_Timers.thy ===== *)
theory Via_Timers
  imports Via_Rules
begin

unbundle bit_operations_syntax

text \<open>
  The timers over many cycles.  The registers of Timer 1 (\<open>t1_view\<close>) evolve on their own:
  every other part of \<open>via_update\<close> leaves them alone, one turn of the Timer 1 loop is
  \<open>t1_next\<close>, and \<open>t1_next\<close> has a closed form with period \<open>N + 2\<close>.  Timer 2 counts down once and
  raises its flag once.
\<close>

section \<open>Timer 1\<close>

record t1_view =
  v1_counter :: u16
  v1_latch :: u16
  v1_running :: bool
  v1_reload :: bool
  v1_pb7 :: bool
  v1_flag :: bool
  v1_free :: bool
  v1_active :: bool

definition t1_of :: "via6522_t \<Rightarrow> t1_view" where
  "t1_of v = \<lparr>v1_counter = t1_counter v, v1_latch = t1_latch v, v1_running = t1_running v,
     v1_reload = t1_reload v, v1_pb7 = pb7_pin v, v1_flag = (ifr v AND 0x40 \<noteq> 0),
     v1_free = (acr v AND 0x40 \<noteq> 0), v1_active = t1_active v\<rparr>"

definition t1_next :: "t1_view \<Rightarrow> t1_view" where
  "t1_next w =
     (if v1_reload w then w\<lparr>v1_counter := v1_latch w, v1_reload := False\<rparr>
      else if v1_counter w \<noteq> 0 then w\<lparr>v1_counter := v1_counter w - 1\<rparr>
      else if \<not> v1_running w then w\<lparr>v1_counter := v1_counter w - 1, v1_reload := True\<rparr>
      else w\<lparr>v1_counter := v1_counter w - 1, v1_reload := True, v1_flag := True,
             v1_pb7 := \<not> v1_pb7 w, v1_running := v1_free w\<rparr>)"

text \<open>Raising or clearing other flags does not show in the view.\<close>

lemma bit7_keeps_bit6: "((x OR 0x80) AND 0x40 :: u8) = x AND 0x40" "((x AND 0x7F) AND 0x40 :: u8) = x AND 0x40"
proof -
  have "(0x80 :: u8) AND 0x40 = 0" "(0x7F :: u8) AND 0x40 = 0x40" by simp_all
  then show "((x OR 0x80) AND 0x40 :: u8) = x AND 0x40" "((x AND 0x7F) AND 0x40 :: u8) = x AND 0x40"
    by (simp_all only: bit.conj_disj_distrib2 and.assoc or.right_neutral)
qed

lemma t1_of_check [simp]: "t1_of (via (via_check_irq hk s)) = t1_of (via s)"
  by (simp add: t1_of_def check_irq_via bit7_keeps_bit6)

lemma t1_of_raise [simp]:
  "m AND 0x40 = 0 \<Longrightarrow> t1_of (via (via_raise hk m s)) = t1_of (via s)"
  by (simp add: via_raise_def upd_via_def) (simp add: t1_of_def bit.conj_disj_distrib2)

lemma t1_of_raise_t1:
  "t1_of (via (via_raise hk VIA_INT_T1 s)) = (t1_of (via s))\<lparr>v1_flag := True\<rparr>"
proof -
  have "(x OR 0x40) AND (0x40 :: u8) = 0x40" for x
    by (rule bit_word_eqI) (auto simp: bit_simps)
  then show ?thesis by (simp add: via_raise_def upd_via_def) (simp add: t1_of_def)
qed

lemma check_fields [simp]:
  "acr (via (via_check_irq hk s)) = acr (via s)" "t1_running (via (via_check_irq hk s)) = t1_running (via s)"
  "t1_reload (via (via_check_irq hk s)) = t1_reload (via s)" "pb7_pin (via (via_check_irq hk s)) = pb7_pin (via s)"
  "t1_active (via (via_check_irq hk s)) = t1_active (via s)" "t1_counter (via (via_check_irq hk s)) = t1_counter (via s)"
  "t2_active (via (via_check_irq hk s)) = t2_active (via s)" "t2_counter (via (via_check_irq hk s)) = t2_counter (via s)"
  "t2_running (via (via_check_irq hk s)) = t2_running (via s)" "t2_reload (via (via_check_irq hk s)) = t2_reload (via s)"
  "t2_phi2 (via (via_check_irq hk s)) = t2_phi2 (via s)" "t2_hold (via (via_check_irq hk s)) = t2_hold (via s)"
  "sr_t2_pending (via (via_check_irq hk s)) = sr_t2_pending (via s)"
  by (simp_all add: check_irq_via)

lemma t1_of_plain:
  assumes "\<And>v. t1_of (f v) = t1_of v"
  shows "t1_of (via (upd_via f s)) = t1_of (via s)"
  by (simp add: upd_via_def assms)

lemma raise_fields [simp]:
  "acr (via (via_raise hk m s)) = acr (via s)" "t1_running (via (via_raise hk m s)) = t1_running (via s)"
  "t2_running (via (via_raise hk m s)) = t2_running (via s)" "t2_counter (via (via_raise hk m s)) = t2_counter (via s)"
  "t1_active (via (via_raise hk m s)) = t1_active (via s)" "t2_active (via (via_raise hk m s)) = t2_active (via s)"
  "t2_phi2 (via (via_raise hk m s)) = t2_phi2 (via s)" "t2_hold (via (via_raise hk m s)) = t2_hold (via s)"
  by (simp_all add: via_raise_def upd_via_def)

lemma t1_step_view: "t1_of (via (via_t1_step hk s)) = t1_next (t1_of (via s))"
proof -
  have cong: "t1_of (f v) = g (t1_of v) \<Longrightarrow> via t = v \<Longrightarrow> t1_of (via (upd_via f t)) = g (t1_of v)" for f g v t
    by (simp add: upd_via_def)
  define s1 where "s1 = upd_via (\<lambda>v. v\<lparr>t1_reload := True\<rparr>) (upd_via (\<lambda>v. v\<lparr>t1_counter := t1_counter v - 1\<rparr>) s)"
  have s1: "t1_of (via s1) = (t1_of (via s))\<lparr>v1_counter := t1_counter (via s) - 1, v1_reload := True\<rparr>"
      "t1_running (via s1) = t1_running (via s)" "acr (via s1) = acr (via s)"
    by (simp_all add: s1_def upd_via_def t1_of_def)
  define s2 where "s2 = via_raise hk VIA_INT_T1 s1"
  have s2: "t1_of (via s2) = (t1_of (via s1))\<lparr>v1_flag := True\<rparr>" "acr (via s2) = acr (via s)"
    by (simp_all add: s2_def t1_of_raise_t1 s1)
  have s3: "t1_of (via (upd_via (\<lambda>v. let v1 = v\<lparr>pb7_pin := \<not> pb7_pin v\<rparr>
      in if acr v1 AND 0x40 = 0 then v1\<lparr>t1_running := False\<rparr> else v1) s2)) =
      (let w = t1_of (via s2) in w\<lparr>v1_pb7 := \<not> v1_pb7 w, v1_running := v1_running w \<and> v1_free w\<rparr>)"
    by (simp add: upd_via_def Let_def t1_of_def)
  consider "t1_reload (via s)" | "\<not> t1_reload (via s)" "t1_counter (via s) \<noteq> 0"
    | "\<not> t1_reload (via s)" "t1_counter (via s) = 0" "\<not> t1_running (via s)"
    | "\<not> t1_reload (via s)" "t1_counter (via s) = 0" "t1_running (via s)" by blast
  then show ?thesis
  proof cases
    case 4
    then have "via_t1_step hk s = upd_via (\<lambda>v. let v1 = v\<lparr>pb7_pin := \<not> pb7_pin v\<rparr>
      in if acr v1 AND 0x40 = 0 then v1\<lparr>t1_running := False\<rparr> else v1) s2"
      unfolding via_t1_step_def s2_def s1_def by (simp add: Let_def del: upd_via_simps) (simp add: upd_via_def)
    then have "t1_of (via (via_t1_step hk s)) =
        (let w = t1_of (via s2) in w\<lparr>v1_pb7 := \<not> v1_pb7 w, v1_running := v1_running w \<and> v1_free w\<rparr>)"
      by (simp only: s3)
    with 4 show ?thesis by (simp add: s2 s1 Let_def) (simp add: t1_next_def t1_of_def)
  next
    case 3
    then have "via_t1_step hk s = s1"
      unfolding via_t1_step_def s1_def by (simp add: Let_def del: upd_via_simps) (simp add: upd_via_def)
    then show ?thesis using 3 by (simp add: s1) (simp add: t1_next_def t1_of_def)
  qed (simp_all add: via_t1_step_def Let_def upd_via_def t1_of_def t1_next_def)
qed

lemma t1_of_frame [simp]:
  "t1_of (v\<lparr>sr := a\<rparr>) = t1_of v" "t1_of (v\<lparr>sr_count := a\<rparr>) = t1_of v" "t1_of (v\<lparr>sr_active := b\<rparr>) = t1_of v"
  "t1_of (v\<lparr>cb2_pin := b\<rparr>) = t1_of v" "t1_of (v\<lparr>sr_delay := a\<rparr>) = t1_of v" "t1_of (v\<lparr>sr_t2_pending := a\<rparr>) = t1_of v"
  "t1_of (v\<lparr>t2_phi2 := b\<rparr>) = t1_of v" "t1_of (v\<lparr>t2_hold := b\<rparr>) = t1_of v" "t1_of (v\<lparr>t2_reload := b\<rparr>) = t1_of v"
  "t1_of (v\<lparr>t2_running := b\<rparr>) = t1_of v" "t1_of (v\<lparr>t2_counter := c\<rparr>) = t1_of v"
  "t1_of (v\<lparr>ca2_pulse := i\<rparr>) = t1_of v" "t1_of (v\<lparr>cb2_pulse := i\<rparr>) = t1_of v" "t1_of (v\<lparr>ca2_pin := b\<rparr>) = t1_of v"
  "t1_of (v\<lparr>via_quiet_left := c\<rparr>) = t1_of v"
  by (simp_all add: t1_of_def)

lemma t1_of_upd: "(\<And>v. t1_of (f v) = t1_of v) \<Longrightarrow> t1_of (via (upd_via f s)) = t1_of (via s)"
  by (simp add: upd_via_def)

lemma sr_event_t1 [simp]: "t1_of (via (via_sr_event hk s)) = t1_of (via s)"
  unfolding via_sr_event_def Let_def
  by (simp add: t1_of_upd del: upd_via_simps)

lemma sr_step_t1 [simp]: "t1_of (via (via_sr_step hk s)) = t1_of (via s)"
  by (simp add: via_sr_step_def t1_of_upd del: upd_via_simps)

lemma t2_shift_t1 [simp]: "t1_of (via (via_t2_shift hk s)) = t1_of (via s)"
  unfolding via_t2_shift_def Let_def
  by (simp add: t1_of_upd del: upd_via_simps)

lemma t2_count_t1 [simp]:
  "t1_of (via (via_t2_count8 hk s)) = t1_of (via s)" "t1_of (via (via_t2_count16 hk s)) = t1_of (via s)"
  unfolding via_t2_count8_def via_t2_count16_def Let_def
  by (simp_all add: t1_of_upd del: upd_via_simps)

lemma t2_step_t1 [simp]: "t1_of (via (via_t2_step hk s)) = t1_of (via s)"
  unfolding via_t2_step_def Let_def
  by (simp add: t1_of_upd del: upd_via_simps)

lemma pulses_t1 [simp]: "t1_of (via_pulses n v) = t1_of v"
  by (simp add: via_pulses_def Let_def)

lemma funpow_frame: "(\<And>s. g (f s) = g s) \<Longrightarrow> g ((f ^^ n) s) = g s"
  by (induction n) simp_all

lemma funpow_simulates: "(\<And>s. g (f s) = h (g s)) \<Longrightarrow> g ((f ^^ n) s) = (h ^^ n) (g s)"
  by (induction n) simp_all

lemma update_t1:
  assumes "t1_active (via s)" "via_pending (via s) = 0"
  shows "t1_of (via (via_update hk n s)) = (t1_next ^^ nat n) (t1_of (via s))"
proof -
  define s1 where "s1 = upd_via (via_pulses n) (upd_via via_sync s)"
  have "t1_of (via_sync (via s)) = t1_of (via s)" "t1_active (via_sync (via s))"
    using assms by (simp_all add: via_sync_def)
  then have 1: "t1_of (via s1) = t1_of (via s)" "t1_active (via s1)"
    by (simp_all add: s1_def upd_via_def) (simp add: via_pulses_def Let_def)
  have loop: "t1_of (via ((via_t1_step hk ^^ nat n) s1)) = (t1_next ^^ nat n) (t1_of (via s))"
    using funpow_simulates [of "\<lambda>s. t1_of (via s)" "via_t1_step hk" t1_next, OF t1_step_view] 1 by simp
  show ?thesis
    unfolding via_update_def Let_def s1_def [symmetric]
    using funpow_frame [of "\<lambda>s. t1_of (via s)" "via_t2_step hk", OF t2_step_t1]
      funpow_frame [of "\<lambda>s. t1_of (via s)" "via_sr_step hk", OF sr_step_t1] loop 1(2)
    by (simp add: t1_of_upd del: upd_via_simps)
qed

text \<open>The closed form.\<close>

lemma t1_count_down:
  assumes "\<not> v1_reload w" "k \<le> unat (v1_counter w)"
  shows "(t1_next ^^ k) w = w\<lparr>v1_counter := v1_counter w - of_nat k\<rparr>"
  using assms(2)
proof (induction k)
  case (Suc k)
  moreover have "unat (v1_counter w) < 2 ^ 16" using unsigned_less [of "v1_counter w"] by simp
  ultimately have "unat (of_nat k :: u16) = k" by (simp add: unat_of_nat take_bit_nat_eq_self)
  with Suc.prems have "of_nat k \<noteq> v1_counter w" by auto
  with Suc assms(1) show ?case by (simp add: t1_next_def algebra_simps)
qed simp

lemma t1_period:
  assumes "\<not> v1_reload w" "v1_running w" "v1_free w" "v1_counter w = v1_latch w"
  shows "(t1_next ^^ (unat (v1_latch w) + 1)) w =
      w\<lparr>v1_counter := - 1, v1_reload := True, v1_flag := True, v1_pb7 := \<not> v1_pb7 w\<rparr>"
    "(t1_next ^^ (unat (v1_latch w) + 2)) w = w\<lparr>v1_flag := True, v1_pb7 := \<not> v1_pb7 w\<rparr>"
proof -
  show 1: "(t1_next ^^ (unat (v1_latch w) + 1)) w =
      w\<lparr>v1_counter := - 1, v1_reload := True, v1_flag := True, v1_pb7 := \<not> v1_pb7 w\<rparr>"
    using t1_count_down [of w "unat (v1_latch w)"] assms by (simp add: t1_next_def)
  show "(t1_next ^^ (unat (v1_latch w) + 2)) w = w\<lparr>v1_flag := True, v1_pb7 := \<not> v1_pb7 w\<rparr>"
  proof -
    have "(t1_next ^^ (unat (v1_latch w) + 2)) w = t1_next ((t1_next ^^ (unat (v1_latch w) + 1)) w)"
      by simp
    also have "\<dots> = w\<lparr>v1_flag := True, v1_pb7 := \<not> v1_pb7 w\<rparr>"
      unfolding 1 using assms by (cases w) (simp add: t1_next_def)
    finally show ?thesis .
  qed
qed

lemma t1_periods:
  assumes "\<not> v1_reload w" "v1_running w" "v1_free w" "v1_counter w = v1_latch w"
  shows "(t1_next ^^ (q * (unat (v1_latch w) + 2))) w =
    w\<lparr>v1_flag := v1_flag w \<or> q > 0, v1_pb7 := (v1_pb7 w \<noteq> odd q)\<rparr>"
proof (induction q)
  case (Suc q)
  define w' where "w' = w\<lparr>v1_flag := v1_flag w \<or> q > 0, v1_pb7 := (v1_pb7 w \<noteq> odd q)\<rparr>"
  have w': "v1_latch w' = v1_latch w" "\<not> v1_reload w'" "v1_running w'" "v1_free w'" "v1_counter w' = v1_latch w'"
    using assms by (simp_all add: w'_def)
  have "(t1_next ^^ (Suc q * (unat (v1_latch w) + 2))) w = (t1_next ^^ (unat (v1_latch w) + 2)) w'"
    using Suc by (simp only: mult_Suc funpow_add o_def w'_def)
  also have "\<dots> = w'\<lparr>v1_flag := True, v1_pb7 := \<not> v1_pb7 w'\<rparr>"
    using t1_period(2) [OF w'(2-5)] by (simp only: w'(1))
  finally show ?case by (simp add: w'_def)
qed simp

lemma t1_closed_form:
  assumes "\<not> v1_reload w" "v1_running w" "v1_free w" "v1_counter w = v1_latch w"
    and "r < unat (v1_latch w) + 2"
  shows "(t1_next ^^ (q * (unat (v1_latch w) + 2) + r)) w =
    (let over = (r = unat (v1_latch w) + 1)
     in w\<lparr>v1_counter := v1_latch w - of_nat r, v1_reload := over,
          v1_flag := v1_flag w \<or> q > 0 \<or> over, v1_pb7 := (v1_pb7 w \<noteq> odd (q + of_bool over))\<rparr>)"
proof -
  define w' where "w' = w\<lparr>v1_flag := v1_flag w \<or> q > 0, v1_pb7 := (v1_pb7 w \<noteq> odd q)\<rparr>"
  have w': "v1_latch w' = v1_latch w" "\<not> v1_reload w'" "v1_running w'" "v1_free w'" "v1_counter w' = v1_latch w'"
    using assms by (simp_all add: w'_def)
  have split: "(t1_next ^^ (q * (unat (v1_latch w) + 2) + r)) w = (t1_next ^^ r) w'"
    using t1_periods [OF assms(1-4), of q] by (simp only: add.commute [of _ r] funpow_add o_def w'_def)
  show ?thesis
  proof (cases "r = unat (v1_latch w) + 1")
    case True
    then have "(t1_next ^^ r) w' = w'\<lparr>v1_counter := - 1, v1_reload := True, v1_flag := True, v1_pb7 := \<not> v1_pb7 w'\<rparr>"
      using t1_period(1) [OF w'(2-5)] by (simp only: w'(1))
    with True show ?thesis unfolding split by (simp add: w'_def Let_def)
  next
    case False
    then have "r \<le> unat (v1_counter w')" using assms(5) w' by simp
    from t1_count_down [OF w'(2) this] have "(t1_next ^^ r) w' = w'\<lparr>v1_counter := v1_counter w' - of_nat r\<rparr>" .
    moreover have "w'\<lparr>v1_counter := v1_counter w' - of_nat r\<rparr> =
        w\<lparr>v1_counter := v1_latch w - of_nat r, v1_reload := False, v1_flag := v1_flag w \<or> q > 0, v1_pb7 := (v1_pb7 w \<noteq> odd q)\<rparr>"
      using assms(1,4) unfolding w'_def by (cases w) simp
    ultimately show ?thesis unfolding split using False by (simp add: Let_def)
  qed
qed

text \<open>One shot: from the write of \<open>T1C-H\<close> on, one interrupt.\<close>

lemma t1_stopped:
  assumes "\<not> v1_running w"
  shows "v1_flag ((t1_next ^^ k) w) = v1_flag w" "v1_pb7 ((t1_next ^^ k) w) = v1_pb7 w"
proof -
  have "\<not> v1_running ((t1_next ^^ k) w) \<and> v1_flag ((t1_next ^^ k) w) = v1_flag w \<and>
      v1_pb7 ((t1_next ^^ k) w) = v1_pb7 w"
    using assms by (induction k) (auto simp: t1_next_def)
  then show "v1_flag ((t1_next ^^ k) w) = v1_flag w" "v1_pb7 ((t1_next ^^ k) w) = v1_pb7 w" by simp_all
qed

lemma t1_single:
  assumes "v1_reload w" "v1_running w" "\<not> v1_free w" "\<not> v1_flag w"
  shows "v1_flag ((t1_next ^^ k) w) \<longleftrightarrow> k \<ge> unat (v1_latch w) + 2"
    and "v1_pb7 ((t1_next ^^ k) w) \<longleftrightarrow> (v1_pb7 w \<noteq> (k \<ge> unat (v1_latch w) + 2))"
    and "0 < k \<Longrightarrow> k \<le> unat (v1_latch w) + 1 \<Longrightarrow>
      v1_counter ((t1_next ^^ k) w) = v1_latch w - of_nat (k - 1)"
proof -
  let ?N = "unat (v1_latch w)"
  define w' where "w' = t1_next w"
  have w': "w' = w\<lparr>v1_counter := v1_latch w, v1_reload := False\<rparr>"
    using assms by (simp add: w'_def t1_next_def)
  have early: "(t1_next ^^ Suc j) w = w'\<lparr>v1_counter := v1_latch w - of_nat j\<rparr>" if "j \<le> ?N" for j
    using t1_count_down [of w' j] that unfolding funpow_unfold_left w'_def [symmetric] by (simp add: w')
  have over: "(t1_next ^^ (?N + 2)) w = w'\<lparr>v1_counter := - 1, v1_reload := True, v1_flag := True,
      v1_pb7 := \<not> v1_pb7 w, v1_running := False\<rparr>"
  proof -
    have "(t1_next ^^ (?N + 2)) w = t1_next ((t1_next ^^ Suc ?N) w)" by simp
    also have "\<dots> = w'\<lparr>v1_counter := - 1, v1_reload := True, v1_flag := True,
        v1_pb7 := \<not> v1_pb7 w, v1_running := False\<rparr>"
      unfolding early [OF order.refl] using assms by (simp add: t1_next_def w')
    finally show ?thesis .
  qed
  have late: "v1_flag ((t1_next ^^ k) w)" "v1_pb7 ((t1_next ^^ k) w) = (\<not> v1_pb7 w)" if "k \<ge> ?N + 2" for k
  proof -
    from that obtain d where k: "k = d + (?N + 2)" by (metis le_Suc_ex add.commute)
    have "(t1_next ^^ k) w = (t1_next ^^ d) ((t1_next ^^ (?N + 2)) w)"
      by (simp only: k funpow_add o_apply)
    then show "v1_flag ((t1_next ^^ k) w)" "v1_pb7 ((t1_next ^^ k) w) = (\<not> v1_pb7 w)"
      unfolding over by (simp_all add: t1_stopped)
  qed
  have early': "(t1_next ^^ k) w = w'\<lparr>v1_counter := v1_latch w - of_nat (k - 1)\<rparr>" if "0 < k" "k \<le> ?N + 1"
    using early [of "k - 1"] that by (cases k) auto
  show "v1_flag ((t1_next ^^ k) w) \<longleftrightarrow> k \<ge> ?N + 2"
    by (cases "k \<ge> ?N + 2"; cases "k = 0") (use late early' assms in \<open>auto simp: w'\<close>)
  show "v1_pb7 ((t1_next ^^ k) w) \<longleftrightarrow> (v1_pb7 w \<noteq> (k \<ge> ?N + 2))"
    by (cases "k \<ge> ?N + 2"; cases "k = 0") (use late early' assms in \<open>auto simp: w'\<close>)
  show "v1_counter ((t1_next ^^ k) w) = v1_latch w - of_nat (k - 1)" if "0 < k" "k \<le> ?N + 1"
    using early' [OF that] by simp
qed

section \<open>Timer 2\<close>

text \<open>The countdown at \<open>\<phi>2\<close> on sixteen bits, without pending shift-register event.\<close>

record t2_view =
  v2_counter :: u16
  v2_running :: bool
  v2_hold :: bool
  v2_flag :: bool

definition t2_of :: "via6522_t \<Rightarrow> t2_view" where
  "t2_of v = \<lparr>v2_counter = t2_counter v, v2_running = t2_running v, v2_hold = t2_hold v,
     v2_flag = (ifr v AND 0x20 \<noteq> 0)\<rparr>"

definition t2_counting :: "via6522_t \<Rightarrow> bool" where
  "t2_counting v \<longleftrightarrow> t2_active v \<and> t2_phi2 v \<and> acr v AND 0x20 = 0 \<and> \<not> via_t2_8bit v \<and> sr_t2_pending v = 0"

definition t2_next :: "t2_view \<Rightarrow> t2_view" where
  "t2_next w =
     (if v2_hold w then w\<lparr>v2_hold := False\<rparr>
      else if v2_counter w = 0 \<and> v2_running w
        then w\<lparr>v2_counter := v2_counter w - 1, v2_running := False, v2_flag := True\<rparr>
      else w\<lparr>v2_counter := v2_counter w - 1\<rparr>)"

lemma bit7_keeps_bit5: "((x OR 0x80) AND 0x20 :: u8) = x AND 0x20" "((x AND 0x7F) AND 0x20 :: u8) = x AND 0x20"
proof -
  have "(0x80 :: u8) AND 0x20 = 0" "(0x7F :: u8) AND 0x20 = 0x20" by simp_all
  then show "((x OR 0x80) AND 0x20 :: u8) = x AND 0x20" "((x AND 0x7F) AND 0x20 :: u8) = x AND 0x20"
    by (simp_all only: bit.conj_disj_distrib2 and.assoc or.right_neutral)
qed

lemma t2_of_check [simp]: "t2_of (via (via_check_irq hk s)) = t2_of (via s)"
  by (simp add: t2_of_def check_irq_via bit7_keeps_bit5)

lemma t2_of_raise [simp]: "m AND 0x20 = 0 \<Longrightarrow> t2_of (via (via_raise hk m s)) = t2_of (via s)"
  by (simp add: via_raise_def upd_via_def) (simp add: t2_of_def bit.conj_disj_distrib2)

lemma t2_of_raise_t2: "t2_of (via (via_raise hk VIA_INT_T2 s)) = (t2_of (via s))\<lparr>v2_flag := True\<rparr>"
  by (simp add: via_raise_def upd_via_def) (simp add: t2_of_def or_and_absorb)

lemma t2_counting_check [simp]: "t2_counting (via (via_check_irq hk s)) = t2_counting (via s)"
  by (simp add: t2_counting_def via_t2_8bit_def)

lemma t2_counting_frame [simp]:
  "t2_counting (v\<lparr>ifr := a\<rparr>) = t2_counting v"
  "t2_counting (v\<lparr>sr := a\<rparr>) = t2_counting v" "t2_counting (v\<lparr>sr_count := a\<rparr>) = t2_counting v"
  "t2_counting (v\<lparr>sr_active := b\<rparr>) = t2_counting v" "t2_counting (v\<lparr>cb2_pin := b\<rparr>) = t2_counting v"
  "t2_counting (v\<lparr>sr_delay := a\<rparr>) = t2_counting v" "t2_counting (v\<lparr>t1_counter := c\<rparr>) = t2_counting v"
  "t2_counting (v\<lparr>t1_reload := b\<rparr>) = t2_counting v" "t2_counting (v\<lparr>t1_running := b\<rparr>) = t2_counting v"
  "t2_counting (v\<lparr>pb7_pin := b\<rparr>) = t2_counting v" "t2_counting (v\<lparr>ca2_pin := b\<rparr>) = t2_counting v"
  "t2_counting (v\<lparr>ca2_pulse := i\<rparr>) = t2_counting v" "t2_counting (v\<lparr>cb2_pulse := i\<rparr>) = t2_counting v"
  "t2_counting (v\<lparr>t2_counter := c\<rparr>) = t2_counting v" "t2_counting (v\<lparr>t2_running := b\<rparr>) = t2_counting v"
  "t2_counting (v\<lparr>t2_hold := b\<rparr>) = t2_counting v" "t2_counting (v\<lparr>via_quiet_left := c\<rparr>) = t2_counting v"
  by (simp_all add: t2_counting_def via_t2_8bit_def)

lemma t2_of_frame [simp]:
  "t2_of (v\<lparr>sr := a\<rparr>) = t2_of v" "t2_of (v\<lparr>sr_count := a\<rparr>) = t2_of v"
  "t2_of (v\<lparr>sr_active := b\<rparr>) = t2_of v" "t2_of (v\<lparr>cb2_pin := b\<rparr>) = t2_of v"
  "t2_of (v\<lparr>sr_delay := a\<rparr>) = t2_of v" "t2_of (v\<lparr>t1_counter := c\<rparr>) = t2_of v"
  "t2_of (v\<lparr>t1_reload := b\<rparr>) = t2_of v" "t2_of (v\<lparr>t1_running := b\<rparr>) = t2_of v"
  "t2_of (v\<lparr>pb7_pin := b\<rparr>) = t2_of v" "t2_of (v\<lparr>ca2_pin := b\<rparr>) = t2_of v"
  "t2_of (v\<lparr>ca2_pulse := i\<rparr>) = t2_of v" "t2_of (v\<lparr>cb2_pulse := i\<rparr>) = t2_of v"
  "t2_of (v\<lparr>via_quiet_left := c\<rparr>) = t2_of v"
  by (simp_all add: t2_of_def)

lemma t2_of_upd: "(\<And>v. t2_of (f v) = t2_of v) \<Longrightarrow> t2_of (via (upd_via f s)) = t2_of (via s)"
  by (simp add: upd_via_def)

lemma t2_counting_upd:
  "(\<And>v. t2_counting (f v) = t2_counting v) \<Longrightarrow> t2_counting (via (upd_via f s)) = t2_counting (via s)"
  by (simp add: upd_via_def)

lemma t2_counting_raise [simp]: "t2_counting (via (via_raise hk m s)) = t2_counting (via s)"
  by (simp add: via_raise_def t2_counting_upd del: upd_via_simps)

lemma t1_step_t2 [simp]:
  "t2_of (via (via_t1_step hk s)) = t2_of (via s)" "t2_counting (via (via_t1_step hk s)) = t2_counting (via s)"
  unfolding via_t1_step_def Let_def
  by (simp_all add: t2_of_upd t2_counting_upd del: upd_via_simps)

lemma sr_event_t2 [simp]:
  "t2_of (via (via_sr_event hk s)) = t2_of (via s)" "t2_counting (via (via_sr_event hk s)) = t2_counting (via s)"
  unfolding via_sr_event_def Let_def
  by (simp_all add: t2_of_upd t2_counting_upd del: upd_via_simps)

lemma sr_step_t2 [simp]:
  "t2_of (via (via_sr_step hk s)) = t2_of (via s)" "t2_counting (via (via_sr_step hk s)) = t2_counting (via s)"
  by (simp_all add: via_sr_step_def t2_of_upd t2_counting_upd del: upd_via_simps)

lemma t2_step_view:
  assumes "t2_counting (via s)"
  shows "t2_of (via (via_t2_step hk s)) = t2_next (t2_of (via s)) \<and> t2_counting (via (via_t2_step hk s))"
proof -
  define s1 where "s1 = upd_via (\<lambda>v. v\<lparr>t2_phi2 := (acr v AND 0x20 = 0), t2_hold := False\<rparr>) s"
  have s1: "via s1 = (via s)\<lparr>t2_hold := False\<rparr>" "t2_counting (via s1)"
    using assms by (simp_all add: s1_def upd_via_def t2_counting_def via_t2_8bit_def)
  have step: "via_t2_step hk s = (if t2_hold (via s) then s1 else via_t2_count16 hk s1)"
    using assms s1 unfolding via_t2_step_def via_t2_shift_def s1_def [symmetric]
    by (simp add: Let_def t2_counting_def via_t2_8bit_def s1_def)
  define s2 where "s2 = upd_via (\<lambda>v. v\<lparr>t2_counter := t2_counter v - 1\<rparr>) s1"
  have s2: "via s2 = (via s1)\<lparr>t2_counter := t2_counter (via s1) - 1\<rparr>" by (simp add: s2_def upd_via_def)
  have c16: "via_t2_count16 hk s1 = (if t2_counter (via s1) \<noteq> 0 \<or> \<not> t2_running (via s1) then s2
      else upd_via (\<lambda>v. v\<lparr>t2_running := False\<rparr>) (via_raise hk VIA_INT_T2 s2))"
    unfolding via_t2_count16_def s2_def by (simp add: Let_def upd_via_def)
  have last: "t2_of (via (upd_via (\<lambda>v. v\<lparr>t2_running := False\<rparr>) (via_raise hk VIA_INT_T2 s2))) =
      (t2_of (via s2))\<lparr>v2_flag := True, v2_running := False\<rparr>"
  proof -
    have "t2_of (via (upd_via (\<lambda>v. v\<lparr>t2_running := False\<rparr>) t)) = (t2_of (via t))\<lparr>v2_running := False\<rparr>" for t :: "'a via_state"
      by (simp add: upd_via_def t2_of_def)
    then show ?thesis by (simp only: t2_of_raise_t2)
  qed
  show ?thesis
  proof (cases "t2_hold (via s)")
    case True
    then show ?thesis using s1 by (simp add: step) (simp add: t2_of_def t2_next_def)
  next
    case False
    have f: "t2_counter (via s1) = t2_counter (via s)" "t2_running (via s1) = t2_running (via s)" by (simp_all add: s1)
    have 1: "t2_counting (via (via_t2_count16 hk s1))"
      using s1(2) by (simp add: c16 t2_counting_upd s2 del: upd_via_simps)
    have 2: "t2_of (via s2) = (t2_of (via s))\<lparr>v2_counter := t2_counter (via s) - 1, v2_hold := False\<rparr>"
      by (simp add: s2 s1 t2_of_def)
    show ?thesis using False 1 
      by (simp add: step c16 f last 2) (simp add: t2_of_def t2_next_def)
  qed
qed

lemma funpow_simulates_inv:
  assumes "\<And>s. I s \<Longrightarrow> g (f s) = h (g s) \<and> I (f s)" "I s"
  shows "g ((f ^^ n) s) = (h ^^ n) (g s) \<and> I ((f ^^ n) s)"
  using assms by (induction n) auto

lemma update_t2:
  assumes "t2_counting (via s)" "via_pending (via s) = 0"
  shows "t2_of (via (via_update hk n s)) = (t2_next ^^ nat n) (t2_of (via s))"
proof -
  let ?c = "\<lambda>s. (t2_of (via s), t2_counting (via s))"
  define s1 where "s1 = upd_via (via_pulses n) (upd_via via_sync s)"
  define s2 where "s2 = (if t1_active (via s1) then (via_t1_step hk ^^ nat n) s1 else s1)"
  define s3 where "s3 = (via_t2_step hk ^^ nat n) s2"
  have "?c s1 = ?c s"
    using assms by (simp add: s1_def upd_via_def via_sync_def via_pulses_def Let_def)
  moreover have "?c s2 = ?c s1"
    using funpow_frame [of ?c "via_t1_step hk" "nat n" s1] by (simp add: s2_def)
  ultimately have 2: "t2_of (via s2) = t2_of (via s)" "t2_counting (via s2)" using assms by simp_all
  have 3: "t2_of (via s3) = (t2_next ^^ nat n) (t2_of (via s))"
    unfolding s3_def using funpow_simulates_inv [of "\<lambda>s. t2_counting (via s)" "\<lambda>s. t2_of (via s)" "via_t2_step hk" t2_next s2 "nat n"]
      t2_step_view 2 by metis
  have "t2_of (via (if sr_phi2 (via s3) then (via_sr_step hk ^^ nat n) s3 else s3)) = t2_of (via s3)"
    using funpow_frame [of "\<lambda>s. t2_of (via s)" "via_sr_step hk" "nat n" s3] by simp
  then show ?thesis
    unfolding via_update_def Let_def s1_def [symmetric] s2_def [symmetric] s3_def [symmetric]
    using 3 by (simp add: t2_of_upd del: upd_via_simps)
qed

lemma t2_count_down:
  assumes "\<not> v2_hold w" "k \<le> unat (v2_counter w)"
  shows "(t2_next ^^ k) w = w\<lparr>v2_counter := v2_counter w - of_nat k\<rparr>"
  using assms(2)
proof (induction k)
  case (Suc k)
  moreover have "unat (v2_counter w) < 2 ^ 16" using unsigned_less [of "v2_counter w"] by simp
  ultimately have "unat (of_nat k :: u16) = k" by (simp add: unat_of_nat take_bit_nat_eq_self)
  with Suc.prems have "of_nat k \<noteq> v2_counter w" by auto
  with Suc assms(1) show ?case by (simp add: t2_next_def algebra_simps)
qed simp

lemma t2_stopped:
  assumes "\<not> v2_running w" "\<not> v2_hold w"
  shows "(t2_next ^^ k) w = w\<lparr>v2_counter := v2_counter w - of_nat k\<rparr>"
  using assms by (induction k) (auto simp: t2_next_def algebra_simps)

lemma t2_single:
  assumes "v2_hold w" "v2_running w" "\<not> v2_flag w" "0 < k"
  shows "v2_flag ((t2_next ^^ k) w) \<longleftrightarrow> k \<ge> unat (v2_counter w) + 2"
    and "v2_counter ((t2_next ^^ k) w) = v2_counter w - of_nat (k - 1)"
proof -
  let ?N = "unat (v2_counter w)"
  have first: "t2_next w = w\<lparr>v2_hold := False\<rparr>" using assms by (simp add: t2_next_def)
  have early: "(t2_next ^^ Suc j) w = w\<lparr>v2_hold := False, v2_counter := v2_counter w - of_nat j\<rparr>" if "j \<le> ?N" for j
    using t2_count_down [of "w\<lparr>v2_hold := False\<rparr>" j] that unfolding funpow_unfold_left first by simp
  have over: "(t2_next ^^ (?N + 2)) w = w\<lparr>v2_hold := False, v2_counter := - 1, v2_running := False, v2_flag := True\<rparr>"
  proof -
    have "(t2_next ^^ (?N + 2)) w = t2_next ((t2_next ^^ Suc ?N) w)" by simp
    then show ?thesis unfolding early [OF order.refl] using assms by (simp add: t2_next_def)
  qed
  obtain j where k: "k = Suc j" using assms(4) by (cases k) auto
  show "v2_flag ((t2_next ^^ k) w) \<longleftrightarrow> k \<ge> ?N + 2" "v2_counter ((t2_next ^^ k) w) = v2_counter w - of_nat (k - 1)"
  proof (atomize (full), cases "j \<le> ?N")
    case True
    then show "(v2_flag ((t2_next ^^ k) w) \<longleftrightarrow> k \<ge> ?N + 2) \<and> v2_counter ((t2_next ^^ k) w) = v2_counter w - of_nat (k - 1)"
      unfolding k early [OF True] using assms by simp
  next
    case False
    define d where "d = k - (?N + 2)"
    then have d: "k = d + (?N + 2)" using False k by simp
    have "(t2_next ^^ k) w = (t2_next ^^ d) ((t2_next ^^ (?N + 2)) w)" by (simp only: d funpow_add o_apply)
    then show "(v2_flag ((t2_next ^^ k) w) \<longleftrightarrow> k \<ge> ?N + 2) \<and> v2_counter ((t2_next ^^ k) w) = v2_counter w - of_nat (k - 1)"
      unfolding over by (simp add: t2_stopped d)
  qed
qed

end
