(* ===== verification/Via_Properties.thy ===== *)
theory Via_Properties
  imports Via_Lazy Via_Rules Via_Timers
begin

unbundle bit_operations_syntax

text \<open>
  The properties of the VIA: the lazy path is exact, the interrupt output follows the flags, and
  the timers count the periods of the data sheet.  The witnesses run a chip whose port B reads a
  constant and whose interrupt output drives a boolean.
\<close>

definition flag_wire :: "bool via_hooks" where
  "flag_wire = \<lparr>porta_read = None, porta_write = None, portb_read = Some (\<lambda>s. (0xF7, s)),
     portb_write = None, irq_callback = Some (\<lambda>b u. b)\<rparr>"

definition flag_chip :: "bool via_state" where
  "flag_chip = \<lparr>via = via_reset via_init, user = False\<rparr>"

lemma flag_wire_keep: "hooks_keep I flag_wire"
  by (simp add: hooks_keep_def flag_wire_def)

lemma flag_chip_rest:
  "lazy_ok (via flag_chip)" "wired (\<lambda>u. u) flag_chip" "irq_settled (via flag_chip)"
  "via_pending (via flag_chip) = 0"
  by (simp_all add: flag_chip_def via_reset_def via_sync_def via_init_def lazy_ok_def wired_def
      irq_settled_def irq_wanted_def)

text \<open>
  C6: The lazy path of \<open>via_tick\<close> is exact.  Any program of register accesses, line changes and
  cycles gives the same values read and the same output lines, and leaves the same chip and the
  same world, whether its cycles are skipped and applied later or stepped one by one as with
  \<open>VIA_NO_LAZY\<close>.
\<close>

theorem via_lazy_exact:
  assumes "hooks_keep fresh hk" "lazy_ok (via s)"
  shows "fst (via_run (via_tick hk) hk ps s) = fst (via_run (via_update hk 1) hk ps s) \<and>
    upd_via via_sync (snd (via_run (via_tick hk) hk ps s)) =
    upd_via via_sync (snd (via_run (via_update hk 1) hk ps s))"
  using lazy_hooks.run_syn [OF lazy_hooks.intro [OF assms(1)] assms(2) refl] .

lemma via_lazy_exact_witness:
  "fst (via_run (via_tick flag_wire) flag_wire [Op_write 4 2, Op_write 5 0, Op_tick, Op_tick, Op_read 4] flag_chip) =
   fst (via_run (via_update flag_wire 1) flag_wire [Op_write 4 2, Op_write 5 0, Op_tick, Op_tick, Op_read 4] flag_chip)"
  using via_lazy_exact [OF flag_wire_keep flag_chip_rest(1)] by (rule conjunct1)

text \<open>
  C7: The interrupt output follows the flags.  When the IRQ callback stores the level it is told
  (in the emulator: one bit of the interrupt lines of the CPU), then after any program of accesses
  that level, the \<open>/IRQ\<close> output and bit 7 of the IFR are all set exactly when an enabled flag is.
\<close>

theorem via_irq_exact:
  assumes "irq_callback hk = Some cb" "\<And>b u. line (cb b u) = b"
    and "hooks_keep (wired line) hk" "hooks_keep (\<lambda>s. irq_settled (via s)) hk"
    and "wired line s" "irq_settled (via s)" "Op_reset \<notin> set ps"
  shows "let t = snd (via_run (via_tick hk) hk ps s) in
    line (user t) = irq_wanted (via t) \<and> irq_line (via t) = irq_wanted (via t) \<and>
    (ifr (via t) AND VIA_INT_ANY \<noteq> 0) = irq_wanted (via t)"
proof -
  have "irq_wire hk line cb"
    using assms(1-4) by unfold_locales
  then have "wired line (snd (via_run (via_tick hk) hk ps s)) \<and> irq_settled (via (snd (via_run (via_tick hk) hk ps s)))"
    using assms(5-7) by (rule irq_wire.run_settled)
  then show ?thesis by (auto simp: Let_def wired_def irq_settled_def)
qed

lemma via_irq_exact_witness:
  "let t = snd (via_run (via_tick flag_wire) flag_wire [Op_write 0x0E 0xC0, Op_write 5 0, Op_tick, Op_tick] flag_chip)
   in user t = irq_wanted (via t)"
  using via_irq_exact [of flag_wire "\<lambda>b u. b" "\<lambda>u. u" flag_chip
      "[Op_write 0x0E 0xC0, Op_write 5 0, Op_tick, Op_tick]"]
    flag_wire_keep flag_chip_rest
  by (simp add: Let_def) (simp add: flag_wire_def)

text \<open>
  C8: Timer 1 in free-run mode has period \<open>N + 2\<close>.  From the cycle where the counter holds the
  latch value \<open>N\<close>, \<open>q\<close> periods and \<open>r\<close> cycles later the counter is \<open>N - r\<close>, PB7 has been
  toggled once per time-out, and the flag is set as soon as there was one; the last cycle of
  a period is the reload cycle.
\<close>

theorem t1_free_run:
  fixes s :: "'u via_state"
  defines "N \<equiv> unat (t1_latch (via s))"
  assumes "t1_active (via s)" "t1_running (via s)" "\<not> t1_reload (via s)" "t1_counter (via s) = t1_latch (via s)"
    and "acr (via s) AND 0x40 \<noteq> 0" "via_pending (via s) = 0" "r < N + 2"
  shows "let v = via (via_update hk (int (q * (N + 2) + r)) s); over = (r = N + 1) in
    t1_counter v = t1_latch (via s) - of_nat r \<and> t1_reload v = over \<and>
    (ifr v AND VIA_INT_T1 \<noteq> 0) = (ifr (via s) AND VIA_INT_T1 \<noteq> 0 \<or> q > 0 \<or> over) \<and>
    pb7_pin v = (pb7_pin (via s) \<noteq> odd (q + of_bool over))"
proof -
  let ?w = "t1_of (via s)"
  have "t1_of (via (via_update hk (int (q * (N + 2) + r)) s)) = (t1_next ^^ (q * (N + 2) + r)) ?w"
    using update_t1 [OF assms(2,7), of hk "int (q * (N + 2) + r)"] by (simp only: nat_int)
  also have "\<dots> = (let over = (r = N + 1) in ?w\<lparr>v1_counter := v1_latch ?w - of_nat r, v1_reload := over,
      v1_flag := v1_flag ?w \<or> q > 0 \<or> over, v1_pb7 := (v1_pb7 ?w \<noteq> odd (q + of_bool over))\<rparr>)"
    using t1_closed_form [of ?w r q] assms by (simp add: t1_of_def N_def)
  finally show ?thesis by (simp add: t1_of_def Let_def)
qed

definition free_chip :: "bool via_state" where
  "free_chip = upd_via (\<lambda>v. v\<lparr>t1_active := True, t1_running := True, t1_reload := False,
     t1_counter := 2, t1_latch := 2, acr := 0x40\<rparr>) flag_chip"

lemma t1_free_run_witness:
  "t1_counter (via (via_update flag_wire 9 free_chip)) = 1 \<and> \<not> t1_reload (via (via_update flag_wire 9 free_chip)) \<and>
   ifr (via (via_update flag_wire 9 free_chip)) AND VIA_INT_T1 \<noteq> 0 \<and> pb7_pin (via (via_update flag_wire 9 free_chip))"
proof -
  have "t1_active (via free_chip)" "t1_running (via free_chip)" "\<not> t1_reload (via free_chip)"
      "t1_counter (via free_chip) = 2" "t1_latch (via free_chip) = 2" "acr (via free_chip) AND 0x40 \<noteq> 0"
      "via_pending (via free_chip) = 0" "pb7_pin (via free_chip)"
    by (simp_all add: free_chip_def flag_chip_rest upd_via_def) (simp add: flag_chip_def via_reset_def)
  then show ?thesis
    using t1_free_run [of free_chip 1 flag_wire 2] by (simp add: Let_def)
qed

text \<open>
  Timer 1 in one-shot mode.  After a write of \<open>T1C-H\<close> the flag is set and PB7 goes high \<open>N + 2\<close>
  cycles later, once; in between the counter shows \<open>N\<close> on the first cycle and counts down.
\<close>

theorem t1_one_shot:
  fixes s :: "'u via_state" and x :: u8
  defines "N \<equiv> unat (hilo x (lo8 (t1_latch (via s))))"
  assumes "acr (via s) AND 0x40 = 0"
  shows "let v = via (via_update hk (int k) (via_write hk 0x05 x s)) in
    ((ifr v AND VIA_INT_T1 \<noteq> 0) \<longleftrightarrow> k \<ge> N + 2) \<and> (pb7_pin v \<longleftrightarrow> k \<ge> N + 2) \<and>
    (0 < k \<and> k \<le> N + 1 \<longrightarrow> t1_counter v = of_nat (N + 1 - k))"
proof -
  let ?s = "via_write hk 0x05 x s" and ?l = "hilo x (lo8 (t1_latch (via s)))"
  have zero: "(a AND NOT 0x40) AND (0x40 :: u8) = 0" for a
    by (rule bit_word_eqI) (auto simp: bit_simps)
  have s: "?s = via_check_irq hk (upd_via (via_write_t1ch x) (upd_via via_sync s))"
    by (simp add: via_write_def Let_def)
  have sync: "t1_latch (via_sync v) = t1_latch v" "acr (via_sync v) = acr v" "via_pending (via_sync v) = 0" for v
    by (simp_all add: via_sync_def Let_def)
  define w where "w = t1_of (via ?s)"
  have w: "w = \<lparr>v1_counter = ?l, v1_latch = ?l, v1_running = True, v1_reload = True, v1_pb7 = False,
      v1_flag = False, v1_free = False, v1_active = True\<rparr>"
    unfolding w_def s t1_of_check using assms(2)
    by (simp add: upd_via_def via_write_t1ch_def Let_def sync t1_of_def zero [simplified])
  have "t1_active (via ?s)" "via_pending (via ?s) = 0"
    by (simp_all add: s check_irq_via upd_via_def via_write_t1ch_def Let_def sync)
  then have "t1_of (via (via_update hk (int k) ?s)) = (t1_next ^^ k) w"
    using update_t1 [of ?s hk "int k"] by (simp add: w_def)
  then have v: "v1_flag ((t1_next ^^ k) w) = (ifr (via (via_update hk (int k) ?s)) AND 0x40 \<noteq> 0)"
      "v1_pb7 ((t1_next ^^ k) w) = pb7_pin (via (via_update hk (int k) ?s))"
      "v1_counter ((t1_next ^^ k) w) = t1_counter (via (via_update hk (int k) ?s))"
    by (metis t1_of_def t1_view.select_convs)+
  have c: "?l - of_nat (k - 1) = of_nat (N + 1 - k)" if "0 < k" "k \<le> N + 1"
  proof -
    have "(of_nat (N + 1 - k) :: u16) = of_nat N - of_nat (k - 1)"
      using that by (simp add: of_nat_diff [symmetric])
    then show ?thesis by (simp add: N_def)
  qed
  show ?thesis
    using t1_single [of w k] c unfolding v by (simp add: w Let_def N_def)
qed

lemma t1_one_shot_witness:
  "ifr (via (via_update flag_wire 257 (via_write flag_wire 0x05 0x00 flag_chip))) AND VIA_INT_T1 \<noteq> 0"
  using t1_one_shot [of flag_chip flag_wire 257 0] 
  by (simp add: Let_def flag_chip_def via_reset_def hilo_def lo8_def)

text \<open>
  Timer 2 is a one-shot.  After a write of \<open>T2C-H\<close> in the timer mode the counter goes from
  \<open>N\<close> down one per cycle without end, and its flag is set \<open>N + 2\<close> cycles later.
\<close>

theorem t2_one_shot:
  fixes s :: "'u via_state" and x :: u8
  defines "N \<equiv> unat (hilo x (t2_latch (via s)))"
  assumes "acr (via s) AND 0x20 = 0" "\<not> via_t2_8bit (via s)" "t2_phi2 (via s)" "sr_t2_pending (via s) = 0"
    and "0 < k"
  shows "let v = via (via_update hk (int k) (via_write hk 0x09 x s)) in
    ((ifr v AND VIA_INT_T2 \<noteq> 0) \<longleftrightarrow> k \<ge> N + 2) \<and>
    t2_counter v = hilo x (t2_latch (via s)) - of_nat (k - 1)"
proof -
  let ?s = "via_write hk 0x09 x s"
  have zero: "(a AND NOT 0x20) AND (0x20 :: u8) = 0" for a
    by (rule bit_word_eqI) (auto simp: bit_simps)
  have s: "?s = via_check_irq hk (upd_via (via_write_t2ch x) (upd_via via_sync s))"
    by (simp add: via_write_def Let_def)
  have sync: "t2_latch (via_sync v) = t2_latch v" "acr (via_sync v) = acr v" "via_pending (via_sync v) = 0"
      "t2_phi2 (via_sync v) = t2_phi2 v" "sr_t2_pending (via_sync v) = sr_t2_pending v" for v
    by (simp_all add: via_sync_def Let_def)
  define w where "w = t2_of (via ?s)"
  have w: "w = \<lparr>v2_counter = hilo x (t2_latch (via s)), v2_running = True, v2_hold = True, v2_flag = False\<rparr>"
    unfolding w_def s t2_of_check
    by (simp add: upd_via_def via_write_t2ch_def sync t2_of_def zero [simplified])
  have "t2_counting (via_write_t2ch x (via_sync (via s)))"
    using assms by (simp add: via_write_t2ch_def t2_counting_def via_t2_8bit_def sync)
  then have "t2_counting (via ?s)" by (simp add: s via_simps)
  moreover have "via_pending (via ?s) = 0"
    by (simp add: s check_irq_via upd_via_def via_write_t2ch_def sync)
  ultimately have e: "(t2_next ^^ k) w = t2_of (via (via_update hk (int k) ?s))"
    using update_t2 [of ?s hk "int k"] by (simp add: w_def)
  then have "v2_flag ((t2_next ^^ k) w) = (ifr (via (via_update hk (int k) ?s)) AND 0x20 \<noteq> 0)"
      "v2_counter ((t2_next ^^ k) w) = t2_counter (via (via_update hk (int k) ?s))"
    unfolding e by (simp_all add: t2_of_def)
  then show ?thesis
    using t2_single [of w k] assms(6) by (simp add: w Let_def N_def)
qed

lemma t2_one_shot_witness:
  "ifr (via (via_update flag_wire 257 (via_write flag_wire 0x09 0x00 flag_chip))) AND VIA_INT_T2 \<noteq> 0 \<and>
   t2_counter (via (via_update flag_wire 257 (via_write flag_wire 0x09 0x00 flag_chip))) = - 1"
  using t2_one_shot [of flag_chip 257 flag_wire 0]
  by (simp add: Let_def flag_chip_def via_reset_def hilo_def via_t2_8bit_def)

end
