(* ===== verification/Ay3891x.thy ===== *)
theory Ay3891x
  imports Prelude
begin

unbundle bit_operations_syntax

text \<open>
  The AY-3-8912 sound generator (\<open>include/audio/audio.h\<close>, \<open>src/audio/ay3891x.c\<close>): its registers,
  the three tone generators, the noise and the envelope, the output stage, and the queue of
  time-stamped register writes between the CPU thread and the audio thread.  The fields that
  \<open>ay3891x_t\<close> and \<open>ay_play_t\<close> have in common are the record \<open>ay_gen\<close>, held by both.  Samples are
  \<open>int\<close>; the casts of the code to \<open>int16_t\<close> are written \<open>i16\<close>.  The shifts of a negative \<open>int32_t\<close>
  are arithmetic.  The two threads are interleaved at whole calls.
\<close>

section \<open>State\<close>

abbreviation AY_NUM_REGISTERS :: nat where "AY_NUM_REGISTERS \<equiv> 16"
abbreviation AUDIO_SAMPLE_RATE :: "64 word" where "AUDIO_SAMPLE_RATE \<equiv> 44100"
abbreviation AY_EVENT_QUEUE_SIZE :: u32 where "AY_EVENT_QUEUE_SIZE \<equiv> 4096"

record ay_event_t =
  ev_cycle :: "64 word"
  ev_reg :: u8
  ev_val :: u8

record ay_gen =
  tone_period :: "u16 list"
  tone_counter :: "u32 list"
  tone_output :: "u8 list"
  noise_period :: u16
  noise_counter :: u32
  noise_shift :: u32
  noise_output :: u8
  env_period :: u16
  env_counter :: u32
  env_shape :: u8
  env_step :: u8
  env_volume :: u8
  env_holding :: bool

record ay_play_t =
  sregs :: "u8 list"
  pgen :: ay_gen
  step_acc :: u32

record ay3891x_t =
  registers :: "u8 list"
  selected_reg :: u8
  dc_acc :: int
  dc_block_off :: bool
  agen :: ay_gen
  clock_rate :: u32
  play :: ay_play_t
  evq :: "ay_event_t list"
  evq_head :: u32
  evq_tail :: u32
  cur_cycle :: "64 word"
  last_gen_cycle :: "64 word"
  timed_mode :: bool
  play_seeded :: bool

definition gen_zero :: ay_gen where
  "gen_zero = \<lparr>tone_period = [0, 0, 0], tone_counter = [0, 0, 0], tone_output = [0, 0, 0],
     noise_period = 0, noise_counter = 0, noise_shift = 1, noise_output = 0, env_period = 0,
     env_counter = 0, env_shape = 0, env_step = 0, env_volume = 0, env_holding = False\<rparr>"

definition ay_init :: "u32 \<Rightarrow> ay3891x_t" where
  "ay_init clock =
     (let rs = replicate 14 0 @ [0xFF, 0xFF] in
      \<lparr>registers = rs, selected_reg = 0, dc_acc = 0, dc_block_off = False, agen = gen_zero,
       clock_rate = clock, play = \<lparr>sregs = rs, pgen = gen_zero, step_acc = 0\<rparr>,
       evq = replicate 4096 \<lparr>ev_cycle = 0, ev_reg = 0, ev_val = 0\<rparr>, evq_head = 0, evq_tail = 0,
       cur_cycle = 0, last_gen_cycle = 0, timed_mode = False, play_seeded = False\<rparr>)"

text \<open>
  The code also clears the callback of port A, which is an argument of the data read here; nothing
  in the program calls \<open>ay_reset\<close>.
\<close>

definition ay_reset :: "ay3891x_t \<Rightarrow> ay3891x_t" where
  "ay_reset ay = ay_init (clock_rate ay)"

section \<open>Registers\<close>

definition ay_write_address :: "u8 \<Rightarrow> ay3891x_t \<Rightarrow> ay3891x_t" where
  "ay_write_address addr ay = ay\<lparr>selected_reg := addr AND 0x0F\<rparr>"

definition apply_sound_regs :: "u8 list \<Rightarrow> u8 \<Rightarrow> ay_gen \<Rightarrow> ay_gen" where
  "apply_sound_regs regs r g =
     (if r = 0 \<or> r = 1 then
        g\<lparr>tone_period := (tone_period g)[0 := hilo (regs ! 1 AND 0x0F) (regs ! 0)]\<rparr>
      else if r = 2 \<or> r = 3 then
        g\<lparr>tone_period := (tone_period g)[1 := hilo (regs ! 3 AND 0x0F) (regs ! 2)]\<rparr>
      else if r = 4 \<or> r = 5 then
        g\<lparr>tone_period := (tone_period g)[2 := hilo (regs ! 5 AND 0x0F) (regs ! 4)]\<rparr>
      else if r = 6 then g\<lparr>noise_period := ucast (regs ! 6 AND 0x1F)\<rparr>
      else if r = 11 \<or> r = 12 then g\<lparr>env_period := hilo (regs ! 12) (regs ! 11)\<rparr>
      else if r = 13 then
        g\<lparr>env_shape := regs ! 13 AND 0x0F, env_step := 0, env_counter := 0, env_holding := False\<rparr>
      else g)"

definition apply_sound_main :: "u8 \<Rightarrow> ay3891x_t \<Rightarrow> ay3891x_t" where
  "apply_sound_main r ay = ay\<lparr>agen := apply_sound_regs (registers ay) r (agen ay)\<rparr>"

definition apply_sound_play :: "u8 \<Rightarrow> ay_play_t \<Rightarrow> ay_play_t" where
  "apply_sound_play r st = st\<lparr>pgen := apply_sound_regs (sregs st) r (pgen st)\<rparr>"

definition ay_write_data :: "u8 \<Rightarrow> ay3891x_t \<Rightarrow> ay3891x_t" where
  "ay_write_data data ay =
     (if unat (selected_reg ay) \<ge> AY_NUM_REGISTERS then ay
      else apply_sound_main (selected_reg ay)
        (ay\<lparr>registers := (registers ay)[unat (selected_reg ay) := data]\<rparr>))"

text \<open>\<open>seed_play\<close>; \<open>mirror_main_to_play\<close> has the same body.\<close>

definition seed_play :: "ay3891x_t \<Rightarrow> ay3891x_t" where
  "seed_play ay =
     (let g = agen ay;
          g1 = g\<lparr>noise_shift := (if noise_shift g \<noteq> 0 then noise_shift g else 1)\<rparr>
      in ay\<lparr>play := (play ay)\<lparr>sregs := registers ay, pgen := g1\<rparr>\<rparr>)"

text \<open>The producer: the queue is full when advancing the head would reach the tail.\<close>

definition ay_enqueue :: "ay_event_t \<Rightarrow> ay3891x_t \<Rightarrow> ay3891x_t" where
  "ay_enqueue e ay =
     (let nxt = (evq_head ay + 1) AND (AY_EVENT_QUEUE_SIZE - 1)
      in if nxt = evq_tail ay then ay
         else ay\<lparr>evq := (evq ay)[unat (evq_head ay) := e], evq_head := nxt, cur_cycle := ev_cycle e\<rparr>)"

definition ay_write_data_timed :: "u8 \<Rightarrow> 64 word \<Rightarrow> ay3891x_t \<Rightarrow> ay3891x_t" where
  "ay_write_data_timed data cyc ay =
     (let r = selected_reg ay in
      if unat r \<ge> AY_NUM_REGISTERS then ay
      else
        let ay1 = apply_sound_main r (ay\<lparr>registers := (registers ay)[unat r := data]\<rparr>)
        in if r \<ge> 14 then ay1
           else
             let ay2 = (if play_seeded ay1 then ay1 else (seed_play ay1)\<lparr>play_seeded := True\<rparr>);
                 ay3 = ay2\<lparr>timed_mode := True\<rparr>
             in ay_enqueue \<lparr>ev_cycle = cyc, ev_reg = r, ev_val = data\<rparr> ay3)"

definition ay_sound_resync :: "ay3891x_t \<Rightarrow> ay3891x_t" where
  "ay_sound_resync ay =
     (let ay1 = seed_play ay
      in ay1\<lparr>evq_tail := evq_head ay1, last_gen_cycle := 0, play_seeded := True\<rparr>)"

text \<open>\<open>porta\<close> is what the \<open>porta_input\<close> callback returns, \<open>None\<close> when there is none.\<close>

definition ay_read_data :: "u8 option \<Rightarrow> ay3891x_t \<Rightarrow> u8" where
  "ay_read_data porta ay =
     (if unat (selected_reg ay) \<ge> AY_NUM_REGISTERS then 0xFF
      else if selected_reg ay = 14 \<and> registers ay ! 7 AND 0x40 \<noteq> 0 then
        (case porta of Some x \<Rightarrow> x | None \<Rightarrow> 0xFF)
      else registers ay ! unat (selected_reg ay))"

section \<open>Generators\<close>

definition envelope_volume :: "u8 \<Rightarrow> u8 \<Rightarrow> u8" where
  "envelope_volume shape step =
     (let s = step AND 0x1F; first_half = (s < 16); pos = s AND 0x0F;
          attack = (shape AND 0x04 \<noteq> 0); alternate = (shape AND 0x02 \<noteq> 0);
          hold = (shape AND 0x01 \<noteq> 0)
      in if shape AND 0x08 = 0 then
           (if s \<ge> 16 then 0 else if attack then pos else 15 - pos)
         else if hold then
           (if s \<ge> 16 then
              (if alternate then (if attack then 0 else 15) else if attack then 15 else 0)
            else if attack then pos else 15 - pos)
         else if alternate then
           (if first_half then (if attack then pos else 15 - pos)
            else if attack then 15 - pos else pos)
         else if attack then pos else 15 - pos)"

definition tone_tick :: "nat \<Rightarrow> ay_gen \<Rightarrow> ay_gen" where
  "tone_tick ch g =
     (let p = (if tone_period g ! ch = 0 then 1 else ucast (tone_period g ! ch) :: u32);
          c = tone_counter g ! ch + 1
      in if c \<ge> p then
           g\<lparr>tone_counter := (tone_counter g)[ch := 0],
             tone_output := (tone_output g)[ch := tone_output g ! ch XOR 1]\<rparr>
         else g\<lparr>tone_counter := (tone_counter g)[ch := c]\<rparr>)"

definition noise_tick :: "ay_gen \<Rightarrow> ay_gen" where
  "noise_tick g =
     (let np = (if noise_period g \<noteq> 0 then ucast (noise_period g) else 1) :: u32;
          c = noise_counter g + 1
      in if c \<ge> np * 2 then
           (let b = (noise_shift g XOR drop_bit 3 (noise_shift g)) AND 1;
                sh = drop_bit 1 (noise_shift g) OR push_bit 16 b
            in g\<lparr>noise_counter := 0, noise_shift := sh, noise_output := ucast (sh AND 1)\<rparr>)
         else g\<lparr>noise_counter := c\<rparr>)"

definition env_tick :: "ay_gen \<Rightarrow> ay_gen" where
  "env_tick g =
     (if env_period g \<noteq> 0 \<and> \<not> env_holding g then
        let c = env_counter g + 1 in
        if c \<ge> ucast (env_period g) then
          let st = env_step g + 1; g1 = g\<lparr>env_counter := 0, env_step := st\<rparr> in
          if st \<ge> 32 then
            (if env_shape g AND 0x08 = 0 then g1\<lparr>env_holding := True, env_step := 31\<rparr>
             else if env_shape g AND 0x01 \<noteq> 0 then g1\<lparr>env_holding := True, env_step := st AND 0x1F\<rparr>
             else g1\<lparr>env_step := st AND 0x1F\<rparr>)
          else g1
        else g\<lparr>env_counter := c\<rparr>
      else g)"

definition ay_tick_gen :: "ay_gen \<Rightarrow> ay_gen" where
  "ay_tick_gen g0 =
     (let g = env_tick (noise_tick (tone_tick 2 (tone_tick 1 (tone_tick 0 g0))))
      in g\<lparr>env_volume := envelope_volume (env_shape g) (env_step g)\<rparr>)"

definition ay_tick :: "ay_play_t \<Rightarrow> ay_play_t" where
  "ay_tick st = st\<lparr>pgen := ay_tick_gen (pgen st)\<rparr>"

section \<open>Output\<close>

definition voltab :: "int list" where
  "voltab = [0, 513 div 4, 828 div 4, 1239 div 4, 1923 div 4, 3238 div 4, 4926 div 4, 9110 div 4,
     10344 div 4, 17876 div 4, 24682 div 4, 30442 div 4, 38844 div 4, 47270 div 4, 56402 div 4,
     65535 div 4]"

definition channel_mix :: "ay_play_t \<Rightarrow> nat \<Rightarrow> int" where
  "channel_mix st ch =
     (let mixer = sregs st ! 7;
          tone_dis = (drop_bit ch mixer AND 1 \<noteq> 0);
          noise_dis = (drop_bit (ch + 3) mixer AND 1 \<noteq> 0);
          out = ((tone_output (pgen st) ! ch OR (if tone_dis then 1 else 0)) AND
                 (noise_output (pgen st) OR (if noise_dis then 1 else 0)) \<noteq> 0);
          vol_reg = sregs st ! (8 + ch);
          vol_idx = (if vol_reg AND 0x10 \<noteq> 0 then env_volume (pgen st) else vol_reg AND 0x0F)
      in if out then voltab ! unat vol_idx else 0)"

definition ay_mix :: "ay_play_t \<Rightarrow> int" where
  "ay_mix st = (channel_mix st 0 + channel_mix st 1 + channel_mix st 2) div 3"

definition i16 :: "int \<Rightarrow> int" where
  "i16 x = signed_take_bit 15 x"

definition ay_dc_block :: "int \<Rightarrow> ay3891x_t \<Rightarrow> int \<times> ay3891x_t" where
  "ay_dc_block x ay =
     (if dc_block_off ay then (i16 x, ay)
      else
        let acc = dc_acc ay + (x * 65536 - dc_acc ay) div 4096;
            y = x - acc div 65536;
            y1 = (if y > 32767 then 32767 else y);
            y2 = (if y1 < - 32768 then - 32768 else y1)
        in (i16 y2, ay\<lparr>dc_acc := acc\<rparr>))"

fun ay_integrate :: "nat \<Rightarrow> int \<Rightarrow> ay_play_t \<Rightarrow> int \<times> ay_play_t" where
  "ay_integrate 0 level_sum st = (level_sum, st)"
| "ay_integrate (Suc k) level_sum st = (let st1 = ay_tick st in ay_integrate k (level_sum + ay_mix st1) st1)"

definition ay_step_sample :: "u32 \<Rightarrow> ay_play_t \<Rightarrow> int \<times> ay_play_t" where
  "ay_step_sample steps st =
     (let acc = step_acc st + steps; n = drop_bit 16 acc; st1 = st\<lparr>step_acc := acc AND 0xFFFF\<rparr>
      in if n = 0 then (i16 (ay_mix st1), st1)
         else
           let (level_sum, st2) = ay_integrate (unat n) 0 st1
           in (i16 (level_sum div int (unat n)), st2))"

section \<open>Rendering a buffer\<close>

definition ay_steps_q16 :: "ay3891x_t \<Rightarrow> u32" where
  "ay_steps_q16 ay = ucast ((push_bit 16 (ucast (clock_rate ay div 8)) :: 64 word) div AUDIO_SAMPLE_RATE)"

definition ay_sample :: "ay3891x_t \<Rightarrow> int \<times> ay3891x_t" where
  "ay_sample ay =
     (let (x, st) = ay_step_sample (ay_steps_q16 ay) (play ay)
      in ay_dc_block x (ay\<lparr>play := st\<rparr>))"

fun ay_immediate :: "nat \<Rightarrow> ay3891x_t \<Rightarrow> int list \<times> ay3891x_t" where
  "ay_immediate 0 ay = ([], ay)"
| "ay_immediate (Suc n) ay =
     (let (s, ay1) = ay_sample ay; (rest, ay2) = ay_immediate n ay1 in (s # s # rest, ay2))"

definition copy_play_runtime_to_main :: "ay3891x_t \<Rightarrow> ay3891x_t" where
  "copy_play_runtime_to_main ay =
     (let p = pgen (play ay)
      in ay\<lparr>agen := (agen ay)\<lparr>tone_counter := tone_counter p, tone_output := tone_output p,
           noise_counter := noise_counter p, noise_shift := noise_shift p,
           noise_output := noise_output p, env_counter := env_counter p, env_step := env_step p,
           env_volume := env_volume p, env_holding := env_holding p\<rparr>\<rparr>)"

text \<open>The sample of the buffer at which a queued write takes effect.\<close>

definition ay_offset :: "64 word \<Rightarrow> 64 word \<Rightarrow> nat \<Rightarrow> 64 word \<Rightarrow> nat" where
  "ay_offset span_start span num c =
     (if span = 0 then 0
      else
        let rel = (if c > span_start then c - span_start else 0);
            off = rel * of_nat num div span
        in if off \<ge> of_nat num then num - 1 else unat off)"

text \<open>The \<open>while (ev != head)\<close> loop, with the size of the queue as fuel.\<close>

fun ay_replay :: "nat \<Rightarrow> ay_event_t list \<Rightarrow> u32 \<Rightarrow> (64 word \<Rightarrow> nat) \<Rightarrow> nat \<Rightarrow> u32 \<Rightarrow> ay_play_t \<Rightarrow>
    u32 \<times> ay_play_t" where
  "ay_replay 0 q head off i ev st = (ev, st)"
| "ay_replay (Suc k) q head off i ev st =
     (if ev = head then (ev, st)
      else
        let e = q ! unat ev in
        if off (ev_cycle e) > i then (ev, st)
        else
          ay_replay k q head off i ((ev + 1) AND (AY_EVENT_QUEUE_SIZE - 1))
            (apply_sound_play (ev_reg e) (st\<lparr>sregs := (sregs st)[unat (ev_reg e) := ev_val e]\<rparr>)))"

fun ay_timed :: "u32 \<Rightarrow> (64 word \<Rightarrow> nat) \<Rightarrow> nat \<Rightarrow> nat \<Rightarrow> u32 \<Rightarrow> ay3891x_t \<Rightarrow>
    int list \<times> u32 \<times> ay3891x_t" where
  "ay_timed head off 0 i ev ay = ([], ev, ay)"
| "ay_timed head off (Suc n) i ev ay =
     (let (ev1, st) = ay_replay 4096 (evq ay) head off i ev (play ay);
          (s, ay1) = ay_sample (ay\<lparr>play := st\<rparr>);
          (rest, ev2, ay2) = ay_timed head off n (Suc i) ev1 ay1
      in (s # s # rest, ev2, ay2))"

definition ay_generate :: "nat \<Rightarrow> ay3891x_t \<Rightarrow> int list \<times> ay3891x_t" where
  "ay_generate num ay =
     (if \<not> timed_mode ay then
        (let (buf, ay1) = ay_immediate num (seed_play ay) in (buf, copy_play_runtime_to_main ay1))
      else
        let tail = evq_tail ay; head = evq_head ay; span_end = cur_cycle ay;
            s0 = last_gen_cycle ay;
            s1 = (if s0 = 0 \<and> head \<noteq> tail then ev_cycle (evq ay ! unat tail) else s0);
            span_start = (if s1 > span_end then span_end else s1);
            span = (if span_end > span_start then span_end - span_start else 0);
            (buf, ev, ay1) = ay_timed head (ay_offset span_start span num) num 0 tail ay
        in (buf, ay1\<lparr>evq_tail := head, last_gen_cycle := span_end\<rparr>))"

end
