(* ===== verification/Ay_Invariant.thy ===== *)
theory Ay_Invariant
  imports Ay3891x
begin

unbundle bit_operations_syntax

text \<open>
  The invariant of the sound generator: array sizes, the ranges that keep every table index and
  every fixed-point value inside its C type, the noise register that never reaches zero, the
  period registers as a function of the bytes written, and the queue indices.
\<close>

section \<open>Generators\<close>

definition gen_ok :: "ay_gen \<Rightarrow> bool" where
  "gen_ok g \<longleftrightarrow> length (tone_period g) = 3 \<and> length (tone_counter g) = 3 \<and> length (tone_output g) = 3 \<and>
     env_step g < 32 \<and> env_volume g < 16 \<and> noise_shift g \<noteq> 0 \<and> noise_shift g < 0x20000"

text \<open>The periods are those of the register bytes.\<close>

definition periods_ok :: "u8 list \<Rightarrow> ay_gen \<Rightarrow> bool" where
  "periods_ok rs g \<longleftrightarrow>
     tone_period g = [hilo (rs ! 1 AND 0x0F) (rs ! 0), hilo (rs ! 3 AND 0x0F) (rs ! 2), hilo (rs ! 5 AND 0x0F) (rs ! 4)] \<and>
     noise_period g = ucast (rs ! 6 AND 0x1F) \<and> env_period g = hilo (rs ! 12) (rs ! 11) \<and>
     env_shape g = rs ! 13 AND 0x0F"

lemma envelope_volume_less: "envelope_volume shape step < 16"
proof -
  define pos where "pos = (step AND 0x1F) AND (0x0F :: u8)"
  have "pos < 16" unfolding pos_def by (rule and_less) simp
  moreover from this have "15 - pos < 16" by (simp add: word_less_nat_alt unat_sub word_le_nat_alt)
  ultimately show ?thesis
    unfolding envelope_volume_def Let_def pos_def [symmetric] by auto
qed

lemma tone_tick_ok: "gen_ok g \<Longrightarrow> gen_ok (tone_tick ch g)"
  by (auto simp: gen_ok_def tone_tick_def Let_def)

lemma bits_below_17:
  fixes y :: u32
  assumes "\<And>n. n \<ge> 17 \<Longrightarrow> \<not> bit y n"
  shows "y < 0x20000"
proof -
  have "take_bit 17 y = y" by (rule bit_word_eqI) (metis assms bit_take_bit_iff not_le)
  then have "unat y = take_bit 17 (unat y)" by (metis unsigned_take_bit_eq)
  then have "unat y < 2 ^ 17" by (metis take_bit_nat_less_exp)
  then show ?thesis by (simp add: word_less_nat_alt)
qed

lemma lfsr_nonzero:
  fixes x :: u32
  assumes "x \<noteq> 0" "x < 0x20000"
  defines "b \<equiv> (x XOR drop_bit 3 x) AND 1"
  shows "drop_bit 1 x OR push_bit 16 b \<noteq> 0" "drop_bit 1 x OR push_bit 16 b < 0x20000"
proof -
  have bb: "bit b m \<longleftrightarrow> m = 0 \<and> (bit x 0 \<noteq> bit x 3)" for m
    unfolding b_def by (simp only: bit_and_iff bit_1_iff bit_xor_iff bit_drop_bit_eq o_apply) auto
  have len: "bit x (Suc n) \<Longrightarrow> n < 32" for n using bit_imp_le_length [of x "Suc n"] by simp
  have bits: "bit (drop_bit 1 x OR push_bit 16 b) n \<longleftrightarrow> bit x (Suc n) \<or> n = 16 \<and> (bit x 0 \<noteq> bit x 3)" for n
    unfolding bit_or_iff bit_push_bit_iff bit_drop_bit_eq o_apply bb possible_bit_word
    by (cases "n = 16") auto
  have hi: "\<not> bit x n" if "n \<ge> 17" for n
  proof -
    have "take_bit 17 x = x" using assms(2) by (simp add: word_unat_eq_iff unsigned_take_bit_eq take_bit_nat_eq_self word_less_nat_alt)
    then show ?thesis using that by (metis bit_take_bit_iff leD)
  qed
  show "drop_bit 1 x OR push_bit 16 b \<noteq> 0"
  proof
    assume "drop_bit 1 x OR push_bit 16 b = 0"
    then have z: "\<not> bit x (Suc n)" for n using bits [of n] by simp
    have "bit x 0 = bit x 3" using bits [of 16] \<open>drop_bit 1 x OR push_bit 16 b = 0\<close> by auto
    moreover have "\<not> bit x 3" using z [of 2] by (simp add: numeral_3_eq_3)
    ultimately have "\<not> bit x n" for n using z [of "n - 1"] hi [of n] by (cases n) (auto simp: not_le)
    then have "x = 0" by (intro bit_word_eqI) auto
    with assms(1) show False by simp
  qed
  show "drop_bit 1 x OR push_bit 16 b < 0x20000"
    by (rule bits_below_17) (simp only: bits, use hi in auto)
qed

lemma noise_tick_ok: "gen_ok g \<Longrightarrow> gen_ok (noise_tick g)"
  using lfsr_nonzero [of "noise_shift g"] by (auto simp: gen_ok_def noise_tick_def Let_def)

lemma env_tick_ok: "gen_ok g \<Longrightarrow> gen_ok (env_tick g)"
proof -
  have "x AND 0x1F < (32 :: u8)" for x by (rule and_less) simp
  then show "gen_ok g \<Longrightarrow> gen_ok (env_tick g)"
    by (auto simp: gen_ok_def env_tick_def Let_def not_le)
qed

lemma tick_gen_ok: "gen_ok g \<Longrightarrow> gen_ok (ay_tick_gen g)"
proof -
  assume "gen_ok g"
  then have "gen_ok (env_tick (noise_tick (tone_tick 2 (tone_tick 1 (tone_tick 0 g)))))"
    by (intro env_tick_ok noise_tick_ok tone_tick_ok)
  then show ?thesis by (simp add: ay_tick_gen_def Let_def gen_ok_def envelope_volume_less)
qed

lemma ticks_periods:
  "periods_ok rs (tone_tick ch g) = periods_ok rs g" "periods_ok rs (noise_tick g) = periods_ok rs g"
  "periods_ok rs (env_tick g) = periods_ok rs g" "periods_ok rs (ay_tick_gen g) = periods_ok rs g"
proof -
  show *: "periods_ok rs (tone_tick ch g) = periods_ok rs g" "periods_ok rs (noise_tick g) = periods_ok rs g"
    "periods_ok rs (env_tick g) = periods_ok rs g" for ch g
    by (simp_all add: periods_ok_def tone_tick_def noise_tick_def env_tick_def Let_def)
  have "periods_ok rs (g\<lparr>env_volume := x\<rparr>) = periods_ok rs g" for g x by (simp add: periods_ok_def)
  then show "periods_ok rs (ay_tick_gen g) = periods_ok rs g" by (simp add: ay_tick_gen_def Let_def *)
qed

lemma apply_sound_ok: "gen_ok g \<Longrightarrow> gen_ok (apply_sound_regs rs r g)"
  by (auto simp: gen_ok_def apply_sound_regs_def)

lemma apply_sound_periods:
  assumes "periods_ok rs g" "length rs = 16" "unat r < 16"
  shows "periods_ok (rs[unat r := x]) (apply_sound_regs (rs[unat r := x]) r g)"
proof -
  have "list_all (\<lambda>n. (of_nat n :: u8) \<in> set [0, 1, 2, 3, 4, 5, 6, 7, 8, 9, 10, 11, 12, 13, 14, 15]) [0..<16]"
    by (simp add: upt_rec)
  then have "(of_nat (unat r) :: u8) \<in> set [0, 1, 2, 3, 4, 5, 6, 7, 8, 9, 10, 11, 12, 13, 14, 15]"
    using assms(3) by (auto simp only: list_all_iff set_upt atLeastLessThan_iff)
  then have "r \<in> {0, 1, 2, 3, 4, 5, 6, 7, 8, 9, 10, 11, 12, 13, 14, 15}" by simp
  then show ?thesis
    using assms(1,2) by (elim insertE emptyE) (simp_all add: periods_ok_def apply_sound_regs_def)
qed

section \<open>The output stage\<close>

definition play_ok :: "ay_play_t \<Rightarrow> bool" where
  "play_ok st \<longleftrightarrow> length (sregs st) = 16 \<and> gen_ok (pgen st) \<and> periods_ok (sregs st) (pgen st)"

text \<open>The largest level of one channel, and the largest value of the DC estimator.\<close>

definition ay_peak :: int where
  "ay_peak = 16383"

lemma voltab_range: "k < 16 \<Longrightarrow> 0 \<le> voltab ! k \<and> voltab ! k \<le> ay_peak"
proof -
  have "list_all (\<lambda>x. 0 \<le> x \<and> x \<le> ay_peak) voltab" by (simp add: voltab_def ay_peak_def)
  moreover have "length voltab = 16" by (simp add: voltab_def)
  ultimately show "k < 16 \<Longrightarrow> 0 \<le> voltab ! k \<and> voltab ! k \<le> ay_peak" by (simp add: list_all_length)
qed

lemma channel_mix_range: "gen_ok (pgen st) \<Longrightarrow> 0 \<le> channel_mix st ch \<and> channel_mix st ch \<le> ay_peak"
proof -
  assume g: "gen_ok (pgen st)"
  have "unat (env_volume (pgen st)) < 16" using g by (simp add: gen_ok_def word_less_nat_alt)
  moreover have "unat (x AND 0x0F :: u8) < 16" for x
    using and_less [of "0x0F" 16 x] by (simp add: word_less_nat_alt)
  ultimately show ?thesis
    by (simp add: channel_mix_def Let_def voltab_range) (simp add: ay_peak_def)
qed

lemma ay_mix_range: "gen_ok (pgen st) \<Longrightarrow> 0 \<le> ay_mix st \<and> ay_mix st \<le> ay_peak"
  using channel_mix_range [of st 0] channel_mix_range [of st 1] channel_mix_range [of st 2]
  by (auto simp: ay_mix_def)

lemma i16_id: "- 32768 \<le> x \<Longrightarrow> x \<le> 32767 \<Longrightarrow> i16 x = x"
  by (simp add: i16_def signed_take_bit_int_eq_self)

lemma tick_play_ok: "play_ok st \<Longrightarrow> play_ok (ay_tick st)"
  by (simp add: play_ok_def ay_tick_def tick_gen_ok ticks_periods)

lemma integrate_range:
  assumes "play_ok st"
  shows "play_ok (snd (ay_integrate k a st)) \<and> a \<le> fst (ay_integrate k a st) \<and>
    fst (ay_integrate k a st) \<le> a + int k * ay_peak \<and> sregs (snd (ay_integrate k a st)) = sregs st"
  using assms
proof (induction k arbitrary: a st)
  case (Suc k)
  have ok: "play_ok (ay_tick st)" using Suc.prems by (rule tick_play_ok)
  then have "0 \<le> ay_mix (ay_tick st)" "ay_mix (ay_tick st) \<le> ay_peak"
    using ay_mix_range by (auto simp: play_ok_def)
  with Suc.IH [OF ok, of "a + ay_mix (ay_tick st)"] show ?case
    by (simp add: Let_def algebra_simps) (simp add: ay_tick_def)
qed simp

lemma step_sample_range:
  assumes "play_ok st"
  shows "play_ok (snd (ay_step_sample n st)) \<and> 0 \<le> fst (ay_step_sample n st) \<and>
    fst (ay_step_sample n st) \<le> ay_peak \<and> sregs (snd (ay_step_sample n st)) = sregs st"
proof -
  define acc where "acc = step_acc st + n"
  define st1 where "st1 = st\<lparr>step_acc := acc AND 0xFFFF\<rparr>"
  define m where "m = drop_bit 16 acc"
  have 1: "play_ok st1" "sregs st1 = sregs st" using assms by (simp_all add: st1_def play_ok_def)
  have peak: "ay_peak \<le> 32767" by (simp add: ay_peak_def)
  show ?thesis
  proof (cases "m = 0")
    case True
    then have "ay_step_sample n st = (i16 (ay_mix st1), st1)"
      by (simp add: ay_step_sample_def Let_def m_def acc_def st1_def)
    then show ?thesis using 1 ay_mix_range [of st1] peak by (auto simp: i16_id play_ok_def)
  next
    case False
    define r where "r = ay_integrate (unat m) 0 st1"
    have s: "ay_step_sample n st = (i16 (fst r div int (unat m)), snd r)"
      using False by (simp add: ay_step_sample_def Let_def m_def acc_def st1_def r_def split_beta)
    have r: "play_ok (snd r)" "0 \<le> fst r" "fst r \<le> int (unat m) * ay_peak" "sregs (snd r) = sregs st"
      using integrate_range [OF 1(1), of "unat m" 0] 1(2) by (simp_all add: r_def)
    have "unat m \<noteq> 0" using False by (simp add: unat_eq_zero)
    then have m: "0 < int (unat m)" by linarith
    have "fst r div int (unat m) \<le> (int (unat m) * ay_peak) div int (unat m)"
      using r(3) m by (rule zdiv_mono1)
    also have "\<dots> = ay_peak" using m by simp
    finally have "fst r div int (unat m) \<le> ay_peak" .
    moreover have "0 \<le> fst r div int (unat m)" using r(2) m by (simp add: pos_imp_zdiv_nonneg_iff)
    ultimately show ?thesis using s r peak by (simp add: i16_id)
  qed
qed

lemma dc_step:
  fixes a x :: int
  assumes "0 \<le> a" "a \<le> ay_peak * 65536" "0 \<le> x" "x \<le> ay_peak"
  shows "0 \<le> a + (x * 65536 - a) div 4096 \<and> a + (x * 65536 - a) div 4096 \<le> ay_peak * 65536"
proof -
  have "min 0 d \<le> d div 4096 \<and> d div 4096 \<le> max 0 d" for d :: int
  proof -
    have "d = 4096 * (d div 4096) + d mod 4096" "0 \<le> d mod 4096" "d mod 4096 < 4096" by simp_all
    then show ?thesis by (simp add: min_def max_def) linarith
  qed
  from this [of "x * 65536 - a"] have "min 0 (x * 65536 - a) \<le> (x * 65536 - a) div 4096"
      "(x * 65536 - a) div 4096 \<le> max 0 (x * 65536 - a)"
    by blast+
  moreover have "0 \<le> x * 65536" "x * 65536 \<le> ay_peak * 65536" using assms by simp_all
  ultimately show ?thesis using assms(1,2) by linarith
qed

lemma dc_block_range:
  assumes "0 \<le> dc_acc ay" "dc_acc ay \<le> ay_peak * 65536" "0 \<le> x" "x \<le> ay_peak"
  shows "0 \<le> dc_acc (snd (ay_dc_block x ay)) \<and> dc_acc (snd (ay_dc_block x ay)) \<le> ay_peak * 65536 \<and>
    \<bar>fst (ay_dc_block x ay)\<bar> \<le> ay_peak"
proof (cases "dc_block_off ay")
  case True
  then show ?thesis using assms by (simp add: ay_dc_block_def i16_id ay_peak_def)
next
  case False
  define acc where "acc = dc_acc ay + (x * 65536 - dc_acc ay) div 4096"
  have acc: "0 \<le> acc" "acc \<le> ay_peak * 65536" using dc_step [OF assms] by (simp_all add: acc_def)
  then have "0 \<le> acc div 65536" "acc div 65536 \<le> ay_peak" by (auto simp: ay_peak_def)
  then have y: "\<bar>x - acc div 65536\<bar> \<le> ay_peak" using assms by linarith
  have "ay_dc_block x ay = (i16 (x - acc div 65536), ay\<lparr>dc_acc := acc\<rparr>)"
    using False y by (auto simp: ay_dc_block_def Let_def acc_def [symmetric] ay_peak_def)
  then show ?thesis using acc y by (simp add: i16_id ay_peak_def)
qed

section \<open>The whole chip\<close>

definition queue_ok :: "ay3891x_t \<Rightarrow> bool" where
  "queue_ok ay \<longleftrightarrow> length (evq ay) = 4096 \<and> evq_head ay < 4096 \<and> evq_tail ay < 4096 \<and>
     list_all (\<lambda>e. ev_reg e < 14) (evq ay)"

definition ay_ok :: "ay3891x_t \<Rightarrow> bool" where
  "ay_ok ay \<longleftrightarrow> length (registers ay) = 16 \<and> selected_reg ay < 16 \<and> gen_ok (agen ay) \<and>
     periods_ok (registers ay) (agen ay) \<and> play_ok (play ay) \<and> 0 \<le> dc_acc ay \<and>
     dc_acc ay \<le> ay_peak * 65536 \<and> queue_ok ay"

lemma ay_sample_ok:
  assumes "ay_ok ay"
  shows "ay_ok (snd (ay_sample ay)) \<and> \<bar>fst (ay_sample ay)\<bar> \<le> ay_peak \<and>
    sregs (play (snd (ay_sample ay))) = sregs (play ay) \<and> evq (snd (ay_sample ay)) = evq ay \<and>
    evq_head (snd (ay_sample ay)) = evq_head ay \<and> evq_tail (snd (ay_sample ay)) = evq_tail ay \<and>
    registers (snd (ay_sample ay)) = registers ay \<and> timed_mode (snd (ay_sample ay)) = timed_mode ay \<and>
    play_seeded (snd (ay_sample ay)) = play_seeded ay"
proof -
  define r where "r = ay_step_sample (ay_steps_q16 ay) (play ay)"
  have r: "play_ok (snd r)" "0 \<le> fst r" "fst r \<le> ay_peak" "sregs (snd r) = sregs (play ay)"
    using step_sample_range [of "play ay" "ay_steps_q16 ay"] assms by (simp_all add: r_def ay_ok_def)
  define ay1 where "ay1 = ay\<lparr>play := snd r\<rparr>"
  have s: "ay_sample ay = ay_dc_block (fst r) ay1" by (simp add: ay_sample_def r_def ay1_def split_beta)
  have keep: "ay_dc_block x a = (y, b) \<Longrightarrow> b = a\<lparr>dc_acc := dc_acc b\<rparr>" for x y a b
    by (auto simp: ay_dc_block_def Let_def split: if_splits)
  have b: "snd (ay_sample ay) = ay1\<lparr>dc_acc := dc_acc (snd (ay_sample ay))\<rparr>"
    unfolding s by (rule keep) (rule prod.collapse [symmetric])
  define d where "d = dc_acc (snd (ay_sample ay))"
  have b': "snd (ay_sample ay) = ay1\<lparr>dc_acc := d\<rparr>" using b by (simp add: d_def)
  have "0 \<le> d \<and> d \<le> ay_peak * 65536 \<and> \<bar>fst (ay_sample ay)\<bar> \<le> ay_peak"
    unfolding d_def s using dc_block_range [of ay1 "fst r"] assms r by (simp add: ay1_def ay_ok_def)
  then show ?thesis using assms r unfolding b'
    by (simp add: ay1_def ay_ok_def queue_ok_def)
qed

end
