(* ===== verification/Ay_Queue.thy ===== *)
theory Ay_Queue
  imports Ay_Invariant
begin

unbundle bit_operations_syntax

text \<open>
  The queue of time-stamped writes as a list: \<open>pending\<close> is the content of the ring from the tail
  to the head.  The producer appends to it, or drops the write when 4095 are waiting; the renderer
  takes it from the front, and a rendered buffer leaves it empty with every write applied once, in
  order, to the shadow registers.
\<close>

section \<open>The ring\<close>

definition ring_next :: "u32 \<Rightarrow> u32" where
  "ring_next x = (x + 1) AND 0xFFF"

fun ring_slice :: "'a list \<Rightarrow> nat \<Rightarrow> u32 \<Rightarrow> 'a list" where
  "ring_slice q 0 p = []"
| "ring_slice q (Suc k) p = q ! unat p # ring_slice q k (ring_next p)"

definition ring_count :: "u32 \<Rightarrow> u32 \<Rightarrow> nat" where
  "ring_count h t = (if unat t \<le> unat h then unat h - unat t else unat h + 4096 - unat t)"

definition pending :: "ay3891x_t \<Rightarrow> ay_event_t list" where
  "pending ay = ring_slice (evq ay) (ring_count (evq_head ay) (evq_tail ay)) (evq_tail ay)"

lemma unat_ring_next: "x < 4096 \<Longrightarrow> unat (ring_next x) = (unat x + 1) mod 4096"
proof -
  assume "x < 4096"
  then have "unat x < 4096" by (simp add: word_less_nat_alt)
  then have "unat (x + 1) = unat x + 1" by (simp add: unat_word_ariths)
  moreover have "unat ((x + 1) AND 0xFFF) = unat (x + 1) mod 4096"
  proof -
    have "(0xFFF :: u32) = mask 12" by (simp add: mask_eq_exp_minus_1)
    then have "(x + 1) AND 0xFFF = take_bit 12 (x + 1)" by (simp only: take_bit_eq_mask)
    then show ?thesis by (simp only: unsigned_take_bit_eq) (simp add: take_bit_eq_mod)
  qed
  ultimately show ?thesis by (simp add: ring_next_def)
qed

lemma ring_next_less: "x < 4096 \<Longrightarrow> ring_next x < 4096"
  by (simp add: word_less_nat_alt unat_ring_next)

lemma unat_ring_next_if: "x < 4096 \<Longrightarrow> unat (ring_next x) = (if unat x = 4095 then 0 else unat x + 1)"
  using unat_ring_next [of x] by (auto simp: word_less_nat_alt)

lemma ring_index: "x < (4096 :: u32) \<Longrightarrow> unat x < 4096"
  by (simp add: word_less_nat_alt)

lemma ring_count_less: "h < 4096 \<Longrightarrow> t < 4096 \<Longrightarrow> ring_count h t < 4096"
  using ring_index [of h] ring_index [of t] by (auto simp: ring_count_def)

lemma ring_count_0: "h < 4096 \<Longrightarrow> t < 4096 \<Longrightarrow> ring_count h t = 0 \<longleftrightarrow> t = h"
  using ring_index [of h] ring_index [of t] by (auto simp: ring_count_def word_unat_eq_iff)

lemma ring_count_next:
  assumes "h < 4096" "t < 4096"
  shows "ring_count h t = Suc k \<Longrightarrow> ring_count h (ring_next t) = k"
    and "ring_count (ring_next h) t = (if ring_count h t = 4095 then 0 else ring_count h t + 1)"
  using ring_index [OF assms(1)] ring_index [OF assms(2)]
  by (auto simp: ring_count_def unat_ring_next_if assms split: if_splits)

lemma ring_next_full:
  assumes "h < 4096" "t < 4096"
  shows "ring_next h = t \<longleftrightarrow> ring_count h t = 4095"
  using ring_index [OF assms(1)] ring_index [OF assms(2)]
  by (auto simp: ring_count_def unat_ring_next_if assms word_unat_eq_iff split: if_splits)

lemma length_ring_slice [simp]: "length (ring_slice q k p) = k"
  by (induction k arbitrary: p) auto

lemma ring_slice_append:
  assumes "h < 4096" "t < 4096" "length q = 4096" "ring_count h t < 4095"
  shows "ring_slice (q[unat h := e]) (Suc (ring_count h t)) t = ring_slice q (ring_count h t) t @ [e]"
proof -
  have "ring_slice (q[unat h := e]) (Suc k) t = ring_slice q k t @ [e]" if "ring_count h t = k" for k
    using assms that
  proof (induction k arbitrary: t)
    case 0
    then have "t = h" using ring_count_0 by blast
    with 0 show ?case by (simp add: word_less_nat_alt)
  next
    case (Suc k)
    then have "unat h \<noteq> unat t" using ring_count_0 [of h t] by (metis nat.distinct(1) word_unat_eq_iff)
    moreover have "ring_count h (ring_next t) = k" using ring_count_next(1) Suc.prems by blast
    ultimately show ?case using Suc.IH [of "ring_next t"] Suc.prems ring_next_less by simp
  qed
  then show ?thesis by blast
qed

section \<open>Producer\<close>

lemma enqueue_pending:
  assumes "queue_ok ay"
  shows "pending (ay_enqueue e ay) = (if length (pending ay) < 4095 then pending ay @ [e] else pending ay)"
proof -
  have q: "evq_head ay < 4096" "evq_tail ay < 4096" "length (evq ay) = 4096"
    using assms by (simp_all add: queue_ok_def)
  have nxt: "(evq_head ay + 1) AND (AY_EVENT_QUEUE_SIZE - 1) = ring_next (evq_head ay)"
    by (simp add: ring_next_def)
  have len: "length (pending ay) = ring_count (evq_head ay) (evq_tail ay)" by (simp add: pending_def)
  show ?thesis
  proof (cases "ring_count (evq_head ay) (evq_tail ay) < 4095")
    case False
    then have "ring_count (evq_head ay) (evq_tail ay) = 4095" using ring_count_less [OF q(1,2)] by simp
    then have "ring_next (evq_head ay) = evq_tail ay" using ring_next_full q by simp
    then show ?thesis using False by (simp add: ay_enqueue_def nxt [simplified] Let_def len)
  next
    case True
    then have "ring_next (evq_head ay) \<noteq> evq_tail ay" using ring_next_full q by simp
    moreover have "ring_count (ring_next (evq_head ay)) (evq_tail ay) = Suc (ring_count (evq_head ay) (evq_tail ay))"
      using ring_count_next(2) [OF q(1,2)] True by simp
    ultimately show ?thesis using True ring_slice_append [OF q True, of e]
      by (simp add: ay_enqueue_def nxt [simplified] Let_def len) (simp add: pending_def)
  qed
qed

lemma enqueue_ok: "queue_ok ay \<Longrightarrow> ev_reg e < 14 \<Longrightarrow> queue_ok (ay_enqueue e ay)"
proof -
  assume q: "queue_ok ay" and e: "ev_reg e < 14"
  have "list_all P (xs[i := x])" if "list_all P xs" "P x" for P i x and xs :: "ay_event_t list"
    using that by (auto simp: list_all_iff dest!: set_update_subset_insert [THEN subsetD])
  moreover have "(evq_head ay + 1) AND 0xFFF < 4096"
    using q ring_next_less [of "evq_head ay"] by (simp add: queue_ok_def ring_next_def)
  ultimately show ?thesis using q e by (simp add: ay_enqueue_def queue_ok_def Let_def)
qed

lemma enqueue_keep:
  "registers (ay_enqueue e ay) = registers ay" "selected_reg (ay_enqueue e ay) = selected_reg ay"
  "agen (ay_enqueue e ay) = agen ay" "play (ay_enqueue e ay) = play ay" "dc_acc (ay_enqueue e ay) = dc_acc ay"
  "timed_mode (ay_enqueue e ay) = timed_mode ay" "play_seeded (ay_enqueue e ay) = play_seeded ay"
  by (simp_all add: ay_enqueue_def Let_def)

section \<open>Consumer\<close>

text \<open>One queued write applied to the shadow registers.\<close>

definition put_reg :: "ay_event_t \<Rightarrow> u8 list \<Rightarrow> u8 list" where
  "put_reg e rs = rs[unat (ev_reg e) := ev_val e]"

definition play_event :: "ay_event_t \<Rightarrow> ay_play_t \<Rightarrow> ay_play_t" where
  "play_event e st = apply_sound_play (ev_reg e) (st\<lparr>sregs := put_reg e (sregs st)\<rparr>)"

lemma play_event_ok:
  assumes "play_ok st" "ev_reg e < 14"
  shows "play_ok (play_event e st) \<and> sregs (play_event e st) = put_reg e (sregs st)"
proof -
  have "unat (ev_reg e) < 16" using assms(2) by (simp add: word_less_nat_alt)
  then show ?thesis using assms
    by (simp add: play_ok_def play_event_def put_reg_def apply_sound_play_def apply_sound_ok apply_sound_periods)
qed

lemma replay_prefix:
  assumes "length q = 4096" "list_all (\<lambda>e. ev_reg e < 14) q" "h < 4096" "ev < 4096" "play_ok st"
    and "ring_count h ev \<le> k"
  shows "let (ev', st') = ay_replay k q h off i ev st; es = ring_slice q (ring_count h ev) ev in
    ev' < 4096 \<and> play_ok st' \<and>
    sregs st' = fold put_reg (takeWhile (\<lambda>e. off (ev_cycle e) \<le> i) es) (sregs st) \<and>
    ring_slice q (ring_count h ev') ev' = dropWhile (\<lambda>e. off (ev_cycle e) \<le> i) es"
  using assms(4-6)
proof (induction k arbitrary: ev st)
  case 0
  then show ?case by simp
next
  case (Suc k)
  show ?case
  proof (cases "ev = h")
    case True
    then have "ring_count h ev = 0" using ring_count_0 [OF assms(3) Suc.prems(1)] by simp
    then show ?thesis using True Suc.prems by simp
  next
    case False
    then obtain n where n: "ring_count h ev = Suc n" using ring_count_0 [OF assms(3) Suc.prems(1)] by (metis not0_implies_Suc)
    define e where "e = q ! unat ev"
    have slice: "ring_slice q (ring_count h ev) ev = e # ring_slice q n (ring_next ev)"
      by (simp add: n e_def)
    have nc: "ring_count h (ring_next ev) = n" using ring_count_next(1) [OF assms(3) Suc.prems(1) n] .
    have reg: "ev_reg e < 14"
      using assms(1,2) Suc.prems(1) by (simp add: e_def list_all_length word_less_nat_alt)
    have step: "(ev + 1) AND (AY_EVENT_QUEUE_SIZE - 1) = ring_next ev" by (simp add: ring_next_def)
    show ?thesis
    proof (cases "off (ev_cycle e) \<le> i")
      case False
      then have "ay_replay (Suc k) q h off i ev st = (ev, st)" using \<open>ev \<noteq> h\<close> by (simp add: e_def [symmetric])
      then show ?thesis using False Suc.prems slice by simp
    next
      case True
      have eq: "ay_replay (Suc k) q h off i ev st = ay_replay k q h off i (ring_next ev) (play_event e st)"
        using True \<open>ev \<noteq> h\<close> by (simp add: e_def [symmetric] step Let_def) (simp add: play_event_def put_reg_def ring_next_def)
      have ok: "play_ok (play_event e st)" "sregs (play_event e st) = put_reg e (sregs st)"
        using play_event_ok [OF Suc.prems(2) reg] by simp_all
      from Suc.IH [of "ring_next ev" "play_event e st"] ok Suc.prems n nc ring_next_less
      show ?thesis unfolding eq slice using True by (simp add: nc split_beta Let_def)
    qed
  qed
qed

text \<open>What rendering leaves alone.\<close>

definition ay_frame :: "ay3891x_t \<Rightarrow> ay3891x_t \<Rightarrow> bool" where
  "ay_frame a b \<longleftrightarrow> registers b = registers a \<and> evq b = evq a \<and> evq_head b = evq_head a \<and>
     evq_tail b = evq_tail a \<and> timed_mode b = timed_mode a \<and> play_seeded b = play_seeded a"

definition samples_ok :: "int list \<Rightarrow> bool" where
  "samples_ok xs \<longleftrightarrow> list_all (\<lambda>s. \<bar>s\<bar> \<le> ay_peak) xs"

lemma samples_ok_simps [simp]:
  "samples_ok []" "samples_ok (x # xs) \<longleftrightarrow> \<bar>x\<bar> \<le> ay_peak \<and> samples_ok xs"
  by (simp_all add: samples_ok_def)

lemma immediate_ok:
  assumes "ay_ok ay"
  shows "let (buf, ay') = ay_immediate n ay in samples_ok buf \<and> length buf = 2 * n \<and> ay_ok ay' \<and> ay_frame ay ay'"
  using assms
proof (induction n arbitrary: ay)
  case (Suc n)
  have s: "ay_ok (snd (ay_sample ay))" "\<bar>fst (ay_sample ay)\<bar> \<le> ay_peak" "ay_frame ay (snd (ay_sample ay))"
    using ay_sample_ok [OF Suc.prems] by (simp_all add: ay_frame_def)
  from Suc.IH [OF s(1)] s show ?case
    by (simp add: split_beta Let_def) (simp add: ay_frame_def)
qed (simp add: ay_frame_def)

lemma timed_drains:
  assumes "ay_ok ay" "ev < 4096" "evq_head ay = h" "h < 4096" "\<And>c. off c \<le> i + n"
  defines "es \<equiv> ring_slice (evq ay) (ring_count h ev) ev"
  shows "let (buf, ev', ay') = ay_timed h off (Suc n) i ev ay in
    samples_ok buf \<and> length buf = 2 * Suc n \<and> ay_ok ay' \<and> ay_frame ay ay' \<and>
    sregs (play ay') = fold put_reg es (sregs (play ay))"
  using assms(1-3,5) unfolding es_def
proof (induction n arbitrary: ay ev i)
  case (0 ay ev i)
  define r where "r = ay_replay 4096 (evq ay) h off i ev (play ay)"
  have q: "queue_ok ay" "play_ok (play ay)" using 0 by (simp_all add: ay_ok_def)
  have tw: "takeWhile (\<lambda>e. off (ev_cycle e) \<le> i) xs = xs" for xs using 0 by (simp add: takeWhile_eq_all_conv)
  have r: "play_ok (snd r)" "sregs (snd r) = fold put_reg (ring_slice (evq ay) (ring_count h ev) ev) (sregs (play ay))"
    using replay_prefix [of "evq ay" h ev "play ay" 4096 off i] q 0 assms(4) ring_count_less [OF assms(4) 0(2)]
    by (simp_all add: queue_ok_def r_def split_beta Let_def tw)
  define ay1 where "ay1 = ay\<lparr>play := snd r\<rparr>"
  have "ay_ok ay1" using 0 r by (simp add: ay1_def ay_ok_def queue_ok_def)
  from ay_sample_ok [OF this] r show ?case
    by (simp add: r_def [symmetric] ay1_def [symmetric] split_beta Let_def) (simp add: ay1_def ay_frame_def)
next
  case (Suc n ay ev i)
  define r where "r = ay_replay 4096 (evq ay) h off i ev (play ay)"
  let ?es = "ring_slice (evq ay) (ring_count h ev) ev"
  let ?now = "\<lambda>e. off (ev_cycle e) \<le> i"
  have q: "queue_ok ay" "play_ok (play ay)" using Suc.prems by (simp_all add: ay_ok_def)
  have r: "fst r < 4096" "play_ok (snd r)" "sregs (snd r) = fold put_reg (takeWhile ?now ?es) (sregs (play ay))"
      "ring_slice (evq ay) (ring_count h (fst r)) (fst r) = dropWhile ?now ?es"
    using replay_prefix [of "evq ay" h ev "play ay" 4096 off i] q Suc.prems assms(4) ring_count_less [OF assms(4) Suc.prems(2)]
    by (simp_all add: queue_ok_def r_def split_beta Let_def)
  define ay1 where "ay1 = ay\<lparr>play := snd r\<rparr>"
  have ok1: "ay_ok ay1" using Suc.prems r by (simp add: ay1_def ay_ok_def queue_ok_def)
  define ay2 where "ay2 = snd (ay_sample ay1)"
  have ay2: "ay_ok ay2" "\<bar>fst (ay_sample ay1)\<bar> \<le> ay_peak" "ay_frame ay ay2" "sregs (play ay2) = sregs (snd r)"
      "evq ay2 = evq ay" "evq_head ay2 = h"
    using ay_sample_ok [OF ok1] Suc.prems(3) by (simp_all add: ay2_def ay_frame_def) (simp_all add: ay1_def)
  have off: "off c \<le> Suc i + n" for c using Suc.prems(4) [of c] by simp
  have fold: "fold put_reg (dropWhile ?now ?es) (fold put_reg (takeWhile ?now ?es) rs) = fold put_reg ?es rs" for rs
    by (metis fold_append o_apply takeWhile_dropWhile_id)
  have eq: "ay_timed h off (Suc (Suc n)) i ev ay =
      (let (rest, ev2, b) = ay_timed h off (Suc n) (Suc i) (fst r) ay2
       in (fst (ay_sample ay1) # fst (ay_sample ay1) # rest, ev2, b))"
    by (simp only: ay_timed.simps(2) [of h off "Suc n"] r_def [symmetric] split_beta Let_def ay1_def [symmetric] ay2_def [symmetric])
  define b where "b = ay_timed h off (Suc n) (Suc i) (fst r) ay2"
  have b: "samples_ok (fst b)" "length (fst b) = 2 * Suc n" "ay_ok (snd (snd b))" "ay_frame ay2 (snd (snd b))"
      "sregs (play (snd (snd b))) = fold put_reg ?es (sregs (play ay))"
    using Suc.IH [OF ay2(1) r(1) ay2(6) off] by (simp_all only: b_def split_beta Let_def ay2 r fold simp_thms)
  have "ay_frame ay (snd (snd b))" using ay2(3) b(4) by (simp add: ay_frame_def)
  with b ay2(2) show ?case unfolding eq b_def [symmetric] by (simp add: split_beta Let_def)
qed

section \<open>Operations\<close>

datatype ay_op = Ay_address u8 | Ay_data u8 | Ay_timed u8 "64 word" | Ay_resync | Ay_reset | Ay_render nat

fun ay_apply :: "ay_op \<Rightarrow> ay3891x_t \<Rightarrow> int list \<times> ay3891x_t" where
  "ay_apply (Ay_address a) ay = ([], ay_write_address a ay)"
| "ay_apply (Ay_data x) ay = ([], ay_write_data x ay)"
| "ay_apply (Ay_timed x c) ay = ([], ay_write_data_timed x c ay)"
| "ay_apply Ay_resync ay = ([], ay_sound_resync ay)"
| "ay_apply Ay_reset ay = ([], ay_reset ay)"
| "ay_apply (Ay_render n) ay = ay_generate n ay"

fun ay_run :: "ay_op list \<Rightarrow> ay3891x_t \<Rightarrow> int list \<times> ay3891x_t" where
  "ay_run [] ay = ([], ay)"
| "ay_run (p # ps) ay = (let (xs, a) = ay_apply p ay; (ys, b) = ay_run ps a in (xs @ ys, b))"

lemma init_ok: "ay_ok (ay_init clock)"
proof -
  define rs :: "u8 list" where "rs = replicate 14 0 @ [0xFF, 0xFF]"
  have "length rs = 16" by (simp add: rs_def)
  moreover have "rs ! k = 0" if "k < 14" for k using that by (simp add: rs_def nth_append)
  then have "periods_ok rs gen_zero" by (simp add: periods_ok_def gen_zero_def hilo_def)
  moreover have "gen_ok gen_zero" by (simp add: gen_ok_def gen_zero_def)
  moreover have "list_all P (replicate k x)" if "P x" for P k and x :: ay_event_t
    using that by (simp add: list_all_length)
  ultimately show ?thesis
    by (simp add: ay_ok_def ay_init_def play_ok_def queue_ok_def ay_peak_def rs_def [symmetric] Let_def)
qed

lemma write_reg_ok:
  assumes "ay_ok ay"
  shows "ay_ok (apply_sound_main (selected_reg ay) (ay\<lparr>registers := (registers ay)[unat (selected_reg ay) := x]\<rparr>))"
proof -
  have "unat (selected_reg ay) < 16" using assms by (simp add: ay_ok_def word_less_nat_alt)
  then show ?thesis using assms
    by (simp add: ay_ok_def apply_sound_main_def apply_sound_ok apply_sound_periods queue_ok_def)
qed

lemma seed_ok:
  assumes "ay_ok ay"
  shows "ay_ok (seed_play ay)"
proof -
  have "gen_ok g \<Longrightarrow> gen_ok (g\<lparr>noise_shift := (if noise_shift g \<noteq> 0 then noise_shift g else 1)\<rparr>)"
    and "periods_ok rs (g\<lparr>noise_shift := y\<rparr>) = periods_ok rs g" for g rs y
    by (auto simp: gen_ok_def periods_ok_def)
  then show ?thesis using assms by (simp add: seed_play_def Let_def ay_ok_def play_ok_def queue_ok_def)
qed

lemma timed_write_ok:
  assumes "ay_ok ay"
  shows "ay_ok (ay_write_data_timed x c ay)"
proof -
  let ?w = "apply_sound_main (selected_reg ay) (ay\<lparr>registers := (registers ay)[unat (selected_reg ay) := x]\<rparr>)"
  define w where "w = ?w"
  have w: "ay_ok w" unfolding w_def by (rule write_reg_ok [OF assms])
  define w2 where "w2 = (if play_seeded w then w else (seed_play w)\<lparr>play_seeded := True\<rparr>)\<lparr>timed_mode := True\<rparr>"
  have w2: "ay_ok w2"
    using w seed_ok [OF w] by (auto simp: w2_def ay_ok_def queue_ok_def)
  have "ay_ok (ay_enqueue e w2)" if "ev_reg e < 14" for e
    using w2 enqueue_ok [of w2 e] that by (simp add: ay_ok_def enqueue_keep)
  then show ?thesis using w assms
    by (auto simp: ay_write_data_timed_def Let_def w_def [symmetric] w2_def [symmetric] not_le)
qed

lemma copy_back_ok:
  assumes "ay_ok ay"
  shows "ay_ok (copy_play_runtime_to_main ay)"
  using assms by (simp add: ay_ok_def copy_play_runtime_to_main_def Let_def play_ok_def gen_ok_def periods_ok_def queue_ok_def)

lemma ay_offset_le: "ay_offset a b (Suc m) c \<le> 0 + m"
proof -
  have "unat w < Suc m" if "\<not> of_nat (Suc m) \<le> (w :: 64 word)" for w
  proof -
    have "unat w < unat (of_nat (Suc m) :: 64 word)" using that by (simp only: not_le word_less_nat_alt)
    also have "\<dots> \<le> Suc m" by (simp only: unat_of_nat mod_less_eq_dividend)
    finally show ?thesis .
  qed
  then show ?thesis by (fastforce simp only: ay_offset_def Let_def diff_Suc_1 less_Suc_eq_le split: if_splits)
qed

lemma generate_ok:
  assumes "ay_ok ay"
  shows "ay_ok (snd (ay_generate n ay)) \<and> samples_ok (fst (ay_generate n ay)) \<and> length (fst (ay_generate n ay)) = 2 * n"
proof (cases "timed_mode ay")
  case False
  then show ?thesis using immediate_ok [OF seed_ok [OF assms], of n] copy_back_ok
    by (auto simp: ay_generate_def split_beta Let_def)
next
  case True
  have q: "evq_head ay < 4096" "evq_tail ay < 4096" using assms by (simp_all add: ay_ok_def queue_ok_def)
  have tail: "ay_ok (a\<lparr>evq_tail := evq_head ay, last_gen_cycle := c\<rparr>)" if "ay_ok a" for a c
    using that q by (simp add: ay_ok_def queue_ok_def)
  show ?thesis
  proof (cases n)
    case 0
    then show ?thesis using True tail [OF assms] by (simp add: ay_generate_def Let_def)
  next
    case (Suc m)
    from timed_drains [OF assms q(2) refl q(1) ay_offset_le] True tail show ?thesis
      by (simp only: ay_generate_def Suc not_True_eq_False if_False Let_def split_beta prod.sel)
  qed
qed

lemma apply_ok: "ay_ok ay \<Longrightarrow> ay_ok (snd (ay_apply p ay)) \<and> samples_ok (fst (ay_apply p ay))"
proof (cases p)
  case (Ay_address a)
  assume "ay_ok ay"
  moreover have "a AND 0x0F < 16" by (rule and_less) simp
  ultimately show ?thesis using Ay_address by (simp add: ay_write_address_def ay_ok_def queue_ok_def)
next
  case Ay_resync
  assume "ay_ok ay"
  from seed_ok [OF this] show ?thesis using Ay_resync by (simp add: ay_sound_resync_def Let_def ay_ok_def queue_ok_def)
qed (auto simp: timed_write_ok generate_ok ay_reset_def init_ok ay_write_data_def write_reg_ok)

lemma run_ok: "ay_ok ay \<Longrightarrow> ay_ok (snd (ay_run ps ay)) \<and> samples_ok (fst (ay_run ps ay))"
proof (induction ps arbitrary: ay)
  case (Cons p ps)
  from apply_ok [OF Cons.prems, of p] Cons.IH show ?case
    by (simp add: split_beta Let_def samples_ok_def)
qed simp

end
