(* ===== verification/Ay_Properties.thy ===== *)
theory Ay_Properties
  imports Ay_Queue
begin

unbundle bit_operations_syntax

text \<open>The properties of the sound generator.\<close>

text \<open>
  C9: Whatever the program writes and the audio thread renders, from reset on, every sample stays
  within the 16383 of one channel, the DC estimator within the product that fits \<open>int32_t\<close>, and the
  noise register never becomes zero, so that no cast of the output stage loses a bit.
\<close>

theorem ay_output_bounded:
  "let (buf, ay) = ay_run ps (ay_init clock) in
     list_all (\<lambda>s. - 16383 \<le> s \<and> s \<le> 16383) buf \<and> 0 \<le> dc_acc ay \<and> dc_acc ay \<le> 16383 * 65536 \<and>
     noise_shift (pgen (play ay)) \<noteq> 0 \<and> env_volume (pgen (play ay)) < 16"
  using run_ok [OF init_ok, of ps clock]
  by (simp add: split_beta Let_def samples_ok_def ay_ok_def play_ok_def gen_ok_def ay_peak_def abs_le_iff list_all_iff)
    force

section \<open>The time-stamped path\<close>

definition ay_sync :: "ay3891x_t \<Rightarrow> bool" where
  "ay_sync ay \<longleftrightarrow> ay_ok ay \<and>
     (if play_seeded ay then timed_mode ay \<and> take 14 (fold put_reg (pending ay) (sregs (play ay))) = take 14 (registers ay)
      else pending ay = [])"

definition ay_writes :: "(u8 \<times> u8 \<times> 64 word) list \<Rightarrow> ay_op list" where
  "ay_writes ws = concat (map (\<lambda>(r, x, c). [Ay_address r, Ay_timed x c]) ws)"

lemma take_update: "take 14 xs = take 14 ys \<Longrightarrow> length xs = length ys \<Longrightarrow> take 14 (xs[k := x]) = take 14 (ys[k := x])"
  by (simp add: take_update_swap)

lemma fold_put_length [simp]: "length (fold put_reg es rs) = length rs"
  by (induction es arbitrary: rs) (simp_all add: put_reg_def)

lemma small_and: "r < 14 \<Longrightarrow> r AND 0x0F = (r :: u8)"
proof -
  assume "r < 14"
  then have u: "unat r < 16" by (simp add: word_less_nat_alt)
  have "(0x0F :: u8) = mask 4" by (simp add: mask_eq_exp_minus_1)
  then have "r AND 0x0F = take_bit 4 r" by (simp only: take_bit_eq_mask)
  also have "\<dots> = r" using u by (simp add: word_unat_eq_iff unsigned_take_bit_eq take_bit_nat_eq_self)
  finally show ?thesis .
qed

lemma timed_write_sync:
  fixes x :: u8 and c :: "64 word"
  assumes "ay_sync ay" "r < 14" "length (pending ay) < 4095"
  defines "b \<equiv> ay_write_data_timed x c (ay_write_address r ay)"
  shows "ay_sync b \<and> length (pending b) = Suc (length (pending ay)) \<and> play_seeded b"
proof -
  define w where "w = apply_sound_main r (ay\<lparr>selected_reg := r, registers := (registers ay)[unat r := x]\<rparr>)"
  have addr: "ay_write_address r ay = ay\<lparr>selected_reg := r\<rparr>" by (simp add: ay_write_address_def small_and [OF assms(2)])
  have r16: "unat r < 16" using assms(2) by (simp add: word_less_nat_alt)
  have ok: "ay_ok (ay\<lparr>selected_reg := r\<rparr>)" using assms(1,2) by (auto simp: ay_sync_def ay_ok_def queue_ok_def word_less_nat_alt)
  have w: "registers w = (registers ay)[unat r := x]" "play w = play ay" "play_seeded w = play_seeded ay"
      "pending w = pending ay" "ay_ok w"
    using write_reg_ok [OF ok, of x] by (simp_all add: w_def apply_sound_main_def pending_def)
  define w2 where "w2 = (if play_seeded w then w else (seed_play w)\<lparr>play_seeded := True\<rparr>)\<lparr>timed_mode := True\<rparr>"
  define e where "e = \<lparr>ev_cycle = c, ev_reg = r, ev_val = x\<rparr>"
  have b: "b = ay_enqueue e w2"
    using r16 assms(2) by (simp add: b_def addr ay_write_data_timed_def Let_def w_def w2_def e_def not_le [symmetric])
  have w2: "registers w2 = registers w" "pending w2 = pending ay" "play_seeded w2" "timed_mode w2" "queue_ok w2"
      "sregs (play w2) = (if play_seeded ay then sregs (play ay) else registers w)"
    using w by (simp_all add: w2_def seed_play_def Let_def pending_def ay_ok_def queue_ok_def)
  have pend: "pending b = pending ay @ [e]" using enqueue_pending [OF w2(5), of e] assms(3) by (simp add: b w2)
  have "ay_ok b" using timed_write_ok [OF ok] by (simp add: b_def addr)
  moreover have "take 14 (fold put_reg (pending b) (sregs (play b))) = take 14 (registers b)"
  proof (cases "play_seeded ay")
    case True
    then have "take 14 (fold put_reg (pending ay) (sregs (play ay))) = take 14 (registers ay)"
        "length (sregs (play ay)) = length (registers ay)"
      using assms(1) by (auto simp: ay_sync_def ay_ok_def play_ok_def)
    then have "take 14 ((fold put_reg (pending ay) (sregs (play ay)))[unat r := x]) = take 14 ((registers ay)[unat r := x])"
      by (intro take_update) simp_all
    moreover have "fold put_reg (pending b) (sregs (play b)) = (fold put_reg (pending ay) (sregs (play ay)))[unat r := x]"
      using True unfolding pend by (simp add: b enqueue_keep w2 put_reg_def e_def)
    moreover have "registers b = (registers ay)[unat r := x]" by (simp add: b enqueue_keep w2 w)
    ultimately show ?thesis by simp
  next
    case False
    then have "pending ay = []" using assms(1) by (simp add: ay_sync_def)
    then have "fold put_reg (pending b) (sregs (play b)) = (registers ay)[unat r := x]"
      using False unfolding pend by (simp add: b enqueue_keep w2 w put_reg_def e_def)
    moreover have "registers b = (registers ay)[unat r := x]" by (simp add: b enqueue_keep w2 w)
    ultimately show ?thesis by simp
  qed
  moreover have "play_seeded b" "timed_mode b" by (simp_all add: b enqueue_keep w2)
  ultimately show ?thesis by (simp add: ay_sync_def pend)
qed

lemma run_append: "snd (ay_run (ps @ qs) ay) = snd (ay_run qs (snd (ay_run ps ay)))"
  by (induction ps arbitrary: ay) (simp_all add: split_beta Let_def)

lemma writes_sync:
  assumes "ay_sync ay" "list_all (\<lambda>(r, x, c). r < 14) ws" "length (pending ay) + length ws \<le> 4095"
  shows "ay_sync (snd (ay_run (ay_writes ws) ay)) \<and> (ws \<noteq> [] \<longrightarrow> play_seeded (snd (ay_run (ay_writes ws) ay)))"
  using assms
proof (induction ws arbitrary: ay)
  case (Cons w ws)
  obtain r x c where w: "w = (r, x, c)" by (cases w)
  define b where "b = ay_write_data_timed x c (ay_write_address r ay)"
  have b: "ay_sync b" "length (pending b) = Suc (length (pending ay))" "play_seeded b"
    using timed_write_sync [of ay r x c] Cons.prems by (auto simp: b_def w)
  have run: "snd (ay_run (ay_writes (w # ws)) ay) = snd (ay_run (ay_writes ws) b)"
    by (simp add: ay_writes_def w b_def split_beta Let_def)
  show ?case
  proof (cases "ws = []")
    case True
    then show ?thesis using b unfolding run by (simp add: ay_writes_def)
  next
    case False
    then show ?thesis unfolding run using Cons.IH [OF b(1)] Cons.prems b by simp
  qed
qed (simp add: ay_writes_def)

lemma generate_sync:
  assumes "ay_sync ay" "play_seeded ay" "0 < n"
  defines "b \<equiv> snd (ay_generate n ay)"
  shows "take 14 (sregs (play b)) = take 14 (registers b) \<and> pending b = [] \<and> ay_ok b \<and> registers b = registers ay"
proof -
  have t: "timed_mode ay" "ay_ok ay" using assms(1,2) by (simp_all add: ay_sync_def)
  obtain m where n: "n = Suc m" using assms(3) by (cases n) auto
  have q: "evq_head ay < 4096" "evq_tail ay < 4096" using t by (simp_all add: ay_ok_def queue_ok_def)
  have off: "ay_offset a s (Suc m) c \<le> 0 + m" for a s c
    by (rule ay_offset_le)
  define f where "f = ay_timed (evq_head ay)"
  obtain g where g: "b = (snd (snd (ay_timed (evq_head ay) (ay_offset (fst g) (snd g) n) n 0 (evq_tail ay) ay)))
      \<lparr>evq_tail := evq_head ay, last_gen_cycle := cur_cycle ay\<rparr>"
  proof -
    obtain a s where "b = (snd (snd (ay_timed (evq_head ay) (ay_offset a s n) n 0 (evq_tail ay) ay)))
      \<lparr>evq_tail := evq_head ay, last_gen_cycle := cur_cycle ay\<rparr>"
      using t by (simp only: b_def ay_generate_def Let_def split_beta not_True_eq_False if_False prod.sel)
    then show thesis using that [of "(a, s)"] by simp
  qed
  have "sregs (play b) = fold put_reg (pending ay) (sregs (play ay))" "registers b = registers ay" "evq_head b = evq_head ay"
      "evq_tail b = evq_head ay"
    using timed_drains [OF t(2) q(2) refl q(1), of "ay_offset (fst g) (snd g) (Suc m)" 0 m] off
    by (simp_all only: g n split_beta Let_def) (simp_all add: ay_frame_def pending_def)
  moreover have "ring_count (evq_head ay) (evq_head ay) = 0" by (simp add: ring_count_def)
  ultimately show ?thesis using assms(1,2) generate_ok [OF t(2), of n]
    by (simp add: ay_sync_def b_def [symmetric]) (simp add: pending_def)
qed

text \<open>
  C10: The time-stamped path loses nothing below its capacity.  After any writes of sound registers
  that fit the queue, rendering one buffer empties the queue and brings the registers the renderer
  plays from to those the CPU sees, and the periods in use are those of these registers.
\<close>

theorem ay_timed_catches_up:
  assumes "ay_sync ay" "list_all (\<lambda>(r, x, c). r < 14) ws" "ws \<noteq> []"
    and "length (pending ay) + length ws \<le> 4095" "0 < n"
  shows "let b = snd (ay_run (ay_writes ws @ [Ay_render n]) ay) in
    pending b = [] \<and> take 14 (sregs (play b)) = take 14 (registers b) \<and>
    periods_ok (sregs (play b)) (pgen (play b))"
proof -
  define a where "a = snd (ay_run (ay_writes ws) ay)"
  have a: "ay_sync a" "play_seeded a" using writes_sync [OF assms(1,2,4)] assms(3) by (simp_all add: a_def)
  have "snd (ay_run (ay_writes ws @ [Ay_render n]) ay) = snd (ay_generate n a)"
    by (simp add: run_append a_def split_beta Let_def)
  then show ?thesis using generate_sync [OF a assms(5)] by (simp add: Let_def ay_ok_def play_ok_def)
qed

lemma init_pending: "pending (ay_init clock) = []" "\<not> play_seeded (ay_init clock)"
  by (simp_all add: ay_init_def pending_def ring_count_def Let_def)

lemma init_sync: "ay_sync (ay_init clock)"
  by (simp add: ay_sync_def init_ok init_pending)

lemma ay_timed_catches_up_witness:
  "let b = snd (ay_run (ay_writes [(8, 15, 100), (8, 0, 140)] @ [Ay_render 1]) (ay_init 1000000)) in
    pending b = [] \<and> take 14 (sregs (play b)) = take 14 (registers b)"
  using ay_timed_catches_up [OF init_sync, where ws = "[(8, 15, 100), (8, 0, 140)]" and n = 1 and clock1 = 1000000]
  by (simp add: Let_def init_pending)

section \<open>Registers and envelope\<close>

text \<open>
  A register reads back what was written to it, with either write function, but for port A
  (register 14) when register 7 makes it an input: then the keyboard answers.
\<close>

theorem ay_register_readback:
  assumes "ay_ok ay" "\<not> (a AND 0x0F = 14 \<and> registers ay ! 7 AND 0x40 \<noteq> 0)"
  shows "ay_read_data porta (ay_write_data x (ay_write_address a ay)) = x \<and>
    ay_read_data porta (ay_write_data_timed x c (ay_write_address a ay)) = x"
proof -
  define r where "r = a AND 0x0F"
  have "r < 16" unfolding r_def by (rule and_less) simp
  then have u: "unat r < 16" by (simp add: word_less_nat_alt)
  define b where "b = ay_write_address a ay"
  have b: "selected_reg b = r" "registers b = registers ay" "length (registers b) = 16"
    using assms(1) by (simp_all add: b_def ay_write_address_def r_def ay_ok_def)
  have seven: "registers ay ! 7 = registers b ! 7" by (simp add: b)
  have regs: "registers (ay_write_data x b) = (registers b)[unat r := x]" "selected_reg (ay_write_data x b) = r"
      "registers (ay_write_data_timed x c b) = (registers b)[unat r := x]" "selected_reg (ay_write_data_timed x c b) = r"
    using u b by (simp_all add: ay_write_data_def ay_write_data_timed_def Let_def apply_sound_main_def seed_play_def enqueue_keep)
  have read: "ay_read_data porta d = x" if "registers d = (registers b)[unat r := x]" "selected_reg d = r" for d
  proof (cases "r = 14")
    case True
    then have "registers b ! 7 AND 0x40 = 0" using assms(2) by (simp add: r_def seven)
    then show ?thesis using that True b by (simp add: ay_read_data_def)
  next
    case False
    then show ?thesis using that u b by (simp add: ay_read_data_def)
  qed
  show ?thesis unfolding b_def [symmetric] using read regs by simp
qed

lemma ay_register_readback_witness:
  "ay_read_data None (ay_write_data 0x7F (ay_write_address 7 (ay_init 1000000))) = 0x7F"
  using ay_register_readback [OF init_ok, where a = 7 and clock1 = 1000000 and x = "0x7F" and porta = None] by simp

text \<open>
  The hold bit of the envelope holds the wrong level.  In the two shapes that hold without
  alternating (9: decay, then 0; 13: attack, then 15) the volume is the held level during steps 16
  to 31, but after step 31 the step wraps to 0 while \<open>env_holding\<close> is set, so the generator then
  holds the first level of the ramp for ever: 15 instead of 0, and 0 instead of 15.
\<close>

theorem env_hold_wraps:
  assumes "env_shape g AND 0x08 \<noteq> 0" "env_shape g AND 0x01 \<noteq> 0" "env_shape g AND 0x02 = 0"
    and "env_period g \<noteq> 0" "\<not> env_holding g" "env_step g = 31"
    and "ucast (env_period g) \<le> env_counter g + 1"
  defines "held \<equiv> (if env_shape g AND 0x04 \<noteq> 0 then 15 else 0 :: u8)"
  shows "envelope_volume (env_shape g) 16 = held \<and> envelope_volume (env_shape g) 31 = held \<and>
    env_holding ((ay_tick_gen ^^ Suc n) g) \<and> env_volume ((ay_tick_gen ^^ Suc n) g) = 15 - held"
proof -
  have attack: "envelope_volume (env_shape g) 0 = 15 - held" "envelope_volume (env_shape g) 16 = held"
      "envelope_volume (env_shape g) 31 = held"
    using assms(1-3) by (simp_all add: envelope_volume_def held_def Let_def)
  define frozen where "frozen = (\<lambda>h :: ay_gen. env_holding h \<and> env_shape h = env_shape g \<and> env_step h = 0 \<and>
      env_volume h = 15 - held)"
  have frame: "env_holding (noise_tick (tone_tick c2 (tone_tick c1 (tone_tick c0 h)))) = env_holding h"
      "env_shape (noise_tick (tone_tick c2 (tone_tick c1 (tone_tick c0 h)))) = env_shape h"
      "env_step (noise_tick (tone_tick c2 (tone_tick c1 (tone_tick c0 h)))) = env_step h"
      "env_period (noise_tick (tone_tick c2 (tone_tick c1 (tone_tick c0 h)))) = env_period h"
      "env_counter (noise_tick (tone_tick c2 (tone_tick c1 (tone_tick c0 h)))) = env_counter h" for c0 c1 c2 h
    by (simp_all add: tone_tick_def noise_tick_def Let_def)
  have "frozen (ay_tick_gen g)"
    using assms(1,2,4-7) attack by (simp add: frozen_def ay_tick_gen_def Let_def env_tick_def frame)
  moreover have "frozen (ay_tick_gen h)" if "frozen h" for h
    using that attack by (simp add: frozen_def ay_tick_gen_def Let_def env_tick_def frame)
  ultimately have "frozen ((ay_tick_gen ^^ n) (ay_tick_gen g))" by (rule funpow_invariant)
  then show ?thesis using attack by (simp only: funpow_unfold_left frozen_def simp_thms)
qed

lemma env_hold_wraps_witness:
  "env_volume ((ay_tick_gen ^^ Suc 9) (gen_zero\<lparr>env_shape := 13, env_period := 1, env_step := 31\<rparr>)) = 0"
  using env_hold_wraps [of "gen_zero\<lparr>env_shape := 13, env_period := 1, env_step := 31\<rparr>" 9]
  by (simp add: gen_zero_def)

end
