(* ===== verification/Keyboard.thy ===== *)
theory Keyboard
  imports Prelude
begin

unbundle bit_operations_syntax

text \<open>
  The keyboard matrix (\<open>include/io/keyboard.h\<close>, \<open>src/io/keyboard.c\<close>): eight columns of eight
  active-low rows, the character table, the injectors, and the two SDL mappings.  The SDL key
  codes are the constants the source names, with the other values of the enumerations under
  \<open>SC_OTHER\<close> and \<open>K_OTHER\<close>; an SDL event is its kind and the fields the source reads.
\<close>

section \<open>State\<close>

datatype oric_kb_layout_t = ORIC_KB_QWERTY | ORIC_KB_AZERTY

abbreviation ORIC_KB_MAX_PRESSED :: nat where "ORIC_KB_MAX_PRESSED \<equiv> 16"

datatype sdl_scancode =
  SC_UP | SC_DOWN | SC_LEFT | SC_RIGHT | SC_RETURN | SC_ESCAPE | SC_BACKSPACE | SC_DELETE
  | SC_LCTRL | SC_RCTRL | SC_TAB | SC_LSHIFT | SC_RSHIFT | SC_LALT | SC_RALT | SC_OTHER u32

text \<open>SDL gives a printable key the code of its ASCII character.\<close>

datatype sdl_keycode =
  K_CHAR u8 | K_RCTRL | K_LCTRL | K_LSHIFT | K_RSHIFT | K_LALT | K_RALT | K_UP | K_DOWN | K_LEFT
  | K_RIGHT | K_ESCAPE | K_BACKSPACE | K_RETURN | K_OTHER u32

datatype sdl_event =
  Text_input u8 | Key_down sdl_scancode sdl_keycode bool | Key_up sdl_scancode sdl_keycode | Other_event

record pressed_key =
  pk_scancode :: sdl_scancode
  pk_col :: int
  pk_row :: int
  pk_shift :: bool

text \<open>\<open>pressed\<close> holds the first \<open>pressed_count\<close> entries of the array.\<close>

record oric_keyboard_t =
  matrix :: "u8 list"
  layout :: oric_kb_layout_t
  pressed :: "pressed_key list"
  pending_scancode :: sdl_scancode
  has_pending :: bool

definition oric_keyboard_init :: oric_keyboard_t where
  "oric_keyboard_init = \<lparr>matrix = replicate 8 0xFF, layout = ORIC_KB_QWERTY, pressed = [],
     pending_scancode = SC_OTHER 0, has_pending = False\<rparr>"

definition oric_keyboard_reset :: "oric_keyboard_t \<Rightarrow> oric_keyboard_t" where
  "oric_keyboard_reset kb = oric_keyboard_init\<lparr>layout := layout kb\<rparr>"

definition oric_keyboard_set_layout :: "oric_kb_layout_t \<Rightarrow> oric_keyboard_t \<Rightarrow> oric_keyboard_t" where
  "oric_keyboard_set_layout l kb = kb\<lparr>layout := l\<rparr>"

section \<open>Matrix\<close>

text \<open>\<open>matrix[col] &= ~(1 << row)\<close> and \<open>matrix[col] |= (1 << row)\<close>.\<close>

definition key_down :: "nat \<Rightarrow> nat \<Rightarrow> u8 list \<Rightarrow> u8 list" where
  "key_down col row m = m[col := m ! col AND NOT (push_bit row 1)]"

definition key_up :: "nat \<Rightarrow> nat \<Rightarrow> u8 list \<Rightarrow> u8 list" where
  "key_up col row m = m[col := m ! col OR push_bit row 1]"

definition upd_matrix :: "(u8 list \<Rightarrow> u8 list) \<Rightarrow> oric_keyboard_t \<Rightarrow> oric_keyboard_t" where
  "upd_matrix f kb = kb\<lparr>matrix := f (matrix kb)\<rparr>"

section \<open>Characters\<close>

text \<open>\<open>(col, row, shift)\<close> of a character; \<open>col\<close> is \<open>-1\<close> when it has no key.\<close>

record char_entry_t =
  ce_col :: int
  ce_row :: int
  ce_shift :: bool

definition plain_key :: "int \<Rightarrow> int \<Rightarrow> char_entry_t" where
  "plain_key c r = \<lparr>ce_col = c, ce_row = r, ce_shift = False\<rparr>"

definition shift_key :: "int \<Rightarrow> int \<Rightarrow> char_entry_t" where
  "shift_key c r = \<lparr>ce_col = c, ce_row = r, ce_shift = True\<rparr>"

definition unmapped :: char_entry_t where
  "unmapped = \<lparr>ce_col = - 1, ce_row = - 1, ce_shift = False\<rparr>"

definition char_map :: "char_entry_t list" where
  "char_map =
    [
     unmapped, unmapped, unmapped, unmapped, unmapped, unmapped, unmapped, unmapped,
     unmapped, unmapped, unmapped, unmapped, unmapped, unmapped, unmapped, unmapped,
     unmapped, unmapped, unmapped, unmapped, unmapped, unmapped, unmapped, unmapped,
     unmapped, unmapped, unmapped, unmapped, unmapped, unmapped, unmapped, unmapped,
     plain_key 4 0, shift_key 0 5, shift_key 3 7, shift_key 0 7, shift_key 2 3, shift_key 0 2, shift_key 0 0, plain_key 3 7,
     shift_key 3 1, shift_key 7 2, shift_key 7 0, shift_key 7 7, plain_key 4 1, plain_key 3 3, plain_key 4 2, plain_key 7 3,
     plain_key 7 2, plain_key 0 5, plain_key 2 6, plain_key 0 7, plain_key 2 3, plain_key 0 2, plain_key 2 1, plain_key 0 0,
     plain_key 7 0, plain_key 3 1, shift_key 3 2, plain_key 3 2, shift_key 4 1, plain_key 7 7, shift_key 4 2, shift_key 7 3,
     shift_key 2 6, plain_key 6 5, plain_key 2 2, plain_key 2 7, plain_key 1 7, plain_key 6 3, plain_key 1 3, plain_key 6 2,
     plain_key 6 1, plain_key 5 1, plain_key 1 0, plain_key 3 0, plain_key 7 1, plain_key 2 0, plain_key 0 1, plain_key 5 2,
     plain_key 5 3, plain_key 1 6, plain_key 1 2, plain_key 6 6, plain_key 1 1, plain_key 5 0, plain_key 0 3, plain_key 6 7,
     plain_key 0 6, plain_key 6 0, plain_key 2 5, plain_key 5 7, plain_key 3 6, plain_key 5 6, shift_key 2 1, shift_key 3 3,
     unmapped, plain_key 6 5, plain_key 2 2, plain_key 2 7, plain_key 1 7, plain_key 6 3, plain_key 1 3, plain_key 6 2,
     plain_key 6 1, plain_key 5 1, plain_key 1 0, plain_key 3 0, plain_key 7 1, plain_key 2 0, plain_key 0 1, plain_key 5 2,
     plain_key 5 3, plain_key 1 6, plain_key 1 2, plain_key 6 6, plain_key 1 1, plain_key 5 0, plain_key 0 3, plain_key 6 7,
     plain_key 0 6, plain_key 6 0, plain_key 2 5, shift_key 5 7, shift_key 3 6, shift_key 5 6, unmapped, unmapped]"

definition oric_keyboard_press_char :: "u8 \<Rightarrow> oric_keyboard_t \<Rightarrow> bool \<times> oric_keyboard_t" where
  "oric_keyboard_press_char c kb =
     (if c = 0x0A \<or> c = 0x0D then (True, upd_matrix (key_down 7 5) kb)
      else if c = 0x1B then (True, upd_matrix (key_down 1 5) kb)
      else if c = 0x80 then (True, upd_matrix (key_down 4 3) kb)
      else if c = 0x81 then (True, upd_matrix (key_down 4 6) kb)
      else if c = 0x82 then (True, upd_matrix (key_down 4 5) kb)
      else if c = 0x83 then (True, upd_matrix (key_down 4 7) kb)
      else if c = 0x84 then (True, upd_matrix (key_down 5 5) kb)
      else if c > 127 then (False, kb)
      else
        let e = char_map ! unat c in
        if ce_col e < 0 then (False, kb)
        else
          let kb1 = upd_matrix (key_down (nat (ce_col e)) (nat (ce_row e))) kb
          in (True, if ce_shift e then upd_matrix (key_down 4 4) kb1 else kb1))"

definition oric_keyboard_char_needs_shift :: "u8 \<Rightarrow> bool" where
  "oric_keyboard_char_needs_shift c =
     (if c > 127 then False else ce_col (char_map ! unat c) \<ge> 0 \<and> ce_shift (char_map ! unat c))"

definition oric_keyboard_release_all :: "oric_keyboard_t \<Rightarrow> oric_keyboard_t" where
  "oric_keyboard_release_all kb = kb\<lparr>matrix := replicate 8 0xFF\<rparr>"

definition oric_keyboard_press_ctrl :: "oric_keyboard_t \<Rightarrow> oric_keyboard_t" where
  "oric_keyboard_press_ctrl kb = upd_matrix (key_down 2 4) kb"

definition oric_keyboard_press_funct :: "oric_keyboard_t \<Rightarrow> oric_keyboard_t" where
  "oric_keyboard_press_funct kb = upd_matrix (key_down 5 4) kb"

definition oric_keyboard_press_lshift :: "oric_keyboard_t \<Rightarrow> oric_keyboard_t" where
  "oric_keyboard_press_lshift kb = upd_matrix (key_down 4 4) kb"

definition oric_keyboard_press_rshift :: "oric_keyboard_t \<Rightarrow> oric_keyboard_t" where
  "oric_keyboard_press_rshift kb = upd_matrix (key_down 7 4) kb"

section \<open>Positional mapping\<close>

definition ascii :: "char \<Rightarrow> sdl_keycode" where
  "ascii c = K_CHAR (of_char c)"

text \<open>A zero entry of the C table matches no key of the keyboard.\<close>

definition qwerty_tab :: "sdl_keycode list" where
  "qwerty_tab =
    [ascii CHR ''7'', ascii CHR ''n'', ascii CHR ''5'', ascii CHR ''v'', K_RCTRL, ascii CHR ''1'', ascii CHR ''x'', ascii CHR ''3'',
     ascii CHR ''j'', ascii CHR ''t'', ascii CHR ''r'', ascii CHR ''f'', K_OTHER 0, K_ESCAPE, ascii CHR ''q'', ascii CHR ''d'',
     ascii CHR ''m'', ascii CHR ''6'', ascii CHR ''b'', ascii CHR ''4'', K_LCTRL, ascii CHR ''z'', ascii CHR ''2'', ascii CHR ''c'',
     ascii CHR ''k'', ascii CHR ''9'', ascii CHR '';'', ascii CHR ''-'', K_OTHER 0, K_OTHER 0, K_CHAR 0x5C, K_CHAR 0x27,
     ascii CHR '' '', ascii CHR '','', ascii CHR ''.'', K_UP, K_LSHIFT, K_LEFT, K_DOWN, K_RIGHT,
     ascii CHR ''u'', ascii CHR ''i'', ascii CHR ''o'', ascii CHR ''p'', K_LALT, K_BACKSPACE, ascii CHR '']'', ascii CHR ''['',
     ascii CHR ''y'', ascii CHR ''h'', ascii CHR ''g'', ascii CHR ''e'', K_RALT, ascii CHR ''a'', ascii CHR ''s'', ascii CHR ''w'',
     ascii CHR ''8'', ascii CHR ''l'', ascii CHR ''0'', ascii CHR ''/'', K_RSHIFT, K_RETURN, K_CHAR 0x60, ascii CHR ''='']"

text \<open>The first position of a key code in the table.\<close>

fun find_key :: "sdl_keycode \<Rightarrow> sdl_keycode list \<Rightarrow> nat \<Rightarrow> nat option" where
  "find_key k [] i = None"
| "find_key k (x # xs) i = (if x = k then Some i else find_key k xs (i + 1))"

definition handle_qwerty :: "sdl_event \<Rightarrow> oric_keyboard_t \<Rightarrow> bool \<times> oric_keyboard_t" where
  "handle_qwerty e kb =
     (let act = (\<lambda>f k. case find_key k qwerty_tab 0 of
                   Some i \<Rightarrow> (True, upd_matrix (f (i div 8) (i mod 8)) kb) | None \<Rightarrow> (False, kb))
      in case e of
           Key_down sc k ctrl \<Rightarrow> act key_down k
         | Key_up sc k \<Rightarrow> act key_up k
         | _ \<Rightarrow> (False, kb))"

section \<open>Symbolic mapping\<close>

definition special_keys :: "(sdl_scancode \<times> int \<times> int) list" where
  "special_keys =
     [(SC_UP, 4, 3), (SC_DOWN, 4, 6), (SC_LEFT, 4, 5), (SC_RIGHT, 4, 7), (SC_RETURN, 7, 5),
      (SC_ESCAPE, 1, 5), (SC_BACKSPACE, 5, 5), (SC_DELETE, 5, 5), (SC_LCTRL, 2, 4),
      (SC_RCTRL, 0, 4), (SC_TAB, 5, 4)]"

definition sym_add_pressed :: "pressed_key \<Rightarrow> oric_keyboard_t \<Rightarrow> oric_keyboard_t" where
  "sym_add_pressed k kb =
     (if length (pressed kb) \<ge> ORIC_KB_MAX_PRESSED then kb else kb\<lparr>pressed := pressed kb @ [k]\<rparr>)"

text \<open>The first entry of the scancode is overwritten by the last one, which is dropped.\<close>

fun remove_at :: "sdl_scancode \<Rightarrow> pressed_key list \<Rightarrow> pressed_key list \<Rightarrow> pressed_key list" where
  "remove_at sc seen [] = seen"
| "remove_at sc seen (k # ks) =
     (if pk_scancode k = sc then seen @ (if ks = [] then [] else last ks # butlast ks)
      else remove_at sc (seen @ [k]) ks)"

definition sym_remove_pressed :: "sdl_scancode \<Rightarrow> oric_keyboard_t \<Rightarrow> oric_keyboard_t" where
  "sym_remove_pressed sc kb = kb\<lparr>pressed := remove_at sc [] (pressed kb)\<rparr>"

definition press_one :: "pressed_key \<Rightarrow> u8 list \<Rightarrow> u8 list" where
  "press_one k m =
     (let m1 = (if 0 \<le> pk_col k \<and> pk_col k < 8 \<and> 0 \<le> pk_row k \<and> pk_row k < 8
                then key_down (nat (pk_col k)) (nat (pk_row k)) m else m)
      in if pk_shift k then key_down 4 4 m1 else m1)"

definition sym_rebuild_matrix :: "oric_keyboard_t \<Rightarrow> oric_keyboard_t" where
  "sym_rebuild_matrix kb = kb\<lparr>matrix := fold press_one (pressed kb) (replicate 8 0xFF)\<rparr>"

definition sym_press :: "sdl_scancode \<Rightarrow> int \<Rightarrow> int \<Rightarrow> bool \<Rightarrow> oric_keyboard_t \<Rightarrow> oric_keyboard_t" where
  "sym_press sc c r sh kb =
     sym_rebuild_matrix (sym_add_pressed \<lparr>pk_scancode = sc, pk_col = c, pk_row = r, pk_shift = sh\<rparr>
       (sym_remove_pressed sc kb))"

definition handle_symbolic :: "sdl_event \<Rightarrow> oric_keyboard_t \<Rightarrow> bool \<times> oric_keyboard_t" where
  "handle_symbolic e kb =
     (case e of
        Text_input c \<Rightarrow>
          (if c > 127 then (False, kb)
           else
             let en = char_map ! unat c in
             if ce_col en < 0 then (False, kb)
             else if has_pending kb then
               (True, (sym_press (pending_scancode kb) (ce_col en) (ce_row en) (ce_shift en) kb)
                  \<lparr>has_pending := False\<rparr>)
             else (True, kb))
      | Key_down sc k ctrl \<Rightarrow>
          (case map_of special_keys sc of
             Some (c, r) \<Rightarrow> (True, sym_press sc c r False kb)
           | None \<Rightarrow>
               let letter = (case k of K_CHAR x \<Rightarrow> ctrl \<and> 0x61 \<le> x \<and> x \<le> 0x7A \<and> ce_col (char_map ! unat x) \<ge> 0
                             | _ \<Rightarrow> False)
               in if letter then
                    (case k of K_CHAR x \<Rightarrow>
                       (let en = char_map ! unat x
                        in (True, sym_press sc (ce_col en) (ce_row en) (ce_shift en) kb))
                     | _ \<Rightarrow> (False, kb))
                  else if sc = SC_LSHIFT \<or> sc = SC_RSHIFT \<or> sc = SC_LALT \<or> sc = SC_RALT then (False, kb)
                  else (False, kb\<lparr>pending_scancode := sc, has_pending := True\<rparr>))
      | Key_up sc k \<Rightarrow>
          (let kb1 = (if has_pending kb \<and> pending_scancode kb = sc then kb\<lparr>has_pending := False\<rparr> else kb)
           in (True, sym_rebuild_matrix (sym_remove_pressed sc kb1)))
      | Other_event \<Rightarrow> (False, kb))"

definition oric_keyboard_handle_sdl_event :: "sdl_event \<Rightarrow> oric_keyboard_t \<Rightarrow> bool \<times> oric_keyboard_t" where
  "oric_keyboard_handle_sdl_event e kb =
     (if layout kb = ORIC_KB_AZERTY then handle_symbolic e kb else handle_qwerty e kb)"

end
