(* ===== verification/Port_Devices.thy ===== *)
theory Port_Devices
  imports Prelude
begin

unbundle bit_operations_syntax

text \<open>
  The devices on the printer port: the IJK joystick interface (\<open>include/io/joystick.h\<close>,
  \<open>src/io/joystick.c\<close>) and the Centronics printer (\<open>include/io/printer.h\<close>, \<open>src/io/printer.c\<close>).
  A text file is the bytes written to it, newest first; the bytes handed to the MCP-40 plotter
  are logged the same way.
\<close>

section \<open>IJK joystick\<close>

abbreviation IJK_RIGHT :: u8 where "IJK_RIGHT \<equiv> 0x01"
abbreviation IJK_LEFT :: u8 where "IJK_LEFT \<equiv> 0x02"
abbreviation IJK_FIRE :: u8 where "IJK_FIRE \<equiv> 0x04"
abbreviation IJK_DOWN :: u8 where "IJK_DOWN \<equiv> 0x08"
abbreviation IJK_UP :: u8 where "IJK_UP \<equiv> 0x10"
abbreviation IJK_PRESENCE :: u8 where "IJK_PRESENCE \<equiv> 0x20"

datatype oric_joy_mode_t = ORIC_JOY_DISABLED | ORIC_JOY_SDL_GAMEPAD | ORIC_JOY_KEYBOARD

record oric_joystick_t =
  port_a_mask :: u8
  joy_mode :: oric_joy_mode_t

definition oric_joystick_init :: oric_joystick_t where
  "oric_joystick_init = \<lparr>port_a_mask = 0xFF, joy_mode = ORIC_JOY_DISABLED\<rparr>"

definition oric_joystick_reset :: "oric_joystick_t \<Rightarrow> oric_joystick_t" where
  "oric_joystick_reset j = j\<lparr>port_a_mask := 0xFF\<rparr>"

definition oric_joystick_set_mode :: "oric_joy_mode_t \<Rightarrow> oric_joystick_t \<Rightarrow> oric_joystick_t" where
  "oric_joystick_set_mode m j = j\<lparr>joy_mode := m, port_a_mask := 0xFF\<rparr>"

definition oric_joystick_press :: "u8 \<Rightarrow> oric_joystick_t \<Rightarrow> oric_joystick_t" where
  "oric_joystick_press b j = j\<lparr>port_a_mask := port_a_mask j AND NOT b\<rparr>"

definition oric_joystick_release :: "u8 \<Rightarrow> oric_joystick_t \<Rightarrow> oric_joystick_t" where
  "oric_joystick_release b j = j\<lparr>port_a_mask := port_a_mask j OR b\<rparr>"

definition oric_joystick_release_all :: "oric_joystick_t \<Rightarrow> oric_joystick_t" where
  "oric_joystick_release_all j = j\<lparr>port_a_mask := 0xFF\<rparr>"

definition oric_joystick_read :: "oric_joystick_t \<Rightarrow> u8" where
  "oric_joystick_read j = (if joy_mode j = ORIC_JOY_DISABLED then 0xFF else port_a_mask j)"

definition oric_joystick_port_a_pins :: "oric_joystick_t \<Rightarrow> u8 \<Rightarrow> u8 \<Rightarrow> u8 \<Rightarrow> u8 \<Rightarrow> u8" where
  "oric_joystick_port_a_pins j va vda vb vdb =
     (if joy_mode j = ORIC_JOY_DISABLED then 0xFF
      else if vdb AND 0x10 = 0 then 0xFF
      else if vb AND 0x10 \<noteq> 0 then 0xFF
      else
        let out = NOT IJK_PRESENCE;
            joysel = (va AND vda) OR NOT vda
        in if joysel AND 0xC0 = 0xC0 then out
           else if joysel AND 0x40 \<noteq> 0 then out AND port_a_mask j
           else out)"

text \<open>The SDL events the handler reads; key codes, buttons and axes are those it names.\<close>

datatype joy_key = JK_UP | JK_DOWN | JK_LEFT | JK_RIGHT | JK_RCTRL | JK_RALT | JK_OTHER
datatype pad_button = DPAD_UP | DPAD_DOWN | DPAD_LEFT | DPAD_RIGHT | BUTTON_A | BUTTON_B | BUTTON_X | BUTTON_OTHER
datatype pad_axis = AXIS_LEFTX | AXIS_LEFTY | AXIS_OTHER
datatype joy_event =
  JE_key bool joy_key | JE_button bool pad_button | JE_axis pad_axis int
  | JE_hat bool bool bool bool | JE_joybutton bool | JE_other

fun joy_key_mask :: "joy_key \<Rightarrow> u8 option" where
  "joy_key_mask JK_UP = Some IJK_UP"
| "joy_key_mask JK_DOWN = Some IJK_DOWN"
| "joy_key_mask JK_LEFT = Some IJK_LEFT"
| "joy_key_mask JK_RIGHT = Some IJK_RIGHT"
| "joy_key_mask JK_RCTRL = Some IJK_FIRE"
| "joy_key_mask JK_RALT = Some IJK_FIRE"
| "joy_key_mask JK_OTHER = None"

fun gamepad_button_to_ijk :: "pad_button \<Rightarrow> u8" where
  "gamepad_button_to_ijk DPAD_UP = IJK_UP"
| "gamepad_button_to_ijk DPAD_DOWN = IJK_DOWN"
| "gamepad_button_to_ijk DPAD_LEFT = IJK_LEFT"
| "gamepad_button_to_ijk DPAD_RIGHT = IJK_RIGHT"
| "gamepad_button_to_ijk BUTTON_A = IJK_FIRE"
| "gamepad_button_to_ijk BUTTON_B = IJK_FIRE"
| "gamepad_button_to_ijk BUTTON_X = IJK_FIRE"
| "gamepad_button_to_ijk BUTTON_OTHER = 0"

abbreviation JOY_AXIS_DEADZONE :: int where "JOY_AXIS_DEADZONE \<equiv> 8000"

definition joy_axis :: "u8 \<Rightarrow> u8 \<Rightarrow> int \<Rightarrow> oric_joystick_t \<Rightarrow> oric_joystick_t" where
  "joy_axis neg pos v j =
     (let j1 = oric_joystick_release (neg OR pos) j
      in if v < - JOY_AXIS_DEADZONE then oric_joystick_press neg j1
         else if v > JOY_AXIS_DEADZONE then oric_joystick_press pos j1
         else j1)"

definition joy_hat :: "bool \<Rightarrow> bool \<Rightarrow> bool \<Rightarrow> bool \<Rightarrow> oric_joystick_t \<Rightarrow> oric_joystick_t" where
  "joy_hat up down left right j0 =
     (let j1 = oric_joystick_release (IJK_UP OR IJK_DOWN OR IJK_LEFT OR IJK_RIGHT) j0;
          j2 = (if up then oric_joystick_press IJK_UP j1 else j1);
          j3 = (if down then oric_joystick_press IJK_DOWN j2 else j2);
          j4 = (if left then oric_joystick_press IJK_LEFT j3 else j3)
      in if right then oric_joystick_press IJK_RIGHT j4 else j4)"

definition oric_joystick_handle_sdl_event :: "joy_event \<Rightarrow> oric_joystick_t \<Rightarrow> bool \<times> oric_joystick_t" where
  "oric_joystick_handle_sdl_event e j =
     (if joy_mode j = ORIC_JOY_DISABLED then (False, j)
      else if joy_mode j = ORIC_JOY_KEYBOARD then
        (case e of
           JE_key down k \<Rightarrow>
             (case joy_key_mask k of
                Some b \<Rightarrow> (True, if down then oric_joystick_press b j else oric_joystick_release b j)
              | None \<Rightarrow> (False, j))
         | _ \<Rightarrow> (False, j))
      else
        (case e of
           JE_button down b \<Rightarrow>
             (let k = gamepad_button_to_ijk b
              in if k \<noteq> 0 then (True, if down then oric_joystick_press k j else oric_joystick_release k j)
                 else (False, j))
         | JE_axis a v \<Rightarrow>
             (if a = AXIS_LEFTX then (True, joy_axis IJK_LEFT IJK_RIGHT v j)
              else if a = AXIS_LEFTY then (True, joy_axis IJK_UP IJK_DOWN v j)
              else (False, j))
         | JE_hat up down left right \<Rightarrow> (True, joy_hat up down left right j)
         | JE_joybutton down \<Rightarrow>
             (True, if down then oric_joystick_press IJK_FIRE j else oric_joystick_release IJK_FIRE j)
         | _ \<Rightarrow> (False, j)))"

section \<open>Printer\<close>

datatype oric_printer_type_t = PRINTER_NONE | PRINTER_TEXT | PRINTER_MCP40

abbreviation PRINTER_STROBE_PB4 :: u8 where "PRINTER_STROBE_PB4 \<equiv> 0x10"

record oric_printer_t =
  printed :: "u8 list option"
  strobe_low :: bool
  byte_count :: u32
  printer_type :: oric_printer_type_t
  mcp40_bytes :: "u8 list"

definition oric_printer_init :: oric_printer_t where
  "oric_printer_init = \<lparr>printed = None, strobe_low = False, byte_count = 0,
     printer_type = PRINTER_NONE, mcp40_bytes = []\<rparr>"

definition oric_printer_close :: "oric_printer_t \<Rightarrow> oric_printer_t" where
  "oric_printer_close p =
     (let p1 = (if printer_type p = PRINTER_MCP40 then p
                else if printed p \<noteq> None then p\<lparr>printed := None\<rparr> else p)
      in p1\<lparr>strobe_low := False\<rparr>)"

text \<open>\<open>can_open\<close> is whether \<open>fopen\<close> succeeds.\<close>

definition oric_printer_open :: "bool \<Rightarrow> oric_printer_t \<Rightarrow> bool \<times> oric_printer_t" where
  "oric_printer_open can_open p0 =
     (let p1 = (if printed p0 \<noteq> None \<or> printer_type p0 = PRINTER_MCP40 then oric_printer_close p0 else p0);
          p2 = (if printer_type p1 = PRINTER_NONE then p1\<lparr>printer_type := PRINTER_TEXT\<rparr> else p1)
      in if printer_type p2 = PRINTER_MCP40 then
           (True, p2\<lparr>mcp40_bytes := [], byte_count := 0, strobe_low := False\<rparr>)
         else if \<not> can_open then (False, p2\<lparr>printed := None\<rparr>)
         else (True, p2\<lparr>printed := Some [], byte_count := 0, strobe_low := False\<rparr>))"

definition oric_printer_check_pb4 :: "bool \<Rightarrow> bool \<Rightarrow> u8 \<Rightarrow> oric_printer_t \<Rightarrow> bool \<times> oric_printer_t" where
  "oric_printer_check_pb4 old_pb4 new_pb4 data p =
     (if printer_type p = PRINTER_NONE then (False, p)
      else if printer_type p = PRINTER_TEXT \<and> printed p = None then (False, p)
      else if old_pb4 \<and> \<not> new_pb4 then (False, p\<lparr>strobe_low := True\<rparr>)
      else if \<not> (\<not> old_pb4 \<and> new_pb4 \<and> strobe_low p) then (False, p)
      else
        let p1 = p\<lparr>strobe_low := False, byte_count := byte_count p + 1\<rparr>
        in (True, if printer_type p = PRINTER_MCP40 then p1\<lparr>mcp40_bytes := data # mcp40_bytes p1\<rparr>
                  else p1\<lparr>printed := map_option (\<lambda>out. data # out) (printed p1)\<rparr>))"

definition oric_printer_is_active :: "oric_printer_t \<Rightarrow> bool" where
  "oric_printer_is_active p \<longleftrightarrow> printer_type p = PRINTER_MCP40 \<or> printed p \<noteq> None"

end
