(* ===== verification/Oric_Board.thy ===== *)
theory Oric_Board
  imports Cpu_State Via6522 Ay3891x Keyboard Port_Devices
begin

unbundle bit_operations_syntax

text \<open>
  The wiring of the machine (\<open>src/main.c\<close>, \<open>src/io/io_bus.c\<close>): the I/O page dispatch between the
  cards and the VIA, the PSG bus behind the VIA control lines, the keyboard and joystick behind
  its ports, the printer strobe on port B, the interrupt output on the CPU line, and the clock.
  The board of the CPU model holds these devices; \<open>oric_hooks\<close> are its bus callbacks.  The cards,
  the CPU cycle counter that stamps PSG writes, the LOCI and cassette snoops on port B and the
  ticks that follow the VIA's are parameters (\<open>oric_config\<close>).
\<close>

section \<open>State\<close>

record 'c oric_dev =
  dvia :: via6522_t
  psg :: ay3891x_t
  kb :: oric_keyboard_t
  joy :: oric_joystick_t
  prn :: oric_printer_t
  kbd_scan_prev_col :: u8
  kbd_scan_passes :: u32
  cards :: 'c

type_synonym 'c oric_board = "'c oric_dev board"

text \<open>A device of the I/O bus, with null pointers as \<open>None\<close>.\<close>

record 'c io_device_t =
  claims :: "u16 \<Rightarrow> 'c oric_board \<Rightarrow> bool"
  dev_read :: "u16 \<Rightarrow> 'c oric_board \<Rightarrow> u8 \<times> 'c oric_board"
  dev_write :: "u16 \<Rightarrow> u8 \<Rightarrow> 'c oric_board \<Rightarrow> bool \<times> 'c oric_board"
  claims_write :: "(u16 \<Rightarrow> 'c oric_board \<Rightarrow> bool) option"
  dev_peek :: "(u16 \<Rightarrow> 'c oric_board \<Rightarrow> u8 \<times> 'c oric_board) option"

record 'c oric_config =
  bus_devices :: "'c io_device_t list"
  cpu_clock :: "'c oric_board \<Rightarrow> 64 word"
  orb_snoop :: "u16 \<Rightarrow> u8 \<Rightarrow> 'c oric_board \<Rightarrow> 'c oric_board"
  later_ticks :: "nat \<Rightarrow> 'c oric_board \<Rightarrow> 'c oric_board"

definition upd_dev :: "('c oric_dev \<Rightarrow> 'c oric_dev) \<Rightarrow> 'c oric_board \<Rightarrow> 'c oric_board" where
  "upd_dev f b = b\<lparr>dev := f (dev b)\<rparr>"

text \<open>An operation of the VIA inside the board.\<close>

definition on_via :: "('c oric_board via_state \<Rightarrow> 'x \<times> 'c oric_board via_state) \<Rightarrow> 'c oric_board \<Rightarrow>
    'x \<times> 'c oric_board" where
  "on_via f b =
     (let (x, s) = f \<lparr>via = dvia (dev b), user = b\<rparr>
      in (x, upd_dev (\<lambda>d. d\<lparr>dvia := via s\<rparr>) (user s)))"

definition do_via :: "('c oric_board via_state \<Rightarrow> 'c oric_board via_state) \<Rightarrow> 'c oric_board \<Rightarrow> 'c oric_board" where
  "do_via f b = snd (on_via (\<lambda>s. ((), f s)) b)"

section \<open>Callbacks of the VIA\<close>

definition autotype_is_new_pass :: "u8 \<Rightarrow> u8 \<Rightarrow> bool" where
  "autotype_is_new_pass prev_col col \<longleftrightarrow> prev_col \<noteq> 0xFF \<and> col > prev_col"

definition ijk_port_a_read :: "'c oric_board via_state \<Rightarrow> u8 \<times> 'c oric_board via_state" where
  "ijk_port_a_read s =
     (oric_joystick_port_a_pins (joy (dev (user s))) (ora (via s)) (ddra (via s)) (orb (via s)) (ddrb (via s)), s)"

definition portb_read_callback :: "'c oric_board via_state \<Rightarrow> u8 \<times> 'c oric_board via_state" where
  "portb_read_callback s =
     (let d = dev (user s);
          col = orb (via s) AND 0x07;
          reg7 = registers (psg d) ! 7;
          reg14 = registers (psg d) ! 14;
          mcol = matrix (kb d) ! unat col
      in if reg7 AND 0x40 = 0 then (0xF7, s)
         else
           let b = upd_dev (\<lambda>d. d\<lparr>kbd_scan_passes := (if autotype_is_new_pass (kbd_scan_prev_col d) col
                                     then kbd_scan_passes d + 1 else kbd_scan_passes d),
                                   kbd_scan_prev_col := col\<rparr>) (user s);
               hit = NOT mcol AND NOT reg14
           in (if hit \<noteq> 0 then 0xFF else 0xF7, s\<lparr>user := b\<rparr>))"

text \<open>\<open>irq_callback\<close> of \<open>main.c\<close>.\<close>

definition oric_irq :: "bool \<Rightarrow> 'c oric_board \<Rightarrow> 'c oric_board" where
  "oric_irq level b = (if level then cpu_irq_set IRQF_VIA b else cpu_irq_clear IRQF_VIA b)"

definition oric_via_hooks :: "'c oric_board via_hooks" where
  "oric_via_hooks = \<lparr>porta_read = Some ijk_port_a_read, porta_write = None,
     portb_read = Some portb_read_callback, portb_write = None, irq_callback = Some oric_irq\<rparr>"

section \<open>The PSG bus\<close>

text \<open>\<open>keyboard_matrix_read\<close>\<close>

definition keyboard_matrix_read :: "'c oric_dev \<Rightarrow> u8" where
  "keyboard_matrix_read d = matrix (kb d) ! unat (orb (dvia d) AND 0x07)"

definition psg_decode :: "'c oric_config \<Rightarrow> 'c oric_board \<Rightarrow> 'c oric_board" where
  "psg_decode cfg b =
     (let v = dvia (dev b);
          bc1 = (drop_bit 1 (pcr v) AND 0x07 = 0x07);
          bdir = (drop_bit 5 (pcr v) AND 0x07 = 0x07)
      in if bdir \<and> bc1 then upd_dev (\<lambda>d. d\<lparr>psg := ay_write_address (ora v) (psg d)\<rparr>) b
         else if bdir \<and> \<not> bc1 then
           upd_dev (\<lambda>d. d\<lparr>psg := ay_write_data_timed (ora v) (cpu_clock cfg b) (psg d)\<rparr>) b
         else if \<not> bdir \<and> bc1 then
           upd_dev (\<lambda>d. d\<lparr>dvia := (dvia d)\<lparr>ira := ay_read_data (Some (keyboard_matrix_read d)) (psg d)\<rparr>\<rparr>) b
         else b)"

section \<open>The I/O page\<close>

fun io_bus_find :: "'c io_device_t list \<Rightarrow> u16 \<Rightarrow> 'c oric_board \<Rightarrow> 'c io_device_t option" where
  "io_bus_find [] addr b = None"
| "io_bus_find (d # ds) addr b = (if claims d addr b then Some d else io_bus_find ds addr b)"

fun io_bus_find_write :: "'c io_device_t list \<Rightarrow> u16 \<Rightarrow> 'c oric_board \<Rightarrow> 'c io_device_t option" where
  "io_bus_find_write [] addr b = None"
| "io_bus_find_write (d # ds) addr b =
     (if (case claims_write d of Some cw \<Rightarrow> cw | None \<Rightarrow> claims d) addr b then Some d
      else io_bus_find_write ds addr b)"

definition io_read_callback :: "'c oric_config \<Rightarrow> u16 \<Rightarrow> 'c oric_board \<Rightarrow> u8 \<times> 'c oric_board" where
  "io_read_callback cfg addr b =
     (case io_bus_find (bus_devices cfg) addr b of
        Some d \<Rightarrow> dev_read d addr b
      | None \<Rightarrow> on_via (via_read oric_via_hooks (lo8 (addr AND 0x000F))) b)"

definition io_peek_callback :: "'c oric_config \<Rightarrow> u16 \<Rightarrow> 'c oric_board \<Rightarrow> u8 \<times> 'c oric_board" where
  "io_peek_callback cfg addr b =
     (case io_bus_find (bus_devices cfg) addr b of
        Some d \<Rightarrow> (case dev_peek d of Some pk \<Rightarrow> pk addr b | None \<Rightarrow> dev_read d addr b)
      | None \<Rightarrow> on_via (via_read oric_via_hooks (lo8 (addr AND 0x000F))) b)"

text \<open>The level of PB4 as a pin: high when it is not an output.\<close>

definition pb4_level :: "via6522_t \<Rightarrow> bool" where
  "pb4_level v \<longleftrightarrow> ddrb v AND PRINTER_STROBE_PB4 = 0 \<or> orb v AND PRINTER_STROBE_PB4 \<noteq> 0"

definition printer_strobe :: "bool \<Rightarrow> 'c oric_board \<Rightarrow> 'c oric_board" where
  "printer_strobe pb4_before b =
     (let v = dvia (dev b);
          (taken, p) = oric_printer_check_pb4 pb4_before (pb4_level v) (ora v) (prn (dev b));
          b1 = upd_dev (\<lambda>d. d\<lparr>prn := p\<rparr>) b
      in if taken then
           do_via (via_set_ca1 oric_via_hooks True) (do_via (via_set_ca1 oric_via_hooks False) b1)
         else b1)"

definition via_io_write :: "'c oric_config \<Rightarrow> u8 \<Rightarrow> u8 \<Rightarrow> 'c oric_board \<Rightarrow> 'c oric_board" where
  "via_io_write cfg r x b =
     (let pb4_before = pb4_level (dvia (dev b));
          b1 = do_via (via_write oric_via_hooks r x) b;
          b2 = (if r = 0x00 then printer_strobe pb4_before b1 else b1)
      in if r = 0x0C then psg_decode cfg b2 else b2)"

definition io_write_callback :: "'c oric_config \<Rightarrow> u16 \<Rightarrow> u8 \<Rightarrow> 'c oric_board \<Rightarrow> 'c oric_board" where
  "io_write_callback cfg addr x b0 =
     (let (done, b) = (case io_bus_find_write (bus_devices cfg) addr b0 of
                         Some d \<Rightarrow> dev_write d addr x b0 | None \<Rightarrow> (False, b0))
      in if done then b
         else via_io_write cfg (lo8 (addr AND 0x000F)) x (orb_snoop cfg addr x b))"

section \<open>The clock\<close>

definition cpu_cycle_tick :: "'c oric_config \<Rightarrow> nat \<Rightarrow> 'c oric_board \<Rightarrow> 'c oric_board" where
  "cpu_cycle_tick cfg n b =
     later_ticks cfg n
       (if n = 1 then do_via (via_tick oric_via_hooks) b
        else do_via (via_update oric_via_hooks (int n)) b)"

definition oric_hooks :: "'c oric_config \<Rightarrow> 'c oric_dev hooks" where
  "oric_hooks cfg = \<lparr>io_read = Some (io_read_callback cfg), io_write = Some (io_write_callback cfg),
     io_peek = Some (io_peek_callback cfg), on_cycle = Some (cpu_cycle_tick cfg),
     loci_emu_active = (\<lambda>_. False), loci_emu_rom_read = (\<lambda>_ b. (None, b)),
     loci_emu_romdis = (\<lambda>_. False), loci_emu_rom_write = (\<lambda>_ _ b. (False, b))\<rparr>"

text \<open>The devices after \<open>emulator_init\<close>.\<close>

definition oric_dev_init :: "'c \<Rightarrow> 'c oric_dev" where
  "oric_dev_init c = \<lparr>dvia = via_reset via_init, psg = ay_init 1000000, kb = oric_keyboard_init,
     joy = oric_joystick_init, prn = oric_printer_init, kbd_scan_prev_col = 0xFF,
     kbd_scan_passes = 0, cards = c\<rparr>"

end
