(* ===== verification/Oric_Wiring.thy ===== *)
theory Oric_Wiring
  imports Oric_Board Via_Lazy Via_Rules Ay_Invariant
begin

unbundle bit_operations_syntax

text \<open>
  The VIA inside the board: its callbacks satisfy the interfaces of the lazy path and of the
  interrupt output, so the VIA line of the CPU is the interrupt output of the chip; and what the
  register writes of the keyboard scan and of the printer do to the board.
\<close>

lemma snoop_free [simp]: "dev (oric_irq l b) = dev b"
  by (simp add: oric_irq_def cpu_irq_set_def cpu_irq_clear_def)

section \<open>Interfaces\<close>

definition via_line :: "'c oric_board \<Rightarrow> bool" where
  "via_line b \<longleftrightarrow> irq b AND irqf_bit IRQF_VIA \<noteq> 0"

lemma via_line_irq: "via_line (oric_irq l b) = l"
proof -
  have m: "irqf_bit IRQF_VIA \<noteq> 0" by simp
  have clear: "(a AND NOT m) AND m = 0" for a m :: u8
    by (simp add: and.assoc and.commute [of "NOT m"])
  have set: "(a OR m) AND m = m" for a m :: u8
    by (rule or_and_absorb)
  show ?thesis
    using m by (cases l) (simp_all add: oric_irq_def via_line_def cpu_irq_set_def cpu_irq_clear_def clear set
        del: irqf_bit.simps)
qed

lemma portb_read_keeps: "via (snd (portb_read_callback s)) = via s"
    "irq (user (snd (portb_read_callback s))) = irq (user s)"
  by (simp_all add: portb_read_callback_def Let_def upd_dev_def)

lemma oric_hooks_keep:
  assumes "\<And>s t. via t = via s \<Longrightarrow> irq (user t) = irq (user s) \<Longrightarrow> I s \<Longrightarrow> I t"
  shows "hooks_keep I oric_via_hooks"
  using assms [OF portb_read_keeps] by (simp add: hooks_keep_def oric_via_hooks_def ijk_port_a_read_def)

interpretation oric_wire: irq_wire oric_via_hooks via_line oric_irq
proof
  show "irq_callback oric_via_hooks = Some oric_irq" by (simp add: oric_via_hooks_def)
  show "via_line (oric_irq b u) = b" for b and u :: "'c oric_board" by (rule via_line_irq)
  show "hooks_keep (wired via_line) oric_via_hooks"
    by (rule oric_hooks_keep) (simp add: wired_def via_line_def)
  show "hooks_keep (\<lambda>s. irq_settled (via s)) oric_via_hooks"
    by (rule oric_hooks_keep) simp
qed

interpretation oric_lazy: lazy_hooks oric_via_hooks
  by unfold_locales (rule oric_hooks_keep, simp add: fresh_def)

section \<open>Register writes on the board\<close>

lemma do_via_dev:
  assumes "\<And>s. dev (user (f s)) = dev (user s)"
  shows "dev (do_via f b) = (dev b)\<lparr>dvia := via (f \<lparr>via = dvia (dev b), user = b\<rparr>)\<rparr>"
  using assms by (simp add: do_via_def on_via_def Let_def upd_dev_def)

lemma oric_hooks_sel [simp]:
  "porta_write oric_via_hooks = None" "portb_write oric_via_hooks = None"
  "porta_read oric_via_hooks = Some ijk_port_a_read" "portb_read oric_via_hooks = Some portb_read_callback"
  "irq_callback oric_via_hooks = Some oric_irq"
  by (simp_all add: oric_via_hooks_def)

lemma dev_check [simp]: "dev (user (via_check_irq oric_via_hooks s)) = dev (user s)"
  by (simp add: via_check_irq_def Let_def upd_via_def)

lemma dev_upd_via [simp]: "dev (user (upd_via f s)) = dev (user s)"
  by (simp add: upd_via_def)

text \<open>The port registers: what a program sees of the chip during a scan.\<close>

definition ports :: "via6522_t \<Rightarrow> u8 \<times> u8 \<times> u8 \<times> u8 \<times> u8 \<times> u8 \<times> bool \<times> u8" where
  "ports v = (ora v, orb v, ddra v, ddrb v, pcr v, acr v, pb_latched v, pb_latch v)"

lemma ports_sync [simp]: "ports (via_sync v) = ports v"
  by (simp add: ports_def via_sync_def Let_def)

lemma sync_fields [simp]:
  "ora (via_sync v) = ora v" "orb (via_sync v) = orb v" "ddra (via_sync v) = ddra v" "ddrb (via_sync v) = ddrb v"
  "pcr (via_sync v) = pcr v" "acr (via_sync v) = acr v" "pb_latched (via_sync v) = pb_latched v"
  "pb_latch (via_sync v) = pb_latch v"
  using ports_sync [of v] by (simp_all add: ports_def)

lemma ports_check [simp]: "ports (via (via_check_irq hk s)) = ports (via s)"
  by (simp add: check_irq_via ports_def)

lemma ports_clear [simp]:
  "ports (via (via_clear_ca hk s)) = ports (via s)" "ports (via (via_clear_cb hk s)) = ports (via s)"
  by (simp_all add: via_clear_ca_def via_clear_cb_def upd_via_def Let_def) (simp_all add: ports_def)

lemma dev_clear [simp]:
  "dev (user (via_clear_ca oric_via_hooks s)) = dev (user s)"
  "dev (user (via_clear_cb oric_via_hooks s)) = dev (user s)"
  by (simp_all add: via_clear_ca_def via_clear_cb_def)

lemma ports_access [simp]:
  "ports (via_ca2_port_access v) = ports v" "ports (via_cb2_port_access v) = ports v"
  by (simp_all add: via_ca2_port_access_def via_cb2_port_access_def Let_def ports_def)

lemma ports_sel:
  assumes "ports v = (a, b, da, db, pc, ac, l, lv)"
  shows "ora v = a" "orb v = b" "ddra v = da" "ddrb v = db" "pcr v = pc" "acr v = ac" "pb_latched v = l"
    "pb_latch v = lv"
  using assms by (simp_all add: ports_def)

lemma via_upd_via [simp]: "via (upd_via f s) = f (via s)"
  by (simp add: upd_via_def)

lemma write_ora:
  "dev (user (via_write oric_via_hooks 0x01 x s)) = dev (user s)"
  "ports (via (via_write oric_via_hooks 0x01 x s)) =
     (x, orb (via s), ddra (via s), ddrb (via s), pcr (via s), acr (via s), pb_latched (via s), pb_latch (via s))"
  by (simp_all add: via_write_def Let_def call_write_def) (simp add: ports_def)

lemma write_orb:
  "dev (user (via_write oric_via_hooks 0x00 x s)) = dev (user s)"
  "ports (via (via_write oric_via_hooks 0x00 x s)) =
     (ora (via s), x, ddra (via s), ddrb (via s), pcr (via s), acr (via s), pb_latched (via s), pb_latch (via s))"
  by (simp_all add: via_write_def Let_def call_write_def) (simp add: ports_def)

lemma write_pcr:
  "dev (user (via_write oric_via_hooks 0x0C x s)) = dev (user s)"
  "ports (via (via_write oric_via_hooks 0x0C x s)) =
     (ora (via s), orb (via s), ddra (via s), ddrb (via s), x, acr (via s), pb_latched (via s), pb_latch (via s))"
  by (simp_all add: via_write_def Let_def call_write_def) (simp add: ports_def)

lemma write_ora_nh:
  "dev (user (via_write oric_via_hooks 0x0F x s)) = dev (user s)"
  "ports (via (via_write oric_via_hooks 0x0F x s)) =
     (x, orb (via s), ddra (via s), ddrb (via s), pcr (via s), acr (via s), pb_latched (via s), pb_latch (via s))"
  by (simp_all add: via_write_def Let_def call_write_def) (simp add: ports_def)

lemma dev_set_ca1 [simp]: "dev (user (via_set_ca1 oric_via_hooks l s)) = dev (user s)"
  by (simp add: via_set_ca1_def Let_def via_pa_pins_def ijk_port_a_read_def split: prod.split)

lemma ports_set_ca1 [simp]: "ports (via (via_set_ca1 oric_via_hooks l s)) = ports (via s)"
proof -
  have "ports (via_sync (via s)) = ports (via s)" by simp
  moreover have "ports (v\<lparr>ca1_pin := a\<rparr>) = ports v" "ports (v\<lparr>ifr := i\<rparr>) = ports v"
    "ports (v\<lparr>ca2_pin := a\<rparr>) = ports v" "ports (v\<lparr>pa_latch := i, pa_latched := a\<rparr>) = ports v" for v a i
    by (simp_all add: ports_def)
  ultimately show ?thesis
    by (simp add: via_set_ca1_def Let_def via_pa_pins_def ijk_port_a_read_def split: prod.split)
qed

section \<open>Programs on the I/O page\<close>

text \<open>A machine without cards: no device on the bus, and nothing that snoops port B.\<close>

definition bare_config :: "(('c oric_board) \<Rightarrow> 64 word) \<Rightarrow> (nat \<Rightarrow> 'c oric_board \<Rightarrow> 'c oric_board) \<Rightarrow> 'c oric_config" where
  "bare_config clk later = \<lparr>bus_devices = [], cpu_clock = clk, orb_snoop = (\<lambda>_ _ b. b), later_ticks = later\<rparr>"

fun io_writes :: "'c oric_config \<Rightarrow> (u16 \<times> u8) list \<Rightarrow> 'c oric_board \<Rightarrow> 'c oric_board" where
  "io_writes cfg [] b = b"
| "io_writes cfg ((a, x) # ws) b = io_writes cfg ws (io_write_callback cfg a x b)"

text \<open>What the programs below depend on.\<close>

definition view :: "'c oric_board \<Rightarrow> (u8 \<times> u8 \<times> u8 \<times> u8 \<times> u8 \<times> u8 \<times> bool \<times> u8) \<times> ay3891x_t \<times> u8 list" where
  "view b = (ports (dvia (dev b)), psg (dev b), matrix (kb (dev b)))"

lemma config_write:
  "io_write_callback (bare_config clk l) a x b = via_io_write (bare_config clk l) (lo8 (a AND 0x000F)) x b"
  by (simp add: io_write_callback_def bare_config_def)

lemma config_read:
  "io_read_callback (bare_config clk l) a b = on_via (via_read oric_via_hooks (lo8 (a AND 0x000F))) b"
  by (simp add: io_read_callback_def bare_config_def)

lemma view_do_via:
  assumes "\<And>s. dev (user (f s)) = dev (user s)"
    and "\<And>s. ports (via (f s)) = g (ports (via s))"
  shows "view (do_via f b) = (g (fst (view b)), snd (view b))"
  using assms by (simp add: view_def do_via_dev)

lemma view_printer_strobe [simp]:
  fixes b :: "'c oric_board"
  shows "view (printer_strobe p b) = view b"
proof -
  have a: "view (do_via (via_set_ca1 oric_via_hooks l) c) = view c" for l and c :: "'c oric_board"
    by (subst view_do_via [where g = "\<lambda>x. x"]) simp_all
  have "view (upd_dev (\<lambda>d. d\<lparr>prn := q\<rparr>) c) = view c" for q and c :: "'c oric_board"
    by (simp add: view_def upd_dev_def)
  then show ?thesis by (simp add: printer_strobe_def Let_def a split: prod.split)
qed

lemma view_write_orb:
  "view (via_io_write cfg 0x00 x b) =
     (let ((a, _, r), p) = view b in ((a, x, r), p))"
  by (simp add: via_io_write_def Let_def)
    (subst view_do_via [where g = "\<lambda>(a, _, r). (a, x, r)"], simp_all add: write_orb, simp_all add: ports_def view_def)

lemma view_write_ora:
  "view (via_io_write cfg 0x0F x b) =
     (let ((_, r), p) = view b in ((x, r), p))"
  by (simp add: via_io_write_def Let_def)
    (subst view_do_via [where g = "\<lambda>(_, r). (x, r)"], simp_all add: write_ora_nh, simp_all add: ports_def view_def)

lemma view_psg_decode:
  "view (psg_decode cfg b) =
     (let ((a, o', da, db, pc, r), p, m) = view b; bc1 = (drop_bit 1 pc AND 0x07 = 0x07); bdir = (drop_bit 5 pc AND 0x07 = 0x07)
      in ((a, o', da, db, pc, r),
          if bdir \<and> bc1 then ay_write_address a p
          else if bdir then ay_write_data_timed a (cpu_clock cfg b) p else p, m))"
  by (simp add: psg_decode_def Let_def view_def ports_def upd_dev_def)

lemma view_write_pcr:
  "view (via_io_write cfg 0x0C x b) =
     (let ((a, o', da, db, _, r), p, m) = view b; bc1 = (drop_bit 1 x AND 0x07 = 0x07); bdir = (drop_bit 5 x AND 0x07 = 0x07)
      in ((a, o', da, db, x, r),
          if bdir \<and> bc1 then ay_write_address a p
          else if bdir then ay_write_data_timed a (cpu_clock cfg (do_via (via_write oric_via_hooks 0x0C x) b)) p else p, m))"
proof -
  have "view (do_via (via_write oric_via_hooks 0x0C x) b) =
      (let ((a, o', da, db, _, r), p) = view b in ((a, o', da, db, x, r), p))"
    by (subst view_do_via [where g = "\<lambda>(a, o', da, db, _, r). (a, o', da, db, x, r)"])
      (simp_all add: write_pcr, simp_all add: ports_def view_def)
  then show ?thesis
    by (simp add: via_io_write_def view_psg_decode Let_def split: prod.split)
qed

end
