(* ===== verification/Keyboard_Rules.thy ===== *)
theory Keyboard_Rules
  imports Keyboard "HOL-Library.Multiset"
begin

unbundle bit_operations_syntax

text \<open>
  Rules of the keyboard: what a press does to each cell of the matrix, where the characters are,
  and the invariant of the symbolic mapping, whose matrix is the union of the keys held down.
\<close>

section \<open>Cells\<close>

text \<open>A key is down when its bit is low.\<close>

definition cell_down :: "u8 list \<Rightarrow> nat \<Rightarrow> nat \<Rightarrow> bool" where
  "cell_down m c r \<longleftrightarrow> \<not> bit (m ! c) r"

lemma cell_released [simp]: "c < 8 \<Longrightarrow> r < 8 \<Longrightarrow> \<not> cell_down (replicate 8 0xFF) c r"
proof -
  have "(0xFF :: u8) = - 1" by simp
  then show "c < 8 \<Longrightarrow> r < 8 \<Longrightarrow> \<not> cell_down (replicate 8 0xFF) c r"
    by (simp only: cell_down_def nth_replicate) (simp add: bit_simps)
qed

lemma length_key_down [simp]: "length (key_down c r m) = length m"
  by (simp add: key_down_def)

lemma cell_key_down:
  assumes "length m = 8" "c < 8" "c' < 8" "r' < 8"
  shows "cell_down (key_down c r m) c' r' \<longleftrightarrow> cell_down m c' r' \<or> (c' = c \<and> r' = r)"
  using assms by (cases "c' = c") (auto simp: cell_down_def key_down_def bit_simps)

section \<open>Characters\<close>

definition entry_ok :: "char_entry_t \<Rightarrow> bool" where
  "entry_ok e \<longleftrightarrow> ce_col e < 0 \<or> ce_col e < 8 \<and> 0 \<le> ce_row e \<and> ce_row e < 8"

lemma char_map_ok: "list_all entry_ok char_map"
  by (simp add: char_map_def entry_ok_def plain_key_def shift_key_def unmapped_def)

lemma length_char_map: "length char_map = 128"
  by (simp add: char_map_def)

lemma char_entry_ok: "c \<le> 127 \<Longrightarrow> 0 \<le> ce_col (char_map ! unat c) \<Longrightarrow>
    ce_col (char_map ! unat c) < 8 \<and> 0 \<le> ce_row (char_map ! unat c) \<and> ce_row (char_map ! unat c) < 8"
  for c :: u8
  using list_all_length [THEN iffD1, OF char_map_ok, rule_format, of "unat c"]
  by (simp add: length_char_map entry_ok_def word_le_nat_alt)

lemma press_char_cells:
  assumes "length (matrix kb) = 8" "c \<le> 127" "0 \<le> ce_col (char_map ! unat c)" "c' < 8" "r' < 8"
  shows "cell_down (matrix (snd (oric_keyboard_press_char c kb))) c' r' \<longleftrightarrow>
     cell_down (matrix kb) c' r' \<or> (int c' = ce_col (char_map ! unat c) \<and> int r' = ce_row (char_map ! unat c)) \<or>
     (ce_shift (char_map ! unat c) \<and> c' = 4 \<and> r' = 4)"
proof -
  have ctl: "c \<noteq> 0x0A" "c \<noteq> 0x0D" "c \<noteq> 0x1B"
    using assms(3) by (auto simp: char_map_def unmapped_def)
  have high: "c \<noteq> 0x80" "c \<noteq> 0x81" "c \<noteq> 0x82" "c \<noteq> 0x83" "c \<noteq> 0x84" "\<not> c > 127"
    using assms(2) by auto
  define e where "e = char_map ! unat c"
  have e: "0 \<le> ce_col e" "ce_col e < 8" "0 \<le> ce_row e" "ce_row e < 8"
    using char_entry_ok [OF assms(2,3)] assms(3) by (simp_all add: e_def)
  have "nat (ce_col e) < 8" "int c' = ce_col e \<longleftrightarrow> c' = nat (ce_col e)" "int r' = ce_row e \<longleftrightarrow> r' = nat (ce_row e)"
    using e by auto
  then show ?thesis
    using ctl high assms(1,2,4,5) e(1)
    by (simp add: oric_keyboard_press_char_def e_def [symmetric] Let_def upd_matrix_def cell_key_down
        disj_ac split: if_splits)
qed

section \<open>Symbolic mapping\<close>

definition held :: "pressed_key \<Rightarrow> nat \<Rightarrow> nat \<Rightarrow> bool" where
  "held k c r \<longleftrightarrow> (int c = pk_col k \<and> int r = pk_row k) \<or> (pk_shift k \<and> c = 4 \<and> r = 4)"

lemma press_one_cells:
  assumes "length m = 8" "c < 8" "r < 8"
  shows "length (press_one k m) = 8" "cell_down (press_one k m) c r \<longleftrightarrow> cell_down m c r \<or> held k c r"
proof -
  show "length (press_one k m) = 8" using assms by (simp add: press_one_def Let_def)
  have "int c = pk_col k \<longleftrightarrow> c = nat (pk_col k)" if "0 \<le> pk_col k" using that by auto
  moreover have "int r = pk_row k \<longleftrightarrow> r = nat (pk_row k)" if "0 \<le> pk_row k" using that by auto
  ultimately show "cell_down (press_one k m) c r \<longleftrightarrow> cell_down m c r \<or> held k c r"
    using assms by (auto simp: press_one_def Let_def cell_key_down held_def)
qed

lemma fold_press_cells:
  assumes "length m = 8" "c < 8" "r < 8"
  shows "cell_down (fold press_one ks m) c r \<longleftrightarrow> cell_down m c r \<or> (\<exists>k\<in>set ks. held k c r)"
  using assms
proof (induction ks arbitrary: m)
  case (Cons k ks)
  then show ?case using press_one_cells [OF Cons.prems, of k] by (auto simp: Cons.IH)
qed simp

lemma mset_remove_at:
  assumes "distinct (map pk_scancode ks)"
  shows "mset (remove_at sc seen ks) = mset seen + filter_mset (\<lambda>k. pk_scancode k \<noteq> sc) (mset ks)"
  using assms
proof (induction sc seen ks rule: remove_at.induct)
  case (2 sc seen k ks)
  have "mset (if ks = [] then [] else last ks # butlast ks) = mset ks"
    by (cases ks rule: rev_cases) auto
  moreover {
  have "filter (\<lambda>k. pk_scancode k \<noteq> sc) ks = ks" if "pk_scancode k = sc"
    using 2(2) that by (simp add: filter_id_conv) (metis image_eqI)
  then have "filter_mset (\<lambda>k. pk_scancode k \<noteq> sc) (mset ks) = mset ks" if "pk_scancode k = sc"
    using that by (simp add: mset_filter [symmetric] del: mset_filter) }
  ultimately show ?case using 2
    by (cases "pk_scancode k = sc") simp_all
qed simp

text \<open>Every key of the list once, no more of them than the array holds, and the matrix built from it.\<close>

definition sym_ok :: "oric_keyboard_t \<Rightarrow> bool" where
  "sym_ok kb \<longleftrightarrow> distinct (map pk_scancode (pressed kb)) \<and> length (pressed kb) \<le> ORIC_KB_MAX_PRESSED \<and>
     matrix kb = fold press_one (pressed kb) (replicate 8 0xFF)"

definition list_ok :: "oric_keyboard_t \<Rightarrow> bool" where
  "list_ok kb \<longleftrightarrow> distinct (map pk_scancode (pressed kb)) \<and> length (pressed kb) \<le> ORIC_KB_MAX_PRESSED"

lemma distinct_mset: "distinct (map f xs) \<longleftrightarrow> (\<forall>a. count (image_mset f (mset xs)) a = (if a \<in> f ` set xs then 1 else 0))"
  using distinct_count_atmost_1 [of "map f xs"] by simp

lemma remove_pressed:
  assumes "list_ok kb"
  shows "list_ok (sym_remove_pressed sc kb)"
    "set (pressed (sym_remove_pressed sc kb)) = {k \<in> set (pressed kb). pk_scancode k \<noteq> sc}"
proof -
  let ?r = "remove_at sc [] (pressed kb)"
  have m: "mset ?r = mset (filter (\<lambda>k. pk_scancode k \<noteq> sc) (pressed kb))"
    using assms mset_remove_at [of "pressed kb" sc "[]"] by (simp add: list_ok_def)
  have "distinct (map pk_scancode (filter (\<lambda>k. pk_scancode k \<noteq> sc) (pressed kb)))"
    using assms by (simp add: list_ok_def distinct_map_filter)
  then have "distinct (map pk_scancode ?r)"
    using mset_eq_imp_distinct_iff [of "map pk_scancode ?r" "map pk_scancode (filter (\<lambda>k. pk_scancode k \<noteq> sc) (pressed kb))"] m
    by simp
  moreover have "length ?r \<le> length (pressed kb)"
    using mset_eq_length [OF m] by simp
  ultimately show "list_ok (sym_remove_pressed sc kb)"
    using assms by (simp add: list_ok_def sym_remove_pressed_def)
  show "set (pressed (sym_remove_pressed sc kb)) = {k \<in> set (pressed kb). pk_scancode k \<noteq> sc}"
    using mset_eq_setD [OF m] by (auto simp: sym_remove_pressed_def)
qed

lemma rebuild_ok: "list_ok kb \<Longrightarrow> sym_ok (sym_rebuild_matrix kb)"
  by (simp add: list_ok_def sym_ok_def sym_rebuild_matrix_def)

lemma sym_press_ok:
  assumes "list_ok kb"
  shows "sym_ok (sym_press sc c r sh kb)"
proof -
  have "list_ok (sym_add_pressed k kb')" if "list_ok kb'" "pk_scancode k \<notin> pk_scancode ` set (pressed kb')" for k kb'
    using that by (auto simp: list_ok_def sym_add_pressed_def)
  moreover have "sc \<notin> pk_scancode ` set (pressed (sym_remove_pressed sc kb))"
    using remove_pressed(2) [OF assms, of sc] by auto
  ultimately show ?thesis
    using remove_pressed(1) [OF assms, of sc] by (simp add: sym_press_def rebuild_ok)
qed

lemma sym_ok_list: "sym_ok kb \<Longrightarrow> list_ok kb"
  by (simp add: sym_ok_def list_ok_def)

lemma sym_ok_pending [simp]:
  "sym_ok (kb\<lparr>has_pending := p\<rparr>) = sym_ok kb" "sym_ok (kb\<lparr>pending_scancode := q\<rparr>) = sym_ok kb"
  "sym_ok (kb\<lparr>pending_scancode := q, has_pending := p\<rparr>) = sym_ok kb"
  "list_ok (kb\<lparr>has_pending := p\<rparr>) = list_ok kb"
  by (simp_all add: sym_ok_def list_ok_def)

lemma handle_symbolic_ok:
  assumes "sym_ok kb"
  shows "sym_ok (snd (handle_symbolic e kb))"
  using assms sym_ok_list [OF assms]
  by (auto simp: handle_symbolic_def Let_def sym_press_ok rebuild_ok remove_pressed(1)
      split: sdl_event.split option.split sdl_keycode.split prod.split)

end
