(* ===== verification/Oric_Properties.thy ===== *)
theory Oric_Properties
  imports Oric_Wiring Keyboard_Rules Ay_Queue
begin

unbundle bit_operations_syntax

text \<open>
  Properties of the board: the keyboard as a program sees it through the VIA and the sound chip,
  the printer handshake, and the symbolic keyboard.
\<close>

section \<open>Keyboard scan\<close>

text \<open>
  The scan of one column, as the ROM does it: register 14 of the sound chip is selected, the row
  mask is written to it, the column is put on port B, and port B is read.
\<close>

definition scan_writes :: "u8 \<Rightarrow> u8 \<Rightarrow> (u16 \<times> u8) list" where
  "scan_writes rows col =
     [(0x030F, 14), (0x030C, 0xEE), (0x030C, 0xCC), (0x030F, rows), (0x030C, 0xEC), (0x030C, 0xCC), (0x0300, col)]"

definition scan_key :: "'c oric_config \<Rightarrow> u8 \<Rightarrow> u8 \<Rightarrow> 'c oric_board \<Rightarrow> bool" where
  "scan_key cfg rows col b \<longleftrightarrow> fst (io_read_callback cfg 0x0300 (io_writes cfg (scan_writes rows col) b)) AND 0x08 \<noteq> 0"

lemma timed_regs:
  "registers (ay_write_data_timed x c (ay_write_address 14 p)) = (registers p)[14 := x]"
  by (simp add: ay_write_data_timed_def ay_write_address_def apply_sound_main_def)

lemma scan_view:
  assumes "view b = ((va, vb, da, db, pc, r), p, m)"
  shows "\<exists>q. view (io_writes (bare_config clk l) (scan_writes rows col) b) = ((rows, col, da, db, 0xCC, r), q, m) \<and>
     registers q = (registers p)[14 := rows]"
  by (simp add: scan_writes_def config_write lo8_def view_write_ora view_write_pcr view_write_orb assms timed_regs)

lemma and_8_bit: "(w :: u8) AND 0x08 = (if bit w 3 then 0x08 else 0)"
  using and_exp_bit [of w 3] by simp

lemma pb_value_bit3:
  assumes "ddrb v AND 0x08 = 0"
  shows "pb_value v x AND 0x08 = x AND 0x08"
proof -
  have "\<not> bit (ddrb v) 3" using assms by (simp add: and_8_bit split: if_splits)
  then have "bit (pb_value v x) 3 = bit x 3" by (simp add: pb_value_def Let_def bit_simps)
  then show ?thesis by (simp add: and_8_bit)
qed

lemma via_read_portb:
  "via_read hk 0 s0 =
     (let (x, s1) = pb_input hk (upd_via via_sync s0); s2 = via_clear_cb hk s1 in (pb_value (via s2) x, s2))"
  by (simp add: via_read_def)

lemma portb_read_value:
  "fst (portb_read_callback s) =
     (if registers (psg (dev (user s))) ! 7 AND 0x40 \<noteq> 0 \<and>
         NOT (matrix (kb (dev (user s))) ! unat (orb (via s) AND 0x07)) AND NOT (registers (psg (dev (user s))) ! 14) \<noteq> 0
      then 0xFF else 0xF7)"
  by (simp add: portb_read_callback_def Let_def)

lemma read_portb:
  fixes b :: "'c oric_board"
  assumes "view b = ((va, vb, da, db, pc, ac, la, lv), p, m)" "db AND 0x08 = 0" "ac AND 0x02 = 0"
  shows "fst (io_read_callback (bare_config clk l) 0x0300 b) AND 0x08 =
     (if registers p ! 7 AND 0x40 \<noteq> 0 \<and> NOT (m ! unat (vb AND 0x07)) AND NOT (registers p ! 14) \<noteq> 0 then 0x08 else 0)"
proof -
  define s :: "'c oric_board via_state" where "s = upd_via via_sync \<lparr>via = dvia (dev b), user = b\<rparr>"
  define t where "t = via_clear_cb oric_via_hooks (snd (portb_read_callback s))"
  have s: "orb (via s) = vb" "acr (via s) = ac" "ddrb (via s) = db" "psg (dev (user s)) = p" "matrix (kb (dev (user s))) = m"
    using assms(1) by (simp_all add: s_def view_def ports_def upd_via_def)
  have "ports (via t) = ports (via s)" by (simp add: t_def portb_read_keeps)
  then have t: "ddrb (via t) AND 0x08 = 0" using assms(2) s by (simp add: ports_def)
  have "pb_input oric_via_hooks s = portb_read_callback s" using s assms(3) by (simp add: pb_input_def)
  then have "via_read oric_via_hooks 0 \<lparr>via = dvia (dev b), user = b\<rparr> = (pb_value (via t) (fst (portb_read_callback s)), t)"
    by (simp only: via_read_portb s_def [symmetric] Let_def case_prod_beta t_def)
  then have "fst (io_read_callback (bare_config clk l) 0x0300 b) AND 0x08 = fst (portb_read_callback s) AND 0x08"
    by (simp add: config_read lo8_def on_via_def pb_value_bit3 t)
  then show ?thesis using s by (simp add: portb_read_value)
qed

lemma scan_exact:
  fixes b :: "'c oric_board" and rows col :: u8
  assumes "ay_ok (psg (dev b))"
    and "registers (psg (dev b)) ! 7 AND 0x40 \<noteq> 0"
    and "ddrb (dvia (dev b)) AND 0x08 = 0"
    and "acr (dvia (dev b)) AND 0x02 = 0"
    and "col < 8"
  shows "scan_key (bare_config clk l) rows col b \<longleftrightarrow> NOT (matrix (kb (dev b)) ! unat col) AND NOT rows \<noteq> 0"
proof -
  obtain va vb da db pc ac la lv p m where v: "view b = ((va, vb, da, db, pc, ac, la, lv), p, m)"
    by (metis prod.exhaust)
  then have f: "p = psg (dev b)" "m = matrix (kb (dev b))" "db = ddrb (dvia (dev b))" "ac = acr (dvia (dev b))"
    by (simp_all add: view_def ports_def)
  obtain q where q: "view (io_writes (bare_config clk l) (scan_writes rows col) b) = ((rows, col, da, db, 0xCC, ac, la, lv), q, m)"
    "registers q = (registers p)[14 := rows]"
    using scan_view [OF v] by blast
  have len: "length (registers p) = 16" using assms(1) f by (simp add: ay_ok_def)
  have c: "col AND 0x07 = col"
    using assms(5) less_mask_eq [of col 3] by (simp add: mask_eq_decr_exp)
  show ?thesis
    using read_portb [OF q(1)] assms f len by (simp add: scan_key_def q(2) c)
qed

text \<open>
  C11: A scan of column \<open>col\<close> with row mask \<open>rows\<close>, run through the VIA, the bus decoder and the
  sound chip, sees a key exactly when some row that is both pressed in the matrix of that column
  and selected by a zero of the mask exists.
\<close>

theorem keyboard_scan_exact:
  fixes b :: "'c oric_board" and rows col :: u8
  assumes "ay_ok (psg (dev b))"
    and "registers (psg (dev b)) ! 7 AND 0x40 \<noteq> 0"
    and "ddrb (dvia (dev b)) AND 0x08 = 0"
    and "acr (dvia (dev b)) AND 0x02 = 0"
    and "col < 8"
  shows "scan_key (bare_config clk l) rows col b \<longleftrightarrow> NOT (matrix (kb (dev b)) ! unat col) AND NOT rows \<noteq> 0"
  using assms by (rule scan_exact)

text \<open>The machine after start-up, with port A of the sound chip an output.\<close>

definition boot_board :: "unit oric_board" where
  "boot_board = \<lparr>mem = memory_init, irq = 0, irq_pulse = 0, nmi_pending = False,
     dev = (oric_dev_init ())\<lparr>psg := ay_write_data 0x40 (ay_write_address 7 (ay_init 1000000))\<rparr>\<rparr>"

lemma boot_facts:
  "ay_ok (psg (dev boot_board))" "registers (psg (dev boot_board)) ! 7 AND 0x40 \<noteq> 0"
  "ddrb (dvia (dev boot_board)) AND 0x08 = 0" "acr (dvia (dev boot_board)) AND 0x02 = 0"
  "matrix (kb (dev boot_board)) = replicate 8 0xFF"
proof -
  have d: "dev boot_board = (oric_dev_init ())\<lparr>psg := ay_write_data 0x40 (ay_write_address 7 (ay_init 1000000))\<rparr>"
    by (simp add: boot_board_def)
  have "ay_ok (snd (ay_run [Ay_address 7, Ay_data 0x40] (ay_init 1000000)))"
    using run_ok [OF init_ok] by blast
  then show "ay_ok (psg (dev boot_board))" by (simp add: d split_beta)
  show "registers (psg (dev boot_board)) ! 7 AND 0x40 \<noteq> 0"
    by (simp add: d ay_write_data_def ay_write_address_def ay_init_def Let_def apply_sound_main_def)
  show "ddrb (dvia (dev boot_board)) AND 0x08 = 0" "acr (dvia (dev boot_board)) AND 0x02 = 0"
    by (simp_all add: d oric_dev_init_def via_reset_def via_init_def)
  show "matrix (kb (dev boot_board)) = replicate 8 0xFF"
    by (simp add: d oric_dev_init_def oric_keyboard_init_def)
qed

lemma boot_keyboard: "kb (dev boot_board) = oric_keyboard_init"
  by (simp add: boot_board_def oric_dev_init_def)

theorem keyboard_scan_exact_witness:
  "scan_key (bare_config (\<lambda>_. 0) (\<lambda>_ b. b)) 0xFE 3
     (upd_dev (\<lambda>d. d\<lparr>kb := upd_matrix (key_down 3 0) (kb d)\<rparr>) boot_board)"
  using keyboard_scan_exact [where b = "upd_dev (\<lambda>d. d\<lparr>kb := upd_matrix (key_down 3 0) (kb d)\<rparr>) boot_board" and col = 3
    and clk = "\<lambda>_. 0" and l = "\<lambda>_ b. b" and rows = "0xFE"]
  by (simp add: boot_facts upd_dev_def upd_matrix_def boot_keyboard oric_keyboard_init_def key_down_def)

section \<open>Typed characters\<close>

definition typed :: "u8 \<Rightarrow> 'c oric_board \<Rightarrow> 'c oric_board" where
  "typed c b = upd_dev (\<lambda>d. d\<lparr>kb := snd (oric_keyboard_press_char c (kb d))\<rparr>) b"

lemma typed_sel [simp]:
  "psg (dev (typed c b)) = psg (dev b)" "dvia (dev (typed c b)) = dvia (dev b)"
  "kb (dev (typed c b)) = snd (oric_keyboard_press_char c (kb (dev b)))"
  by (simp_all add: typed_def upd_dev_def)

lemma scan_one_row: "NOT m AND 2 ^ r = 0 \<longleftrightarrow> 8 \<le> r \<or> bit m r" for m :: u8
  by (simp add: and_exp_bit bit_simps exp_eq_zero_iff) linarith

text \<open>
  A character injected with all keys released is what a scan of the matrix finds: row \<open>row\<close> of
  column \<open>col\<close> reads as pressed exactly at the cell \<open>char_map\<close> gives it, and, for a shifted
  character, at the cell of the left shift key.
\<close>

theorem typed_char_scan:
  fixes b :: "'c oric_board" and c col :: u8 and row :: nat
  assumes "ay_ok (psg (dev b))"
    and "registers (psg (dev b)) ! 7 AND 0x40 \<noteq> 0"
    and "ddrb (dvia (dev b)) AND 0x08 = 0"
    and "acr (dvia (dev b)) AND 0x02 = 0"
    and "matrix (kb (dev b)) = replicate 8 0xFF"
    and "c \<le> 127" and "0 \<le> ce_col (char_map ! unat c)" and "col < 8" and "row < 8"
  shows "scan_key (bare_config clk l) (NOT (push_bit row 1)) col (typed c b) \<longleftrightarrow>
     (int (unat col) = ce_col (char_map ! unat c) \<and> int row = ce_row (char_map ! unat c)) \<or>
     (ce_shift (char_map ! unat c) \<and> col = 4 \<and> row = 4)"
proof -
  have c: "unat col < 8" "unat col = 4 \<longleftrightarrow> col = 4"
    using assms(8) by (simp_all add: word_less_nat_alt word_unat_eq_iff)
  have "scan_key (bare_config clk l) (NOT (push_bit row 1)) col (typed c b) \<longleftrightarrow>
      cell_down (matrix (kb (dev (typed c b)))) (unat col) row"
    using scan_exact [of "typed c b" col clk l "NOT (push_bit row 1)"] assms
    by (simp add: scan_one_row cell_down_def)
  then show ?thesis
    using press_char_cells [of "kb (dev b)" c "unat col" row] assms c by simp
qed

theorem typed_char_scan_witness:
  "scan_key (bare_config (\<lambda>_. 0) (\<lambda>_ b. b)) (NOT (push_bit 5 1)) 6 (typed 0x41 boot_board) \<and>
   \<not> scan_key (bare_config (\<lambda>_. 0) (\<lambda>_ b. b)) (NOT (push_bit 4 1)) 6 (typed 0x41 boot_board)"
  using typed_char_scan [OF boot_facts, where c = "0x41" and col = 6 and row = 5 and clk = "\<lambda>_. 0" and l = "\<lambda>_ b. b"]
    typed_char_scan [OF boot_facts, where c = "0x41" and col = 6 and row = 4 and clk = "\<lambda>_. 0" and l = "\<lambda>_ b. b"]
  by (simp add: char_map_def plain_key_def shift_key_def unmapped_def)

section \<open>The symbolic keyboard\<close>

definition sym_run :: "sdl_event list \<Rightarrow> oric_keyboard_t \<Rightarrow> oric_keyboard_t" where
  "sym_run es q = fold (\<lambda>e k. snd (oric_keyboard_handle_sdl_event e k)) es q"

lemma sym_run_ok:
  assumes "sym_ok q" "layout q = ORIC_KB_AZERTY"
  shows "sym_ok (sym_run es q) \<and> layout (sym_run es q) = ORIC_KB_AZERTY"
  using assms
proof (induction es arbitrary: q)
  case (Cons e es)
  have "layout (snd (handle_symbolic e q)) = layout q"
    by (auto simp: handle_symbolic_def Let_def sym_press_def sym_rebuild_matrix_def sym_add_pressed_def
        sym_remove_pressed_def split: sdl_event.split option.split sdl_keycode.split)
  then show ?case
    using Cons.IH [of "snd (handle_symbolic e q)"] Cons.prems handle_symbolic_ok [of q e]
    by (simp add: sym_run_def oric_keyboard_handle_sdl_event_def)
qed (simp add: sym_run_def)

text \<open>
  Whatever host events the symbolic mapping has handled, the pressed list holds each host key
  once and never more keys than its array; a matrix cell is down exactly when an entry of the list
  holds it; and the release of a host key leaves no entry of that key, so that no cell stays down
  for it.
\<close>

theorem symbolic_no_stuck_key:
  fixes es :: "sdl_event list" and k :: sdl_keycode
  defines "kb0 \<equiv> oric_keyboard_set_layout ORIC_KB_AZERTY oric_keyboard_init"
  assumes "c < 8" and "r < 8"
  shows "distinct (map pk_scancode (pressed (sym_run es kb0))) \<and> length (pressed (sym_run es kb0)) \<le> 16 \<and>
     cell_down (matrix (sym_run es kb0)) c r = list_ex (\<lambda>p. held p c r) (pressed (sym_run es kb0)) \<and>
     list_all (\<lambda>p. pk_scancode p \<noteq> sc) (pressed (sym_run (es @ [Key_up sc k]) kb0))"
proof -
  have "sym_ok kb0" "layout kb0 = ORIC_KB_AZERTY"
    by (simp_all add: kb0_def sym_ok_def oric_keyboard_set_layout_def oric_keyboard_init_def)
  then have ok: "sym_ok (sym_run es kb0)" "layout (sym_run es kb0) = ORIC_KB_AZERTY"
    using sym_run_ok by blast+
  have cell: "cell_down (matrix (sym_run es kb0)) c r \<longleftrightarrow> list_ex (\<lambda>p. held p c r) (pressed (sym_run es kb0))"
    using ok(1) fold_press_cells [of "replicate 8 0xFF" c r "pressed (sym_run es kb0)"] assms
    by (simp add: sym_ok_def list_ex_iff)
  define q where "q = (let q' = sym_run es kb0 in
      if has_pending q' \<and> pending_scancode q' = sc then q'\<lparr>has_pending := False\<rparr> else q')"
  have "list_ok q" using ok(1) by (simp add: q_def Let_def sym_ok_list)
  moreover have "pressed (sym_run (es @ [Key_up sc k]) kb0) = pressed (sym_remove_pressed sc q)"
    using ok(2) by (simp add: sym_run_def oric_keyboard_handle_sdl_event_def handle_symbolic_def Let_def q_def
        sym_rebuild_matrix_def)
  ultimately have "list_all (\<lambda>p. pk_scancode p \<noteq> sc) (pressed (sym_run (es @ [Key_up sc k]) kb0))"
    using remove_pressed(2) [of q sc] by (simp add: list_all_iff)
  then show ?thesis using ok(1) cell by (simp add: sym_ok_def)
qed

theorem symbolic_no_stuck_key_witness:
  "cell_down (matrix (sym_run [Key_down SC_UP K_UP False]
       (oric_keyboard_set_layout ORIC_KB_AZERTY oric_keyboard_init))) 4 3 \<and>
   pressed (sym_run ([Key_down SC_UP K_UP False] @ [Key_up SC_UP K_UP])
       (oric_keyboard_set_layout ORIC_KB_AZERTY oric_keyboard_init)) = []"
  using symbolic_no_stuck_key [where c = 4 and r = 3 and es = "[Key_down SC_UP K_UP False]" and sc = SC_UP and k = K_UP]
  by (simp add: sym_run_def oric_keyboard_handle_sdl_event_def oric_keyboard_set_layout_def oric_keyboard_init_def
      handle_symbolic_def special_keys_def sym_press_def sym_rebuild_matrix_def sym_add_pressed_def
      sym_remove_pressed_def held_def)

section \<open>Printer\<close>

text \<open>A byte put on port A, then a low pulse on PB4 with the rest of port B kept.\<close>

definition print_byte :: "'c oric_config \<Rightarrow> u8 \<Rightarrow> u8 \<Rightarrow> 'c oric_board \<Rightarrow> 'c oric_board" where
  "print_byte cfg pb x b = io_writes cfg [(0x0301, x), (0x0300, pb AND NOT 0x10), (0x0300, pb OR 0x10)] b"

lemma ca1_kept [simp]:
  "ca1_pin (via_sync v) = ca1_pin v" "ifr (via_sync v) = ifr v"
  by (simp_all add: via_sync_def Let_def)

lemma ca1_check [simp]: "ca1_pin (via (via_check_irq hk s)) = ca1_pin (via s)"
  by (simp add: check_irq_via)

lemma ca1_clear [simp]:
  "ca1_pin (via (via_clear_ca hk s)) = ca1_pin (via s)" "ca1_pin (via (via_clear_cb hk s)) = ca1_pin (via s)"
  "ca1_pin (via_ca2_port_access v) = ca1_pin v" "ca1_pin (via_cb2_port_access v) = ca1_pin v"
  by (simp_all add: via_clear_ca_def via_clear_cb_def upd_via_def Let_def via_ca2_port_access_def
      via_cb2_port_access_def)

lemma write_ca1:
  "ca1_pin (via (via_write oric_via_hooks 0x01 x s)) = ca1_pin (via s)"
  "ca1_pin (via (via_write oric_via_hooks 0x00 x s)) = ca1_pin (via s)"
  by (simp_all add: via_write_def Let_def call_write_def)

lemma ca1_flag: "(w :: u8) AND VIA_INT_CA1 = 0 \<longleftrightarrow> \<not> bit w 1"
  using and_exp_bit [of w 1] by simp

lemma check_keeps_ca1: "bit (ifr (via (via_check_irq hk s))) (Suc 0) = bit (ifr (via s)) (Suc 0)"
  by (simp add: check_irq_via bit_simps)

lemma ca1_pulse:
  assumes "ca1_pin (via s)" "pcr (via s) AND 0x01 = 0"
  shows "\<not> ca1_pin (via (via_set_ca1 oric_via_hooks False s)) \<and> bit (ifr (via (via_set_ca1 oric_via_hooks False s))) 1"
  using assms
  by (simp add: via_set_ca1_def Let_def active_edge_def check_keeps_ca1 via_pa_pins_def ijk_port_a_read_def bit_simps
      split: prod.split)

lemma ca1_rise:
  assumes "\<not> ca1_pin (via s)" "pcr (via s) AND 0x01 = 0"
  shows "via_set_ca1 oric_via_hooks True s = upd_via (\<lambda>v. (via_sync v)\<lparr>ca1_pin := True\<rparr>) s"
  using assms by (simp add: via_set_ca1_def Let_def active_edge_def upd_via_def)

text \<open>The taken byte: CA1 pulses low and the flag is raised.\<close>

lemma printer_ack:
  assumes "ca1_pin (dvia (dev b))" "pcr (dvia (dev b)) AND 0x01 = 0"
  shows "let b' = do_via (via_set_ca1 oric_via_hooks True) (do_via (via_set_ca1 oric_via_hooks False) b) in
    prn (dev b') = prn (dev b) \<and> ca1_pin (dvia (dev b')) \<and> ifr (dvia (dev b')) AND VIA_INT_CA1 \<noteq> 0"
proof -
  define s where "s = \<lparr>via = dvia (dev b), user = b\<rparr>"
  define t where "t = via_set_ca1 oric_via_hooks False s"
  have s: "ca1_pin (via s)" "pcr (via s) AND 0x01 = 0" using assms by (simp_all add: s_def)
  have "ports (via t) = ports (via s)" by (simp add: t_def)
  then have t: "\<not> ca1_pin (via t)" "bit (ifr (via t)) 1" "pcr (via t) AND 0x01 = 0"
    using ca1_pulse [OF s] s by (simp_all add: t_def ports_def)
  show ?thesis
    using t by (simp add: Let_def do_via_dev s_def [symmetric] t_def [symmetric] ca1_rise ca1_flag)
qed

lemma write_via_ora:
  fixes b :: "'c oric_board" and cfg x
  defines "b' \<equiv> via_io_write cfg 0x01 x b"
  shows "prn (dev b') = prn (dev b)" "ca1_pin (dvia (dev b')) = ca1_pin (dvia (dev b))" "ora (dvia (dev b')) = x"
    "orb (dvia (dev b')) = orb (dvia (dev b))" "ddrb (dvia (dev b')) = ddrb (dvia (dev b))"
    "pcr (dvia (dev b')) = pcr (dvia (dev b))"
  using write_ora(2) [of x "\<lparr>via = dvia (dev b), user = b\<rparr>"]
  by (simp_all add: b'_def via_io_write_def Let_def do_via_dev write_ora(1) write_ca1 ports_def)

text \<open>The write of port B, up to the strobe.\<close>

lemma write_via_orb:
  fixes b :: "'c oric_board" and x
  defines "b' \<equiv> do_via (via_write oric_via_hooks 0x00 x) b"
  shows "via_io_write cfg 0x00 x b = printer_strobe (pb4_level (dvia (dev b))) b'"
    "prn (dev b') = prn (dev b)" "ca1_pin (dvia (dev b')) = ca1_pin (dvia (dev b))"
    "ora (dvia (dev b')) = ora (dvia (dev b))" "orb (dvia (dev b')) = x" "ddrb (dvia (dev b')) = ddrb (dvia (dev b))"
    "pcr (dvia (dev b')) = pcr (dvia (dev b))"
  using write_orb(2) [of x "\<lparr>via = dvia (dev b), user = b\<rparr>"]
  by (simp_all add: b'_def via_io_write_def Let_def do_via_dev write_orb(1) write_ca1 ports_def)

lemma strobe_low_edge:
  assumes "printer_type (prn (dev b)) = PRINTER_TEXT" "printed (prn (dev b)) = Some out" "\<not> pb4_level (dvia (dev b))"
  shows "printer_strobe True b = upd_dev (\<lambda>d. d\<lparr>prn := (prn (dev b))\<lparr>strobe_low := True\<rparr>\<rparr>) b"
  using assms by (simp add: printer_strobe_def oric_printer_check_pb4_def Let_def)

lemma strobe_high_edge:
  assumes "printer_type (prn (dev b)) = PRINTER_TEXT" "printed (prn (dev b)) = Some out" "pb4_level (dvia (dev b))"
    "strobe_low (prn (dev b))" "ca1_pin (dvia (dev b))" "pcr (dvia (dev b)) AND 0x01 = 0"
  shows "let b' = printer_strobe False b in
     prn (dev b') = (prn (dev b))\<lparr>strobe_low := False, byte_count := byte_count (prn (dev b)) + 1,
        printed := Some (ora (dvia (dev b)) # out)\<rparr> \<and>
     ca1_pin (dvia (dev b')) \<and> ifr (dvia (dev b')) AND VIA_INT_CA1 \<noteq> 0"
  using assms printer_ack [of "upd_dev (\<lambda>d. d\<lparr>prn := (prn (dev b))\<lparr>strobe_low := False,
      byte_count := byte_count (prn (dev b)) + 1, printed := Some (ora (dvia (dev b)) # out)\<rparr>\<rparr>) b"]
  by (simp add: printer_strobe_def oric_printer_check_pb4_def Let_def upd_dev_def)

text \<open>
  A byte printed through the strobe of port B arrives in the output file once, exactly as it was
  written to port A, and is acknowledged: the CA1 flag of the VIA is set and the line is high again.
\<close>

theorem printer_byte_once:
  fixes b :: "'c oric_board"
  assumes "printer_type (prn (dev b)) = PRINTER_TEXT" and "printed (prn (dev b)) = Some out"
    and "ddrb (dvia (dev b)) AND 0x10 \<noteq> 0" and "orb (dvia (dev b)) AND 0x10 \<noteq> 0"
    and "ca1_pin (dvia (dev b))" and "pcr (dvia (dev b)) AND 0x01 = 0"
  shows "let b' = print_byte (bare_config clk l) pb x b in
     printed (prn (dev b')) = Some (x # out) \<and> byte_count (prn (dev b')) = byte_count (prn (dev b)) + 1 \<and>
     \<not> strobe_low (prn (dev b')) \<and> ifr (dvia (dev b')) AND VIA_INT_CA1 \<noteq> 0 \<and> ca1_pin (dvia (dev b'))"
proof -
  let ?cfg = "bare_config clk l :: 'c oric_config"
  have pb: "(pb AND NOT 0x10) AND 0x10 = 0" "(pb OR 0x10) AND 0x10 \<noteq> 0"
    using and_exp_bit [of "pb AND NOT 0x10" 4] and_exp_bit [of "pb OR 0x10" 4] by (simp_all add: bit_simps)
  define b1 where "b1 = via_io_write ?cfg 0x01 x b"
  define b2 where "b2 = do_via (via_write oric_via_hooks 0x00 (pb AND NOT 0x10)) b1"
  define b3 where "b3 = via_io_write ?cfg 0x00 (pb AND NOT 0x10) b1"
  define b4 where "b4 = do_via (via_write oric_via_hooks 0x00 (pb OR 0x10)) b3"
  note b1 = write_via_ora [where cfg = ?cfg and x = x and b = b, folded b1_def]
  note b2 = write_via_orb(1) [where cfg = ?cfg and x = "pb AND NOT 0x10" and b = b1, folded b2_def b3_def]
    write_via_orb(2-) [where x = "pb AND NOT 0x10" and b = b1, folded b2_def b3_def]
  have high: "pb4_level (dvia (dev b1))" using assms b1 by (simp add: pb4_level_def)
  have low: "\<not> pb4_level (dvia (dev b2))" using assms b1 b2 pb by (simp add: pb4_level_def)
  have b3: "dev b3 = (dev b2)\<lparr>prn := (prn (dev b))\<lparr>strobe_low := True\<rparr>\<rparr>"
    using strobe_low_edge [of b2 out] assms b1 b2 high low by (simp add: upd_dev_def)
  note b4 = write_via_orb(1) [where cfg = ?cfg and x = "pb OR 0x10" and b = b3, folded b4_def]
    write_via_orb(2-) [where x = "pb OR 0x10" and b = b3, folded b4_def]
  have low3: "\<not> pb4_level (dvia (dev b3))" using low b3 by simp
  have high4: "pb4_level (dvia (dev b4))" using b4 pb by (simp add: pb4_level_def)
  have "via_io_write ?cfg 0x00 (pb OR 0x10) b3 = printer_strobe False b4" using b4(1) low3 by simp
  then have "print_byte ?cfg pb x b = printer_strobe False b4"
    unfolding b3_def b1_def by (simp add: print_byte_def config_write lo8_def)
  then show ?thesis
    using strobe_high_edge [of b4 out] assms b1 b2 b3 b4 high4 by (simp add: Let_def)
qed

theorem printer_byte_once_witness:
  "let b' = print_byte (bare_config (\<lambda>_. 0) (\<lambda>_ b. b)) 0 0x41
       (upd_dev (\<lambda>d. d\<lparr>dvia := (dvia d)\<lparr>ddrb := 0xF7, orb := 0x10\<rparr>,
          prn := snd (oric_printer_open True (prn d))\<rparr>) boot_board) in
   printed (prn (dev b')) = Some [0x41] \<and> byte_count (prn (dev b')) = 1"
  using printer_byte_once [where b = "upd_dev (\<lambda>d. d\<lparr>dvia := (dvia d)\<lparr>ddrb := 0xF7, orb := 0x10\<rparr>,
          prn := snd (oric_printer_open True (prn d))\<rparr>) boot_board" and out = "[]" and clk = "\<lambda>_. 0"
      and l = "\<lambda>_ b. b" and pb = 0 and x = "0x41"]
  by (simp add: Let_def upd_dev_def boot_board_def oric_dev_init_def oric_printer_init_def oric_printer_open_def
      via_reset_def via_init_def)

end
