(* ===== verification/Ula_Ng.thy ===== *)
theory Ula_Ng
  imports Prelude
begin

unbundle bit_operations_syntax

text \<open>
  The ULA-NG video extension (\<open>include/io/ula_ng.h\<close>, \<open>src/io/ula_ng.c\<close>): the unlock sequence, the
  register window \<open>$0340-$035F\<close>, the palette, copper, attribute and sprite streams, the drawing
  commands of the VDU port, the scanline tick and the sprite compositor.  C arrays are lists of the
  declared length; an index outside is a write that the list update drops, and the invariant of
  \<open>Ula_Ng_Rules\<close> shows that there is none.  The line drawing loop of the VDU is a partial
  function: a call that does not return is \<open>None\<close>.
\<close>

section \<open>State\<close>

abbreviation NG_WINDOW_LO :: u16 where "NG_WINDOW_LO \<equiv> 0x0340"
abbreviation NG_REG_LOCK :: u16 where "NG_REG_LOCK \<equiv> 0x0340"
abbreviation NG_REG_MODE :: u16 where "NG_REG_MODE \<equiv> 0x0341"
abbreviation NG_REG_STATUS :: u16 where "NG_REG_STATUS \<equiv> 0x0347"
abbreviation NG_REG_PAL_IDX :: u16 where "NG_REG_PAL_IDX \<equiv> 0x0348"
abbreviation NG_REG_PAL_LO :: u16 where "NG_REG_PAL_LO \<equiv> 0x0349"
abbreviation NG_REG_PAL_HI :: u16 where "NG_REG_PAL_HI \<equiv> 0x034A"
abbreviation NG_REG_ATTR_FILL :: u16 where "NG_REG_ATTR_FILL \<equiv> 0x034D"
abbreviation NG_REG_IDCHK :: u16 where "NG_REG_IDCHK \<equiv> 0x034F"
abbreviation NG_REG_SPR_STATUS :: u16 where "NG_REG_SPR_STATUS \<equiv> 0x0356"
abbreviation NG_REG_VDU :: u16 where "NG_REG_VDU \<equiv> 0x0357"
abbreviation NG_VERSION :: u8 where "NG_VERSION \<equiv> 0x1E"
abbreviation NG_UNLOCK_N :: u8 where "NG_UNLOCK_N \<equiv> 0x4E"
abbreviation NG_UNLOCK_G :: u8 where "NG_UNLOCK_G \<equiv> 0x47"
abbreviation NG_COP_MAX :: nat where "NG_COP_MAX \<equiv> 64"
abbreviation NG_ATTR_SIZE :: nat where "NG_ATTR_SIZE \<equiv> 8192"
abbreviation NG_SPR_PIXELS :: nat where "NG_SPR_PIXELS \<equiv> 256"
abbreviation NG_VRAM_SIZE :: nat where "NG_VRAM_SIZE \<equiv> 17920"

record ng_copper = cop_line :: u8  cop_index :: u8  cop_r :: u8  cop_g :: u8  cop_b :: u8

record ng_sprite = sp_x :: u8  sp_y :: u8  sp_enable :: bool  sp_pattern :: "u8 list"

record ula_ng_t =
  ng_unlocked :: bool
  unlock_step :: u8
  ng_regs :: "u8 list"
  ng_pal :: "(u8 \<times> u8 \<times> u8) list"
  pal_idx :: u8
  pal_r :: u8
  ng_active :: bool
  scrstart :: u16
  scrollx :: u8
  scrolly :: u8
  raster_line :: u8
  raster_enable :: bool
  raster_pending :: bool
  ng_copper_list :: "ng_copper list"
  copper_count :: u8
  copper_phase :: u8
  part_line :: u8
  part_index :: u8
  part_r :: u8
  ng_attr :: "u8 list"
  attr_wp :: u16
  attr_active :: bool
  ng_sprites :: "ng_sprite list"
  spr_sel :: u8
  spr_wp :: u16
  spr_enable :: bool
  spr_collision :: bool
  spr_active :: bool
  chunky_active :: bool
  text80_active :: bool
  vdu_cmd :: u8
  vdu_params :: "u8 list"
  vdu_need :: u8
  vdu_got :: u8
  ng_vram :: "u8 list"
  vram_active :: bool
  vdu_gcol :: u8
  vdu_upload :: u16

definition oric_palette :: "(u8 \<times> u8 \<times> u8) list" where
  "oric_palette = [(0x00, 0x00, 0x00), (0xFF, 0x00, 0x00), (0x00, 0xFF, 0x00), (0xFF, 0xFF, 0x00),
     (0x00, 0x00, 0xFF), (0xFF, 0x00, 0xFF), (0x00, 0xFF, 0xFF), (0xFF, 0xFF, 0xFF)]"

text \<open>The copper entries and the entry being assembled are not cleared by a reset.\<close>

definition ula_ng_reset :: "ula_ng_t \<Rightarrow> ula_ng_t" where
  "ula_ng_reset u = u\<lparr>ng_unlocked := False, unlock_step := 0, ng_regs := replicate 0x20 0,
     ng_pal := oric_palette @ replicate 8 (0, 0, 0), pal_idx := 0, pal_r := 0, ng_active := False,
     raster_line := 0, raster_enable := False, raster_pending := False, scrstart := 0, scrollx := 0, scrolly := 0,
     copper_count := 0, copper_phase := 0, ng_attr := replicate NG_ATTR_SIZE 0, attr_wp := 0, attr_active := False,
     ng_sprites := replicate 16 \<lparr>sp_x = 0, sp_y = 0, sp_enable = False, sp_pattern = replicate NG_SPR_PIXELS 0\<rparr>,
     spr_sel := 0, spr_wp := 0, spr_enable := False, spr_collision := False, spr_active := False,
     chunky_active := False, text80_active := False, vdu_cmd := 0, vdu_need := 0, vdu_got := 0,
     vdu_params := replicate 4 0, ng_vram := replicate NG_VRAM_SIZE 0, vram_active := False, vdu_gcol := 0,
     vdu_upload := 0\<rparr>"

definition ula_ng_init :: "ula_ng_t \<Rightarrow> ula_ng_t" where
  "ula_ng_init u = ula_ng_reset u"

section \<open>Reads\<close>

definition reg_index :: "u16 \<Rightarrow> nat" where
  "reg_index addr = unat (addr - NG_WINDOW_LO)"

definition ula_ng_read :: "u16 \<Rightarrow> ula_ng_t \<Rightarrow> u8 \<times> ula_ng_t" where
  "ula_ng_read addr u =
     (if addr = NG_REG_LOCK then (NG_VERSION, u)
      else if addr = NG_REG_IDCHK then (NOT NG_VERSION, u)
      else if addr = NG_REG_STATUS then (if raster_pending u then 0x80 else 0x00, u)
      else if addr = NG_REG_SPR_STATUS then (if spr_collision u then 0x80 else 0x00, u\<lparr>spr_collision := False\<rparr>)
      else (ng_regs u ! reg_index addr, u))"

section \<open>Drawing\<close>

definition iabs :: "int \<Rightarrow> int" where
  "iabs v = (if v < 0 then - v else v)"

definition vram_plot :: "int \<Rightarrow> int \<Rightarrow> u8 \<Rightarrow> ula_ng_t \<Rightarrow> ula_ng_t" where
  "vram_plot x y c u =
     (if x < 0 \<or> x \<ge> 160 \<or> y < 0 \<or> y \<ge> 224 then u
      else
        let idx = nat (y * 80 + x div 2); p = ng_vram u ! idx
        in u\<lparr>ng_vram := (ng_vram u)[idx := (if x mod 2 = 1 then (p AND 0xF0) OR (c AND 0x0F)
                                           else (p AND 0x0F) OR push_bit 4 (c AND 0x0F))]\<rparr>)"

text \<open>The loop of Bresenham's algorithm.\<close>

partial_function (option) line_loop ::
    "int \<Rightarrow> int \<Rightarrow> int \<Rightarrow> int \<Rightarrow> int \<Rightarrow> int \<Rightarrow> u8 \<Rightarrow> int \<Rightarrow> int \<Rightarrow> int \<Rightarrow> ula_ng_t \<Rightarrow> ula_ng_t option" where
  "line_loop x1 y1 dx dy sx sy c x0 y0 err u =
     (let u1 = vram_plot x0 y0 c u in
      if x0 = x1 \<and> y0 = y1 then Some u1
      else
        let e2 = 2 * err;
            (err1, x2) = (if e2 \<ge> dy then (err + dy, x0 + sx) else (err, x0));
            (err2, y2) = (if e2 \<le> dx then (err1 + dx, y0 + sy) else (err1, y0))
        in line_loop x1 y1 dx dy sx sy c x2 y2 err2 u1)"

definition vram_line :: "int \<Rightarrow> int \<Rightarrow> int \<Rightarrow> int \<Rightarrow> u8 \<Rightarrow> ula_ng_t \<Rightarrow> ula_ng_t option" where
  "vram_line x0 y0 x1 y1 c u =
     (let dx = iabs (x1 - x0); sx = (if x0 < x1 then 1 else - 1);
          dy = - iabs (y1 - y0); sy = (if y0 < y1 then 1 else - 1)
      in line_loop x1 y1 dx dy sx sy c x0 y0 (dx + dy) u)"

section \<open>Register writes\<close>

definition push_copper :: "u8 \<Rightarrow> ula_ng_t \<Rightarrow> ula_ng_t" where
  "push_copper value u =
     (if copper_phase u = 0 then u\<lparr>part_line := value, copper_phase := 1\<rparr>
      else if copper_phase u = 1 then
        u\<lparr>part_index := drop_bit 4 value AND 0x0F, part_r := value AND 0x0F, copper_phase := 2\<rparr>
      else
        let g = drop_bit 4 value AND 0x0F; b = value AND 0x0F;
            e = \<lparr>cop_line = part_line u, cop_index = part_index u, cop_r = part_r u * 0x11, cop_g = g * 0x11, cop_b = b * 0x11\<rparr>;
            u1 = (if unat (copper_count u) < NG_COP_MAX then
                    u\<lparr>ng_copper_list := (ng_copper_list u)[unat (copper_count u) := e], copper_count := copper_count u + 1\<rparr>
                  else u)
        in u1\<lparr>copper_phase := 0\<rparr>)"

definition upd_sprite :: "(ng_sprite \<Rightarrow> ng_sprite) \<Rightarrow> u8 \<Rightarrow> ula_ng_t \<Rightarrow> ula_ng_t" where
  "upd_sprite g i u = u\<lparr>ng_sprites := (ng_sprites u)[unat i := g (ng_sprites u ! unat i)]\<rparr>"

text \<open>One byte of a sprite pattern.\<close>

definition push_pattern :: "u8 \<Rightarrow> ula_ng_t \<Rightarrow> ula_ng_t" where
  "push_pattern value u =
     (upd_sprite (\<lambda>s. s\<lparr>sp_pattern := (sp_pattern s)[unat (spr_wp u) := value AND 0x07]\<rparr>) (spr_sel u) u)
       \<lparr>spr_wp := (spr_wp u + 1) mod 256\<rparr>"

text \<open>The \<open>switch\<close> of an unlocked write, the VDU port apart.\<close>

definition ng_effect :: "u16 \<Rightarrow> u8 \<Rightarrow> ula_ng_t \<Rightarrow> ula_ng_t" where
  "ng_effect addr value u =
     (if addr = NG_REG_PAL_IDX then u\<lparr>pal_idx := value AND 0x0F\<rparr>
      else if addr = NG_REG_PAL_LO then u\<lparr>pal_r := value AND 0x0F\<rparr>
      else if addr = NG_REG_PAL_HI then
        (let g = drop_bit 4 value AND 0x0F; b = value AND 0x0F
         in u\<lparr>ng_pal := (ng_pal u)[unat (pal_idx u) := (pal_r u * 0x11, g * 0x11, b * 0x11)],
              pal_idx := (pal_idx u + 1) AND 0x0F\<rparr>)
      else if addr = 0x0342 then u\<lparr>scrstart := (scrstart u AND 0xFF00) OR ucast value\<rparr>
      else if addr = 0x0343 then u\<lparr>scrstart := (scrstart u AND 0x00FF) OR push_bit 8 (ucast value)\<rparr>
      else if addr = 0x0344 then u\<lparr>scrollx := (if value > 5 then 5 else value)\<rparr>
      else if addr = 0x0345 then u\<lparr>scrolly := value AND 0x07\<rparr>
      else if addr = 0x034B then u\<lparr>copper_count := 0, copper_phase := 0\<rparr>
      else if addr = 0x034C then push_copper value u
      else if addr = NG_REG_ATTR_FILL then u\<lparr>ng_attr := replicate NG_ATTR_SIZE value, attr_wp := 0\<rparr>
      else if addr = 0x034E then
        u\<lparr>ng_attr := (ng_attr u)[unat (attr_wp u) := value], attr_wp := (attr_wp u + 1) mod 8192\<rparr>
      else if addr = 0x0350 then u\<lparr>spr_enable := (value AND 1 \<noteq> 0)\<rparr>
      else if addr = 0x0351 then u\<lparr>spr_sel := value AND 15, spr_wp := 0\<rparr>
      else if addr = 0x0352 then upd_sprite (\<lambda>s. s\<lparr>sp_x := value\<rparr>) (spr_sel u) u
      else if addr = 0x0353 then upd_sprite (\<lambda>s. s\<lparr>sp_y := value\<rparr>) (spr_sel u) u
      else if addr = 0x0354 then upd_sprite (\<lambda>s. s\<lparr>sp_enable := (value AND 1 \<noteq> 0)\<rparr>) (spr_sel u) u
      else if addr = 0x0355 then push_pattern value u
      else if addr = 0x0346 then u\<lparr>raster_line := value\<rparr>
      else if addr = NG_REG_STATUS then u\<lparr>raster_enable := (value AND 1 \<noteq> 0), raster_pending := False\<rparr>
      else u)"

definition ng_caches :: "ula_ng_t \<Rightarrow> ula_ng_t" where
  "ng_caches u =
     (let mode = ng_regs u ! reg_index NG_REG_MODE; act = (ng_unlocked u \<and> mode AND 1 \<noteq> 0); vidmode = mode AND 0x0C
      in u\<lparr>ng_active := act, attr_active := (ng_unlocked u \<and> mode AND 2 \<noteq> 0),
           spr_active := (ng_unlocked u \<and> spr_enable u), chunky_active := (act \<and> vidmode = 0x04),
           text80_active := (act \<and> vidmode = 0x08)\<rparr>)"

definition store_reg :: "u16 \<Rightarrow> u8 \<Rightarrow> ula_ng_t \<Rightarrow> ula_ng_t" where
  "store_reg addr value u = u\<lparr>ng_regs := (ng_regs u)[reg_index addr := value]\<rparr>"

text \<open>An unlocked write to a register other than the VDU port.\<close>

definition reg_write :: "u16 \<Rightarrow> u8 \<Rightarrow> ula_ng_t \<Rightarrow> ula_ng_t" where
  "reg_write addr value u =
     ng_caches (if addr = NG_REG_LOCK \<or> addr = NG_REG_IDCHK then u else ng_effect addr value (store_reg addr value u))"

section \<open>The VDU port\<close>

definition vdu_need_for :: "u8 \<Rightarrow> u8" where
  "vdu_need_for cmd =
     (if cmd = 16 \<or> cmd = 20 then 0 else if cmd = 17 \<or> cmd = 18 \<or> cmd = 22 then 1 else if cmd = 23 then 1
      else if cmd = 25 then 2 else if cmd = 31 then 3 else if cmd = 19 \<or> cmd = 24 \<or> cmd = 26 then 4 else 0)"

definition par :: "nat \<Rightarrow> ula_ng_t \<Rightarrow> u8" where
  "par i u = vdu_params u ! i"

text \<open>The attribute cells of a character: its eight scanlines, 40 cells apart.\<close>

definition fill_cell :: "u8 \<Rightarrow> u8 \<Rightarrow> u8 \<Rightarrow> ula_ng_t \<Rightarrow> ula_ng_t" where
  "fill_cell col row a u =
     (if col < 40 \<and> row < 25 then
        u\<lparr>ng_attr := fold (\<lambda>sc xs. xs[sc * 40 + unat col := a])
           (filter (\<lambda>sc. sc < 200) [unat row * 8..<unat row * 8 + 8]) (ng_attr u)\<rparr>
      else u)"

definition vdu_exec :: "ula_ng_t \<Rightarrow> ula_ng_t option" where
  "vdu_exec u =
     (let c = vdu_cmd u in
      if c = 20 then Some (reg_write NG_REG_MODE 0x00 (u\<lparr>vram_active := False\<rparr>))
      else if c = 16 then Some (reg_write NG_REG_MODE 0x05 (u\<lparr>ng_vram := replicate NG_VRAM_SIZE 0, vram_active := True\<rparr>))
      else if c = 17 then Some (u\<lparr>vdu_gcol := par 0 u AND 0x0F\<rparr>)
      else if c = 25 then Some (vram_plot (uint (par 0 u)) (uint (par 1 u)) (vdu_gcol u) u)
      else if c = 26 then vram_line (uint (par 0 u)) (uint (par 1 u)) (uint (par 2 u)) (uint (par 3 u)) (vdu_gcol u) u
      else if c = 23 then Some (u\<lparr>spr_sel := par 0 u AND 15, spr_wp := 0, vdu_upload := 256\<rparr>)
      else if c = 24 then
        Some ((upd_sprite (\<lambda>s. s\<lparr>sp_x := par 1 u, sp_y := par 2 u, sp_enable := (par 3 u AND 1 \<noteq> 0)\<rparr>)
                 (par 0 u AND 15) u)\<lparr>spr_enable := True\<rparr>)
      else if c = 22 then
        Some (reg_write NG_REG_MODE (if par 0 u = 1 then 0x05 else if par 0 u = 2 then 0x09 else 0x01) u)
      else if c = 19 then
        Some (reg_write NG_REG_PAL_HI (push_bit 4 (par 2 u AND 0x0F) OR (par 3 u AND 0x0F))
               (reg_write NG_REG_PAL_LO (par 1 u AND 0x0F) (reg_write NG_REG_PAL_IDX (par 0 u AND 0x0F) u)))
      else if c = 18 then
        Some (reg_write NG_REG_ATTR_FILL (par 0 u)
               (reg_write NG_REG_MODE ((ng_regs u ! reg_index NG_REG_MODE) OR 2) u))
      else if c = 31 then
        Some (fill_cell (par 0 u) (par 1 u) (par 2 u) (reg_write NG_REG_MODE ((ng_regs u ! reg_index NG_REG_MODE) OR 2) u))
      else Some u)"

definition vdu_feed :: "u8 \<Rightarrow> ula_ng_t \<Rightarrow> ula_ng_t option" where
  "vdu_feed b u =
     (if vdu_upload u > 0 then Some ((push_pattern b u)\<lparr>vdu_upload := vdu_upload u - 1\<rparr>)
      else if vdu_need u = 0 then
        (let u1 = u\<lparr>vdu_cmd := b, vdu_got := 0, vdu_need := vdu_need_for b\<rparr>
         in if vdu_need u1 = 0 then vdu_exec u1 else Some u1)
      else
        let u1 = (if vdu_got u < 4 then u\<lparr>vdu_params := (vdu_params u)[unat (vdu_got u) := b]\<rparr> else u);
            u2 = u1\<lparr>vdu_got := vdu_got u1 + 1\<rparr>
        in if vdu_got u2 \<ge> vdu_need u2 then map_option (\<lambda>v. v\<lparr>vdu_need := 0\<rparr>) (vdu_exec u2) else Some u2)"

text \<open>The result says whether the write is consumed; a locked chip watches for the sequence.\<close>

definition locked_write :: "u16 \<Rightarrow> u8 \<Rightarrow> ula_ng_t \<Rightarrow> ula_ng_t" where
  "locked_write addr value u =
     (if addr = NG_REG_LOCK then
        (if value = NG_UNLOCK_N then u\<lparr>unlock_step := 1\<rparr>
         else if value = NG_UNLOCK_G \<and> unlock_step u = 1 then u\<lparr>ng_unlocked := True, unlock_step := 0\<rparr>
         else u\<lparr>unlock_step := 0\<rparr>)
      else u\<lparr>unlock_step := 0\<rparr>)"

definition ula_ng_write :: "u16 \<Rightarrow> u8 \<Rightarrow> ula_ng_t \<Rightarrow> (bool \<times> ula_ng_t) option" where
  "ula_ng_write addr value u =
     (if \<not> ng_unlocked u then Some (False, locked_write addr value u)
      else if addr = NG_REG_VDU then
        map_option (\<lambda>v. (True, ng_caches v)) (vdu_feed value (store_reg addr value u))
      else Some (True, reg_write addr value u))"

section \<open>The scanline tick\<close>

definition copper_apply :: "int \<Rightarrow> ng_copper \<Rightarrow> ula_ng_t \<Rightarrow> ula_ng_t" where
  "copper_apply line e u =
     (if cop_line e = word_of_int line then
        u\<lparr>ng_pal := (ng_pal u)[unat (cop_index e AND 0x0F) := (cop_r e, cop_g e, cop_b e)]\<rparr>
      else u)"

definition ula_ng_scanline :: "int \<Rightarrow> ula_ng_t \<Rightarrow> ula_ng_t" where
  "ula_ng_scanline line u =
     (if \<not> ng_active u then u
      else
        let u1 = (if raster_enable u \<and> line = uint (raster_line u) then u\<lparr>raster_pending := True\<rparr> else u)
        in fold (\<lambda>i v. copper_apply line (ng_copper_list v ! i) v) [0..<unat (copper_count u1)] u1)"

definition ula_ng_irq :: "ula_ng_t \<Rightarrow> bool" where
  "ula_ng_irq u = raster_pending u"

section \<open>Sprites\<close>

text \<open>
  A scanline of the frame buffer (\<open>fb\<close>, three bytes per pixel) and the occupancy of its pixels while
  the sprites are drawn.  A buffer access outside \<open>fb\<close> sets the last component.
\<close>

record ng_scan =
  sc_fb :: "u8 list"
  sc_occ :: "bool list"
  sc_hit :: bool
  sc_oob :: bool

definition put_pixel :: "nat \<Rightarrow> u8 \<times> u8 \<times> u8 \<Rightarrow> ng_scan \<Rightarrow> ng_scan" where
  "put_pixel off c z =
     (case c of (r, g, b) \<Rightarrow>
        z\<lparr>sc_fb := (sc_fb z)[off := r, off + 1 := g, off + 2 := b],
          sc_oob := (sc_oob z \<or> off + 2 \<ge> length (sc_fb z))\<rparr>)"

definition sprite_pixel :: "ula_ng_t \<Rightarrow> int \<Rightarrow> int \<Rightarrow> ng_sprite \<Rightarrow> int \<Rightarrow> nat \<Rightarrow> ng_scan \<Rightarrow> ng_scan" where
  "sprite_pixel u w y s row col z =
     (let idx = sp_pattern s ! (nat row * 16 + col); x = uint (sp_x s) + int col in
      if idx = 0 \<or> x < 0 \<or> x \<ge> w then z
      else
        let z1 = (if sc_occ z ! nat x then z\<lparr>sc_hit := True\<rparr> else z);
            z2 = z1\<lparr>sc_occ := (sc_occ z1)[nat x := True]\<rparr>
        in put_pixel (nat ((y * w + x) * 3)) (ng_pal u ! unat idx) z2)"

definition sprite_row :: "ula_ng_t \<Rightarrow> int \<Rightarrow> int \<Rightarrow> ng_sprite \<Rightarrow> ng_scan \<Rightarrow> ng_scan" where
  "sprite_row u w y s z =
     (let row = y - uint (sp_y s) in
      if \<not> sp_enable s \<or> row < 0 \<or> row \<ge> 16 then z else fold (sprite_pixel u w y s row) [0..<16] z)"

definition ula_ng_composite_scanline :: "u8 list \<Rightarrow> int \<Rightarrow> int \<Rightarrow> int \<Rightarrow> ula_ng_t \<Rightarrow> ula_ng_t \<times> u8 list \<times> bool" where
  "ula_ng_composite_scanline fb w0 h y u =
     (if \<not> spr_active u \<or> y < 0 \<or> y \<ge> h then (u, fb, False)
      else
        let w = (if w0 > 512 then 512 else w0);
            z = fold (\<lambda>s. sprite_row u w y (ng_sprites u ! s)) (rev [0..<16])
                  \<lparr>sc_fb = fb, sc_occ = replicate (nat w) False, sc_hit = spr_collision u, sc_oob = False\<rparr>
        in (u\<lparr>spr_collision := sc_hit z\<rparr>, sc_fb z, sc_oob z))"

end
