(* ===== verification/Video.thy ===== *)
theory Video
  imports Ula_Ng
begin

unbundle bit_operations_syntax

text \<open>
  The picture (\<open>include/video/video.h\<close>, \<open>src/video/video.c\<close>): serial attributes, text and HIRES cells,
  the extended modes of the ULA-NG, and the scanline in its three parts (begin, cells, end).  The
  memory pointer is a function on offsets, \<open>None\<close> when it is null, so that a fetch past the RAM array
  gives a value of its own.  The ULA-NG pointers of \<open>video_t\<close>, wired together in \<open>main.c\<close>, are the
  argument \<open>ng\<close>, \<open>None\<close> when they are null.  \<open>screen_ram\<close> is never used and left out.
\<close>

section \<open>State\<close>

type_synonym rgb = "u8 \<times> u8 \<times> u8"
type_synonym vmem = "nat \<Rightarrow> u8"

abbreviation ORIC_SCREEN_W :: int where "ORIC_SCREEN_W \<equiv> 240"
abbreviation ORIC_SCREEN_H :: int where "ORIC_SCREEN_H \<equiv> 224"
abbreviation VIDEO_MAX_W :: int where "VIDEO_MAX_W \<equiv> 480"
abbreviation VIDEO_MAX_H :: int where "VIDEO_MAX_H \<equiv> 448"
abbreviation VIDEO_WIDE_W :: int where "VIDEO_WIDE_W \<equiv> 320"
abbreviation VIDEO_BORDER_W :: int where "VIDEO_BORDER_W \<equiv> 32"
abbreviation VIDEO_BORDER_H :: int where "VIDEO_BORDER_H \<equiv> 24"
abbreviation FB_BYTES :: nat where "FB_BYTES \<equiv> 645120"
abbreviation ORIC_BLACK :: u8 where "ORIC_BLACK \<equiv> 0"
abbreviation ORIC_WHITE :: u8 where "ORIC_WHITE \<equiv> 7"

record video_t =
  framebuffer :: "u8 list"
  line_ink :: u8
  line_paper :: u8
  line_sx :: int
  line_sy :: int
  line_last_col :: int
  native_w :: int
  native_h :: int
  hires_mode :: bool
  need_refresh :: bool
  vid_charset :: "vmem option"
  vid_mode :: u8
  vid_chunky :: bool
  vid_text80 :: bool
  pal_rgb :: "rgb list"
  video_border :: "rgb list"
  text_attr :: u8
  frame_counter :: u32

definition apply_profile_resolution :: "video_t \<Rightarrow> video_t" where
  "apply_profile_resolution vid =
     vid\<lparr>native_w := (if vid_text80 vid then VIDEO_MAX_W else if vid_chunky vid then VIDEO_WIDE_W else ORIC_SCREEN_W),
         native_h := ORIC_SCREEN_H\<rparr>"

definition palette_reset :: "video_t \<Rightarrow> video_t" where
  "palette_reset vid = vid\<lparr>pal_rgb := oric_palette\<rparr>"

definition ng_on :: "ula_ng_t option \<Rightarrow> bool" where
  "ng_on ng \<longleftrightarrow> (case ng of None \<Rightarrow> False | Some u \<Rightarrow> ng_active u)"

definition palette_latch :: "ula_ng_t option \<Rightarrow> video_t \<Rightarrow> video_t" where
  "palette_latch ng vid =
     (case ng of
        Some u \<Rightarrow> if ng_active u then vid\<lparr>pal_rgb := take 8 (ng_pal u)\<rparr> else palette_reset vid
      | None \<Rightarrow> palette_reset vid)"

definition get_rgb :: "video_t \<Rightarrow> u8 \<Rightarrow> rgb" where
  "get_rgb vid oric_color = pal_rgb vid ! unat (oric_color AND 0x07)"

definition video_init :: video_t where
  "video_init =
     (palette_reset (apply_profile_resolution
       \<lparr>framebuffer = replicate FB_BYTES 0, line_ink = 0, line_paper = 0, line_sx = 0, line_sy = 0, line_last_col = 0,
        native_w = 0, native_h = 0, hires_mode = False, need_refresh = False, vid_charset = None, vid_mode = 0,
        vid_chunky = False, vid_text80 = False, pal_rgb = replicate 8 (0, 0, 0),
        video_border = replicate 448 (0, 0, 0), text_attr = 0, frame_counter = 0\<rparr>))
       \<lparr>hires_mode := False, need_refresh := True, vid_mode := 0x02\<rparr>"

definition video_reset :: "video_t \<Rightarrow> video_t" where
  "video_reset vid =
     (palette_reset (apply_profile_resolution vid))
       \<lparr>hires_mode := False, need_refresh := True, vid_mode := 0x02, framebuffer := replicate FB_BYTES 0,
        video_border := replicate 448 (0, 0, 0)\<rparr>"

definition video_set_mode :: "bool \<Rightarrow> video_t \<Rightarrow> video_t" where
  "video_set_mode hires vid = vid\<lparr>hires_mode := hires, need_refresh := True\<rparr>"

definition video_get_rgb :: "u8 \<Rightarrow> rgb" where
  "video_get_rgb oric_color = oric_palette ! unat (oric_color AND 0x07)"

section \<open>Pixels\<close>

definition set_pixel :: "int \<Rightarrow> int \<Rightarrow> rgb \<Rightarrow> video_t \<Rightarrow> video_t" where
  "set_pixel x y c vid =
     (if x < 0 \<or> x \<ge> native_w vid \<or> y < 0 \<or> y \<ge> native_h vid then vid
      else
        let off = nat ((y * native_w vid + x) * 3)
        in case c of (r, g, b) \<Rightarrow> vid\<lparr>framebuffer := (framebuffer vid)[off := r, off + 1 := g, off + 2 := b]\<rparr>)"

definition get_charset_byte :: "vmem \<Rightarrow> nat \<Rightarrow> nat \<Rightarrow> video_t \<Rightarrow> u8" where
  "get_charset_byte mem char_idx row vid =
     (let alt = (text_attr vid AND 0x01 \<noteq> 0) in
      case vid_charset vid of
        Some cs \<Rightarrow> cs ((char_idx + (if alt then 128 else 0)) * 8 + row)
      | None \<Rightarrow>
          let base = (if hires_mode vid then (if alt then 0x9C00 else 0x9800) else (if alt then 0xB800 else 0xB400))
          in mem (base + char_idx * 8 + row))"

definition video_get_border_rgb :: "video_t \<Rightarrow> int \<Rightarrow> rgb" where
  "video_get_border_rgb vid y =
     (if y < 0 \<or> y \<ge> VIDEO_MAX_H then (0, 0, 0) else video_border vid ! nat y)"

definition video_bordered_w :: "video_t \<Rightarrow> int" where
  "video_bordered_w vid = native_w vid + 2 * VIDEO_BORDER_W"

definition video_bordered_h :: "video_t \<Rightarrow> int" where
  "video_bordered_h vid = native_h vid + 2 * VIDEO_BORDER_H"

text \<open>One row of the bordered picture.\<close>

definition rgb_bytes :: "rgb \<Rightarrow> u8 list" where
  "rgb_bytes c = (case c of (r, g, b) \<Rightarrow> [r, g, b])"

definition bordered_row :: "video_t \<Rightarrow> int \<Rightarrow> u8 list" where
  "bordered_row vid ty =
     (let aw = native_w vid; ah = native_h vid; tw = aw + 2 * VIDEO_BORDER_W;
          ay = ty - VIDEO_BORDER_H; cy = (if ay < 0 then 0 else if ay \<ge> ah then ah - 1 else ay);
          row = concat (replicate (nat tw) (rgb_bytes (video_border vid ! nat cy)));
          b = nat VIDEO_BORDER_W * 3
      in if 0 \<le> ay \<and> ay < ah then
           take b row @ take (nat aw * 3) (drop (nat (ay * aw * 3)) (framebuffer vid)) @ drop (b + nat aw * 3) row
         else row)"

definition video_compose_bordered :: "video_t \<Rightarrow> u8 list \<times> int \<times> int" where
  "video_compose_bordered vid =
     (let tw = native_w vid + 2 * VIDEO_BORDER_W; th = native_h vid + 2 * VIDEO_BORDER_H
      in (concat (map (bordered_row vid) (map int [0..<nat th])), tw, th))"

section \<open>Cells\<close>

text \<open>
  The result of \<open>decode_attr\<close>, the ink, paper and inverse it is given pointers to, and the state.
\<close>

definition decode_attr :: "u8 \<Rightarrow> u8 \<times> u8 \<times> bool \<Rightarrow> video_t \<Rightarrow> bool \<times> (u8 \<times> u8 \<times> bool) \<times> video_t" where
  "decode_attr attr ip vid =
     (let (ink, paper, invd) = ip;
          val = attr AND 0x1F; group = val AND 0x18;
          ink1 = (if group = 0x00 then val AND 0x07 else ink);
          vid1 = (if group = 0x08 then vid\<lparr>text_attr := val AND 0x07\<rparr> else vid);
          paper1 = (if group = 0x10 then val AND 0x07 else paper)
      in if group = 0x18 then (True, (ink, paper, invd), vid\<lparr>vid_mode := val AND 0x07\<rparr>)
         else (False, (ink1, paper1, if val = 28 then False else if val = 29 then True else invd), vid1))"

text \<open>Six pixels of a cell, bit 5 leftmost.\<close>

definition draw_bits :: "int \<Rightarrow> int \<Rightarrow> u8 \<Rightarrow> rgb \<Rightarrow> rgb \<Rightarrow> video_t \<Rightarrow> video_t" where
  "draw_bits x y bits ir pr vid =
     fold (\<lambda>bx. set_pixel (x + (5 - int bx)) y (if bits AND push_bit bx 1 \<noteq> 0 then ir else pr)) (rev [0..<6]) vid"

definition render_hires_block :: "int \<Rightarrow> int \<Rightarrow> u8 \<Rightarrow> u8 \<Rightarrow> u8 \<Rightarrow> video_t \<Rightarrow> video_t" where
  "render_hires_block x y byte ink paper vid =
     (let invd = (byte AND 0x80 \<noteq> 0);
          fg = (if invd then ink XOR 0x07 else ink); bg = (if invd then paper XOR 0x07 else paper)
      in draw_bits x y byte (get_rgb vid fg) (get_rgb vid bg) vid)"

definition render_attr_block :: "int \<Rightarrow> int \<Rightarrow> u8 \<Rightarrow> nat \<Rightarrow> bool \<Rightarrow> video_t \<Rightarrow> video_t" where
  "render_attr_block x y paper height invd vid =
     (let c = get_rgb vid (if invd then paper XOR 0x07 else paper)
      in fold (\<lambda>cy. fold (\<lambda>bx. set_pixel (x + int bx) (y + int cy) c) [0..<6]) [0..<height] vid)"

definition effective_chline :: "video_t \<Rightarrow> nat \<Rightarrow> nat \<Rightarrow> nat" where
  "effective_chline vid chline row =
     (if text_attr vid AND 0x02 \<noteq> 0 then chline div 2 + (if odd row then 4 else 0) else chline)"

definition blink_phase_on :: "video_t \<Rightarrow> bool" where
  "blink_phase_on vid \<longleftrightarrow> text_attr vid AND 0x04 \<noteq> 0 \<and> frame_counter vid AND 0x10 \<noteq> 0"

text \<open>A character, the same code in the three text renderers.\<close>

definition render_char :: "vmem \<Rightarrow> int \<Rightarrow> int \<Rightarrow> u8 \<Rightarrow> u8 \<Rightarrow> u8 \<Rightarrow> nat \<Rightarrow> nat \<Rightarrow> video_t \<Rightarrow> video_t" where
  "render_char mem x y byte ink paper chline row vid =
     (let char_inv0 = (byte AND 0x80 \<noteq> 0);
          char_inv = (if blink_phase_on vid then \<not> char_inv0 else char_inv0);
          fg = (if char_inv then ink XOR 0x07 else ink); bg = (if char_inv then paper XOR 0x07 else paper);
          bits = get_charset_byte mem (unat (byte AND 0x7F)) (effective_chline vid chline row) vid
      in draw_bits x y bits (get_rgb vid fg) (get_rgb vid bg) vid)"

text \<open>An attribute byte of the line, its ink and paper being those of the line.\<close>

definition serial_attr :: "int \<Rightarrow> int \<Rightarrow> u8 \<Rightarrow> video_t \<Rightarrow> video_t" where
  "serial_attr x y byte vid =
     (let (_, (ink, paper, _), vid1) = decode_attr byte (line_ink vid, line_paper vid, False) vid;
          vid2 = vid1\<lparr>line_ink := ink, line_paper := paper\<rparr>
      in render_attr_block x y (line_paper vid2) 1 (byte AND 0x80 \<noteq> 0) vid2)"

definition render_bottom_text_cell :: "vmem \<Rightarrow> int \<Rightarrow> int \<Rightarrow> video_t \<Rightarrow> video_t" where
  "render_bottom_text_cell mem y col vid =
     (let row = 25 + nat (y - 200) div 8; chline = nat (y - 200) mod 8;
          byte = mem (0xBB80 + row * 40 + nat col)
      in if byte AND 0x60 = 0 then serial_attr (col * 6) y byte vid
         else render_char mem (col * 6) y byte (line_ink vid) (line_paper vid) chline row vid)"

definition render_main_cell :: "ula_ng_t option \<Rightarrow> vmem \<Rightarrow> int \<Rightarrow> int \<Rightarrow> video_t \<Rightarrow> video_t" where
  "render_main_cell ng mem y col vid =
     (let src_y = nat (y + line_sy vid); row = src_y div 8; chline = src_y mod 8; sx = line_sx vid;
          hires = (vid_mode vid AND 0x04 \<noteq> 0);
          scr_base = (case ng of
             Some u \<Rightarrow> if ng_active u \<and> scrstart u \<noteq> 0 then unat (scrstart u) else if hires then 0xA000 else 0xBB80
           | None \<Rightarrow> if hires then 0xA000 else 0xBB80);
          base = (if hires then scr_base + src_y * 40 else scr_base + row * 40) mod 65536;
          byte = mem (base + nat col);
          px = col * 6 - sx;
          plane = (case ng of Some u \<Rightarrow> if attr_active u then Some (ng_attr u ! (nat (y * 40 + col) mod 8192)) else None
                   | None \<Rightarrow> None);
          vid1 = (case plane of Some a \<Rightarrow> vid\<lparr>line_ink := a AND 0x07, line_paper := drop_bit 3 a AND 0x07\<rparr> | None \<Rightarrow> vid)
      in if plane = None \<and> byte AND 0x60 = 0 then serial_attr px y byte vid1
         else if hires then render_hires_block px y byte (line_ink vid1) (line_paper vid1) vid1
         else render_char mem px y byte (line_ink vid1) (line_paper vid1) chline row vid1)"

section \<open>The extended modes\<close>

definition chunky_pixel :: "ula_ng_t option \<Rightarrow> int \<Rightarrow> nat \<Rightarrow> u8 \<Rightarrow> nat \<Rightarrow> video_t \<Rightarrow> video_t" where
  "chunky_pixel ng y col byte half vid =
     (let idx = (if half = 0 then drop_bit 4 byte else byte AND 0x0F);
          c = (case ng of Some u \<Rightarrow> ng_pal u ! unat idx | None \<Rightarrow> get_rgb vid idx);
          x0 = int ((col * 2 + half) * 2)
      in set_pixel (x0 + 1) y c (set_pixel x0 y c vid))"

definition render_ng_chunky_scanline :: "ula_ng_t option \<Rightarrow> vmem \<Rightarrow> int \<Rightarrow> video_t \<Rightarrow> video_t" where
  "render_ng_chunky_scanline ng mem y vid =
     (let rowbytes = (case ng of
            Some u \<Rightarrow>
              if vram_active u then (\<lambda>col. ng_vram u ! (nat y * 80 + col))
              else
                let base = (if scrstart u \<noteq> 0 then unat (scrstart u) else 0xA000)
                in (\<lambda>col. mem ((base + nat y * 80) mod 65536 + col))
          | None \<Rightarrow> (\<lambda>col. mem ((0xA000 + nat y * 80) mod 65536 + col)))
      in fold (\<lambda>col. fold (chunky_pixel ng y col (rowbytes col)) [0..<2]) [0..<80] vid)"

text \<open>A cell of the 80-column line, with the line's ink and paper.\<close>

definition text80_cell :: "vmem \<Rightarrow> nat \<Rightarrow> int \<Rightarrow> nat \<Rightarrow> (u8 \<times> u8) \<times> video_t \<Rightarrow> (u8 \<times> u8) \<times> video_t" where
  "text80_cell mem base y col s =
     (case s of ((ink, paper), vid) \<Rightarrow>
        let row = nat y div 8; chline = nat y mod 8; byte = mem ((base + row * 80 + col) mod 65536)
        in if byte AND 0x60 = 0 then
             (let (_, (ink1, paper1, _), vid1) = decode_attr byte (ink, paper, False) vid
              in ((ink1, paper1), render_attr_block (int col * 6) y paper1 1 (byte AND 0x80 \<noteq> 0) vid1))
           else ((ink, paper), render_char mem (int col * 6) y byte ink paper chline row vid))"

definition render_ng_text80_scanline :: "ula_ng_t option \<Rightarrow> vmem \<Rightarrow> int \<Rightarrow> video_t \<Rightarrow> video_t" where
  "render_ng_text80_scanline ng mem y vid =
     (let base = (case ng of Some u \<Rightarrow> if scrstart u \<noteq> 0 then unat (scrstart u) else 0xA000 | None \<Rightarrow> 0xA000)
      in snd (fold (text80_cell mem base y) [0..<80] ((ORIC_WHITE, ORIC_BLACK), vid)))"

section \<open>Scanlines\<close>

text \<open>The start of a frame: the frame counter and the mode latches.\<close>

definition frame_latch :: "ula_ng_t option \<Rightarrow> video_t \<Rightarrow> video_t" where
  "frame_latch ng vid =
     (let vid1 = vid\<lparr>frame_counter := frame_counter vid + 1\<rparr>;
          want_chunky = (case ng of Some u \<Rightarrow> chunky_active u | None \<Rightarrow> False);
          want_text80 = (case ng of Some u \<Rightarrow> text80_active u | None \<Rightarrow> False)
      in if want_chunky \<noteq> vid_chunky vid1 \<or> want_text80 \<noteq> vid_text80 vid1 then
           (apply_profile_resolution (vid1\<lparr>vid_chunky := want_chunky, vid_text80 := want_text80\<rparr>))
             \<lparr>framebuffer := replicate FB_BYTES 0, need_refresh := True\<rparr>
         else vid1)"

definition line_start :: "ula_ng_t option \<Rightarrow> video_t \<Rightarrow> video_t" where
  "line_start ng vid =
     (let sx = (case ng of Some u \<Rightarrow> if ng_active u then uint (scrollx u) else 0 | None \<Rightarrow> 0);
          sy = (case ng of Some u \<Rightarrow> if ng_active u then uint (scrolly u) else 0 | None \<Rightarrow> 0)
      in (palette_latch ng vid)\<lparr>text_attr := 0, line_ink := ORIC_WHITE, line_paper := ORIC_BLACK, line_sx := sx,
           line_sy := sy, line_last_col := (if sx > 0 then 40 else 39)\<rparr>)"

definition video_line_begin :: "ula_ng_t option \<Rightarrow> vmem option \<Rightarrow> int \<Rightarrow> video_t \<Rightarrow> video_t" where
  "video_line_begin ng mem y vid =
     (if mem = None \<or> y < 0 \<or> y \<ge> 224 then vid
      else line_start ng (if y = 0 then frame_latch ng vid else vid))"

definition video_render_cell :: "ula_ng_t option \<Rightarrow> vmem option \<Rightarrow> int \<Rightarrow> int \<Rightarrow> video_t \<Rightarrow> video_t" where
  "video_render_cell ng mem y col vid =
     (case mem of
        None \<Rightarrow> vid
      | Some m \<Rightarrow>
          if y < 0 \<or> y \<ge> 224 then vid
          else if vid_text80 vid \<or> vid_chunky vid then vid
          else if y < 200 then (if col < 0 \<or> col > line_last_col vid then vid else render_main_cell ng m y col vid)
          else if col < 0 \<or> col \<ge> 40 then vid else render_bottom_text_cell m y col vid)"

text \<open>The end of a line also returns the ULA-NG, whose collision flag the compositor sets.\<close>

definition video_line_end :: "ula_ng_t option \<Rightarrow> vmem option \<Rightarrow> int \<Rightarrow> video_t \<Rightarrow> video_t \<times> ula_ng_t option" where
  "video_line_end ng mem y vid =
     (case mem of
        None \<Rightarrow> (vid, ng)
      | Some m \<Rightarrow>
          if y < 0 \<or> y \<ge> 224 then (vid, ng)
          else
            let vid1 = (if vid_text80 vid then render_ng_text80_scanline ng m y vid
                        else if vid_chunky vid then render_ng_chunky_scanline ng m y vid
                        else if y = 199 then vid\<lparr>hires_mode := (vid_mode vid AND 0x04 \<noteq> 0)\<rparr> else vid);
                vid2 = (if y = 223 then vid1\<lparr>need_refresh := False\<rparr> else vid1)
            in case ng of
                 None \<Rightarrow> (vid2, None)
               | Some u \<Rightarrow>
                   let (u1, fb, _) = ula_ng_composite_scanline (framebuffer vid2) (native_w vid2) (native_h vid2) y u
                   in (vid2\<lparr>framebuffer := fb\<rparr>, Some u1))"

definition video_render_scanline :: "vmem option \<Rightarrow> int \<Rightarrow> video_t \<times> ula_ng_t option \<Rightarrow> video_t \<times> ula_ng_t option" where
  "video_render_scanline mem y s =
     (case s of (vid, ng) \<Rightarrow>
        if mem = None \<or> y < 0 \<or> y \<ge> 224 then (vid, ng)
        else
          let vid1 = video_line_begin ng mem y vid;
              last = (if y < 200 then line_last_col vid1 else 39);
              vid2 = fold (\<lambda>col. video_render_cell ng mem y (int col)) [0..<nat (last + 1)] vid1
          in video_line_end ng mem y vid2)"

definition video_render_frame :: "vmem option \<Rightarrow> video_t \<times> ula_ng_t option \<Rightarrow> video_t \<times> ula_ng_t option" where
  "video_render_frame mem s =
     (if mem = None then s else fold (\<lambda>y. video_render_scanline mem (int y)) [0..<224] s)"

end
