(* ===== verification/Emu_Clock.thy ===== *)
theory Emu_Clock
  imports Oric_Board Microseq_Run Cpu_Step Video
begin

unbundle bit_operations_syntax

text \<open>
  The master clock (\<open>src/emu_clock.c\<close>): the CPU cycle, the cell of the ULA, the beam, the scanlines
  and the raster of the ULA-NG; and the bus device of the ULA-NG (\<open>src/cards/card_ula_ng.c\<close>), whose
  chip is the first component of the cards of the board.  Cycle counters are non-negative, so the
  C division is \<open>div\<close>.
\<close>

section \<open>The ULA-NG on the bus\<close>

type_synonym 'c ng_board = "(ula_ng_t \<times> 'c) oric_board"
type_synonym 'c ng_machine = "(ula_ng_t \<times> 'c) oric_dev machine"

abbreviation NG_WINDOW_HI :: u16 where "NG_WINDOW_HI \<equiv> 0x035F"

definition ula_ng_addr_in_window :: "u16 \<Rightarrow> bool" where
  "ula_ng_addr_in_window addr \<longleftrightarrow> addr \<ge> NG_WINDOW_LO \<and> addr \<le> NG_WINDOW_HI"

definition board_ng :: "'c ng_board \<Rightarrow> ula_ng_t" where
  "board_ng b = fst (cards (dev b))"

definition put_ng :: "ula_ng_t \<Rightarrow> 'c ng_board \<Rightarrow> 'c ng_board" where
  "put_ng u = upd_dev (\<lambda>d. d\<lparr>cards := (u, snd (cards d))\<rparr>)"

definition ng_dev_claims :: "u16 \<Rightarrow> 'c ng_board \<Rightarrow> bool" where
  "ng_dev_claims addr b \<longleftrightarrow> ng_unlocked (board_ng b) \<and> ula_ng_addr_in_window addr"

definition ng_dev_claims_write :: "u16 \<Rightarrow> 'c ng_board \<Rightarrow> bool" where
  "ng_dev_claims_write addr b \<longleftrightarrow> ula_ng_addr_in_window addr"

definition ng_dev_read :: "u16 \<Rightarrow> 'c ng_board \<Rightarrow> u8 \<times> 'c ng_board" where
  "ng_dev_read addr b = (let (v, u) = ula_ng_read addr (board_ng b) in (v, put_ng u b))"

text \<open>A write that does not return would be \<open>None\<close> of \<open>ula_ng_write\<close>; \<open>ng_write_ok\<close> excludes it.\<close>

definition ng_dev_write :: "u16 \<Rightarrow> u8 \<Rightarrow> 'c ng_board \<Rightarrow> bool \<times> 'c ng_board" where
  "ng_dev_write addr value b =
     (case ula_ng_write addr value (board_ng b) of
        None \<Rightarrow> (True, b)
      | Some (consumed, u) \<Rightarrow>
          if \<not> consumed then (False, put_ng u b)
          else (True, (if ula_ng_irq u then cpu_irq_set IRQF_ULANG else cpu_irq_clear IRQF_ULANG) (put_ng u b)))"

definition ng_bus_device :: "(ula_ng_t \<times> 'c) io_device_t" where
  "ng_bus_device = \<lparr>claims = ng_dev_claims, dev_read = ng_dev_read, dev_write = ng_dev_write,
     claims_write = Some ng_dev_claims_write, dev_peek = None\<rparr>"

section \<open>State\<close>

abbreviation PAL_CYCLES_PER_LINE :: int where "PAL_CYCLES_PER_LINE \<equiv> 64"
abbreviation CYCLES_PER_FRAME :: int where "CYCLES_PER_FRAME \<equiv> 19968"
abbreviation ULA_NG_FRAME_LINES :: int where "ULA_NG_FRAME_LINES \<equiv> 312"

record 'c emulator_t =
  core :: "'c ng_machine"
  video :: video_t
  frame_cycles :: int
  raster_cycle :: int
  raster_rendered :: int
  raster_ng_line :: int
  raster_next_line :: int
  clock_resume_pending :: bool
  ula_per_cycle :: bool
  ula_fetch_offset :: int

text \<open>
  \<open>memory.ram\<close> as a pointer: behind the 48 KB of the array the structure has the ROM and then the
  character set, which is what an access past its end meets.
\<close>

definition ram_pointer :: "memory_t \<Rightarrow> vmem" where
  "ram_pointer m i =
     (if i < RAM_SIZE then ram m (of_nat i)
      else if i < RAM_SIZE + ROM_SIZE then rom m (of_nat (i - RAM_SIZE))
      else memory_t.charset m (of_nat (i - (RAM_SIZE + ROM_SIZE))))"

definition emu_mem :: "'c emulator_t \<Rightarrow> vmem option" where
  "emu_mem e = Some (ram_pointer (mem (board (core e))))"

definition emu_ng :: "'c emulator_t \<Rightarrow> ula_ng_t" where
  "emu_ng e = board_ng (board (core e))"

definition upd_board :: "('c ng_board \<Rightarrow> 'c ng_board) \<Rightarrow> 'c emulator_t \<Rightarrow> 'c emulator_t" where
  "upd_board f e = e\<lparr>core := (core e)\<lparr>board := f (board (core e))\<rparr>\<rparr>"

text \<open>A scanline operation, which draws in the frame buffer and sets the collision flag of the chip.\<close>

definition on_video :: "(video_t \<times> ula_ng_t option \<Rightarrow> video_t \<times> ula_ng_t option) \<Rightarrow> 'c emulator_t \<Rightarrow> 'c emulator_t" where
  "on_video f e =
     (let (v, ng) = f (video e, Some (emu_ng e))
      in upd_board (case ng of Some u \<Rightarrow> put_ng u | None \<Rightarrow> id) (e\<lparr>video := v\<rparr>))"

section \<open>The ULA\<close>

definition ula_cycle_in_use :: "'c emulator_t \<Rightarrow> bool" where
  "ula_cycle_in_use e \<longleftrightarrow> ula_per_cycle e \<and> ms_enabled (cpu (core e))"

definition ula_cycle :: "int \<Rightarrow> int \<Rightarrow> 'c emulator_t \<Rightarrow> 'c emulator_t" where
  "ula_cycle line dot e =
     (if line \<ge> 224 then e
      else
        let e1 = (if dot = 0 then e\<lparr>video := video_line_begin (Some (emu_ng e)) (emu_mem e) line (video e)\<rparr> else e);
            col = dot - ula_fetch_offset e1;
            e2 = (if col \<ge> 0 \<and> col \<le> 40 then
                    e1\<lparr>video := video_render_cell (Some (emu_ng e1)) (emu_mem e1) line col (video e1)\<rparr> else e1)
        in if dot = PAL_CYCLES_PER_LINE - 1 then
             (on_video (\<lambda>(v, ng). video_line_end ng (emu_mem e2) line v) e2)\<lparr>raster_rendered := line + 1\<rparr>
           else e2)"

text \<open>One iteration of the beam loop: a line boundary is crossed.\<close>

definition line_crossed :: "'c emulator_t \<Rightarrow> 'c emulator_t" where
  "line_crossed e =
     (let e1 = (if \<not> ula_cycle_in_use e \<and> raster_rendered e < 224 then
                  (on_video (video_render_scanline (emu_mem e) (raster_rendered e)) e)
                    \<lparr>raster_rendered := raster_rendered e + 1\<rparr>
                else e);
          e2 = (if raster_ng_line e1 < ULA_NG_FRAME_LINES then
                  (let e3 = upd_board (put_ng (ula_ng_scanline (raster_ng_line e1) (emu_ng e1))) e1;
                       e4 = (if ula_ng_irq (emu_ng e3) then upd_board (cpu_irq_set IRQF_ULANG) e3 else e3)
                   in e4\<lparr>raster_ng_line := raster_ng_line e1 + 1\<rparr>)
                else e1)
      in e2\<lparr>raster_next_line := raster_next_line e2 + PAL_CYCLES_PER_LINE\<rparr>)"

lemma crossed_clock [simp]:
  "raster_cycle (line_crossed e) = raster_cycle e" "frame_cycles (line_crossed e) = frame_cycles e"
  "raster_next_line (line_crossed e) = raster_next_line e + 64"
  by (simp_all add: line_crossed_def on_video_def upd_board_def Let_def case_prod_beta)

function cross_lines :: "'c emulator_t \<Rightarrow> 'c emulator_t" where
  "cross_lines e =
     (let e1 = line_crossed e in if raster_cycle e1 \<ge> raster_next_line e1 then cross_lines e1 else e1)"
  by pat_completeness auto
termination
  by (relation "measure (\<lambda>e. nat (raster_cycle e + 1 - raster_next_line e))") auto

declare cross_lines.simps [simp del]

definition clock_advance_raster :: "int \<Rightarrow> 'c emulator_t \<Rightarrow> 'c emulator_t" where
  "clock_advance_raster n e =
     (let e1 = e\<lparr>raster_cycle := raster_cycle e + n\<rparr>;
          e2 = e1\<lparr>frame_cycles := raster_cycle e1\<rparr>
      in if raster_cycle e2 < raster_next_line e2 then e2 else cross_lines e2)"

section \<open>The clock\<close>

definition emu_cycle :: "(ula_ng_t \<times> 'c) oric_dev hooks \<Rightarrow> 'c emulator_t \<Rightarrow> bool \<times> 'c emulator_t" where
  "emu_cycle hk e =
     (if ms_enabled (cpu (core e)) then
        (let (last, m) = cpu_cycle hk (core e);
             e1 = e\<lparr>core := m\<rparr>;
             e2 = (if ula_cycle_in_use e1 then
                     ula_cycle (raster_cycle e1 div PAL_CYCLES_PER_LINE) (raster_cycle e1 mod PAL_CYCLES_PER_LINE) e1
                   else e1)
         in (last, clock_advance_raster 1 e2))
      else
        let (n, m) = cpu_step hk (core e) in (True, clock_advance_raster (int n) (e\<lparr>core := m\<rparr>)))"

text \<open>The loop of \<open>emu_step\<close>; \<open>None\<close> would be an instruction that never ends.\<close>

partial_function (option) emu_step_loop :: "(ula_ng_t \<times> 'c) oric_dev hooks \<Rightarrow> 'c emulator_t \<Rightarrow> 'c emulator_t option" where
  "emu_step_loop hk e =
     (let (last, e1) = emu_cycle hk e in
      if last then Some e1 else if halted (cpu (core e1)) then Some e1 else emu_step_loop hk e1)"

definition emu_step :: "(ula_ng_t \<times> 'c) oric_dev hooks \<Rightarrow> 'c emulator_t \<Rightarrow> (nat \<times> 'c emulator_t) option" where
  "emu_step hk e = map_option (\<lambda>e1. (cycles (cpu (core e1)) - cycles (cpu (core e)), e1)) (emu_step_loop hk e)"

definition frame_start :: "'c emulator_t \<Rightarrow> 'c emulator_t" where
  "frame_start e = e\<lparr>raster_cycle := 0, raster_rendered := 0, raster_ng_line := 0,
     raster_next_line := PAL_CYCLES_PER_LINE, frame_cycles := 0\<rparr>"

definition emu_clock_resume :: "'c emulator_t \<Rightarrow> 'c emulator_t" where
  "emu_clock_resume e0 =
     (if \<not> clock_resume_pending e0 then e0
      else
        let e = e0\<lparr>clock_resume_pending := False\<rparr> in
        if raster_cycle e \<ge> CYCLES_PER_FRAME \<or> raster_cycle e < 0 then frame_start e
        else
          let line = raster_cycle e div PAL_CYCLES_PER_LINE; dot = raster_cycle e mod PAL_CYCLES_PER_LINE;
              e1 = e\<lparr>raster_next_line := (line + 1) * PAL_CYCLES_PER_LINE, frame_cycles := raster_cycle e\<rparr>;
              done = (if line < 224 then line else 224);
              e2 = fold (\<lambda>y e. on_video (video_render_scanline (emu_mem e) (int y)) e) [0..<nat done] e1;
              e3 = e2\<lparr>raster_rendered := done\<rparr>
          in if ula_cycle_in_use e3 \<and> line < 224 then
               (let e4 = e3\<lparr>video := video_line_begin (Some (emu_ng e3)) (emu_mem e3) line (video e3)\<rparr>;
                    col_end = dot - ula_fetch_offset e4
                in e4\<lparr>video := fold (\<lambda>col. video_render_cell (Some (emu_ng e4)) (emu_mem e4) line (int col))
                        [0..<nat (min col_end 41)] (video e4)\<rparr>)
             else e3)"

definition emu_clock_frame_begin :: "'c emulator_t \<Rightarrow> 'c emulator_t" where
  "emu_clock_frame_begin e = (if clock_resume_pending e then emu_clock_resume e else frame_start e)"

function emu_clock_frame_end :: "'c emulator_t \<Rightarrow> 'c emulator_t" where
  "emu_clock_frame_end e =
     (if raster_rendered e < 224 then
        emu_clock_frame_end ((on_video (video_render_scanline (emu_mem e) (raster_rendered e)) e)
          \<lparr>raster_rendered := raster_rendered e + 1\<rparr>)
      else e)"
  by pat_completeness auto
termination
  by (relation "measure (\<lambda>e. nat (224 - raster_rendered e))") auto

declare emu_clock_frame_end.simps [simp del]

definition emu_raster_pos :: "'c emulator_t \<Rightarrow> int \<times> int" where
  "emu_raster_pos e = (raster_cycle e div PAL_CYCLES_PER_LINE, raster_cycle e mod PAL_CYCLES_PER_LINE)"

end
