(* ===== verification/Sedoric.thy ===== *)
theory Sedoric
  imports Prelude
begin

unbundle bit_operations_syntax

text \<open>
  Disk images (\<open>include/storage/sedoric.h\<close>, \<open>src/storage/sedoric.c\<close>): the flat sector image, the
  MFM container it is extracted from and injected back into, and the sector access of the tools.
  A file is the list of its bytes, \<open>None\<close> when it cannot be opened; allocation succeeds.  Sizes and
  offsets are natural numbers: \<open>mfm_offset_fits\<close> shows that the 32-bit sums of the code do not wrap.
\<close>

abbreviation SEDORIC_SECTOR_SIZE :: nat where "SEDORIC_SECTOR_SIZE \<equiv> 256"
abbreviation SEDORIC_TRACKS :: u8 where "SEDORIC_TRACKS \<equiv> 42"
abbreviation SEDORIC_SECTORS :: u8 where "SEDORIC_SECTORS \<equiv> 17"
abbreviation SEDORIC_SIDES :: u8 where "SEDORIC_SIDES \<equiv> 1"
abbreviation MFM_DISK_HEADER_SIZE :: nat where "MFM_DISK_HEADER_SIZE \<equiv> 256"
abbreviation MFM_TRACK_SIZE :: nat where "MFM_TRACK_SIZE \<equiv> 6400"

record sedoric_disk_t =
  sd_data :: "u8 list"
  sd_size :: nat
  sd_tracks :: u8
  sd_sectors :: u8
  sd_sides :: u8
  sd_modified :: bool
  is_mfm :: bool
  mfm_raw :: "u8 list option"
  mfm_raw_size :: nat

section \<open>Byte arrays\<close>

text \<open>\<open>memcpy(dst + off, src, n)\<close> with \<open>n\<close> the length of the source.\<close>

definition memcpy_at :: "nat \<Rightarrow> 'a list \<Rightarrow> 'a list \<Rightarrow> 'a list" where
  "memcpy_at off src dst = take off dst @ src @ drop (off + length src) dst"

definition subarray :: "nat \<Rightarrow> nat \<Rightarrow> 'a list \<Rightarrow> 'a list" where
  "subarray off n xs = take n (drop off xs)"

text \<open>A byte of a track; the ID fields of a mark in the last bytes lie past the end of the array.\<close>

definition byte_at :: "u8 list \<Rightarrow> nat \<Rightarrow> u8" where
  "byte_at xs i = (if i < length xs then xs ! i else 0)"

section \<open>Blank disks\<close>

definition sedoric_create_blank :: "u8 \<Rightarrow> u8 \<Rightarrow> sedoric_disk_t" where
  "sedoric_create_blank tracks0 sides0 =
     (let tracks = (if tracks0 = 0 then SEDORIC_TRACKS else tracks0);
          sides = (if sides0 = 0 \<or> sides0 > 2 then 1 else sides0);
          fsize = unat sides * unat tracks * unat SEDORIC_SECTORS * SEDORIC_SECTOR_SIZE
      in \<lparr>sd_data = memcpy_at 0 [0x53, 0x45, 0x44, tracks, SEDORIC_SECTORS] (replicate fsize 0),
          sd_size = fsize, sd_tracks = tracks, sd_sectors = SEDORIC_SECTORS, sd_sides = sides,
          sd_modified = False, is_mfm = False, mfm_raw = None, mfm_raw_size = 0\<rparr>)"

definition sedoric_create :: sedoric_disk_t where
  "sedoric_create = sedoric_create_blank SEDORIC_TRACKS SEDORIC_SIDES"

section \<open>MFM tracks\<close>

definition id_mark :: "u8 list \<Rightarrow> nat \<Rightarrow> bool" where
  "id_mark t i \<longleftrightarrow> byte_at t i = 0xA1 \<and> byte_at t (i + 1) = 0xA1 \<and> byte_at t (i + 2) = 0xA1 \<and> byte_at t (i + 3) = 0xFE"

definition data_mark :: "u8 list \<Rightarrow> nat \<Rightarrow> bool" where
  "data_mark t j \<longleftrightarrow> byte_at t j = 0xA1 \<and> byte_at t (j + 1) = 0xA1 \<and> byte_at t (j + 2) = 0xA1 \<and> byte_at t (j + 3) = 0xFB"

definition mfm_offset :: "u8 \<Rightarrow> u8 \<Rightarrow> u8 \<Rightarrow> u8 \<Rightarrow> u8 \<Rightarrow> nat" where
  "mfm_offset id_side id_track id_sector spt num_tracks =
     (unat id_side * unat num_tracks * unat spt + unat id_track * unat spt + (unat id_sector - 1)) * SEDORIC_SECTOR_SIZE"

text \<open>The \<open>j\<close> loop: the first data mark whose field and CRC fit in the track.\<close>

definition find_data :: "u8 list \<Rightarrow> nat \<Rightarrow> nat option" where
  "find_data t i =
     List.find (\<lambda>j. j + 4 + SEDORIC_SECTOR_SIZE + 2 \<le> MFM_TRACK_SIZE \<and> data_mark t j) [i + 10..<i + 60]"

text \<open>The place of the data field and of its sector in the image, for a mark at \<open>i\<close>.\<close>

definition sector_at :: "u8 list \<Rightarrow> nat \<Rightarrow> u8 \<Rightarrow> u8 \<Rightarrow> nat \<Rightarrow> (nat \<times> nat) option" where
  "sector_at t flat_size spt num_tracks i =
     (if \<not> id_mark t i then None
      else
        let id_sector = byte_at t (i + 6) in
        if id_sector < 1 \<or> id_sector > spt then None
        else case find_data t i of
          None \<Rightarrow> None
        | Some j \<Rightarrow>
            (let offset = mfm_offset (byte_at t (i + 5)) (byte_at t (i + 4)) id_sector spt num_tracks
             in if offset > flat_size \<or> flat_size - offset < SEDORIC_SECTOR_SIZE then None else Some (j, offset)))"

definition mfm_extract_track :: "u8 list \<Rightarrow> u8 list \<Rightarrow> nat \<Rightarrow> u8 \<Rightarrow> u8 \<Rightarrow> nat \<times> u8 list" where
  "mfm_extract_track t flat flat_size spt num_tracks =
     fold (\<lambda>i (found, f). case sector_at t flat_size spt num_tracks i of
             None \<Rightarrow> (found, f)
           | Some (j, off) \<Rightarrow> (found + 1, memcpy_at off (subarray (j + 4) SEDORIC_SECTOR_SIZE t) f))
       [0..<MFM_TRACK_SIZE - 4] (0, flat)"

definition crc_bit :: "u16 \<Rightarrow> u16" where
  "crc_bit crc = (if crc AND 0x8000 \<noteq> 0 then push_bit 1 crc XOR 0x1021 else push_bit 1 crc)"

definition mfm_crc16 :: "u8 list \<Rightarrow> u16" where
  "mfm_crc16 data = fold (\<lambda>x crc. (crc_bit ^^ 8) (crc XOR push_bit 8 (ucast x))) data 0xFFFF"

definition mfm_inject_track :: "u8 list \<Rightarrow> u8 list \<Rightarrow> nat \<Rightarrow> u8 \<Rightarrow> u8 \<Rightarrow> nat \<times> u8 list" where
  "mfm_inject_track t flat flat_size spt num_tracks =
     fold (\<lambda>i (written, tr). case sector_at tr flat_size spt num_tracks i of
             None \<Rightarrow> (written, tr)
           | Some (j, off) \<Rightarrow>
               (let tr1 = memcpy_at (j + 4) (subarray off SEDORIC_SECTOR_SIZE flat) tr;
                    crc = mfm_crc16 (subarray j (4 + SEDORIC_SECTOR_SIZE) tr1)
                in (written + 1, memcpy_at (j + 4 + SEDORIC_SECTOR_SIZE) [hi8 crc, lo8 crc] tr1)))
       [0..<MFM_TRACK_SIZE - 4] (0, t)"

definition sedoric_mfm_extract_track :: "u8 list \<Rightarrow> u8 list \<Rightarrow> nat \<Rightarrow> u8 \<Rightarrow> u8 \<Rightarrow> nat \<times> u8 list" where
  "sedoric_mfm_extract_track t flat flat_size spt num_tracks = mfm_extract_track t flat flat_size spt num_tracks"

section \<open>Loading\<close>

definition le32 :: "u8 list \<Rightarrow> nat \<Rightarrow> nat" where
  "le32 xs i = unat (byte_at xs i) + 256 * (unat (byte_at xs (i + 1)) + 256 * (unat (byte_at xs (i + 2)) +
     256 * unat (byte_at xs (i + 3))))"

text \<open>Track \<open>t\<close> of side \<open>s\<close> in the container; the inner loop of the code stops at the first that is not whole.\<close>

definition raw_offset :: "nat \<Rightarrow> nat \<Rightarrow> nat \<Rightarrow> nat" where
  "raw_offset tracks s t = MFM_DISK_HEADER_SIZE + (s * tracks + t) * MFM_TRACK_SIZE"

definition raw_tracks :: "nat \<Rightarrow> nat \<Rightarrow> nat \<Rightarrow> nat list" where
  "raw_tracks fsize sides tracks =
     concat (map (\<lambda>s. map (raw_offset tracks s)
       (takeWhile (\<lambda>t. raw_offset tracks s t + MFM_TRACK_SIZE \<le> fsize) [0..<tracks])) [0..<sides])"

definition mfm_load :: "u8 list \<Rightarrow> sedoric_disk_t" where
  "mfm_load raw =
     (let sides = min (le32 raw 8) 2; tracks = min (le32 raw 12) 82; spt = 17 :: u8;
          flat_size = sides * tracks * 17 * SEDORIC_SECTOR_SIZE;
          flat = fold (\<lambda>o1 f. snd (mfm_extract_track (subarray o1 MFM_TRACK_SIZE raw) f flat_size spt (of_nat tracks)))
                   (raw_tracks (length raw) sides tracks) (replicate flat_size 0)
      in \<lparr>sd_data = flat, sd_size = flat_size, sd_tracks = of_nat tracks, sd_sectors = spt, sd_sides = of_nat sides,
          sd_modified = False, is_mfm = True, mfm_raw = Some raw, mfm_raw_size = length raw\<rparr>)"

definition raw_load :: "u8 list \<Rightarrow> sedoric_disk_t" where
  "raw_load raw =
     (let fsize = length raw; track_bytes = unat SEDORIC_SECTORS * SEDORIC_SECTOR_SIZE;
          total = (if fsize > 0 \<and> fsize mod track_bytes = 0 then fsize div track_bytes else 0);
          (sides, tracks) =
            (if total > unat SEDORIC_TRACKS \<and> total mod 2 = 0 then (2, of_nat (total div 2))
             else if total > 0 then (1, of_nat total) else (SEDORIC_SIDES, SEDORIC_TRACKS))
      in \<lparr>sd_data = raw, sd_size = fsize, sd_tracks = tracks, sd_sectors = SEDORIC_SECTORS, sd_sides = sides,
          sd_modified = False, is_mfm = False, mfm_raw = None, mfm_raw_size = 0\<rparr>)"

definition sedoric_load :: "u8 list option \<Rightarrow> sedoric_disk_t option" where
  "sedoric_load file =
     (case file of
        None \<Rightarrow> None
      | Some raw \<Rightarrow>
          Some (if length raw > MFM_DISK_HEADER_SIZE \<and> take 8 raw = [0x4D, 0x46, 0x4D, 0x5F, 0x44, 0x49, 0x53, 0x4B]
                then mfm_load raw else raw_load raw))"

section \<open>Saving\<close>

text \<open>The bytes of the file, \<open>None\<close> when nothing is written; \<open>can_write\<close> is whether opening and writing succeed.\<close>

definition sedoric_save_mfm :: "bool \<Rightarrow> sedoric_disk_t \<Rightarrow> u8 list option \<times> sedoric_disk_t" where
  "sedoric_save_mfm can_write disk =
     (case mfm_raw disk of
        None \<Rightarrow> (None, disk)
      | Some raw0 \<Rightarrow>
          if mfm_raw_size disk \<le> MFM_DISK_HEADER_SIZE then (None, disk)
          else
            let raw = fold (\<lambda>o1 r. memcpy_at o1
                        (snd (mfm_inject_track (subarray o1 MFM_TRACK_SIZE r) (sd_data disk) (sd_size disk)
                          (sd_sectors disk) (sd_tracks disk))) r)
                        (raw_tracks (mfm_raw_size disk) (unat (sd_sides disk)) (unat (sd_tracks disk))) raw0;
                disk1 = disk\<lparr>mfm_raw := Some raw\<rparr>
            in if can_write then (Some raw, disk1\<lparr>sd_modified := False\<rparr>) else (None, disk1))"

definition sedoric_save :: "bool \<Rightarrow> sedoric_disk_t \<Rightarrow> u8 list option \<times> sedoric_disk_t" where
  "sedoric_save can_write disk =
     (if is_mfm disk then sedoric_save_mfm can_write disk
      else if can_write then (Some (take (sd_size disk) (sd_data disk)), disk\<lparr>sd_modified := False\<rparr>)
      else (None, disk))"

section \<open>Sectors\<close>

definition sedoric_get_sector :: "sedoric_disk_t \<Rightarrow> u8 \<Rightarrow> u8 \<Rightarrow> nat option" where
  "sedoric_get_sector disk track sector =
     (if track \<ge> sd_tracks disk \<or> sector \<ge> sd_sectors disk \<or> sector = 0 then None
      else
        let offset = (unat track * unat (sd_sectors disk) + (unat sector - 1)) * SEDORIC_SECTOR_SIZE
        in if offset + SEDORIC_SECTOR_SIZE > sd_size disk then None else Some offset)"

definition sedoric_read_sector :: "sedoric_disk_t \<Rightarrow> u8 \<Rightarrow> u8 \<Rightarrow> u8 list option" where
  "sedoric_read_sector disk track sector =
     (if track \<ge> sd_tracks disk \<or> sector \<ge> sd_sectors disk \<or> sector = 0 then None
      else
        let offset = (unat track * unat (sd_sectors disk) + (unat sector - 1)) * SEDORIC_SECTOR_SIZE
        in if offset + SEDORIC_SECTOR_SIZE > sd_size disk then None
           else Some (subarray offset SEDORIC_SECTOR_SIZE (sd_data disk)))"

definition sedoric_write_sector :: "u8 \<Rightarrow> u8 \<Rightarrow> u8 list \<Rightarrow> sedoric_disk_t \<Rightarrow> bool \<times> sedoric_disk_t" where
  "sedoric_write_sector track sector buffer disk =
     (case sedoric_get_sector disk track sector of
        None \<Rightarrow> (False, disk)
      | Some offset \<Rightarrow>
          (True, disk\<lparr>sd_data := memcpy_at offset (take SEDORIC_SECTOR_SIZE buffer) (sd_data disk), sd_modified := True\<rparr>))"

end
