(* ===== verification/Fdc.thy ===== *)
theory Fdc
  imports Sedoric
begin

unbundle bit_operations_syntax

text \<open>
  The WD1793 disk controller (\<open>include/storage/disk.h\<close>, \<open>src/storage/disk.c\<close>): its registers and
  commands, the delayed DRQ and INTRQ, and the byte stream tied to the platter.  Pointers into the
  disk images are addresses of a store of buffers: a buffer number and an offset, \<open>None\<close> for a null
  pointer.  An access outside a buffer, which is undefined in C, sets \<open>oob\<close> and otherwise reads 0
  or writes nothing.  The signal callbacks and the HTTP disk server are parameters; they see the
  state \<open>fuser\<close> of the card, never the controller.  The delays are \<open>int\<close>.
\<close>

section \<open>State\<close>

abbreviation FDC_ST_BUSY :: u8 where "FDC_ST_BUSY \<equiv> 0x01"
abbreviation FDC_STI_PULSE :: u8 where "FDC_STI_PULSE \<equiv> 0x02"
abbreviation FDC_ST_DRQ :: u8 where "FDC_ST_DRQ \<equiv> 0x02"
abbreviation FDC_STI_TRK0 :: u8 where "FDC_STI_TRK0 \<equiv> 0x04"
abbreviation FDC_ST_LOST_DATA :: u8 where "FDC_ST_LOST_DATA \<equiv> 0x04"
abbreviation FDC_STI_SEEK_ERR :: u8 where "FDC_STI_SEEK_ERR \<equiv> 0x10"
abbreviation FDC_ST_NOT_FOUND :: u8 where "FDC_ST_NOT_FOUND \<equiv> 0x10"
abbreviation FDC_STI_HEADL :: u8 where "FDC_STI_HEADL \<equiv> 0x20"
abbreviation FDC_ST_WRITE_PROT :: u8 where "FDC_ST_WRITE_PROT \<equiv> 0x40"
abbreviation FDC_ST_NOT_READY :: u8 where "FDC_ST_NOT_READY \<equiv> 0x80"
abbreviation FDC_REV_CYCLES :: u32 where "FDC_REV_CYCLES \<equiv> 200000"
abbreviation FDC_BYTE_CYCLES :: int where "FDC_BYTE_CYCLES \<equiv> 32"
abbreviation FDC_INDEX_PULSE_CYCLES :: u32 where "FDC_INDEX_PULSE_CYCLES \<equiv> 4000"
abbreviation FDC_SETTLE_CYCLES :: int where "FDC_SETTLE_CYCLES \<equiv> 30000"
abbreviation FDC_WRITE_GAP_BYTES :: int where "FDC_WRITE_GAP_BYTES \<equiv> 22"
abbreviation FDC_RNF_CYCLES :: int where "FDC_RNF_CYCLES \<equiv> 1000000"
abbreviation FDC_MAX_BAD_SECTORS :: nat where "FDC_MAX_BAD_SECTORS \<equiv> 16"

datatype fdc_timing = FDC_TIMING_FAST | FDC_TIMING_REAL

datatype fdc_op_t =
  FDC_OP_NONE | FDC_OP_READ_SECTOR | FDC_OP_READ_SECTORS | FDC_OP_WRITE_SECTOR | FDC_OP_WRITE_SECTORS
  | FDC_OP_READ_ADDRESS | FDC_OP_READ_TRACK | FDC_OP_WRITE_TRACK

text \<open>The first \<open>count\<close> entries of the map: side, track, sector.\<close>

type_synonym fdc_bad_map_t = "(u8 \<times> u8 \<times> u8) list"

type_synonym buf_ptr = "nat \<times> nat"

record fdc_t =
  fd_status :: u8
  fd_command :: u8
  fd_track :: u8
  fd_sector :: u8
  fd_data :: u8
  fd_direction :: u8
  c_track :: u8
  c_sector :: u8
  fd_side :: u8
  disk_data :: "nat option"
  disk_size :: u32
  tracks :: u8
  sectors_per_track :: u8
  disk_modified :: bool
  currentop :: fdc_op_t
  cur_sector_data :: "buf_ptr option"
  cur_sector_len :: u16
  cur_offset :: u16
  sec_type :: u8
  wt_state :: u8
  wt_field_idx :: u8
  wt_id :: "u8 list"
  wt_data_len :: u16
  wt_sectors_done :: u8
  delayed_drq :: int
  delayed_int :: int
  di_status :: int
  dd_status :: int
  timing_mode :: fdc_timing
  rot_pos :: u32
  lost_data_count :: u32
  write_protected :: bool
  drq_age :: int
  stream :: bool
  stream_crc :: bool
  stream_due :: int
  status_type1 :: bool
  web :: bool
  web_url :: string
  web_track_loaded :: "bool list"
  bad :: fdc_bad_map_t

record 'u fdc_state =
  fdc :: fdc_t
  bufs :: "nat \<Rightarrow> u8 list"
  oob :: bool
  fuser :: 'u

record 'u fdc_hooks =
  set_drq :: "'u \<Rightarrow> 'u"
  clr_drq :: "'u \<Rightarrow> 'u"
  set_intrq :: "'u \<Rightarrow> 'u"
  clr_intrq :: "'u \<Rightarrow> 'u"
  http_get :: "string \<Rightarrow> nat \<Rightarrow> 'u \<Rightarrow> u8 list option \<times> 'u"

definition upd_fdc :: "(fdc_t \<Rightarrow> fdc_t) \<Rightarrow> 'u fdc_state \<Rightarrow> 'u fdc_state" where
  "upd_fdc f s = s\<lparr>fdc := f (fdc s)\<rparr>"

definition raise_sig :: "('u \<Rightarrow> 'u) \<Rightarrow> 'u fdc_state \<Rightarrow> 'u fdc_state" where
  "raise_sig f s = s\<lparr>fuser := f (fuser s)\<rparr>"

definition or_status :: "u8 \<Rightarrow> 'u fdc_state \<Rightarrow> 'u fdc_state" where
  "or_status m s = upd_fdc (\<lambda>f. f\<lparr>fd_status := fd_status f OR m\<rparr>) s"

definition and_status :: "u8 \<Rightarrow> 'u fdc_state \<Rightarrow> 'u fdc_state" where
  "and_status m s = upd_fdc (\<lambda>f. f\<lparr>fd_status := fd_status f AND NOT m\<rparr>) s"

text \<open>\<open>status &= ~FDC_ST_DRQ; clr_drq(...)\<close>\<close>

definition drop_drq :: "'u fdc_hooks \<Rightarrow> 'u fdc_state \<Rightarrow> 'u fdc_state" where
  "drop_drq hk s = raise_sig (clr_drq hk) (and_status FDC_ST_DRQ s)"

definition buf_get :: "buf_ptr option \<Rightarrow> nat \<Rightarrow> 'u fdc_state \<Rightarrow> u8 \<times> 'u fdc_state" where
  "buf_get p i s =
     (case p of
        Some (b, off) \<Rightarrow> if off + i < length (bufs s b) then (bufs s b ! (off + i), s) else (0, s\<lparr>oob := True\<rparr>)
      | None \<Rightarrow> (0, s\<lparr>oob := True\<rparr>))"

definition buf_put :: "buf_ptr option \<Rightarrow> nat \<Rightarrow> u8 \<Rightarrow> 'u fdc_state \<Rightarrow> 'u fdc_state" where
  "buf_put p i x s =
     (case p of
        Some (b, off) \<Rightarrow>
          if off + i < length (bufs s b) then s\<lparr>bufs := (bufs s)(b := (bufs s b)[off + i := x])\<rparr>
          else s\<lparr>oob := True\<rparr>
      | None \<Rightarrow> s\<lparr>oob := True\<rparr>)"

section \<open>Initialisation and media\<close>

definition fdc_init :: fdc_t where
  "fdc_init = \<lparr>fd_status = 0, fd_command = 0, fd_track = 0, fd_sector = 0, fd_data = 0, fd_direction = 0,
     c_track = 0, c_sector = 0, fd_side = 0, disk_data = None, disk_size = 0, tracks = 80,
     sectors_per_track = 17, disk_modified = False, currentop = FDC_OP_NONE, cur_sector_data = None,
     cur_sector_len = 0, cur_offset = 0, sec_type = 0, wt_state = 0, wt_field_idx = 0, wt_id = [0, 0, 0, 0],
     wt_data_len = 0, wt_sectors_done = 0, delayed_drq = 0, delayed_int = 0, di_status = - 1,
     dd_status = - 1, timing_mode = FDC_TIMING_FAST, rot_pos = 0, lost_data_count = 0,
     write_protected = False, drq_age = 0, stream = False, stream_crc = False, stream_due = 0,
     status_type1 = False, web = False, web_url = [], web_track_loaded = replicate 164 False, bad = []\<rparr>"

definition fdc_reset :: "fdc_t \<Rightarrow> fdc_t" where
  "fdc_reset f = f\<lparr>fd_status := 0, status_type1 := False, fd_track := 0, fd_sector := 1, c_track := 0,
     c_sector := 0, currentop := FDC_OP_NONE, cur_sector_data := None, cur_offset := 0, wt_state := 0,
     wt_field_idx := 0, wt_sectors_done := 0, delayed_drq := 0, delayed_int := 0, di_status := - 1,
     dd_status := - 1, stream := False, stream_crc := False, stream_due := 0\<rparr>"

definition fdc_set_disk :: "nat option \<Rightarrow> u32 \<Rightarrow> fdc_t \<Rightarrow> fdc_t" where
  "fdc_set_disk d n f = f\<lparr>disk_data := d, disk_size := n, web := False, web_url := [],
     web_track_loaded := replicate 164 False\<rparr>"

definition fdc_set_web :: "string option \<Rightarrow> fdc_t \<Rightarrow> fdc_t" where
  "fdc_set_web url f =
     (case url of
        Some (c # cs) \<Rightarrow> f\<lparr>web := True, web_url := take 511 (c # cs), web_track_loaded := replicate 164 False\<rparr>
      | _ \<Rightarrow> f\<lparr>web := False, web_url := []\<rparr>)"

definition fdc_bad_map_add :: "u8 \<Rightarrow> u8 \<Rightarrow> u8 \<Rightarrow> fdc_bad_map_t \<Rightarrow> int \<times> fdc_bad_map_t" where
  "fdc_bad_map_add sd tr sc m =
     (if length m \<ge> FDC_MAX_BAD_SECTORS then (- 1, m) else (0, m @ [(sd, tr, sc)]))"

definition fdc_add_bad_sector :: "u8 \<Rightarrow> u8 \<Rightarrow> u8 \<Rightarrow> fdc_t \<Rightarrow> int \<times> fdc_t" where
  "fdc_add_bad_sector sd tr sc f = (let (r, m) = fdc_bad_map_add sd tr sc (bad f) in (r, f\<lparr>bad := m\<rparr>))"

definition fdc_set_bad_map :: "fdc_bad_map_t option \<Rightarrow> fdc_t \<Rightarrow> fdc_t" where
  "fdc_set_bad_map m f = f\<lparr>bad := (case m of Some x \<Rightarrow> x | None \<Rightarrow> [])\<rparr>"

definition fdc_set_write_protect :: "bool \<Rightarrow> fdc_t \<Rightarrow> fdc_t" where
  "fdc_set_write_protect on f = f\<lparr>write_protected := on\<rparr>"

section \<open>Sectors\<close>

text \<open>A whole track that the server returned, extracted into the image.\<close>

definition web_put :: "u8 list \<Rightarrow> 'u fdc_state \<Rightarrow> 'u fdc_state" where
  "web_put raw s =
     (let f = fdc s in
      case disk_data f of
        None \<Rightarrow> s\<lparr>oob := True\<rparr>
      | Some b \<Rightarrow>
          (let img = snd (sedoric_mfm_extract_track raw (bufs s b) (unat (disk_size f)) (sectors_per_track f) (tracks f))
           in s\<lparr>bufs := (bufs s)(b := take (length (bufs s b)) img),
                oob := (oob s \<or> length img \<noteq> length (bufs s b))\<rparr>))"

definition fdc_web_ensure_track :: "'u fdc_hooks \<Rightarrow> u8 \<Rightarrow> u8 \<Rightarrow> 'u fdc_state \<Rightarrow> 'u fdc_state" where
  "fdc_web_ensure_track hk sd tr s =
     (let f = fdc s; idx = unat sd * unat (tracks f) + unat tr in
      if \<not> web f \<or> tr \<ge> tracks f then s
      else if idx \<ge> 164 \<or> web_track_loaded f ! idx then s
      else
        let (got, u) = http_get hk (web_url f) (MFM_DISK_HEADER_SIZE + idx * MFM_TRACK_SIZE) (fuser s);
            s1 = s\<lparr>fuser := u\<rparr>;
            s2 = (case got of Some raw \<Rightarrow> web_put raw s1 | None \<Rightarrow> s1)
        in upd_fdc (\<lambda>f. f\<lparr>web_track_loaded := (web_track_loaded f)[idx := True]\<rparr>) s2)"

definition fdc_find_sector :: "'u fdc_hooks \<Rightarrow> u8 \<Rightarrow> 'u fdc_state \<Rightarrow> buf_ptr option \<times> 'u fdc_state" where
  "fdc_find_sector hk sec_id s =
     (let f = fdc s in
      case disk_data f of
        None \<Rightarrow> (None, s)
      | Some b \<Rightarrow>
          if c_track f \<ge> tracks f \<or> sec_id = 0 \<or> sec_id > sectors_per_track f then (None, s)
          else
            let s1 = fdc_web_ensure_track hk (fd_side f) (c_track f) s in
            if (fd_side f, c_track f, sec_id) \<in> set (bad f) then (None, s1)
            else
              let offset = mfm_offset (fd_side f) (c_track f) sec_id (sectors_per_track f) (tracks f)
              in if offset + 256 > unat (disk_size f) then (None, s1) else (Some (b, offset), s1))"

text \<open>\<open>cur_sector_data = fdc_find_sector(fdc, id)\<close>\<close>

definition load_sector :: "'u fdc_hooks \<Rightarrow> u8 \<Rightarrow> 'u fdc_state \<Rightarrow> 'u fdc_state" where
  "load_sector hk sec_id s =
     (let (p, s1) = fdc_find_sector hk sec_id s in upd_fdc (\<lambda>f. f\<lparr>cur_sector_data := p\<rparr>) s1)"

definition fdc_step_rate_ms :: "int list" where
  "fdc_step_rate_ms = [6, 12, 20, 30]"

definition fdc_rot_wait :: "u8 \<Rightarrow> fdc_t \<Rightarrow> int" where
  "fdc_rot_wait sec_id f =
     (let spt = (if sectors_per_track f \<noteq> 0 then ucast (sectors_per_track f) else 17) :: u32;
          sl = FDC_REV_CYCLES div spt;
          target = ((ucast sec_id - 1) * sl + sl div 8) mod FDC_REV_CYCLES;
          wait = (target + FDC_REV_CYCLES - rot_pos f) mod FDC_REV_CYCLES
      in if wait < 2 then 2 else uint wait)"

section \<open>Seek\<close>

definition seek_delay :: "u8 \<Rightarrow> u8 \<Rightarrow> fdc_t \<Rightarrow> int" where
  "seek_delay target cmd f =
     (if timing_mode f = FDC_TIMING_REAL then
        (let steps = (if target > c_track f then uint target - uint (c_track f) else uint (c_track f) - uint target);
             steps1 = (if steps = 0 then 1 else steps)
         in steps1 * (fdc_step_rate_ms ! unat (cmd AND 3)) * 1000 +
            (if cmd AND 0x04 \<noteq> 0 then FDC_SETTLE_CYCLES else 0))
      else 20)"

definition fdc_seek_track :: "'u fdc_hooks \<Rightarrow> u8 \<Rightarrow> u8 \<Rightarrow> bool \<Rightarrow> 'u fdc_state \<Rightarrow> 'u fdc_state" where
  "fdc_seek_track hk target0 cmd update_track s =
     (if disk_data (fdc s) \<noteq> None then
        upd_fdc (\<lambda>f.
          let beyond = (target0 \<ge> tracks f);
              target = (if beyond then (if tracks f > 0 then tracks f - 1 else 0) else target0);
              st = (if beyond then FDC_STI_HEADL OR FDC_STI_SEEK_ERR else FDC_STI_HEADL OR FDC_STI_PULSE);
              st1 = (if target = 0 then st OR FDC_STI_TRK0 else st)
          in f\<lparr>delayed_int := seek_delay target cmd f, c_track := target, c_sector := 0,
               fd_track := (if update_track then target else fd_track f), di_status := uint st1\<rparr>) s
      else
        upd_fdc (\<lambda>f. f\<lparr>fd_track := 0, fd_status := FDC_ST_NOT_READY OR FDC_STI_SEEK_ERR\<rparr>)
          (raise_sig (set_intrq hk) s))"

section \<open>Commands that end at once\<close>

definition fdc_record_not_found :: "'u fdc_hooks \<Rightarrow> 'u fdc_state \<Rightarrow> 'u fdc_state" where
  "fdc_record_not_found hk s =
     (let s1 = upd_fdc (\<lambda>f. f\<lparr>currentop := FDC_OP_NONE\<rparr>) (raise_sig (clr_drq hk) s)
      in if timing_mode (fdc s1) = FDC_TIMING_REAL then
           upd_fdc (\<lambda>f. f\<lparr>fd_status := FDC_ST_BUSY, di_status := uint FDC_ST_NOT_FOUND,
                          delayed_int := FDC_RNF_CYCLES\<rparr>) s1
         else raise_sig (set_intrq hk) (upd_fdc (\<lambda>f. f\<lparr>fd_status := FDC_ST_NOT_FOUND\<rparr>) s1))"

text \<open>A command refused with a status: \<open>fdc_write_protected\<close> and \<open>fdc_not_ready\<close> do the same with theirs.\<close>

definition refuse :: "'u fdc_hooks \<Rightarrow> u8 \<Rightarrow> 'u fdc_state \<Rightarrow> 'u fdc_state" where
  "refuse hk st s =
     raise_sig (set_intrq hk) (upd_fdc (\<lambda>f. f\<lparr>currentop := FDC_OP_NONE, fd_status := st\<rparr>) (raise_sig (clr_drq hk) s))"

definition fdc_write_protected :: "'u fdc_hooks \<Rightarrow> 'u fdc_state \<Rightarrow> 'u fdc_state option" where
  "fdc_write_protected hk s = (if write_protected (fdc s) then Some (refuse hk FDC_ST_WRITE_PROT s) else None)"

definition fdc_not_ready :: "'u fdc_hooks \<Rightarrow> 'u fdc_state \<Rightarrow> 'u fdc_state option" where
  "fdc_not_ready hk s = (if disk_data (fdc s) \<noteq> None then None else Some (refuse hk FDC_ST_NOT_READY s))"

definition fdc_op_transfers_data :: "fdc_op_t \<Rightarrow> bool" where
  "fdc_op_transfers_data p \<longleftrightarrow> p = FDC_OP_READ_SECTOR \<or> p = FDC_OP_READ_SECTORS \<or> p = FDC_OP_WRITE_SECTOR \<or>
     p = FDC_OP_WRITE_SECTORS \<or> p = FDC_OP_READ_ADDRESS \<or> p = FDC_OP_READ_TRACK"

definition fdc_op_is_write :: "fdc_op_t \<Rightarrow> bool" where
  "fdc_op_is_write p \<longleftrightarrow> p = FDC_OP_WRITE_SECTOR \<or> p = FDC_OP_WRITE_SECTORS"

definition fdc_streamed :: "fdc_t \<Rightarrow> bool" where
  "fdc_streamed f \<longleftrightarrow> timing_mode f = FDC_TIMING_REAL \<and>
     (currentop f = FDC_OP_READ_SECTOR \<or> currentop f = FDC_OP_READ_SECTORS \<or>
      currentop f = FDC_OP_WRITE_SECTOR \<or> currentop f = FDC_OP_WRITE_SECTORS)"

section \<open>The byte stream\<close>

definition fdc_stream_drq :: "'u fdc_hooks \<Rightarrow> 'u fdc_state \<Rightarrow> 'u fdc_state" where
  "fdc_stream_drq hk s = raise_sig (set_drq hk) (upd_fdc (\<lambda>f. f\<lparr>drq_age := 0\<rparr>) (or_status FDC_ST_DRQ s))"

definition fdc_stream_lost :: "fdc_t \<Rightarrow> fdc_t" where
  "fdc_stream_lost f =
     f\<lparr>lost_data_count := (if fd_status f AND FDC_ST_LOST_DATA = 0 then lost_data_count f + 1 else lost_data_count f),
       fd_status := fd_status f OR FDC_ST_LOST_DATA\<rparr>"

definition fdc_stream_sector_done :: "'u fdc_hooks \<Rightarrow> 'u fdc_state \<Rightarrow> 'u fdc_state" where
  "fdc_stream_sector_done hk s0 =
     (let lost = fd_status (fdc s0) AND FDC_ST_LOST_DATA;
          s1 = drop_drq hk (upd_fdc (\<lambda>f. f\<lparr>stream := False, stream_crc := False\<rparr>) s0);
          finish = (\<lambda>st. upd_fdc (\<lambda>f. f\<lparr>di_status := uint st, currentop := FDC_OP_NONE, delayed_int := 1\<rparr>))
      in if currentop (fdc s1) = FDC_OP_READ_SECTORS \<or> currentop (fdc s1) = FDC_OP_WRITE_SECTORS then
           (let s2 = upd_fdc (\<lambda>f. f\<lparr>fd_sector := fd_sector f + 1, cur_offset := 0\<rparr>) s1;
                s3 = load_sector hk (fd_sector (fdc s2)) s2
            in if cur_sector_data (fdc s3) \<noteq> None then
                 upd_fdc (\<lambda>f. f\<lparr>delayed_drq := fdc_rot_wait (fd_sector f) f\<rparr>) s3
               else finish (sec_type (fdc s3) OR FDC_ST_NOT_FOUND OR lost) s3)
         else finish (sec_type (fdc s1) OR lost) s1)"

text \<open>\<open>data = cur_sector_data[cur_offset++]\<close>\<close>

definition next_byte :: "'u fdc_state \<Rightarrow> 'u fdc_state" where
  "next_byte s =
     (let (x, s1) = buf_get (cur_sector_data (fdc s)) (unat (cur_offset (fdc s))) s
      in upd_fdc (\<lambda>f. f\<lparr>fd_data := x, cur_offset := cur_offset f + 1\<rparr>) s1)"

text \<open>\<open>cur_sector_data[cur_offset++] = x; disk_modified = true\<close>\<close>

definition store_byte :: "u8 \<Rightarrow> 'u fdc_state \<Rightarrow> 'u fdc_state" where
  "store_byte x s =
     upd_fdc (\<lambda>f. f\<lparr>cur_offset := cur_offset f + 1, disk_modified := True\<rparr>)
       (buf_put (cur_sector_data (fdc s)) (unat (cur_offset (fdc s))) x s)"

definition fdc_stream_start :: "'u fdc_hooks \<Rightarrow> 'u fdc_state \<Rightarrow> 'u fdc_state" where
  "fdc_stream_start hk s0 =
     (let s = upd_fdc (\<lambda>f. f\<lparr>stream := True, stream_crc := False, cur_offset := 0\<rparr>) s0
      in if fdc_op_is_write (currentop (fdc s)) then
           upd_fdc (\<lambda>f. f\<lparr>stream_due := FDC_WRITE_GAP_BYTES * FDC_BYTE_CYCLES\<rparr>) (fdc_stream_drq hk s)
         else
           upd_fdc (\<lambda>f. f\<lparr>stream_due := FDC_BYTE_CYCLES\<rparr>)
             (fdc_stream_drq hk (next_byte (upd_fdc (\<lambda>f. f\<lparr>sec_type := 0\<rparr>) s))))"

definition stream_write_step :: "'u fdc_hooks \<Rightarrow> 'u fdc_state \<Rightarrow> 'u fdc_state" where
  "stream_write_step hk s =
     (let f = fdc s; served = (fd_status f AND FDC_ST_DRQ = 0) in
      if cur_offset f = 0 \<and> \<not> served then
        (let s1 = drop_drq hk (upd_fdc (\<lambda>f. (fdc_stream_lost f)\<lparr>cur_offset := cur_sector_len f\<rparr>) s);
             s2 = upd_fdc (\<lambda>f. f\<lparr>currentop := (if currentop f = FDC_OP_WRITE_SECTORS then FDC_OP_WRITE_SECTOR
                                               else currentop f)\<rparr>) s1
         in fdc_stream_sector_done hk s2)
      else
        let x = (if served then fd_data f else 0);
            s1 = (if served then s else upd_fdc fdc_stream_lost s);
            s2 = store_byte x s1
        in if cur_offset (fdc s2) < cur_sector_len (fdc s2) then
             upd_fdc (\<lambda>f. f\<lparr>stream_due := stream_due f + FDC_BYTE_CYCLES\<rparr>) (fdc_stream_drq hk s2)
           else
             upd_fdc (\<lambda>f. f\<lparr>stream_crc := True, stream_due := stream_due f + 2 * FDC_BYTE_CYCLES\<rparr>) (drop_drq hk s2))"

definition stream_read_step :: "'u fdc_hooks \<Rightarrow> 'u fdc_state \<Rightarrow> 'u fdc_state" where
  "stream_read_step hk s =
     (if cur_offset (fdc s) < cur_sector_len (fdc s) then
        (let s1 = (if fd_status (fdc s) AND FDC_ST_DRQ \<noteq> 0 then upd_fdc fdc_stream_lost s else s)
         in upd_fdc (\<lambda>f. f\<lparr>stream_due := stream_due f + FDC_BYTE_CYCLES\<rparr>) (fdc_stream_drq hk (next_byte s1)))
      else upd_fdc (\<lambda>f. f\<lparr>stream_crc := True, stream_due := stream_due f + FDC_BYTE_CYCLES\<rparr>) s)"

definition fdc_stream_step :: "'u fdc_hooks \<Rightarrow> 'u fdc_state \<Rightarrow> 'u fdc_state" where
  "fdc_stream_step hk s =
     (if stream_crc (fdc s) then
        fdc_stream_sector_done hk
          (if fd_status (fdc s) AND FDC_ST_DRQ \<noteq> 0 then upd_fdc fdc_stream_lost s else s)
      else if fdc_op_is_write (currentop (fdc s)) then stream_write_step hk s
      else stream_read_step hk s)"

text \<open>The \<open>while (stream && stream_due <= 0)\<close> loop: each step ends the stream or moves the due time on.\<close>

lemma upd_fdc_fdc [simp]: "fdc (upd_fdc f s) = f (fdc s)"
  by (simp add: upd_fdc_def)

lemma raise_sig_fdc [simp]: "fdc (raise_sig g s) = fdc s"
  by (simp add: raise_sig_def)

lemma status_ops_fdc [simp]:
  "fdc (or_status m s) = (fdc s)\<lparr>fd_status := fd_status (fdc s) OR m\<rparr>"
  "fdc (and_status m s) = (fdc s)\<lparr>fd_status := fd_status (fdc s) AND NOT m\<rparr>"
  "fdc (drop_drq hk s) = (fdc s)\<lparr>fd_status := fd_status (fdc s) AND NOT FDC_ST_DRQ\<rparr>"
  by (simp_all add: or_status_def and_status_def drop_drq_def)

lemma buf_fdc [simp]: "fdc (snd (buf_get p i s)) = fdc s" "fdc (buf_put p i x s) = fdc s"
  by (simp_all add: buf_get_def buf_put_def split: option.split prod.split)

lemma byte_fdc [simp]:
  "fdc (next_byte s) = (fdc s)\<lparr>fd_data := fst (buf_get (cur_sector_data (fdc s)) (unat (cur_offset (fdc s))) s),
     cur_offset := cur_offset (fdc s) + 1\<rparr>"
  "fdc (store_byte x s) = (fdc s)\<lparr>cur_offset := cur_offset (fdc s) + 1, disk_modified := True\<rparr>"
  by (simp_all add: next_byte_def store_byte_def split_beta)

lemma drq_fdc [simp]: "fdc (fdc_stream_drq hk s) = (fdc s)\<lparr>fd_status := fd_status (fdc s) OR FDC_ST_DRQ, drq_age := 0\<rparr>"
  by (simp add: fdc_stream_drq_def)

lemma web_put_fdc [simp]: "fdc (web_put raw s) = fdc s"
  by (simp add: web_put_def Let_def split: option.split)

lemma got_fdc: "fdc (case got of None \<Rightarrow> t | Some raw \<Rightarrow> web_put raw t) = fdc t"
  by (simp split: option.split)

lemma web_fdc: "\<exists>l. fdc (fdc_web_ensure_track hk sd tr s) = (fdc s)\<lparr>web_track_loaded := l\<rparr>"
proof -
  have same: "\<exists>l. fdc s = (fdc s)\<lparr>web_track_loaded := l\<rparr>"
    by (rule exI [of _ "web_track_loaded (fdc s)"]) simp
  show ?thesis
    using same by (auto simp: fdc_web_ensure_track_def Let_def split_beta got_fdc)
qed

definition web_cache :: "'u fdc_hooks \<Rightarrow> u8 \<Rightarrow> 'u fdc_state \<Rightarrow> bool list" where
  "web_cache hk i s = web_track_loaded (fdc (snd (fdc_find_sector hk i s)))"

lemma find_fdc [simp]: "fdc (snd (fdc_find_sector hk i s)) = (fdc s)\<lparr>web_track_loaded := web_cache hk i s\<rparr>"
proof -
  have "\<exists>l. fdc s = (fdc s)\<lparr>web_track_loaded := l\<rparr>"
    by (rule exI [of _ "web_track_loaded (fdc s)"]) simp
  then have "\<exists>l. fdc (snd (fdc_find_sector hk i s)) = (fdc s)\<lparr>web_track_loaded := l\<rparr>"
    using web_fdc [of hk "fd_side (fdc s)" "c_track (fdc s)" s]
    by (simp add: fdc_find_sector_def Let_def split: option.split)
  then show ?thesis by (auto simp: web_cache_def)
qed

lemma load_sector_fdc [simp]:
  "fdc (load_sector hk i s) =
     (fdc s)\<lparr>web_track_loaded := web_cache hk i s, cur_sector_data := fst (fdc_find_sector hk i s)\<rparr>"
  by (simp add: load_sector_def split_beta)

lemma done_stops [simp]: "stream (fdc (fdc_stream_sector_done hk s)) = False"
  by (simp add: fdc_stream_sector_done_def Let_def)

lemma lost_stream [simp]: "stream (fdc_stream_lost f) = stream f" "stream_due (fdc_stream_lost f) = stream_due f"
  by (simp_all add: fdc_stream_lost_def)

lemma stream_step_moves:
  "stream (fdc (fdc_stream_step hk s)) \<Longrightarrow> stream_due (fdc (fdc_stream_step hk s)) \<ge> stream_due (fdc s) + 32"
  by (auto simp: fdc_stream_step_def stream_write_step_def stream_read_step_def Let_def split: if_splits)

function stream_loop :: "'u fdc_hooks \<Rightarrow> 'u fdc_state \<Rightarrow> 'u fdc_state" where
  "stream_loop hk s =
     (if stream (fdc s) \<and> stream_due (fdc s) \<le> 0 then stream_loop hk (fdc_stream_step hk s) else s)"
  by auto

termination
proof (relation "measure (\<lambda>(hk, s). if stream (fdc s) then nat (33 - stream_due (fdc s)) else 0)", simp, goal_cases)
  case (1 hk s)
  then show ?case using stream_step_moves [of hk s] by auto
qed

declare stream_loop.simps [simp del]

section \<open>Time\<close>

text \<open>The two delays of \<open>fdc_ticktock\<close>.\<close>

definition fire_int :: "fdc_t \<Rightarrow> fdc_t" where
  "fire_int f =
     (if di_status f \<noteq> - 1 then f\<lparr>delayed_int := 0, fd_status := of_int (di_status f), di_status := - 1\<rparr>
      else f\<lparr>delayed_int := 0\<rparr>)"

definition fire_drq :: "fdc_t \<Rightarrow> fdc_t" where
  "fire_drq f =
     (if dd_status f \<noteq> - 1 then f\<lparr>delayed_drq := 0, fd_status := of_int (dd_status f), dd_status := - 1\<rparr>
      else f\<lparr>delayed_drq := 0\<rparr>)"

definition tick_int :: "'u fdc_hooks \<Rightarrow> nat \<Rightarrow> 'u fdc_state \<Rightarrow> 'u fdc_state" where
  "tick_int hk n s =
     (if delayed_int (fdc s) > 0 then
        (let s1 = upd_fdc (\<lambda>f. f\<lparr>delayed_int := delayed_int f - int n\<rparr>) s
         in if delayed_int (fdc s1) \<le> 0 then
              raise_sig (set_intrq hk) (upd_fdc fire_int s1)
            else s1)
      else s)"

definition tick_drq :: "'u fdc_hooks \<Rightarrow> nat \<Rightarrow> 'u fdc_state \<Rightarrow> 'u fdc_state" where
  "tick_drq hk n s =
     (if delayed_drq (fdc s) > 0 then
        (let s1 = upd_fdc (\<lambda>f. f\<lparr>delayed_drq := delayed_drq f - int n\<rparr>) s
         in if delayed_drq (fdc s1) \<le> 0 then
              (let s2 = upd_fdc fire_drq s1
               in if fdc_streamed (fdc s2) \<and> cur_sector_data (fdc s2) \<noteq> None then fdc_stream_start hk s2
                  else fdc_stream_drq hk s2)
            else s1)
      else s)"

text \<open>The LOST DATA watchdog of the transfers paced by the CPU.\<close>

definition tick_lost :: "nat \<Rightarrow> fdc_t \<Rightarrow> fdc_t" where
  "tick_lost n f =
     (if fd_status f AND FDC_ST_DRQ \<noteq> 0 \<and> fdc_op_transfers_data (currentop f) then
        (let f1 = f\<lparr>drq_age := drq_age f + int n\<rparr>
         in if drq_age f1 > FDC_BYTE_CYCLES \<and> fd_status f1 AND FDC_ST_LOST_DATA = 0
            then f1\<lparr>fd_status := fd_status f1 OR FDC_ST_LOST_DATA, lost_data_count := lost_data_count f1 + 1\<rparr>
            else f1)
      else f\<lparr>drq_age := 0\<rparr>)"

definition fdc_ticktock :: "'u fdc_hooks \<Rightarrow> nat \<Rightarrow> 'u fdc_state \<Rightarrow> 'u fdc_state" where
  "fdc_ticktock hk n s0 =
     (let s1 = upd_fdc (\<lambda>f. f\<lparr>rot_pos := (rot_pos f + of_nat n) mod FDC_REV_CYCLES\<rparr>) s0;
          s2 = tick_drq hk n (tick_int hk n s1)
      in if stream (fdc s2) then
           (if \<not> fdc_streamed (fdc s2) then upd_fdc (\<lambda>f. tick_lost n (f\<lparr>stream := False\<rparr>)) s2
            else stream_loop hk (upd_fdc (\<lambda>f. f\<lparr>stream_due := stream_due f - int n\<rparr>) s2))
         else upd_fdc (tick_lost n) s2)"

section \<open>Register reads\<close>

definition read_status :: "fdc_t \<Rightarrow> u8" where
  "read_status f =
     (if timing_mode f = FDC_TIMING_REAL \<and> status_type1 f \<and> fd_status f AND FDC_ST_BUSY = 0 then
        (let st = fd_status f AND NOT (FDC_STI_PULSE OR FDC_STI_TRK0);
             st1 = (if disk_data f \<noteq> None \<and> rot_pos f < FDC_INDEX_PULSE_CYCLES then st OR FDC_STI_PULSE else st);
             st2 = (if c_track f = 0 then st1 OR FDC_STI_TRK0 else st1)
         in if write_protected f then st2 OR FDC_ST_WRITE_PROT else st2)
      else fd_status f)"

text \<open>The end of the sector of a transfer paced by the CPU: the next one, or the end of the command.\<close>

definition next_sector :: "'u fdc_hooks \<Rightarrow> fdc_op_t \<Rightarrow> 'u fdc_state \<Rightarrow> 'u fdc_state" where
  "next_sector hk multi s =
     (if cur_offset (fdc s) \<ge> cur_sector_len (fdc s) then
        (if currentop (fdc s) = multi then
           (let s1 = upd_fdc (\<lambda>f. f\<lparr>fd_sector := fd_sector f + 1, cur_offset := 0\<rparr>) s;
                s2 = load_sector hk (fd_sector (fdc s1)) s1
            in if cur_sector_data (fdc s2) = None then
                 drop_drq hk (upd_fdc (\<lambda>f. f\<lparr>delayed_int := 20, di_status := uint (sec_type f OR FDC_ST_NOT_FOUND),
                                           currentop := FDC_OP_NONE\<rparr>) s2)
               else upd_fdc (\<lambda>f. f\<lparr>delayed_drq := (if timing_mode f = FDC_TIMING_REAL
                                                     then fdc_rot_wait (fd_sector f) f else 180)\<rparr>) s2)
         else
           drop_drq hk (upd_fdc (\<lambda>f. f\<lparr>delayed_int := 32, di_status := uint (sec_type f),
                                       currentop := FDC_OP_NONE\<rparr>) s))
      else upd_fdc (\<lambda>f. f\<lparr>delayed_drq := 32\<rparr>) s)"

text \<open>The transfer of a sector operation without a sector.\<close>

definition no_sector :: "'u fdc_hooks \<Rightarrow> 'u fdc_state \<Rightarrow> 'u fdc_state" where
  "no_sector hk s =
     upd_fdc (\<lambda>f. f\<lparr>currentop := FDC_OP_NONE\<rparr>)
       (raise_sig (clr_drq hk) (or_status FDC_ST_NOT_FOUND (and_status FDC_ST_DRQ s)))"

definition read_sector_data :: "'u fdc_hooks \<Rightarrow> 'u fdc_state \<Rightarrow> 'u fdc_state" where
  "read_sector_data hk s =
     (if cur_sector_data (fdc s) = None then no_sector hk s
      else if stream (fdc s) then drop_drq hk s
      else
        let s1 = (if cur_offset (fdc s) = 0 then upd_fdc (\<lambda>f. f\<lparr>sec_type := 0\<rparr>) s else s)
        in next_sector hk FDC_OP_READ_SECTORS (drop_drq hk (next_byte s1)))"

definition read_address_data :: "'u fdc_hooks \<Rightarrow> 'u fdc_state \<Rightarrow> 'u fdc_state" where
  "read_address_data hk s =
     (let f = fdc s;
          field = [c_track f, fd_side f, fd_sector f, 1, 0, 0];
          s1 = (if cur_sector_data f = None then s
                else
                  let i = unat (cur_offset f);
                      s0 = (if cur_offset f = 0 then upd_fdc (\<lambda>f. f\<lparr>fd_sector := field ! 0\<rparr>) s else s);
                      s' = (if i < 6 then s0 else s0\<lparr>oob := True\<rparr>)
                  in upd_fdc (\<lambda>f. f\<lparr>fd_data := (if i < 6 then field ! i else 0), cur_offset := cur_offset f + 1\<rparr>) s');
          s2 = drop_drq hk s1
      in if cur_offset (fdc s2) \<ge> 6 then
           upd_fdc (\<lambda>f. f\<lparr>delayed_int := 20, di_status := 0, currentop := FDC_OP_NONE\<rparr>) s2
         else upd_fdc (\<lambda>f. f\<lparr>delayed_drq := 32\<rparr>) s2)"

definition fdc_read :: "'u fdc_hooks \<Rightarrow> u8 \<Rightarrow> 'u fdc_state \<Rightarrow> u8 \<times> 'u fdc_state" where
  "fdc_read hk reg s =
     (let r = reg AND 3 in
      if r = 0 then (let s1 = raise_sig (clr_intrq hk) s in (read_status (fdc s1), s1))
      else if r = 1 then (fd_track (fdc s), s)
      else if r = 2 then (fd_sector (fdc s), s)
      else
        let s1 = (if currentop (fdc s) = FDC_OP_READ_SECTOR \<or> currentop (fdc s) = FDC_OP_READ_SECTORS
                  then read_sector_data hk s
                  else if currentop (fdc s) = FDC_OP_READ_ADDRESS then read_address_data hk s
                  else s)
        in (fd_data (fdc s1), s1))"

section \<open>Commands\<close>

text \<open>The head of the four Type I commands.\<close>

definition type1 :: "u8 \<Rightarrow> 'u fdc_state \<Rightarrow> 'u fdc_state" where
  "type1 x s = upd_fdc (\<lambda>f. f\<lparr>fd_status := (if x AND 0x08 \<noteq> 0 then FDC_ST_BUSY OR FDC_STI_HEADL else FDC_ST_BUSY),
                              status_type1 := True\<rparr>) s"

definition end_op :: "'u fdc_state \<Rightarrow> 'u fdc_state" where
  "end_op s = upd_fdc (\<lambda>f. f\<lparr>currentop := FDC_OP_NONE\<rparr>) s"

definition cmd_restore_seek :: "'u fdc_hooks \<Rightarrow> u8 \<Rightarrow> 'u fdc_state \<Rightarrow> 'u fdc_state" where
  "cmd_restore_seek hk x s =
     (let s1 = type1 x s
      in end_op (if x AND 0x10 = 0 then fdc_seek_track hk 0 x True s1
                 else fdc_seek_track hk (fd_data (fdc s1)) x True s1))"

definition cmd_step :: "'u fdc_hooks \<Rightarrow> u8 \<Rightarrow> 'u fdc_state \<Rightarrow> 'u fdc_state" where
  "cmd_step hk x s =
     (let s1 = type1 x s; ct = c_track (fdc s1); upd = (x AND 0x10 \<noteq> 0)
      in end_op (if fd_direction (fdc s1) = 0 then fdc_seek_track hk (ct + 1) x upd s1
                 else fdc_seek_track hk (if ct > 0 then ct - 1 else 0) x upd s1))"

definition cmd_step_in :: "'u fdc_hooks \<Rightarrow> u8 \<Rightarrow> 'u fdc_state \<Rightarrow> 'u fdc_state" where
  "cmd_step_in hk x s =
     (let s1 = upd_fdc (\<lambda>f. f\<lparr>fd_direction := 0\<rparr>) (type1 x s)
      in end_op (fdc_seek_track hk (c_track (fdc s1) + 1) x (x AND 0x10 \<noteq> 0) s1))"

definition cmd_step_out :: "'u fdc_hooks \<Rightarrow> u8 \<Rightarrow> 'u fdc_state \<Rightarrow> 'u fdc_state" where
  "cmd_step_out hk x s =
     (let s1 = upd_fdc (\<lambda>f. f\<lparr>fd_direction := 1\<rparr>) (type1 x s)
      in end_op (if c_track (fdc s1) > 0 then fdc_seek_track hk (c_track (fdc s1) - 1) x (x AND 0x10 \<noteq> 0) s1 else s1))"

text \<open>The sector search shared by the Type II commands; \<open>fast\<close> is the first DRQ delay of the fast profile.\<close>

definition start_sector :: "'u fdc_hooks \<Rightarrow> u8 \<Rightarrow> int \<Rightarrow> fdc_op_t \<Rightarrow> fdc_op_t \<Rightarrow> 'u fdc_state \<Rightarrow> 'u fdc_state" where
  "start_sector hk x fast single multi s =
     (let s1 = load_sector hk (fd_sector (fdc s)) (upd_fdc (\<lambda>f. f\<lparr>cur_offset := 0\<rparr>) s)
      in if cur_sector_data (fdc s1) = None then fdc_record_not_found hk s1
         else upd_fdc (\<lambda>f. f\<lparr>cur_sector_len := 256, fd_status := FDC_ST_BUSY OR FDC_ST_NOT_READY,
                delayed_drq := (if timing_mode f = FDC_TIMING_REAL
                                then fdc_rot_wait (fd_sector f) f + (if x AND 0x04 \<noteq> 0 then FDC_SETTLE_CYCLES else 0)
                                else fast),
                currentop := (if x AND 0x10 \<noteq> 0 then multi else single)\<rparr>) s1)"

definition cmd_read_sector :: "'u fdc_hooks \<Rightarrow> u8 \<Rightarrow> 'u fdc_state \<Rightarrow> 'u fdc_state" where
  "cmd_read_sector hk x s0 =
     (let s = upd_fdc (\<lambda>f. f\<lparr>status_type1 := False\<rparr>) s0
      in case fdc_not_ready hk s of
           Some s1 \<Rightarrow> s1
         | None \<Rightarrow> start_sector hk x 60 FDC_OP_READ_SECTOR FDC_OP_READ_SECTORS s)"

definition cmd_write_sector :: "'u fdc_hooks \<Rightarrow> u8 \<Rightarrow> 'u fdc_state \<Rightarrow> 'u fdc_state" where
  "cmd_write_sector hk x s0 =
     (let s = upd_fdc (\<lambda>f. f\<lparr>status_type1 := False\<rparr>) s0
      in case fdc_not_ready hk s of
           Some s1 \<Rightarrow> s1
         | None \<Rightarrow>
             (case fdc_write_protected hk s of
                Some s1 \<Rightarrow> s1
              | None \<Rightarrow> start_sector hk x 500 FDC_OP_WRITE_SECTOR FDC_OP_WRITE_SECTORS s))"

definition cmd_read_address :: "'u fdc_hooks \<Rightarrow> 'u fdc_state \<Rightarrow> 'u fdc_state" where
  "cmd_read_address hk s0 =
     (let s = upd_fdc (\<lambda>f. f\<lparr>status_type1 := False\<rparr>) s0
      in case fdc_not_ready hk s of
           Some s1 \<Rightarrow> s1
         | None \<Rightarrow>
             (let s1 = load_sector hk 1 (upd_fdc (\<lambda>f. f\<lparr>cur_offset := 0\<rparr>) s)
              in if cur_sector_data (fdc s1) = None then fdc_record_not_found hk s1
                 else if timing_mode (fdc s1) = FDC_TIMING_REAL then
                   upd_fdc (\<lambda>f. f\<lparr>fd_status := FDC_ST_NOT_READY OR FDC_ST_BUSY, delayed_drq := fdc_rot_wait 1 f,
                                  currentop := FDC_OP_READ_ADDRESS\<rparr>) s1
                 else
                   upd_fdc (\<lambda>f. f\<lparr>currentop := FDC_OP_READ_ADDRESS\<rparr>)
                     (raise_sig (set_drq hk)
                       (upd_fdc (\<lambda>f. f\<lparr>fd_status := FDC_ST_NOT_READY OR FDC_ST_BUSY OR FDC_ST_DRQ\<rparr>) s1))))"

definition cmd_force_interrupt :: "'u fdc_hooks \<Rightarrow> u8 \<Rightarrow> 'u fdc_state \<Rightarrow> 'u fdc_state" where
  "cmd_force_interrupt hk x s =
     (let s1 = upd_fdc (\<lambda>f. f\<lparr>delayed_int := 0, delayed_drq := 0, currentop := FDC_OP_NONE\<rparr>)
                 (raise_sig (clr_drq hk) (upd_fdc (\<lambda>f. f\<lparr>fd_status := 0, status_type1 := True\<rparr>) s))
      in if x AND 0x08 \<noteq> 0 then raise_sig (set_intrq hk) s1 else s1)"

definition cmd_track :: "'u fdc_hooks \<Rightarrow> u8 \<Rightarrow> 'u fdc_state \<Rightarrow> 'u fdc_state" where
  "cmd_track hk x s0 =
     (let s = upd_fdc (\<lambda>f. f\<lparr>status_type1 := False\<rparr>) s0
      in case fdc_not_ready hk s of
           Some s1 \<Rightarrow> s1
         | None \<Rightarrow>
             if x AND 0x10 = 0 then
               upd_fdc (\<lambda>f. f\<lparr>fd_status := FDC_ST_BUSY OR FDC_ST_NOT_READY, delayed_drq := 60,
                              currentop := FDC_OP_READ_TRACK\<rparr>) s
             else
               (case fdc_write_protected hk s of
                  Some s1 \<Rightarrow> s1
                | None \<Rightarrow>
                    upd_fdc (\<lambda>f. f\<lparr>delayed_int := 0, wt_state := 0, wt_field_idx := 0, wt_data_len := 0,
                                   wt_sectors_done := 0, cur_sector_data := None, currentop := FDC_OP_WRITE_TRACK\<rparr>)
                      (raise_sig (clr_intrq hk) (raise_sig (clr_drq hk)
                        (upd_fdc (\<lambda>f. f\<lparr>fd_status := FDC_ST_NOT_READY OR FDC_ST_BUSY,
                                        delayed_drq := (if timing_mode f = FDC_TIMING_REAL
                                                        then uint (FDC_REV_CYCLES - rot_pos f) else 500)\<rparr>) s)))))"

definition fdc_command :: "'u fdc_hooks \<Rightarrow> u8 \<Rightarrow> 'u fdc_state \<Rightarrow> 'u fdc_state" where
  "fdc_command hk x s0 =
     (let s1 = raise_sig (clr_intrq hk) s0;
          s = (if x AND 0xF0 \<noteq> 0xD0 then upd_fdc (\<lambda>f. f\<lparr>stream := False, stream_crc := False\<rparr>) s1 else s1);
          c = x AND 0xE0
      in if c = 0x00 then cmd_restore_seek hk x s
         else if c = 0x20 then cmd_step hk x s
         else if c = 0x40 then cmd_step_in hk x s
         else if c = 0x60 then cmd_step_out hk x s
         else if c = 0x80 then cmd_read_sector hk x s
         else if c = 0xA0 then cmd_write_sector hk x s
         else if c = 0xC0 then (if x AND 0x10 = 0 then cmd_read_address hk s else cmd_force_interrupt hk x s)
         else cmd_track hk x s)"

section \<open>Data writes\<close>

definition write_sector_data :: "'u fdc_hooks \<Rightarrow> u8 \<Rightarrow> 'u fdc_state \<Rightarrow> 'u fdc_state" where
  "write_sector_data hk x s =
     (if cur_sector_data (fdc s) = None then no_sector hk s
      else if stream (fdc s) then drop_drq hk s
      else next_sector hk FDC_OP_WRITE_SECTORS (drop_drq hk (store_byte x s)))"

text \<open>The parser of the format stream.\<close>

definition wt_mark :: "'u fdc_hooks \<Rightarrow> u8 \<Rightarrow> 'u fdc_state \<Rightarrow> 'u fdc_state" where
  "wt_mark hk x s =
     (if x = 0xFE then upd_fdc (\<lambda>f. f\<lparr>wt_state := 1, wt_field_idx := 0\<rparr>) s
      else if x = 0xFB \<or> x = 0xF8 then
        upd_fdc (\<lambda>f. let n = push_bit (unat (wt_id f ! 3 AND 3)) 128 :: u16
                     in f\<lparr>wt_data_len := (if n = 0 \<or> n > 1024 then 256 else n), cur_offset := 0, wt_state := 2\<rparr>)
          (load_sector hk (wt_id (fdc s) ! 2) s)
      else s)"

definition wt_id_byte :: "u8 \<Rightarrow> 'u fdc_state \<Rightarrow> 'u fdc_state" where
  "wt_id_byte x s =
     (let i = unat (wt_field_idx (fdc s)); s1 = (if i < 4 then s else s\<lparr>oob := True\<rparr>)
      in upd_fdc (\<lambda>f. let f1 = f\<lparr>wt_id := (wt_id f)[i := x], wt_field_idx := wt_field_idx f + 1\<rparr>
                      in if wt_field_idx f1 \<ge> 4 then f1\<lparr>wt_state := 0\<rparr> else f1) s1)"

definition wt_data_byte :: "u8 \<Rightarrow> 'u fdc_state \<Rightarrow> 'u fdc_state" where
  "wt_data_byte x s =
     (let f = fdc s;
          s1 = (if cur_sector_data f \<noteq> None \<and> cur_offset f < wt_data_len f
                then buf_put (cur_sector_data f) (unat (cur_offset f)) x s else s)
      in upd_fdc (\<lambda>f. let f1 = f\<lparr>cur_offset := cur_offset f + 1\<rparr>
                      in if cur_offset f1 \<ge> wt_data_len f1
                         then f1\<lparr>wt_state := 0, wt_sectors_done := (if wt_sectors_done f1 < 0xFF
                                then wt_sectors_done f1 + 1 else wt_sectors_done f1)\<rparr>
                         else f1) s1)"

definition write_track_data :: "'u fdc_hooks \<Rightarrow> u8 \<Rightarrow> 'u fdc_state \<Rightarrow> 'u fdc_state" where
  "write_track_data hk x s0 =
     (let s = upd_fdc (\<lambda>f. f\<lparr>disk_modified := True\<rparr>) s0;
          w = wt_state (fdc s);
          s1 = (if w = 0 then wt_mark hk x s else if w = 1 then wt_id_byte x s
                else if w = 2 then wt_data_byte x s else s)
      in upd_fdc (\<lambda>f. if sectors_per_track f > 0 \<and> wt_sectors_done f \<ge> sectors_per_track f
                      then f\<lparr>delayed_int := 32, di_status := 0, currentop := FDC_OP_NONE\<rparr>
                      else f\<lparr>delayed_drq := 32\<rparr>) (drop_drq hk s1))"

definition fdc_write :: "'u fdc_hooks \<Rightarrow> u8 \<Rightarrow> u8 \<Rightarrow> 'u fdc_state \<Rightarrow> 'u fdc_state" where
  "fdc_write hk reg x s0 =
     (let r = reg AND 3 in
      if r = 0 then fdc_command hk x s0
      else if r = 1 then upd_fdc (\<lambda>f. f\<lparr>fd_track := x\<rparr>) s0
      else if r = 2 then upd_fdc (\<lambda>f. f\<lparr>fd_sector := x\<rparr>) s0
      else
        let s = upd_fdc (\<lambda>f. f\<lparr>fd_data := x\<rparr>) s0
        in if currentop (fdc s) = FDC_OP_WRITE_SECTOR \<or> currentop (fdc s) = FDC_OP_WRITE_SECTORS
           then write_sector_data hk x s
           else if currentop (fdc s) = FDC_OP_WRITE_TRACK then write_track_data hk x s
           else s)"

section \<open>Resuming a saved state\<close>

definition fdc_state_resume :: "'u fdc_hooks \<Rightarrow> 'u fdc_state \<Rightarrow> 'u fdc_state" where
  "fdc_state_resume hk s =
     (let none = upd_fdc (\<lambda>f. f\<lparr>cur_sector_data := None\<rparr>) s in
      case currentop (fdc s) of
        FDC_OP_READ_SECTOR \<Rightarrow> load_sector hk (fd_sector (fdc s)) s
      | FDC_OP_READ_SECTORS \<Rightarrow> load_sector hk (fd_sector (fdc s)) s
      | FDC_OP_WRITE_SECTOR \<Rightarrow> load_sector hk (fd_sector (fdc s)) s
      | FDC_OP_WRITE_SECTORS \<Rightarrow> load_sector hk (fd_sector (fdc s)) s
      | FDC_OP_READ_ADDRESS \<Rightarrow> load_sector hk 1 s
      | FDC_OP_WRITE_TRACK \<Rightarrow> (if wt_state (fdc s) = 2 then load_sector hk (wt_id (fdc s) ! 2) s else none)
      | _ \<Rightarrow> none)"

end
