(* ===== verification/Fdc_Effects.thy ===== *)
theory Fdc_Effects
  imports Fdc
begin

text \<open>
  What the controller does to the card around it.  \<open>kept hk s t\<close> says that from \<open>s\<close> to \<open>t\<close> the card's
  own state went through the signal callbacks and the disk server only, that the media of the drive
  and the side are the same, and that no image changed without \<open>disk_modified\<close> being set.  Every
  operation of the controller keeps to it, so a card's invariant needs its four callbacks only.
\<close>

section \<open>The relation\<close>

text \<open>What the card sets in the controller and the controller never changes.\<close>

definition media :: "fdc_t \<Rightarrow> (nat option \<times> u32 \<times> u8 \<times> u8) \<times> fdc_bad_map_t \<times> bool \<times> u8 \<times> fdc_timing \<times> bool" where
  "media f = ((disk_data f, disk_size f, tracks f, sectors_per_track f), bad f, write_protected f, fd_side f,
     timing_mode f, web f)"

text \<open>A law of the card's state that the callbacks respect.\<close>

definition signal_law :: "'u fdc_hooks \<Rightarrow> ('u \<Rightarrow> bool) \<Rightarrow> bool" where
  "signal_law hk P \<longleftrightarrow> (\<forall>u. P u \<longrightarrow> P (set_drq hk u) \<and> P (clr_drq hk u) \<and> P (set_intrq hk u) \<and> P (clr_intrq hk u) \<and>
     (\<forall>url off. P (snd (http_get hk url off u))))"

definition kept :: "'u fdc_hooks \<Rightarrow> 'u fdc_state \<Rightarrow> 'u fdc_state \<Rightarrow> bool" where
  "kept hk s t \<longleftrightarrow> media (fdc t) = media (fdc s) \<and> (disk_modified (fdc s) \<longrightarrow> disk_modified (fdc t)) \<and>
     (\<not> web (fdc s) \<longrightarrow> \<not> disk_modified (fdc t) \<longrightarrow> bufs t = bufs s) \<and>
     (\<forall>P. signal_law hk P \<longrightarrow> P (fuser s) \<longrightarrow> P (fuser t))"

lemma kept_refl [simp]: "kept hk s s"
  by (simp add: kept_def)

lemma kept_trans: "kept hk s t \<Longrightarrow> kept hk t u \<Longrightarrow> kept hk s u"
  by (auto simp: kept_def media_def)

section \<open>The primitives\<close>

named_theorems kept

lemma kept_upd [kept]:
  assumes "\<And>f. media (g f) = media f \<and> (disk_modified f \<longrightarrow> disk_modified (g f))" "kept hk s t"
  shows "kept hk s (upd_fdc g t)"
proof (rule kept_trans [OF assms(2)])
  show "kept hk t (upd_fdc g t)" using assms(1) by (auto simp: kept_def upd_fdc_def)
qed

lemma kept_sig [kept]:
  "kept hk s t \<Longrightarrow> kept hk s (raise_sig (set_drq hk) t)" "kept hk s t \<Longrightarrow> kept hk s (raise_sig (clr_drq hk) t)"
  "kept hk s t \<Longrightarrow> kept hk s (raise_sig (set_intrq hk) t)" "kept hk s t \<Longrightarrow> kept hk s (raise_sig (clr_intrq hk) t)"
  by (auto simp: kept_def raise_sig_def signal_law_def)

lemma kept_status [kept]:
  "kept hk s t \<Longrightarrow> kept hk s (or_status m t)" "kept hk s t \<Longrightarrow> kept hk s (and_status m t)"
  "kept hk s t \<Longrightarrow> kept hk s (drop_drq hk t)" "kept hk s t \<Longrightarrow> kept hk s (fdc_stream_drq hk t)"
  by (auto simp: or_status_def and_status_def drop_drq_def fdc_stream_drq_def media_def intro!: kept)

lemma kept_oob [kept]: "kept hk s t \<Longrightarrow> kept hk s (t\<lparr>oob := x\<rparr>)"
  by (auto simp: kept_def)

lemma kept_get [kept]: "kept hk s t \<Longrightarrow> kept hk s (snd (buf_get p i t))"
  by (auto simp: buf_get_def intro!: kept split: option.split)

lemma kept_modified:
  "kept hk s t \<Longrightarrow> disk_modified (fdc u) \<Longrightarrow> media (fdc u) = media (fdc t) \<Longrightarrow> fuser u = fuser t \<Longrightarrow> kept hk s u"
  by (auto simp: kept_def)

lemma put_fuser [simp]: "fuser (buf_put p i x s) = fuser s"
  by (auto simp: buf_put_def split: option.split)

lemma upd_fuser [simp]: "fuser (upd_fdc g s) = fuser s"
  by (simp add: upd_fdc_def)

lemma kept_bytes [kept]:
  "kept hk s t \<Longrightarrow> kept hk s (next_byte t)" "kept hk s t \<Longrightarrow> kept hk s (store_byte x t)"
proof -
  show "kept hk s t \<Longrightarrow> kept hk s (next_byte t)"
    by (auto simp: next_byte_def split_beta media_def intro!: kept)
  show "kept hk s t \<Longrightarrow> kept hk s (store_byte x t)"
    by (rule kept_modified) (simp_all add: store_byte_def media_def)
qed

section \<open>The operations\<close>

lemma kept_web [kept]: "kept hk s t \<Longrightarrow> kept hk s (fdc_web_ensure_track hk sd tr t)"
proof (rule kept_trans)
  have f: "fuser (web_put raw u) = fuser u" for raw and u :: "'a fdc_state"
    by (simp add: web_put_def Let_def split: option.split)
  show "kept hk t (fdc_web_ensure_track hk sd tr t)"
  proof (cases "web (fdc t)")
    case True
    then show ?thesis
      by (auto simp: fdc_web_ensure_track_def Let_def split_beta kept_def media_def signal_law_def f split: option.split)
  qed (simp add: fdc_web_ensure_track_def)
qed

lemma kept_find [kept]: "kept hk s t \<Longrightarrow> kept hk s (snd (fdc_find_sector hk i t))"
  by (auto simp: fdc_find_sector_def Let_def intro!: kept split: option.split)

lemma kept_load [kept]: "kept hk s t \<Longrightarrow> kept hk s (load_sector hk i t)"
  by (auto simp: load_sector_def split_beta media_def intro!: kept)


lemma kept_if [kept]: "kept hk s t \<Longrightarrow> kept hk s u \<Longrightarrow> kept hk s (if b then t else u)"
  by simp

lemma media_helpers [simp]:
  "media (fdc_stream_lost f) = media f" "disk_modified (fdc_stream_lost f) = disk_modified f"
  "media (fire_int f) = media f" "disk_modified (fire_int f) = disk_modified f"
  "media (fire_drq f) = media f" "disk_modified (fire_drq f) = disk_modified f"
  "media (tick_lost n f) = media f" "disk_modified (tick_lost n f) = disk_modified f"
  by (simp_all add: media_def fdc_stream_lost_def fire_int_def fire_drq_def tick_lost_def Let_def)

lemma media_upds [simp]:
  "media (f\<lparr>fd_status := a\<rparr>) = media f" "media (f\<lparr>fd_data := a\<rparr>) = media f" "media (f\<lparr>fd_sector := a\<rparr>) = media f"
  "media (f\<lparr>fd_track := a\<rparr>) = media f" "media (f\<lparr>fd_direction := a\<rparr>) = media f" "media (f\<lparr>c_track := a\<rparr>) = media f"
  "media (f\<lparr>c_sector := a\<rparr>) = media f" "media (f\<lparr>currentop := b\<rparr>) = media f" "media (f\<lparr>cur_sector_data := c\<rparr>) = media f"
  "media (f\<lparr>cur_sector_len := d\<rparr>) = media f" "media (f\<lparr>cur_offset := d\<rparr>) = media f" "media (f\<lparr>sec_type := a\<rparr>) = media f"
  "media (f\<lparr>wt_state := a\<rparr>) = media f" "media (f\<lparr>wt_field_idx := a\<rparr>) = media f" "media (f\<lparr>wt_id := e\<rparr>) = media f"
  "media (f\<lparr>wt_data_len := d\<rparr>) = media f" "media (f\<lparr>wt_sectors_done := a\<rparr>) = media f" "media (f\<lparr>delayed_drq := g\<rparr>) = media f"
  "media (f\<lparr>delayed_int := g\<rparr>) = media f" "media (f\<lparr>di_status := g\<rparr>) = media f" "media (f\<lparr>dd_status := g\<rparr>) = media f"
  "media (f\<lparr>rot_pos := h\<rparr>) = media f" "media (f\<lparr>drq_age := g\<rparr>) = media f" "media (f\<lparr>stream := i\<rparr>) = media f"
  "media (f\<lparr>stream_crc := i\<rparr>) = media f" "media (f\<lparr>stream_due := g\<rparr>) = media f" "media (f\<lparr>status_type1 := i\<rparr>) = media f"
  "media (f\<lparr>web_track_loaded := l\<rparr>) = media f" "media (f\<lparr>disk_modified := i\<rparr>) = media f"
  by (simp_all add: media_def)

lemma kept_done [kept]: "kept hk s t \<Longrightarrow> kept hk s (fdc_stream_sector_done hk t)"
  unfolding fdc_stream_sector_done_def Let_def by (rule kept | assumption | simp)+

lemma kept_stream_step [kept]: "kept hk s t \<Longrightarrow> kept hk s (fdc_stream_step hk t)"
  unfolding fdc_stream_step_def stream_write_step_def stream_read_step_def Let_def by (rule kept | assumption | simp)+

lemma kept_loop [kept]: "kept hk s t \<Longrightarrow> kept hk s (stream_loop hk t)"
proof (induction hk t rule: stream_loop.induct)
  case (1 hk t)
  then show ?case by (subst stream_loop.simps) (auto intro!: kept)
qed

lemma kept_start [kept]: "kept hk s t \<Longrightarrow> kept hk s (fdc_stream_start hk t)"
  unfolding fdc_stream_start_def Let_def by (rule kept | assumption | simp)+

lemma kept_ticktock [kept]: "kept hk s t \<Longrightarrow> kept hk s (fdc_ticktock hk n t)"
  unfolding fdc_ticktock_def tick_int_def tick_drq_def Let_def by (rule kept | assumption | simp)+

lemma kept_next_sector [kept]: "kept hk s t \<Longrightarrow> kept hk s (next_sector hk multi t)"
  unfolding next_sector_def Let_def by (rule kept | assumption | simp)+

lemma kept_read [kept]: "kept hk s t \<Longrightarrow> kept hk s (snd (fdc_read hk r t))"
  unfolding fdc_read_def Let_def read_sector_data_def read_address_data_def no_sector_def if_distrib [of snd] snd_conv
  by (rule kept | assumption | simp)+

lemma kept_refuse [kept]:
  "kept hk s t \<Longrightarrow> kept hk s (refuse hk st t)" "kept hk s t \<Longrightarrow> kept hk s (fdc_record_not_found hk t)"
  unfolding refuse_def fdc_record_not_found_def Let_def by (rule kept | assumption | simp)+

lemma kept_refused [kept]:
  "kept hk s t \<Longrightarrow> kept hk s u \<Longrightarrow> kept hk s (case fdc_not_ready hk t of Some v \<Rightarrow> v | None \<Rightarrow> u)"
  "kept hk s t \<Longrightarrow> kept hk s u \<Longrightarrow> kept hk s (case fdc_write_protected hk t of Some v \<Rightarrow> v | None \<Rightarrow> u)"
  by (auto simp: fdc_not_ready_def fdc_write_protected_def intro!: kept split: if_splits)

lemma kept_seek [kept]: "kept hk s t \<Longrightarrow> kept hk s (fdc_seek_track hk tr c u t)"
  unfolding fdc_seek_track_def Let_def by (rule kept | assumption | simp)+

lemma kept_type1 [kept]: "kept hk s t \<Longrightarrow> kept hk s (type1 x t)" "kept hk s t \<Longrightarrow> kept hk s (end_op t)"
  unfolding type1_def end_op_def by (rule kept | assumption | simp)+

lemma kept_seeks [kept]:
  "kept hk s t \<Longrightarrow> kept hk s (cmd_restore_seek hk x t)" "kept hk s t \<Longrightarrow> kept hk s (cmd_step hk x t)"
  "kept hk s t \<Longrightarrow> kept hk s (cmd_step_in hk x t)" "kept hk s t \<Longrightarrow> kept hk s (cmd_step_out hk x t)"
  unfolding cmd_restore_seek_def cmd_step_def cmd_step_in_def cmd_step_out_def Let_def by (rule kept | assumption | simp)+

lemma kept_start_sector [kept]: "kept hk s t \<Longrightarrow> kept hk s (start_sector hk x d a b t)"
  unfolding start_sector_def Let_def by (rule kept | assumption | simp)+

lemma kept_sectors [kept]:
  "kept hk s t \<Longrightarrow> kept hk s (cmd_read_sector hk x t)" "kept hk s t \<Longrightarrow> kept hk s (cmd_write_sector hk x t)"
  "kept hk s t \<Longrightarrow> kept hk s (cmd_read_address hk t)"
  unfolding cmd_read_sector_def cmd_write_sector_def cmd_read_address_def Let_def
  by (rule kept | assumption | simp)+

lemma kept_force [kept]: "kept hk s t \<Longrightarrow> kept hk s (cmd_force_interrupt hk x t)"
  unfolding cmd_force_interrupt_def Let_def by (rule kept | assumption | simp)+

lemma kept_track [kept]: "kept hk s t \<Longrightarrow> kept hk s (cmd_track hk x t)"
  unfolding cmd_track_def Let_def by (rule kept | assumption | simp)+

lemma kept_command [kept]: "kept hk s t \<Longrightarrow> kept hk s (fdc_command hk x t)"
  unfolding fdc_command_def Let_def by (rule kept | assumption | simp)+


lemma kept_sector_data [kept]: "kept hk s t \<Longrightarrow> kept hk s (write_sector_data hk x t)"
  unfolding write_sector_data_def no_sector_def by (rule kept | assumption | simp)+

text \<open>The format stream sets \<open>disk_modified\<close> before it stores.\<close>

lemma kept_format [kept]:
  assumes "kept hk s t"
  shows "kept hk s (write_track_data hk x t)"
proof -
  have m: "disk_modified (fdc (wt_data_byte y u)) = disk_modified (fdc u)" "media (fdc (wt_data_byte y u)) = media (fdc u)"
    "fuser (wt_data_byte y u) = fuser u" for y and u :: "'a fdc_state"
    by (simp_all add: wt_data_byte_def Let_def)
  have u: "kept hk s (upd_fdc (\<lambda>f. f\<lparr>disk_modified := True\<rparr>) t)" by (rule kept assms | simp)+
  have d: "kept hk s (wt_data_byte x (upd_fdc (\<lambda>f. f\<lparr>disk_modified := True\<rparr>) t))"
    by (rule kept_modified [OF u]) (simp_all add: m)
  show ?thesis
    unfolding write_track_data_def Let_def wt_mark_def wt_id_byte_def by (rule kept u d | simp)+
qed

lemma kept_write [kept]: "kept hk s t \<Longrightarrow> kept hk s (fdc_write hk r x t)"
  unfolding fdc_write_def Let_def by (rule kept | assumption | simp)+

end
