(* ===== verification/Binio.thy ===== *)
theory Binio
  imports Prelude
begin

unbundle bit_operations_syntax

text \<open>
  Little-endian binary files (\<open>include/utils/binio.h\<close>).  Writing appends bytes; a file that is being
  read is the list of the bytes that are left.  A read past the end of the file returns 0 and takes
  what was left, as \<open>fread\<close> does.  The \<open>rd\<close> lemmas read back what was written in front of anything.
\<close>

definition bin_w_u8 :: "u8 \<Rightarrow> u8 list" where
  "bin_w_u8 v = [v]"

definition bin_w_bool :: "bool \<Rightarrow> u8 list" where
  "bin_w_bool v = bin_w_u8 (if v then 1 else 0)"

definition bin_w_u16 :: "u16 \<Rightarrow> u8 list" where
  "bin_w_u16 v = [ucast v, ucast (drop_bit 8 v)]"

definition bin_w_u32 :: "u32 \<Rightarrow> u8 list" where
  "bin_w_u32 v = [ucast v, ucast (drop_bit 8 v), ucast (drop_bit 16 v), ucast (drop_bit 24 v)]"

text \<open>A signed value is written by its bits.\<close>

definition bin_w_i32 :: "int \<Rightarrow> u8 list" where
  "bin_w_i32 v = bin_w_u32 (word_of_int v)"

text \<open>\<open>fread\<close> of \<open>n\<close> bytes: the bytes when the file has them.\<close>

definition fread :: "nat \<Rightarrow> u8 list \<Rightarrow> u8 list option \<times> u8 list" where
  "fread n fp = (if n \<le> length fp then (Some (take n fp), drop n fp) else (None, []))"

definition bin_r_u8 :: "u8 list \<Rightarrow> u8 \<times> u8 list" where
  "bin_r_u8 fp = (case fread 1 fp of (Some b, r) \<Rightarrow> (b ! 0, r) | (None, r) \<Rightarrow> (0, r))"

definition bin_r_bool :: "u8 list \<Rightarrow> bool \<times> u8 list" where
  "bin_r_bool fp = (let (v, r) = bin_r_u8 fp in (v \<noteq> 0, r))"

definition bin_r_u16 :: "u8 list \<Rightarrow> u16 \<times> u8 list" where
  "bin_r_u16 fp = (case fread 2 fp of
     (Some b, r) \<Rightarrow> (ucast (b ! 0) OR push_bit 8 (ucast (b ! 1)), r) | (None, r) \<Rightarrow> (0, r))"

definition bin_r_u32 :: "u8 list \<Rightarrow> u32 \<times> u8 list" where
  "bin_r_u32 fp = (case fread 4 fp of
     (Some b, r) \<Rightarrow> (ucast (b ! 0) OR push_bit 8 (ucast (b ! 1)) OR push_bit 16 (ucast (b ! 2)) OR
                     push_bit 24 (ucast (b ! 3)), r)
   | (None, r) \<Rightarrow> (0, r))"

definition bin_r_i32 :: "u8 list \<Rightarrow> int \<times> u8 list" where
  "bin_r_i32 fp = (let (v, r) = bin_r_u32 fp in (sint v, r))"

text \<open>The values of an \<open>int32_t\<close>.\<close>

definition i32 :: "int \<Rightarrow> bool" where
  "i32 v \<longleftrightarrow> - 2147483648 \<le> v \<and> v < 2147483648"

section \<open>Reading back\<close>

named_theorems rd

lemma rd_u8 [rd]: "bin_r_u8 (bin_w_u8 v @ r) = (v, r)"
  by (simp add: bin_r_u8_def bin_w_u8_def fread_def)

lemma rd_bool [rd]: "bin_r_bool (bin_w_bool v @ r) = (v, r)"
  by (simp add: bin_r_bool_def bin_w_bool_def rd_u8)

lemma rd_u16 [rd]: "bin_r_u16 (bin_w_u16 v @ r) = (v, r)"
proof -
  have "ucast (ucast v :: u8) OR push_bit 8 (ucast (ucast (drop_bit 8 v) :: u8)) = v"
    by (rule bit_word_eqI) (auto simp: bit_simps)
  then show ?thesis by (simp add: bin_r_u16_def bin_w_u16_def fread_def)
qed

lemma rd_u32 [rd]: "bin_r_u32 (bin_w_u32 v @ r) = (v, r)"
proof -
  have "ucast (ucast v :: u8) OR push_bit 8 (ucast (ucast (drop_bit 8 v) :: u8)) OR
      push_bit 16 (ucast (ucast (drop_bit 16 v) :: u8)) OR push_bit 24 (ucast (ucast (drop_bit 24 v) :: u8)) = v"
  proof (rule bit_word_eqI)
    fix n assume "n < LENGTH(32)"
    then show "bit (ucast (ucast v :: u8) OR push_bit 8 (ucast (ucast (drop_bit 8 v) :: u8)) OR
      push_bit 16 (ucast (ucast (drop_bit 16 v) :: u8)) OR push_bit 24 (ucast (ucast (drop_bit 24 v) :: u8)) :: u32) n = bit v n"
      by (cases "n < 8"; cases "n < 16"; cases "n < 24") (auto simp: bit_simps)
  qed
  then show ?thesis by (simp add: bin_r_u32_def bin_w_u32_def fread_def numeral_nat)
qed

lemma rd_i32 [rd]: "i32 v \<Longrightarrow> bin_r_i32 (bin_w_i32 v @ r) = (v, r)"
  by (simp add: bin_r_i32_def bin_w_i32_def rd_u32 i32_def sint_sbintrunc' signed_take_bit_int_eq_self)

lemma rd_bytes [rd]: "length b = n \<Longrightarrow> fread n (b @ r) = (Some b, r)"
  by (simp add: fread_def)

lemma w_length [simp]:
  "length (bin_w_u8 a) = 1" "length (bin_w_bool b) = 1" "length (bin_w_u16 c) = 2" "length (bin_w_u32 d) = 4"
  "length (bin_w_i32 e) = 4"
  by (simp_all add: bin_w_u8_def bin_w_bool_def bin_w_u16_def bin_w_u32_def bin_w_i32_def)

end
