(* ===== verification/Disk_Cards.thy ===== *)
theory Disk_Cards
  imports Fdc_Effects Cpu_State Binio
begin

unbundle bit_operations_syntax

text \<open>
  The two disk interfaces, Microdisc (\<open>src/io/microdisc.c\<close>) and Jasmin (\<open>src/io/jasmin.c\<close>): a WD1793,
  four drives and the latches of the bus.  Both structures hold the same drive tables; the record
  \<open>drive_bay\<close> is this common part, the cards extend it.  The callbacks of the controller write the latches
  of the card and the interrupt input of the CPU (\<open>line_emu\<close>); the disk server answers from a host state.
\<close>

section \<open>The drives\<close>

record 'u drive_bay =
  wd :: "'u fdc_state"
  drive :: u8
  side_sel :: u8
  disk_table :: "nat option list"
  size_table :: "u32 list"
  track_table :: "u8 list"
  sector_table :: "u8 list"
  disk_dirty :: "bool list"
  bad_map :: "fdc_bad_map_t list"
  write_protect :: "bool list"

abbreviation MAX_DRIVES :: u8 where "MAX_DRIVES \<equiv> 4"

definition upd_wd :: "('u fdc_state \<Rightarrow> 'u fdc_state) \<Rightarrow> ('u, 'z) drive_bay_scheme \<Rightarrow> ('u, 'z) drive_bay_scheme" where
  "upd_wd g b = b\<lparr>wd := g (wd b)\<rparr>"

text \<open>The controller's view of a drive: image, geometry and damage.\<close>

definition bay_mount :: "u8 \<Rightarrow> ('u, 'z) drive_bay_scheme \<Rightarrow> ('u, 'z) drive_bay_scheme" where
  "bay_mount d b =
     (let i = unat d in
      upd_wd (upd_fdc (\<lambda>f. fdc_set_bad_map (Some (bad_map b ! i))
        ((fdc_set_disk (disk_table b ! i) (size_table b ! i) f)\<lparr>tracks := track_table b ! i,
           sectors_per_track := sector_table b ! i\<rparr>))) b)"

text \<open>\<open>microdisc_select_drive\<close> and \<open>jasmin_select_drive\<close>.\<close>

definition select_drive :: "u8 \<Rightarrow> ('u, 'z) drive_bay_scheme \<Rightarrow> ('u, 'z) drive_bay_scheme" where
  "select_drive d b =
     (if d \<ge> MAX_DRIVES then b
      else upd_wd (upd_fdc (fdc_set_write_protect (write_protect b ! unat d))) (bay_mount d (b\<lparr>drive := d\<rparr>)))"

text \<open>\<open>microdisc_set_disk\<close> and \<open>jasmin_set_disk\<close>.\<close>

definition set_disk :: "u8 \<Rightarrow> nat option \<Rightarrow> u32 \<Rightarrow> u8 \<Rightarrow> u8 \<Rightarrow> ('u, 'z) drive_bay_scheme \<Rightarrow> ('u, 'z) drive_bay_scheme" where
  "set_disk d img n tr spt b =
     (if d \<ge> MAX_DRIVES then b
      else
        let i = unat d;
            media_changed = (disk_table b ! i \<noteq> img);
            b1 = b\<lparr>disk_table := (disk_table b)[i := img], size_table := (size_table b)[i := n],
                   track_table := (track_table b)[i := tr], sector_table := (sector_table b)[i := spt]\<rparr>;
            b2 = (if media_changed then b1\<lparr>bad_map := (bad_map b1)[i := []]\<rparr> else b1)
        in if d = drive b2 then bay_mount d b2 else b2)"

text \<open>\<open>microdisc_set_write_protect\<close> and \<open>jasmin_set_write_protect\<close>.\<close>

definition set_write_protect :: "u8 \<Rightarrow> bool \<Rightarrow> ('u, 'z) drive_bay_scheme \<Rightarrow> ('u, 'z) drive_bay_scheme" where
  "set_write_protect d on b =
     (if d \<ge> MAX_DRIVES then b
      else
        let b1 = b\<lparr>write_protect := (write_protect b)[unat d := on]\<rparr>
        in if d = drive b1 then upd_wd (upd_fdc (fdc_set_write_protect on)) b1 else b1)"

text \<open>\<open>microdisc_sync_bad_map\<close>, and the end of \<open>jasmin_add_bad_sector\<close>.\<close>

definition sync_bad_map :: "u8 \<Rightarrow> ('u, 'z) drive_bay_scheme \<Rightarrow> ('u, 'z) drive_bay_scheme" where
  "sync_bad_map d b =
     (if d \<ge> MAX_DRIVES then b
      else if d = drive b then upd_wd (upd_fdc (fdc_set_bad_map (Some (bad_map b ! unat d)))) b else b)"

definition add_bad_sector :: "u8 \<Rightarrow> u8 \<Rightarrow> u8 \<Rightarrow> u8 \<Rightarrow> ('u, 'z) drive_bay_scheme \<Rightarrow> int \<times> ('u, 'z) drive_bay_scheme" where
  "add_bad_sector d sd tr sc b =
     (if d \<ge> MAX_DRIVES then (- 1, b)
      else
        let (r, m) = fdc_bad_map_add sd tr sc (bad_map b ! unat d);
            b1 = b\<lparr>bad_map := (bad_map b)[unat d := m]\<rparr>
        in if r \<noteq> 0 then (- 1, b1) else (0, sync_bad_map d b1))"

text \<open>A register write of the controller; the image it changed belongs to the selected drive.\<close>

definition wd_write :: "'u fdc_hooks \<Rightarrow> u8 \<Rightarrow> u8 \<Rightarrow> ('u, 'z) drive_bay_scheme \<Rightarrow> ('u, 'z) drive_bay_scheme" where
  "wd_write hk r x b =
     (let b1 = upd_wd (fdc_write hk r x) b in
      if disk_modified (fdc (wd b1)) then
        upd_wd (upd_fdc (\<lambda>f. f\<lparr>disk_modified := False\<rparr>))
          (b1\<lparr>disk_dirty := (disk_dirty b1)[unat (drive b1 AND 3) := True]\<rparr>)
      else b1)"

section \<open>The latches\<close>

text \<open>The callbacks that drive the CPU's interrupt input, null or a function, and the disk server.\<close>

record ('e, 'h) card_env =
  irq_raise :: "('e \<Rightarrow> 'e) option"
  irq_drop :: "('e \<Rightarrow> 'e) option"
  disk_server :: "string \<Rightarrow> nat \<Rightarrow> 'h \<Rightarrow> u8 list option \<times> 'h"

text \<open>The active-low latches of both cards and the control register of the Microdisc (\<open>status\<close>).\<close>

record ('e, 'h) card_lines =
  line_ctrl :: u8
  line_intrq :: u8
  line_drq :: u8
  line_emu :: 'e
  line_host :: 'h

definition call_emu :: "('e \<Rightarrow> 'e) option \<Rightarrow> ('e, 'h) card_lines \<Rightarrow> ('e, 'h) card_lines" where
  "call_emu cb l = (case cb of Some g \<Rightarrow> l\<lparr>line_emu := g (line_emu l)\<rparr> | None \<Rightarrow> l)"

definition card_http :: "('e, 'h) card_env \<Rightarrow> string \<Rightarrow> nat \<Rightarrow> ('e, 'h) card_lines \<Rightarrow> u8 list option \<times> ('e, 'h) card_lines" where
  "card_http env url off l = (let (r, h) = disk_server env url off (line_host l) in (r, l\<lparr>line_host := h\<rparr>))"

section \<open>The Microdisc\<close>

abbreviation CTRL_INTENA :: u8 where "CTRL_INTENA \<equiv> 0x01"
abbreviation CTRL_ROMDIS :: u8 where "CTRL_ROMDIS \<equiv> 0x02"
abbreviation CTRL_SIDE :: u8 where "CTRL_SIDE \<equiv> 0x10"
abbreviation CTRL_EPROM :: u8 where "CTRL_EPROM \<equiv> 0x80"

record 'u microdisc_t = "'u drive_bay" +
  md_diskrom :: bool
  md_romdis :: bool
  md_intena :: bool
  diskrom_data :: "u8 list option"
  diskrom_size :: u32

type_synonym ('e, 'h) microdisc = "('e, 'h) card_lines microdisc_t"

definition microdisc_fdc_set_drq :: "('e, 'h) card_lines \<Rightarrow> ('e, 'h) card_lines" where
  "microdisc_fdc_set_drq l = l\<lparr>line_drq := 0x00\<rparr>"

definition microdisc_fdc_clr_drq :: "('e, 'h) card_lines \<Rightarrow> ('e, 'h) card_lines" where
  "microdisc_fdc_clr_drq l = l\<lparr>line_drq := 0x80\<rparr>"

definition microdisc_fdc_set_intrq :: "('e, 'h) card_env \<Rightarrow> ('e, 'h) card_lines \<Rightarrow> ('e, 'h) card_lines" where
  "microdisc_fdc_set_intrq env l =
     (let l1 = l\<lparr>line_intrq := 0x00\<rparr>
      in if line_ctrl l1 AND CTRL_INTENA \<noteq> 0 then call_emu (irq_raise env) l1 else l1)"

definition microdisc_fdc_clr_intrq :: "('e, 'h) card_env \<Rightarrow> ('e, 'h) card_lines \<Rightarrow> ('e, 'h) card_lines" where
  "microdisc_fdc_clr_intrq env l = call_emu (irq_drop env) (l\<lparr>line_intrq := 0x80\<rparr>)"

definition md_hooks :: "('e, 'h) card_env \<Rightarrow> ('e, 'h) card_lines fdc_hooks" where
  "md_hooks env = \<lparr>set_drq = microdisc_fdc_set_drq, clr_drq = microdisc_fdc_clr_drq,
     set_intrq = microdisc_fdc_set_intrq env, clr_intrq = microdisc_fdc_clr_intrq env, http_get = card_http env\<rparr>"

text \<open>The card after \<open>microdisc_init\<close>, given the images in memory and the states around it.\<close>

definition microdisc_init :: "(nat \<Rightarrow> u8 list) \<Rightarrow> 'e \<Rightarrow> 'h \<Rightarrow> ('e, 'h) microdisc" where
  "microdisc_init images e h =
     \<lparr>wd = \<lparr>fdc = fdc_init\<lparr>timing_mode := FDC_TIMING_REAL\<rparr>, bufs = images, oob = False,
            fuser = \<lparr>line_ctrl = 0, line_intrq = 0x80, line_drq = 0x80, line_emu = e, line_host = h\<rparr>\<rparr>,
      drive = 0, side_sel = 0, disk_table = replicate 4 None, size_table = replicate 4 0,
      track_table = replicate 4 0, sector_table = replicate 4 0, disk_dirty = replicate 4 False,
      bad_map = replicate 4 [], write_protect = replicate 4 False, md_diskrom = True, md_romdis = True,
      md_intena = False, diskrom_data = None, diskrom_size = 0\<rparr>"

definition microdisc_reset :: "('e, 'h) microdisc \<Rightarrow> ('e, 'h) microdisc" where
  "microdisc_reset m =
     (upd_wd (raise_sig (\<lambda>l. l\<lparr>line_ctrl := 0, line_intrq := 0x80, line_drq := 0x80\<rparr>) \<circ> upd_fdc fdc_reset) m)
       \<lparr>md_diskrom := True, md_romdis := True, md_intena := False, drive := 0, side_sel := 0\<rparr>"

definition microdisc_read :: "('e, 'h) card_env \<Rightarrow> u16 \<Rightarrow> ('e, 'h) microdisc \<Rightarrow> u8 \<times> ('e, 'h) microdisc" where
  "microdisc_read env addr m =
     (if addr \<ge> 0x0310 \<and> addr \<le> 0x0313 then
        (let (v, s) = fdc_read (md_hooks env) (ucast (addr AND 3)) (wd m) in (v, m\<lparr>wd := s\<rparr>))
      else if addr = 0x0314 then (line_intrq (fuser (wd m)) OR 0x7F, m)
      else if addr = 0x0318 then (line_drq (fuser (wd m)) OR 0x7F, m)
      else (0xFF, m))"

text \<open>The interrupt input after a write of the control register.\<close>

definition ctrl_irq :: "('e, 'h) card_env \<Rightarrow> u8 \<Rightarrow> ('e, 'h) card_lines \<Rightarrow> ('e, 'h) card_lines" where
  "ctrl_irq env value l =
     (let l1 = l\<lparr>line_ctrl := value\<rparr>
      in if value AND CTRL_INTENA \<noteq> 0 \<and> line_intrq l1 = 0 then call_emu (irq_raise env) l1
         else call_emu (irq_drop env) l1)"

definition microdisc_ctrl_write :: "('e, 'h) card_env \<Rightarrow> u8 \<Rightarrow> ('e, 'h) microdisc \<Rightarrow> ('e, 'h) microdisc" where
  "microdisc_ctrl_write env value m =
     (let sd = (if value AND CTRL_SIDE \<noteq> 0 then 1 else 0);
          m1 = (upd_wd (raise_sig (ctrl_irq env value)) m)
                 \<lparr>md_intena := (value AND CTRL_INTENA \<noteq> 0), md_romdis := (value AND CTRL_ROMDIS = 0),
                  side_sel := sd, md_diskrom := (value AND CTRL_EPROM = 0)\<rparr>;
          m2 = upd_wd (upd_fdc (\<lambda>f. f\<lparr>fd_side := sd\<rparr>)) m1;
          new_drive = drop_bit 5 value AND 0x03
      in if new_drive \<noteq> drive m2 then select_drive new_drive m2 else m2)"

definition microdisc_write :: "('e, 'h) card_env \<Rightarrow> u16 \<Rightarrow> u8 \<Rightarrow> ('e, 'h) microdisc \<Rightarrow> ('e, 'h) microdisc" where
  "microdisc_write env addr value m =
     (if addr \<ge> 0x0310 \<and> addr \<le> 0x0313 then wd_write (md_hooks env) (ucast (addr AND 3)) value m
      else if addr = 0x0314 then microdisc_ctrl_write env value m
      else m)"

text \<open>\<open>microdisc_dev_tick\<close>.\<close>

definition microdisc_tick :: "('e, 'h) card_env \<Rightarrow> nat \<Rightarrow> ('e, 'h) microdisc \<Rightarrow> ('e, 'h) microdisc" where
  "microdisc_tick env n m = upd_wd (fdc_ticktock (md_hooks env) n) m"

text \<open>The file is \<open>None\<close> when it cannot be opened; reading it and allocating succeed.\<close>

definition microdisc_load_rom :: "u8 list option \<Rightarrow> ('e, 'h) microdisc \<Rightarrow> bool \<times> ('e, 'h) microdisc" where
  "microdisc_load_rom rom_file m =
     (case rom_file of
        None \<Rightarrow> (False, m)
      | Some d \<Rightarrow>
          if d = [] \<or> length d > 16384 then (False, m)
          else (True, m\<lparr>diskrom_data := Some d, diskrom_size := of_nat (length d)\<rparr>))"

definition microdisc_cleanup :: "('e, 'h) microdisc \<Rightarrow> ('e, 'h) microdisc" where
  "microdisc_cleanup m = m\<lparr>diskrom_data := None\<rparr>"

end
