(* ===== verification/Jasmin.thy ===== *)
theory Jasmin
  imports Disk_Cards
begin

unbundle bit_operations_syntax

text \<open>
  The Jasmin interface (\<open>include/io/jasmin.h\<close>, \<open>src/io/jasmin.c\<close>), whose CPU interrupt is DRQ, and its
  saved state: the section of the controller (\<open>fdc_state_save\<close>, \<open>fdc_state_load\<close> of
  \<open>src/storage/disk.c\<close>) and of the card.  An operation code outside the enumeration, which a damaged
  file can hold, selects no operation in the code: it is read as \<open>FDC_OP_NONE\<close>.
\<close>

section \<open>The card\<close>

abbreviation JASMIN_ROM_SIZE :: nat where "JASMIN_ROM_SIZE \<equiv> 2048"

record 'u jasmin_t = "'u drive_bay" +
  ja_romdis :: bool
  ja_olay :: bool
  ja_rom :: "u8 list"
  rom_valid :: bool
  autoboot_done :: bool

type_synonym ('e, 'h) jasmin = "('e, 'h) card_lines jasmin_t"

definition jasmin_fdc_set_drq :: "('e, 'h) card_env \<Rightarrow> ('e, 'h) card_lines \<Rightarrow> ('e, 'h) card_lines" where
  "jasmin_fdc_set_drq env l = call_emu (irq_raise env) (l\<lparr>line_drq := 0x00\<rparr>)"

definition jasmin_fdc_clr_drq :: "('e, 'h) card_env \<Rightarrow> ('e, 'h) card_lines \<Rightarrow> ('e, 'h) card_lines" where
  "jasmin_fdc_clr_drq env l = call_emu (irq_drop env) (l\<lparr>line_drq := 0x80\<rparr>)"

definition jasmin_fdc_set_intrq :: "('e, 'h) card_lines \<Rightarrow> ('e, 'h) card_lines" where
  "jasmin_fdc_set_intrq l = l\<lparr>line_intrq := 0x00\<rparr>"

definition jasmin_fdc_clr_intrq :: "('e, 'h) card_lines \<Rightarrow> ('e, 'h) card_lines" where
  "jasmin_fdc_clr_intrq l = l\<lparr>line_intrq := 0x80\<rparr>"

definition ja_hooks :: "('e, 'h) card_env \<Rightarrow> ('e, 'h) card_lines fdc_hooks" where
  "ja_hooks env = \<lparr>set_drq = jasmin_fdc_set_drq env, clr_drq = jasmin_fdc_clr_drq env,
     set_intrq = jasmin_fdc_set_intrq, clr_intrq = jasmin_fdc_clr_intrq, http_get = card_http env\<rparr>"

text \<open>\<open>jasmin_init\<close> leaves the ROM and the drive tables as they are.\<close>

definition jasmin_init :: "('e, 'h) jasmin \<Rightarrow> ('e, 'h) jasmin" where
  "jasmin_init j =
     (upd_wd (raise_sig (\<lambda>l. l\<lparr>line_intrq := 0x80, line_drq := 0x80\<rparr>) \<circ>
              upd_fdc (\<lambda>_. fdc_init\<lparr>timing_mode := FDC_TIMING_REAL\<rparr>)) j)
       \<lparr>ja_romdis := False, ja_olay := False, drive := 0, side_sel := 0\<rparr>"

definition jasmin_reset :: "('e, 'h) jasmin \<Rightarrow> ('e, 'h) jasmin" where
  "jasmin_reset j =
     (upd_wd (raise_sig (\<lambda>l. l\<lparr>line_intrq := 0x80, line_drq := 0x80\<rparr>) \<circ> upd_fdc fdc_reset) j)
       \<lparr>ja_romdis := False, ja_olay := False, drive := 0, side_sel := 0\<rparr>"

definition jasmin_read :: "('e, 'h) card_env \<Rightarrow> u16 \<Rightarrow> ('e, 'h) jasmin \<Rightarrow> u8 \<times> ('e, 'h) jasmin" where
  "jasmin_read env addr j =
     (if addr \<ge> 0x03F4 \<and> addr \<le> 0x03F7 then
        (let (v, s) = fdc_read (ja_hooks env) (ucast (addr AND 3)) (wd j) in (v, j\<lparr>wd := s\<rparr>))
      else if addr = 0x03FB then (if ja_romdis j then 1 else 0, j)
      else (0xFF, j))"

text \<open>\<open>$03F9\<close>: the controller is reset and the interrupt dropped.\<close>

definition jasmin_wd_reset :: "('e, 'h) card_env \<Rightarrow> ('e, 'h) jasmin \<Rightarrow> ('e, 'h) jasmin" where
  "jasmin_wd_reset env =
     upd_wd (raise_sig (\<lambda>l. call_emu (irq_drop env) (l\<lparr>line_intrq := 0x80, line_drq := 0x80\<rparr>)) \<circ> upd_fdc fdc_reset)"

definition jasmin_write :: "('e, 'h) card_env \<Rightarrow> u16 \<Rightarrow> u8 \<Rightarrow> ('e, 'h) jasmin \<Rightarrow> ('e, 'h) jasmin" where
  "jasmin_write env addr value j =
     (if addr \<ge> 0x03F4 \<and> addr \<le> 0x03F7 then wd_write (ja_hooks env) (ucast (addr AND 3)) value j
      else if addr = 0x03F8 then upd_wd (upd_fdc (\<lambda>f. f\<lparr>fd_side := value AND 1\<rparr>)) (j\<lparr>side_sel := value AND 1\<rparr>)
      else if addr = 0x03F9 then jasmin_wd_reset env j
      else if addr = 0x03FA then j\<lparr>ja_olay := (value \<noteq> 0)\<rparr>
      else if addr = 0x03FB then j\<lparr>ja_romdis := (value AND 1 \<noteq> 0)\<rparr>
      else if addr \<ge> 0x03FC \<and> addr \<le> 0x03FF then
        (let new_drive = ucast (addr AND 3) in if new_drive \<noteq> drive j then select_drive new_drive j else j)
      else j)"

definition jasmin_tick :: "('e, 'h) card_env \<Rightarrow> nat \<Rightarrow> ('e, 'h) jasmin \<Rightarrow> ('e, 'h) jasmin" where
  "jasmin_tick env n j = upd_wd (fdc_ticktock (ja_hooks env) n) j"

definition jasmin_load_rom :: "u8 list option \<Rightarrow> ('e, 'h) jasmin \<Rightarrow> bool \<times> ('e, 'h) jasmin" where
  "jasmin_load_rom data j =
     (case data of
        Some d \<Rightarrow> if length d = JASMIN_ROM_SIZE then (True, j\<lparr>ja_rom := d, rom_valid := True\<rparr>) else (False, j)
      | None \<Rightarrow> (False, j))"

section \<open>The saved state of the controller\<close>

fun op_code :: "fdc_op_t \<Rightarrow> u8" where
  "op_code FDC_OP_NONE = 0" | "op_code FDC_OP_READ_SECTOR = 1" | "op_code FDC_OP_READ_SECTORS = 2"
| "op_code FDC_OP_WRITE_SECTOR = 3" | "op_code FDC_OP_WRITE_SECTORS = 4" | "op_code FDC_OP_READ_ADDRESS = 5"
| "op_code FDC_OP_READ_TRACK = 6" | "op_code FDC_OP_WRITE_TRACK = 7"

definition code_op :: "u8 \<Rightarrow> fdc_op_t" where
  "code_op c =
     (if c = 1 then FDC_OP_READ_SECTOR else if c = 2 then FDC_OP_READ_SECTORS
      else if c = 3 then FDC_OP_WRITE_SECTOR else if c = 4 then FDC_OP_WRITE_SECTORS
      else if c = 5 then FDC_OP_READ_ADDRESS else if c = 6 then FDC_OP_READ_TRACK
      else if c = 7 then FDC_OP_WRITE_TRACK else FDC_OP_NONE)"

lemma code_op_code [simp]: "code_op (op_code p) = p"
  by (cases p) (simp_all add: code_op_def)

abbreviation FDC_STATE_SIZE_V1 :: nat where "FDC_STATE_SIZE_V1 \<equiv> 36"
abbreviation FDC_STATE_SIZE_V2 :: nat where "FDC_STATE_SIZE_V2 \<equiv> 49"
abbreviation FDC_STATE_SIZE :: nat where "FDC_STATE_SIZE \<equiv> 55"

definition fdc_state_save :: "fdc_t \<Rightarrow> u8 list" where
  "fdc_state_save f =
     bin_w_u8 (fd_status f) @ bin_w_u8 (fd_command f) @ bin_w_u8 (fd_track f) @ bin_w_u8 (fd_sector f) @
     bin_w_u8 (fd_data f) @ bin_w_u8 (fd_direction f) @ bin_w_u8 (c_track f) @ bin_w_u8 (c_sector f) @
     bin_w_u8 (fd_side f) @ bin_w_u8 (op_code (currentop f)) @ bin_w_u16 (cur_sector_len f) @
     bin_w_u16 (cur_offset f) @ bin_w_u8 (sec_type f) @ bin_w_i32 (delayed_drq f) @ bin_w_i32 (delayed_int f) @
     bin_w_i32 (di_status f) @ bin_w_i32 (dd_status f) @
     bin_w_u8 (if status_type1 f then 1 else 0) @ bin_w_u32 (rot_pos f) @
     bin_w_i32 (drq_age f) @ bin_w_u8 (wt_state f) @ bin_w_u8 (wt_field_idx f) @ wt_id f @
     bin_w_u16 (wt_data_len f) @ bin_w_u8 (wt_sectors_done f) @
     bin_w_u8 (if stream f then 1 else 0) @ bin_w_u8 (if stream_crc f then 1 else 0) @ bin_w_i32 (stream_due f)"

text \<open>The three blocks of \<open>fdc_state_load\<close> after the first; an older file has neutral values.\<close>

definition load_v1 :: "nat \<Rightarrow> u8 list \<Rightarrow> fdc_t \<Rightarrow> fdc_t \<times> u8 list" where
  "load_v1 n p f =
     (if n \<ge> FDC_STATE_SIZE_V1 then
        (let (t1, p) = bin_r_u8 p; (rp, p) = bin_r_u32 p
         in (f\<lparr>status_type1 := (t1 \<noteq> 0), rot_pos := rp mod FDC_REV_CYCLES\<rparr>, p))
      else (f, p))"

definition load_v2 :: "nat \<Rightarrow> u8 list \<Rightarrow> fdc_t \<Rightarrow> fdc_t \<times> u8 list" where
  "load_v2 n p f =
     (if n \<ge> FDC_STATE_SIZE_V2 then
        (let (age, p) = bin_r_i32 p; (ws, p) = bin_r_u8 p; (wi, p) = bin_r_u8 p; (ids, p) = fread 4 p;
             (wl, p) = bin_r_u16 p; (wd, p) = bin_r_u8 p
         in (f\<lparr>drq_age := age, wt_state := ws, wt_field_idx := wi AND 3,
               wt_id := (case ids of Some b \<Rightarrow> b | None \<Rightarrow> [0, 0, 0, 0]), wt_data_len := wl, wt_sectors_done := wd\<rparr>, p))
      else (f\<lparr>drq_age := 0, wt_state := 0, wt_field_idx := 0, wt_data_len := 0, wt_sectors_done := 0\<rparr>, p))"

definition load_v3 :: "nat \<Rightarrow> u8 list \<Rightarrow> fdc_t \<Rightarrow> fdc_t \<times> u8 list" where
  "load_v3 n p f =
     (if n \<ge> FDC_STATE_SIZE then
        (let (st, p) = bin_r_u8 p; (sc, p) = bin_r_u8 p; (sd, p) = bin_r_i32 p
         in (f\<lparr>stream := (st \<noteq> 0), stream_crc := (sc \<noteq> 0), stream_due := sd\<rparr>, p))
      else (f\<lparr>stream := False, stream_crc := False, stream_due := 0\<rparr>, p))"

definition fdc_state_load :: "nat \<Rightarrow> u8 list \<Rightarrow> fdc_t \<Rightarrow> fdc_t \<times> u8 list" where
  "fdc_state_load n p f =
     (let (st, p) = bin_r_u8 p; (cmd, p) = bin_r_u8 p; (tr, p) = bin_r_u8 p; (sc, p) = bin_r_u8 p;
          (da, p) = bin_r_u8 p; (di, p) = bin_r_u8 p; (ct, p) = bin_r_u8 p; (cs, p) = bin_r_u8 p;
          (sd, p) = bin_r_u8 p; (op, p) = bin_r_u8 p; (sl, p) = bin_r_u16 p; (co, p) = bin_r_u16 p;
          (ty, p) = bin_r_u8 p; (dd, p) = bin_r_i32 p; (dn, p) = bin_r_i32 p; (ds, p) = bin_r_i32 p;
          (dq, p) = bin_r_i32 p;
          (f1, p) = load_v1 n p (f\<lparr>fd_status := st, fd_command := cmd, fd_track := tr, fd_sector := sc, fd_data := da,
            fd_direction := di, c_track := ct, c_sector := cs, fd_side := sd, currentop := code_op op,
            cur_sector_len := sl, cur_offset := co, sec_type := ty, delayed_drq := dd, delayed_int := dn,
            di_status := ds, dd_status := dq\<rparr>);
          (f2, p) = load_v2 n p f1
      in load_v3 n p f2)"

section \<open>The saved state of the card\<close>

abbreviation JASMIN_SAVE_VERSION :: u8 where "JASMIN_SAVE_VERSION \<equiv> 2"

definition save_bad_map :: "fdc_bad_map_t \<Rightarrow> u8 list" where
  "save_bad_map m = bin_w_u8 (of_nat (length m)) @
     concat (map (\<lambda>(sd, tr, sc). bin_w_u8 sd @ bin_w_u8 tr @ bin_w_u8 sc) m)"

definition jasmin_save :: "('e, 'h) jasmin \<Rightarrow> u8 list" where
  "jasmin_save j =
     bin_w_u8 JASMIN_SAVE_VERSION @ fdc_state_save (fdc (wd j)) @
     bin_w_bool (ja_romdis j) @ bin_w_bool (ja_olay j) @ bin_w_u8 (drive j) @ bin_w_u8 (side_sel j) @
     bin_w_u8 (line_intrq (fuser (wd j))) @ bin_w_u8 (line_drq (fuser (wd j))) @ bin_w_bool (autoboot_done j) @
     concat (map save_bad_map (bad_map j))"

fun load_entries :: "nat \<Rightarrow> u8 list \<Rightarrow> fdc_bad_map_t \<times> u8 list" where
  "load_entries 0 p = ([], p)"
| "load_entries (Suc n) p =
     (let (sd, p) = bin_r_u8 p; (tr, p) = bin_r_u8 p; (sc, p) = bin_r_u8 p; (m, p) = load_entries n p
      in ((sd, tr, sc) # m, p))"

definition load_bad_map :: "u8 list \<Rightarrow> fdc_bad_map_t \<times> u8 list" where
  "load_bad_map p = (let (n, p) = bin_r_u8 p in load_entries (min (unat n) FDC_MAX_BAD_SECTORS) p)"

fun load_maps :: "nat \<Rightarrow> u8 list \<Rightarrow> fdc_bad_map_t list \<times> u8 list" where
  "load_maps 0 p = ([], p)"
| "load_maps (Suc d) p = (let (m, p) = load_bad_map p; (ms, p) = load_maps d p in (m # ms, p))"

definition jasmin_load :: "('e, 'h) card_env \<Rightarrow> u8 list \<Rightarrow> nat \<Rightarrow> ('e, 'h) jasmin \<Rightarrow> ('e, 'h) jasmin" where
  "jasmin_load env p n j =
     (if n < 1 + FDC_STATE_SIZE_V2 + 7 + 4 then j
      else
        let (ver, p) = bin_r_u8 p; fdc_size = (if ver = 1 then FDC_STATE_SIZE_V2 else FDC_STATE_SIZE) in
        if ver \<noteq> 1 \<and> ver \<noteq> JASMIN_SAVE_VERSION then j
        else if n < 1 + fdc_size + 7 + 4 then j
        else
          let (f, p) = fdc_state_load fdc_size p (fdc (wd j)); (rd, p) = bin_r_bool p; (ol, p) = bin_r_bool p;
              (dr, p) = bin_r_u8 p; (sd, p) = bin_r_u8 p; (iq, p) = bin_r_u8 p; (dq, p) = bin_r_u8 p;
              (ab, p) = bin_r_bool p; (maps, p) = load_maps 4 p;
              j1 = (upd_wd (raise_sig (\<lambda>l. l\<lparr>line_intrq := iq, line_drq := dq\<rparr>) \<circ> upd_fdc (\<lambda>_. f)) j)
                     \<lparr>ja_romdis := rd, ja_olay := ol, side_sel := sd AND 1, autoboot_done := ab, bad_map := maps\<rparr>;
              j2 = select_drive (if dr < MAX_DRIVES then dr else 0) j1
          in upd_wd (fdc_state_resume (ja_hooks env) \<circ> upd_fdc (\<lambda>f. f\<lparr>fd_side := side_sel j2\<rparr>)) j2)"

end
