(* ===== verification/Sedoric_Properties.thy ===== *)
theory Sedoric_Properties
  imports Sedoric
begin

unbundle bit_operations_syntax

text \<open>
  Properties of the disk images: sector access, the bounds of the MFM extraction and injection, and
  the geometry that a raw image is given when it is loaded again.
\<close>

section \<open>Byte arrays\<close>

lemma length_memcpy_at [simp]: "off + length src \<le> length dst \<Longrightarrow> length (memcpy_at off src dst) = length dst"
  by (simp add: memcpy_at_def)

lemma length_subarray [simp]: "off + n \<le> length xs \<Longrightarrow> length (subarray off n xs) = n"
  by (simp add: subarray_def)

lemma nth_memcpy_at:
  assumes "off + length src \<le> length dst" "i < length dst"
  shows "memcpy_at off src dst ! i = (if off \<le> i \<and> i < off + length src then src ! (i - off) else dst ! i)"
  using assms by (auto simp: memcpy_at_def nth_append min_def)

lemma nth_subarray: "off + n \<le> length xs \<Longrightarrow> i < n \<Longrightarrow> subarray off n xs ! i = xs ! (off + i)"
  by (simp add: subarray_def)

lemma subarray_memcpy_same: "off + length src \<le> length dst \<Longrightarrow> subarray off (length src) (memcpy_at off src dst) = src"
  by (rule nth_equalityI) (simp_all add: nth_subarray nth_memcpy_at)

lemma subarray_memcpy_other:
  assumes "off + length src \<le> length dst" "o2 + n \<le> length dst" "o2 + n \<le> off \<or> off + length src \<le> o2"
  shows "subarray o2 n (memcpy_at off src dst) = subarray o2 n dst"
  using assms by (intro nth_equalityI) (auto simp: nth_subarray nth_memcpy_at)

section \<open>Sector access\<close>

definition image_ok :: "sedoric_disk_t \<Rightarrow> bool" where
  "image_ok d \<longleftrightarrow> sd_size d = length (sd_data d)"

lemma sector_index_inject:
  fixes a b c d n :: nat
  assumes "a * n + b = c * n + d" "b < n" "d < n"
  shows "a = c \<and> b = d"
  using assms by (metis add.commute add_right_cancel div_mult_self3 div_less mod_mult_self1 mod_less less_nat_zero_code
      mod_mult_self3 nat_neq_iff)

definition sector_pos :: "sedoric_disk_t \<Rightarrow> u8 \<Rightarrow> u8 \<Rightarrow> nat" where
  "sector_pos d t s = (unat t * unat (sd_sectors d) + (unat s - 1)) * 256"

definition has_sector :: "sedoric_disk_t \<Rightarrow> u8 \<Rightarrow> u8 \<Rightarrow> bool" where
  "has_sector d t s \<longleftrightarrow> t < sd_tracks d \<and> s < sd_sectors d \<and> s \<noteq> 0 \<and> sector_pos d t s + 256 \<le> sd_size d"

lemma get_sector_alt: "sedoric_get_sector d t s = (if has_sector d t s then Some (sector_pos d t s) else None)"
  by (auto simp: sedoric_get_sector_def has_sector_def sector_pos_def Let_def)

lemma read_sector_alt:
  "sedoric_read_sector d t s = (if has_sector d t s then Some (subarray (sector_pos d t s) 256 (sd_data d)) else None)"
  by (auto simp: sedoric_read_sector_def has_sector_def sector_pos_def Let_def)

lemma sectors_apart:
  assumes "has_sector d t s" "has_sector d t' s'" "\<not> (t' = t \<and> s' = s)"
  shows "sector_pos d t' s' + 256 \<le> sector_pos d t s \<or> sector_pos d t s + 256 \<le> sector_pos d t' s'"
proof -
  have "unat s - 1 < unat (sd_sectors d)" "unat s' - 1 < unat (sd_sectors d)"
    using assms by (auto simp: has_sector_def word_less_nat_alt)
  moreover have "unat s = unat s' \<longleftrightarrow> unat s - 1 = unat s' - 1"
    using assms by (metis Suc_pred' has_sector_def unat_gt_0)
  ultimately have "unat t * unat (sd_sectors d) + (unat s - 1) \<noteq> unat t' * unat (sd_sectors d) + (unat s' - 1)"
    using assms(3) sector_index_inject by (metis word_unat_eq_iff)
  then show ?thesis by (auto simp: sector_pos_def)
qed

text \<open>
  C17: A write succeeds for exactly the addresses that can be read, and changes nothing when it fails.  When
  it succeeds the sector written is the sector read back, every other sector reads as before, the
  bytes of the image outside the sector are the same, and the image keeps its size, its geometry and its
  container, but for the mark that it was modified.
\<close>

theorem sector_write_read:
  fixes d :: sedoric_disk_t
  assumes "sd_size d = length (sd_data d)" and "length buf = 256"
  shows "(let (ok, d') = sedoric_write_sector t s buf d in
     (ok \<longleftrightarrow> sedoric_read_sector d t s \<noteq> None) \<and>
     d' = d\<lparr>sd_data := sd_data d', sd_modified := ok \<or> sd_modified d\<rparr> \<and> length (sd_data d') = length (sd_data d) \<and>
     (\<forall>i. (case sedoric_get_sector d t s of Some pos \<Rightarrow> i < pos \<or> pos + 256 \<le> i | None \<Rightarrow> True) \<longrightarrow>
        i < length (sd_data d) \<longrightarrow> sd_data d' ! i = sd_data d ! i) \<and>
     (\<forall>t' s'. sedoric_read_sector d' t' s' = (if ok \<and> t' = t \<and> s' = s then Some buf else sedoric_read_sector d t' s')))"
proof (cases "has_sector d t s")
  case False
  then have "sedoric_write_sector t s buf d = (False, d)" "sedoric_read_sector d t s = None"
    by (simp_all add: sedoric_write_sector_def get_sector_alt read_sector_alt)
  then show ?thesis by simp
next
  case has: True
  then have len: "sector_pos d t s + length buf \<le> length (sd_data d)" using assms by (simp add: has_sector_def)
  define d' where "d' = d\<lparr>sd_data := memcpy_at (sector_pos d t s) buf (sd_data d), sd_modified := True\<rparr>"
  have w: "sedoric_write_sector t s buf d = (True, d')"
    using has assms(2) by (simp add: sedoric_write_sector_def get_sector_alt d'_def)
  have same: "has_sector d' = has_sector d" "sector_pos d' = sector_pos d"
    by (simp_all add: fun_eq_iff has_sector_def sector_pos_def d'_def)
  have bytes: "sd_data d' ! i = sd_data d ! i" if "i < sector_pos d t s \<or> sector_pos d t s + 256 \<le> i" "i < length (sd_data d)" for i
    using nth_memcpy_at [OF len that(2)] that(1) assms(2) by (auto simp: d'_def)
  have read: "sedoric_read_sector d' t' s' = (if t' = t \<and> s' = s then Some buf else sedoric_read_sector d t' s')" for t' s'
  proof (cases "t' = t \<and> s' = s")
    case True
    then show ?thesis
      using has subarray_memcpy_same [OF len] assms(2) by (simp add: read_sector_alt same) (simp add: d'_def)
  next
    case False
    have "subarray (sector_pos d t' s') 256 (sd_data d') = subarray (sector_pos d t' s') 256 (sd_data d)"
      if "has_sector d t' s'"
      using subarray_memcpy_other [OF len] sectors_apart [OF has that False] that assms(1,2)
      by (simp add: has_sector_def d'_def)
    then show ?thesis using False by (auto simp: read_sector_alt same)
  qed
  have "d' = d\<lparr>sd_data := sd_data d', sd_modified := True\<rparr>" "length (sd_data d') = length (sd_data d)"
    using len by (simp_all add: d'_def)
  then show ?thesis using has bytes read by (simp add: w get_sector_alt) (simp add: read_sector_alt)
qed

theorem sector_write_read_witness:
  "let d = sedoric_create in
   sedoric_read_sector (snd (sedoric_write_sector 3 2 (replicate 256 7) d)) 3 2 = Some (replicate 256 7) \<and>
   sd_sides (snd (sedoric_write_sector 3 2 (replicate 256 7) d)) = 1"
proof -
  have d: "sd_size sedoric_create = length (sd_data sedoric_create)" "sd_tracks sedoric_create = 42"
    "sd_sectors sedoric_create = 17" "sd_size sedoric_create = 182784"
    "length (sd_data sedoric_create) = 182784" "sd_sides sedoric_create = 1"
    by (simp_all add: sedoric_create_def sedoric_create_blank_def)
  have can: "sedoric_read_sector sedoric_create 3 2 \<noteq> None"
    by (simp add: read_sector_alt has_sector_def sector_pos_def d)
  obtain ok d' where w: "sedoric_write_sector 3 2 (replicate 256 7) sedoric_create = (ok, d')" by fastforce
  note g = sector_write_read [OF d(1), of "replicate 256 7" 3 2, unfolded w]
  have "ok" "sedoric_read_sector d' 3 2 = Some (replicate 256 7)" "d' = sedoric_create\<lparr>sd_data := sd_data d', sd_modified := True\<rparr>"
    using g can by (auto simp: Let_def)
  then have "sd_sides d' = sd_sides sedoric_create" by (metis sedoric_disk_t.select_convs(5) sedoric_disk_t.surjective sedoric_disk_t.update_convs(1,6))
  then show ?thesis using \<open>sedoric_read_sector d' 3 2 = _\<close> by (simp add: Let_def w d(6))
qed

section \<open>Bounds of the MFM tracks\<close>

lemma mfm_offset_fits: "mfm_offset sd tr sc spt nt < 2 ^ 32"
proof -
  have b: "unat (x :: u8) \<le> 255" for x using unat_u8_less [of x] by linarith
  have "unat sd * unat nt * unat spt \<le> 255 * 255 * 255" "unat tr * unat spt \<le> 255 * 255"
    using b [of sd] b [of nt] b [of spt] b [of tr] by (intro mult_le_mono; simp)+
  moreover have "unat sc - 1 \<le> 254" using b [of sc] by simp
  ultimately show ?thesis unfolding mfm_offset_def by simp
qed

lemma sector_at_bounds:
  assumes "sector_at t n spt nt i = Some (j, off)"
  shows "j + 262 \<le> 6400" "off + 256 \<le> n" "data_mark t j" "id_mark t i" "i + 10 \<le> j" "j < i + 60"
proof -
  obtain j' where f: "find_data t i = Some j'" "j' = j" "off + 256 \<le> n" "id_mark t i"
    using assms by (auto simp: sector_at_def Let_def split: if_splits option.splits)
  then show "off + 256 \<le> n" "id_mark t i" by simp_all
  show "j + 262 \<le> 6400" "data_mark t j" "i + 10 \<le> j" "j < i + 60"
    using f(1,2) by (auto simp: find_data_def find_Some_iff)
qed

lemma length_extract:
  assumes "n \<le> length flat" "length t = 6400"
  shows "length (snd (mfm_extract_track t flat n spt nt)) = length flat"
proof -
  have "length (snd (fold (\<lambda>i (c, f). case sector_at t n spt nt i of None \<Rightarrow> (c, f)
      | Some (j, off) \<Rightarrow> (c + 1, memcpy_at off (subarray (j + 4) SEDORIC_SECTOR_SIZE t) f)) is (c, f))) = length f"
    if "length f = length flat" for "is" and c :: nat and f
    using that
  proof (induction "is" arbitrary: c f)
    case (Cons i "is")
    show ?case
    proof (cases "sector_at t n spt nt i")
      case (Some p)
      then obtain j off where p: "sector_at t n spt nt i = Some (j, off)" by (cases p) auto
      have "length (memcpy_at off (subarray (j + 4) 256 t) f) = length flat"
        using sector_at_bounds(1,2) [OF p] assms Cons.prems by simp
      then show ?thesis using p Cons by simp
    qed (use Cons in simp)
  qed simp
  then show ?thesis by (simp add: mfm_extract_track_def)
qed

lemma inject_fold:
  assumes "n \<le> length flat" "length t = 6400"
  shows "length (snd (mfm_inject_track t flat n spt nt)) = 6400"
proof -
  have "length (snd (fold (\<lambda>i (c, tr). case sector_at tr n spt nt i of None \<Rightarrow> (c, tr)
      | Some (j, off) \<Rightarrow> (let tr1 = memcpy_at (j + 4) (subarray off SEDORIC_SECTOR_SIZE flat) tr;
            crc = mfm_crc16 (subarray j (4 + SEDORIC_SECTOR_SIZE) tr1)
          in (c + 1, memcpy_at (j + 4 + SEDORIC_SECTOR_SIZE) [hi8 crc, lo8 crc] tr1))) is (c, tr))) = 6400"
    if "length tr = 6400" for "is" and c :: nat and tr
    using that
  proof (induction "is" arbitrary: c tr)
    case (Cons i "is")
    show ?case
    proof (cases "sector_at tr n spt nt i")
      case (Some p)
      then obtain j off where p: "sector_at tr n spt nt i = Some (j, off)" by (cases p) auto
      have "length (memcpy_at (j + 4) (subarray off 256 flat) tr) = 6400"
        using sector_at_bounds(1,2) [OF p] assms Cons.prems by simp
      then show ?thesis using p Cons sector_at_bounds(1) [OF p] by (simp add: Let_def)
    qed (use Cons in simp)
  qed simp
  then show ?thesis using assms(2) by (simp add: mfm_inject_track_def)
qed

lemma length_fold_memcpy:
  assumes "\<And>o1. o1 \<in> set os \<Longrightarrow> o1 + 6400 \<le> length raw" "\<And>r. length r = 6400 \<Longrightarrow> length (f r) = 6400"
  shows "length (fold (\<lambda>o1 r. memcpy_at o1 (f (subarray o1 6400 r)) r) os raw) = length raw"
  using assms(1)
proof (induction os arbitrary: raw)
  case (Cons o1 os)
  have "length (memcpy_at o1 (f (subarray o1 6400 raw)) raw) = length raw"
    using Cons.prems assms(2) by simp
  then show ?case using Cons by simp
qed simp

lemma raw_tracks_fit: "o1 \<in> set (raw_tracks n sides tracks) \<Longrightarrow> o1 + 6400 \<le> n"
  by (auto simp: raw_tracks_def dest!: set_takeWhileD)

lemma mfm_load_size:
  "sd_size (mfm_load raw) = length (sd_data (mfm_load raw))" "sd_size (mfm_load raw) \<le> 713728"
proof -
  define sides tracks where "sides = min (le32 raw 8) 2" and "tracks = min (le32 raw 12) 82"
  define n where "n = sides * tracks * 17 * 256"
  have "length (fold (\<lambda>o1 f. snd (mfm_extract_track (subarray o1 6400 raw) f n 17 (of_nat tracks))) os f) = length f"
    if "length f = n" "\<And>o1. o1 \<in> set os \<Longrightarrow> o1 + 6400 \<le> length raw" for os f
    using that by (induction os arbitrary: f) (simp_all add: length_extract)
  from this [of "replicate n 0" "raw_tracks (length raw) sides tracks"] raw_tracks_fit
  show "sd_size (mfm_load raw) = length (sd_data (mfm_load raw))"
    by (simp add: mfm_load_def Let_def n_def sides_def tracks_def)
  have "sides * tracks \<le> 2 * 82" by (intro mult_le_mono) (simp_all add: sides_def tracks_def)
  then show "sd_size (mfm_load raw) \<le> 713728"
    by (simp add: mfm_load_def Let_def sides_def tracks_def)
qed

text \<open>
  C18: Loading any container leaves an image of exactly the size of its geometry, whatever tracks,
  sides and sectors its ID marks name, and saving it writes a file of the length of the one read:
  extraction and injection stay inside both arrays.
\<close>

theorem mfm_stays_in_bounds:
  fixes raw :: "u8 list"
  defines "d \<equiv> mfm_load raw"
  assumes "length flat = sd_size d"
  shows "sd_size d = length (sd_data d) \<and> sd_size d \<le> 2 * 82 * 17 * 256 \<and>
     (case fst (sedoric_save can_write (d\<lparr>sd_data := flat\<rparr>)) of None \<Rightarrow> True | Some out \<Rightarrow> length out = length raw)"
proof -
  have "length (fold (\<lambda>o1 r. memcpy_at o1 (snd (mfm_inject_track (subarray o1 6400 r) flat (sd_size d) (sd_sectors d)
      (sd_tracks d))) r) (raw_tracks (length raw) (unat (sd_sides d)) (unat (sd_tracks d))) raw) = length raw"
    using raw_tracks_fit inject_fold [of "sd_size d" flat] assms(2) by (intro length_fold_memcpy) auto
  then have "case fst (sedoric_save can_write (d\<lparr>sd_data := flat\<rparr>)) of None \<Rightarrow> True | Some out \<Rightarrow> length out = length raw"
    by (simp add: sedoric_save_def sedoric_save_mfm_def Let_def d_def mfm_load_def)
  then show ?thesis using mfm_load_size [of raw] by (simp add: d_def)
qed

section \<open>Geometry of raw images\<close>

text \<open>
  A blank raw disk keeps its bytes through a save and a load, but its geometry only if it is
  single-sided with at most 42 or an odd number of tracks, or double-sided with more than 42 tracks
  in all: an 80-track single-sided disk comes back as 40 tracks on two sides.
\<close>

theorem blank_disk_geometry:
  fixes tracks sides :: u8
  defines "d \<equiv> sedoric_create_blank tracks sides"
  assumes "tracks \<noteq> 0" and "sides = 1 \<or> sides = 2"
  shows "\<exists>d'. sedoric_load (fst (sedoric_save True d)) = Some d' \<and> sd_data d' = sd_data d \<and> sd_size d' = sd_size d \<and>
     ((sd_tracks d', sd_sides d') = (sd_tracks d, sd_sides d) \<longleftrightarrow>
        (if sides = 1 then unat tracks \<le> 42 \<or> odd (unat tracks) else unat tracks > 21))"
proof -
  define n where "n = unat sides * unat tracks"
  have pos: "unat tracks > 0" using assms(2) by (simp add: unat_gt_0)
  have n: "n = (if sides = 1 then unat tracks else 2 * unat tracks)" using assms(3) by (auto simp: n_def)
  have geo: "sd_tracks d = tracks" "sd_sides d = sides" "sd_size d = n * 4352" "is_mfm d = False"
    using assms by (auto simp: sedoric_create_blank_def n_def Let_def)
  have data: "length (sd_data d) = n * 4352" "sd_data d ! 0 = 0x53"
    using assms pos by (auto simp: sedoric_create_blank_def n_def Let_def memcpy_at_def)
  then have magic: "take 8 (sd_data d) \<noteq> [0x4D, 0x46, 0x4D, 0x5F, 0x44, 0x49, 0x53, 0x4B]"
    by (cases "sd_data d") auto
  have saved: "fst (sedoric_save True d) = Some (sd_data d)"
    using geo data by (simp add: sedoric_save_def)
  have "n > 0" using n pos by simp
  then have load: "sedoric_load (Some (sd_data d)) = Some (raw_load (sd_data d))"
    "sd_sides (raw_load (sd_data d)) = (if n > 42 \<and> even n then 2 else 1)"
    "sd_tracks (raw_load (sd_data d)) = (if n > 42 \<and> even n then of_nat (n div 2) else of_nat n)"
    "sd_data (raw_load (sd_data d)) = sd_data d" "sd_size (raw_load (sd_data d)) = sd_size d"
    using magic data geo(3) by (simp_all add: sedoric_load_def raw_load_def Let_def even_iff_mod_2_eq_zero)
  have "(sd_tracks (raw_load (sd_data d)), sd_sides (raw_load (sd_data d))) = (sd_tracks d, sd_sides d) \<longleftrightarrow>
      (if sides = 1 then unat tracks \<le> 42 \<or> odd (unat tracks) else unat tracks > 21)"
    using assms(3) n geo load(2,3) by (auto simp: not_le not_less)
  then show ?thesis unfolding saved load(1) using load(4,5) by blast
qed

theorem blank_disk_geometry_witness:
  "\<exists>d'. sedoric_load (fst (sedoric_save True (sedoric_create_blank 80 1))) = Some d' \<and>
     (sd_tracks d', sd_sides d') \<noteq> (80, 1)"
proof -
  have "sd_tracks (sedoric_create_blank 80 1) = 80" "sd_sides (sedoric_create_blank 80 1) = 1"
    by (simp_all add: sedoric_create_blank_def)
  then show ?thesis using blank_disk_geometry [where tracks = 80 and sides = 1] by auto
qed

theorem mfm_stays_in_bounds_witness:
  "case fst (sedoric_save True ((mfm_load (replicate 300 0))\<lparr>sd_data := replicate (sd_size (mfm_load (replicate 300 0))) 7\<rparr>)) of
     None \<Rightarrow> True | Some out \<Rightarrow> length out = 300"
  using mfm_stays_in_bounds [where raw = "replicate 300 0" and can_write = True
      and flat = "replicate (sd_size (mfm_load (replicate 300 0))) 7", OF length_replicate, THEN conjunct2, THEN conjunct2]
  by (simp only: length_replicate)

end
