(* ===== verification/Fdc_Safety.thy ===== *)
theory Fdc_Safety
  imports Fdc Sedoric_Properties
begin

unbundle bit_operations_syntax

text \<open>
  Memory safety of the disk controller: every access to a disk image goes through
  \<open>cur_sector_data\<close> and stays inside its sector, in every program of register accesses and cycles that
  does not format a track.
\<close>

section \<open>Frame rules\<close>

lemma frame_basic [simp]:
  "bufs (upd_fdc f s) = bufs s" "oob (upd_fdc f s) = oob s"
  "bufs (raise_sig g s) = bufs s" "oob (raise_sig g s) = oob s"
  "bufs (or_status m s) = bufs s" "oob (or_status m s) = oob s"
  "bufs (and_status m s) = bufs s" "oob (and_status m s) = oob s"
  "bufs (drop_drq hk s) = bufs s" "oob (drop_drq hk s) = oob s"
  "bufs (fdc_stream_drq hk s) = bufs s" "oob (fdc_stream_drq hk s) = oob s"
  by (simp_all add: upd_fdc_def raise_sig_def or_status_def and_status_def drop_drq_def fdc_stream_drq_def)

definition sizes :: "'u fdc_state \<Rightarrow> nat \<Rightarrow> nat" where
  "sizes s b = length (bufs s b)"

lemma sizes_basic [simp]:
  "sizes (upd_fdc f s) = sizes s" "sizes (raise_sig g s) = sizes s" "sizes (or_status m s) = sizes s"
  "sizes (and_status m s) = sizes s" "sizes (drop_drq hk s) = sizes s" "sizes (fdc_stream_drq hk s) = sizes s"
  by (simp_all add: sizes_def fun_eq_iff)

lemma sizes_put [simp]: "sizes (buf_put p i x s) = sizes s"
  by (auto simp: sizes_def buf_put_def fun_eq_iff split: option.split)

lemma sizes_get [simp]: "sizes (snd (buf_get p i s)) = sizes s"
  by (auto simp: sizes_def buf_get_def fun_eq_iff split: option.split)

lemma sizes_byte [simp]: "sizes (next_byte s) = sizes s" "sizes (store_byte x s) = sizes s"
  by (simp_all add: next_byte_def store_byte_def split_beta)

section \<open>The invariant\<close>

definition sector_op :: "fdc_op_t \<Rightarrow> bool" where
  "sector_op p \<longleftrightarrow> p = FDC_OP_READ_SECTOR \<or> p = FDC_OP_READ_SECTORS \<or> p = FDC_OP_WRITE_SECTOR \<or> p = FDC_OP_WRITE_SECTORS"

lemma sector_op_simps [simp]:
  "sector_op FDC_OP_READ_SECTOR" "sector_op FDC_OP_READ_SECTORS" "sector_op FDC_OP_WRITE_SECTOR"
  "sector_op FDC_OP_WRITE_SECTORS" "\<not> sector_op FDC_OP_NONE" "\<not> sector_op FDC_OP_READ_ADDRESS"
  "\<not> sector_op FDC_OP_READ_TRACK" "\<not> sector_op FDC_OP_WRITE_TRACK"
  by (simp_all add: sector_op_def)

text \<open>The image and the current sector lie inside their buffers.\<close>

definition media_ok :: "(nat \<Rightarrow> nat) \<Rightarrow> fdc_t \<Rightarrow> bool" where
  "media_ok L f \<longleftrightarrow> pred_option (\<lambda>b. unat (disk_size f) \<le> L b) (disk_data f) \<and>
     pred_option (\<lambda>(b, off). off + 256 \<le> L b) (cur_sector_data f)"

text \<open>Where a transfer stands in its sector.\<close>

definition place_ok :: "fdc_t \<Rightarrow> bool" where
  "place_ok f \<longleftrightarrow>
     (sector_op (currentop f) \<longrightarrow>
        cur_sector_len f = 256 \<and>
        (if stream f then timing_mode f = FDC_TIMING_REAL \<and> cur_sector_data f \<noteq> None \<and>
             (stream_crc f \<or> cur_offset f < 256 \<or> \<not> fdc_op_is_write (currentop f) \<and> cur_offset f = 256)
         else cur_offset f < 256)) \<and>
     (currentop f = FDC_OP_READ_ADDRESS \<longrightarrow> cur_offset f < 6) \<and> currentop f \<noteq> FDC_OP_WRITE_TRACK"

definition safe :: "'u fdc_state \<Rightarrow> bool" where
  "safe s \<longleftrightarrow> media_ok (sizes s) (fdc s) \<and> place_ok (fdc s) \<and> \<not> oob s"

text \<open>The disk server returns whole tracks.\<close>

definition whole_tracks :: "'u fdc_hooks \<Rightarrow> bool" where
  "whole_tracks hk \<longleftrightarrow> (\<forall>url off u. pred_option (\<lambda>raw. length raw = 6400) (fst (http_get hk url off u)))"

lemma get_in_bounds:
  "media_ok (sizes s) (fdc s) \<Longrightarrow> cur_sector_data (fdc s) = Some p \<Longrightarrow> i < 256 \<Longrightarrow>
     snd (buf_get (cur_sector_data (fdc s)) i s) = s"
  by (cases p) (simp add: buf_get_def media_ok_def sizes_def)

lemma put_in_bounds:
  "media_ok (sizes s) (fdc s) \<Longrightarrow> cur_sector_data (fdc s) = Some p \<Longrightarrow> i < 256 \<Longrightarrow>
     oob (buf_put (cur_sector_data (fdc s)) i x s) = oob s"
  by (cases p) (simp add: buf_put_def media_ok_def sizes_def)

section \<open>Sector search\<close>

lemma web_put_ok:
  assumes "media_ok (sizes s) (fdc s)" "length raw = 6400" "disk_data (fdc s) \<noteq> None"
  shows "sizes (web_put raw s) = sizes s" "oob (web_put raw s) = oob s"
proof -
  obtain b where b: "disk_data (fdc s) = Some b" using assms(3) by auto
  then have "unat (disk_size (fdc s)) \<le> length (bufs s b)" using assms(1) by (simp add: media_ok_def sizes_def)
  then show "sizes (web_put raw s) = sizes s" "oob (web_put raw s) = oob s"
    using b assms(2) by (auto simp: web_put_def Let_def sedoric_mfm_extract_track_def length_extract sizes_def fun_eq_iff)
qed

lemma web_ensure_ok:
  assumes "whole_tracks hk" "media_ok (sizes s) (fdc s)" "disk_data (fdc s) \<noteq> None"
  shows "sizes (fdc_web_ensure_track hk sd tr s) = sizes s" "oob (fdc_web_ensure_track hk sd tr s) = oob s"
proof -
  have u: "sizes (s\<lparr>fuser := u\<rparr>) = sizes s" for u by (simp add: sizes_def fun_eq_iff)
  have raw: "length raw = 6400" if "fst (http_get hk url off v) = Some raw" for url off v raw
    using assms(1) that unfolding whole_tracks_def by (metis option.pred_inject(2))
  show "sizes (fdc_web_ensure_track hk sd tr s) = sizes s"
    using assms(2,3) raw web_put_ok(1) [of "s\<lparr>fuser := _\<rparr>"]
    by (auto simp: fdc_web_ensure_track_def Let_def split_beta u split: option.split)
  show "oob (fdc_web_ensure_track hk sd tr s) = oob s"
    using assms(2,3) raw web_put_ok(2) [of "s\<lparr>fuser := _\<rparr>"]
    by (auto simp: fdc_web_ensure_track_def Let_def split_beta u split: option.split)
qed

lemma find_sector_ok:
  assumes "whole_tracks hk" "media_ok (sizes s) (fdc s)"
  shows "sizes (snd (fdc_find_sector hk i s)) = sizes s" "oob (snd (fdc_find_sector hk i s)) = oob s"
    "pred_option (\<lambda>(b, off). off + 256 \<le> sizes s b) (fst (fdc_find_sector hk i s))"
  using assms web_ensure_ok [of hk s]
  by (auto simp: fdc_find_sector_def Let_def media_ok_def split: option.split)

lemma load_sector_ok:
  assumes "whole_tracks hk" "media_ok (sizes s) (fdc s)"
  shows "sizes (load_sector hk i s) = sizes s" "oob (load_sector hk i s) = oob s"
    "media_ok (sizes s) (fdc (load_sector hk i s))"
  using assms find_sector_ok [OF assms, of i]
  by (simp_all add: load_sector_def split_beta) (simp_all add: media_ok_def)

section \<open>Operations\<close>

lemma media_keep:
  "disk_data g = disk_data f \<Longrightarrow> disk_size g = disk_size f \<Longrightarrow> cur_sector_data g = cur_sector_data f \<Longrightarrow>
     media_ok L g = media_ok L f"
  by (simp add: media_ok_def)

lemma media_upd [simp]:
  "media_ok L (f\<lparr>cur_sector_data := None\<rparr>) = pred_option (\<lambda>b. unat (disk_size f) \<le> L b) (disk_data f)"
  by (simp add: media_ok_def)

lemma media_image: "media_ok L f \<Longrightarrow> pred_option (\<lambda>b. unat (disk_size f) \<le> L b) (disk_data f)"
  by (simp add: media_ok_def)

lemma place_idle: "currentop f = FDC_OP_NONE \<or> currentop f = FDC_OP_READ_TRACK \<Longrightarrow> place_ok f"
  by (auto simp: place_ok_def sector_op_def)

lemma streamed_alt: "fdc_streamed f \<longleftrightarrow> timing_mode f = FDC_TIMING_REAL \<and> sector_op (currentop f)"
  by (auto simp: fdc_streamed_def sector_op_def)

lemma place_sector:
  assumes "sector_op (currentop f)"
  shows "place_ok f \<longleftrightarrow> cur_sector_len f = 256 \<and>
     (if stream f then timing_mode f = FDC_TIMING_REAL \<and> cur_sector_data f \<noteq> None \<and>
        (stream_crc f \<or> cur_offset f < 256 \<or> \<not> fdc_op_is_write (currentop f) \<and> cur_offset f = 256)
      else cur_offset f < 256)"
  using assms by (auto simp: place_ok_def)

lemma safeI:
  assumes "safe s" "sizes t = sizes s" "oob t = oob s" "disk_data (fdc t) = disk_data (fdc s)"
    "disk_size (fdc t) = disk_size (fdc s)" "cur_sector_data (fdc t) = cur_sector_data (fdc s)" "place_ok (fdc t)"
  shows "safe t"
  using assms media_keep [of "fdc t" "fdc s"] by (simp add: safe_def)

lemma plain_safe:
  assumes "safe s" "\<And>f. disk_data (g f) = disk_data f \<and> disk_size (g f) = disk_size f \<and>
      cur_sector_data (g f) = cur_sector_data f \<and> (place_ok f \<longrightarrow> place_ok (g f))"
  shows "safe (upd_fdc g s)"
  using assms by (intro safeI [OF assms(1)]) (simp_all add: safe_def)

lemma sig_safe [simp]: "safe (raise_sig g s) = safe s"
  by (simp add: safe_def)

lemma drop_safe [simp]: "safe (drop_drq hk s) = safe s" "safe (fdc_stream_drq hk s) = safe s"
  "safe (or_status m s) = safe s" "safe (and_status m s) = safe s"
  by (simp_all add: safe_def media_ok_def place_ok_def)

text \<open>Updates that the invariant does not read.\<close>

lemma plain_upd [simp]:
  "safe (upd_fdc (\<lambda>f. f\<lparr>stream_due := g f\<rparr>) s) = safe s" "safe (upd_fdc (\<lambda>f. f\<lparr>delayed_drq := g f\<rparr>) s) = safe s"
  "safe (upd_fdc (\<lambda>f. f\<lparr>delayed_int := g f\<rparr>) s) = safe s" "safe (upd_fdc (\<lambda>f. f\<lparr>rot_pos := h f\<rparr>) s) = safe s"
  "safe (upd_fdc (\<lambda>f. f\<lparr>sec_type := k f\<rparr>) s) = safe s" "safe (upd_fdc (\<lambda>f. f\<lparr>fd_status := k f\<rparr>) s) = safe s"
  "safe (upd_fdc (\<lambda>f. f\<lparr>fd_data := k f\<rparr>) s) = safe s" "safe (upd_fdc (\<lambda>f. f\<lparr>fd_sector := k f\<rparr>) s) = safe s"
  "safe (upd_fdc (\<lambda>f. f\<lparr>fd_track := k f\<rparr>) s) = safe s" "safe (upd_fdc (\<lambda>f. f\<lparr>status_type1 := l f\<rparr>) s) = safe s"
  "safe (upd_fdc (\<lambda>f. f\<lparr>fd_direction := k f\<rparr>) s) = safe s" "safe (upd_fdc (\<lambda>f. f\<lparr>fd_side := k f\<rparr>) s) = safe s"
  "safe (upd_fdc (\<lambda>f. f\<lparr>disk_modified := l f\<rparr>) s) = safe s" "safe (upd_fdc fire_int s) = safe s" "safe (upd_fdc fire_drq s) = safe s"
  "safe (upd_fdc (tick_lost n) s) = safe s"
  by (simp_all add: safe_def media_ok_def place_ok_def fire_int_def fire_drq_def tick_lost_def Let_def)

text \<open>After the end of a sector: the next one, or no operation.\<close>

lemma sector_done_safe:
  assumes "whole_tracks hk" "media_ok (sizes s) (fdc s)" "\<not> oob s" "cur_sector_len (fdc s) = 256"
    "sector_op (currentop (fdc s))"
  shows "safe (fdc_stream_sector_done hk s)"
proof -
  define s1 where "s1 = drop_drq hk (upd_fdc (\<lambda>f. f\<lparr>stream := False, stream_crc := False\<rparr>) s)"
  define s2 where "s2 = upd_fdc (\<lambda>f. f\<lparr>fd_sector := fd_sector f + 1, cur_offset := 0\<rparr>) s1"
  define s3 where "s3 = load_sector hk (fd_sector (fdc s2)) s2"
  have m1: "media_ok (sizes s1) (fdc s1)" "media_ok (sizes s2) (fdc s2)"
    using assms(2) by (simp_all add: s1_def s2_def media_ok_def)
  note l = load_sector_ok [OF assms(1) m1(2), of "fd_sector (fdc s2)", folded s3_def]
  have f1: "\<not> oob s1" "\<not> oob s3" "sizes s1 = sizes s" "sizes s3 = sizes s" using assms(3) l(1,2) by (simp_all add: s1_def s2_def)
  have f3: "cur_sector_len (fdc s3) = 256" "currentop (fdc s3) = currentop (fdc s)" "\<not> stream (fdc s3)" "cur_offset (fdc s3) = 0"
    using assms(4) by (simp_all add: s3_def s2_def s1_def)
  have fin: "safe (upd_fdc (\<lambda>f. f\<lparr>di_status := x, currentop := FDC_OP_NONE, delayed_int := 1\<rparr>) t)"
    if "media_ok (sizes t) (fdc t)" "\<not> oob t" for x t
    using that by (simp add: safe_def place_idle) (simp add: media_ok_def)
  have go: "safe (upd_fdc (\<lambda>f. f\<lparr>delayed_drq := fdc_rot_wait (fd_sector f) f\<rparr>) s3)"
    using f1 f3 l(1,3) assms(5) by (auto simp: safe_def place_ok_def media_ok_def sector_op_def)
  show ?thesis
    using fin [OF m1(1) f1(1)] fin [of s3] f1(2) l(1,3) go
    by (simp add: fdc_stream_sector_done_def Let_def s1_def [symmetric] s2_def [symmetric] s3_def [symmetric])
qed

lemma lost_sel [simp]:
  "disk_data (fdc_stream_lost f) = disk_data f" "disk_size (fdc_stream_lost f) = disk_size f"
  "cur_sector_data (fdc_stream_lost f) = cur_sector_data f" "cur_sector_len (fdc_stream_lost f) = cur_sector_len f"
  "cur_offset (fdc_stream_lost f) = cur_offset f" "currentop (fdc_stream_lost f) = currentop f"
  "stream_crc (fdc_stream_lost f) = stream_crc f" "timing_mode (fdc_stream_lost f) = timing_mode f"
  "media_ok L (fdc_stream_lost f) = media_ok L f" "place_ok (fdc_stream_lost f) = place_ok f"
  by (simp_all add: fdc_stream_lost_def media_ok_def place_ok_def)

lemma small_offset: "c < 256 \<Longrightarrow> unat c < 256 \<and> c + 1 \<le> 256 \<and> (c + 1 = 256 \<or> c + 1 < 256)" for c :: u16
  by (simp add: word_less_nat_alt word_le_nat_alt unat_word_ariths word_unat_eq_iff) linarith

lemma next_byte_ok:
  assumes "safe s" "cur_sector_data (fdc s) \<noteq> None" "cur_offset (fdc s) < 256"
  shows "oob (next_byte s) = oob s"
proof -
  obtain p where "cur_sector_data (fdc s) = Some p" using assms(2) by auto
  then show ?thesis
    using get_in_bounds [of s p "unat (cur_offset (fdc s))"] assms small_offset [OF assms(3)]
    by (simp add: next_byte_def split_beta safe_def)
qed

lemma store_byte_ok:
  assumes "safe s" "cur_sector_data (fdc s) \<noteq> None" "cur_offset (fdc s) < 256"
  shows "oob (store_byte x s) = oob s"
proof -
  obtain p where "cur_sector_data (fdc s) = Some p" using assms(2) by auto
  then show ?thesis
    using put_in_bounds [of s p "unat (cur_offset (fdc s))" x] assms small_offset [OF assms(3)]
    by (simp add: store_byte_def safe_def)
qed

lemma lost_safe [simp]: "safe (upd_fdc fdc_stream_lost s) = safe s"
  by (simp add: safe_def)

lemma stream_write_safe:
  assumes "whole_tracks hk" "safe s" "stream (fdc s)" "\<not> stream_crc (fdc s)" "sector_op (currentop (fdc s))"
    "fdc_op_is_write (currentop (fdc s))"
  shows "safe (stream_write_step hk s)"
proof -
  have p: "cur_sector_len (fdc s) = 256" "cur_sector_data (fdc s) \<noteq> None" "cur_offset (fdc s) < 256"
    "timing_mode (fdc s) = FDC_TIMING_REAL"
    using assms by (auto simp: safe_def place_ok_def)
  define s1 where "s1 = (if fd_status (fdc s) AND FDC_ST_DRQ = 0 then s else upd_fdc fdc_stream_lost s)"
  have s1: "safe s1" "sizes s1 = sizes s" "oob s1 = oob s" "cur_sector_data (fdc s1) = cur_sector_data (fdc s)"
    "cur_offset (fdc s1) = cur_offset (fdc s)" "cur_sector_len (fdc s1) = 256" "currentop (fdc s1) = currentop (fdc s)"
    "stream (fdc s1)" "timing_mode (fdc s1) = FDC_TIMING_REAL"
    using assms p by (simp_all add: s1_def)
  have st: "oob (store_byte x s1) = oob s1" for x
    using store_byte_ok s1 p by metis
  have a: "safe (store_byte x s1)" if "cur_offset (fdc (store_byte x s1)) < 256" for x
    using that s1 st p assms(5,6) by (intro safeI [OF s1(1)]) (simp_all add: place_sector)
  have b: "safe (upd_fdc (\<lambda>f. f\<lparr>stream_crc := True, stream_due := stream_due f + d\<rparr>) (drop_drq hk (store_byte x s1)))" for d x
    using s1 st p assms(5) by (intro safeI [OF s1(1)]) (simp_all add: place_sector)
  have c: "safe (fdc_stream_sector_done hk (upd_fdc (\<lambda>f. f\<lparr>currentop := (if currentop f = FDC_OP_WRITE_SECTORS
      then FDC_OP_WRITE_SECTOR else currentop f)\<rparr>)
      (drop_drq hk (upd_fdc (\<lambda>f. (fdc_stream_lost f)\<lparr>cur_offset := cur_sector_len f\<rparr>) s))))"
    using assms(2,5) p by (intro sector_done_safe assms(1)) (auto simp: safe_def media_ok_def sector_op_def)
  show ?thesis
    using a b [of 64] c p(1) s1(6)
    by (simp add: stream_write_step_def Let_def s1_def [symmetric])
qed

lemma stream_read_safe:
  assumes "safe s" "stream (fdc s)" "\<not> stream_crc (fdc s)" "sector_op (currentop (fdc s))"
    "\<not> fdc_op_is_write (currentop (fdc s))"
  shows "safe (stream_read_step hk s)"
proof -
  have p: "cur_sector_len (fdc s) = 256" "cur_sector_data (fdc s) \<noteq> None" "timing_mode (fdc s) = FDC_TIMING_REAL"
    using assms by (auto simp: safe_def place_ok_def)
  define s1 where "s1 = (if fd_status (fdc s) AND FDC_ST_DRQ \<noteq> 0 then upd_fdc fdc_stream_lost s else s)"
  have s1: "safe s1" "cur_sector_data (fdc s1) = cur_sector_data (fdc s)"
    "cur_offset (fdc s1) = cur_offset (fdc s)" "cur_sector_len (fdc s1) = 256" "currentop (fdc s1) = currentop (fdc s)"
    "stream (fdc s1)" "timing_mode (fdc s1) = FDC_TIMING_REAL"
    using assms p by (simp_all add: s1_def)
  show ?thesis
  proof (cases "cur_offset (fdc s) < 256")
    case True
    have "oob (next_byte s1) = oob s1" using next_byte_ok s1 p True by metis
    then have "safe (next_byte s1)"
      using s1 p assms(4,5) small_offset [OF True]
      by (intro safeI [OF s1(1)]) (auto simp: place_sector)
    then show ?thesis using True p(1) by (simp add: stream_read_step_def Let_def s1_def [symmetric])
  next
    case False
    have "safe (upd_fdc (\<lambda>f. f\<lparr>stream_crc := True, stream_due := stream_due f + FDC_BYTE_CYCLES\<rparr>) s)"
      using assms p by (intro safeI [OF assms(1)]) (simp_all add: place_sector)
    then show ?thesis using False p(1) by (simp add: stream_read_step_def)
  qed
qed

lemma stream_step_safe:
  assumes "whole_tracks hk" "safe s" "stream (fdc s)" "sector_op (currentop (fdc s))"
  shows "safe (fdc_stream_step hk s)"
proof (cases "stream_crc (fdc s)")
  case True
  have "cur_sector_len (fdc s) = 256" using assms by (auto simp: safe_def place_ok_def)
  then have "safe (fdc_stream_sector_done hk s)" "safe (fdc_stream_sector_done hk (upd_fdc fdc_stream_lost s))"
    using assms by (simp_all add: sector_done_safe safe_def [of s])
  then show ?thesis using True by (simp add: fdc_stream_step_def)
next
  case False
  then show ?thesis using assms by (simp add: fdc_stream_step_def stream_write_safe stream_read_safe)
qed

text \<open>While bytes stream, the operation is a sector transfer.\<close>

lemma stream_step_op:
  assumes "stream (fdc (fdc_stream_step hk s))" "sector_op (currentop (fdc s))"
  shows "sector_op (currentop (fdc (fdc_stream_step hk s)))"
  using assms
  by (auto simp: fdc_stream_step_def stream_write_step_def stream_read_step_def Let_def split: if_splits)

lemma stream_loop_safe:
  assumes "whole_tracks hk" "safe s" "stream (fdc s) \<Longrightarrow> sector_op (currentop (fdc s))"
  shows "safe (stream_loop hk s)"
  using assms
proof (induction hk s rule: stream_loop.induct)
  case (1 hk s)
  show ?case
  proof (cases "stream (fdc s) \<and> stream_due (fdc s) \<le> 0")
    case True
    then have "safe (fdc_stream_step hk s)" using 1(2-4) by (intro stream_step_safe) auto
    then have "safe (stream_loop hk (fdc_stream_step hk s))"
      using 1 True stream_step_op [of hk s] by auto
    then show ?thesis using True by (subst stream_loop.simps) simp
  next
    case False
    then have "stream_loop hk s = s" by (subst stream_loop.simps) (simp only: if_False)
    then show ?thesis using 1 by simp
  qed
qed

section \<open>Time\<close>

lemma stream_start_safe:
  assumes "safe s" "sector_op (currentop (fdc s))" "cur_sector_data (fdc s) \<noteq> None" "timing_mode (fdc s) = FDC_TIMING_REAL"
  shows "safe (fdc_stream_start hk s)" "sector_op (currentop (fdc (fdc_stream_start hk s)))"
proof -
  have len: "cur_sector_len (fdc s) = 256" using assms by (simp add: safe_def place_ok_def)
  define s1 where "s1 = upd_fdc (\<lambda>f. f\<lparr>stream := True, stream_crc := False, cur_offset := 0\<rparr>) s"
  have s1: "safe s1" using assms len by (intro safeI [OF assms(1)]) (simp_all add: s1_def place_sector)
  have nb: "oob (next_byte (upd_fdc (\<lambda>f. f\<lparr>sec_type := 0\<rparr>) s1)) = oob s1"
  proof -
    have "safe (upd_fdc (\<lambda>f. f\<lparr>sec_type := 0\<rparr>) s1)"
      using assms len by (intro safeI [OF s1]) (simp_all add: s1_def place_sector)
    then show ?thesis using assms(3) by (subst next_byte_ok) (simp_all add: s1_def)
  qed
  have "safe (next_byte (upd_fdc (\<lambda>f. f\<lparr>sec_type := 0\<rparr>) s1))"
    using assms len nb by (intro safeI [OF s1]) (simp_all add: s1_def place_sector)
  with s1 show "safe (fdc_stream_start hk s)"
    by (simp add: fdc_stream_start_def Let_def s1_def [symmetric])
  show "sector_op (currentop (fdc (fdc_stream_start hk s)))"
    using assms(2) by (simp add: fdc_stream_start_def Let_def)
qed

lemma tick_int_safe: "safe s \<Longrightarrow> safe (tick_int hk n s)"
  by (simp add: tick_int_def Let_def)

lemma tick_drq_safe:
  assumes "safe s"
  shows "safe (tick_drq hk n s)"
proof -
  have "safe (fdc_stream_start hk t)" if "safe t" "fdc_streamed (fdc t)" "cur_sector_data (fdc t) \<noteq> None" for t
    using that by (intro stream_start_safe(1)) (auto simp: streamed_alt)
  then show ?thesis using assms by (simp add: tick_drq_def Let_def)
qed

lemma ticktock_safe:
  assumes "whole_tracks hk" "safe s"
  shows "safe (fdc_ticktock hk n s)"
proof -
  define s1 where "s1 = upd_fdc (\<lambda>f. f\<lparr>rot_pos := (rot_pos f + of_nat n) mod FDC_REV_CYCLES\<rparr>) s"
  define s2 where "s2 = tick_drq hk n (tick_int hk n s1)"
  have "safe s1" using assms(2) by (simp add: s1_def)
  then have s2: "safe s2" by (simp add: s2_def tick_drq_safe tick_int_safe)
  have "safe (upd_fdc (\<lambda>f. tick_lost n (f\<lparr>stream := False\<rparr>)) s2)" if "\<not> fdc_streamed (fdc s2)" "stream (fdc s2)"
  proof -
    have "\<not> sector_op (currentop (fdc s2))"
      using that s2 by (auto simp: streamed_alt safe_def place_sector)
    then have "safe (upd_fdc (\<lambda>f. f\<lparr>stream := False\<rparr>) s2)"
      using s2 by (intro safeI [OF s2]) (simp_all add: safe_def place_ok_def)
    then have "safe (upd_fdc (tick_lost n) (upd_fdc (\<lambda>f. f\<lparr>stream := False\<rparr>) s2))" by simp
    then show ?thesis by (simp add: upd_fdc_def)
  qed
  moreover have "safe (stream_loop hk (upd_fdc (\<lambda>f. f\<lparr>stream_due := stream_due f - int n\<rparr>) s2))" if "fdc_streamed (fdc s2)"
    using that s2 assms(1)
    by (intro stream_loop_safe) (auto simp: streamed_alt)
  ultimately show ?thesis
    using s2 by (simp add: fdc_ticktock_def Let_def s1_def [symmetric] s2_def [symmetric])
qed

section \<open>Register accesses\<close>

lemma not_None_ex: "x \<noteq> None \<Longrightarrow> \<exists>p. x = Some p"
  by simp

text \<open>After a byte of a transfer paced by the CPU.\<close>

lemma next_sector_safe:
  assumes "whole_tracks hk" "media_ok (sizes s) (fdc s)" "\<not> oob s" "cur_sector_len (fdc s) = 256"
    "sector_op (currentop (fdc s))" "\<not> stream (fdc s)"
  shows "safe (next_sector hk multi s)"
proof (cases "cur_offset (fdc s) \<ge> cur_sector_len (fdc s)")
  case True
  define s1 where "s1 = upd_fdc (\<lambda>f. f\<lparr>fd_sector := fd_sector f + 1, cur_offset := 0\<rparr>) s"
  define s2 where "s2 = load_sector hk (fd_sector (fdc s1)) s1"
  have m1: "media_ok (sizes s1) (fdc s1)" using assms(2) by (simp add: s1_def media_ok_def)
  note l = load_sector_ok [OF assms(1) m1, of "fd_sector (fdc s1)", folded s2_def]
  have s2: "\<not> oob s2" "sizes s2 = sizes s1" "media_ok (sizes s2) (fdc s2)" "cur_sector_len (fdc s2) = 256"
    "currentop (fdc s2) = currentop (fdc s)" "\<not> stream (fdc s2)" "cur_offset (fdc s2) = 0"
    using l assms(3,4,6) by (simp_all add: s1_def s2_def)
  have "safe s2"
    using s2 assms(5) by (simp add: safe_def place_sector)
  moreover have "safe (upd_fdc (\<lambda>f. f\<lparr>delayed_int := 20, di_status := g f, currentop := FDC_OP_NONE\<rparr>) s2)"
    "safe (upd_fdc (\<lambda>f. f\<lparr>delayed_int := 32, di_status := g f, currentop := FDC_OP_NONE\<rparr>) s)" for g
    using s2 assms(2,3) by (simp_all add: safe_def place_idle media_ok_def)
  ultimately show ?thesis
    using True by (simp add: next_sector_def Let_def s1_def [symmetric] s2_def [symmetric])
next
  case False
  then have "safe s" using assms by (simp add: safe_def place_sector)
  then show ?thesis using False by (simp add: next_sector_def)
qed

lemma no_sector_safe: "safe s \<Longrightarrow> safe (no_sector hk s)"
  by (rule safeI) (simp_all add: no_sector_def place_idle)

lemma read_sector_data_safe:
  assumes "whole_tracks hk" "safe s" "sector_op (currentop (fdc s))"
  shows "safe (read_sector_data hk s)"
proof (cases "cur_sector_data (fdc s) = None \<or> stream (fdc s)")
  case True
  then show ?thesis using assms(2) by (auto simp: read_sector_data_def no_sector_safe)
next
  case False
  define s1 where "s1 = (if cur_offset (fdc s) = 0 then upd_fdc (\<lambda>f. f\<lparr>sec_type := 0\<rparr>) s else s)"
  have s1: "safe s1" "cur_sector_data (fdc s1) = cur_sector_data (fdc s)" "cur_offset (fdc s1) = cur_offset (fdc s)"
    "currentop (fdc s1) = currentop (fdc s)" "cur_sector_len (fdc s1) = cur_sector_len (fdc s)" "stream (fdc s1) = stream (fdc s)"
    using assms(2) by (simp_all add: s1_def)
  have p: "cur_sector_len (fdc s) = 256" "cur_offset (fdc s) < 256"
    using False assms by (auto simp: safe_def place_sector)
  have nb: "oob (next_byte s1) = oob s1" using s1 p False by (intro next_byte_ok) auto
  have "safe (next_sector hk FDC_OP_READ_SECTORS (drop_drq hk (next_byte s1)))"
    using assms(1,3) s1 p nb False by (intro next_sector_safe) (simp_all add: safe_def media_ok_def)
  then show ?thesis using False by (auto simp: read_sector_data_def Let_def s1_def [symmetric])
qed

lemma write_sector_data_safe:
  assumes "whole_tracks hk" "safe s" "sector_op (currentop (fdc s))"
  shows "safe (write_sector_data hk x s)"
proof (cases "cur_sector_data (fdc s) = None \<or> stream (fdc s)")
  case True
  then show ?thesis using assms(2) by (auto simp: write_sector_data_def no_sector_safe)
next
  case False
  have p: "cur_sector_len (fdc s) = 256" "cur_offset (fdc s) < 256"
    using False assms by (auto simp: safe_def place_sector)
  have sb: "oob (store_byte x s) = oob s" using assms(2) p False by (intro store_byte_ok) auto
  have "safe (next_sector hk FDC_OP_WRITE_SECTORS (drop_drq hk (store_byte x s)))"
    using assms p sb False by (intro next_sector_safe) (simp_all add: safe_def media_ok_def)
  then show ?thesis using False by (auto simp: write_sector_data_def)
qed

lemma read_address_data_safe:
  assumes "safe s" "currentop (fdc s) = FDC_OP_READ_ADDRESS"
  shows "safe (read_address_data hk s)"
proof -
  have o6: "cur_offset (fdc s) < 6" using assms by (simp add: safe_def place_ok_def)
  then have "unat (cur_offset (fdc s)) < 6" by (simp add: word_less_nat_alt)
  then have "sizes (read_address_data hk s) = sizes s" "oob (read_address_data hk s) = oob s"
    "disk_data (fdc (read_address_data hk s)) = disk_data (fdc s)" "disk_size (fdc (read_address_data hk s)) = disk_size (fdc s)"
    "cur_sector_data (fdc (read_address_data hk s)) = cur_sector_data (fdc s)" "place_ok (fdc (read_address_data hk s))"
    using assms(2) o6 by (simp_all add: read_address_data_def Let_def place_ok_def not_le)
  then show ?thesis using assms(1) by (intro safeI [OF assms(1)])
qed

lemma read_safe:
  assumes "whole_tracks hk" "safe s"
  shows "safe (snd (fdc_read hk r s))"
  using assms read_sector_data_safe [OF assms] read_address_data_safe [OF assms(2)]
  by (auto simp: fdc_read_def Let_def sector_op_def)

text \<open>Between the parts of a command: the memory part of the invariant.\<close>

definition mem_ok :: "'u fdc_state \<Rightarrow> bool" where
  "mem_ok s \<longleftrightarrow> media_ok (sizes s) (fdc s) \<and> \<not> oob s"

lemma mem_safe: "safe s \<longleftrightarrow> mem_ok s \<and> place_ok (fdc s)"
  by (auto simp: safe_def mem_ok_def)

lemma mem_basic [simp]: "mem_ok (raise_sig g s) = mem_ok s" "mem_ok (type1 x s) = mem_ok s" "mem_ok (end_op s) = mem_ok s"
  by (simp_all add: mem_ok_def type1_def end_op_def media_ok_def)

lemma mem_upd [simp]:
  "(\<And>f. disk_data (g f) = disk_data f \<and> disk_size (g f) = disk_size f \<and> cur_sector_data (g f) = cur_sector_data f) \<Longrightarrow>
     mem_ok (upd_fdc g s) = mem_ok s"
  by (simp add: mem_ok_def media_ok_def)

lemma seek_mem: "mem_ok s \<Longrightarrow> mem_ok (fdc_seek_track hk tg c u s)"
  by (simp add: fdc_seek_track_def Let_def)

lemma end_op_safe: "mem_ok s \<Longrightarrow> safe (end_op s)"
  by (simp add: mem_safe) (simp add: end_op_def place_idle)

lemma refuse_safe: "mem_ok s \<Longrightarrow> safe (refuse hk st s)"
  by (simp add: mem_safe refuse_def place_idle)

lemma not_found_safe: "mem_ok s \<Longrightarrow> safe (fdc_record_not_found hk s)"
  by (simp add: mem_safe fdc_record_not_found_def Let_def place_idle)

lemma load_mem: "whole_tracks hk \<Longrightarrow> mem_ok s \<Longrightarrow> mem_ok (load_sector hk i s)"
  using load_sector_ok [of hk s i] by (simp add: mem_ok_def)

lemma start_sector_safe:
  assumes "whole_tracks hk" "mem_ok s" "\<not> stream (fdc s)" "sector_op single" "sector_op multi"
  shows "safe (start_sector hk x fast single multi s)"
proof -
  define s1 where "s1 = load_sector hk (fd_sector (fdc s)) (upd_fdc (\<lambda>f. f\<lparr>cur_offset := 0\<rparr>) s)"
  have s1: "mem_ok s1" "\<not> stream (fdc s1)" "cur_offset (fdc s1) = 0"
    using assms(1-3) by (simp_all add: s1_def load_mem)
  have "safe (upd_fdc (\<lambda>f. f\<lparr>cur_sector_len := 256, fd_status := FDC_ST_BUSY OR FDC_ST_NOT_READY, delayed_drq := g f,
      currentop := (if x AND 0x10 \<noteq> 0 then multi else single)\<rparr>) s1)" for g
    using s1 assms(4,5) by (simp add: mem_safe place_sector)
  then show ?thesis
    using s1(1) by (simp add: start_sector_def Let_def s1_def [symmetric] not_found_safe)
qed

lemma read_address_safe:
  assumes "whole_tracks hk" "mem_ok s" "\<not> stream (fdc s)"
  shows "safe (cmd_read_address hk s)"
proof -
  define s1 where "s1 = load_sector hk 1 (upd_fdc (\<lambda>f. f\<lparr>cur_offset := 0\<rparr>) (upd_fdc (\<lambda>f. f\<lparr>status_type1 := False\<rparr>) s))"
  have s1: "mem_ok s1" "cur_offset (fdc s1) = 0"
    using assms by (simp_all add: s1_def load_mem)
  then have "place_ok ((fdc s1)\<lparr>fd_status := a, delayed_drq := b, currentop := FDC_OP_READ_ADDRESS\<rparr>)"
    "place_ok ((fdc s1)\<lparr>fd_status := a, currentop := FDC_OP_READ_ADDRESS\<rparr>)" for a b
    by (simp_all add: place_ok_def)
  then show ?thesis
    using s1(1) assms(2)
    by (simp add: cmd_read_address_def Let_def s1_def [symmetric] fdc_not_ready_def refuse_safe not_found_safe)
      (simp add: mem_safe)
qed

text \<open>How the command groups overlap.\<close>

definition command_groups :: "u8 \<Rightarrow> bool" where
  "command_groups x \<longleftrightarrow>
     (if x AND 0xF0 = 0xD0 then x AND 0xE0 = 0xC0 \<and> x AND 0x10 \<noteq> 0
      else if x AND 0xF0 = 0xF0 then True
      else x AND 0xE0 = 0xE0 \<longrightarrow> x AND 0x10 = 0) \<and>
     (x AND 0xE0 \<in> {0x00, 0x20, 0x40, 0x60, 0x80, 0xA0, 0xC0, 0xE0})"

lemma command_groups_all: "command_groups x"
proof -
  have bits: "x AND 0x80 = (if bit x 7 then 0x80 else 0)" "x AND 0x40 = (if bit x 6 then 0x40 else 0)"
    "x AND 0x20 = (if bit x 5 then 0x20 else 0)" "x AND 0x10 = (if bit x 4 then 0x10 else 0)"
    using and_exp_bit [of x 7] and_exp_bit [of x 6] and_exp_bit [of x 5] and_exp_bit [of x 4] by simp_all
  have e: "x AND 0xE0 = (x AND 0x80) OR (x AND 0x40) OR (x AND 0x20)"
    "x AND 0xF0 = (x AND 0x80) OR (x AND 0x40) OR (x AND 0x20) OR (x AND 0x10)"
    by (simp_all flip: bit.conj_disj_distrib)
  show ?thesis
    unfolding command_groups_def e bits by simp
qed

text \<open>Every command but Write Track.\<close>

lemma command_safe:
  assumes "whole_tracks hk" "safe s" "x AND 0xF0 \<noteq> 0xF0"
  shows "safe (fdc_command hk x s)"
proof -
  define s1 where "s1 = (if x AND 0xF0 \<noteq> 0xD0 then upd_fdc (\<lambda>f. f\<lparr>stream := False, stream_crc := False\<rparr>)
      (raise_sig (clr_intrq hk) s) else raise_sig (clr_intrq hk) s)"
  have m: "mem_ok s1" using assms(2) by (simp add: s1_def mem_safe)
  have st: "\<not> stream (fdc s1)" if "x AND 0xF0 \<noteq> 0xD0" using that by (simp add: s1_def)
  note g = command_groups_all [of x, unfolded command_groups_def]
  have typeI: "safe (cmd_restore_seek hk x s1)" "safe (cmd_step hk x s1)" "safe (cmd_step_in hk x s1)" "safe (cmd_step_out hk x s1)"
    using m by (simp_all add: cmd_restore_seek_def cmd_step_def cmd_step_in_def cmd_step_out_def Let_def end_op_safe seek_mem)
  have typeII: "safe (cmd_read_sector hk x s1)" "safe (cmd_write_sector hk x s1)" if "x AND 0xF0 \<noteq> 0xD0"
    using m st [OF that] assms(1)
    by (simp_all add: cmd_read_sector_def cmd_write_sector_def Let_def fdc_not_ready_def fdc_write_protected_def refuse_safe
        start_sector_safe)
  have force: "safe (cmd_force_interrupt hk x s1)"
    using m by (simp add: cmd_force_interrupt_def Let_def mem_safe place_idle)
  have trk: "safe (cmd_track hk x s1)" if "x AND 0x10 = 0"
    using m that by (simp add: cmd_track_def Let_def fdc_not_ready_def refuse_safe) (simp add: mem_safe place_idle)
  show ?thesis
    using g assms(1,3) m st typeI typeII force trk read_address_safe [of hk s1]
    by (simp add: fdc_command_def Let_def s1_def [symmetric]) (auto split: if_splits)
qed

lemma write_safe:
  assumes "whole_tracks hk" "safe s" "r AND 3 = 0 \<Longrightarrow> x AND 0xF0 \<noteq> 0xF0"
  shows "safe (fdc_write hk r x s)"
proof -
  have "safe (upd_fdc (\<lambda>f. f\<lparr>fd_data := x\<rparr>) s)" using assms(2) by simp
  moreover have "currentop (fdc s) \<noteq> FDC_OP_WRITE_TRACK" using assms(2) by (simp add: safe_def place_ok_def)
  ultimately show ?thesis
    using assms write_sector_data_safe [OF assms(1), of "upd_fdc (\<lambda>f. f\<lparr>fd_data := x\<rparr>) s" x]
    by (auto simp: fdc_write_def Let_def command_safe sector_op_def)
qed

section \<open>Programs\<close>

datatype fdc_op = Fo_read u8 | Fo_write u8 u8 | Fo_cycles nat | Fo_side u8 | Fo_reset | Fo_protect bool

fun fdc_apply :: "'u fdc_hooks \<Rightarrow> fdc_op \<Rightarrow> 'u fdc_state \<Rightarrow> 'u fdc_state" where
  "fdc_apply hk (Fo_read r) s = snd (fdc_read hk r s)"
| "fdc_apply hk (Fo_write r x) s = fdc_write hk r x s"
| "fdc_apply hk (Fo_cycles n) s = fdc_ticktock hk n s"
| "fdc_apply hk (Fo_side x) s = upd_fdc (\<lambda>f. f\<lparr>fd_side := x\<rparr>) s"
| "fdc_apply hk Fo_reset s = upd_fdc fdc_reset s"
| "fdc_apply hk (Fo_protect b) s = upd_fdc (fdc_set_write_protect b) s"

text \<open>A program that formats no track: no Write Track command.\<close>

fun no_format :: "fdc_op \<Rightarrow> bool" where
  "no_format (Fo_write r x) = (r AND 3 = 0 \<longrightarrow> x AND 0xF0 \<noteq> 0xF0)"
| "no_format _ = True"

lemma apply_safe:
  assumes "whole_tracks hk" "safe s" "no_format p"
  shows "safe (fdc_apply hk p s)"
proof (cases p)
  case Fo_reset
  then show ?thesis using assms(2)
    by (simp add: mem_safe mem_ok_def media_ok_def fdc_reset_def place_idle)
next
  case (Fo_protect b)
  then show ?thesis using assms(2) by (simp add: safe_def fdc_set_write_protect_def media_ok_def place_ok_def)
qed (use assms in \<open>simp_all add: read_safe write_safe ticktock_safe\<close>)

lemma run_safe:
  assumes "whole_tracks hk" "safe s" "list_all no_format ps"
  shows "safe (fold (fdc_apply hk) ps s)"
  using assms by (induction ps arbitrary: s) (simp_all add: apply_safe)

end
