(* ===== verification/Card_Rules.thy ===== *)
theory Card_Rules
  imports Jasmin Fdc_Safety
begin

unbundle bit_operations_syntax

text \<open>
  Rules of the disk interfaces: the controller always sees the drive that the card has selected
  (\<open>bay_ok\<close>), and the interrupt input of the CPU follows the latches.  \<open>irq_input\<close> is the interface to
  the CPU, \<open>disk_card\<close> the one between a controller and the card around it.
\<close>

section \<open>The selected drive\<close>

definition bay_ok :: "('u, 'z) drive_bay_scheme \<Rightarrow> bool" where
  "bay_ok b \<longleftrightarrow>
     (let i = unat (drive b); f = fdc (wd b) in
      drive b < 4 \<and> length (disk_table b) = 4 \<and> length (size_table b) = 4 \<and> length (track_table b) = 4 \<and>
      length (sector_table b) = 4 \<and> length (disk_dirty b) = 4 \<and> length (bad_map b) = 4 \<and> length (write_protect b) = 4 \<and>
      disk_data f = disk_table b ! i \<and> disk_size f = size_table b ! i \<and>
      (disk_data f \<noteq> None \<longrightarrow> tracks f = track_table b ! i \<and> sectors_per_track f = sector_table b ! i) \<and>
      bad f = bad_map b ! i \<and> write_protected f = write_protect b ! i \<and> fd_side f = side_sel b)"

lemma bay_keep:
  assumes "media (fdc s) = media (fdc (wd b))" "bay_ok b"
  shows "bay_ok (b\<lparr>wd := s\<rparr>)"
  using assms by (simp add: bay_ok_def media_def Let_def)

lemma drive_index: "d < 4 \<Longrightarrow> unat d < 4" for d :: u8
  by (simp add: word_less_nat_alt)

lemma drive_eq: "unat d = unat e \<longleftrightarrow> d = e" for d e :: u8
  by (simp add: word_unat_eq_iff)

lemma select_drive_ok:
  assumes "bay_ok b"
  shows "bay_ok (select_drive d b)" "fuser (wd (select_drive d b)) = fuser (wd b)"
  using assms
  by (simp_all add: select_drive_def bay_mount_def Let_def upd_wd_def bay_ok_def fdc_set_disk_def fdc_set_bad_map_def
      fdc_set_write_protect_def upd_fdc_def not_le)

lemma set_disk_ok:
  assumes "bay_ok b"
  shows "bay_ok (set_disk d img n tr spt b)" "fuser (wd (set_disk d img n tr spt b)) = fuser (wd b)"
  using assms drive_eq [of "drive b" d] drive_index [of d]
  by (auto simp: set_disk_def bay_mount_def Let_def upd_wd_def bay_ok_def fdc_set_disk_def fdc_set_bad_map_def
      upd_fdc_def not_le nth_list_update)

lemma protect_ok:
  assumes "bay_ok b"
  shows "bay_ok (set_write_protect d on b)" "fuser (wd (set_write_protect d on b)) = fuser (wd b)"
  using assms drive_eq [of "drive b" d] drive_index [of d]
  by (auto simp: set_write_protect_def Let_def upd_wd_def bay_ok_def fdc_set_write_protect_def upd_fdc_def not_le nth_list_update)

lemma bad_sector_ok:
  assumes "bay_ok b"
  shows "bay_ok (snd (add_bad_sector d sd tr sc b))" "fuser (wd (snd (add_bad_sector d sd tr sc b))) = fuser (wd b)"
  using assms drive_eq [of "drive b" d] drive_index [of d]
  by (auto simp: add_bad_sector_def sync_bad_map_def fdc_bad_map_add_def Let_def upd_wd_def bay_ok_def fdc_set_bad_map_def
      upd_fdc_def not_le nth_list_update)

section \<open>Interfaces\<close>

text \<open>A controller whose callbacks respect a law of the card.\<close>

locale disk_card =
  fixes hk :: "'u fdc_hooks" and law :: "'u \<Rightarrow> bool"
  assumes law: "signal_law hk law"
begin

lemma step:
  assumes "kept hk (wd b) s" "bay_ok b" "law (fuser (wd b))"
  shows "bay_ok (b\<lparr>wd := s\<rparr>)" "law (fuser s)"
  using assms law bay_keep [of s b] unfolding kept_def by blast+

lemma after_tick:
  assumes "bay_ok b" "law (fuser (wd b))"
  shows "bay_ok (upd_wd (fdc_ticktock hk n) b)" "law (fuser (wd (upd_wd (fdc_ticktock hk n) b)))"
  using step [OF kept_ticktock [OF kept_refl] assms] by (simp_all add: upd_wd_def)

lemma after_read:
  assumes "bay_ok b" "law (fuser (wd b))"
  shows "bay_ok (b\<lparr>wd := snd (fdc_read hk r (wd b))\<rparr>)" "law (fuser (snd (fdc_read hk r (wd b))))"
  using step [OF kept_read [OF kept_refl] assms] by simp_all

lemma after_write:
  assumes "bay_ok b" "law (fuser (wd b))"
  shows "bay_ok (wd_write hk r x b)" "law (fuser (wd (wd_write hk r x b)))"
proof -
  define c where "c = upd_wd (fdc_write hk r x) b"
  have c: "bay_ok c" "law (fuser (wd c))"
    using step [OF kept_write [OF kept_refl] assms] by (simp_all add: c_def upd_wd_def)
  have e: "wd_write hk r x b =
      (if disk_modified (fdc (wd c)) then
         upd_wd (upd_fdc (\<lambda>f. f\<lparr>disk_modified := False\<rparr>)) (c\<lparr>disk_dirty := (disk_dirty c)[unat (drive c AND 3) := True]\<rparr>)
       else c)"
    by (simp only: wd_write_def Let_def c_def)
  have "bay_ok (upd_wd (upd_fdc (\<lambda>f. f\<lparr>disk_modified := False\<rparr>)) (c\<lparr>disk_dirty := (disk_dirty c)[i := True]\<rparr>))" for i
    using c(1) by (simp add: bay_ok_def upd_wd_def upd_fdc_def Let_def)
  with c show "bay_ok (wd_write hk r x b)" "law (fuser (wd (wd_write hk r x b)))"
    unfolding e by (simp_all add: upd_wd_def)
qed

end

text \<open>An interrupt input of the CPU: its two calls and its level.\<close>

locale irq_input =
  fixes raise drop :: "'e \<Rightarrow> 'e" and level :: "'e \<Rightarrow> bool"
  assumes raised: "level (raise e)" and dropped: "\<not> level (drop e)"

definition disk_line :: "'d board \<Rightarrow> bool" where
  "disk_line b \<longleftrightarrow> irq b AND irqf_bit IRQF_DISK \<noteq> 0"

interpretation disk_irq: irq_input "cpu_irq_set IRQF_DISK" "cpu_irq_clear IRQF_DISK" disk_line
proof
  show "disk_line (cpu_irq_set IRQF_DISK e)" "\<not> disk_line (cpu_irq_clear IRQF_DISK e)" for e :: "'d board"
    by (simp_all add: disk_line_def cpu_irq_set_def cpu_irq_clear_def or_and_absorb not_and_absorb del: word_not_simps irqf_bit.simps)
       simp
qed

text \<open>The card on the machine.\<close>

definition disk_env :: "(string \<Rightarrow> nat \<Rightarrow> 'h \<Rightarrow> u8 list option \<times> 'h) \<Rightarrow> ('d board, 'h) card_env" where
  "disk_env net = \<lparr>irq_raise = Some (cpu_irq_set IRQF_DISK), irq_drop = Some (cpu_irq_clear IRQF_DISK), disk_server = net\<rparr>"

section \<open>The interrupt of the cards\<close>

definition md_law :: "('d board, 'h) card_lines \<Rightarrow> bool" where
  "md_law l \<longleftrightarrow> disk_line (line_emu l) = (line_intrq l = 0 \<and> line_ctrl l AND CTRL_INTENA \<noteq> 0)"

definition ja_law :: "('d board, 'h) card_lines \<Rightarrow> bool" where
  "ja_law l \<longleftrightarrow> disk_line (line_emu l) = (line_drq l = 0)"

lemma http_law:
  "md_law l \<Longrightarrow> md_law (snd (card_http env url off l))" "ja_law l \<Longrightarrow> ja_law (snd (card_http env url off l))"
  by (simp_all add: card_http_def split_beta md_law_def ja_law_def)

interpretation md: disk_card "md_hooks (disk_env net)" md_law
proof
  show "signal_law (md_hooks (disk_env net)) md_law"
    by (simp add: signal_law_def md_hooks_def http_law microdisc_fdc_set_drq_def microdisc_fdc_clr_drq_def)
       (simp add: md_law_def microdisc_fdc_set_intrq_def microdisc_fdc_clr_intrq_def call_emu_def disk_env_def Let_def
          disk_irq.raised disk_irq.dropped)
qed

interpretation ja: disk_card "ja_hooks (disk_env net)" ja_law
proof
  show "signal_law (ja_hooks (disk_env net)) ja_law"
    by (simp add: signal_law_def ja_hooks_def http_law jasmin_fdc_set_intrq_def jasmin_fdc_clr_intrq_def)
       (simp add: ja_law_def jasmin_fdc_set_drq_def jasmin_fdc_clr_drq_def call_emu_def disk_env_def
          disk_irq.raised disk_irq.dropped)
qed

unbundle bit_operations_syntax

text \<open>
  The saved state of the Jasmin read back: the controller's fields, the latches and the bad sectors of
  the four drives.  The sector pointer of a transfer is not in the file, it is computed again.
\<close>

section \<open>The controller\<close>

definition saved_fdc_ok :: "fdc_t \<Rightarrow> bool" where
  "saved_fdc_ok f \<longleftrightarrow> i32 (delayed_drq f) \<and> i32 (delayed_int f) \<and> i32 (di_status f) \<and> i32 (dd_status f) \<and>
     i32 (drq_age f) \<and> i32 (stream_due f) \<and> rot_pos f < FDC_REV_CYCLES \<and> wt_field_idx f AND 3 = wt_field_idx f \<and>
     length (wt_id f) = 4"

definition restore_fdc :: "fdc_t \<Rightarrow> fdc_t \<Rightarrow> fdc_t" where
  "restore_fdc f g = g\<lparr>fd_status := fd_status f, fd_command := fd_command f, fd_track := fd_track f, fd_sector := fd_sector f,
     fd_data := fd_data f, fd_direction := fd_direction f, c_track := c_track f, c_sector := c_sector f, fd_side := fd_side f,
     currentop := currentop f, cur_sector_len := cur_sector_len f, cur_offset := cur_offset f, sec_type := sec_type f,
     delayed_drq := delayed_drq f, delayed_int := delayed_int f, di_status := di_status f, dd_status := dd_status f,
     status_type1 := status_type1 f, rot_pos := rot_pos f, drq_age := drq_age f, wt_state := wt_state f,
     wt_field_idx := wt_field_idx f, wt_id := wt_id f, wt_data_len := wt_data_len f, wt_sectors_done := wt_sectors_done f,
     stream := stream f, stream_crc := stream_crc f, stream_due := stream_due f\<rparr>"

lemma save_length [simp]: "length (wt_id f) = 4 \<Longrightarrow> length (fdc_state_save f) = FDC_STATE_SIZE"
  by (simp add: fdc_state_save_def)

lemma word_mod_less: "a < m \<Longrightarrow> a mod m = (a :: u32)"
  by (simp add: word_less_nat_alt word_arith_nat_mod)

lemma load_v1_save:
  "rot_pos f < FDC_REV_CYCLES \<Longrightarrow> load_v1 FDC_STATE_SIZE (bin_w_u8 (if status_type1 f then 1 else 0) @ bin_w_u32 (rot_pos f) @ r) g =
     (g\<lparr>status_type1 := status_type1 f, rot_pos := rot_pos f\<rparr>, r)"
  by (simp add: load_v1_def rd word_mod_less)

lemma load_v2_save:
  "i32 (drq_age f) \<Longrightarrow> wt_field_idx f AND 3 = wt_field_idx f \<Longrightarrow> length (wt_id f) = 4 \<Longrightarrow>
   load_v2 FDC_STATE_SIZE (bin_w_i32 (drq_age f) @ bin_w_u8 (wt_state f) @ bin_w_u8 (wt_field_idx f) @ wt_id f @
     bin_w_u16 (wt_data_len f) @ bin_w_u8 (wt_sectors_done f) @ r) g =
     (g\<lparr>drq_age := drq_age f, wt_state := wt_state f, wt_field_idx := wt_field_idx f, wt_id := wt_id f,
        wt_data_len := wt_data_len f, wt_sectors_done := wt_sectors_done f\<rparr>, r)"
  by (simp add: load_v2_def rd)

lemma load_v3_save:
  "i32 (stream_due f) \<Longrightarrow> load_v3 FDC_STATE_SIZE (bin_w_u8 (if stream f then 1 else 0) @ bin_w_u8 (if stream_crc f then 1 else 0) @
     bin_w_i32 (stream_due f) @ r) g = (g\<lparr>stream := stream f, stream_crc := stream_crc f, stream_due := stream_due f\<rparr>, r)"
  by (simp add: load_v3_def rd)

lemma fdc_load_save:
  assumes "saved_fdc_ok f"
  shows "fdc_state_load FDC_STATE_SIZE (fdc_state_save f @ r) g = (restore_fdc f g, r)"
  using assms unfolding fdc_state_load_def fdc_state_save_def saved_fdc_ok_def
  by (simp add: rd load_v1_save load_v2_save load_v3_save restore_fdc_def)

section \<open>The bad sectors\<close>

lemma entries_save:
  "load_entries (length m) (concat (map (\<lambda>(sd, tr, sc). bin_w_u8 sd @ bin_w_u8 tr @ bin_w_u8 sc) m) @ r) = (m, r)"
  by (induction m) (auto simp: rd)

lemma bad_map_save: "length m \<le> FDC_MAX_BAD_SECTORS \<Longrightarrow> load_bad_map (save_bad_map m @ r) = (m, r)"
  using entries_save [of m r] by (simp add: load_bad_map_def save_bad_map_def rd unat_of_nat)

lemma maps_save:
  "list_all (\<lambda>m. length m \<le> FDC_MAX_BAD_SECTORS) ms \<Longrightarrow> load_maps (length ms) (concat (map save_bad_map ms) @ r) = (ms, r)"
  by (induction ms) (auto simp: bad_map_save)

lemma maps_length: "length (concat (map save_bad_map ms)) \<ge> length ms"
  by (induction ms) (auto simp: save_bad_map_def)

section \<open>The card\<close>

text \<open>
  A card that can be saved: the selected drive is the controller's, the values are those of the C
  types, and no web disk is mounted (no card of this kind mounts one).
\<close>

definition savable :: "('e, 'h) jasmin \<Rightarrow> bool" where
  "savable j \<longleftrightarrow> bay_ok j \<and> saved_fdc_ok (fdc (wd j)) \<and> side_sel j AND 1 = side_sel j \<and>
     list_all (\<lambda>m. length m \<le> FDC_MAX_BAD_SECTORS) (bad_map j) \<and>
     tracks (fdc (wd j)) = track_table j ! unat (drive j) \<and> sectors_per_track (fdc (wd j)) = sector_table j ! unat (drive j) \<and>
     \<not> web (fdc (wd j)) \<and> web_url (fdc (wd j)) = [] \<and> web_track_loaded (fdc (wd j)) = replicate 164 False"

text \<open>Two cards of the same machine: the same disks, ROM and options, whatever their registers.\<close>

definition same_machine :: "('e, 'h) jasmin \<Rightarrow> ('e, 'h) jasmin \<Rightarrow> bool" where
  "same_machine j k \<longleftrightarrow>
     disk_table k = disk_table j \<and> size_table k = size_table j \<and> track_table k = track_table j \<and>
     sector_table k = sector_table j \<and> disk_dirty k = disk_dirty j \<and> write_protect k = write_protect j \<and>
     ja_rom k = ja_rom j \<and> rom_valid k = rom_valid j \<and> bufs (wd k) = bufs (wd j) \<and> oob (wd k) = oob (wd j) \<and>
     line_ctrl (fuser (wd k)) = line_ctrl (fuser (wd j)) \<and> line_emu (fuser (wd k)) = line_emu (fuser (wd j)) \<and>
     line_host (fuser (wd k)) = line_host (fuser (wd j)) \<and>
     disk_modified (fdc (wd k)) = disk_modified (fdc (wd j)) \<and> lost_data_count (fdc (wd k)) = lost_data_count (fdc (wd j)) \<and>
     timing_mode (fdc (wd k)) = timing_mode (fdc (wd j))"

text \<open>The card before the transfer is resumed.\<close>

definition loaded :: "('e, 'h) jasmin \<Rightarrow> ('e, 'h) jasmin \<Rightarrow> ('e, 'h) jasmin" where
  "loaded j k =
     select_drive (drive j)
       ((upd_wd (raise_sig (\<lambda>l. l\<lparr>line_intrq := line_intrq (fuser (wd j)), line_drq := line_drq (fuser (wd j))\<rparr>) \<circ>
           upd_fdc (\<lambda>_. restore_fdc (fdc (wd j)) (fdc (wd k)))) k)
         \<lparr>ja_romdis := ja_romdis j, ja_olay := ja_olay j, side_sel := side_sel j, autoboot_done := autoboot_done j,
          bad_map := bad_map j\<rparr>)"

lemma load_to_loaded:
  assumes "savable j"
  shows "jasmin_load env (jasmin_save j) (length (jasmin_save j)) k =
    upd_wd (fdc_state_resume (ja_hooks env) \<circ> upd_fdc (\<lambda>f. f\<lparr>fd_side := side_sel (loaded j k)\<rparr>)) (loaded j k)"
proof -
  have ok: "saved_fdc_ok (fdc (wd j))" "length (wt_id (fdc (wd j))) = 4" "drive j < 4" "length (bad_map j) = 4"
    "side_sel j AND 1 = side_sel j" "list_all (\<lambda>m. length m \<le> FDC_MAX_BAD_SECTORS) (bad_map j)"
    using assms by (simp_all add: savable_def saved_fdc_ok_def bay_ok_def Let_def)
  have n: "length (jasmin_save j) \<ge> 1 + FDC_STATE_SIZE + 7 + 4"
    using maps_length [of "bad_map j"] ok(2,4) by (simp add: jasmin_save_def)
  have m: "load_maps 4 (concat (map save_bad_map (bad_map j))) = (bad_map j, [])"
    using maps_save [OF ok(6), of "[]"] ok(4) by simp
  have "\<not> length (jasmin_save j) < 1 + FDC_STATE_SIZE_V2 + 7 + 4" "\<not> length (jasmin_save j) < 1 + FDC_STATE_SIZE + 7 + 4"
    using n by simp_all
  then show ?thesis
    unfolding jasmin_load_def
    by (subst (2) jasmin_save_def) (simp add: rd fdc_load_save [OF ok(1)] m ok(3,5) loaded_def Let_def)
qed

lemma loaded_same:
  assumes "savable j" "same_machine j k"
  shows "loaded j k = j\<lparr>wd := upd_fdc (\<lambda>f. f\<lparr>cur_sector_data := cur_sector_data (fdc (wd k))\<rparr>) (wd j)\<rparr>"
proof -
  have "drive j < 4" using assms(1) by (simp add: savable_def bay_ok_def Let_def)
  then have d: "\<not> 4 \<le> drive j" by simp
  show ?thesis
    using assms d
    by (intro jasmin_t.equality fdc_state.equality fdc_t.equality card_lines.equality)
       (simp_all add: loaded_def savable_def same_machine_def bay_ok_def select_drive_def bay_mount_def Let_def upd_wd_def
         upd_fdc_def raise_sig_def fdc_set_disk_def fdc_set_bad_map_def fdc_set_write_protect_def restore_fdc_def)
qed

section \<open>The sector pointer\<close>

text \<open>Where a sector of the current track and side lies in the image, if there is one that can be read.\<close>

definition image_sector :: "fdc_t \<Rightarrow> u8 \<Rightarrow> buf_ptr option" where
  "image_sector f i =
     (let off = mfm_offset (fd_side f) (c_track f) i (sectors_per_track f) (tracks f) in
      case disk_data f of
        None \<Rightarrow> None
      | Some b \<Rightarrow>
          if c_track f < tracks f \<and> 0 < i \<and> i \<le> sectors_per_track f \<and> (fd_side f, c_track f, i) \<notin> set (bad f) \<and>
            off + 256 \<le> unat (disk_size f) then Some (b, off) else None)"

text \<open>The sector that a transfer under way works on, and its place.\<close>

definition transfer_sector :: "fdc_t \<Rightarrow> u8 option" where
  "transfer_sector f =
     (case currentop f of
        FDC_OP_NONE \<Rightarrow> None | FDC_OP_READ_TRACK \<Rightarrow> None
      | FDC_OP_READ_ADDRESS \<Rightarrow> Some 1
      | FDC_OP_WRITE_TRACK \<Rightarrow> if wt_state f = 2 then Some (wt_id f ! 2) else None
      | _ \<Rightarrow> Some (fd_sector f))"

definition transfer_pointer :: "fdc_t \<Rightarrow> buf_ptr option" where
  "transfer_pointer f = Option.bind (transfer_sector f) (image_sector f)"

lemma find_image [simp]: "fst (fdc_find_sector hk i s) = image_sector (fdc s) i"
  by (auto simp: fdc_find_sector_def image_sector_def Let_def not_le word_gt_0 split: option.split)

lemma find_no_web: "\<not> web (fdc s) \<Longrightarrow> snd (fdc_find_sector hk i s) = s"
  by (auto simp: fdc_find_sector_def fdc_web_ensure_track_def Let_def split: option.split)

lemma load_no_web: "\<not> web (fdc s) \<Longrightarrow> load_sector hk i s = upd_fdc (\<lambda>f. f\<lparr>cur_sector_data := image_sector f i\<rparr>) s"
  by (simp add: load_sector_def split_beta find_no_web find_image upd_fdc_def)

lemma image_sector_pointer [simp]: "image_sector (f\<lparr>cur_sector_data := x\<rparr>) i = image_sector f i"
  by (simp add: image_sector_def Let_def split: option.split)

lemma transfer_pointer_pointer [simp]: "transfer_pointer (f\<lparr>cur_sector_data := x\<rparr>) = transfer_pointer f"
  by (simp add: transfer_pointer_def transfer_sector_def image_sector_pointer [abs_def] split: fdc_op_t.split)

lemma resume_no_web:
  "\<not> web (fdc s) \<Longrightarrow> fdc_state_resume hk s = upd_fdc (\<lambda>f. f\<lparr>cur_sector_data := transfer_pointer f\<rparr>) s"
  by (simp add: fdc_state_resume_def Let_def load_no_web transfer_pointer_def transfer_sector_def upd_fdc_def
      split: fdc_op_t.split)

lemma resume_pointer:
  "\<not> web (fdc s) \<Longrightarrow> fdc_state_resume hk (upd_fdc (\<lambda>f. f\<lparr>cur_sector_data := x\<rparr>) s) = fdc_state_resume hk s"
  by (simp add: resume_no_web upd_fdc_def)

text \<open>The card that is read back resumes the transfer of the saved one.\<close>

lemma load_save:
  assumes "savable j" "same_machine j k"
  shows "jasmin_load env (jasmin_save j) (length (jasmin_save j)) k =
    upd_wd (upd_fdc (\<lambda>f. f\<lparr>cur_sector_data := transfer_pointer f\<rparr>)) j"
proof -
  have w: "\<not> web (fdc (wd j))" "fd_side (fdc (wd j)) = side_sel j"
    using assms(1) by (simp_all add: savable_def bay_ok_def Let_def)
  have "upd_fdc (\<lambda>f. f\<lparr>fd_side := side_sel j\<rparr>) (upd_fdc (\<lambda>f. f\<lparr>cur_sector_data := x\<rparr>) (wd j)) =
      upd_fdc (\<lambda>f. f\<lparr>cur_sector_data := x\<rparr>) (wd j)" for x
    using w(2) by (simp add: upd_fdc_def)
  then show ?thesis
    unfolding load_to_loaded [OF assms(1)] loaded_same [OF assms]
    by (simp add: upd_wd_def resume_pointer [OF w(1)] resume_no_web [OF w(1)])
qed

section \<open>Transfers that go on\<close>

text \<open>The pointer of a transfer is the one that the registers name.\<close>

definition named :: "fdc_t \<Rightarrow> bool" where
  "named f \<longleftrightarrow> (\<forall>i. transfer_sector f = Some i \<longrightarrow> cur_sector_data f = image_sector f i)"

lemma named_upd [simp]:
  "named (f\<lparr>fd_status := a\<rparr>) = named f" "named (f\<lparr>fd_track := a\<rparr>) = named f" "named (f\<lparr>fd_data := a\<rparr>) = named f"
  "named (f\<lparr>fd_direction := a\<rparr>) = named f" "named (f\<lparr>fd_command := a\<rparr>) = named f" "named (f\<lparr>sec_type := a\<rparr>) = named f"
  "named (f\<lparr>cur_offset := b\<rparr>) = named f" "named (f\<lparr>cur_sector_len := b\<rparr>) = named f" "named (f\<lparr>delayed_int := c\<rparr>) = named f"
  "named (f\<lparr>delayed_drq := c\<rparr>) = named f" "named (f\<lparr>di_status := c\<rparr>) = named f" "named (f\<lparr>dd_status := c\<rparr>) = named f"
  "named (f\<lparr>stream_due := c\<rparr>) = named f" "named (f\<lparr>drq_age := c\<rparr>) = named f" "named (f\<lparr>stream := l\<rparr>) = named f"
  "named (f\<lparr>stream_crc := l\<rparr>) = named f" "named (f\<lparr>status_type1 := l\<rparr>) = named f" "named (f\<lparr>disk_modified := l\<rparr>) = named f"
  "named (f\<lparr>write_protected := l\<rparr>) = named f" "named (f\<lparr>rot_pos := d\<rparr>) = named f" "named (f\<lparr>lost_data_count := d\<rparr>) = named f"
  "named (f\<lparr>web_track_loaded := ls\<rparr>) = named f" "named (f\<lparr>wt_sectors_done := a\<rparr>) = named f" "named (f\<lparr>wt_data_len := b\<rparr>) = named f"
  "named (f\<lparr>wt_field_idx := a\<rparr>) = named f" "named (f\<lparr>currentop := FDC_OP_NONE\<rparr>)" "named (f\<lparr>currentop := FDC_OP_READ_TRACK\<rparr>)"
  by (simp_all add: named_def transfer_sector_def image_sector_def Let_def split: fdc_op_t.split option.split)

lemma named_idle: "currentop f = FDC_OP_NONE \<Longrightarrow> named f"
  by (simp add: named_def transfer_sector_def)

lemma named_sector:
  "sector_op (currentop f) \<Longrightarrow> named f \<longleftrightarrow> cur_sector_data f = image_sector f (fd_sector f)"
  by (auto simp: named_def transfer_sector_def sector_op_def)

lemma image_upd [simp]:
  "image_sector (f\<lparr>fd_status := a\<rparr>) = image_sector f" "image_sector (f\<lparr>cur_offset := b\<rparr>) = image_sector f"
  "image_sector (f\<lparr>cur_sector_len := b\<rparr>) = image_sector f" "image_sector (f\<lparr>delayed_drq := c\<rparr>) = image_sector f"
  "image_sector (f\<lparr>fd_sector := a\<rparr>) = image_sector f" "image_sector (f\<lparr>currentop := p\<rparr>) = image_sector f"
  "image_sector (f\<lparr>web_track_loaded := ls\<rparr>) = image_sector f" "image_sector (f\<lparr>stream := l\<rparr>) = image_sector f"
  "image_sector (f\<lparr>stream_crc := l\<rparr>) = image_sector f" "image_sector (f\<lparr>status_type1 := l\<rparr>) = image_sector f"
  "image_sector (f\<lparr>wt_data_len := b\<rparr>) = image_sector f" "image_sector (f\<lparr>wt_state := a\<rparr>) = image_sector f"
  "image_sector (f\<lparr>disk_modified := l\<rparr>) = image_sector f" "image_sector (f\<lparr>fd_data := a\<rparr>) = image_sector f"
  "image_sector (f\<lparr>lost_data_count := d\<rparr>) = image_sector f"
  by (simp_all add: fun_eq_iff image_sector_def Let_def split: option.split)

lemma done_named: "named (fdc (fdc_stream_sector_done hk s))"
  by (auto simp: fdc_stream_sector_done_def Let_def named_sector)

lemma lost_named [simp]: "named (fdc_stream_lost f) = named f"
  by (simp add: fdc_stream_lost_def)

lemma stream_step_named: "named (fdc s) \<Longrightarrow> named (fdc (fdc_stream_step hk s))"
  by (simp add: fdc_stream_step_def stream_write_step_def stream_read_step_def Let_def done_named)

lemma stream_loop_named: "named (fdc s) \<Longrightarrow> named (fdc (stream_loop hk s))"
proof (induction hk s rule: stream_loop.induct)
  case (1 hk s)
  show ?case using 1 stream_step_named [of s hk] by (subst stream_loop.simps) (simp del: upd_fdc_fdc)
qed

lemma stream_start_named: "named (fdc s) \<Longrightarrow> named (fdc (fdc_stream_start hk s))"
  by (simp add: fdc_stream_start_def Let_def)

lemma ticktock_named:
  assumes "named (fdc s)" shows "named (fdc (fdc_ticktock hk n s))"
proof -
  have i: "named (fdc (tick_int hk n t))" if "named (fdc t)" for t
    using that by (simp add: tick_int_def Let_def fire_int_def)
  have d: "named (fdc (tick_drq hk n t))" if "named (fdc t)" for t
    using that by (simp add: tick_drq_def Let_def fire_drq_def stream_start_named)
  have l: "named (tick_lost n f)" if "named f" for f
    using that by (simp add: tick_lost_def Let_def)
  show ?thesis
    using assms by (simp add: fdc_ticktock_def Let_def stream_loop_named l i d)
qed

lemma next_sector_named:
  assumes "named (fdc s)" "sector_op multi" shows "named (fdc (next_sector hk multi s))"
  using assms by (auto simp: next_sector_def Let_def named_sector)

lemma read_named: "named (fdc s) \<Longrightarrow> named (fdc (snd (fdc_read hk r s)))"
proof -
  assume n: "named (fdc s)"
  have "named (fdc (read_sector_data hk s))"
    using n by (simp add: read_sector_data_def no_sector_def Let_def next_sector_named)
  moreover have "named (fdc (read_address_data hk s))" if "currentop (fdc s) = FDC_OP_READ_ADDRESS"
    using n that by (auto simp: read_address_data_def Let_def) (simp_all add: named_def transfer_sector_def)
  ultimately show ?thesis using n by (simp add: fdc_read_def Let_def)
qed

lemma named_wt:
  "currentop f = FDC_OP_WRITE_TRACK \<Longrightarrow> named f \<longleftrightarrow> (wt_state f = 2 \<longrightarrow> cur_sector_data f = image_sector f (wt_id f ! 2))"
  by (auto simp: named_def transfer_sector_def)

lemma wt_named:
  assumes "named (fdc s)" "currentop (fdc s) = FDC_OP_WRITE_TRACK"
  shows "named (fdc (write_track_data hk x s))"
proof -
  have mark: "named (fdc (wt_mark hk x t))" "currentop (fdc (wt_mark hk x t)) = FDC_OP_WRITE_TRACK"
    if "named (fdc t)" "currentop (fdc t) = FDC_OP_WRITE_TRACK" for t
    using that by (simp_all add: wt_mark_def named_wt Let_def)
  have ids: "named (fdc (wt_id_byte x t))" if "wt_state (fdc t) = 1" "currentop (fdc t) = FDC_OP_WRITE_TRACK" for t
    using that by (simp add: wt_id_byte_def named_wt Let_def)
  have data: "named (fdc (wt_data_byte x t))" if "named (fdc t)" "currentop (fdc t) = FDC_OP_WRITE_TRACK" for t
    using that by (simp add: wt_data_byte_def named_wt Let_def)
  show ?thesis using assms by (simp add: write_track_data_def Let_def mark ids data)
qed

lemma command_named: "named (fdc s) \<Longrightarrow> named (fdc (fdc_command hk x s))"
proof -
  assume n: "named (fdc s)"
  have not_found: "named (fdc (fdc_record_not_found hk t))" for t
    by (simp add: fdc_record_not_found_def Let_def)
  have ref: "named (fdc (refuse hk st t))" for st t
    by (simp add: refuse_def)
  have start: "named (fdc (start_sector hk x d single multi t))" if "sector_op single" "sector_op multi" for d single multi t
    using that by (simp add: start_sector_def Let_def not_found named_sector)
  have ends: "named (fdc (end_op t))" for t by (simp add: end_op_def)
  define t where "t = (if x AND 0xF0 \<noteq> 0xD0 then upd_fdc (\<lambda>f. f\<lparr>stream := False, stream_crc := False\<rparr>)
      (raise_sig (clr_intrq hk) s) else raise_sig (clr_intrq hk) s)"
  have t: "named (fdc t)" using n by (simp add: t_def)
  have "named (fdc (cmd_read_sector hk x t))" "named (fdc (cmd_write_sector hk x t))"
    by (simp_all add: cmd_read_sector_def cmd_write_sector_def Let_def fdc_not_ready_def fdc_write_protected_def ref start)
  moreover have "named (fdc (cmd_read_address hk t))"
    by (auto simp: cmd_read_address_def Let_def fdc_not_ready_def ref not_found) (simp_all add: named_def transfer_sector_def)
  moreover have "named (fdc (cmd_track hk x t))"
    by (auto simp: cmd_track_def Let_def fdc_not_ready_def fdc_write_protected_def ref) (simp_all add: named_def transfer_sector_def)
  moreover have "named (fdc (cmd_force_interrupt hk x t))" by (simp add: cmd_force_interrupt_def Let_def)
  ultimately show ?thesis
    by (simp add: fdc_command_def Let_def t_def [symmetric] cmd_restore_seek_def cmd_step_def cmd_step_in_def cmd_step_out_def ends)
qed

text \<open>
  A program that leaves the sector register alone and does not turn the disk: every transfer that it starts
  keeps the pointer that its registers name.
\<close>

fun leaves_sector :: "fdc_op \<Rightarrow> bool" where
  "leaves_sector (Fo_write r x) = (r AND 3 \<noteq> 2)"
| "leaves_sector (Fo_side x) = False"
| "leaves_sector _ = True"

lemma apply_named:
  assumes "named (fdc s)" "leaves_sector p"
  shows "named (fdc (fdc_apply hk p s))"
proof (cases p)
  case (Fo_write r x)
  have "named (fdc (write_sector_data hk x s))" if "named (fdc s)" for s
    using that by (simp add: write_sector_data_def no_sector_def next_sector_named)
  then show ?thesis using assms Fo_write by (auto simp: fdc_write_def Let_def command_named wt_named)
next
  case Fo_reset
  then show ?thesis by (simp add: fdc_reset_def named_idle)
qed (use assms in \<open>simp_all add: read_named ticktock_named fdc_set_write_protect_def\<close>)

lemma run_named:
  "named (fdc s) \<Longrightarrow> list_all leaves_sector ps \<Longrightarrow> named (fdc (fold (fdc_apply hk) ps s))"
  by (induction ps arbitrary: s) (simp_all add: apply_named)

end
