(* ===== verification/Acia6551.thy ===== *)
theory Acia6551
  imports Cpu_State
begin

text \<open>
  The serial chip of the ORIC interfaces (\<open>include/io/acia6551.h\<close>, \<open>src/io/acia6551.c\<close>): the MOS 6551 with
  its registers, baud rates, receive queue, delayed interrupt and transports.  The transport behind it,
  a socket, a terminal or the loopback of \<open>src/io/serial_backend.c\<close>, is three functions that see the
  chip and may move its modem lines; the interrupt callbacks act on \<open>host\<close>.  The trace file is not modelled.
\<close>

section \<open>State\<close>

definition ACIA_STATUS_PE :: u8 where "ACIA_STATUS_PE = 0x01"
definition ACIA_STATUS_FE :: u8 where "ACIA_STATUS_FE = 0x02"
definition ACIA_STATUS_OVRN :: u8 where "ACIA_STATUS_OVRN = 0x04"
definition ACIA_STATUS_RDRF :: u8 where "ACIA_STATUS_RDRF = 0x08"
definition ACIA_STATUS_TDRE :: u8 where "ACIA_STATUS_TDRE = 0x10"
definition ACIA_STATUS_DCD :: u8 where "ACIA_STATUS_DCD = 0x20"
definition ACIA_STATUS_DSR :: u8 where "ACIA_STATUS_DSR = 0x40"
definition ACIA_STATUS_IRQ :: u8 where "ACIA_STATUS_IRQ = 0x80"
definition ACIA_CMD_DTR :: u8 where "ACIA_CMD_DTR = 0x01"
definition ACIA_CMD_IRD :: u8 where "ACIA_CMD_IRD = 0x02"
definition ACIA_CMD_TIC_MASK :: u8 where "ACIA_CMD_TIC_MASK = 0x0C"
definition ACIA_CMD_ECHO :: u8 where "ACIA_CMD_ECHO = 0x10"
definition ACIA_CMD_PME :: u8 where "ACIA_CMD_PME = 0x20"
definition ACIA_CTL_BAUD_MASK :: u8 where "ACIA_CTL_BAUD_MASK = 0x0F"
definition ACIA_CTL_WL_MASK :: u8 where "ACIA_CTL_WL_MASK = 0x60"
definition ACIA_CTL_SBN :: u8 where "ACIA_CTL_SBN = 0x80"
definition ACIA_V23_RX_BAUD :: int where "ACIA_V23_RX_BAUD = 1200"
definition ACIA_V23_TX_BAUD :: int where "ACIA_V23_TX_BAUD = 75"
definition ACIA_FIFO_MAX_SIZE :: int where "ACIA_FIFO_MAX_SIZE = 4096"
definition ACIA_RX_POLL_FLOOR :: int where "ACIA_RX_POLL_FLOOR = 32"

lemmas acia_status_bits = ACIA_STATUS_PE_def ACIA_STATUS_FE_def ACIA_STATUS_OVRN_def ACIA_STATUS_RDRF_def
  ACIA_STATUS_TDRE_def ACIA_STATUS_DCD_def ACIA_STATUS_DSR_def ACIA_STATUS_IRQ_def
lemmas acia_command_bits = ACIA_CMD_DTR_def ACIA_CMD_IRD_def ACIA_CMD_TIC_MASK_def ACIA_CMD_ECHO_def ACIA_CMD_PME_def

record acia6551_t =
  ac_tdr :: u8
  ac_rdr :: u8
  ac_status :: u8
  ac_command :: u8
  ac_control :: u8
  ac_framebits :: u8
  ac_baud_rate :: u32
  ac_bitmask :: u8
  tx_pending :: bool
  rx_full :: bool
  irq_line :: bool
  tx_cycles :: int
  rx_cycles :: int
  tx_reload :: int
  rx_reload :: int
  v23_mode :: bool
  ac_dcd :: bool
  ac_dsr :: bool
  ac_cts :: bool
  rx_fifo :: "u8 list option"
  fifo_size :: nat
  fifo_head :: nat
  fifo_tail :: nat
  fifo_count :: nat
  irq_on_rdrf :: bool
  irq_latency_cycles :: int
  irq_in_transit :: bool
  irq_transit_cycles :: int
  rx_backpressure :: bool
  ext_clock_baud :: u32
  ext_clock_warned :: bool

text \<open>What a transport does to the modem lines while it is called.\<close>

datatype line_event = Dcd bool | Dsr bool | Cts bool

record 'w serial_backend =
  be_send :: "(acia6551_t \<Rightarrow> u8 \<Rightarrow> 'w \<Rightarrow> line_event list \<times> 'w) option"
  be_recv :: "acia6551_t \<Rightarrow> 'w \<Rightarrow> u8 option \<times> line_event list \<times> 'w"
  be_poll :: "(acia6551_t \<Rightarrow> 'w \<Rightarrow> bool \<times> line_event list \<times> 'w) option"

record ('w, 'e) acia_state =
  acia :: acia6551_t
  backend :: "'w serial_backend option"
  peer :: 'w
  host :: 'e

text \<open>The interrupt callbacks, \<open>None\<close> when null.\<close>

record 'e irq_hooks =
  on_irq_set :: "('e \<Rightarrow> 'e) option"
  on_irq_clr :: "('e \<Rightarrow> 'e) option"

definition upd_acia :: "(acia6551_t \<Rightarrow> acia6551_t) \<Rightarrow> ('w, 'e) acia_state \<Rightarrow> ('w, 'e) acia_state" where
  "upd_acia f s = s\<lparr>acia := f (acia s)\<rparr>"

definition call_host :: "('e \<Rightarrow> 'e) option \<Rightarrow> ('w, 'e) acia_state \<Rightarrow> ('w, 'e) acia_state" where
  "call_host f s = (case f of Some g \<Rightarrow> s\<lparr>host := g (host s)\<rparr> | None \<Rightarrow> s)"

definition set_status :: "u8 \<Rightarrow> acia6551_t \<Rightarrow> acia6551_t" where
  "set_status m a = a\<lparr>ac_status := ac_status a OR m\<rparr>"

definition clear_status :: "u8 \<Rightarrow> acia6551_t \<Rightarrow> acia6551_t" where
  "clear_status m a = a\<lparr>ac_status := ac_status a AND NOT m\<rparr>"

section \<open>Timing\<close>

definition baud_rate_table :: "int list" where
  "baud_rate_table = [0, 50, 75, 110, 135, 150, 300, 600, 1200, 1800, 2400, 3600, 4800, 7200, 9600, 19200]"

definition acia_calc_framebits :: "acia6551_t \<Rightarrow> acia6551_t" where
  "acia_calc_framebits a =
     (let wl_field = drop_bit 5 (ac_control a AND ACIA_CTL_WL_MASK);
          wordlen = 8 - wl_field;
          stopbits = (if ac_control a AND ACIA_CTL_SBN \<noteq> 0 then 2 else 1);
          parity = (if ac_command a AND ACIA_CMD_PME \<noteq> 0 then 1 else 0)
      in a\<lparr>ac_framebits := 1 + wordlen + parity + stopbits, ac_bitmask := push_bit (unat wordlen) 1 - 1\<rparr>)"

definition cycles_per_byte :: "int \<Rightarrow> u8 \<Rightarrow> int" where
  "cycles_per_byte baud fb = (if baud \<le> 0 then 1 else (1000000 * uint fb) div baud)"

definition resync_counters :: "acia6551_t \<Rightarrow> acia6551_t" where
  "resync_counters a =
     a\<lparr>tx_cycles := (if tx_cycles a \<le> 0 \<or> tx_cycles a > tx_reload a then tx_reload a else tx_cycles a),
       rx_cycles := (if rx_cycles a \<le> 0 \<or> rx_cycles a > rx_reload a then rx_reload a else rx_cycles a)\<rparr>"

definition acia_update_timing :: "acia6551_t \<Rightarrow> acia6551_t" where
  "acia_update_timing a =
     (let a1 = acia_calc_framebits a in
      resync_counters
        (if v23_mode a1 then
           a1\<lparr>ac_baud_rate := word_of_int ACIA_V23_RX_BAUD,
              rx_reload := cycles_per_byte ACIA_V23_RX_BAUD (ac_framebits a1),
              tx_reload := cycles_per_byte ACIA_V23_TX_BAUD (ac_framebits a1)\<rparr>
         else
           let b0 = baud_rate_table ! unat (ac_control a1 AND ACIA_CTL_BAUD_MASK);
               baud = (if b0 = 0 \<and> ext_clock_baud a1 > 0 then sint (ext_clock_baud a1) else b0)
           in a1\<lparr>ac_baud_rate := word_of_int baud, rx_reload := cycles_per_byte baud (ac_framebits a1),
                 tx_reload := cycles_per_byte baud (ac_framebits a1),
                 ext_clock_warned := ext_clock_warned a1 \<or> baud = 0\<rparr>))"

section \<open>The receive queue\<close>

definition fifo_push :: "u8 \<Rightarrow> acia6551_t \<Rightarrow> bool \<times> acia6551_t" where
  "fifo_push b a =
     (case rx_fifo a of
        Some q \<Rightarrow>
          if fifo_count a \<ge> fifo_size a then (False, a)
          else (True, a\<lparr>rx_fifo := Some (q[fifo_head a := b]), fifo_head := (fifo_head a + 1) mod fifo_size a,
                        fifo_count := fifo_count a + 1\<rparr>)
      | None \<Rightarrow> (False, a))"

definition fifo_pop :: "acia6551_t \<Rightarrow> (u8 \<times> acia6551_t) option" where
  "fifo_pop a =
     (case rx_fifo a of
        Some q \<Rightarrow>
          if fifo_count a = 0 then None
          else Some (q ! fifo_tail a, a\<lparr>fifo_tail := (fifo_tail a + 1) mod fifo_size a, fifo_count := fifo_count a - 1\<rparr>)
      | None \<Rightarrow> None)"

definition acia_rx_has_space :: "acia6551_t \<Rightarrow> bool" where
  "acia_rx_has_space a \<longleftrightarrow> (if rx_fifo a \<noteq> None then \<not> rx_full a \<or> fifo_count a < fifo_size a else \<not> rx_full a)"

section \<open>The interrupt\<close>

definition acia_assert_irq :: "'e irq_hooks \<Rightarrow> ('w, 'e) acia_state \<Rightarrow> ('w, 'e) acia_state" where
  "acia_assert_irq hk s =
     (if irq_line (acia s) \<or> irq_in_transit (acia s) then s
      else if irq_latency_cycles (acia s) > 0 then
        upd_acia (\<lambda>a. a\<lparr>irq_in_transit := True, irq_transit_cycles := irq_latency_cycles a\<rparr>) s
      else call_host (on_irq_set hk) (upd_acia (\<lambda>a. a\<lparr>irq_line := True\<rparr>) s))"

definition acia_deassert_irq :: "'e irq_hooks \<Rightarrow> ('w, 'e) acia_state \<Rightarrow> ('w, 'e) acia_state" where
  "acia_deassert_irq hk s =
     (let s1 = upd_acia (\<lambda>a. a\<lparr>irq_in_transit := False\<rparr>) s
      in if irq_line (acia s1) then call_host (on_irq_clr hk) (upd_acia (\<lambda>a. a\<lparr>irq_line := False\<rparr>) s1) else s1)"

definition irq_wanted :: "acia6551_t \<Rightarrow> bool" where
  "irq_wanted a \<longleftrightarrow>
     ac_status a AND ACIA_STATUS_RDRF \<noteq> 0 \<and> ac_command a AND ACIA_CMD_IRD = 0 \<or>
     ac_status a AND ACIA_STATUS_TDRE \<noteq> 0 \<and> drop_bit 2 (ac_command a AND ACIA_CMD_TIC_MASK) = 0x01"

definition acia_update_irq :: "'e irq_hooks \<Rightarrow> ('w, 'e) acia_state \<Rightarrow> ('w, 'e) acia_state" where
  "acia_update_irq hk s =
     (if irq_wanted (acia s) then acia_assert_irq hk (upd_acia (set_status ACIA_STATUS_IRQ) s)
      else acia_deassert_irq hk (upd_acia (clear_status ACIA_STATUS_IRQ) s))"

section \<open>Registers\<close>

definition acia_zero :: acia6551_t where
  "acia_zero = \<lparr>ac_tdr = 0, ac_rdr = 0, ac_status = 0, ac_command = 0, ac_control = 0, ac_framebits = 0, ac_baud_rate = 0,
     ac_bitmask = 0, tx_pending = False, rx_full = False, irq_line = False, tx_cycles = 0, rx_cycles = 0, tx_reload = 0,
     rx_reload = 0, v23_mode = False, ac_dcd = False, ac_dsr = False, ac_cts = False, rx_fifo = None, fifo_size = 0,
     fifo_head = 0, fifo_tail = 0, fifo_count = 0, irq_on_rdrf = False, irq_latency_cycles = 0, irq_in_transit = False,
     irq_transit_cycles = 0, rx_backpressure = False, ext_clock_baud = 0, ext_clock_warned = False\<rparr>"

definition acia_init :: acia6551_t where
  "acia_init = (acia_update_timing (acia_zero\<lparr>ac_status := ACIA_STATUS_TDRE, ac_dcd := True, ac_dsr := True, ac_cts := True,
     ext_clock_warned := True\<rparr>))\<lparr>ext_clock_warned := False\<rparr>"

definition acia_reset :: "'e irq_hooks \<Rightarrow> ('w, 'e) acia_state \<Rightarrow> ('w, 'e) acia_state" where
  "acia_reset hk s = acia_deassert_irq hk (upd_acia (\<lambda>a. a\<lparr>ac_status := ACIA_STATUS_TDRE, ac_command := ac_command a AND 0xE0,
     tx_pending := False, rx_full := False, fifo_head := 0, fifo_tail := 0, fifo_count := 0\<rparr>) s)"

definition rdr_taken :: "acia6551_t \<Rightarrow> acia6551_t" where
  "rdr_taken a =
     (let a1 = clear_status (ACIA_STATUS_RDRF OR ACIA_STATUS_OVRN OR ACIA_STATUS_PE OR ACIA_STATUS_FE) (a\<lparr>rx_full := False\<rparr>)
      in case fifo_pop a1 of Some (b, a2) \<Rightarrow> set_status ACIA_STATUS_RDRF (a2\<lparr>ac_rdr := b, rx_full := True\<rparr>) | None \<Rightarrow> a1)"

definition acia_read :: "'e irq_hooks \<Rightarrow> u16 \<Rightarrow> ('w, 'e) acia_state \<Rightarrow> u8 \<times> ('w, 'e) acia_state" where
  "acia_read hk addr s =
     (let r = addr AND 3 in
      if r = 0 then (ac_rdr (acia s), acia_update_irq hk (upd_acia rdr_taken s))
      else if r = 1 then
        let s1 = acia_deassert_irq hk (upd_acia (clear_status ACIA_STATUS_IRQ) s)
        in (ac_status (acia s), if irq_on_rdrf (acia s1) then acia_update_irq hk s1 else s1)
      else if r = 2 then (ac_command (acia s), s)
      else (ac_control (acia s), s))"

definition acia_peek :: "acia6551_t \<Rightarrow> u16 \<Rightarrow> u8" where
  "acia_peek a addr =
     (let r = addr AND 3
      in if r = 0 then ac_rdr a else if r = 1 then ac_status a else if r = 2 then ac_command a else ac_control a)"

definition acia_write :: "'e irq_hooks \<Rightarrow> u16 \<Rightarrow> u8 \<Rightarrow> ('w, 'e) acia_state \<Rightarrow> ('w, 'e) acia_state" where
  "acia_write hk addr value s =
     (let r = addr AND 3 in
      if r = 0 then
        acia_update_irq hk (upd_acia (\<lambda>a. clear_status ACIA_STATUS_TDRE
          (a\<lparr>ac_tdr := value AND ac_bitmask a, tx_pending := True, tx_cycles := tx_reload a\<rparr>)) s)
      else if r = 1 then acia_reset hk s
      else if r = 2 then acia_update_irq hk (upd_acia (\<lambda>a. acia_update_timing (a\<lparr>ac_command := value\<rparr>)) s)
      else upd_acia (\<lambda>a. acia_update_timing (a\<lparr>ac_control := value\<rparr>)) s)"

section \<open>Modem lines and configuration\<close>

definition acia_set_dcd :: "'e irq_hooks \<Rightarrow> bool \<Rightarrow> ('w, 'e) acia_state \<Rightarrow> ('w, 'e) acia_state" where
  "acia_set_dcd hk active s =
     (let s1 = upd_acia (\<lambda>a. (if active then clear_status ACIA_STATUS_DCD else set_status ACIA_STATUS_DCD) (a\<lparr>ac_dcd := active\<rparr>)) s
      in if ac_dcd (acia s) \<noteq> active then acia_update_irq hk s1 else s1)"

definition acia_set_dsr :: "bool \<Rightarrow> acia6551_t \<Rightarrow> acia6551_t" where
  "acia_set_dsr active a =
     (if active then clear_status ACIA_STATUS_DSR else set_status ACIA_STATUS_DSR) (a\<lparr>ac_dsr := active\<rparr>)"

definition acia_set_cts :: "bool \<Rightarrow> acia6551_t \<Rightarrow> acia6551_t" where
  "acia_set_cts active a = a\<lparr>ac_cts := active\<rparr>"

fun line_moves :: "'e irq_hooks \<Rightarrow> line_event \<Rightarrow> ('w, 'e) acia_state \<Rightarrow> ('w, 'e) acia_state" where
  "line_moves hk (Dcd b) s = acia_set_dcd hk b s"
| "line_moves hk (Dsr b) s = upd_acia (acia_set_dsr b) s"
| "line_moves hk (Cts b) s = upd_acia (acia_set_cts b) s"

definition acia_set_v23_mode :: "bool \<Rightarrow> acia6551_t \<Rightarrow> acia6551_t" where
  "acia_set_v23_mode enabled a = acia_update_timing (a\<lparr>v23_mode := enabled\<rparr>)"

definition acia_set_backend :: "'w serial_backend option \<Rightarrow> ('w, 'e) acia_state \<Rightarrow> ('w, 'e) acia_state" where
  "acia_set_backend b s = s\<lparr>backend := b\<rparr>"

text \<open>The new queue is a block of whatever bytes \<open>malloc\<close> returns, \<open>None\<close> when it fails.\<close>

definition acia_set_rx_fifo :: "(nat \<Rightarrow> u8 list option) \<Rightarrow> int \<Rightarrow> acia6551_t \<Rightarrow> acia6551_t" where
  "acia_set_rx_fifo malloc sz a =
     (let a1 = a\<lparr>rx_fifo := None, fifo_size := 0, fifo_head := 0, fifo_tail := 0, fifo_count := 0\<rparr>;
          n = nat (if sz > ACIA_FIFO_MAX_SIZE then ACIA_FIFO_MAX_SIZE else sz)
      in if sz > 0 then
           case malloc n of Some q \<Rightarrow> a1\<lparr>rx_fifo := Some q, fifo_size := n\<rparr> | None \<Rightarrow> a1
         else a1)"

definition acia_set_irq_on_rdrf :: "bool \<Rightarrow> acia6551_t \<Rightarrow> acia6551_t" where
  "acia_set_irq_on_rdrf enabled a = a\<lparr>irq_on_rdrf := enabled\<rparr>"

definition acia_set_irq_latency :: "u32 \<Rightarrow> acia6551_t \<Rightarrow> acia6551_t" where
  "acia_set_irq_latency n a = a\<lparr>irq_latency_cycles := sint n, irq_in_transit := False, irq_transit_cycles := 0\<rparr>"

definition acia_set_rx_backpressure :: "bool \<Rightarrow> acia6551_t \<Rightarrow> acia6551_t" where
  "acia_set_rx_backpressure enabled a = a\<lparr>rx_backpressure := enabled\<rparr>"

definition acia_set_ext_clock_baud :: "u32 \<Rightarrow> acia6551_t \<Rightarrow> acia6551_t" where
  "acia_set_ext_clock_baud baud a = acia_update_timing (a\<lparr>ext_clock_baud := baud\<rparr>)"

section \<open>Cycles\<close>

definition tick_transit :: "'e irq_hooks \<Rightarrow> int \<Rightarrow> ('w, 'e) acia_state \<Rightarrow> ('w, 'e) acia_state" where
  "tick_transit hk n s =
     (if irq_in_transit (acia s) then
        let s1 = upd_acia (\<lambda>a. a\<lparr>irq_transit_cycles := irq_transit_cycles a - n\<rparr>) s in
        if irq_transit_cycles (acia s1) \<le> 0 then
          let s2 = upd_acia (\<lambda>a. a\<lparr>irq_in_transit := False\<rparr>) s1
          in if irq_line (acia s2) then s2 else call_host (on_irq_set hk) (upd_acia (\<lambda>a. a\<lparr>irq_line := True\<rparr>) s2)
        else s1
      else s)"

definition after_call :: "'e irq_hooks \<Rightarrow> line_event list \<Rightarrow> 'w \<Rightarrow> ('w, 'e) acia_state \<Rightarrow> ('w, 'e) acia_state" where
  "after_call hk evs w s = fold (line_moves hk) evs (s\<lparr>peer := w\<rparr>)"

text \<open>The byte given to the transport in these cycles, if any.\<close>

definition tick_tx :: "'e irq_hooks \<Rightarrow> 'w serial_backend \<Rightarrow> int \<Rightarrow> ('w, 'e) acia_state \<Rightarrow> u8 option \<times> ('w, 'e) acia_state" where
  "tick_tx hk be n s =
     (if tx_pending (acia s) then
        let s1 = upd_acia (\<lambda>a. a\<lparr>tx_cycles := tx_cycles a - n\<rparr>) s in
        if tx_cycles (acia s1) \<le> 0 then
          let b = ac_tdr (acia s1);
              (sent, s2) =
                (case be_send be of
                   Some f \<Rightarrow>
                     if ac_cts (acia s1) then
                       let (evs, w) = f (acia s1) b (peer s1) in (Some b, after_call hk evs w s1)
                     else (None, s1)
                 | None \<Rightarrow> (None, s1))
          in (sent, acia_update_irq hk (upd_acia (\<lambda>a. set_status ACIA_STATUS_TDRE
                (a\<lparr>tx_pending := False, tx_cycles := tx_reload a\<rparr>)) s2))
        else (None, s1)
      else (None, s))"

definition rx_poll :: "'e irq_hooks \<Rightarrow> 'w serial_backend \<Rightarrow> ('w, 'e) acia_state \<Rightarrow> bool \<times> ('w, 'e) acia_state" where
  "rx_poll hk be s =
     (case be_poll be of
        Some f \<Rightarrow> let (ready, evs, w) = f (acia s) (peer s) in (ready, after_call hk evs w s)
      | None \<Rightarrow> (False, s))"

definition rx_store :: "u8 \<Rightarrow> acia6551_t \<Rightarrow> acia6551_t" where
  "rx_store b a =
     (if rx_fifo a \<noteq> None then
        if \<not> rx_full a then set_status ACIA_STATUS_RDRF (a\<lparr>ac_rdr := b, rx_full := True\<rparr>)
        else let (ok, a1) = fifo_push b a in if ok then a1 else set_status ACIA_STATUS_OVRN a1
      else
        let a1 = (if rx_full a then set_status ACIA_STATUS_OVRN a else a)
        in set_status ACIA_STATUS_RDRF (a1\<lparr>ac_rdr := b, rx_full := True\<rparr>))"

definition rx_echo :: "u8 \<Rightarrow> acia6551_t \<Rightarrow> acia6551_t" where
  "rx_echo b a =
     (if ac_command a AND ACIA_CMD_ECHO \<noteq> 0 \<and> \<not> tx_pending a then
        clear_status ACIA_STATUS_TDRE (a\<lparr>ac_tdr := b, tx_pending := True, tx_cycles := tx_reload a\<rparr>)
      else a)"

text \<open>The transport has a byte to deliver; it may still return none.\<close>

definition rx_receive :: "'e irq_hooks \<Rightarrow> 'w serial_backend \<Rightarrow> ('w, 'e) acia_state \<Rightarrow> u8 option \<times> ('w, 'e) acia_state" where
  "rx_receive hk be s =
     (let (got, evs, w) = be_recv be (acia s) (peer s);
          s1 = after_call hk evs w s
      in case got of
           Some byte \<Rightarrow>
             let b = byte AND ac_bitmask (acia s1)
             in (Some b, acia_update_irq hk (upd_acia (\<lambda>a. rx_echo b (rx_store b a)) s1))
         | None \<Rightarrow> (None, s1))"

definition rx_poll_again :: "acia6551_t \<Rightarrow> acia6551_t" where
  "rx_poll_again a = a\<lparr>rx_cycles := (if rx_reload a > ACIA_RX_POLL_FLOOR then rx_reload a else ACIA_RX_POLL_FLOOR)\<rparr>"

text \<open>The byte received in these cycles, if any.\<close>

definition tick_rx :: "'e irq_hooks \<Rightarrow> 'w serial_backend \<Rightarrow> int \<Rightarrow> ('w, 'e) acia_state \<Rightarrow> u8 option \<times> ('w, 'e) acia_state" where
  "tick_rx hk be n s =
     (let s1 = upd_acia (\<lambda>a. a\<lparr>rx_cycles := rx_cycles a - n\<rparr>) s in
      if rx_cycles (acia s1) \<le> 0 then
        let (ready, s3) = rx_poll hk be (upd_acia rx_poll_again s1);
            rx_ready = (ready \<and> \<not> (rx_backpressure (acia s3) \<and> \<not> acia_rx_has_space (acia s3)))
        in if ac_dcd (acia s3) \<and> rx_ready then rx_receive hk be s3 else (None, s3)
      else (None, s1))"

text \<open>The bytes sent and received in these cycles, and the state after them.\<close>

definition acia_cycles :: "'e irq_hooks \<Rightarrow> int \<Rightarrow> ('w, 'e) acia_state \<Rightarrow> u8 option \<times> u8 option \<times> ('w, 'e) acia_state" where
  "acia_cycles hk n s =
     (let s1 = tick_transit hk n s in
      case backend s1 of
        None \<Rightarrow> (None, None, s1)
      | Some be \<Rightarrow>
          if ac_command (acia s1) AND ACIA_CMD_DTR = 0 then (None, None, s1)
          else let (sent, s2) = tick_tx hk be n s1; (got, s3) = tick_rx hk be n s2 in (sent, got, s3))"

definition acia_tick :: "'e irq_hooks \<Rightarrow> int \<Rightarrow> ('w, 'e) acia_state \<Rightarrow> ('w, 'e) acia_state" where
  "acia_tick hk n s = snd (snd (acia_cycles hk n s))"

section \<open>The loopback transport\<close>

definition SERIAL_LOOPBACK_BUFSZ :: nat where "SERIAL_LOOPBACK_BUFSZ = 256"

record loopback =
  lb_buf :: "u8 list"
  lb_head :: nat
  lb_tail :: nat
  lb_count :: nat

definition loopback_open :: "loopback \<Rightarrow> loopback" where
  "loopback_open l = l\<lparr>lb_head := 0, lb_tail := 0, lb_count := 0\<rparr>"

definition loopback_close :: "loopback \<Rightarrow> loopback" where
  "loopback_close l = l\<lparr>lb_count := 0\<rparr>"

definition loopback_send :: "u8 \<Rightarrow> loopback \<Rightarrow> bool \<times> loopback" where
  "loopback_send b l =
     (if lb_count l \<ge> SERIAL_LOOPBACK_BUFSZ then (False, l)
      else (True, l\<lparr>lb_buf := (lb_buf l)[lb_head l := b], lb_head := (lb_head l + 1) mod SERIAL_LOOPBACK_BUFSZ,
                    lb_count := lb_count l + 1\<rparr>))"

definition loopback_recv :: "loopback \<Rightarrow> (u8 \<times> loopback) option" where
  "loopback_recv l =
     (if lb_count l = 0 then None
      else Some (lb_buf l ! lb_tail l, l\<lparr>lb_tail := (lb_tail l + 1) mod SERIAL_LOOPBACK_BUFSZ, lb_count := lb_count l - 1\<rparr>))"

definition loopback_poll :: "loopback \<Rightarrow> bool" where
  "loopback_poll l \<longleftrightarrow> lb_count l > 0"

definition loopback_created :: loopback where
  "loopback_created = \<lparr>lb_buf = replicate SERIAL_LOOPBACK_BUFSZ 0, lb_head = 0, lb_tail = 0, lb_count = 0\<rparr>"

definition serial_backend_loopback :: "loopback serial_backend" where
  "serial_backend_loopback =
     \<lparr>be_send = Some (\<lambda>_ b l. ([], snd (loopback_send b l))),
      be_recv = (\<lambda>_ l. case loopback_recv l of Some (b, l1) \<Rightarrow> (Some b, [], l1) | None \<Rightarrow> (None, [], l)),
      be_poll = Some (\<lambda>_ l. (loopback_poll l, [], l))\<rparr>"

end
