(* ===== verification/Acia_Rules.thy ===== *)
theory Acia_Rules
  imports Acia6551
begin

text \<open>
  Rules of the serial chip: its invariant, one lemma per operation, for the interrupt and for the bytes
  that wait between the transport and the program.
\<close>

text \<open>
  Circular buffers: \<open>count\<close> bytes from \<open>tail\<close> on, wrapping at the end of the block, with the laws of
  putting a byte at the head and taking one from the tail.
\<close>

definition ring :: "u8 list \<Rightarrow> nat \<Rightarrow> nat \<Rightarrow> u8 list" where
  "ring q tail count = map (\<lambda>i. q ! ((tail + i) mod length q)) [0..<count]"

lemma ring_empty [simp]: "ring q t 0 = []" and length_ring [simp]: "length (ring q t n) = n"
  by (simp_all add: ring_def)

lemma ring_put:
  assumes "n < length q" "h = (t + n) mod length q"
  shows "ring (q[h := b]) t (Suc n) = ring q t n @ [b]"
proof -
  have ne: "(t + n) mod length q \<noteq> (t + i) mod length q" if "i < n" for i
  proof
    assume "(t + n) mod length q = (t + i) mod length q"
    then have "length q dvd (t + n) - (t + i)" using that by (metis mod_eq_dvd_iff_nat nat_add_left_cancel_le less_imp_le)
    then show False using that assms(1) by (auto dest: dvd_imp_le)
  qed
  moreover have "(t + n) mod length q < length q" using assms(1) by (intro mod_less_divisor) auto
  ultimately show ?thesis using assms by (auto simp: ring_def nth_list_update dest: ne)
qed

lemma ring_take:
  assumes "0 < n" "t < length q"
  shows "ring q t n = q ! t # ring q ((t + 1) mod length q) (n - 1)"
proof -
  obtain m where n: "n = Suc m" using assms(1) by (cases n) auto
  have "(t + Suc i) mod length q = ((t + 1) mod length q + i) mod length q" for i
    by (simp add: mod_add_left_eq)
  then show ?thesis
    using assms(2) by (simp add: ring_def n upt_rec [of 0 "Suc m"] map_Suc_upt [symmetric] del: upt_Suc)
qed

text \<open>The head of a ring that is kept in step.\<close>

definition ring_ok :: "u8 list \<Rightarrow> nat \<Rightarrow> nat \<Rightarrow> nat \<Rightarrow> bool" where
  "ring_ok q h t n \<longleftrightarrow> 0 < length q \<and> t < length q \<and> n \<le> length q \<and> h = (t + n) mod length q"

lemma ring_ok_put:
  assumes "ring_ok q h t n" "n < length q"
  shows "ring_ok (q[h := b]) ((h + 1) mod length q) t (Suc n)"
  using assms by (simp add: ring_ok_def mod_Suc_eq)

lemma ring_ok_take:
  assumes "ring_ok q h t n" "0 < n"
  shows "ring_ok q h ((t + 1) mod length q) (n - 1)"
proof -
  have "((t + 1) mod length q + (n - 1)) mod length q = (t + n) mod length q"
    using assms(2) mod_add_left_eq [of "t + 1" "length q" "n - 1"] by simp
  then show ?thesis using assms by (auto simp: ring_ok_def)
qed

section \<open>Invariants\<close>

text \<open>The queue is a ring, used only behind a full data register.\<close>

definition fifo_ok :: "acia6551_t \<Rightarrow> bool" where
  "fifo_ok a \<longleftrightarrow>
     (case rx_fifo a of
        Some q \<Rightarrow> fifo_size a = length q \<and> ring_ok q (fifo_head a) (fifo_tail a) (fifo_count a)
      | None \<Rightarrow> fifo_count a = 0) \<and>
     (0 < fifo_count a \<longrightarrow> rx_full a)"

definition fifo_list :: "acia6551_t \<Rightarrow> u8 list" where
  "fifo_list a = (case rx_fifo a of Some q \<Rightarrow> ring q (fifo_tail a) (fifo_count a) | None \<Rightarrow> [])"

text \<open>The bytes received that the program has not read yet, the next one first.\<close>

definition waiting :: "acia6551_t \<Rightarrow> u8 list" where
  "waiting a = (if rx_full a then [ac_rdr a] else []) @ fifo_list a"

definition rdrf_ok :: "acia6551_t \<Rightarrow> bool" where
  "rdrf_ok a \<longleftrightarrow> (ac_status a AND ACIA_STATUS_RDRF \<noteq> 0 \<longleftrightarrow> rx_full a)"

definition rx_ok :: "acia6551_t \<Rightarrow> bool" where
  "rx_ok a \<longleftrightarrow> fifo_ok a \<and> rdrf_ok a"

section \<open>The state around the chip\<close>

lemma upd_acia_sel [simp]:
  "acia (upd_acia f s) = f (acia s)" "backend (upd_acia f s) = backend s" "peer (upd_acia f s) = peer s"
  "host (upd_acia f s) = host s"
  by (simp_all add: upd_acia_def)

lemma call_host_sel [simp]:
  "acia (call_host f s) = acia s" "backend (call_host f s) = backend s" "peer (call_host f s) = peer s"
  by (simp_all add: call_host_def split: option.splits)

text \<open>What an operation on the chip leaves alone: everything but the interrupt.\<close>

definition but_irq :: "acia6551_t \<Rightarrow> acia6551_t" where
  "but_irq a = a\<lparr>ac_status := ac_status a AND NOT ACIA_STATUS_IRQ, irq_line := False, irq_in_transit := False, irq_transit_cycles := 0\<rparr>"

lemma irq_keeps [simp]:
  "but_irq (acia (acia_assert_irq hk s)) = but_irq (acia s)" "but_irq (acia (acia_deassert_irq hk s)) = but_irq (acia s)"
  "but_irq (acia (acia_update_irq hk s)) = but_irq (acia s)" "but_irq (acia (tick_transit hk n s)) = but_irq (acia s)"
  "backend (acia_assert_irq hk s) = backend s" "backend (acia_deassert_irq hk s) = backend s"
  "backend (acia_update_irq hk s) = backend s" "backend (tick_transit hk n s) = backend s"
  "peer (acia_assert_irq hk s) = peer s" "peer (acia_deassert_irq hk s) = peer s"
  "peer (acia_update_irq hk s) = peer s" "peer (tick_transit hk n s) = peer s"
proof -
  have or: "(x OR ACIA_STATUS_IRQ) AND NOT ACIA_STATUS_IRQ = x AND NOT ACIA_STATUS_IRQ" for x :: u8
    by (rule bit_word_eqI) (auto simp: bit_simps)
  show 1: "but_irq (acia (acia_assert_irq hk s)) = but_irq (acia s)" for s :: "('a, 'b) acia_state"
    by (simp add: acia_assert_irq_def but_irq_def)
  show 2: "but_irq (acia (acia_deassert_irq hk s)) = but_irq (acia s)" for s :: "('a, 'b) acia_state"
    by (simp add: acia_deassert_irq_def but_irq_def Let_def)
  have "but_irq (set_status ACIA_STATUS_IRQ a) = but_irq a" "but_irq (clear_status ACIA_STATUS_IRQ a) = but_irq a" for a
    by (simp_all add: but_irq_def set_status_def clear_status_def or)
  then show "but_irq (acia (acia_update_irq hk s)) = but_irq (acia s)" by (simp add: acia_update_irq_def 1 2)
  show "but_irq (acia (tick_transit hk n s)) = but_irq (acia s)"
    by (simp add: tick_transit_def but_irq_def Let_def)
qed (simp_all add: acia_assert_irq_def acia_deassert_irq_def acia_update_irq_def tick_transit_def Let_def)

text \<open>Facts that the interrupt does not touch.\<close>

lemma but_irq_cong:
  assumes "but_irq a = but_irq b"
  shows "rx_full a = rx_full b" "ac_rdr a = ac_rdr b" "ac_tdr a = ac_tdr b" "tx_pending a = tx_pending b" "tx_cycles a = tx_cycles b"
    "tx_reload a = tx_reload b" "ac_command a = ac_command b" "ac_bitmask a = ac_bitmask b" "ac_cts a = ac_cts b" "ac_dcd a = ac_dcd b"
    "rx_backpressure a = rx_backpressure b" "waiting a = waiting b" "rx_ok a = rx_ok b" "acia_rx_has_space a = acia_rx_has_space b"
    "ac_control a = ac_control b" "rx_fifo a = rx_fifo b" "ac_status a AND NOT ACIA_STATUS_IRQ = ac_status b AND NOT ACIA_STATUS_IRQ"
    "irq_on_rdrf a = irq_on_rdrf b" "fifo_list a = fifo_list b"
proof -
  have s: "f (but_irq a) = f (but_irq b)" for f :: "acia6551_t \<Rightarrow> 'z" using assms by simp
  note t = s [of rx_full] s [of ac_rdr] s [of ac_tdr] s [of tx_pending] s [of tx_cycles] s [of tx_reload] s [of ac_command]
    s [of ac_bitmask] s [of ac_cts] s [of ac_dcd] s [of rx_backpressure] s [of rx_fifo] s [of fifo_size] s [of fifo_head]
    s [of fifo_tail] s [of fifo_count] s [of ac_status] s [of ac_control] s [of irq_on_rdrf]
  note u = t [unfolded but_irq_def acia6551_t.simps]
  have r: "x AND ACIA_STATUS_RDRF = (x AND NOT ACIA_STATUS_IRQ) AND ACIA_STATUS_RDRF" for x :: u8
    by (simp add: acia_status_bits and.assoc)
  show "rx_full a = rx_full b" "ac_rdr a = ac_rdr b" "ac_tdr a = ac_tdr b" "tx_pending a = tx_pending b" "tx_cycles a = tx_cycles b"
    "tx_reload a = tx_reload b" "ac_command a = ac_command b" "ac_bitmask a = ac_bitmask b" "ac_cts a = ac_cts b" "ac_dcd a = ac_dcd b"
    "rx_backpressure a = rx_backpressure b" "waiting a = waiting b" "rx_ok a = rx_ok b" "acia_rx_has_space a = acia_rx_has_space b"
    "ac_control a = ac_control b" "rx_fifo a = rx_fifo b" "ac_status a AND NOT ACIA_STATUS_IRQ = ac_status b AND NOT ACIA_STATUS_IRQ"
    "irq_on_rdrf a = irq_on_rdrf b" "fifo_list a = fifo_list b"
    using u by (simp_all add: waiting_def fifo_list_def rx_ok_def fifo_ok_def rdrf_ok_def acia_rx_has_space_def r [of "ac_status a"] r [of "ac_status b"]
      cong: option.case_cong)
qed

lemmas irq_cong = but_irq_cong [OF irq_keeps(1)] but_irq_cong [OF irq_keeps(2)] but_irq_cong [OF irq_keeps(3)] but_irq_cong [OF irq_keeps(4)]

section \<open>The bytes that wait\<close>

text \<open>What the receive path depends on.\<close>

definition rx_view :: "acia6551_t \<Rightarrow> u8 list \<times> bool \<times> bool \<times> bool \<times> u8 \<times> u8" where
  "rx_view a = (waiting a, rx_ok a, acia_rx_has_space a, rx_backpressure a, ac_bitmask a, ac_control a)"

lemma rx_view_cong:
  assumes "rx_full a = rx_full b" "ac_rdr a = ac_rdr b" "rx_fifo a = rx_fifo b" "fifo_size a = fifo_size b"
    "fifo_head a = fifo_head b" "fifo_tail a = fifo_tail b" "fifo_count a = fifo_count b" "rx_backpressure a = rx_backpressure b"
    "ac_bitmask a = ac_bitmask b" "ac_control a = ac_control b" "ac_status a AND ACIA_STATUS_RDRF = ac_status b AND ACIA_STATUS_RDRF"
  shows "rx_view a = rx_view b"
  using assms
  by (simp add: rx_view_def waiting_def fifo_list_def rx_ok_def fifo_ok_def rdrf_ok_def acia_rx_has_space_def cong: option.case_cong)

lemma view_but_irq: "but_irq a = but_irq b \<Longrightarrow> rx_view a = rx_view b"
  by (simp add: rx_view_def but_irq_cong(8,11,12,13,14,15) [of a b])

lemma view_irq [simp]:
  "rx_view (acia (acia_assert_irq hk s)) = rx_view (acia s)" "rx_view (acia (acia_deassert_irq hk s)) = rx_view (acia s)"
  "rx_view (acia (acia_update_irq hk s)) = rx_view (acia s)" "rx_view (acia (tick_transit hk n s)) = rx_view (acia s)"
  by (rule view_but_irq, simp)+

lemma view_status:
  assumes "m AND ACIA_STATUS_RDRF = 0"
  shows "rx_view (set_status m a) = rx_view a" "rx_view (clear_status m a) = rx_view a"
proof -
  have "(x OR m) AND ACIA_STATUS_RDRF = x AND ACIA_STATUS_RDRF" for x
    using assms by (simp add: bit.conj_disj_distrib2)
  moreover have "x AND NOT m AND ACIA_STATUS_RDRF = x AND ACIA_STATUS_RDRF" for x
  proof (rule bit_word_eqI)
    fix n
    have "\<not> (bit m n \<and> bit ACIA_STATUS_RDRF n)" using arg_cong [OF assms, of "\<lambda>w. bit w n"] by (simp add: bit_simps)
    then show "bit (x AND NOT m AND ACIA_STATUS_RDRF) n = bit (x AND ACIA_STATUS_RDRF) n"
      by (auto simp: bit_simps dest: bit_imp_le_length)
  qed
  ultimately show "rx_view (set_status m a) = rx_view a" "rx_view (clear_status m a) = rx_view a"
    unfolding set_status_def clear_status_def by (auto simp: and.assoc intro!: rx_view_cong)
qed

lemma view_upd [simp]:
  "rx_view (a\<lparr>ac_tdr := t\<rparr>) = rx_view a" "rx_view (a\<lparr>tx_pending := b\<rparr>) = rx_view a" "rx_view (a\<lparr>tx_cycles := i\<rparr>) = rx_view a"
  "rx_view (a\<lparr>rx_cycles := i\<rparr>) = rx_view a" "rx_view (a\<lparr>ac_command := t\<rparr>) = rx_view a"
  "rx_view (a\<lparr>ac_dcd := b\<rparr>) = rx_view a" "rx_view (a\<lparr>ac_dsr := b\<rparr>) = rx_view a" "rx_view (a\<lparr>ac_cts := b\<rparr>) = rx_view a"
  by (rule rx_view_cong, simp_all)+

lemma timing_keeps [simp]:
  "ac_status (acia_update_timing a) = ac_status a" "rx_full (acia_update_timing a) = rx_full a" "rx_fifo (acia_update_timing a) = rx_fifo a"
  "fifo_size (acia_update_timing a) = fifo_size a" "fifo_head (acia_update_timing a) = fifo_head a"
  "fifo_tail (acia_update_timing a) = fifo_tail a" "fifo_count (acia_update_timing a) = fifo_count a"
  "ac_rdr (acia_update_timing a) = ac_rdr a" "rx_backpressure (acia_update_timing a) = rx_backpressure a"
  "ac_command (acia_update_timing a) = ac_command a" "ac_control (acia_update_timing a) = ac_control a"
  "irq_line (acia_update_timing a) = irq_line a" "irq_in_transit (acia_update_timing a) = irq_in_transit a"
  "irq_on_rdrf (acia_update_timing a) = irq_on_rdrf a" "irq_latency_cycles (acia_update_timing a) = irq_latency_cycles a"
  "tx_pending (acia_update_timing a) = tx_pending a" "ac_tdr (acia_update_timing a) = ac_tdr a" "ac_cts (acia_update_timing a) = ac_cts a"
  "ac_dcd (acia_update_timing a) = ac_dcd a"
  by (simp_all add: acia_update_timing_def resync_counters_def acia_calc_framebits_def Let_def)

lemma timing_bitmask: "ac_bitmask (acia_update_timing a) = ac_bitmask (acia_calc_framebits a)"
  by (simp add: acia_update_timing_def resync_counters_def acia_calc_framebits_def Let_def)

lemma view_timing: "fst (rx_view (acia_update_timing a)) = fst (rx_view a)"
  "fst (snd (rx_view (acia_update_timing a))) = fst (snd (rx_view a))"
  "fst (snd (snd (snd (rx_view (acia_update_timing a))))) = fst (snd (snd (snd (rx_view a))))"
  by (simp_all add: rx_view_def waiting_def fifo_list_def rx_ok_def fifo_ok_def rdrf_ok_def cong: option.case_cong)

lemma waiting_taken:
  assumes "rx_ok a"
  shows "rx_ok (rdr_taken a)" "waiting a = (if rx_full a then [ac_rdr a] else []) @ waiting (rdr_taken a)"
    "rx_backpressure (rdr_taken a) = rx_backpressure a" "ac_bitmask (rdr_taken a) = ac_bitmask a"
proof -
  have nx: "rx_fifo a = Some q \<Longrightarrow> 0 < fifo_count a \<Longrightarrow>
    (fifo_tail a + fifo_count a) mod length q = (Suc (fifo_tail a) mod length q + (fifo_count a - Suc 0)) mod length q" for q
    using mod_add_left_eq [of "Suc (fifo_tail a)" "length q" "fifo_count a - 1"] by simp
  have clr: "(x AND NOT ACIA_STATUS_RDRF AND NOT ACIA_STATUS_OVRN AND NOT ACIA_STATUS_PE AND NOT ACIA_STATUS_FE) AND ACIA_STATUS_RDRF = 0"
    for x :: u8
    by (simp add: acia_status_bits and.assoc)
  have set: "ACIA_STATUS_RDRF \<noteq> 0" by (simp add: acia_status_bits)
  show "rx_ok (rdr_taken a)" "waiting a = (if rx_full a then [ac_rdr a] else []) @ waiting (rdr_taken a)"
    "rx_backpressure (rdr_taken a) = rx_backpressure a" "ac_bitmask (rdr_taken a) = ac_bitmask a"
    using assms ring_take [of "fifo_count a" "fifo_tail a"]
    by (auto simp: rdr_taken_def fifo_pop_def rx_ok_def fifo_ok_def rdrf_ok_def waiting_def fifo_list_def set_status_def
        clear_status_def clr set nx ring_ok_def Let_def split: option.splits)
qed

lemma waiting_store:
  assumes "rx_ok a"
  shows "rx_ok (rx_store b a)" "acia_rx_has_space a \<Longrightarrow> waiting (rx_store b a) = waiting a @ [b]"
    "rx_backpressure (rx_store b a) = rx_backpressure a" "ac_bitmask (rx_store b a) = ac_bitmask a"
    "ac_control (rx_store b a) = ac_control a"
proof -
  have set: "ACIA_STATUS_RDRF \<noteq> 0" "(x OR ACIA_STATUS_OVRN) AND ACIA_STATUS_RDRF = x AND ACIA_STATUS_RDRF" for x :: u8
    by (simp_all add: acia_status_bits bit.conj_disj_distrib2)
  show "rx_ok (rx_store b a)" "acia_rx_has_space a \<Longrightarrow> waiting (rx_store b a) = waiting a @ [b]"
    "rx_backpressure (rx_store b a) = rx_backpressure a" "ac_bitmask (rx_store b a) = ac_bitmask a"
    "ac_control (rx_store b a) = ac_control a"
    using assms ring_put [of "fifo_count a" _ "fifo_head a" "fifo_tail a" b] ring_ok_put [of _ "fifo_head a" "fifo_tail a" "fifo_count a" b]
    by (auto simp: rx_store_def fifo_push_def rx_ok_def fifo_ok_def rdrf_ok_def waiting_def fifo_list_def set_status_def
        acia_rx_has_space_def set ring_ok_def split: option.splits)
qed

lemma view_echo [simp]: "rx_view (rx_echo b a) = rx_view a"
  by (simp add: rx_echo_def view_status(2) acia_status_bits)

lemma view_dcd [simp]: "rx_view (acia (acia_set_dcd hk b s)) = rx_view (acia s)"
  by (simp add: acia_set_dcd_def Let_def view_status acia_status_bits)

lemma view_line [simp]: "rx_view (acia (line_moves hk e s)) = rx_view (acia s)"
  by (cases e) (simp_all add: acia_set_dsr_def acia_set_cts_def view_status acia_status_bits)

lemma view_lines [simp]: "rx_view (acia (fold (line_moves hk) evs s)) = rx_view (acia s)"
  by (induction evs arbitrary: s) simp_all

lemma around_line [simp]: "backend (line_moves hk e s) = backend s" "peer (line_moves hk e s) = peer s"
  by (cases e; simp add: acia_set_dcd_def Let_def)+

lemma around_lines [simp]: "backend (fold (line_moves hk) evs s) = backend s" "peer (fold (line_moves hk) evs s) = peer s"
  by (induction evs arbitrary: s) simp_all

lemma around_call [simp]: "backend (after_call hk evs w s) = backend s" "peer (after_call hk evs w s) = w"
  by (simp_all add: after_call_def)

lemma view_call [simp]: "rx_view (acia (after_call hk evs w s)) = rx_view (acia s)"
  by (simp add: after_call_def)

section \<open>The two halves of a tick\<close>

lemma tdre_apart: "ACIA_STATUS_TDRE AND ACIA_STATUS_RDRF = 0"
  by (simp add: acia_status_bits)

lemma view_tx: "rx_view (acia (snd (tick_tx hk be n s))) = rx_view (acia s)" "backend (snd (tick_tx hk be n s)) = backend s"
  by (simp_all add: tick_tx_def view_status [OF tdre_apart] Let_def split: option.split prod.split)

text \<open>The transport is called at most once, with the byte that is reported as sent.\<close>

lemma peer_tx:
  assumes "tick_tx hk be n s = (sent, s')"
  obtains "sent = None" "peer s' = peer s"
    | f a b evs where "be_send be = Some f" "sent = Some b" "f a b (peer s) = (evs, peer s')"
  using assms by (auto simp: tick_tx_def Let_def split: if_splits option.splits prod.splits)

lemma view_again [simp]: "rx_view (rx_poll_again a) = rx_view a"
  by (simp add: rx_poll_again_def)

lemma view_poll: "rx_view (acia (snd (rx_poll hk be s))) = rx_view (acia s)" "backend (snd (rx_poll hk be s)) = backend s"
  by (simp_all add: rx_poll_def split: option.split prod.split)

text \<open>The receive half does nothing, or polls the transport, and then may receive from it.\<close>

lemma rx_cases:
  assumes "tick_rx hk be n s = (got, s')"
  obtains (early) "got = None" "rx_view (acia s') = rx_view (acia s)" "backend s' = backend s" "peer s' = peer s"
    | (polled) s1 ready where "rx_poll hk be s1 = (ready, s')" "got = None" "rx_view (acia s1) = rx_view (acia s)"
        "backend s1 = backend s" "peer s1 = peer s"
    | (received) s1 s2 where "rx_poll hk be s1 = (True, s2)" "rx_receive hk be s2 = (got, s')" "rx_view (acia s1) = rx_view (acia s)"
        "backend s1 = backend s" "peer s1 = peer s" "rx_backpressure (acia s2) \<Longrightarrow> acia_rx_has_space (acia s2)"
  using assms
  by (cases "rx_poll hk be (upd_acia rx_poll_again (upd_acia (\<lambda>a. a\<lparr>rx_cycles := rx_cycles a - n\<rparr>) s))")
    (fastforce simp: tick_rx_def Let_def split: if_splits)

end
