(* ===== verification/Acia_Program.thy ===== *)
theory Acia_Program
  imports Acia_Rules Card_Rules "HOL-Library.Sublist"
begin

text \<open>
  A program at work on the serial chip: reads and writes of its four registers, cycles, moves of the modem
  lines.  \<open>serial_transport\<close> is what the chip expects of the transport behind it, with the conservation of
  the bytes proved from it; the loopback transport provides it.  The interrupt is followed on the interface
  \<open>irq_input\<close> of the CPU.
\<close>

datatype acia_op = Ac_read u16 | Ac_write u16 u8 | Ac_tick int | Ac_line line_event

definition byte_list :: "u8 option \<Rightarrow> u8 list" where
  "byte_list x = (case x of Some b \<Rightarrow> [b] | None \<Rightarrow> [])"

lemma byte_list_simps [simp]: "byte_list None = []" "byte_list (Some b) = [b]"
  by (simp_all add: byte_list_def)

text \<open>An operation: the bytes the program took from the chip, those the chip sent, and the state after it.\<close>

fun acia_do :: "'e irq_hooks \<Rightarrow> acia_op \<Rightarrow> ('w, 'e) acia_state \<Rightarrow> u8 list \<times> u8 list \<times> ('w, 'e) acia_state" where
  "acia_do hk (Ac_read addr) s =
     (let (v, s1) = acia_read hk addr s in (if addr AND 3 = 0 \<and> rx_full (acia s) then [v] else [], [], s1))"
| "acia_do hk (Ac_write addr v) s = ([], [], acia_write hk addr v s)"
| "acia_do hk (Ac_tick n) s = (let (sent, _, s1) = acia_cycles hk n s in ([], byte_list sent, s1))"
| "acia_do hk (Ac_line e) s = ([], [], line_moves hk e s)"

fun acia_run :: "'e irq_hooks \<Rightarrow> acia_op list \<Rightarrow> ('w, 'e) acia_state \<Rightarrow> u8 list \<times> u8 list \<times> ('w, 'e) acia_state" where
  "acia_run hk [] s = ([], [], s)"
| "acia_run hk (x # xs) s =
     (let (taken, sent, s1) = acia_do hk x s; (taken', sent', s2) = acia_run hk xs s1 in (taken @ taken', sent @ sent', s2))"

text \<open>The program keeps eight-bit words and does not reset the chip.\<close>

fun steady_op :: "acia_op \<Rightarrow> bool" where
  "steady_op (Ac_write addr v) \<longleftrightarrow> addr AND 3 \<noteq> 1 \<and> (addr AND 3 = 3 \<longrightarrow> v AND ACIA_CTL_WL_MASK = 0)"
| "steady_op _ \<longleftrightarrow> True"

lemma eight_bits: "ac_control a AND ACIA_CTL_WL_MASK = 0 \<Longrightarrow> ac_bitmask (acia_update_timing a) = 0xFF"
  by (simp add: timing_bitmask acia_calc_framebits_def Let_def push_bit_eq_mult)

lemma sealed_word: "(b :: u8) AND 0xFF = b"
proof -
  have "(0xFF :: u8) = - 1" by simp
  then show ?thesis by (simp only: bit.conj_one_right)
qed

lemma status_apart: "ACIA_STATUS_IRQ AND ACIA_STATUS_RDRF = 0" "ACIA_STATUS_TDRE AND ACIA_STATUS_RDRF = 0"
  by (simp_all add: acia_status_bits)

lemma rdr_taken_control: "ac_control (rdr_taken a) = ac_control a"
  by (simp add: rdr_taken_def fifo_pop_def set_status_def clear_status_def Let_def split: option.split)

lemma low_two: "(addr :: u16) AND 3 = 0 \<or> addr AND 3 = 1 \<or> addr AND 3 = 2 \<or> addr AND 3 = 3"
proof -
  have m: "addr AND 3 = addr mod 4" using take_bit_eq_mask [of 2 addr] by (simp add: take_bit_eq_mod mask_eq_exp_minus_1)
  have o: "addr AND 3 = of_nat n" if "unat (addr mod 4) = n" for n
    unfolding m that [symmetric] by simp
  have "unat (addr mod 4) < 4" by (simp add: unat_mod)
  then consider "unat (addr mod 4) = 0" | "unat (addr mod 4) = 1" | "unat (addr mod 4) = 2" | "unat (addr mod 4) = 3" by linarith
  then show ?thesis by cases (drule o, simp)+
qed

lemma view_timing_eight:
  assumes "ac_control a AND ACIA_CTL_WL_MASK = 0" "ac_bitmask a = 0xFF"
  shows "rx_view (acia_update_timing a) = rx_view a"
  using assms eight_bits [of a] by (intro rx_view_cong) simp_all

lemma write_steady:
  assumes "addr AND 3 \<noteq> 1" "addr AND 3 = 3 \<Longrightarrow> v AND ACIA_CTL_WL_MASK = 0" "ac_control (acia s) AND ACIA_CTL_WL_MASK = 0"
    "ac_bitmask (acia s) = 0xFF"
    "s' = acia_write hk addr v s"
  shows "waiting (acia s') = waiting (acia s)" "rx_ok (acia s') = rx_ok (acia s)"
    "rx_backpressure (acia s') = rx_backpressure (acia s)" "ac_control (acia s') AND ACIA_CTL_WL_MASK = 0"
    "ac_bitmask (acia s') = 0xFF" "backend s' = backend s" "peer s' = peer s"
proof -
  let ?a = "(acia s)\<lparr>ac_command := v\<rparr>" and ?b = "(acia s)\<lparr>ac_control := v\<rparr>"
  consider "addr AND 3 = 0" | "addr AND 3 = 2" | "addr AND 3 = 3" "v AND ACIA_CTL_WL_MASK = 0"
    using assms(1,2) low_two [of addr] by blast
  then have "waiting (acia s') = waiting (acia s) \<and> rx_ok (acia s') = rx_ok (acia s) \<and>
    rx_backpressure (acia s') = rx_backpressure (acia s) \<and> ac_control (acia s') AND ACIA_CTL_WL_MASK = 0 \<and>
    ac_bitmask (acia s') = 0xFF \<and> backend s' = backend s \<and> peer s' = peer s"
  proof cases
    case 1
    then have "rx_view (acia s') = rx_view (acia s)" "backend s' = backend s" "peer s' = peer s"
      using assms(5) by (simp_all add: acia_write_def view_status status_apart)
    then show ?thesis using assms(3,4) by (simp add: rx_view_def)
  next
    case 2
    have "rx_view (acia_update_timing ?a) = rx_view ?a" using assms(3,4) by (intro view_timing_eight) simp_all
    then have "rx_view (acia s') = rx_view (acia s)" "backend s' = backend s" "peer s' = peer s"
      using 2 assms(5) by (simp_all add: acia_write_def)
    then show ?thesis using assms(3,4) by (simp add: rx_view_def)
  next
    case 3
    have b: "waiting ?b = waiting (acia s)" "rx_ok ?b = rx_ok (acia s)"
      by (simp_all add: waiting_def fifo_list_def rx_ok_def fifo_ok_def rdrf_ok_def cong: option.case_cong)
    show ?thesis
      using 3 assms(5) b view_timing(1,2) [of ?b] eight_bits [of ?b] by (simp add: acia_write_def rx_view_def)
  qed
  then show "waiting (acia s') = waiting (acia s)" "rx_ok (acia s') = rx_ok (acia s)"
    "rx_backpressure (acia s') = rx_backpressure (acia s)" "ac_control (acia s') AND ACIA_CTL_WL_MASK = 0"
    "ac_bitmask (acia s') = 0xFF" "backend s' = backend s" "peer s' = peer s" by auto
qed

text \<open>A byte stored when there is no room: it takes the place of the waiting one, or it is lost.\<close>

lemma waiting_store_sub:
  assumes "rx_ok a" shows "subseq (waiting (rx_store b a)) (waiting a @ [b])"
proof (cases "acia_rx_has_space a")
  case True
  then show ?thesis using waiting_store(2) [OF assms] by simp
next
  case False
  then have f: "rx_full a" by (auto simp: acia_rx_has_space_def split: if_splits)
  have "waiting (rx_store b a) = waiting a \<or> waiting (rx_store b a) = [b] \<and> rx_fifo a = None"
    using False f assms by (auto simp: rx_store_def waiting_def fifo_list_def acia_rx_has_space_def fifo_push_def set_status_def split: option.splits)
  then show ?thesis by auto
qed

section \<open>Conservation of the bytes\<close>

locale serial_transport =
  fixes be :: "'w serial_backend" and wire :: "'w \<Rightarrow> u8 list" and wok :: "'w \<Rightarrow> bool" and capacity :: nat
  assumes send_law: "\<lbrakk>be_send be = Some f; wok w; f a b w = (evs, w')\<rbrakk>
      \<Longrightarrow> wok w' \<and> subseq (wire w') (wire w @ [b]) \<and> (length (wire w) < capacity \<longrightarrow> wire w' = wire w @ [b])"
    and recv_law: "\<lbrakk>wok w; be_recv be a w = (got, evs, w')\<rbrakk> \<Longrightarrow> wok w' \<and> wire w = byte_list got @ wire w'"
    and poll_law: "\<lbrakk>be_poll be = Some g; wok w; g a w = (ready, evs, w')\<rbrakk> \<Longrightarrow> wok w' \<and> wire w' = wire w"
begin

definition flow :: "('w, 'e) acia_state \<Rightarrow> u8 list" where
  "flow s = waiting (acia s) @ wire (peer s)"

definition duplex :: "('w, 'e) acia_state \<Rightarrow> bool" where
  "duplex s \<longleftrightarrow> rx_ok (acia s) \<and> rx_backpressure (acia s) \<and> ac_control (acia s) AND ACIA_CTL_WL_MASK = 0 \<and> ac_bitmask (acia s) = 0xFF
     \<and> backend s = Some be \<and> wok (peer s)"

text \<open>Steps that the receive side does not see.\<close>

lemma duplex_keep:
  assumes "rx_view (acia s') = rx_view (acia s)" "backend s' = backend s"
    "wok (peer s')" "wire (peer s') = wire (peer s)" "duplex s"
  shows "duplex s'" "flow s' = flow s"
  using assms by (simp_all add: duplex_def flow_def rx_view_def)

lemma send_step:
  assumes "duplex s" "tick_tx hk be n s = (sent, s')" "length (wire (peer s)) + length (byte_list sent) \<le> capacity"
  shows "duplex s'" "flow s' = flow s @ byte_list sent" "wire (peer s') = wire (peer s) @ byte_list sent"
proof -
  have v: "rx_view (acia s') = rx_view (acia s)" "backend s' = backend s"
    using view_tx [of hk be n s] assms(2) by simp_all
  have w: "wok (peer s)" using assms(1) by (simp add: duplex_def)
  have "wok (peer s') \<and> wire (peer s') = wire (peer s) @ byte_list sent"
    using assms(2) by (rule peer_tx) (use assms(3) w send_law in auto)
  then show "duplex s'" "flow s' = flow s @ byte_list sent" "wire (peer s') = wire (peer s) @ byte_list sent"
    using v assms(1) by (simp_all add: duplex_def flow_def rx_view_def)
qed

lemma poll_step:
  assumes "duplex s" "rx_poll hk be s = (ready, s')"
  shows "duplex s'" "flow s' = flow s" "wire (peer s') = wire (peer s)"
proof -
  have v: "rx_view (acia s') = rx_view (acia s)" "backend s' = backend s" using view_poll [of hk be s] assms(2) by simp_all
  have "wok (peer s')" "wire (peer s') = wire (peer s)"
    using assms poll_law by (auto simp: rx_poll_def duplex_def split: option.splits prod.splits)
  then show "duplex s'" "flow s' = flow s" "wire (peer s') = wire (peer s)" using duplex_keep [OF v _ _ assms(1)] by auto
qed

text \<open>Whatever the transport does to the modem lines, a byte received is stored when there is room for it.\<close>

lemma receive_step:
  assumes "duplex s" "rx_receive hk be s = (got, s')" "acia_rx_has_space (acia s)"
  shows "duplex s'" "flow s' = flow s" "length (wire (peer s')) \<le> length (wire (peer s))"
proof -
  obtain evs w byte where r: "be_recv be (acia s) (peer s) = (byte, evs, w)" using prod_cases3 by blast
  let ?s1 = "after_call hk evs w s"
  have v1: "rx_view (acia ?s1) = rx_view (acia s)" by simp
  have w: "wok w" "wire (peer s) = byte_list byte @ wire w" using recv_law [OF _ r] assms(1) by (auto simp: duplex_def)
  have ok: "rx_ok (acia ?s1)" "acia_rx_has_space (acia ?s1)" "rx_backpressure (acia ?s1)" "ac_bitmask (acia ?s1) = 0xFF"
    "ac_control (acia ?s1) AND ACIA_CTL_WL_MASK = 0" "waiting (acia ?s1) = waiting (acia s)"
    using v1 assms(1,3) by (simp_all add: rx_view_def duplex_def)
  have "duplex s' \<and> flow s' = flow s \<and> peer s' = w"
  proof (cases byte)
    case None
    then have "s' = ?s1" using assms(2) r by (simp add: rx_receive_def)
    then show ?thesis using None w assms(1) duplex_keep [of ?s1 s] by (simp add: flow_def duplex_def)
  next
    case (Some b)
    let ?a = "rx_echo b (rx_store b (acia ?s1))"
    have s': "acia s' = acia (acia_update_irq hk (upd_acia (\<lambda>a. rx_echo b (rx_store b a)) ?s1))" "backend s' = backend s" "peer s' = w"
      using Some r assms(2) ok(4) by (auto simp: rx_receive_def sealed_word Let_def)
    have "rx_view (acia s') = rx_view (rx_store b (acia ?s1))" using s'(1) by simp
    then have "duplex s'" "flow s' = waiting (rx_store b (acia ?s1)) @ wire w"
      using waiting_store [OF ok(1), of b] ok s' w assms(1) by (simp_all add: duplex_def flow_def rx_view_def)
    then show ?thesis using waiting_store(2) [OF ok(1,2)] ok(6) w(2) Some s'(3) by (simp add: flow_def)
  qed
  then show "duplex s'" "flow s' = flow s" "length (wire (peer s')) \<le> length (wire (peer s))" using w(2) by auto
qed

lemma rx_step:
  assumes "duplex s" "tick_rx hk be n s = (got, s')"
  shows "duplex s' \<and> flow s' = flow s \<and> length (wire (peer s')) \<le> length (wire (peer s))"
  using assms(2)
proof (cases rule: rx_cases)
  case early
  then show ?thesis using assms(1) duplex_keep [of s' s] by (auto simp: duplex_def)
next
  case (polled s1 ready)
  have "duplex s1" "flow s1 = flow s" using polled(3-5) assms(1) duplex_keep [of s1 s] by (auto simp: duplex_def)
  then show ?thesis using poll_step [OF _ polled(1)] polled(5) by simp
next
  case (received s1 s2)
  have "duplex s1" "flow s1 = flow s" using received(3-5) assms(1) duplex_keep [of s1 s] by (auto simp: duplex_def)
  then have 2: "duplex s2" "flow s2 = flow s" "wire (peer s2) = wire (peer s)" using poll_step [OF _ received(1)] received(5) by auto
  then have "acia_rx_has_space (acia s2)" using received(6) by (simp add: duplex_def)
  then show ?thesis using receive_step [OF 2(1) received(2)] 2(2,3) by simp
qed

lemma cycles_step:
  assumes "duplex s" "acia_cycles hk n s = (sent, got, s')" "length (wire (peer s)) + length (byte_list sent) \<le> capacity"
  shows "duplex s' \<and> flow s' = flow s @ byte_list sent \<and> length (wire (peer s')) \<le> length (wire (peer s)) + length (byte_list sent)"
proof -
  let ?s1 = "tick_transit hk n s"
  have 1: "duplex ?s1" "flow ?s1 = flow s" "backend ?s1 = Some be" and p: "peer ?s1 = peer s"
    using assms(1) duplex_keep [of ?s1 s] by (auto simp: duplex_def)
  show ?thesis
  proof (cases "ac_command (acia ?s1) AND ACIA_CMD_DTR = 0")
    case True
    then have "sent = None" "s' = ?s1" using assms(2) 1(3) by (simp_all add: acia_cycles_def Let_def)
    then show ?thesis using 1 p by simp
  next
    case False
    obtain b s2 where t: "tick_tx hk be n ?s1 = (b, s2)" by force
    obtain g s3 where r: "tick_rx hk be n s2 = (g, s3)" by force
    have e: "sent = b" "s' = s3" using False assms(2) 1(3) t r by (simp_all add: acia_cycles_def Let_def)
    have "duplex s2" "flow s2 = flow s @ byte_list b" "wire (peer s2) = wire (peer s) @ byte_list b"
      using send_step [OF 1(1) t] assms(3) e(1) 1(2) by simp_all
    then show ?thesis using rx_step [OF _ r] e by simp
  qed
qed

lemma do_step:
  assumes "duplex s" "acia_do hk x s = (taken, sent, s')" "steady_op x" "length (wire (peer s)) + length sent \<le> capacity"
  shows "duplex s' \<and> flow s @ sent = taken @ flow s' \<and> length (wire (peer s')) \<le> length (wire (peer s)) + length sent"
proof (cases x)
  case (Ac_read addr)
  show ?thesis
  proof (cases "addr AND 3 = 0")
    case True
    have ok: "rx_ok (acia s)" using assms(1) by (simp add: duplex_def)
    have "rx_view (acia s') = rx_view (rdr_taken (acia s))" "backend s' = backend s" "peer s' = peer s"
      "ac_control (rdr_taken (acia s)) = ac_control (acia s)"
      "taken = (if rx_full (acia s) then [ac_rdr (acia s)] else [])" "sent = []"
      using assms(2) Ac_read True by (auto simp: acia_read_def rdr_taken_control)
    then show ?thesis using waiting_taken [OF ok] assms(1) by (simp add: duplex_def flow_def rx_view_def)
  next
    case False
    then have "rx_view (acia s') = rx_view (acia s)" "backend s' = backend s" "peer s' = peer s" "taken = []" "sent = []"
      using assms(2) Ac_read by (auto simp: acia_read_def status_apart view_status Let_def split: if_splits)
    then show ?thesis using duplex_keep [of s' s] assms(1) by (simp add: duplex_def)
  qed
next
  case (Ac_write addr v)
  then have e: "taken = []" "sent = []" "s' = acia_write hk addr v s" using assms(2) by auto
  have "addr AND 3 \<noteq> 1" and c: "addr AND 3 = 3 \<Longrightarrow> v AND ACIA_CTL_WL_MASK = 0" using assms(3) Ac_write by auto
  then have "duplex s' \<and> flow s' = flow s \<and> peer s' = peer s" using assms(1) write_steady [of addr v s s' hk] e(3) by (simp add: duplex_def flow_def)
  then show ?thesis using e by simp
next
  case (Ac_tick n)
  then show ?thesis using assms cycles_step [OF assms(1), of hk n] by (auto split: prod.splits)
next
  case (Ac_line e)
  then show ?thesis using assms(1,2) duplex_keep [of s' s] by (auto simp: duplex_def)
qed

lemma run_flow:
  assumes "duplex s" "acia_run hk xs s = (taken, sent, s')" "list_all steady_op xs" "length (wire (peer s)) + length sent \<le> capacity"
  shows "flow s @ sent = taken @ flow s'"
  using assms
proof (induction xs arbitrary: s taken sent)
  case (Cons x xs)
  obtain t1 r1 s1 where 1: "acia_do hk x s = (t1, r1, s1)" using prod_cases3 by blast
  obtain t2 r2 where 2: "acia_run hk xs s1 = (t2, r2, s')" "taken = t1 @ t2" "sent = r1 @ r2"
    using Cons.prems(2) 1 by (auto split: prod.splits)
  have d: "duplex s1" "flow s @ r1 = t1 @ flow s1" "length (wire (peer s1)) \<le> length (wire (peer s)) + length r1"
    using do_step [OF Cons.prems(1) 1] Cons.prems(3,4) 2(3) by auto
  have "flow s1 @ r2 = t2 @ flow s'" using Cons.IH [OF d(1) 2(1)] Cons.prems(3,4) 2(3) d(3) by simp
  then show ?case using d(2) 2 by (metis append.assoc)
qed simp

text \<open>
  Without back pressure, or with a transport that is full, bytes are lost, but nothing is invented, repeated
  or reordered.
\<close>

definition linked :: "('w, 'e) acia_state \<Rightarrow> bool" where
  "linked s \<longleftrightarrow> rx_ok (acia s) \<and> ac_control (acia s) AND ACIA_CTL_WL_MASK = 0 \<and> ac_bitmask (acia s) = 0xFF \<and>
     backend s = Some be \<and> wok (peer s)"

lemma linked_keep:
  assumes "rx_view (acia s') = rx_view (acia s)" "backend s' = backend s" "wok (peer s')" "linked s"
  shows "linked s'" "waiting (acia s') = waiting (acia s)"
  using assms by (simp_all add: linked_def rx_view_def)

lemma linked_send:
  assumes "linked s" "tick_tx hk be n s = (sent, s')"
  shows "linked s'" "subseq (flow s') (flow s @ byte_list sent)"
proof -
  have v: "rx_view (acia s') = rx_view (acia s)" "backend s' = backend s"
    using view_tx [of hk be n s] assms(2) by simp_all
  have w: "wok (peer s)" using assms(1) by (simp add: linked_def)
  have p: "wok (peer s') \<and> subseq (wire (peer s')) (wire (peer s) @ byte_list sent)"
    using assms(2) by (rule peer_tx) (use w send_law in auto)
  then show "linked s'" "subseq (flow s') (flow s @ byte_list sent)"
    using linked_keep [OF v _ assms(1)] by (simp_all add: flow_def subseq_append')
qed

lemma linked_poll:
  assumes "linked s" "rx_poll hk be s = (ready, s')"
  shows "linked s'" "flow s' = flow s"
proof -
  have v: "rx_view (acia s') = rx_view (acia s)" "backend s' = backend s" using view_poll [of hk be s] assms(2) by simp_all
  have "wok (peer s')" "wire (peer s') = wire (peer s)"
    using assms poll_law by (auto simp: rx_poll_def linked_def split: option.splits prod.splits)
  then show "linked s'" "flow s' = flow s" using linked_keep [OF v _ assms(1)] by (simp_all add: flow_def)
qed

lemma linked_receive:
  assumes "linked s" "rx_receive hk be s = (got, s')"
  shows "linked s'" "subseq (flow s') (flow s)"
proof -
  obtain evs w byte where r: "be_recv be (acia s) (peer s) = (byte, evs, w)" using prod_cases3 by blast
  let ?s1 = "after_call hk evs w s"
  have w: "wok w" "wire (peer s) = byte_list byte @ wire w" using recv_law [OF _ r] assms(1) by (auto simp: linked_def)
  have 1: "linked ?s1" "waiting (acia ?s1) = waiting (acia s)" using linked_keep [of ?s1 s] w(1) assms(1) by simp_all
  have "linked s' \<and> subseq (flow s') (flow s)"
  proof (cases byte)
    case None
    then have "s' = ?s1" using assms(2) r by (simp add: rx_receive_def)
    then show ?thesis using 1 w(2) None by (simp add: flow_def)
  next
    case (Some b)
    have m: "ac_bitmask (acia ?s1) = 0xFF" "rx_ok (acia ?s1)" using 1(1) by (simp_all add: linked_def)
    have s': "acia s' = acia (acia_update_irq hk (upd_acia (\<lambda>a. rx_echo b (rx_store b a)) ?s1))" "backend s' = backend s" "peer s' = w"
      using Some r assms(2) m(1) by (auto simp: rx_receive_def sealed_word Let_def)
    have v: "rx_view (acia s') = rx_view (rx_store b (acia ?s1))" using s'(1) by simp
    then have "linked s'" using waiting_store(1,4,5) [OF m(2), of b] s'(2,3) w(1) 1(1) assms(1) by (simp add: linked_def rx_view_def)
    moreover have "subseq (waiting (acia s')) (waiting (acia s) @ [b])"
      using waiting_store_sub [OF m(2), of b] v 1(2) by (simp add: rx_view_def)
    then have "subseq (waiting (acia s') @ wire w) ((waiting (acia s) @ [b]) @ wire w)" by (rule list_emb_append_mono) simp
    ultimately show ?thesis using s'(3) w(2) Some by (simp add: flow_def)
  qed
  then show "linked s'" "subseq (flow s') (flow s)" by auto
qed

lemma linked_rx:
  assumes "linked s" "tick_rx hk be n s = (got, s')"
  shows "linked s' \<and> subseq (flow s') (flow s)"
  using assms(2)
proof (cases rule: rx_cases)
  case early
  then show ?thesis using assms(1) linked_keep [of s' s] by (simp add: linked_def flow_def)
next
  case (polled s1 ready)
  have "linked s1" "flow s1 = flow s" using polled(3-5) assms(1) linked_keep [of s1 s] by (auto simp: linked_def flow_def)
  then show ?thesis using linked_poll [OF _ polled(1)] by simp
next
  case (received s1 s2)
  have "linked s1" "flow s1 = flow s" using received(3-5) assms(1) linked_keep [of s1 s] by (auto simp: linked_def flow_def)
  then show ?thesis using linked_poll [OF _ received(1)] linked_receive [OF _ received(2)] by simp
qed

lemma linked_cycles:
  assumes "linked s" "acia_cycles hk n s = (sent, got, s')"
  shows "linked s' \<and> subseq (flow s') (flow s @ byte_list sent)"
proof -
  let ?s1 = "tick_transit hk n s"
  have 1: "linked ?s1" "flow ?s1 = flow s" "backend ?s1 = Some be"
    using assms(1) linked_keep [of ?s1 s] by (auto simp: linked_def flow_def)
  show ?thesis
  proof (cases "ac_command (acia ?s1) AND ACIA_CMD_DTR = 0")
    case True
    then have "sent = None" "s' = ?s1" using assms(2) 1(3) by (simp_all add: acia_cycles_def Let_def)
    then show ?thesis using 1 by simp
  next
    case False
    obtain b s2 where t: "tick_tx hk be n ?s1 = (b, s2)" by force
    obtain g s3 where r: "tick_rx hk be n s2 = (g, s3)" by force
    have e: "sent = b" "s' = s3" using False assms(2) 1(3) t r by (simp_all add: acia_cycles_def Let_def)
    show ?thesis using linked_send [OF 1(1) t] linked_rx [OF _ r] 1(2) e subseq_order.trans by auto
  qed
qed

lemma linked_do:
  assumes "linked s" "acia_do hk x s = (taken, sent, s')" "steady_op x"
  shows "linked s' \<and> subseq (taken @ flow s') (flow s @ sent)"
proof (cases x)
  case (Ac_read addr)
  show ?thesis
  proof (cases "addr AND 3 = 0")
    case True
    have ok: "rx_ok (acia s)" using assms(1) by (simp add: linked_def)
    have "rx_view (acia s') = rx_view (rdr_taken (acia s))" "backend s' = backend s" "peer s' = peer s"
      "ac_control (rdr_taken (acia s)) = ac_control (acia s)"
      "taken = (if rx_full (acia s) then [ac_rdr (acia s)] else [])" "sent = []"
      using assms(2) Ac_read True by (auto simp: acia_read_def rdr_taken_control)
    then show ?thesis using waiting_taken [OF ok] assms(1) by (simp add: linked_def flow_def rx_view_def)
  next
    case False
    then have "rx_view (acia s') = rx_view (acia s)" "backend s' = backend s" "peer s' = peer s" "taken = []" "sent = []"
      using assms(2) Ac_read by (auto simp: acia_read_def status_apart view_status Let_def split: if_splits)
    then show ?thesis using linked_keep [of s' s] assms(1) by (simp add: linked_def flow_def)
  qed
next
  case (Ac_write addr v)
  then have e: "taken = []" "sent = []" "s' = acia_write hk addr v s" using assms(2) by auto
  have "addr AND 3 \<noteq> 1" and c: "addr AND 3 = 3 \<Longrightarrow> v AND ACIA_CTL_WL_MASK = 0" using assms(3) Ac_write by auto
  then have "linked s' \<and> flow s' = flow s" using assms(1) write_steady [of addr v s s' hk] e(3) by (simp add: linked_def flow_def)
  then show ?thesis using e by simp
next
  case (Ac_tick n)
  then show ?thesis using assms linked_cycles [OF assms(1), of hk n] by (auto split: prod.splits)
next
  case (Ac_line e)
  then show ?thesis using assms(1,2) linked_keep [of s' s] by (auto simp: linked_def flow_def)
qed

lemma run_linked:
  assumes "linked s" "acia_run hk xs s = (taken, sent, s')" "list_all steady_op xs"
  shows "subseq (taken @ flow s') (flow s @ sent)"
  using assms
proof (induction xs arbitrary: s taken sent)
  case (Cons x xs)
  obtain t1 r1 s1 where 1: "acia_do hk x s = (t1, r1, s1)" using prod_cases3 by blast
  obtain t2 r2 where 2: "acia_run hk xs s1 = (t2, r2, s')" "taken = t1 @ t2" "sent = r1 @ r2"
    using Cons.prems(2) 1 by (auto split: prod.splits)
  have d: "linked s1" "subseq (t1 @ flow s1) (flow s @ r1)" using linked_do [OF Cons.prems(1) 1] Cons.prems(3) by auto
  have "subseq (t2 @ flow s') (flow s1 @ r2)" using Cons.IH [OF d(1) 2(1)] Cons.prems(3) by simp
  then have "subseq (t1 @ t2 @ flow s') (t1 @ flow s1 @ r2)" by (simp add: subseq_append')
  also have "subseq (t1 @ flow s1 @ r2) ((flow s @ r1) @ r2)"
    using list_emb_append_mono [OF d(2), of r2 r2] by simp
  finally show ?case using 2 by simp
qed simp

end

end
