(* ===== verification/Acia_Links.thy ===== *)
theory Acia_Links
  imports Acia_Program
begin

text \<open>
  The serial chip on its two sides: its interrupt on the input of the CPU (\<open>irq_set\<close> and \<open>irq_clr\<close> of
  \<open>src/cards/card_acia.c\<close>), followed through every operation, and the loopback transport, which
  provides the interface \<open>serial_transport\<close>.
\<close>

section \<open>The interrupt\<close>

definition serial_hooks :: "'d board irq_hooks" where
  "serial_hooks = \<lparr>on_irq_set = Some (cpu_irq_set IRQF_SERIAL), on_irq_clr = Some (cpu_irq_clear IRQF_SERIAL)\<rparr>"

definition serial_line :: "'d board \<Rightarrow> bool" where
  "serial_line b \<longleftrightarrow> irq b AND irqf_bit IRQF_SERIAL \<noteq> 0"

definition irq_bit :: "acia6551_t \<Rightarrow> bool" where
  "irq_bit a \<longleftrightarrow> ac_status a AND ACIA_STATUS_IRQ \<noteq> 0"

text \<open>What the interrupt logic reads and writes in the chip.\<close>

definition irq_view :: "acia6551_t \<Rightarrow> bool \<times> bool \<times> bool \<times> bool \<times> bool" where
  "irq_view a = (irq_bit a, irq_line a, irq_in_transit a, irq_wanted a, irq_on_rdrf a)"

lemma irq_view_cong:
  assumes "irq_line a = irq_line b" "irq_in_transit a = irq_in_transit b" "irq_on_rdrf a = irq_on_rdrf b" "ac_command a = ac_command b"
    "ac_status a AND (ACIA_STATUS_IRQ OR ACIA_STATUS_RDRF OR ACIA_STATUS_TDRE) = ac_status b AND (ACIA_STATUS_IRQ OR ACIA_STATUS_RDRF OR ACIA_STATUS_TDRE)"
  shows "irq_view a = irq_view b"
proof -
  have m: "x AND m = y AND m" if "x AND n = y AND n" "n AND m = m" for x y m n :: u8
    using that by (metis and.assoc)
  have "ac_status a AND ACIA_STATUS_IRQ = ac_status b AND ACIA_STATUS_IRQ"
    "ac_status a AND ACIA_STATUS_RDRF = ac_status b AND ACIA_STATUS_RDRF"
    "ac_status a AND ACIA_STATUS_TDRE = ac_status b AND ACIA_STATUS_TDRE"
    by (rule m [OF assms(5)], simp add: acia_status_bits)+
  then show ?thesis using assms(1-4) by (simp add: irq_view_def irq_bit_def irq_wanted_def)
qed

lemma irq_view_upd [simp]:
  "irq_view (a\<lparr>ac_dcd := b\<rparr>) = irq_view a" "irq_view (a\<lparr>ac_dsr := b\<rparr>) = irq_view a" "irq_view (a\<lparr>ac_cts := b\<rparr>) = irq_view a"
  "irq_view (a\<lparr>tx_cycles := i\<rparr>) = irq_view a" "irq_view (a\<lparr>rx_cycles := i\<rparr>) = irq_view a" "irq_view (a\<lparr>ac_control := c\<rparr>) = irq_view a"
  by (rule irq_view_cong, simp_all)+

lemma irq_view_again [simp]: "irq_view (rx_poll_again a) = irq_view a" and irq_view_timing [simp]: "irq_view (acia_update_timing a) = irq_view a"
  by (rule irq_view_cong; simp add: rx_poll_again_def)+

lemma irq_view_status:
  assumes "m = ACIA_STATUS_DCD \<or> m = ACIA_STATUS_DSR"
  shows "irq_view (set_status m a) = irq_view a" "irq_view (clear_status m a) = irq_view a"
proof -
  let ?k = "ACIA_STATUS_IRQ OR ACIA_STATUS_RDRF OR ACIA_STATUS_TDRE"
  have "m AND ?k = 0" "NOT m AND ?k = ?k" using assms by (auto simp: acia_status_bits)
  then have "(x OR m) AND ?k = x AND ?k" "(x AND NOT m) AND ?k = x AND ?k" for x
    by (simp_all only: bit.conj_disj_distrib2 and.assoc bit.disj_zero_right)
  then show "irq_view (set_status m a) = irq_view a" "irq_view (clear_status m a) = irq_view a"
    by (auto simp: set_status_def clear_status_def intro!: irq_view_cong)
qed

context irq_input
begin

definition wires :: "'e irq_hooks" where
  "wires = \<lparr>on_irq_set = Some raise, on_irq_clr = Some drop\<rparr>"

text \<open>The CPU sees the line of the chip.\<close>

definition wired :: "('w, 'e) acia_state \<Rightarrow> bool" where
  "wired s \<longleftrightarrow> level (host s) = irq_line (acia s) \<and> \<not> (irq_line (acia s) \<and> irq_in_transit (acia s))"

definition irq_exact :: "('w, 'e) acia_state \<Rightarrow> bool" where
  "irq_exact s \<longleftrightarrow> wired s \<and> irq_bit (acia s) = (irq_line (acia s) \<or> irq_in_transit (acia s)) \<and>
     (irq_bit (acia s) \<longrightarrow> irq_wanted (acia s)) \<and> (irq_on_rdrf (acia s) \<and> irq_wanted (acia s) \<longrightarrow> irq_bit (acia s))"

lemma exact_wired: "irq_exact s \<Longrightarrow> wired s"
  by (simp add: irq_exact_def)

lemma exact_cong:
  assumes "irq_view (acia s') = irq_view (acia s)" "host s' = host s"
  shows "irq_exact s' = irq_exact s" "wired s' = wired s"
  using assms by (simp_all add: irq_exact_def wired_def irq_view_def)

lemma wired_upd: "irq_line (f (acia s)) = irq_line (acia s) \<Longrightarrow> irq_in_transit (f (acia s)) = irq_in_transit (acia s)
    \<Longrightarrow> wired s \<Longrightarrow> wired (upd_acia f s)"
  by (simp add: wired_def)

text \<open>Recomputing the interrupt makes it exact, from any state where the CPU sees the line.\<close>

lemma update_exact: "wired s \<Longrightarrow> irq_exact (acia_update_irq wires s)"
proof -
  have n: "ACIA_STATUS_IRQ \<noteq> 0" by (simp add: acia_status_bits)
  have z: "(x OR ACIA_STATUS_IRQ) AND ACIA_STATUS_IRQ \<noteq> 0" "(x AND NOT ACIA_STATUS_IRQ) AND ACIA_STATUS_IRQ = 0"
    "(x OR ACIA_STATUS_IRQ) AND ACIA_STATUS_RDRF = x AND ACIA_STATUS_RDRF" "(x OR ACIA_STATUS_IRQ) AND ACIA_STATUS_TDRE = x AND ACIA_STATUS_TDRE"
    for x :: u8
    by (simp_all add: acia_status_bits and.assoc bit.conj_disj_distrib2)
  have w: "(x AND NOT ACIA_STATUS_IRQ) AND ACIA_STATUS_RDRF = x AND ACIA_STATUS_RDRF"
    "(x AND NOT ACIA_STATUS_IRQ) AND ACIA_STATUS_TDRE = x AND ACIA_STATUS_TDRE" for x :: u8
    by (simp_all add: acia_status_bits and.assoc)
  assume "wired s"
  then show ?thesis
    by (auto simp: acia_update_irq_def acia_assert_irq_def acia_deassert_irq_def irq_exact_def wired_def irq_bit_def irq_wanted_def
        set_status_def clear_status_def call_host_def wires_def n z w raised dropped Let_def)
qed

lemma dcd_exact: "irq_exact s \<Longrightarrow> irq_exact (acia_set_dcd wires b s)" and dcd_wired: "wired s \<Longrightarrow> wired (acia_set_dcd wires b s)"
proof -
  let ?s1 = "upd_acia (\<lambda>a. (if b then clear_status ACIA_STATUS_DCD else set_status ACIA_STATUS_DCD) (a\<lparr>ac_dcd := b\<rparr>)) s"
  have 1: "irq_view (acia ?s1) = irq_view (acia s)" "host ?s1 = host s" by (simp_all add: irq_view_status)
  have d: "acia_set_dcd wires b s = (if ac_dcd (acia s) \<noteq> b then acia_update_irq wires ?s1 else ?s1)"
    by (simp add: acia_set_dcd_def Let_def)
  show "irq_exact s \<Longrightarrow> irq_exact (acia_set_dcd wires b s)" "wired s \<Longrightarrow> wired (acia_set_dcd wires b s)"
    using exact_cong [OF 1] update_exact [of ?s1] exact_wired [of s] exact_wired [of "acia_update_irq wires ?s1"] by (auto simp: d)
qed

lemma line_exact: "irq_exact s \<Longrightarrow> irq_exact (line_moves wires e s)" and line_wired: "wired s \<Longrightarrow> wired (line_moves wires e s)"
proof -
  have "irq_view (acia_set_dsr b (acia s)) = irq_view (acia s)" "irq_view (acia_set_cts b (acia s)) = irq_view (acia s)" for b
    by (simp_all add: acia_set_dsr_def acia_set_cts_def irq_view_status)
  then have "irq_exact (upd_acia (acia_set_dsr b) s) = irq_exact s" "irq_exact (upd_acia (acia_set_cts b) s) = irq_exact s"
    "wired (upd_acia (acia_set_dsr b) s) = wired s" "wired (upd_acia (acia_set_cts b) s) = wired s" for b
    by (auto intro!: exact_cong)
  then show "irq_exact s \<Longrightarrow> irq_exact (line_moves wires e s)" "wired s \<Longrightarrow> wired (line_moves wires e s)"
    by (cases e; simp add: dcd_exact dcd_wired)+
qed

lemma call_exact: "irq_exact s \<Longrightarrow> irq_exact (after_call wires evs w s)" and call_wired: "wired s \<Longrightarrow> wired (after_call wires evs w s)"
proof -
  have f: "irq_exact t \<Longrightarrow> irq_exact (fold (line_moves wires) evs t)" "wired t \<Longrightarrow> wired (fold (line_moves wires) evs t)" for t :: "('w, 'e) acia_state"
    by (induction evs arbitrary: t) (simp_all add: line_exact line_wired)
  show "irq_exact s \<Longrightarrow> irq_exact (after_call wires evs w s)" "wired s \<Longrightarrow> wired (after_call wires evs w s)"
    using f [of "s\<lparr>peer := w\<rparr>"] exact_cong [of "s\<lparr>peer := w\<rparr>" s] by (auto simp: after_call_def)
qed

text \<open>The halves of a tick end with the interrupt recomputed, or do not touch it.\<close>

lemma transit_exact: "irq_exact s \<Longrightarrow> irq_exact (tick_transit wires n s)"
  by (auto simp: tick_transit_def irq_exact_def wired_def irq_bit_def irq_wanted_def call_host_def wires_def raised Let_def)

lemma tx_exact:
  assumes "irq_exact s"
  shows "irq_exact (snd (tick_tx wires be n s))"
proof -
  let ?s1 = "upd_acia (\<lambda>a. a\<lparr>tx_cycles := tx_cycles a - n\<rparr>) s"
  have 1: "irq_exact ?s1" using assms by (simp add: exact_cong(1) [of ?s1 s])
  have done_exact: "irq_exact (acia_update_irq wires (upd_acia (\<lambda>a. set_status ACIA_STATUS_TDRE
      (a\<lparr>tx_pending := False, tx_cycles := tx_reload a\<rparr>)) t))" if "wired t" for t :: "('w, 'e) acia_state"
    by (rule update_exact, rule wired_upd) (use that in \<open>simp_all add: set_status_def\<close>)
  have "wired ?s1" using 1 by (rule exact_wired)
  then show ?thesis
    using 1 assms by (auto simp: tick_tx_def Let_def split: option.split prod.split intro!: done_exact call_wired)
qed

lemma receive_exact:
  assumes "irq_exact s"
  shows "irq_exact (snd (rx_receive wires be s))"
proof -
  have stored: "irq_line (rx_echo b (rx_store b a)) = irq_line a" "irq_in_transit (rx_echo b (rx_store b a)) = irq_in_transit a" for a b
    by (simp_all add: rx_echo_def rx_store_def fifo_push_def set_status_def clear_status_def Let_def split: option.split)
  show ?thesis
    using assms by (auto simp: rx_receive_def Let_def stored split: option.split prod.split
      intro!: call_exact update_exact wired_upd call_wired exact_wired [OF assms])
qed

lemma poll_exact: "irq_exact s \<Longrightarrow> irq_exact (snd (rx_poll wires be s))"
  by (auto simp: rx_poll_def split: option.split prod.split intro: call_exact)

lemma rx_exact:
  assumes "irq_exact s"
  shows "irq_exact (snd (tick_rx wires be n s))"
proof -
  let ?s1 = "upd_acia (\<lambda>a. a\<lparr>rx_cycles := rx_cycles a - n\<rparr>) s"
  have 1: "irq_exact ?s1" using assms by (simp add: exact_cong(1) [of ?s1 s])
  have 2: "irq_exact (upd_acia rx_poll_again ?s1)" using assms by (simp add: exact_cong(1) [of "upd_acia rx_poll_again ?s1" s])
  obtain ready s3 where p: "rx_poll wires be (upd_acia rx_poll_again ?s1) = (ready, s3)" by force
  have 3: "irq_exact s3" using poll_exact [OF 2, of be] p by simp
  show ?thesis using 1 3 p receive_exact [OF 3, of be] by (simp add: tick_rx_def Let_def)
qed

lemma cycles_exact:
  assumes "irq_exact s" "acia_cycles wires n s = (sent, got, s')"
  shows "irq_exact s'"
proof (cases "backend (tick_transit wires n s)")
  case None
  then show ?thesis using assms transit_exact [OF assms(1), of n] by (simp add: acia_cycles_def Let_def)
next
  case (Some be)
  obtain b s2 where t: "tick_tx wires be n (tick_transit wires n s) = (b, s2)" by force
  obtain g s3 where r: "tick_rx wires be n s2 = (g, s3)" by force
  have 1: "irq_exact (tick_transit wires n s)" using assms(1) by (rule transit_exact)
  have 2: "irq_exact s2" using tx_exact [OF 1, of be n] t by simp
  have "irq_exact s3" using rx_exact [OF 2, of be n] r by simp
  then show ?thesis using assms(2) Some t r 1 by (simp add: acia_cycles_def Let_def split: if_splits)
qed

lemma reset_exact: "irq_exact s \<Longrightarrow> irq_exact (acia_reset wires s)"
  by (auto simp: acia_reset_def acia_deassert_irq_def irq_exact_def wired_def irq_bit_def irq_wanted_def call_host_def wires_def dropped
      acia_status_bits acia_command_bits and.assoc Let_def)

text \<open>Reading the status takes the interrupt away; a 65C51 raises it again while its cause lasts.\<close>

lemma status_exact:
  assumes "irq_exact s"
  defines "s1 \<equiv> acia_deassert_irq wires (upd_acia (clear_status ACIA_STATUS_IRQ) s)"
  shows "irq_exact (if irq_on_rdrf (acia s1) then acia_update_irq wires s1 else s1)"
proof -
  have c: "(x AND NOT ACIA_STATUS_IRQ) AND ACIA_STATUS_IRQ = 0" for x :: u8 by (simp add: and.assoc)
  have w: "wired s1" and "\<not> irq_bit (acia s1)" "\<not> irq_line (acia s1)" "\<not> irq_in_transit (acia s1)"
    using assms(1) by (auto simp: s1_def acia_deassert_irq_def irq_exact_def wired_def call_host_def wires_def dropped Let_def
        irq_bit_def clear_status_def c)
  then show ?thesis using update_exact [OF w] by (auto simp: irq_exact_def)
qed

lemma read_exact:
  assumes "irq_exact s"
  shows "irq_exact (snd (acia_read wires addr s))"
proof -
  have "irq_line (rdr_taken a) = irq_line a" "irq_in_transit (rdr_taken a) = irq_in_transit a" for a
    by (simp_all add: rdr_taken_def fifo_pop_def set_status_def clear_status_def Let_def split: option.split)
  then have "irq_exact (acia_update_irq wires (upd_acia rdr_taken s))"
    by (intro update_exact wired_upd exact_wired [OF assms]) simp_all
  then show ?thesis using assms status_exact [OF assms] by (simp add: acia_read_def Let_def)
qed

lemma write_exact:
  assumes "irq_exact s"
  shows "irq_exact (acia_write wires addr v s)"
proof -
  have "irq_exact (acia_update_irq wires (upd_acia (\<lambda>a. clear_status ACIA_STATUS_TDRE
      (a\<lparr>ac_tdr := v AND ac_bitmask a, tx_pending := True, tx_cycles := tx_reload a\<rparr>)) s))"
    "irq_exact (acia_update_irq wires (upd_acia (\<lambda>a. acia_update_timing (a\<lparr>ac_command := v\<rparr>)) s))"
    by (intro update_exact wired_upd exact_wired [OF assms]; simp add: clear_status_def)+
  moreover have "irq_exact (upd_acia (\<lambda>a. acia_update_timing (a\<lparr>ac_control := v\<rparr>)) s)"
    using assms exact_cong(1) [of "upd_acia (\<lambda>a. acia_update_timing (a\<lparr>ac_control := v\<rparr>)) s" s] by simp
  ultimately show ?thesis using reset_exact [OF assms] by (simp add: acia_write_def Let_def)
qed

lemma do_exact:
  assumes "irq_exact s" "acia_do wires x s = (taken, sent, s')"
  shows "irq_exact s'"
proof (cases x)
  case (Ac_read addr)
  then show ?thesis using assms read_exact [OF assms(1), of addr] by (auto split: prod.splits)
next
  case (Ac_tick n)
  then show ?thesis using assms cycles_exact [OF assms(1)] by (auto split: prod.splits)
qed (use assms write_exact line_exact in auto)

lemma run_exact: "irq_exact s \<Longrightarrow> acia_run wires xs s = (taken, sent, s') \<Longrightarrow> irq_exact s'"
proof (induction xs arbitrary: s taken sent)
  case (Cons x xs)
  obtain t1 r1 s1 where 1: "acia_do wires x s = (t1, r1, s1)" using prod_cases3 by blast
  obtain t2 r2 where 2: "acia_run wires xs s1 = (t2, r2, s')" using Cons.prems(2) 1 by (auto split: prod.splits)
  show ?case using Cons.IH [OF do_exact [OF Cons.prems(1) 1] 2] .
qed simp

end

interpretation serial_irq: irq_input "cpu_irq_set IRQF_SERIAL" "cpu_irq_clear IRQF_SERIAL" serial_line
  rewrites "irq_input.wires (cpu_irq_set IRQF_SERIAL) (cpu_irq_clear IRQF_SERIAL) = serial_hooks"
proof -
  show i: "irq_input (cpu_irq_set IRQF_SERIAL) (cpu_irq_clear IRQF_SERIAL) serial_line"
  proof
    show "serial_line (cpu_irq_set IRQF_SERIAL e)" "\<not> serial_line (cpu_irq_clear IRQF_SERIAL e)" for e :: "'d board"
      by (simp_all add: serial_line_def cpu_irq_set_def cpu_irq_clear_def or_and_absorb not_and_absorb del: word_not_simps irqf_bit.simps)
         simp
  qed
  show "irq_input.wires (cpu_irq_set IRQF_SERIAL) (cpu_irq_clear IRQF_SERIAL) = serial_hooks"
    by (simp add: irq_input.wires_def [OF i] serial_hooks_def)
qed

section \<open>The loopback transport\<close>

definition lb_ok :: "loopback \<Rightarrow> bool" where
  "lb_ok l \<longleftrightarrow> length (lb_buf l) = SERIAL_LOOPBACK_BUFSZ \<and> ring_ok (lb_buf l) (lb_head l) (lb_tail l) (lb_count l)"

definition lb_list :: "loopback \<Rightarrow> u8 list" where
  "lb_list l = ring (lb_buf l) (lb_tail l) (lb_count l)"

lemma loopback_send_ok:
  assumes "lb_ok l"
  shows "lb_ok (snd (loopback_send b l))" "lb_count l < SERIAL_LOOPBACK_BUFSZ \<Longrightarrow> lb_list (snd (loopback_send b l)) = lb_list l @ [b]"
    "subseq (lb_list (snd (loopback_send b l))) (lb_list l @ [b])"
  using assms ring_ok_put [of "lb_buf l" "lb_head l" "lb_tail l" "lb_count l" b] ring_put [of "lb_count l" "lb_buf l" "lb_head l" "lb_tail l" b]
  by (auto simp: lb_ok_def lb_list_def loopback_send_def ring_ok_def)

lemma loopback_recv_ok:
  assumes "lb_ok l"
  shows "loopback_recv l = None \<Longrightarrow> lb_list l = []"
    "loopback_recv l = Some (b, l') \<Longrightarrow> lb_ok l' \<and> lb_list l = b # lb_list l'"
  using assms ring_ok_take [of "lb_buf l" "lb_head l" "lb_tail l" "lb_count l"] ring_take [of "lb_count l" "lb_tail l" "lb_buf l"]
  by (auto simp: lb_ok_def lb_list_def loopback_recv_def ring_ok_def split: if_splits)

interpretation loop: serial_transport serial_backend_loopback lb_list lb_ok SERIAL_LOOPBACK_BUFSZ
  by unfold_locales
    (auto simp: serial_backend_loopback_def byte_list_def loopback_send_ok lb_list_def [THEN arg_cong [of _ _ length]] split: option.splits prod.splits
      dest: loopback_recv_ok)

end
