(* ===== verification/Cassette.thy ===== *)
theory Cassette
  imports Via6522
begin

unbundle bit_operations_syntax

text \<open>
  The cassette signal (\<open>include/io/cassette.h\<close>, \<open>src/io/cassette.c\<close>): the generator that plays a tape on
  CB1 of the VIA and the decoder that rebuilds the bytes of a tape from PB7.  The decoder's buffer is
  the list of the bytes it holds with its capacity; \<open>alloc n\<close> says whether \<open>malloc\<close> or \<open>realloc\<close> gives
  \<open>n\<close> bytes.
\<close>

section \<open>The generator\<close>

abbreviation CAS_HALF_ONE :: int where "CAS_HALF_ONE \<equiv> 208"
abbreviation CAS_HALF_LONG :: int where "CAS_HALF_LONG \<equiv> 416"
abbreviation CAS_LEADER_SYNCS :: int where "CAS_LEADER_SYNCS \<equiv> 64"
abbreviation CAS_SYNC_BYTE :: u8 where "CAS_SYNC_BYTE \<equiv> 0x16"
abbreviation CAS_FRAME_BITS :: int where "CAS_FRAME_BITS \<equiv> 14"
abbreviation CAS_PERIOD_THRESH :: "64 word" where "CAS_PERIOD_THRESH \<equiv> 512"

record cassette_t =
  signal_mode :: bool
  motor_on :: bool
  cas_buf :: "u8 list"
  cas_len :: int
  byte_pos :: int
  bit_pos :: int
  cas_frame :: u16
  half :: int
  leader_left :: int
  cyc_to_edge :: int
  cb1_level :: bool
  cas_finished :: bool
  cas_started :: bool
  free_gate :: bool

definition cassette_init :: "cassette_t \<Rightarrow> cassette_t" where
  "cassette_init c = c\<lparr>signal_mode := False, motor_on := False, cas_buf := [], cas_len := 0, byte_pos := 0,
     bit_pos := CAS_FRAME_BITS, cas_frame := 0, half := 0, leader_left := 0, cyc_to_edge := 0,
     cb1_level := True, cas_finished := False, cas_started := False\<rparr>"

definition cassette_reset :: "cassette_t \<Rightarrow> cassette_t" where
  "cassette_reset c = cassette_init c"

definition cassette_encode_frame :: "u8 \<Rightarrow> u16" where
  "cassette_encode_frame byte =
     (let ones = fold (\<lambda>i n. n + (drop_bit i byte AND 1)) [0..<8] 0 :: u8;
          parity = ucast (ones AND 1) XOR 1;
          frame = push_bit 1 (ucast byte) AND 0x01FE
      in (frame OR push_bit 9 parity) OR 0x3C00)"

definition cassette_rewind :: "cassette_t \<Rightarrow> cassette_t" where
  "cassette_rewind c = c\<lparr>byte_pos := 0, bit_pos := CAS_FRAME_BITS, half := 0, leader_left := CAS_LEADER_SYNCS,
     cyc_to_edge := 0, cb1_level := True, cas_finished := False\<rparr>"

definition cassette_signal_begin :: "u8 list \<Rightarrow> int \<Rightarrow> cassette_t \<Rightarrow> cassette_t" where
  "cassette_signal_begin buf len c = cassette_rewind (c\<lparr>signal_mode := True, cas_buf := buf, cas_len := len\<rparr>)"

definition cassette_set_motor :: "bool \<Rightarrow> cassette_t \<Rightarrow> cassette_t" where
  "cassette_set_motor on c = c\<lparr>motor_on := on\<rparr>"

text \<open>The frame that starts, if there is a byte left.\<close>

definition load_frame :: "cassette_t \<Rightarrow> cassette_t option" where
  "load_frame c =
     (let start = (\<lambda>b c. Some (c\<lparr>cas_frame := cassette_encode_frame b, bit_pos := 0, half := 0\<rparr>)) in
      if leader_left c > 0 then start CAS_SYNC_BYTE (c\<lparr>leader_left := leader_left c - 1\<rparr>)
      else if byte_pos c < cas_len c then start (cas_buf c ! nat (byte_pos c)) (c\<lparr>byte_pos := byte_pos c + 1\<rparr>)
      else None)"

text \<open>One half-pulse: its duration and level.\<close>

definition half_pulse :: "cassette_t \<Rightarrow> int \<times> bool \<times> cassette_t" where
  "half_pulse c =
     (let b = (drop_bit (nat (bit_pos c)) (cas_frame c) AND 1 \<noteq> 0);
          (dur, level) = (if half c = 0 then (CAS_HALF_ONE, False) else (if b then CAS_HALF_ONE else CAS_HALF_LONG, True));
          c1 = c\<lparr>half := half c + 1\<rparr>
      in (dur, level, if half c1 \<ge> 2 then c1\<lparr>half := 0, bit_pos := bit_pos c1 + 1\<rparr> else c1))"

definition cassette_step :: "cassette_t \<Rightarrow> int \<times> bool \<times> cassette_t" where
  "cassette_step c =
     (if bit_pos c \<ge> CAS_FRAME_BITS then
        (case load_frame c of None \<Rightarrow> (100000, True, c\<lparr>cas_finished := True\<rparr>) | Some c1 \<Rightarrow> half_pulse c1)
      else half_pulse c)"

text \<open>The loop of \<open>cassette_tick\<close>, with the rounds its guard leaves.\<close>

fun edge_loop :: "'u via_hooks \<Rightarrow> nat \<Rightarrow> cassette_t \<times> 'u via_state \<Rightarrow> cassette_t \<times> 'u via_state" where
  "edge_loop hk 0 s = s"
| "edge_loop hk (Suc n) (c, s) =
     (if cyc_to_edge c \<le> 0 then
        (let (dur, level, c1) = cassette_step c;
             c2 = c1\<lparr>cb1_level := level\<rparr>;
             s2 = via_set_cb1 hk level s;
             c3 = c2\<lparr>cyc_to_edge := cyc_to_edge c2 + dur\<rparr>
         in if cas_finished c3 then (c3, s2) else edge_loop hk n (c3, s2))
      else (c, s))"

definition cassette_tick :: "'u via_hooks \<Rightarrow> int \<Rightarrow> cassette_t \<times> 'u via_state \<Rightarrow> cassette_t \<times> 'u via_state" where
  "cassette_tick hk cycles cs =
     (case cs of (c, s) \<Rightarrow>
        if \<not> signal_mode c \<or> \<not> motor_on c \<or> cas_finished c \<or> cas_len c \<le> 0 then (c, s)
        else edge_loop hk 64 (c\<lparr>cyc_to_edge := cyc_to_edge c - cycles\<rparr>, s))"

section \<open>The decoder\<close>

record tape_capture_t =
  capturing :: bool
  primed :: bool
  last_pb7 :: bool
  have_prev_edge :: bool
  prev_edge_cyc :: "64 word"
  cap_state :: int
  bitcount :: int
  cur_byte :: u8
  cap_out :: "u8 list"
  out_cap :: int

definition tape_capture_init :: tape_capture_t where
  "tape_capture_init = \<lparr>capturing = False, primed = False, last_pb7 = False, have_prev_edge = False,
     prev_edge_cyc = 0, cap_state = 0, bitcount = 0, cur_byte = 0, cap_out = [], out_cap = 0\<rparr>"

definition tape_capture_begin :: "(int \<Rightarrow> bool) \<Rightarrow> tape_capture_t" where
  "tape_capture_begin alloc = tape_capture_init\<lparr>out_cap := 1024, capturing := alloc 1024\<rparr>"

definition tape_capture_free :: "tape_capture_t \<Rightarrow> tape_capture_t" where
  "tape_capture_free tc = tc\<lparr>cap_out := [], out_cap := 0, capturing := False\<rparr>"

definition tape_capture_emit :: "(int \<Rightarrow> bool) \<Rightarrow> u8 \<Rightarrow> tape_capture_t \<Rightarrow> tape_capture_t" where
  "tape_capture_emit alloc b tc =
     (if int (length (cap_out tc)) \<ge> out_cap tc then
        (let ncap = (if out_cap tc \<noteq> 0 then out_cap tc * 2 else 1024)
         in if \<not> alloc ncap then tc else tc\<lparr>out_cap := ncap, cap_out := cap_out tc @ [b]\<rparr>)
      else tc\<lparr>cap_out := cap_out tc @ [b]\<rparr>)"

definition tape_capture_bit :: "(int \<Rightarrow> bool) \<Rightarrow> bool \<Rightarrow> tape_capture_t \<Rightarrow> tape_capture_t" where
  "tape_capture_bit alloc b tc =
     (if cap_state tc = 0 then (if \<not> b then tc\<lparr>cap_state := 1, bitcount := 0, cur_byte := 0\<rparr> else tc)
      else if cap_state tc = 1 then
        (let t1 = tc\<lparr>cur_byte := drop_bit 1 (cur_byte tc) OR (if b then 0x80 else 0x00), bitcount := bitcount tc + 1\<rparr>
         in if bitcount t1 \<ge> 8 then (tape_capture_emit alloc (cur_byte t1) t1)\<lparr>cap_state := 2\<rparr> else t1)
      else if cap_state tc = 2 then tc\<lparr>cap_state := 0\<rparr>
      else tc)"

definition via_get_pb7 :: "via6522_t \<Rightarrow> bool" where
  "via_get_pb7 v =
     (if acr v AND 0x80 \<noteq> 0 then pb7_pin v else if ddrb v AND 0x80 \<noteq> 0 then orb v AND 0x80 \<noteq> 0 else True)"

definition tape_capture_sample :: "(int \<Rightarrow> bool) \<Rightarrow> via6522_t \<Rightarrow> 64 word \<Rightarrow> tape_capture_t \<Rightarrow> tape_capture_t" where
  "tape_capture_sample alloc v cyc tc =
     (if \<not> capturing tc then tc
      else
        let pb7 = via_get_pb7 v in
        if \<not> primed tc then tc\<lparr>primed := True, last_pb7 := pb7\<rparr>
        else
          let edge = (\<not> last_pb7 tc \<and> pb7); t1 = tc\<lparr>last_pb7 := pb7\<rparr> in
          if \<not> edge then t1
          else if \<not> have_prev_edge t1 then t1\<lparr>have_prev_edge := True, prev_edge_cyc := cyc\<rparr>
          else
            let period = cyc - prev_edge_cyc t1; t2 = t1\<lparr>prev_edge_cyc := cyc\<rparr>
            in tape_capture_bit alloc (period < CAS_PERIOD_THRESH) t2)"

end
