(* ===== verification/Oric_Machine.thy ===== *)
theory Oric_Machine
  imports Emu_Clock Card_Rules Acia_Links Cassette
begin

unbundle bit_operations_syntax

text \<open>
  The machine with its cards: the bus devices of the serial card, the Microdisc, the Jasmin and the
  ULA-NG (\<open>src/cards/card_acia.c\<close>, \<open>card_microdisc.c\<close>, \<open>card_jasmin.c\<close>, \<open>card_ula_ng.c\<close>) in the order of
  the bus, their ticks and the cassette's (\<open>src/io/io_bus.c\<close>, \<open>src/main.c\<close>), and the cassette motor
  on port B.  A card that is off is \<open>None\<close>.  The machine has no LOCI, speech, MIDI or DTL 2000 card.  The
  cards reach the interrupt inputs of the CPU through callbacks: an operation of a card is lent the inputs, in
  the board behind its callbacks, and gives them back.
\<close>

section \<open>The cards\<close>

record ('w, 'h) card_set =
  c_microdisc :: "(unit board, 'h) microdisc option"
  c_jasmin :: "(unit board, 'h) jasmin option"
  c_acia :: "('w, unit board) acia_state option"
  acia_base_addr :: u16
  c_cassette :: cassette_t
  c_capture :: tape_capture_t

type_synonym ('w, 'h) full_board = "('w, 'h) card_set ng_board"
type_synonym ('w, 'h) bus_device = "(ula_ng_t \<times> ('w, 'h) card_set) io_device_t"
type_synonym 'h disk_net = "string \<Rightarrow> nat \<Rightarrow> 'h \<Rightarrow> u8 list option \<times> 'h"

definition slots :: "('w, 'h) full_board \<Rightarrow> ('w, 'h) card_set" where
  "slots b = snd (cards (dev b))"

definition upd_slots :: "(('w, 'h) card_set \<Rightarrow> ('w, 'h) card_set) \<Rightarrow> ('w, 'h) full_board \<Rightarrow> ('w, 'h) full_board" where
  "upd_slots f = upd_dev (\<lambda>d. d\<lparr>cards := (fst (cards d), f (snd (cards d)))\<rparr>)"

text \<open>An operation of a disk card with the inputs \<open>i\<close>, and the inputs after it.\<close>

definition lend_disk :: "u8 \<Rightarrow> ((unit board, 'h) card_lines, 'z) drive_bay_scheme \<Rightarrow> ((unit board, 'h) card_lines, 'z) drive_bay_scheme" where
  "lend_disk i = upd_wd (raise_sig (\<lambda>l. l\<lparr>line_emu := (line_emu l)\<lparr>irq := i\<rparr>\<rparr>))"

definition disk_inputs :: "((unit board, 'h) card_lines, 'z) drive_bay_scheme \<Rightarrow> u8" where
  "disk_inputs c = irq (line_emu (fuser (wd c)))"

text \<open>
  The operation on the card of a slot; \<open>x\<close> is read from an empty slot, which claims no address.
\<close>

definition on_microdisc :: "'x \<Rightarrow> ((unit board, 'h) microdisc \<Rightarrow> 'x \<times> (unit board, 'h) microdisc) \<Rightarrow>
    ('w, 'h) full_board \<Rightarrow> 'x \<times> ('w, 'h) full_board" where
  "on_microdisc x f b =
     (case c_microdisc (slots b) of
        None \<Rightarrow> (x, b)
      | Some m \<Rightarrow> let (v, m1) = f (lend_disk (irq b) m)
                 in (v, (upd_slots (\<lambda>s. s\<lparr>c_microdisc := Some m1\<rparr>) b)\<lparr>irq := disk_inputs m1\<rparr>))"

definition on_jasmin :: "'x \<Rightarrow> ((unit board, 'h) jasmin \<Rightarrow> 'x \<times> (unit board, 'h) jasmin) \<Rightarrow>
    ('w, 'h) full_board \<Rightarrow> 'x \<times> ('w, 'h) full_board" where
  "on_jasmin x f b =
     (case c_jasmin (slots b) of
        None \<Rightarrow> (x, b)
      | Some j \<Rightarrow> let (v, j1) = f (lend_disk (irq b) j)
                 in (v, (upd_slots (\<lambda>s. s\<lparr>c_jasmin := Some j1\<rparr>) b)\<lparr>irq := disk_inputs j1\<rparr>))"

definition on_serial :: "'x \<Rightarrow> (('w, unit board) acia_state \<Rightarrow> 'x \<times> ('w, unit board) acia_state) \<Rightarrow>
    ('w, 'h) full_board \<Rightarrow> 'x \<times> ('w, 'h) full_board" where
  "on_serial x f b =
     (case c_acia (slots b) of
        None \<Rightarrow> (x, b)
      | Some a \<Rightarrow> let (v, a1) = f (a\<lparr>host := (host a)\<lparr>irq := irq b\<rparr>\<rparr>)
                 in (v, (upd_slots (\<lambda>s. s\<lparr>c_acia := Some a1\<rparr>) b)\<lparr>irq := irq (host a1)\<rparr>))"

section \<open>The devices of the bus\<close>

definition acia_dev_claims :: "u16 \<Rightarrow> ('w, 'h) full_board \<Rightarrow> bool" where
  "acia_dev_claims addr b \<longleftrightarrow> c_acia (slots b) \<noteq> None \<and>
     unat addr \<ge> unat (acia_base_addr (slots b)) \<and> unat addr \<le> unat (acia_base_addr (slots b)) + 3"

definition acia_dev_read :: "u16 \<Rightarrow> ('w, 'h) full_board \<Rightarrow> u8 \<times> ('w, 'h) full_board" where
  "acia_dev_read addr = on_serial 0xFF (acia_read serial_hooks addr)"

definition acia_dev_write :: "u16 \<Rightarrow> u8 \<Rightarrow> ('w, 'h) full_board \<Rightarrow> bool \<times> ('w, 'h) full_board" where
  "acia_dev_write addr value = on_serial True (\<lambda>a. (True, acia_write serial_hooks addr value a))"

definition acia_dev_peek :: "u16 \<Rightarrow> ('w, 'h) full_board \<Rightarrow> u8 \<times> ('w, 'h) full_board" where
  "acia_dev_peek addr = on_serial 0xFF (\<lambda>a. (acia_peek (acia a) addr, a))"

definition acia_bus_device :: "('w, 'h) bus_device" where
  "acia_bus_device = \<lparr>claims = acia_dev_claims, dev_read = acia_dev_read, dev_write = acia_dev_write,
     claims_write = None, dev_peek = Some acia_dev_peek\<rparr>"

definition microdisc_dev_claims :: "u16 \<Rightarrow> ('w, 'h) full_board \<Rightarrow> bool" where
  "microdisc_dev_claims addr b \<longleftrightarrow> c_microdisc (slots b) \<noteq> None \<and> addr \<ge> 0x0310 \<and> addr \<le> 0x031F"

definition microdisc_dev_read :: "'h disk_net \<Rightarrow> u16 \<Rightarrow> ('w, 'h) full_board \<Rightarrow> u8 \<times> ('w, 'h) full_board" where
  "microdisc_dev_read net addr = on_microdisc 0xFF (microdisc_read (disk_env net) addr)"

text \<open>The write of a disk card also copies its latches to the memory map.\<close>

definition microdisc_dev_write :: "'h disk_net \<Rightarrow> u16 \<Rightarrow> u8 \<Rightarrow> ('w, 'h) full_board \<Rightarrow> bool \<times> ('w, 'h) full_board" where
  "microdisc_dev_write net addr value b =
     (let b1 = snd (on_microdisc () (\<lambda>m. ((), microdisc_write (disk_env net) addr value m)) b)
      in (True, case c_microdisc (slots b1) of
                  Some m \<Rightarrow> b1\<lparr>mem := (mem b1)\<lparr>basic_rom_disabled := md_romdis m, overlay_active := md_diskrom m\<rparr>\<rparr>
                | None \<Rightarrow> b1))"

definition microdisc_bus_device :: "'h disk_net \<Rightarrow> ('w, 'h) bus_device" where
  "microdisc_bus_device net = \<lparr>claims = microdisc_dev_claims, dev_read = microdisc_dev_read net,
     dev_write = microdisc_dev_write net, claims_write = None, dev_peek = None\<rparr>"

definition jasmin_dev_claims :: "u16 \<Rightarrow> ('w, 'h) full_board \<Rightarrow> bool" where
  "jasmin_dev_claims addr b \<longleftrightarrow> c_jasmin (slots b) \<noteq> None \<and> addr \<ge> 0x03F4 \<and> addr \<le> 0x03FF"

definition jasmin_dev_read :: "'h disk_net \<Rightarrow> u16 \<Rightarrow> ('w, 'h) full_board \<Rightarrow> u8 \<times> ('w, 'h) full_board" where
  "jasmin_dev_read net addr = on_jasmin 0xFF (jasmin_read (disk_env net) addr)"

definition jasmin_dev_write :: "'h disk_net \<Rightarrow> u16 \<Rightarrow> u8 \<Rightarrow> ('w, 'h) full_board \<Rightarrow> bool \<times> ('w, 'h) full_board" where
  "jasmin_dev_write net addr value b =
     (let b1 = snd (on_jasmin () (\<lambda>j. ((), jasmin_write (disk_env net) addr value j)) b)
      in (True, case c_jasmin (slots b1) of
                  Some j \<Rightarrow> b1\<lparr>mem := (mem b1)\<lparr>jasmin_olay := ja_olay j, jasmin_romdis := ja_romdis j\<rparr>\<rparr>
                | None \<Rightarrow> b1))"

definition jasmin_bus_device :: "'h disk_net \<Rightarrow> ('w, 'h) bus_device" where
  "jasmin_bus_device net = \<lparr>claims = jasmin_dev_claims, dev_read = jasmin_dev_read net,
     dev_write = jasmin_dev_write net, claims_write = None, dev_peek = None\<rparr>"

section \<open>The cassette on the VIA\<close>

text \<open>Port B bit 6 drives the motor when the tape follows the ROM's own motor line.\<close>

definition cassette_gate :: "u16 \<Rightarrow> u8 \<Rightarrow> ('w, 'h) full_board \<Rightarrow> ('w, 'h) full_board" where
  "cassette_gate addr value b =
     (let c = c_cassette (slots b) in
      if free_gate c \<and> addr = 0x0300 then
        (let on = (value AND 0x40 \<noteq> 0);
             c1 = (if on \<and> \<not> cas_started c then (cassette_rewind c)\<lparr>cas_started := True\<rparr> else c)
         in upd_slots (\<lambda>s. s\<lparr>c_cassette := cassette_set_motor on c1\<rparr>) b)
      else b)"

definition cassette_on_cycle :: "nat \<Rightarrow> ('w, 'h) full_board \<Rightarrow> ('w, 'h) full_board" where
  "cassette_on_cycle n b =
     (let c = c_cassette (slots b) in
      if signal_mode c then
        (let (c1, b1) = on_via (\<lambda>s. cassette_tick oric_via_hooks (int n) (c, s)) b
         in upd_slots (\<lambda>s. s\<lparr>c_cassette := c1\<rparr>) b1)
      else b)"

definition capture_on_cycle :: "(int \<Rightarrow> bool) \<Rightarrow> (('w, 'h) full_board \<Rightarrow> 64 word) \<Rightarrow> ('w, 'h) full_board \<Rightarrow> ('w, 'h) full_board" where
  "capture_on_cycle alloc clk b =
     upd_slots (\<lambda>s. s\<lparr>c_capture := tape_capture_sample alloc (dvia (dev b)) (clk b) (c_capture s)\<rparr>) b"

section \<open>The machine\<close>

text \<open>The ticks after the VIA's: the tape, then the cards in the order of \<open>io_bus_tick\<close>.\<close>

definition io_bus_tick :: "'h disk_net \<Rightarrow> nat \<Rightarrow> ('w, 'h) full_board \<Rightarrow> ('w, 'h) full_board" where
  "io_bus_tick net n b =
     (let b1 = snd (on_microdisc () (\<lambda>m. ((), microdisc_tick (disk_env net) n m)) b);
          b2 = snd (on_jasmin () (\<lambda>j. ((), jasmin_tick (disk_env net) n j)) b1)
      in snd (on_serial () (\<lambda>a. ((), acia_tick serial_hooks (int n) a)) b2))"

definition oric_machine :: "'h disk_net \<Rightarrow> (int \<Rightarrow> bool) \<Rightarrow> (('w, 'h) full_board \<Rightarrow> 64 word) \<Rightarrow>
    (ula_ng_t \<times> ('w, 'h) card_set) oric_config" where
  "oric_machine net alloc clk =
     \<lparr>bus_devices = [acia_bus_device, microdisc_bus_device net, jasmin_bus_device net, ng_bus_device],
      cpu_clock = clk, orb_snoop = cassette_gate,
      later_ticks = (\<lambda>n b. io_bus_tick net n (capture_on_cycle alloc clk (cassette_on_cycle n b)))\<rparr>"

text \<open>
  What happens to the board while it runs: accesses of the I/O page by the program, reads by an observer, register writes
  by the debugger, cycles, a reset of the CPU, another source of the interrupt line, and anything that concerns
  neither the VIA nor the inputs: RAM, keys, disks, tapes, cards that are plugged or taken out.
\<close>

datatype ('w, 'h) board_op =
  Bo_read u16 | Bo_write u16 u8 | Bo_peek u16 | Bo_via_write u8 u8 | Bo_cycles nat | Bo_cpu_reset
  | Bo_source cpu_irq_source_t bool | Bo_other "('w, 'h) full_board \<Rightarrow> ('w, 'h) full_board"

text \<open>\<open>cpu_reset\<close> as it acts on the board; the registers of the CPU have no part in it.\<close>

definition board_cpu_reset :: "(ula_ng_t \<times> ('w, 'h) card_set) oric_config \<Rightarrow> ('w, 'h) full_board \<Rightarrow> ('w, 'h) full_board" where
  "board_cpu_reset cfg b = board (cpu_reset (oric_hooks cfg) \<lparr>cpu = cpu_init, board = b, bus_log = []\<rparr>)"

fun board_apply :: "(ula_ng_t \<times> ('w, 'h) card_set) oric_config \<Rightarrow> ('w, 'h) board_op \<Rightarrow> ('w, 'h) full_board \<Rightarrow> ('w, 'h) full_board" where
  "board_apply cfg (Bo_read a) b = snd (io_read_callback cfg a b)"
| "board_apply cfg (Bo_write a x) b = io_write_callback cfg a x b"
| "board_apply cfg (Bo_peek a) b = snd (io_peek_callback cfg a b)"
| "board_apply cfg (Bo_via_write r x) b = do_via (via_write oric_via_hooks r x) b"
| "board_apply cfg (Bo_cycles n) b = cpu_cycle_tick cfg n b"
| "board_apply cfg Bo_cpu_reset b = board_cpu_reset cfg b"
| "board_apply cfg (Bo_source s l) b = (if l then cpu_irq_set s b else cpu_irq_clear s b)"
| "board_apply cfg (Bo_other f) b = (f b)\<lparr>irq := irq b, dev := (dev (f b))\<lparr>dvia := dvia (dev b)\<rparr>\<rparr>"

end
