(* ===== verification/Machine_Interrupts.thy ===== *)
theory Machine_Interrupts
  imports Oric_Machine Oric_Wiring
begin

unbundle bit_operations_syntax

text \<open>
  The interrupt of the VIA on the machine with its cards: no card, tape or tick touches the VIA's input
  of the CPU, and the VIA keeps it in step with its flags; a reset of the CPU clears the input without
  the chip being told.
\<close>

section \<open>The input of the VIA\<close>

definition via_bit :: "u8 \<Rightarrow> bool" where
  "via_bit i \<longleftrightarrow> i AND irqf_bit IRQF_VIA \<noteq> 0"

lemma via_line_bit: "via_line b = via_bit (irq b)"
  by (simp add: via_line_def via_bit_def)

lemma via_bit_bit: "via_bit i = bit i 0"
  by (simp add: via_bit_def and_one_eq odd_iff_mod_2_eq_one bit_0)

lemma other_source:
  assumes "s \<noteq> IRQF_VIA"
  shows "via_bit (irq (cpu_irq_set s b)) = via_bit (irq b)" "via_bit (irq (cpu_irq_clear s b)) = via_bit (irq b)"
proof -
  have "\<not> bit (irqf_bit s) 0" using assms by (cases s) simp_all
  then show "via_bit (irq (cpu_irq_set s b)) = via_bit (irq b)" "via_bit (irq (cpu_irq_clear s b)) = via_bit (irq b)"
    by (simp_all add: via_bit_bit cpu_irq_set_def cpu_irq_clear_def bit_simps)
qed

section \<open>The cards\<close>

text \<open>The disk cards: through the relation that the controller keeps to.\<close>

definition lines_bit :: "bool \<Rightarrow> (unit board, 'h) card_lines \<Rightarrow> bool" where
  "lines_bit v l \<longleftrightarrow> via_bit (irq (line_emu l)) = v"

lemma lines_bit_upd [simp]:
  "lines_bit v (l\<lparr>line_drq := x\<rparr>) = lines_bit v l" "lines_bit v (l\<lparr>line_intrq := x\<rparr>) = lines_bit v l"
  "lines_bit v (l\<lparr>line_ctrl := x\<rparr>) = lines_bit v l"
  by (simp_all add: lines_bit_def)

lemma lines_bit_call [simp]:
  "lines_bit v (call_emu (irq_raise (disk_env net)) l) = lines_bit v l"
  "lines_bit v (call_emu (irq_drop (disk_env net)) l) = lines_bit v l"
  "lines_bit v (snd (card_http env url off l)) = lines_bit v l"
  by (simp_all add: lines_bit_def call_emu_def disk_env_def other_source card_http_def split_beta)

interpretation md_bit: disk_card "md_hooks (disk_env net)" "lines_bit v"
  by unfold_locales (simp add: signal_law_def md_hooks_def microdisc_fdc_set_drq_def microdisc_fdc_clr_drq_def
      microdisc_fdc_set_intrq_def microdisc_fdc_clr_intrq_def Let_def)

interpretation ja_bit: disk_card "ja_hooks (disk_env net)" "lines_bit v"
  by unfold_locales (simp add: signal_law_def ja_hooks_def jasmin_fdc_set_drq_def jasmin_fdc_clr_drq_def
      jasmin_fdc_set_intrq_def jasmin_fdc_clr_intrq_def)

lemma kept_lines:
  assumes "kept hk s t" "signal_law hk (lines_bit v)" "lines_bit v (fuser s)"
  shows "lines_bit v (fuser t)"
  using assms unfolding kept_def by blast

lemma wd_write_lines:
  assumes "signal_law hk (lines_bit v)" "lines_bit v (fuser (wd b))"
  shows "lines_bit v (fuser (wd (wd_write hk r x b)))"
  using kept_lines [OF kept_write [OF kept_refl] assms] by (simp add: wd_write_def upd_wd_def Let_def)

lemma select_lines [simp]: "fuser (wd (select_drive d b)) = fuser (wd b)"
  by (simp add: select_drive_def bay_mount_def Let_def upd_wd_def)

lemma sig_fuser [simp]: "fuser (raise_sig g s) = g (fuser s)"
  by (simp add: raise_sig_def)

lemma microdisc_lines:
  fixes m :: "(unit board, 'h) microdisc"
  assumes "lines_bit v (fuser (wd m))"
  shows "lines_bit v (fuser (wd (snd (microdisc_read (disk_env net) a m))))"
    "lines_bit v (fuser (wd (microdisc_write (disk_env net) a x m)))"
    "lines_bit v (fuser (wd (microdisc_tick (disk_env net) n m)))"
  using assms kept_lines [OF kept_read [OF kept_refl] md_bit.law assms] kept_lines [OF kept_ticktock [OF kept_refl] md_bit.law assms]
    wd_write_lines [OF md_bit.law assms]
  by (simp_all add: microdisc_read_def microdisc_write_def microdisc_ctrl_write_def microdisc_tick_def ctrl_irq_def upd_wd_def
      Let_def split_beta)

lemma jasmin_lines:
  fixes j :: "(unit board, 'h) jasmin"
  assumes "lines_bit v (fuser (wd j))"
  shows "lines_bit v (fuser (wd (snd (jasmin_read (disk_env net) a j))))"
    "lines_bit v (fuser (wd (jasmin_write (disk_env net) a x j)))"
    "lines_bit v (fuser (wd (jasmin_tick (disk_env net) n j)))"
  using assms kept_lines [OF kept_read [OF kept_refl] ja_bit.law assms] kept_lines [OF kept_ticktock [OF kept_refl] ja_bit.law assms]
    wd_write_lines [OF ja_bit.law assms]
  by (simp_all add: jasmin_read_def jasmin_write_def jasmin_wd_reset_def jasmin_tick_def upd_wd_def Let_def split_beta)

text \<open>The serial card: what changes the state around the chip is its two callbacks.\<close>

definition host_bit :: "bool \<Rightarrow> ('w, unit board) acia_state \<Rightarrow> bool" where
  "host_bit v s \<longleftrightarrow> via_bit (irq (host s)) = v"

lemma host_bit_upd [simp]:
  "host_bit v (upd_acia f s) = host_bit v s" "host_bit v (s\<lparr>peer := w\<rparr>) = host_bit v s"
  "host_bit v (call_host (on_irq_set serial_hooks) s) = host_bit v s"
  "host_bit v (call_host (on_irq_clr serial_hooks) s) = host_bit v s"
  by (simp_all add: host_bit_def call_host_def serial_hooks_def other_source)

lemma host_bit_irq [simp]: "host_bit v (acia_update_irq serial_hooks s) = host_bit v s"
  "host_bit v (acia_deassert_irq serial_hooks s) = host_bit v s" "host_bit v (tick_transit serial_hooks n s) = host_bit v s"
  by (simp_all add: acia_update_irq_def acia_assert_irq_def acia_deassert_irq_def tick_transit_def Let_def)

lemma host_bit_line [simp]: "host_bit v (line_moves serial_hooks e s) = host_bit v s"
  by (cases e) (simp_all add: acia_set_dcd_def Let_def)

lemma host_bit_call [simp]:
  fixes s :: "('w, unit board) acia_state"
  shows "host_bit v (after_call serial_hooks evs w s) = host_bit v s"
proof -
  have "host_bit v (fold (line_moves serial_hooks) evs t) = host_bit v t" for t :: "('w, unit board) acia_state"
    by (induction evs arbitrary: t) simp_all
  then show ?thesis by (simp add: after_call_def)
qed

lemma host_bit_halves [simp]:
  "host_bit v (snd (tick_tx serial_hooks be n s)) = host_bit v s" "host_bit v (snd (rx_poll serial_hooks be s)) = host_bit v s"
  "host_bit v (snd (rx_receive serial_hooks be s)) = host_bit v s"
  by (simp_all add: tick_tx_def rx_poll_def rx_receive_def Let_def split_beta split: option.split)

lemma host_bit_rx [simp]: "host_bit v (snd (tick_rx serial_hooks be n s)) = host_bit v s"
  by (simp add: tick_rx_def Let_def split_beta)

lemma serial_host:
  "host_bit v (snd (acia_read serial_hooks a s)) = host_bit v s" "host_bit v (acia_write serial_hooks a x s) = host_bit v s"
  "host_bit v (acia_tick serial_hooks n s) = host_bit v s"
  by (simp_all add: acia_read_def acia_write_def acia_reset_def acia_tick_def acia_cycles_def Let_def split_beta split: option.split)

section \<open>The board between the operations of the VIA\<close>

text \<open>What an operation of the machine outside the VIA leaves alone.\<close>

definition apart :: "'c oric_board \<Rightarrow> 'c oric_board \<Rightarrow> bool" where
  "apart b c \<longleftrightarrow> dvia (dev c) = dvia (dev b) \<and> via_bit (irq c) = via_bit (irq b)"

lemma apart_refl [simp]: "apart b b"
  by (simp add: apart_def)

lemma apart_trans [trans]: "apart b c \<Longrightarrow> apart c d \<Longrightarrow> apart b d"
  by (simp add: apart_def)

lemma apart_basic [simp]:
  "apart b (upd_slots f b)" "apart b (put_ng u (b :: ('w, 'h) full_board))" "apart b (b\<lparr>mem := m\<rparr>)"
  by (simp_all add: apart_def upd_slots_def put_ng_def upd_dev_def)

lemma apart_source: "s \<noteq> IRQF_VIA \<Longrightarrow> apart b (cpu_irq_set s c) = apart b c" "s \<noteq> IRQF_VIA \<Longrightarrow> apart b (cpu_irq_clear s c) = apart b c"
  by (simp_all add: apart_def other_source) (simp_all add: cpu_irq_set_def cpu_irq_clear_def)

lemma lend_lines [simp]: "lines_bit v (fuser (wd (lend_disk i c))) = (via_bit i = v)"
  by (simp add: lend_disk_def upd_wd_def lines_bit_def)

lemma apart_microdisc:
  assumes "\<And>m v. lines_bit v (fuser (wd m)) \<Longrightarrow> lines_bit v (fuser (wd (snd (f m))))"
  shows "apart b (snd (on_microdisc x f b))"
proof -
  have "via_bit (disk_inputs (snd (f (lend_disk (irq b) m)))) = via_bit (irq b)" for m
    using assms [OF lend_lines [THEN iffD2, OF refl]] by (simp add: lines_bit_def disk_inputs_def)
  then show ?thesis
    by (simp add: on_microdisc_def apart_def upd_slots_def upd_dev_def Let_def split_beta split: option.split)
qed

lemma apart_jasmin:
  assumes "\<And>m v. lines_bit v (fuser (wd m)) \<Longrightarrow> lines_bit v (fuser (wd (snd (f m))))"
  shows "apart b (snd (on_jasmin x f b))"
proof -
  have "via_bit (disk_inputs (snd (f (lend_disk (irq b) m)))) = via_bit (irq b)" for m
    using assms [OF lend_lines [THEN iffD2, OF refl]] by (simp add: lines_bit_def disk_inputs_def)
  then show ?thesis
    by (simp add: on_jasmin_def apart_def upd_slots_def upd_dev_def Let_def split_beta split: option.split)
qed

lemma apart_serial:
  assumes "\<And>s v. host_bit v (snd (f s)) = host_bit v s"
  shows "apart b (snd (on_serial x f b))"
proof -
  have "via_bit (irq (host (snd (f (a\<lparr>host := (host a)\<lparr>irq := irq b\<rparr>\<rparr>))))) = via_bit (irq b)" for a
    using assms [of "via_bit (irq b)" "a\<lparr>host := (host a)\<lparr>irq := irq b\<rparr>\<rparr>"] by (simp add: host_bit_def)
  then show ?thesis
    by (simp add: on_serial_def apart_def upd_slots_def upd_dev_def Let_def split_beta split: option.split)
qed

lemma apart_mem: "apart b c \<Longrightarrow> apart b (c\<lparr>mem := m\<rparr>)"
  by (simp add: apart_def)

lemma apart_devices:
  fixes net :: "'h disk_net" and b :: "('w, 'h) full_board"
  assumes "d \<in> set (bus_devices (oric_machine net alloc clk))"
  shows "apart b (snd (dev_read d a b))" "apart b (snd (dev_write d a x b))" "pred_option (\<lambda>pk. apart b (snd (pk a b))) (dev_peek d)"
proof -
  have ng: "apart b (snd (ng_dev_read a b))" "apart b (snd (ng_dev_write a x b))" for b :: "('w, 'h) full_board"
    by (simp_all add: ng_dev_read_def ng_dev_write_def apart_source split: prod.split option.split)
  have md: "apart b (snd (microdisc_dev_read net a b))" "apart b (snd (microdisc_dev_write net a x b))" for b :: "('w, 'h) full_board"
    unfolding microdisc_dev_read_def microdisc_dev_write_def Let_def snd_conv
    by (auto intro!: apart_microdisc apart_mem microdisc_lines split: option.split)
  have ja: "apart b (snd (jasmin_dev_read net a b))" "apart b (snd (jasmin_dev_write net a x b))" for b :: "('w, 'h) full_board"
    unfolding jasmin_dev_read_def jasmin_dev_write_def Let_def snd_conv
    by (auto intro!: apart_jasmin apart_mem jasmin_lines split: option.split)
  have se: "apart b (snd (acia_dev_read a b))" "apart b (snd (acia_dev_write a x b))" "apart b (snd (acia_dev_peek a b))"
    for b :: "('w, 'h) full_board"
    unfolding acia_dev_read_def acia_dev_write_def acia_dev_peek_def
    by (auto intro!: apart_serial simp: serial_host)
  show "apart b (snd (dev_read d a b))" "apart b (snd (dev_write d a x b))" "pred_option (\<lambda>pk. apart b (snd (pk a b))) (dev_peek d)"
    using assms by (auto simp: oric_machine_def ng_bus_device_def microdisc_bus_device_def jasmin_bus_device_def acia_bus_device_def ng md ja se)
qed

section \<open>The VIA on the board\<close>

text \<open>The input is the output of the chip, which is settled.\<close>

definition board_wired :: "'c oric_board \<Rightarrow> bool" where
  "board_wired b \<longleftrightarrow> via_line b = via6522_t.irq_line (dvia (dev b)) \<and> irq_settled (dvia (dev b))"

text \<open>
  The input follows the output of the chip: always (\<open>strict\<close>), or, once resets of the CPU are allowed for,
  at least whenever the input is set.
\<close>

definition follows :: "bool \<Rightarrow> 'c oric_board via_state \<Rightarrow> bool" where
  "follows strict s \<longleftrightarrow> via_line (user s) = via6522_t.irq_line (via s) \<or> \<not> strict \<and> \<not> via_line (user s)"

definition board_follows :: "bool \<Rightarrow> 'c oric_board \<Rightarrow> bool" where
  "board_follows strict b \<longleftrightarrow> follows strict \<lparr>via = dvia (dev b), user = b\<rparr> \<and> irq_settled (dvia (dev b))"

lemma follows_callbacks: "hooks_keep (follows strict) oric_via_hooks" "hooks_keep (\<lambda>s. irq_settled (via s)) oric_via_hooks"
  by (rule oric_hooks_keep, simp add: follows_def via_line_def) (rule oric_hooks_keep, simp)

lemma follows_check: "follows strict s \<Longrightarrow> follows strict (via_check_irq oric_via_hooks s)"
  by (auto simp: follows_def via_check_irq_def Let_def upd_via_def via_line_irq)

interpretation follow: via_discipline oric_via_hooks
    "\<lambda>s. follows strict s \<and> irq_settled (via s)" "\<lambda>s. follows strict s \<and> irq_settled (via s)" "follows strict"
proof (unfold_locales, goal_cases)
  case (6 s)
  then show ?case by (simp add: follows_check check_settles)
next
  case (9 h s)
  then show ?case using follows_callbacks by (auto simp: hooks_keep_def)
next
  case (10 g s x)
  then show ?case using follows_callbacks by (auto simp: hooks_keep_def)
qed (auto simp: follows_def upd_via_def plain_def flagging_def via_sync_def Let_def
    cong: irq_settled_cong elim!: irq_settled_cong [THEN iffD1, rotated -1])

lemma board_on_via:
  assumes "\<And>s. follows strict s \<and> irq_settled (via s) \<Longrightarrow> follows strict (snd (f s)) \<and> irq_settled (via (snd (f s)))"
    and "board_follows strict b"
  shows "board_follows strict (snd (on_via f b))"
  using assms(1) [of "\<lparr>via = dvia (dev b), user = b\<rparr>"] assms(2)
  by (simp add: board_follows_def on_via_def follows_def via_line_def upd_dev_def split_beta)

lemma board_do_via:
  assumes "\<And>s. follows strict s \<and> irq_settled (via s) \<Longrightarrow> follows strict (f s) \<and> irq_settled (via (f s))"
    and "board_follows strict b"
  shows "board_follows strict (do_via f b)"
  unfolding do_via_def using assms by (intro board_on_via) simp_all

lemma board_via_ops:
  assumes "board_follows strict b"
  shows "board_follows strict (snd (on_via (via_read oric_via_hooks r) b))"
    "board_follows strict (do_via (via_write oric_via_hooks r x) b)"
    "board_follows strict (do_via (via_set_ca1 oric_via_hooks l) b)"
    "board_follows strict (do_via (via_tick oric_via_hooks) b)"
    "board_follows strict (do_via (via_update oric_via_hooks n) b)"
  using assms
  by (intro board_on_via board_do_via follow.read_Q follow.write_Q follow.set_ca1_Q follow.tick_P follow.update_P follow.sync; simp)+

lemma board_apart: "apart b c \<Longrightarrow> board_follows strict b \<Longrightarrow> board_follows strict c"
  by (simp add: apart_def board_follows_def follows_def via_line_bit)

text \<open>The cassette drives CB1 of the chip.\<close>

lemma edge_loop_follows:
  assumes "follows strict s \<and> irq_settled (via s)"
  shows "follows strict (snd (edge_loop oric_via_hooks n (c, s))) \<and> irq_settled (via (snd (edge_loop oric_via_hooks n (c, s))))"
  using assms
proof (induction n arbitrary: c s)
  case (Suc n)
  have "follows strict (via_set_cb1 oric_via_hooks l s) \<and> irq_settled (via (via_set_cb1 oric_via_hooks l s))" for l
    using Suc.prems by (intro follow.set_cb1_Q follow.sync)
  then show ?case using Suc by (simp add: Let_def split_beta)
qed simp

lemma board_cassette:
  assumes "board_follows strict b"
  shows "board_follows strict (cassette_on_cycle n b)"
proof -
  have "board_follows strict (snd (on_via (\<lambda>s. cassette_tick oric_via_hooks (int n) (c, s)) b))" for c
  proof (rule board_on_via [OF _ assms])
    fix s :: "('a, 'b) full_board via_state"
    assume "follows strict s \<and> irq_settled (via s)"
    then show "follows strict (snd (cassette_tick oric_via_hooks (int n) (c, s))) \<and>
        irq_settled (via (snd (cassette_tick oric_via_hooks (int n) (c, s))))"
      using edge_loop_follows [of strict s 64 "c\<lparr>cyc_to_edge := cyc_to_edge c - int n\<rparr>"] by (simp add: cassette_tick_def)
  qed
  then show ?thesis
    using assms by (auto simp: cassette_on_cycle_def Let_def split_beta intro: board_apart [OF apart_basic(1)])
qed

lemma apart_ticks: "apart b (io_bus_tick net n (capture_on_cycle alloc clk b))"
proof -
  have "apart b (capture_on_cycle alloc clk b)" by (simp add: capture_on_cycle_def)
  also have "apart c (io_bus_tick net n c)" for c :: "('a, 'b) full_board"
    unfolding io_bus_tick_def Let_def
    by (intro apart_serial [THEN apart_trans [rotated]] apart_jasmin [THEN apart_trans [rotated]] apart_microdisc)
      (simp_all add: serial_host microdisc_lines jasmin_lines)
  finally show ?thesis .
qed

section \<open>Accesses of the I/O page\<close>

lemma find_device:
  "io_bus_find ds a b = Some d \<Longrightarrow> d \<in> set ds" "io_bus_find_write ds a b = Some d \<Longrightarrow> d \<in> set ds"
  by (induction ds) (auto split: if_splits)

lemma board_read:
  assumes "board_follows strict b"
  shows "board_follows strict (snd (io_read_callback (oric_machine net alloc clk) a b))"
    "board_follows strict (snd (io_peek_callback (oric_machine net alloc clk) a b))"
  using apart_devices(1,3) [OF find_device(1)] board_via_ops(1) [OF assms]
  by (fastforce simp: io_read_callback_def io_peek_callback_def intro: board_apart [OF _ assms] split: option.split)+

lemma board_via_write:
  fixes b :: "'c oric_board"
  assumes "board_follows strict b"
  shows "board_follows strict (via_io_write cfg r x b)"
proof -
  have p: "board_follows strict (upd_dev (\<lambda>d. d\<lparr>prn := p\<rparr>) c) = board_follows strict c"
    "board_follows strict (psg_decode cfg c) = board_follows strict c" for p and c :: "'c oric_board"
    by (simp_all add: board_follows_def follows_def via_line_def upd_dev_def psg_decode_def Let_def irq_settled_def Via6522.irq_wanted_def)
  show ?thesis
    using assms by (simp add: via_io_write_def printer_strobe_def Let_def p board_via_ops split: prod.split)
qed

lemma apart_gate: "apart b (cassette_gate a x b)"
  by (simp add: cassette_gate_def Let_def)

lemma board_write:
  fixes b :: "('w, 'h) full_board"
  assumes "board_follows strict b"
  shows "board_follows strict (io_write_callback (oric_machine net alloc clk) a x b)"
proof -
  let ?cfg = "oric_machine net alloc clk"
  define r where "r = (case io_bus_find_write (bus_devices ?cfg) a b of Some d \<Rightarrow> dev_write d a x b | None \<Rightarrow> (False, b))"
  have "apart b (snd r)"
    using apart_devices(2) [OF find_device(2)] by (auto simp: r_def split: option.split)
  then have r: "board_follows strict (snd r)" using assms by (rule board_apart)
  have "orb_snoop ?cfg = cassette_gate" by (simp add: oric_machine_def)
  then have "io_write_callback ?cfg a x b =
      (if fst r then snd r else via_io_write ?cfg (lo8 (a AND 0x000F)) x (cassette_gate a x (snd r)))"
    by (simp add: io_write_callback_def split_beta flip: r_def)
  then show ?thesis using r by (simp add: board_via_write board_apart [OF apart_gate])
qed

section \<open>Reset of the CPU and programs\<close>

lemma reset_board:
  "dev (board_cpu_reset (oric_machine net alloc clk) b) = dev b" "irq (board_cpu_reset (oric_machine net alloc clk) b) = 0"
  by (simp_all add: board_cpu_reset_def cpu_reset_def memory_read_word_def memory_read_def Let_def split_beta oric_hooks_def
      notify_def)

text \<open>No reset of the CPU while the VIA asks for an interrupt.\<close>

fun calm_resets :: "(ula_ng_t \<times> ('w, 'h) card_set) oric_config \<Rightarrow> ('w, 'h) board_op list \<Rightarrow> ('w, 'h) full_board \<Rightarrow> bool" where
  "calm_resets cfg [] b \<longleftrightarrow> True"
| "calm_resets cfg (op # ops) b \<longleftrightarrow>
     (case op of Bo_cpu_reset \<Rightarrow> \<not> Via6522.irq_wanted (dvia (dev b)) | _ \<Rightarrow> True) \<and> calm_resets cfg ops (board_apply cfg op b)"

definition via_apart :: "('w, 'h) board_op \<Rightarrow> bool" where
  "via_apart op \<longleftrightarrow> (case op of Bo_source s l \<Rightarrow> s \<noteq> IRQF_VIA | _ \<Rightarrow> True)"

lemma board_apply_follows:
  fixes b :: "('w, 'h) full_board"
  assumes "board_follows strict b" "via_apart op"
    and "strict \<Longrightarrow> op = Bo_cpu_reset \<Longrightarrow> \<not> Via6522.irq_wanted (dvia (dev b))"
  shows "board_follows strict (board_apply (oric_machine net alloc clk) op b)"
proof (cases op)
  case (Bo_cycles n)
  have "later_ticks (oric_machine net alloc clk) =
      (\<lambda>n b. io_bus_tick net n (capture_on_cycle alloc clk (cassette_on_cycle n b)))"
    by (simp add: oric_machine_def)
  then show ?thesis
    using Bo_cycles assms(1) by (simp add: cpu_cycle_tick_def board_via_ops board_cassette board_apart [OF apart_ticks])
next
  case Bo_cpu_reset
  have "\<not> via_bit 0" by (simp add: via_bit_def)
  then show ?thesis
    using Bo_cpu_reset assms by (auto simp: board_follows_def follows_def via_line_bit reset_board irq_settled_def)
next
  case (Bo_source s l)
  then have "apart b (board_apply (oric_machine net alloc clk) op b)"
    using assms(2) by (simp add: via_apart_def apart_source)
  then show ?thesis using assms(1) by (rule board_apart)
next
  case (Bo_other f)
  then have "apart b (board_apply (oric_machine net alloc clk) op b)" by (simp add: apart_def)
  then show ?thesis using assms(1) by (rule board_apart)
qed (use assms(1) in \<open>simp_all add: board_read board_write board_via_ops\<close>)

lemma board_run_follows:
  assumes "board_follows strict b" "\<forall>op \<in> set ops. via_apart op" "strict \<Longrightarrow> calm_resets (oric_machine net alloc clk) ops b"
  shows "board_follows strict (fold (board_apply (oric_machine net alloc clk)) ops b)"
  using assms
proof (induction ops arbitrary: b)
  case (Cons op ops)
  have "board_follows strict (board_apply (oric_machine net alloc clk) op b)"
    using Cons.prems by (intro board_apply_follows) auto
  then show ?case using Cons by simp
qed simp

section \<open>A reset of the CPU while the VIA asks for an interrupt\<close>

text \<open>The chip holds its output, the CPU's input is clear: ticks only raise flags, and no callback is made.\<close>

definition unheard :: "'c oric_board via_state \<Rightarrow> bool" where
  "unheard s \<longleftrightarrow> via6522_t.irq_line (via s) \<and> Via6522.irq_wanted (via s) \<and> \<not> via_line (user s)"

lemma unheard_plain: "unheard s \<Longrightarrow> plain f \<Longrightarrow> unheard (upd_via f s)"
  by (simp add: unheard_def plain_def upd_via_def Via6522.irq_wanted_def)

lemma unheard_raise:
  assumes "unheard s"
  shows "unheard (via_raise oric_via_hooks m s)"
proof -
  have "Via6522.irq_wanted (v\<lparr>ifr := ifr v OR x\<rparr>)" if "Via6522.irq_wanted v" for v x
  proof -
    have "(ifr v OR x) AND ier v AND 0x7F = (ifr v AND ier v AND 0x7F) OR (x AND ier v AND 0x7F)"
      by (simp add: bit.conj_disj_distrib2)
    then show ?thesis using that by (simp add: Via6522.irq_wanted_def or_eq_0_iff)
  qed
  then show ?thesis
    using assms by (simp add: unheard_def via_raise_def via_check_irq_def upd_via_def Let_def or.assoc)
qed

lemma unheard_steps:
  assumes "unheard s"
  shows "unheard (via_t1_step oric_via_hooks s)" "unheard (via_t2_step oric_via_hooks s)" "unheard (via_sr_step oric_via_hooks s)"
proof -
  note upd_via_simps [simp del]
  have e: "unheard (via_sr_event oric_via_hooks t)" if "unheard t" for t :: "'a oric_board via_state"
    unfolding via_sr_event_def Let_def using that
    by (auto intro!: unheard_raise unheard_plain simp: plain_def)
  have s: "unheard (via_t2_shift oric_via_hooks t)" if "unheard t" for t :: "'a oric_board via_state"
    unfolding via_t2_shift_def Let_def using that
    by (auto intro!: e unheard_plain simp: plain_def)
  have c: "unheard (via_t2_count8 oric_via_hooks t)" "unheard (via_t2_count16 oric_via_hooks t)" if "unheard t"
    for t :: "'a oric_board via_state"
    unfolding via_t2_count8_def via_t2_count16_def Let_def using that
    by (auto intro!: unheard_raise unheard_plain simp: plain_def)
  show "unheard (via_t1_step oric_via_hooks s)"
    unfolding via_t1_step_def Let_def using assms
    by (auto intro!: unheard_raise unheard_plain simp: plain_def)
  show "unheard (via_t2_step oric_via_hooks s)"
    unfolding via_t2_step_def Let_def using assms
    by (auto intro!: s c unheard_plain simp: plain_def)
  show "unheard (via_sr_step oric_via_hooks s)"
    unfolding via_sr_step_def using assms
    by (auto intro!: e unheard_plain simp: plain_def)
qed

lemma unheard_update:
  fixes s :: "'c oric_board via_state"
  assumes "unheard s"
  shows "unheard (via_update oric_via_hooks n s)"
proof -
  have p: "unheard (upd_via (via_pulses n) (upd_via via_sync s))"
    using assms by (intro unheard_plain [where f = "via_pulses n"])
      (simp_all add: unheard_def upd_via_def via_sync_def Let_def Via6522.irq_wanted_def)
  have loop: "unheard ((f ^^ k) t)" if "unheard t" "\<And>t :: 'c oric_board via_state. unheard t \<Longrightarrow> unheard (f t :: 'c oric_board via_state)" for k and t :: "'c oric_board via_state" and f
    using that by (rule funpow_invariant)
  have q: "unheard (upd_via (\<lambda>v. v\<lparr>via_quiet_left := via_quiet v\<rparr>) t)" if "unheard t" for t :: "'c oric_board via_state"
    using that by (simp add: unheard_def upd_via_def Via6522.irq_wanted_def)
  show ?thesis
    unfolding via_update_def Let_def using p by (auto intro!: q loop unheard_steps simp del: upd_via_simps)
qed

text \<open>
  The interrupt that the chip asks for when the CPU is reset does not reach the CPU, however long it waits.
\<close>

lemma reset_loses_interrupt:
  fixes b :: "('w, 'h) full_board"
  assumes "board_follows True b" "Via6522.irq_wanted (dvia (dev b))"
  shows "let b' = do_via (via_update oric_via_hooks n) (board_cpu_reset (oric_machine net alloc clk) b)
    in Via6522.irq_wanted (dvia (dev b')) \<and> \<not> via_line b'"
proof -
  have "\<not> via_bit 0" by (simp add: via_bit_def)
  then have "unheard \<lparr>via = dvia (dev b), user = board_cpu_reset (oric_machine net alloc clk) b\<rparr>"
    using assms by (simp add: unheard_def board_follows_def follows_def irq_settled_def via_line_bit reset_board)
  from unheard_update [OF this, of n] show ?thesis
    by (simp add: unheard_def do_via_def on_via_def reset_board upd_dev_def via_line_def Let_def split_beta)
qed

text \<open>
  C12: The interrupt of the VIA on the machine with its cards.  After any sequence of I/O accesses of the program and of an
  observer, register writes of the debugger, cycles, resets of the CPU, other sources of the line and anything that
  concerns neither the VIA nor the inputs, the chip's output is its enabled flags, and the VIA bit of the CPU's inputs
  is set only if the chip has an enabled flag.  It is set exactly then unless the CPU was reset while the chip asked
  for an interrupt, and after such a reset the two are in step again as soon as the chip has no enabled flag.
\<close>

theorem board_irq_line:
  fixes b :: "('w, 'h) full_board"
  assumes "board_wired b" and "\<forall>op \<in> set ops. via_apart op"
  shows "(let cfg = oric_machine net alloc clk; b' = fold (board_apply cfg) ops b; v = dvia (dev b') in
    via6522_t.irq_line v = Via6522.irq_wanted v \<and> (via_line b' \<longrightarrow> Via6522.irq_wanted v) \<and>
    (calm_resets cfg ops b \<longrightarrow> via_line b' = Via6522.irq_wanted v) \<and> (\<not> Via6522.irq_wanted v \<longrightarrow> board_wired b'))"
proof -
  have b: "board_follows True b" "board_follows False b"
    using assms(1) by (auto simp: board_wired_def board_follows_def follows_def)
  then show ?thesis
    using board_run_follows [of False b ops net alloc clk] board_run_follows [of True b ops net alloc clk] assms(2)
    by (auto simp: Let_def board_wired_def board_follows_def follows_def irq_settled_def)
qed

text \<open>A machine with a Microdisc, a serial card on the loopback and a tape that plays.\<close>

definition demo_cards :: "(loopback, unit) card_set" where
  "demo_cards = \<lparr>c_microdisc = Some (microdisc_init (\<lambda>_. []) \<lparr>mem = memory_init, irq = 0, irq_pulse = 0, nmi_pending = False, dev = ()\<rparr> ()),
     c_jasmin = None,
     c_acia = Some \<lparr>acia = acia_init, backend = Some serial_backend_loopback, peer = loopback_open loopback_created,
       host = \<lparr>mem = memory_init, irq = 0, irq_pulse = 0, nmi_pending = False, dev = ()\<rparr>\<rparr>,
     acia_base_addr = 0x031C,
     c_cassette = cassette_set_motor True (cassette_signal_begin [0x16, 0x24] 2 undefined),
     c_capture = tape_capture_begin (\<lambda>_. True)\<rparr>"

definition demo_machine :: "(loopback, unit) full_board" where
  "demo_machine = \<lparr>mem = memory_init, irq = 0, irq_pulse = 0, nmi_pending = False, dev = oric_dev_init (ula_ng_init undefined, demo_cards)\<rparr>"

definition demo_ops :: "(loopback, unit) board_op list" where
  "demo_ops = [Bo_cpu_reset, Bo_write 0x030E 0xC0, Bo_write 0x0304 5, Bo_write 0x0305 0, Bo_write 0x0314 0x01, Bo_write 0x031E 0x09,
     Bo_source IRQF_ULANG True, Bo_cycles 1, Bo_cycles 7, Bo_peek 0x030D, Bo_other (upd_slots (\<lambda>s. s\<lparr>c_jasmin := None\<rparr>))]"

theorem board_irq_line_witness:
  "let b' = fold (board_apply (oric_machine (\<lambda>_ _ h. (None, h)) (\<lambda>_. True) (\<lambda>_. 0))) demo_ops demo_machine
   in via_line b' = Via6522.irq_wanted (dvia (dev b'))"
proof -
  have "board_wired demo_machine" "\<not> Via6522.irq_wanted (dvia (dev demo_machine))"
    by (simp_all add: board_wired_def via_line_def irq_settled_def Via6522.irq_wanted_def demo_machine_def oric_dev_init_def
        via_reset_def via_init_def)
  moreover have "\<forall>op \<in> set demo_ops. via_apart op" by (simp add: demo_ops_def via_apart_def)
  ultimately show ?thesis
    using board_irq_line [of demo_machine demo_ops "\<lambda>_ _ h. (None, h)" "\<lambda>_. True" "\<lambda>_. 0"] by (simp add: Let_def demo_ops_def)
qed

end
