(* ===== verification/Fdc_Stream.thy ===== *)
theory Fdc_Stream
  imports Fdc_Safety
begin

unbundle bit_operations_syntax

text \<open>
  The byte stream of the mechanical timing model: what a tick does while a sector passes under the
  head, one step of the stream at a time.
\<close>

section \<open>Ticks of a running stream\<close>

definition turned :: "nat \<Rightarrow> 'u fdc_state \<Rightarrow> 'u fdc_state" where
  "turned n s = upd_fdc (\<lambda>f. f\<lparr>rot_pos := (rot_pos f + of_nat n) mod FDC_REV_CYCLES, stream_due := stream_due f - int n\<rparr>) s"

text \<open>A stream with nothing else scheduled.\<close>

definition flowing :: "'u fdc_state \<Rightarrow> bool" where
  "flowing s \<longleftrightarrow> delayed_int (fdc s) = 0 \<and> delayed_drq (fdc s) = 0 \<and> stream (fdc s) \<and> fdc_streamed (fdc s)"

lemma tick_idle:
  "delayed_int (fdc s) = 0 \<Longrightarrow> tick_int hk n s = s" "delayed_drq (fdc s) = 0 \<Longrightarrow> tick_drq hk n s = s"
  by (simp_all add: tick_int_def tick_drq_def)

lemma flowing_tick:
  assumes "flowing s"
  shows "fdc_ticktock hk n s = stream_loop hk (turned n s)"
proof -
  define u where "u = upd_fdc (\<lambda>f. f\<lparr>rot_pos := (rot_pos f + of_nat n) mod FDC_REV_CYCLES\<rparr>) s"
  have u: "delayed_int (fdc u) = 0" "delayed_drq (fdc u) = 0" "stream (fdc u)" "fdc_streamed (fdc u)"
    using assms by (simp_all add: u_def fdc_streamed_def flowing_def)
  have "fdc_ticktock hk n s = stream_loop hk (upd_fdc (\<lambda>f. f\<lparr>stream_due := stream_due f - int n\<rparr>) u)"
    unfolding fdc_ticktock_def Let_def u_def [symmetric] tick_idle(1) [OF u(1)] tick_idle(2) [OF u(2)]
    using u(3,4) by simp
  then show ?thesis by (simp add: u_def upd_fdc_def turned_def)
qed

lemma loop_waits: "stream_due (fdc s) > 0 \<Longrightarrow> stream_loop hk s = s"
  by (subst stream_loop.simps) simp

lemma loop_steps:
  "stream (fdc s) \<Longrightarrow> stream_due (fdc s) \<le> 0 \<Longrightarrow> stream_loop hk s = stream_loop hk (fdc_stream_step hk s)"
  by (subst stream_loop.simps) simp

lemma turned_sel [simp]:
  "fdc (turned n s) = (fdc s)\<lparr>rot_pos := (rot_pos (fdc s) + of_nat n) mod FDC_REV_CYCLES, stream_due := stream_due (fdc s) - int n\<rparr>"
  "bufs (turned n s) = bufs s" "fuser (turned n s) = fuser s" "oob (turned n s) = oob s"
  by (simp_all add: turned_def upd_fdc_def)

text \<open>Between two bytes, and at a byte.\<close>

lemma tick_waits:
  assumes "flowing s" "int n < stream_due (fdc s)"
  shows "fdc_ticktock hk n s = turned n s"
  using assms by (simp add: flowing_tick loop_waits)

lemma tick_steps:
  assumes "flowing s" "stream_due (fdc s) \<le> int n"
    "\<not> stream (fdc (fdc_stream_step hk (turned n s))) \<or> stream_due (fdc (fdc_stream_step hk (turned n s))) > 0"
  shows "fdc_ticktock hk n s = fdc_stream_step hk (turned n s)"
proof -
  have "fdc_ticktock hk n s = stream_loop hk (fdc_stream_step hk (turned n s))"
    using assms(1,2) by (simp add: flowing_tick) (rule loop_steps, simp_all add: flowing_def)
  also have "\<dots> = fdc_stream_step hk (turned n s)"
    using assms(3) by (subst stream_loop.simps) auto
  finally show ?thesis .
qed

section \<open>The first byte of a write\<close>

lemma first_byte_stored:
  assumes "\<not> stream_crc (fdc s)" "fdc_op_is_write (currentop (fdc s))" "fd_status (fdc s) AND FDC_ST_DRQ = 0"
    "cur_offset (fdc s) = 0" "cur_sector_len (fdc s) = 256" "cur_sector_data (fdc s) = Some (b, off)" "off < length (bufs s b)"
  shows "bufs (fdc_stream_step hk s) = (bufs s)(b := (bufs s b)[off := fd_data (fdc s)])"
    "disk_modified (fdc (fdc_stream_step hk s))" "stream_due (fdc (fdc_stream_step hk s)) = stream_due (fdc s) + 32"
proof -
  define s2 where "s2 = store_byte (fd_data (fdc s)) s"
  have s2: "cur_offset (fdc s2) = 1" "cur_sector_len (fdc s2) = 256" "disk_modified (fdc s2)"
    "bufs s2 = (bufs s)(b := (bufs s b)[off := fd_data (fdc s)])" "stream_due (fdc s2) = stream_due (fdc s)"
    using assms by (simp_all add: s2_def) (simp add: store_byte_def buf_put_def)
  have e: "fdc_stream_step hk s = upd_fdc (\<lambda>f. f\<lparr>stream_due := stream_due f + FDC_BYTE_CYCLES\<rparr>) (fdc_stream_drq hk s2)"
    using assms s2 unfolding fdc_stream_step_def stream_write_step_def Let_def by (simp add: s2_def [symmetric])
  show "bufs (fdc_stream_step hk s) = (bufs s)(b := (bufs s b)[off := fd_data (fdc s)])"
    "disk_modified (fdc (fdc_stream_step hk s))" "stream_due (fdc (fdc_stream_step hk s)) = stream_due (fdc s) + 32"
    unfolding e using s2 by simp_all
qed

section \<open>The bytes of a read\<close>

text \<open>Byte \<open>i\<close> of the sector at \<open>off\<close> of buffer \<open>b\<close> is in the data register; nothing has been lost.\<close>

definition streaming :: "nat \<Rightarrow> nat \<Rightarrow> nat \<Rightarrow> 'u fdc_state \<Rightarrow> bool" where
  "streaming b off i s \<longleftrightarrow>
     (let f = fdc s in
      currentop f = FDC_OP_READ_SECTOR \<and> timing_mode f = FDC_TIMING_REAL \<and> stream f \<and> \<not> stream_crc f \<and>
      cur_sector_data f = Some (b, off) \<and> cur_sector_len f = 256 \<and> cur_offset f = of_nat (Suc i) \<and> i < 256 \<and>
      fd_data f = bufs s b ! (off + i) \<and> delayed_int f = 0 \<and> delayed_drq f = 0 \<and> sec_type f = 0 \<and>
      fd_status f AND FDC_ST_LOST_DATA = 0 \<and> off + 256 \<le> length (bufs s b))"

text \<open>What a stretch of the transfer leaves alone.\<close>

definition alike :: "'u fdc_state \<Rightarrow> 'u fdc_state \<Rightarrow> bool" where
  "alike s t \<longleftrightarrow> lost_data_count (fdc t) = lost_data_count (fdc s) \<and> bufs t = bufs s"

lemma alike_trans: "alike s t \<Longrightarrow> alike t u \<Longrightarrow> alike s u"
  by (simp add: alike_def)

lemma streaming_flowing: "streaming b off i s \<Longrightarrow> flowing s"
  by (simp add: streaming_def flowing_def Let_def fdc_streamed_def)

lemma streaming_turned [simp]: "streaming b off i (turned n s) = streaming b off i s" "alike s (turned n s)"
  by (simp_all add: streaming_def alike_def Let_def)

definition drq :: "'u fdc_state \<Rightarrow> bool" where
  "drq s \<longleftrightarrow> fd_status (fdc s) AND FDC_ST_DRQ \<noteq> 0"

lemma drq_turned [simp]: "drq (turned n s) = drq s"
  by (simp add: drq_def)

lemma lost_bits:
  "(w OR 2) AND 4 = w AND 4" "(w AND - 3) AND 4 = w AND 4" "(w AND - 3) AND 2 = 0" for w :: u8
  by (simp_all add: bit.conj_disj_distrib2 and.assoc)

lemma offset_nat: "i < 65535 \<Longrightarrow> unat (1 + word_of_nat i :: u16) = Suc i"
proof -
  assume "i < 65535"
  then have "unat (of_nat (Suc i) :: u16) = Suc i" by (simp add: unat_of_nat del: of_nat_Suc)
  then show ?thesis by simp
qed

lemma read_data_streaming:
  assumes "streaming b off i s"
  shows "fdc_read hk 3 s = (bufs s b ! (off + i), drop_drq hk s)"
proof -
  have "(3 :: u8) AND 3 = 3" "(3 :: u8) \<noteq> 0" "(3 :: u8) \<noteq> 1" "(3 :: u8) \<noteq> 2" by simp_all
  then show ?thesis
    using assms by (simp only: fdc_read_def Let_def if_False) (simp add: streaming_def Let_def read_sector_data_def)
qed

lemma drop_drq_streaming:
  assumes "streaming b off i s"
  shows "streaming b off i (drop_drq hk s)" "\<not> drq (drop_drq hk s)" "alike s (drop_drq hk s)"
    "stream_due (fdc (drop_drq hk s)) = stream_due (fdc s)"
  using assms by (simp_all add: streaming_def Let_def drq_def alike_def lost_bits)

lemma next_streaming:
  assumes "streaming b off i s" "i < 255" "\<not> drq s"
  shows "streaming b off (Suc i) (fdc_stream_step hk s)" "alike s (fdc_stream_step hk s)"
    "stream_due (fdc (fdc_stream_step hk s)) = stream_due (fdc s) + 32"
proof -
  have small: "(of_nat (Suc i) :: u16) < 256" "unat (of_nat (Suc i) :: u16) = Suc i"
    using assms(2) by (simp_all add: word_less_nat_alt offset_nat)
  define s2 where "s2 = next_byte s"
  have s2: "fdc s2 = (fdc s)\<lparr>fd_data := bufs s b ! (off + Suc i), cur_offset := of_nat (Suc (Suc i))\<rparr>" "bufs s2 = bufs s"
    using assms small by (simp_all add: s2_def streaming_def Let_def buf_get_def) (simp add: next_byte_def split_beta buf_get_def)
  have e: "fdc_stream_step hk s = upd_fdc (\<lambda>f. f\<lparr>stream_due := stream_due f + FDC_BYTE_CYCLES\<rparr>) (fdc_stream_drq hk s2)"
    using assms small unfolding fdc_stream_step_def stream_read_step_def Let_def
    by (simp add: streaming_def drq_def Let_def fdc_op_is_write_def s2_def)
  show "streaming b off (Suc i) (fdc_stream_step hk s)" "alike s (fdc_stream_step hk s)"
    "stream_due (fdc (fdc_stream_step hk s)) = stream_due (fdc s) + 32"
    unfolding e using assms s2 by (simp_all add: streaming_def Let_def alike_def lost_bits)
qed

section \<open>The end of the sector\<close>

text \<open>The two bytes of the CRC, then the end of the command.\<close>

lemma crc_step:
  assumes "streaming b off 255 s" "\<not> drq s"
  shows "fdc_stream_step hk s = upd_fdc (\<lambda>f. f\<lparr>stream_crc := True, stream_due := stream_due f + FDC_BYTE_CYCLES\<rparr>) s"
  using assms by (simp add: fdc_stream_step_def stream_read_step_def streaming_def Let_def fdc_op_is_write_def)

definition crc_passing :: "'u fdc_state \<Rightarrow> bool" where
  "crc_passing s \<longleftrightarrow>
     (let f = fdc s in
      currentop f = FDC_OP_READ_SECTOR \<and> timing_mode f = FDC_TIMING_REAL \<and> stream f \<and> stream_crc f \<and>
      delayed_int f = 0 \<and> delayed_drq f = 0 \<and> sec_type f = 0 \<and> fd_status f AND FDC_ST_LOST_DATA = 0 \<and> \<not> drq s)"

lemma crc_flowing: "crc_passing s \<Longrightarrow> flowing s"
  by (simp add: crc_passing_def flowing_def Let_def fdc_streamed_def)

lemma crc_turned [simp]: "crc_passing (turned n s) = crc_passing s"
  by (simp add: crc_passing_def Let_def)

lemma crc_done:
  assumes "crc_passing s"
  shows "alike s (fdc_stream_step hk s)" "currentop (fdc (fdc_stream_step hk s)) = FDC_OP_NONE"
    "delayed_int (fdc (fdc_stream_step hk s)) = 1" "di_status (fdc (fdc_stream_step hk s)) = 0"
    "\<not> stream (fdc (fdc_stream_step hk s))" "delayed_drq (fdc (fdc_stream_step hk s)) = 0"
    "fd_status (fdc (fdc_stream_step hk s)) AND FDC_ST_DRQ = 0"
  using assms
  by (simp_all add: crc_passing_def Let_def fdc_stream_step_def fdc_stream_sector_done_def drq_def alike_def lost_bits)

section \<open>Cycles\<close>

definition cycles :: "'u fdc_hooks \<Rightarrow> nat \<Rightarrow> 'u fdc_state \<Rightarrow> 'u fdc_state" where
  "cycles hk n s = (fdc_ticktock hk 1 ^^ n) s"

lemma cycles_simps [simp]: "cycles hk 0 s = s" "cycles hk (Suc n) s = cycles hk n (fdc_ticktock hk 1 s)"
  by (simp_all add: cycles_def funpow_swap1)

text \<open>While no byte is due, a predicate that the turning platter keeps stays.\<close>

lemma cycles_wait:
  assumes "\<And>u. P u \<Longrightarrow> flowing u \<and> P (turned 1 u)" "P s" "int n < stream_due (fdc s)"
  shows "P (cycles hk n s) \<and> stream_due (fdc (cycles hk n s)) = stream_due (fdc s) - int n \<and> alike s (cycles hk n s)"
  using assms(2,3)
proof (induction n arbitrary: s)
  case (Suc n)
  have t: "fdc_ticktock hk 1 s = turned 1 s"
    using Suc.prems assms(1) [of s] by (intro tick_waits) simp_all
  show ?case
    using Suc.IH [of "turned 1 s"] Suc.prems assms(1) [of s] alike_trans [of s "turned 1 s"] by (simp add: t del: One_nat_def)
qed (simp add: alike_def)

lemma cycles_to_step:
  assumes "\<And>u. P u \<Longrightarrow> flowing u \<and> P (turned 1 u)" "P s" "0 < n" "stream_due (fdc s) = int n"
    "\<And>u. P u \<Longrightarrow> stream_due (fdc u) = 0 \<Longrightarrow>
       Q (fdc_stream_step hk u) \<and> alike u (fdc_stream_step hk u) \<and>
       (\<not> stream (fdc (fdc_stream_step hk u)) \<or> stream_due (fdc (fdc_stream_step hk u)) > 0)"
  shows "Q (cycles hk n s) \<and> alike s (cycles hk n s)"
proof -
  obtain m where m: "n = Suc m" using assms(3) by (cases n) auto
  define u where "u = cycles hk m s"
  have u: "P u" "stream_due (fdc u) = 1" "alike s u"
    using cycles_wait [of P s m hk, OF assms(1,2)] assms(4) by (simp_all add: m u_def)
  have v: "P (turned 1 u)" "stream_due (fdc (turned 1 u)) = 0" "flowing u" using assms(1) [OF u(1)] u(2) by simp_all
  have "fdc_ticktock hk 1 u = fdc_stream_step hk (turned 1 u)"
    using v u(2) assms(5) [OF v(1,2)] by (intro tick_steps) simp_all
  moreover have "cycles hk n s = fdc_ticktock hk 1 u"
    by (simp add: m u_def cycles_def)
  ultimately show ?thesis
    using assms(5) [OF v(1,2)] alike_trans [OF u(3)] alike_trans [of u "turned 1 u"] by simp
qed

section \<open>A program that reads in time\<close>

text \<open>
  For every byte the program lets some cycles pass, reads the data register and lets the rest of the
  byte time pass; \<open>d\<close> is the time to the next byte.
\<close>

fun read_in_time :: "'u fdc_hooks \<Rightarrow> nat \<Rightarrow> nat list \<Rightarrow> 'u fdc_state \<Rightarrow> u8 list \<times> 'u fdc_state" where
  "read_in_time hk d [] s = ([], s)"
| "read_in_time hk d (k # ks) s =
     (let (x, s1) = fdc_read hk 3 (cycles hk k s); (xs, t) = read_in_time hk 32 ks (cycles hk (d - k) s1)
      in (x # xs, t))"

lemma one_read:
  assumes "streaming b off i s" "k < d" "stream_due (fdc s) = int d"
  shows "fst (fdc_read hk 3 (cycles hk k s)) = bufs s b ! (off + i)"
    "streaming b off i (snd (fdc_read hk 3 (cycles hk k s)))" "\<not> drq (snd (fdc_read hk 3 (cycles hk k s)))"
    "alike s (snd (fdc_read hk 3 (cycles hk k s)))" "stream_due (fdc (snd (fdc_read hk 3 (cycles hk k s)))) = int (d - k)"
proof -
  have w: "streaming b off i (cycles hk k s)" "stream_due (fdc (cycles hk k s)) = int d - int k" "alike s (cycles hk k s)"
    using cycles_wait [of "streaming b off i" s k hk] streaming_flowing assms by auto
  show "fst (fdc_read hk 3 (cycles hk k s)) = bufs s b ! (off + i)"
    "streaming b off i (snd (fdc_read hk 3 (cycles hk k s)))" "\<not> drq (snd (fdc_read hk 3 (cycles hk k s)))"
    "alike s (snd (fdc_read hk 3 (cycles hk k s)))" "stream_due (fdc (snd (fdc_read hk 3 (cycles hk k s)))) = int (d - k)"
    unfolding read_data_streaming [OF w(1)]
    using drop_drq_streaming [OF w(1), of hk] w(2,3) alike_trans [OF w(3)] assms(2) by (simp_all add: alike_def)
qed

lemma to_next_byte:
  assumes "streaming b off i s" "\<not> drq s" "0 < n" "stream_due (fdc s) = int n" "i < 255"
  shows "streaming b off (Suc i) (cycles hk n s)" "alike s (cycles hk n s)" "stream_due (fdc (cycles hk n s)) = 32"
proof -
  have "(streaming b off (Suc i) (cycles hk n s) \<and> stream_due (fdc (cycles hk n s)) = 32) \<and> alike s (cycles hk n s)"
  proof (rule cycles_to_step [where P = "\<lambda>u. streaming b off i u \<and> \<not> drq u", OF _ _ assms(3,4)])
    fix u :: "'a fdc_state" assume "streaming b off i u \<and> \<not> drq u" "stream_due (fdc u) = 0"
    then show "(streaming b off (Suc i) (fdc_stream_step hk u) \<and> stream_due (fdc (fdc_stream_step hk u)) = 32) \<and>
        alike u (fdc_stream_step hk u) \<and> (\<not> stream (fdc (fdc_stream_step hk u)) \<or> stream_due (fdc (fdc_stream_step hk u)) > 0)"
      using next_streaming [of b off i u hk] assms(5) by simp
  qed (use assms streaming_flowing in auto)
  then show "streaming b off (Suc i) (cycles hk n s)" "alike s (cycles hk n s)" "stream_due (fdc (cycles hk n s)) = 32"
    by simp_all
qed

lemma to_crc:
  assumes "streaming b off 255 s" "\<not> drq s" "0 < n" "stream_due (fdc s) = int n"
  shows "crc_passing (cycles hk n s)" "alike s (cycles hk n s)" "stream_due (fdc (cycles hk n s)) = 32"
proof -
  have c: "crc_passing (upd_fdc (\<lambda>f. f\<lparr>stream_crc := True, stream_due := stream_due f + FDC_BYTE_CYCLES\<rparr>) u)"
    if "streaming b off 255 u" "\<not> drq u" for u :: "'a fdc_state"
    using that by (simp add: crc_passing_def streaming_def Let_def drq_def)
  have "(crc_passing (cycles hk n s) \<and> stream_due (fdc (cycles hk n s)) = 32) \<and> alike s (cycles hk n s)"
    by (rule cycles_to_step [where P = "\<lambda>u. streaming b off 255 u \<and> \<not> drq u"])
       (use assms c in \<open>auto simp: streaming_flowing crc_step alike_def\<close>)
  then show "crc_passing (cycles hk n s)" "alike s (cycles hk n s)" "stream_due (fdc (cycles hk n s)) = 32"
    by simp_all
qed

lemma read_rest:
  assumes "streaming b off i s" "stream_due (fdc s) = int d" "list_all (\<lambda>k. k < 32) ks" "k < d" "length ks = 255 - i"
  shows "fst (read_in_time hk d (k # ks) s) = map (\<lambda>n. bufs s b ! (off + n)) [i..<256] \<and>
    crc_passing (snd (read_in_time hk d (k # ks) s)) \<and> alike s (snd (read_in_time hk d (k # ks) s)) \<and>
    stream_due (fdc (snd (read_in_time hk d (k # ks) s))) = 32"
  using assms
proof (induction ks arbitrary: i s d k)
  case Nil
  then have i: "i = 255" by (simp add: streaming_def Let_def)
  define s1 where "s1 = snd (fdc_read hk 3 (cycles hk k s))"
  note r = one_read [OF Nil.prems(1,4,2), of hk, folded s1_def]
  have c: "crc_passing (cycles hk (d - k) s1)" "alike s1 (cycles hk (d - k) s1)" "stream_due (fdc (cycles hk (d - k) s1)) = 32"
    using to_crc [of b off s1 "d - k" hk] r(2,3,5) Nil.prems(4) by (simp_all add: i)
  show ?case using r c alike_trans [OF r(4) c(2)] by (simp add: i split_beta s1_def upt_rec)
next
  case (Cons k' ks)
  then have i: "i < 255" "length ks = 255 - Suc i" by (auto simp: streaming_def Let_def)
  define s1 where "s1 = snd (fdc_read hk 3 (cycles hk k s))"
  define s2 where "s2 = cycles hk (d - k) s1"
  note r = one_read [OF Cons.prems(1,4,2), of hk, folded s1_def]
  have n: "streaming b off (Suc i) s2" "alike s1 s2" "stream_due (fdc s2) = 32"
    using to_next_byte [OF r(2,3) _ r(5) i(1), of hk] Cons.prems(4) by (simp_all add: s2_def)
  have a: "alike s s2" by (rule alike_trans [OF r(4) n(2)])
  have "fst (read_in_time hk 32 (k' # ks) s2) = map (\<lambda>n. bufs s2 b ! (off + n)) [Suc i..<256] \<and>
    crc_passing (snd (read_in_time hk 32 (k' # ks) s2)) \<and> alike s2 (snd (read_in_time hk 32 (k' # ks) s2)) \<and>
    stream_due (fdc (snd (read_in_time hk 32 (k' # ks) s2))) = 32"
    using Cons.prems(3) n i(2) by (intro Cons.IH) simp_all
  moreover have "read_in_time hk d (k # k' # ks) s =
      (fst (fdc_read hk 3 (cycles hk k s)) # fst (read_in_time hk 32 (k' # ks) s2), snd (read_in_time hk 32 (k' # ks) s2))"
    by (subst read_in_time.simps(2)) (simp only: split_beta Let_def s1_def s2_def)
  ultimately show ?case
    using r(1) a i(1) by (simp add: upt_conv_Cons alike_def del: read_in_time.simps)
qed

section \<open>From the command to the interrupt\<close>

text \<open>The rotational latency: the sector comes under the head in \<open>k\<close> cycles.\<close>

definition latent :: "nat \<Rightarrow> nat \<Rightarrow> nat \<Rightarrow> 'u fdc_state \<Rightarrow> bool" where
  "latent b off k s \<longleftrightarrow>
     (let f = fdc s in
      currentop f = FDC_OP_READ_SECTOR \<and> timing_mode f = FDC_TIMING_REAL \<and> \<not> stream f \<and> delayed_drq f = int k \<and>
      delayed_int f = 0 \<and> dd_status f = - 1 \<and> cur_sector_data f = Some (b, off) \<and> cur_sector_len f = 256 \<and>
      fd_status f = FDC_ST_BUSY OR FDC_ST_NOT_READY \<and> off + 256 \<le> length (bufs s b))"

lemma latent_tick:
  assumes "latent b off (Suc (Suc k)) s"
  shows "latent b off (Suc k) (fdc_ticktock hk 1 s)" "alike s (fdc_ticktock hk 1 s)"
  using assms by (simp_all add: latent_def Let_def fdc_ticktock_def tick_int_def tick_drq_def tick_lost_def alike_def)

lemma latent_start:
  assumes "latent b off 1 s"
  shows "streaming b off 0 (fdc_ticktock hk 1 s)" "stream_due (fdc (fdc_ticktock hk 1 s)) = 31" "alike s (fdc_ticktock hk 1 s)"
proof -
  define u where "u = upd_fdc (\<lambda>f. fire_drq (f\<lparr>rot_pos := (rot_pos f + of_nat 1) mod FDC_REV_CYCLES, delayed_drq := delayed_drq f - int 1\<rparr>)) s"
  define w where "w = fdc_stream_start hk u"
  have u: "currentop (fdc u) = FDC_OP_READ_SECTOR" "timing_mode (fdc u) = FDC_TIMING_REAL" "fdc_streamed (fdc u)"
    "cur_sector_data (fdc u) = Some (b, off)" "cur_sector_len (fdc u) = 256" "delayed_int (fdc u) = 0" "delayed_drq (fdc u) = 0"
    "bufs u = bufs s" "fd_status (fdc u) = FDC_ST_BUSY OR FDC_ST_NOT_READY" "lost_data_count (fdc u) = lost_data_count (fdc s)"
    "off + 256 \<le> length (bufs s b)"
    using assms by (simp_all add: u_def latent_def Let_def fire_drq_def fdc_streamed_def)
  have w: "streaming b off 0 w" "stream_due (fdc w) = 32" "alike s w" "stream (fdc w)" "fdc_streamed (fdc w)"
    using u by (simp_all add: w_def fdc_stream_start_def Let_def fdc_op_is_write_def streaming_def buf_get_def alike_def
        next_byte_def split_beta fdc_streamed_def)
  have "fdc_ticktock hk 1 s = stream_loop hk (upd_fdc (\<lambda>f. f\<lparr>stream_due := stream_due f - int 1\<rparr>) w)"
    using assms w(4,5) u(3,4) unfolding fdc_ticktock_def Let_def tick_int_def tick_drq_def
    by (simp add: latent_def Let_def w_def u_def upd_fdc_def)
  also have "\<dots> = upd_fdc (\<lambda>f. f\<lparr>stream_due := stream_due f - int 1\<rparr>) w"
    using w(2) by (intro loop_waits) simp
  finally have e: "fdc_ticktock hk 1 s = upd_fdc (\<lambda>f. f\<lparr>stream_due := stream_due f - int 1\<rparr>) w" .
  show "streaming b off 0 (fdc_ticktock hk 1 s)" "stream_due (fdc (fdc_ticktock hk 1 s)) = 31" "alike s (fdc_ticktock hk 1 s)"
    unfolding e using w by (simp_all add: streaming_def Let_def alike_def)
qed

lemma latent_cycles:
  assumes "latent b off (Suc k) s"
  shows "streaming b off 0 (cycles hk (Suc k) s) \<and> stream_due (fdc (cycles hk (Suc k) s)) = 31 \<and> alike s (cycles hk (Suc k) s)"
  using assms
proof (induction k arbitrary: s)
  case 0
  then show ?case using latent_start [of b off s hk] by simp
next
  case (Suc k)
  then show ?case
    using latent_tick [OF Suc.prems, of hk] Suc.IH [of "fdc_ticktock hk 1 s"] alike_trans [of s "fdc_ticktock hk 1 s"]
    by simp
qed

lemma crc_to_interrupt:
  assumes "crc_passing s" "stream_due (fdc s) = 32"
  shows "alike s (cycles hk 33 s)" "currentop (fdc (cycles hk 33 s)) = FDC_OP_NONE" "fd_status (fdc (cycles hk 33 s)) = 0"
    "\<exists>l. fuser (cycles hk 33 s) = set_intrq hk l"
proof -
  define Q :: "'a fdc_state \<Rightarrow> bool" where "Q = (\<lambda>u. currentop (fdc u) = FDC_OP_NONE \<and> delayed_int (fdc u) = 1 \<and>
    di_status (fdc u) = 0 \<and> \<not> stream (fdc u) \<and> delayed_drq (fdc u) = 0)"
  have "Q (cycles hk 32 s) \<and> alike s (cycles hk 32 s)"
    by (rule cycles_to_step [where P = crc_passing]) (use assms in \<open>auto simp: Q_def crc_flowing crc_done\<close>)
  then have q: "Q (cycles hk 32 s)" "alike s (cycles hk 32 s)" by simp_all
  have e: "cycles hk 33 s = fdc_ticktock hk 1 (cycles hk 32 s)"
    using funpow_swap1 [of "fdc_ticktock hk 1" 32 s] by (simp add: cycles_def numeral_eq_Suc)
  show "alike s (cycles hk 33 s)" "currentop (fdc (cycles hk 33 s)) = FDC_OP_NONE" "fd_status (fdc (cycles hk 33 s)) = 0"
    "\<exists>l. fuser (cycles hk 33 s) = set_intrq hk l"
    unfolding e using q
    by (simp_all add: Q_def fdc_ticktock_def tick_int_def tick_drq_def tick_lost_def Let_def fire_int_def alike_def)
       (auto simp: raise_sig_def upd_fdc_def)
qed

end
