(* ===== verification/Fdc_Properties.thy ===== *)
theory Fdc_Properties
  imports Fdc_Stream
begin

unbundle bit_operations_syntax

text \<open>
  Properties of the disk controller: memory safety and the format stream that breaks it, write
  protection, the end of Type I commands, and the stream of a sector read.
\<close>

section \<open>Memory safety\<close>

text \<open>
  C13: No program of register accesses, cycles, side selections and resets makes the controller access
  a disk image out of its bounds, as long as it formats no track: not with a truncated image, a
  geometry larger than the image, bad sectors, transfers cut short or web-backed tracks.
\<close>

theorem fdc_memory_safe:
  assumes "whole_tracks hk" and "safe s" and "list_all no_format ps"
  shows "\<not> oob (fold (fdc_apply hk) ps s)"
  using run_safe [OF assms] by (simp add: safe_def)

text \<open>A card that keeps the two lines, in a machine with no disk server.\<close>

definition line_hooks :: "(bool \<times> bool) fdc_hooks" where
  "line_hooks = \<lparr>set_drq = (\<lambda>(d, i). (True, i)), clr_drq = (\<lambda>(d, i). (False, i)),
     set_intrq = (\<lambda>(d, i). (d, True)), clr_intrq = (\<lambda>(d, i). (d, False)), http_get = (\<lambda>url off u. (None, u))\<rparr>"

text \<open>A controller with one image of \<open>t\<close> tracks of \<open>n\<close> sectors.\<close>

definition drive_with :: "fdc_timing \<Rightarrow> u8 \<Rightarrow> u8 \<Rightarrow> u8 list \<Rightarrow> (bool \<times> bool) fdc_state" where
  "drive_with tm t n img =
     \<lparr>fdc = (fdc_set_disk (Some 0) (of_nat (length img)) fdc_init)\<lparr>tracks := t, sectors_per_track := n, timing_mode := tm\<rparr>,
      bufs = (\<lambda>b. if b = 0 then img else []), oob = False, fuser = (False, False)\<rparr>"

lemma drive_safe: "length img < 2 ^ 32 \<Longrightarrow> safe (drive_with tm t n img)"
  by (simp add: safe_def drive_with_def media_ok_def sizes_def fdc_set_disk_def fdc_init_def place_idle unat_of_nat)

lemma line_hooks_whole: "whole_tracks line_hooks"
  by (simp add: whole_tracks_def line_hooks_def)

theorem fdc_memory_safe_witness:
  "\<not> oob (fold (fdc_apply line_hooks) [Fo_write 2 1, Fo_write 0 0x80, Fo_cycles 300000, Fo_read 3, Fo_read 3]
     (drive_with FDC_TIMING_REAL 1 2 (replicate 300 7)))"
  by (rule fdc_memory_safe [OF line_hooks_whole drive_safe]) simp_all

section \<open>Formatting\<close>

definition write_bytes :: "'u fdc_hooks \<Rightarrow> u8 list \<Rightarrow> 'u fdc_state \<Rightarrow> 'u fdc_state" where
  "write_bytes hk xs s = fold (fdc_write hk 3) xs s"

lemma write_data:
  "fdc_write hk 3 x s0 =
     (let s = upd_fdc (\<lambda>f. f\<lparr>fd_data := x\<rparr>) s0
      in if currentop (fdc s) = FDC_OP_WRITE_SECTOR \<or> currentop (fdc s) = FDC_OP_WRITE_SECTORS then write_sector_data hk x s
         else if currentop (fdc s) = FDC_OP_WRITE_TRACK then write_track_data hk x s else s)"
proof -
  have "(3 :: u8) AND 3 = 3" "(3 :: u8) \<noteq> 0" "(3 :: u8) \<noteq> 1" "(3 :: u8) \<noteq> 2" by simp_all
  then show ?thesis by (simp only: fdc_write_def Let_def if_False)
qed

lemma data_field_step:
  assumes "currentop (fdc s) = FDC_OP_WRITE_TRACK" "wt_state (fdc s) = 2" "cur_sector_data (fdc s) = Some (b, off)"
    "wt_data_len (fdc s) = 1024" "cur_offset (fdc s) = of_nat k" "k < 257" "wt_sectors_done (fdc s) < sectors_per_track (fdc s)"
  shows "let t = fdc_write hk 3 x s in
    currentop (fdc t) = FDC_OP_WRITE_TRACK \<and> wt_state (fdc t) = 2 \<and> cur_sector_data (fdc t) = Some (b, off) \<and>
    wt_data_len (fdc t) = 1024 \<and> cur_offset (fdc t) = of_nat (Suc k) \<and> wt_sectors_done (fdc t) < sectors_per_track (fdc t) \<and>
    sizes t b = sizes s b \<and> (off + k \<ge> sizes s b \<longrightarrow> oob t)"
proof -
  have k: "unat (of_nat k :: u16) = k" "unat (1 + of_nat k :: u16) = Suc k"
    using assms(6) by (simp_all add: unat_of_nat unat_word_ariths)
  have n: "\<not> (1024 :: u16) \<le> 1 + of_nat k" "(of_nat k :: u16) < 1024"
    using k assms(6) by (simp_all add: word_le_nat_alt word_less_nat_alt)
  have "\<not> sectors_per_track (fdc s) \<le> wt_sectors_done (fdc s)" "sectors_per_track (fdc s) \<noteq> 0" using assms(7) by auto
  then show ?thesis
    using assms k n
    by (simp add: Let_def write_data write_track_data_def wt_data_byte_def buf_put_def sizes_def add.commute not_less)
qed

text \<open>
  C15: A format stream whose ID field declares sectors of 512 or 1024 bytes writes past the end of the
  disk image: the data field is stored without a bound on the 256 bytes of its sector, so 257 bytes
  into the last sector of an image the controller writes outside the buffer.
\<close>

theorem format_overflows_image:
  fixes s :: "'u fdc_state"
  assumes "currentop (fdc s) = FDC_OP_WRITE_TRACK" and "wt_state (fdc s) = 0" and "\<not> web (fdc s)"
    and "wt_id (fdc s) = [c_track (fdc s), fd_side (fdc s), sec, 3]" and "sec \<noteq> 0"
    and "fst (fdc_find_sector hk sec s) = Some (b, off)" and "off + 256 = sizes s b"
    and "wt_sectors_done (fdc s) < sectors_per_track (fdc s)" and "length xs = 257"
  shows "oob (write_bytes hk (0xFB # xs) s)"
proof -
  define t where "t = fdc_write hk 3 0xFB s"
  have fin: "fst (fdc_find_sector hk sec (upd_fdc (\<lambda>f. f\<lparr>disk_modified := True\<rparr>) (upd_fdc (\<lambda>f. f\<lparr>fd_data := 0xFB\<rparr>) s))) =
      fst (fdc_find_sector hk sec s)"
    using assms(3) by (auto simp: fdc_find_sector_def fdc_web_ensure_track_def Let_def split: option.split)
  have t: "currentop (fdc t) = FDC_OP_WRITE_TRACK \<and> wt_state (fdc t) = 2 \<and> cur_sector_data (fdc t) = Some (b, off) \<and>
      wt_data_len (fdc t) = 1024 \<and> cur_offset (fdc t) = of_nat 0 \<and> wt_sectors_done (fdc t) < sectors_per_track (fdc t) \<and>
      sizes t b = sizes s b"
  proof -
    define u where "u = upd_fdc (\<lambda>f. f\<lparr>disk_modified := True\<rparr>) (upd_fdc (\<lambda>f. f\<lparr>fd_data := 0xFB\<rparr>) s)"
    have "snd (fdc_find_sector hk sec u) = u"
      using assms(3) by (auto simp: u_def fdc_find_sector_def fdc_web_ensure_track_def Let_def split: option.split)
    then have l: "load_sector hk sec u = upd_fdc (\<lambda>f. f\<lparr>cur_sector_data := Some (b, off)\<rparr>) u"
      using fin assms(6) by (simp add: load_sector_def split_beta u_def)
    have three: "unat ((3 :: u8) AND 3) = 3" by simp
    have len: "push_bit 3 128 = (1024 :: u16)" by (simp add: push_bit_eq_mult)
    have m: "wt_mark hk 0xFB u = upd_fdc (\<lambda>f. f\<lparr>wt_data_len := 1024, cur_offset := 0, wt_state := 2\<rparr>)
        (upd_fdc (\<lambda>f. f\<lparr>cur_sector_data := Some (b, off)\<rparr>) u)"
    proof -
      have wid: "wt_id (fdc u) = [c_track (fdc s), fd_side (fdc s), sec, 3]" using assms(4) by (simp add: u_def)
      then have "wt_mark hk 0xFB u = upd_fdc (\<lambda>f. let n = push_bit (unat (wt_id f ! 3 AND 3)) 128 :: u16
            in f\<lparr>wt_data_len := (if n = 0 \<or> n > 1024 then 256 else n), cur_offset := 0, wt_state := 2\<rparr>) (load_sector hk sec u)"
        by (simp add: wt_mark_def)
      then show ?thesis unfolding l by (simp add: upd_fdc_def wid three len)
    qed
    have w: "wt_state (fdc u) = 0" "\<not> sectors_per_track (fdc u) \<le> wt_sectors_done (fdc u)"
      "currentop (fdc u) = FDC_OP_WRITE_TRACK" "sizes u = sizes s"
      using assms(1,2,8) by (simp_all add: u_def)
    show ?thesis
      using w assms(1,8) by (simp add: t_def write_data Let_def write_track_data_def u_def [symmetric] m)
  qed
  have run: "oob (fold (fdc_write hk 3) ys u)"
    if "currentop (fdc u) = FDC_OP_WRITE_TRACK \<and> wt_state (fdc u) = 2 \<and> cur_sector_data (fdc u) = Some (b, off) \<and>
      wt_data_len (fdc u) = 1024 \<and> cur_offset (fdc u) = of_nat k \<and> wt_sectors_done (fdc u) < sectors_per_track (fdc u) \<and>
      sizes u b = sizes s b" "length ys = 257 - k" "k < 257" for ys u k
    using that
  proof (induction ys arbitrary: u k)
    case (Cons y ys)
    note step = data_field_step [of u b off k hk y]
    show ?case
    proof (cases "k = 256")
      case True
      then show ?thesis using Cons.prems step assms(7) by (simp add: Let_def)
    next
      case False
      then show ?thesis using Cons.prems Cons.IH [of "fdc_write hk 3 y u" "Suc k"] step by (simp add: Let_def)
    qed
  qed simp
  show ?thesis using run [OF t] assms(9) by (simp add: write_bytes_def t_def)
qed

text \<open>A one-sector disk, its track being formatted, after the ID field of a 1024-byte sector.\<close>

definition formatting :: "(bool \<times> bool) fdc_state" where
  "formatting = upd_fdc (\<lambda>f. f\<lparr>currentop := FDC_OP_WRITE_TRACK, wt_id := [0, 0, 1, 3]\<rparr>)
     (drive_with FDC_TIMING_FAST 1 1 (replicate 256 0))"

theorem format_overflows_image_witness:
  "oob (write_bytes line_hooks (0xFB # replicate 257 0x42) formatting)"
proof (rule format_overflows_image [where sec = 1 and b = 0 and off = 0])
  show "wt_id (fdc formatting) = [c_track (fdc formatting), fd_side (fdc formatting), 1, 3]"
    "fst (fdc_find_sector line_hooks 1 formatting) = Some (0, 0)" "0 + 256 = sizes formatting 0"
    by (simp_all add: formatting_def drive_with_def fdc_set_disk_def fdc_init_def fdc_find_sector_def Let_def
        fdc_web_ensure_track_def mfm_offset_def sizes_def upd_fdc_def)
qed (simp_all add: formatting_def drive_with_def fdc_set_disk_def fdc_init_def)

section \<open>Type I commands\<close>

definition ticks :: "'u fdc_hooks \<Rightarrow> nat list \<Rightarrow> 'u fdc_state \<Rightarrow> 'u fdc_state" where
  "ticks hk ns s = fold (fdc_ticktock hk) ns s"

text \<open>No operation and no DRQ to come.\<close>

definition resting :: "'u fdc_state \<Rightarrow> bool" where
  "resting s \<longleftrightarrow> delayed_drq (fdc s) = 0 \<and> \<not> stream (fdc s) \<and> currentop (fdc s) = FDC_OP_NONE"

lemma resting_eq:
  assumes "resting s"
  shows "fdc_ticktock hk n s = upd_fdc (\<lambda>f. f\<lparr>drq_age := 0\<rparr>)
     (tick_int hk n (upd_fdc (\<lambda>f. f\<lparr>rot_pos := (rot_pos f + of_nat n) mod FDC_REV_CYCLES\<rparr>) s))"
proof -
  define u where "u = tick_int hk n (upd_fdc (\<lambda>f. f\<lparr>rot_pos := (rot_pos f + of_nat n) mod FDC_REV_CYCLES\<rparr>) s)"
  have "delayed_drq (fdc u) = 0" "\<not> stream (fdc u)" "currentop (fdc u) = FDC_OP_NONE"
    using assms by (simp_all add: u_def resting_def tick_int_def Let_def fire_int_def)
  then have "tick_drq hk n u = u" "upd_fdc (tick_lost n) u = upd_fdc (\<lambda>f. f\<lparr>drq_age := 0\<rparr>) u" "\<not> stream (fdc u)"
    by (simp_all add: tick_drq_def tick_lost_def fdc_op_transfers_data_def upd_fdc_def)
  then show ?thesis
    unfolding fdc_ticktock_def Let_def u_def [symmetric] by simp
qed

lemma resting_tick:
  assumes "resting s"
  shows "resting (fdc_ticktock hk n s)" "c_track (fdc (fdc_ticktock hk n s)) = c_track (fdc s)"
    "tracks (fdc (fdc_ticktock hk n s)) = tracks (fdc s)" "di_status (fdc s) = - 1 \<Longrightarrow> di_status (fdc (fdc_ticktock hk n s)) = - 1"
    "delayed_int (fdc s) \<le> 0 \<Longrightarrow> delayed_int (fdc (fdc_ticktock hk n s)) \<le> 0 \<and>
       fd_status (fdc (fdc_ticktock hk n s)) = fd_status (fdc s) \<and> fuser (fdc_ticktock hk n s) = fuser s"
    "delayed_int (fdc s) > int n \<Longrightarrow> delayed_int (fdc (fdc_ticktock hk n s)) = delayed_int (fdc s) - int n \<and>
       fd_status (fdc (fdc_ticktock hk n s)) = fd_status (fdc s) \<and> fuser (fdc_ticktock hk n s) = fuser s \<and>
       di_status (fdc (fdc_ticktock hk n s)) = di_status (fdc s)"
    "0 < delayed_int (fdc s) \<Longrightarrow> delayed_int (fdc s) \<le> int n \<Longrightarrow> di_status (fdc s) \<noteq> - 1 \<Longrightarrow>
       delayed_int (fdc (fdc_ticktock hk n s)) = 0 \<and> fuser (fdc_ticktock hk n s) = set_intrq hk (fuser s) \<and>
       fd_status (fdc (fdc_ticktock hk n s)) = of_int (di_status (fdc s))"
  using assms unfolding resting_eq [OF assms]
  by (auto simp: resting_def Let_def tick_int_def fire_int_def upd_fdc_def raise_sig_def)

lemma resting_ticks:
  assumes "resting s" "delayed_int (fdc s) \<le> 0"
  shows "resting (ticks hk ns s) \<and> fd_status (fdc (ticks hk ns s)) = fd_status (fdc s) \<and> fuser (ticks hk ns s) = fuser s \<and>
     c_track (fdc (ticks hk ns s)) = c_track (fdc s) \<and> tracks (fdc (ticks hk ns s)) = tracks (fdc s)"
  using assms
proof (induction ns arbitrary: s)
  case (Cons n ns)
  then show ?case using resting_tick [OF Cons.prems(1), where hk = hk and n = n] by (simp add: ticks_def)
qed (simp add: ticks_def)

lemma due_ticks:
  assumes "resting s" "0 < delayed_int (fdc s)" "delayed_int (fdc s) \<le> int (sum_list ns)" "di_status (fdc s) \<noteq> - 1"
  shows "fd_status (fdc (ticks hk ns s)) = of_int (di_status (fdc s)) \<and> fuser (ticks hk ns s) = set_intrq hk (fuser s) \<and>
     c_track (fdc (ticks hk ns s)) = c_track (fdc s) \<and> tracks (fdc (ticks hk ns s)) = tracks (fdc s)"
  using assms
proof (induction ns arbitrary: s)
  case (Cons n ns)
  note step = resting_tick [OF Cons.prems(1), where hk = hk and n = n]
  show ?case
  proof (cases "delayed_int (fdc s) > int n")
    case True
    then show ?thesis using Cons step(1,2,3,6) by (simp add: ticks_def)
  next
    case False
    then show ?thesis
      using Cons.prems step(1,2,3,7) resting_ticks [where s = "fdc_ticktock hk n s" and hk = hk and ns = ns] by (simp add: ticks_def)
  qed
qed simp

lemma seek_delay_range: "0 < seek_delay tg x f \<and> seek_delay tg x f \<le> 7680000"
proof -
  have three: "unat (x AND 3) < 4"
    using and_less [of 3 4 x] by (simp add: word_less_nat_alt)
  then have rate: "fdc_step_rate_ms ! unat (x AND 3) \<in> {6, 12, 20, 30}"
    by (auto simp: fdc_step_rate_ms_def less_Suc_eq numeral_eq_Suc nth_Cons')
  have steps: "0 < (if d = 0 then 1 else d) \<and> (if d = 0 then 1 else d) \<le> (255 :: int)" if "0 \<le> d" "d \<le> 255" for d
    using that by auto
  have u: "uint (y :: u8) \<le> 255" "0 \<le> uint (y :: u8)" for y
    using uint_lt2p [of y] by simp_all
  define d where "d = (if tg > c_track f then uint tg - uint (c_track f) else uint (c_track f) - uint tg)"
  have "uint tg - uint (c_track f) \<le> 255" "uint (c_track f) - uint tg \<le> 255"
    using u [of tg] u [of "c_track f"] by linarith+
  then have d: "0 \<le> d" "d \<le> 255"
    by (auto simp: d_def word_less_def not_less)
  define k where "k = (if d = 0 then 1 else d)"
  have k: "1 \<le> k" "k \<le> 255" using d by (auto simp: k_def)
  have "0 < k * r * 1000 \<and> k * r * 1000 \<le> 7650000" if "r \<in> {6, 12, 20, 30 :: int}" for r
    using that k by auto
  define a where "a = k * (fdc_step_rate_ms ! unat (x AND 3)) * 1000"
  have "seek_delay tg x f = (if timing_mode f = FDC_TIMING_REAL then a + (if x AND 0x04 \<noteq> 0 then FDC_SETTLE_CYCLES else 0) else 20)"
    by (simp only: seek_delay_def Let_def d_def k_def a_def)
  moreover have "0 < a \<and> a \<le> 7650000" using \<open>\<And>r. r \<in> {6, 12, 20, 30} \<Longrightarrow> 0 < k * r * 1000 \<and> k * r * 1000 \<le> 7650000\<close> rate unfolding a_def .
  ultimately show ?thesis by simp
qed

lemma less_pred: "x \<noteq> 0 \<Longrightarrow> x - 1 < (x :: u8)"
  by (simp add: word_less_nat_alt unat_minus_one unat_gt_0)

lemma seek_result:
  assumes "disk_data (fdc s) \<noteq> None" "delayed_drq (fdc s) = 0" "\<not> stream (fdc s)" "sum_list ns \<ge> 7680000"
  shows "let t = ticks hk ns (end_op (fdc_seek_track hk tg x u s)) in
     fd_status (fdc t) AND FDC_ST_BUSY = 0 \<and> fuser t = set_intrq hk (fuser s) \<and>
     (c_track (fdc t) < tracks (fdc t) \<or> tracks (fdc t) = 0 \<and> c_track (fdc t) = 0)"
proof -
  define v where "v = end_op (fdc_seek_track hk tg x u s)"
  obtain st where st: "di_status (fdc v) = uint (st :: u8)" "st AND 1 = 0"
    using assms(1) by (auto simp: v_def end_op_def fdc_seek_track_def Let_def)
  have v: "resting v" "fuser v = fuser s" "c_track (fdc v) < tracks (fdc v) \<or> tracks (fdc v) = 0 \<and> c_track (fdc v) = 0"
    "0 < delayed_int (fdc v)" "delayed_int (fdc v) \<le> 7680000"
    using assms(1-3) seek_delay_range [where f = "fdc s" and x = x]
    by (auto simp: v_def resting_def end_op_def fdc_seek_track_def Let_def upd_fdc_def not_le word_gt_0 less_pred)
  have "uint st \<noteq> - 1" using uint_nonnegative [of st] by linarith
  then show ?thesis
    using due_ticks [OF v(1,4), of ns hk] v st assms(4) by (simp add: Let_def v_def [symmetric])
qed

text \<open>
  C14: A Restore, Seek, Step or Step-in command on a drive with a disk always ends: 7.68 seconds
  later at the most, however the cycles are counted, the controller is no longer busy, it has raised
  INTRQ, and the head is on a track of the disk.
\<close>

theorem type1_completes:
  assumes "disk_data (fdc s) \<noteq> None" and "delayed_drq (fdc s) = 0"
    and "x AND 0xE0 = 0x00 \<or> x AND 0xE0 = 0x20 \<or> x AND 0xE0 = 0x40" and "sum_list ns \<ge> 7680000"
  shows "let t = ticks hk ns (fdc_write hk 0 x s) in
     fd_status (fdc t) AND FDC_ST_BUSY = 0 \<and> fuser t = set_intrq hk (clr_intrq hk (fuser s)) \<and>
     (c_track (fdc t) < tracks (fdc t) \<or> tracks (fdc t) = 0 \<and> c_track (fdc t) = 0)"
proof -
  define u where "u = upd_fdc (\<lambda>f. f\<lparr>stream := False, stream_crc := False\<rparr>) (raise_sig (clr_intrq hk) s)"
  have nd: "x AND 0xF0 \<noteq> 0xD0" using assms(3) command_groups_all [of x] by (auto simp: command_groups_def)
  then have w: "fdc_write hk 0 x s =
      (if x AND 0xE0 = 0 then cmd_restore_seek hk x u else if x AND 0xE0 = 0x20 then cmd_step hk x u else cmd_step_in hk x u)"
    using assms(3) by (auto simp: fdc_write_def fdc_command_def Let_def u_def)
  have t1: "disk_data (fdc (type1 x u)) \<noteq> None" "delayed_drq (fdc (type1 x u)) = 0" "\<not> stream (fdc (type1 x u))"
    "fuser (type1 x u) = clr_intrq hk (fuser s)"
    using assms(1,2) by (simp_all add: type1_def u_def upd_fdc_def raise_sig_def)
  define v where "v = upd_fdc (\<lambda>f. f\<lparr>fd_direction := 0\<rparr>) (type1 x u)"
  have v: "disk_data (fdc v) \<noteq> None" "delayed_drq (fdc v) = 0" "\<not> stream (fdc v)" "fuser v = clr_intrq hk (fuser s)"
    using t1 by (simp_all add: v_def upd_fdc_def)
  show ?thesis
    using seek_result [OF t1(1-3) assms(4)] seek_result [OF v(1-3) assms(4)] t1(4) v(4)
    by (simp add: w cmd_restore_seek_def cmd_step_def cmd_step_in_def Let_def v_def [symmetric])
qed

theorem type1_completes_witness:
  "let t = ticks line_hooks [4000000, 4000000] (fdc_write line_hooks 0 0x14 (drive_with FDC_TIMING_REAL 40 17 (replicate 1000 0))) in
     fd_status (fdc t) AND FDC_ST_BUSY = 0 \<and> fuser t = (False, True)"
  using type1_completes [where s = "drive_with FDC_TIMING_REAL 40 17 (replicate 1000 0)" and x = "0x14" and hk = line_hooks
      and ns = "[4000000, 4000000]"]
  by (simp add: Let_def drive_with_def fdc_set_disk_def fdc_init_def) (simp add: line_hooks_def)

text \<open>
  C16: A Step-out command with the head on track 0 never ends: the controller stays busy and raises
  no INTRQ however long one waits, with or without a disk.
\<close>

theorem step_out_on_track_0_hangs:
  assumes "c_track (fdc s) = 0" and "delayed_drq (fdc s) = 0" and "delayed_int (fdc s) = 0" and "x AND 0xE0 = 0x60"
  shows "let t = ticks hk ns (fdc_write hk 0 x s) in
     fd_status (fdc t) AND FDC_ST_BUSY \<noteq> 0 \<and> fuser t = clr_intrq hk (fuser s)"
proof -
  define u where "u = upd_fdc (\<lambda>f. f\<lparr>stream := False, stream_crc := False\<rparr>) (raise_sig (clr_intrq hk) s)"
  have nd: "x AND 0xF0 \<noteq> 0xD0" using assms(4) command_groups_all [of x] by (auto simp: command_groups_def)
  then have w: "fdc_write hk 0 x s = cmd_step_out hk x u"
    using assms(4) by (simp add: fdc_write_def fdc_command_def Let_def u_def)
  have "resting (cmd_step_out hk x u)" "delayed_int (fdc (cmd_step_out hk x u)) \<le> 0"
    "fd_status (fdc (cmd_step_out hk x u)) AND FDC_ST_BUSY \<noteq> 0" "fuser (cmd_step_out hk x u) = clr_intrq hk (fuser s)"
    using assms by (simp_all add: cmd_step_out_def Let_def type1_def end_op_def u_def upd_fdc_def raise_sig_def resting_def)
  then show ?thesis using resting_ticks [of "cmd_step_out hk x u" hk ns] by (simp add: Let_def w)
qed

theorem step_out_on_track_0_hangs_witness:
  "let t = ticks line_hooks [1000000000] (fdc_write line_hooks 0 0x60 (drive_with FDC_TIMING_REAL 40 17 (replicate 1000 0))) in
     fd_status (fdc t) AND FDC_ST_BUSY \<noteq> 0 \<and> fuser t = (False, False)"
  using step_out_on_track_0_hangs [where s = "drive_with FDC_TIMING_REAL 40 17 (replicate 1000 0)" and x = "0x60" and hk = line_hooks
      and ns = "[1000000000]"]
  by (simp add: Let_def drive_with_def fdc_set_disk_def fdc_init_def) (simp add: line_hooks_def)

section \<open>Reading a sector in time\<close>

lemma read_command_latent:
  assumes "fst (fdc_find_sector hk (fd_sector (fdc s)) s) = Some (b, off)" "\<not> web (fdc s)" "off + 256 \<le> length (bufs s b)"
    "timing_mode (fdc s) = FDC_TIMING_REAL" "delayed_int (fdc s) = 0" "dd_status (fdc s) = - 1"
  obtains k where "latent b off (Suc k) (fdc_write hk 0 0x80 s)" "alike s (fdc_write hk 0 0x80 s)"
    "nat (delayed_drq (fdc (fdc_write hk 0 0x80 s))) = Suc k"
proof -
  have d: "disk_data (fdc s) \<noteq> None" using assms(1) by (auto simp: fdc_find_sector_def Let_def split: option.splits)
  define u where "u = upd_fdc (\<lambda>f. f\<lparr>cur_offset := 0\<rparr>) (upd_fdc (\<lambda>f. f\<lparr>status_type1 := False\<rparr>)
    (upd_fdc (\<lambda>f. f\<lparr>stream := False, stream_crc := False\<rparr>) (raise_sig (clr_intrq hk) s)))"
  have same: "fst (fdc_find_sector hk i u) = fst (fdc_find_sector hk i s)" "bufs (snd (fdc_find_sector hk i u)) = bufs u" for i
    using assms(2) by (auto simp: u_def fdc_find_sector_def fdc_web_ensure_track_def Let_def split: option.split)
  define v where "v = load_sector hk (fd_sector (fdc u)) u"
  have v: "cur_sector_data (fdc v) = Some (b, off)" "bufs v = bufs s" "timing_mode (fdc v) = FDC_TIMING_REAL"
    "delayed_int (fdc v) = 0" "dd_status (fdc v) = - 1" "\<not> stream (fdc v)" "lost_data_count (fdc v) = lost_data_count (fdc s)"
    using assms same by (simp_all add: v_def u_def) (simp_all add: load_sector_def split_beta)
  define w where "w = upd_fdc (\<lambda>f. f\<lparr>cur_sector_len := 256, fd_status := FDC_ST_BUSY OR FDC_ST_NOT_READY,
    delayed_drq := fdc_rot_wait (fd_sector f) f, currentop := FDC_OP_READ_SECTOR\<rparr>) v"
  have "fdc_write hk 0 0x80 s = start_sector hk 0x80 60 FDC_OP_READ_SECTOR FDC_OP_READ_SECTORS
      (upd_fdc (\<lambda>f. f\<lparr>status_type1 := False\<rparr>) (upd_fdc (\<lambda>f. f\<lparr>stream := False, stream_crc := False\<rparr>) (raise_sig (clr_intrq hk) s)))"
    using d by (simp add: fdc_write_def fdc_command_def cmd_read_sector_def fdc_not_ready_def Let_def)
  also have "\<dots> = w"
    using v(1,3) by (simp add: start_sector_def Let_def w_def v_def u_def upd_fdc_def)
  finally have e: "fdc_write hk 0 0x80 s = w" .
  have p: "fdc_rot_wait x f \<ge> 2" for x f
    by (simp add: fdc_rot_wait_def Let_def word_less_def not_less)
  have "0 < nat (delayed_drq (fdc w))" using p [of "fd_sector (fdc v)" "fdc v"] by (simp add: w_def fdc_rot_wait_def)
  then obtain k where k: "nat (delayed_drq (fdc w)) = Suc k" using gr0_implies_Suc by blast
  show ?thesis
  proof (rule that)
    show "latent b off (Suc k) (fdc_write hk 0 0x80 s)"
      using v assms(3) k unfolding e by (simp add: latent_def Let_def w_def)
  qed (use v k in \<open>simp_all add: e alike_def w_def\<close>)
qed

text \<open>
  C20: With the mechanical timing, a program that writes Read Sector to an idle controller with a disk,
  waits for the sector and then reads the data register once in every byte time, at any cycle of it,
  receives the 256 bytes of the sector in order, loses none, and 33 cycles after the last byte time
  the command ends with INTRQ and status 0; the images are unchanged.
\<close>

theorem sector_read_in_time:
  assumes "fst (fdc_find_sector hk (fd_sector (fdc s)) s) = Some (b, off)" and "\<not> web (fdc s)"
    and "off + 256 \<le> length (bufs s b)" and "timing_mode (fdc s) = FDC_TIMING_REAL"
    and "delayed_int (fdc s) = 0" and "dd_status (fdc s) = - 1"
    and "length ks = 255" and "k < 31" and "list_all (\<lambda>k. k < 32) ks"
  shows "let s1 = fdc_write hk 0 0x80 s;
             (xs, t) = read_in_time hk 31 (k # ks) (cycles hk (nat (delayed_drq (fdc s1))) s1);
             u = cycles hk 33 t in
    xs = subarray off 256 (bufs s b) \<and> lost_data_count (fdc u) = lost_data_count (fdc s) \<and> bufs u = bufs s \<and>
    currentop (fdc u) = FDC_OP_NONE \<and> fd_status (fdc u) = 0 \<and> (\<exists>l. fuser u = set_intrq hk l)"
proof -
  define s1 where "s1 = fdc_write hk 0 0x80 s"
  obtain n where n: "latent b off (Suc n) s1" "alike s s1" "nat (delayed_drq (fdc s1)) = Suc n"
    using read_command_latent [OF assms(1-6)] unfolding s1_def by blast
  define s2 where "s2 = cycles hk (Suc n) s1"
  have s2: "streaming b off 0 s2" "stream_due (fdc s2) = int 31" "alike s1 s2"
    using latent_cycles [OF n(1), of hk] by (simp_all add: s2_def del: cycles_simps)
  define t where "t = snd (read_in_time hk 31 (k # ks) s2)"
  have r: "fst (read_in_time hk 31 (k # ks) s2) = map (\<lambda>n. bufs s2 b ! (off + n)) [0..<256]"
    "crc_passing t" "alike s2 t" "stream_due (fdc t) = 32"
    using read_rest [OF s2(1,2) assms(9,8)] assms(7) by (simp_all add: t_def)
  have a: "alike s s2" "alike s (cycles hk 33 t)"
    using alike_trans n(2) s2(3) r(3) crc_to_interrupt(1) [OF r(2,4)] by blast+
  have "map (\<lambda>n. xs ! (off + n)) [0..<256] = subarray off 256 xs" if "off + 256 \<le> length xs" for xs :: "u8 list"
    using that by (intro nth_equalityI) (simp_all add: subarray_def)
  then have "fst (read_in_time hk 31 (k # ks) s2) = subarray off 256 (bufs s b)"
    unfolding r(1) using assms(3) a(1) by (simp add: alike_def)
  then show ?thesis
    using crc_to_interrupt [OF r(2,4), of hk] a(2)
    by (simp add: Let_def split_beta s1_def [symmetric] n(3) s2_def [symmetric] t_def [symmetric] alike_def del: cycles_simps read_in_time.simps)
qed

theorem sector_read_in_time_witness:
  "let s1 = fdc_write line_hooks 0 0x80 (upd_fdc (\<lambda>f. f\<lparr>fd_sector := 1\<rparr>) (drive_with FDC_TIMING_REAL 1 1 (replicate 256 7)));
       (xs, t) = read_in_time line_hooks 31 (5 # replicate 255 9) (cycles line_hooks (nat (delayed_drq (fdc s1))) s1);
       u = cycles line_hooks 33 t in
    xs = subarray 0 256 (replicate 256 7) \<and> lost_data_count (fdc u) = 0 \<and> bufs u 0 = replicate 256 7 \<and>
    currentop (fdc u) = FDC_OP_NONE \<and> fd_status (fdc u) = 0 \<and> (\<exists>l. fuser u = set_intrq line_hooks l)"
proof -
  define s :: "(bool \<times> bool) fdc_state" where "s = upd_fdc (\<lambda>f. f\<lparr>fd_sector := 1\<rparr>) (drive_with FDC_TIMING_REAL 1 1 (replicate 256 7))"
  have s: "fst (fdc_find_sector line_hooks (fd_sector (fdc s)) s) = Some (0, 0)" "\<not> web (fdc s)" "bufs s 0 = replicate 256 7"
    "timing_mode (fdc s) = FDC_TIMING_REAL" "delayed_int (fdc s) = 0" "dd_status (fdc s) = - 1" "lost_data_count (fdc s) = 0"
    by (simp_all add: s_def drive_with_def fdc_set_disk_def fdc_init_def fdc_find_sector_def mfm_offset_def
        fdc_web_ensure_track_def Let_def)
  show ?thesis
    using sector_read_in_time [OF s(1,2) _ s(4-6), of "replicate 255 9" 5] s(3,7)
    by (simp add: s_def [symmetric] Let_def split_beta list_all_length del: cycles_simps read_in_time.simps)
qed

end
