(* ===== verification/Card_Properties.thy ===== *)
theory Card_Properties
  imports Card_Rules Fdc_Stream
begin

unbundle bit_operations_syntax

text \<open>
  Properties of the disk interfaces: what holds of the selected drive and of the interrupt after any
  program, the drive that a late write is charged to, and the saved state of the Jasmin.
\<close>

section \<open>Programs\<close>

text \<open>
  What a machine does to a card: bus accesses, cycles, and the media operations of the front end.
\<close>

datatype card_op =
  Card_read u16 | Card_write u16 u8 | Card_cycles nat | Card_disk u8 "nat option" u32 u8 u8
  | Card_protect u8 bool | Card_bad u8 u8 u8 u8

fun md_apply :: "('e, 'h) card_env \<Rightarrow> card_op \<Rightarrow> ('e, 'h) microdisc \<Rightarrow> ('e, 'h) microdisc" where
  "md_apply env (Card_read a) m = snd (microdisc_read env a m)"
| "md_apply env (Card_write a v) m = microdisc_write env a v m"
| "md_apply env (Card_cycles n) m = microdisc_tick env n m"
| "md_apply env (Card_disk d img n tr spt) m = set_disk d img n tr spt m"
| "md_apply env (Card_protect d on) m = set_write_protect d on m"
| "md_apply env (Card_bad d sd tr sc) m = snd (add_bad_sector d sd tr sc m)"

fun ja_apply :: "('e, 'h) card_env \<Rightarrow> card_op \<Rightarrow> ('e, 'h) jasmin \<Rightarrow> ('e, 'h) jasmin" where
  "ja_apply env (Card_read a) m = snd (jasmin_read env a m)"
| "ja_apply env (Card_write a v) m = jasmin_write env a v m"
| "ja_apply env (Card_cycles n) m = jasmin_tick env n m"
| "ja_apply env (Card_disk d img n tr spt) m = set_disk d img n tr spt m"
| "ja_apply env (Card_protect d on) m = set_write_protect d on m"
| "ja_apply env (Card_bad d sd tr sc) m = snd (add_bad_sector d sd tr sc m)"

definition run_md :: "('e, 'h) card_env \<Rightarrow> card_op list \<Rightarrow> ('e, 'h) microdisc \<Rightarrow> ('e, 'h) microdisc" where
  "run_md env = fold (md_apply env)"

definition run_ja :: "('e, 'h) card_env \<Rightarrow> card_op list \<Rightarrow> ('e, 'h) jasmin \<Rightarrow> ('e, 'h) jasmin" where
  "run_ja env = fold (ja_apply env)"

section \<open>The invariant of the Microdisc\<close>

lemma ctrl_irq_law: "md_law (ctrl_irq (disk_env net) v l)"
  by (simp add: md_law_def ctrl_irq_def call_emu_def disk_env_def Let_def disk_irq.raised disk_irq.dropped)

lemma ctrl_write_ok:
  assumes "bay_ok m"
  shows "bay_ok (microdisc_ctrl_write (disk_env net) v m)"
    "md_law (fuser (wd (microdisc_ctrl_write (disk_env net) v m)))"
proof -
  define m2 where "m2 = upd_wd (upd_fdc (\<lambda>f. f\<lparr>fd_side := (if v AND CTRL_SIDE \<noteq> 0 then 1 else 0)\<rparr>))
    ((upd_wd (raise_sig (ctrl_irq (disk_env net) v)) m)
       \<lparr>md_intena := (v AND CTRL_INTENA \<noteq> 0), md_romdis := (v AND CTRL_ROMDIS = 0),
        side_sel := (if v AND CTRL_SIDE \<noteq> 0 then 1 else 0), md_diskrom := (v AND CTRL_EPROM = 0)\<rparr>)"
  have m2: "bay_ok m2" "fuser (wd m2) = ctrl_irq (disk_env net) v (fuser (wd m))"
    using assms by (simp_all add: m2_def bay_ok_def upd_wd_def upd_fdc_def raise_sig_def Let_def)
  have e: "microdisc_ctrl_write (disk_env net) v m =
      (if drop_bit 5 v AND 3 \<noteq> drive m2 then select_drive (drop_bit 5 v AND 3) m2 else m2)"
    by (simp only: microdisc_ctrl_write_def Let_def m2_def)
  show "bay_ok (microdisc_ctrl_write (disk_env net) v m)" "md_law (fuser (wd (microdisc_ctrl_write (disk_env net) v m)))"
    unfolding e using m2 select_drive_ok [OF m2(1)] by (simp_all add: ctrl_irq_law)
qed

lemma md_step:
  assumes "bay_ok m \<and> md_law (fuser (wd m))"
  shows "bay_ok (md_apply (disk_env net) op m) \<and> md_law (fuser (wd (md_apply (disk_env net) op m)))"
proof (cases op)
  case (Card_read a)
  then show ?thesis using assms md.after_read [of m] by (simp add: microdisc_read_def split_beta)
next
  case (Card_write a v)
  then show ?thesis using assms md.after_write [of m] ctrl_write_ok [of m] by (simp add: microdisc_write_def)
next
  case (Card_cycles n)
  then show ?thesis using assms md.after_tick [of m] by (simp add: microdisc_tick_def)
qed (use assms in \<open>simp_all add: set_disk_ok protect_ok bad_sector_ok\<close>)

lemma md_run: "bay_ok m \<and> md_law (fuser (wd m)) \<Longrightarrow>
    bay_ok (run_md (disk_env net) ops m) \<and> md_law (fuser (wd (run_md (disk_env net) ops m)))"
  by (induction ops arbitrary: m) (simp_all add: run_md_def md_step)

section \<open>The invariant of the Jasmin\<close>

lemma ja_write_ok:
  assumes "bay_ok j" "ja_law (fuser (wd j))"
  shows "bay_ok (jasmin_write (disk_env net) a v j) \<and> ja_law (fuser (wd (jasmin_write (disk_env net) a v j)))"
proof -
  have r: "bay_ok (jasmin_wd_reset (disk_env net) j)" "ja_law (fuser (wd (jasmin_wd_reset (disk_env net) j)))"
    using assms by (simp_all add: jasmin_wd_reset_def bay_ok_def upd_wd_def upd_fdc_def raise_sig_def fdc_reset_def Let_def
        ja_law_def call_emu_def disk_env_def disk_irq.dropped)
  have s: "bay_ok (upd_wd (upd_fdc (\<lambda>f. f\<lparr>fd_side := x\<rparr>)) (j\<lparr>side_sel := x\<rparr>))" for x
    using assms(1) by (simp add: bay_ok_def upd_wd_def upd_fdc_def Let_def)
  have l: "bay_ok (j\<lparr>ja_olay := x\<rparr>)" "bay_ok (j\<lparr>ja_romdis := x\<rparr>)" for x
    using assms(1) by (simp_all add: bay_ok_def Let_def)
  show ?thesis
    using assms ja.after_write [OF assms] select_drive_ok [OF assms(1)] r s l
    by (simp add: jasmin_write_def Let_def) (simp add: upd_wd_def)
qed

lemma ja_step:
  assumes "bay_ok j \<and> ja_law (fuser (wd j))"
  shows "bay_ok (ja_apply (disk_env net) op j) \<and> ja_law (fuser (wd (ja_apply (disk_env net) op j)))"
proof (cases op)
  case (Card_read a)
  then show ?thesis using assms ja.after_read [of j] by (simp add: jasmin_read_def split_beta)
next
  case (Card_write a v)
  then show ?thesis using assms ja_write_ok [of j] by simp
next
  case (Card_cycles n)
  then show ?thesis using assms ja.after_tick [of j] by (simp add: jasmin_tick_def)
qed (use assms in \<open>simp_all add: set_disk_ok protect_ok bad_sector_ok\<close>)

lemma ja_run: "bay_ok j \<and> ja_law (fuser (wd j)) \<Longrightarrow>
    bay_ok (run_ja (disk_env net) ops j) \<and> ja_law (fuser (wd (run_ja (disk_env net) ops j)))"
  by (induction ops arbitrary: j) (simp_all add: run_ja_def ja_step)

text \<open>A card whose tables are empty: the structure before \<open>jasmin_init\<close>.\<close>

definition jasmin_blank :: "(nat \<Rightarrow> u8 list) \<Rightarrow> 'e \<Rightarrow> 'h \<Rightarrow> ('e, 'h) jasmin" where
  "jasmin_blank images e h =
     \<lparr>wd = \<lparr>fdc = fdc_init, bufs = images, oob = False,
            fuser = \<lparr>line_ctrl = 0, line_intrq = 0, line_drq = 0, line_emu = e, line_host = h\<rparr>\<rparr>,
      drive = 0, side_sel = 0, disk_table = replicate 4 None, size_table = replicate 4 0,
      track_table = replicate 4 0, sector_table = replicate 4 0, disk_dirty = replicate 4 False,
      bad_map = replicate 4 [], write_protect = replicate 4 False, ja_romdis = False, ja_olay = False,
      ja_rom = replicate 2048 0, rom_valid = False, autoboot_done = False\<rparr>"

text \<open>
  C19: After any program of bus accesses, cycles, disk changes, write-protect changes and injected
  bad sectors, from the initialised card of a machine whose disk interrupt is off, the controller
  works on the image, geometry, damage, protection and side that the card has selected, and the disk
  interrupt of the CPU is INTRQ gated by INTENA on the Microdisc, DRQ on the Jasmin.
\<close>
theorem cards_follow_selection:
  fixes b :: "'d board" and h :: 'h
  assumes "\<not> disk_line b"
  shows "let m = run_md (disk_env net) ops (microdisc_init images b h);
             j = run_ja (disk_env net) ops (jasmin_init (jasmin_blank images b h)) in
    bay_ok m \<and> bay_ok j \<and>
    disk_line (line_emu (fuser (wd m))) = (line_intrq (fuser (wd m)) = 0 \<and> line_ctrl (fuser (wd m)) AND CTRL_INTENA \<noteq> 0) \<and>
    disk_line (line_emu (fuser (wd j))) = (line_drq (fuser (wd j)) = 0)"
proof -
  have "bay_ok (microdisc_init images b h)" "md_law (fuser (wd (microdisc_init images b h)))"
    using assms by (simp_all add: microdisc_init_def bay_ok_def fdc_init_def md_law_def Let_def)
  moreover have "bay_ok (jasmin_init (jasmin_blank images b h))" "ja_law (fuser (wd (jasmin_init (jasmin_blank images b h))))"
    using assms by (simp_all add: jasmin_init_def jasmin_blank_def bay_ok_def fdc_init_def ja_law_def upd_wd_def upd_fdc_def
        raise_sig_def Let_def)
  ultimately show ?thesis
    using md_run [of "microdisc_init images b h" net ops] ja_run [of "jasmin_init (jasmin_blank images b h)" net ops]
    by (simp add: Let_def md_law_def ja_law_def)
qed

text \<open>A machine on which the witnesses run: no board activity, no disk server.\<close>

definition quiet_board :: "unit board" where
  "quiet_board = undefined\<lparr>irq := 0\<rparr>"

definition no_server :: "string \<Rightarrow> nat \<Rightarrow> unit \<Rightarrow> u8 list option \<times> unit" where
  "no_server url off u = (None, u)"

theorem cards_follow_selection_witness:
  "let m = run_md (disk_env no_server) [Card_disk 1 (Some 0) 256 1 1, Card_write 0x314 0x21, Card_write 0x310 0x08,
             Card_cycles 6000] (microdisc_init (\<lambda>_. replicate 256 7) quiet_board ());
       j = run_ja (disk_env no_server) [Card_disk 1 (Some 0) 256 1 1, Card_write 0x314 0x21, Card_write 0x310 0x08,
             Card_cycles 6000] (jasmin_init (jasmin_blank (\<lambda>_. replicate 256 7) quiet_board ())) in
    bay_ok m \<and> bay_ok j \<and>
    disk_line (line_emu (fuser (wd m))) = (line_intrq (fuser (wd m)) = 0 \<and> line_ctrl (fuser (wd m)) AND CTRL_INTENA \<noteq> 0) \<and>
    disk_line (line_emu (fuser (wd j))) = (line_drq (fuser (wd j)) = 0)"
  by (rule cards_follow_selection) (simp add: disk_line_def quiet_board_def)

section \<open>The drive a write is charged to\<close>

lemma drive_bits: "d < 4 \<Longrightarrow> drop_bit 5 (push_bit 5 d) AND 3 = d" "d < 4 \<Longrightarrow> d AND 3 = d" for d :: u8
proof -
  assume "d < 4"
  then have "unat d = 0 \<or> unat d = 1 \<or> unat d = 2 \<or> unat d = 3" by (auto simp: word_less_nat_alt)
  then have "d = 0 \<or> d = 1 \<or> d = 2 \<or> d = 3" by (simp add: word_unat_eq_iff)
  then show "drop_bit 5 (push_bit 5 d) AND 3 = d" "d AND 3 = d" by auto
qed

lemma select_drive_sel:
  assumes "d < 4"
  shows "disk_dirty (select_drive d b) = disk_dirty b" "drive (select_drive d b) = d"
    "bufs (wd (select_drive d b)) = bufs (wd b)" "disk_modified (fdc (wd (select_drive d b))) = disk_modified (fdc (wd b))"
proof -
  have "\<not> 4 \<le> d" using assms by simp
  then show "disk_dirty (select_drive d b) = disk_dirty b" "drive (select_drive d b) = d"
    "bufs (wd (select_drive d b)) = bufs (wd b)" "disk_modified (fdc (wd (select_drive d b))) = disk_modified (fdc (wd b))"
    by (simp_all add: select_drive_def bay_mount_def Let_def upd_wd_def upd_fdc_def fdc_set_disk_def
        fdc_set_bad_map_def fdc_set_write_protect_def)
qed

lemma write_sector_register: "fdc_write hk 2 x s = upd_fdc (\<lambda>f. f\<lparr>fd_sector := x\<rparr>) s"
  by (simp add: fdc_write_def)

lemma ctrl_drive_sel:
  assumes "d < 4" "d \<noteq> drive m"
  shows "disk_dirty (microdisc_ctrl_write env (push_bit 5 d) m) = disk_dirty m"
    "drive (microdisc_ctrl_write env (push_bit 5 d) m) = d"
    "bufs (wd (microdisc_ctrl_write env (push_bit 5 d) m)) = bufs (wd m)"
    "disk_modified (fdc (wd (microdisc_ctrl_write env (push_bit 5 d) m))) = disk_modified (fdc (wd m))"
  unfolding microdisc_ctrl_write_def Let_def
  using assms by (simp_all add: drive_bits select_drive_sel) (simp_all add: upd_wd_def raise_sig_def upd_fdc_def)

text \<open>
  The first byte of a sector write with the mechanical timing is stored by a cycle, and the drive is
  marked dirty by the next access to the controller only.  A program that selects another drive in
  between has the other drive marked: the image that changed is not written back.
\<close>
theorem late_write_charged_to_new_drive:
  fixes m :: "('e, 'h) microdisc"
  assumes "flowing (wd m)" and "\<not> stream_crc (fdc (wd m))" and "fdc_op_is_write (currentop (fdc (wd m)))"
    and "fd_status (fdc (wd m)) AND FDC_ST_DRQ = 0" and "cur_offset (fdc (wd m)) = 0"
    and "cur_sector_len (fdc (wd m)) = 256" and "cur_sector_data (fdc (wd m)) = Some (b, off)"
    and "off < length (bufs (wd m) b)" and "stream_due (fdc (wd m)) = int n"
    and "d < 4" and "d \<noteq> drive m"
  shows "let m1 = run_md env [Card_cycles n, Card_write 0x314 (push_bit 5 d), Card_write 0x312 x] m in
    bufs (wd m1) = (bufs (wd m))(b := (bufs (wd m) b)[off := fd_data (fdc (wd m))]) \<and>
    disk_dirty m1 = (disk_dirty m)[unat d := True]"
proof -
  define s where "s = fdc_stream_step (md_hooks env) (turned n (wd m))"
  have s: "bufs s = (bufs (wd m))(b := (bufs (wd m) b)[off := fd_data (fdc (wd m))])" "disk_modified (fdc s)"
    "stream_due (fdc s) = 32"
    using first_byte_stored [of "turned n (wd m)" b off "md_hooks env"] assms by (simp_all add: s_def)
  have "microdisc_tick env n m = m\<lparr>wd := s\<rparr>"
    using tick_steps [OF assms(1), of n "md_hooks env"] s(3) assms(9) by (simp add: microdisc_tick_def upd_wd_def s_def)
  moreover define c where "c = microdisc_ctrl_write env (push_bit 5 d) (m\<lparr>wd := s\<rparr>)"
  have c: "disk_dirty c = disk_dirty m" "drive c = d" "bufs (wd c) = bufs s" "disk_modified (fdc (wd c))"
    using ctrl_drive_sel [of d "m\<lparr>wd := s\<rparr>" env] assms(10,11) s(2) by (simp_all add: c_def)
  moreover have "microdisc_write env 0x312 x c = upd_wd (upd_fdc (\<lambda>f. f\<lparr>disk_modified := False\<rparr>))
      ((upd_wd (upd_fdc (\<lambda>f. f\<lparr>fd_sector := x\<rparr>)) c)\<lparr>disk_dirty := (disk_dirty c)[unat d := True]\<rparr>)"
    using c drive_bits(2) [OF assms(10)]
    by (simp add: microdisc_write_def wd_write_def Let_def upd_wd_def write_sector_register)
  ultimately have "run_md env [Card_cycles n, Card_write 0x314 (push_bit 5 d), Card_write 0x312 x] m =
      upd_wd (upd_fdc (\<lambda>f. f\<lparr>disk_modified := False\<rparr>))
        ((upd_wd (upd_fdc (\<lambda>f. f\<lparr>fd_sector := x\<rparr>)) c)\<lparr>disk_dirty := (disk_dirty c)[unat d := True]\<rparr>)"
    by (simp add: run_md_def) (simp add: microdisc_write_def c_def)
  then show ?thesis using c s(1) by (simp add: Let_def upd_wd_def upd_fdc_def)
qed

text \<open>A Microdisc that waits for the first byte of a write to drive 0, which is in the data register.\<close>

definition writing_card :: "(unit board, unit) microdisc" where
  "writing_card = upd_wd (upd_fdc (\<lambda>f. f\<lparr>currentop := FDC_OP_WRITE_SECTOR, stream := True, stream_due := 5,
       cur_sector_data := Some (0, 0), cur_sector_len := 256, fd_data := 0xAA\<rparr>))
     (set_disk 0 (Some 0) 256 1 1 (microdisc_init (\<lambda>_. replicate 256 7) quiet_board ()))"

lemma writing_card_state:
  "fdc (wd writing_card) = (fdc_set_disk (Some 0) 256 fdc_init)\<lparr>timing_mode := FDC_TIMING_REAL, tracks := 1, sectors_per_track := 1,
     currentop := FDC_OP_WRITE_SECTOR, stream := True, stream_due := 5, cur_sector_data := Some (0, 0), cur_sector_len := 256,
     fd_data := 0xAA\<rparr>"
  "bufs (wd writing_card) = (\<lambda>_. replicate 256 7)" "drive writing_card = 0" "disk_dirty writing_card = replicate 4 False"
  by (simp_all add: writing_card_def set_disk_def bay_mount_def microdisc_init_def upd_wd_def upd_fdc_def fdc_set_disk_def
      fdc_set_bad_map_def fdc_init_def Let_def)

theorem late_write_charged_to_new_drive_witness:
  "let m1 = run_md (disk_env no_server) [Card_cycles 5, Card_write 0x314 (push_bit 5 1), Card_write 0x312 1] writing_card in
    bufs (wd m1) = (\<lambda>_. replicate 256 7)(0 := (replicate 256 7)[0 := 0xAA]) \<and>
    disk_dirty m1 = (replicate 4 False)[1 := True]"
proof -
  have "flowing (wd writing_card)" "\<not> stream_crc (fdc (wd writing_card))" "fdc_op_is_write (currentop (fdc (wd writing_card)))"
    "fd_status (fdc (wd writing_card)) AND FDC_ST_DRQ = 0" "cur_offset (fdc (wd writing_card)) = 0"
    "cur_sector_len (fdc (wd writing_card)) = 256" "cur_sector_data (fdc (wd writing_card)) = Some (0, 0)"
    "0 < length (bufs (wd writing_card) 0)" "stream_due (fdc (wd writing_card)) = int 5"
    "(1 :: u8) < 4" "1 \<noteq> drive writing_card"
    by (simp_all add: writing_card_state flowing_def fdc_streamed_def fdc_op_is_write_def fdc_set_disk_def fdc_init_def)
  note late_write_charged_to_new_drive [OF this, of "disk_env no_server" 1]
  then show ?thesis by (simp add: writing_card_state Let_def)
qed

section \<open>Saved states\<close>

text \<open>
  C21: The saved section of a Jasmin, read into any card of the same machine, gives back the card that
  was saved, registers, latches and bad sectors included, with the sector pointer of the controller where
  its registers say.  For a transfer under way that is where it was: whatever program of register accesses
  and cycles started it from an idle controller, as long as it did not write the sector register or turn the
  disk behind the controller's back, the card is exactly the saved one.
\<close>
theorem jasmin_save_load:
  assumes "savable j" and "same_machine j k"
  shows "jasmin_load env (jasmin_save j) (length (jasmin_save j)) k =
      upd_wd (upd_fdc (\<lambda>f. f\<lparr>cur_sector_data := transfer_pointer f\<rparr>)) j \<and>
    (\<forall>s hk ps. currentop (fdc s) = FDC_OP_NONE \<longrightarrow> list_all leaves_sector ps \<longrightarrow>
       fdc (wd j) = fdc (fold (fdc_apply hk) ps s) \<longrightarrow> transfer_sector (fdc (wd j)) \<noteq> None \<longrightarrow>
       jasmin_load env (jasmin_save j) (length (jasmin_save j)) k = j)"
proof -
  have "upd_wd (upd_fdc (\<lambda>f. f\<lparr>cur_sector_data := transfer_pointer f\<rparr>)) j = j"
    if "currentop (fdc s) = FDC_OP_NONE" "list_all leaves_sector ps" "fdc (wd j) = fdc (fold (fdc_apply hk) ps s)"
      "transfer_sector (fdc (wd j)) \<noteq> None" for s hk ps
  proof -
    have "named (fdc (wd j))" using run_named [OF named_idle [OF that(1)] that(2), of hk] that(3) by simp
    then have "(fdc (wd j))\<lparr>cur_sector_data := transfer_pointer (fdc (wd j))\<rparr> = fdc (wd j)"
      using that(4) by (auto simp: named_def transfer_pointer_def)
    then show ?thesis by (simp add: upd_wd_def upd_fdc_def)
  qed
  then show ?thesis unfolding load_save [OF assms] by blast
qed

text \<open>A card in the middle of a sector, and the same machine just started.\<close>

definition fresh_card :: "(unit board, unit) jasmin" where
  "fresh_card = set_disk 0 (Some 0) 256 1 1 (jasmin_init (jasmin_blank (\<lambda>_. replicate 256 7) quiet_board ()))"

lemma fresh_card_state:
  "wd fresh_card = \<lparr>fdc = (fdc_set_disk (Some 0) 256 fdc_init)\<lparr>timing_mode := FDC_TIMING_REAL, tracks := 1, sectors_per_track := 1\<rparr>,
     bufs = (\<lambda>_. replicate 256 7), oob = False,
     fuser = \<lparr>line_ctrl = 0, line_intrq = 0x80, line_drq = 0x80, line_emu = quiet_board, line_host = ()\<rparr>\<rparr>"
  "drive fresh_card = 0" "side_sel fresh_card = 0" "disk_table fresh_card = (replicate 4 None)[0 := Some 0]"
  "size_table fresh_card = (replicate 4 0)[0 := 256]" "track_table fresh_card = (replicate 4 0)[0 := 1]"
  "sector_table fresh_card = (replicate 4 0)[0 := 1]"
  "disk_dirty fresh_card = replicate 4 False" "write_protect fresh_card = replicate 4 False"
  by (simp_all add: fresh_card_def set_disk_def bay_mount_def jasmin_init_def jasmin_blank_def upd_wd_def upd_fdc_def
      raise_sig_def fdc_set_disk_def fdc_set_bad_map_def fdc_init_def Let_def)

text \<open>The card with damaged sectors, just told to read sector 1.\<close>

definition scratched_fdc :: "(unit board, unit) card_lines fdc_state" where
  "scratched_fdc = upd_fdc (\<lambda>f. f\<lparr>fd_sector := 1, bad := [(0, 3, 4)]\<rparr>) (wd fresh_card)"

definition reading_card :: "(unit board, unit) jasmin" where
  "reading_card = upd_wd (\<lambda>_. fold (fdc_apply (ja_hooks (disk_env no_server))) [Fo_write 0 0x80, Fo_cycles 5] scratched_fdc)
     (fresh_card\<lparr>bad_map := [[(0, 3, 4)], [], [(1, 2, 3), (0, 0, 1)], []], ja_olay := True\<rparr>)"

lemma reading_started:
  "fdc_ticktock (ja_hooks (disk_env no_server)) 5 (fdc_write (ja_hooks (disk_env no_server)) 0 0x80 scratched_fdc) =
     upd_fdc (\<lambda>f. f\<lparr>fd_status := 0x81, currentop := FDC_OP_READ_SECTOR, cur_sector_data := Some (0, 0), cur_sector_len := 256,
       delayed_drq := 24995, rot_pos := 5\<rparr>) scratched_fdc"
  by (simp add: scratched_fdc_def fresh_card_state upd_fdc_def fdc_write_def fdc_command_def Let_def raise_sig_def
      cmd_read_sector_def fdc_not_ready_def start_sector_def load_no_web fdc_set_disk_def fdc_init_def image_sector_def mfm_offset_def ja_hooks_def
      jasmin_fdc_clr_intrq_def fdc_rot_wait_def fdc_ticktock_def tick_int_def tick_drq_def tick_lost_def fdc_op_transfers_data_def)

lemma reading_card_state:
  "wd reading_card = upd_fdc (\<lambda>f. f\<lparr>fd_status := 0x81, currentop := FDC_OP_READ_SECTOR, cur_sector_data := Some (0, 0),
     cur_sector_len := 256, delayed_drq := 24995, rot_pos := 5\<rparr>) scratched_fdc"
  by (simp add: reading_card_def upd_wd_def reading_started)

lemma reading_card_parts:
  "drive reading_card = 0" "side_sel reading_card = 0" "disk_table reading_card = (replicate 4 None)[0 := Some 0]"
  "size_table reading_card = (replicate 4 0)[0 := 256]" "track_table reading_card = (replicate 4 0)[0 := 1]"
  "sector_table reading_card = (replicate 4 0)[0 := 1]" "disk_dirty reading_card = replicate 4 False"
  "write_protect reading_card = replicate 4 False" "bad_map reading_card = [[(0, 3, 4)], [], [(1, 2, 3), (0, 0, 1)], []]"
  "ja_rom reading_card = ja_rom fresh_card" "rom_valid reading_card = rom_valid fresh_card"
  by (simp_all add: reading_card_def upd_wd_def fresh_card_state)

theorem jasmin_save_load_witness:
  "jasmin_load (disk_env no_server) (jasmin_save reading_card) (length (jasmin_save reading_card)) fresh_card = reading_card"
proof -
  have "savable reading_card"
    by (simp add: savable_def reading_card_state reading_card_parts bay_ok_def fresh_card_state Let_def saved_fdc_ok_def i32_def
        scratched_fdc_def upd_fdc_def fdc_set_disk_def fdc_init_def)
  moreover have "same_machine reading_card fresh_card"
    by (simp add: same_machine_def reading_card_state reading_card_parts scratched_fdc_def upd_fdc_def fresh_card_state)
  ultimately have w: "\<forall>s hk ps. currentop (fdc s) = FDC_OP_NONE \<longrightarrow> list_all leaves_sector ps \<longrightarrow>
       fdc (wd reading_card) = fdc (fold (fdc_apply hk) ps s) \<longrightarrow> transfer_sector (fdc (wd reading_card)) \<noteq> None \<longrightarrow>
       jasmin_load (disk_env no_server) (jasmin_save reading_card) (length (jasmin_save reading_card)) fresh_card = reading_card"
    by (rule jasmin_save_load [THEN conjunct2])
  have p: "currentop (fdc scratched_fdc) = FDC_OP_NONE"
    by (simp add: scratched_fdc_def fresh_card_state fdc_set_disk_def fdc_init_def)
  have t: "transfer_sector (fdc (wd reading_card)) \<noteq> None"
    by (simp add: reading_card_state transfer_sector_def)
  have r: "fdc (wd reading_card) = fdc (fold (fdc_apply (ja_hooks (disk_env no_server))) [Fo_write 0 0x80, Fo_cycles 5] scratched_fdc)"
    by (simp add: reading_card_def upd_wd_def)
  have l: "list_all leaves_sector [Fo_write 0 0x80, Fo_cycles 5]" by simp
  show ?thesis by (rule w [THEN spec, THEN spec, THEN spec, THEN mp, OF p, THEN mp, OF l, THEN mp, OF r, THEN mp, OF t])
qed

end
