(* ===== verification/Ula_Ng_Rules.thy ===== *)
theory Ula_Ng_Rules
  imports Ula_Ng
begin

unbundle bit_operations_syntax

text \<open>
  Rules of the ULA-NG: the well-formedness of its state, which every operation keeps and under which
  no array index is out of range, and the termination of the line drawing of the VDU.
\<close>

section \<open>Well-formed states\<close>

definition sprite_ok :: "ng_sprite \<Rightarrow> bool" where
  "sprite_ok s \<longleftrightarrow> length (sp_pattern s) = 256 \<and> list_all (\<lambda>p. p < 8) (sp_pattern s)"

text \<open>The sizes of the arrays and the ranges of the indices.\<close>

definition ng_sized :: "ula_ng_t \<Rightarrow> bool" where
  "ng_sized u \<longleftrightarrow>
     length (ng_regs u) = 32 \<and> length (ng_pal u) = 16 \<and> pal_idx u < 16 \<and>
     length (ng_copper_list u) = 64 \<and> copper_count u \<le> 64 \<and>
     length (ng_attr u) = 8192 \<and> attr_wp u < 8192 \<and>
     length (ng_sprites u) = 16 \<and> list_all sprite_ok (ng_sprites u) \<and> spr_sel u < 16 \<and> spr_wp u < 256 \<and>
     length (vdu_params u) = 4 \<and> vdu_need u \<le> 4 \<and> length (ng_vram u) = 17920"

text \<open>While the VDU waits for parameters, it has not had them all.\<close>

definition vdu_waiting :: "ula_ng_t \<Rightarrow> bool" where
  "vdu_waiting u \<longleftrightarrow> (vdu_need u \<noteq> 0 \<longrightarrow> vdu_got u < vdu_need u)"

text \<open>What no operation but the unlock sequence and the VDU changes.\<close>

definition ng_static :: "ula_ng_t \<Rightarrow> bool \<times> u8 \<times> u8" where
  "ng_static u = (ng_unlocked u, vdu_need u, vdu_got u)"

text \<open>The activation caches are the ones the registers call for.\<close>

definition ng_cached :: "ula_ng_t \<Rightarrow> bool" where
  "ng_cached u \<longleftrightarrow> ng_caches u = u"

text \<open>A locked chip has its mode register and its sprite enable at zero, so unlocking activates nothing.\<close>

definition ng_asleep :: "ula_ng_t \<Rightarrow> bool" where
  "ng_asleep u \<longleftrightarrow> (\<not> ng_unlocked u \<longrightarrow> ng_regs u ! 1 = 0 \<and> \<not> spr_enable u)"

definition ng_ok :: "ula_ng_t \<Rightarrow> bool" where
  "ng_ok u \<longleftrightarrow> ng_sized u \<and> ng_cached u \<and> vdu_waiting u \<and> ng_asleep u"

lemma caches_sized [simp]: "ng_sized (ng_caches u) = ng_sized u"
  by (simp add: ng_sized_def ng_caches_def Let_def)

lemma caches_cached [simp]: "ng_cached (ng_caches u)"
  by (simp add: ng_cached_def ng_caches_def Let_def)

lemma mask_15: "a AND 15 < (16 :: u8)" "a AND 7 < (8 :: u8)"
  by (rule and_less, simp)+

lemma word_mod_less16: "a mod 256 < (256 :: u16)" "a mod 8192 < (8192 :: u16)"
  by (simp_all add: word_less_nat_alt unat_mod)

lemma list_all_update: "list_all P xs \<Longrightarrow> P x \<Longrightarrow> list_all P (xs[i := x])"
  by (auto simp: list_all_iff dest!: set_update_subset_insert [THEN subsetD])

lemma sprite_nth: "ng_sized u \<Longrightarrow> i < 16 \<Longrightarrow> sprite_ok (ng_sprites u ! unat i)" for i :: u8
  by (simp add: ng_sized_def list_all_length word_less_nat_alt)

lemma upd_sprite_sized:
  assumes "ng_sized u" "i < 16" "\<And>s. sprite_ok s \<Longrightarrow> sprite_ok (g s)"
  shows "ng_sized (upd_sprite g i u)"
  using assms sprite_nth [OF assms(1,2)] by (simp add: upd_sprite_def ng_sized_def list_all_update)

lemma pattern_sized: "ng_sized u \<Longrightarrow> ng_sized (push_pattern v u)"
proof -
  assume u: "ng_sized u"
  then have "ng_sized (upd_sprite (\<lambda>s. s\<lparr>sp_pattern := (sp_pattern s)[unat (spr_wp u) := v AND 7]\<rparr>) (spr_sel u) u)"
    by (intro upd_sprite_sized) (simp_all add: ng_sized_def sprite_ok_def list_all_update mask_15)
  then show ?thesis by (simp add: push_pattern_def ng_sized_def word_mod_less16)
qed

lemma copper_sized: "ng_sized u \<Longrightarrow> ng_sized (push_copper v u)"
proof -
  assume u: "ng_sized u"
  have "copper_count u + 1 \<le> 64" if "unat (copper_count u) < 64"
    using that by (simp add: word_le_nat_alt unat_word_ariths)
  then show ?thesis using u by (auto simp: push_copper_def ng_sized_def Let_def)
qed

lemma effect_sized: "ng_sized u \<Longrightarrow> ng_sized (ng_effect a v u)"
proof -
  assume u: "ng_sized u"
  have sp: "ng_sized (upd_sprite (\<lambda>s. s\<lparr>sp_x := x\<rparr>) (spr_sel u) u)" "ng_sized (upd_sprite (\<lambda>s. s\<lparr>sp_y := x\<rparr>) (spr_sel u) u)"
    "ng_sized (upd_sprite (\<lambda>s. s\<lparr>sp_enable := e\<rparr>) (spr_sel u) u)" for x e
    using u by (intro upd_sprite_sized; simp add: ng_sized_def sprite_ok_def)+
  show ?thesis
    unfolding ng_effect_def Let_def
    using u sp copper_sized [OF u] pattern_sized [OF u]
    by (simp add: mask_15 word_mod_less16) (simp add: ng_sized_def mask_15 word_mod_less16)
qed

lemma store_sized [simp]: "ng_sized (store_reg a v u) = ng_sized u"
  by (simp add: store_reg_def ng_sized_def)

lemma reg_write_ok: "ng_sized u \<Longrightarrow> ng_sized (reg_write a v u)" "ng_cached (reg_write a v u)"
  by (simp_all add: reg_write_def effect_sized)

lemma plot_sized [simp]: "ng_sized (vram_plot x y c u) = ng_sized u"
  by (simp add: vram_plot_def ng_sized_def Let_def)

lemma fill_sized: "ng_sized u \<Longrightarrow> ng_sized (fill_cell col row a u)"
proof -
  have "length (fold (\<lambda>sc xs. xs[sc * 40 + unat col := a]) ss xs) = length xs" for ss and xs :: "u8 list"
    by (induction ss arbitrary: xs) simp_all
  then show "ng_sized u \<Longrightarrow> ?thesis" by (simp add: fill_cell_def ng_sized_def)
qed

section \<open>Drawing a line\<close>

text \<open>
  After \<open>kx\<close> steps in \<open>x\<close> and \<open>ky\<close> steps in \<open>y\<close> the error term is \<open>(ky + 1) dx - (kx + 1) D\<close>; neither count
  passes its target, and every round makes a step.
\<close>

lemma bresenham_x: "0 \<le> kx \<Longrightarrow> kx \<le> dx \<Longrightarrow> 0 \<le> ky \<Longrightarrow> ky \<le> D \<Longrightarrow> (kx, ky) \<noteq> (dx, D) \<Longrightarrow>
    2 * ((ky + 1) * dx - (kx + 1) * D) \<ge> - D \<Longrightarrow> kx < dx" for kx ky dx D :: int
proof (rule ccontr)
  assume a: "0 \<le> kx" "kx \<le> dx" "0 \<le> ky" "ky \<le> D" "(kx, ky) \<noteq> (dx, D)" "2 * ((ky + 1) * dx - (kx + 1) * D) \<ge> - D" "\<not> kx < dx"
  then have k: "kx = dx" "ky + 1 \<le> D" by auto
  then have "(ky + 1) * dx \<le> D * dx" using a by (intro mult_right_mono) simp_all
  then show False using a(6) k a(3) by (simp add: algebra_simps)
qed

lemma bresenham_y: "0 \<le> kx \<Longrightarrow> kx \<le> dx \<Longrightarrow> 0 \<le> ky \<Longrightarrow> ky \<le> D \<Longrightarrow> (kx, ky) \<noteq> (dx, D) \<Longrightarrow>
    2 * ((ky + 1) * dx - (kx + 1) * D) \<le> dx \<Longrightarrow> ky < D" for kx ky dx D :: int
proof (rule ccontr)
  assume a: "0 \<le> kx" "kx \<le> dx" "0 \<le> ky" "ky \<le> D" "(kx, ky) \<noteq> (dx, D)" "2 * ((ky + 1) * dx - (kx + 1) * D) \<le> dx" "\<not> ky < D"
  then have k: "ky = D" "kx + 1 \<le> dx" by auto
  then have "(kx + 1) * D \<le> dx * D" using a by (intro mult_right_mono) simp_all
  then show False using a(6) k a(1) by (simp add: algebra_simps)
qed

lemma line_loop_ends:
  assumes "0 \<le> kx" "kx \<le> dx" "0 \<le> ky" "ky \<le> D" "sx = 1 \<or> sx = - 1" "sy = 1 \<or> sy = - 1"
    "x1 = x0 + sx * (dx - kx)" "y1 = y0 + sy * (D - ky)" "err = (ky + 1) * dx - (kx + 1) * D"
    "ng_sized u"
  shows "\<exists>v. line_loop x1 y1 dx (- D) sx sy c x0 y0 err u = Some v \<and> ng_sized v \<and> ng_static v = ng_static u"
  using assms
proof (induction "nat (dx - kx + (D - ky))" arbitrary: kx ky x0 y0 err u rule: less_induct)
  case less
  define u1 where "u1 = vram_plot x0 y0 c u"
  have u1: "ng_sized u1" "ng_static u1 = ng_static u" using less.prems by (simp_all add: u1_def) (simp add: vram_plot_def ng_static_def Let_def)
  have z: "x0 = x1 \<and> y0 = y1 \<longleftrightarrow> (kx, ky) = (dx, D)" using less.prems(5-8) by auto
  show ?case
  proof (cases "(kx, ky) = (dx, D)")
    case True
    then show ?thesis using z u1 by (subst line_loop.simps) (simp add: u1_def)
  next
    case False
    note b = bresenham_x [OF less.prems(1-4) False] bresenham_y [OF less.prems(1-4) False]
    define kx' where "kx' = (if 2 * err \<ge> - D then kx + 1 else kx)"
    define ky' where "ky' = (if 2 * err \<le> dx then ky + 1 else ky)"
    define x2 where "x2 = (if 2 * err \<ge> - D then x0 + sx else x0)"
    define y2 where "y2 = (if 2 * err \<le> dx then y0 + sy else y0)"
    define err2 where "err2 = err + (if 2 * err \<ge> - D then - D else 0) + (if 2 * err \<le> dx then dx else 0)"
    have step: "line_loop x1 y1 dx (- D) sx sy c x0 y0 err u = line_loop x1 y1 dx (- D) sx sy c x2 y2 err2 u1"
      using z False by (subst line_loop.simps) (auto simp: u1_def [symmetric] x2_def y2_def err2_def Let_def)
    have moves: "2 * err \<ge> - D \<or> 2 * err \<le> dx" using less.prems(1-4) by linarith
    have "kx' \<le> dx" "ky' \<le> D" using b less.prems(2,4,9) by (auto simp: kx'_def ky'_def)
    moreover have "0 \<le> kx'" "0 \<le> ky'" using less.prems(1,3) by (simp_all add: kx'_def ky'_def)
    moreover have "nat (dx - kx' + (D - ky')) < nat (dx - kx + (D - ky))"
      using moves b less.prems(1-4,9) by (auto simp: kx'_def ky'_def)
    moreover have "x1 = x2 + sx * (dx - kx')" "y1 = y2 + sy * (D - ky')"
      using less.prems(7,8) by (auto simp: x2_def y2_def kx'_def ky'_def algebra_simps)
    moreover have "err2 = (ky' + 1) * dx - (kx' + 1) * D"
      using less.prems(9) by (auto simp: err2_def kx'_def ky'_def algebra_simps)
    ultimately show ?thesis
      unfolding step using less.hyps [of kx' ky' x2 y2 err2 u1] less.prems(5,6) u1 by simp
  qed
qed

lemma vram_line_ends:
  assumes "ng_sized u"
  shows "\<exists>v. vram_line x0 y0 x1 y1 c u = Some v \<and> ng_sized v \<and> ng_static v = ng_static u"
  unfolding vram_line_def Let_def
  using assms by (intro line_loop_ends [where kx = 0 and ky = 0]) (auto simp: iabs_def)

section \<open>The VDU\<close>

lemma static_basic [simp]:
  "ng_static (upd_sprite g i u) = ng_static u" "ng_static (reg_write a v u) = ng_static u"
  "ng_static (vram_plot x y c u) = ng_static u" "ng_static (fill_cell col row w u) = ng_static u"
  by (simp_all add: ng_static_def upd_sprite_def reg_write_def ng_caches_def ng_effect_def store_reg_def push_copper_def
      push_pattern_def vram_plot_def fill_cell_def Let_def)

lemma vdu_exec_ends:
  assumes "ng_sized u"
  shows "\<exists>v. vdu_exec u = Some v \<and> ng_sized v \<and> ng_static v = ng_static u"
proof -
  define s where "s = (upd_sprite (\<lambda>s. s\<lparr>sp_x := par 1 u, sp_y := par 2 u, sp_enable := (par 3 u AND 1 \<noteq> 0)\<rparr>)
                 (par 0 u AND 15) u)\<lparr>spr_enable := True\<rparr>"
  have s: "ng_sized s" "ng_static s = ng_static u"
  proof -
    have "ng_sized (upd_sprite (\<lambda>s. s\<lparr>sp_x := par 1 u, sp_y := par 2 u, sp_enable := (par 3 u AND 1 \<noteq> 0)\<rparr>) (par 0 u AND 15) u)"
      using assms by (intro upd_sprite_sized) (simp_all add: mask_15 sprite_ok_def)
    then show "ng_sized s" by (simp add: s_def ng_sized_def)
  qed (simp add: s_def ng_static_def upd_sprite_def)
  have f: "ng_sized (fill_cell a b c (reg_write m w u))" for a b c m w
    using assms by (simp add: fill_sized reg_write_ok)
  have p: "ng_sized (u\<lparr>vram_active := x\<rparr>)" "ng_sized (u\<lparr>vdu_gcol := y\<rparr>)"
    "ng_sized (u\<lparr>ng_vram := replicate NG_VRAM_SIZE 0, vram_active := x\<rparr>)"
    "ng_sized (u\<lparr>spr_sel := par 0 u AND 15, spr_wp := 0, vdu_upload := 256\<rparr>)" for x y
    using assms by (simp_all add: ng_sized_def mask_15)
  have q: "ng_static (u\<lparr>vram_active := x\<rparr>) = ng_static u" "ng_static (u\<lparr>vdu_gcol := y\<rparr>) = ng_static u"
    "ng_static (u\<lparr>ng_vram := z, vram_active := x\<rparr>) = ng_static u"
    "ng_static (u\<lparr>spr_sel := y, spr_wp := 0, vdu_upload := 256\<rparr>) = ng_static u" for x y z
    by (simp_all add: ng_static_def)
  show ?thesis
    unfolding vdu_exec_def Let_def s_def [symmetric]
    using assms s f p q vram_line_ends [OF assms] by (simp add: reg_write_ok)
qed

lemma need_small: "vdu_need_for c \<le> 4"
  by (simp add: vdu_need_for_def)

lemma vdu_feed_ends:
  assumes "ng_sized u" "vdu_waiting u"
  shows "\<exists>v. vdu_feed b u = Some v \<and> ng_sized v \<and> vdu_waiting v \<and> ng_unlocked v = ng_unlocked u"
proof -
  define up where "up = (push_pattern b u)\<lparr>vdu_upload := vdu_upload u - 1\<rparr>"
  have up: "ng_sized up" "vdu_waiting up" "ng_unlocked up = ng_unlocked u"
  proof -
    show "ng_sized up" using pattern_sized [OF assms(1), of b] by (simp add: up_def ng_sized_def)
  qed (use assms(2) in \<open>simp_all add: up_def vdu_waiting_def push_pattern_def upd_sprite_def\<close>)
  define u1 where "u1 = u\<lparr>vdu_cmd := b, vdu_got := 0, vdu_need := vdu_need_for b\<rparr>"
  have u1: "ng_sized u1" "vdu_waiting u1" "ng_unlocked u1 = ng_unlocked u"
    using assms(1) need_small [of b] by (simp_all add: u1_def ng_sized_def vdu_waiting_def word_gt_0)
  have e1: "\<exists>v. vdu_exec u1 = Some v \<and> ng_sized v \<and> vdu_waiting v \<and> ng_unlocked v = ng_unlocked u" if "vdu_need u1 = 0"
    using vdu_exec_ends [OF u1(1)] u1(3) that by (auto simp: ng_static_def vdu_waiting_def)
  define u2 where "u2 = (let w = (if vdu_got u < 4 then u\<lparr>vdu_params := (vdu_params u)[unat (vdu_got u) := b]\<rparr> else u)
    in w\<lparr>vdu_got := vdu_got w + 1\<rparr>)"
  have u2: "ng_sized u2" "ng_unlocked u2 = ng_unlocked u" using assms(1) by (simp_all add: u2_def ng_sized_def Let_def)
  have e2: "\<exists>v. map_option (\<lambda>v. v\<lparr>vdu_need := 0\<rparr>) (vdu_exec u2) = Some v \<and> ng_sized v \<and> vdu_waiting v \<and> ng_unlocked v = ng_unlocked u"
    using vdu_exec_ends [OF u2(1)] u2(2) by (auto simp: ng_static_def vdu_waiting_def ng_sized_def)
  show ?thesis
    using up u1 u2 e1 e2 unfolding vdu_feed_def Let_def
    by (simp add: up_def [symmetric] u1_def [symmetric] u2_def [symmetric, unfolded Let_def]) (auto simp: vdu_waiting_def)
qed

section \<open>Every access\<close>

lemma ng_cached_iff:
  "ng_cached u \<longleftrightarrow>
     (let mode = ng_regs u ! 1; act = (ng_unlocked u \<and> mode AND 1 \<noteq> 0); vidmode = mode AND 0x0C
      in ng_active u = act \<and> attr_active u = (ng_unlocked u \<and> mode AND 2 \<noteq> 0) \<and>
         spr_active u = (ng_unlocked u \<and> spr_enable u) \<and> chunky_active u = (act \<and> vidmode = 0x04) \<and>
         text80_active u = (act \<and> vidmode = 0x08))"
  by (cases u) (auto simp: ng_cached_def ng_caches_def Let_def reg_index_def)

lemma locked_ok: "ng_ok u \<Longrightarrow> \<not> ng_unlocked u \<Longrightarrow> ng_ok (locked_write a v u)"
  by (simp add: ng_ok_def locked_write_def ng_sized_def vdu_waiting_def ng_asleep_def ng_cached_iff)

lemma reg_write_frame:
  "vdu_waiting (reg_write a v u) = vdu_waiting u" "ng_unlocked (reg_write a v u) = ng_unlocked u"
  using static_basic(2) [of a v u] by (simp_all add: ng_static_def vdu_waiting_def)

lemma ng_write_ok:
  assumes "ng_ok u"
  shows "\<exists>v. ula_ng_write a b u = Some (ng_unlocked u, v) \<and> ng_ok v \<and>
    ng_unlocked v = (ng_unlocked u \<or> unlock_step u = 1 \<and> (a, b) = (NG_REG_LOCK, NG_UNLOCK_G))"
proof (cases "ng_unlocked u")
  case False
  then show ?thesis
    using locked_ok [OF assms False, of a b] by (simp add: ula_ng_write_def) (auto simp: locked_write_def)
next
  case True
  have s: "ng_sized (store_reg a b u)" "vdu_waiting (store_reg a b u)" "ng_unlocked (store_reg a b u)"
    using assms True by (simp_all add: ng_ok_def vdu_waiting_def) (simp_all add: store_reg_def)
  obtain v where v: "vdu_feed b (store_reg a b u) = Some v" "ng_sized v" "vdu_waiting v" "ng_unlocked v"
    using vdu_feed_ends [OF s(1,2)] s(3) by blast
  have "vdu_waiting (ng_caches v)" "ng_unlocked (ng_caches v)"
    using v by (simp_all add: vdu_waiting_def ng_caches_def Let_def)
  then show ?thesis
    using True v assms
    by (cases "a = NG_REG_VDU") (simp_all add: ula_ng_write_def ng_ok_def reg_write_ok reg_write_frame ng_asleep_def)
qed

lemma ng_read_ok: "ng_ok u \<Longrightarrow> ng_ok (snd (ula_ng_read a u))"
  by (simp add: ula_ng_read_def)
    (simp add: ng_ok_def ng_sized_def ng_cached_iff vdu_waiting_def ng_asleep_def)

lemma ng_pal_ok: "ng_ok u \<Longrightarrow> length p = 16 \<Longrightarrow> ng_ok (u\<lparr>ng_pal := p\<rparr>)"
  "ng_ok u \<Longrightarrow> ng_ok (u\<lparr>raster_pending := b\<rparr>)" "ng_ok u \<Longrightarrow> ng_ok (u\<lparr>spr_collision := b\<rparr>)"
  by (simp_all add: ng_ok_def ng_sized_def ng_cached_iff vdu_waiting_def ng_asleep_def)

lemma copper_apply_ok: "ng_ok u \<Longrightarrow> ng_ok (copper_apply l e u)"
proof -
  assume "ng_ok u"
  moreover from this have "length (ng_pal u) = 16" by (simp add: ng_ok_def ng_sized_def)
  ultimately show ?thesis by (simp add: copper_apply_def ng_pal_ok)
qed

lemma fold_keeps: "(\<And>x z. P z \<Longrightarrow> P (f x z)) \<Longrightarrow> P z \<Longrightarrow> P (fold f xs z)"
  by (induction xs arbitrary: z) simp_all

lemma ng_scanline_ok: "ng_ok u \<Longrightarrow> ng_ok (ula_ng_scanline l u)"
  unfolding ula_ng_scanline_def Let_def
  by (simp add: ng_pal_ok fold_keeps [where P = ng_ok] copper_apply_ok)

lemma ng_reset_ok: "length (ng_copper_list u) = 64 \<Longrightarrow> ng_ok (ula_ng_reset u)"
proof -
  assume c: "length (ng_copper_list u) = 64"
  have z: "list_all (\<lambda>p. p < 8) (replicate NG_SPR_PIXELS (0 :: u8))" by (simp add: list_all_iff)
  have "list_all sprite_ok (replicate 16 \<lparr>sp_x = 0, sp_y = 0, sp_enable = False, sp_pattern = replicate NG_SPR_PIXELS 0\<rparr>)"
    using z by (simp add: list_all_iff sprite_ok_def)
  then have "ng_sized (ula_ng_reset u)"
    using c by (simp add: ng_sized_def ula_ng_reset_def oric_palette_def)
  then show ?thesis
    by (simp add: ng_ok_def) (simp add: ula_ng_reset_def ng_cached_iff vdu_waiting_def ng_asleep_def)
qed

section \<open>Programs\<close>

text \<open>What the rest of the machine does to the chip: window accesses, and one tick per scanline.\<close>

datatype ng_event = NgWrite u16 u8 | NgRead u16 | NgLine int

fun ng_apply :: "ng_event \<Rightarrow> ula_ng_t \<Rightarrow> ula_ng_t option" where
  "ng_apply (NgWrite a v) u = map_option snd (ula_ng_write a v u)"
| "ng_apply (NgRead a) u = Some (snd (ula_ng_read a u))"
| "ng_apply (NgLine l) u = Some (ula_ng_scanline l u)"

fun ng_run :: "ng_event list \<Rightarrow> ula_ng_t \<Rightarrow> ula_ng_t option" where
  "ng_run [] u = Some u"
| "ng_run (e # es) u = Option.bind (ng_apply e u) (ng_run es)"

lemma ng_apply_ok: "ng_ok u \<Longrightarrow> \<exists>v. ng_apply e u = Some v \<and> ng_ok v"
  by (cases e) (use ng_write_ok in \<open>fastforce simp: ng_read_ok ng_scanline_ok\<close>)+

lemma ng_run_ok: "ng_ok u \<Longrightarrow> \<exists>v. ng_run es u = Some v \<and> ng_ok v"
proof (induction es arbitrary: u)
  case (Cons e es)
  then show ?case using ng_apply_ok [of u e] by fastforce
qed simp

section \<open>The unlock sequence\<close>

text \<open>Writes one after the other, with the \<open>consumed\<close> results.\<close>

fun ng_writes :: "(u16 \<times> u8) list \<Rightarrow> ula_ng_t \<Rightarrow> (bool list \<times> ula_ng_t) option" where
  "ng_writes [] u = Some ([], u)"
| "ng_writes ((a, v) # ws) u =
     Option.bind (ula_ng_write a v u) (\<lambda>(c, u1). map_option (\<lambda>(cs, u2). (c # cs, u2)) (ng_writes ws u1))"

text \<open>The specification: somewhere the letter \<open>N\<close> is written to the lock register and \<open>G\<close> right after.\<close>

fun opens :: "(u16 \<times> u8) list \<Rightarrow> bool" where
  "opens (w # w' # ws) \<longleftrightarrow> w = (NG_REG_LOCK, NG_UNLOCK_N) \<and> w' = (NG_REG_LOCK, NG_UNLOCK_G) \<or> opens (w' # ws)"
| "opens _ \<longleftrightarrow> False"

lemma opens_snoc: "opens (ws @ [w, w']) \<longleftrightarrow>
    opens (ws @ [w]) \<or> w = (NG_REG_LOCK, NG_UNLOCK_N) \<and> w' = (NG_REG_LOCK, NG_UNLOCK_G)"
  by (induction ws rule: opens.induct) auto

text \<open>The step counter tells whether the last write was the \<open>N\<close>.\<close>

definition ng_watch :: "(u16 \<times> u8) list \<Rightarrow> ula_ng_t \<Rightarrow> bool" where
  "ng_watch ws u \<longleftrightarrow> ng_unlocked u = opens ws \<and>
     (\<not> opens ws \<longrightarrow> (unlock_step u = 1) = (ws \<noteq> [] \<and> last ws = (NG_REG_LOCK, NG_UNLOCK_N)))"

lemma ng_watch_snoc:
  assumes "ng_watch ws u" "ula_ng_write a v u = Some (c, u')" "ng_ok u"
  shows "c = opens ws \<and> ng_watch (ws @ [(a, v)]) u'"
proof -
  have w: "c = ng_unlocked u" "ng_unlocked u' = (ng_unlocked u \<or> unlock_step u = 1 \<and> (a, v) = (NG_REG_LOCK, NG_UNLOCK_G))"
    using ng_write_ok [OF assms(3), of a v] assms(2) by auto
  have o: "opens (ws @ [(a, v)]) = (opens ws \<or> ws \<noteq> [] \<and> last ws = (NG_REG_LOCK, NG_UNLOCK_N) \<and> (a, v) = (NG_REG_LOCK, NG_UNLOCK_G))"
    by (cases ws rule: rev_cases) (simp_all add: opens_snoc)
  have "(unlock_step u' = 1) = ((a, v) = (NG_REG_LOCK, NG_UNLOCK_N))" if "\<not> ng_unlocked u" "\<not> ng_unlocked u'"
    using that assms(2) by (auto simp: ula_ng_write_def locked_write_def split: if_splits)
  then show ?thesis using assms(1) w o by (auto simp: ng_watch_def)
qed

lemma opens_mono: "opens ws \<Longrightarrow> opens (ws @ vs)"
  by (induction ws rule: opens.induct) auto

lemma ng_writes_watch:
  assumes "ng_ok u" "ng_watch ps u"
  shows "\<exists>u'. ng_writes ws u = Some (map (\<lambda>i. opens (ps @ take i ws)) [0..<length ws], u') \<and> ng_ok u' \<and> ng_watch (ps @ ws) u'"
  using assms
proof (induction ws arbitrary: ps u)
  case (Cons w ws)
  obtain a v where w: "w = (a, v)" by (cases w)
  obtain u1 where u1: "ula_ng_write a v u = Some (ng_unlocked u, u1)" "ng_ok u1"
    using ng_write_ok [OF Cons.prems(1)] by blast
  have p: "ng_unlocked u = opens ps" "ng_watch (ps @ [w]) u1"
    using ng_watch_snoc [OF Cons.prems(2) u1(1) Cons.prems(1)] by (simp_all add: w)
  have up: "map (\<lambda>i. opens (ps @ take i (w # ws))) [0..<length (w # ws)] =
      opens ps # map (\<lambda>i. opens ((ps @ [w]) @ take i ws)) [0..<length ws]"
    by (simp add: upt_rec [of 0] map_Suc_upt [symmetric] del: upt_Suc)
  show ?case using Cons.IH [OF u1(2) p(2)] u1(1) p(1) unfolding up by (auto simp: w)
qed simp

end
