(* ===== verification/Ula_Ng_Sprites.thy ===== *)
theory Ula_Ng_Sprites
  imports Ula_Ng_Rules
begin

text \<open>
  The sprite compositor of the ULA-NG against a picture of the scanline: what each pixel shows, which
  sprites collide, and that no byte outside the scanline is touched.
\<close>

section \<open>The picture\<close>

text \<open>The colour index sprite \<open>s\<close> has at column \<open>x\<close> of line \<open>y\<close>; zero is transparent.\<close>

definition sprite_index :: "ula_ng_t \<Rightarrow> int \<Rightarrow> nat \<Rightarrow> nat \<Rightarrow> u8" where
  "sprite_index u y x s =
     (let p = ng_sprites u ! s; row = y - uint (sp_y p); col = int x - uint (sp_x p)
      in if sp_enable p \<and> 0 \<le> row \<and> row < 16 \<and> 0 \<le> col \<and> col < 16 then sp_pattern p ! (nat row * 16 + nat col) else 0)"

definition opaque :: "ula_ng_t \<Rightarrow> int \<Rightarrow> nat \<Rightarrow> nat \<Rightarrow> bool" where
  "opaque u y x s \<longleftrightarrow> sprite_index u y x s \<noteq> 0"

definition sprite_colour :: "ula_ng_t \<Rightarrow> int \<Rightarrow> nat \<Rightarrow> nat \<Rightarrow> u8 \<times> u8 \<times> u8" where
  "sprite_colour u y x s = ng_pal u ! unat (sprite_index u y x s)"

text \<open>The sprite seen at a pixel is the lowest numbered one that is opaque there.\<close>

definition shown :: "ula_ng_t \<Rightarrow> int \<Rightarrow> nat \<Rightarrow> (u8 \<times> u8 \<times> u8) option" where
  "shown u y x = map_option (sprite_colour u y x) (find (opaque u y x) [0..<16])"

definition collide :: "ula_ng_t \<Rightarrow> nat \<Rightarrow> int \<Rightarrow> bool" where
  "collide u w y \<longleftrightarrow> list_ex (\<lambda>x. 2 \<le> length (filter (opaque u y x) [0..<16])) [0..<w]"

definition pixel :: "nat \<Rightarrow> nat \<Rightarrow> u8 list \<Rightarrow> nat \<Rightarrow> u8 \<times> u8 \<times> u8" where
  "pixel w y fb x = (let o3 = (y * w + x) * 3 in (fb ! o3, fb ! (o3 + 1), fb ! (o3 + 2)))"

section \<open>The scan and its picture\<close>

text \<open>\<open>c\<close> holds the colours drawn so far and \<open>h\<close> the collision flag.\<close>

definition pictures :: "nat \<Rightarrow> nat \<Rightarrow> u8 list \<Rightarrow> (nat \<Rightarrow> (u8 \<times> u8 \<times> u8) option) \<times> bool \<Rightarrow> ng_scan \<Rightarrow> bool" where
  "pictures w y fb ch z \<longleftrightarrow>
     length (sc_fb z) = length fb \<and> length (sc_occ z) = w \<and> \<not> sc_oob z \<and> sc_hit z = snd ch \<and>
     (\<forall>x < w. sc_occ z ! x = (fst ch x \<noteq> None)) \<and>
     (\<forall>x < w. pixel w y (sc_fb z) x = (case fst ch x of None \<Rightarrow> pixel w y fb x | Some k \<Rightarrow> k)) \<and>
     (\<forall>i. i < y * w * 3 \<or> (y + 1) * w * 3 \<le> i \<longrightarrow> sc_fb z ! i = fb ! i)"

definition paint :: "nat \<Rightarrow> u8 \<times> u8 \<times> u8 \<Rightarrow> (nat \<Rightarrow> (u8 \<times> u8 \<times> u8) option) \<times> bool \<Rightarrow> (nat \<Rightarrow> (u8 \<times> u8 \<times> u8) option) \<times> bool" where
  "paint x k ch = ((fst ch)(x \<mapsto> k), snd ch \<or> fst ch x \<noteq> None)"

lemma pixel_update:
  assumes "(y * w + x) * 3 + 2 < length f" "x < w" "x' < w"
  shows "pixel w y (f[(y * w + x) * 3 := r, (y * w + x) * 3 + 1 := g, (y * w + x) * 3 + 2 := b]) x' =
    (if x' = x then (r, g, b) else pixel w y f x')"
proof -
  have "(y * w + x') * 3 \<noteq> (y * w + x) * 3" if "x' \<noteq> x" using that by simp
  moreover have "(y * w + x') * 3 + i \<noteq> (y * w + x) * 3 + j" if "x' \<noteq> x" "i < 3" "j < 3" for i j
    using that by presburger
  ultimately show ?thesis using assms by (simp add: pixel_def Let_def nth_list_update)
qed

lemma put_pictures:
  assumes z: "pictures w y fb ch z" and x: "x < w" and len: "(y + 1) * w * 3 \<le> length fb"
  shows "pictures w y fb (paint x k ch)
    (put_pixel ((y * w + x) * 3) k (let z1 = (if sc_occ z ! x then z\<lparr>sc_hit := True\<rparr> else z)
      in z1\<lparr>sc_occ := (sc_occ z1)[x := True]\<rparr>))"
proof -
  obtain r g b where k: "k = (r, g, b)" by (cases k)
  define off where "off = (y * w + x) * 3"
  have o: "off + 2 < (y + 1) * w * 3" using x by (simp add: off_def algebra_simps)
  then have o': "off + 2 < length (sc_fb z)" using z len by (simp add: pictures_def)
  have p: "pixel w y ((sc_fb z)[off := r, off + 1 := g, off + 2 := b]) x' =
      (if x' = x then k else pixel w y (sc_fb z) x')" if "x' < w" for x'
    using pixel_update [of y w x "sc_fb z" x' r g b] x that o' by (simp add: off_def k)
  have q: "(sc_fb z)[off := r, off + 1 := g, off + 2 := b] ! i = sc_fb z ! i" if "i < y * w * 3 \<or> (y + 1) * w * 3 \<le> i" for i
    using that o by (auto simp: off_def nth_list_update_neq algebra_simps)
  define z' where "z' = put_pixel off k (let z1 = (if sc_occ z ! x then z\<lparr>sc_hit := True\<rparr> else z)
      in z1\<lparr>sc_occ := (sc_occ z1)[x := True]\<rparr>)"
  have f: "sc_fb z' = (sc_fb z)[off := r, off + 1 := g, off + 2 := b]" "sc_occ z' = (sc_occ z)[x := True]"
    "sc_hit z' = (sc_hit z \<or> sc_occ z ! x)" "sc_oob z' = (sc_oob z \<or> off + 2 \<ge> length (sc_fb z))"
    by (simp_all add: z'_def put_pixel_def k Let_def)
  have "pictures w y fb (paint x k ch) z'"
    unfolding pictures_def f
  proof (intro conjI allI impI)
    fix x' assume "x' < w"
    then show "(sc_occ z)[x := True] ! x' = (fst (paint x k ch) x' \<noteq> None)"
      "pixel w y ((sc_fb z)[off := r, off + 1 := g, off + 2 := b]) x' =
        (case fst (paint x k ch) x' of None \<Rightarrow> pixel w y fb x' | Some c \<Rightarrow> c)"
      using z x p by (simp_all add: pictures_def paint_def nth_list_update del: not_None_eq)
  next
    fix i assume "i < y * w * 3 \<or> (y + 1) * w * 3 \<le> i"
    then show "(sc_fb z)[off := r, off + 1 := g, off + 2 := b] ! i = fb ! i" using q z unfolding pictures_def by metis
  qed (use z x o' in \<open>simp_all add: pictures_def paint_def del: not_None_eq\<close>)
  then show ?thesis by (simp add: z'_def off_def)
qed

text \<open>One column of a sprite, on the picture.\<close>

definition paint_col :: "ula_ng_t \<Rightarrow> nat \<Rightarrow> int \<Rightarrow> nat \<Rightarrow> nat \<Rightarrow> (nat \<Rightarrow> (u8 \<times> u8 \<times> u8) option) \<times> bool \<Rightarrow> (nat \<Rightarrow> (u8 \<times> u8 \<times> u8) option) \<times> bool" where
  "paint_col u w y s col ch =
     (let x = unat (sp_x (ng_sprites u ! s)) + col in
      if x < w \<and> opaque u y x s then paint x (sprite_colour u y x s) ch else ch)"

lemma sprite_pixel_pictures:
  assumes z: "pictures w y fb ch z" and len: "(y + 1) * w * 3 \<le> length fb" and col: "col < 16"
    and row: "sp_enable (ng_sprites u ! s)" "0 \<le> int y - uint (sp_y (ng_sprites u ! s))" "int y - uint (sp_y (ng_sprites u ! s)) < 16"
  shows "pictures w y fb (paint_col u w (int y) s col ch)
    (sprite_pixel u (int w) (int y) (ng_sprites u ! s) (int y - uint (sp_y (ng_sprites u ! s))) col z)"
proof -
  define p where "p = ng_sprites u ! s"
  define x where "x = unat (sp_x p) + col"
  have ix: "uint (sp_x p) + int col = int x" by (simp add: x_def)
  have off: "nat ((int y * int w + int x) * 3) = (y * w + x) * 3"
    by (metis nat_int of_nat_add of_nat_mult of_nat_numeral)
  have idx: "sprite_index u (int y) x s = sp_pattern p ! (nat (int y - uint (sp_y p)) * 16 + col)"
    using row col by (simp add: sprite_index_def x_def p_def [symmetric] Let_def)
  show ?thesis
  proof (cases "x < w \<and> opaque u (int y) x s")
    case True
    then show ?thesis
      using put_pictures [OF z _ len, of x "sprite_colour u (int y) x s"]
      unfolding sprite_pixel_def paint_col_def Let_def p_def [symmetric] x_def [symmetric] ix off idx [symmetric]
      by (simp add: opaque_def sprite_colour_def del: distrib_right_numeral)
  next
    case False
    then show ?thesis
      using z
      unfolding sprite_pixel_def paint_col_def Let_def p_def [symmetric] x_def [symmetric] ix off idx [symmetric]
      by (auto simp: Let_def opaque_def)
  qed
qed

text \<open>A relation between two states is kept by folds that keep it step by step.\<close>

lemma fold_rel: "(\<And>x a b. x \<in> set xs \<Longrightarrow> R a b \<Longrightarrow> R (f x a) (g x b)) \<Longrightarrow> R a b \<Longrightarrow> R (fold f xs a) (fold g xs b)"
  by (induction xs arbitrary: a b) simp_all

definition paint_sprite :: "ula_ng_t \<Rightarrow> nat \<Rightarrow> int \<Rightarrow> nat \<Rightarrow> (nat \<Rightarrow> (u8 \<times> u8 \<times> u8) option) \<times> bool \<Rightarrow> (nat \<Rightarrow> (u8 \<times> u8 \<times> u8) option) \<times> bool" where
  "paint_sprite u w y s ch = fold (paint_col u w y s) [0..<16] ch"

lemma not_opaque_row:
  "\<not> sp_enable (ng_sprites u ! s) \<or> y - uint (sp_y (ng_sprites u ! s)) < 0 \<or> 16 \<le> y - uint (sp_y (ng_sprites u ! s)) \<Longrightarrow>
    \<not> opaque u y x s"
  by (auto simp: opaque_def sprite_index_def Let_def)

lemma fold_idle: "(\<And>x z. x \<in> set xs \<Longrightarrow> f x z = z) \<Longrightarrow> fold f xs z = z"
  by (induction xs arbitrary: z) simp_all

lemma sprite_row_pictures:
  assumes z: "pictures w y fb ch z" and len: "(y + 1) * w * 3 \<le> length fb"
  shows "pictures w y fb (paint_sprite u w (int y) s ch) (sprite_row u (int w) (int y) (ng_sprites u ! s) z)"
proof (cases "\<not> sp_enable (ng_sprites u ! s) \<or> int y - uint (sp_y (ng_sprites u ! s)) < 0 \<or> 16 \<le> int y - uint (sp_y (ng_sprites u ! s))")
  case True
  have "paint_sprite u w (int y) s ch = ch"
    unfolding paint_sprite_def by (rule fold_idle) (simp add: paint_col_def Let_def not_opaque_row [OF True])
  then show ?thesis using z True by (auto simp: sprite_row_def Let_def)
next
  case False
  then have "pictures w y fb (fold (paint_col u w (int y) s) [0..<16] ch)
      (fold (sprite_pixel u (int w) (int y) (ng_sprites u ! s) (int y - uint (sp_y (ng_sprites u ! s)))) [0..<16] z)"
    by (intro fold_rel [where R = "pictures w y fb"] sprite_pixel_pictures z len) simp_all
  then show ?thesis using False by (simp add: sprite_row_def Let_def paint_sprite_def)
qed

section \<open>What the picture shows\<close>

text \<open>A sprite drawn over a picture: its opaque pixels within the width.\<close>

lemma paint_cols:
  "n \<le> 16 \<Longrightarrow> fold (paint_col u w y s) [0..<n] (c, h) =
    (\<lambda>x. if x < w \<and> opaque u y x s \<and> x < unat (sp_x (ng_sprites u ! s)) + n then Some (sprite_colour u y x s) else c x,
     h \<or> (\<exists>x < w. opaque u y x s \<and> x < unat (sp_x (ng_sprites u ! s)) + n \<and> c x \<noteq> None))"
proof (induction n)
  case 0
  have "\<not> opaque u y x s" if "x < unat (sp_x (ng_sprites u ! s))" for x
  proof -
    have "int x < int (unat (sp_x (ng_sprites u ! s)))" using that by (simp only: of_nat_less_iff)
    then show ?thesis by (simp add: opaque_def sprite_index_def Let_def)
  qed
  then show ?case by (auto simp: fun_eq_iff)
next
  case (Suc n)
  define b where "b = unat (sp_x (ng_sprites u ! s))"
  define op where "op = opaque u y"
  define k where "k = sprite_colour u y"
  let ?c = "\<lambda>n x. if x < w \<and> op x s \<and> x < b + n then Some (k x s) else c x"
  let ?h = "\<lambda>n. h \<or> (\<exists>x < w. op x s \<and> x < b + n \<and> c x \<noteq> None)"
  have col: "paint_col u w y s n ch = (if b + n < w \<and> op (b + n) s
      then ((fst ch)(b + n \<mapsto> k (b + n) s), snd ch \<or> fst ch (b + n) \<noteq> None) else ch)" for ch
    by (simp add: paint_col_def paint_def Let_def b_def op_def k_def)
  have l: "(x < b + Suc n) = (x < b + n \<or> x = b + n)" for x by auto
  have c: "?c (Suc n) = (if b + n < w \<and> op (b + n) s then (?c n)(b + n \<mapsto> k (b + n) s) else ?c n)"
    by (auto simp: fun_eq_iff l simp del: add_Suc_right)
  have h: "?h (Suc n) = (if b + n < w \<and> op (b + n) s then ?h n \<or> ?c n (b + n) \<noteq> None else ?h n)"
    unfolding l by (simp del: not_None_eq) blast
  have "fold (paint_col u w y s) [0..<Suc n] (c, h) = paint_col u w y s n (?c n, ?h n)"
    using Suc unfolding op_def k_def b_def by simp
  also have "... = (?c (Suc n), ?h (Suc n))"
    unfolding c h col by simp
  finally show ?case unfolding op_def k_def b_def .
qed

lemma paint_sprite_eq:
  "paint_sprite u w y s (c, h) =
    (\<lambda>x. if x < w \<and> opaque u y x s then Some (sprite_colour u y x s) else c x,
     h \<or> (\<exists>x < w. opaque u y x s \<and> c x \<noteq> None))"
proof -
  have b: "x < unat (sp_x (ng_sprites u ! s)) + 16" if "opaque u y x s" for x
  proof -
    have "int x < int (unat (sp_x (ng_sprites u ! s)) + 16)"
      using that by (auto simp: opaque_def sprite_index_def Let_def split: if_splits)
    then show ?thesis by (simp only: of_nat_less_iff)
  qed
  have "(opaque u y x s \<and> x < unat (sp_x (ng_sprites u ! s)) + 16) = opaque u y x s"
    "(opaque u y x s \<and> x < unat (sp_x (ng_sprites u ! s)) + 16 \<and> P) = (opaque u y x s \<and> P)" for x P
    using b [of x] by blast+
  then show ?thesis unfolding paint_sprite_def by (simp add: paint_cols del: not_None_eq upt.simps)
qed

text \<open>Several sprites, the last of the list in front.\<close>

lemma paint_all:
  "fold (paint_sprite u w y) (rev ss) (\<lambda>x. None, h) =
    (\<lambda>x. if x < w then map_option (sprite_colour u y x) (find (opaque u y x) ss) else None,
     h \<or> (\<exists>x < w. 2 \<le> length (filter (opaque u y x) ss)))"
proof (induction ss)
  case (Cons s ss)
  have f: "(find (opaque u y x) ss \<noteq> None) = (1 \<le> length (filter (opaque u y x) ss))" for x
    by (induction ss) auto
  have "(2 \<le> length (filter (opaque u y x) (s # ss))) =
      (2 \<le> length (filter (opaque u y x) ss) \<or> opaque u y x s \<and> find (opaque u y x) ss \<noteq> None)" for x
    using f [of x] by auto
  then have "(h \<or> (\<exists>x < w. 2 \<le> length (filter (opaque u y x) ss))) \<or>
        (\<exists>x < w. opaque u y x s \<and> find (opaque u y x) ss \<noteq> None) \<longleftrightarrow>
      h \<or> (\<exists>x < w. 2 \<le> length (filter (opaque u y x) (s # ss)))"
    by blast
  then show ?case
    by (auto simp: Cons paint_sprite_eq fun_eq_iff simp del: filter.simps not_None_eq)
qed (simp add: fun_eq_iff)

lemma composite_picture:
  assumes active: "spr_active u" and w: "w \<le> 512" and y: "y < h" and len: "length fb = w * h * 3"
  shows "\<exists>z. ula_ng_composite_scanline fb (int w) (int h) (int y) u = (u\<lparr>spr_collision := sc_hit z\<rparr>, sc_fb z, sc_oob z) \<and>
    pictures w y fb (\<lambda>x. if x < w then shown u (int y) x else None, spr_collision u \<or> collide u w (int y)) z"
proof -
  define z0 where "z0 = \<lparr>sc_fb = fb, sc_occ = replicate w False, sc_hit = spr_collision u, sc_oob = False\<rparr>"
  have z0: "pictures w y fb (\<lambda>x. None, spr_collision u) z0" by (simp add: pictures_def z0_def)
  have l: "(y + 1) * w * 3 \<le> length fb"
    using y len mult_le_mono1 [of "y + 1" h "w * 3"] by (simp only: ac_simps)
  define z where "z = fold (\<lambda>s. sprite_row u (int w) (int y) (ng_sprites u ! s)) (rev [0..<16]) z0"
  have "pictures w y fb (fold (paint_sprite u w (int y)) (rev [0..<16]) (\<lambda>x. None, spr_collision u)) z"
    unfolding z_def by (intro fold_rel [where R = "pictures w y fb"] sprite_row_pictures z0 l)
  then have "pictures w y fb (\<lambda>x. if x < w then shown u (int y) x else None, spr_collision u \<or> collide u w (int y)) z"
    unfolding paint_all shown_def collide_def by (simp add: list_ex_iff Bex_def)
  moreover have "ula_ng_composite_scanline fb (int w) (int h) (int y) u = (u\<lparr>spr_collision := sc_hit z\<rparr>, sc_fb z, sc_oob z)"
    using active w y by (simp add: ula_ng_composite_scanline_def Let_def z_def z0_def)
  ultimately show ?thesis by blast
qed

end
