(* ===== verification/Ula_Ng_Properties.thy ===== *)
theory Ula_Ng_Properties
  imports Ula_Ng_Sprites
begin

unbundle bit_operations_syntax

text \<open>
  Properties of the ULA-NG: no program of accesses breaks its state or hangs the VDU, the unlock
  sequence, and the sprite compositor.
\<close>

text \<open>The chip in zeroed memory, for the witnesses.\<close>

definition ng_blank :: ula_ng_t where
  "ng_blank =
     \<lparr>ng_unlocked = False, unlock_step = 0, ng_regs = replicate 32 0, ng_pal = replicate 16 (0, 0, 0), pal_idx = 0,
      pal_r = 0, ng_active = False, scrstart = 0, scrollx = 0, scrolly = 0, raster_line = 0, raster_enable = False,
      raster_pending = False,
      ng_copper_list = replicate 64 \<lparr>cop_line = 0, cop_index = 0, cop_r = 0, cop_g = 0, cop_b = 0\<rparr>,
      copper_count = 0, copper_phase = 0, part_line = 0, part_index = 0, part_r = 0, ng_attr = replicate 8192 0,
      attr_wp = 0, attr_active = False,
      ng_sprites = replicate 16 \<lparr>sp_x = 0, sp_y = 0, sp_enable = False, sp_pattern = replicate 256 0\<rparr>,
      spr_sel = 0, spr_wp = 0, spr_enable = False, spr_collision = False, spr_active = False, chunky_active = False,
      text80_active = False, vdu_cmd = 0, vdu_params = replicate 4 0, vdu_need = 0, vdu_got = 0,
      ng_vram = replicate 17920 0, vram_active = False, vdu_gcol = 0, vdu_upload = 0\<rparr>"

text \<open>
  C22: From a reset, every program of window reads, window writes and scanline ticks runs to its end,
  and the chip's arrays and indices are within their sizes, the activation caches agree with the
  registers and the VDU waits for no parameter it has already had.  In particular no drawing command
  hangs the machine, whatever the parameters.
\<close>

theorem ng_program_safe:
  assumes "length (ng_copper_list u) = 64"
  shows "\<exists>v. ng_run es (ula_ng_reset u) = Some v \<and> ng_ok v"
  by (rule ng_run_ok [OF ng_reset_ok [OF assms]])

text \<open>Unlocking, then a line from (0, 0) to (159, 200) through the VDU port, with a scanline tick.\<close>

lemma ng_program_safe_witness:
  "\<exists>v. ng_run [NgWrite 0x340 0x4E, NgWrite 0x340 0x47, NgWrite 0x357 26, NgWrite 0x357 0, NgWrite 0x357 0,
        NgWrite 0x357 159, NgWrite 0x357 200, NgLine 17, NgRead 0x347] (ula_ng_reset ng_blank) = Some v \<and> ng_ok v"
  by (rule ng_program_safe) (simp add: ng_blank_def)

text \<open>
  C23: From a reset, the chip is unlocked exactly by an \<open>N\<close> written to the lock register with a \<open>G\<close>
  written there next; a write is consumed exactly when that happened before it, so a program that
  never writes the sequence sees the plain machine.
\<close>

theorem ng_unlock:
  assumes "length (ng_copper_list u) = 64"
  shows "\<exists>v. ng_writes ws (ula_ng_reset u) = Some (map (\<lambda>i. opens (take i ws)) [0..<length ws], v) \<and>
    ng_unlocked v = opens ws"
proof -
  have "ng_watch [] (ula_ng_reset u)" by (simp add: ng_watch_def ula_ng_reset_def)
  from ng_writes_watch [OF ng_reset_ok [OF assms] this, of ws] show ?thesis by (auto simp: ng_watch_def)
qed

lemma ng_unlock_witness:
  "\<exists>v. ng_writes [(0x340, 0x4E), (0x341, 1), (0x340, 0x4E), (0x340, 0x47), (0x341, 1)] (ula_ng_reset ng_blank) =
      Some ([False, False, False, False, True], v) \<and> ng_unlocked v"
  using ng_unlock [of ng_blank "[(0x340, 0x4E), (0x341, 1), (0x340, 0x4E), (0x340, 0x47), (0x341, 1)]"]
  by (simp add: ng_blank_def upt_rec)

text \<open>
  C24: With sprites active, compositing line \<open>y\<close> of a picture at most 512 pixels wide changes only that
  line: each of its pixels shows the colour of the lowest numbered sprite opaque there, or what it
  showed before; the collision flag is raised exactly when two sprites are opaque at one pixel of the
  line; and no byte outside the frame buffer is touched.
\<close>

theorem sprites_composited:
  assumes "spr_active u" "w \<le> 512" "y < h" "length fb = w * h * 3"
  shows "\<exists>fb'. ula_ng_composite_scanline fb (int w) (int h) (int y) u =
      (u\<lparr>spr_collision := (spr_collision u \<or> collide u w (int y))\<rparr>, fb', False) \<and>
    length fb' = length fb \<and>
    (\<forall>x < w. pixel w y fb' x = (case shown u (int y) x of None \<Rightarrow> pixel w y fb x | Some c \<Rightarrow> c)) \<and>
    (\<forall>i. i < y * w * 3 \<or> (y + 1) * w * 3 \<le> i \<longrightarrow> fb' ! i = fb ! i)"
proof -
  obtain z where z: "ula_ng_composite_scanline fb (int w) (int h) (int y) u = (u\<lparr>spr_collision := sc_hit z\<rparr>, sc_fb z, sc_oob z)"
    and p: "pictures w y fb (\<lambda>x. if x < w then shown u (int y) x else None, spr_collision u \<or> collide u w (int y)) z"
    using composite_picture [OF assms] by blast
  show ?thesis using p unfolding z pictures_def by (intro exI [of _ "sc_fb z"]) simp
qed

text \<open>Two one-pixel sprites at the same place: the collision is seen and the front one is shown.\<close>

definition ng_two_sprites :: ula_ng_t where
  "ng_two_sprites = ng_blank\<lparr>spr_active := True, ng_pal := (replicate 16 (0, 0, 0))[1 := (10, 20, 30), 2 := (40, 50, 60)],
     ng_sprites := (ng_sprites ng_blank)
       [0 := \<lparr>sp_x = 1, sp_y = 0, sp_enable = True, sp_pattern = (replicate 256 0)[0 := 1]\<rparr>,
        1 := \<lparr>sp_x = 1, sp_y = 0, sp_enable = True, sp_pattern = (replicate 256 0)[0 := 2]\<rparr>]\<rparr>"

lemma sprites_composited_witness:
  "shown ng_two_sprites 0 1 = Some (10, 20, 30) \<and> collide ng_two_sprites 2 0 \<and>
   (\<exists>fb'. fst (snd (ula_ng_composite_scanline [0, 0, 0, 9, 9, 9] 2 1 0 ng_two_sprites)) = fb' \<and> pixel 2 0 fb' 1 = (10, 20, 30))"
proof -
  have a: "opaque ng_two_sprites 0 1 0" "opaque ng_two_sprites 0 1 1"
    by (simp_all add: opaque_def sprite_index_def ng_two_sprites_def ng_blank_def Let_def)
  have s: "shown ng_two_sprites 0 1 = Some (10, 20, 30)"
    using a by (simp add: shown_def upt_rec) (simp add: sprite_colour_def sprite_index_def ng_two_sprites_def ng_blank_def Let_def)
  have c: "collide ng_two_sprites 2 0"
    using a by (simp add: collide_def upt_rec)
  obtain fb' where f: "ula_ng_composite_scanline [0, 0, 0, 9, 9, 9] (int 2) (int 1) (int 0) ng_two_sprites =
      (ng_two_sprites\<lparr>spr_collision := (spr_collision ng_two_sprites \<or> collide ng_two_sprites 2 (int 0))\<rparr>, fb', False)"
    "\<forall>x < 2. pixel 2 0 fb' x = (case shown ng_two_sprites (int 0) x of None \<Rightarrow> pixel 2 0 [0, 0, 0, 9, 9, 9] x | Some c \<Rightarrow> c)"
    using sprites_composited [of ng_two_sprites 2 0 1 "[0, 0, 0, 9, 9, 9]"] by (auto simp: ng_two_sprites_def)
  show ?thesis using s c f by simp
qed

end
