(* ===== verification/Video_Rules.thy ===== *)
theory Video_Rules
  imports Emu_Clock
begin

unbundle bit_operations_syntax

text \<open>
  Rules of the picture: what drawing leaves alone, the agreement of the cell-by-cell and the whole-line
  rendering, and the memory a standard picture reads.
\<close>

section \<open>What a cell leaves alone\<close>

text \<open>The resolution, the modes and the latches of the line.\<close>

definition line_frame :: "video_t \<Rightarrow> (int \<times> int \<times> int) \<times> (int \<times> int) \<times> bool \<times> bool \<times> nat \<times> vmem option \<times> bool" where
  "line_frame v = ((line_sx v, line_sy v, line_last_col v), (native_w v, native_h v), vid_chunky v, vid_text80 v,
     length (framebuffer v), vid_charset v, hires_mode v)"

lemma frame_pixel [simp]: "line_frame (set_pixel x y c v) = line_frame v"
  by (simp add: set_pixel_def line_frame_def Let_def split: prod.split)

lemma fold_frame: "(\<And>x v. line_frame (f x v) = line_frame v) \<Longrightarrow> line_frame (fold f xs v) = line_frame v"
  by (induction xs arbitrary: v) simp_all

lemma frame_bits [simp]: "line_frame (draw_bits x y bits ir pr v) = line_frame v"
  by (simp add: draw_bits_def fold_frame del: upt.simps)

lemma frame_char [simp]: "line_frame (render_char m x y b ink paper cl row v) = line_frame v"
  "line_frame (render_hires_block x y b ink paper v) = line_frame v"
  by (simp_all add: render_char_def render_hires_block_def Let_def)

lemma frame_attr_block [simp]: "line_frame (render_attr_block x y p h i v) = line_frame v"
  by (simp add: render_attr_block_def Let_def fold_frame)

lemma frame_decode [simp]: "line_frame (snd (snd (decode_attr a ip v))) = line_frame v"
  by (simp add: decode_attr_def line_frame_def Let_def split: prod.split)

lemma frame_serial [simp]: "line_frame (serial_attr x y b v) = line_frame v"
proof -
  have "line_frame (w\<lparr>line_ink := i, line_paper := p\<rparr>) = line_frame w" for w i p by (simp add: line_frame_def)
  then show ?thesis using frame_decode [of b "(line_ink v, line_paper v, False)" v]
    by (simp add: serial_attr_def case_prod_beta Let_def)
qed

lemma frame_cell [simp]: "line_frame (video_render_cell ng mm y col v) = line_frame v"
proof -
  have "line_frame (w\<lparr>line_ink := i, line_paper := p\<rparr>) = line_frame w" for w i p by (simp add: line_frame_def)
  then show ?thesis
    by (simp add: video_render_cell_def render_main_cell_def render_bottom_text_cell_def Let_def split: option.split)
qed

section \<open>Cells and lines\<close>

text \<open>The cells of a line are 40, or 41 with a fine X scroll; a fetch beyond them draws nothing.\<close>

lemma begin_last_col:
  "0 \<le> y \<Longrightarrow> y < 224 \<Longrightarrow> line_last_col (video_line_begin ng (Some m) y v) \<in> {39, 40}"
  by (simp add: video_line_begin_def line_start_def Let_def palette_latch_def palette_reset_def split: option.split)

lemma cell_40:
  "line_last_col v = 39 \<or> 200 \<le> y \<Longrightarrow> video_render_cell ng mm y 40 v = v"
  by (auto simp: video_render_cell_def split: option.split)

definition line_cells :: "ula_ng_t option \<Rightarrow> vmem option \<Rightarrow> int \<Rightarrow> nat \<Rightarrow> video_t \<Rightarrow> video_t" where
  "line_cells ng mm y n v = fold (\<lambda>col. video_render_cell ng mm y (int col)) [0..<n] v"

lemma cells_Suc: "line_cells ng mm y (Suc n) v = video_render_cell ng mm y (int n) (line_cells ng mm y n v)"
  by (simp add: line_cells_def)

lemma cells_frame [simp]: "line_frame (line_cells ng mm y n v) = line_frame v"
  by (simp add: line_cells_def fold_frame)

lemma cells_last_col [simp]: "line_last_col (line_cells ng mm y n v) = line_last_col v"
  using cells_frame [of ng mm y n v] by (simp add: line_frame_def)

lemma scanline_cells:
  assumes "0 \<le> y" "y < 224"
  shows "video_render_scanline (Some m) y (v, ng) =
    video_line_end ng (Some m) y (line_cells ng (Some m) y 41 (video_line_begin ng (Some m) y v))"
proof -
  define v1 where "v1 = video_line_begin ng (Some m) y v"
  have l: "line_last_col v1 = 39 \<or> line_last_col v1 = 40" using begin_last_col [OF assms] by (simp add: v1_def)
  have c41: "line_cells ng (Some m) y 41 v1 = video_render_cell ng (Some m) y 40 (line_cells ng (Some m) y 40 v1)"
    using cells_Suc [of ng "Some m" y 40 v1] by simp
  have "line_cells ng (Some m) y (nat ((if y < 200 then line_last_col v1 else 39) + 1)) v1 = line_cells ng (Some m) y 41 v1"
  proof (cases "y < 200 \<and> line_last_col v1 = 40")
    case False
    then have "video_render_cell ng (Some m) y 40 (line_cells ng (Some m) y 40 v1) = line_cells ng (Some m) y 40 v1"
      using l by (intro cell_40) auto
    then show ?thesis using False l c41 by auto
  qed simp
  then show ?thesis
    using assms by (cases "y < 200") (simp_all add: video_render_scanline_def Let_def v1_def [symmetric] line_cells_def [symmetric])
qed

section \<open>The cycles of a line\<close>

lemma video_upd [simp]:
  "emu_mem (e\<lparr>video := v\<rparr>) = emu_mem e" "emu_ng (e\<lparr>video := v\<rparr>) = emu_ng e"
  "ula_fetch_offset (e\<lparr>video := v\<rparr>) = ula_fetch_offset e"
  by (simp_all add: emu_mem_def emu_ng_def)

lemma cells_upto:
  assumes "line < 224" "ula_fetch_offset e = int off" "n < 63"
  shows "fold (\<lambda>dot. ula_cycle line (int dot)) [0..<Suc n] e =
    e\<lparr>video := line_cells (Some (emu_ng e)) (emu_mem e) line (min 41 (Suc n - off))
       (video_line_begin (Some (emu_ng e)) (emu_mem e) line (video e))\<rparr>"
  using assms(3)
proof (induction n)
  case 0
  have "min 41 (Suc 0 - off) = (if off = 0 then Suc 0 else 0)" by simp
  then show ?case
    using assms(1,2) by (simp add: ula_cycle_def Let_def line_cells_def)
next
  case (Suc n)
  define b where "b = video_line_begin (Some (emu_ng e)) (emu_mem e) line (video e)"
  have m: "min 41 (Suc (Suc n) - off) =
      (if off \<le> Suc n \<and> Suc n - off \<le> 40 then Suc (min 41 (Suc n - off)) else min 41 (Suc n - off))" by auto
  have c: "(int (Suc n) - int off \<ge> 0 \<and> int (Suc n) - int off \<le> 40) = (off \<le> Suc n \<and> Suc n - off \<le> 40)"
    by auto
  have i: "int (Suc n) - int off = int (min 41 (Suc n - off))" if "off \<le> Suc n \<and> Suc n - off \<le> 40"
    using that by auto
  have "fold (\<lambda>dot. ula_cycle line (int dot)) [0..<Suc (Suc n)] e =
      ula_cycle line (int (Suc n)) (fold (\<lambda>dot. ula_cycle line (int dot)) [0..<Suc n] e)"
    by simp
  also have "... = ula_cycle line (int (Suc n))
      (e\<lparr>video := line_cells (Some (emu_ng e)) (emu_mem e) line (min 41 (Suc n - off)) b\<rparr>)"
    using Suc by (simp add: b_def)
  also have "... = e\<lparr>video := line_cells (Some (emu_ng e)) (emu_mem e) line (min 41 (Suc (Suc n) - off)) b\<rparr>"
    using Suc.prems assms(1,2) c i unfolding m
    by (simp add: ula_cycle_def Let_def cells_Suc del: of_nat_Suc)
  finally show ?case by (simp add: b_def)
qed

lemma on_video_compose:
  "on_video (\<lambda>(v, ng). g ng v) (e\<lparr>video := w\<rparr>) = on_video (\<lambda>(v, ng). g ng w) e"
  by (simp add: on_video_def upd_board_def emu_ng_def Let_def case_prod_beta)

lemma line_of_cycles:
  assumes "0 \<le> line" "line < 224" "ula_fetch_offset e = int off" "off \<le> 23"
  shows "fold (\<lambda>dot. ula_cycle line (int dot)) [0..<64] e =
    (on_video (video_render_scanline (emu_mem e) line) e)\<lparr>raster_rendered := line + 1\<rparr>"
proof -
  define b where "b = video_line_begin (Some (emu_ng e)) (emu_mem e) line (video e)"
  have up: "[0..<64] = [0..<Suc 62] @ [63 :: nat]" by (simp add: upt_rec)
  have "min 41 (Suc 62 - off) = min 41 (63 - off)" by simp
  note upto = cells_upto [OF assms(2,3), of 62, unfolded this, folded b_def]
  have "fold (\<lambda>dot. ula_cycle line (int dot)) [0..<64] e =
      ula_cycle line 63 (e\<lparr>video := line_cells (Some (emu_ng e)) (emu_mem e) line (min 41 (63 - off)) b\<rparr>)"
    unfolding up fold_append comp_def by (subst upto) simp_all
  also have "... = (on_video (\<lambda>(v, ng). video_line_end ng (emu_mem e) line v)
      (e\<lparr>video := line_cells (Some (emu_ng e)) (emu_mem e) line 41 b\<rparr>))\<lparr>raster_rendered := line + 1\<rparr>"
  proof (cases "off = 23")
    case True
    then show ?thesis
      using assms cells_Suc [of "Some (emu_ng e)" "emu_mem e" line 40 b] by (simp add: ula_cycle_def Let_def)
  next
    case False
    then have "min 41 (63 - off) = 41" "\<not> 63 - int off \<le> 40" using assms(4) by auto
    then show ?thesis using assms by (simp add: ula_cycle_def Let_def)
  qed
  also have "... = (on_video (video_render_scanline (emu_mem e) line) e)\<lparr>raster_rendered := line + 1\<rparr>"
    unfolding on_video_compose
    using scanline_cells [OF assms(1,2), of "ram_pointer (mem (board (core e)))" "video e" "Some (emu_ng e)"]
    by (simp add: on_video_def emu_mem_def b_def)
  finally show ?thesis .
qed

end
