(* ===== verification/Clock_Rules.thy ===== *)
theory Clock_Rules
  imports Video_Rules
begin

unbundle bit_operations_syntax

text \<open>
  Rules of the master clock: the beam counters, the lines that an advance of the beam renders, and the
  end of every instruction.
\<close>

section \<open>Counters and picture\<close>

text \<open>The counters at a cycle of the frame, and the work at the end of line \<open>k\<close>, without counters.\<close>

definition set_beam :: "int \<Rightarrow> 'c emulator_t \<Rightarrow> 'c emulator_t" where
  "set_beam rc e = e\<lparr>raster_cycle := rc, frame_cycles := rc, raster_rendered := min 224 (rc div 64),
     raster_ng_line := min 312 (rc div 64), raster_next_line := (rc div 64 + 1) * 64\<rparr>"

definition beam_at :: "'c emulator_t \<Rightarrow> bool" where
  "beam_at e \<longleftrightarrow> 0 \<le> raster_cycle e \<and> e = set_beam (raster_cycle e) e"

definition ng_tick :: "int \<Rightarrow> 'c emulator_t \<Rightarrow> 'c emulator_t" where
  "ng_tick k e =
     (let e1 = upd_board (put_ng (ula_ng_scanline k (emu_ng e))) e
      in if ula_ng_irq (emu_ng e1) then upd_board (cpu_irq_set IRQF_ULANG) e1 else e1)"

definition line_work :: "nat \<Rightarrow> 'c emulator_t \<Rightarrow> 'c emulator_t" where
  "line_work k e =
     (let e1 = (if k < 224 \<and> \<not> ula_cycle_in_use e then on_video (video_render_scanline (emu_mem e) (int k)) e else e)
      in if k < 312 then ng_tick (int k) e1 else e1)"

lemma beam_at_iff:
  "beam_at e \<longleftrightarrow> 0 \<le> raster_cycle e \<and> frame_cycles e = raster_cycle e \<and>
     raster_rendered e = min 224 (raster_cycle e div 64) \<and> raster_ng_line e = min 312 (raster_cycle e div 64) \<and>
     raster_next_line e = (raster_cycle e div 64 + 1) * 64"
  by (cases e) (auto simp: beam_at_def set_beam_def)

lemma set_beam_set [simp]: "set_beam a (set_beam b e) = set_beam a e"
  by (simp add: set_beam_def)

lemma set_beam_sel [simp]:
  "raster_cycle (set_beam a e) = a" "core (set_beam a e) = core e" "video (set_beam a e) = video e"
  "ula_per_cycle (set_beam a e) = ula_per_cycle e" "ula_cycle_in_use (set_beam a e) = ula_cycle_in_use e"
  "emu_mem (set_beam a e) = emu_mem e" "emu_ng (set_beam a e) = emu_ng e"
  by (simp_all add: set_beam_def ula_cycle_in_use_def emu_mem_def emu_ng_def)

lemma set_beam_ok [simp]: "beam_at (set_beam a e) = (0 \<le> a)"
  by (simp add: beam_at_def)

lemma work_counters [simp]:
  "on_video f (set_beam a e) = set_beam a (on_video f e)" "upd_board g (set_beam a e) = set_beam a (upd_board g e)"
  by (simp_all add: on_video_def upd_board_def set_beam_def emu_ng_def Let_def case_prod_beta)

lemma work_beam: "line_work k (set_beam a e) = set_beam a (line_work k e)"
  by (simp add: line_work_def ng_tick_def Let_def)

text \<open>Rendering and ticking leave the CPU, the memory and the clock's settings alone.\<close>

definition clock_frame :: "'c emulator_t \<Rightarrow> cpu6502_t \<times> memory_t \<times> bool \<times> int \<times> int" where
  "clock_frame e = (cpu (core e), mem (board (core e)), ula_per_cycle e, ula_fetch_offset e, raster_cycle e)"

lemma board_frame: "(\<And>b. mem (g b) = mem b) \<Longrightarrow> clock_frame (upd_board g e) = clock_frame e"
  by (simp add: clock_frame_def upd_board_def)

lemma put_ng_mem [simp]: "mem (put_ng u b) = mem b"
  by (simp add: put_ng_def upd_dev_def)

lemma irq_set_mem [simp]: "mem (cpu_irq_set s b) = mem b"
  by (simp add: cpu_irq_set_def)

lemma frame_of_board [simp]:
  "clock_frame (upd_board (put_ng u) e) = clock_frame e" "clock_frame (upd_board (cpu_irq_set q) e) = clock_frame e"
  by (rule board_frame, simp)+

lemma frame_of_video [simp]: "clock_frame (on_video f e) = clock_frame e"
proof -
  have "clock_frame (e\<lparr>video := v\<rparr>) = clock_frame e" for v by (simp add: clock_frame_def)
  moreover have "clock_frame (upd_board id w) = clock_frame w" for w :: "'a emulator_t" by (rule board_frame) simp
  ultimately show ?thesis by (simp add: on_video_def Let_def case_prod_beta split: option.split)
qed

lemma frame_of_tick [simp]: "clock_frame (ng_tick k e) = clock_frame e"
  by (simp add: ng_tick_def Let_def)

lemma frame_of_work [simp]: "clock_frame (line_work k e) = clock_frame e"
  by (simp add: line_work_def Let_def)

lemma frame_in_use: "clock_frame e = clock_frame e' \<Longrightarrow> ula_cycle_in_use e = ula_cycle_in_use e'"
  by (simp add: clock_frame_def ula_cycle_in_use_def)

section \<open>Crossing lines\<close>

text \<open>The counters of a line that has just been crossed, the raster cycle apart.\<close>

definition set_line :: "int \<Rightarrow> 'c emulator_t \<Rightarrow> 'c emulator_t" where
  "set_line k e = e\<lparr>raster_rendered := min 224 k, raster_ng_line := min 312 k, raster_next_line := (k + 1) * 64\<rparr>"

text \<open>In cell mode the rendered count has already been advanced by \<open>ula_cycle\<close>.\<close>

definition line_at :: "int \<Rightarrow> 'c emulator_t \<Rightarrow> bool" where
  "line_at k e \<longleftrightarrow> raster_rendered e = (if ula_cycle_in_use e then min 224 (k + 1) else min 224 k) \<and>
     raster_ng_line e = min 312 k \<and> raster_next_line e = (k + 1) * 64"

lemma upd_rendered [simp]:
  "ula_cycle_in_use (e\<lparr>raster_rendered := r\<rparr>) = ula_cycle_in_use e"
  "emu_ng (e\<lparr>raster_rendered := r\<rparr>) = emu_ng e" "emu_ng (e\<lparr>raster_ng_line := r\<rparr>) = emu_ng e"
  "upd_board g (e\<lparr>raster_rendered := r\<rparr>) = (upd_board g e)\<lparr>raster_rendered := r\<rparr>"
  by (simp_all add: ula_cycle_in_use_def emu_ng_def upd_board_def)

lemma upd_board_counters [simp]:
  "raster_rendered (upd_board g e) = raster_rendered e" "raster_ng_line (upd_board g e) = raster_ng_line e"
  "raster_next_line (upd_board g e) = raster_next_line e"
  "raster_rendered (on_video f e) = raster_rendered e" "raster_ng_line (on_video f e) = raster_ng_line e"
  "raster_next_line (on_video f e) = raster_next_line e"
  by (simp_all add: upd_board_def on_video_def Let_def case_prod_beta)

lemma tick_counters [simp]:
  "raster_rendered (ng_tick k e) = raster_rendered e" "raster_ng_line (ng_tick k e) = raster_ng_line e"
  "raster_next_line (ng_tick k e) = raster_next_line e"
  "ng_tick k (e\<lparr>raster_rendered := r\<rparr>) = (ng_tick k e)\<lparr>raster_rendered := r\<rparr>"
  by (simp_all add: ng_tick_def Let_def)

lemma line_crossed_eq:
  "line_crossed e =
     (let e1 = (if \<not> ula_cycle_in_use e \<and> raster_rendered e < 224 then
                  (on_video (video_render_scanline (emu_mem e) (raster_rendered e)) e)\<lparr>raster_rendered := raster_rendered e + 1\<rparr>
                else e);
          e2 = (if raster_ng_line e1 < 312 then (ng_tick (raster_ng_line e1) e1)\<lparr>raster_ng_line := raster_ng_line e1 + 1\<rparr> else e1)
      in e2\<lparr>raster_next_line := raster_next_line e2 + 64\<rparr>)"
  by (simp add: line_crossed_def ng_tick_def Let_def)

lemma crossed_work:
  assumes "line_at (int k) e"
  shows "line_crossed e = set_line (int k + 1) (line_work k e)"
proof -
  have l: "int k < 224 \<longleftrightarrow> k < 224" "int k < 312 \<longleftrightarrow> k < 312" by simp_all
  show ?thesis
    unfolding line_crossed_eq line_work_def set_line_def Let_def
    using assms
    by (cases "ula_cycle_in_use e"; cases "k < 224"; cases "k < 312"; intro emulator_t.equality)
      (simp_all add: line_at_def min_def)
qed

lemma div64_eq: "q * 64 \<le> x \<Longrightarrow> x < (q + 1) * 64 \<Longrightarrow> x div 64 = q" for q x :: int
  by (rule int_div_pos_eq [where r = "x - q * 64"]) simp_all

lemma div64_parts:
  fixes x :: int
  obtains q r where "x = q * 64 + r" "x div 64 = q" "x mod 64 = r" "0 \<le> r" "r < 64"
  by (rule that [of "x div 64" "x mod 64"]) simp_all

lemma div64_bounds: "x div 64 * 64 \<le> x" "x < (x div 64 + 1) * 64" for x :: int
  by (rule div64_parts [of x], simp)+

lemma div64_next:
  fixes x :: int
  shows "x mod 64 \<noteq> 63 \<Longrightarrow> (x + 1) div 64 = x div 64" "x mod 64 \<noteq> 63 \<Longrightarrow> x + 1 < (x div 64 + 1) * 64"
    "x mod 64 = 63 \<Longrightarrow> (x + 1) div 64 = x div 64 + 1" "x mod 64 = 63 \<Longrightarrow> x + 1 = (x div 64 + 1) * 64"
proof -
  obtain q r where x: "x = q * 64 + r" "x div 64 = q" "x mod 64 = r" "0 \<le> r" "r < 64" by (rule div64_parts)
  have r: "x mod 64 \<noteq> 63 \<Longrightarrow> r \<le> 62" using x(3,5) by simp
  show "(x + 1) div 64 = x div 64" if "x mod 64 \<noteq> 63"
    unfolding x(2) by (rule div64_eq) (use x(1,4,5) r [OF that] in simp_all)
  show "x + 1 < (x div 64 + 1) * 64" if "x mod 64 \<noteq> 63" unfolding x(2) using x(1) r [OF that] by simp
  show "(x + 1) div 64 = x div 64 + 1" if "x mod 64 = 63"
    unfolding x(2) by (rule div64_eq) (use x(1,3) that in simp_all)
  show "x + 1 = (x div 64 + 1) * 64" if "x mod 64 = 63" unfolding x(2) using x(1,3) that by simp
qed

lemma div64_le: "q * 64 \<le> x \<Longrightarrow> q \<le> x div 64" for q x :: int
  using zdiv_mono1 [of "q * 64" x 64] by simp

lemma upt_split: "i \<le> j \<Longrightarrow> j \<le> k \<Longrightarrow> [i..<j] @ [j..<k] = [i..<k]" for i j k :: nat
  by (metis upt_add_eq_append le_add_diff_inverse)

lemma set_line_sel [simp]:
  "set_line a (set_line b e) = set_line a e" "raster_cycle (set_line a e) = raster_cycle e"
  "raster_next_line (set_line a e) = (a + 1) * 64" "core (set_line a e) = core e" "video (set_line a e) = video e"
  "ula_cycle_in_use (set_line a e) = ula_cycle_in_use e" "emu_mem (set_line a e) = emu_mem e" "emu_ng (set_line a e) = emu_ng e"
  "on_video f (set_line a e) = set_line a (on_video f e)" "upd_board g (set_line a e) = set_line a (upd_board g e)"
  by (simp_all add: set_line_def ula_cycle_in_use_def emu_mem_def emu_ng_def on_video_def upd_board_def Let_def case_prod_beta)

lemma work_line: "line_work k (set_line a e) = set_line a (line_work k e)"
  by (simp add: line_work_def ng_tick_def Let_def)

lemma fold_through: "(\<And>x z. f x (g z) = g (f x z)) \<Longrightarrow> fold f xs (g z) = g (fold f xs z)"
  by (induction xs arbitrary: z) simp_all

lemmas fold_work_line = fold_through [where f = line_work and g = "set_line a" for a, OF work_line]
lemmas fold_work_beam = fold_through [where f = line_work and g = "set_beam a" for a, OF work_beam]

lemma line_at_set [simp]: "\<not> ula_cycle_in_use e \<Longrightarrow> line_at a (set_line a e)"
  by (simp add: line_at_def) (simp add: set_line_def)

lemma work_in_use [simp]: "ula_cycle_in_use (line_work k e) = ula_cycle_in_use e"
  by (rule frame_in_use) simp

lemma work_cycle [simp]: "raster_cycle (line_work k e) = raster_cycle e"
  using frame_of_work [of k e] by (simp add: clock_frame_def)

lemma cross_all:
  assumes "\<not> ula_cycle_in_use e" "line_at (int k) e" "(int k + 1) * 64 \<le> raster_cycle e"
  shows "cross_lines e = set_line (raster_cycle e div 64) (fold line_work [k..<nat (raster_cycle e div 64)] e)"
  using assms
proof (induction "nat (raster_cycle e div 64) - k" arbitrary: k e rule: less_induct)
  case less
  define e1 where "e1 = set_line (int k + 1) (line_work k e)"
  have "int k + 1 \<le> raster_cycle e div 64" by (rule div64_le [OF less.prems(3)])
  then have k: "k < nat (raster_cycle e div 64)" by linarith
  have e1: "\<not> ula_cycle_in_use e1" "line_at (int (Suc k)) e1" "raster_cycle e1 = raster_cycle e"
    "raster_next_line e1 = (int k + 2) * 64"
    using less.prems(1) by (simp_all add: e1_def add.commute [of 1])
  have step: "cross_lines e = (if (int k + 2) * 64 \<le> raster_cycle e then cross_lines e1 else e1)"
    using crossed_work [OF less.prems(2)] e1(3,4) by (subst cross_lines.simps) (simp add: e1_def [symmetric])
  have u: "[k..<nat (raster_cycle e div 64)] = k # [Suc k..<nat (raster_cycle e div 64)]" using k by (simp add: upt_rec)
  show ?case
  proof (cases "(int k + 2) * 64 \<le> raster_cycle e")
    case True
    then have "cross_lines e1 = set_line (raster_cycle e div 64) (fold line_work [Suc k..<nat (raster_cycle e div 64)] e1)"
      using less.hyps [of e1 "Suc k"] e1 k by simp
    then show ?thesis unfolding step u using True by (simp add: e1_def fold_work_line)
  next
    case False
    then have q: "raster_cycle e div 64 = int k + 1" using less.prems(3) by (intro div64_eq) simp_all
    then have "[Suc k..<nat (raster_cycle e div 64)] = []" by simp
    then show ?thesis unfolding step u using False q by (simp add: e1_def)
  qed
qed

section \<open>Advancing the beam\<close>

lemma beam_sel:
  assumes "beam_at e"
  shows "0 \<le> raster_cycle e" "frame_cycles e = raster_cycle e" "raster_rendered e = min 224 (raster_cycle e div 64)"
    "raster_ng_line e = min 312 (raster_cycle e div 64)" "raster_next_line e = (raster_cycle e div 64 + 1) * 64"
  using assms by (simp_all add: beam_at_iff)

definition at_cycle :: "int \<Rightarrow> 'c emulator_t \<Rightarrow> 'c emulator_t" where
  "at_cycle rc e = e\<lparr>raster_cycle := rc, frame_cycles := rc\<rparr>"

lemma at_cycle_sel [simp]:
  "raster_cycle (at_cycle a e) = a" "ula_cycle_in_use (at_cycle a e) = ula_cycle_in_use e"
  "emu_mem (at_cycle a e) = emu_mem e" "emu_ng (at_cycle a e) = emu_ng e"
  "raster_next_line (at_cycle a e) = raster_next_line e"
  "on_video f (at_cycle a e) = at_cycle a (on_video f e)" "upd_board g (at_cycle a e) = at_cycle a (upd_board g e)"
  "set_line (a div 64) (at_cycle a e) = set_beam a e" "line_at l (at_cycle a e) = line_at l e"
  by (simp_all add: at_cycle_def set_line_def set_beam_def line_at_def ula_cycle_in_use_def emu_mem_def emu_ng_def
      on_video_def upd_board_def Let_def case_prod_beta)

lemma work_at_cycle: "line_work k (at_cycle a e) = at_cycle a (line_work k e)"
  by (simp add: line_work_def ng_tick_def Let_def)

lemmas fold_work_cycle = fold_through [where f = line_work and g = "at_cycle a" for a, OF work_at_cycle]

lemma advance_eq:
  "clock_advance_raster n e =
    (if raster_cycle e + n < raster_next_line e then at_cycle (raster_cycle e + n) e
     else cross_lines (at_cycle (raster_cycle e + n) e))"
  by (simp add: clock_advance_raster_def at_cycle_def Let_def)

lemma beam_line: "beam_at e \<Longrightarrow> \<not> ula_cycle_in_use e \<Longrightarrow> line_at (raster_cycle e div 64) e"
  by (simp add: beam_at_iff line_at_def)

lemma advance_work:
  assumes "beam_at e" "\<not> ula_cycle_in_use e" "0 \<le> n"
  shows "clock_advance_raster n e =
    set_beam (raster_cycle e + n) (fold line_work [nat (raster_cycle e div 64)..<nat ((raster_cycle e + n) div 64)] e)"
proof (cases "raster_cycle e + n < raster_next_line e")
  case True
  then have q: "(raster_cycle e + n) div 64 = raster_cycle e div 64"
    using assms(3) beam_sel(5) [OF assms(1)] div64_bounds(1) [of "raster_cycle e"] by (intro div64_eq) simp_all
  have "at_cycle (raster_cycle e + n) e = set_beam (raster_cycle e + n) e"
    using assms(1) q unfolding beam_at_iff at_cycle_def set_beam_def by (intro emulator_t.equality) simp_all
  then show ?thesis using True q by (simp add: advance_eq)
next
  case False
  define k where "k = nat (raster_cycle e div 64)"
  have k: "int k = raster_cycle e div 64" using beam_sel(1) [OF assms(1)] by (simp add: k_def)
  have "cross_lines (at_cycle (raster_cycle e + n) e) =
      set_line ((raster_cycle e + n) div 64) (fold line_work [k..<nat ((raster_cycle e + n) div 64)] (at_cycle (raster_cycle e + n) e))"
    using cross_all [of "at_cycle (raster_cycle e + n) e" k] assms(2) beam_line [OF assms(1,2)] False
      beam_sel(5) [OF assms(1)] by (simp add: k)
  then show ?thesis using False by (simp add: advance_eq fold_work_cycle k_def)
qed

text \<open>Split in any way, an advance renders the same lines.\<close>

lemma fold_in_use: "ula_cycle_in_use (fold line_work xs e) = ula_cycle_in_use e"
  by (induction xs arbitrary: e) simp_all

lemma advances_work:
  assumes "beam_at e" "\<not> ula_cycle_in_use e" "list_all (\<lambda>n. 0 \<le> n) ns"
  shows "fold clock_advance_raster ns e =
    set_beam (raster_cycle e + sum_list ns)
      (fold line_work [nat (raster_cycle e div 64)..<nat ((raster_cycle e + sum_list ns) div 64)] e)"
  using assms
proof (induction ns arbitrary: e)
  case Nil
  then show ?case by (simp add: beam_at_def)
next
  case (Cons n ns)
  let ?rc = "raster_cycle e"
  have n: "0 \<le> n" "0 \<le> sum_list ns" using Cons.prems(3) by (simp_all add: sum_list_nonneg list_all_iff)
  note rc = beam_sel(1) [OF Cons.prems(1)]
  have le: "nat (?rc div 64) \<le> nat ((?rc + n) div 64)" "nat ((?rc + n) div 64) \<le> nat ((?rc + n + sum_list ns) div 64)"
    using n by (intro nat_mono zdiv_mono1; simp)+
  have "fold clock_advance_raster ns (clock_advance_raster n e) =
      set_beam (?rc + n + sum_list ns) (fold line_work [nat ((?rc + n) div 64)..<nat ((?rc + n + sum_list ns) div 64)]
        (clock_advance_raster n e))"
    using Cons.IH [of "clock_advance_raster n e"] Cons.prems n rc unfolding advance_work [OF Cons.prems(1,2) n(1)]
    by (simp add: fold_in_use)
  also have "... = set_beam (?rc + n + sum_list ns) (fold line_work
      ([nat (?rc div 64)..<nat ((?rc + n) div 64)] @ [nat ((?rc + n) div 64)..<nat ((?rc + n + sum_list ns) div 64)]) e)"
    unfolding advance_work [OF Cons.prems(1,2) n(1)] by (simp add: fold_work_beam)
  finally show ?case unfolding upt_split [OF le] by (simp add: add.assoc)
qed

unbundle bit_operations_syntax

text \<open>
  The beam along the cycles and instructions of the CPU: the counters always tell the cycle of the
  frame, in both rendering modes and with both engines, and every instruction ends with the beam
  advanced by its cycles.
\<close>

section \<open>One cycle\<close>

lemma core_beam [simp]: "beam_at (e\<lparr>core := m\<rparr>) = beam_at e"
  by (simp add: beam_at_iff)

lemma advance_beam: "beam_at e \<Longrightarrow> \<not> ula_cycle_in_use e \<Longrightarrow> 0 \<le> n \<Longrightarrow>
    beam_at (clock_advance_raster n e) \<and> raster_cycle (clock_advance_raster n e) = raster_cycle e + n"
  by (simp add: advance_work beam_sel(1))

text \<open>The cells of a cycle move no counter but the rendered lines, at the last dot.\<close>

lemma ula_cycle_counters:
  "raster_cycle (ula_cycle l d e) = raster_cycle e" "frame_cycles (ula_cycle l d e) = frame_cycles e"
  "raster_ng_line (ula_cycle l d e) = raster_ng_line e" "raster_next_line (ula_cycle l d e) = raster_next_line e"
  "raster_rendered (ula_cycle l d e) = (if l < 224 \<and> d = 63 then l + 1 else raster_rendered e)"
  "ula_cycle_in_use (ula_cycle l d e) = ula_cycle_in_use e"
  by (auto simp: ula_cycle_def Let_def ula_cycle_in_use_def on_video_def upd_board_def case_prod_beta)

lemma cell_cycle_beam:
  assumes "beam_at e" "ula_cycle_in_use e"
  defines "e1 \<equiv> ula_cycle (raster_cycle e div 64) (raster_cycle e mod 64) e"
  shows "beam_at (clock_advance_raster 1 e1) \<and> raster_cycle (clock_advance_raster 1 e1) = raster_cycle e + 1"
proof -
  define rc where "rc = raster_cycle e"
  define k where "k = nat (rc div 64)"
  note b = beam_sel [OF assms(1), folded rc_def]
  have k: "int k = rc div 64" using b(1) by (simp add: k_def)
  note c = ula_cycle_counters [of "rc div 64" "rc mod 64" e, folded e1_def [folded rc_def]]
  show ?thesis
  proof (cases "rc mod 64 = 63")
    case False
    note q = div64_next(1,2) [OF this]
    have "clock_advance_raster 1 e1 = at_cycle (rc + 1) e1"
      using q(2) b(5) c(1,4) by (simp add: advance_eq rc_def)
    moreover have "beam_at (at_cycle (rc + 1) e1)"
      using b c q(1) False by (simp add: beam_at_iff) (simp add: at_cycle_def)
    ultimately show ?thesis by (simp add: rc_def)
  next
    case True
    note q = div64_next(3,4) [OF this]
    define f where "f = set_line (int k + 1) (line_work k (at_cycle (rc + 1) e1))"
    have "line_at (int k) e1"
      using b c True assms(2) by (simp add: line_at_def k)
    then have lc: "line_crossed (at_cycle (rc + 1) e1) = f" by (simp add: crossed_work f_def)
    have "clock_advance_raster 1 e1 = cross_lines (at_cycle (rc + 1) e1)"
      using q(2) b(5) c(1,4) by (simp add: advance_eq rc_def)
    also have "... = f"
      using q(2) by (subst cross_lines.simps) (simp add: lc Let_def, simp add: f_def k)
    finally have adv: "clock_advance_raster 1 e1 = f" .
    have "f = set_line ((rc + 1) div 64) (at_cycle (rc + 1) (line_work k e1))"
      by (simp add: f_def q(1) k work_at_cycle)
    then have "f = set_beam (rc + 1) (line_work k e1)" by (simp only: at_cycle_sel)
    then show ?thesis using b(1) by (simp add: adv rc_def)
  qed
qed

lemma legacy_enabled [simp]: "ms_enabled (cpu (snd (cpu_step_legacy hk s))) = ms_enabled (cpu s)"
  using cpu_step_legacy_keeps_ms [of s hk] by (simp add: same_ms_def ms_control_def)

lemma step_enabled: "ms_enabled (cpu (snd (cpu_step hk s))) = ms_enabled (cpu s)"
  using seq_enabled.keep_instruction [of s "ms_enabled (cpu s)" hk] by (simp add: cpu_step_def Let_def)

lemma cycle_enabled: "ms_enabled (cpu (snd (cpu_cycle hk s))) = ms_enabled (cpu s)"
  using seq_enabled.keep_cycle [of s "ms_enabled (cpu s)" hk] by simp

lemma emu_cycle_beam:
  assumes "beam_at e"
  shows "beam_at (snd (emu_cycle hk e)) \<and>
    raster_cycle (snd (emu_cycle hk e)) = raster_cycle e + (if ms_enabled (cpu (core e)) then 1 else int (fst (cpu_step hk (core e))))"
proof (cases "ms_enabled (cpu (core e))")
  case False
  have "\<not> ula_cycle_in_use (e\<lparr>core := snd (cpu_step hk (core e))\<rparr>)"
    using False by (simp add: ula_cycle_in_use_def step_enabled)
  then show ?thesis
    using False assms advance_beam [of "e\<lparr>core := snd (cpu_step hk (core e))\<rparr>" "int (fst (cpu_step hk (core e)))"]
    by (simp add: emu_cycle_def case_prod_beta)
next
  case True
  define e1 where "e1 = e\<lparr>core := snd (cpu_cycle hk (core e))\<rparr>"
  have e1: "beam_at e1" "raster_cycle e1 = raster_cycle e" using assms by (simp_all add: e1_def)
  have "snd (emu_cycle hk e) = clock_advance_raster 1
      (if ula_cycle_in_use e1 then ula_cycle (raster_cycle e1 div 64) (raster_cycle e1 mod 64) e1 else e1)"
    using True by (simp add: emu_cycle_def e1_def case_prod_beta Let_def)
  then show ?thesis
    using True e1 cell_cycle_beam [OF e1(1)] advance_beam [OF e1(1), of 1] by simp
qed

section \<open>One instruction\<close>

text \<open>A running cycle counts, or it halts the CPU.\<close>

lemma cpu_cycle_clock:
  assumes "ms_wf (cpu s)" "\<not> halted (cpu (snd (cpu_cycle hk s)))"
  shows "cycles (cpu (snd (cpu_cycle hk s))) = cycles (cpu s) + 1"
  using assms
proof (induction hk s rule: cpu_cycle.induct)
  case (1 hk s)
  have h: "\<not> halted (cpu s)" using "1.prems"(2) by (auto simp: cpu_cycle_simps)
  consider "\<not> ms_active (cpu s)"
    | "ms_active (cpu s)" "current_mop (cpu s) = M_READ_FIXUP" "\<not> ms_crossed (cpu s)"
    | "ms_active (cpu s)" "\<not> (current_mop (cpu s) = M_READ_FIXUP \<and> \<not> ms_crossed (cpu s))"
    by blast
  then show ?case
  proof cases
    case 1
    then show ?thesis using h ms_first_cycle_result(4) [of hk s] by (simp add: cpu_cycle_simps)
  next
    case 2
    then show ?thesis
      using "1.IH" "1.prems" h fixup_next_wf [OF "1.prems"(1)] by (simp add: cpu_cycle_simps(3))
  next
    case 3
    have "current_mop (cpu s) \<noteq> M_END"
      using current_mop_mem [OF "1.prems"(1) 3(1)] "1.prems"(1) 3(1) by (auto simp: ms_wf_def plan_ok_def)
    moreover have "current_mop (cpu s) \<noteq> M_JAM"
    proof
      assume "current_mop (cpu s) = M_JAM"
      then show False using "1.prems"(2) h 3
        by (simp add: cpu_cycle_simps(4) ms_finish_def ms_sample_interrupts_def Let_def)
    qed
    ultimately show ?thesis using h 3 by (simp add: cpu_cycle_simps(4) ms_exec_cycles)
  qed
qed

lemma frame_of_ula [simp]: "clock_frame (ula_cycle l d e) = clock_frame e"
proof -
  have v: "clock_frame (w\<lparr>video := x\<rparr>) = clock_frame w" "clock_frame (w\<lparr>raster_rendered := r\<rparr>) = clock_frame w"
    for w :: "'a emulator_t" and x r by (simp_all add: clock_frame_def)
  show ?thesis by (simp add: ula_cycle_def Let_def v)
qed

lemma cpu_of_crossed: "cpu (core (line_crossed e)) = cpu (core e)"
  by (simp add: line_crossed_def on_video_def upd_board_def Let_def case_prod_beta)

lemma cpu_of_cross: "cpu (core (cross_lines e)) = cpu (core e)"
proof (induction e rule: cross_lines.induct)
  case (1 e)
  then show ?case by (subst cross_lines.simps) (simp add: Let_def cpu_of_crossed)
qed

lemma cpu_of_advance [simp]: "cpu (core (clock_advance_raster n e)) = cpu (core e)"
  by (simp add: clock_advance_raster_def cpu_of_cross Let_def)

lemma emu_cycle_cpu:
  assumes "ms_enabled (cpu (core e))"
  shows "cpu (core (snd (emu_cycle hk e))) = cpu (snd (cpu_cycle hk (core e)))" "fst (emu_cycle hk e) = fst (cpu_cycle hk (core e))"
proof -
  have "cpu (core (ula_cycle l d w)) = cpu (core w)" for l d and w :: "'a emulator_t"
    using frame_of_ula [of l d w] by (simp add: clock_frame_def)
  then show "cpu (core (snd (emu_cycle hk e))) = cpu (snd (cpu_cycle hk (core e)))"
    using assms by (simp add: emu_cycle_def case_prod_beta Let_def)
qed (use assms in \<open>simp add: emu_cycle_def case_prod_beta Let_def\<close>)

lemma emu_step_loop_ends:
  assumes "beam_at e" "ms_enabled (cpu (core e))" "ms_wf (cpu (core e))"
  shows "\<exists>e'. emu_step_loop hk e = Some e' \<and> beam_at e' \<and> cycles (cpu (core e)) \<le> cycles (cpu (core e')) \<and>
    (halted (cpu (core e')) \<or>
      raster_cycle e' - raster_cycle e = int (cycles (cpu (core e')) - cycles (cpu (core e))) \<and> \<not> ms_active (cpu (core e')))"
  using assms
proof (induction "ms_left (cpu (core e))" arbitrary: e rule: less_induct)
  case less
  define m where "m = core e"
  define e1 where "e1 = snd (emu_cycle hk e)"
  note cy = emu_cycle_cpu [OF less.prems(2), of hk, folded e1_def m_def]
  have e1: "beam_at e1" "raster_cycle e1 = raster_cycle e + 1"
    using emu_cycle_beam [OF less.prems(1), of hk] less.prems(2) by (simp_all add: e1_def)
  have wf: "ms_wf (cpu (core e1))" "ms_enabled (cpu (core e1))"
    using cpu_cycle_wf [of m hk] cycle_enabled [of hk m] less.prems(2,3) by (simp_all add: cy(1) m_def)
  have clk: "cycles (cpu (core e1)) = cycles (cpu m) + 1" if "\<not> halted (cpu (core e1))"
    using cpu_cycle_clock [of m hk] that less.prems(3) by (simp add: cy(1) m_def)
  have mono: "cycles (cpu m) \<le> cycles (cpu (core e1))" using cpu_cycle_cycles(1) [of m hk] by (simp add: cy(1))
  have step: "emu_step_loop hk e = (if fst (cpu_cycle hk m) \<or> halted (cpu (core e1)) then Some e1 else emu_step_loop hk e1)"
    by (subst emu_step_loop.simps) (simp add: cy(2) [symmetric] e1_def case_prod_beta)
  show ?case
  proof (cases "fst (cpu_cycle hk m) \<or> halted (cpu (core e1))")
    case True
    have "\<not> ms_active (cpu (core e1))" if "\<not> halted (cpu (core e1))"
      using True that cpu_cycle_end [of hk m] by (cases "halted (cpu m)") (auto simp: cy(1) cpu_cycle_simps)
    then show ?thesis using True step e1 clk mono by (auto simp: m_def)
  next
    case False
    then have "ms_left (cpu (core e1)) < ms_left (cpu (core e))"
      using cpu_cycle_left [of hk m] by (simp add: cy(1) m_def)
    from less.hyps [OF this e1(1) wf(2,1)] obtain e' where e': "emu_step_loop hk e1 = Some e'" "beam_at e'"
      "cycles (cpu (core e1)) \<le> cycles (cpu (core e'))"
      "halted (cpu (core e')) \<or>
        raster_cycle e' - raster_cycle e1 = int (cycles (cpu (core e')) - cycles (cpu (core e1))) \<and> \<not> ms_active (cpu (core e'))"
      by blast
    have "cycles (cpu (core e1)) = cycles (cpu m) + 1" using clk False by blast
    then show ?thesis using e' step False e1(2) by (auto simp: m_def)
  qed
qed

end
