(* ===== verification/Video_Memory.thy ===== *)
theory Video_Memory
  imports Video_Rules
begin

unbundle bit_operations_syntax

text \<open>
  The memory a picture reads while the ULA-NG is idle: the fetches of the standard modes and of their
  character sets stay inside the 48 KB array.
\<close>

text \<open>Two memories that agree on the array.\<close>

definition same_ram :: "vmem \<Rightarrow> vmem \<Rightarrow> bool" where
  "same_ram m m' \<longleftrightarrow> (\<forall>i < RAM_SIZE. m i = m' i)"

definition ng_idle :: "ula_ng_t option \<Rightarrow> bool" where
  "ng_idle ng \<longleftrightarrow> (case ng of None \<Rightarrow> True
     | Some u \<Rightarrow> \<not> ng_active u \<and> \<not> attr_active u \<and> \<not> chunky_active u \<and> \<not> text80_active u)"

text \<open>The state of a line without fine scrolling, extended mode or external character set.\<close>

definition plain_line :: "video_t \<Rightarrow> bool" where
  "plain_line v \<longleftrightarrow> \<not> vid_chunky v \<and> \<not> vid_text80 v \<and> vid_charset v = None \<and> line_sx v = 0 \<and> line_sy v = 0 \<and> line_last_col v = 39"

lemma plain_frame: "line_frame v = line_frame w \<Longrightarrow> plain_line v = plain_line w"
  by (simp add: line_frame_def plain_line_def)

lemma same_ramD: "same_ram m m' \<Longrightarrow> i < RAM_SIZE \<Longrightarrow> m i = m' i"
  by (simp add: same_ram_def)

lemma chline_small: "chline < 8 \<Longrightarrow> effective_chline v chline row < 8"
  using less_mult_imp_div_less [of chline 4 2] by (simp add: effective_chline_def)

lemma charset_same:
  assumes "same_ram m m'" "vid_charset v = None" "i < 128" "r < 8"
  shows "get_charset_byte m i r v = get_charset_byte m' i r v"
  using assms by (simp add: get_charset_byte_def Let_def same_ramD)

lemma char_7bit: "unat (b AND 0x7F) < 128" for b :: u8
proof -
  have "b AND 0x7F < 128" by (rule and_less) simp
  then show ?thesis by (simp add: word_less_nat_alt)
qed

lemma char_same:
  assumes "same_ram m m'" "vid_charset v = None" "cl < 8"
  shows "render_char m x y b ink paper cl row v = render_char m' x y b ink paper cl row v"
  using charset_same [OF assms(1,2) char_7bit chline_small [OF assms(3)]] by (simp add: render_char_def Let_def)

lemma bottom_same:
  assumes "same_ram m m'" "plain_line v" "200 \<le> y" "y < 224" "0 \<le> col" "col < 40"
  shows "render_bottom_text_cell m y col v = render_bottom_text_cell m' y col v"
proof -
  have in_ram: "48000 + (25 + q) * 40 + c < RAM_SIZE" if "q \<le> 2" "c < 40" for q c using that by simp
  have "nat (y - 200) div 8 \<le> 2" "nat col < 40" using assms(3-6) by auto
  then have "0xBB80 + (25 + nat (y - 200) div 8) * 40 + nat col < RAM_SIZE" by (rule in_ram)
  then show ?thesis
    using assms(1,2) by (simp add: render_bottom_text_cell_def Let_def same_ramD [OF assms(1)] char_same plain_line_def)
qed

lemma main_same:
  assumes "same_ram m m'" "plain_line v" "ng_idle ng" "0 \<le> y" "y < 200" "0 \<le> col" "col < 40"
  shows "render_main_cell ng m y col v = render_main_cell ng m' y col v"
proof -
  define h where "h = (vid_mode v AND 0x04 \<noteq> 0)"
  define a where "a = (if h then 0xA000 + nat y * 40 else 0xBB80 + nat y div 8 * 40)"
  have in_ram: "(if h then 40960 + p * 40 else 48000 + q * 40) < 49100"
    "(if h then 40960 + p * 40 else 48000 + q * 40) + c < RAM_SIZE" if "p < 200" "q < 25" "c < 40" for p q c
    using that by simp_all
  have y: "nat y < 200" "nat y div 8 < 25" "nat col < 40" using assms(4-7) by auto
  have a: "a mod 65536 = a" "a + nat col < RAM_SIZE" using in_ram [OF y] by (simp_all add: a_def)
  have "m (a + nat col) = m' (a + nat col)" by (rule same_ramD [OF assms(1) a(2)])
  moreover have "render_main_cell ng mm y col v =
      (let byte = mm (a + nat col); px = col * 6
       in if byte AND 0x60 = 0 then serial_attr px y byte v
          else if h then render_hires_block px y byte (line_ink v) (line_paper v) v
          else render_char mm px y byte (line_ink v) (line_paper v) (nat y mod 8) (nat y div 8) v)" for mm
  proof -
    have base: "h \<Longrightarrow> (40960 + nat y * 40) mod 65536 = a" "\<not> h \<Longrightarrow> (48000 + nat y div 8 * 40) mod 65536 = a"
      using a(1) by (auto simp: a_def split: if_splits)
    show ?thesis
      using assms(2,3) base unfolding h_def
      by (cases ng; cases "vid_mode v AND 4 = 0") (simp_all add: render_main_cell_def plain_line_def ng_idle_def Let_def)
  qed
  ultimately show ?thesis
    using char_same [OF assms(1), of v "nat y mod 8"] assms(2) by (simp add: plain_line_def Let_def)
qed

lemma cell_same:
  assumes "same_ram m m'" "plain_line v" "ng_idle ng"
  shows "video_render_cell ng (Some m) y col v = video_render_cell ng (Some m') y col v"
  using assms main_same [OF assms, of y col] bottom_same [OF assms(1,2), of y col]
  by (auto simp: video_render_cell_def plain_line_def)

lemma cells_same:
  assumes "same_ram m m'" "plain_line v" "ng_idle ng"
  shows "line_cells ng (Some m) y n v = line_cells ng (Some m') y n v"
proof (induction n)
  case (Suc n)
  have "plain_line (line_cells ng (Some m') y n v)" using plain_frame [OF cells_frame] assms(2) by blast
  then show ?case using Suc assms by (simp add: cells_Suc cell_same)
qed (simp add: line_cells_def)

lemma begin_same: "video_line_begin ng (Some m) y v = video_line_begin ng (Some m') y v"
  by (simp add: video_line_begin_def)

lemma begin_plain:
  assumes "ng_idle ng" "vid_charset v = None" "\<not> vid_chunky v" "\<not> vid_text80 v" "0 \<le> y" "y < 224"
  shows "plain_line (video_line_begin ng (Some m) y v)"
  using assms
  by (auto simp: video_line_begin_def line_start_def frame_latch_def palette_latch_def palette_reset_def plain_line_def
      ng_idle_def Let_def split: option.splits)

lemma end_same:
  assumes "plain_line v"
  shows "video_line_end ng (Some m) y v = video_line_end ng (Some m') y v"
  using assms by (simp add: video_line_end_def plain_line_def)

lemma scanline_same:
  assumes "same_ram m m'" "ng_idle ng" "vid_charset v = None" "\<not> vid_chunky v" "\<not> vid_text80 v"
  shows "video_render_scanline (Some m) y (v, ng) = video_render_scanline (Some m') y (v, ng)"
proof (cases "0 \<le> y \<and> y < 224")
  case True
  define b where "b = video_line_begin ng (Some m') y v"
  have b: "plain_line b" unfolding b_def using True assms by (intro begin_plain) auto
  then have "plain_line (line_cells ng (Some m') y 41 b)" using plain_frame [OF cells_frame] by blast
  then show ?thesis
    using True b cells_same [OF assms(1) b assms(2)] end_same
    by (simp add: scanline_cells begin_same [of ng m y v m'] b_def [symmetric])
next
  case False
  then show ?thesis by (auto simp: video_render_scanline_def)
qed

end
