(* ===== verification/Clock_Properties.thy ===== *)
theory Clock_Properties
  imports Clock_Rules Video_Memory
begin

unbundle bit_operations_syntax

text \<open>
  Properties of the picture and of the master clock: the two ways of rendering a line, the memory a
  picture reads, the lines of a frame, and the beam along the instructions of the CPU.
\<close>

text \<open>
  C25: In cell mode, the 64 cycles of a visible line render exactly what the line mode renders at its
  end, when neither the memory nor the ULA-NG changes during the line and the fetch offset leaves room
  for the 41 cells, with attributes, mode changes, scrolling and sprites.
\<close>

theorem cells_equal_line:
  assumes "0 \<le> line" "line < 224" "ula_fetch_offset e = int off" "off \<le> 23"
  shows "fold (\<lambda>dot. ula_cycle line (int dot)) [0..<64] e =
    (on_video (video_render_scanline (emu_mem e) line) e)\<lparr>raster_rendered := line + 1\<rparr>"
  by (rule line_of_cycles [OF assms])

lemma cells_equal_line_witness:
  "\<forall>e :: unit emulator_t. fold (\<lambda>dot. ula_cycle 199 (int dot)) [0..<64] (e\<lparr>ula_fetch_offset := 5\<rparr>) =
    (on_video (video_render_scanline (emu_mem (e\<lparr>ula_fetch_offset := 5\<rparr>)) 199) (e\<lparr>ula_fetch_offset := 5\<rparr>))\<lparr>raster_rendered := 200\<rparr>"
  using cells_equal_line [of 199 "e\<lparr>ula_fetch_offset := 5\<rparr>" 5 for e :: "unit emulator_t"] by simp

text \<open>
  While the ULA-NG is idle, a scanline depends on the 48 KB of RAM only: whatever the mode, the
  attributes and the characters, every fetch is inside the array.
\<close>

theorem picture_in_ram:
  assumes "same_ram m m'" "ng_idle ng" "vid_charset v = None" "\<not> vid_chunky v" "\<not> vid_text80 v"
  shows "video_render_scanline (Some m) y (v, ng) = video_render_scanline (Some m') y (v, ng)"
  by (rule scanline_same [OF assms])

text \<open>Two memories that differ in what is behind the RAM.\<close>

lemma picture_in_ram_witness:
  "video_render_scanline (Some (\<lambda>i. if i < RAM_SIZE then 0x41 else 0)) 199 (video_init, None) =
   video_render_scanline (Some (\<lambda>i. 0x41)) 199 (video_init, None)"
  by (rule picture_in_ram)
    (simp_all add: same_ram_def ng_idle_def video_init_def palette_reset_def apply_profile_resolution_def)

text \<open>
  C26: From the start of a frame in line mode, however the cycles are grouped, the beam has rendered each
  visible line that is over once, in order, and told the ULA-NG once of each of the 312 lines, in order.
\<close>

theorem frame_scan:
  assumes "\<not> clock_resume_pending e" "\<not> ula_cycle_in_use e" "list_all (\<lambda>n. 0 \<le> n) ns"
  shows "fold clock_advance_raster ns (emu_clock_frame_begin e) =
    set_beam (sum_list ns) (fold line_work [0..<nat (sum_list ns div 64)] (emu_clock_frame_begin e))"
proof -
  define f where "f = emu_clock_frame_begin e"
  have f: "f = frame_start e" using assms(1) by (simp add: f_def emu_clock_frame_begin_def)
  have "beam_at f" "raster_cycle f = 0" "\<not> ula_cycle_in_use f"
    using assms(2) by (simp_all add: f frame_start_def beam_at_iff ula_cycle_in_use_def)
  then show ?thesis unfolding f_def [symmetric] using advances_work [of f ns] assms(3) by simp
qed

lemma frame_scan_witness:
  "\<forall>e :: unit emulator_t. fold clock_advance_raster [64, 2, 62] (emu_clock_frame_begin (e\<lparr>clock_resume_pending := False, ula_per_cycle := False\<rparr>)) =
    set_beam 128 (fold line_work [0, 1] (emu_clock_frame_begin (e\<lparr>clock_resume_pending := False, ula_per_cycle := False\<rparr>)))"
proof
  fix e :: "unit emulator_t"
  show "fold clock_advance_raster [64, 2, 62] (emu_clock_frame_begin (e\<lparr>clock_resume_pending := False, ula_per_cycle := False\<rparr>)) =
    set_beam 128 (fold line_work [0, 1] (emu_clock_frame_begin (e\<lparr>clock_resume_pending := False, ula_per_cycle := False\<rparr>)))"
    using frame_scan [of "e\<lparr>clock_resume_pending := False, ula_per_cycle := False\<rparr>" "[64, 2, 62]"]
    by (simp add: ula_cycle_in_use_def upt_rec)
qed

text \<open>
  C27: With the sequencer and any peripherals, \<open>emu_step\<close> returns; the beam counters then tell the cycle
  of the frame (lines rendered, ULA-NG line, next boundary), in line mode and in cell mode, and unless
  the CPU halted the beam has moved by exactly the cycles of the instruction.
\<close>

theorem emu_step_beam:
  assumes "beam_at e" "ms_enabled (cpu (core e))" "ms_wf (cpu (core e))"
  shows "\<exists>n e'. emu_step hk e = Some (n, e') \<and> beam_at e' \<and>
    (halted (cpu (core e')) \<or> raster_cycle e' = raster_cycle e + int n \<and> \<not> ms_active (cpu (core e')))"
  using emu_step_loop_ends [OF assms, of hk] by (auto simp: emu_step_def)

text \<open>From power-on, with any configuration of the bus.\<close>

lemma emu_step_beam_witness:
  "\<forall>(cfg :: (ula_ng_t \<times> unit) oric_config) (e :: unit emulator_t).
    \<exists>n e'. emu_step (oric_hooks cfg) (frame_start (e\<lparr>core := (core e)\<lparr>cpu := cpu_init\<rparr>\<rparr>)) = Some (n, e') \<and> beam_at e' \<and>
      (halted (cpu (core e')) \<or> raster_cycle e' = int n \<and> \<not> ms_active (cpu (core e')))"
proof (intro allI)
  fix cfg :: "(ula_ng_t \<times> unit) oric_config" and e :: "unit emulator_t"
  define e0 where "e0 = frame_start (e\<lparr>core := (core e)\<lparr>cpu := cpu_init\<rparr>\<rparr>)"
  have "beam_at e0" "ms_enabled (cpu (core e0))" "ms_wf (cpu (core e0))" "raster_cycle e0 = 0"
    by (simp_all add: e0_def frame_start_def beam_at_iff cpu_init_def ms_wf_def)
  then show "\<exists>n e'. emu_step (oric_hooks cfg) e0 = Some (n, e') \<and> beam_at e' \<and>
      (halted (cpu (core e')) \<or> raster_cycle e' = int n \<and> \<not> ms_active (cpu (core e')))"
    using emu_step_beam [of e0 "oric_hooks cfg"] by simp
qed

end
