(* ===== verification/Cassette_Properties.thy ===== *)
theory Cassette_Properties
  imports Cassette
begin

unbundle bit_operations_syntax

text \<open>Properties of the cassette signal: parity of the frames, and a tape played and captured again.\<close>

unbundle bit_operations_syntax

text \<open>
  Rules of the cassette signal: the pulses of a tape, and the bytes that the decoder finds in them.
\<close>

section \<open>The pulses of a tape\<close>

text \<open>The level and the duration of the next \<open>n\<close> half-pulses.\<close>

fun wave :: "nat \<Rightarrow> cassette_t \<Rightarrow> (bool \<times> int) list" where
  "wave 0 c = []"
| "wave (Suc n) c = (let (dur, level, c1) = cassette_step c in (level, dur) # wave n c1)"

definition frame_bits :: "u8 \<Rightarrow> bool list" where
  "frame_bits b = map (\<lambda>i. drop_bit i (cassette_encode_frame b) AND 1 \<noteq> 0) [0..<14]"

definition pulse :: "bool \<Rightarrow> (bool \<times> int) list" where
  "pulse b = [(False, 208), (True, if b then 208 else 416)]"

text \<open>The bytes still to be played.\<close>

definition bytes_left :: "cassette_t \<Rightarrow> u8 list" where
  "bytes_left c = replicate (nat (leader_left c)) CAS_SYNC_BYTE @ drop (nat (byte_pos c)) (cas_buf c)"

definition tape_ok :: "cassette_t \<Rightarrow> bool" where
  "tape_ok c \<longleftrightarrow> cas_len c = int (length (cas_buf c)) \<and> 0 \<le> byte_pos c"

lemma wave_bit:
  assumes "0 \<le> bit_pos c" "bit_pos c < 14" "half c = 0"
  shows "wave (Suc (Suc n)) c =
    pulse (drop_bit (nat (bit_pos c)) (cas_frame c) AND 1 \<noteq> 0) @ wave n (c\<lparr>bit_pos := bit_pos c + 1\<rparr>)"
  using assms by (cases c) (simp add: cassette_step_def half_pulse_def pulse_def Let_def)

lemma wave_bits:
  assumes "p \<le> 14" "bit_pos c = int p" "half c = 0"
  shows "wave (2 * (14 - p) + n) c =
    concat (map (\<lambda>i. pulse (drop_bit i (cas_frame c) AND 1 \<noteq> 0)) [p..<14]) @ wave n (c\<lparr>bit_pos := 14\<rparr>)"
  using assms
proof (induction "14 - p" arbitrary: p c)
  case 0
  then show ?case by (cases c) simp
next
  case (Suc k)
  have p: "p < 14" using Suc by simp
  have s: "2 * (14 - p) + n = Suc (Suc (2 * (14 - Suc p) + n))" using p by simp
  have "wave (2 * (14 - p) + n) c = pulse (drop_bit p (cas_frame c) AND 1 \<noteq> 0) @ wave (2 * (14 - Suc p) + n) (c\<lparr>bit_pos := int (Suc p)\<rparr>)"
    unfolding s using wave_bit [of c] Suc.prems p by (simp add: add.commute)
  also have "wave (2 * (14 - Suc p) + n) (c\<lparr>bit_pos := int (Suc p)\<rparr>) =
      concat (map (\<lambda>i. pulse (drop_bit i (cas_frame c) AND 1 \<noteq> 0)) [Suc p..<14]) @ wave n (c\<lparr>bit_pos := 14\<rparr>)"
    using Suc.hyps(1) [of "Suc p" "c\<lparr>bit_pos := int (Suc p)\<rparr>"] Suc.hyps(2) Suc.prems(3) p by simp
  finally show ?case using p by (simp add: upt_rec [of p])
qed

lemma load_next:
  assumes "tape_ok c" "bytes_left c = b # bs"
  shows "\<exists>c1. load_frame c = Some c1 \<and> tape_ok c1 \<and> bytes_left c1 = bs \<and> cas_frame c1 = cassette_encode_frame b \<and>
    bit_pos c1 = 0 \<and> half c1 = 0"
proof (cases "leader_left c > 0")
  case True
  then have "nat (leader_left c) = Suc (nat (leader_left c - 1))" by simp
  then show ?thesis using assms True by (simp add: load_frame_def bytes_left_def tape_ok_def Let_def)
next
  case False
  then have d: "drop (nat (byte_pos c)) (cas_buf c) = b # bs" using assms(2) by (simp add: bytes_left_def)
  then have l: "nat (byte_pos c) < length (cas_buf c)" by (metis drop_all leI list.discI)
  have "cas_buf c ! nat (byte_pos c) = b" "drop (nat (byte_pos c + 1)) (cas_buf c) = bs"
    using d l assms(1) by (simp_all add: tape_ok_def nat_add_distrib Cons_nth_drop_Suc [symmetric] del: Cons_nth_drop_Suc)
  then show ?thesis using False l assms(1) by (simp add: load_frame_def bytes_left_def tape_ok_def Let_def)
qed

lemma wave_frames:
  assumes "tape_ok c" "bytes_left c = bs" "bit_pos c = 14" "half c = 0"
  shows "wave (28 * length bs) c = concat (map pulse (concat (map frame_bits bs)))"
  using assms
proof (induction bs arbitrary: c)
  case (Cons b bs)
  obtain c1 where c1: "load_frame c = Some c1" "tape_ok c1" "bytes_left c1 = bs" "cas_frame c1 = cassette_encode_frame b"
    "bit_pos c1 = 0" "half c1 = 0"
    using load_next [OF Cons.prems(1,2)] by blast
  have step: "cassette_step c = cassette_step c1"
    using c1 Cons.prems(3) by (simp add: cassette_step_def)
  have "wave n c = wave n c1" for n by (cases n) (simp_all add: step)
  then have "wave (28 * length (b # bs)) c = wave (2 * (14 - 0) + 28 * length bs) c1" by simp
  also have "... = concat (map (\<lambda>i. pulse (drop_bit i (cas_frame c1) AND 1 \<noteq> 0)) [0..<14]) @ wave (28 * length bs) (c1\<lparr>bit_pos := 14\<rparr>)"
    using c1 by (intro wave_bits) simp_all
  also have "concat (map (\<lambda>i. pulse (drop_bit i (cas_frame c1) AND 1 \<noteq> 0)) [0..<14]) = concat (map pulse (frame_bits b))"
    by (simp add: frame_bits_def c1 comp_def del: upt.simps)
  also have "wave (28 * length bs) (c1\<lparr>bit_pos := 14\<rparr>) = concat (map pulse (concat (map frame_bits bs)))"
    using c1 by (intro Cons.IH) (simp_all add: tape_ok_def bytes_left_def)
  finally show ?case by simp
qed simp

section \<open>The decoder\<close>

text \<open>A VIA whose PB7 has a given level.\<close>

definition pb7_via :: "bool \<Rightarrow> via6522_t" where
  "pb7_via level = via_init\<lparr>acr := 0x80, pb7_pin := level\<rparr>"

lemma pb7_via [simp]: "via_get_pb7 (pb7_via level) = level"
  by (simp add: pb7_via_def via_get_pb7_def)

abbreviation roomy :: "int \<Rightarrow> bool" where "roomy \<equiv> \<lambda>_. True"

text \<open>The half-pulses from time \<open>t\<close> on, each sampled once, some cycles late.\<close>

fun sampled :: "nat \<Rightarrow> nat list \<Rightarrow> (bool \<times> int) list \<Rightarrow> tape_capture_t \<Rightarrow> tape_capture_t" where
  "sampled t (d # ds) ((level, dur) # ps) tc =
     sampled (t + nat dur) ds ps (tape_capture_sample roomy (pb7_via level) (of_nat (t + d)) tc)"
| "sampled t _ _ tc = tc"

text \<open>The decoder between two rising edges, its bookkeeping set aside.\<close>

definition tracking :: "nat \<Rightarrow> tape_capture_t \<Rightarrow> tape_capture_t" where
  "tracking rise tc = tc\<lparr>capturing := True, primed := True, last_pb7 := True, have_prev_edge := True, prev_edge_cyc := of_nat rise\<rparr>"

lemma bit_tracking: "tape_capture_bit al b (tracking r tc) = tracking r (tape_capture_bit al b tc)"
  by (simp add: tape_capture_bit_def tape_capture_emit_def tracking_def Let_def)

lemma period_bit:
  assumes "p < 95 + 1 + 416" shows "(of_nat (r + p) - of_nat r :: 64 word) < 512"
proof -
  have "(of_nat (r + p) - of_nat r :: 64 word) = of_nat p" by simp
  moreover have "unat (of_nat p :: 64 word) = p" using assms by (simp add: unat_of_nat)
  ultimately show ?thesis using assms by (simp add: word_less_nat_alt)
qed

lemma period_no_bit:
  assumes "512 \<le> p" "p < 1000" shows "\<not> (of_nat (r + p) - of_nat r :: 64 word) < 512"
proof -
  have "(of_nat (r + p) - of_nat r :: 64 word) = of_nat p" by simp
  moreover have "unat (of_nat p :: 64 word) = p" using assms by (simp add: unat_of_nat)
  ultimately show ?thesis using assms by (simp add: word_less_nat_alt)
qed

text \<open>The rising edge in the middle of a bit tells the bit before it.\<close>

lemma sampled_bit:
  assumes "d \<le> 95" "d1 \<le> 95" "d2 \<le> 95"
  shows "sampled (r + (if b then 208 else 416)) (d1 # d2 # ds) (pulse b' @ ps) (tracking (r + d) tc) =
    sampled (r + (if b then 208 else 416) + 208 + (if b' then 208 else 416)) ds ps
      (tracking (r + (if b then 208 else 416) + 208 + d2) (tape_capture_bit roomy b tc))"
proof -
  define q where "q = (if b then 208 else 416 :: nat)"
  define e where "e = q + 208 + d2 - d"
  have e: "r + q + 208 + d2 = (r + d) + e" using assms by (simp add: e_def q_def)
  have per: "((of_nat (r + q + 208 + d2) - of_nat (r + d) :: 64 word) < 512) = b"
  proof (cases b)
    case True
    then have "e < 95 + 1 + 416" using assms by (simp add: e_def q_def)
    from period_bit [OF this, of "r + d"] show ?thesis using True unfolding e by simp
  next
    case False
    then have "512 \<le> e" "e < 1000" using assms by (simp_all add: e_def q_def)
    from period_no_bit [OF this, of "r + d"] show ?thesis using False unfolding e by simp
  qed
  have low: "tape_capture_sample roomy (pb7_via False) c (tracking (r + d) tc) = (tracking (r + d) tc)\<lparr>last_pb7 := False\<rparr>" for c
    by (simp add: tape_capture_sample_def tracking_def Let_def)
  have high: "tape_capture_sample roomy (pb7_via True) (of_nat (r + q + 208 + d2)) ((tracking (r + d) tc)\<lparr>last_pb7 := False\<rparr>) =
      tape_capture_bit roomy ((of_nat (r + q + 208 + d2) - of_nat (r + d) :: 64 word) < 512) (tracking (r + q + 208 + d2) tc)"
    by (cases tc) (simp add: tape_capture_sample_def tracking_def Let_def)
  have "sampled (r + q) (d1 # d2 # ds) (pulse b' @ ps) (tracking (r + d) tc) =
      sampled (r + q + 208 + (if b' then 208 else 416)) ds ps
        (tape_capture_sample roomy (pb7_via True) (of_nat (r + q + 208 + d2)) ((tracking (r + d) tc)\<lparr>last_pb7 := False\<rparr>))"
    by (simp add: pulse_def low del: of_nat_add)
  then show ?thesis unfolding q_def [symmetric] by (simp only: high per bit_tracking)
qed

lemma sampled_bits:
  assumes "list_all (\<lambda>d. d \<le> 95) ds" "length ds = 2 * length bs" "d \<le> 95"
  shows "\<exists>r. sampled (t + (if b then 208 else 416)) ds (concat (map pulse bs)) (tracking (t + d) tc) =
    tracking r (fold (tape_capture_bit roomy) (butlast (b # bs)) tc)"
  using assms
proof (induction bs arbitrary: b ds d t tc)
  case Nil
  then show ?case by auto
next
  case (Cons b' bs)
  obtain d1 d2 ds' where ds: "ds = d1 # d2 # ds'" using Cons.prems(2) by (cases ds; cases "tl ds") auto
  have "\<exists>r. sampled (t + (if b then 208 else 416) + 208 + (if b' then 208 else 416)) ds' (concat (map pulse bs))
      (tracking (t + (if b then 208 else 416) + 208 + d2) (tape_capture_bit roomy b tc)) =
    tracking r (fold (tape_capture_bit roomy) (butlast (b' # bs)) (tape_capture_bit roomy b tc))"
    using Cons.prems by (intro Cons.IH) (simp_all add: ds)
  then show ?case
    using Cons.prems sampled_bit [of d d1 d2 t b ds' b' "concat (map pulse bs)" tc] by (simp add: ds)
qed

section \<open>Frames\<close>

text \<open>The decoder hunting for a start bit, with the bytes it has found.\<close>

definition hunting :: "u8 list \<Rightarrow> tape_capture_t \<Rightarrow> bool" where
  "hunting os tc \<longleftrightarrow> cap_state tc = 0 \<and> cap_out tc = os"

lemma idle_bit: "hunting os tc \<Longrightarrow> tape_capture_bit roomy True tc = tc"
  by (simp add: hunting_def tape_capture_bit_def)

text \<open>The fourteen bits: start, data from the low end, parity, four stop bits.\<close>

lemma frame_bits_eq:
  "\<exists>p. frame_bits b = False # map (bit b) [0..<8] @ p # [True, True, True, True]"
proof -
  have f: "(drop_bit i w AND 1 \<noteq> 0) = bit w i" for i and w :: u16
    by (simp add: and_one_eq mod_2_eq_odd bit_iff_odd_drop_bit)
  define q where "q = (ucast ((fold (\<lambda>i n. n + (drop_bit i b AND 1)) [0..<8] 0 :: u8) AND 1) XOR 1 :: u16)"
  define d where "d = (push_bit 1 (ucast b) :: u16)"
  have d: "bit d (Suc i) = (Suc i < 16 \<and> bit b i)" "\<not> bit d 0" for i
    unfolding d_def bit_push_bit_iff bit_ucast_iff possible_bit_word by auto
  have e: "cassette_encode_frame b = (d AND 0x01FE OR push_bit 9 q) OR 0x3C00"
    unfolding cassette_encode_frame_def Let_def q_def d_def by (rule refl)
  show ?thesis unfolding frame_bits_def f e
    by (simp add: upt_rec bit_simps d)
qed

text \<open>Eight bits shifted in from the high end are the byte.\<close>

lemma bit_shifted: "bit (drop_bit 1 v OR (if c then 0x80 else 0)) n = (if n = 7 then c else bit v (Suc n))" for v :: u8
proof (cases "n = 7")
  case True
  have "\<not> bit v 8" using bit_imp_le_length [of v 8] by auto
  then show ?thesis using True by (simp add: bit_or_iff bit_drop_bit_eq)
next
  case False
  have "bit (0x80 :: u8) n = (n = 7)" using bit_imp_le_length [of "0x80 :: u8" n]
    by (cases "n < 8") (auto simp: less_Suc_eq numeral_eq_Suc bit_Suc)
  then show ?thesis using False by (auto simp: bit_or_iff bit_drop_bit_eq)
qed

lemma shifted_in:
  "fold (\<lambda>i v. drop_bit 1 v OR (if bit b i then 0x80 else 0)) [0..<8] v = b" for b v :: u8
proof (rule bit_word_eqI)
  fix n assume "n < LENGTH(8)"
  then have "n \<in> {0, 1, 2, 3, 4, 5, 6, 7}" by auto
  then show "bit (fold (\<lambda>i v. drop_bit 1 v OR (if bit b i then 0x80 else 0)) [0..<8] v) n = bit b n"
    by (simp add: upt_rec bit_shifted del: One_nat_def) ((elim disjE; simp add: bit_shifted), simp_all add: numeral_eq_Suc)
qed

lemma data_bits:
  assumes "cap_state tc = 1" "bitcount tc = int k" "length bs \<le> 7 - k"
  shows "fold (tape_capture_bit roomy) bs tc =
    tc\<lparr>cur_byte := fold (\<lambda>c v. drop_bit 1 v OR (if c then 0x80 else 0)) bs (cur_byte tc), bitcount := int (k + length bs)\<rparr>"
  using assms
proof (induction bs arbitrary: k tc)
  case Nil
  then show ?case by (cases tc) simp
next
  case (Cons c bs)
  define t1 where "t1 = tc\<lparr>cur_byte := drop_bit 1 (cur_byte tc) OR (if c then 0x80 else 0), bitcount := int (Suc k)\<rparr>"
  have "tape_capture_bit roomy c tc = t1"
    using Cons.prems by (simp add: tape_capture_bit_def Let_def t1_def add.commute)
  then show ?case using Cons.IH [of t1 "Suc k"] Cons.prems by (simp add: t1_def)
qed

text \<open>A frame from the hunt: the byte is emitted and the hunt starts again.\<close>

lemma frame_found:
  assumes "hunting os tc"
  shows "hunting (os @ [b]) (fold (tape_capture_bit roomy) (frame_bits b) tc)"
    "hunting (os @ [b]) (fold (tape_capture_bit roomy) (butlast (frame_bits b)) tc)"
proof -
  obtain p where p: "frame_bits b = False # map (bit b) [0..<8] @ p # [True, True, True, True]"
    using frame_bits_eq by blast
  define t1 where "t1 = tc\<lparr>cap_state := 1, bitcount := 0, cur_byte := 0\<rparr>"
  have t1: "tape_capture_bit roomy False tc = t1"
    using assms by (simp add: hunting_def tape_capture_bit_def t1_def)
  have u: "[0..<8] = [0..<7] @ [7 :: nat]" by (simp add: upt_rec)
  define t2 where "t2 = fold (tape_capture_bit roomy) (map (bit b) [0..<7]) t1"
  have t2: "t2 = t1\<lparr>cur_byte := fold (\<lambda>i v. drop_bit 1 v OR (if bit b i then 0x80 else 0)) [0..<7] 0, bitcount := 7\<rparr>"
    unfolding t2_def using data_bits [of t1 0 "map (bit b) [0..<7]"]
    by (simp add: t1_def fold_map comp_def del: upt.simps upt_Suc)
  define t3 where "t3 = tape_capture_bit roomy (bit b 7) t2"
  have "drop_bit 1 (cur_byte t2) OR (if bit b 7 then 0x80 else 0) = b"
    using shifted_in [of b 0] unfolding u t2 by simp
  then have t3: "cap_state t3 = 2" "cap_out t3 = os @ [b]"
    using assms unfolding t3_def
    by (simp_all add: tape_capture_bit_def Let_def t2 t1_def tape_capture_emit_def hunting_def)
  define t4 where "t4 = tape_capture_bit roomy p t3"
  have t4: "hunting (os @ [b]) t4" using t3 by (simp add: t4_def tape_capture_bit_def hunting_def)
  have f: "fold (tape_capture_bit roomy) (map (bit b) [0..<8]) t1 = t3"
    unfolding u by (simp add: t3_def t2_def)
  have "fold (tape_capture_bit roomy) (frame_bits b) tc = fold (tape_capture_bit roomy) [True, True, True, True] t4"
    "fold (tape_capture_bit roomy) (butlast (frame_bits b)) tc = fold (tape_capture_bit roomy) [True, True, True] t4"
    unfolding p by (simp_all add: t1 f butlast_append t4_def del: fold_simps(2))
  then show "hunting (os @ [b]) (fold (tape_capture_bit roomy) (frame_bits b) tc)"
    "hunting (os @ [b]) (fold (tape_capture_bit roomy) (butlast (frame_bits b)) tc)"
    using t4 idle_bit [OF t4] by simp_all
qed

lemma frames_found:
  assumes "hunting os tc"
  shows "hunting (os @ bs) (fold (tape_capture_bit roomy) (concat (map frame_bits bs)) tc)"
  using assms
proof (induction bs arbitrary: os tc)
  case (Cons b bs)
  then show ?case using Cons.IH [OF frame_found(1) [OF Cons.prems, of b]] by simp
qed simp

lemma frame_bits_length: "length (frame_bits b) = 14"
  by (simp add: frame_bits_def)

lemma frames_but_last:
  assumes "hunting os tc" "bs \<noteq> []"
  shows "hunting (os @ bs) (fold (tape_capture_bit roomy) (butlast (concat (map frame_bits bs))) tc)"
proof -
  obtain cs b where bs: "bs = cs @ [b]" using assms(2) by (cases bs rule: rev_cases) auto
  have "frame_bits b \<noteq> []" using frame_bits_length [of b] by auto
  then show ?thesis
    using frame_found(2) [OF frames_found [OF assms(1), of cs], of b] by (simp add: bs butlast_append)
qed

text \<open>A whole tape from an armed decoder, the first sample only telling the idle level.\<close>

lemma tape_found:
  assumes ds: "list_all (\<lambda>d. d \<le> 95) ds" "length ds = 28 * length bs" and bs: "bs \<noteq> []"
  shows "cap_out (sampled t ds (concat (map pulse (concat (map frame_bits bs)))) (tape_capture_begin roomy)) = bs"
proof -
  define w where "w = concat (map frame_bits bs)"
  have lw: "length w = 14 * length bs" unfolding w_def by (induction bs) (simp_all add: frame_bits_length)
  obtain b ws where w: "w = b # ws" using lw bs by (cases w) auto
  obtain d1 d2 ds' where d: "ds = d1 # d2 # ds'" using ds(2) bs by (cases ds; cases "tl ds"; cases bs) auto
  define tc where "tc = tape_capture_begin roomy"
  define t2 where "t2 = t + 208"
  have "sampled t ds (concat (map pulse w)) tc =
      sampled (t2 + (if b then 208 else 416)) ds' (concat (map pulse ws)) (tracking (t2 + d2) tc)"
    unfolding w d by (simp add: pulse_def tape_capture_sample_def tc_def tape_capture_begin_def tape_capture_init_def tracking_def t2_def)
  moreover obtain r where "sampled (t2 + (if b then 208 else 416)) ds' (concat (map pulse ws)) (tracking (t2 + d2) tc) =
      tracking r (fold (tape_capture_bit roomy) (butlast w) tc)"
    using sampled_bits [of ds' ws d2 t2 b tc] ds lw unfolding w d by auto
  moreover have "hunting ([] @ bs) (fold (tape_capture_bit roomy) (butlast w) tc)"
    unfolding w_def by (rule frames_but_last [OF _ bs]) (simp add: hunting_def tc_def tape_capture_begin_def tape_capture_init_def)
  ultimately show ?thesis by (simp add: w_def [symmetric] tc_def [symmetric] hunting_def tracking_def)
qed

definition odd_ones :: "bool list \<Rightarrow> bool" where
  "odd_ones bs = fold (\<lambda>x y. x \<noteq> y) bs False"

lemma frame_odd_parity: "odd_ones (take 9 (drop 1 (frame_bits b)))"
proof -
  have f: "(drop_bit i w AND 1 \<noteq> 0) = bit w i" for i and w :: u16
    by (simp add: and_one_eq mod_2_eq_odd bit_iff_odd_drop_bit)
  have g: "drop_bit i b AND 1 = of_bool (bit b i)" for i
    by (simp add: and_one_eq mod_2_eq_odd bit_iff_odd_drop_bit)
  define n where "n = (fold (\<lambda>i n. n + (drop_bit i b AND 1)) [0..<8] 0 :: u8)"
  have n: "odd n = odd_ones (map (bit b) [0..<8])"
    unfolding n_def g by (simp add: upt_rec odd_ones_def even_add)
  define q where "q = (ucast (n AND 1) XOR 1 :: u16)"
  have q: "bit q 0 = even n"
  proof -
    have "n AND 1 = of_bool (odd n)" by (simp add: and_one_eq mod_2_eq_odd)
    then show ?thesis unfolding q_def by (cases "odd n") simp_all
  qed
  define d where "d = (push_bit 1 (ucast b) :: u16)"
  have d: "bit d (Suc i) = (Suc i < 16 \<and> bit b i)" for i
    unfolding d_def bit_push_bit_iff bit_ucast_iff possible_bit_word by auto
  have e: "cassette_encode_frame b = (d AND 0x01FE OR push_bit 9 q) OR 0x3C00"
    unfolding cassette_encode_frame_def Let_def q_def d_def n_def by (rule refl)
  have "take 9 (drop 1 (frame_bits b)) = map (bit b) [0..<8] @ [bit q 0]"
    unfolding frame_bits_def f e by (simp add: upt_rec bit_simps d)
  then have "odd_ones (take 9 (drop 1 (frame_bits b))) = (odd_ones (map (bit b) [0..<8]) \<noteq> bit q 0)"
    by (simp add: odd_ones_def) blast
  then show ?thesis unfolding q n [symmetric] by blast
qed

text \<open>
  C28: A tape played by the generator and captured by the decoder comes back byte for byte behind its 64
  synchronisation bytes, whatever the tape, the start cycle and the sampling, as long as every half-pulse
  is sampled at most 95 cycles late; and every frame has odd parity.
\<close>

theorem tape_roundtrip:
  assumes "list_all (\<lambda>d. d \<le> 95) ds" "length ds = 28 * (64 + length buf)"
  shows "cap_out (sampled t ds (wave (28 * (64 + length buf)) (cassette_signal_begin buf (int (length buf)) c))
      (tape_capture_begin roomy)) = replicate 64 CAS_SYNC_BYTE @ buf \<and>
    odd_ones (take 9 (drop 1 (frame_bits b)))"
proof -
  define c0 where "c0 = cassette_signal_begin buf (int (length buf)) c"
  have "bytes_left c0 = replicate 64 CAS_SYNC_BYTE @ buf" "tape_ok c0" "bit_pos c0 = 14" "half c0 = 0"
    by (simp_all add: c0_def cassette_signal_begin_def cassette_rewind_def bytes_left_def tape_ok_def)
  from wave_frames [OF this(2,1,3,4)]
  have "wave (28 * (64 + length buf)) c0 = concat (map pulse (concat (map frame_bits (replicate 64 CAS_SYNC_BYTE @ buf))))"
    by simp
  then show ?thesis
    using tape_found [of ds "replicate 64 CAS_SYNC_BYTE @ buf" t] assms frame_odd_parity by (simp add: c0_def [symmetric])
qed

text \<open>Two bytes, every sample 40 cycles late.\<close>

lemma tape_roundtrip_witness:
  "\<forall>c. cap_out (sampled 1000 (replicate 1848 40) (wave 1848 (cassette_signal_begin [0x24, 0xA5] 2 c)) (tape_capture_begin roomy)) =
    replicate 64 CAS_SYNC_BYTE @ [0x24, 0xA5]"
  using tape_roundtrip [of "replicate 1848 40" "[0x24, 0xA5]" 1000] by (simp add: list_all_iff)

end
