(* ===== verification/Control_Queue.thy ===== *)
theory Control_Queue
  imports Main
begin

text \<open>
  The command queue of the HTTP interface (\<open>include/control_queue.h\<close>, \<open>src/control_queue.c\<close>): producers
  that submit a command and block, and the emulator thread that drains the queue between two frames.
  A critical section of the mutex is one step.  Each command has its condition variable: a producer that finds
  its command not done sleeps on it, and goes back to its test only when the variable is signalled or by a
  spurious wakeup.  The commands are numbered in the order of their submission.  \<open>dispatch\<close> stands for
  \<open>control_dispatch\<close>, run by the emulator thread outside the lock: the reply, the result and the
  emulator after a command.
\<close>

section \<open>State\<close>

datatype control_result_t = CONTROL_CONTINUE | CONTROL_RESUME | CONTROL_QUIT

record control_cmd_t =
  cmd_line :: string
  reply :: string
  result :: control_result_t
  cmd_done :: bool

text \<open>
  A producer is outside \<open>control_queue_submit\<close>, asleep in it on the condition variable of a command, awake
  again before it has looked at the command, or back with what the call returns (no command when the queue was
  shutting down).
\<close>

datatype producer = Outside | Waiting nat | Signalled nat | Back "nat option" control_result_t string

text \<open>
  The emulator thread is not in \<open>control_queue_drain\<close>, at the head of its loop (batch, processed), or has
  taken a command, or has run it.
\<close>

datatype consumer = Resting | Looping nat nat | Popped nat nat nat | Ran nat nat nat

record ('p, 'e) cq =
  items :: "nat \<Rightarrow> control_cmd_t"
  submitted :: nat
  queued :: "nat list"
  q_count :: int
  shutting_down :: bool
  producers :: "'p \<Rightarrow> producer"
  emulator :: consumer
  emu_state :: 'e

type_synonym 'e dispatcher = "'e \<Rightarrow> string \<Rightarrow> string \<times> control_result_t \<times> 'e"

definition control_queue_create :: "'e \<Rightarrow> ('p, 'e) cq" where
  "control_queue_create e = \<lparr>items = (\<lambda>_. \<lparr>cmd_line = '''', reply = '''', result = CONTROL_CONTINUE, cmd_done = False\<rparr>),
     submitted = 0, queued = [], q_count = 0, shutting_down = False, producers = (\<lambda>_. Outside), emulator = Resting,
     emu_state = e\<rparr>"

section \<open>Critical sections\<close>

definition dequeue_locked :: "('p, 'e) cq \<Rightarrow> (nat \<times> ('p, 'e) cq) option" where
  "dequeue_locked q =
     (case queued q of [] \<Rightarrow> None | i # is \<Rightarrow> Some (i, q\<lparr>queued := is, q_count := q_count q - 1\<rparr>))"

text \<open>\<open>pthread_cond_signal\<close> on the variable of a command; it does nothing when nobody sleeps on it.\<close>

definition cond_signal :: "nat \<Rightarrow> ('p, 'e) cq \<Rightarrow> ('p, 'e) cq" where
  "cond_signal i q =
     q\<lparr>producers := (\<lambda>p. if producers q p = Waiting i then Signalled i else producers q p)\<rparr>"

definition mark_done :: "nat \<Rightarrow> ('p, 'e) cq \<Rightarrow> ('p, 'e) cq" where
  "mark_done i q = cond_signal i (q\<lparr>items := (items q)(i := (items q i)\<lparr>cmd_done := True\<rparr>)\<rparr>)"

definition release :: "nat \<Rightarrow> ('p, 'e) cq \<Rightarrow> ('p, 'e) cq" where
  "release i q =
     cond_signal i (q\<lparr>items := (items q)(i := (items q i)\<lparr>result := CONTROL_CONTINUE, cmd_done := True\<rparr>)\<rparr>)"

definition control_queue_shutdown :: "('p, 'e) cq \<Rightarrow> ('p, 'e) cq" where
  "control_queue_shutdown q =
     (fold release (queued q) (q\<lparr>shutting_down := True\<rparr>))\<lparr>queued := [], q_count := 0\<rparr>"

text \<open>\<open>control_queue_submit\<close>: behind its loop, one round of the loop, and what comes before.\<close>

definition submit_leave :: "'p \<Rightarrow> nat \<Rightarrow> ('p, 'e) cq \<Rightarrow> ('p, 'e) cq" where
  "submit_leave p i q =
     q\<lparr>producers := (producers q)(p := Back (Some i) (result (items q i)) (reply (items q i)))\<rparr>"

definition submit_wait :: "'p \<Rightarrow> nat \<Rightarrow> ('p, 'e) cq \<Rightarrow> ('p, 'e) cq" where
  "submit_wait p i q =
     (if \<not> cmd_done (items q i) then q\<lparr>producers := (producers q)(p := Waiting i)\<rparr> else submit_leave p i q)"

definition submit_enter :: "'p \<Rightarrow> string \<Rightarrow> ('p, 'e) cq \<Rightarrow> ('p, 'e) cq" where
  "submit_enter p l q =
     (if shutting_down q then q\<lparr>producers := (producers q)(p := Back None CONTROL_CONTINUE '''')\<rparr>
      else
        let i = submitted q
        in submit_wait p i
             (q\<lparr>items := (items q)(i := \<lparr>cmd_line = l, reply = '''', result = CONTROL_CONTINUE, cmd_done = False\<rparr>),
                submitted := i + 1, queued := queued q @ [i], q_count := q_count q + 1\<rparr>))"

text \<open>The command taken is run, and its outcome is published.\<close>

definition run_command :: "'e dispatcher \<Rightarrow> nat \<Rightarrow> ('p, 'e) cq \<Rightarrow> ('p, 'e) cq" where
  "run_command dispatch i q =
     (let (r, res, e) = dispatch (emu_state q) (cmd_line (items q i))
      in q\<lparr>items := (items q)(i := (items q i)\<lparr>reply := r, result := res\<rparr>), emu_state := e\<rparr>)"

section \<open>Interleavings\<close>

text \<open>What is seen from outside: a producer calls \<open>control_queue_submit\<close>, it gets its result, the queue is shut down.\<close>

datatype 'p event = Call 'p string | Return 'p control_result_t string | Shut_down

text \<open>
  The emulator thread shuts the queue down too (\<open>emulator_cleanup\<close> of \<open>main.c\<close>, behind the loop), so never
  inside a drain.
\<close>

inductive cq_trans :: "'e dispatcher \<Rightarrow> ('p, 'e) cq \<Rightarrow> 'p event option \<Rightarrow> ('p, 'e) cq \<Rightarrow> bool" for dispatch where
  Submit: "producers q p = Outside \<Longrightarrow> cq_trans dispatch q (Some (Call p l)) (submit_enter p l q)"
| Spurious: "producers q p = Waiting i \<Longrightarrow> cq_trans dispatch q None (q\<lparr>producers := (producers q)(p := Signalled i)\<rparr>)"
| Wake: "producers q p = Signalled i \<Longrightarrow> cq_trans dispatch q None (submit_wait p i q)"
| Again: "producers q p = Back io r s \<Longrightarrow> cq_trans dispatch q (Some (Return p r s)) (q\<lparr>producers := (producers q)(p := Outside)\<rparr>)"
| Start: "emulator q = Resting \<Longrightarrow> cq_trans dispatch q None (q\<lparr>emulator := Looping (nat (q_count q)) 0\<rparr>)"
| Pop: "emulator q = Looping batch k \<Longrightarrow> k < batch \<Longrightarrow> dequeue_locked q = Some (i, q') \<Longrightarrow>
    cq_trans dispatch q None (q'\<lparr>emulator := Popped i batch k\<rparr>)"
| Dispatch: "emulator q = Popped i batch k \<Longrightarrow> cq_trans dispatch q None ((run_command dispatch i q)\<lparr>emulator := Ran i batch k\<rparr>)"
| Publish: "emulator q = Ran i batch k \<Longrightarrow> cq_trans dispatch q None ((mark_done i q)\<lparr>emulator := Looping batch (k + 1)\<rparr>)"
| Finish: "emulator q = Looping batch k \<Longrightarrow> \<not> k < batch \<or> dequeue_locked q = None \<Longrightarrow>
    cq_trans dispatch q None (q\<lparr>emulator := Resting\<rparr>)"
| Shutdown: "emulator q = Resting \<Longrightarrow> cq_trans dispatch q (Some Shut_down) (control_queue_shutdown q)"

definition cq_step :: "'e dispatcher \<Rightarrow> ('p, 'e) cq \<Rightarrow> ('p, 'e) cq \<Rightarrow> bool" where
  "cq_step dispatch q q' \<longleftrightarrow> (\<exists>ev. cq_trans dispatch q ev q')"

lemma cq_stepI: "cq_trans dispatch q ev q' \<Longrightarrow> cq_step dispatch q q'"
  by (auto simp: cq_step_def)

text \<open>A run with the events it shows.\<close>

inductive cq_trace :: "'e dispatcher \<Rightarrow> ('p, 'e) cq \<Rightarrow> 'p event list \<Rightarrow> ('p, 'e) cq \<Rightarrow> bool" for dispatch q0 where
  Begin: "cq_trace dispatch q0 [] q0"
| Step: "cq_trace dispatch q0 tr q \<Longrightarrow> cq_trans dispatch q ev q' \<Longrightarrow>
    cq_trace dispatch q0 (tr @ (case ev of None \<Rightarrow> [] | Some x \<Rightarrow> [x])) q'"

abbreviation cq_runs :: "'e dispatcher \<Rightarrow> ('p, 'e) cq \<Rightarrow> ('p, 'e) cq \<Rightarrow> bool" where
  "cq_runs dispatch \<equiv> (cq_step dispatch)\<^sup>*\<^sup>*"

section \<open>The specification: the commands one after the other\<close>

text \<open>The emulator after the first \<open>n\<close> commands, and the outcome of the next one.\<close>

primrec seq_state :: "'e dispatcher \<Rightarrow> 'e \<Rightarrow> (nat \<Rightarrow> string) \<Rightarrow> nat \<Rightarrow> 'e" where
  "seq_state d e ls 0 = e"
| "seq_state d e ls (Suc n) = snd (snd (d (seq_state d e ls n) (ls n)))"

definition answer_of :: "'e dispatcher \<Rightarrow> 'e \<Rightarrow> string \<Rightarrow> string \<times> control_result_t" where
  "answer_of d e l = (let (r, res, _) = d e l in (r, res))"

definition seq_outcome :: "'e dispatcher \<Rightarrow> 'e \<Rightarrow> (nat \<Rightarrow> string) \<Rightarrow> nat \<Rightarrow> string \<times> control_result_t" where
  "seq_outcome d e ls n = answer_of d (seq_state d e ls n) (ls n)"

definition lines :: "('p, 'e) cq \<Rightarrow> nat \<Rightarrow> string" where
  "lines q i = cmd_line (items q i)"

text \<open>The lines that were called with before the queue was shut down, in the order of the calls.\<close>

fun calls :: "'p event list \<Rightarrow> string list" where
  "calls [] = []"
| "calls (Call p l # tr) = l # calls tr"
| "calls (Return p r s # tr) = calls tr"
| "calls (Shut_down # tr) = []"

fun by_producer :: "'p \<Rightarrow> 'p event \<Rightarrow> bool" where
  "by_producer p (Call p' l) = (p = p')"
| "by_producer p (Return p' r s) = (p = p')"
| "by_producer p Shut_down = False"

end
