(* ===== verification/Control_Queue_Rules.thy ===== *)
theory Control_Queue_Rules
  imports Control_Queue
begin

text \<open>
  Rules of the command queue: the invariant that ties every interleaving to the sequential
  specification, and the progress of a drain.
\<close>

section \<open>The sequential specification\<close>

lemma seq_state_cong: "(\<And>i. i < n \<Longrightarrow> ls i = ls' i) \<Longrightarrow> seq_state d e ls n = seq_state d e ls' n"
  by (induction n) simp_all

lemma seq_outcome_cong: "(\<And>i. i \<le> n \<Longrightarrow> ls i = ls' i) \<Longrightarrow> seq_outcome d e ls n = seq_outcome d e ls' n"
  using seq_state_cong [of n ls ls' d e] by (simp add: seq_outcome_def)

section \<open>The invariant\<close>

text \<open>The first command not taken yet, when \<open>k\<close> have been run, and the one run but not published.\<close>

definition boundary :: "nat \<Rightarrow> ('p, 'e) cq \<Rightarrow> nat" where
  "boundary k q = (case emulator q of Popped _ _ _ \<Rightarrow> Suc k | _ \<Rightarrow> k)"

definition unpublished :: "('p, 'e) cq \<Rightarrow> nat \<Rightarrow> bool" where
  "unpublished q i = (case emulator q of Ran j _ _ \<Rightarrow> i = j | _ \<Rightarrow> False)"

definition consumer_at :: "nat \<Rightarrow> ('p, 'e) cq \<Rightarrow> bool" where
  "consumer_at k q = (case emulator q of Popped i _ _ \<Rightarrow> i = k | Ran i _ _ \<Rightarrow> Suc i = k | _ \<Rightarrow> True)"

text \<open>What the producers hold: nobody sleeps on a command that is done.\<close>

definition held :: "('p, 'e) cq \<Rightarrow> bool" where
  "held q \<longleftrightarrow> (\<forall>p i. producers q p = Waiting i \<longrightarrow> i < submitted q \<and> \<not> cmd_done (items q i)) \<and>
     (\<forall>p i. producers q p = Signalled i \<longrightarrow> i < submitted q) \<and>
     (\<forall>p i r s. producers q p = Back (Some i) r s \<longrightarrow>
        i < submitted q \<and> cmd_done (items q i) \<and> r = result (items q i) \<and> s = reply (items q i))"

text \<open>What the commands hold: their outcome once run, nothing before.\<close>

definition outcomes :: "'e dispatcher \<Rightarrow> 'e \<Rightarrow> nat \<Rightarrow> ('p, 'e) cq \<Rightarrow> bool" where
  "outcomes d e k q \<longleftrightarrow> emu_state q = seq_state d e (lines q) k \<and>
     (\<forall>i < k. (reply (items q i), result (items q i)) = seq_outcome d e (lines q) i) \<and>
     (\<forall>i. k \<le> i \<and> i < submitted q \<longrightarrow> reply (items q i) = '''' \<and> result (items q i) = CONTROL_CONTINUE) \<and>
     (\<forall>i < submitted q. cmd_done (items q i) \<longleftrightarrow> i < k \<and> \<not> unpublished q i \<or> shutting_down q \<and> boundary k q \<le> i)"

definition cq_at :: "'e dispatcher \<Rightarrow> 'e \<Rightarrow> nat \<Rightarrow> ('p, 'e) cq \<Rightarrow> bool" where
  "cq_at d e k q \<longleftrightarrow> boundary k q \<le> submitted q \<and> consumer_at k q \<and>
     queued q = (if shutting_down q then [] else [boundary k q..<submitted q]) \<and>
     q_count q = int (length (queued q)) \<and> outcomes d e k q \<and> held q"

lemmas cq_defs = cq_at_def outcomes_def held_def boundary_def unpublished_def consumer_at_def

lemma cq_at_create: "cq_at d e 0 (control_queue_create e)"
  by (simp add: cq_defs control_queue_create_def)

lemma upd_producers_outcomes [simp]:
  "outcomes d e k (q\<lparr>producers := f\<rparr>) = outcomes d e k q" "boundary k (q\<lparr>producers := f\<rparr>) = boundary k q"
  "consumer_at k (q\<lparr>producers := f\<rparr>) = consumer_at k q"
  by (simp_all add: outcomes_def lines_def [abs_def] boundary_def unpublished_def consumer_at_def)

lemma upd_producers_lines [simp]: "lines (q\<lparr>producers := f\<rparr>) = lines q"
  by (simp add: lines_def [abs_def])

lemma signal_frame [simp]:
  "items (cond_signal i q) = items q" "submitted (cond_signal i q) = submitted q" "queued (cond_signal i q) = queued q"
  "q_count (cond_signal i q) = q_count q" "shutting_down (cond_signal i q) = shutting_down q"
  "emulator (cond_signal i q) = emulator q" "emu_state (cond_signal i q) = emu_state q" "lines (cond_signal i q) = lines q"
  by (simp_all add: cond_signal_def)

lemma wait_frame [simp]:
  "items (submit_wait p i q) = items q" "submitted (submit_wait p i q) = submitted q" "queued (submit_wait p i q) = queued q"
  "q_count (submit_wait p i q) = q_count q" "shutting_down (submit_wait p i q) = shutting_down q"
  "emulator (submit_wait p i q) = emulator q" "emu_state (submit_wait p i q) = emu_state q" "lines (submit_wait p i q) = lines q"
  by (simp_all add: submit_wait_def submit_leave_def)

lemma wait_at:
  assumes "cq_at d e k q" "i < submitted q"
  shows "cq_at d e k (submit_wait p i q)"
  using assms by (simp add: submit_wait_def submit_leave_def cq_at_def) (auto simp: held_def)

lemma woken_at:
  assumes "cq_at d e k q" "producers q p = Waiting i"
  shows "cq_at d e k (q\<lparr>producers := (producers q)(p := Signalled i)\<rparr>)"
  using assms by (simp add: cq_at_def) (auto simp: held_def)

text \<open>A command behind the others.\<close>

definition enqueued :: "string \<Rightarrow> ('p, 'e) cq \<Rightarrow> ('p, 'e) cq" where
  "enqueued l q = q\<lparr>items := (items q)(submitted q := \<lparr>cmd_line = l, reply = '''', result = CONTROL_CONTINUE, cmd_done = False\<rparr>),
     submitted := submitted q + 1, queued := queued q @ [submitted q], q_count := q_count q + 1\<rparr>"

lemma enter_enqueued: "\<not> shutting_down q \<Longrightarrow> submit_enter p l q = submit_wait p (submitted q) (enqueued l q)"
  by (simp add: submit_enter_def enqueued_def Let_def)

lemma enqueued_at:
  assumes "cq_at d e k q" "\<not> shutting_down q"
  shows "cq_at d e k (enqueued l q)"
proof -
  define q' where "q' = enqueued l q"
  have q': "shutting_down q' = False" "submitted q' = Suc (submitted q)" "queued q' = queued q @ [submitted q]"
    "q_count q' = q_count q + 1" "emulator q' = emulator q" "emu_state q' = emu_state q" "producers q' = producers q"
    "items q' = (items q)(submitted q := \<lparr>cmd_line = l, reply = '''', result = CONTROL_CONTINUE, cmd_done = False\<rparr>)"
    using assms(2) by (simp_all add: q'_def enqueued_def)
  have b: "boundary k q' = boundary k q" "consumer_at k q' = consumer_at k q" "unpublished q' = unpublished q"
    by (simp_all add: boundary_def consumer_at_def unpublished_def [abs_def] q')
  have le: "k \<le> boundary k q" "boundary k q \<le> submitted q"
    using assms by (auto simp: boundary_def cq_at_def split: consumer.splits)
  have l: "lines q' i = lines q i" if "i < submitted q" for i using that by (simp add: lines_def q')
  have s: "seq_state d e (lines q') k = seq_state d e (lines q) k"
    using l le by (intro seq_state_cong) simp
  have o: "seq_outcome d e (lines q') i = seq_outcome d e (lines q) i" if "i < k" for i
    using l le that by (intro seq_outcome_cong) simp
  have un: "\<not> unpublished q (submitted q)"
    using assms by (auto simp: cq_at_def unpublished_def consumer_at_def boundary_def split: consumer.splits)
  have "outcomes d e k q'"
    using assms le un
    by (auto simp: cq_at_def outcomes_def q' b s o less_Suc_eq)
  moreover have "held q'"
    using assms by (fastforce simp: cq_at_def held_def q')
  ultimately show ?thesis
    using assms le by (simp add: q'_def [symmetric] cq_at_def q' b)
qed

lemma enter_at:
  assumes "cq_at d e k q" shows "cq_at d e k (submit_enter p l q)"
proof (cases "shutting_down q")
  case True
  then show ?thesis using assms by (simp add: submit_enter_def cq_at_def held_def)
next
  case False
  have "submitted q < submitted (enqueued l q)" by (simp add: enqueued_def)
  then show ?thesis using False assms by (simp add: enter_enqueued enqueued_at wait_at)
qed

lemma again_at: "cq_at d e k q \<Longrightarrow> cq_at d e k (q\<lparr>producers := (producers q)(p := Outside)\<rparr>)"
  by (simp add: cq_at_def) (auto simp: held_def)

text \<open>Moves of the consumer that run and publish nothing.\<close>

lemma consumer_upd:
  "lines (q\<lparr>emulator := c\<rparr>) = lines q" "held (q\<lparr>emulator := c\<rparr>) = held q"
  by (simp_all add: lines_def [abs_def] held_def)

lemma idle_at:
  assumes "cq_at d e k q" "emulator q = Resting \<or> emulator q = Looping b j" "c = Resting \<or> c = Looping b' j'"
  shows "cq_at d e k (q\<lparr>emulator := c\<rparr>)"
  using assms by (auto simp: cq_at_def outcomes_def consumer_upd boundary_def unpublished_def consumer_at_def)

lemma pop_at:
  assumes "cq_at d e k q" "emulator q = Looping b j" "dequeue_locked q = Some (i, q')"
  shows "cq_at d e k (q'\<lparr>emulator := Popped i b j\<rparr>)"
proof -
  have ne: "queued q \<noteq> []" using assms(3) by (auto simp: dequeue_locked_def)
  then have sd: "\<not> shutting_down q" and q: "queued q = [k..<submitted q]" "k < submitted q"
    using assms(1,2) by (auto simp: cq_at_def boundary_def split: if_splits)
  then have "queued q = k # [Suc k..<submitted q]" by (simp add: upt_rec)
  then have q': "i = k" "q' = q\<lparr>queued := [Suc k..<submitted q], q_count := q_count q - 1\<rparr>"
    using assms(3) by (auto simp: dequeue_locked_def)
  define r where "r = q'\<lparr>emulator := Popped i b j\<rparr>"
  have r: "items r = items q" "submitted r = submitted q" "queued r = [Suc k..<submitted q]" "q_count r = q_count q - 1"
    "shutting_down r = shutting_down q" "producers r = producers q" "emulator r = Popped k b j" "emu_state r = emu_state q"
    by (simp_all add: r_def q')
  have "lines r = lines q" by (simp add: lines_def [abs_def] r)
  then have "outcomes d e k r"
    using assms(1,2) sd by (simp add: cq_at_def outcomes_def r unpublished_def boundary_def)
  moreover have "held r" using assms(1) by (simp add: cq_at_def held_def r)
  ultimately show ?thesis
    using assms(1) sd q unfolding r_def [symmetric] by (simp add: cq_at_def boundary_def consumer_at_def r)
qed

lemma run_at:
  assumes "cq_at d e k q" "emulator q = Popped i b j"
  shows "cq_at d e (Suc k) ((run_command d i q)\<lparr>emulator := Ran i b j\<rparr>)"
proof -
  have i: "i = k" "k < submitted q" "emu_state q = seq_state d e (lines q) k"
    using assms by (auto simp: cq_at_def boundary_def consumer_at_def outcomes_def)
  obtain r res e' where d: "d (emu_state q) (cmd_line (items q k)) = (r, res, e')" by (metis prod_cases3)
  define q' where "q' = (run_command d i q)\<lparr>emulator := Ran i b j\<rparr>"
  have q': "items q' = (items q)(k := (items q k)\<lparr>reply := r, result := res\<rparr>)" "emu_state q' = e'" "emulator q' = Ran k b j"
    "submitted q' = submitted q" "queued q' = queued q" "q_count q' = q_count q" "shutting_down q' = shutting_down q"
    "producers q' = producers q"
    using d i by (simp_all add: q'_def run_command_def)
  have l: "lines q' = lines q" by (simp add: lines_def [abs_def] q' fun_eq_iff)
  have o: "seq_outcome d e (lines q) k = (r, res)" "seq_state d e (lines q) (Suc k) = e'"
    using d i by (simp_all add: seq_outcome_def answer_of_def lines_def)
  have nd: "\<not> cmd_done (items q k)"
    using assms i by (auto simp: cq_at_def outcomes_def unpublished_def boundary_def)
  have "outcomes d e (Suc k) q'"
    using assms(1,2) i nd
    by (auto simp: cq_at_def outcomes_def l o q' unpublished_def boundary_def less_Suc_eq simp del: seq_state.simps)
  moreover have "held q'"
    using assms(1) nd by (auto simp: cq_at_def held_def q')
  ultimately show ?thesis
    using assms i unfolding q'_def [symmetric] by (simp add: cq_at_def boundary_def consumer_at_def q')
qed

lemma publish_at:
  assumes "cq_at d e k q" "emulator q = Ran i b j"
  shows "cq_at d e k ((mark_done i q)\<lparr>emulator := Looping b (j + 1)\<rparr>)"
proof -
  define q' where "q' = (mark_done i q)\<lparr>emulator := Looping b (j + 1)\<rparr>"
  have i: "Suc i = k" using assms by (simp add: cq_at_def consumer_at_def)
  have l: "lines q' = lines q" by (simp add: q'_def mark_done_def cond_signal_def lines_def [abs_def] fun_eq_iff)
  have "outcomes d e k q'"
    using assms i by (auto simp: cq_at_def outcomes_def l unpublished_def boundary_def) (auto simp: q'_def mark_done_def)
  moreover have "held q'" using assms
    by (auto simp: cq_at_def held_def q'_def mark_done_def cond_signal_def split: if_splits)
  moreover have "boundary k q = k" "boundary k q' = k" "consumer_at k q'"
    using assms(2) by (simp_all add: boundary_def consumer_at_def q'_def)
  moreover have "queued q' = queued q" "submitted q' = submitted q" "q_count q' = q_count q" "shutting_down q' = shutting_down q"
    by (simp_all add: q'_def mark_done_def)
  ultimately show ?thesis
    using assms(1) unfolding q'_def [symmetric] by (simp add: cq_at_def)
qed

text \<open>Every command of the queue released, everybody who sleeps on one of them signalled.\<close>

lemma release_all:
  "fold release is q = q\<lparr>items := (\<lambda>i. if i \<in> set is then (items q i)\<lparr>result := CONTROL_CONTINUE, cmd_done := True\<rparr> else items q i),
     producers := (\<lambda>p. case producers q p of Waiting i \<Rightarrow> if i \<in> set is then Signalled i else Waiting i | x \<Rightarrow> x)\<rparr>"
proof (induction "is" arbitrary: q)
  case Nil
  show ?case by (intro cq.equality) (auto simp: fun_eq_iff split: producer.splits)
next
  case (Cons i "is")
  show ?case unfolding fold.simps comp_apply Cons.IH
    by (intro cq.equality) (auto simp: release_def cond_signal_def fun_eq_iff split: producer.splits)
qed

lemma shutdown_at:
  assumes "cq_at d e k q" "emulator q = Resting"
  shows "cq_at d e k (control_queue_shutdown q)"
proof -
  define q' where "q' = control_queue_shutdown q"
  have q': "items q' = (\<lambda>i. if i \<in> set (queued q) then (items q i)\<lparr>result := CONTROL_CONTINUE, cmd_done := True\<rparr> else items q i)"
    "submitted q' = submitted q" "queued q' = []" "q_count q' = 0" "shutting_down q'"
    "producers q' = (\<lambda>p. case producers q p of Waiting i \<Rightarrow> if i \<in> set (queued q) then Signalled i else Waiting i | x \<Rightarrow> x)"
    "emulator q' = Resting" "emu_state q' = emu_state q"
    using assms(2) by (simp_all add: q'_def control_queue_shutdown_def release_all cong: if_cong)
  have l: "lines q' = lines q" by (simp add: lines_def [abs_def] q' fun_eq_iff)
  have s: "set (queued q) = (if shutting_down q then {} else {k..<submitted q})"
    using assms by (simp add: cq_at_def boundary_def)
  have "outcomes d e k q'"
    using assms by (auto simp: cq_at_def outcomes_def l unpublished_def boundary_def q' s)
  moreover have "\<not> cmd_done (items q i)" if "i \<in> set (queued q)" for i
    using assms that s by (auto simp: cq_at_def outcomes_def boundary_def split: if_splits)
  then have nd: "i \<notin> set (queued q)" if "cmd_done (items q i)" for i using that by blast
  have "held q'" unfolding held_def
  proof (intro conjI allI impI)
    fix p i assume "producers q' p = Waiting i"
    then have w: "producers q p = Waiting i" "i \<notin> set (queued q)" by (auto simp: q' split: producer.splits if_splits)
    then show "i < submitted q'" "\<not> cmd_done (items q' i)" using assms(1) by (simp_all add: cq_at_def held_def q')
  next
    fix p i assume "producers q' p = Signalled i"
    then have "producers q p = Waiting i \<or> producers q p = Signalled i" by (auto simp: q' split: producer.splits if_splits)
    then show "i < submitted q'" using assms(1) by (auto simp: cq_at_def held_def q')
  next
    fix p i r s assume "producers q' p = Back (Some i) r s"
    then have "producers q p = Back (Some i) r s" by (simp add: q' split: producer.splits if_splits)
    then have "i < submitted q" "cmd_done (items q i)" "r = result (items q i)" "s = reply (items q i)"
      using assms(1) by (simp_all add: cq_at_def held_def q')
    then show "i < submitted q'" "cmd_done (items q' i)" "r = result (items q' i)" "s = reply (items q' i)"
      using nd [of i] by (simp_all add: q')
  qed
  ultimately show ?thesis using assms by (simp add: q'_def [symmetric] cq_at_def boundary_def consumer_at_def q')
qed

text \<open>A step: what has been run stays run, and once the queue is shutting down nothing new is taken.\<close>

lemma trans_at:
  assumes "cq_trans d q ev q'" "cq_at d e k q"
  shows "\<exists>k' \<ge> k. cq_at d e k' q' \<and> (shutting_down q \<longrightarrow> shutting_down q' \<and> boundary k' q' = boundary k q)"
  using assms(1)
proof cases
  case (Submit p l) then show ?thesis
    using enter_at [OF assms(2)] by (intro exI [of _ k]) (auto simp: submit_enter_def boundary_def)
next
  case (Spurious p i) then show ?thesis using woken_at [OF assms(2)] by (intro exI [of _ k]) simp
next
  case (Wake p i)
  then have "i < submitted q" using assms(2) by (simp add: cq_at_def held_def)
  then show ?thesis using wait_at [OF assms(2)] Wake by (intro exI [of _ k]) (simp add: boundary_def)
next
  case (Again p io r s) then show ?thesis using again_at [OF assms(2)] by (intro exI [of _ k]) simp
next
  case Start
  then show ?thesis
    using idle_at [OF assms(2), of _ _ "Looping (nat (q_count q)) 0"] by (intro exI [of _ k]) (simp add: boundary_def)
next
  case (Pop batch j i q1)
  then have "\<not> shutting_down q" using assms(2) by (auto simp: cq_at_def dequeue_locked_def)
  then show ?thesis using pop_at [OF assms(2) Pop(3,5)] Pop by (intro exI [of _ k]) simp
next
  case (Dispatch i b j)
  then show ?thesis using run_at [OF assms(2) Dispatch(3)]
    by (intro exI [of _ "Suc k"]) (simp add: boundary_def run_command_def split: prod.splits)
next
  case (Publish i b j)
  then show ?thesis using publish_at [OF assms(2) Publish(3)] by (intro exI [of _ k]) (simp add: boundary_def mark_done_def)
next
  case (Finish b j)
  then show ?thesis using idle_at [OF assms(2), of b j Resting] by (intro exI [of _ k]) (simp add: boundary_def)
next
  case Shutdown
  then show ?thesis using shutdown_at [OF assms(2)]
    by (intro exI [of _ k]) (simp add: boundary_def control_queue_shutdown_def release_all)
qed

lemma step_at: "cq_step d q q' \<Longrightarrow> cq_at d e k q \<Longrightarrow>
    \<exists>k' \<ge> k. cq_at d e k' q' \<and> (shutting_down q \<longrightarrow> shutting_down q' \<and> boundary k' q' = boundary k q)"
  using trans_at by (auto simp: cq_step_def)

lemma runs_at: "cq_runs d (control_queue_create e) q \<Longrightarrow> \<exists>k. cq_at d e k q"
proof (induction rule: rtranclp_induct)
  case base
  show ?case by (rule exI [of _ 0]) (rule cq_at_create)
next
  case (step q1 q2)
  then show ?case using step_at by metis
qed

section \<open>Progress of a drain\<close>

text \<open>The steps the emulator thread still has to make before it leaves the drain.\<close>

definition drain_left :: "('p, 'e) cq \<Rightarrow> nat" where
  "drain_left q = (case emulator q of Resting \<Rightarrow> 0 | Looping b k \<Rightarrow> 3 * (b - k) + 1
     | Popped _ b k \<Rightarrow> 3 * (b - k) | Ran _ b k \<Rightarrow> 3 * (b - k) - 1)"

text \<open>Inside the loop a command is always within the batch.\<close>

definition within_batch :: "('p, 'e) cq \<Rightarrow> bool" where
  "within_batch q = (case emulator q of Popped _ b k \<Rightarrow> k < b | Ran _ b k \<Rightarrow> k < b | _ \<Rightarrow> True)"

lemma operations_emulator [simp]:
  "emulator (submit_enter p l q) = emulator q" "emulator (control_queue_shutdown q) = emulator q"
  by (simp_all add: submit_enter_def Let_def control_queue_shutdown_def release_all)

lemma within_batch_step: "cq_step d q q' \<Longrightarrow> within_batch q \<Longrightarrow> within_batch q'"
  unfolding cq_step_def by (elim exE cq_trans.cases) (simp_all add: within_batch_def)

lemma within_batch_runs: "cq_runs d (control_queue_create e) q \<Longrightarrow> within_batch q"
proof (induction rule: rtranclp_induct)
  case base
  show ?case by (simp add: within_batch_def control_queue_create_def)
next
  case (step q1 q2)
  then show ?case by (rule_tac within_batch_step)
qed

lemma drain_left_step:
  assumes "cq_step d q q'" "within_batch q" "emulator q \<noteq> Resting" "emulator q' \<noteq> emulator q"
  shows "drain_left q' < drain_left q"
  using assms unfolding cq_step_def by (elim exE cq_trans.cases) (auto simp: drain_left_def within_batch_def split: consumer.splits)

text \<open>The emulator thread never waits inside a drain.\<close>

lemma drain_enabled:
  assumes "emulator q \<noteq> Resting" shows "\<exists>q'. cq_step d q q' \<and> emulator q' \<noteq> emulator q"
proof (cases "emulator q")
  case (Looping b k)
  show ?thesis
  proof (cases "k < b \<and> dequeue_locked q \<noteq> None")
    case True
    then obtain i q1 where "dequeue_locked q = Some (i, q1)" by auto
    then show ?thesis using cq_stepI [OF Pop [OF Looping, of i q1 d]] True Looping by force
  next
    case False
    then show ?thesis using cq_stepI [OF Finish [OF Looping, of d]] Looping by force
  qed
next
  case (Popped i b k)
  then show ?thesis using cq_stepI [OF Dispatch [OF Popped, of d]] by force
next
  case (Ran i b k)
  then show ?thesis using cq_stepI [OF Publish [OF Ran, of d]] by force
qed (use assms in simp)

section \<open>What a drain serves\<close>

text \<open>A drain that began with \<open>n\<close> commands queued behind \<open>k0\<close> run ones, in the middle of its work.\<close>

definition serving :: "'e dispatcher \<Rightarrow> 'e \<Rightarrow> nat \<Rightarrow> nat \<Rightarrow> ('p, 'e) cq \<Rightarrow> bool" where
  "serving d e k0 n q \<longleftrightarrow> (case emulator q of Resting \<Rightarrow> False
     | Looping b j \<Rightarrow> b = n \<and> j \<le> n \<and> cq_at d e (k0 + j) q
     | Popped _ b j \<Rightarrow> b = n \<and> j < n \<and> cq_at d e (k0 + j) q
     | Ran _ b j \<Rightarrow> b = n \<and> j < n \<and> cq_at d e (k0 + Suc j) q) \<and>
     (shutting_down q \<longrightarrow> n = 0) \<and> k0 + n \<le> submitted q"

lemma submit_enter_frame: "shutting_down (submit_enter p l q) = shutting_down q" "submitted q \<le> submitted (submit_enter p l q)"
  by (simp_all add: submit_enter_def Let_def)

lemma serving_step:
  assumes "cq_step d q q'" "serving d e k0 n q" "emulator q' \<noteq> Resting"
  shows "serving d e k0 n q'"
proof -
  obtain ev where "cq_trans d q ev q'" using assms(1) by (auto simp: cq_step_def)
  then show ?thesis
proof cases
  case (Submit p l)
  then have f: "shutting_down q' = shutting_down q" "submitted q \<le> submitted q'" "emulator q' = emulator q"
    by (simp_all add: submit_enter_frame)
  have "cq_at d e k q'" if "cq_at d e k q" for k using enter_at [OF that] Submit by simp
  then show ?thesis using assms(2) f(2) by (auto simp: serving_def f(1,3) split: consumer.splits)
next
  case (Spurious p i)
  then show ?thesis using assms(2) by (auto simp: serving_def intro: woken_at split: consumer.splits)
next
  case (Wake p i)
  then have f: "shutting_down q' = shutting_down q" "submitted q' = submitted q" "emulator q' = emulator q" by simp_all
  have "cq_at d e k q'" if at: "cq_at d e k q" for k
  proof -
    have "i < submitted q" using at Wake by (simp add: cq_at_def held_def)
    then show ?thesis using wait_at [OF at] Wake by simp
  qed
  then show ?thesis using assms(2) by (auto simp: serving_def f split: consumer.splits)
next
  case (Again p io r s)
  then show ?thesis using assms(2) by (auto simp: serving_def intro: again_at split: consumer.splits)
next
  case Start then show ?thesis using assms(2) by (simp add: serving_def)
next
  case (Pop b j i q1)
  then have f: "shutting_down q1 = shutting_down q" "submitted q1 = submitted q"
    by (auto simp: dequeue_locked_def split: list.splits)
  show ?thesis using assms(2) Pop pop_at [OF _ Pop(3) Pop(5)] by (simp add: serving_def f)
next
  case (Dispatch i b j)
  have "shutting_down (run_command d i q) = shutting_down q" "submitted (run_command d i q) = submitted q"
    by (simp_all add: run_command_def split: prod.splits)
  then show ?thesis using assms(2) Dispatch run_at [OF _ Dispatch(3)] by (simp add: serving_def)
next
  case (Publish i b j)
  have "shutting_down (mark_done i q) = shutting_down q" "submitted (mark_done i q) = submitted q"
    by (simp_all add: mark_done_def)
  then show ?thesis using assms(2) Publish publish_at [OF _ Publish(3)] by (simp add: serving_def)
next
  case (Finish b j) then show ?thesis using assms(3) by simp
next
  case Shutdown then show ?thesis using assms(2) by (simp add: serving_def)
qed
qed

lemma serving_start:
  assumes "cq_at d e k q" "emulator q = Resting"
  shows "serving d e k (length (queued q)) (q\<lparr>emulator := Looping (nat (q_count q)) 0\<rparr>)"
  using assms idle_at [OF assms(1), of _ _ "Looping (nat (q_count q)) 0"]
  by (auto simp: serving_def cq_at_def boundary_def)

lemma serving_finish:
  assumes "cq_step d q q'" "serving d e k0 n q" "emulator q' = Resting"
  shows "emulator q = Looping n n \<and> cq_at d e (k0 + n) q' \<and> k0 + n \<le> submitted q'"
proof -
  obtain ev where "cq_trans d q ev q'" using assms(1) by (auto simp: cq_step_def)
  then show ?thesis
proof cases
  case (Finish b j)
  have s: "b = n" "j \<le> n" "cq_at d e (k0 + j) q" "shutting_down q \<longrightarrow> n = 0" "k0 + n \<le> submitted q"
    using assms(2) Finish by (simp_all add: serving_def)
  have "j = n"
  proof (cases "j < b")
    case True
    then have "dequeue_locked q = None" using Finish by simp
    then have "queued q = []" by (auto simp: dequeue_locked_def split: list.splits)
    then have "shutting_down q \<or> [] = [k0 + j..<submitted q]"
      using s(3) Finish by (simp add: cq_at_def boundary_def split: if_splits)
    then show ?thesis using s by (auto dest: arg_cong [of _ _ length])
  qed (use s in simp)
  then show ?thesis using s Finish idle_at [OF s(3), of b j Resting] by simp
qed (use assms in \<open>auto simp: serving_def\<close>)
qed

text \<open>The states of one drain: the emulator thread has entered it and not left it.\<close>

abbreviation drain_run :: "'e dispatcher \<Rightarrow> ('p, 'e) cq \<Rightarrow> ('p, 'e) cq \<Rightarrow> bool" where
  "drain_run d \<equiv> (\<lambda>a b. cq_step d a b \<and> emulator b \<noteq> Resting)\<^sup>*\<^sup>*"

lemma serving_run: "drain_run d q q' \<Longrightarrow> serving d e k0 n q \<Longrightarrow> serving d e k0 n q'"
  by (induction rule: rtranclp_induct) (auto intro: serving_step)

section \<open>What is seen from outside\<close>

lemma trace_runs: "cq_trace d q0 tr q \<Longrightarrow> cq_runs d q0 q"
  by (induction rule: cq_trace.induct) (auto intro: rtranclp.rtrancl_into_rtrancl cq_stepI)

text \<open>A run cut at one of its events.\<close>

lemma trace_split:
  "cq_trace d q0 tr q \<Longrightarrow> tr = u @ x # v \<Longrightarrow>
   \<exists>q1 q2. cq_trace d q0 u q1 \<and> cq_trans d q1 (Some x) q2 \<and> cq_runs d q2 q"
proof (induction arbitrary: v rule: cq_trace.induct)
  case (Step tr q ev q')
  have last: "cq_runs d r q'" if "cq_runs d r q" for r
    using rtranclp.rtrancl_into_rtrancl [OF that] cq_stepI [OF Step.hyps(2)] by blast
  show ?case
  proof (cases ev)
    case None
    then show ?thesis using Step.IH [of v] Step.prems last by fastforce
  next
    case (Some y)
    show ?thesis
    proof (cases v rule: rev_cases)
      case Nil
      then have "u = tr" "x = y" using Step.prems Some by simp_all
      then show ?thesis using Step.hyps Some by blast
    next
      case (snoc w z)
      then have "tr = u @ x # w" using Step.prems Some by simp
      then show ?thesis using Step.IH [of w] last by blast
    qed
  qed
qed simp

lemma calls_append: "calls (a @ b) = calls a @ (if Shut_down \<in> set a then [] else calls b)"
  by (induction a rule: calls.induct) auto

text \<open>The call a producer is in: the last of its events, and the number its command got, if any.\<close>

definition pending :: "'p event list \<Rightarrow> 'p \<Rightarrow> nat option \<Rightarrow> bool" where
  "pending tr p io \<longleftrightarrow> (\<exists>a l b. tr = a @ Call p l # b \<and> (\<forall>x\<in>set b. \<not> by_producer p x) \<and>
     io = (if Shut_down \<in> set a then None else Some (length (calls a))))"

lemma pending_call: "pending (tr @ [Call p l]) p (if Shut_down \<in> set tr then None else Some (length (calls tr)))"
  unfolding pending_def by (rule exI [of _ tr]) simp

lemma pending_more:
  assumes "pending tr p io" "\<not> by_producer p x" shows "pending (tr @ [x]) p io"
proof -
  obtain a l b where "tr = a @ Call p l # b" "\<forall>x\<in>set b. \<not> by_producer p x"
    "io = (if Shut_down \<in> set a then None else Some (length (calls a)))"
    using assms(1) by (auto simp: pending_def)
  then show ?thesis using assms(2) unfolding pending_def
    by (intro exI [of _ a] exI [of _ l] exI [of _ "b @ [x]"]) auto
qed

lemma pending_at:
  assumes "pending (a @ Call p l # b) p io" "\<forall>x\<in>set b. \<not> by_producer p x"
  shows "io = (if Shut_down \<in> set a then None else Some (length (calls a)))"
proof -
  obtain a' l' b' where e: "a @ Call p l # b = a' @ Call p l' # b'" "\<forall>x\<in>set b'. \<not> by_producer p x"
    "io = (if Shut_down \<in> set a' then None else Some (length (calls a')))"
    using assms(1) by (auto simp: pending_def)
  have "a = a'"
    using e(1,2) assms(2) by (fastforce simp: append_eq_append_conv2 append_eq_Cons_conv Cons_eq_append_conv)
  then show ?thesis using e(3) by simp
qed

text \<open>The command a producer holds.\<close>

primrec holds :: "producer \<Rightarrow> nat option option" where
  "holds Outside = None"
| "holds (Waiting i) = Some (Some i)"
| "holds (Signalled i) = Some (Some i)"
| "holds (Back io r s) = Some io"

definition traced :: "'p event list \<Rightarrow> ('p, 'e) cq \<Rightarrow> bool" where
  "traced tr q \<longleftrightarrow> submitted q = length (calls tr) \<and> (\<forall>i < submitted q. lines q i = calls tr ! i) \<and>
     (shutting_down q \<longleftrightarrow> Shut_down \<in> set tr) \<and> (\<forall>p io. holds (producers q p) = Some io \<longrightarrow> pending tr p io) \<and>
     (\<forall>p r s. producers q p = Back None r s \<longrightarrow> r = CONTROL_CONTINUE \<and> s = '''')"

lemma holds_cond_signal [simp]: "holds (producers (cond_signal i q) p) = holds (producers q p)"
  by (simp add: cond_signal_def)

lemma holds_submit_wait [simp]:
  "holds (producers (submit_wait p i q) p') = (if p' = p then Some (Some i) else holds (producers q p'))"
  by (simp add: submit_wait_def submit_leave_def)

lemma back_none [simp]:
  "producers (cond_signal i q) p = Back None r s \<longleftrightarrow> producers q p = Back None r s"
  "producers (submit_wait p' i q) p = Back None r s \<longleftrightarrow> p \<noteq> p' \<and> producers q p = Back None r s"
  by (auto simp: cond_signal_def submit_wait_def submit_leave_def)

lemma traced_frame:
  assumes "traced tr q" "submitted q' = submitted q" "lines q' = lines q" "shutting_down q' = shutting_down q"
    "\<And>p. holds (producers q' p) = holds (producers q p)"
    "\<And>p r s. producers q' p = Back None r s \<longleftrightarrow> producers q p = Back None r s"
  shows "traced tr q'"
  using assms by (simp add: traced_def)

lemma traced_trans:
  assumes "cq_trans d q ev q'" "traced tr q"
  shows "traced (tr @ (case ev of None \<Rightarrow> [] | Some x \<Rightarrow> [x])) q'"
  using assms(1)
proof cases
  case (Submit p l)
  have pend: "pending (tr @ [Call p l]) p' io" if "holds (producers q p') = Some io" "p' \<noteq> p" for p' io
    using assms(2) that pending_more [of tr p' io "Call p l"] by (simp add: traced_def)
  have new: "pending (tr @ [Call p l]) p (if shutting_down q then None else Some (submitted q))"
    using pending_call [of tr p l] assms(2) by (auto simp: traced_def)
  show ?thesis
  proof (cases "shutting_down q")
    case True
    then show ?thesis using assms(2) Submit pend new by (auto simp: traced_def submit_enter_def calls_append)
  next
    case False
    have l: "lines (enqueued l q) i = (if i = submitted q then l else lines q i)" for i by (simp add: lines_def enqueued_def)
    have "submitted (enqueued l q) = Suc (submitted q)" "shutting_down (enqueued l q) = shutting_down q"
      "producers (enqueued l q) = producers q" by (simp_all add: enqueued_def)
    then show ?thesis using assms(2) Submit pend new False
      by (auto simp: traced_def enter_enqueued calls_append l nth_append less_Suc_eq)
  qed
next
  case (Spurious p i)
  show ?thesis using Spurious traced_frame [OF assms(2), of q'] by simp
next
  case (Wake p i)
  have "holds (producers q' p') = holds (producers q p')" "producers q' p' = Back None r s \<longleftrightarrow> producers q p' = Back None r s"
    for p' r s using Wake by auto
  then show ?thesis using Wake traced_frame [OF assms(2), of q'] by simp
next
  case (Again p io r s)
  have "pending (tr @ [Return p r s]) p' jo" if "holds (producers q p') = Some jo" "p' \<noteq> p" for p' jo
    using assms(2) that pending_more [of tr p' jo "Return p r s"] by (simp add: traced_def)
  then show ?thesis using assms(2) Again by (auto simp: traced_def calls_append)
next
  case Start
  then show ?thesis using traced_frame [OF assms(2), of q'] by (simp add: lines_def [abs_def])
next
  case (Pop b j i q1)
  then show ?thesis using traced_frame [OF assms(2), of q']
    by (auto simp: lines_def [abs_def] dequeue_locked_def split: list.splits)
next
  case (Dispatch i b j)
  then show ?thesis using traced_frame [OF assms(2), of q']
    by (auto simp: lines_def [abs_def] run_command_def fun_eq_iff split: prod.splits)
next
  case (Publish i b j)
  then show ?thesis using traced_frame [OF assms(2), of q'] by (auto simp: lines_def [abs_def] mark_done_def fun_eq_iff)
next
  case (Finish b j)
  then show ?thesis using traced_frame [OF assms(2), of q'] by (simp add: lines_def [abs_def])
next
  case Shutdown
  have "pending (tr @ [Shut_down]) p io" if "holds (producers q p) = Some io" for p io
    using assms(2) that pending_more [of tr p io Shut_down] by (simp add: traced_def)
  moreover have "holds (producers (control_queue_shutdown q) p) = holds (producers q p)"
    "producers (control_queue_shutdown q) p = Back None r s \<longleftrightarrow> producers q p = Back None r s" for p r s
    by (auto simp: control_queue_shutdown_def release_all split: producer.splits)
  moreover have "submitted (control_queue_shutdown q) = submitted q" "lines (control_queue_shutdown q) = lines q"
    "shutting_down (control_queue_shutdown q)"
    by (simp_all add: control_queue_shutdown_def release_all lines_def [abs_def] fun_eq_iff)
  ultimately show ?thesis using assms(2) Shutdown by (simp add: traced_def calls_append)
qed

lemma trace_traced: "cq_trace d (control_queue_create e) tr q \<Longrightarrow> traced tr q"
  by (induction rule: cq_trace.induct) (auto simp: traced_def control_queue_create_def dest: traced_trans)

text \<open>
  What the calls that have returned were told: the outcome of their line, or nothing when the queue was shut
  down meanwhile; \<open>m\<close> is the first command that is not taken.
\<close>

definition told :: "'e dispatcher \<Rightarrow> 'e \<Rightarrow> nat \<Rightarrow> nat \<Rightarrow> 'p event list \<Rightarrow> nat \<Rightarrow> 'p event list \<Rightarrow> string \<Rightarrow> control_result_t \<Rightarrow> bool" where
  "told d e k m tr i b s r \<longleftrightarrow>
     (if i < k then (s, r) = seq_outcome d e ((!) (calls tr)) i
      else Shut_down \<in> set b \<and> m \<le> i \<and> s = '''' \<and> r = CONTROL_CONTINUE)"

definition answered :: "'e dispatcher \<Rightarrow> 'e \<Rightarrow> nat \<Rightarrow> nat \<Rightarrow> 'p event list \<Rightarrow> bool" where
  "answered d e k m tr \<longleftrightarrow>
     (\<forall>a p l b r s c. tr = a @ Call p l # b @ Return p r s # c \<longrightarrow> (\<forall>x\<in>set b. \<not> by_producer p x) \<longrightarrow> Shut_down \<notin> set a \<longrightarrow>
       told d e k m tr (length (calls a)) b s r)"

lemma told_more:
  assumes "told d e k m tr i b s r" "k \<le> k'" "k' \<le> m'" "Shut_down \<in> set b \<longrightarrow> m' = m" "k \<le> length (calls tr)"
  shows "told d e k' m' (tr @ xs) i b s r"
proof (cases "i < k")
  case True
  then have "seq_outcome d e ((!) (calls (tr @ xs))) i = seq_outcome d e ((!) (calls tr)) i"
    using assms(5) by (intro seq_outcome_cong) (simp add: calls_append nth_append)
  then show ?thesis using True assms(1,2) by (simp add: told_def)
qed (use assms in \<open>auto simp: told_def\<close>)

lemma answered_more:
  assumes "answered d e k m tr" "k \<le> k'" "k' \<le> m'" "Shut_down \<in> set tr \<longrightarrow> m' = m" "k \<le> length (calls tr)"
    and "\<And>a p l b r s. x = Return p r s \<Longrightarrow> tr = a @ Call p l # b \<Longrightarrow> \<forall>x\<in>set b. \<not> by_producer p x \<Longrightarrow>
      Shut_down \<notin> set a \<Longrightarrow> told d e k' m' (tr @ [x]) (length (calls a)) b s r"
  shows "answered d e k' m' (tr @ [x])"
  unfolding answered_def
proof (intro allI impI)
  fix a p l b r s c
  assume cut: "tr @ [x] = a @ Call p l # b @ Return p r s # c" "\<forall>x\<in>set b. \<not> by_producer p x" "Shut_down \<notin> set a"
  show "told d e k' m' (tr @ [x]) (length (calls a)) b s r"
  proof (cases c rule: rev_cases)
    case Nil
    then show ?thesis using cut assms(6) by simp
  next
    case (snoc w z)
    then have tr: "tr = a @ Call p l # b @ Return p r s # w" using cut(1) by simp
    then have "told d e k m tr (length (calls a)) b s r" using assms(1) cut(2,3) unfolding answered_def by blast
    moreover have "Shut_down \<in> set b \<longrightarrow> m' = m" using assms(4) tr by simp
    ultimately show ?thesis using assms(2,3,5) by (intro told_more)
  qed
qed

lemma boundary_le: "k \<le> boundary k q"
  by (simp add: boundary_def split: consumer.splits)

lemma trace_answered:
  "cq_trace d (control_queue_create e) tr q \<Longrightarrow> \<exists>k. cq_at d e k q \<and> answered d e k (boundary k q) tr"
proof (induction rule: cq_trace.induct)
  case Begin
  show ?case by (rule exI [of _ 0]) (simp add: cq_at_create answered_def)
next
  case (Step tr q ev q')
  obtain k where k: "cq_at d e k q" "answered d e k (boundary k q) tr" using Step.IH by blast
  have t: "traced tr q" by (rule trace_traced [OF Step.hyps(1)])
  then have le: "k \<le> length (calls tr)" using k(1) boundary_le [of k q] by (simp add: cq_at_def traced_def)
  show ?case
  proof (cases "\<exists>p r s. ev = Some (Return p r s)")
    case True
    then obtain p r s where ev: "ev = Some (Return p r s)" by blast
    then obtain io where io: "producers q p = Back io r s" "q' = q\<lparr>producers := (producers q)(p := Outside)\<rparr>"
      using Step.hyps(2) by (auto elim: cq_trans.cases)
    have "told d e k (boundary k q) (tr @ [Return p r s]) (length (calls a)) b s r"
      if cut: "tr = a @ Call p l # b" "\<forall>x\<in>set b. \<not> by_producer p x" "Shut_down \<notin> set a" for a l b
    proof -
      define i where "i = length (calls a)"
      have "io = Some i" using t io(1) pending_at [of a p l b io] cut by (simp add: traced_def i_def)
      then have h: "i < submitted q" "cmd_done (items q i)" "r = result (items q i)" "s = reply (items q i)"
        using k(1) io(1) by (simp_all add: cq_at_def held_def)
      have d: "i < k \<or> shutting_down q \<and> boundary k q \<le> i" using k(1) h by (auto simp: cq_at_def outcomes_def)
      have o: "seq_outcome d e (lines q) i = seq_outcome d e ((!) (calls (tr @ [Return p r s]))) i"
        using t h(1) by (intro seq_outcome_cong) (simp add: traced_def calls_append nth_append)
      have "Shut_down \<in> set b" if "shutting_down q" using t that cut by (simp add: traced_def)
      then show ?thesis
        using k(1) h d o boundary_le [of k q] unfolding told_def i_def [symmetric]
        by (auto simp: cq_at_def outcomes_def)
    qed
    then have "answered d e k (boundary k q) (tr @ [Return p r s])"
      using boundary_le le by (intro answered_more [OF k(2)]) auto
    moreover have "cq_at d e k q'" unfolding io(2) by (rule again_at [OF k(1)])
    ultimately show ?thesis using ev io(2) by (intro exI [of _ k]) simp
  next
    case False
    obtain k' where k': "k \<le> k'" "cq_at d e k' q'" "shutting_down q \<longrightarrow> boundary k' q' = boundary k q"
      using trans_at [OF Step.hyps(2) k(1)] by blast
    have m: "Shut_down \<in> set tr \<longrightarrow> boundary k' q' = boundary k q" using k'(3) t by (simp add: traced_def)
    have "answered d e k' (boundary k' q') (tr @ [x])" if "ev = Some x" for x
      using that False by (intro answered_more [OF k(2) k'(1) boundary_le m le]) auto
    moreover have "answered d e k' (boundary k' q') tr"
      unfolding answered_def
    proof (intro allI impI)
      fix a p l b r s c
      assume cut: "tr = a @ Call p l # b @ Return p r s # c" "\<forall>x\<in>set b. \<not> by_producer p x" "Shut_down \<notin> set a"
      then have "told d e k (boundary k q) tr (length (calls a)) b s r" using k(2) unfolding answered_def by blast
      moreover have "Shut_down \<in> set b \<longrightarrow> boundary k' q' = boundary k q" using m cut(1) by simp
      ultimately have "told d e k' (boundary k' q') (tr @ []) (length (calls a)) b s r"
        using k'(1) boundary_le le by (intro told_more)
      then show "told d e k' (boundary k' q') tr (length (calls a)) b s r" by simp
    qed
    ultimately show ?thesis using k'(2) by (intro exI [of _ k']) (simp split: option.split)
  qed
qed

text \<open>A call that came behind the shutdown.\<close>

lemma refused_empty:
  assumes "cq_trace d (control_queue_create e) tr q" "tr = a @ Call p l # b @ Return p r s # c" "\<forall>x\<in>set b. \<not> by_producer p x"
    "Shut_down \<in> set a"
  shows "s = '''' \<and> r = CONTROL_CONTINUE"
proof -
  have "tr = (a @ Call p l # b) @ Return p r s # c" using assms(2) by simp
  from trace_split [OF assms(1) this] obtain q1 q2 where
    q1: "cq_trace d (control_queue_create e) (a @ Call p l # b) q1" "cq_trans d q1 (Some (Return p r s)) q2" by blast
  obtain io where io: "producers q1 p = Back io r s" using q1(2) by (auto elim: cq_trans.cases)
  have t: "traced (a @ Call p l # b) q1" by (rule trace_traced [OF q1(1)])
  then have "io = None" using io pending_at [of a p l b io] assms(3,4) by (simp add: traced_def)
  then show ?thesis using t io by (simp add: traced_def)
qed

end
