(* ===== verification/Control_Queue_Properties.thy ===== *)
theory Control_Queue_Properties
  imports Control_Queue_Rules
begin

text \<open>
  The properties of the command queue: every interleaving is the commands one after the other in the
  order of submission, a drain serves exactly what it found, and nobody waits for ever.
\<close>

section \<open>A concrete run\<close>

text \<open>Two producers; the dispatcher echoes its line and counts the commands.\<close>

definition demo_dispatch :: "nat dispatcher" where
  "demo_dispatch e l = (l, CONTROL_RESUME, e + 1)"

definition demo_start :: "(nat, nat) cq" where
  "demo_start = submit_enter 2 ''b'' (submit_enter 1 ''a'' (control_queue_create 0))"

definition demo_looping :: "(nat, nat) cq" where
  "demo_looping = demo_start\<lparr>emulator := Looping (nat (q_count demo_start)) 0\<rparr>"

text \<open>One round of the drain, for the command at the head of the queue.\<close>

definition demo_round :: "nat \<Rightarrow> (nat, nat) cq \<Rightarrow> (nat, nat) cq" where
  "demo_round k q =
     (let i = hd (queued q);
          q1 = q\<lparr>queued := tl (queued q), q_count := q_count q - 1, emulator := Popped i 2 k\<rparr>;
          q2 = (run_command demo_dispatch i q1)\<lparr>emulator := Ran i 2 k\<rparr>
      in (mark_done i q2)\<lparr>emulator := Looping 2 (k + 1)\<rparr>)"

definition demo_drained :: "(nat, nat) cq" where
  "demo_drained = demo_round 1 (demo_round 0 demo_looping)"

definition demo_end :: "(nat, nat) cq" where
  "demo_end = (submit_wait 1 0 (demo_drained\<lparr>emulator := Resting\<rparr>))\<lparr>producers :=
     (producers (submit_wait 1 0 (demo_drained\<lparr>emulator := Resting\<rparr>)))(1 := Outside)\<rparr>"

lemmas demo_defs = demo_start_def demo_looping_def demo_drained_def demo_end_def demo_dispatch_def
  control_queue_create_def submit_enter_def submit_wait_def submit_leave_def run_command_def mark_done_def cond_signal_def Let_def

text \<open>A step added to a run.\<close>

lemma run_step: "cq_runs d q0 q \<Longrightarrow> cq_trans d q ev q' \<Longrightarrow> cq_runs d q0 q'"
  using rtranclp.rtrancl_into_rtrancl [of "cq_step d"] cq_stepI by blast

lemma trace_silent: "cq_trace d q0 tr q \<Longrightarrow> cq_trans d q None q' \<Longrightarrow> cq_trace d q0 tr q'"
  using cq_trace.Step [of d q0 tr q None q'] by simp

lemma trace_event: "cq_trace d q0 tr q \<Longrightarrow> cq_trans d q (Some x) q' \<Longrightarrow> cq_trace d q0 (tr @ [x]) q'"
  using cq_trace.Step [of d q0 tr q "Some x" q'] by simp

lemma demo_start_trace: "cq_trace demo_dispatch (control_queue_create 0) [Call 1 ''a'', Call 2 ''b''] demo_start"
proof -
  have "cq_trace demo_dispatch (control_queue_create 0) ([] @ [Call 1 ''a'']) (submit_enter 1 ''a'' (control_queue_create 0))"
    by (rule trace_event [OF Begin], rule Submit) (simp add: control_queue_create_def)
  then have "cq_trace demo_dispatch (control_queue_create 0) (([] @ [Call 1 ''a'']) @ [Call 2 ''b'']) demo_start"
    unfolding demo_start_def by (rule trace_event, intro Submit) (simp add: demo_defs)
  then show ?thesis by simp
qed

lemma demo_start_run: "cq_runs demo_dispatch (control_queue_create 0) demo_start"
  by (rule trace_runs [OF demo_start_trace])

text \<open>One round of the drain: three silent steps inside it.\<close>

lemma demo_round_steps:
  assumes "emulator q = Looping 2 k" "k < 2" "queued q = i # is"
  shows "\<exists>q1 q2. cq_trans demo_dispatch q None q1 \<and> emulator q1 \<noteq> Resting \<and> cq_trans demo_dispatch q1 None q2 \<and>
    emulator q2 \<noteq> Resting \<and> cq_trans demo_dispatch q2 None (demo_round k q) \<and> emulator (demo_round k q) \<noteq> Resting"
proof -
  define q1 where "q1 = q\<lparr>queued := is, q_count := q_count q - 1, emulator := Popped i 2 k\<rparr>"
  define q2 where "q2 = (run_command demo_dispatch i q1)\<lparr>emulator := Ran i 2 k\<rparr>"
  have r: "demo_round k q = (mark_done i q2)\<lparr>emulator := Looping 2 (k + 1)\<rparr>"
    using assms(3) by (simp add: demo_round_def q1_def q2_def Let_def)
  have "cq_trans demo_dispatch q None q1"
    using Pop [OF assms(1,2), of i "q\<lparr>queued := is, q_count := q_count q - 1\<rparr>" demo_dispatch] assms(3)
    by (simp add: q1_def dequeue_locked_def)
  moreover have "cq_trans demo_dispatch q1 None q2" unfolding q2_def by (rule Dispatch) (simp add: q1_def)
  moreover have "cq_trans demo_dispatch q2 None (demo_round k q)" unfolding r by (rule Publish) (simp add: q2_def)
  ultimately show ?thesis by (intro exI [of _ q1] exI [of _ q2]) (simp add: q1_def q2_def r)
qed

lemma demo_round_run:
  assumes "emulator q = Looping 2 k" "k < 2" "queued q = i # is"
  shows "drain_run demo_dispatch q (demo_round k q)"
  using demo_round_steps [OF assms]
  by (auto intro!: rtranclp.rtrancl_into_rtrancl [OF rtranclp.rtrancl_into_rtrancl [OF r_into_rtranclp]] dest: cq_stepI)

lemma demo_round_trace:
  assumes "cq_trace demo_dispatch q0 tr q" "emulator q = Looping 2 k" "k < 2" "queued q = i # is"
  shows "cq_trace demo_dispatch q0 tr (demo_round k q)"
  using demo_round_steps [OF assms(2-)] assms(1) trace_silent by metis

lemma demo_rounds:
  "emulator demo_looping = Looping 2 0" "queued demo_looping = [0, 1]"
  "emulator (demo_round 0 demo_looping) = Looping 2 1" "queued (demo_round 0 demo_looping) = [1]"
  by (simp_all add: demo_defs demo_round_def)

lemma demo_drain: "drain_run demo_dispatch demo_looping demo_drained"
  unfolding demo_drained_def
  by (rule rtranclp_trans [OF demo_round_run [of _ _ 0 "[1]"] demo_round_run [of _ _ 1 "[]"]]) (simp_all add: demo_rounds)

lemma demo_finish: "cq_trans demo_dispatch demo_drained None (demo_drained\<lparr>emulator := Resting\<rparr>)"
  by (rule Finish [of _ 2 2]) (simp_all add: demo_drained_def demo_round_def Let_def)

lemma demo_looping_trace: "cq_trace demo_dispatch (control_queue_create 0) [Call 1 ''a'', Call 2 ''b''] demo_looping"
  unfolding demo_looping_def by (rule trace_silent [OF demo_start_trace], rule Start) (simp add: demo_defs)

lemma demo_looping_run: "cq_runs demo_dispatch (control_queue_create 0) demo_looping"
  by (rule trace_runs [OF demo_looping_trace])

lemma demo_resting_trace:
  "cq_trace demo_dispatch (control_queue_create 0) [Call 1 ''a'', Call 2 ''b''] (demo_drained\<lparr>emulator := Resting\<rparr>)"
proof -
  have "cq_trace demo_dispatch (control_queue_create 0) [Call 1 ''a'', Call 2 ''b''] demo_drained"
    unfolding demo_drained_def
    by (rule demo_round_trace [OF demo_round_trace [OF demo_looping_trace]]) (simp_all add: demo_rounds)
  then show ?thesis by (rule trace_silent [OF _ demo_finish])
qed

lemma demo_end_trace:
  "cq_trace demo_dispatch (control_queue_create 0) [Call 1 ''a'', Call 2 ''b'', Return 1 CONTROL_RESUME ''a''] demo_end"
proof -
  have "cq_trace demo_dispatch (control_queue_create 0) [Call 1 ''a'', Call 2 ''b'']
      (submit_wait 1 0 (demo_drained\<lparr>emulator := Resting\<rparr>))"
    by (rule trace_silent [OF demo_resting_trace], rule Wake) (simp add: demo_defs demo_round_def)
  then have "cq_trace demo_dispatch (control_queue_create 0) ([Call 1 ''a'', Call 2 ''b''] @ [Return 1 CONTROL_RESUME ''a'']) demo_end"
    unfolding demo_end_def by (rule trace_event, intro Again) (simp add: demo_defs demo_round_def)
  then show ?thesis by simp
qed

section \<open>Properties\<close>

text \<open>
  C29: however producers, emulator thread, spurious wakeups and shutdown interleave, the emulator has run the
  lines of the first \<open>k\<close> calls one after the other, in the order of the calls; and whenever a producer calls
  \<open>control_queue_submit\<close> with a line and this call returns, it gives what the dispatcher answers to this line
  on the emulator as the calls before it left it.  Only a call before or during which the queue was shut
  down can return the empty reply instead, and then its line is never run.
\<close>
theorem queue_linearizable:
  assumes "cq_trace d (control_queue_create e) tr q"
  shows "\<exists>k \<le> length (calls tr). emu_state q = seq_state d e ((!) (calls tr)) k \<and>
    (\<forall>a p l b r s c. tr = a @ Call p l # b @ Return p r s # c \<and> (\<forall>x\<in>set b. \<not> by_producer p x) \<longrightarrow>
       (let i = length (calls a) in
        if Shut_down \<notin> set a \<and> i < k then (s, r) = answer_of d (seq_state d e ((!) (calls tr)) i) l
        else (Shut_down \<in> set a \<or> Shut_down \<in> set b) \<and> s = '''' \<and> r = CONTROL_CONTINUE))"
proof -
  obtain k where at: "cq_at d e k q" "answered d e k (boundary k q) tr" using trace_answered [OF assms] by blast
  have tr: "traced tr q" by (rule trace_traced [OF assms])
  have k: "k \<le> length (calls tr)" using at(1) boundary_le [of k q] tr by (simp add: cq_at_def traced_def)
  have "seq_state d e (lines q) k = seq_state d e ((!) (calls tr)) k"
    using k tr by (intro seq_state_cong) (simp add: traced_def)
  then have "emu_state q = seq_state d e ((!) (calls tr)) k" using at(1) by (simp add: cq_at_def outcomes_def)
  moreover have "let i = length (calls a) in
        if Shut_down \<notin> set a \<and> i < k then (s, r) = answer_of d (seq_state d e ((!) (calls tr)) i) l
        else (Shut_down \<in> set a \<or> Shut_down \<in> set b) \<and> s = '''' \<and> r = CONTROL_CONTINUE"
    if cut: "tr = a @ Call p l # b @ Return p r s # c" "\<forall>x\<in>set b. \<not> by_producer p x" for a p l b r s c
  proof (cases "Shut_down \<in> set a")
    case True
    then show ?thesis using refused_empty [OF assms cut(1)] cut(2) by simp
  next
    case False
    then have "told d e k (boundary k q) tr (length (calls a)) b s r" using at(2) cut unfolding answered_def by blast
    moreover have "calls tr ! length (calls a) = l" using cut(1) False by (simp add: calls_append nth_append)
    ultimately show ?thesis using False by (simp add: told_def seq_outcome_def Let_def split: if_splits)
  qed
  ultimately show ?thesis using k by blast
qed

lemma queue_linearizable_witness:
  "(\<exists>k. emu_state demo_end = seq_state demo_dispatch 0 ((!) [''a'', ''b'']) k) \<and>
   (''a'', CONTROL_RESUME) = answer_of demo_dispatch 0 ''a''"
proof -
  have e: "[Call 1 ''a'', Call 2 ''b'', Return 1 CONTROL_RESUME ''a''] =
      [] @ Call (1 :: nat) ''a'' # [Call 2 ''b''] @ Return 1 CONTROL_RESUME ''a'' # []" by simp
  obtain k where k: "emu_state demo_end = seq_state demo_dispatch 0 ((!) [''a'', ''b'']) k"
    and cut: "\<forall>a p l b r s c. [Call (1 :: nat) ''a'', Call 2 ''b'', Return 1 CONTROL_RESUME ''a''] = a @ Call p l # b @ Return p r s # c \<and>
        (\<forall>x\<in>set b. \<not> by_producer p x) \<longrightarrow>
       (let i = length (calls a) in
        if Shut_down \<notin> set a \<and> i < k then (s, r) = answer_of demo_dispatch (seq_state demo_dispatch 0 ((!) [''a'', ''b'']) i) l
        else (Shut_down \<in> set a \<or> Shut_down \<in> set b) \<and> s = '''' \<and> r = CONTROL_CONTINUE)"
    using queue_linearizable [OF demo_end_trace, unfolded calls.simps] by (elim exE conjE) (rule that)
  have "0 < k \<and> (''a'', CONTROL_RESUME) = answer_of demo_dispatch 0 ''a''"
    using cut [THEN spec, THEN spec, THEN spec, THEN spec, THEN spec, THEN spec, THEN spec, THEN mp, OF conjI [OF e]] by (simp split: if_splits)
  then show ?thesis using k by blast
qed

text \<open>
  C30: a drain that finds \<open>n\<close> commands in the queue processes exactly these, in their order,
  and leaves the commands submitted meanwhile to the next one: at its end each of the \<open>n\<close> is marked
  done with the outcome of the sequential run.
\<close>
theorem drain_serves_batch:
  assumes "cq_runs d (control_queue_create e) q" "emulator q = Resting"
    and "drain_run d (q\<lparr>emulator := Looping (nat (q_count q)) 0\<rparr>) q1"
    and "cq_step d q1 q2" "emulator q2 = Resting"
  shows "emulator q1 = Looping (length (queued q)) (length (queued q)) \<and>
    (\<exists>k. emu_state q = seq_state d e (lines q) k \<and> (\<not> shutting_down q \<longrightarrow> queued q = [k..<submitted q]) \<and>
      emu_state q2 = seq_state d e (lines q2) (k + length (queued q)) \<and>
      (\<not> shutting_down q2 \<longrightarrow> queued q2 = [k + length (queued q)..<submitted q2])) \<and>
    (\<forall>i \<in> set (queued q). cmd_done (items q2 i) \<and>
       (reply (items q2 i), result (items q2 i)) = seq_outcome d e (lines q2) i)"
proof -
  obtain k where at: "cq_at d e k q" using runs_at [OF assms(1)] by blast
  have "serving d e k (length (queued q)) q1"
    by (rule serving_run [OF assms(3) serving_start [OF at assms(2)]])
  from serving_finish [OF assms(4) this assms(5)]
  have fin: "emulator q1 = Looping (length (queued q)) (length (queued q))"
    "cq_at d e (k + length (queued q)) q2" "k + length (queued q) \<le> submitted q2"
    by auto
  have s: "set (queued q) \<subseteq> {k..<k + length (queued q)}"
    using at assms(2) by (auto simp: cq_at_def boundary_def)
  have "cmd_done (items q2 i) \<and> (reply (items q2 i), result (items q2 i)) = seq_outcome d e (lines q2) i"
    if "i \<in> set (queued q)" for i
    using fin(2,3) subsetD [OF s that] assms(5) by (auto simp: cq_at_def outcomes_def unpublished_def)
  moreover have "emu_state q = seq_state d e (lines q) k" "\<not> shutting_down q \<longrightarrow> queued q = [k..<submitted q]"
    using at assms(2) by (auto simp: cq_at_def outcomes_def boundary_def)
  moreover have "emu_state q2 = seq_state d e (lines q2) (k + length (queued q))"
    "\<not> shutting_down q2 \<longrightarrow> queued q2 = [k + length (queued q)..<submitted q2]"
    using fin(2) assms(5) by (auto simp: cq_at_def outcomes_def boundary_def)
  ultimately show ?thesis using fin(1) by blast
qed

lemma drain_serves_batch_witness:
  "emulator demo_drained = Looping 2 2 \<and> cmd_done (items demo_drained 1) \<and>
   (reply (items demo_drained 1), result (items demo_drained 1)) = seq_outcome demo_dispatch 0 (lines demo_drained) 1"
proof -
  have q: "queued demo_start = [0, 1]" "emulator demo_start = Resting" by (simp_all add: demo_defs)
  have "lines (demo_drained\<lparr>emulator := Resting\<rparr>) = lines demo_drained" by (rule consumer_upd)
  then show ?thesis
    using drain_serves_batch [OF demo_start_run q(2) demo_drain [unfolded demo_looping_def] cq_stepI [OF demo_finish]] by (simp add: q)
qed

text \<open>
  C31: nobody waits for ever: inside a drain the emulator thread always has a step, and its steps run down
  a measure that no other thread raises; a producer sleeps only as long as its command is not done and is
  still in the queue or in the hands of the emulator thread; and once the emulator thread rests on an empty
  queue, after a drain or a shutdown, nobody sleeps: every producer in \<open>control_queue_submit\<close> has been woken
  and leaves.
\<close>
theorem queue_progress:
  assumes "cq_runs d (control_queue_create e) q"
  shows "(emulator q \<noteq> Resting \<longrightarrow>
      (\<exists>q'. cq_step d q q' \<and> emulator q' \<noteq> emulator q) \<and>
      (\<forall>q'. cq_step d q q' \<longrightarrow> (if emulator q' = emulator q then drain_left q' = drain_left q else drain_left q' < drain_left q))) \<and>
    (\<forall>p i. producers q p = Waiting i \<longrightarrow> \<not> cmd_done (items q i) \<and>
      (i \<in> set (queued q) \<or> (\<exists>b j. emulator q = Popped i b j \<or> emulator q = Ran i b j))) \<and>
    (emulator q = Resting \<and> queued q = [] \<longrightarrow>
      (\<forall>p i. producers q p \<noteq> Waiting i \<and> (producers q p = Signalled i \<longrightarrow> cq_step d q (submit_leave p i q))))"
proof -
  obtain k where at: "cq_at d e k q" using runs_at [OF assms] by blast
  have undone: "i \<in> set (queued q) \<or> (\<exists>b j. emulator q = Popped i b j \<or> emulator q = Ran i b j)"
    if "i < submitted q" "\<not> cmd_done (items q i)" for i
    using at that by (auto simp: cq_at_def outcomes_def boundary_def unpublished_def consumer_at_def split: consumer.splits if_splits)
  have waiting: "\<not> cmd_done (items q i) \<and> (i \<in> set (queued q) \<or> (\<exists>b j. emulator q = Popped i b j \<or> emulator q = Ran i b j))"
    if "producers q p = Waiting i" for p i
    using at that undone by (simp add: cq_at_def held_def)
  have "cq_step d q (submit_leave p i q)" if "emulator q = Resting" "queued q = []" "producers q p = Signalled i" for p i
  proof -
    have "i < submitted q" using at that(3) by (simp add: cq_at_def held_def)
    then have "cmd_done (items q i)" using undone [of i] that by auto
    then show ?thesis using cq_stepI [OF Wake [OF that(3), of d]] by (simp add: submit_wait_def)
  qed
  moreover have "drain_left q' = drain_left q" if "emulator q' = emulator q" for q'
    using that by (simp add: drain_left_def)
  moreover have "producers q p \<noteq> Waiting i" if "emulator q = Resting" "queued q = []" for p i
    using waiting [of p i] that by auto
  ultimately show ?thesis
    using drain_enabled [of q d] drain_left_step [OF _ within_batch_runs [OF assms]] waiting by auto
qed

lemma queue_progress_witness:
  "(\<exists>q'. cq_step demo_dispatch demo_looping q' \<and> emulator q' \<noteq> emulator demo_looping) \<and>
   cq_step demo_dispatch (demo_drained\<lparr>emulator := Resting\<rparr>) (submit_leave 2 1 (demo_drained\<lparr>emulator := Resting\<rparr>))"
proof
  have "emulator demo_looping \<noteq> Resting" by (simp add: demo_looping_def)
  then show "\<exists>q'. cq_step demo_dispatch demo_looping q' \<and> emulator q' \<noteq> emulator demo_looping"
    by (rule queue_progress [OF demo_looping_run, THEN conjunct1, THEN mp, THEN conjunct1])
  define q where "q = demo_drained\<lparr>emulator := Resting\<rparr>"
  have "cq_runs demo_dispatch (control_queue_create 0) q" unfolding q_def by (rule trace_runs [OF demo_resting_trace])
  moreover have "emulator q = Resting" "queued q = []" "producers q 2 = Signalled 1"
    by (simp_all add: q_def demo_defs demo_round_def)
  ultimately show "cq_step demo_dispatch q (submit_leave 2 1 q)"
    by (intro queue_progress [THEN conjunct2, THEN conjunct2, THEN mp, THEN spec, THEN spec, THEN conjunct2, THEN mp] conjI)
qed

end
