(* ===== verification/Tap.thy ===== *)
theory Tap
  imports Prelude
begin

text \<open>
  Tape files (\<open>include/storage/tap.h\<close>, \<open>src/storage/tap.c\<close>): reading and writing of headers and data, with
  and without the file in memory, and the conversion of a BASIC listing or of a binary into a tape.
  An open \<open>FILE\<close> is its bytes and its offset; reads and writes succeed and files are shorter than
  \<open>2^32\<close> bytes, so that positions are natural numbers.  C strings are byte lists.
\<close>

section \<open>Headers and files\<close>

definition TAP_SYNC_BYTE :: u8 where "TAP_SYNC_BYTE = 0x16"
definition TAP_MARKER :: u8 where "TAP_MARKER = 0x24"
definition TAP_NAME_LEN :: nat where "TAP_NAME_LEN = 16"
definition TAP_BASIC :: u8 where "TAP_BASIC = 0x00"
definition TAP_MACHINE :: u8 where "TAP_MACHINE = 0x80"
definition TAP_SCREEN :: u8 where "TAP_SCREEN = 0xC0"

text \<open>\<open>tap_name\<close> is the array of 16 characters.\<close>

record tap_header_t =
  sync_len :: u8
  tap_name :: "u8 list"
  prog_type :: u8
  auto_run :: u8
  start_addr :: u16
  end_addr :: u16
  tap_csum :: u8

record tap_file_t =
  fbytes :: "u8 list"
  foffset :: nat
  writing :: bool
  tap_pos :: nat
  tap_len :: nat
  fast_load :: bool
  tap_data :: "u8 list option"

definition c_string :: "u8 list \<Rightarrow> u8 list" where
  "c_string s = takeWhile (\<lambda>c. c \<noteq> 0) s"

text \<open>\<open>strncpy\<close> of at most 15 characters into a zeroed name.\<close>

definition name_field :: "u8 list \<Rightarrow> u8 list" where
  "name_field s = (let n = take (TAP_NAME_LEN - 1) (c_string s) in n @ replicate (TAP_NAME_LEN - length n) 0)"

definition fwrite_bytes :: "u8 list \<Rightarrow> tap_file_t \<Rightarrow> tap_file_t" where
  "fwrite_bytes bs t = t\<lparr>fbytes := take (foffset t) (fbytes t) @ bs @ drop (foffset t + length bs) (fbytes t),
     foffset := foffset t + length bs\<rparr>"

text \<open>A file that cannot be opened is \<open>None\<close>; \<open>alloc\<close> tells whether the copy in memory can be allocated.\<close>

definition tap_open_read :: "bool \<Rightarrow> u8 list option \<Rightarrow> bool \<Rightarrow> tap_file_t option" where
  "tap_open_read alloc file fast =
     (case file of None \<Rightarrow> None
      | Some bs \<Rightarrow>
          let t = \<lparr>fbytes = bs, foffset = 0, writing = False, tap_pos = 0, tap_len = length bs, fast_load = fast,
                   tap_data = None\<rparr>
          in Some (if fast \<and> 0 < length bs \<and> alloc then t\<lparr>tap_data := Some bs, foffset := length bs\<rparr> else t))"

definition tap_open_write :: "bool \<Rightarrow> tap_file_t option" where
  "tap_open_write opens =
     (if opens then Some \<lparr>fbytes = [], foffset = 0, writing = True, tap_pos = 0, tap_len = 0, fast_load = False,
        tap_data = None\<rparr> else None)"

definition tap_rewind :: "tap_file_t \<Rightarrow> tap_file_t" where
  "tap_rewind t = t\<lparr>foffset := 0, tap_pos := 0\<rparr>"

definition tap_tell :: "tap_file_t \<Rightarrow> nat" where
  "tap_tell t = tap_pos t"

definition tap_size :: "tap_file_t \<Rightarrow> nat" where
  "tap_size t = tap_len t"

definition tap_eof :: "tap_file_t \<Rightarrow> bool" where
  "tap_eof t \<longleftrightarrow> tap_pos t \<ge> tap_len t"

definition tap_checksum :: "u8 list \<Rightarrow> u8" where
  "tap_checksum bs = fold (\<lambda>b s. s XOR b) bs 0"

section \<open>Reading\<close>

text \<open>The copy in memory, when reads go through it.\<close>

definition in_memory :: "tap_file_t \<Rightarrow> u8 list option" where
  "in_memory t = (if fast_load t then tap_data t else None)"

definition read_byte :: "tap_file_t \<Rightarrow> u8 \<times> tap_file_t" where
  "read_byte t =
     (case in_memory t of
        Some d \<Rightarrow> (if tap_pos t < tap_len t then d ! tap_pos t else 0, t\<lparr>tap_pos := tap_pos t + 1\<rparr>)
      | None \<Rightarrow>
          if foffset t < length (fbytes t)
          then (fbytes t ! foffset t, t\<lparr>foffset := foffset t + 1, tap_pos := tap_pos t + 1\<rparr>)
          else (0, t))"

text \<open>\<open>skip_sync\<close>; its count is not used.\<close>

function skip_sync :: "tap_file_t \<Rightarrow> tap_file_t" where
  "skip_sync t =
     (if tap_eof t then t
      else case in_memory t of
        Some d \<Rightarrow> if d ! tap_pos t = TAP_SYNC_BYTE then skip_sync (t\<lparr>tap_pos := tap_pos t + 1\<rparr>) else t
      | None \<Rightarrow>
          if foffset t \<ge> length (fbytes t) then t
          else
            let b = fbytes t ! foffset t;
                t1 = t\<lparr>foffset := foffset t + 1\<rparr>
            in if b = TAP_SYNC_BYTE then skip_sync (t1\<lparr>tap_pos := tap_pos t + 1\<rparr>)
               else if \<not> fast_load t then t1\<lparr>foffset := foffset t1 - 1\<rparr> else t1)"
  by pat_completeness auto
termination
  by (relation "measure (\<lambda>t. tap_len t - tap_pos t)") (auto simp: tap_eof_def)

declare skip_sync.simps [simp del]

text \<open>At most \<open>n\<close> bytes, up to the end of the tape.\<close>

primrec read_bytes :: "nat \<Rightarrow> tap_file_t \<Rightarrow> u8 list \<times> tap_file_t" where
  "read_bytes 0 t = ([], t)"
| "read_bytes (Suc n) t =
     (if tap_eof t then ([], t)
      else let (b, t1) = read_byte t; (bs, t2) = read_bytes n t1 in (b # bs, t2))"

definition tap_read_data :: "tap_file_t \<Rightarrow> nat \<Rightarrow> u8 list \<times> tap_file_t" where
  "tap_read_data t n = read_bytes n t"

text \<open>
  The layout of a header: offset and size.  \<open>raw\<close> is the local array of 32 bytes, of which the first
  \<open>len\<close> have been read.
\<close>

definition is_prog_type :: "u8 \<Rightarrow> bool" where
  "is_prog_type t \<longleftrightarrow> t = 0x00 \<or> t = 0x80 \<or> t = 0xC0"

definition plausible :: "(nat \<Rightarrow> u8) \<Rightarrow> nat \<Rightarrow> bool" where
  "plausible raw i \<longleftrightarrow>
     (let end = hilo (raw i) (raw (i + 1)); start = hilo (raw (i + 2)) (raw (i + 3))
      in start < end \<and> start \<ge> 0x0100 \<and> end < 0xC000)"

fun padded_layout :: "(nat \<Rightarrow> u8) \<Rightarrow> nat \<Rightarrow> nat list \<Rightarrow> (nat \<times> nat) option" where
  "padded_layout raw len [] = None"
| "padded_layout raw len (k # ks) =
     (if k + 7 > len then None
      else if \<not> is_prog_type (raw k) then padded_layout raw len ks
      else if plausible raw (k + 2) then Some (k, 7)
      else if k > 0 \<and> k + 9 \<le> len \<and> plausible raw (k + 4) then Some (k, 9)
      else padded_layout raw len ks)"

definition header_layout :: "(nat \<Rightarrow> u8) \<Rightarrow> nat \<Rightarrow> nat \<times> nat" where
  "header_layout raw len =
     (if len \<ge> 9 \<and> is_prog_type (raw 0) \<and> plausible raw 4 then (0, 9)
      else case padded_layout raw len [0, 1, 2, 3, 4] of Some l \<Rightarrow> l | None \<Rightarrow> (0, 9))"

text \<open>At most \<open>n\<close> characters of the name from \<open>p\<close>, and the position after them.\<close>

primrec header_name :: "nat \<Rightarrow> (nat \<Rightarrow> u8) \<Rightarrow> nat \<Rightarrow> nat \<Rightarrow> u8 list \<times> nat" where
  "header_name 0 raw len p = ([], p)"
| "header_name (Suc n) raw len p =
     (if p \<ge> len then ([], p)
      else if raw p = 0 then ([], p + 1)
      else let (cs, q) = header_name n raw len (p + 1) in (raw p # cs, q))"

text \<open>The fields found in \<open>raw\<close>, and the position after the name.\<close>

definition parse_header :: "(nat \<Rightarrow> u8) \<Rightarrow> nat \<Rightarrow> tap_header_t \<Rightarrow> tap_header_t \<times> nat" where
  "parse_header raw len h =
     (let (off, sz) = header_layout raw len;
          p = (if sz = 9 then off + 2 else off);
          (cs, q) = header_name (TAP_NAME_LEN - 1) raw len (p + 7)
      in (h\<lparr>prog_type := raw p, auto_run := raw (p + 1), end_addr := hilo (raw (p + 2)) (raw (p + 3)),
            start_addr := hilo (raw (p + 4)) (raw (p + 5)), tap_name := cs @ replicate (TAP_NAME_LEN - length cs) 0\<rparr>, q))"

definition tap_seek :: "nat \<Rightarrow> tap_file_t \<Rightarrow> tap_file_t" where
  "tap_seek p t = (let t1 = t\<lparr>tap_pos := p\<rparr> in if \<not> fast_load t then t1\<lparr>foffset := p\<rparr> else t1)"

text \<open>\<open>stack\<close> is what the uninitialised array \<open>raw\<close> holds.\<close>

definition tap_read_header :: "(nat \<Rightarrow> u8) \<Rightarrow> tap_header_t \<Rightarrow> tap_file_t \<Rightarrow> bool \<times> tap_header_t \<times> tap_file_t" where
  "tap_read_header stack h t =
     (let (marker, t1) = read_byte (skip_sync t) in
      if marker \<noteq> TAP_MARKER then (False, h, t1)
      else
        let save_pos = tap_pos t1;
            (bs, t2) = read_bytes 32 t1;
            (h1, q) = parse_header (\<lambda>i. if i < length bs then bs ! i else stack i) (length bs) h
        in (True, h1, tap_seek (save_pos + q) t2))"

section \<open>Writing\<close>

definition put_bytes :: "u8 list \<Rightarrow> tap_file_t \<Rightarrow> tap_file_t" where
  "put_bytes bs t = (fwrite_bytes bs t)\<lparr>tap_pos := tap_pos t + length bs\<rparr>"

definition tap_write_header :: "tap_header_t \<Rightarrow> tap_file_t \<Rightarrow> bool \<times> tap_file_t" where
  "tap_write_header h t =
     (if \<not> writing t then (False, t)
      else
        let n = (if sync_len h \<noteq> 0 then unat (sync_len h) else 3);
            t1 = put_bytes [TAP_MARKER] (put_bytes (replicate n TAP_SYNC_BYTE) t);
            t2 = put_bytes [prog_type h, auto_run h] (put_bytes [0, 0] t1);
            t3 = put_bytes [hi8 (end_addr h), lo8 (end_addr h)] t2;
            t4 = put_bytes [0] (put_bytes [hi8 (start_addr h), lo8 (start_addr h)] t3);
            t5 = put_bytes [0] (put_bytes (take (TAP_NAME_LEN - 1) (c_string (tap_name h))) t4)
        in (True, t5\<lparr>tap_len := tap_pos t5\<rparr>))"

definition tap_write_data :: "u8 list \<Rightarrow> tap_file_t \<Rightarrow> bool \<times> tap_file_t" where
  "tap_write_data bs t =
     (if \<not> writing t then (False, t)
      else let t1 = put_bytes bs t in (True, t1\<lparr>tap_len := tap_pos t1\<rparr>))"

text \<open>
  A binary into a tape: what is returned, and the file written, if any.  \<open>alloc\<close> and \<open>opens\<close> tell whether
  memory is left and whether the tape can be created.
\<close>

definition tap_from_binary ::
  "bool \<Rightarrow> bool \<Rightarrow> u8 list option \<Rightarrow> u16 \<Rightarrow> u16 \<Rightarrow> u8 list option \<Rightarrow> bool \<times> u8 list option" where
  "tap_from_binary alloc opens file start exec nm =
     (case file of None \<Rightarrow> (False, None)
      | Some bs \<Rightarrow>
          if bs = [] \<or> length bs > 48000 \<or> \<not> alloc then (False, None)
          else case tap_open_write opens of None \<Rightarrow> (False, None)
          | Some t \<Rightarrow>
              let h = \<lparr>sync_len = 3, tap_name = (case nm of Some s \<Rightarrow> name_field s | None \<Rightarrow> replicate TAP_NAME_LEN 0),
                       prog_type = TAP_MACHINE, auto_run = (if exec \<noteq> 0 then 0xC7 else 0x00), start_addr = start,
                       end_addr = start + of_nat (length bs) - 1, tap_csum = 0\<rparr>;
                  (_, t1) = tap_write_header h t;
                  (_, t2) = tap_write_data bs t1
              in (True, Some (fbytes t2)))"

end
