(* ===== verification/Tap_Basic.thy ===== *)
theory Tap_Basic
  imports Tap
begin

text \<open>
  The conversion of a BASIC listing into a tape (\<open>src/storage/tap.c\<close>): keyword matching, the tokenizer,
  the program image with its line pointers in a buffer of 32768 bytes, and \<open>tap_from_basic\<close>.  A store
  outside the buffer and an overflowing line number are undefined in C: the result is \<open>None\<close>.
\<close>

section \<open>The tokenizer\<close>

definition bytes_of :: "string \<Rightarrow> u8 list" where
  "bytes_of = map of_char"

definition basic_keywords :: "string list" where
  "basic_keywords = [
    ''END'', ''EDIT'', ''INVERSE'', ''NORMAL'', ''TRON'', ''TROFF'', ''POP'', ''PLOT'', ''PULL'', ''LORES'',
    ''DOKE'', ''REPEAT'', ''UNTIL'', ''FOR'', ''LLIST'', ''LPRINT'', ''NEXT'', ''DATA'', ''INPUT'', ''DIM'',
    ''CLS'', ''READ'', ''LET'', ''GOTO'', ''RUN'', ''IF'', ''RESTORE'', ''GOSUB'', ''RETURN'', ''REM'',
    ''HIMEM'', ''GRAB'', ''RELEASE'', ''TEXT'', ''HIRES'', ''SHOOT'', ''EXPLODE'', ''ZAP'', ''PING'',
    ''SOUND'', ''MUSIC'', ''PLAY'', ''CURSET'', ''CURMOV'', ''DRAW'', ''CIRCLE'', ''PATTERN'', ''FILL'',
    ''CHAR'', ''PAPER'', ''INK'', ''STOP'', ''ON'', ''WAIT'', ''CLOAD'', ''CSAVE'', ''DEF'', ''POKE'',
    ''PRINT'', ''CONT'', ''LIST'', ''CLEAR'', ''GET'', ''CALL'', ''!'', ''NEW'', ''TAB('', ''TO'', ''FN'',
    ''SPC('', ''@'', ''AUTO'', ''ELSE'', ''THEN'', ''NOT'', ''STEP'', ''+'', ''-'', ''*'', ''/'', ''^'',
    ''AND'', ''OR'', ''>'', ''='', ''<'', ''SGN'', ''INT'', ''ABS'', ''USR'', ''FRE'', ''POS'', ''HEX$'',
    ''&'', ''SQR'', ''RND'', ''LN'', ''EXP'', ''COS'', ''SIN'', ''TAN'', ''ATN'', ''PEEK'', ''DEEK'', ''LOG'',
    ''LEN'', ''STR$'', ''VAL'', ''ASC'', ''CHR$'', ''PI'', ''TRUE'', ''FALSE'', ''KEY$'', ''SCRN'', ''POINT'',
    ''LEFT$'', ''RIGHT$'', ''MID$'', ''GO''
   ]"

definition BASIC_TOKEN_BASE :: u8 where "BASIC_TOKEN_BASE = 0x80"
definition BASIC_START_ADDR :: nat where "BASIC_START_ADDR = 0x0501"
definition BASIC_MAX_SIZE :: nat where "BASIC_MAX_SIZE = 32768"
definition TOKEN_REM :: u8 where "TOKEN_REM = 0x9D"
definition QUOTE :: u8 where "QUOTE = 0x22"

text \<open>The characters of a string with its terminator: positions past the end are never told from it.\<close>

definition char_at :: "u8 list \<Rightarrow> nat \<Rightarrow> u8" where
  "char_at s i = (if i < length s then s ! i else 0)"

definition upcase :: "u8 \<Rightarrow> u8" where
  "upcase c = (if 0x61 \<le> c \<and> c \<le> 0x7A then c - 32 else c)"

definition keyword_here :: "u8 list \<Rightarrow> u8 list \<Rightarrow> bool" where
  "keyword_here k s \<longleftrightarrow> list_all (\<lambda>j. upcase (char_at s j) = k ! j) [0..<length k]"

text \<open>A keyword that is a word must not be followed by a letter, a digit or a dollar sign.\<close>

definition word_goes_on :: "u8 list \<Rightarrow> u8 list \<Rightarrow> bool" where
  "word_goes_on k s \<longleftrightarrow> length k > 1 \<and> k ! 0 \<ge> 0x41 \<and>
     (let c = char_at s (length k)
      in (0x41 \<le> c \<and> c \<le> 0x5A) \<or> (0x61 \<le> c \<and> c \<le> 0x7A) \<or> (0x30 \<le> c \<and> c \<le> 0x39) \<or> c = 0x24)"

definition match_step :: "u8 list \<Rightarrow> nat \<times> u8 list \<Rightarrow> nat \<times> nat option \<Rightarrow> nat \<times> nat option" where
  "match_step s e best =
     (let (i, k) = e; (best_len, best_idx) = best in
      if length k \<le> best_len then best
      else if keyword_here k s \<and> \<not> word_goes_on k s then (length k, Some i)
      else best)"

text \<open>The length and the token of the keyword at the head of the text.\<close>

definition basic_match_keyword :: "u8 list \<Rightarrow> (nat \<times> u8) option" where
  "basic_match_keyword s =
     (case fold (match_step s) (enumerate 0 (map bytes_of basic_keywords)) (0, None) of
        (n, Some i) \<Rightarrow> Some (n, BASIC_TOKEN_BASE + of_nat i)
      | (_, None) \<Rightarrow> None)"

text \<open>\<open>room\<close> is what is left of the output, every round writing one byte.\<close>

primrec tokenize :: "nat \<Rightarrow> bool \<Rightarrow> bool \<Rightarrow> u8 list \<Rightarrow> u8 list" where
  "tokenize 0 in_string after_rem s = []"
| "tokenize (Suc room) in_string after_rem s =
     (case s of [] \<Rightarrow> []
      | c # cs \<Rightarrow>
          if in_string then c # tokenize room (c \<noteq> QUOTE) after_rem cs
          else if after_rem then c # tokenize room in_string after_rem cs
          else if c = QUOTE then c # tokenize room True after_rem cs
          else case basic_match_keyword s of
            Some (n, tok) \<Rightarrow> tok # tokenize room in_string (tok = TOKEN_REM) (drop n s)
          | None \<Rightarrow> upcase c # tokenize room in_string after_rem cs)"

definition basic_tokenize_line :: "u8 list \<Rightarrow> nat \<Rightarrow> u8 list" where
  "basic_tokenize_line s maxlen = tokenize (maxlen - 1) False False s"

section \<open>The listing\<close>

text \<open>\<open>fgets\<close> into a buffer with room for \<open>n\<close> characters: what it reads and what is left.\<close>

fun fgets_line :: "nat \<Rightarrow> u8 list \<Rightarrow> u8 list \<times> u8 list" where
  "fgets_line 0 bs = ([], bs)"
| "fgets_line (Suc n) [] = ([], [])"
| "fgets_line (Suc n) (b # bs) =
     (if b = 0x0A then ([b], bs) else let (l, rest) = fgets_line n bs in (b # l, rest))"

definition LINE_SIZE :: nat where "LINE_SIZE = 1024"

definition strip_line :: "u8 list \<Rightarrow> u8 list" where
  "strip_line l = rev (dropWhile (\<lambda>c. c = 0x0A \<or> c = 0x0D) (rev (c_string l)))"

definition is_digit :: "u8 \<Rightarrow> bool" where
  "is_digit c \<longleftrightarrow> 0x30 \<le> c \<and> c \<le> 0x39"

definition number_of :: "u8 list \<Rightarrow> int" where
  "number_of ds = fold (\<lambda>d n. n * 10 + (uint d - 0x30)) ds 0"

text \<open>The line number and the text after it.\<close>

definition split_line :: "u8 list \<Rightarrow> int \<times> u8 list" where
  "split_line l =
     (let p = dropWhile (\<lambda>c. c = 0x20) l;
          rest = dropWhile is_digit p
      in (number_of (takeWhile is_digit p), if rest \<noteq> [] \<and> hd rest = 0x20 then tl rest else rest))"

record basic_image =
  image_mem :: "u8 list"
  image_pos :: nat
  image_oob :: bool

definition put_image :: "u8 \<Rightarrow> basic_image \<Rightarrow> basic_image" where
  "put_image v m = m\<lparr>image_mem := (image_mem m)[image_pos m := v], image_pos := image_pos m + 1,
     image_oob := image_oob m \<or> image_pos m \<ge> BASIC_MAX_SIZE\<rparr>"

text \<open>One line: the pointer to the next line, the number, the tokens and a zero.\<close>

definition add_line :: "int \<Rightarrow> u8 list \<Rightarrow> basic_image \<Rightarrow> basic_image" where
  "add_line num text m =
     (let line_start = image_pos m;
          n = word_of_int num :: u16;
          m1 = put_image (hi8 n) (put_image (lo8 n) (put_image 0 (put_image 0 m)));
          m2 = put_image 0 (fold put_image (basic_tokenize_line text LINE_SIZE) m1);
          next_addr = of_nat (BASIC_START_ADDR + image_pos m2) :: u16
      in m2\<lparr>image_mem := (image_mem m2)[line_start := lo8 next_addr, line_start + 1 := hi8 next_addr]\<rparr>)"

lemma fgets_shrinks: "length (snd (fgets_line n bs)) \<le> length bs"
  by (induction n bs rule: fgets_line.induct) (auto split: prod.splits)

lemma fgets_shorter: "bs \<noteq> [] \<Longrightarrow> length (snd (fgets_line (LINE_SIZE - 1) bs)) < length bs"
  using fgets_shrinks [of 1022 "tl bs"]
  by (cases bs) (auto simp: LINE_SIZE_def eval_nat_numeral less_Suc_eq_le split: prod.splits)

function basic_lines :: "u8 list \<Rightarrow> basic_image \<Rightarrow> basic_image option" where
  "basic_lines bs m =
     (if bs = [] then Some m
      else
        let line = strip_line (fst (fgets_line (LINE_SIZE - 1) bs));
            rest = snd (fgets_line (LINE_SIZE - 1) bs);
            (num, text) = split_line line
        in if num > 0x7FFFFFFF then None
           else if line = [] \<or> num = 0 then basic_lines rest m
           else
             let m1 = add_line num text m
             in if image_pos m1 \<ge> BASIC_MAX_SIZE - 256 then Some m1 else basic_lines rest m1)"
  by pat_completeness auto
termination
  by (relation "measure (\<lambda>(bs, m). length bs)") (auto simp: fgets_shorter [unfolded One_nat_def])

declare basic_lines.simps [simp del]

section \<open>The tape\<close>

text \<open>What follows the last slash, and what precedes the last dot.\<close>

definition base_name :: "u8 list \<Rightarrow> u8 list" where
  "base_name s = rev (takeWhile (\<lambda>c. c \<noteq> 0x2F) (rev s))"

definition drop_extension :: "u8 list \<Rightarrow> u8 list" where
  "drop_extension s = (if 0x2E \<in> set s then rev (tl (dropWhile (\<lambda>c. c \<noteq> 0x2E) (rev s))) else s)"

definition program_name :: "u8 list \<Rightarrow> u8 list" where
  "program_name path = map upcase (drop_extension (take (TAP_NAME_LEN - 1) (c_string (base_name (c_string path)))))"

definition empty_image :: basic_image where
  "empty_image = \<lparr>image_mem = replicate BASIC_MAX_SIZE 0, image_pos = 0, image_oob = False\<rparr>"

definition tap_from_basic ::
  "bool \<Rightarrow> bool \<Rightarrow> u8 list \<Rightarrow> u8 list option \<Rightarrow> bool \<Rightarrow> (bool \<times> u8 list option) option" where
  "tap_from_basic alloc opens path file auto =
     (case file of None \<Rightarrow> Some (False, None)
      | Some bs \<Rightarrow>
          if \<not> alloc then Some (False, None)
          else case basic_lines bs empty_image of None \<Rightarrow> None
          | Some m \<Rightarrow>
              let m1 = put_image 0 (put_image 0 m) in
              if image_oob m1 then None
              else case tap_open_write opens of None \<Rightarrow> Some (False, None)
              | Some t \<Rightarrow>
                  let h = \<lparr>sync_len = 3, tap_name = name_field (program_name path), prog_type = TAP_BASIC,
                           auto_run = (if auto then 0x80 else 0x00), start_addr = of_nat BASIC_START_ADDR,
                           end_addr = of_nat (BASIC_START_ADDR + image_pos m1 - 1), tap_csum = 0\<rparr>;
                      (_, t1) = tap_write_header h t;
                      (_, t2) = tap_write_data (take (image_pos m1) (image_mem m1)) t1
                  in Some (True, Some (fbytes t2)))"

end
