(* ===== verification/Tap_Rules.thy ===== *)
theory Tap_Rules
  imports Tap_Basic
begin

text \<open>
  Rules of the tape files: a tape open for reading is a position in its bytes whether it is in memory
  or not, and what is written is the concatenation of the writes.
\<close>

section \<open>Reading\<close>

text \<open>The tape \<open>t\<close> stands at \<open>p\<close> in the bytes \<open>bs\<close>.\<close>

definition on_tape :: "u8 list \<Rightarrow> nat \<Rightarrow> tap_file_t \<Rightarrow> bool" where
  "on_tape bs p t \<longleftrightarrow> fbytes t = bs \<and> tap_len t = length bs \<and> tap_pos t = p \<and> p \<le> length bs \<and>
     (if fast_load t then tap_data t = Some bs else foffset t = p)"

lemma open_on_tape:
  assumes "tap_open_read alloc (Some bs) fast = Some t" "fast \<longrightarrow> alloc" "bs \<noteq> []"
  shows "on_tape bs 0 t"
  using assms by (cases fast) (auto simp: tap_open_read_def on_tape_def Let_def)

lemma on_tape_byte:
  assumes "on_tape bs p t" "p < length bs"
  shows "\<exists>t'. read_byte t = (bs ! p, t') \<and> on_tape bs (p + 1) t'"
  using assms by (auto simp: on_tape_def read_byte_def in_memory_def)

lemma on_tape_bytes:
  "on_tape bs p t \<Longrightarrow> \<exists>t'. read_bytes n t = (take n (drop p bs), t') \<and> on_tape bs (min (p + n) (length bs)) t'"
proof (induction n arbitrary: p t)
  case 0
  then show ?case by (auto simp: on_tape_def min_def)
next
  case (Suc n)
  show ?case
  proof (cases "p < length bs")
    case True
    then obtain t1 where t1: "read_byte t = (bs ! p, t1)" "on_tape bs (p + 1) t1" using on_tape_byte Suc.prems by blast
    then obtain t2 where t2: "read_bytes n t1 = (take n (drop (p + 1) bs), t2)" "on_tape bs (min (p + 1 + n) (length bs)) t2"
      using Suc.IH by blast
    have "drop p bs = bs ! p # drop (p + 1) bs" using True by (simp add: Cons_nth_drop_Suc)
    then show ?thesis using t1 t2 True Suc.prems by (simp add: tap_eof_def on_tape_def)
  next
    case False
    then show ?thesis using Suc.prems by (auto simp: tap_eof_def on_tape_def)
  qed
qed

lemma on_tape_sync:
  assumes "on_tape bs p t" "drop p bs = replicate n TAP_SYNC_BYTE @ b # rest" "b \<noteq> TAP_SYNC_BYTE"
  shows "on_tape bs (p + n) (skip_sync t)"
  using assms
proof (induction n arbitrary: p t)
  case 0
  then have p: "p < length bs" "bs ! p = b"
    by (auto simp: nth_via_drop intro: ccontr)
  show ?case
  proof (cases "fast_load t")
    case True
    then show ?thesis using 0 p by (subst skip_sync.simps) (auto simp: on_tape_def tap_eof_def in_memory_def)
  next
    case False
    then show ?thesis using 0 p by (subst skip_sync.simps) (auto simp: on_tape_def tap_eof_def in_memory_def Let_def)
  qed
next
  case (Suc n)
  then have p: "p < length bs" "bs ! p = TAP_SYNC_BYTE" "drop (Suc p) bs = replicate n TAP_SYNC_BYTE @ b # rest"
    by (auto simp: nth_via_drop drop_Suc tl_drop [symmetric] intro: ccontr)
  define t1 where "t1 = (if fast_load t then t\<lparr>tap_pos := p + 1\<rparr> else t\<lparr>foffset := foffset t + 1, tap_pos := p + 1\<rparr>)"
  have "on_tape bs (Suc p) t1" using Suc.prems(1) p(1) by (auto simp: on_tape_def t1_def)
  then have "on_tape bs (Suc p + n) (skip_sync t1)" using Suc.IH p(3) Suc.prems(3) by blast
  moreover have "skip_sync t = skip_sync t1"
    using Suc.prems(1) p(1,2) by (subst skip_sync.simps) (auto simp: on_tape_def tap_eof_def in_memory_def t1_def Let_def)
  ultimately show ?case by simp
qed

lemma header_name_chars:
  assumes "\<And>j. j < length cs \<Longrightarrow> raw (p + j) = cs ! j" "0 \<notin> set cs" "raw (p + length cs) = 0"
    "p + length cs < len" "length cs \<le> n"
  shows "header_name n raw len p = (cs, p + length cs + (if length cs < n then 1 else 0))"
  using assms
proof (induction cs arbitrary: n p)
  case Nil
  then show ?case by (cases n) auto
next
  case (Cons c cs)
  obtain m where n: "n = Suc m" using Cons.prems(5) by (cases n) auto
  have "raw p = c" "c \<noteq> 0" using Cons.prems(1) [of 0] Cons.prems(2) by auto
  moreover have "header_name m raw len (p + 1) = (cs, p + 1 + length cs + (if length cs < m then 1 else 0))"
    using Cons.prems Cons.prems(1) [of "Suc j" for j] by (intro Cons.IH) (auto simp: n)
  ultimately show ?case using Cons.prems(4) by (simp add: n)
qed

section \<open>Writing\<close>

text \<open>A tape written so far.\<close>

definition written :: "u8 list \<Rightarrow> tap_file_t \<Rightarrow> bool" where
  "written bs t \<longleftrightarrow> fbytes t = bs \<and> foffset t = length bs \<and> writing t \<and> tap_pos t = length bs"

lemma written_open: "tap_open_write opens = Some t \<Longrightarrow> written [] t"
  by (auto simp: tap_open_write_def written_def split: if_splits)

lemma written_put: "written bs t \<Longrightarrow> written (bs @ cs) (put_bytes cs t)"
  by (simp add: written_def put_bytes_def fwrite_bytes_def)

text \<open>The bytes of a header.\<close>

definition header_bytes :: "tap_header_t \<Rightarrow> u8 list" where
  "header_bytes h =
     [0, 0, prog_type h, auto_run h, hi8 (end_addr h), lo8 (end_addr h), hi8 (start_addr h), lo8 (start_addr h), 0]
     @ take (TAP_NAME_LEN - 1) (c_string (tap_name h)) @ [0]"

definition sync_bytes :: "tap_header_t \<Rightarrow> nat" where
  "sync_bytes h = (if sync_len h \<noteq> 0 then unat (sync_len h) else 3)"

lemma written_header:
  assumes "written bs t"
  obtains t' where "tap_write_header h t = (True, t')"
    "written (bs @ replicate (sync_bytes h) TAP_SYNC_BYTE @ [TAP_MARKER] @ header_bytes h) t'"
proof -
  have "written ((((((((bs @ replicate (sync_bytes h) TAP_SYNC_BYTE) @ [TAP_MARKER]) @ [0, 0]) @ [prog_type h, auto_run h]) @
      [hi8 (end_addr h), lo8 (end_addr h)]) @ [hi8 (start_addr h), lo8 (start_addr h)]) @ [0]) @
      take (TAP_NAME_LEN - 1) (c_string (tap_name h)) @ [0]) (snd (tap_write_header h t))"
    using assms unfolding tap_write_header_def append_assoc [symmetric]
    by (simp add: written_put Let_def sync_bytes_def [symmetric] del: append_assoc)
       (simp add: written_def put_bytes_def fwrite_bytes_def)
  moreover have "fst (tap_write_header h t)" using assms by (simp add: written_def tap_write_header_def Let_def)
  ultimately show thesis using that by (cases "tap_write_header h t") (simp add: header_bytes_def)
qed

lemma written_data:
  assumes "written bs t"
  obtains t' where "tap_write_data cs t = (True, t')" "written (bs @ cs) t'"
  using assms written_put [OF assms, of cs] that
  by (auto simp: tap_write_data_def Let_def written_def)

text \<open>A whole tape: header and data.\<close>

definition tape_bytes :: "tap_header_t \<Rightarrow> u8 list \<Rightarrow> u8 list" where
  "tape_bytes h data = replicate (sync_bytes h) TAP_SYNC_BYTE @ [TAP_MARKER] @ header_bytes h @ data"

lemma write_tape:
  assumes "tap_open_write opens = Some t" "tap_write_header h t = (b1, t1)" "tap_write_data data t1 = (b2, t2)"
  shows "b1 \<and> b2 \<and> fbytes t2 = tape_bytes h data"
proof -
  obtain t1' where t1: "tap_write_header h t = (True, t1')"
    "written ([] @ replicate (sync_bytes h) TAP_SYNC_BYTE @ [TAP_MARKER] @ header_bytes h) t1'"
    using written_header [OF written_open [OF assms(1)]] by blast
  obtain t2' where "tap_write_data data t1' = (True, t2')"
    "written (([] @ replicate (sync_bytes h) TAP_SYNC_BYTE @ [TAP_MARKER] @ header_bytes h) @ data) t2'"
    using written_data [OF t1(2)] by blast
  then show ?thesis using assms t1(1) by (simp add: written_def tape_bytes_def)
qed

section \<open>Reading a header back\<close>

text \<open>What a reader finds after the marker, for any layout.\<close>

lemma read_header_at:
  assumes "on_tape bs 0 t" "bs = replicate n TAP_SYNC_BYTE @ TAP_MARKER # rest"
    "parse_header (\<lambda>i. if i < length (take 32 rest) then take 32 rest ! i else stack i) (length (take 32 rest)) h = (h1, q)"
    "n + 1 + q \<le> length bs"
  shows "\<exists>t'. tap_read_header stack h t = (True, h1, t') \<and> on_tape bs (n + 1 + q) t'"
proof -
  have "on_tape bs (0 + n) (skip_sync t)"
    by (rule on_tape_sync [of _ _ _ _ TAP_MARKER rest]) (use assms in \<open>simp_all add: TAP_SYNC_BYTE_def TAP_MARKER_def\<close>)
  then obtain t1 where t1: "read_byte (skip_sync t) = (bs ! n, t1)" "on_tape bs (n + 1) t1"
    using on_tape_byte [of bs n "skip_sync t"] assms(2) by auto
  obtain t2 where t2: "read_bytes 32 t1 = (take 32 (drop (n + 1) bs), t2)" "on_tape bs (min (n + 1 + 32) (length bs)) t2"
    using on_tape_bytes [OF t1(2)] by blast
  have "bs ! n = TAP_MARKER" "drop (n + 1) bs = rest" "tap_pos t1 = n + 1"
    using assms(2) t1(2) by (simp_all add: nth_append on_tape_def)
  moreover have "on_tape bs (n + 1 + q) (tap_seek (n + 1 + q) t2)"
    using t2(2) assms(4) by (auto simp: on_tape_def tap_seek_def Let_def)
  ultimately show ?thesis
    using t1 t2 assms(3) unfolding tap_read_header_def by (simp del: length_take take_take)
qed

text \<open>The addresses that the reader accepts.\<close>

definition readable_range :: "tap_header_t \<Rightarrow> bool" where
  "readable_range h \<longleftrightarrow> start_addr h < end_addr h \<and> start_addr h \<ge> 0x0100 \<and> end_addr h < 0xC000"

lemma read_written_header:
  assumes "on_tape (tape_bytes h data) 0 t" "readable_range h"
  defines "nm \<equiv> take (TAP_NAME_LEN - 1) (c_string (tap_name h))"
  shows "\<exists>t'. tap_read_header stack h0 t =
      (True, h0\<lparr>prog_type := prog_type h, auto_run := auto_run h, end_addr := end_addr h, start_addr := start_addr h,
         tap_name := name_field (tap_name h)\<rparr>, t') \<and>
    on_tape (tape_bytes h data) (sync_bytes h + 1 + (9 + length nm + (if length nm < 15 then 1 else 0))) t'"
proof -
  define rest where "rest = header_bytes h @ data"
  define raw where "raw = (\<lambda>i. if i < length (take 32 rest) then take 32 rest ! i else stack i)"
  have nm: "length nm \<le> 15" "0 \<notin> set nm"
    by (auto simp: nm_def TAP_NAME_LEN_def c_string_def dest: in_set_takeD set_takeWhileD)
  have len: "10 + length nm \<le> length rest" by (simp add: rest_def header_bytes_def nm_def)
  have hb: "rest = [0, 0, prog_type h, auto_run h, hi8 (end_addr h), lo8 (end_addr h), hi8 (start_addr h), lo8 (start_addr h), 0]
      @ nm @ 0 # data"
    by (simp add: rest_def header_bytes_def nm_def)
  have at: "raw i = rest ! i" if "i < 10 + length nm" for i
    using that nm(1) len by (simp add: raw_def)
  have r: "raw 0 = 0" "raw 2 = prog_type h" "raw 3 = auto_run h" "raw 4 = hi8 (end_addr h)" "raw 5 = lo8 (end_addr h)"
    "raw 6 = hi8 (start_addr h)" "raw 7 = lo8 (start_addr h)"
    by (simp_all add: at) (simp_all add: rest_def header_bytes_def eval_nat_numeral)
  have l: "header_layout raw (length (take 32 rest)) = (0, 9)"
    using assms(2) len by (simp add: header_layout_def plausible_def is_prog_type_def readable_range_def r)
  have "header_name 15 raw (length (take 32 rest)) 9 = (nm, 9 + length nm + (if length nm < 15 then 1 else 0))"
  proof (rule header_name_chars [OF _ nm(2) _ _ nm(1)])
    show "raw (9 + j) = nm ! j" if "j < length nm" for j
      using that by (simp add: at) (simp add: hb nth_append)
    show "raw (9 + length nm) = 0"
      by (simp add: at) (simp add: hb nth_append)
    show "9 + length nm < length (take 32 rest)" using len nm(1) by simp
  qed
  moreover have "nm @ replicate (TAP_NAME_LEN - length nm) 0 = name_field (tap_name h)"
    by (simp add: name_field_def nm_def Let_def)
  ultimately have "parse_header raw (length (take 32 rest)) h0 =
      (h0\<lparr>prog_type := prog_type h, auto_run := auto_run h, end_addr := end_addr h, start_addr := start_addr h,
         tap_name := name_field (tap_name h)\<rparr>, 9 + length nm + (if length nm < 15 then 1 else 0))"
    unfolding parse_header_def l by (simp add: r r [unfolded eval_nat_numeral BitM.simps] TAP_NAME_LEN_def)
  moreover have bs: "tape_bytes h data = replicate (sync_bytes h) TAP_SYNC_BYTE @ TAP_MARKER # rest"
    by (simp add: tape_bytes_def rest_def)
  ultimately show ?thesis
    using read_header_at [OF assms(1) bs, of stack h0] len by (simp add: raw_def bs del: length_take)
qed

end
