(* ===== verification/Tap_Chain.thy ===== *)
theory Tap_Chain
  imports Tap_Rules
begin

text \<open>
  The program image of a BASIC tape: lines chained by their pointers, walked as the ROM does, and the
  stores of the conversion as the bytes they put one after the other.
\<close>

text \<open>
  Rules of the BASIC conversion: what a keyword match stands for, the listing of the tokens, and the
  program image as a chain of lines that ends with two zeros.
\<close>

section \<open>Keywords\<close>

definition upper_ascii :: "u8 \<Rightarrow> bool" where
  "upper_ascii c \<longleftrightarrow> c \<noteq> 0 \<and> c < 0x80 \<and> \<not> (0x61 \<le> c \<and> c \<le> 0x7A) \<and> c \<noteq> QUOTE"

lemma keyword_table:
  "length basic_keywords = 120 \<and> list_all (\<lambda>k. k \<noteq> [] \<and> list_all upper_ascii (bytes_of k)) basic_keywords"
  by code_simp

lemma keyword_chars:
  assumes "i < 120" shows "basic_keywords ! i \<noteq> []" "c \<in> set (bytes_of (basic_keywords ! i)) \<Longrightarrow> upper_ascii c"
  using keyword_table nth_mem [of i basic_keywords] assms by (auto simp: list_all_iff)

lemma upcase_upper: "upper_ascii c \<Longrightarrow> upcase c = c"
  by (auto simp: upper_ascii_def upcase_def)

text \<open>A match is a keyword of the table that the text starts with, in either case.\<close>

lemma match_keyword:
  assumes "basic_match_keyword s = Some (n, tok)"
  shows "\<exists>i < 120. tok = BASIC_TOKEN_BASE + of_nat i \<and> n = length (bytes_of (basic_keywords ! i)) \<and>
    keyword_here (bytes_of (basic_keywords ! i)) s \<and> \<not> word_goes_on (bytes_of (basic_keywords ! i)) s"
proof -
  let ?P = "\<lambda>b. case b of (n, None) \<Rightarrow> True | (n, Some i) \<Rightarrow> i < 120 \<and> n = length (bytes_of (basic_keywords ! i)) \<and>
    keyword_here (bytes_of (basic_keywords ! i)) s \<and> \<not> word_goes_on (bytes_of (basic_keywords ! i)) s"
  have "?P (fold (match_step s) (enumerate 0 (map bytes_of basic_keywords)) (0, None))"
  proof (rule fold_invariant [where Q = "\<lambda>e. fst e < 120 \<and> snd e = bytes_of (basic_keywords ! fst e)"])
    show "fst e < 120 \<and> snd e = bytes_of (basic_keywords ! fst e)" if "e \<in> set (enumerate 0 (map bytes_of basic_keywords))" for e
      using that keyword_table by (auto simp: in_set_enumerate_eq dest: sym)
  qed (auto simp: match_step_def split: prod.splits)
  then show ?thesis
    using assms by (auto simp: basic_match_keyword_def split: prod.splits option.splits)
qed

lemma keyword_here_take:
  assumes "keyword_here k s" "\<And>c. c \<in> set k \<Longrightarrow> c \<noteq> 0"
  shows "length k \<le> length s" "map upcase (take (length k) s) = k"
proof -
  have at: "upcase (char_at s j) = k ! j" if "j < length k" for j
    using assms(1) that by (simp add: keyword_here_def list_all_iff)
  show "length k \<le> length s"
  proof (rule ccontr)
    assume "\<not> length k \<le> length s"
    then have "upcase (char_at s (length s)) = k ! length s" "k ! length s \<noteq> 0" using at assms(2) by simp_all
    then show False by (simp add: char_at_def upcase_def)
  qed
  then show "map upcase (take (length k) s) = k"
    using at by (intro nth_equalityI) (auto simp: char_at_def)
qed

section \<open>Listing a line\<close>

text \<open>What LIST prints for a byte of a program line.\<close>

definition list_byte :: "u8 \<Rightarrow> u8 list" where
  "list_byte b = (if b < 0x80 then [b] else bytes_of (basic_keywords ! unat (b - 0x80)))"

definition list_line :: "u8 list \<Rightarrow> u8 list" where
  "list_line bs = concat (map list_byte bs)"

lemma list_token: "i < 120 \<Longrightarrow> list_byte (BASIC_TOKEN_BASE + of_nat i) = bytes_of (basic_keywords ! i)"
proof -
  assume i: "i < 120"
  then have "unat (of_nat i :: u8) = i" by (simp add: unat_of_nat)
  then have "(0x80 + of_nat i :: u8) \<ge> 0x80" using i by (simp add: word_le_nat_alt unat_word_ariths)
  then show ?thesis using i by (simp add: list_byte_def BASIC_TOKEN_BASE_def \<open>unat (of_nat i) = i\<close> leD)
qed

lemma upcase_upcase [simp]: "upcase (upcase c) = upcase c"
  by (cases "0x61 \<le> c \<and> c \<le> 0x7A") (auto simp: upcase_def word_le_nat_alt unat_sub_if_size word_size)

lemma upcase_ascii: "c < 0x80 \<Longrightarrow> upcase c < 0x80"
  by (auto simp: upcase_def word_le_nat_alt word_less_nat_alt unat_sub_if_size word_size)

lemma list_tokenize:
  assumes "\<And>c. c \<in> set s \<Longrightarrow> c < 0x80" "length s \<le> room"
  shows "map upcase (list_line (tokenize room q r s)) = map upcase s"
  using assms
proof (induction room arbitrary: q r s)
  case 0 then show ?case by (simp add: list_line_def)
next
  case (Suc room)
  show ?case
  proof (cases s)
    case Nil then show ?thesis by (simp add: list_line_def)
  next
    case (Cons c cs)
    have c: "c < 0x80" "list_byte c = [c]" "list_byte (upcase c) = [upcase c]"
      using Suc.prems Cons upcase_ascii by (simp_all add: list_byte_def)
    have ih: "map upcase (list_line (tokenize room q r cs)) = map upcase cs" for q r
      using Suc.IH [of cs] Suc.prems Cons by simp
    show ?thesis
    proof (cases "\<not> q \<and> \<not> r \<and> c \<noteq> QUOTE")
      case False
      then show ?thesis using ih c by (auto simp: Cons list_line_def split: if_splits)
    next
      case True
      show ?thesis
      proof (cases "basic_match_keyword s")
        case None
        then show ?thesis using True ih c by (simp add: Cons list_line_def)
      next
        case (Some m)
        obtain n tok where m: "m = (n, tok)" by (cases m)
        obtain i where i: "i < 120" "tok = BASIC_TOKEN_BASE + of_nat i" "n = length (bytes_of (basic_keywords ! i))"
          "keyword_here (bytes_of (basic_keywords ! i)) s"
          using match_keyword [OF Some [unfolded m]] by blast
        have k: "bytes_of (basic_keywords ! i) \<noteq> []" "\<And>c. c \<in> set (bytes_of (basic_keywords ! i)) \<Longrightarrow> upper_ascii c"
          using keyword_chars [OF i(1)] by (auto simp: bytes_of_def)
        then have "\<And>c. c \<in> set (bytes_of (basic_keywords ! i)) \<Longrightarrow> c \<noteq> 0" by (auto simp: upper_ascii_def)
        from keyword_here_take [OF i(4) this]
        have t: "n \<le> length s" "map upcase (take n s) = bytes_of (basic_keywords ! i)" by (simp_all add: i(3))
        have "0 < n" using k(1) i(3) by simp
        then have "map upcase (list_line (tokenize room False b (drop n s))) = map upcase (drop n s)" for b
          using Suc.prems by (intro Suc.IH) (auto dest: in_set_dropD)
        moreover have "map upcase (list_byte tok) = map upcase (take n s)"
          using t(2) k(2) list_token [OF i(1)] by (simp add: i(2) upcase_upper map_idI)
        moreover have "tokenize (Suc room) q r s = tok # tokenize room False (tok = TOKEN_REM) (drop n s)"
          using True Some m by (simp add: Cons)
        ultimately show ?thesis
          using append_take_drop_id [of n s] by (simp add: list_line_def del: tokenize.simps append_take_drop_id)
            (metis map_append)
      qed
    qed
  qed
qed

text \<open>Every byte of the source or token is one byte, never a zero.\<close>

lemma match_positive: "basic_match_keyword s = Some (n, tok) \<Longrightarrow> 0 < n"
  using match_keyword [of s n tok] keyword_chars(1) by (auto simp: bytes_of_def)

lemma tokenize_length: "length (tokenize room q r s) \<le> min room (length s)"
proof (induction room arbitrary: q r s)
  case (Suc room)
  have "length (tokenize room q r (drop n s)) \<le> min room (length s - 1)" if "0 < n" for q r n
    using Suc.IH [of q r "drop n s"] that by (auto simp: min_def split: if_splits)
  then show ?case
    using Suc.IH [of _ _ "tl s"] match_positive [of s]
    by (cases s) (force split: option.splits prod.splits)+
qed simp

lemma tokenize_nonzero:
  assumes "0 \<notin> set s" shows "0 \<notin> set (tokenize room q r s)"
  using assms
proof (induction room arbitrary: q r s)
  case (Suc room)
  have up: "upcase c = 0 \<longleftrightarrow> c = 0" for c
    by (auto simp: upcase_def word_le_nat_alt)
  have tok: "tok \<noteq> 0" if "basic_match_keyword s = Some (n, tok)" for n tok
  proof -
    from match_keyword [OF that] obtain i where "i < 120" "tok = BASIC_TOKEN_BASE + of_nat i" by blast
    then show ?thesis by (auto simp: BASIC_TOKEN_BASE_def unat_word_ariths unat_of_nat dest!: arg_cong [of _ _ unat])
  qed
  have "0 \<notin> set (tokenize room q r (drop n s))" for q r n
    using Suc by (auto dest: in_set_dropD)
  from this [of _ _ 1] this tok show ?case
    using Suc.prems by (cases s) (auto simp: up split: option.splits prod.splits if_splits)
qed simp

section \<open>The chain\<close>

definition line_bytes :: "nat \<Rightarrow> int \<Rightarrow> u8 list \<Rightarrow> u8 list" where
  "line_bytes pos num toks =
     (let nxt = of_nat (BASIC_START_ADDR + pos + 5 + length toks) :: u16; n = word_of_int num :: u16
      in [lo8 nxt, hi8 nxt, lo8 n, hi8 n] @ toks @ [0])"

definition line_tokens :: "u8 list \<Rightarrow> u8 list" where
  "line_tokens t = basic_tokenize_line t LINE_SIZE"

fun chain :: "nat \<Rightarrow> (int \<times> u8 list) list \<Rightarrow> u8 list" where
  "chain pos [] = []"
| "chain pos ((n, t) # ls) =
     line_bytes pos n (line_tokens t) @ chain (pos + 5 + length (line_tokens t)) ls"

lemma length_line_bytes [simp]: "length (line_bytes pos n toks) = 5 + length toks"
  by (simp add: line_bytes_def Let_def)

text \<open>The lines that following the pointers from offset \<open>p\<close> visits: number and tokens.\<close>

fun list_program :: "nat \<Rightarrow> u8 list \<Rightarrow> nat \<Rightarrow> (u16 \<times> u8 list) list" where
  "list_program 0 mem p = []"
| "list_program (Suc n) mem p =
     (let nxt = hilo (mem ! (p + 1)) (mem ! p)
      in if nxt = 0 then []
         else (hilo (mem ! (p + 3)) (mem ! (p + 2)), takeWhile (\<lambda>b. b \<noteq> 0) (drop (p + 4) mem)) #
           list_program n mem (unat nxt - BASIC_START_ADDR))"

lemma walk_chain:
  assumes "mem = pre @ chain (length pre) ls @ [0, 0]" "length mem + BASIC_START_ADDR < 65536"
    "\<And>n t. (n, t) \<in> set ls \<Longrightarrow> 0 \<notin> set t"
  shows "list_program (Suc (length ls)) mem (length pre) = map (\<lambda>(n, t). (word_of_int n, line_tokens t)) ls"
  using assms
proof (induction ls arbitrary: pre)
  case Nil
  then show ?case by (simp add: nth_append hilo_def)
next
  case (Cons l ls)
  obtain n t where l: "l = (n, t)" by (cases l)
  define nxt where "nxt = (of_nat (BASIC_START_ADDR + length pre + 5 + length (line_tokens t)) :: u16)"
  define pre' where "pre' = pre @ line_bytes (length pre) n (line_tokens t)"
  have mem: "mem = pre' @ chain (length pre') ls @ [0, 0]"
    using Cons.prems(1) by (simp add: l pre'_def ac_simps)
  have nz: "0 \<notin> set (line_tokens t)"
    using Cons.prems(3) [of n t] tokenize_nonzero by (simp add: l line_tokens_def basic_tokenize_line_def)
  have u: "unat nxt = BASIC_START_ADDR + length pre'"
    using Cons.prems(2) unfolding mem
    by (simp only: nxt_def unat_of_nat) (simp add: pre'_def)
  then have "nxt \<noteq> 0" by (auto simp: BASIC_START_ADDR_def)
  moreover have "mem ! length pre = lo8 nxt" "mem ! (length pre + 1) = hi8 nxt"
    "mem ! (length pre + 2) = lo8 (word_of_int n)" "mem ! (length pre + 3) = hi8 (word_of_int n)"
    "drop (length pre + 4) mem = line_tokens t @ 0 # chain (length pre') ls @ [0, 0]"
    unfolding mem pre'_def by (simp_all add: line_bytes_def nxt_def Let_def nth_append)
  moreover have "takeWhile (\<lambda>b. b \<noteq> 0) (line_tokens t @ 0 # chain (length pre') ls @ [0, 0]) = line_tokens t"
    using nz by (subst takeWhile_append2) auto
  moreover have "list_program (Suc (length ls)) mem (length pre') = map (\<lambda>(n, t). (word_of_int n, line_tokens t)) ls"
    by (rule Cons.IH [OF mem Cons.prems(2)]) (use Cons.prems(3) in auto)
  ultimately show ?case
    by (subst list_program.simps(2)) (simp add: l u Let_def del: list_program.simps)
qed

section \<open>The image\<close>

definition stored :: "u8 list \<Rightarrow> basic_image \<Rightarrow> bool" where
  "stored bs m \<longleftrightarrow> image_pos m = length bs \<and> length (image_mem m) = BASIC_MAX_SIZE \<and>
     (image_oob m \<longleftrightarrow> BASIC_MAX_SIZE < length bs) \<and>
     (length bs \<le> BASIC_MAX_SIZE \<longrightarrow> take (length bs) (image_mem m) = bs)"

lemma stored_empty: "stored [] empty_image"
  by (simp add: stored_def empty_image_def)

lemma stored_put: "stored bs m \<Longrightarrow> stored (bs @ [v]) (put_image v m)"
  by (auto simp: stored_def put_image_def take_Suc_conv_app_nth)

lemma stored_puts: "stored bs m \<Longrightarrow> stored (bs @ vs) (fold put_image vs m)"
  by (induction vs arbitrary: bs m) (simp, metis append_Cons append_Nil append_assoc fold_simps(2) stored_put)

lemma stored_patch:
  assumes "stored (bs @ [a, b] @ cs) m"
  shows "stored (bs @ [x, y] @ cs) (m\<lparr>image_mem := (image_mem m)[length bs := x, length bs + 1 := y]\<rparr>)"
proof -
  have "take (length (bs @ [a, b] @ cs)) ((image_mem m)[length bs := x, length bs + 1 := y]) = bs @ [x, y] @ cs"
    if "take (length (bs @ [a, b] @ cs)) (image_mem m) = bs @ [a, b] @ cs"
    by (simp only: take_update_swap that) (simp add: list_update_append)
  then show ?thesis using assms by (auto simp: stored_def)
qed

lemma stored_line:
  assumes "stored bs m"
  shows "stored (bs @ line_bytes (length bs) num (line_tokens t)) (add_line num t m)"
proof -
  define n where "n = (word_of_int num :: u16)"
  define m2 where "m2 = put_image 0 (fold put_image (line_tokens t)
     (put_image (hi8 n) (put_image (lo8 n) (put_image 0 (put_image 0 m)))))"
  have "stored ((((((bs @ [0]) @ [0]) @ [lo8 n]) @ [hi8 n]) @ line_tokens t) @ [0]) m2"
    unfolding m2_def by (intro stored_put stored_puts assms)
  then have m2: "stored (bs @ [0, 0] @ [lo8 n, hi8 n] @ line_tokens t @ [0]) m2" by simp
  define nxt where "nxt = (of_nat (BASIC_START_ADDR + image_pos m2) :: u16)"
  have p: "image_pos m = length bs" "image_pos m2 = length bs + 5 + length (line_tokens t)"
    using assms m2 by (simp_all add: stored_def)
  have "add_line num t m = m2\<lparr>image_mem := (image_mem m2)[length bs := lo8 nxt, length bs + 1 := hi8 nxt]\<rparr>"
    by (simp add: add_line_def m2_def nxt_def n_def line_tokens_def Let_def p(1))
  moreover have "line_bytes (length bs) num (line_tokens t) =
      [lo8 nxt, hi8 nxt] @ [lo8 n, hi8 n] @ line_tokens t @ [0]"
    by (simp add: line_bytes_def nxt_def n_def p(2) Let_def ac_simps)
  ultimately show ?thesis using stored_patch [OF m2, of "lo8 nxt" "hi8 nxt"] by simp
qed

section \<open>The listing\<close>

text \<open>The lines of a file as \<open>fgets\<close> cuts it, and those that are numbered.\<close>

function source_lines :: "u8 list \<Rightarrow> u8 list list" where
  "source_lines bs =
     (if bs = [] then []
      else strip_line (fst (fgets_line (LINE_SIZE - 1) bs)) # source_lines (snd (fgets_line (LINE_SIZE - 1) bs)))"
  by pat_completeness auto
termination
  by (relation "measure length") (auto simp: fgets_shorter [unfolded One_nat_def])

declare source_lines.simps [simp del]

definition numbered_lines :: "u8 list \<Rightarrow> (int \<times> u8 list) list" where
  "numbered_lines bs = filter (\<lambda>l. fst l \<noteq> 0) (map split_line (source_lines bs))"

lemma split_line_Nil [simp]: "split_line [] = (0, [])"
  by (simp add: split_line_def number_of_def)

lemma numbered_lines_nonzero: "(n, t) \<in> set (numbered_lines bs) \<Longrightarrow> 0 \<notin> set t"
proof (induction bs rule: source_lines.induct)
  case (1 bs)
  have "0 \<notin> set (snd (split_line (strip_line l)))" for l
  proof -
    have "0 \<notin> set (strip_line l)"
      using set_dropWhileD [of 0 "\<lambda>c. c = 0x0A \<or> c = 0x0D" "rev (c_string l)"]
      by (auto simp: strip_line_def c_string_def dest: set_takeWhileD)
    moreover have tl: "x \<in> set (tl xs) \<Longrightarrow> x \<in> set xs" for x :: u8 and xs
      by (cases xs) auto
    have "set (snd (split_line s)) \<subseteq> set s" for s
      by (auto simp: split_line_def Let_def dest!: tl set_dropWhileD split: if_splits)
    ultimately show ?thesis by blast
  qed
  then have z: "0 \<notin> set t" if "split_line (strip_line l) = (n, t)" for l by (metis snd_conv that)
  show ?case
  proof (cases "bs = []")
    case True
    then show ?thesis using "1.prems" by (subst (asm) numbered_lines_def) (simp add: source_lines.simps)
  next
    case False
    then have "numbered_lines bs = filter (\<lambda>l. fst l \<noteq> 0) [split_line (strip_line (fst (fgets_line (LINE_SIZE - 1) bs)))] @
        numbered_lines (snd (fgets_line (LINE_SIZE - 1) bs))"
      by (simp add: numbered_lines_def source_lines.simps [of bs])
    then show ?thesis using "1.IH" [OF False] "1.prems" z [OF sym] by (auto split: if_splits)
  qed
qed

lemma basic_lines_chain:
  assumes "basic_lines bs m = Some m'" "stored ps m"
  shows "\<exists>ls rest. numbered_lines bs = ls @ rest \<and> stored (ps @ chain (length ps) ls) m' \<and>
    (rest = [] \<or> BASIC_MAX_SIZE - 256 \<le> image_pos m')"
  using assms
proof (induction bs m arbitrary: ps rule: basic_lines.induct)
  case (1 bs m)
  show ?case
  proof (cases "bs = []")
    case True
    then show ?thesis using "1.prems" by (simp add: basic_lines.simps numbered_lines_def source_lines.simps)
  next
    case False
    define line where "line = strip_line (fst (fgets_line (LINE_SIZE - 1) bs))"
    define rest where "rest = snd (fgets_line (LINE_SIZE - 1) bs)"
    obtain num body where nt: "split_line line = (num, body)" by (cases "split_line line")
    note IH = "1.IH" [OF False line_def rest_def nt [symmetric] refl]
    have nl: "numbered_lines bs = (if num = 0 then [] else [(num, body)]) @ numbered_lines rest"
      using False nt by (simp add: numbered_lines_def source_lines.simps [of bs] line_def rest_def)
    have run: "basic_lines bs m = (if num > 0x7FFFFFFF then None
           else if line = [] \<or> num = 0 then basic_lines rest m
           else if image_pos (add_line num body m) \<ge> BASIC_MAX_SIZE - 256 then Some (add_line num body m)
           else basic_lines rest (add_line num body m))"
      using False nt by (subst basic_lines.simps) (simp add: Let_def line_def rest_def)
    have ln: "line = [] \<Longrightarrow> num = 0" using nt by auto
    show ?thesis
    proof (cases "num = 0")
      case True
      then show ?thesis using IH(1) "1.prems" nl run by auto
    next
      case num: False
      note st = stored_line [OF "1.prems"(2), of num body]
      show ?thesis
      proof (cases "image_pos (add_line num body m) \<ge> BASIC_MAX_SIZE - 256")
        case True
        then have "m' = add_line num body m" using "1.prems"(1) run num ln by (auto split: if_splits)
        then show ?thesis using st True num nl
          by (intro exI [of _ "[(num, body)]"] exI [of _ "numbered_lines rest"]) simp
      next
        case False
        then have "basic_lines rest (add_line num body m) = Some m'" "\<not> num > 0x7FFFFFFF"
          using "1.prems"(1) run num ln by (auto split: if_splits)
        from IH(2) [OF this(2) _ refl False this(1) st] num ln obtain ls rest' where
          "numbered_lines rest = ls @ rest'"
          "stored ((ps @ line_bytes (length ps) num (line_tokens body)) @
             chain (length (ps @ line_bytes (length ps) num (line_tokens body))) ls) m'"
          "rest' = [] \<or> BASIC_MAX_SIZE - 256 \<le> image_pos m'"
          by auto
        then show ?thesis using num nl
          by (intro exI [of _ "(num, body) # ls"] exI [of _ rest']) (simp add: ac_simps)
      qed
    qed
  qed
qed

end
