(* ===== verification/Tap_Properties.thy ===== *)
theory Tap_Properties
  imports Tap_Chain
begin

text \<open>
  The properties of the tape files: binaries and BASIC listings written and read back, the programs the
  reader takes for another format, and the listing that overflows the conversion buffer.
\<close>

section \<open>Binaries\<close>

definition name_chars :: "u8 list option \<Rightarrow> u8 list" where
  "name_chars nm = (case nm of Some s \<Rightarrow> take (TAP_NAME_LEN - 1) (c_string s) | None \<Rightarrow> [])"

lemma c_string_padded: "0 \<notin> set cs \<Longrightarrow> c_string (cs @ replicate k 0) = cs"
  unfolding c_string_def by (subst takeWhile_append2) (auto simp: takeWhile_replicate)

lemma c_string_field: "c_string (name_field s) = take (TAP_NAME_LEN - 1) (c_string s)"
proof -
  have "0 \<notin> set (take (TAP_NAME_LEN - 1) (c_string s))"
    by (auto simp: c_string_def dest: in_set_takeD set_takeWhileD)
  then show ?thesis by (simp only: name_field_def Let_def) (rule c_string_padded)
qed

definition binary_header :: "u8 list \<Rightarrow> u16 \<Rightarrow> u16 \<Rightarrow> u8 list option \<Rightarrow> tap_header_t" where
  "binary_header bs start exec nm =
     \<lparr>sync_len = 3, tap_name = (case nm of Some s \<Rightarrow> name_field s | None \<Rightarrow> replicate TAP_NAME_LEN 0),
      prog_type = TAP_MACHINE, auto_run = (if exec \<noteq> 0 then 0xC7 else 0x00), start_addr = start,
      end_addr = start + of_nat (length bs) - 1, tap_csum = 0\<rparr>"

lemma from_binary_tape:
  assumes "tap_from_binary alloc opens (Some bs) start exec nm = (True, Some fl)"
  shows "fl = tape_bytes (binary_header bs start exec nm) bs" "bs \<noteq> []" "length bs \<le> 48000"
proof -
  have run: "tap_from_binary alloc opens (Some bs) start exec nm =
      (if bs = [] \<or> length bs > 48000 \<or> \<not> alloc then (False, None)
       else case tap_open_write opens of None \<Rightarrow> (False, None)
       | Some t \<Rightarrow> (True, Some (fbytes (snd (tap_write_data bs (snd (tap_write_header (binary_header bs start exec nm) t)))))))"
    by (cases "tap_open_write opens") (simp_all add: tap_from_binary_def binary_header_def Let_def split_def)
  then show "bs \<noteq> []" "length bs \<le> 48000" using assms by (auto split: if_splits)
  obtain t where t: "tap_open_write opens = Some t" using assms run by (auto split: if_splits option.splits)
  have "fbytes (snd (tap_write_data bs (snd (tap_write_header (binary_header bs start exec nm) t)))) =
      tape_bytes (binary_header bs start exec nm) bs"
    using write_tape [OF t surjective_pairing surjective_pairing] by simp
  then show "fl = tape_bytes (binary_header bs start exec nm) bs"
    using assms run t by (auto split: if_splits)
qed

lemma binary_name: "take (TAP_NAME_LEN - 1) (c_string (tap_name (binary_header bs start exec nm))) = name_chars nm"
  by (cases nm) (simp_all add: binary_header_def name_chars_def c_string_field, simp add: c_string_def TAP_NAME_LEN_def)

lemma binary_field: "name_field (tap_name (binary_header bs start exec nm)) = name_chars nm @ replicate (16 - length (name_chars nm)) 0"
  using binary_name [of bs start exec nm] by (simp add: name_field_def Let_def TAP_NAME_LEN_def)

lemma tape_data:
  assumes "on_tape (tape_bytes h data) (sync_bytes h + 1 + (9 + n + (if n < 15 then 1 else 0))) t"
    "n = length (take (TAP_NAME_LEN - 1) (c_string (tap_name h)))"
  shows "fst (tap_read_data t m) = take m (if n < 15 then data else 0 # data)"
proof -
  define pre where "pre = replicate (sync_bytes h) TAP_SYNC_BYTE @ [TAP_MARKER, 0, 0, prog_type h, auto_run h, hi8 (end_addr h),
     lo8 (end_addr h), hi8 (start_addr h), lo8 (start_addr h), 0] @ take (TAP_NAME_LEN - 1) (c_string (tap_name h))"
  have "tape_bytes h data = pre @ 0 # data" by (simp add: tape_bytes_def header_bytes_def pre_def)
  moreover have "length pre = sync_bytes h + 1 + (9 + n)" by (simp add: pre_def assms(2))
  ultimately have "drop (sync_bytes h + 1 + (9 + n + (if n < 15 then 1 else 0))) (tape_bytes h data) =
      (if n < 15 then data else 0 # data)" by simp
  then show ?thesis using on_tape_bytes [OF assms(1), of m] by (auto simp: tap_read_data_def)
qed

text \<open>
  C32: A binary of at least two bytes that lies between \<open>$0100\<close> and \<open>$BFFF\<close>, converted into a tape,
  reads back: the header gives its addresses, type, auto-run flag and name, whether the tape is in
  memory or not and whatever the uninitialised buffer holds.  The data follow, except that after
  a name of 15 characters the reader does not skip the terminator: the data then start with that zero.
\<close>
theorem tap_binary_roundtrip:
  assumes "tap_from_binary alloc opens (Some bs) start exec nm = (True, Some fl)"
    and "0x0100 \<le> start" "unat start + length bs \<le> 0xC000" "2 \<le> length bs"
    and "tap_open_read alloc' (Some fl) fast = Some t" "fast \<longrightarrow> alloc'"
  shows "\<exists>t'. tap_read_header stack h0 t =
      (True, h0\<lparr>prog_type := TAP_MACHINE, auto_run := (if exec \<noteq> 0 then 0xC7 else 0x00),
         end_addr := start + of_nat (length bs - 1), start_addr := start,
         tap_name := name_chars nm @ replicate (16 - length (name_chars nm)) 0\<rparr>, t') \<and>
    (\<forall>n. fst (tap_read_data t' n) = take n (if length (name_chars nm) < 15 then bs else 0 # bs))"
proof -
  let ?h = "binary_header bs start exec nm"
  note tape = from_binary_tape [OF assms(1)]
  have e: "end_addr ?h = start + of_nat (length bs - 1)"
    using assms(4) by (simp add: binary_header_def of_nat_diff)
  have "unat (start + of_nat k) = unat start + k" if "unat start + k < 65536" for k
    using that by (simp add: unat_word_ariths unat_of_nat)
  then have "unat (end_addr ?h) = unat start + (length bs - 1)"
    using assms(3,4) by (simp only: e)
  then have "readable_range ?h"
    using assms(2,3,4) by (simp add: readable_range_def word_less_nat_alt word_le_nat_alt) (simp add: binary_header_def, linarith)
  moreover have "on_tape (tape_bytes ?h bs) 0 t"
    using open_on_tape [OF assms(5,6)] tape by (simp add: tape_bytes_def)
  ultimately obtain t' where t': "tap_read_header stack h0 t =
      (True, h0\<lparr>prog_type := prog_type ?h, auto_run := auto_run ?h, end_addr := end_addr ?h, start_addr := start_addr ?h,
         tap_name := name_field (tap_name ?h)\<rparr>, t')"
    "on_tape (tape_bytes ?h bs) (sync_bytes ?h + 1 + (9 + length (name_chars nm) + (if length (name_chars nm) < 15 then 1 else 0))) t'"
    using read_written_header [of ?h bs t stack h0] unfolding binary_name by blast
  have "fst (tap_read_data t' n) = take n (if length (name_chars nm) < 15 then bs else 0 # bs)" for n
    using tape_data [OF t'(2), of n] unfolding binary_name by simp
  then show ?thesis using t'(1) by (simp add: e binary_field) (simp add: binary_header_def)
qed

lemma binary_tape_example:
  "tap_from_binary True True (Some bs) start 0 (Some [0x41]) = (True, Some (tape_bytes (binary_header bs start 0 (Some [0x41])) bs))"
  if "bs \<noteq> []" "length bs \<le> 48000"
proof -
  have "tap_from_binary True True (Some bs) start 0 (Some [0x41]) =
      (True, snd (tap_from_binary True True (Some bs) start 0 (Some [0x41])))"
    "snd (tap_from_binary True True (Some bs) start 0 (Some [0x41])) \<noteq> None"
    using that by (simp_all add: tap_from_binary_def tap_open_write_def Let_def split_def)
  then show ?thesis using from_binary_tape(1) [of True True bs start 0 "Some [0x41]"] by (metis option.exhaust)
qed

definition open_example :: "u8 list \<Rightarrow> u16 \<Rightarrow> tap_file_t" where
  "open_example bs start = the (tap_open_read True (Some (tape_bytes (binary_header bs start 0 (Some [0x41])) bs)) True)"

lemma open_example: "tap_open_read True (Some (tape_bytes (binary_header bs start 0 (Some [0x41])) bs)) True = Some (open_example bs start)"
  by (simp add: open_example_def tap_open_read_def Let_def)

lemma tap_binary_roundtrip_witness:
  "\<exists>h t. tap_read_header (\<lambda>_. 0xAA) undefined (open_example [1, 2, 3] 0x0500) = (True, h, t) \<and>
     start_addr h = 0x0500 \<and> end_addr h = 0x0502 \<and> fst (tap_read_data t 3) = [1, 2, 3]"
  using tap_binary_roundtrip [OF binary_tape_example _ _ _ open_example, of "[1, 2, 3]" "0x0500" "\<lambda>_. 0xAA" undefined]
  by (auto simp: name_chars_def c_string_def TAP_NAME_LEN_def)

lemma header_name_pos: "snd (header_name n raw len p) \<le> max p len"
proof (induction n arbitrary: p)
  case (Suc n)
  show ?case using Suc.IH [of "p + 1"] by (auto simp: max_def split: prod.splits if_splits)
qed simp

text \<open>
  A binary of one byte below \<open>$8000\<close> does not read back: its header has equal addresses, so the
  reader looks for the 7-byte layout and finds one in it, two bytes too early, a BASIC program of
  the whole memory up to \<open>$8000\<close>, or \<open>$80C7\<close> with auto-run.
\<close>
theorem tap_one_byte_misread:
  assumes "tap_from_binary alloc opens (Some [b]) start exec nm = (True, Some fl)"
    and "0x0100 \<le> start" "start < 0x8000"
    and "tap_open_read alloc' (Some fl) fast = Some t" "fast \<longrightarrow> alloc'"
  shows "\<exists>h t'. tap_read_header stack h0 t = (True, h, t') \<and> prog_type h = TAP_BASIC \<and> auto_run h = 0 \<and>
    start_addr h = start \<and> end_addr h = (if exec \<noteq> 0 then 0x80C7 else 0x8000)"
proof -
  let ?h = "binary_header [b] start exec nm"
  define rest where "rest = header_bytes ?h @ [b]"
  define raw where "raw = (\<lambda>i. if i < length (take 32 rest) then take 32 rest ! i else stack i)"
  note tape = from_binary_tape [OF assms(1)]
  have len: "length rest = 11 + length (name_chars nm)" "length (name_chars nm) \<le> 15"
    by (simp_all add: rest_def header_bytes_def binary_name [simplified]) (simp add: name_chars_def TAP_NAME_LEN_def split: option.splits)
  have at: "raw i = rest ! i" if "i < 10" for i using that len by (simp add: raw_def)
  define auto where "auto = (if exec \<noteq> 0 then 0xC7 else 0x00 :: u8)"
  have r: "raw 0 = 0" "raw 1 = 0" "raw 2 = 0x80" "raw 3 = auto" "raw 4 = hi8 start" "raw 5 = lo8 start" "raw 6 = hi8 start" "raw 7 = lo8 start"
    by (simp_all add: at)
       (simp_all add: rest_def header_bytes_def binary_header_def auto_def TAP_MACHINE_def eval_nat_numeral)
  have a: "hilo 0x80 auto = (if exec \<noteq> 0 then 0x80C7 else 0x8000)" by (simp add: auto_def hilo_def)
  have f: "start < hilo 0x80 auto" "hilo 0x80 auto < 0xC000"
    using assms(3) by (auto simp: a elim: less_trans)
  have p: "plausible raw 2" "\<not> plausible raw 4"
    using f assms(2) unfolding plausible_def by (simp_all add: r)
  have l: "header_layout raw (length (take 32 rest)) = (0, 7)"
    using p p(1) [unfolded numeral_2_eq_2] len by (simp add: header_layout_def is_prog_type_def r)
  obtain h q where hq: "parse_header raw (length (take 32 rest)) h0 = (h, q)" by (cases "parse_header raw (length (take 32 rest)) h0")
  have h: "prog_type h = 0 \<and> auto_run h = 0 \<and> start_addr h = start \<and> end_addr h = hilo 0x80 auto"
    using hq unfolding parse_header_def l
    by (auto simp: r r(2) [unfolded One_nat_def] r(3) [unfolded numeral_2_eq_2] split: prod.splits)
  have "q = snd (header_name 15 raw (length (take 32 rest)) 7)"
    using hq unfolding parse_header_def l by (simp add: TAP_NAME_LEN_def split: prod.splits)
  then have q: "q \<le> length (take 32 rest)"
    using header_name_pos [of 15 raw "length (take 32 rest)" 7] len by (simp add: max_def split: if_splits)
  have bs: "tape_bytes ?h [b] = replicate 3 TAP_SYNC_BYTE @ TAP_MARKER # rest"
    by (simp add: tape_bytes_def rest_def sync_bytes_def) (simp add: binary_header_def)
  have q: "3 + 1 + q \<le> length (tape_bytes ?h [b])" using q by (simp add: bs)
  have "on_tape (tape_bytes ?h [b]) 0 t"
    using open_on_tape [OF assms(4,5)] tape by (simp add: tape_bytes_def)
  from read_header_at [OF this bs hq [unfolded raw_def] q] show ?thesis
    using h a by (auto simp: TAP_BASIC_def)
qed

lemma tap_one_byte_misread_witness:
  "\<exists>h t. tap_read_header (\<lambda>_. 0xAA) undefined (open_example [0x60] 0x0500) = (True, h, t) \<and>
     prog_type h = TAP_BASIC \<and> end_addr h = 0x8000"
  using tap_one_byte_misread [OF binary_tape_example [of "[0x60]" "0x0500"] _ _ open_example, where stack = "\<lambda>_. 0xAA" and ?h0.0 = undefined] by auto

section \<open>BASIC listings\<close>

definition basic_header :: "u8 list \<Rightarrow> bool \<Rightarrow> nat \<Rightarrow> tap_header_t" where
  "basic_header path auto n =
     \<lparr>sync_len = 3, tap_name = name_field (program_name path), prog_type = TAP_BASIC,
      auto_run = (if auto then 0x80 else 0x00), start_addr = of_nat BASIC_START_ADDR,
      end_addr = of_nat (BASIC_START_ADDR + n - 1), tap_csum = 0\<rparr>"

lemma from_basic_tape:
  assumes "tap_from_basic alloc opens path (Some src) auto = Some (True, Some fl)"
  obtains ls rest prog where "numbered_lines src = ls @ rest" "prog = chain 0 ls @ [0, 0]"
    "rest = [] \<or> BASIC_MAX_SIZE - 254 \<le> length prog" "length prog \<le> BASIC_MAX_SIZE"
    "fl = tape_bytes (basic_header path auto (length prog)) prog"
proof -
  obtain m where m: "basic_lines src empty_image = Some m"
    using assms by (auto simp: tap_from_basic_def split: if_splits option.splits)
  define m1 where "m1 = put_image 0 (put_image 0 m)"
  have run: "tap_from_basic alloc opens path (Some src) auto =
      (if \<not> alloc then Some (False, None) else if image_oob m1 then None
       else case tap_open_write opens of None \<Rightarrow> Some (False, None)
       | Some t \<Rightarrow> Some (True, Some (fbytes (snd (tap_write_data (take (image_pos m1) (image_mem m1))
           (snd (tap_write_header (basic_header path auto (image_pos m1)) t)))))))"
    using m by (cases "tap_open_write opens")
      (simp_all add: tap_from_basic_def basic_header_def m1_def Let_def split_def)
  obtain t where t: "tap_open_write opens = Some t" "\<not> image_oob m1"
    using assms run by (auto split: if_splits option.splits)
  from basic_lines_chain [OF m stored_empty] obtain ls rest where
    l: "numbered_lines src = ls @ rest" "stored (chain 0 ls) m" "rest = [] \<or> BASIC_MAX_SIZE - 256 \<le> image_pos m"
    by auto
  have "stored ((chain 0 ls @ [0]) @ [0]) m1" unfolding m1_def by (intro stored_put l(2))
  then have s: "image_pos m1 = length (chain 0 ls @ [0, 0])" "length (chain 0 ls @ [0, 0]) \<le> BASIC_MAX_SIZE"
    "take (image_pos m1) (image_mem m1) = chain 0 ls @ [0, 0]"
    using t(2) by (auto simp: stored_def)
  have "fbytes (snd (tap_write_data (take (image_pos m1) (image_mem m1)) (snd (tap_write_header (basic_header path auto (image_pos m1)) t)))) =
      tape_bytes (basic_header path auto (image_pos m1)) (take (image_pos m1) (image_mem m1))"
    using write_tape [OF t(1) surjective_pairing surjective_pairing] by simp
  then have "fl = tape_bytes (basic_header path auto (image_pos m1)) (take (image_pos m1) (image_mem m1))"
    using assms run t by (auto split: if_splits)
  moreover have "rest = [] \<or> BASIC_MAX_SIZE - 254 \<le> length (chain 0 ls @ [0, 0])"
    using l(2,3) by (auto simp: stored_def BASIC_MAX_SIZE_def)
  ultimately show thesis using that [OF l(1) refl] s by simp
qed

lemma basic_range:
  assumes "2 \<le> n" "n \<le> BASIC_MAX_SIZE"
  shows "readable_range (basic_header path auto n)" "unat (end_addr (basic_header path auto n)) = BASIC_START_ADDR + n - 1"
proof -
  show u: "unat (end_addr (basic_header path auto n)) = BASIC_START_ADDR + n - 1"
    using assms by (simp only: basic_header_def tap_header_t.simps unat_of_nat) (simp add: BASIC_START_ADDR_def BASIC_MAX_SIZE_def)
  have "start_addr (basic_header path auto n) = 0x0501" by (simp add: basic_header_def BASIC_START_ADDR_def)
  then show "readable_range (basic_header path auto n)"
    using u assms by (simp add: readable_range_def word_less_nat_alt word_le_nat_alt BASIC_START_ADDR_def BASIC_MAX_SIZE_def)
qed

lemma source_line_short: "l \<in> set (source_lines bs) \<Longrightarrow> length l \<le> LINE_SIZE - 1"
proof (induction bs rule: source_lines.induct)
  case (1 bs)
  have "length (fst (fgets_line n cs)) \<le> n" for n cs
    by (induction n cs rule: fgets_line.induct) (auto split: prod.splits)
  moreover have "length (strip_line l) \<le> length l" for l
    using length_dropWhile_le [of _ "rev (c_string l)"] length_takeWhile_le [of _ l]
    by (auto simp: strip_line_def c_string_def intro: le_trans)
  ultimately have "length (strip_line (fst (fgets_line (LINE_SIZE - 1) bs))) \<le> LINE_SIZE - 1" using le_trans by blast
  then show ?case using 1 by (cases "bs = []") (auto simp: source_lines.simps [of bs] source_lines.simps [of "[]"])
qed

lemma numbered_line_short: "(n, t) \<in> set (numbered_lines bs) \<Longrightarrow> length t \<le> LINE_SIZE - 1"
proof -
  assume "(n, t) \<in> set (numbered_lines bs)"
  then obtain l where l: "l \<in> set (source_lines bs)" "split_line l = (n, t)"
    by (auto simp: numbered_lines_def)
  have "length (snd (split_line l)) \<le> length l"
    using length_dropWhile_le [of is_digit "dropWhile (\<lambda>c. c = 0x20) l"] length_dropWhile_le [of "\<lambda>c. c = 0x20" l]
    by (auto simp: split_line_def Let_def)
  then show ?thesis using source_line_short [OF l(1)] l(2) by simp
qed

text \<open>
  C33: A BASIC listing lists back.  The tape made of it, read by its own header (for a name shorter
  than 15 characters), is a program whose pointers lead through the numbered lines of the file in
  order, all of them unless the program comes within 256 bytes of the buffer; the numbers are those of the file
  modulo \<open>2^16\<close>, and expanding the tokens of a line of ASCII gives its text back up to the case.
\<close>
theorem basic_tape_lists_back:
  assumes "tap_from_basic alloc opens path (Some src) auto = Some (True, Some fl)"
    and "length (program_name path) < 15"
    and "tap_open_read alloc' (Some fl) fast = Some t" "fast \<longrightarrow> alloc'"
  shows "\<exists>h t' ls rest. tap_read_header stack h0 t = (True, h, t') \<and> numbered_lines src = ls @ rest \<and>
    (let prog = fst (tap_read_data t' (unat (end_addr h) - unat (start_addr h) + 1))
     in list_program (Suc (length ls)) prog 0 = map (\<lambda>(n, body). (word_of_int n, line_tokens body)) ls \<and>
        (rest = [] \<or> 32514 \<le> length prog)) \<and>
    (\<forall>(n, body) \<in> set ls. (\<forall>c \<in> set body. c < 0x80) \<longrightarrow> map upcase (list_line (line_tokens body)) = map upcase body)"
proof -
  obtain ls rest prog where p: "numbered_lines src = ls @ rest" "prog = chain 0 ls @ [0, 0]"
    "rest = [] \<or> BASIC_MAX_SIZE - 254 \<le> length prog" "length prog \<le> BASIC_MAX_SIZE"
    "fl = tape_bytes (basic_header path auto (length prog)) prog"
    using from_basic_tape [OF assms(1)] by blast
  let ?h = "basic_header path auto (length prog)"
  have n: "2 \<le> length prog" by (simp add: p(2))
  have "on_tape (tape_bytes ?h prog) 0 t"
    using open_on_tape [OF assms(3,4)] p(5) by (simp add: tape_bytes_def)
  from read_written_header [OF this basic_range(1) [OF n p(4)], of stack h0] obtain h t' where
    h: "tap_read_header stack h0 t = (True, h, t')" "end_addr h = end_addr ?h" "start_addr h = start_addr ?h"
    "on_tape (tape_bytes ?h prog) (sync_bytes ?h + 1 + (9 + length (take (TAP_NAME_LEN - 1) (c_string (tap_name ?h))) +
       (if length (take (TAP_NAME_LEN - 1) (c_string (tap_name ?h))) < 15 then 1 else 0))) t'"
    by force
  have short: "length (take (TAP_NAME_LEN - 1) (c_string (tap_name ?h))) < 15"
    using assms(2) length_takeWhile_le [of "\<lambda>c. c \<noteq> 0" "program_name path"]
    by (simp add: basic_header_def c_string_field TAP_NAME_LEN_def) (simp add: c_string_def)
  have "unat (end_addr h) - unat (start_addr h) + 1 = length prog"
    using basic_range(2) [OF n p(4)] n by (simp add: h(2,3)) (simp add: basic_header_def BASIC_START_ADDR_def)
  then have data: "fst (tap_read_data t' (unat (end_addr h) - unat (start_addr h) + 1)) = prog"
    using tape_data [OF h(4) refl] short by simp
  have "list_program (Suc (length ls)) prog (length ([] :: u8 list)) = map (\<lambda>(n, t). (word_of_int n, line_tokens t)) ls"
  proof (rule walk_chain)
    show "prog = [] @ chain (length ([] :: u8 list)) ls @ [0, 0]" by (simp add: p(2))
    show "length prog + BASIC_START_ADDR < 65536" using p(4) by (simp add: BASIC_MAX_SIZE_def BASIC_START_ADDR_def)
    show "0 \<notin> set t" if "(n, t) \<in> set ls" for n t using that numbered_lines_nonzero [of n t src] by (simp add: p(1))
  qed
  moreover have "map upcase (list_line (line_tokens body)) = map upcase body" if "(n, body) \<in> set ls" "\<forall>c \<in> set body. c < 0x80" for n body
    using that numbered_line_short [of n body src] list_tokenize [of body "LINE_SIZE - 1"]
    by (simp add: p(1) line_tokens_def basic_tokenize_line_def)
  ultimately show ?thesis
    using h(1) p(1,3) data by (intro exI [of _ h] exI [of _ t'] exI [of _ ls] exI [of _ rest]) (auto simp: BASIC_MAX_SIZE_def Let_def)
qed

lemma fgets_whole_line:
  "0x0A \<notin> set l \<Longrightarrow> length l < n \<Longrightarrow> fgets_line n (l @ 0x0A # rest) = (l @ [0x0A], rest)"
proof (induction l arbitrary: n)
  case Nil
  then show ?case by (cases n) auto
next
  case (Cons c l)
  then show ?case by (cases n) auto
qed

lemma strip_whole_line:
  assumes "0 \<notin> set l" "l \<noteq> []" "last l \<noteq> 0x0A" "last l \<noteq> 0x0D"
  shows "strip_line (l @ [0x0A]) = l"
proof -
  have "c_string (l @ [0x0A]) = l @ [0x0A]"
    unfolding c_string_def by (rule takeWhile_eq_all_conv [THEN iffD2]) (use assms(1) in auto)
  moreover have "dropWhile (\<lambda>c. c = 0x0A \<or> c = 0x0D) (rev l) = rev l"
    using assms(2-4) by (simp add: dropWhile_eq_self_iff hd_rev)
  ultimately show ?thesis by (simp add: strip_line_def)
qed

text \<open>A file whose first line is \<open>l\<close>.\<close>

lemma basic_lines_first:
  assumes "0x0A \<notin> set l" "0 \<notin> set l" "l \<noteq> []" "last l \<noteq> 0x0D" "length l < LINE_SIZE - 1"
    and "split_line l = (num, body)" "num \<noteq> 0" "num \<le> 0x7FFFFFFF"
  shows "basic_lines (l @ 0x0A # rest) m =
      (if image_pos (add_line num body m) \<ge> BASIC_MAX_SIZE - 256 then Some (add_line num body m)
       else basic_lines rest (add_line num body m))"
    and "numbered_lines (l @ 0x0A # rest) = (num, body) # numbered_lines rest"
proof -
  have f: "fgets_line (LINE_SIZE - 1) (l @ 0x0A # rest) = (l @ [0x0A], rest)"
    by (rule fgets_whole_line [OF assms(1,5)])
  have "last l \<noteq> 0x0A" using assms(1,3) last_in_set by metis
  then have t: "strip_line (l @ [0x0A]) = l" by (intro strip_whole_line assms)
  show "basic_lines (l @ 0x0A # rest) m =
      (if image_pos (add_line num body m) \<ge> BASIC_MAX_SIZE - 256 then Some (add_line num body m)
       else basic_lines rest (add_line num body m))"
    by (subst basic_lines.simps) (use assms(3,6-8) f t in \<open>simp add: Let_def\<close>)
  show "numbered_lines (l @ 0x0A # rest) = (num, body) # numbered_lines rest"
    using f t assms(6,7) by (simp add: numbered_lines_def source_lines.simps [of "l @ 0x0A # rest"])
qed

text \<open>The line \<open>10 CLS\<close>.\<close>

definition cls_line :: "u8 list" where
  "cls_line = [0x31, 0x30, 0x20, 0x43, 0x4C, 0x53]"

lemma cls_lines:
  "basic_lines (cls_line @ [0x0A]) empty_image = Some (add_line 10 [0x43, 0x4C, 0x53] empty_image)"
  "numbered_lines (cls_line @ [0x0A]) = [(10, [0x43, 0x4C, 0x53])]"
proof -
  have s: "split_line cls_line = (10, [0x43, 0x4C, 0x53])"
    by (simp add: cls_line_def split_line_def is_digit_def number_of_def)
  have l: "0x0A \<notin> set cls_line" "0 \<notin> set cls_line" "cls_line \<noteq> []" "last cls_line \<noteq> 0x0D" "length cls_line < LINE_SIZE - 1"
    by (simp_all add: cls_line_def LINE_SIZE_def)
  show "basic_lines (cls_line @ [0x0A]) empty_image = Some (add_line 10 [0x43, 0x4C, 0x53] empty_image)"
    using basic_lines_first(1) [OF l s, of "[]"] by (simp add: basic_lines.simps [of "[]"])
  show "numbered_lines (cls_line @ [0x0A]) = [(10, [0x43, 0x4C, 0x53])]"
    using basic_lines_first(2) [OF l s, of "[]"] by (simp add: numbered_lines_def source_lines.simps [of "[]"])
qed

definition cls_tape :: "u8 list" where
  "cls_tape = the (snd (the (tap_from_basic True True [0x41] (Some (cls_line @ [0x0A])) False)))"

lemma cls_tape: "tap_from_basic True True [0x41] (Some (cls_line @ [0x0A])) False = Some (True, Some cls_tape)"
proof -
  define m where "m = put_image 0 (put_image 0 (add_line 10 [0x43, 0x4C, 0x53] empty_image))"
  have "stored ((([] @ line_bytes (length ([] :: u8 list)) 10 (line_tokens [0x43, 0x4C, 0x53])) @ [0]) @ [0]) m"
    unfolding m_def by (intro stored_put stored_line stored_empty)
  moreover have "length (line_tokens [0x43, 0x4C, 0x53]) \<le> 3"
    using tokenize_length [of "LINE_SIZE - 1" False False "[0x43, 0x4C, 0x53]"]
    by (simp add: line_tokens_def basic_tokenize_line_def)
  ultimately have "\<not> image_oob m" by (simp add: stored_def BASIC_MAX_SIZE_def)
  then show ?thesis
    unfolding cls_tape_def by (simp add: tap_from_basic_def cls_lines tap_open_write_def m_def [symmetric] Let_def split_def)
qed

lemma basic_tape_lists_back_witness:
  "\<exists>h t ls rest. tap_read_header (\<lambda>_. 0xAA) undefined (the (tap_open_read True (Some cls_tape) True)) = (True, h, t) \<and>
     [(10, [0x43, 0x4C, 0x53])] = ls @ rest \<and>
     list_program (Suc (length ls)) (fst (tap_read_data t (unat (end_addr h) - unat (start_addr h) + 1))) 0 =
       map (\<lambda>(n, body). (word_of_int n, line_tokens body)) ls"
proof -
  have o: "tap_open_read True (Some cls_tape) True = Some (the (tap_open_read True (Some cls_tape) True))"
    by (simp add: tap_open_read_def Let_def)
  have "length (program_name [0x41]) < 15"
    by (simp add: program_name_def base_name_def drop_extension_def c_string_def TAP_NAME_LEN_def)
  from basic_tape_lists_back [OF cls_tape this o, of "\<lambda>_. 0xAA" undefined] show ?thesis
    unfolding cls_lines Let_def by blast
qed

section \<open>The buffer of the conversion\<close>

text \<open>A line of 1000 dots numbered 1.\<close>

definition dots_line :: "u8 list" where
  "dots_line = [0x31, 0x20] @ replicate 1000 0x2E"

definition dots_listing :: "nat \<Rightarrow> u8 list" where
  "dots_listing n = concat (replicate n (dots_line @ [0x0A]))"

lemma no_keyword_dot: "list_all (\<lambda>k. bytes_of k ! 0 \<noteq> 0x2E) basic_keywords"
  by code_simp

lemma tokenize_dots: "n \<le> room \<Longrightarrow> tokenize room False False (replicate n 0x2E) = replicate n 0x2E"
proof (induction room arbitrary: n)
  case (Suc room)
  show ?case
  proof (cases n)
    case (Suc k)
    have "basic_match_keyword (0x2E # s) = None" for s
    proof (cases "basic_match_keyword (0x2E # s)")
      case (Some e)
      obtain n tok where e: "e = (n, tok)" by (cases e)
      from match_keyword [OF Some [unfolded e]] obtain i where
        i: "i < 120" "keyword_here (bytes_of (basic_keywords ! i)) (0x2E # s)" by blast
      have "bytes_of (basic_keywords ! i) \<noteq> []" using keyword_chars(1) [OF i(1)] by (simp add: bytes_of_def)
      then have "bytes_of (basic_keywords ! i) ! 0 = 0x2E"
        using i(2) by (auto simp: keyword_here_def list_all_iff char_at_def upcase_def dest: bspec [of _ _ 0])
      then show ?thesis using no_keyword_dot i(1) keyword_table by (auto simp: list_all_length)
    qed
    then show ?thesis using Suc Suc.IH [of k] Suc.prems by (simp add: QUOTE_def upcase_def)
  qed simp
qed simp

lemma dots_line_runs:
  "basic_lines (dots_line @ 0x0A # rest) m =
     (if image_pos (add_line 1 (replicate 1000 0x2E) m) \<ge> BASIC_MAX_SIZE - 256 then Some (add_line 1 (replicate 1000 0x2E) m)
      else basic_lines rest (add_line 1 (replicate 1000 0x2E) m))"
proof (rule basic_lines_first(1))
  have d: "dropWhile is_digit (0x20 # xs) = 0x20 # xs" "takeWhile is_digit (0x20 # xs) = []" for xs
    by (simp_all add: is_digit_def)
  show "split_line dots_line = (1, replicate 1000 0x2E)"
    by (simp add: dots_line_def split_line_def d del: dropWhile.simps takeWhile.simps)
       (simp add: is_digit_def number_of_def d)
qed (simp_all add: dots_line_def LINE_SIZE_def)

lemma dots_add:
  assumes "stored bs m"
  obtains bs' where "stored bs' (add_line 1 (replicate 1000 0x2E) m)" "length bs' = length bs + 1005"
proof -
  have "line_tokens (replicate 1000 0x2E) = replicate 1000 0x2E"
    unfolding line_tokens_def basic_tokenize_line_def by (rule tokenize_dots) (simp add: LINE_SIZE_def)
  then show thesis
    using that stored_line [OF assms, of 1 "replicate 1000 0x2E"] by (simp)
qed

lemma dots_lines:
  assumes "stored bs m" "length bs = 1005 * (32 - k)" "k \<le> 32"
  shows "\<exists>m' bs'. basic_lines (dots_listing (Suc k)) m = Some m' \<and> stored bs' m' \<and> length bs' = 33165"
  using assms
proof (induction k arbitrary: bs m)
  case (0 bs m)
  obtain bs' where b: "stored bs' (add_line 1 (replicate 1000 0x2E) m)" "length bs' = length bs + 1005"
    using dots_add [OF 0(1)] by blast
  then have "image_pos (add_line 1 (replicate 1000 0x2E) m) = 33165" using 0(2) by (simp add: stored_def)
  then show ?case
    using b 0(2) dots_line_runs [of "[]" m] by (auto simp: dots_listing_def BASIC_MAX_SIZE_def)
next
  case (Suc k bs m)
  obtain bs' where b: "stored bs' (add_line 1 (replicate 1000 0x2E) m)" "length bs' = length bs + 1005"
    using dots_add [OF Suc.prems(1)] by blast
  have l: "length bs' = 1005 * (32 - k)" using b(2) Suc.prems(2,3) by simp
  then have "image_pos (add_line 1 (replicate 1000 0x2E) m) \<le> 32160" using b(1) by (simp add: stored_def)
  then have "basic_lines (dots_listing (Suc (Suc k))) m = basic_lines (dots_listing (Suc k)) (add_line 1 (replicate 1000 0x2E) m)"
    using dots_line_runs [of "dots_listing (Suc k)" m] by (simp add: dots_listing_def BASIC_MAX_SIZE_def)
  then show ?case using Suc.IH [OF b(1) l] Suc.prems(3) by simp
qed

text \<open>
  C34: A listing of 33 short lines, of 1000 characters each, overflows the buffer of 32768 bytes: the
  conversion stops only after a line, once less than 256 bytes are left, and a line
  may take more than a thousand.  The image then has 33165 bytes before its end marker, and
  \<open>tap_from_basic\<close> has stored outside the block it allocated.
\<close>
theorem basic_image_overflow:
  "\<exists>m. basic_lines (dots_listing 33) empty_image = Some m \<and> image_oob m \<and> image_pos m = 33165 \<and>
     tap_from_basic True opens path (Some (dots_listing 33)) auto = None"
proof -
  obtain m bs where m: "basic_lines (dots_listing (Suc 32)) empty_image = Some m" "stored bs m" "length bs = 33165"
    using dots_lines [OF stored_empty, of 32] by auto
  then have "image_oob m" "image_pos m = 33165" by (simp_all add: stored_def BASIC_MAX_SIZE_def)
  then show ?thesis using m(1) by (auto simp: tap_from_basic_def put_image_def Let_def)
qed

section \<open>Truncated headers\<close>

text \<open>The header of a tape that ends after its marker is what the uninitialised buffer holds.\<close>

lemma truncated_header:
  assumes "tap_open_read alloc (Some [TAP_SYNC_BYTE, TAP_MARKER]) fast = Some t" "fast \<longrightarrow> alloc"
  shows "fst (tap_read_header stack h0 t) \<and> prog_type (fst (snd (tap_read_header stack h0 t))) = stack 2"
proof -
  have "on_tape [TAP_SYNC_BYTE, TAP_MARKER] 0 t" using open_on_tape [OF assms] by simp
  then obtain t1 where "skip_sync t = t1" "on_tape [TAP_SYNC_BYTE, TAP_MARKER] 1 t1"
    using on_tape_sync [of "[TAP_SYNC_BYTE, TAP_MARKER]" 0 t 1 TAP_MARKER "[]"] by (simp add: TAP_SYNC_BYTE_def TAP_MARKER_def)
  moreover from this obtain t2 where "read_byte t1 = (TAP_MARKER, t2)" "on_tape [TAP_SYNC_BYTE, TAP_MARKER] 2 t2"
    using on_tape_byte [of "[TAP_SYNC_BYTE, TAP_MARKER]" 1 t1] by (auto simp: numeral_2_eq_2)
  moreover from this obtain t3 where "read_bytes 32 t2 = ([], t3)"
    using on_tape_bytes [of "[TAP_SYNC_BYTE, TAP_MARKER]" 2 t2 32] by auto
  moreover have "header_layout stack 0 = (0, 9)" by (simp add: header_layout_def)
  ultimately show ?thesis
    by (simp add: tap_read_header_def parse_header_def Let_def numeral_2_eq_2 split: prod.splits)
qed

section \<open>Keywords followed by digits\<close>

text \<open>\<open>GOTO10\<close> is not tokenized, \<open>GOTO 10\<close> is.\<close>

lemma goto_digit_untokenized:
  "basic_match_keyword (bytes_of ''GOTO10'') = None \<and> basic_match_keyword (bytes_of ''GOTO 10'') = Some (4, 0x97)"
  by code_simp

end
