(* ===== verification/Acia_Properties.thy ===== *)
theory Acia_Properties
  imports Acia_Links
begin

text \<open>
  Properties of the serial chip, over every program: the bytes through the loopback transport come back
  in order, and the interrupt is exact.
\<close>

text \<open>The chip as the command line sets it up.\<close>

definition acia_configured :: "(nat \<Rightarrow> u8 list option) \<Rightarrow> int \<Rightarrow> bool \<Rightarrow> u32 \<Rightarrow> bool \<Rightarrow> acia6551_t" where
  "acia_configured malloc sz m latency p =
     acia_set_rx_backpressure p (acia_set_irq_latency latency (acia_set_irq_on_rdrf m (acia_set_rx_fifo malloc sz acia_init)))"

definition acia_on :: "acia6551_t \<Rightarrow> 'w serial_backend option \<Rightarrow> 'w \<Rightarrow> 'e \<Rightarrow> ('w, 'e) acia_state" where
  "acia_on a be w e = \<lparr>acia = a, backend = be, peer = w, host = e\<rparr>"

lemma configured_rx:
  assumes "\<And>n q. malloc n = Some q \<Longrightarrow> length q = n"
  shows "rx_ok (acia_configured malloc sz m latency p)" "waiting (acia_configured malloc sz m latency p) = []"
    "rx_backpressure (acia_configured malloc sz m latency p) = p" "ac_control (acia_configured malloc sz m latency p) = 0"
    "ac_bitmask (acia_configured malloc sz m latency p) = 0xFF"
proof -
  have i: "ac_status acia_init = ACIA_STATUS_TDRE" "rx_full acia_init = False" "ac_control acia_init = 0" "ac_bitmask acia_init = 0xFF"
    by (simp_all add: acia_init_def acia_zero_def timing_bitmask acia_calc_framebits_def push_bit_eq_mult Let_def)
  note d = acia_configured_def acia_set_rx_backpressure_def acia_set_irq_latency_def acia_set_irq_on_rdrf_def acia_set_rx_fifo_def
  have full: "malloc (nat ACIA_FIFO_MAX_SIZE) \<noteq> Some []" and part: "0 < sz \<Longrightarrow> malloc (nat sz) \<noteq> Some []"
    using assms [of _ "[]"] by (force simp: ACIA_FIFO_MAX_SIZE_def)+
  show "rx_ok (acia_configured malloc sz m latency p)" "waiting (acia_configured malloc sz m latency p) = []"
    "rx_backpressure (acia_configured malloc sz m latency p) = p" "ac_control (acia_configured malloc sz m latency p) = 0"
    "ac_bitmask (acia_configured malloc sz m latency p) = 0xFF"
    using i assms full part
    by (auto simp: d rx_ok_def fifo_ok_def ring_ok_def rdrf_ok_def waiting_def fifo_list_def tdre_apart Let_def split: option.splits)
qed

text \<open>
  A programmed reset forgets the carrier and data-set-ready bits of the status register, whatever the lines
  are, until the lines move again.
\<close>

lemma reset_forgets_lines: "ac_status (acia (acia_write hk 0x031D v s)) = ACIA_STATUS_TDRE"
  by (simp add: acia_write_def acia_reset_def acia_deassert_irq_def Let_def)

text \<open>With DTR off the transport is not called at all, so it cannot see that DTR dropped.\<close>

lemma dtr_off_silent: "ac_command (acia s) AND ACIA_CMD_DTR = 0 \<Longrightarrow> acia_tick hk n s = tick_transit hk n s"
  by (simp add: acia_tick_def acia_cycles_def irq_cong Let_def split: option.split)

lemma configured_irq:
  "irq_bit (acia_configured malloc sz m latency p) = False" "irq_line (acia_configured malloc sz m latency p) = False"
  "irq_in_transit (acia_configured malloc sz m latency p) = False" "irq_wanted (acia_configured malloc sz m latency p) = False"
  by (simp_all add: acia_configured_def acia_set_rx_backpressure_def acia_set_irq_latency_def acia_set_irq_on_rdrf_def acia_set_rx_fifo_def
      acia_init_def acia_zero_def irq_bit_def irq_wanted_def acia_status_bits acia_command_bits Let_def split: option.split)

text \<open>
  C35: Bytes over the loopback transport are never invented, repeated or reordered: the chip is set up with
  any receive queue, interrupt mode, latency and back pressure, and any program runs that keeps
  eight-bit words and does not reset the chip, with any moves of the modem lines; then what it has read so
  far, followed by what waits in the chip and by what is still in the transport, is what it sent with
  perhaps some bytes missing.  With back pressure, which is off unless it is asked for, and as long as
  the program sends no more than the 256 bytes the transport holds, none is missing.
\<close>

theorem serial_loopback:
  assumes "\<And>n q. malloc n = Some q \<Longrightarrow> length q = n"
    and "acia_run hk xs (acia_on (acia_configured malloc sz m latency p) (Some serial_backend_loopback) (loopback_open loopback_created) e)
      = (taken, sent, s)"
    and "list_all steady_op xs"
  shows "subseq (taken @ waiting (acia s) @ lb_list (peer s)) sent \<and>
    (p \<and> length sent \<le> SERIAL_LOOPBACK_BUFSZ \<longrightarrow> sent = taken @ waiting (acia s) @ lb_list (peer s))"
proof -
  let ?s = "acia_on (acia_configured malloc sz m latency p) (Some serial_backend_loopback) (loopback_open loopback_created) e"
  have l: "lb_ok (loopback_open loopback_created)" "lb_list (loopback_open loopback_created) = []"
    by (simp_all add: lb_ok_def lb_list_def loopback_open_def loopback_created_def ring_ok_def SERIAL_LOOPBACK_BUFSZ_def)
  have start: "loop.linked ?s" "loop.flow ?s = []" "p \<Longrightarrow> loop.duplex ?s"
    using configured_rx [OF assms(1)] l by (simp_all add: loop.linked_def loop.duplex_def loop.flow_def acia_on_def)
  have "subseq (taken @ waiting (acia s) @ lb_list (peer s)) sent"
    using loop.run_linked [OF start(1) assms(2,3)] start(2) by (simp add: loop.flow_def)
  moreover have "sent = taken @ waiting (acia s) @ lb_list (peer s)" if "p" "length sent \<le> SERIAL_LOOPBACK_BUFSZ"
    using loop.run_flow [OF start(3) assms(2,3)] that l start(2) by (simp add: loop.flow_def acia_on_def)
  ultimately show ?thesis by blast
qed

text \<open>The program opens the line, sends two bytes and reads the first one back.\<close>

definition demo_malloc :: "nat \<Rightarrow> u8 list option" where
  "demo_malloc n = Some (replicate n 0)"

definition demo_program :: "acia_op list" where
  "demo_program = [Ac_write 0x031E 0x09, Ac_write 0x031C 0x41, Ac_tick 40, Ac_write 0x031C 0x42, Ac_tick 40, Ac_read 0x031C]"

definition demo_echo :: "u8 list \<times> u8 list \<times> (loopback, unit) acia_state" where
  "demo_echo = acia_run \<lparr>on_irq_set = None, on_irq_clr = None\<rparr> demo_program
     (acia_on (acia_configured demo_malloc 16 False 0 True) (Some serial_backend_loopback) (loopback_open loopback_created) ())"

theorem serial_loopback_witness:
  "fst demo_echo = [0x41] \<and> fst (snd demo_echo) = [0x41, 0x42] \<and>
   [0x41, 0x42] = [0x41] @ waiting (acia (snd (snd demo_echo))) @ lb_list (peer (snd (snd demo_echo)))"
proof -
  have v: "fst demo_echo = [0x41]" "fst (snd demo_echo) = [0x41, 0x42]" by code_simp+
  then have "demo_echo = ([0x41], [0x41, 0x42], snd (snd demo_echo))" by (metis prod.collapse)
  then show ?thesis
    using v serial_loopback [of demo_malloc "\<lparr>on_irq_set = None, on_irq_clr = None\<rparr>" demo_program 16 False 0 True "()" "[0x41]" "[0x41, 0x42]"
      "snd (snd demo_echo)"]
    by (simp add: demo_echo_def demo_malloc_def demo_program_def SERIAL_LOOPBACK_BUFSZ_def)
qed

text \<open>
  C36: The interrupt of the serial chip is exact over every program, every transport and every latency:
  the CPU sees the line of the chip; bit 7 of the status register is set exactly while the line is low or
  on its way; it is only set for a cause that lasts; and on a 65C51 it is set for every such cause.
\<close>

theorem serial_irq_exact:
  assumes "\<not> serial_line b"
    and "acia_run serial_hooks xs (acia_on (acia_configured malloc sz m latency p) be w b) = (taken, sent, s)"
  shows "serial_line (host s) = irq_line (acia s)
    \<and> (ac_status (acia s) AND ACIA_STATUS_IRQ \<noteq> 0) = (irq_line (acia s) \<or> irq_in_transit (acia s))
    \<and> (ac_status (acia s) AND ACIA_STATUS_IRQ \<noteq> 0 \<longrightarrow> irq_wanted (acia s))
    \<and> (irq_on_rdrf (acia s) \<longrightarrow> (ac_status (acia s) AND ACIA_STATUS_IRQ \<noteq> 0) = irq_wanted (acia s))"
proof -
  have "serial_irq.irq_exact (acia_on (acia_configured malloc sz m latency p) be w b)"
    using configured_irq [of malloc sz m latency p] assms(1) by (simp add: serial_irq.irq_exact_def serial_irq.wired_def acia_on_def)
  then have "serial_irq.irq_exact s" using assms(2) by (rule serial_irq.run_exact)
  then show ?thesis by (auto simp: serial_irq.irq_exact_def serial_irq.wired_def irq_bit_def)
qed

text \<open>On a board whose other interrupts are quiet, the byte received pulls the line.\<close>

definition demo_board :: "unit board" where
  "demo_board = undefined\<lparr>irq := 0\<rparr>"

definition demo_listening :: "u8 list \<times> u8 list \<times> (loopback, unit board) acia_state" where
  "demo_listening = acia_run serial_hooks demo_program
     (acia_on (acia_configured demo_malloc 16 True 0 False) (Some serial_backend_loopback) (loopback_open loopback_created) demo_board)"

theorem serial_irq_exact_witness:
  "serial_line (host (snd (snd demo_listening))) = irq_line (acia (snd (snd demo_listening)))"
proof -
  have q: "\<not> serial_line demo_board" by (simp add: demo_board_def serial_line_def)
  have "acia_run serial_hooks demo_program
      (acia_on (acia_configured demo_malloc 16 True 0 False) (Some serial_backend_loopback) (loopback_open loopback_created) demo_board)
    = (fst demo_listening, fst (snd demo_listening), snd (snd demo_listening))"
    by (simp add: demo_listening_def)
  from serial_irq_exact [OF q this] show ?thesis by simp
qed

end
