(* ===== verification/Host_Text.thy ===== *)
theory Host_Text
  imports Prelude
begin

text \<open>
  Characters and numbers as the C library reads and prints them, for the debugger, its symbol files and
  the remote stub: \<open>isspace\<close>, \<open>isxdigit\<close>, \<open>toupper\<close>, \<open>strtoul\<close>, \<open>%02X\<close> and \<open>%04X\<close>.  A C string is the
  list of its characters without the terminator.
\<close>

section \<open>Characters\<close>

abbreviation code :: "char \<Rightarrow> nat" where "code c \<equiv> of_char c"

definition isspace :: "char \<Rightarrow> bool" where
  "isspace c \<longleftrightarrow> code c = 32 \<or> (9 \<le> code c \<and> code c \<le> 13)"

definition isdigit :: "char \<Rightarrow> bool" where
  "isdigit c \<longleftrightarrow> 48 \<le> code c \<and> code c \<le> 57"

definition isalpha :: "char \<Rightarrow> bool" where
  "isalpha c \<longleftrightarrow> (65 \<le> code c \<and> code c \<le> 90) \<or> (97 \<le> code c \<and> code c \<le> 122)"

definition isalnum :: "char \<Rightarrow> bool" where
  "isalnum c \<longleftrightarrow> isalpha c \<or> isdigit c"

definition toupper :: "char \<Rightarrow> char" where
  "toupper c = (if 97 \<le> code c \<and> code c \<le> 122 then char_of (code c - 32) else c)"

definition tolower :: "char \<Rightarrow> char" where
  "tolower c = (if 65 \<le> code c \<and> code c \<le> 90 then char_of (code c + 32) else c)"

text \<open>The value of a hexadecimal digit, \<open>None\<close> for the \<open>-1\<close> of \<open>hexval\<close>.\<close>

definition hexval :: "char \<Rightarrow> nat option" where
  "hexval c =
     (if isdigit c then Some (code c - 48)
      else if 97 \<le> code c \<and> code c \<le> 102 then Some (code c - 87)
      else if 65 \<le> code c \<and> code c \<le> 70 then Some (code c - 55)
      else None)"

definition isxdigit :: "char \<Rightarrow> bool" where
  "isxdigit c \<longleftrightarrow> hexval c \<noteq> None"

definition strcaseeq :: "string \<Rightarrow> string \<Rightarrow> bool" where
  "strcaseeq a b \<longleftrightarrow> map tolower a = map tolower b"

text \<open>The character at a position, the terminator behind the end.\<close>

definition peek :: "nat \<Rightarrow> string \<Rightarrow> char option" where
  "peek i s = (if i < length s then Some (s ! i) else None)"

definition starts :: "string \<Rightarrow> string \<Rightarrow> bool" where
  "starts p s \<longleftrightarrow> take (length p) s = p"

section \<open>Numbers\<close>

definition digit_in :: "nat \<Rightarrow> char \<Rightarrow> bool" where
  "digit_in base c \<longleftrightarrow> (case hexval c of Some d \<Rightarrow> d < base | None \<Rightarrow> False)"

definition digits_value :: "nat \<Rightarrow> string \<Rightarrow> nat" where
  "digits_value base s = foldl (\<lambda>v c. v * base + the (hexval c)) 0 s"

text \<open>
  \<open>strtoul (s, &end, base)\<close> for the bases 2, 10 and 16 with a 64-bit \<open>unsigned long\<close>: the value and the
  rest of the string, which is all of it when no digit was found.
\<close>

definition ULONG_MAX :: nat where "ULONG_MAX = 0xFFFFFFFFFFFFFFFF"

definition strtoul :: "nat \<Rightarrow> string \<Rightarrow> nat \<times> string" where
  "strtoul base s =
     (let s1 = dropWhile isspace s;
          neg = starts ''-'' s1;
          s2 = (if neg \<or> starts ''+'' s1 then tl s1 else s1);
          s3 = (if base = 16 \<and> (starts ''0x'' s2 \<or> starts ''0X'' s2) \<and> drop 2 s2 \<noteq> [] \<and> isxdigit (s2 ! 2) then drop 2 s2 else s2);
          ds = takeWhile (digit_in base) s3;
          v = digits_value base ds
      in if ds = [] then (0, s)
         else (if v > ULONG_MAX then ULONG_MAX else if neg then (ULONG_MAX + 1 - v) mod (ULONG_MAX + 1) else v,
               dropWhile (digit_in base) s3))"

text \<open>Printing with \<open>%X\<close> and \<open>%x\<close> on a fixed number of digits.\<close>

definition hexdig_upper :: "nat \<Rightarrow> char" where
  "hexdig_upper v = ''0123456789ABCDEF'' ! (v mod 16)"

definition hexdig :: "nat \<Rightarrow> char" where
  "hexdig v = ''0123456789abcdef'' ! (v mod 16)"

definition fmt_02X :: "u8 \<Rightarrow> string" where
  "fmt_02X b = [hexdig_upper (unat b div 16), hexdig_upper (unat b)]"

definition fmt_04X :: "u16 \<Rightarrow> string" where
  "fmt_04X w = [hexdig_upper (unat w div 4096), hexdig_upper (unat w div 256), hexdig_upper (unat w div 16), hexdig_upper (unat w)]"

definition fmt_02x :: "u8 \<Rightarrow> string" where
  "fmt_02x b = [hexdig (unat b div 16), hexdig (unat b)]"

section \<open>Reading back what was printed\<close>

lemma below_16: "(\<And>v. v \<in> set [0..<16] \<Longrightarrow> P v) \<Longrightarrow> (n :: nat) < 16 \<Longrightarrow> P n"
  by simp

lemma hexdig_table:
  "list_all (\<lambda>v. hexval (hexdig_upper v) = Some v \<and> hexval (hexdig v) = Some v \<and> \<not> isspace (hexdig_upper v) \<and>
     toupper (hexdig_upper v) = hexdig_upper v \<and> hexdig_upper v \<notin> set ''$#(),+-xXYyZ:;.=&|<>![]'' \<and>
     hexdig v \<notin> set ''$#(),+-xXYyZ:;.=&|<>![]'' \<and> \<not> isspace (hexdig v)) [0..<16]"
  by code_simp

lemma hexdig_mod: "hexdig_upper v = hexdig_upper (v mod 16)" "hexdig v = hexdig (v mod 16)"
  by (simp_all add: hexdig_upper_def hexdig_def)

lemma hexdig_facts:
  "hexval (hexdig_upper v) = Some (v mod 16)" "hexval (hexdig v) = Some (v mod 16)" "\<not> isspace (hexdig_upper v)"
  "toupper (hexdig_upper v) = hexdig_upper v" "hexdig_upper v \<notin> set ''$#(),+-xXYyZ:;.=&|<>![]''"
  "hexdig v \<notin> set ''$#(),+-xXYyZ:;.=&|<>![]''" "\<not> isspace (hexdig v)"
proof -
  have "v mod 16 \<in> set [0..<16]" by simp
  with hexdig_table have t: "hexval (hexdig_upper (v mod 16)) = Some (v mod 16) \<and> hexval (hexdig (v mod 16)) = Some (v mod 16) \<and>
      \<not> isspace (hexdig_upper (v mod 16)) \<and> toupper (hexdig_upper (v mod 16)) = hexdig_upper (v mod 16) \<and>
      hexdig_upper (v mod 16) \<notin> set ''$#(),+-xXYyZ:;.=&|<>![]'' \<and> hexdig (v mod 16) \<notin> set ''$#(),+-xXYyZ:;.=&|<>![]'' \<and>
      \<not> isspace (hexdig (v mod 16))"
    unfolding list_all_iff by (rule bspec)
  note m = hexdig_mod [symmetric, of v]
  show "hexval (hexdig_upper v) = Some (v mod 16)" "hexval (hexdig v) = Some (v mod 16)" "\<not> isspace (hexdig_upper v)"
    "toupper (hexdig_upper v) = hexdig_upper v" "hexdig_upper v \<notin> set ''$#(),+-xXYyZ:;.=&|<>![]''"
    "hexdig v \<notin> set ''$#(),+-xXYyZ:;.=&|<>![]''" "\<not> isspace (hexdig v)"
    using t unfolding m by blast+
qed

lemma isxdigit_hexdig [simp]: "isxdigit (hexdig_upper v)" "isxdigit (hexdig v)"
  by (simp_all add: isxdigit_def hexdig_facts)

lemma nibble_join: "n < 256 \<Longrightarrow> n div 16 mod 16 * 16 + n mod 16 = (n :: nat)"
proof -
  assume "n < 256"
  then have "n div 16 mod 16 = n div 16" by (intro mod_less) linarith
  then show ?thesis by simp
qed

lemma digits_02X: "digits_value 16 (fmt_02X b) = unat b" "digits_value 16 (fmt_02x b) = unat b"
  by (simp_all add: digits_value_def fmt_02X_def fmt_02x_def hexdig_facts nibble_join)

lemma digits_04X: "digits_value 16 (fmt_04X w) = unat w"
proof -
  let ?n = "unat w"
  have "?n < 65536" by (rule order.strict_trans2 [OF unsigned_less]) simp
  then have w: "?n div 256 < 256" by linarith
  have e: "?n div 4096 = ?n div 256 div 16" "?n div 16 div 16 = ?n div 256" by (simp_all add: div_mult2_eq [symmetric])
  have h: "?n div 4096 mod 16 * 16 + ?n div 256 mod 16 = ?n div 256" unfolding e(1) by (rule nibble_join [OF w])
  have l: "?n div 16 = ?n div 256 * 16 + ?n div 16 mod 16" unfolding e(2) [symmetric] by simp
  have "digits_value 16 (fmt_04X w) = ((?n div 4096 mod 16 * 16 + ?n div 256 mod 16) * 16 + ?n div 16 mod 16) * 16 + ?n mod 16"
    by (simp add: digits_value_def fmt_04X_def hexdig_facts)
  also have "\<dots> = ?n div 16 * 16 + ?n mod 16" unfolding h l [symmetric] ..
  finally show ?thesis by simp
qed

end
