(* ===== verification/Symbols.thy ===== *)
theory Symbols
  imports Host_Text
begin

text \<open>
  The symbol tables of the debugger (\<open>include/utils/symbols.h\<close>, \<open>src/utils/symbols.c\<close>): the four line
  formats, groups that can be switched off, lookup by address and by name.  A file is the list of
  its characters, \<open>None\<close> when it cannot be opened.
\<close>

section \<open>State\<close>

definition SYMBOL_MAX_COUNT :: nat where "SYMBOL_MAX_COUNT = 8192"
definition SYMBOL_MAX_NAME :: nat where "SYMBOL_MAX_NAME = 47"

record symbol_entry_t =
  sy_name :: string
  sy_addr :: u16
  sy_group :: u8

record symbol_table_t =
  sy_entries :: "symbol_entry_t list"
  group_disabled :: "u8 \<Rightarrow> bool"

definition symbol_table_init :: "symbol_table_t \<Rightarrow> symbol_table_t" where
  "symbol_table_init tbl = tbl\<lparr>sy_entries := [], group_disabled := (\<lambda>_. False)\<rparr>"

section \<open>Lines\<close>

text \<open>The address and the number of characters consumed.\<close>

definition hex_parse :: "string \<Rightarrow> (u16 \<times> nat) option" where
  "hex_parse s =
     (let s1 = (if starts ''$'' s then tl s else if starts ''0x'' s \<or> starts ''0X'' s then drop 2 s else s);
          (v, rest) = strtoul 16 s1
      in if s = [] \<or> rest = s1 \<or> v > 0xFFFF then None else Some (word_of_nat v, length s - length rest))"

definition lstrip :: "string \<Rightarrow> string" where
  "lstrip s = dropWhile isspace s"

definition rstrip :: "string \<Rightarrow> string" where
  "rstrip s = rev (dropWhile isspace (rev s))"

definition name_char :: "char \<Rightarrow> bool" where
  "name_char c \<longleftrightarrow> isalnum c \<or> c = CHR ''_'' \<or> c = CHR ''.''"

definition drops_first :: "string \<Rightarrow> bool" where
  "drops_first s \<longleftrightarrow> starts ''.'' s \<or> starts ''_'' s"

definition copy_name :: "string \<Rightarrow> string" where
  "copy_name s = take SYMBOL_MAX_NAME (takeWhile name_char (if drops_first s then tl s else s))"

definition add_entry :: "u8 \<Rightarrow> string \<Rightarrow> u16 \<Rightarrow> symbol_table_t \<Rightarrow> symbol_table_t" where
  "add_entry g name addr tbl =
     (if length (sy_entries tbl) \<ge> SYMBOL_MAX_COUNT \<or> name = [] then tbl
      else tbl\<lparr>sy_entries := sy_entries tbl @ [\<lparr>sy_name = take SYMBOL_MAX_NAME name, sy_addr = addr, sy_group = g\<rparr>]\<rparr>)"

definition is_sep :: "char \<Rightarrow> bool" where
  "is_sep c \<longleftrightarrow> c = CHR '','' \<or> c = CHR '':'' \<or> c = CHR ''=''"

function skip_seps :: "string \<Rightarrow> string" where
  "skip_seps [] = []"
| "skip_seps (c # cs) = (if is_sep c then skip_seps (lstrip cs) else c # cs)"
  by pat_completeness auto
termination by (relation "measure length") (auto simp: lstrip_def le_imp_less_Suc length_dropWhile_le)

text \<open>\<open>al C XXXX .NAME\<close>\<close>

definition format_c :: "string \<Rightarrow> (string \<times> u16) option" where
  "format_c p =
     (let q = lstrip (drop 2 p);
          q1 = (if q \<noteq> [] \<and> isalpha (hd q) \<and> (case peek 1 q of Some c \<Rightarrow> isspace c | None \<Rightarrow> False) then lstrip (tl q) else q)
      in case hex_parse q1 of
           Some (addr, n) \<Rightarrow>
             let name = copy_name (lstrip (drop n q1)) in if name \<noteq> [] then Some (name, addr) else None
         | None \<Rightarrow> None)"

text \<open>\<open>[$]XXXX NAME\<close>\<close>

definition format_a :: "string \<Rightarrow> (string \<times> u16) option" where
  "format_a p =
     (if starts ''$'' p \<or> isxdigit (hd p) then
        case hex_parse p of
          Some (addr, n) \<Rightarrow>
            let rest = drop n p in
            if rest = [] \<or> isspace (hd rest) \<or> is_sep (hd rest) then
              let name = copy_name (skip_seps (lstrip rest)) in if name \<noteq> [] then Some (name, addr) else None
            else None
        | None \<Rightarrow> None
      else None)"

text \<open>\<open>NAME = $XXXX\<close>, \<open>NAME $XXXX\<close>, \<open>NAME EQU $XXXX\<close>\<close>

definition skip_equ :: "string \<Rightarrow> string" where
  "skip_equ q =
     (if starts ''='' q then lstrip (tl q)
      else if map toupper (take 3 q) = ''EQU'' then lstrip (drop 3 q)
      else if starts '':'' q then lstrip (tl q)
      else q)"

definition format_b :: "string \<Rightarrow> (string \<times> u16) option" where
  "format_b p =
     (if isalpha (hd p) \<or> drops_first p then
        let name = copy_name p;
            q = lstrip (drop (length name + (if drops_first p then 1 else 0)) p)
        in if name = [] then None
           else case hex_parse (skip_equ q) of Some (addr, _) \<Rightarrow> Some (name, addr) | None \<Rightarrow> None
      else None)"

definition symbol_of_line :: "string \<Rightarrow> (string \<times> u16) option" where
  "symbol_of_line line =
     (let p = rstrip (lstrip (takeWhile (\<lambda>c. c \<noteq> CHR ''#'') (takeWhile (\<lambda>c. c \<noteq> CHR '';'') line))) in
      if p = [] then None
      else if starts ''al'' p \<and> (case peek 2 p of Some c \<Rightarrow> isspace c | None \<Rightarrow> False) then format_c p
      else case format_a p of Some r \<Rightarrow> Some r | None \<Rightarrow> format_b p)"

definition parse_line :: "u8 \<Rightarrow> string \<Rightarrow> symbol_table_t \<Rightarrow> bool \<times> symbol_table_t" where
  "parse_line g line tbl =
     (case symbol_of_line line of Some (name, addr) \<Rightarrow> (True, add_entry g name addr tbl) | None \<Rightarrow> (False, tbl))"

section \<open>Files\<close>

definition LINE_MAX :: nat where "LINE_MAX = 512"

text \<open>\<open>fgets (line, sizeof (line), fp)\<close>\<close>

definition fgets_text :: "string \<Rightarrow> string" where
  "fgets_text s =
     (let l = takeWhile (\<lambda>c. c \<noteq> CHR 0x0A) s in take (min (LINE_MAX - 1) (length l + 1)) s)"

function text_lines :: "string \<Rightarrow> string list" where
  "text_lines s = (if s = [] then [] else fgets_text s # text_lines (drop (length (fgets_text s)) s))"
  by pat_completeness auto
termination
  by (relation "measure length") (auto simp: fgets_text_def LINE_MAX_def Let_def)

definition symbol_table_load_group :: "string option \<Rightarrow> u8 \<Rightarrow> symbol_table_t \<Rightarrow> int \<times> symbol_table_t" where
  "symbol_table_load_group content g tbl =
     (case content of
        None \<Rightarrow> (-1, tbl)
      | Some s \<Rightarrow>
          let t = fold (\<lambda>l t. snd (parse_line g l t)) (text_lines s) tbl
          in (int (length (sy_entries t)) - int (length (sy_entries tbl)), t))"

definition symbol_table_load :: "string option \<Rightarrow> symbol_table_t \<Rightarrow> int \<times> symbol_table_t" where
  "symbol_table_load content tbl = symbol_table_load_group content 0 tbl"

section \<open>Groups and lookup\<close>

definition symbol_set_group_enabled :: "u8 \<Rightarrow> bool \<Rightarrow> symbol_table_t \<Rightarrow> symbol_table_t" where
  "symbol_set_group_enabled g enabled tbl = tbl\<lparr>group_disabled := (group_disabled tbl)(g := \<not> enabled)\<rparr>"

definition symbol_group_enabled :: "symbol_table_t \<Rightarrow> u8 \<Rightarrow> bool" where
  "symbol_group_enabled tbl g \<longleftrightarrow> \<not> group_disabled tbl g"

definition symbol_group_count :: "symbol_table_t \<Rightarrow> u8 \<Rightarrow> nat" where
  "symbol_group_count tbl g = length (filter (\<lambda>e. sy_group e = g) (sy_entries tbl))"

definition live_entries :: "symbol_table_t \<Rightarrow> symbol_entry_t list" where
  "live_entries tbl = filter (\<lambda>e. \<not> group_disabled tbl (sy_group e)) (sy_entries tbl)"

definition symbol_lookup :: "symbol_table_t \<Rightarrow> u16 \<Rightarrow> string option" where
  "symbol_lookup tbl addr = map_option sy_name (List.find (\<lambda>e. sy_addr e = addr) (live_entries tbl))"

definition symbol_resolve :: "symbol_table_t \<Rightarrow> string \<Rightarrow> u16 option" where
  "symbol_resolve tbl name =
     (let n = (if drops_first name then tl name else name)
      in if name = [] then None else map_option sy_addr (List.find (\<lambda>e. strcaseeq (sy_name e) n) (live_entries tbl)))"

end
