(* ===== verification/Debug_Asm.thy ===== *)
theory Debug_Asm
  imports Symbols Cpu_Opcodes
begin

text \<open>
  The disassembler of \<open>src/cpu/cpu6502.c\<close> and the inline assembler of the debugger
  (\<open>src/debugger_asm.c\<close>), both over the opcode table of the CPU.  Messages on the terminal are not
  modelled.
\<close>

section \<open>Disassembler\<close>

definition opcode_name :: "u8 \<Rightarrow> string" where
  "opcode_name op = fst (opcode_table ! unat op)"

fun addr_mode_fmt :: "addressing_mode_t \<Rightarrow> u8 \<Rightarrow> u8 \<Rightarrow> string" where
  "addr_mode_fmt ADDR_IMPLICIT lo hi = []"
| "addr_mode_fmt ADDR_ACCUMULATOR lo hi = ''A''"
| "addr_mode_fmt ADDR_IMMEDIATE lo hi = ''#$'' @ fmt_02X lo"
| "addr_mode_fmt ADDR_ZERO_PAGE lo hi = ''$'' @ fmt_02X lo"
| "addr_mode_fmt ADDR_ZERO_PAGE_X lo hi = ''$'' @ fmt_02X lo @ '',X''"
| "addr_mode_fmt ADDR_ZERO_PAGE_Y lo hi = ''$'' @ fmt_02X lo @ '',Y''"
| "addr_mode_fmt ADDR_RELATIVE lo hi = ''$'' @ fmt_04X (hilo hi lo)"
| "addr_mode_fmt ADDR_ABSOLUTE lo hi = ''$'' @ fmt_04X (hilo hi lo)"
| "addr_mode_fmt ADDR_ABSOLUTE_X lo hi = ''$'' @ fmt_04X (hilo hi lo) @ '',X''"
| "addr_mode_fmt ADDR_ABSOLUTE_Y lo hi = ''$'' @ fmt_04X (hilo hi lo) @ '',Y''"
| "addr_mode_fmt ADDR_INDIRECT lo hi = ''($'' @ fmt_04X (hilo hi lo) @ '')''"
| "addr_mode_fmt ADDR_INDEXED_INDIRECT lo hi = ''($'' @ fmt_02X lo @ '',X)''"
| "addr_mode_fmt ADDR_INDIRECT_INDEXED lo hi = ''($'' @ fmt_02X lo @ ''),Y''"

text \<open>The operand of the instruction \<open>op lo hi\<close> at an address; a branch shows its target.\<close>

definition operand_text :: "u16 \<Rightarrow> u8 \<Rightarrow> u8 \<Rightarrow> u8 \<Rightarrow> string" where
  "operand_text address op lo hi =
     (if opcode_mode op = ADDR_RELATIVE then
        (let target = address + 2 + scast lo in addr_mode_fmt ADDR_RELATIVE (lo8 target) (hi8 target))
      else addr_mode_fmt (opcode_mode op) lo hi)"

definition cpu_disassemble :: "'d hooks \<Rightarrow> u16 \<Rightarrow> nat \<Rightarrow> 'd board \<Rightarrow> (nat \<times> string) \<times> 'd board" where
  "cpu_disassemble hk address buffer_size b =
     (let (op, b1) = memory_read hk address b;
          (lo, b2) = (if opcode_size op \<ge> 2 then memory_read hk (address + 1) b1 else (0, b1));
          (hi, b3) = (if opcode_size op \<ge> 3 then memory_read hk (address + 2) b2 else (0, b2))
      in ((opcode_size op, take (buffer_size - 1) (opcode_name op @ '' '' @ operand_text address op lo hi)), b3))"

section \<open>Assembler\<close>

definition asm_find_opcode :: "string \<Rightarrow> addressing_mode_t \<Rightarrow> nat option" where
  "asm_find_opcode mnem mode =
     List.find (\<lambda>i. let (name, _, _, m) = opcode_table ! i in m = mode \<and> strcaseeq name mnem) [0..<256]"

definition asm_has_mode :: "string \<Rightarrow> addressing_mode_t \<Rightarrow> bool" where
  "asm_has_mode mnem mode \<longleftrightarrow> asm_find_opcode mnem mode \<noteq> None"

text \<open>The value, and whether it needs 16 bits.\<close>

definition asm_parse_value :: "symbol_table_t \<Rightarrow> string \<Rightarrow> (u16 \<times> bool) option" where
  "asm_parse_value tbl s =
     (if s = [] then None
      else case symbol_resolve tbl s of
        Some sv \<Rightarrow> Some (sv, sv > 0xFF)
      | None \<Rightarrow>
          let p = (if starts ''$'' s then tl s else s);
              v = digits_value 16 p
          in if \<not> list_all isxdigit p \<or> p = [] \<or> v > 0xFFFF then None
             else Some (word_of_nat v, length p > 2 \<or> v > 0xFF))"

definition asm_mnemonic :: "string \<Rightarrow> string" where
  "asm_mnemonic s = take 7 (map toupper s)"

definition asm_operand :: "string \<Rightarrow> string" where
  "asm_operand s = take 39 (map toupper (filter (\<lambda>c. \<not> isspace c) s))"

text \<open>The end of a string, as the comparisons of \<open>op + oi - n\<close> see it.\<close>

definition ends :: "string \<Rightarrow> string \<Rightarrow> bool" where
  "ends t s \<longleftrightarrow> length t \<le> length s \<and> drop (length s - length t) s = t"

datatype asm_result = Asm_mode addressing_mode_t u16 | Asm_branch u8 | Asm_error

definition asm_no_operand :: "string \<Rightarrow> string \<Rightarrow> asm_result" where
  "asm_no_operand mnem op =
     (if op = [] \<and> asm_has_mode mnem ADDR_IMPLICIT then Asm_mode ADDR_IMPLICIT 0
      else if asm_has_mode mnem ADDR_ACCUMULATOR then Asm_mode ADDR_ACCUMULATOR 0
      else if asm_has_mode mnem ADDR_IMPLICIT then Asm_mode ADDR_IMPLICIT 0
      else Asm_error)"

definition asm_value_in :: "symbol_table_t \<Rightarrow> addressing_mode_t \<Rightarrow> string \<Rightarrow> asm_result" where
  "asm_value_in tbl mode s =
     (case asm_parse_value tbl s of Some (v, _) \<Rightarrow> Asm_mode mode v | None \<Rightarrow> Asm_error)"

definition asm_immediate :: "symbol_table_t \<Rightarrow> string \<Rightarrow> asm_result" where
  "asm_immediate tbl s =
     (case asm_parse_value tbl s of
        Some (v, _) \<Rightarrow> if v > 0xFF then Asm_error else Asm_mode ADDR_IMMEDIATE v
      | None \<Rightarrow> Asm_error)"

definition asm_indirect :: "symbol_table_t \<Rightarrow> string \<Rightarrow> asm_result" where
  "asm_indirect tbl op =
     (let oi = length op in
      if oi \<ge> 4 \<and> ends '',X)'' op then asm_value_in tbl ADDR_INDEXED_INDIRECT (take (oi - 4) (tl op))
      else if oi \<ge> 4 \<and> ends ''),Y'' op then asm_value_in tbl ADDR_INDIRECT_INDEXED (take (oi - 4) (tl op))
      else if ends '')'' op then asm_value_in tbl ADDR_INDIRECT (take (oi - 2) (tl op))
      else Asm_error)"

text \<open>The operand of a branch is its target.\<close>

definition asm_target :: "u16 \<Rightarrow> u16 \<Rightarrow> asm_result" where
  "asm_target addr value =
     (let off = uint value - (uint addr + 2)
      in if off < -128 \<or> off > 127 then Asm_error else Asm_branch (word_of_int off))"

definition asm_plain :: "symbol_table_t \<Rightarrow> u16 \<Rightarrow> string \<Rightarrow> string \<Rightarrow> asm_result" where
  "asm_plain tbl addr mnem op =
     (let x = ends '',X'' op; y = ends '',Y'' op in
      case asm_parse_value tbl (if x \<or> y then take (length op - 2) op else op) of
        None \<Rightarrow> Asm_error
      | Some (value, is_word) \<Rightarrow>
          let zp = (value \<le> 0xFF \<and> \<not> is_word) in
          if x then Asm_mode (if zp \<and> asm_has_mode mnem ADDR_ZERO_PAGE_X then ADDR_ZERO_PAGE_X else ADDR_ABSOLUTE_X) value
          else if y then Asm_mode (if zp \<and> asm_has_mode mnem ADDR_ZERO_PAGE_Y then ADDR_ZERO_PAGE_Y else ADDR_ABSOLUTE_Y) value
          else if asm_has_mode mnem ADDR_RELATIVE then asm_target addr value
          else Asm_mode (if zp \<and> asm_has_mode mnem ADDR_ZERO_PAGE then ADDR_ZERO_PAGE else ADDR_ABSOLUTE) value)"

definition asm_decide :: "symbol_table_t \<Rightarrow> u16 \<Rightarrow> string \<Rightarrow> string \<Rightarrow> asm_result" where
  "asm_decide tbl addr mnem op =
     (if op = [] \<or> op = ''A'' then asm_no_operand mnem op
      else if starts ''#'' op then asm_immediate tbl (tl op)
      else if starts ''('' op then asm_indirect tbl op
      else asm_plain tbl addr mnem op)"

text \<open>The bytes of the instruction, written from \<open>addr\<close> on; none on an error.\<close>

definition asm_bytes :: "symbol_table_t \<Rightarrow> u16 \<Rightarrow> string \<Rightarrow> string \<Rightarrow> u8 list" where
  "asm_bytes tbl addr mnem_in operand_in =
     (let mnem = asm_mnemonic mnem_in in
      if mnem = [] then []
      else case asm_decide tbl addr mnem (asm_operand operand_in) of
        Asm_error \<Rightarrow> []
      | Asm_branch off \<Rightarrow> [word_of_nat (the (asm_find_opcode mnem ADDR_RELATIVE)), off]
      | Asm_mode mode value \<Rightarrow>
          (case asm_find_opcode mnem mode of
             None \<Rightarrow> []
           | Some ob \<Rightarrow> take (fst (snd (snd (opcode_table ! ob)))) [word_of_nat ob, lo8 value, hi8 value]))"

definition write_bytes :: "'d hooks \<Rightarrow> u16 \<Rightarrow> u8 list \<Rightarrow> 'd board \<Rightarrow> 'd board" where
  "write_bytes hk addr bs b = fold (\<lambda>(i, v). memory_write hk (addr + word_of_nat i) v) (enumerate 0 bs) b"

definition dbg_assemble_one :: "'d hooks \<Rightarrow> symbol_table_t \<Rightarrow> u16 \<Rightarrow> string \<Rightarrow> string \<Rightarrow> 'd board \<Rightarrow> nat \<times> 'd board" where
  "dbg_assemble_one hk tbl addr mnem_in operand_in b =
     (let bs = asm_bytes tbl addr mnem_in operand_in in (length bs, write_bytes hk addr bs b))"

end
