(* ===== verification/Debug_Asm_Rules.thy ===== *)
theory Debug_Asm_Rules
  imports Debug_Asm
begin

text \<open>
  Rules of the assembler: the opcode table by addressing mode, the opcode the assembler writes for a
  mnemonic, and what it reads back from the operands the disassembler prints.
\<close>

section \<open>The opcode table by addressing mode\<close>

text \<open>The first opcode of each name and mode.\<close>

fun mode_names :: "addressing_mode_t \<Rightarrow> (string \<times> nat) list" where
  "mode_names ADDR_IMPLICIT =
    [(''BRK'', 0), (''JAM'', 2), (''PHP'', 8), (''CLC'', 24), (''NOP'', 26), (''PLP'', 40), (''SEC'', 56),
     (''RTI'', 64), (''PHA'', 72), (''CLI'', 88), (''RTS'', 96), (''PLA'', 104), (''SEI'', 120), (''DEY'', 136),
     (''TXA'', 138), (''TYA'', 152), (''TXS'', 154), (''TAY'', 168), (''TAX'', 170), (''CLV'', 184), (''TSX'', 186),
     (''INY'', 200), (''DEX'', 202), (''CLD'', 216), (''INX'', 232), (''SED'', 248)]"
| "mode_names ADDR_ACCUMULATOR =
    [(''ASL'', 10), (''ROL'', 42), (''LSR'', 74), (''ROR'', 106)]"
| "mode_names ADDR_IMMEDIATE =
    [(''ORA'', 9), (''ANC'', 11), (''AND'', 41), (''EOR'', 73), (''ALR'', 75), (''ADC'', 105), (''ARR'', 107),
     (''NOP'', 128), (''ANE'', 139), (''LDY'', 160), (''LDX'', 162), (''LDA'', 169), (''LXA'', 171), (''CPY'', 192),
     (''CMP'', 201), (''SBX'', 203), (''CPX'', 224), (''SBC'', 233)]"
| "mode_names ADDR_ZERO_PAGE =
    [(''NOP'', 4), (''ORA'', 5), (''ASL'', 6), (''SLO'', 7), (''BIT'', 36), (''AND'', 37), (''ROL'', 38),
     (''RLA'', 39), (''EOR'', 69), (''LSR'', 70), (''SRE'', 71), (''ADC'', 101), (''ROR'', 102), (''RRA'', 103),
     (''STY'', 132), (''STA'', 133), (''STX'', 134), (''SAX'', 135), (''LDY'', 164), (''LDA'', 165), (''LDX'', 166),
     (''LAX'', 167), (''CPY'', 196), (''CMP'', 197), (''DEC'', 198), (''DCP'', 199), (''CPX'', 228), (''SBC'', 229),
     (''INC'', 230), (''ISC'', 231)]"
| "mode_names ADDR_ZERO_PAGE_X =
    [(''NOP'', 20), (''ORA'', 21), (''ASL'', 22), (''SLO'', 23), (''AND'', 53), (''ROL'', 54), (''RLA'', 55),
     (''EOR'', 85), (''LSR'', 86), (''SRE'', 87), (''ADC'', 117), (''ROR'', 118), (''RRA'', 119), (''STY'', 148),
     (''STA'', 149), (''LDY'', 180), (''LDA'', 181), (''CMP'', 213), (''DEC'', 214), (''DCP'', 215), (''SBC'', 245),
     (''INC'', 246), (''ISC'', 247)]"
| "mode_names ADDR_ZERO_PAGE_Y =
    [(''STX'', 150), (''SAX'', 151), (''LDX'', 182), (''LAX'', 183)]"
| "mode_names ADDR_RELATIVE =
    [(''BPL'', 16), (''BMI'', 48), (''BVC'', 80), (''BVS'', 112), (''BCC'', 144), (''BCS'', 176), (''BNE'', 208),
     (''BEQ'', 240)]"
| "mode_names ADDR_ABSOLUTE =
    [(''NOP'', 12), (''ORA'', 13), (''ASL'', 14), (''SLO'', 15), (''JSR'', 32), (''BIT'', 44), (''AND'', 45),
     (''ROL'', 46), (''RLA'', 47), (''JMP'', 76), (''EOR'', 77), (''LSR'', 78), (''SRE'', 79), (''ADC'', 109),
     (''ROR'', 110), (''RRA'', 111), (''STY'', 140), (''STA'', 141), (''STX'', 142), (''SAX'', 143), (''LDY'', 172),
     (''LDA'', 173), (''LDX'', 174), (''LAX'', 175), (''CPY'', 204), (''CMP'', 205), (''DEC'', 206), (''DCP'', 207),
     (''CPX'', 236), (''SBC'', 237), (''INC'', 238), (''ISC'', 239)]"
| "mode_names ADDR_ABSOLUTE_X =
    [(''NOP'', 28), (''ORA'', 29), (''ASL'', 30), (''SLO'', 31), (''AND'', 61), (''ROL'', 62), (''RLA'', 63),
     (''EOR'', 93), (''LSR'', 94), (''SRE'', 95), (''ADC'', 125), (''ROR'', 126), (''RRA'', 127), (''SHY'', 156),
     (''STA'', 157), (''LDY'', 188), (''LDA'', 189), (''CMP'', 221), (''DEC'', 222), (''DCP'', 223), (''SBC'', 253),
     (''INC'', 254), (''ISC'', 255)]"
| "mode_names ADDR_ABSOLUTE_Y =
    [(''ORA'', 25), (''SLO'', 27), (''AND'', 57), (''RLA'', 59), (''EOR'', 89), (''SRE'', 91), (''ADC'', 121),
     (''RRA'', 123), (''STA'', 153), (''TAS'', 155), (''SHX'', 158), (''SHA'', 159), (''LDA'', 185), (''LAS'', 187),
     (''LDX'', 190), (''LAX'', 191), (''CMP'', 217), (''DCP'', 219), (''SBC'', 249), (''ISC'', 251)]"
| "mode_names ADDR_INDIRECT =
    [(''JMP'', 108)]"
| "mode_names ADDR_INDEXED_INDIRECT =
    [(''ORA'', 1), (''SLO'', 3), (''AND'', 33), (''RLA'', 35), (''EOR'', 65), (''SRE'', 67), (''ADC'', 97),
     (''RRA'', 99), (''STA'', 129), (''SAX'', 131), (''LDA'', 161), (''LAX'', 163), (''CMP'', 193), (''DCP'', 195),
     (''SBC'', 225), (''ISC'', 227)]"
| "mode_names ADDR_INDIRECT_INDEXED =
    [(''ORA'', 17), (''SLO'', 19), (''AND'', 49), (''RLA'', 51), (''EOR'', 81), (''SRE'', 83), (''ADC'', 113),
     (''RRA'', 115), (''STA'', 145), (''SHA'', 147), (''LDA'', 177), (''LAX'', 179), (''CMP'', 209), (''DCP'', 211),
     (''SBC'', 241), (''ISC'', 243)]"

fun first_named :: "(string \<times> nat) list \<Rightarrow> string \<Rightarrow> nat" where
  "first_named [] n = 256"
| "first_named ((k, i) # ps) n = (if k = n then i else first_named ps n)"

text \<open>The later opcodes of a name and mode, with the first: second \<open>NOP\<close>s and \<open>JAM\<close>s, and two others.\<close>

definition later_opcodes :: "(nat \<times> nat) list" where
  "later_opcodes =
    [(18, 2), (34, 2), (43, 11), (50, 2), (52, 20), (58, 26), (60, 28), (66, 2), (68, 4), (82, 2), (84, 20),
     (90, 26), (92, 28), (98, 2), (100, 4), (114, 2), (116, 20), (122, 26), (124, 28), (130, 128), (137, 128),
     (146, 2), (178, 2), (194, 128), (210, 2), (212, 20), (218, 26), (220, 28), (226, 128), (234, 26), (235, 233),
     (242, 2), (244, 20), (250, 26), (252, 28)]"

definition first_opcode :: "nat \<Rightarrow> nat" where
  "first_opcode i = (case map_of later_opcodes i of Some k \<Rightarrow> k | None \<Rightarrow> i)"

lemma upt_256: "[0..<256] = 0 # 1 # [2..<(256 :: nat)]"
proof -
  have "[0..<256] = 0 # [1..<(256 :: nat)]" using upt_conv_Cons [of 0 256] by simp
  moreover have "[1..<256] = 1 # [2..<(256 :: nat)]" using upt_conv_Cons [of 1 256] by (simp add: numeral_2_eq_2)
  ultimately show ?thesis by (simp only:)
qed

lemma first_opcodes:
  "map first_opcode [0..<256] =
    [0, 1, 2, 3, 4, 5, 6, 7, 8, 9, 10, 11, 12, 13, 14, 15, 16, 17, 2, 19, 20, 21, 22, 23, 24, 25, 26, 27, 28, 29, 30,
     31, 32, 33, 2, 35, 36, 37, 38, 39, 40, 41, 42, 11, 44, 45, 46, 47, 48, 49, 2, 51, 20, 53, 54, 55, 56, 57, 26,
     59, 28, 61, 62, 63, 64, 65, 2, 67, 4, 69, 70, 71, 72, 73, 74, 75, 76, 77, 78, 79, 80, 81, 2, 83, 20, 85, 86, 87,
     88, 89, 26, 91, 28, 93, 94, 95, 96, 97, 2, 99, 4, 101, 102, 103, 104, 105, 106, 107, 108, 109, 110, 111, 112,
     113, 2, 115, 20, 117, 118, 119, 120, 121, 26, 123, 28, 125, 126, 127, 128, 129, 128, 131, 132, 133, 134, 135,
     136, 128, 138, 139, 140, 141, 142, 143, 144, 145, 2, 147, 148, 149, 150, 151, 152, 153, 154, 155, 156, 157, 158,
     159, 160, 161, 162, 163, 164, 165, 166, 167, 168, 169, 170, 171, 172, 173, 174, 175, 176, 177, 2, 179, 180, 181,
     182, 183, 184, 185, 186, 187, 188, 189, 190, 191, 192, 193, 128, 195, 196, 197, 198, 199, 200, 201, 202, 203,
     204, 205, 206, 207, 208, 209, 2, 211, 20, 213, 214, 215, 216, 217, 26, 219, 28, 221, 222, 223, 224, 225, 128,
     227, 228, 229, 230, 231, 232, 233, 26, 233, 236, 237, 238, 239, 240, 241, 2, 243, 20, 245, 246, 247, 248, 249,
     26, 251, 28, 253, 254, 255]"
  unfolding upt_256 by (simp add: first_opcode_def later_opcodes_def upt_rec_numeral)

lemma first_named_table: "map (\<lambda>(n, _, _, m). first_named (mode_names m) n) opcode_table = map first_opcode [0..<256]"
  unfolding first_opcodes by (simp add: opcode_table_def)

text \<open>Names are three upper-case letters.\<close>

definition plain_name :: "string \<Rightarrow> bool" where
  "plain_name n \<longleftrightarrow> length n = 3 \<and> list_all (\<lambda>c. c \<in> set ''ABCDEHIJKLMNOPQRSTVWXYZ'') n"

lemma names_plain: "list_all (\<lambda>(n, _). plain_name n) opcode_table"
  by (simp add: opcode_table_def plain_name_def)

definition branch_names :: "string list" where
  "branch_names = [''BPL'', ''BMI'', ''BVC'', ''BVS'', ''BCC'', ''BCS'', ''BNE'', ''BEQ'']"

definition mode_size :: "addressing_mode_t \<Rightarrow> nat" where
  "mode_size m = (case m of ADDR_IMPLICIT \<Rightarrow> 1 | ADDR_ACCUMULATOR \<Rightarrow> 1 | ADDR_ABSOLUTE \<Rightarrow> 3 | ADDR_ABSOLUTE_X \<Rightarrow> 3
    | ADDR_ABSOLUTE_Y \<Rightarrow> 3 | ADDR_INDIRECT \<Rightarrow> 3 | _ \<Rightarrow> 2)"

lemma mode_table: "list_all (\<lambda>(n, _, z, m). z = mode_size m \<and> (m = ADDR_RELATIVE) = (n \<in> set branch_names)) opcode_table"
  by (simp add: opcode_table_def mode_size_def branch_names_def)

lemma opcode_table_length: "length opcode_table = 256"
  by (simp add: opcode_table_def)

lemma find_index:
  assumes "asm_find_opcode mnem mode = Some k"
  shows "k < 256" "snd (snd (snd (opcode_table ! k))) = mode" "strcaseeq (fst (opcode_table ! k)) mnem"
proof -
  have "k \<in> set [0..<256]" "let (name, _, _, m) = opcode_table ! k in m = mode \<and> strcaseeq name mnem"
    using assms by (auto simp: asm_find_opcode_def find_Some_iff in_set_conv_nth)
  then show "k < 256" "snd (snd (snd (opcode_table ! k))) = mode" "strcaseeq (fst (opcode_table ! k)) mnem"
    by (simp_all add: case_prod_unfold Let_def)
qed

lemma table_entry:
  assumes "i < 256"
  shows "plain_name (fst (opcode_table ! i))" "fst (snd (snd (opcode_table ! i))) = mode_size (snd (snd (snd (opcode_table ! i))))"
    "(snd (snd (snd (opcode_table ! i))) = ADDR_RELATIVE) = (fst (opcode_table ! i) \<in> set branch_names)"
proof -
  have e: "opcode_table ! i \<in> set opcode_table" using assms opcode_table_length by (metis nth_mem)
  show "plain_name (fst (opcode_table ! i))" using names_plain e by (auto simp: list_all_iff)
  show "fst (snd (snd (opcode_table ! i))) = mode_size (snd (snd (snd (opcode_table ! i))))"
    "(snd (snd (snd (opcode_table ! i))) = ADDR_RELATIVE) = (fst (opcode_table ! i) \<in> set branch_names)"
    using mode_table e by (auto simp: list_all_iff case_prod_unfold)
qed

lemma letter_codes: "list_all (\<lambda>c. 65 \<le> code c \<and> code c \<le> 90) ''ABCDEHIJKLMNOPQRSTVWXYZ''"
  by simp

lemma upper_case: "65 \<le> code c \<Longrightarrow> code c \<le> 90 \<Longrightarrow> toupper (tolower c) = c \<and> toupper c = c"
  by (simp add: toupper_def tolower_def)

lemma plain_letters: "plain_name n \<Longrightarrow> c \<in> set n \<Longrightarrow> toupper (tolower c) = c \<and> toupper c = c"
  using letter_codes upper_case unfolding plain_name_def list_all_iff by blast

lemma plain_caseeq:
  assumes "plain_name a" "plain_name b"
  shows "strcaseeq a b = (a = b)"
proof -
  have "map toupper (map tolower n) = n" if "plain_name n" for n
    using plain_letters [OF that] by (auto simp: map_idI)
  then show ?thesis using assms unfolding strcaseeq_def by metis
qed

lemma plain_mnemonic: "plain_name n \<Longrightarrow> asm_mnemonic n = n \<and> n \<noteq> []"
  using plain_letters [of n] by (auto simp: asm_mnemonic_def plain_name_def map_idI)

lemma name_plain: "plain_name (opcode_name op)"
  using table_entry(1) [of "unat op"] by (simp add: opcode_name_def)

text \<open>The assembler finds an opcode of the same name and mode, the same one for all but the later opcodes.\<close>

lemma find_self:
  obtains k where "asm_find_opcode (opcode_name op) (opcode_mode op) = Some k" "k < 256"
    "opcode_name (word_of_nat k) = opcode_name op" "opcode_mode (word_of_nat k) = opcode_mode op"
    "first_opcode (unat op) = unat op \<longrightarrow> k = unat op"
proof -
  let ?n = "opcode_name op" and ?m = "opcode_mode op" and ?i = "unat op"
  have hit: "let (name, _, _, m) = opcode_table ! ?i in m = ?m \<and> strcaseeq name ?n"
    by (simp add: case_prod_unfold opcode_name_def opcode_mode_def strcaseeq_def)
  have "asm_find_opcode ?n ?m \<noteq> None"
  proof
    assume "asm_find_opcode ?n ?m = None"
    then have "\<forall>i \<in> set [0..<256]. \<not> (let (name, _, _, m) = opcode_table ! i in m = ?m \<and> strcaseeq name ?n)"
      by (auto simp: asm_find_opcode_def find_None_iff)
    moreover have "?i \<in> set [0..<256]" by simp
    ultimately show False using hit by blast
  qed
  then obtain k where k: "asm_find_opcode ?n ?m = Some k" by blast
  note e = find_index [OF k]
  have n: "fst (opcode_table ! k) = ?n" using e plain_caseeq [OF table_entry(1) [OF e(1)] name_plain] by simp
  have le: "k \<le> ?i"
  proof (rule ccontr)
    assume "\<not> k \<le> ?i"
    then obtain j where "j < 256" "k = [0..<256] ! j" "\<forall>j' < j. \<not> (let (name, _, _, m) = opcode_table ! ([0..<256] ! j') in m = ?m \<and> strcaseeq name ?n)"
      using k unfolding asm_find_opcode_def find_Some_iff by (metis (no_types, lifting) length_upt minus_nat.diff_0)
    then show False using \<open>\<not> k \<le> ?i\<close> hit by auto
  qed
  have f: "first_named (mode_names (snd (snd (snd (opcode_table ! j))))) (fst (opcode_table ! j)) = first_opcode j" if "j < 256" for j
    using arg_cong [OF first_named_table, of "\<lambda>xs. xs ! j"] that opcode_table_length by (simp add: case_prod_unfold)
  have down: "first_opcode j \<le> j" for j
  proof -
    have "list_all (\<lambda>(i, k). k \<le> i) later_opcodes" by code_simp
    then show ?thesis by (auto simp: first_opcode_def list_all_iff split: option.splits dest!: map_of_SomeD)
  qed
  have "first_opcode k = first_opcode ?i"
    using f [OF e(1)] f [of ?i] e(2) n by (simp add: opcode_name_def opcode_mode_def)
  then have "first_opcode ?i = ?i \<longrightarrow> k = ?i" using down [of k] le by simp
  moreover have "unat (word_of_nat k :: u8) = k" using e(1) by (simp add: unat_of_nat)
  ultimately show ?thesis using that [OF k e(1)] e(2) n by (simp add: opcode_name_def opcode_mode_def)
qed

lemma has_own_mode: "asm_has_mode (opcode_name op) (opcode_mode op)"
  by (rule find_self [of op]) (simp add: asm_has_mode_def)

lemma has_relative: "asm_has_mode (opcode_name op) ADDR_RELATIVE \<longleftrightarrow> opcode_mode op = ADDR_RELATIVE"
proof
  assume "asm_has_mode (opcode_name op) ADDR_RELATIVE"
  then obtain k where k: "asm_find_opcode (opcode_name op) ADDR_RELATIVE = Some k" by (auto simp: asm_has_mode_def)
  note e = find_index [OF k]
  have "fst (opcode_table ! k) = opcode_name op" using e plain_caseeq [OF table_entry(1) [OF e(1)] name_plain] by simp
  then show "opcode_mode op = ADDR_RELATIVE"
    using table_entry(3) [OF e(1)] table_entry(3) [of "unat op"] e(2) by (simp add: opcode_name_def opcode_mode_def)
next
  assume "opcode_mode op = ADDR_RELATIVE"
  then show "asm_has_mode (opcode_name op) ADDR_RELATIVE" using has_own_mode [of op] by simp
qed

end
