(* ===== verification/Asm_Properties.thy ===== *)
theory Asm_Properties
  imports Debug_Asm_Rules
begin

text \<open>
  Properties of the inline assembler: it reads back what the disassembler prints; which opcode it writes
  for a mnemonic that several opcodes share; what it does with an operand too large for its mode.
\<close>

text \<open>
  What the assembler reads in an operand that the disassembler printed, mode by mode.
\<close>

section \<open>Values\<close>

definition unresolved :: "symbol_table_t \<Rightarrow> bool" where
  "unresolved tbl \<longleftrightarrow> live_entries tbl = []"

lemma unresolved_none: "unresolved tbl \<Longrightarrow> symbol_resolve tbl s = None"
  by (simp add: unresolved_def symbol_resolve_def Let_def)

lemma parse_02X:
  assumes "unresolved tbl"
  shows "asm_parse_value tbl (CHR ''$'' # fmt_02X b) = Some (ucast b, False)"
proof -
  have l: "\<not> 65535 < unat b" "\<not> 255 < unat b" using unat_u8_less [of b] by linarith+
  have "word_of_nat (unat b) = (ucast b :: u16)" by simp
  then show ?thesis
    using assms
    by (simp add: asm_parse_value_def unresolved_none starts_def Let_def digits_02X l)
       (simp add: fmt_02X_def)
qed

lemma parse_04X:
  assumes "unresolved tbl"
  shows "asm_parse_value tbl (CHR ''$'' # fmt_04X w) = Some (w, True)"
proof -
  have "unat w < 65536" by (rule order.strict_trans2 [OF unsigned_less]) simp
  then show ?thesis
    using assms
    by (simp add: asm_parse_value_def unresolved_none starts_def Let_def digits_04X)
       (simp add: fmt_04X_def)
qed

section \<open>Operands\<close>

lemma fixed_chars: "list_all (\<lambda>c. toupper c = c \<and> \<not> isspace c) ''A#$(),XY''"
  by (simp add: toupper_def isspace_def)

lemma fixed_char: "c \<in> set ''A#$(),XY'' \<Longrightarrow> toupper c = c" "c \<in> set ''A#$(),XY'' \<Longrightarrow> \<not> isspace c"
  using fixed_chars unfolding list_all_iff by blast+

text \<open>What is printed is upper case, without spaces, and short.\<close>

definition printed :: "string \<Rightarrow> bool" where
  "printed s \<longleftrightarrow> length s \<le> 39 \<and> (\<forall>c \<in> set s. toupper c = c \<and> \<not> isspace c)"

lemma printed_operand: "printed s \<Longrightarrow> asm_operand s = s"
proof -
  assume "printed s"
  then have "filter (\<lambda>c. \<not> isspace c) s = s" "map toupper s = s" "length s \<le> 39"
    by (auto simp: printed_def map_idI)
  then show ?thesis by (simp add: asm_operand_def)
qed

lemma printed_hex: "c \<in> set (fmt_02X b) \<Longrightarrow> toupper c = c \<and> \<not> isspace c" "c \<in> set (fmt_04X w) \<Longrightarrow> toupper c = c \<and> \<not> isspace c"
  by (auto simp: fmt_02X_def fmt_04X_def hexdig_facts)

lemma fmt_length [simp]: "length (fmt_02X b) = 2" "length (fmt_04X w) = 4"
  by (simp_all add: fmt_02X_def fmt_04X_def)

lemma printed_fmt: "printed (addr_mode_fmt m lo hi)"
  using fixed_char printed_hex by (cases m) (auto simp: printed_def)

lemma hex_not: "hexdig_upper v \<noteq> c" if "c \<in> set ''$#(),+-xXYyZ:;.=&|<>![]''"
  using hexdig_facts(5) [of v] that by metis

lemma hex_apart [simp]:
  "hexdig_upper v \<noteq> CHR ''X''" "hexdig_upper v \<noteq> CHR ''Y''" "hexdig_upper v \<noteq> CHR '',''" "hexdig_upper v \<noteq> CHR '')''"
  by (rule hex_not; simp)+

lemma no_index: "\<not> ends '',X'' (CHR ''$'' # fmt_02X b)" "\<not> ends '',Y'' (CHR ''$'' # fmt_02X b)"
  "\<not> ends '',X'' (CHR ''$'' # fmt_04X w)" "\<not> ends '',Y'' (CHR ''$'' # fmt_04X w)"
  by (simp_all add: ends_def fmt_02X_def fmt_04X_def)

section \<open>The assembler on what was printed\<close>

lemma byte_word: "\<not> (255 :: u16) < ucast (b :: u8)" "(ucast (b :: u8) :: u16) \<le> 255" "lo8 (ucast (b :: u8)) = b"
proof -
  have "unat b < 2 ^ 16" by (rule order.strict_trans [OF unat_u8_less]) simp
  then have "unat (ucast b :: u16) = unat b" by (simp add: unsigned_ucast_eq take_bit_nat_eq_self)
  then have "unat (ucast b :: u16) < 256" using unat_u8_less [of b] by (simp only:)
  then show "\<not> (255 :: u16) < ucast b" "(ucast b :: u16) \<le> 255" by (simp_all add: word_less_nat_alt word_le_nat_alt)
  show "lo8 (ucast b) = b" by (rule bit_word_eqI) (auto simp: lo8_def bit_simps dest: bit_imp_le_length)
qed

lemma decide_printed:
  assumes "unresolved tbl" "opcode_mode op \<noteq> ADDR_RELATIVE"
  shows "\<exists>v. asm_decide tbl addr (opcode_name op) (addr_mode_fmt (opcode_mode op) lo hi) = Asm_mode (opcode_mode op) v \<and>
    (mode_size (opcode_mode op) = 2 \<longrightarrow> lo8 v = lo) \<and> (mode_size (opcode_mode op) = 3 \<longrightarrow> v = hilo hi lo)"
proof -
  note has = has_own_mode [of op]
  have rel: "\<not> asm_has_mode (opcode_name op) ADDR_RELATIVE" using has_relative assms(2) by simp
  note p = parse_02X [OF assms(1), unfolded fmt_02X_def] parse_04X [OF assms(1), unfolded fmt_04X_def]
  note d = asm_decide_def asm_no_operand_def asm_immediate_def asm_indirect_def asm_plain_def asm_value_in_def starts_def mode_size_def
  show ?thesis
    using has rel assms(2)
    by (cases "opcode_mode op")
      (simp_all add: d ends_def fmt_02X_def fmt_04X_def p byte_word)
qed

text \<open>A branch: the distance computed from the printed target is the offset, when the target did not wrap.\<close>

lemma target_printed:
  assumes "0 \<le> uint addr + 2 + sint lo" "uint addr + 2 + sint (lo :: u8) < 65536"
  shows "asm_target addr (addr + 2 + scast lo) = Asm_branch lo"
proof -
  have "uint (addr + 2 + scast lo) = uint addr + 2 + sint lo"
  proof -
    have "addr + 2 + scast lo = word_of_int (uint addr + 2 + sint lo)" by simp
    then have "uint (addr + 2 + scast lo) = (uint addr + 2 + sint lo) mod 2 ^ 16" by (simp only: uint_word_of_int) simp
    then show ?thesis using assms by simp
  qed
  moreover have "- 128 \<le> sint lo" "sint lo \<le> 127"
    using sint_ge [of lo] sint_lt [of lo] by simp_all
  ultimately show ?thesis by (simp add: asm_target_def Let_def)
qed

lemma decide_branch:
  assumes "unresolved tbl" "opcode_mode op = ADDR_RELATIVE" "0 \<le> uint addr + 2 + sint lo" "uint addr + 2 + sint lo < 65536"
  shows "asm_decide tbl addr (opcode_name op) (operand_text addr op lo hi) = Asm_branch lo"
proof -
  have r: "asm_has_mode (opcode_name op) ADDR_RELATIVE" using has_relative assms(2) by simp
  note p = parse_04X [OF assms(1), unfolded fmt_04X_def]
  show ?thesis
    using assms(2) r target_printed [OF assms(3,4)]
    by (simp add: operand_text_def asm_decide_def asm_plain_def starts_def ends_def fmt_04X_def p Let_def)
qed

text \<open>
  C37: The assembler is the inverse of the disassembler: for every opcode, operand bytes and address, the
  mnemonic and operand that the disassembler prints assemble, at the same address and with no symbols
  loaded, into the operand bytes behind an opcode with the same mnemonic and addressing mode, and
  into the very same bytes for all opcodes but the 35 later ones of their mnemonic and mode.  The target of
  a branch must not wrap around the address space.
\<close>

theorem asm_reads_disassembly:
  assumes "live_entries tbl = []"
    and "opcode_mode op = ADDR_RELATIVE \<Longrightarrow> 0 \<le> uint addr + 2 + sint lo \<and> uint addr + 2 + sint lo < 65536"
  shows "\<exists>op'. asm_bytes tbl addr (opcode_name op) (operand_text addr op lo hi) = take (opcode_size op) [op', lo, hi]
    \<and> opcode_name op' = opcode_name op \<and> opcode_mode op' = opcode_mode op
    \<and> (unat op \<notin> fst ` set later_opcodes \<longrightarrow> op' = op)"
proof -
  have u: "unresolved tbl" using assms(1) by (simp add: unresolved_def)
  have m: "asm_mnemonic (opcode_name op) = opcode_name op" "opcode_name op \<noteq> []" using plain_mnemonic [OF name_plain] by auto
  have shown: "asm_operand (operand_text addr op lo hi) = operand_text addr op lo hi"
    unfolding operand_text_def Let_def by (intro printed_operand) (simp add: printed_fmt del: addr_mode_fmt.simps)
  obtain k where k: "asm_find_opcode (opcode_name op) (opcode_mode op) = Some k" "k < 256"
      "opcode_name (word_of_nat k) = opcode_name op" "opcode_mode (word_of_nat k) = opcode_mode op"
      "first_opcode (unat op) = unat op \<longrightarrow> k = unat op"
    by (rule find_self [of op]) blast
  have size: "opcode_size op = mode_size (opcode_mode op)" "fst (snd (snd (opcode_table ! k))) = mode_size (opcode_mode op)"
    using table_entry(2) [of "unat op"] table_entry(2) [OF k(2)] find_index(2) [OF k(1)] by (simp_all add: opcode_size_def opcode_mode_def)
  have "asm_bytes tbl addr (opcode_name op) (operand_text addr op lo hi) = take (opcode_size op) [word_of_nat k, lo, hi]"
  proof (cases "opcode_mode op = ADDR_RELATIVE")
    case True
    then show ?thesis
      using decide_branch [OF u True, of addr lo hi] assms(2) m shown k(1) size by (simp add: asm_bytes_def mode_size_def)
  next
    case False
    obtain v where v: "asm_decide tbl addr (opcode_name op) (addr_mode_fmt (opcode_mode op) lo hi) = Asm_mode (opcode_mode op) v"
      "mode_size (opcode_mode op) = 2 \<longrightarrow> lo8 v = lo" "mode_size (opcode_mode op) = 3 \<longrightarrow> v = hilo hi lo"
      using decide_printed [OF u False, of addr lo hi] by blast
    have "operand_text addr op lo hi = addr_mode_fmt (opcode_mode op) lo hi" using False by (simp add: operand_text_def)
    moreover have "mode_size (opcode_mode op) = 1 \<or> mode_size (opcode_mode op) = 2 \<or> mode_size (opcode_mode op) = 3"
      by (simp add: mode_size_def split: addressing_mode_t.split)
    ultimately show ?thesis
      using v m shown k(1) size by (auto simp: asm_bytes_def numeral_2_eq_2 numeral_3_eq_3)
  qed
  moreover have "unat op \<notin> fst ` set later_opcodes \<longrightarrow> word_of_nat k = op"
    using k(5) by (auto simp: first_opcode_def map_of_eq_None_iff [symmetric])
  ultimately show ?thesis using k(3,4) by blast
qed

text \<open>A branch back by four, at \<open>$1000\<close>.\<close>

definition no_symbols :: symbol_table_t where
  "no_symbols = \<lparr>sy_entries = [], group_disabled = (\<lambda>_. False)\<rparr>"

theorem asm_reads_disassembly_witness:
  "(\<exists>op'. asm_bytes no_symbols 0x1000 (opcode_name 0xD0) (operand_text 0x1000 0xD0 0xFC 0) = take (opcode_size 0xD0) [op', 0xFC, 0]
    \<and> opcode_name op' = opcode_name 0xD0 \<and> opcode_mode op' = opcode_mode 0xD0 \<and> op' = 0xD0)
   \<and> operand_text 0x1000 0xD0 0xFC 0 = ''$0FFE''"
proof
  have "unat (0xD0 :: u8) \<notin> fst ` set later_opcodes" by (simp add: later_opcodes_def)
  moreover have "live_entries no_symbols = []" by (simp add: no_symbols_def live_entries_def)
  moreover have "0 \<le> uint (0x1000 :: u16) + 2 + sint (0xFC :: u8) \<and> uint (0x1000 :: u16) + 2 + sint (0xFC :: u8) < 65536" by simp
  ultimately show "\<exists>op'. asm_bytes no_symbols 0x1000 (opcode_name 0xD0) (operand_text 0x1000 0xD0 0xFC 0) = take (opcode_size 0xD0) [op', 0xFC, 0]
    \<and> opcode_name op' = opcode_name 0xD0 \<and> opcode_mode op' = opcode_mode 0xD0 \<and> op' = 0xD0"
    using asm_reads_disassembly [of no_symbols "0xD0" "0x1000" "0xFC" 0] by blast
  have "opcode_mode 0xD0 = ADDR_RELATIVE" by (simp add: opcode_mode_def opcode_table_def)
  moreover have "(0x1000 + 2 + scast (0xFC :: u8) :: u16) = 0x0FFE" by simp
  moreover have "hilo (hi8 0x0FFE) (lo8 0x0FFE) = 0x0FFE" by (rule hilo_hi8_lo8)
  ultimately show "operand_text 0x1000 0xD0 0xFC 0 = ''$0FFE''"
    by (simp only: operand_text_def Let_def if_True addr_mode_fmt.simps) (simp add: fmt_04X_def hexdig_upper_def)
qed

text \<open>\<open>NOP\<close> assembles into the first opcode of that name, which is not the documented \<open>$EA\<close>.\<close>

lemma nop_undocumented:
  assumes "live_entries tbl = []"
  shows "asm_bytes tbl addr ''NOP'' [] = [0x1A]"
proof -
  have n: "opcode_name 0x1A = ''NOP''" "opcode_mode 0x1A = ADDR_IMPLICIT"
    by (simp_all add: opcode_name_def opcode_mode_def opcode_table_def)
  have "unat (0x1A :: u8) \<notin> fst ` set later_opcodes" by (simp add: later_opcodes_def)
  then have f: "first_opcode (unat (0x1A :: u8)) = unat (0x1A :: u8)"
    by (auto simp: first_opcode_def map_of_eq_None_iff [symmetric])
  obtain k where k: "asm_find_opcode ''NOP'' ADDR_IMPLICIT = Some k" "k = unat (0x1A :: u8)"
    by (rule find_self [of "0x1A"]) (use n f in auto)
  then have "asm_find_opcode ''NOP'' ADDR_IMPLICIT = Some 26" by simp
  moreover have "fst (snd (snd (opcode_table ! 26))) = 1" by (simp add: opcode_table_def)
  moreover have "asm_mnemonic ''NOP'' = ''NOP''" by (simp add: asm_mnemonic_def toupper_def)
  ultimately show ?thesis
    by (simp add: asm_bytes_def asm_operand_def asm_decide_def asm_no_operand_def asm_has_mode_def)
qed

text \<open>An address that does not fit an indirect mode is cut to its low byte without a message.\<close>

lemma indirect_cut:
  assumes "live_entries tbl = []"
  shows "asm_bytes tbl addr ''LDA'' ''($1234),Y'' = asm_bytes tbl addr ''LDA'' ''($34),Y''"
proof -
  have u: "unresolved tbl" using assms by (simp add: unresolved_def)
  have h: "fmt_04X 0x1234 = ''1234''" "fmt_02X 0x34 = ''34''" by (simp_all add: fmt_04X_def fmt_02X_def hexdig_upper_def)
  have p: "asm_parse_value tbl ''$1234'' = Some (0x1234, True)" "asm_parse_value tbl ''$34'' = Some (0x34, False)"
    using parse_04X [OF u, of "0x1234"] parse_02X [OF u, of "0x34"] by (simp_all add: h)
  have o: "asm_operand ''($1234),Y'' = ''($1234),Y''" "asm_operand ''($34),Y'' = ''($34),Y''"
    by (simp_all add: asm_operand_def toupper_def isspace_def)
  have l: "lo8 0x1234 = lo8 0x34" by (simp add: lo8_def)
  have n: "opcode_name 0xB1 = ''LDA''" "opcode_mode 0xB1 = ADDR_INDIRECT_INDEXED"
    by (simp_all add: opcode_name_def opcode_mode_def opcode_table_def)
  obtain k where k: "asm_find_opcode ''LDA'' ADDR_INDIRECT_INDEXED = Some k" "k < 256"
    by (rule find_self [of "0xB1"]) (use n in auto)
  then have z: "fst (snd (snd (opcode_table ! k))) = 2"
    using table_entry(2) [OF k(2)] find_index(2) [OF k(1)] by (simp add: mode_size_def)
  have "asm_mnemonic ''LDA'' = ''LDA''" by (simp add: asm_mnemonic_def toupper_def)
  then show ?thesis
    by (simp add: asm_bytes_def o asm_decide_def asm_indirect_def asm_value_in_def starts_def ends_def p k z l numeral_2_eq_2)
qed

end
