(* ===== verification/Debugger.thy ===== *)
theory Debugger
  imports Symbols Cpu_State Memory
begin

text \<open>
  The debugger (\<open>include/debugger.h\<close>, \<open>src/debugger.c\<close>): addresses and conditions as it reads them,
  breakpoints, watchpoints, the access map, the undo ring and the decision to stop.  The globals of the file
  are part of its state; what it prints is not modelled.
\<close>

section \<open>State\<close>

definition DEBUGGER_MAX_BREAKPOINTS :: nat where "DEBUGGER_MAX_BREAKPOINTS = 16"
definition DEBUGGER_MAX_WATCHPOINTS :: nat where "DEBUGGER_MAX_WATCHPOINTS = 8"
definition BP_MAX_TERMS :: nat where "BP_MAX_TERMS = 4"
definition UNDO_RING_DEPTH :: nat where "UNDO_RING_DEPTH = 16"
definition AMAP_R :: u8 where "AMAP_R = 0x01"
definition AMAP_W :: u8 where "AMAP_W = 0x02"
definition AMAP_X :: u8 where "AMAP_X = 0x04"

datatype bp_operand_t = BP_OPERAND_A | BP_OPERAND_X | BP_OPERAND_Y | BP_OPERAND_SP | BP_OPERAND_P | BP_OPERAND_PC | BP_OPERAND_MEM u16
datatype bp_op_t = BP_OP_EQ | BP_OP_NE | BP_OP_LT | BP_OP_LE | BP_OP_GT | BP_OP_GE
datatype bp_conn_t = BP_CONN_AND | BP_CONN_OR

record bp_condition_t =
  bc_operand :: bp_operand_t
  bc_op :: bp_op_t
  bc_value :: u32

text \<open>\<open>conn ! i\<close> joins the terms \<open>i\<close> and \<open>i + 1\<close>.\<close>

record bp_condexpr_t =
  be_terms :: "bp_condition_t list"
  be_conn :: "bp_conn_t list"

record breakpoint_t =
  bp_addr :: u16
  bp_cond :: "bp_condexpr_t option"
  bp_text :: string

datatype watch_mode_t = WATCH_WRITE | WATCH_READ | WATCH_ACCESS | WATCH_CHANGE

text \<open>\<open>last_value\<close> when \<open>has_last\<close> is set.\<close>

record watchpoint_t =
  wp_addr :: u16
  wp_mode :: watch_mode_t
  wp_last :: "u8 option"

record undo_snapshot_t =
  un_A :: u8  un_X :: u8  un_Y :: u8  un_SP :: u8  un_P :: u8
  un_PC :: u16
  un_cycles :: nat
  un_halted :: bool
  un_nmi :: bool
  un_irq :: u8
  un_ram :: "u16 \<Rightarrow> u8"
  un_upper :: "u16 \<Rightarrow> u8"
  un_charset :: memory_bank_t
  un_rom_enabled :: bool
  un_overlay :: bool
  un_basic :: bool
  un_frame :: int

record debugger_t =
  breakpoints :: "breakpoint_t list"
  watchpoints :: "watchpoint_t list"
  raster_bps :: "int list"
  num_raster_bps :: nat
  last_raster_line :: int
  undo_head :: nat
  undo_count :: nat
  watch_triggered :: bool
  watch_addr_hit :: u16
  watch_read_hit :: bool
  dbg_active :: bool
  step_mode :: bool
  last_break_reason :: string
  temp_breakpoint :: u16
  has_temp_breakpoint :: bool

text \<open>The emulator as the debugger sees it, with the file-level statics of \<open>debugger.c\<close>.\<close>

record 'd dbg_state =
  sys :: "'d machine"
  symbols :: symbol_table_t
  dbg_frame_cycles :: int
  dbg :: debugger_t
  g_undo_ring :: "undo_snapshot_t list"
  g_amap :: "u16 \<Rightarrow> u8"
  g_amap_count :: nat
  g_amap_rw :: bool

definition upd_dbg :: "(debugger_t \<Rightarrow> debugger_t) \<Rightarrow> 'd dbg_state \<Rightarrow> 'd dbg_state" where
  "upd_dbg f s = s\<lparr>dbg := f (dbg s)\<rparr>"

definition debugger_init :: debugger_t where
  "debugger_init = \<lparr>breakpoints = [], watchpoints = [], raster_bps = replicate 8 (-1), num_raster_bps = 0, last_raster_line = -1,
     undo_head = 0, undo_count = 0, watch_triggered = False, watch_addr_hit = 0, watch_read_hit = False, dbg_active = False,
     step_mode = False, last_break_reason = [], temp_breakpoint = 0, has_temp_breakpoint = False\<rparr>"

section \<open>Reading addresses and conditions\<close>

definition dbg_parse_addr :: "symbol_table_t \<Rightarrow> string \<Rightarrow> u16 option" where
  "dbg_parse_addr tbl s =
     (if s = [] then None
      else case symbol_resolve tbl s of
        Some a \<Rightarrow> Some a
      | None \<Rightarrow>
          let (base, s1) =
                (if starts ''$'' s then (16, tl s)
                 else if starts ''0x'' s \<or> starts ''0X'' s then (16, drop 2 s)
                 else if starts ''%'' s then (2, tl s)
                 else (16, s));
              (v, rest) = strtoul base s1
          in if rest = s1 \<or> v > 0xFFFF then None else Some (word_of_nat v))"

definition dbg_skip_ws :: "string \<Rightarrow> string" where
  "dbg_skip_ws s = dropWhile isspace s"

definition dbg_skip_token :: "string \<Rightarrow> string" where
  "dbg_skip_token s = dropWhile (\<lambda>c. \<not> isspace c) s"

definition parse_num_literal :: "string \<Rightarrow> u32 option" where
  "parse_num_literal s =
     (let (base, s1) =
            (if starts ''$'' s then (16, tl s)
             else if starts ''0x'' s \<or> starts ''0X'' s then (16, drop 2 s)
             else if starts ''%'' s then (2, tl s)
             else (10, s));
          (v, rest) = strtoul base s1
      in if rest = s1 then None else Some (word_of_nat v))"

definition alnum_at :: "nat \<Rightarrow> string \<Rightarrow> bool" where
  "alnum_at i s \<longleftrightarrow> (case peek i s of Some c \<Rightarrow> isalnum c | None \<Rightarrow> False)"

text \<open>The operand of a comparison and the rest of the text.\<close>

definition parse_operand :: "symbol_table_t \<Rightarrow> string \<Rightarrow> (bp_operand_t \<times> string) option" where
  "parse_operand tbl p =
     (if starts ''M['' p then
        let a = drop 2 p;
            b = take 47 (takeWhile (\<lambda>c. c \<noteq> CHR '']'') a);
            rest = drop (length b) a
        in if \<not> starts '']'' rest then None
           else map_option (\<lambda>addr. (BP_OPERAND_MEM addr, tl rest)) (dbg_parse_addr tbl b)
      else if starts ''PC'' p \<and> \<not> alnum_at 2 p then Some (BP_OPERAND_PC, drop 2 p)
      else if starts ''SP'' p \<and> \<not> alnum_at 2 p then Some (BP_OPERAND_SP, drop 2 p)
      else if alnum_at 1 p then None
      else if starts ''A'' p then Some (BP_OPERAND_A, tl p)
      else if starts ''X'' p then Some (BP_OPERAND_X, tl p)
      else if starts ''Y'' p then Some (BP_OPERAND_Y, tl p)
      else if starts ''P'' p then Some (BP_OPERAND_P, tl p)
      else None)"

definition parse_operator :: "string \<Rightarrow> (bp_op_t \<times> string) option" where
  "parse_operator p =
     (if starts ''=='' p then Some (BP_OP_EQ, drop 2 p)
      else if starts ''!='' p then Some (BP_OP_NE, drop 2 p)
      else if starts ''<='' p then Some (BP_OP_LE, drop 2 p)
      else if starts ''>='' p then Some (BP_OP_GE, drop 2 p)
      else if starts ''<'' p then Some (BP_OP_LT, tl p)
      else if starts ''>'' p then Some (BP_OP_GT, tl p)
      else None)"

definition bare_hex :: "string \<Rightarrow> bool" where
  "bare_hex s \<longleftrightarrow> \<not> (starts ''$'' s \<or> starts ''%'' s \<or> starts ''0x'' s \<or> starts ''0X'' s) \<and>
     list_ex (\<lambda>c. c \<in> set ''ABCDEFabcdef'') s"

definition parse_rhs :: "symbol_table_t \<Rightarrow> string \<Rightarrow> u32 option" where
  "parse_rhs tbl s =
     (case symbol_resolve tbl s of
        Some v \<Rightarrow> Some (ucast v)
      | None \<Rightarrow>
          if bare_hex s then (let (v, rest) = strtoul 16 s in if rest = s then None else Some (word_of_nat v))
          else parse_num_literal s)"

definition rhs_char :: "char \<Rightarrow> bool" where
  "rhs_char c \<longleftrightarrow> \<not> isspace c \<and> c \<noteq> CHR ''&'' \<and> c \<noteq> CHR ''|''"

definition parse_one_cond :: "symbol_table_t \<Rightarrow> string \<Rightarrow> (bp_condition_t \<times> string) option" where
  "parse_one_cond tbl t =
     (case parse_operand tbl (dbg_skip_ws t) of
        None \<Rightarrow> None
      | Some (operand, p) \<Rightarrow>
          (case parse_operator (dbg_skip_ws p) of
             None \<Rightarrow> None
           | Some (op, q) \<Rightarrow>
               let r = dbg_skip_ws q;
                   s = take 47 (takeWhile rhs_char r)
               in if s = [] then None
                  else map_option (\<lambda>v. (\<lparr>bc_operand = operand, bc_op = op, bc_value = v\<rparr>, drop (length s) r)) (parse_rhs tbl s)))"

definition parse_conn :: "string \<Rightarrow> (bp_conn_t \<times> string) option" where
  "parse_conn p =
     (if starts ''&&'' p then Some (BP_CONN_AND, drop 2 p)
      else if starts ''||'' p then Some (BP_CONN_OR, drop 2 p)
      else None)"

text \<open>At most as many more terms.\<close>

fun parse_terms :: "symbol_table_t \<Rightarrow> nat \<Rightarrow> string \<Rightarrow> (bp_condition_t list \<times> bp_conn_t list) option" where
  "parse_terms tbl 0 p = None"
| "parse_terms tbl (Suc k) p =
     (case parse_one_cond tbl p of
        None \<Rightarrow> None
      | Some (c, r) \<Rightarrow>
          let q = dbg_skip_ws r in
          if q = [] then Some ([c], [])
          else (case parse_conn q of
                  None \<Rightarrow> None
                | Some (n, q1) \<Rightarrow> map_option (\<lambda>(cs, ns). (c # cs, n # ns)) (parse_terms tbl k (dbg_skip_ws q1))))"

definition dbg_parse_condexpr :: "symbol_table_t \<Rightarrow> string \<Rightarrow> bp_condexpr_t option" where
  "dbg_parse_condexpr tbl t =
     map_option (\<lambda>(cs, ns). \<lparr>be_terms = cs, be_conn = ns\<rparr>) (parse_terms tbl BP_MAX_TERMS t)"

section \<open>Breakpoints\<close>

definition is_unconditional_at :: "u16 \<Rightarrow> breakpoint_t \<Rightarrow> bool" where
  "is_unconditional_at addr bp \<longleftrightarrow> bp_addr bp = addr \<and> bp_cond bp = None"

text \<open>The first index with a property.\<close>

fun first_index :: "('a \<Rightarrow> bool) \<Rightarrow> 'a list \<Rightarrow> nat option" where
  "first_index P [] = None"
| "first_index P (x # xs) = (if P x then Some 0 else map_option Suc (first_index P xs))"

definition debugger_add_breakpoint :: "u16 \<Rightarrow> debugger_t \<Rightarrow> int \<times> debugger_t" where
  "debugger_add_breakpoint addr d =
     (if length (breakpoints d) \<ge> DEBUGGER_MAX_BREAKPOINTS then (-1, d)
      else case first_index (is_unconditional_at addr) (breakpoints d) of
        Some i \<Rightarrow> (int i, d)
      | None \<Rightarrow> (int (length (breakpoints d)), d\<lparr>breakpoints := breakpoints d @ [\<lparr>bp_addr = addr, bp_cond = None, bp_text = []\<rparr>]\<rparr>))"

definition remove_nth :: "nat \<Rightarrow> 'a list \<Rightarrow> 'a list" where
  "remove_nth i xs = take i xs @ drop (Suc i) xs"

definition debugger_remove_breakpoint :: "int \<Rightarrow> debugger_t \<Rightarrow> bool \<times> debugger_t" where
  "debugger_remove_breakpoint i d =
     (if i < 0 \<or> i \<ge> int (length (breakpoints d)) then (False, d)
      else (True, d\<lparr>breakpoints := remove_nth (nat i) (breakpoints d)\<rparr>))"

definition debugger_add_cond_breakpoint :: "symbol_table_t \<Rightarrow> u16 \<Rightarrow> string \<Rightarrow> debugger_t \<Rightarrow> int \<times> debugger_t" where
  "debugger_add_cond_breakpoint tbl addr expr d =
     (case dbg_parse_condexpr tbl expr of
        None \<Rightarrow> (-2, d)
      | Some cond \<Rightarrow>
          let (idx, d1) = debugger_add_breakpoint addr d in
          if idx < 0 then (-1, d1)
          else (idx, d1\<lparr>breakpoints := (breakpoints d1)[nat idx := (breakpoints d1 ! nat idx)\<lparr>bp_cond := Some cond, bp_text := rstrip (take 95 expr)\<rparr>]\<rparr>))"

definition operand_value :: "'d hooks \<Rightarrow> bp_operand_t \<Rightarrow> 'd machine \<Rightarrow> u32" where
  "operand_value hk x m =
     (case x of
        BP_OPERAND_A \<Rightarrow> ucast (cpu_A (cpu m))
      | BP_OPERAND_X \<Rightarrow> ucast (cpu_X (cpu m))
      | BP_OPERAND_Y \<Rightarrow> ucast (cpu_Y (cpu m))
      | BP_OPERAND_SP \<Rightarrow> ucast (cpu_SP (cpu m))
      | BP_OPERAND_P \<Rightarrow> ucast (cpu_P (cpu m))
      | BP_OPERAND_PC \<Rightarrow> ucast (cpu_PC (cpu m))
      | BP_OPERAND_MEM a \<Rightarrow> ucast (fst (memory_peek hk a (board m))))"

definition compare_op :: "bp_op_t \<Rightarrow> u32 \<Rightarrow> u32 \<Rightarrow> bool" where
  "compare_op op l r =
     (case op of
        BP_OP_EQ \<Rightarrow> l = r
      | BP_OP_NE \<Rightarrow> l \<noteq> r
      | BP_OP_LT \<Rightarrow> l < r
      | BP_OP_LE \<Rightarrow> l \<le> r
      | BP_OP_GT \<Rightarrow> l > r
      | BP_OP_GE \<Rightarrow> l \<ge> r)"

definition eval_cond :: "'d hooks \<Rightarrow> 'd machine \<Rightarrow> bp_condition_t \<Rightarrow> bool" where
  "eval_cond hk m c = compare_op (bc_op c) (operand_value hk (bc_operand c) m) (bc_value c)"

definition eval_condexpr :: "'d hooks \<Rightarrow> 'd machine \<Rightarrow> bp_condexpr_t \<Rightarrow> bool" where
  "eval_condexpr hk m e =
     (case be_terms e of
        [] \<Rightarrow> True
      | c # cs \<Rightarrow> fold (\<lambda>(n, t) r. if n = BP_CONN_AND then r \<and> eval_cond hk m t else r \<or> eval_cond hk m t)
                    (zip (be_conn e) cs) (eval_cond hk m c))"

definition debugger_is_breakpoint :: "debugger_t \<Rightarrow> u16 \<Rightarrow> bool" where
  "debugger_is_breakpoint d pc \<longleftrightarrow> list_ex (\<lambda>bp. bp_addr bp = pc) (breakpoints d)"

definition debugger_check_pc :: "'d hooks \<Rightarrow> debugger_t \<Rightarrow> 'd machine \<Rightarrow> bool" where
  "debugger_check_pc hk d m \<longleftrightarrow>
     list_ex (\<lambda>bp. bp_addr bp = cpu_PC (cpu m) \<and> (case bp_cond bp of None \<Rightarrow> True | Some e \<Rightarrow> eval_condexpr hk m e)) (breakpoints d)"

section \<open>Watchpoints\<close>

definition debugger_add_watchpoint_mode :: "u16 \<Rightarrow> watch_mode_t \<Rightarrow> debugger_t \<Rightarrow> int \<times> debugger_t" where
  "debugger_add_watchpoint_mode addr mode d =
     (if length (watchpoints d) \<ge> DEBUGGER_MAX_WATCHPOINTS then (-1, d)
      else case first_index (\<lambda>w. wp_addr w = addr \<and> wp_mode w = mode) (watchpoints d) of
        Some i \<Rightarrow> (int i, d)
      | None \<Rightarrow> (int (length (watchpoints d)), d\<lparr>watchpoints := watchpoints d @ [\<lparr>wp_addr = addr, wp_mode = mode, wp_last = None\<rparr>]\<rparr>))"

definition debugger_add_watchpoint :: "u16 \<Rightarrow> debugger_t \<Rightarrow> int \<times> debugger_t" where
  "debugger_add_watchpoint addr d = debugger_add_watchpoint_mode addr WATCH_WRITE d"

definition debugger_remove_watchpoint :: "int \<Rightarrow> debugger_t \<Rightarrow> bool \<times> debugger_t" where
  "debugger_remove_watchpoint i d =
     (if i < 0 \<or> i \<ge> int (length (watchpoints d)) then (False, d)
      else (True, d\<lparr>watchpoints := remove_nth (nat i) (watchpoints d)\<rparr>))"

section \<open>The access map\<close>

definition amap_recount :: "'d dbg_state \<Rightarrow> 'd dbg_state" where
  "amap_recount s =
     (let used = filter (\<lambda>a. g_amap s a \<noteq> 0) (map word_of_nat [0..<0x10000])
      in s\<lparr>g_amap_count := length used, g_amap_rw := list_ex (\<lambda>a. g_amap s a AND (AMAP_R OR AMAP_W) \<noteq> 0) used\<rparr>)"

definition debugger_amap_set :: "u16 \<Rightarrow> u16 \<Rightarrow> u8 \<Rightarrow> 'd dbg_state \<Rightarrow> nat \<times> 'd dbg_state" where
  "debugger_amap_set start0 end0 flags0 s =
     (let (start, last) = (if end0 < start0 then (end0, start0) else (start0, end0));
          flags = flags0 AND (AMAP_R OR AMAP_W OR AMAP_X)
      in (unat (last - start) + 1,
          amap_recount (s\<lparr>g_amap := (\<lambda>a. if start \<le> a \<and> a \<le> last then g_amap s a OR flags else g_amap s a)\<rparr>)))"

definition debugger_amap_clear :: "'d dbg_state \<Rightarrow> 'd dbg_state" where
  "debugger_amap_clear s = s\<lparr>g_amap := (\<lambda>_. 0), g_amap_count := 0, g_amap_rw := False\<rparr>"

definition amap_flag :: "char \<Rightarrow> u8 option" where
  "amap_flag c =
     (if c = CHR ''r'' \<or> c = CHR ''R'' then Some AMAP_R
      else if c = CHR ''w'' \<or> c = CHR ''W'' then Some AMAP_W
      else if c = CHR ''x'' \<or> c = CHR ''X'' then Some AMAP_X
      else None)"

definition debugger_amap_parse_flags :: "string \<Rightarrow> u8 option" where
  "debugger_amap_parse_flags s =
     (if s = [] \<or> \<not> list_all (\<lambda>c. amap_flag c \<noteq> None) s then None
      else Some (foldl (\<lambda>f c. f OR the (amap_flag c)) 0 s))"

text \<open>The access trace: the map first, then the watchpoints up to the first that is hit.\<close>

definition hit_at :: "u16 \<Rightarrow> mem_access_type_t \<Rightarrow> debugger_t \<Rightarrow> debugger_t" where
  "hit_at address ty d = d\<lparr>watch_triggered := True, watch_addr_hit := address, watch_read_hit := (ty = MEM_READ)\<rparr>"

definition watch_access :: "u8 \<Rightarrow> mem_access_type_t \<Rightarrow> watchpoint_t \<Rightarrow> bool \<times> watchpoint_t" where
  "watch_access value ty w =
     (case wp_mode w of
        WATCH_WRITE \<Rightarrow> (ty = MEM_WRITE, w)
      | WATCH_READ \<Rightarrow> (ty = MEM_READ, w)
      | WATCH_ACCESS \<Rightarrow> (True, w)
      | WATCH_CHANGE \<Rightarrow>
          if ty = MEM_WRITE then (wp_last w \<noteq> Some value, w\<lparr>wp_last := Some value\<rparr>) else (False, w))"

fun watch_scan :: "u16 \<Rightarrow> u8 \<Rightarrow> mem_access_type_t \<Rightarrow> watchpoint_t list \<Rightarrow> bool \<times> watchpoint_t list" where
  "watch_scan address value ty [] = (False, [])"
| "watch_scan address value ty (w # ws) =
     (let (hit, w1) = (if wp_addr w = address then watch_access value ty w else (False, w)) in
      if hit then (True, w1 # ws)
      else let (h, ws1) = watch_scan address value ty ws in (h, w1 # ws1))"

definition watchpoint_trace_callback :: "u16 \<Rightarrow> u8 \<Rightarrow> mem_access_type_t \<Rightarrow> 'd dbg_state \<Rightarrow> 'd dbg_state" where
  "watchpoint_trace_callback address value ty s =
     (let f = g_amap s address in
      if g_amap_rw s \<and> (ty = MEM_READ \<and> f AND AMAP_R \<noteq> 0 \<or> ty = MEM_WRITE \<and> f AND AMAP_W \<noteq> 0) then upd_dbg (hit_at address ty) s
      else
        let (hit, ws) = watch_scan address value ty (watchpoints (dbg s));
            s1 = upd_dbg (\<lambda>d. d\<lparr>watchpoints := ws\<rparr>) s
        in if hit then upd_dbg (hit_at address ty) s1 else s1)"

definition debugger_install_watchpoint_trace :: "'d dbg_state \<Rightarrow> 'd dbg_state" where
  "debugger_install_watchpoint_trace s =
     (let on = (watchpoints (dbg s) \<noteq> [] \<or> g_amap_rw s);
          b = board (sys s)
      in s\<lparr>sys := (sys s)\<lparr>board := b\<lparr>mem := memory_set_trace on on (mem b)\<rparr>\<rparr>\<rparr>)"

section \<open>Undo\<close>

definition undo_snapshot :: "'d dbg_state \<Rightarrow> undo_snapshot_t" where
  "undo_snapshot s =
     (let c = cpu (sys s); b = board (sys s); m = mem b in
      \<lparr>un_A = cpu_A c, un_X = cpu_X c, un_Y = cpu_Y c, un_SP = cpu_SP c, un_P = cpu_P c, un_PC = cpu_PC c, un_cycles = cycles c,
       un_halted = halted c, un_nmi = nmi_pending b, un_irq = irq b, un_ram = ram m, un_upper = upper_ram m,
       un_charset = charset_bank m, un_rom_enabled = rom_enabled m, un_overlay = overlay_active m, un_basic = basic_rom_disabled m,
       un_frame = dbg_frame_cycles s\<rparr>)"

definition undo_restore :: "undo_snapshot_t \<Rightarrow> 'd dbg_state \<Rightarrow> 'd dbg_state" where
  "undo_restore u s =
     (let c = (cpu (sys s))\<lparr>cpu_A := un_A u, cpu_X := un_X u, cpu_Y := un_Y u, cpu_SP := un_SP u, cpu_P := un_P u, cpu_PC := un_PC u,
                cycles := un_cycles u, halted := un_halted u\<rparr>;
          b = board (sys s);
          m = (mem b)\<lparr>ram := un_ram u, upper_ram := un_upper u, charset_bank := un_charset u, rom_enabled := un_rom_enabled u,
                overlay_active := un_overlay u, basic_rom_disabled := un_basic u\<rparr>
      in s\<lparr>sys := (sys s)\<lparr>cpu := c, board := b\<lparr>mem := m, nmi_pending := un_nmi u, irq := un_irq u\<rparr>\<rparr>, dbg_frame_cycles := un_frame u\<rparr>)"

definition dbg_undo_push :: "'d dbg_state \<Rightarrow> 'd dbg_state" where
  "dbg_undo_push s =
     (let h = undo_head (dbg s) in
      upd_dbg (\<lambda>d. d\<lparr>undo_head := (h + 1) mod UNDO_RING_DEPTH,
                     undo_count := (if undo_count d < UNDO_RING_DEPTH then undo_count d + 1 else undo_count d)\<rparr>)
        (s\<lparr>g_undo_ring := (g_undo_ring s)[h := undo_snapshot s]\<rparr>))"

definition dbg_undo_pop :: "'d dbg_state \<Rightarrow> bool \<times> 'd dbg_state" where
  "dbg_undo_pop s =
     (if undo_count (dbg s) = 0 then (False, s)
      else let h = (undo_head (dbg s) + UNDO_RING_DEPTH - 1) mod UNDO_RING_DEPTH
           in (True, upd_dbg (\<lambda>d. d\<lparr>last_raster_line := -1\<rparr>) (undo_restore (g_undo_ring s ! h)
                 (upd_dbg (\<lambda>d. d\<lparr>undo_head := h, undo_count := undo_count d - 1\<rparr>) s))))"

section \<open>Stopping\<close>

definition raster_fires :: "int \<Rightarrow> int \<Rightarrow> int \<Rightarrow> bool" where
  "raster_fires prev cur bp \<longleftrightarrow>
     (if bp < 0 then False
      else if prev < 0 then cur = bp
      else if cur < prev then bp > prev \<or> bp \<le> cur
      else bp > prev \<and> bp \<le> cur)"

definition break_for :: "string \<Rightarrow> (debugger_t \<Rightarrow> debugger_t) \<Rightarrow> 'd dbg_state \<Rightarrow> bool \<times> 'd dbg_state" where
  "break_for reason f s = (True, upd_dbg (\<lambda>d. (f d)\<lparr>last_break_reason := reason\<rparr>) s)"

definition raster_check :: "'d dbg_state \<Rightarrow> bool \<times> 'd dbg_state" where
  "raster_check s =
     (let d = dbg s;
          cur = dbg_frame_cycles s div 64;
          prev = last_raster_line d
      in if num_raster_bps d > 0 \<and> cur \<noteq> prev then
           if list_ex (raster_fires prev cur) (raster_bps d) then break_for ''raster'' (\<lambda>d. d\<lparr>last_raster_line := cur\<rparr>) s
           else (False, upd_dbg (\<lambda>d. d\<lparr>last_raster_line := cur\<rparr>) s)
         else (False, s))"

definition debugger_should_break :: "'d hooks \<Rightarrow> 'd dbg_state \<Rightarrow> bool \<times> 'd dbg_state" where
  "debugger_should_break hk s0 =
     (let s = upd_dbg (\<lambda>d. d\<lparr>last_break_reason := []\<rparr>) s0;
          d = dbg s;
          pc = cpu_PC (cpu (sys s))
      in if step_mode d then break_for ''step'' id s
         else if has_temp_breakpoint d \<and> pc = temp_breakpoint d then break_for ''temp'' (\<lambda>d. d\<lparr>has_temp_breakpoint := False\<rparr>) s
         else if debugger_check_pc hk d (sys s) then break_for ''break'' id s
         else if g_amap s pc AND AMAP_X \<noteq> 0 then break_for ''break'' id s
         else if watch_triggered d then break_for ''watch'' (\<lambda>d. d\<lparr>watch_triggered := False\<rparr>) s
         else raster_check s)"

end
