(* ===== verification/Debugger_Properties.thy ===== *)
theory Debugger_Properties
  imports Debugger
begin

text \<open>
  Properties of the debugger: the undo ring is a bounded stack of machine states.
\<close>

section \<open>The undo ring as a stack\<close>

text \<open>The snapshots that can still be restored, the newest first.\<close>

definition undo_stack :: "'d dbg_state \<Rightarrow> undo_snapshot_t list" where
  "undo_stack s =
     map (\<lambda>i. g_undo_ring s ! ((undo_head (dbg s) + UNDO_RING_DEPTH - 1 - i) mod UNDO_RING_DEPTH)) [0..<undo_count (dbg s)]"

definition undo_ok :: "'d dbg_state \<Rightarrow> bool" where
  "undo_ok s \<longleftrightarrow> length (g_undo_ring s) = UNDO_RING_DEPTH \<and> undo_head (dbg s) < UNDO_RING_DEPTH \<and> undo_count (dbg s) \<le> UNDO_RING_DEPTH"

text \<open>The index \<open>i\<close> places behind the head.\<close>

lemma back_index:
  assumes "h < UNDO_RING_DEPTH" "i < UNDO_RING_DEPTH"
  shows "(h + UNDO_RING_DEPTH - 1 - i) mod UNDO_RING_DEPTH = (if i < h then h - 1 - i else h + UNDO_RING_DEPTH - 1 - i)"
proof (cases "i < h")
  case True
  then have "(h + UNDO_RING_DEPTH - 1 - i) mod UNDO_RING_DEPTH = (UNDO_RING_DEPTH + (h - 1 - i)) mod UNDO_RING_DEPTH"
    by (intro arg_cong [where f = "\<lambda>n. n mod UNDO_RING_DEPTH"]) linarith
  also have "\<dots> = (h - 1 - i) mod UNDO_RING_DEPTH" by (rule mod_add_self1)
  also have "\<dots> = h - 1 - i" using assms by (intro mod_less) linarith
  finally show ?thesis using True by simp
next
  case False
  then show ?thesis using assms by simp
qed

lemma next_index: "h < UNDO_RING_DEPTH \<Longrightarrow> (h + 1) mod UNDO_RING_DEPTH = (if h + 1 = UNDO_RING_DEPTH then 0 else h + 1)"
  by simp

lemma back_one:
  assumes "h < UNDO_RING_DEPTH" "i < UNDO_RING_DEPTH - 1"
  shows "((h + 1) mod UNDO_RING_DEPTH + UNDO_RING_DEPTH - 1 - Suc i) mod UNDO_RING_DEPTH = (h + UNDO_RING_DEPTH - 1 - i) mod UNDO_RING_DEPTH"
proof -
  define g where "g = (h + 1) mod UNDO_RING_DEPTH"
  have g: "g < UNDO_RING_DEPTH" "g = (if h + 1 = UNDO_RING_DEPTH then 0 else h + 1)"
    using next_index [OF assms(1)] by (simp_all add: g_def UNDO_RING_DEPTH_def)
  have i: "Suc i < UNDO_RING_DEPTH" "i < UNDO_RING_DEPTH" using assms(2) by simp_all
  have "(g + UNDO_RING_DEPTH - 1 - Suc i) mod UNDO_RING_DEPTH = (h + UNDO_RING_DEPTH - 1 - i) mod UNDO_RING_DEPTH"
    unfolding back_index [OF g(1) i(1)] back_index [OF assms(1) i(2)] unfolding g(2) using i assms(1) by (auto split: if_splits)
  then show ?thesis by (simp only: g_def)
qed

lemma back_other:
  assumes "h < UNDO_RING_DEPTH" "i < UNDO_RING_DEPTH - 1"
  shows "(h + UNDO_RING_DEPTH - 1 - i) mod UNDO_RING_DEPTH \<noteq> h"
  using back_index [of h i] assms by (simp; linarith)

lemma back_zero:
  assumes "h < UNDO_RING_DEPTH"
  shows "((h + 1) mod UNDO_RING_DEPTH + UNDO_RING_DEPTH - 1) mod UNDO_RING_DEPTH = h"
    "((h + UNDO_RING_DEPTH - 1) mod UNDO_RING_DEPTH + 1) mod UNDO_RING_DEPTH = h"
proof -
  define g where "g = (h + 1) mod UNDO_RING_DEPTH"
  have g: "g < UNDO_RING_DEPTH" "g = (if h + 1 = UNDO_RING_DEPTH then 0 else h + 1)" "0 < UNDO_RING_DEPTH"
    using next_index [OF assms] by (simp_all add: g_def UNDO_RING_DEPTH_def)
  have "(g + UNDO_RING_DEPTH - 1) mod UNDO_RING_DEPTH = h"
    using back_index [OF g(1,3)] g(2) assms by (auto split: if_splits)
  then show "((h + 1) mod UNDO_RING_DEPTH + UNDO_RING_DEPTH - 1) mod UNDO_RING_DEPTH = h" by (simp only: g_def)
  show "((h + UNDO_RING_DEPTH - 1) mod UNDO_RING_DEPTH + 1) mod UNDO_RING_DEPTH = h"
    using back_index [OF assms, of 0] assms by (cases h) simp_all
qed

lemma push_dbg [simp]:
  "undo_head (dbg (dbg_undo_push s)) = (undo_head (dbg s) + 1) mod UNDO_RING_DEPTH"
  "undo_count (dbg (dbg_undo_push s)) = min (undo_count (dbg s) + 1) (max UNDO_RING_DEPTH (undo_count (dbg s)))"
  "g_undo_ring (dbg_undo_push s) = (g_undo_ring s)[undo_head (dbg s) := undo_snapshot s]"
  "sys (dbg_undo_push s) = sys s"
  by (simp_all add: dbg_undo_push_def upd_dbg_def Let_def)

lemma push_stack:
  assumes "undo_ok s"
  shows "undo_stack (dbg_undo_push s) = take UNDO_RING_DEPTH (undo_snapshot s # undo_stack s)" "undo_ok (dbg_undo_push s)"
proof -
  let ?h = "undo_head (dbg s)" and ?n = "min (undo_count (dbg s) + 1) UNDO_RING_DEPTH"
  have ok: "?h < UNDO_RING_DEPTH" "undo_count (dbg s) \<le> UNDO_RING_DEPTH" "length (g_undo_ring s) = UNDO_RING_DEPTH"
    using assms by (simp_all add: undo_ok_def)
  have n: "undo_count (dbg (dbg_undo_push s)) = ?n" using ok by simp
  show "undo_ok (dbg_undo_push s)" using ok by (simp add: undo_ok_def UNDO_RING_DEPTH_def)
  show "undo_stack (dbg_undo_push s) = take UNDO_RING_DEPTH (undo_snapshot s # undo_stack s)"
  proof (rule nth_equalityI)
    show "length (undo_stack (dbg_undo_push s)) = length (take UNDO_RING_DEPTH (undo_snapshot s # undo_stack s))"
      using n by (simp add: undo_stack_def)
    fix i assume "i < length (undo_stack (dbg_undo_push s))"
    then have i: "i < ?n" using n by (simp add: undo_stack_def)
    show "undo_stack (dbg_undo_push s) ! i = take UNDO_RING_DEPTH (undo_snapshot s # undo_stack s) ! i"
    proof (cases i)
      case 0
      then show ?thesis using i ok n back_zero(1) [OF ok(1)] by (simp add: undo_stack_def)
    next
      case (Suc j)
      then have j: "j < undo_count (dbg s)" "j < UNDO_RING_DEPTH - 1" using i by auto
      have "undo_stack (dbg_undo_push s) ! i
          = (g_undo_ring s)[?h := undo_snapshot s] ! ((?h + UNDO_RING_DEPTH - 1 - j) mod UNDO_RING_DEPTH)"
        using back_one [OF ok(1) j(2)] i n Suc by (simp add: undo_stack_def del: push_dbg(2))
      also have "\<dots> = g_undo_ring s ! ((?h + UNDO_RING_DEPTH - 1 - j) mod UNDO_RING_DEPTH)"
        using back_other [OF ok(1) j(2)] by simp
      finally show ?thesis using Suc j i by (simp add: undo_stack_def)
    qed
  qed
qed

lemma pop_stack:
  assumes "undo_ok s" "undo_stack s = u # st"
  shows "\<exists>s'. dbg_undo_pop s = (True, s') \<and> undo_stack s' = st \<and> undo_ok s' \<and> undo_snapshot s' = u"
proof -
  let ?h = "undo_head (dbg s)" and ?n = "undo_count (dbg s)"
  have ok: "?h < UNDO_RING_DEPTH" "?n \<le> UNDO_RING_DEPTH" "length (g_undo_ring s) = UNDO_RING_DEPTH"
    using assms(1) by (simp_all add: undo_ok_def)
  have n: "?n \<noteq> 0" using assms(2) by (cases ?n) (simp_all add: undo_stack_def)
  define h where "h = (?h + UNDO_RING_DEPTH - 1) mod UNDO_RING_DEPTH"
  have h: "h < UNDO_RING_DEPTH" "(h + 1) mod UNDO_RING_DEPTH = ?h"
    using ok(1) back_zero(2) [OF ok(1)] by (simp_all add: h_def)
  obtain s' where s': "dbg_undo_pop s = (True, s')" "undo_head (dbg s') = h" "undo_count (dbg s') = ?n - 1"
    "g_undo_ring s' = g_undo_ring s" "undo_snapshot s' = g_undo_ring s ! h"
    using n unfolding h_def by (simp add: dbg_undo_pop_def upd_dbg_def undo_restore_def undo_snapshot_def Let_def)
  have cells: "map (\<lambda>i. g_undo_ring s ! ((?h + UNDO_RING_DEPTH - 1 - i) mod UNDO_RING_DEPTH)) [0..<Suc (?n - 1)] = u # st"
    using assms(2) n by (simp add: undo_stack_def)
  then have u: "g_undo_ring s ! h = u"
    and st: "map (\<lambda>i. g_undo_ring s ! ((?h + UNDO_RING_DEPTH - 1 - Suc i) mod UNDO_RING_DEPTH)) [0..<?n - 1] = st"
    by (simp_all add: upt_conv_Cons map_Suc_upt [symmetric] comp_def h_def del: upt_Suc)
  have "map (\<lambda>i. g_undo_ring s ! ((h + UNDO_RING_DEPTH - 1 - i) mod UNDO_RING_DEPTH)) [0..<?n - 1] = st"
    unfolding st [symmetric] using back_one [OF h(1)] h(2) ok(2) by (intro map_cong) simp_all
  then show ?thesis
    using s' u ok(2,3) h(1) by (auto simp: undo_stack_def undo_ok_def)
qed

text \<open>What a snapshot holds is a function of the machine and the frame counter.\<close>

definition snapshot_of :: "'d machine \<Rightarrow> int \<Rightarrow> undo_snapshot_t" where
  "snapshot_of m c =
     \<lparr>un_A = cpu_A (cpu m), un_X = cpu_X (cpu m), un_Y = cpu_Y (cpu m), un_SP = cpu_SP (cpu m), un_P = cpu_P (cpu m),
      un_PC = cpu_PC (cpu m), un_cycles = cycles (cpu m), un_halted = halted (cpu m), un_nmi = nmi_pending (board m), un_irq = irq (board m),
      un_ram = ram (mem (board m)), un_upper = upper_ram (mem (board m)), un_charset = charset_bank (mem (board m)),
      un_rom_enabled = rom_enabled (mem (board m)), un_overlay = overlay_active (mem (board m)),
      un_basic = basic_rom_disabled (mem (board m)), un_frame = c\<rparr>"

lemma undo_snapshot_of: "undo_snapshot s = snapshot_of (sys s) (dbg_frame_cycles s)"
  by (simp add: undo_snapshot_def snapshot_of_def Let_def)

text \<open>
  A session: the state is saved and the machine runs on to some other state, or the last saved state is
  brought back.  The abstract session keeps the present snapshot and a list.
\<close>

datatype 'd undo_op = Undo_run "'d machine" int | Undo_back

fun undo_step :: "'d undo_op \<Rightarrow> 'd dbg_state \<Rightarrow> 'd dbg_state" where
  "undo_step (Undo_run m c) s = (dbg_undo_push s)\<lparr>sys := m, dbg_frame_cycles := c\<rparr>"
| "undo_step Undo_back s = snd (dbg_undo_pop s)"

fun stack_step :: "'d undo_op \<Rightarrow> undo_snapshot_t \<times> undo_snapshot_t list \<Rightarrow> undo_snapshot_t \<times> undo_snapshot_t list" where
  "stack_step (Undo_run m c) (u, st) = (snapshot_of m c, take UNDO_RING_DEPTH (u # st))"
| "stack_step Undo_back (u, st) = (case st of [] \<Rightarrow> (u, []) | v # vs \<Rightarrow> (v, vs))"

definition undo_view :: "'d dbg_state \<Rightarrow> undo_snapshot_t \<times> undo_snapshot_t list" where
  "undo_view s = (undo_snapshot s, undo_stack s)"

lemma view_put: "undo_view (s\<lparr>sys := m, dbg_frame_cycles := c\<rparr>) = (snapshot_of m c, undo_stack s)"
  "undo_ok (s\<lparr>sys := m, dbg_frame_cycles := c\<rparr>) = undo_ok s"
  by (simp_all add: undo_view_def undo_snapshot_of undo_stack_def undo_ok_def)

lemma empty_pop: "undo_stack s = [] \<Longrightarrow> dbg_undo_pop s = (False, s)"
  by (simp add: undo_stack_def dbg_undo_pop_def)

lemma undo_step_view:
  assumes "undo_ok s"
  shows "undo_view (undo_step op s) = stack_step op (undo_view s) \<and> undo_ok (undo_step op s)"
proof (cases op)
  case (Undo_run m c)
  then show ?thesis using push_stack [OF assms] by (simp add: view_put) (simp add: undo_view_def)
next
  case Undo_back
  then show ?thesis
    using assms empty_pop [of s] pop_stack [OF assms] by (cases "undo_stack s") (fastforce simp: undo_view_def)+
qed

text \<open>
  C40: The undo ring is a stack of the last sixteen saved states.  From a ring of sixteen cells and a fresh
  debugger, after any sequence of saves, each followed by any run of the machine, and undos, the
  processor, the memory and the frame counter are those that a list which keeps its sixteen newest
  entries gives, and an undo succeeds exactly when that list is not empty.
\<close>

theorem undo_ring_is_stack:
  assumes "length (g_undo_ring s) = UNDO_RING_DEPTH" "dbg s = debugger_init"
  shows "let s' = fold undo_step ops s; (u, st) = fold stack_step ops (undo_snapshot s, [])
         in undo_snapshot s' = u \<and> undo_stack s' = st \<and> fst (dbg_undo_pop s') = (st \<noteq> [])"
proof -
  have start: "undo_ok s" "undo_view s = (undo_snapshot s, [])"
    using assms by (simp_all add: undo_ok_def undo_view_def undo_stack_def debugger_init_def UNDO_RING_DEPTH_def)
  have run: "undo_view (fold undo_step ops t) = fold stack_step ops (undo_view t) \<and> undo_ok (fold undo_step ops t)"
    if "undo_ok t" for t using that
  proof (induction ops arbitrary: t)
    case (Cons op ops)
    then show ?case using undo_step_view [OF Cons.prems, of op] by simp
  qed simp
  show ?thesis
    using run [OF start(1)] start(2) empty_pop [of "fold undo_step ops s"] pop_stack [of "fold undo_step ops s"]
    by (cases "undo_stack (fold undo_step ops s)") (fastforce simp: undo_view_def)+
qed

theorem undo_ring_is_stack_witness:
  "\<forall>(b :: unit dbg_state) m1 m2 m3.
     let s = b\<lparr>g_undo_ring := replicate 16 (snapshot_of m1 0), dbg := debugger_init, dbg_frame_cycles := 7\<rparr>
     in undo_snapshot (undo_step Undo_back (undo_step Undo_back (undo_step (Undo_run m2 8) (undo_step (Undo_run m1 9) s)))) = undo_snapshot s
      \<and> undo_snapshot (undo_step Undo_back (undo_step (Undo_run m3 5) (undo_step (Undo_run m1 9) s))) = snapshot_of m1 9"
proof (intro allI)
  fix b :: "unit dbg_state" and m1 m2 m3 :: "unit machine"
  define s where "s = b\<lparr>g_undo_ring := replicate 16 (snapshot_of m1 0), dbg := debugger_init, dbg_frame_cycles := 7\<rparr>"
  have s: "length (g_undo_ring s) = UNDO_RING_DEPTH" "dbg s = debugger_init" by (simp_all add: s_def UNDO_RING_DEPTH_def)
  show "let s = b\<lparr>g_undo_ring := replicate 16 (snapshot_of m1 0), dbg := debugger_init, dbg_frame_cycles := 7\<rparr>
     in undo_snapshot (undo_step Undo_back (undo_step Undo_back (undo_step (Undo_run m2 8) (undo_step (Undo_run m1 9) s)))) = undo_snapshot s
      \<and> undo_snapshot (undo_step Undo_back (undo_step (Undo_run m3 5) (undo_step (Undo_run m1 9) s))) = snapshot_of m1 9"
    using undo_ring_is_stack [OF s, of "[Undo_run m1 9, Undo_run m2 8, Undo_back, Undo_back]"]
      undo_ring_is_stack [OF s, of "[Undo_run m1 9, Undo_run m3 5, Undo_back]"]
    unfolding s_def [symmetric] Let_def by (simp add: UNDO_RING_DEPTH_def)
qed

end
