(* ===== verification/Gdb_Stub.thy ===== *)
theory Gdb_Stub
  imports Debugger
begin

text \<open>
  The remote stub for GDB (\<open>include/network/gdbstub.h\<close>, \<open>src/network/gdbstub.c\<close>): packets, the
  dispatch of the commands, and the loop that serves them while the machine is stopped.  The connection
  is the list of the characters the client sends, which ends when it disconnects, and the text sent to it;
  opening the socket is not modelled.  A payload is a C string: its characters are not NUL.
\<close>

section \<open>Hexadecimal\<close>

text \<open>A number of 32 bits, whether there was one, and the rest of the text.\<close>

definition parse_hex :: "string \<Rightarrow> u32 \<times> bool \<times> string" where
  "parse_hex s =
     (let ds = takeWhile isxdigit s
      in (foldl (\<lambda>v c. push_bit 4 v OR word_of_nat (the (hexval c))) 0 ds, ds \<noteq> [], dropWhile isxdigit s))"

definition gdb_checksum :: "string \<Rightarrow> u8" where
  "gdb_checksum s = foldl (\<lambda>v c. v + word_of_nat (code c)) 0 s"

text \<open>A byte from two digits.\<close>

definition hex_byte :: "char \<Rightarrow> char \<Rightarrow> u8 option" where
  "hex_byte c d =
     (case (hexval c, hexval d) of (Some h, Some l) \<Rightarrow> Some (word_of_nat (h * 16 + l)) | _ \<Rightarrow> None)"

section \<open>State\<close>

datatype gdb_action_t = GDB_ACT_NONE | GDB_ACT_CONTINUE | GDB_ACT_STEP | GDB_ACT_DETACH

record gdb_stub_t =
  attached :: bool
  resumed :: bool
  no_ack_mode :: bool
  stop_signal :: nat

record 'd gdb_state =
  stub :: gdb_stub_t
  target :: "'d dbg_state"
  running :: bool
  gdb_mode :: bool

definition upd_target :: "('d dbg_state \<Rightarrow> 'd dbg_state) \<Rightarrow> 'd gdb_state \<Rightarrow> 'd gdb_state" where
  "upd_target f s = s\<lparr>target := f (target s)\<rparr>"

definition upd_target_cpu :: "(cpu6502_t \<Rightarrow> cpu6502_t) \<Rightarrow> 'd gdb_state \<Rightarrow> 'd gdb_state" where
  "upd_target_cpu f = upd_target (\<lambda>t. t\<lparr>sys := upd_cpu f (sys t)\<rparr>)"

definition RESP_SIZE :: nat where "RESP_SIZE = 1100"

section \<open>Registers and memory\<close>

definition gdb_peek :: "'d hooks \<Rightarrow> u16 \<Rightarrow> 'd board \<Rightarrow> u8" where
  "gdb_peek hk a b = (if unat a < RAM_SIZE then ram (mem b) a else fst (memory_peek hk a b))"

definition regs_to_hex :: "cpu6502_t \<Rightarrow> string" where
  "regs_to_hex c = concat (map fmt_02x [cpu_A c, cpu_X c, cpu_Y c, cpu_SP c, lo8 (cpu_PC c), hi8 (cpu_PC c), cpu_P c])"

text \<open>The first \<open>n\<close> bytes of a text of digits, if they are all there.\<close>

fun hex_bytes :: "nat \<Rightarrow> string \<Rightarrow> u8 list option" where
  "hex_bytes 0 s = Some []"
| "hex_bytes (Suc n) (c # d # s) =
     (case hex_byte c d of Some b \<Rightarrow> map_option (\<lambda>bs. b # bs) (hex_bytes n s) | None \<Rightarrow> None)"
| "hex_bytes (Suc n) _ = None"

definition hex_to_regs :: "string \<Rightarrow> cpu6502_t \<Rightarrow> cpu6502_t" where
  "hex_to_regs h c =
     (case hex_bytes 7 h of
        Some b \<Rightarrow> c\<lparr>cpu_A := b ! 0, cpu_X := b ! 1, cpu_Y := b ! 2, cpu_SP := b ! 3, cpu_PC := hilo (b ! 5) (b ! 4), cpu_P := b ! 6\<rparr>
      | None \<Rightarrow> c)"

definition read_register :: "u32 \<Rightarrow> cpu6502_t \<Rightarrow> string option" where
  "read_register n c =
     (if n = 0 then Some (fmt_02x (cpu_A c))
      else if n = 1 then Some (fmt_02x (cpu_X c))
      else if n = 2 then Some (fmt_02x (cpu_Y c))
      else if n = 3 then Some (fmt_02x (cpu_SP c))
      else if n = 4 then Some (fmt_02x (lo8 (cpu_PC c)) @ fmt_02x (hi8 (cpu_PC c)))
      else if n = 5 then Some (fmt_02x (cpu_P c))
      else None)"

definition write_register :: "u32 \<Rightarrow> u32 \<Rightarrow> cpu6502_t \<Rightarrow> cpu6502_t option" where
  "write_register n v c =
     (if n = 0 then Some (c\<lparr>cpu_A := ucast v\<rparr>)
      else if n = 1 then Some (c\<lparr>cpu_X := ucast v\<rparr>)
      else if n = 2 then Some (c\<lparr>cpu_Y := ucast v\<rparr>)
      else if n = 3 then Some (c\<lparr>cpu_SP := ucast v\<rparr>)
      else if n = 4 then Some (c\<lparr>cpu_PC := ucast (push_bit 8 (v AND 0xFF) OR (drop_bit 8 v AND 0xFF))\<rparr>)
      else if n = 5 then Some (c\<lparr>cpu_P := ucast v\<rparr>)
      else None)"

text \<open>The bytes of an \<open>M\<close> packet are written one by one, up to the first that is not there.\<close>

fun store_hex :: "'d hooks \<Rightarrow> u16 \<Rightarrow> nat \<Rightarrow> string \<Rightarrow> 'd board \<Rightarrow> bool \<times> 'd board" where
  "store_hex hk a 0 s b = (True, b)"
| "store_hex hk a (Suc n) (c # d # s) b =
     (case hex_byte c d of Some v \<Rightarrow> store_hex hk (a + 1) n s (memory_write hk a v b) | None \<Rightarrow> (False, b))"
| "store_hex hk a (Suc n) _ b = (False, b)"

definition skip_char :: "char \<Rightarrow> string \<Rightarrow> string" where
  "skip_char c s = (if starts [c] s then tl s else s)"

section \<open>Commands\<close>

definition E01 :: string where "E01 = ''E01''"
definition E02 :: string where "E02 = ''E02''"
definition OK :: string where "OK = ''OK''"

definition cmd_read_register :: "string \<Rightarrow> cpu6502_t \<Rightarrow> string" where
  "cmd_read_register s c =
     (let (n, ok, _) = parse_hex s
      in if \<not> ok then E01 else case read_register n c of Some r \<Rightarrow> r | None \<Rightarrow> E02)"

definition cmd_write_register :: "string \<Rightarrow> 'd gdb_state \<Rightarrow> string \<times> 'd gdb_state" where
  "cmd_write_register s g =
     (let (n, ok, r) = parse_hex s;
          (v, vok, _) = parse_hex (tl r)
      in if \<not> ok \<or> \<not> starts ''='' r \<or> \<not> vok then (E01, g)
         else case write_register n v (cpu (sys (target g))) of
                Some c \<Rightarrow> (OK, upd_target_cpu (\<lambda>_. c) g)
              | None \<Rightarrow> (E02, g))"

definition cmd_read_memory :: "'d hooks \<Rightarrow> string \<Rightarrow> 'd board \<Rightarrow> string" where
  "cmd_read_memory hk s b =
     (let (addr, ok1, r1) = parse_hex s;
          (len, ok2, _) = parse_hex (skip_char CHR '','' r1);
          n = min (unat len) ((RESP_SIZE - 1) div 2)
      in if \<not> ok1 \<or> \<not> ok2 then E01
         else concat (map (\<lambda>i. fmt_02x (gdb_peek hk (ucast (addr + word_of_nat i)) b)) [0..<n]))"

definition cmd_write_memory :: "'d hooks \<Rightarrow> string \<Rightarrow> 'd board \<Rightarrow> string \<times> 'd board" where
  "cmd_write_memory hk s b =
     (let (addr, ok1, r1) = parse_hex s;
          (len, ok2, r2) = parse_hex (skip_char CHR '','' r1)
      in if \<not> ok1 \<or> \<not> ok2 \<or> \<not> starts '':'' r2 then (E01, b)
         else let (ok, b1) = store_hex hk (ucast addr) (unat len) (tl r2) b in (if ok then OK else E01, b1))"

definition cmd_resume :: "string \<Rightarrow> 'd gdb_state \<Rightarrow> 'd gdb_state" where
  "cmd_resume s g = (let (addr, ok, _) = parse_hex s in if ok then upd_target_cpu (\<lambda>c. c\<lparr>cpu_PC := ucast addr\<rparr>) g else g)"

definition remove_bp_at :: "u16 \<Rightarrow> debugger_t \<Rightarrow> bool \<times> debugger_t" where
  "remove_bp_at addr d =
     (case first_index (\<lambda>bp. bp_addr bp = addr) (breakpoints d) of
        Some i \<Rightarrow> debugger_remove_breakpoint (int i) d
      | None \<Rightarrow> (False, d))"

definition remove_wp_at :: "u16 \<Rightarrow> debugger_t \<Rightarrow> bool \<times> debugger_t" where
  "remove_wp_at addr d =
     (case first_index (\<lambda>w. wp_addr w = addr) (watchpoints d) of
        Some i \<Rightarrow> debugger_remove_watchpoint (int i) d
      | None \<Rightarrow> (False, d))"

definition watch_of_type :: "char \<Rightarrow> watch_mode_t option" where
  "watch_of_type c =
     (if c = CHR ''2'' then Some WATCH_WRITE else if c = CHR ''3'' then Some WATCH_READ
      else if c = CHR ''4'' then Some WATCH_ACCESS else None)"

text \<open>
  Behind a packet of one character the pointer \<open>pkt + 2\<close> is past the terminator: what it reads there is
  \<open>stale\<close>, left by earlier packets.
\<close>

definition cmd_point :: "string \<Rightarrow> string \<Rightarrow> 'd gdb_state \<Rightarrow> string \<times> 'd gdb_state" where
  "cmd_point stale pkt g =
     (let insert = starts ''Z'' pkt;
          s = (if length pkt < 2 then stale else drop 2 pkt);
          (addr32, ok, _) = parse_hex (skip_char CHR '','' s);
          addr = ucast addr32;
          put = (\<lambda>(done, d). (if done then OK else E01, upd_target (upd_dbg (\<lambda>_. d)) g));
          d = dbg (target g)
      in if \<not> ok then (E01, g)
         else case peek 1 pkt of
                Some c \<Rightarrow>
                  if c = CHR ''0'' \<or> c = CHR ''1'' then
                    put (if insert then (let (i, d1) = debugger_add_breakpoint addr d in (i \<ge> 0, d1)) else remove_bp_at addr d)
                  else (case watch_of_type c of
                          Some m \<Rightarrow>
                            let (r, g1) = put (if insert then (let (i, d1) = debugger_add_watchpoint_mode addr m d in (i \<ge> 0, d1))
                                               else remove_wp_at addr d)
                            in (r, upd_target debugger_install_watchpoint_trace g1)
                        | None \<Rightarrow> ([], g))
              | None \<Rightarrow> ([], g))"

definition NL :: string where "NL = [CHR 0x0A]"

definition TARGET_XML :: string where
  \<open>TARGET_XML =
    ''<?xml version="1.0"?>'' @ NL @
    ''<!DOCTYPE target SYSTEM "gdb-target.dtd">'' @ NL @
    ''<target version="1.0">'' @ NL @
    ''  <architecture>mos6502</architecture>'' @ NL @
    ''  <feature name="org.gnu.gdb.mos6502.cpu">'' @ NL @
    ''    <reg name="a"  bitsize="8"  type="int"/>'' @ NL @
    ''    <reg name="x"  bitsize="8"  type="int"/>'' @ NL @
    ''    <reg name="y"  bitsize="8"  type="int"/>'' @ NL @
    ''    <reg name="sp" bitsize="8"  type="data_ptr"/>'' @ NL @
    ''    <reg name="pc" bitsize="16" type="code_ptr"/>'' @ NL @
    ''    <reg name="p"  bitsize="8"  type="int"/>'' @ NL @
    ''  </feature>'' @ NL @
    ''</target>'' @ NL\<close>

definition XFER :: string where "XFER = ''qXfer:features:read:target.xml:''"

definition cmd_xfer :: "string \<Rightarrow> string" where
  "cmd_xfer s =
     (let (off, _, r) = parse_hex s;
          (len, _, _) = parse_hex (skip_char CHR '','' r);
          n = length TARGET_XML
      in if unat off \<ge> n then ''l''
         else let chunk = min (min (unat len) (n - unat off)) (RESP_SIZE - 2)
              in (if unat off + chunk \<ge> n then CHR ''l'' else CHR ''m'') # take chunk (drop (unat off) TARGET_XML))"

definition cmd_query :: "string \<Rightarrow> string" where
  "cmd_query pkt =
     (if starts ''qSupported'' pkt then ''PacketSize=1024;qXfer:features:read+;QStartNoAckMode+''
      else if pkt = ''qAttached'' then ''1''
      else if pkt = ''qC'' then ''QC1''
      else if pkt = ''qfThreadInfo'' then ''m01''
      else if pkt = ''qsThreadInfo'' then ''l''
      else if pkt = ''qOffsets'' then ''Text=0;Data=0;Bss=0''
      else if starts ''qSymbol'' pkt then OK
      else if starts XFER pkt then cmd_xfer (drop (length XFER) pkt)
      else [])"

definition cmd_vcont :: "string \<Rightarrow> gdb_action_t \<times> string" where
  "cmd_vcont pkt =
     (if pkt = ''vCont?'' then (GDB_ACT_NONE, ''vCont;c;C;s;S'')
      else if starts ''vCont;c'' pkt \<or> starts ''vCont;C'' pkt then (GDB_ACT_CONTINUE, [])
      else if starts ''vCont;s'' pkt \<or> starts ''vCont;S'' pkt then (GDB_ACT_STEP, [])
      else (GDB_ACT_NONE, []))"

definition gdb_board :: "'d gdb_state \<Rightarrow> 'd board" where
  "gdb_board g = board (sys (target g))"

definition set_gdb_board :: "'d board \<Rightarrow> 'd gdb_state \<Rightarrow> 'd gdb_state" where
  "set_gdb_board b = upd_target (\<lambda>t. t\<lparr>sys := (sys t)\<lparr>board := b\<rparr>\<rparr>)"

definition gdb_dispatch :: "'d hooks \<Rightarrow> string \<Rightarrow> string \<Rightarrow> 'd gdb_state \<Rightarrow> gdb_action_t \<times> string \<times> 'd gdb_state" where
  "gdb_dispatch hk stale pkt g =
     (let c = cpu (sys (target g)) in
      case pkt of
        [] \<Rightarrow> (GDB_ACT_NONE, [], g)
      | k # s \<Rightarrow>
          if k = CHR ''?'' then (GDB_ACT_NONE, CHR ''S'' # fmt_02x (word_of_nat (stop_signal (stub g))), g)
          else if k = CHR ''g'' then (GDB_ACT_NONE, regs_to_hex c, g)
          else if k = CHR ''G'' then (GDB_ACT_NONE, OK, upd_target_cpu (hex_to_regs s) g)
          else if k = CHR ''p'' then (GDB_ACT_NONE, cmd_read_register s c, g)
          else if k = CHR ''P'' then (GDB_ACT_NONE, cmd_write_register s g)
          else if k = CHR ''m'' then (GDB_ACT_NONE, cmd_read_memory hk s (gdb_board g), g)
          else if k = CHR ''M'' then (let (r, b) = cmd_write_memory hk s (gdb_board g) in (GDB_ACT_NONE, r, set_gdb_board b g))
          else if k = CHR ''c'' then (GDB_ACT_CONTINUE, [], cmd_resume s g)
          else if k = CHR ''s'' then (GDB_ACT_STEP, [], cmd_resume s g)
          else if k = CHR ''Z'' \<or> k = CHR ''z'' then (GDB_ACT_NONE, cmd_point stale pkt g)
          else if k = CHR ''H'' then (GDB_ACT_NONE, OK, g)
          else if k = CHR ''D'' then (GDB_ACT_DETACH, OK, g)
          else if k = CHR ''k'' then (GDB_ACT_DETACH, [], g\<lparr>running := False\<rparr>)
          else if k = CHR ''q'' then (GDB_ACT_NONE, cmd_query pkt, g)
          else if k = CHR ''Q'' then
            (if pkt = ''QStartNoAckMode'' then (GDB_ACT_NONE, OK, g\<lparr>stub := (stub g)\<lparr>no_ack_mode := True\<rparr>\<rparr>) else (GDB_ACT_NONE, [], g))
          else if k = CHR ''v'' then (let (a, r) = cmd_vcont pkt in (a, r, g))
          else (GDB_ACT_NONE, [], g))"

section \<open>Packets\<close>

definition FRAME_SIZE :: nat where "FRAME_SIZE = 1100"

definition gdb_frame :: "string \<Rightarrow> string" where
  "gdb_frame payload =
     (let p = take (FRAME_SIZE - 4) payload in ''$'' @ p @ ''#'' @ fmt_02x (gdb_checksum p))"

text \<open>What is sent, with up to three repetitions, and the characters the client has still sent.\<close>

fun send_tries :: "nat \<Rightarrow> string \<Rightarrow> string \<Rightarrow> string \<times> string" where
  "send_tries 0 frame inp = ([], inp)"
| "send_tries (Suc n) frame inp =
     (case inp of
        [] \<Rightarrow> (frame, [])
      | ack # rest \<Rightarrow> if ack = CHR ''+'' then (frame, rest) else (let (out, rest') = send_tries n frame rest in (frame @ out, rest')))"

definition send_packet :: "bool \<Rightarrow> string \<Rightarrow> string \<Rightarrow> string \<times> string" where
  "send_packet no_ack payload inp = (if no_ack then (gdb_frame payload, inp) else send_tries 4 (gdb_frame payload) inp)"

datatype rx_state = Rx_wait | Rx_payload string | Rx_hi string | Rx_lo string nat

text \<open>A packet, which an interrupt makes empty, or the end of the connection; with what is sent and what is left.\<close>

definition digit_or_0 :: "char \<Rightarrow> nat" where
  "digit_or_0 c = (case hexval c of Some d \<Rightarrow> d | None \<Rightarrow> 0)"

fun read_packet :: "bool \<Rightarrow> nat \<Rightarrow> rx_state \<Rightarrow> string \<Rightarrow> string option \<times> string \<times> string" where
  "read_packet no_ack sz st [] = (None, [], [])"
| "read_packet no_ack sz Rx_wait (c # cs) =
     (if c = CHR ''$'' then read_packet no_ack sz (Rx_payload []) cs
      else if c = CHR 0x03 then (Some [], [], cs)
      else read_packet no_ack sz Rx_wait cs)"
| "read_packet no_ack sz (Rx_payload buf) (c # cs) =
     (if c = CHR ''#'' then read_packet no_ack sz (Rx_hi buf) cs
      else read_packet no_ack sz (Rx_payload (if length buf < sz - 1 then buf @ [c] else buf)) cs)"
| "read_packet no_ack sz (Rx_hi buf) (c # cs) = read_packet no_ack sz (Rx_lo buf (digit_or_0 c)) cs"
| "read_packet no_ack sz (Rx_lo buf hi) (c # cs) =
     (let good = (gdb_checksum buf = word_of_nat (hi * 16 + digit_or_0 c));
          ack = (if no_ack then [] else if good then ''+'' else ''-'')
      in if good then (Some buf, ack, cs)
         else let (r, out, rest) = read_packet no_ack sz Rx_wait cs in (r, ack @ out, rest))"

section \<open>The stopped machine\<close>

definition PKT_SIZE :: nat where "PKT_SIZE = 1100"

definition gdb_leave :: "bool \<Rightarrow> 'd gdb_state \<Rightarrow> 'd gdb_state" where
  "gdb_leave step g = upd_target (upd_dbg (\<lambda>d. d\<lparr>dbg_active := False, step_mode := step\<rparr>)) g"

definition gdb_stub_close :: "'d gdb_state \<Rightarrow> 'd gdb_state" where
  "gdb_stub_close g = g\<lparr>stub := (stub g)\<lparr>attached := False\<rparr>\<rparr>"

definition gdb_gone :: "'d gdb_state \<Rightarrow> 'd gdb_state" where
  "gdb_gone g = gdb_leave False ((gdb_stub_close g)\<lparr>gdb_mode := False\<rparr>)"

text \<open>
  One round of the loop: a packet is read and served.  The result says whether the loop goes on, with the
  text sent and the characters left; \<open>stale\<close> gives the bytes behind a packet in the buffer.
\<close>

definition serve_packet :: "'d hooks \<Rightarrow> (string \<Rightarrow> string) \<Rightarrow> 'd gdb_state \<Rightarrow> string \<Rightarrow> bool \<times> 'd gdb_state \<times> string \<times> string" where
  "serve_packet hk stale g inp =
     (case read_packet (no_ack_mode (stub g)) PKT_SIZE Rx_wait inp of
        (None, out, rest) \<Rightarrow> (False, gdb_gone g, out, rest)
      | (Some pkt, out, rest) \<Rightarrow>
          if pkt = [] then (True, g, out, rest)
          else
            let (act, resp, g1) = gdb_dispatch hk (stale pkt) pkt g in
            if act = GDB_ACT_CONTINUE \<or> act = GDB_ACT_STEP then
              (False, gdb_leave (act = GDB_ACT_STEP) (g1\<lparr>stub := (stub g1)\<lparr>resumed := True, stop_signal := 5\<rparr>\<rparr>), out, rest)
            else
              let (out2, rest2) = send_packet (no_ack_mode (stub g1)) resp rest
              in if act = GDB_ACT_DETACH then (False, gdb_gone g1, out @ out2, rest2)
                 else (True, g1, out @ out2, rest2))"

text \<open>The loop ends because every round consumes characters, or the connection.\<close>

lemma read_packet_consumes: "read_packet na sz st inp = (r, out, rest) \<Longrightarrow> length rest \<le> length inp \<and> (r \<noteq> None \<longrightarrow> length rest < length inp)"
  by (induction na sz st inp arbitrary: r out rest rule: read_packet.induct)
    (fastforce split: if_splits prod.splits simp: Let_def)+

lemma send_tries_consumes: "send_tries n frame inp = (out, rest) \<Longrightarrow> length rest \<le> length inp"
  by (induction n frame inp arbitrary: out rest rule: send_tries.induct)
    (force split: list.splits if_splits prod.splits)+

lemma serve_packet_consumes: "serve_packet hk stale g inp = (True, g', out, rest) \<Longrightarrow> length rest < length inp"
  by (auto simp: serve_packet_def send_packet_def Let_def split: prod.splits option.splits if_splits
      dest!: read_packet_consumes send_tries_consumes)

function serve_loop :: "'d hooks \<Rightarrow> (string \<Rightarrow> string) \<Rightarrow> 'd gdb_state \<Rightarrow> string \<Rightarrow> 'd gdb_state \<times> string \<times> string" where
  "serve_loop hk stale g inp =
     (case serve_packet hk stale g inp of
        (True, g1, out, rest) \<Rightarrow> (let (g2, out2, rest2) = serve_loop hk stale g1 rest in (g2, out @ out2, rest2))
      | (False, g1, out, rest) \<Rightarrow> (g1, out, rest))"
  by pat_completeness auto
termination
  by (relation "measure (\<lambda>(hk, stale, g, inp). length inp)") (auto dest!: serve_packet_consumes [OF sym])

declare serve_loop.simps [simp del]

definition gdb_stub_stopped :: "'d hooks \<Rightarrow> (string \<Rightarrow> string) \<Rightarrow> 'd gdb_state \<Rightarrow> string \<Rightarrow> 'd gdb_state \<times> string \<times> string" where
  "gdb_stub_stopped hk stale g inp =
     (if \<not> attached (stub g) then (g\<lparr>gdb_mode := False\<rparr>, [], inp)
      else
        let (out, rest) =
              (if resumed (stub g) then
                 send_packet (no_ack_mode (stub g)) (CHR ''S'' # fmt_02x (word_of_nat (stop_signal (stub g)))) inp
               else ([], inp));
            (g1, out1, rest1) = serve_loop hk stale (g\<lparr>stub := (stub g)\<lparr>resumed := False\<rparr>\<rparr>) rest
        in (g1, out @ out1, rest1))"

text \<open>A character waiting while the machine runs; \<open>Some None\<close> is a lost connection.\<close>

definition gdb_stub_poll_interrupt :: "char option option \<Rightarrow> gdb_stub_t \<Rightarrow> bool \<times> gdb_stub_t" where
  "gdb_stub_poll_interrupt c st =
     (case c of
        Some None \<Rightarrow> (True, st)
      | Some (Some k) \<Rightarrow> if k = CHR 0x03 then (True, st\<lparr>stop_signal := 2\<rparr>) else (False, st)
      | None \<Rightarrow> (False, st))"

end
