(* ===== verification/Gdb_Properties.thy ===== *)
theory Gdb_Properties
  imports Gdb_Stub
begin

text \<open>
  Properties of the remote stub: packets arrive whatever precedes them, and what a client writes into
  memory and registers is what it reads back.
\<close>

section \<open>Rules\<close>

lemma hex_byte_fmt: "hex_byte (hexdig (unat b div 16)) (hexdig (unat b)) = Some b"
proof -
  have "unat b div 16 mod 16 * 16 + unat b mod 16 = unat b" by (rule nibble_join) simp
  then show ?thesis by (simp add: hex_byte_def hexdig_facts)
qed

lemma digits_join: "digit_or_0 (hexdig (unat (b :: u8) div 16)) * 16 + digit_or_0 (hexdig (unat b)) = unat b"
  by (simp add: digit_or_0_def hexdig_facts nibble_join)

lemma read_payload:
  assumes "CHR ''#'' \<notin> set p" "length buf + length p \<le> sz - 1"
  shows "read_packet na sz (Rx_payload buf) (p @ CHR ''#'' # r) = read_packet na sz (Rx_hi (buf @ p)) r"
  using assms by (induction p arbitrary: buf) auto

lemma read_frame:
  assumes "CHR ''#'' \<notin> set p" "length p \<le> FRAME_SIZE - 4" "sz \<ge> FRAME_SIZE"
  shows "read_packet na sz Rx_wait (gdb_frame p @ r) = (Some p, if na then [] else ''+'', r)"
proof -
  have "gdb_frame p = CHR ''$'' # p @ CHR ''#'' # fmt_02x (gdb_checksum p)" using assms(2) by (simp add: gdb_frame_def)
  moreover have "length p \<le> sz - 1" using assms(2,3) by (simp add: FRAME_SIZE_def)
  ultimately show ?thesis
    using assms(1) read_payload [of p "[]" sz na] by (simp add: fmt_02x_def digits_join)
qed

text \<open>A frame whose payload or checksum was damaged on the way.\<close>

definition bad_frame :: "string \<Rightarrow> char \<Rightarrow> char \<Rightarrow> string" where
  "bad_frame p c d = ''$'' @ p @ ''#'' @ [c, d]"

definition is_bad :: "string \<times> char \<times> char \<Rightarrow> bool" where
  "is_bad x = (case x of (p, c, d) \<Rightarrow> CHR ''#'' \<notin> set p \<and> length p < PKT_SIZE \<and> gdb_checksum p \<noteq> word_of_nat (digit_or_0 c * 16 + digit_or_0 d))"

lemma skip_bad:
  assumes "is_bad (p, c, d)"
  shows "read_packet na PKT_SIZE Rx_wait (bad_frame p c d @ r)
    = (let (x, out, rest) = read_packet na PKT_SIZE Rx_wait r in (x, (if na then [] else ''-'') @ out, rest))"
  using assms read_payload [of p "[]" PKT_SIZE na "c # d # r"] by (simp add: is_bad_def bad_frame_def PKT_SIZE_def)

definition quiet :: "char \<Rightarrow> bool" where
  "quiet c \<longleftrightarrow> c \<noteq> CHR ''$'' \<and> c \<noteq> CHR 0x03"

lemma skip_quiet: "list_all quiet junk \<Longrightarrow> read_packet na sz Rx_wait (junk @ r) = read_packet na sz Rx_wait r"
  by (induction junk) (auto simp: quiet_def)

definition damaged :: "(string \<times> string \<times> char \<times> char) list \<Rightarrow> string" where
  "damaged bad = concat (map (\<lambda>(junk, p, c, d). junk @ bad_frame p c d) bad)"

text \<open>
  C38: A packet arrives: after any number of damaged frames, each with any characters around it that
  start no packet and are no interrupt, a frame of the stub's own making is read as its payload,
  every damaged frame is answered by a minus and the good one by a plus, and what follows is left
  for the next packet.
\<close>

theorem gdb_packet_arrives:
  assumes "list_all (\<lambda>(junk, x). list_all quiet junk \<and> is_bad x) bad" "list_all quiet junk"
    and "CHR ''#'' \<notin> set p" "length p \<le> FRAME_SIZE - 4"
  shows "read_packet na PKT_SIZE Rx_wait (damaged bad @ junk @ gdb_frame p @ r)
    = (Some p, if na then [] else replicate (length bad) CHR ''-'' @ ''+'', r)"
  using assms(1)
proof (induction bad)
  case Nil
  show ?case
    using read_frame [OF assms(3,4), of PKT_SIZE na r] skip_quiet [OF assms(2)] by (simp add: damaged_def PKT_SIZE_def FRAME_SIZE_def)
next
  case (Cons b bad)
  obtain j q c d where b: "b = (j, q, c, d)" using prod_cases4 by blast
  then have "list_all quiet j" "is_bad (q, c, d)" using Cons.prems by simp_all
  then show ?case using Cons b by (simp add: damaged_def skip_quiet skip_bad)
qed

theorem gdb_packet_arrives_witness:
  "read_packet False PKT_SIZE Rx_wait (damaged [(''+'', ''g'', CHR ''0'', CHR ''0'')] @ ''+'' @ gdb_frame ''m400,4'' @ ''$'')
    = (Some ''m400,4'', ''-+'', ''$'')"
proof -
  have "list_all (\<lambda>(junk, x). list_all quiet junk \<and> is_bad x) [(''+'', ''g'', CHR ''0'', CHR ''0'')]"
    by (simp add: quiet_def is_bad_def gdb_checksum_def digit_or_0_def hexval_def isdigit_def PKT_SIZE_def)
  from gdb_packet_arrives [OF this, of "''+''" "''m400,4''" False "''$''"] show ?thesis
    by (simp add: quiet_def FRAME_SIZE_def)
qed

section \<open>Memory and registers\<close>

definition fmt_04x :: "u16 \<Rightarrow> string" where
  "fmt_04x w = fmt_02x (hi8 w) @ fmt_02x (lo8 w)"

definition hex_text :: "u8 list \<Rightarrow> string" where
  "hex_text bs = concat (map fmt_02x bs)"

text \<open>What follows a number does not start with a digit.\<close>

definition no_digit :: "string \<Rightarrow> bool" where
  "no_digit s \<longleftrightarrow> (case s of [] \<Rightarrow> True | c # _ \<Rightarrow> \<not> isxdigit c)"

lemma takeWhile_hex: "no_digit s \<Longrightarrow> takeWhile isxdigit (fmt_04x w @ s) = fmt_04x w"
  "no_digit s \<Longrightarrow> dropWhile isxdigit (fmt_04x w @ s) = s"
  by (cases s; simp add: no_digit_def fmt_04x_def fmt_02x_def)+

lemma nibbles_word:
  assumes "l < 16"
  shows "push_bit 4 (word_of_nat h :: u32) OR word_of_nat l = word_of_nat (h * 16 + l)"
proof -
  have low: "n < 4" if "bit (word_of_nat l :: u32) n" for n
  proof (rule ccontr)
    assume "\<not> n < 4"
    then have "(2 :: nat) ^ 4 \<le> 2 ^ n" by (intro power_increasing) simp_all
    then have "l div 2 ^ n = 0" using assms by simp
    moreover have "bit (unat (word_of_nat l :: u32)) n" using that by (simp add: bit_unsigned_iff del: unat_of_nat)
    moreover have "unat (word_of_nat l :: u32) = l" using assms by (simp add: unat_of_nat)
    ultimately show False by (simp add: bit_iff_odd)
  qed
  have "push_bit 4 (word_of_nat h :: u32) + word_of_nat l = push_bit 4 (word_of_nat h) OR word_of_nat l"
    by (intro disjunctive_add) (auto simp: bit_push_bit_iff not_less dest: low)
  moreover have "push_bit 4 (word_of_nat h :: u32) = word_of_nat (h * 16)" by (simp add: push_bit_eq_mult)
  ultimately show ?thesis by simp
qed

lemma hilo_nat: "unat (hi8 w) * 256 + unat (lo8 w) = unat w"
proof -
  have "unat w < 65536" by (rule order.strict_trans2 [OF unsigned_less]) simp
  then have "unat w div 256 < 256" by linarith
  then have "unat (hi8 w) = unat w div 256"
    by (simp add: hi8_def unsigned_ucast_eq drop_bit_eq_div unat_div take_bit_nat_eq_self)
  moreover have "unat (lo8 w) = unat w mod 256" by (simp add: lo8_def unsigned_ucast_eq take_bit_eq_mod)
  ultimately show ?thesis by simp
qed

lemma parse_fmt_04x:
  assumes "no_digit s"
  shows "parse_hex (fmt_04x w @ s) = (ucast w, True, s)"
proof -
  let ?a = "unat (hi8 w) div 16 mod 16" and ?b = "unat (hi8 w) mod 16" and ?c = "unat (lo8 w) div 16 mod 16" and ?d = "unat (lo8 w) mod 16"
  have "foldl (\<lambda>v c. push_bit 4 v OR word_of_nat (the (hexval c))) (word_of_nat 0) (fmt_04x w)
      = (word_of_nat ((((0 * 16 + ?a) * 16 + ?b) * 16 + ?c) * 16 + ?d) :: u32)"
    by (simp only: fmt_04x_def fmt_02x_def append.simps foldl.simps hexdig_facts option.sel)
      (simp only: nibbles_word mod_less_divisor zero_less_numeral)
  also have "(((0 * 16 + ?a) * 16 + ?b) * 16 + ?c) * 16 + ?d = (?a * 16 + ?b) * 256 + (?c * 16 + ?d)" by simp
  also have "\<dots> = unat w" using hilo_nat [of w] by (simp only: nibble_join [OF unat_u8_less])
  finally have "foldl (\<lambda>v c. push_bit 4 v OR word_of_nat (the (hexval c))) 0 (fmt_04x w) = (ucast w :: u32)" by simp
  moreover have "fmt_04x w \<noteq> []" by (simp add: fmt_04x_def fmt_02x_def)
  ultimately show ?thesis using takeWhile_hex [OF assms, of w] by (simp add: parse_hex_def)
qed

text \<open>The cells of a region of the RAM away from the I/O page.\<close>

definition plain_region :: "u16 \<Rightarrow> nat \<Rightarrow> bool" where
  "plain_region a n \<longleftrightarrow> unat a + n \<le> RAM_SIZE \<and> (unat a + n \<le> 0x300 \<or> 0x400 \<le> unat a)"

definition put_region :: "u16 \<Rightarrow> u8 list \<Rightarrow> (u16 \<Rightarrow> u8) \<Rightarrow> u16 \<Rightarrow> u8" where
  "put_region a bs m = (\<lambda>x. if unat a \<le> unat x \<and> unat x < unat a + length bs then bs ! (unat x - unat a) else m x)"

lemma plain_cell:
  assumes "plain_region a n" "0 < n"
  shows "a < 0xC000" "\<not> in_io a"
  using assms by (auto simp: plain_region_def word_less_nat_alt word_le_nat_alt)

lemma plain_next:
  assumes "plain_region a (Suc n)"
  shows "plain_region (a + 1) n" "unat (a + 1) = unat a + 1"
proof -
  have "unat a + 1 < 65536" using assms by (simp add: plain_region_def)
  then show "unat (a + 1) = unat a + 1" by (simp add: unat_word_ariths)
  then show "plain_region (a + 1) n" using assms by (auto simp: plain_region_def)
qed

lemma write_plain: "a < 0xC000 \<Longrightarrow> \<not> in_io a \<Longrightarrow> ram (mem (memory_write hk a v b)) = (ram (mem b))(a := v)"
  by (auto simp: memory_write_def upd_ram_def notify_def mem_notify_def Let_def)

lemma store_hex_text:
  assumes "plain_region a (length bs)"
  shows "\<exists>b'. store_hex hk a (length bs) (hex_text bs) b = (True, b') \<and> ram (mem b') = put_region a bs (ram (mem b))"
  using assms
proof (induction bs arbitrary: a b)
  case Nil
  have "put_region a [] m = m" for m by (auto simp: put_region_def fun_eq_iff)
  then show ?case by (simp add: hex_text_def)
next
  case (Cons v bs)
  have p: "plain_region (a + 1) (length bs)" "unat (a + 1) = unat a + 1" using plain_next [of a "length bs"] Cons.prems by simp_all
  obtain b' where b': "store_hex hk (a + 1) (length bs) (hex_text bs) (memory_write hk a v b) = (True, b')"
    "ram (mem b') = put_region (a + 1) bs (ram (mem (memory_write hk a v b)))"
    using Cons.IH [OF p(1)] by blast
  have w: "ram (mem (memory_write hk a v b)) = (ram (mem b))(a := v)"
    using write_plain plain_cell [of a "length (v # bs)"] Cons.prems by simp
  have "put_region (a + 1) bs ((ram (mem b))(a := v)) = put_region a (v # bs) (ram (mem b))"
  proof
    fix x
    show "put_region (a + 1) bs ((ram (mem b))(a := v)) x = put_region a (v # bs) (ram (mem b)) x"
      using p(2) by (cases "x = a") (auto simp: put_region_def nth_Cons' le_Suc_eq word_unat_eq_iff)
  qed
  then show ?case using b' w by (simp add: hex_text_def fmt_02x_def hex_byte_fmt)
qed

lemma region_index:
  assumes "plain_region a n" "i < n"
  shows "ucast (ucast a + word_of_nat i :: u32) = a + word_of_nat i" "unat (a + word_of_nat i) = unat a + i"
proof -
  have l: "unat a + i < 65536" using assms by (simp add: plain_region_def)
  then have "unat (word_of_nat i :: u16) = i" by (simp add: unat_of_nat)
  then show "unat (a + word_of_nat i) = unat a + i" using l by (simp add: unat_word_ariths)
  have "unat a < 2 ^ 32" using l by simp
  then have "unat (ucast a :: u32) = unat a" by (simp add: unsigned_ucast_eq take_bit_nat_eq_self)
  moreover have "unat (word_of_nat i :: u32) = i" using l by (simp add: unat_of_nat)
  ultimately have "unat (ucast a + word_of_nat i :: u32) = unat a + i" using l by (simp add: unat_word_ariths)
  then have "unat (ucast (ucast a + word_of_nat i :: u32) :: u16) = unat a + i"
    using l by (simp add: unsigned_ucast_eq take_bit_nat_eq_self)
  then show "ucast (ucast a + word_of_nat i :: u32) = a + word_of_nat i"
    using \<open>unat (a + word_of_nat i) = unat a + i\<close> by (simp add: word_unat_eq_iff)
qed

text \<open>What a client reads from a region after it was written.\<close>

lemma read_region:
  assumes "plain_region a (length bs)" "ram (mem b) = put_region a bs m"
  shows "concat (map (\<lambda>i. fmt_02x (gdb_peek hk (ucast (ucast a + word_of_nat i :: u32)) b)) [0..<length bs]) = hex_text bs"
proof -
  have "gdb_peek hk (ucast (ucast a + word_of_nat i :: u32)) b = bs ! i" if "i < length bs" for i
    using region_index [OF assms(1) that] assms that by (simp add: gdb_peek_def put_region_def plain_region_def)
  then have "map (\<lambda>i. fmt_02x (gdb_peek hk (ucast (ucast a + word_of_nat i :: u32)) b)) [0..<length bs] = map fmt_02x bs"
    by (intro nth_equalityI) simp_all
  then show ?thesis by (simp only: hex_text_def)
qed

lemma hex_bytes_text: "hex_bytes (length bs) (hex_text bs) = Some bs"
  by (induction bs) (simp_all add: hex_text_def fmt_02x_def hex_byte_fmt)

lemma comma_colon: "no_digit []" "no_digit (CHR '','' # s)" "no_digit (CHR '':'' # s)"
  by (simp_all add: no_digit_def isxdigit_def hexval_def isdigit_def)

text \<open>The packets a client sends.\<close>

definition write_packet :: "u16 \<Rightarrow> u8 list \<Rightarrow> string" where
  "write_packet a bs = ''M'' @ fmt_04x a @ '','' @ fmt_04x (word_of_nat (length bs)) @ '':'' @ hex_text bs"

definition read_packet_for :: "u16 \<Rightarrow> nat \<Rightarrow> string" where
  "read_packet_for a n = ''m'' @ fmt_04x a @ '','' @ fmt_04x (word_of_nat n)"

lemma length_word: "n \<le> 549 \<Longrightarrow> unat (ucast (word_of_nat n :: u16) :: u32) = n"
proof -
  assume "n \<le> 549"
  then have "unat (word_of_nat n :: u16) = n" "n < 2 ^ 32" by (simp_all add: unat_of_nat)
  then show ?thesis by (simp add: unsigned_ucast_eq take_bit_nat_eq_self)
qed

lemma ucast_back: "ucast (ucast (a :: u16) :: u32) = a"
  by (rule bit_word_eqI) (auto simp: bit_simps)

lemma write_command:
  assumes "plain_region a (length bs)" "length bs \<le> 549"
  shows "\<exists>b'. cmd_write_memory hk (tl (write_packet a bs)) b = (OK, b') \<and> ram (mem b') = put_region a bs (ram (mem b))"
  using store_hex_text [OF assms(1), of hk b] length_word [OF assms(2)]
  by (auto simp: cmd_write_memory_def write_packet_def parse_fmt_04x comma_colon skip_char_def starts_def ucast_back)

lemma read_command:
  assumes "plain_region a (length bs)" "length bs \<le> 549" "ram (mem b) = put_region a bs m"
  shows "cmd_read_memory hk (tl (read_packet_for a (length bs))) b = hex_text bs"
proof -
  have "parse_hex (fmt_04x (word_of_nat (length bs))) = (ucast (word_of_nat (length bs) :: u16), True, [])"
    using parse_fmt_04x [of "[]" "word_of_nat (length bs)"] comma_colon(1) by simp
  then show ?thesis
    using read_region [OF assms(1,3), of hk] length_word [OF assms(2)] assms(2)
    by (simp add: cmd_read_memory_def read_packet_for_def parse_fmt_04x comma_colon skip_char_def starts_def RESP_SIZE_def min_def)
qed

lemma dispatch_M: "gdb_dispatch hk st (CHR ''M'' # s) g = (let (r, b) = cmd_write_memory hk s (gdb_board g) in (GDB_ACT_NONE, r, set_gdb_board b g))"
  by (simp add: gdb_dispatch_def)

lemma dispatch_m: "gdb_dispatch hk st (CHR ''m'' # s) g = (GDB_ACT_NONE, cmd_read_memory hk s (gdb_board g), g)"
  by (simp add: gdb_dispatch_def)

lemma dispatch_G: "gdb_dispatch hk st (CHR ''G'' # s) g = (GDB_ACT_NONE, OK, upd_target_cpu (hex_to_regs s) g)"
  by (simp add: gdb_dispatch_def)

lemma dispatch_g: "gdb_dispatch hk st ''g'' g = (GDB_ACT_NONE, regs_to_hex (cpu (sys (target g))), g)"
  by (simp add: gdb_dispatch_def)

lemma put_board [simp]: "gdb_board (set_gdb_board b g) = b" "gdb_board (upd_target_cpu f g) = gdb_board g"
  by (simp_all add: gdb_board_def set_gdb_board_def upd_target_cpu_def upd_target_def upd_cpu_def)

lemma put_cpu [simp]: "cpu (sys (target (upd_target_cpu f g))) = f (cpu (sys (target g)))"
  by (simp add: upd_target_cpu_def upd_target_def upd_cpu_def)

lemma set_regs:
  assumes "hex_bytes 7 h = Some [ra, rx, ry, sp, pcl, pch, p]"
  shows "regs_to_hex (hex_to_regs h c) = hex_text [ra, rx, ry, sp, pcl, pch, p]" "cpu_PC (hex_to_regs h c) = hilo pch pcl"
  using assms by (simp_all add: hex_to_regs_def regs_to_hex_def hex_text_def)

text \<open>
  C39: A client reads back what it wrote.  An \<open>M\<close> packet of up to 549 bytes for a region of the RAM away
  from the I/O page is answered by OK, changes no other cell of the RAM, and an \<open>m\<close> packet for the region
  then returns the same bytes; a \<open>G\<close> packet sets the six registers and \<open>g\<close> returns the same text.
\<close>

theorem gdb_reads_back:
  assumes "plain_region a (length bs)" "length bs \<le> 549"
  shows "let (act, resp, g1) = gdb_dispatch hk st (write_packet a bs) g;
             (act2, resp2, g2) = gdb_dispatch hk st2 (read_packet_for a (length bs)) g1;
             (act3, resp3, g3) = gdb_dispatch hk st3 (CHR ''G'' # hex_text [ra, rx, ry, sp, pcl, pch, p]) g2;
             (act4, resp4, g4) = gdb_dispatch hk st4 ''g'' g3
         in (act, resp) = (GDB_ACT_NONE, OK) \<and> (act2, resp2) = (GDB_ACT_NONE, hex_text bs)
          \<and> ram (mem (gdb_board g4)) = put_region a bs (ram (mem (gdb_board g)))
          \<and> (act3, resp3) = (GDB_ACT_NONE, OK) \<and> (act4, resp4) = (GDB_ACT_NONE, hex_text [ra, rx, ry, sp, pcl, pch, p])
          \<and> cpu_PC (cpu (sys (target g4))) = hilo pch pcl"
proof -
  obtain b' where w: "cmd_write_memory hk (tl (write_packet a bs)) (gdb_board g) = (OK, b')"
    "ram (mem b') = put_region a bs (ram (mem (gdb_board g)))"
    using write_command [OF assms] by blast
  have r: "cmd_read_memory hk (tl (read_packet_for a (length bs))) b' = hex_text bs" using read_command [OF assms w(2)] .
  have h: "hex_bytes 7 (hex_text [ra, rx, ry, sp, pcl, pch, p]) = Some [ra, rx, ry, sp, pcl, pch, p]"
    using hex_bytes_text [of "[ra, rx, ry, sp, pcl, pch, p]"] by (simp add: eval_nat_numeral)
  let ?bs = "[ra, rx, ry, sp, pcl, pch, p]"
  have 1: "gdb_dispatch hk st (write_packet a bs) g = (GDB_ACT_NONE, OK, set_gdb_board b' g)"
    using w(1) dispatch_M [of hk st "tl (write_packet a bs)" g] by (simp add: write_packet_def)
  have 2: "gdb_dispatch hk st2 (read_packet_for a (length bs)) (set_gdb_board b' g) = (GDB_ACT_NONE, hex_text bs, set_gdb_board b' g)"
    using r dispatch_m [of hk st2 "tl (read_packet_for a (length bs))" "set_gdb_board b' g"] by (simp add: read_packet_for_def)
  show ?thesis
    by (simp add: 1 2 dispatch_G dispatch_g set_regs [OF h] w(2))
qed

theorem gdb_reads_back_witness:
  "\<forall>hk g. let (act, resp, g1) = gdb_dispatch hk [] ''M0400,0002:2aff'' g;
             (act2, resp2, g2) = gdb_dispatch hk [] ''m0400,0002'' g1;
             (act3, resp3, g3) = gdb_dispatch hk [] ''G01020304000506'' g2;
             (act4, resp4, g4) = gdb_dispatch hk [] ''g'' g3
         in resp = ''OK'' \<and> resp2 = ''2aff'' \<and> resp4 = ''01020304000506'' \<and> cpu_PC (cpu (sys (target g4))) = 0x0500
          \<and> ram (mem (gdb_board g4)) 0x401 = 0xFF"
proof -
  have p: "plain_region 0x400 (length [0x2A, 0xFF :: u8])" "length [0x2A, 0xFF :: u8] \<le> 549"
    by (simp_all add: plain_region_def)
  have t: "write_packet 0x400 [0x2A, 0xFF] = ''M0400,0002:2aff''" "read_packet_for 0x400 (length [0x2A, 0xFF :: u8]) = ''m0400,0002''"
    "hex_text [0x2A, 0xFF] = ''2aff''" "hex_text [1, 2, 3, 4, 0, 5, 6] = ''01020304000506''" "hilo 5 0 = 0x0500"
    "put_region 0x400 [0x2A, 0xFF] m 0x401 = 0xFF" for m
    by (code_simp, code_simp, code_simp, code_simp, code_simp, simp add: put_region_def)
  then have t2: "read_packet_for 0x400 (Suc (Suc 0)) = ''m0400,0002''" by simp
  show ?thesis
  proof (intro allI)
    fix hk :: "'a hooks" and g :: "'a gdb_state"
    show "let (act, resp, g1) = gdb_dispatch hk [] ''M0400,0002:2aff'' g;
             (act2, resp2, g2) = gdb_dispatch hk [] ''m0400,0002'' g1;
             (act3, resp3, g3) = gdb_dispatch hk [] ''G01020304000506'' g2;
             (act4, resp4, g4) = gdb_dispatch hk [] ''g'' g3
         in resp = ''OK'' \<and> resp2 = ''2aff'' \<and> resp4 = ''01020304000506'' \<and> cpu_PC (cpu (sys (target g4))) = 0x0500
          \<and> ram (mem (gdb_board g4)) 0x401 = 0xFF"
      using gdb_reads_back [OF p, of hk "[]" g "[]" "[]" 1 2 3 4 0 5 6 "[]"]
      by (simp add: t t2 OK_def Let_def split_def)
  qed
qed

end
