(* ===== verification/Spec2Isabelle.thy ===== *)
theory Spec2Isabelle
  imports Cpu_Properties Via_Properties Ay_Properties Oric_Properties Machine_Interrupts Sedoric_Properties Fdc_Properties Card_Properties Ula_Ng_Properties Clock_Properties Cassette_Properties Control_Queue_Properties Tap_Properties Acia_Properties Asm_Properties Debugger_Properties Gdb_Properties
begin

text \<open>
  A verification development for Phosphoric, an emulator of the ORIC-1 and Atmos home computers written in
  C.  All paths below are relative to \<open>src/\<close>.

  The program.  The emulator is a 6502 (\<open>src/cpu\<close>) on a 64 KB map (\<open>src/memory\<close>) with one page of I/O.  The
  wiring (\<open>src/main.c\<close>, \<open>src/io/io_bus.c\<close>) hands an access of that page to the cards and then to the VIA 6522,
  whose ports drive the keyboard matrix, the sound chip, the printer and the tape.  A master clock
  (\<open>src/emu_clock.c\<close>) runs the processor cycle by cycle, moves the beam and renders lines (\<open>src/video/video.c\<close>),
  through the ULA-NG extension (\<open>src/io/ula_ng.c\<close>) when it is present.  Disk interfaces, a serial chip, tape
  files, a command queue for other threads and the debuggers are around this core.

  How the code is translated.  A structure is a record with the fields of the source, an enumeration a
  datatype; \<open>uint8_t\<close>, \<open>uint16_t\<close> and \<open>uint32_t\<close> are words that wrap, \<open>int\<close> is \<open>int\<close> where the code cannot
  overflow it and the theorem says so otherwise.  A function that changes a structure returns it; one that can
  fail returns an option, a pair with its result code, or a sum.  Function pointers are the fields of a record
  of hooks, and what is behind them (\<open>'d\<close>, \<open>'c\<close>, \<open>'e\<close>) is a parameter of the theory that calls them,
  instantiated by the theory that provides it.  Files are lists of bytes, connections are the lists of
  the characters they carry, threads are interleaved at their critical sections.

  Which theory holds what (each names its files at its head):

  \<^item> \<open>Prelude\<close>: machine integers, case analysis on bytes, lemma collections.
  \<^item> Memory and processor: \<open>Memory\<close>; \<open>Cpu_State\<close>, \<open>Cpu_Alu\<close>, \<open>Cpu_Opcodes\<close> (the historical engine of
    \<open>opcodes.c\<close>), \<open>Microseq\<close> and \<open>Microseq_Run\<close> (the cycle-by-cycle engine), \<open>Cpu_Step\<close>.  \<open>Cpu_Frame\<close> and
    \<open>Cpu_Bus\<close> give the contract of a bus that behaves as storage (locale \<open>quiet_bus\<close>); \<open>Engine_Stages\<close>,
    \<open>Engine_Flow\<close>, \<open>Engine_Table\<close> and \<open>Engine_Equiv\<close> prove the two engines equal instruction by instruction on
    it, \<open>Bare_Machine\<close> interprets the contract on the memory of the code, \<open>Cpu_Properties\<close> states the results.
  \<^item> VIA: \<open>Via6522\<close>; \<open>Via_Rules\<close> (the discipline of its operations, as a locale, and its interrupt output),
    \<open>Via_Lazy\<close> (the lazy path of \<open>via_tick\<close> against one update a cycle), \<open>Via_Timers\<close>, \<open>Via_Properties\<close>.
  \<^item> Sound: \<open>Ay3891x\<close>; \<open>Ay_Invariant\<close> (ranges and indices), \<open>Ay_Queue\<close> (the ring of time-stamped writes as a
    list), \<open>Ay_Properties\<close>.
  \<^item> Board: \<open>Keyboard\<close>, \<open>Keyboard_Rules\<close>, \<open>Port_Devices\<close> (joystick and printer), \<open>Oric_Board\<close>, \<open>Oric_Wiring\<close>,
    which interprets the VIA's interfaces on the wiring, and \<open>Oric_Properties\<close>; \<open>Oric_Machine\<close>, the board with
    serial card, disk interfaces, ULA-NG and cassette on its bus, and \<open>Machine_Interrupts\<close>.
  \<^item> Picture and clock: \<open>Ula_Ng\<close>, \<open>Ula_Ng_Rules\<close>, \<open>Ula_Ng_Sprites\<close>, \<open>Ula_Ng_Properties\<close>; \<open>Video\<close>, \<open>Video_Rules\<close>,
    \<open>Video_Memory\<close>; \<open>Emu_Clock\<close>, \<open>Clock_Rules\<close>, \<open>Clock_Properties\<close>.
  \<^item> Disks: \<open>Binio\<close>; \<open>Sedoric\<close>, \<open>Sedoric_Properties\<close> (images); \<open>Fdc\<close>, \<open>Fdc_Effects\<close>, \<open>Fdc_Safety\<close>, \<open>Fdc_Stream\<close>,
    \<open>Fdc_Properties\<close> (the WD1793); \<open>Disk_Cards\<close>, \<open>Jasmin\<close>, \<open>Card_Rules\<close>, \<open>Card_Properties\<close> (the two interfaces;
    locales \<open>disk_card\<close> and \<open>irq_input\<close>).
  \<^item> Tape: \<open>Cassette\<close>, \<open>Cassette_Properties\<close> (the signal); \<open>Tap\<close>, \<open>Tap_Basic\<close>, \<open>Tap_Rules\<close>, \<open>Tap_Chain\<close>,
    \<open>Tap_Properties\<close> (the files and the BASIC converters).
  \<^item> Serial chip: \<open>Acia6551\<close>, \<open>Acia_Rules\<close>, \<open>Acia_Program\<close> (locale \<open>serial_transport\<close>), \<open>Acia_Links\<close> (the loopback
    transport and the interrupt input as instances), \<open>Acia_Properties\<close>.
  \<^item> Command queue: \<open>Control_Queue\<close>, \<open>Control_Queue_Rules\<close>, \<open>Control_Queue_Properties\<close>.
  \<^item> Debuggers: \<open>Host_Text\<close> (characters and numbers of the C library), \<open>Symbols\<close>; \<open>Debug_Asm\<close>, \<open>Debug_Asm_Rules\<close>,
    \<open>Asm_Properties\<close> (assembler and disassembler); \<open>Debugger\<close>, \<open>Debugger_Properties\<close>; \<open>Gdb_Stub\<close>,
    \<open>Gdb_Properties\<close>.

  What the theorems show.  Equivalence of optimised code with a simple reading of it: the two engines on
  every instruction and every program of a bare machine, the lazy VIA and the VIA stepped at every cycle,
  a line drawn at once and in 64 cells, the unlock automaton.  Refinement of an abstract specification:
  the queue of sound writes and the command queue are lists, the undo ring is a bounded stack, a frame is each
  line once.  Invariants over all programs of accesses: the sequencer, the interrupt lines of the VIA, the board,
  the disk interfaces and the serial chip, the ranges of the sound generator, the arrays of the ULA-NG.
  Memory safety of the disk controller, and the format command that breaks it.  Termination and liveness:
  instructions end, drawing ends, head movements and sector reads end in time, nobody sleeps for ever on a
  command of the queue.  Round trips: sectors, saved disk interfaces, the tape signal, tape files and BASIC listings,
  serial bytes, assembler and disassembler, memory and registers through GDB.

  Loops and fuel.  \<open>cpu_execute_cycles\<close>, the line of the VDU and \<open>emu_step\<close> are \<open>partial_function\<close>s, and
  theorems say that they return (\<open>cpu_execute_cycles_returns\<close>, \<open>ng_program_safe\<close>, \<open>emu_step_beam\<close>).
  \<open>ay_replay\<close> has the size of the ring, 4096, as fuel: each round takes an event.  \<open>list_program\<close> has one
  unit per line and one more, \<open>send_tries\<close> the four tries of the source, \<open>parse_terms\<close> its four terms.
  The other loops are \<open>function\<close>s with a measure: the plan of an instruction (\<open>ms_instruction\<close>), the bytes due
  (\<open>stream_loop\<close>), lines of the frame, characters left (\<open>serve_loop\<close>, \<open>text_lines\<close>, \<open>skip_seps\<close>, \<open>basic_lines\<close>).

  What is assumed.  Allocation succeeds where the code only logs its failure; in \<open>Cassette\<close> it is a parameter.
  In \<open>Oric_Board\<close> the cards on the I/O page, the snoop of port B and the ticks after the VIA's are parameters, which
  \<open>Oric_Machine\<close> fills in; the keyboard scan is stated without cards.  The transport of the serial chip, HTTP
  transfers, the audio and window output are parameters; where a theorem needs a law of them, it is a
  locale with an instance of the code, or a hypothesis with a witness.  Fields that only feed logs or
  traces are left out.

  Not modelled: the start-up, option parsing, frame loop and host glue of \<open>main.c\<close>; the commands of the control
  channel, the HTTP interface and the debugger's command line, which parse host input and print; the
  speech chips, the plotter and the recorders; the modem cards with the 6850 and the 6821; LOCI, whose
  co-simulation is a firmware built elsewhere; sockets, terminals and modems behind the serial chip; the overlay
  menus; the file of the whole machine in \<open>savestate.c\<close> and the input movie; tape loading by patches of the ROM,
  which is not in the repository; logs, profiler and configuration; vendored code.
\<close>

end
